(* ===== verification/Prelude.thy ===== *)
theory Prelude
  imports Complex_Main "HOL-Library.Word" "HOL-Library.AList"
begin

text \<open>
  Shared vocabulary of the development: the types that stand for Go's
  \<^verbatim>\<open>decimal.Decimal\<close>, \<^verbatim>\<open>uuid.UUID\<close>, \<^verbatim>\<open>time.Time\<close>, \<^verbatim>\<open>map[K]V\<close> and
  \<^verbatim>\<open>error\<close>, the record of the third-party functions the sources call, and the
  generic lemmas on lists, sums and association lists that the component proofs use.

  Conventions.
  \<^item> A \<^verbatim>\<open>decimal.Decimal\<close> is the rational number it denotes. The operations the library
    documents as exact (\<^verbatim>\<open>Add\<close>, \<^verbatim>\<open>Sub\<close>, \<^verbatim>\<open>Mul\<close>, the comparisons, \<^verbatim>\<open>Min\<close>,
    \<^verbatim>\<open>IsZero\<close>, \<dots>) are the operations of the rationals; the operations whose result is
    rounded, parsed or printed (\<^verbatim>\<open>Div\<close>, \<^verbatim>\<open>IntPart\<close>, \<^verbatim>\<open>NewFromString\<close>, \<^verbatim>\<open>String\<close>, and
    \<^verbatim>\<open>Exponent\<close> of a number parsed from a string) are fields of
    \<open>extlib\<close> and hence parameters of every definition that uses them.
  \<^item> A \<^verbatim>\<open>uuid.UUID\<close> is a 128-bit word, \<^verbatim>\<open>uuid.Nil\<close> is \<open>0\<close>; an identifier made by
    \<^verbatim>\<open>uuid.New()\<close> is an argument.
  \<^item> A Go map is an association list with distinct keys: the order of the list is the
    order in which a \<^verbatim>\<open>range\<close> loop visits the map, so a theorem for all lists covers
    every iteration order. Assignment is \<open>AList.update\<close>, lookup is \<open>map_of\<close>.
  \<^item> A function that returns \<^verbatim>\<open>error\<close> only is modelled with result \<open>'e option\<close>
    (\<open>None\<close> is nil), one that returns \<^verbatim>\<open>(T, error)\<close> with \<open>'e + 't\<close>.
\<close>

section \<open>Types\<close>

type_synonym decimal = rat
type_synonym uuid = "128 word"
type_synonym ('k, 'v) gomap = "('k \<times> 'v) list"

abbreviation uuid_Nil :: uuid where
  "uuid_Nil \<equiv> 0"

text \<open>A value of type \<^verbatim>\<open>any\<close> as decoded from JSON, and a metadata map (\<open>None\<close>: nil).\<close>

datatype jany =
    JNull
  | JBool bool
  | JNum rat
  | JStr string
  | JArr "jany list"
  | JObj "(string \<times> jany) list"

type_synonym metadata = "(string, jany) gomap option"

record extlib =
  dec_Div :: "decimal \<Rightarrow> decimal \<Rightarrow> decimal"
  dec_IntPart :: "decimal \<Rightarrow> int"
  dec_NewFromString :: "string \<Rightarrow> decimal option"
  dec_Float64 :: "decimal \<Rightarrow> rat"
  uuid_String :: "uuid \<Rightarrow> string"
  uuid_Parse :: "string \<Rightarrow> uuid option"
  currency_ParseISO :: "string \<Rightarrow> bool"
  dec_String :: "decimal \<Rightarrow> string"
  dec_Exponent :: "string \<Rightarrow> int"
  strcase_ToLowerCamel :: "string \<Rightarrow> string"

text \<open>
  An instance of the library functions that evaluates, used where a theorem is applied to
  concrete values: exact division, integer part towards zero, no parsing beyond one currency.
\<close>

definition exact_lib :: extlib where
  "exact_lib =
     \<lparr>dec_Div = (/), dec_IntPart = (\<lambda>x. if 0 \<le> x then \<lfloor>x\<rfloor> else \<lceil>x\<rceil>), dec_NewFromString = (\<lambda>s. None),
      dec_Float64 = id, uuid_String = (\<lambda>u. []), uuid_Parse = (\<lambda>s. None),
      currency_ParseISO = (\<lambda>s. s = ''USD''), dec_String = (\<lambda>d. []), dec_Exponent = (\<lambda>s. 0),
      strcase_ToLowerCamel = id\<rparr>"

lemma exact_lib_simps [simp, code]:
  "dec_Div exact_lib = (/)"
  "dec_IntPart exact_lib = (\<lambda>x. if 0 \<le> x then \<lfloor>x\<rfloor> else \<lceil>x\<rceil>)"
  "currency_ParseISO exact_lib = (\<lambda>s. s = ''USD'')"
  "uuid_String exact_lib = (\<lambda>u. [])"
  "dec_Float64 exact_lib = id"
  "dec_NewFromString exact_lib = (\<lambda>s. None)"
  "uuid_Parse exact_lib = (\<lambda>s. None)"
  "dec_String exact_lib = (\<lambda>d. [])"
  "dec_Exponent exact_lib = (\<lambda>s. 0)"
  "strcase_ToLowerCamel exact_lib = id"
  by (simp_all add: exact_lib_def)

named_theorems trc_defs \<open>definitions of the tracer component, unfolded by its branch lemmas\<close>
named_theorems ldg_defs \<open>definitions of the ledger component, unfolded by its branch lemmas\<close>
named_theorems inv_intros \<open>preservation of the stores' invariants by single operations\<close>

section \<open>Sequences of checks\<close>

text \<open>
  A validator is a sequence of checks with early return: its result is that of the first
  check that fails.
\<close>

fun first_err :: "'e option list \<Rightarrow> 'e option" where
  "first_err [] = None"
| "first_err (c # cs) = (case c of Some e \<Rightarrow> Some e | None \<Rightarrow> first_err cs)"

definition err_if :: "bool \<Rightarrow> 'e \<Rightarrow> 'e option" where
  "err_if b e = (if b then Some e else None)"

lemma err_if_simps [simp]:
  "err_if True e = Some e"
  "err_if False e = None"
  "err_if b e = None \<longleftrightarrow> \<not> b"
  "err_if b e = Some e' \<longleftrightarrow> b \<and> e' = e"
  by (auto simp: err_if_def)

lemma first_err_None_iff [simp]: "first_err cs = None \<longleftrightarrow> (\<forall>c \<in> set cs. c = None)"
  by (induction cs) (auto split: option.splits)

lemma first_err_mem: "first_err cs = Some e \<Longrightarrow> Some e \<in> set cs"
  by (induction cs) (auto split: option.splits)

section \<open>Methods that change their receiver and may fail\<close>

text \<open>
  A method with a pointer receiver and result \<^verbatim>\<open>error\<close> returns the receiver as it was when
  the method returned, so that a field assigned before a later check failed stays assigned.
  \<open>andThen\<close> is the sequencing of two such parts of a body; \<open>ifSome\<close> is a block under
  \<^verbatim>\<open>if p != nil\<close>.
\<close>

definition andThen :: "('s \<Rightarrow> 's \<times> 'e option) \<Rightarrow> ('s \<Rightarrow> 's \<times> 'e option) \<Rightarrow> 's \<Rightarrow> 's \<times> 'e option" where
  "andThen m n s = (case m s of (s', Some e) \<Rightarrow> (s', Some e) | (s', None) \<Rightarrow> n s')"

definition ifSome :: "'a option \<Rightarrow> ('a \<Rightarrow> 's \<Rightarrow> 's \<times> 'e option) \<Rightarrow> 's \<Rightarrow> 's \<times> 'e option" where
  "ifSome p f s = (case p of None \<Rightarrow> (s, None) | Some x \<Rightarrow> f x s)"

text \<open>\<open>guarded c f\<close>: return the error of the check \<open>c\<close>, or assign.\<close>

definition guarded :: "'e option \<Rightarrow> ('s \<Rightarrow> 's) \<Rightarrow> 's \<Rightarrow> 's \<times> 'e option" where
  "guarded c f s = (case c of Some e \<Rightarrow> (s, Some e) | None \<Rightarrow> (f s, None))"

lemma andThen_inv [inv_intros]:
  "P (fst (m s)) \<Longrightarrow> (\<And>s'. P s' \<Longrightarrow> P (fst (n s'))) \<Longrightarrow> P (fst (andThen m n s))"
  by (cases "m s") (auto simp: andThen_def split: option.splits)

lemma ifSome_inv [inv_intros]: "P s \<Longrightarrow> (\<And>x. p = Some x \<Longrightarrow> P (fst (f x s))) \<Longrightarrow> P (fst (ifSome p f s))"
  by (simp add: ifSome_def split: option.splits)

lemma guarded_inv [inv_intros]: "P s \<Longrightarrow> (c = None \<Longrightarrow> P (f s)) \<Longrightarrow> P (fst (guarded c f s))"
  by (simp add: guarded_def split: option.splits)

section \<open>Lists\<close>

lemma sum_list_map_update:
  fixes f :: "'v \<Rightarrow> 'a :: ab_group_add"
  assumes "map_of xs k = Some v" "distinct (map fst xs)"
  shows "(\<Sum>p \<leftarrow> AList.update k w xs. f (snd p)) = (\<Sum>p \<leftarrow> xs. f (snd p)) - f v + f w"
  using assms
proof (induction xs)
  case Nil
  then show ?case by simp
next
  case (Cons p xs)
  obtain k' v' where p: "p = (k', v')" by force
  from Cons p show ?case by (auto simp: algebra_simps)
qed

lemma sum_list_map_update_new:
  fixes f :: "'v \<Rightarrow> 'a :: comm_monoid_add"
  assumes "map_of xs k = None"
  shows "(\<Sum>p \<leftarrow> AList.update k w xs. f (snd p)) = (\<Sum>p \<leftarrow> xs. f (snd p)) + f w"
  using assms by (induction xs) (auto simp: ac_simps split: if_splits)

lemma sum_list_filter_split:
  fixes f :: "'b \<Rightarrow> 'a :: comm_monoid_add"
  shows "(\<Sum>x \<leftarrow> xs. f x) = (\<Sum>x \<leftarrow> filter P xs. f x) + (\<Sum>x \<leftarrow> filter (Not \<circ> P) xs. f x)"
  by (induction xs) (auto simp: ac_simps)

lemma sum_list_nonneg_map:
  fixes f :: "'b \<Rightarrow> 'a :: ordered_comm_monoid_add"
  shows "(\<And>x. x \<in> set xs \<Longrightarrow> 0 \<le> f x) \<Longrightarrow> 0 \<le> (\<Sum>x \<leftarrow> xs. f x)"
  by (induction xs) (auto intro: add_nonneg_nonneg)

lemma keys_update [simp]: "fst ` set (AList.update k v xs) = insert k (fst ` set xs)"
  by (induction xs) auto

section \<open>Invariants of step relations\<close>

text \<open>A property that every step keeps holds in every state that is reached from one where it holds.\<close>

locale step_invariant =
  fixes step :: "'s \<Rightarrow> 's \<Rightarrow> bool" and inv :: "'s \<Rightarrow> bool"
  assumes inv_step: "step s s' \<Longrightarrow> inv s \<Longrightarrow> inv s'"
begin

lemma reachable: "step\<^sup>*\<^sup>* s s' \<Longrightarrow> inv s \<Longrightarrow> inv s'"
  by (induction rule: rtranclp_induct) (auto intro: inv_step)

end

end
