(* ===== verification/GoStrings.thy ===== *)
theory GoStrings
  imports Prelude
begin

text \<open>
  The parts of Go's \<^verbatim>\<open>strings\<close>, \<^verbatim>\<open>strconv\<close> and \<^verbatim>\<open>fmt\<close> that the sources use, on
  byte strings (\<^typ>\<open>string\<close>: one \<^typ>\<open>char\<close> per byte, so \<open>length\<close> is Go's \<^verbatim>\<open>len\<close>).
  \<open>TrimSpace\<close> removes every character that Unicode calls white space, given by its
  UTF-8 encoding. \<open>ToUpper\<close>, \<open>ToLower\<close> and \<open>EqualFold\<close> map the ASCII letters and
  leave other bytes alone, which is what Go does on ASCII strings.
\<close>

section \<open>Trimming\<close>

definition utf8_spaces :: "string list" where
  "utf8_spaces =
     [[CHR 0x09], [CHR 0x0A], [CHR 0x0B], [CHR 0x0C], [CHR 0x0D], [CHR 0x20],
      [CHR 0xC2, CHR 0x85], [CHR 0xC2, CHR 0xA0], [CHR 0xE1, CHR 0x9A, CHR 0x80],
      [CHR 0xE2, CHR 0x80, CHR 0x80], [CHR 0xE2, CHR 0x80, CHR 0x81],
      [CHR 0xE2, CHR 0x80, CHR 0x82], [CHR 0xE2, CHR 0x80, CHR 0x83],
      [CHR 0xE2, CHR 0x80, CHR 0x84], [CHR 0xE2, CHR 0x80, CHR 0x85],
      [CHR 0xE2, CHR 0x80, CHR 0x86], [CHR 0xE2, CHR 0x80, CHR 0x87],
      [CHR 0xE2, CHR 0x80, CHR 0x88], [CHR 0xE2, CHR 0x80, CHR 0x89],
      [CHR 0xE2, CHR 0x80, CHR 0x8A], [CHR 0xE2, CHR 0x80, CHR 0xA8],
      [CHR 0xE2, CHR 0x80, CHR 0xA9], [CHR 0xE2, CHR 0x80, CHR 0xAF],
      [CHR 0xE2, CHR 0x81, CHR 0x9F], [CHR 0xE3, CHR 0x80, CHR 0x80]]"

definition has_prefix :: "'a list \<Rightarrow> 'a list \<Rightarrow> bool" where
  "has_prefix p s = (take (length p) s = p)"

fun strip_any :: "'a list list \<Rightarrow> 'a list \<Rightarrow> 'a list option" where
  "strip_any [] s = None"
| "strip_any (p # ps) s =
     (if has_prefix p s then Some (drop (length p) s) else strip_any ps s)"

fun trim_left :: "'a list list \<Rightarrow> 'a list \<Rightarrow> 'a list" where
  "trim_left ps s =
     (case strip_any ps s of None \<Rightarrow> s
      | Some r \<Rightarrow> if length r < length s then trim_left ps r else s)"

declare trim_left.simps [simp del]

definition TrimSpace :: "string \<Rightarrow> string" where
  "TrimSpace s = rev (trim_left (map rev utf8_spaces) (rev (trim_left utf8_spaces s)))"

lemma strip_any_drop: "strip_any ps s = Some r \<Longrightarrow> \<exists>n. r = drop n s"
  by (induction ps) (auto split: if_splits)

lemma trim_left_drop: "\<exists>n. trim_left ps s = drop n s"
proof (induction ps s rule: trim_left.induct)
  case (1 ps s)
  show ?case
  proof (cases "strip_any ps s")
    case None
    then have "trim_left ps s = drop 0 s" by (subst trim_left.simps) simp
    then show ?thesis by blast
  next
    case (Some r)
    from strip_any_drop [OF Some] obtain n where n: "r = drop n s" by blast
    show ?thesis
    proof (cases "length r < length s")
      case True
      from "1" [OF Some True] obtain m where "trim_left ps r = drop m r" by blast
      then have "trim_left ps s = drop (m + n) s"
        using Some True n by (subst trim_left.simps) (simp add: drop_drop)
      then show ?thesis by blast
    next
      case False
      then have "trim_left ps s = drop 0 s" using Some by (subst trim_left.simps) simp
      then show ?thesis by blast
    qed
  qed
qed

text \<open>After trimming, nothing strippable is left at the front.\<close>

lemma strip_any_shorter:
  assumes "strip_any ps s = Some r" "\<forall>p \<in> set ps. p \<noteq> []"
  shows "length r < length s"
  using assms
proof (induction ps)
  case (Cons p ps)
  then show ?case by (cases s) (auto simp: has_prefix_def split: if_splits)
qed simp

lemma strip_any_trim_left:
  assumes "\<forall>p \<in> set ps. p \<noteq> []"
  shows "strip_any ps (trim_left ps s) = None"
  using assms
proof (induction ps s rule: trim_left.induct)
  case (1 ps s)
  show ?case
  proof (cases "strip_any ps s")
    case None
    then show ?thesis by (subst trim_left.simps) simp
  next
    case (Some r)
    then have "length r < length s" using strip_any_shorter "1.prems" by blast
    then show ?thesis using "1.IH" [OF Some] "1.prems" Some by (subst trim_left.simps) simp
  qed
qed

lemma trim_left_id: "strip_any ps s = None \<Longrightarrow> trim_left ps s = s"
  by (subst trim_left.simps) simp

lemma strip_any_take: "strip_any ps s = None \<Longrightarrow> strip_any ps (take n s) = None"
proof (induction ps)
  case (Cons p ps)
  then show ?case by (auto simp: has_prefix_def min_def split: if_splits)
qed simp

lemma utf8_spaces_nonempty: "\<forall>p \<in> set utf8_spaces. p \<noteq> []"
  by (simp add: utf8_spaces_def)

lemma TrimSpace_idem [simp]: "TrimSpace (TrimSpace s) = TrimSpace s"
proof -
  let ?l = "trim_left utf8_spaces s"
  let ?r = "trim_left (map rev utf8_spaces) (rev ?l)"
  have ne: "\<forall>p \<in> set (map rev utf8_spaces). p \<noteq> []" using utf8_spaces_nonempty by simp
  from trim_left_drop obtain n where n: "?r = drop n (rev ?l)" by blast
  then have "rev ?r = take (length ?l - n) ?l" by (simp add: rev_drop)
  moreover have "strip_any utf8_spaces ?l = None"
    by (rule strip_any_trim_left) (rule utf8_spaces_nonempty)
  ultimately have "strip_any utf8_spaces (rev ?r) = None" by (simp add: strip_any_take)
  then have "trim_left utf8_spaces (rev ?r) = rev ?r" by (rule trim_left_id)
  moreover have "trim_left (map rev utf8_spaces) ?r = ?r"
    by (rule trim_left_id) (rule strip_any_trim_left [OF ne])
  ultimately show ?thesis by (simp add: TrimSpace_def)
qed

section \<open>Case\<close>

definition lower_char :: "char \<Rightarrow> char" where
  "lower_char c = (let n = (of_char c :: nat) in if 65 \<le> n \<and> n \<le> 90 then char_of (n + 32) else c)"

definition upper_char :: "char \<Rightarrow> char" where
  "upper_char c = (let n = (of_char c :: nat) in if 97 \<le> n \<and> n \<le> 122 then char_of (n - 32) else c)"

definition ToLower :: "string \<Rightarrow> string" where
  "ToLower s = map lower_char s"

definition ToUpper :: "string \<Rightarrow> string" where
  "ToUpper s = map upper_char s"

definition EqualFold :: "string \<Rightarrow> string \<Rightarrow> bool" where
  "EqualFold s t = (ToLower s = ToLower t)"

lemma lower_char_idem [simp]: "lower_char (lower_char c) = lower_char c"
  by (auto simp: lower_char_def Let_def)

lemma upper_char_idem [simp]: "upper_char (upper_char c) = upper_char c"
  by (auto simp: upper_char_def Let_def)

lemma ToLower_idem [simp]: "ToLower (ToLower s) = ToLower s"
  by (simp add: ToLower_def)

lemma ToUpper_idem [simp]: "ToUpper (ToUpper s) = ToUpper s"
  by (simp add: ToUpper_def)

lemma EqualFold_equiv: "EqualFold s s" "EqualFold s t \<Longrightarrow> EqualFold t s"
  "EqualFold s t \<Longrightarrow> EqualFold t u \<Longrightarrow> EqualFold s u"
  by (auto simp: EqualFold_def)

text \<open>
  White space and case do not interact: no space encoding contains an ASCII letter, so
  lowering a trimmed string leaves it trimmed.
\<close>

lemma lower_char_fix:
  assumes "lower_char c = d" "lower_char d = d" "\<not> (97 \<le> (of_char d :: nat) \<and> (of_char d :: nat) \<le> 122)"
  shows "c = d"
  using assms by (auto simp: lower_char_def Let_def split: if_splits)

definition caseless :: "string \<Rightarrow> bool" where
  "caseless p = list_all (\<lambda>d. lower_char d = d \<and> \<not> (97 \<le> (of_char d :: nat) \<and> (of_char d :: nat) \<le> 122)) p"

lemma map_lower_eq_caseless: "caseless p \<Longrightarrow> map lower_char xs = p \<longleftrightarrow> xs = p"
proof (induction p arbitrary: xs)
  case (Cons d p)
  show ?case
  proof (cases xs)
    case (Cons x ys)
    then show ?thesis using Cons.IH [of ys] Cons.prems lower_char_fix [of x d]
      by (auto simp: caseless_def)
  qed (simp)
qed simp

lemma strip_any_ToLower:
  assumes "list_all caseless ps"
  shows "strip_any ps (map lower_char s) = map_option (map lower_char) (strip_any ps s)"
  using assms
proof (induction ps)
  case (Cons p ps)
  then have "has_prefix p (map lower_char s) = has_prefix p s"
    by (simp add: has_prefix_def take_map map_lower_eq_caseless)
  then show ?case using Cons by (simp add: drop_map)
qed simp

lemma trim_left_ToLower:
  assumes "list_all caseless ps"
  shows "trim_left ps (map lower_char s) = map lower_char (trim_left ps s)"
  using assms
proof (induction ps s rule: trim_left.induct)
  case (1 ps s)
  show ?case
  proof (cases "strip_any ps s")
    case None
    then show ?thesis using "1.prems"
      by (simp add: trim_left.simps [of ps s] trim_left.simps [of ps "map lower_char s"] strip_any_ToLower)
  next
    case (Some r)
    then show ?thesis using "1.IH" [OF Some] "1.prems"
      by (simp add: trim_left.simps [of ps s] trim_left.simps [of ps "map lower_char s"] strip_any_ToLower)
  qed
qed

lemma utf8_spaces_caseless: "list_all caseless utf8_spaces" "list_all caseless (map rev utf8_spaces)"
  by (simp_all add: utf8_spaces_def caseless_def lower_char_def)

lemma TrimSpace_ToLower: "TrimSpace (ToLower s) = ToLower (TrimSpace s)"
  by (simp add: TrimSpace_def ToLower_def trim_left_ToLower utf8_spaces_caseless rev_map)


section \<open>Searching and splitting\<close>

text \<open>\<open>go_index sep s\<close> is \<^verbatim>\<open>strings.Index\<close>; \<open>None\<close> is \<^verbatim>\<open>-1\<close>.\<close>

fun go_index :: "'a list \<Rightarrow> 'a list \<Rightarrow> nat option" where
  "go_index sep [] = (if sep = [] then Some 0 else None)"
| "go_index sep (c # cs) =
     (if has_prefix sep (c # cs) then Some 0 else map_option Suc (go_index sep cs))"

lemma go_index_bound: "go_index sep s = Some i \<Longrightarrow> i + length sep \<le> length s"
proof (induction sep s arbitrary: i rule: go_index.induct)
  case (2 sep c cs)
  have "length (take (length sep) (c # cs)) \<le> Suc (length cs)" by simp
  with 2 show ?case by (auto simp: has_prefix_def min_def split: if_splits)
qed (auto split: if_splits)

definition contains :: "string \<Rightarrow> string \<Rightarrow> bool" where
  "contains s sub = (go_index sub s \<noteq> None)"

text \<open>\<^verbatim>\<open>strings.Split\<close> for a separator that is not empty.\<close>

function go_split :: "string \<Rightarrow> string \<Rightarrow> string list" where
  "go_split sep s =
     (case go_index sep s of None \<Rightarrow> [s]
      | Some i \<Rightarrow> if sep = [] then [s] else take i s # go_split sep (drop (i + length sep) s))"
  by pat_completeness auto

termination go_split
proof (relation "measure (\<lambda>(sep, s). length s)")
  fix sep s :: string and i
  assume "go_index sep s = Some i" "sep \<noteq> []"
  then have "0 < length sep" "i + length sep \<le> length s" by (auto dest: go_index_bound)
  then show "((sep, drop (i + length sep) s), (sep, s)) \<in> measure (\<lambda>(sep, s). length s)" by (cases sep) auto
qed simp

declare go_split.simps [simp del]

lemma go_split_not_Nil [simp]: "go_split sep s \<noteq> []"
  by (subst go_split.simps) (auto split: option.splits)

text \<open>For a separator of one character the index is that of its first occurrence.\<close>

lemma go_index_single_None: "go_index [a] s = None \<longleftrightarrow> a \<notin> set s"
  by (induction s) (auto simp: has_prefix_def)

lemma go_index_single_append: "a \<notin> set xs \<Longrightarrow> go_index [a] (xs @ a # ys) = Some (length xs)"
  by (induction xs) (auto simp: has_prefix_def)

lemma go_split_single_append:
  "a \<notin> set xs \<Longrightarrow> go_split [a] (xs @ a # ys) = xs # go_split [a] ys"
  by (subst go_split.simps) (simp add: go_index_single_append)

lemma go_split_single_None: "a \<notin> set xs \<Longrightarrow> go_split [a] xs = [xs]"
  by (subst go_split.simps) (simp add: go_index_single_None [THEN iffD2])

section \<open>Numbers\<close>

definition digit_char :: "nat \<Rightarrow> char" where
  "digit_char d = char_of (48 + d)"

fun nat_str :: "nat \<Rightarrow> string" where
  "nat_str n = (if n < 10 then [digit_char n] else nat_str (n div 10) @ [digit_char (n mod 10)])"

declare nat_str.simps [simp del]

text \<open>\<^verbatim>\<open>strconv.Itoa\<close>.\<close>

definition Itoa :: "int \<Rightarrow> string" where
  "Itoa i = (if i < 0 then ''-'' @ nat_str (nat (- i)) else nat_str (nat i))"

text \<open>\<^verbatim>\<open>%0wd\<close> of a number that is not negative.\<close>

definition pad0 :: "nat \<Rightarrow> string \<Rightarrow> string" where
  "pad0 w s = replicate (w - length s) (CHR ''0'') @ s"

definition digit_val :: "char \<Rightarrow> nat" where
  "digit_val c = of_char c - 48"

definition str_nat :: "string \<Rightarrow> nat" where
  "str_nat s = foldl (\<lambda>a c. 10 * a + digit_val c) 0 s"

lemma digit_val_char [simp]: "d < 10 \<Longrightarrow> digit_val (digit_char d) = d"
  by (simp add: digit_val_def digit_char_def)

lemma str_nat_nat_str [simp]: "str_nat (nat_str n) = n"
proof (induction n rule: nat_str.induct)
  case (1 n)
  show ?case
  proof (cases "n < 10")
    case True
    then show ?thesis by (simp add: nat_str.simps [of n] str_nat_def)
  next
    case False
    with "1" show ?thesis by (simp add: nat_str.simps [of n] str_nat_def)
  qed
qed

lemma str_nat_pad0 [simp]: "str_nat (pad0 w s) = str_nat s"
proof -
  have "foldl (\<lambda>a c. 10 * a + digit_val c) 0 (replicate k (CHR ''0'')) = 0" for k
    by (induction k) (simp_all add: digit_val_def)
  then show ?thesis by (simp add: str_nat_def pad0_def)
qed

definition digits_only :: "string \<Rightarrow> bool" where
  "digits_only s = list_all (\<lambda>c. 48 \<le> (of_char c :: nat) \<and> (of_char c :: nat) \<le> 57) s"

lemma digits_only_nat_str [simp]: "digits_only (nat_str n)"
proof (induction n rule: nat_str.induct)
  case (1 n)
  then show ?case
    by (cases "n < 10") (auto simp: nat_str.simps [of n] digits_only_def digit_char_def)
qed

lemma digits_only_pad0 [simp]: "digits_only s \<Longrightarrow> digits_only (pad0 w s)"
  by (auto simp: digits_only_def pad0_def list_all_iff)

lemma digits_only_notin: "digits_only s \<Longrightarrow> \<not> (48 \<le> (of_char c :: nat) \<and> (of_char c :: nat) \<le> 57) \<Longrightarrow> c \<notin> set s"
  by (auto simp: digits_only_def list_all_iff)

lemma nat_str_inject [simp]: "nat_str m = nat_str n \<longleftrightarrow> m = n"
  by (metis str_nat_nat_str)

lemma pad0_inject [simp]: "pad0 w (nat_str m) = pad0 w (nat_str n) \<longleftrightarrow> m = n"
  by (metis str_nat_nat_str str_nat_pad0)

text \<open>A separator that is no digit cuts a string of the form \<open>digits sep rest\<close> uniquely.\<close>

lemma digits_sep_inject:
  assumes "digits_only a" "digits_only b" "\<not> (48 \<le> (of_char c :: nat) \<and> (of_char c :: nat) \<le> 57)"
  shows "a @ c # s = b @ c # t \<longleftrightarrow> a = b \<and> s = t"
proof -
  have "c \<notin> set a" "c \<notin> set b" using assms digits_only_notin by blast+
  then show ?thesis by (metis append_eq_append_conv go_index_single_append option.inject list.inject)
qed

end
