(* ===== verification/GoErrors.thy ===== *)
theory GoErrors
  imports Prelude
begin

text \<open>
  Go's \<^verbatim>\<open>error\<close> values. The sentinels of \<^verbatim>\<open>src/pkg/constant/errors.go\<close> are values made
  by \<^verbatim>\<open>errors.New\<close> with a numeric code; they are compared by identity, and no two of them
  share a code, so the code identifies the error. \<open>Wrapped\<close> is \<^verbatim>\<open>fmt.Errorf("\<dots>: %w", err)\<close>,
  \<open>Errorf\<close> an error without a cause, \<open>InvalidTransition\<close> is
  \<^verbatim>\<open>model.NewInvalidTransitionError\<close>, \<open>Business\<close> an error that \<^verbatim>\<open>pkg.ValidateBusinessError\<close>
  builds from a sentinel. \<open>errors_Is\<close> walks the chain as \<^verbatim>\<open>errors.Is\<close> does.
\<close>

named_theorems err_defs \<open>codes of the sentinel errors\<close>

datatype goerr =
    Sentinel string
  | Wrapped string goerr
  | Errorf string
  | InvalidTransition string string
  | Business goerr

fun errors_Is :: "goerr \<Rightarrow> goerr \<Rightarrow> bool" where
  "errors_Is e target =
     (e = target \<or> (case e of Wrapped m e' \<Rightarrow> errors_Is e' target | _ \<Rightarrow> False))"

declare errors_Is.simps [simp del]

lemma errors_Is_simps [simp]:
  "errors_Is e e"
  "errors_Is (Sentinel c) e \<longleftrightarrow> e = Sentinel c"
  "errors_Is (Wrapped m e) (Sentinel c) \<longleftrightarrow> errors_Is e (Sentinel c)"
  by (subst errors_Is.simps; auto)+

section \<open>Sentinels\<close>

definition ErrDuplicateLedger :: goerr where [err_defs]: "ErrDuplicateLedger = Sentinel ''0001''"
definition ErrLedgerNameConflict :: goerr where [err_defs]: "ErrLedgerNameConflict = Sentinel ''0002''"
definition ErrAssetNameOrCodeDuplicate :: goerr where [err_defs]: "ErrAssetNameOrCodeDuplicate = Sentinel ''0003''"
definition ErrCodeUppercaseRequirement :: goerr where [err_defs]: "ErrCodeUppercaseRequirement = Sentinel ''0004''"
definition ErrCurrencyCodeStandardCompliance :: goerr where [err_defs]: "ErrCurrencyCodeStandardCompliance = Sentinel ''0005''"
definition ErrUnmodifiableField :: goerr where [err_defs]: "ErrUnmodifiableField = Sentinel ''0006''"
definition ErrEntityNotFound :: goerr where [err_defs]: "ErrEntityNotFound = Sentinel ''0007''"
definition ErrActionNotPermitted :: goerr where [err_defs]: "ErrActionNotPermitted = Sentinel ''0008''"
definition ErrMissingFieldsInRequest :: goerr where [err_defs]: "ErrMissingFieldsInRequest = Sentinel ''0009''"
definition ErrAccountTypeImmutable :: goerr where [err_defs]: "ErrAccountTypeImmutable = Sentinel ''0010''"
definition ErrInactiveAccountType :: goerr where [err_defs]: "ErrInactiveAccountType = Sentinel ''0011''"
definition ErrAccountBalanceDeletion :: goerr where [err_defs]: "ErrAccountBalanceDeletion = Sentinel ''0012''"
definition ErrResourceAlreadyDeleted :: goerr where [err_defs]: "ErrResourceAlreadyDeleted = Sentinel ''0013''"
definition ErrSegmentIDInactive :: goerr where [err_defs]: "ErrSegmentIDInactive = Sentinel ''0014''"
definition ErrDuplicateSegmentName :: goerr where [err_defs]: "ErrDuplicateSegmentName = Sentinel ''0015''"
definition ErrInvalidScriptFormat :: goerr where [err_defs]: "ErrInvalidScriptFormat = Sentinel ''0017''"
definition ErrInsufficientFunds :: goerr where [err_defs]: "ErrInsufficientFunds = Sentinel ''0018''"
definition ErrAccountIneligibility :: goerr where [err_defs]: "ErrAccountIneligibility = Sentinel ''0019''"
definition ErrAliasUnavailability :: goerr where [err_defs]: "ErrAliasUnavailability = Sentinel ''0020''"
definition ErrParentTransactionIDNotFound :: goerr where [err_defs]: "ErrParentTransactionIDNotFound = Sentinel ''0021''"
definition ErrImmutableField :: goerr where [err_defs]: "ErrImmutableField = Sentinel ''0022''"
definition ErrTransactionTimingRestriction :: goerr where [err_defs]: "ErrTransactionTimingRestriction = Sentinel ''0023''"
definition ErrAccountStatusTransactionRestriction :: goerr where [err_defs]: "ErrAccountStatusTransactionRestriction = Sentinel ''0024''"
definition ErrInsufficientAccountBalance :: goerr where [err_defs]: "ErrInsufficientAccountBalance = Sentinel ''0025''"
definition ErrTransactionMethodRestriction :: goerr where [err_defs]: "ErrTransactionMethodRestriction = Sentinel ''0026''"
definition ErrDuplicateTransactionTemplateCode :: goerr where [err_defs]: "ErrDuplicateTransactionTemplateCode = Sentinel ''0027''"
definition ErrDuplicateAssetPair :: goerr where [err_defs]: "ErrDuplicateAssetPair = Sentinel ''0028''"
definition ErrInvalidParentAccountID :: goerr where [err_defs]: "ErrInvalidParentAccountID = Sentinel ''0029''"
definition ErrMismatchedAssetCode :: goerr where [err_defs]: "ErrMismatchedAssetCode = Sentinel ''0030''"
definition ErrChartTypeNotFound :: goerr where [err_defs]: "ErrChartTypeNotFound = Sentinel ''0031''"
definition ErrInvalidCountryCode :: goerr where [err_defs]: "ErrInvalidCountryCode = Sentinel ''0032''"
definition ErrInvalidCodeFormat :: goerr where [err_defs]: "ErrInvalidCodeFormat = Sentinel ''0033''"
definition ErrAssetCodeNotFound :: goerr where [err_defs]: "ErrAssetCodeNotFound = Sentinel ''0034''"
definition ErrPortfolioIDNotFound :: goerr where [err_defs]: "ErrPortfolioIDNotFound = Sentinel ''0035''"
definition ErrSegmentIDNotFound :: goerr where [err_defs]: "ErrSegmentIDNotFound = Sentinel ''0036''"
definition ErrLedgerIDNotFound :: goerr where [err_defs]: "ErrLedgerIDNotFound = Sentinel ''0037''"
definition ErrOrganizationIDNotFound :: goerr where [err_defs]: "ErrOrganizationIDNotFound = Sentinel ''0038''"
definition ErrParentOrganizationIDNotFound :: goerr where [err_defs]: "ErrParentOrganizationIDNotFound = Sentinel ''0039''"
definition ErrInvalidType :: goerr where [err_defs]: "ErrInvalidType = Sentinel ''0040''"
definition ErrTokenMissing :: goerr where [err_defs]: "ErrTokenMissing = Sentinel ''0041''"
definition ErrInvalidToken :: goerr where [err_defs]: "ErrInvalidToken = Sentinel ''0042''"
definition ErrInsufficientPrivileges :: goerr where [err_defs]: "ErrInsufficientPrivileges = Sentinel ''0043''"
definition ErrPermissionEnforcement :: goerr where [err_defs]: "ErrPermissionEnforcement = Sentinel ''0044''"
definition ErrJWKFetch :: goerr where [err_defs]: "ErrJWKFetch = Sentinel ''0045''"
definition ErrInternalServer :: goerr where [err_defs]: "ErrInternalServer = Sentinel ''0046''"
definition ErrBadRequest :: goerr where [err_defs]: "ErrBadRequest = Sentinel ''0047''"
definition ErrInvalidDSLFileFormat :: goerr where [err_defs]: "ErrInvalidDSLFileFormat = Sentinel ''0048''"
definition ErrEmptyDSLFile :: goerr where [err_defs]: "ErrEmptyDSLFile = Sentinel ''0049''"
definition ErrMetadataKeyLengthExceeded :: goerr where [err_defs]: "ErrMetadataKeyLengthExceeded = Sentinel ''0050''"
definition ErrMetadataValueLengthExceeded :: goerr where [err_defs]: "ErrMetadataValueLengthExceeded = Sentinel ''0051''"
definition ErrAccountIDNotFound :: goerr where [err_defs]: "ErrAccountIDNotFound = Sentinel ''0052''"
definition ErrUnexpectedFieldsInTheRequest :: goerr where [err_defs]: "ErrUnexpectedFieldsInTheRequest = Sentinel ''0053''"
definition ErrIDsNotFoundForAccounts :: goerr where [err_defs]: "ErrIDsNotFoundForAccounts = Sentinel ''0054''"
definition ErrAssetIDNotFound :: goerr where [err_defs]: "ErrAssetIDNotFound = Sentinel ''0055''"
definition ErrNoAssetsFound :: goerr where [err_defs]: "ErrNoAssetsFound = Sentinel ''0056''"
definition ErrNoSegmentsFound :: goerr where [err_defs]: "ErrNoSegmentsFound = Sentinel ''0057''"
definition ErrNoPortfoliosFound :: goerr where [err_defs]: "ErrNoPortfoliosFound = Sentinel ''0058''"
definition ErrNoOrganizationsFound :: goerr where [err_defs]: "ErrNoOrganizationsFound = Sentinel ''0059''"
definition ErrNoLedgersFound :: goerr where [err_defs]: "ErrNoLedgersFound = Sentinel ''0060''"
definition ErrBalanceUpdateFailed :: goerr where [err_defs]: "ErrBalanceUpdateFailed = Sentinel ''0061''"
definition ErrNoAccountIDsProvided :: goerr where [err_defs]: "ErrNoAccountIDsProvided = Sentinel ''0062''"
definition ErrFailedToRetrieveAccountsByAliases :: goerr where [err_defs]: "ErrFailedToRetrieveAccountsByAliases = Sentinel ''0063''"
definition ErrNoAccountsFound :: goerr where [err_defs]: "ErrNoAccountsFound = Sentinel ''0064''"
definition ErrInvalidPathParameter :: goerr where [err_defs]: "ErrInvalidPathParameter = Sentinel ''0065''"
definition ErrInvalidAccountType :: goerr where [err_defs]: "ErrInvalidAccountType = Sentinel ''0066''"
definition ErrInvalidMetadataNesting :: goerr where [err_defs]: "ErrInvalidMetadataNesting = Sentinel ''0067''"
definition ErrOperationIDNotFound :: goerr where [err_defs]: "ErrOperationIDNotFound = Sentinel ''0068''"
definition ErrNoOperationsFound :: goerr where [err_defs]: "ErrNoOperationsFound = Sentinel ''0069''"
definition ErrTransactionIDNotFound :: goerr where [err_defs]: "ErrTransactionIDNotFound = Sentinel ''0070''"
definition ErrNoTransactionsFound :: goerr where [err_defs]: "ErrNoTransactionsFound = Sentinel ''0071''"
definition ErrInvalidTransactionType :: goerr where [err_defs]: "ErrInvalidTransactionType = Sentinel ''0072''"
definition ErrTransactionValueMismatch :: goerr where [err_defs]: "ErrTransactionValueMismatch = Sentinel ''0073''"
definition ErrForbiddenExternalAccountManipulation :: goerr where [err_defs]: "ErrForbiddenExternalAccountManipulation = Sentinel ''0074''"
definition ErrAuditRecordNotRetrieved :: goerr where [err_defs]: "ErrAuditRecordNotRetrieved = Sentinel ''0075''"
definition ErrAuditTreeRecordNotFound :: goerr where [err_defs]: "ErrAuditTreeRecordNotFound = Sentinel ''0076''"
definition ErrInvalidDateFormat :: goerr where [err_defs]: "ErrInvalidDateFormat = Sentinel ''0077''"
definition ErrInvalidFinalDate :: goerr where [err_defs]: "ErrInvalidFinalDate = Sentinel ''0078''"
definition ErrDateRangeExceedsLimit :: goerr where [err_defs]: "ErrDateRangeExceedsLimit = Sentinel ''0079''"
definition ErrPaginationLimitExceeded :: goerr where [err_defs]: "ErrPaginationLimitExceeded = Sentinel ''0080''"
definition ErrInvalidSortOrder :: goerr where [err_defs]: "ErrInvalidSortOrder = Sentinel ''0081''"
definition ErrInvalidQueryParameter :: goerr where [err_defs]: "ErrInvalidQueryParameter = Sentinel ''0082''"
definition ErrInvalidDateRange :: goerr where [err_defs]: "ErrInvalidDateRange = Sentinel ''0083''"
definition ErrIdempotencyKey :: goerr where [err_defs]: "ErrIdempotencyKey = Sentinel ''0084''"
definition ErrAccountAliasNotFound :: goerr where [err_defs]: "ErrAccountAliasNotFound = Sentinel ''0085''"
definition ErrLockVersionAccountBalance :: goerr where [err_defs]: "ErrLockVersionAccountBalance = Sentinel ''0086''"
definition ErrTransactionIDHasAlreadyParentTransaction :: goerr where [err_defs]: "ErrTransactionIDHasAlreadyParentTransaction = Sentinel ''0087''"
definition ErrTransactionIDIsAlreadyARevert :: goerr where [err_defs]: "ErrTransactionIDIsAlreadyARevert = Sentinel ''0088''"
definition ErrTransactionCantRevert :: goerr where [err_defs]: "ErrTransactionCantRevert = Sentinel ''0089''"
definition ErrTransactionAmbiguous :: goerr where [err_defs]: "ErrTransactionAmbiguous = Sentinel ''0090''"
definition ErrParentIDSameID :: goerr where [err_defs]: "ErrParentIDSameID = Sentinel ''0091''"
definition ErrNoBalancesFound :: goerr where [err_defs]: "ErrNoBalancesFound = Sentinel ''0092''"
definition ErrBalancesCantBeDeleted :: goerr where [err_defs]: "ErrBalancesCantBeDeleted = Sentinel ''0093''"
definition ErrInvalidRequestBody :: goerr where [err_defs]: "ErrInvalidRequestBody = Sentinel ''0094''"
definition ErrMessageBrokerUnavailable :: goerr where [err_defs]: "ErrMessageBrokerUnavailable = Sentinel ''0095''"
definition ErrAccountAliasInvalid :: goerr where [err_defs]: "ErrAccountAliasInvalid = Sentinel ''0096''"
definition ErrOverFlowInt64 :: goerr where [err_defs]: "ErrOverFlowInt64 = Sentinel ''0097''"
definition ErrOnHoldExternalAccount :: goerr where [err_defs]: "ErrOnHoldExternalAccount = Sentinel ''0098''"
definition ErrCommitTransactionNotPending :: goerr where [err_defs]: "ErrCommitTransactionNotPending = Sentinel ''0099''"
definition ErrOperationRouteTitleAlreadyExists :: goerr where [err_defs]: "ErrOperationRouteTitleAlreadyExists = Sentinel ''0100''"
definition ErrOperationRouteNotFound :: goerr where [err_defs]: "ErrOperationRouteNotFound = Sentinel ''0101''"
definition ErrNoOperationRoutesFound :: goerr where [err_defs]: "ErrNoOperationRoutesFound = Sentinel ''0102''"
definition ErrInvalidOperationRouteType :: goerr where [err_defs]: "ErrInvalidOperationRouteType = Sentinel ''0103''"
definition ErrMissingOperationRoutes :: goerr where [err_defs]: "ErrMissingOperationRoutes = Sentinel ''0104''"
definition ErrTransactionRouteNotFound :: goerr where [err_defs]: "ErrTransactionRouteNotFound = Sentinel ''0105''"
definition ErrNoTransactionRoutesFound :: goerr where [err_defs]: "ErrNoTransactionRoutesFound = Sentinel ''0106''"
definition ErrOperationRouteLinkedToTransactionRoutes :: goerr where [err_defs]: "ErrOperationRouteLinkedToTransactionRoutes = Sentinel ''0107''"
definition ErrDuplicateAccountTypeKeyValue :: goerr where [err_defs]: "ErrDuplicateAccountTypeKeyValue = Sentinel ''0108''"
definition ErrAccountTypeNotFound :: goerr where [err_defs]: "ErrAccountTypeNotFound = Sentinel ''0109''"
definition ErrNoAccountTypesFound :: goerr where [err_defs]: "ErrNoAccountTypesFound = Sentinel ''0110''"
definition ErrInvalidAccountRuleType :: goerr where [err_defs]: "ErrInvalidAccountRuleType = Sentinel ''0111''"
definition ErrInvalidAccountRuleValue :: goerr where [err_defs]: "ErrInvalidAccountRuleValue = Sentinel ''0112''"
definition ErrCorruptedAccountRule :: goerr where [err_defs]: "ErrCorruptedAccountRule = Sentinel ''0113''"
definition ErrTransactionRouteNotInformed :: goerr where [err_defs]: "ErrTransactionRouteNotInformed = Sentinel ''0114''"
definition ErrInvalidTransactionRouteID :: goerr where [err_defs]: "ErrInvalidTransactionRouteID = Sentinel ''0115''"
definition ErrAccountingRouteCountMismatch :: goerr where [err_defs]: "ErrAccountingRouteCountMismatch = Sentinel ''0116''"
definition ErrAccountingRouteNotFound :: goerr where [err_defs]: "ErrAccountingRouteNotFound = Sentinel ''0117''"
definition ErrAccountingAliasValidationFailed :: goerr where [err_defs]: "ErrAccountingAliasValidationFailed = Sentinel ''0118''"
definition ErrAccountingAccountTypeValidationFailed :: goerr where [err_defs]: "ErrAccountingAccountTypeValidationFailed = Sentinel ''0119''"
definition ErrInvalidAccountTypeKeyValue :: goerr where [err_defs]: "ErrInvalidAccountTypeKeyValue = Sentinel ''0120''"
definition ErrInvalidFutureTransactionDate :: goerr where [err_defs]: "ErrInvalidFutureTransactionDate = Sentinel ''0121''"
definition ErrInvalidPendingFutureTransactionDate :: goerr where [err_defs]: "ErrInvalidPendingFutureTransactionDate = Sentinel ''0122''"
definition ErrDuplicatedAliasKeyValue :: goerr where [err_defs]: "ErrDuplicatedAliasKeyValue = Sentinel ''0123''"
definition ErrAdditionalBalanceNotAllowed :: goerr where [err_defs]: "ErrAdditionalBalanceNotAllowed = Sentinel ''0124''"
definition ErrInvalidTransactionNonPositiveValue :: goerr where [err_defs]: "ErrInvalidTransactionNonPositiveValue = Sentinel ''0125''"
definition ErrDefaultBalanceNotFound :: goerr where [err_defs]: "ErrDefaultBalanceNotFound = Sentinel ''0126''"
definition ErrAccountCreationFailed :: goerr where [err_defs]: "ErrAccountCreationFailed = Sentinel ''0127''"
definition ErrTransactionBackupCacheFailed :: goerr where [err_defs]: "ErrTransactionBackupCacheFailed = Sentinel ''0128''"
definition ErrTransactionBackupCacheMarshalFailed :: goerr where [err_defs]: "ErrTransactionBackupCacheMarshalFailed = Sentinel ''0129''"
definition ErrInvalidDatetimeFormat :: goerr where [err_defs]: "ErrInvalidDatetimeFormat = Sentinel ''0131''"
definition ErrMetadataIndexAlreadyExists :: goerr where [err_defs]: "ErrMetadataIndexAlreadyExists = Sentinel ''0132''"
definition ErrMetadataIndexNotFound :: goerr where [err_defs]: "ErrMetadataIndexNotFound = Sentinel ''0133''"
definition ErrMetadataIndexInvalidKey :: goerr where [err_defs]: "ErrMetadataIndexInvalidKey = Sentinel ''0134''"
definition ErrMetadataIndexLimitExceeded :: goerr where [err_defs]: "ErrMetadataIndexLimitExceeded = Sentinel ''0135''"
definition ErrMetadataIndexCreationFailed :: goerr where [err_defs]: "ErrMetadataIndexCreationFailed = Sentinel ''0136''"
definition ErrMetadataIndexDeletionForbidden :: goerr where [err_defs]: "ErrMetadataIndexDeletionForbidden = Sentinel ''0137''"
definition ErrInvalidEntityName :: goerr where [err_defs]: "ErrInvalidEntityName = Sentinel ''0138''"
definition ErrTransactionBackupCacheRetrievalFailed :: goerr where [err_defs]: "ErrTransactionBackupCacheRetrievalFailed = Sentinel ''0139''"
definition ErrInvalidTimestamp :: goerr where [err_defs]: "ErrInvalidTimestamp = Sentinel ''0140''"
definition ErrNoBalanceDataAtTimestamp :: goerr where [err_defs]: "ErrNoBalanceDataAtTimestamp = Sentinel ''0141''"
definition ErrMissingRequiredQueryParameter :: goerr where [err_defs]: "ErrMissingRequiredQueryParameter = Sentinel ''0142''"
definition ErrPayloadTooLarge :: goerr where [err_defs]: "ErrPayloadTooLarge = Sentinel ''0143''"
definition ErrRequestHeaderFieldsTooLarge :: goerr where [err_defs]: "ErrRequestHeaderFieldsTooLarge = Sentinel ''0497''"
definition ErrJSONNestingDepthExceeded :: goerr where [err_defs]: "ErrJSONNestingDepthExceeded = Sentinel ''0144''"
definition ErrJSONKeyCountExceeded :: goerr where [err_defs]: "ErrJSONKeyCountExceeded = Sentinel ''0145''"
definition ErrTenantNotProvisioned :: goerr where [err_defs]: "ErrTenantNotProvisioned = Sentinel ''0146''"
definition ErrUnknownSettingsField :: goerr where [err_defs]: "ErrUnknownSettingsField = Sentinel ''0147''"
definition ErrInvalidSettingsFieldType :: goerr where [err_defs]: "ErrInvalidSettingsFieldType = Sentinel ''0148''"
definition ErrSettingsRootLevelField :: goerr where [err_defs]: "ErrSettingsRootLevelField = Sentinel ''0149''"
definition ErrRouteNotBidirectional :: goerr where [err_defs]: "ErrRouteNotBidirectional = Sentinel ''0150''"
definition ErrMissingCounterpart :: goerr where [err_defs]: "ErrMissingCounterpart = Sentinel ''0151''"
definition ErrDirectionRouteMismatch :: goerr where [err_defs]: "ErrDirectionRouteMismatch = Sentinel ''0152''"
definition ErrNoSourceForAction :: goerr where [err_defs]: "ErrNoSourceForAction = Sentinel ''0153''"
definition ErrNoDestinationForAction :: goerr where [err_defs]: "ErrNoDestinationForAction = Sentinel ''0154''"
definition ErrInvalidRouteAction :: goerr where [err_defs]: "ErrInvalidRouteAction = Sentinel ''0155''"
definition ErrNoRoutesForAction :: goerr where [err_defs]: "ErrNoRoutesForAction = Sentinel ''0157''"
definition ErrTooManyOperationRoutes :: goerr where [err_defs]: "ErrTooManyOperationRoutes = Sentinel ''0158''"
definition ErrTenantServiceSuspended :: goerr where [err_defs]: "ErrTenantServiceSuspended = Sentinel ''0159''"
definition ErrTenantNotFound :: goerr where [err_defs]: "ErrTenantNotFound = Sentinel ''0160''"
definition ErrTenantServiceUnavailable :: goerr where [err_defs]: "ErrTenantServiceUnavailable = Sentinel ''0161''"
definition ErrScenarioNotAllowedForDirection :: goerr where [err_defs]: "ErrScenarioNotAllowedForDirection = Sentinel ''0162''"
definition ErrReserveGroupIncomplete :: goerr where [err_defs]: "ErrReserveGroupIncomplete = Sentinel ''0163''"
definition ErrDirectScenarioRequired :: goerr where [err_defs]: "ErrDirectScenarioRequired = Sentinel ''0164''"
definition ErrRevertOnlyBidirectional :: goerr where [err_defs]: "ErrRevertOnlyBidirectional = Sentinel ''0165''"
definition ErrAccountingEntryFieldRequired :: goerr where [err_defs]: "ErrAccountingEntryFieldRequired = Sentinel ''0166''"
definition ErrOverdraftLimitExceeded :: goerr where [err_defs]: "ErrOverdraftLimitExceeded = Sentinel ''0167''"
definition ErrDirectOperationOnInternalBalance :: goerr where [err_defs]: "ErrDirectOperationOnInternalBalance = Sentinel ''0168''"
definition ErrDeletionOfInternalBalance :: goerr where [err_defs]: "ErrDeletionOfInternalBalance = Sentinel ''0169''"
definition ErrReservedBalanceKey :: goerr where [err_defs]: "ErrReservedBalanceKey = Sentinel ''0170''"
definition ErrInvalidBalanceDirection :: goerr where [err_defs]: "ErrInvalidBalanceDirection = Sentinel ''0171''"
definition ErrInvalidBalanceSettings :: goerr where [err_defs]: "ErrInvalidBalanceSettings = Sentinel ''0172''"
definition ErrOverdraftLimitBelowUsage :: goerr where [err_defs]: "ErrOverdraftLimitBelowUsage = Sentinel ''0173''"
definition ErrStaleBalanceVersion :: goerr where [err_defs]: "ErrStaleBalanceVersion = Sentinel ''0174''"
definition ErrUpdateOfInternalBalance :: goerr where [err_defs]: "ErrUpdateOfInternalBalance = Sentinel ''0175''"
definition ErrInvalidSettingsFieldValue :: goerr where [err_defs]: "ErrInvalidSettingsFieldValue = Sentinel ''0176''"
definition ErrTransactionReservationDenied :: goerr where [err_defs]: "ErrTransactionReservationDenied = Sentinel ''0177''"
definition ErrTransactionReservationUnavailable :: goerr where [err_defs]: "ErrTransactionReservationUnavailable = Sentinel ''0178''"
definition ErrOverdraftRouteNotConfigured :: goerr where [err_defs]: "ErrOverdraftRouteNotConfigured = Sentinel ''0492''"
definition ErrFeeCalculationFieldType :: goerr where [err_defs]: "ErrFeeCalculationFieldType = Sentinel ''0179''"
definition ErrPriorityInvalid :: goerr where [err_defs]: "ErrPriorityInvalid = Sentinel ''0180''"
definition ErrFindAccountOnMidaz :: goerr where [err_defs]: "ErrFindAccountOnMidaz = Sentinel ''0181''"
definition ErrMinAmountGreaterThanMaxAmount :: goerr where [err_defs]: "ErrMinAmountGreaterThanMaxAmount = Sentinel ''0182''"
definition ErrNothingToUpdate :: goerr where [err_defs]: "ErrNothingToUpdate = Sentinel ''0183''"
definition ErrDuplicatePackage :: goerr where [err_defs]: "ErrDuplicatePackage = Sentinel ''0184''"
definition ErrFeeInvalidHeaderParameter :: goerr where [err_defs]: "ErrFeeInvalidHeaderParameter = Sentinel ''0185''"
definition ErrCalculateFee :: goerr where [err_defs]: "ErrCalculateFee = Sentinel ''0186''"
definition ErrCalculationRequired :: goerr where [err_defs]: "ErrCalculationRequired = Sentinel ''0187''"
definition ErrPriorityOne :: goerr where [err_defs]: "ErrPriorityOne = Sentinel ''0188''"
definition ErrAppRuleFlatFeeAndPercentual :: goerr where [err_defs]: "ErrAppRuleFlatFeeAndPercentual = Sentinel ''0189''"
definition ErrCalculationTypePercentual :: goerr where [err_defs]: "ErrCalculationTypePercentual = Sentinel ''0190''"
definition ErrCalculationTypeFlatFee :: goerr where [err_defs]: "ErrCalculationTypeFlatFee = Sentinel ''0191''"
definition ErrFeeFieldsRequired :: goerr where [err_defs]: "ErrFeeFieldsRequired = Sentinel ''0192''"
definition ErrCalculationFieldOfFeeRequired :: goerr where [err_defs]: "ErrCalculationFieldOfFeeRequired = Sentinel ''0193''"
definition ErrReferenceAmountInvalid :: goerr where [err_defs]: "ErrReferenceAmountInvalid = Sentinel ''0194''"
definition ErrAppRuleInvalid :: goerr where [err_defs]: "ErrAppRuleInvalid = Sentinel ''0195''"
definition ErrCalculationTypeInvalid :: goerr where [err_defs]: "ErrCalculationTypeInvalid = Sentinel ''0196''"
definition ErrMaxAmountLessThanMinAmount :: goerr where [err_defs]: "ErrMaxAmountLessThanMinAmount = Sentinel ''0197''"
definition ErrFilterPackage :: goerr where [err_defs]: "ErrFilterPackage = Sentinel ''0198''"
definition ErrPackageRange :: goerr where [err_defs]: "ErrPackageRange = Sentinel ''0199''"
definition ErrValidateDistributeTransactionValue :: goerr where [err_defs]: "ErrValidateDistributeTransactionValue = Sentinel ''0200''"
definition ErrAppRuleMaxBetweenTypes :: goerr where [err_defs]: "ErrAppRuleMaxBetweenTypes = Sentinel ''0201''"
definition ErrInvalidSegmentID :: goerr where [err_defs]: "ErrInvalidSegmentID = Sentinel ''0202''"
definition ErrInvalidLedgerID :: goerr where [err_defs]: "ErrInvalidLedgerID = Sentinel ''0203''"
definition ErrConvertToDecimal :: goerr where [err_defs]: "ErrConvertToDecimal = Sentinel ''0204''"
definition ErrIsDeductibleFrom :: goerr where [err_defs]: "ErrIsDeductibleFrom = Sentinel ''0205''"
definition ErrApplicationRule :: goerr where [err_defs]: "ErrApplicationRule = Sentinel ''0206''"
definition ErrCalculationValuePercentage :: goerr where [err_defs]: "ErrCalculationValuePercentage = Sentinel ''0207''"
definition ErrCalculationValueFlatFee :: goerr where [err_defs]: "ErrCalculationValueFlatFee = Sentinel ''0208''"
definition ErrAccessMidaz :: goerr where [err_defs]: "ErrAccessMidaz = Sentinel ''0209''"
definition ErrDeductibleCalculationValuePercentage :: goerr where [err_defs]: "ErrDeductibleCalculationValuePercentage = Sentinel ''0210''"
definition ErrDeductibleCalculationValueFlatFee :: goerr where [err_defs]: "ErrDeductibleCalculationValueFlatFee = Sentinel ''0211''"
definition ErrInvalidQueryParameterPage :: goerr where [err_defs]: "ErrInvalidQueryParameterPage = Sentinel ''0212''"
definition ErrBillingPackageNotFound :: goerr where [err_defs]: "ErrBillingPackageNotFound = Sentinel ''0213''"
definition ErrInvalidBillingPackageType :: goerr where [err_defs]: "ErrInvalidBillingPackageType = Sentinel ''0214''"
definition ErrMissingVolumeFields :: goerr where [err_defs]: "ErrMissingVolumeFields = Sentinel ''0215''"
definition ErrMissingMaintenanceFields :: goerr where [err_defs]: "ErrMissingMaintenanceFields = Sentinel ''0216''"
definition ErrInvalidPricingModel :: goerr where [err_defs]: "ErrInvalidPricingModel = Sentinel ''0217''"
definition ErrInvalidPricingTier :: goerr where [err_defs]: "ErrInvalidPricingTier = Sentinel ''0218''"
definition ErrBillingRouteOverlap :: goerr where [err_defs]: "ErrBillingRouteOverlap = Sentinel ''0219''"
definition ErrTargetAccountNotFound :: goerr where [err_defs]: "ErrTargetAccountNotFound = Sentinel ''0220''"
definition ErrBillingCalculationFailed :: goerr where [err_defs]: "ErrBillingCalculationFailed = Sentinel ''0221''"
definition ErrNoActiveBillingPackages :: goerr where [err_defs]: "ErrNoActiveBillingPackages = Sentinel ''0222''"
definition ErrSegmentResolutionFailed :: goerr where [err_defs]: "ErrSegmentResolutionFailed = Sentinel ''0223''"
definition ErrInvalidBillingPeriod :: goerr where [err_defs]: "ErrInvalidBillingPeriod = Sentinel ''0224''"
definition ErrInvalidFreeQuota :: goerr where [err_defs]: "ErrInvalidFreeQuota = Sentinel ''0225''"
definition ErrInvalidDiscountTier :: goerr where [err_defs]: "ErrInvalidDiscountTier = Sentinel ''0226''"
definition ErrInvalidCountMode :: goerr where [err_defs]: "ErrInvalidCountMode = Sentinel ''0227''"
definition ErrMidazQueryFailed :: goerr where [err_defs]: "ErrMidazQueryFailed = Sentinel ''0228''"
definition ErrInvalidAccountTarget :: goerr where [err_defs]: "ErrInvalidAccountTarget = Sentinel ''0229''"
definition ErrInvalidFeeAmount :: goerr where [err_defs]: "ErrInvalidFeeAmount = Sentinel ''0230''"
definition ErrMissingSegmentContext :: goerr where [err_defs]: "ErrMissingSegmentContext = Sentinel ''0231''"
definition ErrMidazRouteNotFound :: goerr where [err_defs]: "ErrMidazRouteNotFound = Sentinel ''0232''"
definition ErrDeductibleFeeExceedsAmount :: goerr where [err_defs]: "ErrDeductibleFeeExceedsAmount = Sentinel ''0233''"
definition ErrRuleCalculationFieldType :: goerr where [err_defs]: "ErrRuleCalculationFieldType = Sentinel ''0328''"
definition ErrParentIDNotFound :: goerr where [err_defs]: "ErrParentIDNotFound = Sentinel ''0329''"
definition ErrContextCancelled :: goerr where [err_defs]: "ErrContextCancelled = Sentinel ''0330''"
definition ErrPaginationLimitInvalid :: goerr where [err_defs]: "ErrPaginationLimitInvalid = Sentinel ''0331''"
definition ErrInvalidSortColumn :: goerr where [err_defs]: "ErrInvalidSortColumn = Sentinel ''0332''"
definition ErrInvalidCursor :: goerr where [err_defs]: "ErrInvalidCursor = Sentinel ''0333''"
definition ErrCursorWithSortParams :: goerr where [err_defs]: "ErrCursorWithSortParams = Sentinel ''0334''"
definition ErrMetadataEntriesExceeded :: goerr where [err_defs]: "ErrMetadataEntriesExceeded = Sentinel ''0335''"
definition ErrMetadataKeyInvalidChars :: goerr where [err_defs]: "ErrMetadataKeyInvalidChars = Sentinel ''0336''"
definition ErrInvalidDecision :: goerr where [err_defs]: "ErrInvalidDecision = Sentinel ''0337''"
definition ErrReasonRequired :: goerr where [err_defs]: "ErrReasonRequired = Sentinel ''0338''"
definition ErrInvalidDefaultDecision :: goerr where [err_defs]: "ErrInvalidDefaultDecision = Sentinel ''0339''"
definition ErrExpressionSyntax :: goerr where [err_defs]: "ErrExpressionSyntax = Sentinel ''0340''"
definition ErrExpressionType :: goerr where [err_defs]: "ErrExpressionType = Sentinel ''0341''"
definition ErrExpressionCostExceeded :: goerr where [err_defs]: "ErrExpressionCostExceeded = Sentinel ''0342''"
definition ErrExpressionEvaluation :: goerr where [err_defs]: "ErrExpressionEvaluation = Sentinel ''0343''"
definition ErrExpressionProgram :: goerr where [err_defs]: "ErrExpressionProgram = Sentinel ''0344''"
definition ErrExpressionCostEstimation :: goerr where [err_defs]: "ErrExpressionCostEstimation = Sentinel ''0345''"
definition ErrAmountExceedsPrecision :: goerr where [err_defs]: "ErrAmountExceedsPrecision = Sentinel ''0346''"
definition ErrRuleNotFound :: goerr where [err_defs]: "ErrRuleNotFound = Sentinel ''0347''"
definition ErrRuleNameAlreadyExists :: goerr where [err_defs]: "ErrRuleNameAlreadyExists = Sentinel ''0348''"
definition ErrRuleInvalidStatus :: goerr where [err_defs]: "ErrRuleInvalidStatus = Sentinel ''0349''"
definition ErrRuleEvaluationFailed :: goerr where [err_defs]: "ErrRuleEvaluationFailed = Sentinel ''0350''"
definition ErrExpressionNotModifiable :: goerr where [err_defs]: "ErrExpressionNotModifiable = Sentinel ''0351''"
definition ErrRuleNilInput :: goerr where [err_defs]: "ErrRuleNilInput = Sentinel ''0352''"
definition ErrRuleNameRequired :: goerr where [err_defs]: "ErrRuleNameRequired = Sentinel ''0353''"
definition ErrRuleNameTooLong :: goerr where [err_defs]: "ErrRuleNameTooLong = Sentinel ''0354''"
definition ErrRuleExpressionRequired :: goerr where [err_defs]: "ErrRuleExpressionRequired = Sentinel ''0355''"
definition ErrRuleExpressionTooLong :: goerr where [err_defs]: "ErrRuleExpressionTooLong = Sentinel ''0356''"
definition ErrRuleInvalidAction :: goerr where [err_defs]: "ErrRuleInvalidAction = Sentinel ''0357''"
definition ErrRuleInvalidScope :: goerr where [err_defs]: "ErrRuleInvalidScope = Sentinel ''0358''"
definition ErrRuleDescriptionTooLong :: goerr where [err_defs]: "ErrRuleDescriptionTooLong = Sentinel ''0359''"
definition ErrRuleScopesTooMany :: goerr where [err_defs]: "ErrRuleScopesTooMany = Sentinel ''0360''"
definition ErrRuleInvalidTransition :: goerr where [err_defs]: "ErrRuleInvalidTransition = Sentinel ''0361''"
definition ErrLimitNotFound :: goerr where [err_defs]: "ErrLimitNotFound = Sentinel ''0362''"
definition ErrLimitInvalidStatusChange :: goerr where [err_defs]: "ErrLimitInvalidStatusChange = Sentinel ''0363''"
definition ErrLimitInvalidType :: goerr where [err_defs]: "ErrLimitInvalidType = Sentinel ''0364''"
definition ErrLimitInvalidMaxAmount :: goerr where [err_defs]: "ErrLimitInvalidMaxAmount = Sentinel ''0365''"
definition ErrLimitInvalidCurrency :: goerr where [err_defs]: "ErrLimitInvalidCurrency = Sentinel ''0366''"
definition ErrLimitInvalidScope :: goerr where [err_defs]: "ErrLimitInvalidScope = Sentinel ''0367''"
definition ErrLimitNameRequired :: goerr where [err_defs]: "ErrLimitNameRequired = Sentinel ''0368''"
definition ErrLimitNameTooLong :: goerr where [err_defs]: "ErrLimitNameTooLong = Sentinel ''0369''"
definition ErrLimitAlreadyDeleted :: goerr where [err_defs]: "ErrLimitAlreadyDeleted = Sentinel ''0370''"
definition ErrLimitNameInvalidChars :: goerr where [err_defs]: "ErrLimitNameInvalidChars = Sentinel ''0371''"
definition ErrLimitDescriptionInvalidChars :: goerr where [err_defs]: "ErrLimitDescriptionInvalidChars = Sentinel ''0372''"
definition ErrLimitInvalidID :: goerr where [err_defs]: "ErrLimitInvalidID = Sentinel ''0373''"
definition ErrLimitDescriptionTooLong :: goerr where [err_defs]: "ErrLimitDescriptionTooLong = Sentinel ''0374''"
definition ErrLimitInvalidStatusFilter :: goerr where [err_defs]: "ErrLimitInvalidStatusFilter = Sentinel ''0375''"
definition ErrLimitInvalidTypeFilter :: goerr where [err_defs]: "ErrLimitInvalidTypeFilter = Sentinel ''0376''"
definition ErrLimitDeletedAtInvariant :: goerr where [err_defs]: "ErrLimitDeletedAtInvariant = Sentinel ''0377''"
definition ErrLimitCheckFailed :: goerr where [err_defs]: "ErrLimitCheckFailed = Sentinel ''0378''"
definition ErrLimitNilInput :: goerr where [err_defs]: "ErrLimitNilInput = Sentinel ''0379''"
definition ErrLimitImmutableField :: goerr where [err_defs]: "ErrLimitImmutableField = Sentinel ''0380''"
definition ErrAuditEventNotFound :: goerr where [err_defs]: "ErrAuditEventNotFound = Sentinel ''0381''"
definition ErrInvalidAuditEventFilters :: goerr where [err_defs]: "ErrInvalidAuditEventFilters = Sentinel ''0382''"
definition ErrAuditEventInvalidType :: goerr where [err_defs]: "ErrAuditEventInvalidType = Sentinel ''0383''"
definition ErrAuditEventInvalidAction :: goerr where [err_defs]: "ErrAuditEventInvalidAction = Sentinel ''0384''"
definition ErrAuditEventInvalidResult :: goerr where [err_defs]: "ErrAuditEventInvalidResult = Sentinel ''0385''"
definition ErrAuditEventResourceIDRequired :: goerr where [err_defs]: "ErrAuditEventResourceIDRequired = Sentinel ''0386''"
definition ErrAuditEventInvalidResourceType :: goerr where [err_defs]: "ErrAuditEventInvalidResourceType = Sentinel ''0387''"
definition ErrAuditEventActorIDRequired :: goerr where [err_defs]: "ErrAuditEventActorIDRequired = Sentinel ''0388''"
definition ErrAuditEventActorTypeInvalid :: goerr where [err_defs]: "ErrAuditEventActorTypeInvalid = Sentinel ''0389''"
definition ErrUsageCounterOverflow :: goerr where [err_defs]: "ErrUsageCounterOverflow = Sentinel ''0390''"
definition ErrUsageCounterLimitIDRequired :: goerr where [err_defs]: "ErrUsageCounterLimitIDRequired = Sentinel ''0391''"
definition ErrUsageCounterScopeKeyRequired :: goerr where [err_defs]: "ErrUsageCounterScopeKeyRequired = Sentinel ''0392''"
definition ErrUsageCounterPeriodKeyRequired :: goerr where [err_defs]: "ErrUsageCounterPeriodKeyRequired = Sentinel ''0393''"
definition ErrUsageCounterCurrentUsageNegative :: goerr where [err_defs]: "ErrUsageCounterCurrentUsageNegative = Sentinel ''0394''"
definition ErrUsageCounterIncrementNonNegative :: goerr where [err_defs]: "ErrUsageCounterIncrementNonNegative = Sentinel ''0395''"
definition ErrUsageCounterNotFound :: goerr where [err_defs]: "ErrUsageCounterNotFound = Sentinel ''0396''"
definition ErrUsageCounterExceedsLimit :: goerr where [err_defs]: "ErrUsageCounterExceedsLimit = Sentinel ''0397''"
definition ErrUsageCounterDecrementNonNegative :: goerr where [err_defs]: "ErrUsageCounterDecrementNonNegative = Sentinel ''0398''"
definition ErrCheckLimitsInvalidAmount :: goerr where [err_defs]: "ErrCheckLimitsInvalidAmount = Sentinel ''0399''"
definition ErrCheckLimitsInvalidCurrency :: goerr where [err_defs]: "ErrCheckLimitsInvalidCurrency = Sentinel ''0400''"
definition ErrCheckLimitsUnknownLimitType :: goerr where [err_defs]: "ErrCheckLimitsUnknownLimitType = Sentinel ''0401''"
definition ErrCheckLimitsInvalidTimestamp :: goerr where [err_defs]: "ErrCheckLimitsInvalidTimestamp = Sentinel ''0402''"
definition ErrCheckLimitsNilInput :: goerr where [err_defs]: "ErrCheckLimitsNilInput = Sentinel ''0403''"
definition ErrCheckLimitsInvalidAccountID :: goerr where [err_defs]: "ErrCheckLimitsInvalidAccountID = Sentinel ''0404''"
definition ErrCheckLimitsInvalidTransactionType :: goerr where [err_defs]: "ErrCheckLimitsInvalidTransactionType = Sentinel ''0405''"
definition ErrCheckLimitsInvalidSubType :: goerr where [err_defs]: "ErrCheckLimitsInvalidSubType = Sentinel ''0406''"
definition ErrCheckLimitsInvalidSegmentID :: goerr where [err_defs]: "ErrCheckLimitsInvalidSegmentID = Sentinel ''0407''"
definition ErrCheckLimitsInvalidPortfolioID :: goerr where [err_defs]: "ErrCheckLimitsInvalidPortfolioID = Sentinel ''0408''"
definition ErrCheckLimitsInvalidMerchantID :: goerr where [err_defs]: "ErrCheckLimitsInvalidMerchantID = Sentinel ''0409''"
definition ErrLimitCheckerNilLimitRepo :: goerr where [err_defs]: "ErrLimitCheckerNilLimitRepo = Sentinel ''0410''"
definition ErrLimitCheckerNilUsageCounterRepo :: goerr where [err_defs]: "ErrLimitCheckerNilUsageCounterRepo = Sentinel ''0411''"
definition ErrLimitCheckerNilClock :: goerr where [err_defs]: "ErrLimitCheckerNilClock = Sentinel ''0412''"
definition ErrValidationRequestIDRequired :: goerr where [err_defs]: "ErrValidationRequestIDRequired = Sentinel ''0413''"
definition ErrValidationInvalidTransactionType :: goerr where [err_defs]: "ErrValidationInvalidTransactionType = Sentinel ''0414''"
definition ErrValidationAmountNonPositive :: goerr where [err_defs]: "ErrValidationAmountNonPositive = Sentinel ''0415''"
definition ErrValidationCurrencyRequired :: goerr where [err_defs]: "ErrValidationCurrencyRequired = Sentinel ''0416''"
definition ErrValidationInvalidCurrency :: goerr where [err_defs]: "ErrValidationInvalidCurrency = Sentinel ''0417''"
definition ErrValidationTimestampRequired :: goerr where [err_defs]: "ErrValidationTimestampRequired = Sentinel ''0418''"
definition ErrValidationTimestampFuture :: goerr where [err_defs]: "ErrValidationTimestampFuture = Sentinel ''0419''"
definition ErrValidationAccountRequired :: goerr where [err_defs]: "ErrValidationAccountRequired = Sentinel ''0420''"
definition ErrValidationTimestampPast :: goerr where [err_defs]: "ErrValidationTimestampPast = Sentinel ''0421''"
definition ErrValidationTimeout :: goerr where [err_defs]: "ErrValidationTimeout = Sentinel ''0422''"
definition ErrValidationSegmentIDRequired :: goerr where [err_defs]: "ErrValidationSegmentIDRequired = Sentinel ''0423''"
definition ErrValidationPortfolioIDRequired :: goerr where [err_defs]: "ErrValidationPortfolioIDRequired = Sentinel ''0424''"
definition ErrValidationSubTypeTooLong :: goerr where [err_defs]: "ErrValidationSubTypeTooLong = Sentinel ''0425''"
definition ErrValidationInvalidAccountType :: goerr where [err_defs]: "ErrValidationInvalidAccountType = Sentinel ''0426''"
definition ErrValidationInvalidAccountStatus :: goerr where [err_defs]: "ErrValidationInvalidAccountStatus = Sentinel ''0427''"
definition ErrValidationInvalidMerchantCategory :: goerr where [err_defs]: "ErrValidationInvalidMerchantCategory = Sentinel ''0428''"
definition ErrValidationInvalidMerchantCountry :: goerr where [err_defs]: "ErrValidationInvalidMerchantCountry = Sentinel ''0429''"
definition ErrValidationMerchantIDRequired :: goerr where [err_defs]: "ErrValidationMerchantIDRequired = Sentinel ''0430''"
definition ErrInvalidTransactionValidationFilters :: goerr where [err_defs]: "ErrInvalidTransactionValidationFilters = Sentinel ''0431''"
definition ErrTransactionValidationNotFound :: goerr where [err_defs]: "ErrTransactionValidationNotFound = Sentinel ''0432''"
definition ErrListValidationsTimeout :: goerr where [err_defs]: "ErrListValidationsTimeout = Sentinel ''0433''"
definition ErrTransactionValidationIDRequired :: goerr where [err_defs]: "ErrTransactionValidationIDRequired = Sentinel ''0434''"
definition ErrTransactionValidationCreatedAtRequired :: goerr where [err_defs]: "ErrTransactionValidationCreatedAtRequired = Sentinel ''0435''"
definition ErrRuleCacheWarmUpFailed :: goerr where [err_defs]: "ErrRuleCacheWarmUpFailed = Sentinel ''0436''"
definition ErrRuleCacheNotReady :: goerr where [err_defs]: "ErrRuleCacheNotReady = Sentinel ''0437''"
definition ErrLimitTimeWindowMismatch :: goerr where [err_defs]: "ErrLimitTimeWindowMismatch = Sentinel ''0438''"
definition ErrLimitTimeWindowZeroWidth :: goerr where [err_defs]: "ErrLimitTimeWindowZeroWidth = Sentinel ''0439''"
definition ErrTimeOfDayInvalidFormat :: goerr where [err_defs]: "ErrTimeOfDayInvalidFormat = Sentinel ''0440''"
definition ErrRuleNameAlreadyExistsInCtx :: goerr where [err_defs]: "ErrRuleNameAlreadyExistsInCtx = Sentinel ''0441''"
definition ErrLimitNameAlreadyExists :: goerr where [err_defs]: "ErrLimitNameAlreadyExists = Sentinel ''0442''"
definition ErrLimitCustomDatesNotAllowed :: goerr where [err_defs]: "ErrLimitCustomDatesNotAllowed = Sentinel ''0443''"
definition ErrLimitUnknownType :: goerr where [err_defs]: "ErrLimitUnknownType = Sentinel ''0444''"
definition ErrLimitCustomPeriodTooLong :: goerr where [err_defs]: "ErrLimitCustomPeriodTooLong = Sentinel ''0445''"
definition ErrLimitCustomPeriodExpired :: goerr where [err_defs]: "ErrLimitCustomPeriodExpired = Sentinel ''0446''"
definition ErrLimitInvalidCustomStartFormat :: goerr where [err_defs]: "ErrLimitInvalidCustomStartFormat = Sentinel ''0447''"
definition ErrLimitInvalidCustomEndFormat :: goerr where [err_defs]: "ErrLimitInvalidCustomEndFormat = Sentinel ''0448''"
definition ErrLimitCustomDatesRequired :: goerr where [err_defs]: "ErrLimitCustomDatesRequired = Sentinel ''0449''"
definition ErrLimitCustomDatesOrder :: goerr where [err_defs]: "ErrLimitCustomDatesOrder = Sentinel ''0450''"
definition ErrMTConfigRequired :: goerr where [err_defs]: "ErrMTConfigRequired = Sentinel ''0451''"
definition ErrMTLoggerRequired :: goerr where [err_defs]: "ErrMTLoggerRequired = Sentinel ''0452''"
definition ErrMTURLRequired :: goerr where [err_defs]: "ErrMTURLRequired = Sentinel ''0453''"
definition ErrMTURLInvalid :: goerr where [err_defs]: "ErrMTURLInvalid = Sentinel ''0454''"
definition ErrMTServiceAPIKeyRequired :: goerr where [err_defs]: "ErrMTServiceAPIKeyRequired = Sentinel ''0455''"
definition ErrMTRedisHostRequired :: goerr where [err_defs]: "ErrMTRedisHostRequired = Sentinel ''0456''"
definition ErrMTPluginAuthRequired :: goerr where [err_defs]: "ErrMTPluginAuthRequired = Sentinel ''0457''"
definition ErrMTAPIKeyOnlyValidationConfl :: goerr where [err_defs]: "ErrMTAPIKeyOnlyValidationConfl = Sentinel ''0458''"
definition ErrReadyzPgConnectionNotEstablished :: goerr where [err_defs]: "ErrReadyzPgConnectionNotEstablished = Sentinel ''0459''"
definition ErrReadyzPgConnectionFailed :: goerr where [err_defs]: "ErrReadyzPgConnectionFailed = Sentinel ''0460''"
definition ErrReadyzPgPingFailed :: goerr where [err_defs]: "ErrReadyzPgPingFailed = Sentinel ''0461''"
definition ErrReadyzDependenciesUnhealthy :: goerr where [err_defs]: "ErrReadyzDependenciesUnhealthy = Sentinel ''0462''"
definition ErrReadyzCacheNotReady :: goerr where [err_defs]: "ErrReadyzCacheNotReady = Sentinel ''0463''"
definition ErrReadyzCacheStale :: goerr where [err_defs]: "ErrReadyzCacheStale = Sentinel ''0464''"
definition ErrSupervisorShuttingDown :: goerr where [err_defs]: "ErrSupervisorShuttingDown = Sentinel ''0465''"
definition ErrTenantCapReached :: goerr where [err_defs]: "ErrTenantCapReached = Sentinel ''0466''"
definition ErrSupervisorNilRuleCache :: goerr where [err_defs]: "ErrSupervisorNilRuleCache = Sentinel ''0467''"
definition ErrSupervisorNilSyncRepo :: goerr where [err_defs]: "ErrSupervisorNilSyncRepo = Sentinel ''0468''"
definition ErrSupervisorNilUsageRepo :: goerr where [err_defs]: "ErrSupervisorNilUsageRepo = Sentinel ''0469''"
definition ErrSupervisorNilCompiler :: goerr where [err_defs]: "ErrSupervisorNilCompiler = Sentinel ''0470''"
definition ErrSupervisorNilLogger :: goerr where [err_defs]: "ErrSupervisorNilLogger = Sentinel ''0471''"
definition ErrSupervisorNilReaperRepo :: goerr where [err_defs]: "ErrSupervisorNilReaperRepo = Sentinel ''0472''"
definition ErrSupervisorNilReaperAuditor :: goerr where [err_defs]: "ErrSupervisorNilReaperAuditor = Sentinel ''0473''"
definition ErrUnauthorizedMissingSub :: goerr where [err_defs]: "ErrUnauthorizedMissingSub = Sentinel ''0474''"
definition ErrReservationLimitIDRequired :: goerr where [err_defs]: "ErrReservationLimitIDRequired = Sentinel ''0475''"
definition ErrReservationTransactionIDReq :: goerr where [err_defs]: "ErrReservationTransactionIDReq = Sentinel ''0476''"
definition ErrReservationScopeKeyRequired :: goerr where [err_defs]: "ErrReservationScopeKeyRequired = Sentinel ''0477''"
definition ErrReservationPeriodKeyRequired :: goerr where [err_defs]: "ErrReservationPeriodKeyRequired = Sentinel ''0478''"
definition ErrReservationAmountInvalid :: goerr where [err_defs]: "ErrReservationAmountInvalid = Sentinel ''0479''"
definition ErrReservationInvalidStatus :: goerr where [err_defs]: "ErrReservationInvalidStatus = Sentinel ''0480''"
definition ErrReservationExpiresAtRequired :: goerr where [err_defs]: "ErrReservationExpiresAtRequired = Sentinel ''0481''"
definition ErrReservationNotFound :: goerr where [err_defs]: "ErrReservationNotFound = Sentinel ''0482''"
definition ErrReservationAlreadyTerminal :: goerr where [err_defs]: "ErrReservationAlreadyTerminal = Sentinel ''0483''"
definition ErrRouteNotFound :: goerr where [err_defs]: "ErrRouteNotFound = Sentinel ''0484''"
definition ErrMethodNotAllowed :: goerr where [err_defs]: "ErrMethodNotAllowed = Sentinel ''0485''"
definition ErrPendingTransactionLocked :: goerr where [err_defs]: "ErrPendingTransactionLocked = Sentinel ''0486''"
definition ErrReservationTenantRequired :: goerr where [err_defs]: "ErrReservationTenantRequired = Sentinel ''0487''"
definition ErrInstrumentLedgerReferenceNotFound :: goerr where [err_defs]: "ErrInstrumentLedgerReferenceNotFound = Sentinel ''0488''"
definition ErrInstrumentAccountReferenceNotFound :: goerr where [err_defs]: "ErrInstrumentAccountReferenceNotFound = Sentinel ''0489''"
definition ErrSkipNotPermitted :: goerr where [err_defs]: "ErrSkipNotPermitted = Sentinel ''0490''"
definition ErrHolderRequired :: goerr where [err_defs]: "ErrHolderRequired = Sentinel ''0491''"
definition ErrReadyzRedisConnectionNotEstablished :: goerr where [err_defs]: "ErrReadyzRedisConnectionNotEstablished = Sentinel ''0493''"
definition ErrReadyzRedisPingFailed :: goerr where [err_defs]: "ErrReadyzRedisPingFailed = Sentinel ''0494''"
definition ErrReadyzTenantManagerUnavailable :: goerr where [err_defs]: "ErrReadyzTenantManagerUnavailable = Sentinel ''0495''"
definition ErrReadyzStreamingUnhealthy :: goerr where [err_defs]: "ErrReadyzStreamingUnhealthy = Sentinel ''0496''"

end
