(* ===== verification/TracerScope.thy ===== *)
theory TracerScope
  imports GoStrings GoErrors
begin

text \<open>
  Scopes of the tracer (\<^verbatim>\<open>components/tracer/pkg/model/scope.go\<close>, \<^verbatim>\<open>scope_matcher.go\<close>) and
  the transaction types they mention (\<^verbatim>\<open>transaction.go\<close>). A scope is a partial description
  of a transaction; an absent field matches anything. The locale \<open>scope_order\<close> states what
  a matching relation promises (it is a preorder, normal forms are equivalent to their
  originals) and proves what lists of scopes inherit from it; \<open>Matches\<close> interprets it.
\<close>

section \<open>Transaction types\<close>

text \<open>\<^verbatim>\<open>TransactionType\<close> is a Go string type with four named values; every other string is
  \<open>OtherTransactionType\<close>.\<close>

datatype TransactionType =
    TransactionTypeCard
  | TransactionTypeWire
  | TransactionTypePix
  | TransactionTypeCrypto
  | OtherTransactionType string

definition TransactionType_IsValid :: "TransactionType \<Rightarrow> bool" where
  "TransactionType_IsValid t =
     (case t of
        TransactionTypeCard \<Rightarrow> True
      | TransactionTypeWire \<Rightarrow> True
      | TransactionTypePix \<Rightarrow> True
      | TransactionTypeCrypto \<Rightarrow> True
      | OtherTransactionType s \<Rightarrow> False)"

definition TransactionType_String :: "TransactionType \<Rightarrow> string" where
  "TransactionType_String t =
     (case t of
        TransactionTypeCard \<Rightarrow> ''CARD''
      | TransactionTypeWire \<Rightarrow> ''WIRE''
      | TransactionTypePix \<Rightarrow> ''PIX''
      | TransactionTypeCrypto \<Rightarrow> ''CRYPTO''
      | OtherTransactionType s \<Rightarrow> s)"

section \<open>Scopes\<close>

record Scope =
  sc_SegmentID :: "uuid option"
  sc_PortfolioID :: "uuid option"
  sc_AccountID :: "uuid option"
  sc_MerchantID :: "uuid option"
  sc_TransactionType :: "TransactionType option"
  sc_SubType :: "string option"

definition ptrMatches :: "'a option \<Rightarrow> 'a option \<Rightarrow> bool" where
  "ptrMatches pattern val =
     (case pattern of None \<Rightarrow> True
      | Some p \<Rightarrow> (case val of None \<Rightarrow> False | Some v \<Rightarrow> p = v))"

definition ptrMatchesFold :: "string option \<Rightarrow> string option \<Rightarrow> bool" where
  "ptrMatchesFold pattern val =
     (case pattern of None \<Rightarrow> True
      | Some p \<Rightarrow> (case val of None \<Rightarrow> False | Some v \<Rightarrow> EqualFold p v))"

definition normalizeSubTypeRaw :: "string option \<Rightarrow> string option" where
  "normalizeSubTypeRaw s = map_option (\<lambda>v. ToLower (TrimSpace v)) s"

definition normalizeScopeSubType :: "Scope \<Rightarrow> Scope" where
  "normalizeScopeSubType s = s\<lparr>sc_SubType := normalizeSubTypeRaw (sc_SubType s)\<rparr>"

text \<open>
  \<open>cloneAndNormalizeScope\<close> copies every pointer field to a fresh allocation. Values of
  \<^typ>\<open>Scope\<close> are immutable here, so the copy of a field is the field.
\<close>

definition cloneAndNormalizeScope :: "Scope \<Rightarrow> Scope" where
  "cloneAndNormalizeScope s =
     normalizeScopeSubType
       \<lparr>sc_SegmentID = sc_SegmentID s, sc_PortfolioID = sc_PortfolioID s,
        sc_AccountID = sc_AccountID s, sc_MerchantID = sc_MerchantID s,
        sc_TransactionType = sc_TransactionType s, sc_SubType = sc_SubType s\<rparr>"

definition Scope_IsEmpty :: "Scope \<Rightarrow> bool" where
  "Scope_IsEmpty s =
     (sc_SegmentID s = None \<and> sc_PortfolioID s = None \<and> sc_AccountID s = None \<and>
      sc_MerchantID s = None \<and> sc_TransactionType s = None \<and> sc_SubType s = None)"

definition Matches :: "Scope \<Rightarrow> Scope \<Rightarrow> bool" where
  "Matches s other =
     (ptrMatches (sc_AccountID s) (sc_AccountID other) \<and>
      ptrMatches (sc_SegmentID s) (sc_SegmentID other) \<and>
      ptrMatches (sc_PortfolioID s) (sc_PortfolioID other) \<and>
      ptrMatches (sc_MerchantID s) (sc_MerchantID other) \<and>
      ptrMatches (sc_TransactionType s) (sc_TransactionType other) \<and>
      ptrMatchesFold (sc_SubType s) (sc_SubType other))"

definition opt_entry :: "string \<Rightarrow> ('a \<Rightarrow> string) \<Rightarrow> 'a option \<Rightarrow> (string, string) gomap" where
  "opt_entry k f v = (case v of None \<Rightarrow> [] | Some x \<Rightarrow> [(k, f x)])"

definition Scope_ToMap :: "extlib \<Rightarrow> Scope \<Rightarrow> (string, string) gomap" where
  "Scope_ToMap lib s =
     opt_entry ''segmentId'' (uuid_String lib) (sc_SegmentID s) @
     opt_entry ''portfolioId'' (uuid_String lib) (sc_PortfolioID s) @
     opt_entry ''accountId'' (uuid_String lib) (sc_AccountID s) @
     opt_entry ''merchantId'' (uuid_String lib) (sc_MerchantID s) @
     opt_entry ''transactionType'' TransactionType_String (sc_TransactionType s) @
     opt_entry ''subType'' id (sc_SubType s)"

text \<open>The loop over the rule's scopes returns at the first match.\<close>

fun any_scope_matches :: "Scope list \<Rightarrow> Scope \<Rightarrow> bool" where
  "any_scope_matches [] tx = False"
| "any_scope_matches (s # ss) tx = (if Matches s tx then True else any_scope_matches ss tx)"

definition RuleScopesMatch :: "Scope list \<Rightarrow> Scope option \<Rightarrow> bool" where
  "RuleScopesMatch ruleScopes txScope =
     (if length ruleScopes = 0 then True
      else (case txScope of None \<Rightarrow> False | Some tx \<Rightarrow> any_scope_matches ruleScopes tx))"

section \<open>The contract of a matching relation\<close>

locale scope_order =
  fixes matches :: "'s \<Rightarrow> 's \<Rightarrow> bool"
    and normal :: "'s \<Rightarrow> 's"
    and empty :: "'s \<Rightarrow> bool"
  assumes refl: "matches s s"
    and trans: "matches s t \<Longrightarrow> matches t u \<Longrightarrow> matches s u"
    and empty_matches: "empty s \<Longrightarrow> matches s t"
    and normal_idem: "normal (normal s) = normal s"
    and normal_empty: "empty (normal s) \<longleftrightarrow> empty s"
begin

definition any_of :: "'s list \<Rightarrow> 's \<Rightarrow> bool" where
  "any_of ss t = (ss = [] \<or> (\<exists>s \<in> set ss. matches s t))"

lemma any_of_trans: "any_of ss t \<Longrightarrow> matches t u \<Longrightarrow> any_of ss u"
  by (auto simp: any_of_def intro: trans)

lemma any_of_mono: "any_of ss t \<Longrightarrow> ss \<noteq> [] \<Longrightarrow> set ss \<subseteq> set ss' \<Longrightarrow> any_of ss' t"
  by (auto simp: any_of_def)

lemma any_of_empty: "s \<in> set ss \<Longrightarrow> empty s \<Longrightarrow> any_of ss t"
  by (auto simp: any_of_def intro: empty_matches)

lemma any_of_self: "t \<in> set ss \<Longrightarrow> any_of ss t"
  by (auto simp: any_of_def intro: refl)

lemma normal_list_idem: "map normal (map normal ss) = map normal ss"
  by (simp add: normal_idem)

end

lemma ptrMatches_simps [simp]:
  "ptrMatches p p"
  "ptrMatches None v"
  "ptrMatches (Some x) (Some y) \<longleftrightarrow> x = y"
  "\<not> ptrMatches (Some x) None"
  by (auto simp: ptrMatches_def split: option.splits)

lemma ptrMatches_trans: "ptrMatches a b \<Longrightarrow> ptrMatches b c \<Longrightarrow> ptrMatches a c"
  by (auto simp: ptrMatches_def split: option.splits)

lemma ptrMatchesFold_simps [simp]:
  "ptrMatchesFold p p"
  "ptrMatchesFold None v"
  "ptrMatchesFold (Some x) (Some y) \<longleftrightarrow> EqualFold x y"
  "\<not> ptrMatchesFold (Some x) None"
  by (auto simp: ptrMatchesFold_def EqualFold_def split: option.splits)

lemma ptrMatchesFold_trans: "ptrMatchesFold a b \<Longrightarrow> ptrMatchesFold b c \<Longrightarrow> ptrMatchesFold a c"
  by (auto simp: ptrMatchesFold_def EqualFold_def split: option.splits)

lemma normalizeSubTypeRaw_idem [simp]:
  "normalizeSubTypeRaw (normalizeSubTypeRaw s) = normalizeSubTypeRaw s"
  by (cases s) (simp_all add: normalizeSubTypeRaw_def TrimSpace_ToLower)

lemma normalizeSubTypeRaw_None [simp]: "normalizeSubTypeRaw s = None \<longleftrightarrow> s = None"
  by (simp add: normalizeSubTypeRaw_def)

lemma normalizeScopeSubType_sel [simp]:
  "sc_SegmentID (normalizeScopeSubType s) = sc_SegmentID s"
  "sc_PortfolioID (normalizeScopeSubType s) = sc_PortfolioID s"
  "sc_AccountID (normalizeScopeSubType s) = sc_AccountID s"
  "sc_MerchantID (normalizeScopeSubType s) = sc_MerchantID s"
  "sc_TransactionType (normalizeScopeSubType s) = sc_TransactionType s"
  "sc_SubType (normalizeScopeSubType s) = normalizeSubTypeRaw (sc_SubType s)"
  by (simp_all add: normalizeScopeSubType_def)

lemma cloneAndNormalizeScope_eq: "cloneAndNormalizeScope s = normalizeScopeSubType s"
  by (simp add: cloneAndNormalizeScope_def normalizeScopeSubType_def)

lemma Scope_IsEmpty_normalize [simp]: "Scope_IsEmpty (normalizeScopeSubType s) = Scope_IsEmpty s"
  by (simp add: Scope_IsEmpty_def)

lemma Matches_refl: "Matches s s"
  by (simp add: Matches_def)

lemma Matches_trans: "Matches s t \<Longrightarrow> Matches t u \<Longrightarrow> Matches s u"
  unfolding Matches_def
  by (elim conjE) (intro conjI; (erule (1) ptrMatches_trans | erule (1) ptrMatchesFold_trans))

interpretation scopes: scope_order Matches normalizeScopeSubType Scope_IsEmpty
proof
  fix s t u :: Scope
  show "Matches s s" by (rule Matches_refl)
  show "Matches s t \<Longrightarrow> Matches t u \<Longrightarrow> Matches s u" by (rule Matches_trans)
  show "Scope_IsEmpty s \<Longrightarrow> Matches s t" by (simp add: Scope_IsEmpty_def Matches_def)
  show "normalizeScopeSubType (normalizeScopeSubType s) = normalizeScopeSubType s"
    by (simp add: normalizeScopeSubType_def)
  show "Scope_IsEmpty (normalizeScopeSubType s) = Scope_IsEmpty s" by simp
qed

lemma any_scope_matches_iff: "any_scope_matches ss tx \<longleftrightarrow> (\<exists>s \<in> set ss. Matches s tx)"
  by (induction ss) auto

lemma RuleScopesMatch_any_of: "RuleScopesMatch ss (Some t) \<longleftrightarrow> scopes.any_of ss t"
  by (auto simp: RuleScopesMatch_def scopes.any_of_def any_scope_matches_iff)

lemma RuleScopesMatch_None: "RuleScopesMatch ss None \<longleftrightarrow> ss = []"
  by (simp add: RuleScopesMatch_def)

section \<open>Matching of a scope after normalisation\<close>

lemma EqualFold_ToLower: "EqualFold (ToLower x) y \<longleftrightarrow> EqualFold x y"
  by (simp add: EqualFold_def)

lemma Matches_normalize:
  assumes "\<And>x. sc_SubType s = Some x \<Longrightarrow> TrimSpace x = x"
  shows "Matches (normalizeScopeSubType s) t \<longleftrightarrow> Matches s t"
  using assms
  by (cases "sc_SubType s"; cases "sc_SubType t")
    (simp_all add: Matches_def normalizeSubTypeRaw_def EqualFold_ToLower)

end
