(* ===== verification/TimeOfDay.thy ===== *)
theory TimeOfDay
  imports GoStrings GoErrors
begin

text \<open>
  The value object \<^verbatim>\<open>TimeOfDay\<close> of \<^verbatim>\<open>components/tracer/pkg/model/time_of_day.go\<close>: parsing
  and printing of \<^verbatim>\<open>HH:MM\<close>, comparison, and the text encodings. The zero value is not
  valid; midnight is. The parser below is the part of Go's \<^verbatim>\<open>time.Parse\<close> that the layout
  \<^verbatim>\<open>15:04\<close> exercises: one or two digits for the hour, a colon, two digits for the minute,
  range checks, nothing after.
\<close>

record TimeOfDay =
  tod_hour :: int
  tod_minute :: int
  tod_isValid :: bool

definition TimeOfDay_zero :: TimeOfDay where
  "TimeOfDay_zero = \<lparr>tod_hour = 0, tod_minute = 0, tod_isValid = False\<rparr>"

definition isDigit :: "char \<Rightarrow> bool" where
  "isDigit c = (48 \<le> (of_char c :: nat) \<and> (of_char c :: nat) \<le> 57)"

text \<open>\<^verbatim>\<open>getnum\<close> of the package \<^verbatim>\<open>time\<close>.\<close>

definition getnum :: "string \<Rightarrow> bool \<Rightarrow> (nat \<times> string) option" where
  "getnum s fixed =
     (case s of [] \<Rightarrow> None
      | c # r \<Rightarrow>
        if \<not> isDigit c then None
        else (case r of
                [] \<Rightarrow> if fixed then None else Some (digit_val c, r)
              | d # r' \<Rightarrow>
                if isDigit d then Some (digit_val c * 10 + digit_val d, r')
                else if fixed then None else Some (digit_val c, r)))"

definition Parse_15_04 :: "string \<Rightarrow> (nat \<times> nat) option" where
  "Parse_15_04 s =
     (case getnum s False of None \<Rightarrow> None
      | Some (h, r) \<Rightarrow>
        if 24 \<le> h then None
        else (case r of [] \<Rightarrow> None
              | c # r' \<Rightarrow>
                if c \<noteq> CHR '':'' then None
                else (case getnum r' True of None \<Rightarrow> None
                      | Some (m, r'') \<Rightarrow>
                        if 60 \<le> m \<or> r'' \<noteq> [] then None else Some (h, m))))"

definition NewTimeOfDay :: "string \<Rightarrow> goerr + TimeOfDay" where
  "NewTimeOfDay s =
     (let s' = TrimSpace s in
      case Parse_15_04 s' of
        None \<Rightarrow> Inl ErrTimeOfDayInvalidFormat
      | Some (h, m) \<Rightarrow> Inr \<lparr>tod_hour = int h, tod_minute = int m, tod_isValid = True\<rparr>)"

definition TimeOfDay_String :: "TimeOfDay \<Rightarrow> string" where
  "TimeOfDay_String t =
     (if \<not> tod_isValid t then ''''
      else pad0 2 (Itoa (tod_hour t)) @ '':'' @ pad0 2 (Itoa (tod_minute t)))"

definition MinutesSinceMidnight :: "TimeOfDay \<Rightarrow> int" where
  "MinutesSinceMidnight t = tod_hour t * 60 + tod_minute t"

definition TimeOfDay_Before :: "TimeOfDay \<Rightarrow> TimeOfDay \<Rightarrow> bool" where
  "TimeOfDay_Before t other =
     (if \<not> tod_isValid t \<or> \<not> tod_isValid other then False
      else MinutesSinceMidnight t < MinutesSinceMidnight other)"

definition TimeOfDay_After :: "TimeOfDay \<Rightarrow> TimeOfDay \<Rightarrow> bool" where
  "TimeOfDay_After t other =
     (if \<not> tod_isValid t \<or> \<not> tod_isValid other then False
      else MinutesSinceMidnight other < MinutesSinceMidnight t)"

definition TimeOfDay_Equal :: "TimeOfDay \<Rightarrow> TimeOfDay \<Rightarrow> bool" where
  "TimeOfDay_Equal t other =
     (MinutesSinceMidnight t = MinutesSinceMidnight other \<and> tod_isValid t = tod_isValid other)"

definition TimeOfDay_IsZero :: "TimeOfDay \<Rightarrow> bool" where
  "TimeOfDay_IsZero t = (\<not> tod_isValid t)"

definition TimeOfDay_MarshalJSON :: "TimeOfDay \<Rightarrow> string" where
  "TimeOfDay_MarshalJSON t =
     (if \<not> tod_isValid t then ''null'' else [CHR 0x22] @ TimeOfDay_String t @ [CHR 0x22])"

definition TimeOfDay_MarshalText :: "TimeOfDay \<Rightarrow> string" where
  "TimeOfDay_MarshalText t = (if \<not> tod_isValid t then [] else TimeOfDay_String t)"

definition TimeOfDay_UnmarshalText :: "string \<Rightarrow> goerr + TimeOfDay" where
  "TimeOfDay_UnmarshalText txt =
     (if length txt = 0 then Inr TimeOfDay_zero else NewTimeOfDay txt)"

section \<open>Well-formed values\<close>

definition tod_wf :: "TimeOfDay \<Rightarrow> bool" where
  "tod_wf t =
     (if tod_isValid t then 0 \<le> tod_hour t \<and> tod_hour t < 24 \<and> 0 \<le> tod_minute t \<and> tod_minute t < 60
      else t = TimeOfDay_zero)"

lemma NewTimeOfDay_wf: "NewTimeOfDay s = Inr t \<Longrightarrow> tod_wf t \<and> tod_isValid t"
  by (auto simp: NewTimeOfDay_def Parse_15_04_def tod_wf_def Let_def
      split: option.splits prod.splits list.splits if_splits)

lemma MinutesSinceMidnight_bounds:
  "tod_wf t \<Longrightarrow> 0 \<le> MinutesSinceMidnight t \<and> MinutesSinceMidnight t < 1440"
  by (auto simp: tod_wf_def MinutesSinceMidnight_def TimeOfDay_zero_def split: if_splits)

lemma MinutesSinceMidnight_inject:
  assumes "tod_wf s" "tod_wf t"
  shows "TimeOfDay_Equal s t \<longleftrightarrow> s = t"
proof
  assume e: "TimeOfDay_Equal s t"
  show "s = t"
  proof (cases "tod_isValid s")
    case True
    then have eq: "tod_hour s * 60 + tod_minute s = tod_hour t * 60 + tod_minute t"
      and b: "0 \<le> tod_minute s" "tod_minute s < 60" "0 \<le> tod_minute t" "tod_minute t < 60"
      and v: "tod_isValid t"
      using e assms by (simp_all add: tod_wf_def TimeOfDay_Equal_def MinutesSinceMidnight_def)
    have "tod_hour s = tod_hour t" using eq b by linarith
    with eq v have "tod_hour s = tod_hour t" "tod_minute s = tod_minute t" "tod_isValid t" by simp_all
    with True show ?thesis by simp
  next
    case False
    then show ?thesis using e assms by (auto simp: tod_wf_def TimeOfDay_Equal_def)
  qed
qed (simp add: TimeOfDay_Equal_def)

section \<open>Parsing what was printed\<close>

lemma isDigit_digit_char [simp]: "d < 10 \<Longrightarrow> isDigit (digit_char d)"
  by (auto simp: isDigit_def digit_char_def)

lemma digit_char_zero: "CHR ''0'' = digit_char 0"
  by (simp add: digit_char_def) code_simp

lemma pad0_two_digits: "n < 100 \<Longrightarrow> pad0 2 (nat_str n) = [digit_char (n div 10), digit_char (n mod 10)]"
  by (cases "n < 10")
    (simp_all add: pad0_def digit_char_zero nat_str.simps [of n] nat_str.simps [of "n div 10"]
      div_less_iff_less_mult)

lemma getnum_two_digits [simp]:
  "n < 100 \<Longrightarrow> getnum (digit_char (n div 10) # digit_char (n mod 10) # r) fixed = Some (n, r)"
  by (simp add: getnum_def)

lemma strip_any_None_hd:
  "list_all (\<lambda>p. p \<noteq> [] \<and> hd p \<noteq> c) ps \<Longrightarrow> strip_any ps (c # s) = None"
  by (induction ps) (auto simp: has_prefix_def neq_Nil_conv)

lemma spaces_no_digit:
  "list_all (\<lambda>p. p \<noteq> [] \<and> \<not> isDigit (hd p)) utf8_spaces"
  "list_all (\<lambda>p. p \<noteq> [] \<and> \<not> isDigit (hd p)) (map rev utf8_spaces)"
  by code_simp+

lemma strip_any_digit:
  assumes "isDigit c"
  shows "strip_any utf8_spaces (c # s) = None" "strip_any (map rev utf8_spaces) (c # s) = None"
  using assms spaces_no_digit by (auto intro!: strip_any_None_hd elim!: list.pred_mono_strong)

lemma TrimSpace_digits:
  assumes "isDigit c" "isDigit d"
  shows "TrimSpace (c # s @ [d]) = c # s @ [d]"
  using assms by (simp add: TrimSpace_def trim_left_id strip_any_digit)

lemma Parse_15_04_print:
  assumes "h < 24" "m < 60"
  shows "Parse_15_04 (pad0 2 (nat_str h) @ '':'' @ pad0 2 (nat_str m)) = Some (h, m)"
  using assms by (simp add: pad0_two_digits Parse_15_04_def del: One_nat_def)

lemma NewTimeOfDay_print:
  assumes "tod_wf t" "tod_isValid t"
  shows "NewTimeOfDay (TimeOfDay_String t) = Inr t"
proof -
  define h m where hm: "h = nat (tod_hour t)" "m = nat (tod_minute t)"
  with assms have b: "h < 24" "m < 60" "tod_hour t = int h" "tod_minute t = int m"
    by (auto simp: tod_wf_def)
  have p: "TimeOfDay_String t = pad0 2 (nat_str h) @ '':'' @ pad0 2 (nat_str m)"
    using assms b by (simp add: TimeOfDay_String_def Itoa_def)
  have "TrimSpace (TimeOfDay_String t) = TimeOfDay_String t"
    using TrimSpace_digits [of "digit_char (h div 10)" "digit_char (m mod 10)"
        "[digit_char (h mod 10), CHR '':'', digit_char (m div 10)]"] b
    by (simp add: p pad0_two_digits)
  then show ?thesis
    using Parse_15_04_print [OF b(1,2)] assms b
    by (simp add: NewTimeOfDay_def Let_def p)
qed

end
