(* ===== verification/GoTime.thy ===== *)
theory GoTime
  imports GoStrings
begin

text \<open>
  The parts of Go's \<^verbatim>\<open>time\<close> package that the sources use. A \<^verbatim>\<open>time.Time\<close> is the number of
  nanoseconds since 0001-01-01T00:00:00Z, Go's zero time, so \<^verbatim>\<open>IsZero\<close> is \<open>t = 0\<close> and
  \<^verbatim>\<open>Truncate(d)\<close> (which rounds down to a multiple of \<open>d\<close> since the zero time) is a
  remainder. \<^verbatim>\<open>UTC()\<close> does not change the instant and is the identity; calendar
  functions read the instant in UTC, as the sources do after calling \<^verbatim>\<open>UTC()\<close>.
  The calendar is the proleptic Gregorian one: \<open>days_before y\<close> is the number of days
  before the first of January of the year \<open>y\<close>, \<open>year_of\<close> inverts it.
\<close>

type_synonym time = int
type_synonym duration = int

definition Second :: duration where "Second = 1000000000"
definition Minute :: duration where "Minute = 60 * Second"
definition Hour :: duration where "Hour = 60 * Minute"
definition Day :: duration where "Day = 24 * Hour"

lemmas time_units = Second_def Minute_def Hour_def Day_def

lemma Day_pos [simp]: "0 < Day"
  by (simp add: time_units)

lemma Day_nonzero [simp]: "Day \<noteq> 0"
  by (simp add: time_units)

definition IsZero :: "time \<Rightarrow> bool" where
  "IsZero t = (t = 0)"

definition Truncate :: "time \<Rightarrow> duration \<Rightarrow> time" where
  "Truncate t d = t - t mod d"

definition day_of :: "time \<Rightarrow> int" where
  "day_of t = t div Day"

definition hour_of :: "time \<Rightarrow> int" where
  "hour_of t = (t mod Day) div Hour"

definition minute_of :: "time \<Rightarrow> int" where
  "minute_of t = (t mod Hour) div Minute"

text \<open>\<^verbatim>\<open>Weekday\<close>, Sunday is \<open>0\<close>; the zero time is a Monday.\<close>

definition Weekday :: "time \<Rightarrow> int" where
  "Weekday t = (day_of t + 1) mod 7"

section \<open>Years\<close>

definition days_before :: "int \<Rightarrow> int" where
  "days_before y = 365 * (y - 1) + (y - 1) div 4 - (y - 1) div 100 + (y - 1) div 400"

definition leap :: "int \<Rightarrow> bool" where
  "leap y = (y mod 4 = 0 \<and> y mod 100 \<noteq> 0 \<or> y mod 400 = 0)"

definition year_of :: "int \<Rightarrow> int" where
  "year_of d =
     (let n400 = d div 146097; d1 = d mod 146097;
          n100 = d1 div 36524 - d1 div 36524 div 4; d2 = d1 - 36524 * n100;
          n4 = d2 div 1461; d3 = d2 mod 1461;
          n1 = d3 div 365 - d3 div 365 div 4
      in 400 * n400 + 100 * n100 + 4 * n4 + n1 + 1)"

text \<open>\<open>YearDay\<close> counted from \<open>0\<close>.\<close>

definition yday_of :: "int \<Rightarrow> int" where
  "yday_of d = d - days_before (year_of d)"

lemma div_succ:
  fixes z n :: int
  assumes "0 < n"
  shows "(z + 1) div n = z div n + (if (z + 1) mod n = 0 then 1 else 0)"
proof (cases "z mod n = n - 1")
  case True
  then have eq: "z + 1 = n * (z div n + 1) + 0"
    using mult_div_mod_eq [of n z] by (simp add: distrib_left)
  show ?thesis using int_div_pos_eq [OF eq] int_mod_pos_eq [OF eq] assms by simp
next
  case False
  then have r: "z mod n + 1 < n" "0 \<le> z mod n"
    using pos_mod_bound [OF assms, of z] pos_mod_sign [OF assms, of z] by linarith+
  have eq: "z + 1 = n * (z div n) + (z mod n + 1)" using mult_div_mod_eq [of n z] by simp
  show ?thesis using int_div_pos_eq [OF eq] int_mod_pos_eq [OF eq] r by simp
qed

lemma days_before_Suc: "days_before (y + 1) = days_before y + (if leap y then 366 else 365)"
proof -
  have m: "y mod 100 = 0 \<Longrightarrow> y mod 4 = 0" "y mod 400 = 0 \<Longrightarrow> y mod 100 = 0"
    by (auto simp: mod_eq_0_iff_dvd elim: dvd_trans [rotated])
  have step: "y div k = (y - 1) div k + (if y mod k = 0 then 1 else 0)" if "0 < k" for k
    using div_succ [OF that, of "y - 1"] by simp
  have arith: "365 * y + (A + (if p then 1 else 0)) - (B + (if q then 1 else 0)) + (C + (if r then 1 else 0))
      = 365 * (y - 1) + A - B + C + (if p \<and> \<not> q \<or> r then 366 else 365)"
    if "q \<Longrightarrow> p" "r \<Longrightarrow> q" for A B C :: int and p q r
    using that by auto
  have "days_before (y + 1) = 365 * y + y div 4 - y div 100 + y div 400"
    by (simp only: days_before_def add_diff_cancel_right')
  also have "\<dots> = 365 * y + ((y - 1) div 4 + (if y mod 4 = 0 then 1 else 0))
      - ((y - 1) div 100 + (if y mod 100 = 0 then 1 else 0))
      + ((y - 1) div 400 + (if y mod 400 = 0 then 1 else 0))"
    by (subst step [of 4], simp, subst step [of 100], simp, subst step [of 400], simp, rule refl)
  also have "\<dots> = days_before y + (if leap y then 366 else 365)"
    unfolding days_before_def leap_def by (rule arith [OF m])
  finally show ?thesis .
qed

lemma days_before_cycles:
  assumes "0 \<le> b" "b \<le> 3" "0 \<le> c" "c \<le> 24" "0 \<le> e" "e \<le> 3"
  shows "days_before (400 * a + 100 * b + 4 * c + e + 1) = 146097 * a + 36524 * b + 1461 * c + 365 * e"
proof -
  have "(400 * a + 100 * b + 4 * c + e) div 4 = 100 * a + 25 * b + c"
    "(400 * a + 100 * b + 4 * c + e) div 100 = 4 * a + b"
    "(400 * a + 100 * b + 4 * c + e) div 400 = a"
    using assms
      int_div_pos_eq [of _ 4 "100 * a + 25 * b + c" e]
      int_div_pos_eq [of _ 100 "4 * a + b" "4 * c + e"]
      int_div_pos_eq [of _ 400 a "100 * b + 4 * c + e"]
    by simp_all
  then show ?thesis by (simp add: days_before_def)
qed

text \<open>The quotient of a range of five blocks, with the last one folded into the fourth.\<close>

lemma fold_last_block:
  fixes x n :: int
  assumes "0 \<le> x" "x < 5 * n" "0 < n" and q: "q = x div n - x div n div 4"
  shows "0 \<le> q \<and> q \<le> 3 \<and> n * q \<le> x \<and> (q < 3 \<longrightarrow> x < n * q + n)"
proof -
  define k where "k = x div n"
  have x: "n * k \<le> x" "x < n * k + n"
    using mult_div_mod_eq [of n x] pos_mod_bound [OF assms(3), of x] pos_mod_sign [OF assms(3), of x]
    unfolding k_def by linarith+
  have "0 \<le> k" using assms by (simp add: k_def pos_imp_zdiv_nonneg_iff)
  moreover have "k < 5"
  proof (rule ccontr)
    assume "\<not> k < 5"
    then have "n * 5 \<le> n * k" using assms(3) by simp
    then show False using x(1) assms(2) by linarith
  qed
  ultimately have "k = 0 \<or> k = 1 \<or> k = 2 \<or> k = 3 \<or> k = 4" by linarith
  then show ?thesis unfolding q k_def [symmetric] using x assms(3) by (elim disjE) simp_all
qed

lemma year_of_bounds: "days_before (year_of d) \<le> d \<and> d < days_before (year_of d + 1)"
proof -
  define a where "a = d div 146097"
  define d1 where "d1 = d mod 146097"
  define b where "b = d1 div 36524 - d1 div 36524 div 4"
  define d2 where "d2 = d1 - 36524 * b"
  define c where "c = d2 div 1461"
  define d3 where "d3 = d2 mod 1461"
  define e where "e = d3 div 365 - d3 div 365 div 4"
  have y: "year_of d = 400 * a + 100 * b + 4 * c + e + 1"
    by (simp add: year_of_def Let_def a_def d1_def b_def d2_def c_def d3_def e_def)
  have d1: "0 \<le> d1" "d1 < 146097" "d = 146097 * a + d1" by (simp_all add: d1_def a_def)
  then have b: "0 \<le> b" "b \<le> 3" "0 \<le> d2" "b < 3 \<longrightarrow> d2 < 36524" "d2 < 36525"
    using fold_last_block [OF _ _ _ b_def] by (auto simp: d2_def)
  have c: "d2 = 1461 * c + d3" "0 \<le> d3" "d3 < 1461" by (simp_all add: c_def d3_def)
  have c': "0 \<le> c" "c \<le> 24" using b c by linarith+
  have e: "0 \<le> e" "e \<le> 3" "365 * e \<le> d3" "e < 3 \<longrightarrow> d3 < 365 * e + 365"
    using fold_last_block [OF _ _ _ e_def] c by auto
  have eq: "d = days_before (year_of d) + (d3 - 365 * e)"
    using d1(3) c(1) days_before_cycles [OF b(1,2) c' e(1,2), of a] unfolding y d2_def by simp
  have len: "d3 - 365 * e < (if leap (year_of d) then 366 else 365)"
  proof (cases "d3 - 365 * e < 365")
    case False
    then have 3: "e = 3" "d3 = 1460" using e c by linarith+
    then have c24: "c = 24 \<Longrightarrow> b = 3" using b c by auto
    have 4: "year_of d mod 4 = 0" using y 3 by (simp add: mod_eq_0_iff_dvd)
    have "leap (year_of d)"
    proof (cases "c = 24")
      case True
      then have "year_of d = 400 * (a + 1)" using y 3 c24 by simp
      then show ?thesis by (simp add: leap_def)
    next
      case False
      have "year_of d = 100 * (4 * a + b) + 4 * (c + 1)" using y 3 by simp
      then have "year_of d mod 100 = 4 * (c + 1)" using c' False
        by (intro int_mod_pos_eq [of _ _ "4 * a + b"]) simp_all
      then show ?thesis using 4 c' by (simp add: leap_def)
    qed
    then show ?thesis using 3 by simp
  qed auto
  show ?thesis using eq len e(3) by (simp add: days_before_Suc)
qed

lemma days_before_mono: "x < y \<Longrightarrow> days_before (x + 1) \<le> days_before y"
proof -
  assume "x < y"
  then have "x + 1 \<le> y" by simp
  then show ?thesis by (induction rule: int_ge_induct) (auto simp: days_before_Suc)
qed

lemma year_of_eqI: "days_before y \<le> d \<Longrightarrow> d < days_before (y + 1) \<Longrightarrow> year_of d = y"
  using year_of_bounds [of d] days_before_mono [of y "year_of d"] days_before_mono [of "year_of d" y]
  by (cases "year_of d = y") (auto simp: neq_iff)

lemma yday_of_bounds: "0 \<le> yday_of d" "yday_of d < (if leap (year_of d) then 366 else 365)"
  using year_of_bounds [of d] by (auto simp: yday_of_def days_before_Suc split: if_splits)


section \<open>Months and dates\<close>

text \<open>Days of the year before month \<open>m\<close> (January is \<open>1\<close>).\<close>

definition month_start :: "bool \<Rightarrow> int \<Rightarrow> int" where
  "month_start l m =
     (let k = (if l then 1 else 0) in
      if m \<le> 1 then 0 else if m = 2 then 31 else if m = 3 then 59 + k else if m = 4 then 90 + k
      else if m = 5 then 120 + k else if m = 6 then 151 + k else if m = 7 then 181 + k
      else if m = 8 then 212 + k else if m = 9 then 243 + k else if m = 10 then 273 + k
      else if m = 11 then 304 + k else if m = 12 then 334 + k else 365 + k)"

definition month_of_yday :: "bool \<Rightarrow> int \<Rightarrow> int" where
  "month_of_yday l d =
     (let k = (if l then 1 else 0) in
      if d < 31 then 1 else if d < 59 + k then 2 else if d < 90 + k then 3 else if d < 120 + k then 4
      else if d < 151 + k then 5 else if d < 181 + k then 6 else if d < 212 + k then 7
      else if d < 243 + k then 8 else if d < 273 + k then 9 else if d < 304 + k then 10
      else if d < 334 + k then 11 else 12)"

definition month_of :: "int \<Rightarrow> int" where
  "month_of d = month_of_yday (leap (year_of d)) (yday_of d)"

definition mday_of :: "int \<Rightarrow> int" where
  "mday_of d = yday_of d - month_start (leap (year_of d)) (month_of d) + 1"

text \<open>
  \<^verbatim>\<open>time.Date(y, m, d, \<dots>)\<close> as a day number: a month outside 1..12 is carried into the
  year, a day outside the month into the following ones.
\<close>

definition Date_day :: "int \<Rightarrow> int \<Rightarrow> int \<Rightarrow> int" where
  "Date_day y m d =
     (let y' = y + (m - 1) div 12; m' = (m - 1) mod 12 + 1
      in days_before y' + month_start (leap y') m' + d - 1)"

definition AddDate :: "time \<Rightarrow> int \<Rightarrow> int \<Rightarrow> int \<Rightarrow> time" where
  "AddDate t ys ms ds =
     (let d = day_of t
      in Date_day (year_of d + ys) (month_of d + ms) (mday_of d + ds) * Day + t mod Day)"

lemma month_of_yday_bounds:
  assumes "0 \<le> d" "d < (if l then 366 else 365)"
  shows "1 \<le> month_of_yday l d \<and> month_of_yday l d \<le> 12
    \<and> month_start l (month_of_yday l d) \<le> d \<and> d < month_start l (month_of_yday l d + 1)"
  using assms unfolding month_of_yday_def month_start_def Let_def
  by (cases l) (simp_all split: if_splits)

lemma month_of_yday_eqI:
  assumes "1 \<le> m" "m \<le> 12" "month_start l m \<le> d" "d < month_start l (m + 1)"
  shows "month_of_yday l d = m"
proof -
  have "m = 1 \<or> m = 2 \<or> m = 3 \<or> m = 4 \<or> m = 5 \<or> m = 6 \<or> m = 7 \<or> m = 8 \<or> m = 9 \<or> m = 10
      \<or> m = 11 \<or> m = 12" using assms(1,2) by presburger
  then show ?thesis using assms(3,4) unfolding month_of_yday_def month_start_def Let_def
    by (cases l) (elim disjE; simp)+
qed

lemma month_start_end: "month_start l 13 = (if l then 366 else 365)" "month_start l 1 = 0"
  by (simp_all add: month_start_def)

lemma month_start_bounds: "0 \<le> month_start l m" "month_start l m \<le> (if l then 366 else 365)"
  unfolding month_start_def Let_def by simp_all

lemma month_of_bounds:
  "1 \<le> month_of d" "month_of d \<le> 12"
  "month_start (leap (year_of d)) (month_of d) \<le> yday_of d"
  "yday_of d < month_start (leap (year_of d)) (month_of d + 1)"
  using month_of_yday_bounds [OF yday_of_bounds [of d]] by (simp_all add: month_of_def)

lemma mday_of_pos: "1 \<le> mday_of d"
  using month_of_bounds(3) [of d] by (simp add: mday_of_def)

lemma Date_day_valid:
  "1 \<le> m \<Longrightarrow> m \<le> 12 \<Longrightarrow> Date_day y m d = days_before y + month_start (leap y) m + d - 1"
  by (simp add: Date_day_def Let_def div_pos_pos_trivial mod_pos_pos_trivial)

lemma Date_day_next_month:
  assumes "1 \<le> m" "m \<le> 12"
  shows "Date_day y (m + 1) 1 = days_before y + month_start (leap y) (m + 1)"
proof (cases "m = 12")
  case True
  then show ?thesis by (simp add: Date_day_def Let_def month_start_end days_before_Suc)
next
  case False
  then show ?thesis using assms Date_day_valid [of "m + 1" y 1] by simp
qed

text \<open>\<open>Date\<close> and the calendar fields are inverse to each other.\<close>

lemma Date_day_of: "Date_day (year_of d) (month_of d) (mday_of d) = d"
  using month_of_bounds [of d] by (simp add: Date_day_valid mday_of_def yday_of_def)

lemma fields_of_Date_day:
  assumes "1 \<le> m" "m \<le> 12" "1 \<le> k" "k \<le> month_start (leap y) (m + 1) - month_start (leap y) m"
  shows "year_of (Date_day y m k) = y" "month_of (Date_day y m k) = m" "mday_of (Date_day y m k) = k"
proof -
  let ?d = "Date_day y m k"
  have d: "?d = days_before y + month_start (leap y) m + k - 1"
    using assms Date_day_valid by simp
  show y: "year_of ?d = y"
    using assms d month_start_bounds(1) [of "leap y" m] month_start_bounds(2) [of "leap y" "m + 1"]
    by (intro year_of_eqI) (simp_all add: days_before_Suc)
  then have yd: "yday_of ?d = month_start (leap y) m + k - 1" by (simp add: yday_of_def d)
  show m: "month_of ?d = m"
    unfolding month_of_def y using assms yd by (intro month_of_yday_eqI) simp_all
  show "mday_of ?d = k" unfolding mday_of_def y m yd by simp
qed

lemma AddDate_days: "AddDate t 0 0 n = t + n * Day"
proof -
  let ?d = "day_of t"
  have "Date_day (year_of ?d) (month_of ?d) (mday_of ?d + n) = ?d + n"
    using Date_day_of [of ?d] by (simp add: Date_day_def Let_def)
  then have "AddDate t 0 0 n = (?d + n) * Day + t mod Day" by (simp add: AddDate_def Let_def)
  also have "\<dots> = t + n * Day"
    using div_mult_mod_eq [of t Day] by (simp add: day_of_def distrib_right)
  finally show ?thesis .
qed

lemma Truncate_Day: "Truncate t Day = day_of t * Day"
  by (simp add: Truncate_def day_of_def minus_mod_eq_div_mult)

lemma day_of_mult [simp]: "day_of (d * Day) = d"
  by (simp add: day_of_def)

lemma day_of_bounds: "day_of t * Day \<le> t" "t < (day_of t + 1) * Day"
  using div_mult_mod_eq [of t Day] pos_mod_bound [OF Day_pos, of t] pos_mod_sign [OF Day_pos, of t]
  unfolding day_of_def distrib_right by linarith+

lemma minute_of_day_bounds: "0 \<le> hour_of t * 60 + minute_of t" "hour_of t * 60 + minute_of t < 1440"
proof -
  have quot: "0 \<le> (t mod (k * n)) div n \<and> (t mod (k * n)) div n < k" if "0 < n" "0 < k" for n k :: int
  proof
    have kn: "0 < k * n" using that by simp
    show "0 \<le> (t mod (k * n)) div n"
      using that pos_mod_sign [OF kn, of t] by (simp add: pos_imp_zdiv_nonneg_iff)
    have "(t mod (k * n)) div n * n \<le> t mod (k * n)"
      using pos_mod_sign [OF that(1), of "t mod (k * n)"] by (simp only: minus_mod_eq_div_mult [symmetric])
    also have "\<dots> < k * n" by (rule pos_mod_bound [OF kn])
    finally show "(t mod (k * n)) div n < k" using that(1) by simp
  qed
  have "0 < Hour" "0 < Minute" by (simp_all add: time_units)
  then have "0 \<le> hour_of t" "hour_of t < 24" "0 \<le> minute_of t" "minute_of t < 60"
    using quot [of Hour 24] quot [of Minute 60]
    unfolding hour_of_def minute_of_def Day_def [symmetric] Hour_def [symmetric] by simp_all
  then show "0 \<le> hour_of t * 60 + minute_of t" "hour_of t * 60 + minute_of t < 1440" by linarith+
qed

section \<open>ISO weeks and formats\<close>

text \<open>
  \<^verbatim>\<open>ISOWeek\<close>: the year and the number of the week that holds the Thursday of the same
  Monday-to-Sunday week.
\<close>

definition thursday_of :: "int \<Rightarrow> int" where
  "thursday_of d = d - d mod 7 + 3"

definition ISOWeek :: "time \<Rightarrow> int \<times> int" where
  "ISOWeek t = (let th = thursday_of (day_of t) in (year_of th, yday_of th div 7 + 1))"

definition fmt_nat :: "nat \<Rightarrow> int \<Rightarrow> string" where
  "fmt_nat w i = pad0 w (nat_str (nat i))"

text \<open>The layouts \<^verbatim>\<open>2006-01-02\<close> and \<^verbatim>\<open>2006-01\<close>.\<close>

definition Format_date :: "time \<Rightarrow> string" where
  "Format_date t =
     (let d = day_of t in fmt_nat 4 (year_of d) @ ''-'' @ fmt_nat 2 (month_of d) @ ''-'' @ fmt_nat 2 (mday_of d))"

definition Format_month :: "time \<Rightarrow> string" where
  "Format_month t = (let d = day_of t in fmt_nat 4 (year_of d) @ ''-'' @ fmt_nat 2 (month_of d))"

lemma year_of_pos: "0 \<le> d \<Longrightarrow> 1 \<le> year_of d"
proof (rule ccontr)
  assume "0 \<le> d" "\<not> 1 \<le> year_of d"
  then have "days_before (year_of d + 1) \<le> days_before 1" using days_before_mono [of "year_of d" 1] by simp
  then show False using year_of_bounds [of d] \<open>0 \<le> d\<close> by (simp add: days_before_def)
qed

lemma digits_only_fmt_nat [simp]: "digits_only (fmt_nat w i)"
  by (simp add: fmt_nat_def)

lemma fmt_nat_inject: "0 \<le> i \<Longrightarrow> 0 \<le> j \<Longrightarrow> fmt_nat w i = fmt_nat w j \<longleftrightarrow> i = j"
  by (auto simp: fmt_nat_def)

lemma fmt_nat_dash_inject:
  "0 \<le> i \<Longrightarrow> 0 \<le> j \<Longrightarrow> fmt_nat w i @ CHR ''-'' # s = fmt_nat w j @ CHR ''-'' # t \<longleftrightarrow> i = j \<and> s = t"
  by (simp add: digits_sep_inject fmt_nat_inject)

lemma Format_month_inject:
  assumes "0 \<le> s" "0 \<le> t"
  shows "Format_month s = Format_month t \<longleftrightarrow>
    year_of (day_of s) = year_of (day_of t) \<and> month_of (day_of s) = month_of (day_of t)"
proof -
  have "0 \<le> day_of s" "0 \<le> day_of t" using assms by (simp_all add: day_of_def pos_imp_zdiv_nonneg_iff)
  then have "0 \<le> year_of (day_of s)" "0 \<le> year_of (day_of t)" using year_of_pos by fastforce+
  moreover have "0 \<le> month_of d" for d using month_of_bounds(1) [of d] by linarith
  ultimately show ?thesis
    by (simp add: Format_month_def Let_def fmt_nat_dash_inject fmt_nat_inject)
qed

lemma Format_date_inject:
  assumes "0 \<le> s" "0 \<le> t"
  shows "Format_date s = Format_date t \<longleftrightarrow> day_of s = day_of t"
proof -
  have "0 \<le> day_of s" "0 \<le> day_of t" using assms by (simp_all add: day_of_def pos_imp_zdiv_nonneg_iff)
  then have "0 \<le> year_of (day_of s)" "0 \<le> year_of (day_of t)" using year_of_pos by fastforce+
  moreover have "0 \<le> month_of d" "0 \<le> mday_of d" for d
    using month_of_bounds(1) [of d] mday_of_pos [of d] by linarith+
  ultimately have "Format_date s = Format_date t \<longleftrightarrow>
      year_of (day_of s) = year_of (day_of t) \<and> month_of (day_of s) = month_of (day_of t)
      \<and> mday_of (day_of s) = mday_of (day_of t)"
    by (simp add: Format_date_def Let_def fmt_nat_dash_inject fmt_nat_inject)
  then show ?thesis using Date_day_of by metis
qed

lemma ISOWeek_inject: "ISOWeek s = ISOWeek t \<longleftrightarrow> thursday_of (day_of s) = thursday_of (day_of t)"
proof
  let ?a = "thursday_of (day_of s)" and ?b = "thursday_of (day_of t)"
  assume "ISOWeek s = ISOWeek t"
  then have y: "year_of ?a = year_of ?b" and w: "yday_of ?a div 7 = yday_of ?b div 7"
    by (simp_all add: ISOWeek_def Let_def)
  have th: "thursday_of d = 7 * (d div 7) + 3" for d
    by (simp only: thursday_of_def minus_mod_eq_mult_div)
  have "?a - ?b = 7 * (day_of s div 7 - day_of t div 7)"
    by (simp only: th right_diff_distrib add_diff_cancel_right)
  then have "7 dvd ?a - ?b" by (rule dvdI)
  moreover have "?a - ?b = yday_of ?a - yday_of ?b" using y by (simp add: yday_of_def)
  moreover have "\<bar>p - q\<bar> < 7" if "p div 7 = q div 7" for p q :: int
    using that mult_div_mod_eq [of 7 p] mult_div_mod_eq [of 7 q]
      pos_mod_bound [of 7 p] pos_mod_bound [of 7 q] pos_mod_sign [of 7 p] pos_mod_sign [of 7 q] by linarith
  ultimately have "\<bar>?a - ?b\<bar> < 7" "7 dvd ?a - ?b" using w by simp_all
  then obtain k where "?a - ?b = 7 * k" "\<bar>7 * k\<bar> < 7" by (auto elim!: dvdE)
  moreover from this(2) have "k = 0" by presburger
  ultimately show "?a = ?b" by simp
qed (simp add: ISOWeek_def)

end
