(* ===== verification/Lifecycle.thy ===== *)
theory Lifecycle
  imports GoTime GoErrors
begin

text \<open>
  The contract that the lifecycle of limits and of rules share. A provider offers
  \<open>set_status\<close>, which returns the entity and an error; the laws say that a refused request
  changes nothing, that a request for the present status changes nothing, that an accepted
  request follows the transition table, that the deletion time is recorded exactly on
  entry to the deleted status, and that no transition leaves that status. From these the
  locale derives what holds after any sequence of requests.
\<close>

locale lifecycle =
  fixes set_status :: "'e \<Rightarrow> 's \<Rightarrow> time \<Rightarrow> 'e \<times> goerr option"
    and status :: "'e \<Rightarrow> 's"
    and deleted_at :: "'e \<Rightarrow> time option"
    and allowed :: "'s \<Rightarrow> 's list"
    and deleted :: 's
  assumes refused: "snd (set_status x s t) \<noteq> None \<Longrightarrow> fst (set_status x s t) = x"
    and same: "status x = s \<Longrightarrow> fst (set_status x s t) = x"
    and accepted: "snd (set_status x s t) = None \<Longrightarrow> status (fst (set_status x s t)) = s"
    and table: "snd (set_status x s t) = None \<Longrightarrow> status x \<noteq> s \<Longrightarrow> s \<in> set (allowed (status x))"
    and stamp: "snd (set_status x s t) = None \<Longrightarrow> status x \<noteq> s \<Longrightarrow>
      deleted_at (fst (set_status x s t)) = (if s = deleted then Some t else None)"
    and terminal: "allowed deleted = []"
begin

primrec run :: "'e \<Rightarrow> ('s \<times> time) list \<Rightarrow> 'e" where
  "run x [] = x"
| "run x (r # rs) = run (fst (set_status x (fst r) (snd r))) rs"

definition deletion_recorded :: "'e \<Rightarrow> bool" where
  "deletion_recorded x = (deleted_at x \<noteq> None \<longleftrightarrow> status x = deleted)"

lemma set_status_cases:
  obtains "fst (set_status x s t) = x"
  | "status (fst (set_status x s t)) = s" "s \<in> set (allowed (status x))" "status x \<noteq> s"
    "deleted_at (fst (set_status x s t)) = (if s = deleted then Some t else None)"
  using refused [of x s t] same [of x s t] accepted [of x s t] table [of x s t] stamp [of x s t] by blast

lemma set_status_recorded: "deletion_recorded x \<Longrightarrow> deletion_recorded (fst (set_status x s t))"
  by (rule set_status_cases [of x s t]) (auto simp: deletion_recorded_def)

lemma set_status_deleted: "status x = deleted \<Longrightarrow> fst (set_status x s t) = x"
  by (rule set_status_cases [of x s t]) (auto simp: terminal)

lemma run_recorded: "deletion_recorded x \<Longrightarrow> deletion_recorded (run x rs)"
  by (induction rs arbitrary: x) (auto intro: set_status_recorded)

lemma run_deleted: "status x = deleted \<Longrightarrow> run x rs = x"
  by (induction rs arbitrary: x) (auto simp: set_status_deleted)

lemma set_status_path:
  "(status x, status (fst (set_status x s t))) \<in> {(a, b). b \<in> set (allowed a)}\<^sup>*"
  by (rule set_status_cases [of x s t]) auto

lemma run_path: "(status x, status (run x rs)) \<in> {(a, b). b \<in> set (allowed a)}\<^sup>*"
proof (induction rs arbitrary: x)
  case (Cons r rs)
  show ?case
    using rtrancl_trans [OF set_status_path Cons.IH] by simp
qed simp

text \<open>An entity whose deletion is not allowed from its status is not deleted by one request.\<close>

lemma not_deleted_directly:
  "status x \<noteq> deleted \<Longrightarrow> deleted \<notin> set (allowed (status x)) \<Longrightarrow>
   status (fst (set_status x s t)) \<noteq> deleted"
  by (rule set_status_cases [of x s t]) auto

end

end
