(* ===== verification/TracerLimit.thy ===== *)
theory TracerLimit
  imports TracerScope TimeOfDay Lifecycle
begin

text \<open>
  Limits of the tracer: \<^verbatim>\<open>components/tracer/pkg/model/limit.go\<close>. The limit entity with its
  constructors, its validation, its update and status methods, the reset times, the time
  window and the custom period, the usage counter value object, the list filter and the
  usage snapshot. \<^verbatim>\<open>uuid.New()\<close> is an argument; the clock is an argument, as in the code.
\<close>

section \<open>Types\<close>

datatype LimitType =
    LimitTypeDaily
  | LimitTypeMonthly
  | LimitTypePerTransaction
  | LimitTypeWeekly
  | LimitTypeCustom
  | OtherLimitType string

datatype LimitStatus =
    LimitStatusDraft
  | LimitStatusActive
  | LimitStatusInactive
  | LimitStatusDeleted
  | OtherLimitStatus string

record Limit =
  lim_ID :: uuid
  lim_Name :: string
  lim_Description :: "string option"
  lim_LimitType :: LimitType
  lim_MaxAmount :: decimal
  lim_Currency :: string
  lim_Scopes :: "Scope list"
  lim_Status :: LimitStatus
  lim_ActiveTimeStart :: "TimeOfDay option"
  lim_ActiveTimeEnd :: "TimeOfDay option"
  lim_CustomStartDate :: "time option"
  lim_CustomEndDate :: "time option"
  lim_ResetAt :: "time option"
  lim_CreatedAt :: time
  lim_UpdatedAt :: time
  lim_DeletedAt :: "time option"

record UsageCounter =
  uc_ID :: uuid
  uc_LimitID :: uuid
  uc_ScopeKey :: string
  uc_PeriodKey :: string
  uc_CurrentUsage :: decimal
  uc_LastUpdatedAt :: time

definition MaxNameLength :: nat where "MaxNameLength = 255"
definition MaxDescriptionLength :: nat where "MaxDescriptionLength = 1000"
definition MaxSubTypeLength :: nat where "MaxSubTypeLength = 50"
definition MaxCustomPeriodYears :: int where "MaxCustomPeriodYears = 5"
definition DefaultPaginationLimit :: int where "DefaultPaginationLimit = 10"
definition MaxPaginationLimit :: int where "MaxPaginationLimit = 100"

definition LimitType_IsValid :: "LimitType \<Rightarrow> bool" where
  "LimitType_IsValid t = (case t of OtherLimitType s \<Rightarrow> False | _ \<Rightarrow> True)"

definition LimitStatus_IsValid :: "LimitStatus \<Rightarrow> bool" where
  "LimitStatus_IsValid s = (case s of OtherLimitStatus x \<Rightarrow> False | _ \<Rightarrow> True)"

section \<open>Reset times\<close>

definition CalculateResetAt :: "LimitType \<Rightarrow> time \<Rightarrow> time option" where
  "CalculateResetAt limitType now =
     (case limitType of
        LimitTypeDaily \<Rightarrow> Some (Truncate now (24 * Hour) + 24 * Hour)
      | LimitTypeMonthly \<Rightarrow>
          (let d = day_of now in Some (Date_day (year_of d) (month_of d + 1) 1 * Day))
      | LimitTypeWeekly \<Rightarrow>
          (let daysUntilMonday = (8 - Weekday now) mod 7;
               daysUntilMonday = (if daysUntilMonday = 0 then 7 else daysUntilMonday)
           in Some (AddDate (Truncate now (24 * Hour)) 0 0 daysUntilMonday))
      | LimitTypePerTransaction \<Rightarrow> None
      | LimitTypeCustom \<Rightarrow> None
      | OtherLimitType s \<Rightarrow> None)"

definition CalculateCustomResetAt :: "time \<Rightarrow> time option" where
  "CalculateCustomResetAt customEndDate = Some (AddDate (Truncate customEndDate (24 * Hour)) 0 0 1)"

section \<open>Field checks\<close>

text \<open>\<^verbatim>\<open>pkg.IsValidCurrency\<close>: upper-case ASCII letters that the ISO 4217 table knows.\<close>

definition IsValidCurrency :: "extlib \<Rightarrow> string \<Rightarrow> bool" where
  "IsValidCurrency lib code =
     (list_all (\<lambda>c. 65 \<le> (of_char c :: nat) \<and> (of_char c :: nat) \<le> 90) code \<and> currency_ParseISO lib code)"

definition validateCurrency :: "extlib \<Rightarrow> string \<Rightarrow> goerr option" where
  "validateCurrency lib currency = err_if (\<not> IsValidCurrency lib currency) ErrLimitInvalidCurrency"

fun validateScopes_loop :: "Scope list \<Rightarrow> goerr option" where
  "validateScopes_loop [] = None"
| "validateScopes_loop (s # ss) =
     (if Scope_IsEmpty s then Some ErrLimitInvalidScope
      else if (case sc_TransactionType s of None \<Rightarrow> False | Some t \<Rightarrow> \<not> TransactionType_IsValid t)
      then Some ErrLimitInvalidScope
      else validateScopes_loop ss)"

definition validateScopes :: "Scope list \<Rightarrow> goerr option" where
  "validateScopes ss = (if length ss = 0 then Some ErrLimitInvalidScope else validateScopes_loop ss)"

text \<open>\<^verbatim>\<open>^[a-zA-Z0-9 \-_.()]+$\<close> and \<^verbatim>\<open>^[^<>]*$\<close>.\<close>

definition safeNameChar :: "char \<Rightarrow> bool" where
  "safeNameChar c =
     (let n = (of_char c :: nat) in
      97 \<le> n \<and> n \<le> 122 \<or> 65 \<le> n \<and> n \<le> 90 \<or> 48 \<le> n \<and> n \<le> 57 \<or> c \<in> set '' -_.()'')"

definition safeNameRegex :: "string \<Rightarrow> bool" where
  "safeNameRegex s = (s \<noteq> [] \<and> list_all safeNameChar s)"

definition safeDescriptionRegex :: "string \<Rightarrow> bool" where
  "safeDescriptionRegex s = list_all (\<lambda>c. c \<noteq> CHR ''<'' \<and> c \<noteq> CHR ''>'') s"

definition validateName :: "string \<Rightarrow> goerr option" where
  "validateName name =
     (if TrimSpace name = '''' then Some ErrLimitNameRequired
      else if MaxNameLength < length name then Some ErrLimitNameTooLong
      else if \<not> safeNameRegex name then Some ErrLimitNameInvalidChars
      else None)"

definition validateMaxAmount :: "decimal \<Rightarrow> goerr option" where
  "validateMaxAmount maxAmount = err_if (maxAmount \<le> 0) ErrLimitInvalidMaxAmount"

definition validateDescription :: "string option \<Rightarrow> goerr option" where
  "validateDescription description =
     (case description of None \<Rightarrow> None
      | Some d \<Rightarrow>
        if MaxDescriptionLength < length d then Some ErrLimitDescriptionTooLong
        else if \<not> safeDescriptionRegex d then Some ErrLimitDescriptionInvalidChars
        else None)"

definition ValidateTimeWindow :: "TimeOfDay option \<Rightarrow> TimeOfDay option \<Rightarrow> goerr option" where
  "ValidateTimeWindow start end =
     (case (start, end) of
        (None, None) \<Rightarrow> None
      | (Some s, Some e) \<Rightarrow> err_if (TimeOfDay_Equal s e) ErrLimitTimeWindowZeroWidth
      | _ \<Rightarrow> Some ErrLimitTimeWindowMismatch)"

definition ValidateCustomPeriod :: "LimitType \<Rightarrow> time option \<Rightarrow> time option \<Rightarrow> time \<Rightarrow> goerr option" where
  "ValidateCustomPeriod limitType startDate endDate now =
     (if limitType = LimitTypeCustom then
        (case (startDate, endDate) of
           (Some startUTC, Some endUTC) \<Rightarrow>
             if \<not> startUTC < endUTC then Some ErrLimitCustomDatesOrder
             else if AddDate startUTC MaxCustomPeriodYears 0 0 < endUTC then Some ErrLimitCustomPeriodTooLong
             else if endUTC < Truncate now (24 * Hour) then Some ErrLimitCustomPeriodExpired
             else None
         | _ \<Rightarrow> Some ErrLimitCustomDatesRequired)
      else err_if (startDate \<noteq> None \<or> endDate \<noteq> None) ErrLimitCustomDatesNotAllowed)"

section \<open>Validation of the entity\<close>

definition validateCustomPeriod :: "Limit \<Rightarrow> goerr option" where
  "validateCustomPeriod l =
     (if lim_LimitType l = LimitTypeCustom then
        (case (lim_CustomStartDate l, lim_CustomEndDate l) of
           (Some startUTC, Some endUTC) \<Rightarrow>
             if \<not> startUTC < endUTC then Some ErrLimitCustomDatesOrder
             else if AddDate startUTC MaxCustomPeriodYears 0 0 < endUTC then Some ErrLimitCustomPeriodTooLong
             else None
         | _ \<Rightarrow> Some ErrLimitCustomDatesRequired)
      else err_if (lim_CustomStartDate l \<noteq> None \<or> lim_CustomEndDate l \<noteq> None) ErrLimitCustomDatesNotAllowed)"

definition validateDeletedAtInvariant :: "Limit \<Rightarrow> goerr option" where
  "validateDeletedAtInvariant l =
     (if lim_Status l = LimitStatusDeleted \<and> lim_DeletedAt l = None then Some ErrLimitDeletedAtInvariant
      else if lim_Status l \<noteq> LimitStatusDeleted \<and> lim_DeletedAt l \<noteq> None then Some ErrLimitDeletedAtInvariant
      else None)"

definition Limit_Validate :: "extlib \<Rightarrow> Limit \<Rightarrow> goerr option" where
  "Limit_Validate lib l =
     first_err
       [validateName (lim_Name l),
        validateDescription (lim_Description l),
        err_if (\<not> LimitType_IsValid (lim_LimitType l)) ErrLimitInvalidType,
        validateMaxAmount (lim_MaxAmount l),
        validateCurrency lib (lim_Currency l),
        validateScopes (lim_Scopes l),
        err_if (\<not> LimitStatus_IsValid (lim_Status l)) ErrLimitInvalidStatusChange,
        ValidateTimeWindow (lim_ActiveTimeStart l) (lim_ActiveTimeEnd l),
        validateCustomPeriod l,
        validateDeletedAtInvariant l]"

section \<open>Constructors\<close>

definition newLimitBase ::
  "uuid \<Rightarrow> string \<Rightarrow> LimitType \<Rightarrow> decimal \<Rightarrow> string \<Rightarrow> Scope list \<Rightarrow> string option \<Rightarrow> time \<Rightarrow> Limit" where
  "newLimitBase newID name limitType maxAmount currency ss description createdAt =
     \<lparr>lim_ID = newID,
      lim_Name = TrimSpace name,
      lim_Description = map_option TrimSpace description,
      lim_LimitType = limitType,
      lim_MaxAmount = maxAmount,
      lim_Currency = ToUpper (TrimSpace currency),
      lim_Scopes = map normalizeScopeSubType ss,
      lim_Status = LimitStatusDraft,
      lim_ActiveTimeStart = None, lim_ActiveTimeEnd = None,
      lim_CustomStartDate = None, lim_CustomEndDate = None,
      lim_ResetAt = None,
      lim_CreatedAt = createdAt, lim_UpdatedAt = createdAt, lim_DeletedAt = None\<rparr>"

definition validated :: "extlib \<Rightarrow> Limit \<Rightarrow> goerr + Limit" where
  "validated lib l = (case Limit_Validate lib l of Some e \<Rightarrow> Inl e | None \<Rightarrow> Inr l)"

definition NewLimit ::
  "extlib \<Rightarrow> uuid \<Rightarrow> string \<Rightarrow> LimitType \<Rightarrow> decimal \<Rightarrow> string \<Rightarrow> Scope list \<Rightarrow> string option \<Rightarrow> time
   \<Rightarrow> goerr + Limit" where
  "NewLimit lib newID name limitType maxAmount currency ss description createdAt =
     validated lib
       ((newLimitBase newID name limitType maxAmount currency ss description createdAt)
          \<lparr>lim_ResetAt := CalculateResetAt limitType createdAt\<rparr>)"

definition NewLimitWithTimeWindow ::
  "extlib \<Rightarrow> uuid \<Rightarrow> string \<Rightarrow> LimitType \<Rightarrow> decimal \<Rightarrow> string \<Rightarrow> Scope list \<Rightarrow> string option
   \<Rightarrow> string \<Rightarrow> string \<Rightarrow> time \<Rightarrow> goerr + Limit" where
  "NewLimitWithTimeWindow lib newID name limitType maxAmount currency ss description
       activeTimeStart activeTimeEnd createdAt =
     (case NewTimeOfDay activeTimeStart of Inl e \<Rightarrow> Inl e
      | Inr startTime \<Rightarrow>
        (case NewTimeOfDay activeTimeEnd of Inl e \<Rightarrow> Inl e
         | Inr endTime \<Rightarrow>
           (case ValidateTimeWindow (Some startTime) (Some endTime) of Some e \<Rightarrow> Inl e
            | None \<Rightarrow>
              validated lib
                ((newLimitBase newID name limitType maxAmount currency ss description createdAt)
                   \<lparr>lim_ActiveTimeStart := Some startTime, lim_ActiveTimeEnd := Some endTime,
                    lim_ResetAt := CalculateResetAt limitType createdAt\<rparr>))))"

definition NewLimitWithCustomPeriod ::
  "extlib \<Rightarrow> uuid \<Rightarrow> string \<Rightarrow> LimitType \<Rightarrow> decimal \<Rightarrow> string \<Rightarrow> Scope list \<Rightarrow> string option
   \<Rightarrow> time \<Rightarrow> time \<Rightarrow> time \<Rightarrow> goerr + Limit" where
  "NewLimitWithCustomPeriod lib newID name limitType maxAmount currency ss description
       customStartDate customEndDate createdAt =
     (case ValidateCustomPeriod limitType (Some customStartDate) (Some customEndDate) createdAt of
        Some e \<Rightarrow> Inl e
      | None \<Rightarrow>
        validated lib
          ((newLimitBase newID name limitType maxAmount currency ss description createdAt)
             \<lparr>lim_CustomStartDate := Some customStartDate, lim_CustomEndDate := Some customEndDate,
              lim_ResetAt := CalculateCustomResetAt customEndDate\<rparr>))"

definition NewLimitWithCustomPeriodAndTimeWindow ::
  "extlib \<Rightarrow> uuid \<Rightarrow> string \<Rightarrow> LimitType \<Rightarrow> decimal \<Rightarrow> string \<Rightarrow> Scope list \<Rightarrow> string option
   \<Rightarrow> time \<Rightarrow> time \<Rightarrow> string \<Rightarrow> string \<Rightarrow> time \<Rightarrow> goerr + Limit" where
  "NewLimitWithCustomPeriodAndTimeWindow lib newID name limitType maxAmount currency ss description
       customStartDate customEndDate activeTimeStart activeTimeEnd createdAt =
     (case ValidateCustomPeriod limitType (Some customStartDate) (Some customEndDate) createdAt of
        Some e \<Rightarrow> Inl e
      | None \<Rightarrow>
        (case NewTimeOfDay activeTimeStart of Inl e \<Rightarrow> Inl e
         | Inr startTime \<Rightarrow>
           (case NewTimeOfDay activeTimeEnd of Inl e \<Rightarrow> Inl e
            | Inr endTime \<Rightarrow>
              (case ValidateTimeWindow (Some startTime) (Some endTime) of Some e \<Rightarrow> Inl e
               | None \<Rightarrow>
                 validated lib
                   ((newLimitBase newID name limitType maxAmount currency ss description createdAt)
                      \<lparr>lim_CustomStartDate := Some customStartDate, lim_CustomEndDate := Some customEndDate,
                       lim_ResetAt := CalculateCustomResetAt customEndDate,
                       lim_ActiveTimeStart := Some startTime, lim_ActiveTimeEnd := Some endTime\<rparr>)))))"

section \<open>Update and status\<close>

text \<open>
  \<open>Limit_Update\<close> checks and assigns one field after the other, so a failing check leaves
  the earlier assignments in place; the flag \<^verbatim>\<open>updated\<close> is the second component.
\<close>

definition upd_window :: "TimeOfDay option \<Rightarrow> TimeOfDay option \<Rightarrow> Limit \<times> bool \<Rightarrow> (Limit \<times> bool) \<times> goerr option" where
  "upd_window start end s =
     (if start \<noteq> None \<or> end \<noteq> None then
        guarded (ValidateTimeWindow start end)
          (\<lambda>(l, u). (l\<lparr>lim_ActiveTimeStart := start, lim_ActiveTimeEnd := end\<rparr>, True)) s
      else (s, None))"

definition upd_period :: "time option \<Rightarrow> time option \<Rightarrow> time \<Rightarrow> Limit \<times> bool \<Rightarrow> (Limit \<times> bool) \<times> goerr option" where
  "upd_period start end now s =
     (if start \<noteq> None \<or> end \<noteq> None then
        guarded (ValidateCustomPeriod (lim_LimitType (fst s)) start end now)
          (\<lambda>(l, u).
             (l\<lparr>lim_CustomStartDate := start, lim_CustomEndDate := end,
                lim_ResetAt := (case end of Some e \<Rightarrow> CalculateCustomResetAt e | None \<Rightarrow> lim_ResetAt l)\<rparr>, True)) s
      else (s, None))"

definition Limit_Update ::
  "Limit \<Rightarrow> string option \<Rightarrow> decimal option \<Rightarrow> string option \<Rightarrow> Scope list option
   \<Rightarrow> TimeOfDay option \<Rightarrow> TimeOfDay option \<Rightarrow> time option \<Rightarrow> time option \<Rightarrow> time \<Rightarrow> Limit \<times> goerr option" where
  "Limit_Update l name maxAmount description ss activeTimeStart activeTimeEnd customStartDate customEndDate now =
     (let body =
        andThen (ifSome name (\<lambda>n. guarded (validateName (TrimSpace n))
                   (\<lambda>(l, u). (l\<lparr>lim_Name := TrimSpace n\<rparr>, True))))
       (andThen (ifSome maxAmount (\<lambda>m. guarded (validateMaxAmount m)
                   (\<lambda>(l, u). (l\<lparr>lim_MaxAmount := m\<rparr>, True))))
       (andThen (ifSome description (\<lambda>d. guarded (validateDescription (Some (TrimSpace d)))
                   (\<lambda>(l, u). (l\<lparr>lim_Description := Some (TrimSpace d)\<rparr>, True))))
       (andThen (ifSome ss (\<lambda>xs. guarded (validateScopes xs)
                   (\<lambda>(l, u). (l\<lparr>lim_Scopes := map normalizeScopeSubType xs\<rparr>, True))))
       (andThen (upd_window activeTimeStart activeTimeEnd)
                (upd_period customStartDate customEndDate now)))))
      in case body (l, False) of
           ((l', updated), Some e) \<Rightarrow> (l', Some e)
         | ((l', updated), None) \<Rightarrow> (if updated then l'\<lparr>lim_UpdatedAt := now\<rparr> else l', None))"

fun validStatusTransitions :: "LimitStatus \<Rightarrow> LimitStatus list" where
  "validStatusTransitions LimitStatusDraft = [LimitStatusActive, LimitStatusDeleted]"
| "validStatusTransitions LimitStatusActive = [LimitStatusInactive]"
| "validStatusTransitions LimitStatusInactive = [LimitStatusActive, LimitStatusDraft, LimitStatusDeleted]"
| "validStatusTransitions LimitStatusDeleted = []"
| "validStatusTransitions (OtherLimitStatus s) = []"

definition Limit_SetStatus :: "Limit \<Rightarrow> LimitStatus \<Rightarrow> time \<Rightarrow> Limit \<times> goerr option" where
  "Limit_SetStatus l status now =
     (if \<not> LimitStatus_IsValid status then (l, Some ErrLimitInvalidStatusChange)
      else if lim_Status l = status then (l, None)
      else if status \<notin> set (validStatusTransitions (lim_Status l)) then (l, Some ErrLimitInvalidStatusChange)
      else (l\<lparr>lim_Status := status, lim_UpdatedAt := now,
              lim_DeletedAt := (if status = LimitStatusDeleted then Some now else None)\<rparr>, None))"

definition Limit_IsActive :: "Limit \<Rightarrow> bool" where
  "Limit_IsActive l = (lim_Status l = LimitStatusActive)"

section \<open>Time window and custom period\<close>

definition IsWithinTimeWindow :: "Limit \<Rightarrow> time \<Rightarrow> bool" where
  "IsWithinTimeWindow l timestamp =
     (case (lim_ActiveTimeStart l, lim_ActiveTimeEnd l) of
        (Some start, Some end) \<Rightarrow>
          (let currentMins = hour_of timestamp * 60 + minute_of timestamp;
               startMins = MinutesSinceMidnight start;
               endMins = MinutesSinceMidnight end
           in if startMins < endMins then startMins \<le> currentMins \<and> currentMins < endMins
              else startMins \<le> currentMins \<or> currentMins < endMins)
      | _ \<Rightarrow> True)"

definition IsWithinCustomPeriod :: "Limit \<Rightarrow> time \<Rightarrow> bool" where
  "IsWithinCustomPeriod l timestamp =
     (if lim_LimitType l \<noteq> LimitTypeCustom then True
      else (case (lim_CustomStartDate l, lim_CustomEndDate l) of
              (Some start, Some end) \<Rightarrow> \<not> timestamp < start \<and> timestamp < end
            | _ \<Rightarrow> True))"

section \<open>Usage counters as values\<close>

definition NewUsageCounter :: "uuid \<Rightarrow> uuid \<Rightarrow> string \<Rightarrow> string \<Rightarrow> time \<Rightarrow> goerr + UsageCounter" where
  "NewUsageCounter newID limitID scopeKey periodKey createdAt =
     (if limitID = uuid_Nil then Inl ErrUsageCounterLimitIDRequired
      else if TrimSpace scopeKey = '''' then Inl ErrUsageCounterScopeKeyRequired
      else if TrimSpace periodKey = '''' then Inl ErrUsageCounterPeriodKeyRequired
      else Inr \<lparr>uc_ID = newID, uc_LimitID = limitID, uc_ScopeKey = TrimSpace scopeKey,
                uc_PeriodKey = TrimSpace periodKey, uc_CurrentUsage = 0, uc_LastUpdatedAt = createdAt\<rparr>)"

definition UsageCounter_Increment :: "UsageCounter \<Rightarrow> decimal \<Rightarrow> time \<Rightarrow> UsageCounter \<times> goerr option" where
  "UsageCounter_Increment u amount now =
     (if amount < 0 then (u, Some ErrUsageCounterIncrementNonNegative)
      else if amount = 0 then (u, None)
      else (u\<lparr>uc_CurrentUsage := uc_CurrentUsage u + amount, uc_LastUpdatedAt := now\<rparr>, None))"

definition UsageCounter_Validate :: "UsageCounter \<Rightarrow> goerr option" where
  "UsageCounter_Validate u =
     first_err
       [err_if (uc_LimitID u = uuid_Nil) ErrUsageCounterLimitIDRequired,
        err_if (TrimSpace (uc_ScopeKey u) = '''') ErrUsageCounterScopeKeyRequired,
        err_if (TrimSpace (uc_PeriodKey u) = '''') ErrUsageCounterPeriodKeyRequired,
        err_if (uc_CurrentUsage u < 0) ErrUsageCounterCurrentUsageNegative]"

section \<open>List filter\<close>

record ListLimitsFilter =
  llf_Name :: "string option"
  llf_Status :: "LimitStatus option"
  llf_LimitType :: "LimitType option"
  llf_Currency :: "string option"
  llf_ScopeFilter :: "Scope option"
  llf_Limit :: int
  llf_Cursor :: string
  llf_SortBy :: string
  llf_SortOrder :: string

definition IsValidLimitSortField :: "string \<Rightarrow> bool" where
  "IsValidLimitSortField field = (field \<in> set [''name'', ''created_at'', ''updated_at'', ''max_amount''])"

definition ListLimitsFilter_ApplyDefaults :: "ListLimitsFilter \<Rightarrow> ListLimitsFilter" where
  "ListLimitsFilter_ApplyDefaults f =
     f\<lparr>llf_Limit := (if llf_Limit f \<le> 0 then DefaultPaginationLimit
                     else if MaxPaginationLimit < llf_Limit f then MaxPaginationLimit
                     else llf_Limit f),
       llf_SortBy := (if llf_SortBy f = '''' then ''created_at'' else llf_SortBy f),
       llf_SortOrder := (if llf_SortOrder f = '''' then ''desc'' else ToLower (llf_SortOrder f))\<rparr>"

definition ListLimitsFilter_Validate :: "ListLimitsFilter \<Rightarrow> goerr option" where
  "ListLimitsFilter_Validate f =
     first_err
       [err_if (case llf_Status f of None \<Rightarrow> False | Some s \<Rightarrow> \<not> LimitStatus_IsValid s) ErrLimitInvalidStatusFilter,
        err_if (case llf_LimitType f of None \<Rightarrow> False | Some t \<Rightarrow> \<not> LimitType_IsValid t) ErrLimitInvalidTypeFilter,
        err_if (llf_Limit f \<le> 0) ErrPaginationLimitInvalid,
        err_if (MaxPaginationLimit < llf_Limit f) ErrPaginationLimitExceeded,
        err_if (llf_SortBy f \<noteq> '''' \<and> \<not> IsValidLimitSortField (llf_SortBy f)) ErrInvalidSortColumn,
        err_if (llf_SortOrder f \<noteq> '''' \<and> ToLower (llf_SortOrder f) \<noteq> ''asc'' \<and>
                ToLower (llf_SortOrder f) \<noteq> ''desc'') ErrInvalidSortOrder]"

section \<open>Usage snapshot\<close>

record UsageSnapshot =
  us_LimitID :: uuid
  us_CurrentUsage :: decimal
  us_LimitAmount :: decimal
  us_UtilizationPercent :: rat
  us_NearLimit :: bool
  us_ResetAt :: "time option"

definition NearLimitThreshold :: rat where "NearLimitThreshold = 80"

definition NewUsageSnapshot :: "extlib \<Rightarrow> Limit \<Rightarrow> UsageCounter list \<Rightarrow> UsageSnapshot" where
  "NewUsageSnapshot lib limit counters =
     (let currentUsage = (if lim_LimitType limit \<noteq> LimitTypePerTransaction
                          then fold (\<lambda>c acc. acc + uc_CurrentUsage c) counters 0 else 0);
          utilizationPercent = (if 0 < lim_MaxAmount limit
                                then dec_Float64 lib (dec_Div lib currentUsage (lim_MaxAmount limit) * 100)
                                else 0)
      in \<lparr>us_LimitID = lim_ID limit,
          us_CurrentUsage = currentUsage,
          us_LimitAmount = lim_MaxAmount limit,
          us_UtilizationPercent = utilizationPercent,
          us_NearLimit = (NearLimitThreshold < utilizationPercent),
          us_ResetAt = (if lim_LimitType limit \<noteq> LimitTypePerTransaction then lim_ResetAt limit else None)\<rparr>)"

section \<open>Reset times are the next period boundary\<close>

text \<open>The day on which a new period of the limit type begins.\<close>

definition period_boundary :: "LimitType \<Rightarrow> int \<Rightarrow> bool" where
  "period_boundary lt d =
     (case lt of
        LimitTypeDaily \<Rightarrow> True
      | LimitTypeWeekly \<Rightarrow> Weekday (d * Day) = 1
      | LimitTypeMonthly \<Rightarrow> mday_of d = 1
      | _ \<Rightarrow> False)"

definition reset_day :: "LimitType \<Rightarrow> int \<Rightarrow> int" where
  "reset_day lt d =
     (case lt of
        LimitTypeDaily \<Rightarrow> d + 1
      | LimitTypeWeekly \<Rightarrow> d + 7 - d mod 7
      | _ \<Rightarrow> days_before (year_of d) + month_start (leap (year_of d)) (month_of d + 1))"

lemma Hour24: "24 * Hour = Day"
  by (simp add: Day_def)

lemma split7: obtains q r :: int where "d = 7 * q + r" "0 \<le> r" "r < 7" "d mod 7 = r"
proof (rule that [of "d div 7" "d mod 7"])
qed simp_all

lemma days_until_monday:
  fixes d :: int
  shows "(if (8 - (d + 1) mod 7) mod 7 = 0 then 7 else (8 - (d + 1) mod 7) mod 7) = 7 - d mod 7"
proof -
  define r where "r = d mod 7"
  have "(d + 1) mod 7 = (r + 1) mod 7" by (simp add: r_def mod_add_left_eq)
  moreover have "0 \<le> r" "r < 7" by (simp_all add: r_def)
  then have "r = 0 \<or> r = 1 \<or> r = 2 \<or> r = 3 \<or> r = 4 \<or> r = 5 \<or> r = 6" by linarith
  ultimately show ?thesis unfolding r_def [symmetric] by (elim disjE) simp_all
qed

lemma CalculateResetAt_reset_day:
  assumes "lt \<in> {LimitTypeDaily, LimitTypeWeekly, LimitTypeMonthly}"
  shows "CalculateResetAt lt now = Some (reset_day lt (day_of now) * Day)"
proof -
  let ?d = "day_of now"
  have "Truncate now Day + Day = (?d + 1) * Day" by (simp add: Truncate_Day distrib_right)
  moreover have "AddDate (Truncate now Day) 0 0 (7 - ?d mod 7) = (?d + 7 - ?d mod 7) * Day"
    by (simp add: AddDate_days Truncate_Day left_diff_distrib distrib_right)
  moreover have "Date_day (year_of ?d) (month_of ?d + 1) 1
      = days_before (year_of ?d) + month_start (leap (year_of ?d)) (month_of ?d + 1)"
    using month_of_bounds(1,2) by (rule Date_day_next_month)
  ultimately show ?thesis
    using assms days_until_monday [of ?d]
    by (auto simp: CalculateResetAt_def reset_day_def Hour24 Weekday_def Let_def)
qed

lemma Weekday_midnight: "Weekday (d * Day) = 1 \<longleftrightarrow> d mod 7 = 0"
proof -
  have "(d + 1) mod 7 = (d mod 7 + 1) mod 7" by (simp add: mod_add_left_eq)
  moreover have "0 \<le> d mod 7" "d mod 7 < 7" by simp_all
  then have "d mod 7 = 0 \<or> d mod 7 = 1 \<or> d mod 7 = 2 \<or> d mod 7 = 3 \<or> d mod 7 = 4 \<or> d mod 7 = 5 \<or> d mod 7 = 6"
    by linarith
  ultimately show ?thesis by (auto simp: Weekday_def)
qed

lemma reset_day_later: "d < reset_day lt d"
proof (cases "lt = LimitTypeDaily \<or> lt = LimitTypeWeekly")
  case True
  have "d mod 7 < 7" by simp
  with True show ?thesis by (auto simp: reset_day_def)
next
  case False
  then have "reset_day lt d = days_before (year_of d) + month_start (leap (year_of d)) (month_of d + 1)"
    by (cases lt) (simp_all add: reset_day_def)
  then show ?thesis using month_of_bounds(4) [of d] by (simp add: yday_of_def)
qed

lemma mday_of_month_start:
  assumes "1 \<le> m" "m \<le> 12"
  shows "mday_of (days_before y + month_start (leap y) m) = 1"
proof -
  have "m = 1 \<or> m = 2 \<or> m = 3 \<or> m = 4 \<or> m = 5 \<or> m = 6 \<or> m = 7 \<or> m = 8 \<or> m = 9 \<or> m = 10
      \<or> m = 11 \<or> m = 12" using assms by presburger
  then have "month_start (leap y) m < month_start (leap y) (m + 1)"
    by (elim disjE) (simp_all add: month_start_def)
  then show ?thesis
    using fields_of_Date_day(3) [of m 1 y] assms by (simp add: Date_day_valid)
qed

lemma reset_day_boundary:
  assumes "lt \<in> {LimitTypeDaily, LimitTypeWeekly, LimitTypeMonthly}"
  shows "period_boundary lt (reset_day lt d)"
proof -
  have w: "(d + 7 - d mod 7) mod 7 = 0"
  proof -
    obtain q r where "d = 7 * q + r" "d mod 7 = r" by (rule split7 [of d]) blast
    then have "d + 7 - d mod 7 = 7 * (q + 1)" by simp
    then show ?thesis by (simp only: mod_mult_self1_is_0)
  qed
  have m: "mday_of (days_before (year_of d) + month_start (leap (year_of d)) (month_of d + 1)) = 1"
  proof (cases "month_of d = 12")
    case True
    then show ?thesis
      using mday_of_month_start [of 1 "year_of d + 1"] by (simp add: month_start_end days_before_Suc)
  next
    case False
    then show ?thesis
      using mday_of_month_start [of "month_of d + 1" "year_of d"] month_of_bounds(1,2) [of d] by simp
  qed
  show ?thesis
    using assms w m by (auto simp: period_boundary_def reset_day_def Weekday_midnight)
qed

lemma same_month:
  assumes "d < d'" "d' < days_before (year_of d) + month_start (leap (year_of d)) (month_of d + 1)"
  shows "year_of d' = year_of d" "month_of d' = month_of d" "mday_of d' = mday_of d + (d' - d)"
proof -
  let ?y = "year_of d" and ?m = "month_of d"
  show y: "year_of d' = ?y"
    using assms year_of_bounds [of d] month_start_bounds(2) [of "leap ?y" "?m + 1"]
    by (intro year_of_eqI) (simp_all add: days_before_Suc)
  then show m: "month_of d' = ?m"
    unfolding month_of_def [of d'] y using assms month_of_bounds [of d]
    by (intro month_of_yday_eqI) (simp_all add: yday_of_def y)
  show "mday_of d' = mday_of d + (d' - d)" using y m by (simp add: mday_of_def yday_of_def)
qed

lemma reset_day_least:
  assumes "lt \<in> {LimitTypeDaily, LimitTypeWeekly, LimitTypeMonthly}" "period_boundary lt d'" "d < d'"
  shows "reset_day lt d \<le> d'"
proof -
  have w: "d + 7 - d mod 7 \<le> d'" if "d' mod 7 = 0"
  proof -
    obtain q r where d: "d = 7 * q + r" "0 \<le> r" "d mod 7 = r" by (rule split7 [of d]) blast
    from that have "7 dvd d'" by (rule mod_0_imp_dvd)
    then obtain q' where d': "d' = 7 * q'" by (rule dvdE)
    from assms(3) d(1,2) d' have "q < q'" by linarith
    then show ?thesis unfolding d' d(3) using d(1) by linarith
  qed
  have m: "days_before (year_of d) + month_start (leap (year_of d)) (month_of d + 1) \<le> d'"
    if "mday_of d' = 1"
    using same_month(3) [of d d'] that assms(3) mday_of_pos [of d] by linarith
  show ?thesis
    using assms w m by (auto simp: period_boundary_def reset_day_def Weekday_midnight)
qed

lemma before_reset: "t < reset_day lt (day_of t) * Day"
proof -
  have "(day_of t + 1) * Day \<le> reset_day lt (day_of t) * Day"
    using reset_day_later [of "day_of t" lt] less_imp_le [OF Day_pos]
    by (intro mult_right_mono) simp_all
  then show ?thesis using day_of_bounds(2) [of t] by linarith
qed

lemma after_midnight: "t < d * Day \<Longrightarrow> day_of t < d"
  using day_of_bounds(1) [of t] mult_less_cancel_right_pos [OF Day_pos, of "day_of t" d] by linarith

text \<open>
  The reset time of a daily, weekly or monthly limit is the first midnight after the given
  time at which a new period begins (any day, a Monday, the first of a month).
\<close>

theorem CalculateResetAt_next_boundary:
  assumes "lt \<in> {LimitTypeDaily, LimitTypeWeekly, LimitTypeMonthly}"
  shows "\<exists>d. CalculateResetAt lt now = Some (d * Day) \<and> period_boundary lt d \<and> now < d * Day
      \<and> (\<forall>d'. period_boundary lt d' \<and> now < d' * Day \<longrightarrow> d \<le> d')"
proof (intro exI conjI)
  let ?d = "reset_day lt (day_of now)"
  show "CalculateResetAt lt now = Some (?d * Day)" by (rule CalculateResetAt_reset_day [OF assms])
  show "period_boundary lt ?d" by (rule reset_day_boundary [OF assms])
  show "now < ?d * Day" by (rule before_reset)
  show "\<forall>d'. period_boundary lt d' \<and> now < d' * Day \<longrightarrow> ?d \<le> d'"
    using reset_day_least [OF assms] after_midnight by blast
qed

theorem CalculateResetAt_next_boundary_witness:
  "\<exists>d. CalculateResetAt LimitTypeWeekly 0 = Some (d * Day) \<and> period_boundary LimitTypeWeekly d \<and> 0 < d * Day
      \<and> (\<forall>d'. period_boundary LimitTypeWeekly d' \<and> 0 < d' * Day \<longrightarrow> d \<le> d')"
  by (rule CalculateResetAt_next_boundary) simp

section \<open>Validity is kept\<close>

lemma validateScopes_loop_None:
  "validateScopes_loop ss = None \<longleftrightarrow>
     (\<forall>s \<in> set ss. \<not> Scope_IsEmpty s \<and> (\<forall>t. sc_TransactionType s = Some t \<longrightarrow> TransactionType_IsValid t))"
  by (induction ss) (auto split: option.splits)

lemma validateScopes_normalize [simp]:
  "validateScopes ss = None \<Longrightarrow> validateScopes (map normalizeScopeSubType ss) = None"
  by (simp add: validateScopes_def validateScopes_loop_None split: if_splits)

lemma ValidateCustomPeriod_keeps:
  "ValidateCustomPeriod (lim_LimitType l) start end now = None \<Longrightarrow>
   validateCustomPeriod (l\<lparr>lim_CustomStartDate := start, lim_CustomEndDate := end, lim_ResetAt := r\<rparr>) = None"
  by (auto simp: ValidateCustomPeriod_def validateCustomPeriod_def split: option.splits if_splits)

lemma validateCustomPeriod_update [simp]:
  "validateCustomPeriod (l\<lparr>lim_Name := n\<rparr>) = validateCustomPeriod l"
  "validateCustomPeriod (l\<lparr>lim_MaxAmount := m\<rparr>) = validateCustomPeriod l"
  "validateCustomPeriod (l\<lparr>lim_Description := d\<rparr>) = validateCustomPeriod l"
  "validateCustomPeriod (l\<lparr>lim_Scopes := ss\<rparr>) = validateCustomPeriod l"
  "validateCustomPeriod (l\<lparr>lim_ActiveTimeStart := a, lim_ActiveTimeEnd := b\<rparr>) = validateCustomPeriod l"
  "validateCustomPeriod (l\<lparr>lim_UpdatedAt := t\<rparr>) = validateCustomPeriod l"
  "validateCustomPeriod (l\<lparr>lim_Status := st, lim_UpdatedAt := t, lim_DeletedAt := dt\<rparr>) = validateCustomPeriod l"
  by (simp_all add: validateCustomPeriod_def)

lemma validateDeletedAtInvariant_None:
  "validateDeletedAtInvariant l = None \<longleftrightarrow> (lim_DeletedAt l \<noteq> None \<longleftrightarrow> lim_Status l = LimitStatusDeleted)"
  by (auto simp: validateDeletedAtInvariant_def)

lemma Limit_Validate_None:
  "Limit_Validate lib l = None \<longleftrightarrow>
     validateName (lim_Name l) = None \<and> validateDescription (lim_Description l) = None \<and>
     LimitType_IsValid (lim_LimitType l) \<and> validateMaxAmount (lim_MaxAmount l) = None \<and>
     validateCurrency lib (lim_Currency l) = None \<and> validateScopes (lim_Scopes l) = None \<and>
     LimitStatus_IsValid (lim_Status l) \<and>
     ValidateTimeWindow (lim_ActiveTimeStart l) (lim_ActiveTimeEnd l) = None \<and>
     validateCustomPeriod l = None \<and> (lim_DeletedAt l \<noteq> None \<longleftrightarrow> lim_Status l = LimitStatusDeleted)"
  by (simp add: Limit_Validate_def validateDeletedAtInvariant_None del: first_err.simps)

lemma Limit_Validate_fields [inv_intros]:
  assumes "Limit_Validate lib l = None"
  shows "validateName n = None \<Longrightarrow> Limit_Validate lib (l\<lparr>lim_Name := n\<rparr>) = None"
    and "validateMaxAmount m = None \<Longrightarrow> Limit_Validate lib (l\<lparr>lim_MaxAmount := m\<rparr>) = None"
    and "validateDescription d = None \<Longrightarrow> Limit_Validate lib (l\<lparr>lim_Description := d\<rparr>) = None"
    and "validateScopes ss = None \<Longrightarrow> Limit_Validate lib (l\<lparr>lim_Scopes := map normalizeScopeSubType ss\<rparr>) = None"
    and "ValidateTimeWindow a b = None \<Longrightarrow>
      Limit_Validate lib (l\<lparr>lim_ActiveTimeStart := a, lim_ActiveTimeEnd := b\<rparr>) = None"
    and "ValidateCustomPeriod (lim_LimitType l) p q now = None \<Longrightarrow>
      Limit_Validate lib (l\<lparr>lim_CustomStartDate := p, lim_CustomEndDate := q, lim_ResetAt := r\<rparr>) = None"
    and "Limit_Validate lib (l\<lparr>lim_UpdatedAt := t\<rparr>) = None"
  using assms unfolding Limit_Validate_None
  by (simp_all add: ValidateCustomPeriod_keeps)

lemma upd_window_valid:
  "Limit_Validate lib (fst s) = None \<Longrightarrow> Limit_Validate lib (fst (fst (upd_window a b s))) = None"
  by (auto simp: upd_window_def guarded_def split_beta split: option.splits intro: inv_intros)

lemma ValidateCustomPeriod_one_date [simp]:
  "ValidateCustomPeriod lt (Some y) None now \<noteq> None"
  by (simp add: ValidateCustomPeriod_def)

lemma upd_period_valid:
  "Limit_Validate lib (fst s) = None \<Longrightarrow> Limit_Validate lib (fst (fst (upd_period a b now s))) = None"
  by (auto simp: upd_period_def guarded_def split_beta split: option.splits intro: Limit_Validate_fields(6))

lemma Limit_Update_valid:
  assumes "Limit_Validate lib l = None"
  shows "Limit_Validate lib (fst (Limit_Update l name maxAmount description ss ats ate csd ced now)) = None"
proof -
  let ?P = "\<lambda>s. Limit_Validate lib (fst s) = None"
  define body where "body =
    andThen (ifSome name (\<lambda>n. guarded (validateName (TrimSpace n))
               (\<lambda>(l, u). (l\<lparr>lim_Name := TrimSpace n\<rparr>, True))))
   (andThen (ifSome maxAmount (\<lambda>m. guarded (validateMaxAmount m)
               (\<lambda>(l, u). (l\<lparr>lim_MaxAmount := m\<rparr>, True))))
   (andThen (ifSome description (\<lambda>d. guarded (validateDescription (Some (TrimSpace d)))
               (\<lambda>(l, u). (l\<lparr>lim_Description := Some (TrimSpace d)\<rparr>, True))))
   (andThen (ifSome ss (\<lambda>xs. guarded (validateScopes xs)
               (\<lambda>(l, u). (l\<lparr>lim_Scopes := map normalizeScopeSubType xs\<rparr>, True))))
   (andThen (upd_window ats ate) (upd_period csd ced now)))))"
  have "?P (fst (body (l, False)))"
    unfolding body_def
    by (intro andThen_inv [where P = ?P] ifSome_inv [where P = ?P] guarded_inv [where P = ?P]
        upd_window_valid upd_period_valid)
      (simp_all add: assms split_beta Limit_Validate_fields)
  then show ?thesis
    unfolding Limit_Update_def Let_def body_def [symmetric]
    by (cases "body (l, False)") (auto simp: Limit_Validate_fields(7) split: option.splits prod.splits)
qed

lemma Limit_SetStatus_valid:
  assumes "Limit_Validate lib l = None"
  shows "Limit_Validate lib (fst (Limit_SetStatus l status now)) = None"
  using assms unfolding Limit_Validate_None
  by (simp add: Limit_SetStatus_def)

lemma validated_Inr: "validated lib l = Inr l' \<longleftrightarrow> l' = l \<and> Limit_Validate lib l = None"
  by (auto simp: validated_def split: option.splits)

section \<open>Lifecycle\<close>

lemma Limit_SetStatus_cases:
  obtains (unchanged) "fst (Limit_SetStatus l s t) = l" "snd (Limit_SetStatus l s t) \<noteq> None \<or> lim_Status l = s"
  | (changed) "LimitStatus_IsValid s" "lim_Status l \<noteq> s" "s \<in> set (validStatusTransitions (lim_Status l))"
    "Limit_SetStatus l s t =
      (l\<lparr>lim_Status := s, lim_UpdatedAt := t,
         lim_DeletedAt := (if s = LimitStatusDeleted then Some t else None)\<rparr>, None)"
proof (cases "LimitStatus_IsValid s \<and> lim_Status l \<noteq> s \<and> s \<in> set (validStatusTransitions (lim_Status l))")
  case True
  then show ?thesis by (intro changed) (simp_all add: Limit_SetStatus_def)
next
  case False
  then show ?thesis by (intro unchanged) (auto simp: Limit_SetStatus_def)
qed

interpretation limits: lifecycle Limit_SetStatus lim_Status lim_DeletedAt validStatusTransitions LimitStatusDeleted
proof
  fix x s t
  show "snd (Limit_SetStatus x s t) \<noteq> None \<Longrightarrow> fst (Limit_SetStatus x s t) = x"
    by (rule Limit_SetStatus_cases [of x s t]) simp_all
  show "lim_Status x = s \<Longrightarrow> fst (Limit_SetStatus x s t) = x"
    by (rule Limit_SetStatus_cases [of x s t]) simp_all
  show "snd (Limit_SetStatus x s t) = None \<Longrightarrow> lim_Status (fst (Limit_SetStatus x s t)) = s"
    by (rule Limit_SetStatus_cases [of x s t]) simp_all
  show "snd (Limit_SetStatus x s t) = None \<Longrightarrow> lim_Status x \<noteq> s \<Longrightarrow> s \<in> set (validStatusTransitions (lim_Status x))"
    by (rule Limit_SetStatus_cases [of x s t]) simp_all
  show "snd (Limit_SetStatus x s t) = None \<Longrightarrow> lim_Status x \<noteq> s \<Longrightarrow>
      lim_DeletedAt (fst (Limit_SetStatus x s t)) = (if s = LimitStatusDeleted then Some t else None)"
    by (rule Limit_SetStatus_cases [of x s t]) simp_all
qed simp

text \<open>
  A valid limit stays valid: whatever the arguments of \<open>Update\<close> (also when it returns an
  error after some fields were assigned) and of \<open>SetStatus\<close>.
\<close>

theorem limit_operations_keep_valid:
  assumes "Limit_Validate lib l = None"
  shows "Limit_Validate lib (fst (Limit_Update l name maxAmount description ss ats ate csd ced now)) = None
    \<and> Limit_Validate lib (fst (Limit_SetStatus l status now)) = None"
  using Limit_Update_valid [OF assms] Limit_SetStatus_valid [OF assms] by blast

definition sample_limit :: Limit where
  "sample_limit =
     \<lparr>lim_ID = 1, lim_Name = ''cap'', lim_Description = None, lim_LimitType = LimitTypeDaily, lim_MaxAmount = 1000,
      lim_Currency = ''USD'',
      lim_Scopes = [\<lparr>sc_SegmentID = None, sc_PortfolioID = None, sc_AccountID = Some 7, sc_MerchantID = None,
                    sc_TransactionType = None, sc_SubType = None\<rparr>],
      lim_Status = LimitStatusDraft, lim_ActiveTimeStart = None, lim_ActiveTimeEnd = None,
      lim_CustomStartDate = None, lim_CustomEndDate = None, lim_ResetAt = None,
      lim_CreatedAt = 0, lim_UpdatedAt = 0, lim_DeletedAt = None\<rparr>"

lemma sample_limit_valid: "Limit_Validate exact_lib sample_limit = None"
  by code_simp

theorem limit_operations_keep_valid_witness:
  "Limit_Validate exact_lib
     (fst (Limit_Update sample_limit (Some ''new'') (Some (-1)) None None None None None None 5)) = None
   \<and> Limit_Validate exact_lib (fst (Limit_SetStatus sample_limit LimitStatusDeleted 5)) = None"
  by (rule limit_operations_keep_valid [OF sample_limit_valid])

definition apply_status_requests :: "Limit \<Rightarrow> (LimitStatus \<times> time) list \<Rightarrow> Limit" where
  "apply_status_requests l requests = fold (\<lambda>(s, t) l. fst (Limit_SetStatus l s t)) requests l"

lemma apply_status_requests_run: "apply_status_requests l requests = limits.run l requests"
  unfolding apply_status_requests_def by (induction requests arbitrary: l) auto

text \<open>
  Status requests, any number of them, accepted or refused: the deletion time is recorded
  exactly while the limit is deleted, a deleted limit is never changed again, and the status
  moves along the transition table.
\<close>

theorem limit_lifecycle:
  assumes "lim_DeletedAt l \<noteq> None \<longleftrightarrow> lim_Status l = LimitStatusDeleted"
  shows "let l' = apply_status_requests l requests in
    (lim_DeletedAt l' \<noteq> None \<longleftrightarrow> lim_Status l' = LimitStatusDeleted) \<and>
    (lim_Status l = LimitStatusDeleted \<longrightarrow> l' = l) \<and>
    (lim_Status l, lim_Status l') \<in> {(a, b). b \<in> set (validStatusTransitions a)}\<^sup>*"
  using limits.run_recorded [of l requests] limits.run_deleted [of l requests] limits.run_path [of l requests] assms
  unfolding Let_def apply_status_requests_run limits.deletion_recorded_def by blast

theorem limit_lifecycle_witness:
  "let l' = apply_status_requests sample_limit [(LimitStatusActive, 1), (LimitStatusDeleted, 2), (LimitStatusInactive, 3)] in
    (lim_DeletedAt l' \<noteq> None \<longleftrightarrow> lim_Status l' = LimitStatusDeleted) \<and>
    (lim_Status sample_limit = LimitStatusDeleted \<longrightarrow> l' = sample_limit) \<and>
    (lim_Status sample_limit, lim_Status l') \<in> {(a, b). b \<in> set (validStatusTransitions a)}\<^sup>*"
  by (rule limit_lifecycle) (simp add: sample_limit_def)

section \<open>The daily time window\<close>

lemma mod_1440: "0 \<le> a \<Longrightarrow> a < 1440 \<Longrightarrow> 0 \<le> b \<Longrightarrow> b < 1440 \<Longrightarrow>
    (a - b) mod 1440 = (if b \<le> a then a - b else a - b + (1440 :: int))"
  using mod_pos_pos_trivial [of "a - b" 1440] mod_pos_pos_trivial [of "a - b + 1440" 1440] mod_add_self2 [of "a - b" 1440]
  by (cases "b \<le> a") simp_all

text \<open>
  The window is the half-open circular interval from its start to its end: a time is inside
  when its distance after the start, modulo one day, is less than the length of the window. This
  covers windows that pass midnight.
\<close>

theorem IsWithinTimeWindow_circular:
  assumes "lim_ActiveTimeStart l = Some s" "lim_ActiveTimeEnd l = Some e" "tod_wf s" "tod_wf e"
    and "TimeOfDay_IsZero s = TimeOfDay_IsZero e"
    and "ValidateTimeWindow (lim_ActiveTimeStart l) (lim_ActiveTimeEnd l) = None"
  shows "IsWithinTimeWindow l t \<longleftrightarrow>
    (hour_of t * 60 + minute_of t - MinutesSinceMidnight s) mod 1440
      < (MinutesSinceMidnight e - MinutesSinceMidnight s) mod 1440"
proof -
  let ?c = "hour_of t * 60 + minute_of t" and ?s = "MinutesSinceMidnight s" and ?e = "MinutesSinceMidnight e"
  have ne: "?s \<noteq> ?e"
    using assms by (auto simp: ValidateTimeWindow_def TimeOfDay_Equal_def TimeOfDay_IsZero_def)
  have b: "0 \<le> ?c" "?c < 1440" "0 \<le> ?s" "?s < 1440" "0 \<le> ?e" "?e < 1440"
    using minute_of_day_bounds [of t] MinutesSinceMidnight_bounds assms(3,4) by simp_all
  have "IsWithinTimeWindow l t \<longleftrightarrow> (if ?s < ?e then ?s \<le> ?c \<and> ?c < ?e else ?s \<le> ?c \<or> ?c < ?e)"
    by (simp add: IsWithinTimeWindow_def assms(1,2) Let_def)
  also have "\<dots> \<longleftrightarrow> (?c - ?s) mod 1440 < (?e - ?s) mod 1440"
    using b ne by (auto simp: mod_1440)
  finally show ?thesis .
qed

definition sample_night_limit :: Limit where
  "sample_night_limit = sample_limit
     \<lparr>lim_ActiveTimeStart := Some \<lparr>tod_hour = 20, tod_minute = 0, tod_isValid = True\<rparr>,
      lim_ActiveTimeEnd := Some \<lparr>tod_hour = 6, tod_minute = 0, tod_isValid = True\<rparr>\<rparr>"

theorem IsWithinTimeWindow_circular_witness:
  "IsWithinTimeWindow sample_night_limit (23 * Hour) \<longleftrightarrow>
    (hour_of (23 * Hour) * 60 + minute_of (23 * Hour)
       - MinutesSinceMidnight \<lparr>tod_hour = 20, tod_minute = 0, tod_isValid = True\<rparr>) mod 1440
      < (MinutesSinceMidnight \<lparr>tod_hour = 6, tod_minute = 0, tod_isValid = True\<rparr>
         - MinutesSinceMidnight \<lparr>tod_hour = 20, tod_minute = 0, tod_isValid = True\<rparr>) mod 1440"
  by (rule IsWithinTimeWindow_circular)
    (simp_all add: sample_night_limit_def sample_limit_def tod_wf_def TimeOfDay_IsZero_def
      ValidateTimeWindow_def TimeOfDay_Equal_def MinutesSinceMidnight_def)

section \<open>Filters and snapshots\<close>

lemma ListLimitsFilter_ApplyDefaults_bounds:
  "0 < llf_Limit (ListLimitsFilter_ApplyDefaults f)"
  "llf_Limit (ListLimitsFilter_ApplyDefaults f) \<le> MaxPaginationLimit"
  by (simp_all add: ListLimitsFilter_ApplyDefaults_def DefaultPaginationLimit_def MaxPaginationLimit_def)

lemma ToLower_eq_Nil [simp]: "ToLower s = [] \<longleftrightarrow> s = []"
  by (simp add: ToLower_def)

lemma ListLimitsFilter_ApplyDefaults_idem:
  "ListLimitsFilter_ApplyDefaults (ListLimitsFilter_ApplyDefaults f) = ListLimitsFilter_ApplyDefaults f"
proof -
  have "ToLower ''desc'' = ''desc''" by code_simp
  then show ?thesis
    by (simp add: ListLimitsFilter_ApplyDefaults_def DefaultPaginationLimit_def MaxPaginationLimit_def)
qed

lemma ListLimitsFilter_defaults_validate:
  "ListLimitsFilter_Validate (ListLimitsFilter_ApplyDefaults f) = None \<longleftrightarrow>
     (\<forall>s. llf_Status f = Some s \<longrightarrow> LimitStatus_IsValid s) \<and>
     (\<forall>t. llf_LimitType f = Some t \<longrightarrow> LimitType_IsValid t) \<and>
     (llf_SortBy f = '''' \<or> IsValidLimitSortField (llf_SortBy f)) \<and>
     (llf_SortOrder f = '''' \<or> ToLower (llf_SortOrder f) \<in> {''asc'', ''desc''})"
proof -
  have "ToLower ''desc'' = ''desc''" "IsValidLimitSortField ''created_at''" by code_simp+
  then show ?thesis
    by (auto simp: ListLimitsFilter_Validate_def ListLimitsFilter_ApplyDefaults_def DefaultPaginationLimit_def
        MaxPaginationLimit_def simp del: first_err.simps split: option.splits)
qed

lemma fold_usage: "fold (\<lambda>c acc. acc + uc_CurrentUsage c) cs a = a + (\<Sum>c \<leftarrow> cs. uc_CurrentUsage c)"
  by (induction cs arbitrary: a) (simp_all add: ac_simps)

lemma NewUsageSnapshot_usage:
  "us_CurrentUsage (NewUsageSnapshot lib l cs) =
     (if lim_LimitType l = LimitTypePerTransaction then 0 else \<Sum>c \<leftarrow> cs. uc_CurrentUsage c)"
  by (simp add: NewUsageSnapshot_def Let_def fold_usage)

lemma UsageCounter_Increment_valid:
  "UsageCounter_Validate u = None \<Longrightarrow> UsageCounter_Validate (fst (UsageCounter_Increment u amount now)) = None"
  by (auto simp: UsageCounter_Validate_def UsageCounter_Increment_def simp del: first_err.simps)

lemma NewUsageCounter_valid: "NewUsageCounter i l s p t = Inr u \<Longrightarrow> UsageCounter_Validate u = None"
  by (auto simp: UsageCounter_Validate_def NewUsageCounter_def simp del: first_err.simps split: if_splits)

end
