(* ===== verification/TracerValidation.thy ===== *)
theory TracerValidation
  imports TracerLimit "HOL-Library.List_Lexorder" "HOL-Library.Char_ord"
begin

text \<open>
  The validation request of the tracer and the input and output of a limit check:
  \<^verbatim>\<open>components/tracer/pkg/model/context.go\<close>, \<^verbatim>\<open>validation.go\<close> and \<^verbatim>\<open>check_limits.go\<close>.
  \<^verbatim>\<open>map[string]any\<close> holds \<^typ>\<open>string\<close> keys and JSON values; nil and the empty map are
  told apart (\<open>None\<close>, \<open>Some []\<close>). The package variables \<^verbatim>\<open>ClockSkewTolerance\<close> and
  \<^verbatim>\<open>MaxTimestampAge\<close> have their default values.
\<close>

section \<open>Contexts\<close>

record AccountContext =
  ac_ID :: uuid
  ac_Type :: string
  ac_Status :: string
  ac_Metadata :: metadata

record MerchantContext =
  mc_ID :: uuid
  mc_Name :: string
  mc_Category :: string
  mc_Country :: string
  mc_Metadata :: metadata

record SegmentContext =
  sg_ID :: uuid
  sg_Name :: string
  sg_Metadata :: metadata

record PortfolioContext =
  pf_ID :: uuid
  pf_Name :: string
  pf_Metadata :: metadata

definition metadata_map :: "metadata \<Rightarrow> jany" where
  "metadata_map m = JObj (case m of None \<Rightarrow> [] | Some xs \<Rightarrow> xs)"

definition AccountContext_ToMap :: "extlib \<Rightarrow> AccountContext option \<Rightarrow> metadata" where
  "AccountContext_ToMap lib a =
     map_option (\<lambda>a. [(''accountId'', JStr (uuid_String lib (ac_ID a))), (''type'', JStr (ac_Type a)),
                      (''status'', JStr (ac_Status a)), (''metadata'', metadata_map (ac_Metadata a))]) a"

definition MerchantContext_ToMap :: "extlib \<Rightarrow> MerchantContext option \<Rightarrow> metadata" where
  "MerchantContext_ToMap lib m =
     map_option (\<lambda>m. [(''merchantId'', JStr (uuid_String lib (mc_ID m))), (''name'', JStr (mc_Name m)),
                      (''category'', JStr (mc_Category m)), (''country'', JStr (mc_Country m)),
                      (''metadata'', metadata_map (mc_Metadata m))]) m"

definition SegmentContext_ToMap :: "extlib \<Rightarrow> SegmentContext option \<Rightarrow> metadata" where
  "SegmentContext_ToMap lib s =
     map_option (\<lambda>s. [(''segmentId'', JStr (uuid_String lib (sg_ID s))), (''name'', JStr (sg_Name s)),
                      (''metadata'', metadata_map (sg_Metadata s))]) s"

definition PortfolioContext_ToMap :: "extlib \<Rightarrow> PortfolioContext option \<Rightarrow> metadata" where
  "PortfolioContext_ToMap lib p =
     map_option (\<lambda>p. [(''portfolioId'', JStr (uuid_String lib (pf_ID p))), (''name'', JStr (pf_Name p)),
                      (''metadata'', metadata_map (pf_Metadata p))]) p"

section \<open>Decisions\<close>

datatype Decision = DecisionAllow | DecisionDeny | DecisionReview | OtherDecision string

definition Decision_IsValid :: "Decision \<Rightarrow> bool" where
  "Decision_IsValid d = (case d of OtherDecision s \<Rightarrow> False | _ \<Rightarrow> True)"

definition Decision_String :: "Decision \<Rightarrow> string" where
  "Decision_String d =
     (case d of DecisionAllow \<Rightarrow> ''ALLOW'' | DecisionDeny \<Rightarrow> ''DENY'' | DecisionReview \<Rightarrow> ''REVIEW'' | OtherDecision s \<Rightarrow> s)"

section \<open>Validation requests\<close>

record ValidationRequest =
  vr_RequestID :: uuid
  vr_TransactionType :: TransactionType
  vr_SubType :: "string option"
  vr_Amount :: decimal
  vr_Currency :: string
  vr_TransactionTimestamp :: time
  vr_Account :: AccountContext
  vr_Segment :: "SegmentContext option"
  vr_Portfolio :: "PortfolioContext option"
  vr_Merchant :: "MerchantContext option"
  vr_Metadata :: metadata

definition ClockSkewTolerance :: duration where "ClockSkewTolerance = 1 * Minute"
definition MaxTimestampAge :: duration where "MaxTimestampAge = 24 * Hour"
definition MaxMetadataEntries :: nat where "MaxMetadataEntries = 50"
definition MaxMetadataKeyLength :: nat where "MaxMetadataKeyLength = 64"

text \<open>\<^verbatim>\<open>^[a-zA-Z0-9_]+$\<close>, \<^verbatim>\<open>^\d{4}$\<close> and \<^verbatim>\<open>^[A-Z]{2}$\<close>.\<close>

definition is_upper :: "char \<Rightarrow> bool" where
  "is_upper c = (65 \<le> (of_char c :: nat) \<and> (of_char c :: nat) \<le> 90)"

definition is_lower :: "char \<Rightarrow> bool" where
  "is_lower c = (97 \<le> (of_char c :: nat) \<and> (of_char c :: nat) \<le> 122)"

definition metadataKeyPattern :: "string \<Rightarrow> bool" where
  "metadataKeyPattern s =
     (s \<noteq> [] \<and> list_all (\<lambda>c. is_lower c \<or> is_upper c \<or> isDigit c \<or> c = CHR ''_'') s)"

definition mccPattern :: "string \<Rightarrow> bool" where
  "mccPattern s = (length s = 4 \<and> list_all isDigit s)"

definition countryCodePattern :: "string \<Rightarrow> bool" where
  "countryCodePattern s = (length s = 2 \<and> list_all is_upper s)"

definition validAccountTypes :: "string \<Rightarrow> bool" where
  "validAccountTypes s = (s \<in> set [''checking'', ''savings'', ''credit''])"

definition validAccountStatuses :: "string \<Rightarrow> bool" where
  "validAccountStatuses s = (s \<in> set [''active'', ''suspended'', ''closed''])"

definition validateAmountCurrencyTimestamp :: "extlib \<Rightarrow> ValidationRequest \<Rightarrow> time \<Rightarrow> goerr option" where
  "validateAmountCurrencyTimestamp lib r now =
     first_err
       [err_if (vr_Amount r \<le> 0) ErrValidationAmountNonPositive,
        err_if (vr_Currency r = '''') ErrValidationCurrencyRequired,
        err_if (\<not> IsValidCurrency lib (vr_Currency r)) ErrValidationInvalidCurrency,
        err_if (IsZero (vr_TransactionTimestamp r)) ErrValidationTimestampRequired,
        err_if (now + ClockSkewTolerance < vr_TransactionTimestamp r) ErrValidationTimestampFuture,
        err_if (\<not> now - MaxTimestampAge < vr_TransactionTimestamp r) ErrValidationTimestampPast]"

definition validateOptionalFields :: "ValidationRequest \<Rightarrow> goerr option" where
  "validateOptionalFields r =
     first_err
       [err_if (case vr_SubType r of None \<Rightarrow> False | Some s \<Rightarrow> MaxSubTypeLength < length s) ErrValidationSubTypeTooLong,
        err_if (case vr_Segment r of None \<Rightarrow> False | Some s \<Rightarrow> sg_ID s = uuid_Nil) ErrValidationSegmentIDRequired,
        err_if (case vr_Portfolio r of None \<Rightarrow> False | Some p \<Rightarrow> pf_ID p = uuid_Nil) ErrValidationPortfolioIDRequired,
        err_if (ac_Type (vr_Account r) \<noteq> '''' \<and> \<not> validAccountTypes (ac_Type (vr_Account r)))
          ErrValidationInvalidAccountType,
        err_if (ac_Status (vr_Account r) \<noteq> '''' \<and> \<not> validAccountStatuses (ac_Status (vr_Account r)))
          ErrValidationInvalidAccountStatus]"

definition validateMerchant :: "ValidationRequest \<Rightarrow> goerr option" where
  "validateMerchant r =
     (case vr_Merchant r of None \<Rightarrow> None
      | Some m \<Rightarrow>
        first_err
          [err_if (mc_ID m = uuid_Nil) ErrValidationMerchantIDRequired,
           err_if (mc_Category m \<noteq> '''' \<and> \<not> mccPattern (mc_Category m)) ErrValidationInvalidMerchantCategory,
           err_if (mc_Country m \<noteq> '''' \<and> \<not> countryCodePattern (mc_Country m)) ErrValidationInvalidMerchantCountry])"

fun validateMetadata_keys :: "(string, jany) gomap \<Rightarrow> goerr option" where
  "validateMetadata_keys [] = None"
| "validateMetadata_keys ((key, v) # rest) =
     (if MaxMetadataKeyLength < length key then Some ErrMetadataKeyLengthExceeded
      else if \<not> metadataKeyPattern key then Some ErrMetadataKeyInvalidChars
      else validateMetadata_keys rest)"

definition validateMetadata :: "ValidationRequest \<Rightarrow> goerr option" where
  "validateMetadata r =
     (case vr_Metadata r of None \<Rightarrow> None
      | Some m \<Rightarrow>
        if MaxMetadataEntries < length m then Some ErrMetadataEntriesExceeded else validateMetadata_keys m)"

definition ValidationRequest_Validate :: "extlib \<Rightarrow> ValidationRequest \<Rightarrow> time \<Rightarrow> goerr option" where
  "ValidationRequest_Validate lib r now =
     first_err
       [err_if (vr_RequestID r = uuid_Nil) ErrValidationRequestIDRequired,
        err_if (\<not> TransactionType_IsValid (vr_TransactionType r)) ErrValidationInvalidTransactionType,
        validateAmountCurrencyTimestamp lib r now,
        err_if (ac_ID (vr_Account r) = uuid_Nil) ErrValidationAccountRequired,
        validateOptionalFields r,
        validateMerchant r,
        validateMetadata r]"

definition ValidationRequest_ValidateForReserve :: "extlib \<Rightarrow> ValidationRequest \<Rightarrow> time \<Rightarrow> goerr option" where
  "ValidationRequest_ValidateForReserve lib r now =
     first_err
       [err_if (vr_RequestID r = uuid_Nil) ErrValidationRequestIDRequired,
        validateAmountCurrencyTimestamp lib r now,
        err_if (vr_TransactionType r \<noteq> OtherTransactionType '''' \<and> \<not> TransactionType_IsValid (vr_TransactionType r))
          ErrValidationInvalidTransactionType,
        validateOptionalFields r,
        validateMerchant r,
        validateMetadata r]"

text \<open>The defensive copies of maps and contexts are the maps and contexts themselves here.\<close>

definition NewValidationRequest ::
  "extlib \<Rightarrow> time \<Rightarrow> uuid \<Rightarrow> TransactionType \<Rightarrow> string option \<Rightarrow> decimal \<Rightarrow> string \<Rightarrow> time \<Rightarrow> AccountContext
   \<Rightarrow> SegmentContext option \<Rightarrow> PortfolioContext option \<Rightarrow> MerchantContext option \<Rightarrow> metadata
   \<Rightarrow> goerr + ValidationRequest" where
  "NewValidationRequest lib now requestID transactionType subType amount currency transactionTimestamp
       account segment portfolio merchant meta =
     (let req = \<lparr>vr_RequestID = requestID, vr_TransactionType = transactionType,
                 vr_SubType = normalizeSubTypeRaw subType, vr_Amount = amount,
                 vr_Currency = ToUpper (TrimSpace currency),
                 vr_TransactionTimestamp = transactionTimestamp, vr_Account = account,
                 vr_Segment = segment, vr_Portfolio = portfolio, vr_Merchant = merchant, vr_Metadata = meta\<rparr>
      in case ValidationRequest_Validate lib req now of Some e \<Rightarrow> Inl e | None \<Rightarrow> Inr req)"

definition normalizeAndValidateWith ::
  "ValidationRequest \<Rightarrow> time \<Rightarrow> (ValidationRequest \<Rightarrow> time \<Rightarrow> goerr option) \<Rightarrow> ValidationRequest \<times> goerr option" where
  "normalizeAndValidateWith r now validate =
     (let temp = r\<lparr>vr_SubType := normalizeSubTypeRaw (vr_SubType r)\<rparr>
      in case validate temp now of
           Some e \<Rightarrow> (r, Some e)
         | None \<Rightarrow> (r\<lparr>vr_SubType := vr_SubType temp, vr_Metadata := vr_Metadata temp, vr_Segment := vr_Segment temp,
                      vr_Portfolio := vr_Portfolio temp, vr_Merchant := vr_Merchant temp\<rparr>, None))"

definition NormalizeAndValidate :: "extlib \<Rightarrow> ValidationRequest \<Rightarrow> time \<Rightarrow> ValidationRequest \<times> goerr option" where
  "NormalizeAndValidate lib r now = normalizeAndValidateWith r now (ValidationRequest_Validate lib)"

definition NormalizeAndValidateForReserve :: "extlib \<Rightarrow> ValidationRequest \<Rightarrow> time \<Rightarrow> ValidationRequest \<times> goerr option" where
  "NormalizeAndValidateForReserve lib r now = normalizeAndValidateWith r now (ValidationRequest_ValidateForReserve lib)"

definition transactionTypePtr :: "ValidationRequest \<Rightarrow> TransactionType option" where
  "transactionTypePtr r =
     (if vr_TransactionType r = OtherTransactionType '''' then None else Some (vr_TransactionType r))"

definition ToTransactionScope :: "ValidationRequest \<Rightarrow> Scope" where
  "ToTransactionScope r =
     \<lparr>sc_SegmentID = map_option sg_ID (vr_Segment r),
      sc_PortfolioID = map_option pf_ID (vr_Portfolio r),
      sc_AccountID = Some (ac_ID (vr_Account r)),
      sc_MerchantID = map_option mc_ID (vr_Merchant r),
      sc_TransactionType = transactionTypePtr r,
      sc_SubType = vr_SubType r\<rparr>"

section \<open>Input and output of a limit check\<close>

record CheckLimitsInput =
  cli_Amount :: decimal
  cli_Currency :: string
  cli_AccountID :: uuid
  cli_SegmentID :: "uuid option"
  cli_PortfolioID :: "uuid option"
  cli_MerchantID :: "uuid option"
  cli_TransactionType :: "TransactionType option"
  cli_SubType :: "string option"
  cli_TransactionTimestamp :: time

definition ToCheckLimitsInput :: "ValidationRequest \<Rightarrow> CheckLimitsInput" where
  "ToCheckLimitsInput r =
     \<lparr>cli_Amount = vr_Amount r, cli_Currency = vr_Currency r, cli_AccountID = ac_ID (vr_Account r),
      cli_SegmentID = map_option sg_ID (vr_Segment r),
      cli_PortfolioID = map_option pf_ID (vr_Portfolio r),
      cli_MerchantID = map_option mc_ID (vr_Merchant r),
      cli_TransactionType = transactionTypePtr r, cli_SubType = vr_SubType r,
      cli_TransactionTimestamp = vr_TransactionTimestamp r\<rparr>"

definition cli_validate :: "extlib \<Rightarrow> CheckLimitsInput \<Rightarrow> bool \<Rightarrow> goerr option" where
  "cli_validate lib i requireAccount =
     first_err
       [err_if (cli_Amount i \<le> 0) ErrCheckLimitsInvalidAmount,
        err_if (\<not> IsValidCurrency lib (cli_Currency i)) ErrCheckLimitsInvalidCurrency,
        err_if (requireAccount \<and> cli_AccountID i = uuid_Nil) ErrCheckLimitsInvalidAccountID,
        err_if (cli_SegmentID i = Some uuid_Nil) ErrCheckLimitsInvalidSegmentID,
        err_if (cli_PortfolioID i = Some uuid_Nil) ErrCheckLimitsInvalidPortfolioID,
        err_if (cli_MerchantID i = Some uuid_Nil) ErrCheckLimitsInvalidMerchantID,
        err_if (IsZero (cli_TransactionTimestamp i)) ErrCheckLimitsInvalidTimestamp,
        err_if (case cli_TransactionType i of None \<Rightarrow> False | Some t \<Rightarrow> \<not> TransactionType_IsValid t)
          ErrCheckLimitsInvalidTransactionType,
        err_if (case cli_SubType i of None \<Rightarrow> False | Some s \<Rightarrow> MaxSubTypeLength < length s)
          ErrCheckLimitsInvalidSubType]"

definition CheckLimitsInput_Validate :: "extlib \<Rightarrow> CheckLimitsInput \<Rightarrow> goerr option" where
  "CheckLimitsInput_Validate lib i = cli_validate lib i True"

definition CheckLimitsInput_ValidateForReserve :: "extlib \<Rightarrow> CheckLimitsInput \<Rightarrow> goerr option" where
  "CheckLimitsInput_ValidateForReserve lib i = cli_validate lib i False"

definition NewCheckLimitsInput ::
  "extlib \<Rightarrow> decimal \<Rightarrow> string \<Rightarrow> uuid \<Rightarrow> uuid option \<Rightarrow> uuid option \<Rightarrow> uuid option \<Rightarrow> TransactionType option
   \<Rightarrow> string option \<Rightarrow> time \<Rightarrow> goerr + CheckLimitsInput" where
  "NewCheckLimitsInput lib amount currency accountID segmentID portfolioID merchantID transactionType subType timestamp =
     (let input = \<lparr>cli_Amount = amount, cli_Currency = ToUpper (TrimSpace currency), cli_AccountID = accountID,
                   cli_SegmentID = segmentID, cli_PortfolioID = portfolioID, cli_MerchantID = merchantID,
                   cli_TransactionType = transactionType, cli_SubType = subType,
                   cli_TransactionTimestamp = timestamp\<rparr>
      in case CheckLimitsInput_Validate lib input of Some e \<Rightarrow> Inl e | None \<Rightarrow> Inr input)"

record LimitUsageDetail =
  lud_LimitID :: uuid
  lud_LimitAmount :: decimal
  lud_Scope :: string
  lud_Period :: LimitType
  lud_CurrentUsage :: decimal
  lud_AttemptedAmount :: decimal
  lud_Exceeded :: bool
  lud_Skipped :: bool
  lud_SkipReason :: string
  lud_InternalLimitType :: LimitType
  lud_Scopes :: "Scope list"
  lud_InternalPeriodKey :: string

record CheckLimitsOutput =
  clo_Allowed :: bool
  clo_ExceededLimitIDs :: "uuid list"
  clo_LimitUsageDetails :: "LimitUsageDetail list"
  clo_EvaluatedAt :: time

definition NewCheckLimitsOutput :: "bool \<Rightarrow> time \<Rightarrow> CheckLimitsOutput" where
  "NewCheckLimitsOutput allowed evaluatedAt =
     \<lparr>clo_Allowed = allowed, clo_ExceededLimitIDs = [], clo_LimitUsageDetails = [], clo_EvaluatedAt = evaluatedAt\<rparr>"

definition WithExceededLimits :: "CheckLimitsOutput \<Rightarrow> uuid list \<Rightarrow> CheckLimitsOutput" where
  "WithExceededLimits out ids = out\<lparr>clo_ExceededLimitIDs := ids\<rparr>"

definition WithLimitUsageDetails :: "CheckLimitsOutput \<Rightarrow> LimitUsageDetail list \<Rightarrow> CheckLimitsOutput" where
  "WithLimitUsageDetails out details = out\<lparr>clo_LimitUsageDetails := details\<rparr>"

definition RemainingAmount :: "LimitUsageDetail option \<Rightarrow> decimal" where
  "RemainingAmount d =
     (case d of None \<Rightarrow> 0
      | Some d \<Rightarrow>
        if lud_CurrentUsage d \<le> 0 then lud_LimitAmount d
        else if lud_LimitAmount d \<le> lud_CurrentUsage d then 0
        else lud_LimitAmount d - lud_CurrentUsage d)"

section \<open>Period and scope keys\<close>

definition CalculatePeriodKey :: "LimitType \<Rightarrow> time \<Rightarrow> goerr + string" where
  "CalculatePeriodKey limitType timestamp =
     (case limitType of
        LimitTypeDaily \<Rightarrow> Inr (Format_date timestamp)
      | LimitTypeMonthly \<Rightarrow> Inr (Format_month timestamp)
      | LimitTypeWeekly \<Rightarrow>
          (case ISOWeek timestamp of (year, week) \<Rightarrow> Inr (Itoa year @ ''-W'' @ pad0 2 (Itoa week)))
      | LimitTypeCustom \<Rightarrow> Inr ''custom''
      | LimitTypePerTransaction \<Rightarrow> Inr ''''
      | OtherLimitType s \<Rightarrow> Inl (Wrapped s ErrCheckLimitsUnknownLimitType))"

definition GlobalScopeKey :: string where "GlobalScopeKey = ''global''"

fun strings_Join :: "string list \<Rightarrow> string \<Rightarrow> string" where
  "strings_Join [] sep = []"
| "strings_Join [s] sep = s"
| "strings_Join (s # t # ts) sep = s @ sep @ strings_Join (t # ts) sep"

definition key_part :: "extlib \<Rightarrow> string \<Rightarrow> uuid option \<Rightarrow> string list" where
  "key_part lib prefix v = (case v of None \<Rightarrow> [] | Some i \<Rightarrow> [prefix @ uuid_String lib i])"

definition CalculateScopeKey :: "extlib \<Rightarrow> Scope option \<Rightarrow> string" where
  "CalculateScopeKey lib scope =
     (case scope of None \<Rightarrow> GlobalScopeKey
      | Some s \<Rightarrow>
        if Scope_IsEmpty s then GlobalScopeKey
        else strings_Join
               (sort (key_part lib ''acct:'' (sc_AccountID s) @ key_part lib ''port:'' (sc_PortfolioID s) @
                      key_part lib ''seg:'' (sc_SegmentID s) @ key_part lib ''merch:'' (sc_MerchantID s)))
               ''|'')"

section \<open>Requests that pass validation\<close>

lemma transactionTypePtr_valid:
  "TransactionType_IsValid (vr_TransactionType r) \<Longrightarrow> transactionTypePtr r = Some (vr_TransactionType r)"
  by (auto simp: transactionTypePtr_def TransactionType_IsValid_def)

lemmas request_checks =
  ValidationRequest_Validate_def ValidationRequest_ValidateForReserve_def validateAmountCurrencyTimestamp_def
  validateOptionalFields_def validateMerchant_def

text \<open>
  C40. A request that passes the validation of its path also passes the validation of the limit
  check input made from it, with the account required on the synchronous path and optional
  on the reserve path, so the limit check never rejects an accepted request as malformed.
\<close>

theorem validated_request_gives_valid_limit_input:
  "(ValidationRequest_Validate lib r now = None \<longrightarrow>
      CheckLimitsInput_Validate lib (ToCheckLimitsInput r) = None) \<and>
   (ValidationRequest_ValidateForReserve lib r now = None \<longrightarrow>
      CheckLimitsInput_ValidateForReserve lib (ToCheckLimitsInput r) = None)"
proof (intro conjI impI)
  have opt: "validateOptionalFields r = None \<Longrightarrow> map_option sg_ID (vr_Segment r) \<noteq> Some uuid_Nil \<and>
      map_option pf_ID (vr_Portfolio r) \<noteq> Some uuid_Nil \<and>
      \<not> (case vr_SubType r of None \<Rightarrow> False | Some s \<Rightarrow> MaxSubTypeLength < length s)"
    by (auto simp: validateOptionalFields_def simp del: first_err.simps split: option.splits)
  have mer: "validateMerchant r = None \<Longrightarrow> map_option mc_ID (vr_Merchant r) \<noteq> Some uuid_Nil"
    by (auto simp: validateMerchant_def simp del: first_err.simps split: option.splits)
  have core: "validateAmountCurrencyTimestamp lib r now = None \<Longrightarrow> \<not> vr_Amount r \<le> 0 \<and>
      IsValidCurrency lib (vr_Currency r) \<and> \<not> IsZero (vr_TransactionTimestamp r)"
    by (simp add: validateAmountCurrencyTimestamp_def del: first_err.simps)
  show "CheckLimitsInput_Validate lib (ToCheckLimitsInput r) = None" if v: "ValidationRequest_Validate lib r now = None"
  proof -
    have "validateOptionalFields r = None" "validateMerchant r = None" "validateAmountCurrencyTimestamp lib r now = None"
      "ac_ID (vr_Account r) \<noteq> uuid_Nil" "TransactionType_IsValid (vr_TransactionType r)"
      using v by (simp_all add: ValidationRequest_Validate_def del: first_err.simps)
    with opt mer core show ?thesis
      by (simp add: CheckLimitsInput_Validate_def cli_validate_def ToCheckLimitsInput_def transactionTypePtr_valid
          del: first_err.simps)
  qed
  show "CheckLimitsInput_ValidateForReserve lib (ToCheckLimitsInput r) = None"
    if v: "ValidationRequest_ValidateForReserve lib r now = None"
  proof -
    have "validateOptionalFields r = None" "validateMerchant r = None" "validateAmountCurrencyTimestamp lib r now = None"
      "vr_TransactionType r \<noteq> OtherTransactionType [] \<longrightarrow> TransactionType_IsValid (vr_TransactionType r)"
      using v by (auto simp: ValidationRequest_ValidateForReserve_def simp del: first_err.simps)
    with opt mer core show ?thesis
      by (simp add: CheckLimitsInput_ValidateForReserve_def cli_validate_def ToCheckLimitsInput_def
          transactionTypePtr_def del: first_err.simps)
  qed
qed

definition sample_request :: ValidationRequest where
  "sample_request =
     \<lparr>vr_RequestID = 1, vr_TransactionType = TransactionTypePix, vr_SubType = None, vr_Amount = 100,
      vr_Currency = ''USD'', vr_TransactionTimestamp = 5 * Day,
      vr_Account = \<lparr>ac_ID = 7, ac_Type = ''checking'', ac_Status = ''active'', ac_Metadata = None\<rparr>,
      vr_Segment = None, vr_Portfolio = None, vr_Merchant = None, vr_Metadata = None\<rparr>"

lemma sample_request_valid: "ValidationRequest_Validate exact_lib sample_request (5 * Day) = None"
  by code_simp

lemma sample_request_valid_reserve: "ValidationRequest_ValidateForReserve exact_lib sample_request (5 * Day) = None"
  by code_simp

theorem validated_request_gives_valid_limit_input_witness:
  "CheckLimitsInput_Validate exact_lib (ToCheckLimitsInput sample_request) = None \<and>
   CheckLimitsInput_ValidateForReserve exact_lib (ToCheckLimitsInput sample_request) = None"
  using validated_request_gives_valid_limit_input [of exact_lib sample_request "5 * Day"]
    sample_request_valid sample_request_valid_reserve by blast

section \<open>Period keys and reset times\<close>

lemma reset_day_month_inject:
  assumes "reset_day LimitTypeMonthly d = reset_day LimitTypeMonthly d'"
  shows "year_of d = year_of d' \<and> month_of d = month_of d'"
proof -
  have "d < reset_day LimitTypeMonthly d'" "d' < reset_day LimitTypeMonthly d"
    using assms reset_day_later [of d LimitTypeMonthly] reset_day_later [of d' LimitTypeMonthly] by simp_all
  moreover have "reset_day LimitTypeMonthly x = days_before (year_of x) + month_start (leap (year_of x)) (month_of x + 1)" for x
    by (simp add: reset_day_def)
  ultimately show ?thesis
    using same_month(1,2) [of d d'] same_month(1,2) [of d' d] by (metis linorder_less_linear)
qed

lemma Itoa_nonneg: "0 \<le> i \<Longrightarrow> Itoa i = nat_str (nat i)"
  by (simp add: Itoa_def)

lemma week_key_inject:
  assumes "0 \<le> y" "0 \<le> y'" "0 \<le> w" "0 \<le> w'"
  shows "Itoa y @ ''-W'' @ pad0 2 (Itoa w) = Itoa y' @ ''-W'' @ pad0 2 (Itoa w') \<longleftrightarrow> y = y' \<and> w = w'"
  using assms by (auto simp: Itoa_nonneg digits_sep_inject)

lemma ISOWeek_nonneg:
  assumes "0 \<le> t"
  shows "0 \<le> fst (ISOWeek t)" "0 \<le> snd (ISOWeek t)"
proof -
  have "0 \<le> day_of t" using assms by (simp add: day_of_def pos_imp_zdiv_nonneg_iff)
  moreover have "day_of t mod 7 \<le> day_of t" using calculation by (rule zmod_le_nonneg_dividend)
  ultimately have "0 \<le> thursday_of (day_of t)" by (simp add: thursday_of_def)
  from year_of_pos [OF this] show "0 \<le> fst (ISOWeek t)" by (simp add: ISOWeek_def Let_def)
  have "0 \<le> yday_of (thursday_of (day_of t)) div 7"
    using yday_of_bounds(1) by (simp add: pos_imp_zdiv_nonneg_iff)
  then show "0 \<le> snd (ISOWeek t)" by (simp add: ISOWeek_def Let_def)
qed

text \<open>
  For daily, weekly and monthly limits two times fall into the same usage period (their
  period keys are equal strings) exactly when they have the same reset time.
\<close>

theorem same_period_iff_same_reset:
  assumes "lt \<in> {LimitTypeDaily, LimitTypeWeekly, LimitTypeMonthly}" "0 \<le> s" "0 \<le> t"
  shows "CalculatePeriodKey lt s = CalculatePeriodKey lt t \<longleftrightarrow> CalculateResetAt lt s = CalculateResetAt lt t"
proof -
  have r: "CalculateResetAt lt s = CalculateResetAt lt t \<longleftrightarrow> reset_day lt (day_of s) = reset_day lt (day_of t)"
    by (simp add: CalculateResetAt_reset_day [OF assms(1)])
  consider (d) "lt = LimitTypeDaily" | (w) "lt = LimitTypeWeekly" | (m) "lt = LimitTypeMonthly"
    using assms(1) by blast
  then show ?thesis
  proof cases
    case d
    then show ?thesis unfolding r by (simp add: CalculatePeriodKey_def reset_day_def Format_date_inject assms(2,3))
  next
    case w
    have "CalculatePeriodKey lt s = CalculatePeriodKey lt t \<longleftrightarrow> ISOWeek s = ISOWeek t"
      using w week_key_inject [OF ISOWeek_nonneg(1) [OF assms(2)] ISOWeek_nonneg(1) [OF assms(3)]
          ISOWeek_nonneg(2) [OF assms(2)] ISOWeek_nonneg(2) [OF assms(3)]]
      by (simp add: CalculatePeriodKey_def split_beta prod_eq_iff)
    moreover have "reset_day LimitTypeWeekly d = thursday_of d + 4" for d
      by (simp add: reset_day_def thursday_of_def)
    ultimately show ?thesis unfolding r by (simp only: w ISOWeek_inject add_right_cancel)
  next
    case m
    have "CalculatePeriodKey lt s = CalculatePeriodKey lt t \<longleftrightarrow>
        year_of (day_of s) = year_of (day_of t) \<and> month_of (day_of s) = month_of (day_of t)"
      using m assms(2,3) by (simp add: CalculatePeriodKey_def Format_month_inject)
    moreover have "reset_day lt d = reset_day lt d'" if "year_of d = year_of d'" "month_of d = month_of d'" for d d'
      by (simp add: m reset_day_def that)
    ultimately show ?thesis unfolding r using m reset_day_month_inject by blast
  qed
qed

theorem same_period_iff_same_reset_witness:
  "CalculatePeriodKey LimitTypeWeekly (9 * Day) = CalculatePeriodKey LimitTypeWeekly (13 * Day) \<longleftrightarrow>
   CalculateResetAt LimitTypeWeekly (9 * Day) = CalculateResetAt LimitTypeWeekly (13 * Day)"
  by (rule same_period_iff_same_reset) (simp_all add: time_units)

end
