(* ===== verification/UsageStore.thy ===== *)
theory UsageStore
  imports TracerValidation
begin

text \<open>
  Usage counters and usage reservations of the tracer: the reservation value object
  (\<^verbatim>\<open>components/tracer/pkg/model/reservation.go\<close>) and the two repositories over PostgreSQL
  (\<^verbatim>\<open>internal/adapters/postgres/usage_counter_repository.go\<close>,
  \<^verbatim>\<open>usage_reservation_repository.go\<close>). The state is the two tables. \<open>st_counters\<close> is
  \<^verbatim>\<open>usage_counters\<close>, keyed by its unique constraint (limit, scope key, period key);
  \<open>st_reservations\<close> is \<^verbatim>\<open>usage_reservations\<close> in insertion order. Each SQL statement of
  the code is one function on the tables, with the row guards, the \<^verbatim>\<open>ON CONFLICT\<close> clauses
  and the \<^verbatim>\<open>CHECK (\<dots> >= 0)\<close> constraints of the migrations. \<^verbatim>\<open>time.Now()\<close> and
  \<^verbatim>\<open>uuid.New()\<close> are arguments. A lost connection is not modelled: a statement fails only
  for the reasons above. Row locks (\<^verbatim>\<open>FOR UPDATE\<close>) make the methods of one transaction
  atomic, so an interleaving is a sequence of transactions.
\<close>

section \<open>Reservations\<close>

datatype ReservationStatus =
    StatusReserved
  | StatusConfirmed
  | StatusReleased
  | StatusExpired
  | OtherReservationStatus string

definition ReservationStatus_IsValid :: "ReservationStatus \<Rightarrow> bool" where
  "ReservationStatus_IsValid s = (case s of OtherReservationStatus x \<Rightarrow> False | _ \<Rightarrow> True)"

definition ReservationStatus_IsTerminal :: "ReservationStatus \<Rightarrow> bool" where
  "ReservationStatus_IsTerminal s = (s \<in> set [StatusConfirmed, StatusReleased, StatusExpired])"

record Reservation =
  res_ID :: uuid
  res_LimitID :: uuid
  res_ScopeKey :: string
  res_PeriodKey :: string
  res_Amount :: int
  res_Status :: ReservationStatus
  res_TransactionID :: uuid
  res_ExpiresAt :: time
  res_CreatedAt :: time
  res_ConfirmedAt :: "time option"
  res_ReleasedAt :: "time option"

definition NewReservation ::
  "uuid \<Rightarrow> uuid \<Rightarrow> uuid \<Rightarrow> string \<Rightarrow> string \<Rightarrow> int \<Rightarrow> time \<Rightarrow> time \<Rightarrow> goerr + Reservation" where
  "NewReservation newID limitID transactionID scopeKey periodKey amount expiresAt createdAt =
     (if limitID = uuid_Nil then Inl ErrReservationLimitIDRequired
      else if transactionID = uuid_Nil then Inl ErrReservationTransactionIDReq
      else if TrimSpace scopeKey = '''' then Inl ErrReservationScopeKeyRequired
      else if TrimSpace periodKey = '''' then Inl ErrReservationPeriodKeyRequired
      else if amount < 0 then Inl ErrReservationAmountInvalid
      else if IsZero expiresAt then Inl ErrReservationExpiresAtRequired
      else Inr \<lparr>res_ID = newID, res_LimitID = limitID, res_ScopeKey = TrimSpace scopeKey,
                res_PeriodKey = TrimSpace periodKey, res_Amount = amount, res_Status = StatusReserved,
                res_TransactionID = transactionID, res_ExpiresAt = expiresAt, res_CreatedAt = createdAt,
                res_ConfirmedAt = None, res_ReleasedAt = None\<rparr>)"

definition Reservation_Validate :: "Reservation \<Rightarrow> goerr option" where
  "Reservation_Validate r =
     first_err
       [err_if (res_LimitID r = uuid_Nil) ErrReservationLimitIDRequired,
        err_if (res_TransactionID r = uuid_Nil) ErrReservationTransactionIDReq,
        err_if (TrimSpace (res_ScopeKey r) = '''') ErrReservationScopeKeyRequired,
        err_if (TrimSpace (res_PeriodKey r) = '''') ErrReservationPeriodKeyRequired,
        err_if (res_Amount r < 0) ErrReservationAmountInvalid,
        err_if (\<not> ReservationStatus_IsValid (res_Status r)) ErrReservationInvalidStatus,
        err_if (IsZero (res_ExpiresAt r)) ErrReservationExpiresAtRequired]"

section \<open>The tables\<close>

type_synonym ckey = "uuid \<times> string \<times> string"

record CounterRow =
  ct_id :: uuid
  ct_current :: decimal
  ct_reserved :: decimal
  ct_updated :: time
  ct_expires :: "time option"

record Store =
  st_counters :: "(ckey, CounterRow) gomap"
  st_reservations :: "Reservation list"

definition empty_store :: Store where
  "empty_store = \<lparr>st_counters = [], st_reservations = []\<rparr>"

definition res_key :: "Reservation \<Rightarrow> ckey" where
  "res_key r = (res_LimitID r, res_ScopeKey r, res_PeriodKey r)"

definition put_counter :: "ckey \<Rightarrow> CounterRow \<Rightarrow> Store \<Rightarrow> Store" where
  "put_counter k row st = st\<lparr>st_counters := AList.update k row (st_counters st)\<rparr>"

definition counter_at :: "Store \<Rightarrow> ckey \<Rightarrow> CounterRow option" where
  "counter_at st k = map_of (st_counters st) k"

section \<open>Usage counters\<close>

text \<open>The statement \<^verbatim>\<open>upsertAndIncrementCTEQuery\<close>: the usage it selects and its success flag.\<close>

definition upsertAndIncrementCTEQuery ::
  "Store \<Rightarrow> uuid \<Rightarrow> ckey \<Rightarrow> decimal \<Rightarrow> time \<Rightarrow> decimal \<Rightarrow> time option \<Rightarrow> Store \<times> decimal \<times> bool" where
  "upsertAndIncrementCTEQuery st counterID k amount now maxAmount expiresAt =
     (case counter_at st k of
        None \<Rightarrow>
          (put_counter k \<lparr>ct_id = counterID, ct_current = amount, ct_reserved = 0, ct_updated = now,
                          ct_expires = expiresAt\<rparr> st, amount, True)
      | Some row \<Rightarrow>
          if ct_current row + amount \<le> maxAmount
          then (put_counter k (row\<lparr>ct_current := ct_current row + amount, ct_updated := now,
                                   ct_expires := expiresAt\<rparr>) st, ct_current row + amount, True)
          else (st, ct_current row, False))"

definition upsertAndReserveCTEQuery ::
  "Store \<Rightarrow> uuid \<Rightarrow> ckey \<Rightarrow> decimal \<Rightarrow> time \<Rightarrow> decimal \<Rightarrow> time option \<Rightarrow> Store \<times> decimal \<times> bool" where
  "upsertAndReserveCTEQuery st counterID k amount now maxAmount expiresAt =
     (case counter_at st k of
        None \<Rightarrow>
          (put_counter k \<lparr>ct_id = counterID, ct_current = 0, ct_reserved = amount, ct_updated = now,
                          ct_expires = expiresAt\<rparr> st, amount, True)
      | Some row \<Rightarrow>
          if ct_current row + ct_reserved row + amount \<le> maxAmount
          then (put_counter k (row\<lparr>ct_reserved := ct_reserved row + amount, ct_updated := now,
                                   ct_expires := expiresAt\<rparr>) st, ct_reserved row + amount, True)
          else (st, ct_reserved row, False))"

definition UpsertAndIncrementAtomic ::
  "Store \<Rightarrow> uuid \<Rightarrow> time \<Rightarrow> uuid \<Rightarrow> string \<Rightarrow> string \<Rightarrow> decimal \<Rightarrow> decimal \<Rightarrow> time option
   \<Rightarrow> Store \<times> decimal \<times> goerr option" where
  "UpsertAndIncrementAtomic st newID now limitID scopeKey periodKey amount maxAmount expiresAt =
     (if amount = 0 then (st, 0, None)
      else if amount < 0 then (st, 0, Some ErrUsageCounterIncrementNonNegative)
      else if maxAmount < amount then (st, 0, Some ErrUsageCounterExceedsLimit)
      else (case upsertAndIncrementCTEQuery st newID (limitID, scopeKey, periodKey) amount now maxAmount expiresAt of
              (st', usage, succeeded) \<Rightarrow>
                if \<not> succeeded then (st', usage, Some ErrUsageCounterExceedsLimit) else (st', usage, None)))"

definition UpsertAndReserveAtomic ::
  "Store \<Rightarrow> uuid \<Rightarrow> time \<Rightarrow> uuid \<Rightarrow> string \<Rightarrow> string \<Rightarrow> decimal \<Rightarrow> decimal \<Rightarrow> time option
   \<Rightarrow> Store \<times> decimal \<times> goerr option" where
  "UpsertAndReserveAtomic st newID now limitID scopeKey periodKey amount maxAmount expiresAt =
     (if amount = 0 then (st, 0, None)
      else if amount < 0 then (st, 0, Some ErrUsageCounterIncrementNonNegative)
      else if maxAmount < amount then (st, 0, Some ErrUsageCounterExceedsLimit)
      else (case upsertAndReserveCTEQuery st newID (limitID, scopeKey, periodKey) amount now maxAmount expiresAt of
              (st', usage, succeeded) \<Rightarrow>
                if \<not> succeeded then (st', usage, Some ErrUsageCounterExceedsLimit) else (st', usage, None)))"

definition counter_entity :: "ckey \<Rightarrow> CounterRow \<Rightarrow> UsageCounter" where
  "counter_entity k row =
     (case k of (l, s, p) \<Rightarrow>
        \<lparr>uc_ID = ct_id row, uc_LimitID = l, uc_ScopeKey = s, uc_PeriodKey = p,
         uc_CurrentUsage = ct_current row, uc_LastUpdatedAt = ct_updated row\<rparr>)"

text \<open>
  \<^verbatim>\<open>GetOrCreateForUpdate\<close>. The row is created under the trimmed keys of the new entity while
  the first lookup uses the keys as given. A unique violation can only come from a row under
  the trimmed keys, and the retry selects by the given keys again.
\<close>

definition GetOrCreateForUpdate ::
  "Store \<Rightarrow> uuid \<Rightarrow> time \<Rightarrow> uuid \<Rightarrow> string \<Rightarrow> string \<Rightarrow> Store \<times> (goerr + UsageCounter)" where
  "GetOrCreateForUpdate st newID now limitID scopeKey periodKey =
     (let k = (limitID, scopeKey, periodKey) in
      case counter_at st k of
        Some row \<Rightarrow> (st, Inr (counter_entity k row))
      | None \<Rightarrow>
        (case NewUsageCounter newID limitID scopeKey periodKey now of
           Inl e \<Rightarrow> (st, Inl e)
         | Inr u \<Rightarrow>
           (let k' = (uc_LimitID u, uc_ScopeKey u, uc_PeriodKey u) in
            case counter_at st k' of
              Some row \<Rightarrow> (st, Inl (Wrapped ''failed to insert or get usage counter'' (Errorf ''no rows'')))
            | None \<Rightarrow>
              (let row = \<lparr>ct_id = uc_ID u, ct_current = uc_CurrentUsage u, ct_reserved = 0,
                          ct_updated = uc_LastUpdatedAt u, ct_expires = None\<rparr>
               in (put_counter k' row st, Inr (counter_entity k' row))))))"

text \<open>\<^verbatim>\<open>IncrementAtomic\<close> updates by the counter's id.\<close>

definition IncrementAtomic :: "Store \<Rightarrow> uuid \<Rightarrow> decimal \<Rightarrow> time \<Rightarrow> Store \<times> goerr option" where
  "IncrementAtomic st counterID amount now =
     (if amount < 0 then (st, Some ErrUsageCounterIncrementNonNegative)
      else if amount = 0 then (st, None)
      else if \<not> list_ex (\<lambda>(k, row). ct_id row = counterID) (st_counters st) then (st, Some ErrUsageCounterNotFound)
      else (st\<lparr>st_counters := map (\<lambda>(k, row). (k, if ct_id row = counterID
                 then row\<lparr>ct_current := ct_current row + amount, ct_updated := now\<rparr> else row)) (st_counters st)\<rparr>, None))"

definition GetUsageForLimits :: "Store \<Rightarrow> uuid list \<Rightarrow> string \<Rightarrow> string \<Rightarrow> (uuid, decimal) gomap" where
  "GetUsageForLimits st limitIDs scopeKey periodKey =
     (if length limitIDs = 0 then []
      else fold (\<lambda>((l, s, p), row) acc. AList.update l (ct_current row) acc)
             (filter (\<lambda>((l, s, p), row). l \<in> set limitIDs \<and> s = scopeKey \<and> p = periodKey) (st_counters st)) [])"

text \<open>
  \<^verbatim>\<open>DeleteExpiredCounters\<close> deletes in batches until a batch is empty. \<open>ctx n\<close> is the
  error of the context before batch \<open>n\<close>. The rows that \<^verbatim>\<open>LIMIT\<close> picks are the first
  expired ones of the table.
\<close>

definition expired_counter :: "time \<Rightarrow> CounterRow \<Rightarrow> bool" where
  "expired_counter now row = (case ct_expires row of None \<Rightarrow> False | Some e \<Rightarrow> e < now)"

fun delete_first :: "('a \<Rightarrow> bool) \<Rightarrow> nat \<Rightarrow> 'a list \<Rightarrow> 'a list" where
  "delete_first P 0 xs = xs"
| "delete_first P (Suc n) [] = []"
| "delete_first P (Suc n) (x # xs) = (if P x then delete_first P n xs else x # delete_first P (Suc n) xs)"

lemma length_delete_first: "length (delete_first P n xs) \<le> length xs"
  by (induction P n xs rule: delete_first.induct) auto

function delete_batches ::
  "nat \<Rightarrow> time \<Rightarrow> (nat \<Rightarrow> goerr option) \<Rightarrow> nat \<Rightarrow> (ckey, CounterRow) gomap \<Rightarrow> nat
   \<Rightarrow> (ckey, CounterRow) gomap \<times> nat \<times> goerr option" where
  "delete_batches batch now ctx n rows totalDeleted =
     (case ctx n of
        Some e \<Rightarrow> (rows, totalDeleted, Some (Wrapped ''context cancelled during batch deletion'' e))
      | None \<Rightarrow>
        (let rows' = delete_first (\<lambda>(k, row). expired_counter now row) batch rows;
             affected = length rows - length rows'
         in if affected = 0 then (rows', totalDeleted, None)
            else delete_batches batch now ctx (Suc n) rows' (totalDeleted + affected)))"
  by pat_completeness auto

termination delete_batches
  by (relation "measure (\<lambda>(batch, now, ctx, n, rows, totalDeleted). length rows)") auto

declare delete_batches.simps [simp del]

definition DefaultDeleteBatchSize :: nat where "DefaultDeleteBatchSize = 1000"

definition DeleteExpiredCounters :: "Store \<Rightarrow> time \<Rightarrow> (nat \<Rightarrow> goerr option) \<Rightarrow> Store \<times> nat \<times> goerr option" where
  "DeleteExpiredCounters st now ctx =
     (case delete_batches DefaultDeleteBatchSize now ctx 0 (st_counters st) 0 of
        (rows, totalDeleted, e) \<Rightarrow> (st\<lparr>st_counters := rows\<rparr>, totalDeleted, e))"

section \<open>Usage reservations\<close>

definition same_tuple :: "Reservation \<Rightarrow> Reservation \<Rightarrow> bool" where
  "same_tuple r r' = (res_TransactionID r = res_TransactionID r' \<and> res_key r = res_key r')"

text \<open>\<^verbatim>\<open>INSERT \<dots> ON CONFLICT (transaction_id, limit_id, scope_key, period_key) DO NOTHING\<close>.\<close>

definition insert_reservation :: "Reservation \<Rightarrow> Store \<Rightarrow> Store" where
  "insert_reservation r st =
     (if list_ex (same_tuple r) (st_reservations st) then st
      else st\<lparr>st_reservations := st_reservations st @ [r]\<rparr>)"

definition ReserveWithTx :: "Store \<Rightarrow> uuid \<Rightarrow> time \<Rightarrow> Reservation \<Rightarrow> int \<Rightarrow> Store \<times> goerr option" where
  "ReserveWithTx st counterID now r maxAmount =
     (case Reservation_Validate r of Some e \<Rightarrow> (st, Some e)
      | None \<Rightarrow>
        (case UpsertAndReserveAtomic st counterID now (res_LimitID r) (res_ScopeKey r) (res_PeriodKey r)
                (of_int (res_Amount r)) (of_int maxAmount) (Some (res_ExpiresAt r)) of
           (st', usage, Some e) \<Rightarrow> (st', Some e)
         | (st', usage, None) \<Rightarrow> (insert_reservation r st', None)))"

definition lockReservation :: "Store \<Rightarrow> uuid \<Rightarrow> goerr + Reservation" where
  "lockReservation st reservationID =
     (case find (\<lambda>r. res_ID r = reservationID) (st_reservations st) of
        None \<Rightarrow> Inl ErrReservationNotFound | Some r \<Rightarrow> Inr r)"

definition lockReservedByTransaction :: "Store \<Rightarrow> uuid \<Rightarrow> Reservation list" where
  "lockReservedByTransaction st transactionID =
     filter (\<lambda>r. res_TransactionID r = transactionID \<and> res_Status r = StatusReserved) (st_reservations st)"

text \<open>
  The counter \<^verbatim>\<open>UPDATE\<close> of a confirm or release: no row is an error, and the
  \<^verbatim>\<open>CHECK\<close> constraints refuse a negative bucket.
\<close>

definition check_violation :: goerr where "check_violation = Errorf ''check_violation''"

definition execCounterMove :: "Store \<Rightarrow> ckey \<Rightarrow> (CounterRow \<Rightarrow> CounterRow) \<Rightarrow> Store \<times> goerr option" where
  "execCounterMove st k f =
     (case counter_at st k of
        None \<Rightarrow> (st, Some ErrUsageCounterNotFound)
      | Some row \<Rightarrow>
        if ct_current (f row) < 0 \<or> ct_reserved (f row) < 0
        then (st, Some (Wrapped ''failed to move counter'' check_violation))
        else (put_counter k (f row) st, None))"

definition execRowFlip :: "Store \<Rightarrow> uuid \<Rightarrow> (Reservation \<Rightarrow> Reservation) \<Rightarrow> Store \<times> nat" where
  "execRowFlip st reservationID f =
     (let hit = (\<lambda>r. res_ID r = reservationID \<and> res_Status r = StatusReserved)
      in (st\<lparr>st_reservations := map (\<lambda>r. if hit r then f r else r) (st_reservations st)\<rparr>,
          length (filter hit (st_reservations st))))"

definition confirm_move :: "Reservation \<Rightarrow> time \<Rightarrow> CounterRow \<Rightarrow> CounterRow" where
  "confirm_move r now row =
     row\<lparr>ct_current := ct_current row + of_int (res_Amount r),
         ct_reserved := ct_reserved row - of_int (res_Amount r), ct_updated := now\<rparr>"

definition release_move :: "Reservation \<Rightarrow> time \<Rightarrow> CounterRow \<Rightarrow> CounterRow" where
  "release_move r now row =
     row\<lparr>ct_reserved := ct_reserved row - of_int (res_Amount r), ct_updated := now\<rparr>"

definition confirm_row :: "time \<Rightarrow> Reservation \<Rightarrow> Reservation" where
  "confirm_row now r = r\<lparr>res_Status := StatusConfirmed, res_ConfirmedAt := Some now\<rparr>"

definition release_row :: "ReservationStatus \<Rightarrow> time \<Rightarrow> Reservation \<Rightarrow> Reservation" where
  "release_row status now r = r\<lparr>res_Status := status, res_ReleasedAt := Some now\<rparr>"

definition ConfirmWithTx :: "Store \<Rightarrow> time \<Rightarrow> uuid \<Rightarrow> Store \<times> goerr option" where
  "ConfirmWithTx st now reservationID =
     (case lockReservation st reservationID of Inl e \<Rightarrow> (st, Some e)
      | Inr r \<Rightarrow>
        if res_Status r \<noteq> StatusReserved then (st, Some ErrReservationAlreadyTerminal)
        else (case execCounterMove st (res_key r) (confirm_move r now) of
                (st', Some e) \<Rightarrow> (st', Some e)
              | (st', None) \<Rightarrow>
                (case execRowFlip st' reservationID (confirm_row now) of
                   (st'', affected) \<Rightarrow>
                     if affected = 0 then (st'', Some ErrReservationAlreadyTerminal) else (st'', None))))"

definition ReleaseWithTx :: "Store \<Rightarrow> time \<Rightarrow> uuid \<Rightarrow> ReservationStatus \<Rightarrow> Store \<times> goerr option" where
  "ReleaseWithTx st now reservationID status =
     (if status \<noteq> StatusReleased \<and> status \<noteq> StatusExpired then (st, Some ErrReservationInvalidStatus)
      else (case lockReservation st reservationID of Inl e \<Rightarrow> (st, Some e)
      | Inr r \<Rightarrow>
        if res_Status r \<noteq> StatusReserved then (st, Some ErrReservationAlreadyTerminal)
        else (case execCounterMove st (res_key r) (release_move r now) of
                (st', Some e) \<Rightarrow> (st', Some e)
              | (st', None) \<Rightarrow>
                (case execRowFlip st' reservationID (release_row status now) of
                   (st'', affected) \<Rightarrow>
                     if affected = 0 then (st'', Some ErrReservationAlreadyTerminal) else (st'', None)))))"

definition applyConfirm :: "time \<Rightarrow> Reservation \<Rightarrow> Store \<Rightarrow> Store \<times> goerr option" where
  "applyConfirm now r st =
     (case execCounterMove st (res_key r) (confirm_move r now) of
        (st', Some e) \<Rightarrow> (st', Some e)
      | (st', None) \<Rightarrow> (fst (execRowFlip st' (res_ID r) (confirm_row now)), None))"

definition applyRelease :: "time \<Rightarrow> ReservationStatus \<Rightarrow> Reservation \<Rightarrow> Store \<Rightarrow> Store \<times> goerr option" where
  "applyRelease now status r st =
     (case execCounterMove st (res_key r) (release_move r now) of
        (st', Some e) \<Rightarrow> (st', Some e)
      | (st', None) \<Rightarrow> (fst (execRowFlip st' (res_ID r) (release_row status now)), None))"

fun each_reservation ::
  "(Reservation \<Rightarrow> Store \<Rightarrow> Store \<times> goerr option) \<Rightarrow> Reservation list \<Rightarrow> Store \<Rightarrow> Store \<times> goerr option" where
  "each_reservation f [] st = (st, None)"
| "each_reservation f (r # rs) st =
     (case f r st of (st', Some e) \<Rightarrow> (st', Some e) | (st', None) \<Rightarrow> each_reservation f rs st')"

definition ConfirmByTransactionWithTx :: "Store \<Rightarrow> time \<Rightarrow> uuid \<Rightarrow> Store \<times> (goerr + Reservation list)" where
  "ConfirmByTransactionWithTx st now transactionID =
     (let rs = lockReservedByTransaction st transactionID in
      case each_reservation (applyConfirm now) rs st of
        (st', Some e) \<Rightarrow> (st', Inl e) | (st', None) \<Rightarrow> (st', Inr rs))"

definition ReleaseByTransactionWithTx ::
  "Store \<Rightarrow> time \<Rightarrow> uuid \<Rightarrow> ReservationStatus \<Rightarrow> Store \<times> (goerr + Reservation list)" where
  "ReleaseByTransactionWithTx st now transactionID status =
     (if status \<noteq> StatusReleased \<and> status \<noteq> StatusExpired then (st, Inl ErrReservationInvalidStatus)
      else (let rs = lockReservedByTransaction st transactionID in
            case each_reservation (applyRelease now status) rs st of
              (st', Some e) \<Rightarrow> (st', Inl e) | (st', None) \<Rightarrow> (st', Inr rs)))"

section \<open>What the tables hold\<close>

declare split_paired_All [simp del] split_paired_Ex [simp del]

definition committed :: "Store \<Rightarrow> ckey \<Rightarrow> decimal" where
  "committed st k = (case counter_at st k of None \<Rightarrow> 0 | Some row \<Rightarrow> ct_current row)"

definition held :: "Store \<Rightarrow> ckey \<Rightarrow> decimal" where
  "held st k = (case counter_at st k of None \<Rightarrow> 0 | Some row \<Rightarrow> ct_reserved row)"

definition outstanding :: "ckey \<Rightarrow> Reservation \<Rightarrow> decimal" where
  "outstanding k r = (if res_key r = k \<and> res_Status r = StatusReserved then of_int (res_Amount r) else 0)"

definition outstanding_sum :: "Store \<Rightarrow> ckey \<Rightarrow> decimal" where
  "outstanding_sum st k = (\<Sum>r \<leftarrow> st_reservations st. outstanding k r)"

text \<open>The invariants: well-formed tables, no counter above its limit, every hold backed by a row.\<close>

definition store_ok :: "Store \<Rightarrow> bool" where
  "store_ok st =
     (distinct (map res_ID (st_reservations st)) \<and>
      (\<forall>k row. counter_at st k = Some row \<longrightarrow> 0 \<le> ct_current row \<and> 0 \<le> ct_reserved row) \<and>
      (\<forall>r \<in> set (st_reservations st). 0 \<le> res_Amount r))"

definition within_limits :: "(ckey \<Rightarrow> int) \<Rightarrow> Store \<Rightarrow> bool" where
  "within_limits M st = (\<forall>k row. counter_at st k = Some row \<longrightarrow> ct_current row + ct_reserved row \<le> of_int (M k))"

definition balanced :: "Store \<Rightarrow> bool" where
  "balanced st = (\<forall>k. held st k = outstanding_sum st k)"

lemma counter_at_put [simp]: "counter_at (put_counter k row st) k' = (if k' = k then Some row else counter_at st k')"
  by (simp add: counter_at_def put_counter_def update_conv')

lemma reservations_put [simp]: "st_reservations (put_counter k row st) = st_reservations st"
  by (simp add: put_counter_def)

lemma committed_put [simp]: "committed (put_counter k row st) k' = (if k' = k then ct_current row else committed st k')"
  by (simp add: committed_def)

lemma held_put [simp]: "held (put_counter k row st) k' = (if k' = k then ct_reserved row else held st k')"
  by (simp add: held_def)

lemma outstanding_sum_put [simp]: "outstanding_sum (put_counter k row st) k' = outstanding_sum st k'"
  by (simp add: outstanding_sum_def)

lemma store_ok_put: "store_ok st \<Longrightarrow> 0 \<le> ct_current row \<Longrightarrow> 0 \<le> ct_reserved row \<Longrightarrow> store_ok (put_counter k row st)"
  by (simp add: store_ok_def)

lemma within_limits_put:
  "within_limits M st \<Longrightarrow> ct_current row + ct_reserved row \<le> of_int (M k) \<Longrightarrow> within_limits M (put_counter k row st)"
  by (simp add: within_limits_def)

section \<open>Reserving\<close>

lemma UpsertAndReserveAtomic_cases:
  obtains (refused) e u where "UpsertAndReserveAtomic st i now l s p a m x = (st, u, Some e)"
  | (zero) "a = 0" "UpsertAndReserveAtomic st i now l s p a m x = (st, 0, None)"
  | (fresh) row where "counter_at st (l, s, p) = None" "0 < a" "a \<le> m"
      "ct_current row = 0" "ct_reserved row = a" "ct_expires row = x"
      "UpsertAndReserveAtomic st i now l s p a m x = (put_counter (l, s, p) row st, a, None)"
  | (more) row0 row where "counter_at st (l, s, p) = Some row0" "0 < a" "ct_current row0 + ct_reserved row0 + a \<le> m"
      "ct_current row = ct_current row0" "ct_reserved row = ct_reserved row0 + a" "ct_expires row = x"
      "UpsertAndReserveAtomic st i now l s p a m x = (put_counter (l, s, p) row st, ct_reserved row0 + a, None)"
proof -
  consider "a = 0" | "a < 0" | "0 < a" "m < a" | "0 < a" "a \<le> m" by linarith
  then show ?thesis
  proof cases
    case 4
    show ?thesis
    proof (cases "counter_at st (l, s, p)")
      case None
      with 4 show ?thesis
        by (intro fresh [of "\<lparr>ct_id = i, ct_current = 0, ct_reserved = a, ct_updated = now, ct_expires = x\<rparr>"])
          (simp_all add: UpsertAndReserveAtomic_def upsertAndReserveCTEQuery_def)
    next
      case (Some row)
      with 4 show ?thesis
      proof (cases "ct_current row + ct_reserved row + a \<le> m")
        case True
        with 4 Some show ?thesis
          by (intro more [of row "row\<lparr>ct_reserved := ct_reserved row + a, ct_updated := now, ct_expires := x\<rparr>"])
            (simp_all add: UpsertAndReserveAtomic_def upsertAndReserveCTEQuery_def)
      next
        case False
        with 4 Some show ?thesis
          by (intro refused) (auto simp: UpsertAndReserveAtomic_def upsertAndReserveCTEQuery_def)
      qed
    qed
  qed (auto simp: UpsertAndReserveAtomic_def intro: refused zero)
qed

lemma insert_reservation_simps [simp]:
  "counter_at (insert_reservation r st) k = counter_at st k"
  "committed (insert_reservation r st) k = committed st k"
  "held (insert_reservation r st) k = held st k"
  by (simp_all add: insert_reservation_def counter_at_def committed_def held_def)

lemma Reservation_Validate_amount: "Reservation_Validate r = None \<Longrightarrow> 0 \<le> res_Amount r"
  by (simp add: Reservation_Validate_def del: first_err.simps)

text \<open>A reserve either fails and leaves the tables alone, or adds the amount to the held bucket.\<close>

lemma ReserveWithTx_cases:
  obtains (refused) e where "ReserveWithTx st i now r m = (st, Some e)"
  | (ok) st' where "ReserveWithTx st i now r m = (insert_reservation r st', None)" "Reservation_Validate r = None"
      "st_reservations st' = st_reservations st"
      "\<And>k. committed st' k = committed st k"
      "\<And>k. held st' k = (if k = res_key r then held st k + of_int (res_Amount r) else held st k)"
      "\<And>k. k \<noteq> res_key r \<Longrightarrow> counter_at st' k = counter_at st k"
      "res_Amount r = 0 \<Longrightarrow> st' = st"
      "\<And>row. 0 < res_Amount r \<Longrightarrow> counter_at st' (res_key r) = Some row \<Longrightarrow>
         ct_current row + ct_reserved row \<le> of_int m \<and> ct_expires row = Some (res_ExpiresAt r)"
proof (cases "Reservation_Validate r")
  case (Some e)
  then show ?thesis by (intro refused [of e]) (simp add: ReserveWithTx_def)
next
  case None
  let ?a = "of_int (res_Amount r) :: decimal"
  show ?thesis
  proof (cases rule: UpsertAndReserveAtomic_cases
      [of st i now "res_LimitID r" "res_ScopeKey r" "res_PeriodKey r" ?a "of_int m" "Some (res_ExpiresAt r)"])
    case (refused e u)
    with None show ?thesis by (intro that(1) [of e]) (simp add: ReserveWithTx_def)
  next
    case zero
    with None show ?thesis by (intro ok [of st]) (simp_all add: ReserveWithTx_def)
  next
    case (fresh row)
    with None show ?thesis
      by (intro ok [of "put_counter (res_key r) row st"])
        (auto simp: ReserveWithTx_def res_key_def committed_def held_def)
  next
    case (more row0 row)
    with None show ?thesis
      by (intro ok [of "put_counter (res_key r) row st"])
        (auto simp: ReserveWithTx_def res_key_def committed_def held_def)
  qed
qed

lemma ReserveWithTx_error: "ReserveWithTx st i now r m = (st', Some e) \<Longrightarrow> st' = st"
  by (rule ReserveWithTx_cases [of st i now r m]) auto

definition fresh_reservation :: "Store \<Rightarrow> Reservation \<Rightarrow> bool" where
  "fresh_reservation st r =
     (res_Status r = StatusReserved \<and> \<not> list_ex (same_tuple r) (st_reservations st))"

lemma insert_reservation_fresh:
  "fresh_reservation st r \<Longrightarrow> st_reservations (insert_reservation r st) = st_reservations st @ [r]"
  by (simp add: insert_reservation_def fresh_reservation_def)

lemma insert_reservation_rows:
  "st_reservations (insert_reservation r st) \<in> {st_reservations st, st_reservations st @ [r]}"
  by (simp add: insert_reservation_def)

lemma held_committed_row:
  "counter_at st k = Some row \<Longrightarrow> ct_current row = committed st k \<and> ct_reserved row = held st k"
  by (simp add: held_def committed_def)

lemma store_ok_nonneg: "store_ok st \<Longrightarrow> 0 \<le> committed st k \<and> 0 \<le> held st k"
  by (auto simp: store_ok_def committed_def held_def split: option.split)

lemma ReserveWithTx_store_ok [inv_intros]:
  assumes "store_ok st" "res_ID r \<notin> res_ID ` set (st_reservations st)"
  shows "store_ok (fst (ReserveWithTx st i now r m))"
proof (cases rule: ReserveWithTx_cases [of st i now r m])
  case (ok st')
  have "0 \<le> ct_current row \<and> 0 \<le> ct_reserved row" if "counter_at st' k = Some row" for k row
    using held_committed_row [OF that] store_ok_nonneg [OF assms(1), of k] ok(4,5)
      Reservation_Validate_amount [OF ok(2)] by (auto simp: add_nonneg_nonneg)
  moreover have "distinct (map res_ID (st_reservations (insert_reservation r st')))"
    "\<forall>x \<in> set (st_reservations (insert_reservation r st')). 0 \<le> res_Amount x"
    using insert_reservation_rows [of r st'] assms ok(3) Reservation_Validate_amount [OF ok(2)]
    by (auto simp: store_ok_def)
  ultimately show ?thesis unfolding ok(1) by (simp add: store_ok_def)
qed (simp add: assms)

lemma ReserveWithTx_within [inv_intros]:
  assumes "within_limits M st" "m = M (res_key r)"
  shows "within_limits M (fst (ReserveWithTx st i now r m))"
proof (cases rule: ReserveWithTx_cases [of st i now r m])
  case (ok st')
  have "ct_current row + ct_reserved row \<le> of_int (M k)" if row: "counter_at st' k = Some row" for k row
  proof (cases "k = res_key r \<and> 0 < res_Amount r")
    case True
    then show ?thesis using ok(8) [of row] row assms(2) by simp
  next
    case False
    then have "counter_at st k = Some row"
      using ok(6) [of k] ok(7) row Reservation_Validate_amount [OF ok(2)] by (cases "k = res_key r") auto
    then show ?thesis using assms(1) by (simp add: within_limits_def)
  qed
  then show ?thesis unfolding ok(1) by (simp add: within_limits_def)
qed (simp add: assms)

lemma ReserveWithTx_balanced [inv_intros]:
  assumes "balanced st" "fresh_reservation st r"
  shows "balanced (fst (ReserveWithTx st i now r m))"
proof (cases rule: ReserveWithTx_cases [of st i now r m])
  case (ok st')
  have "fresh_reservation st' r" using assms(2) ok(3) by (simp add: fresh_reservation_def)
  then have "outstanding_sum (insert_reservation r st') k = outstanding_sum st k + outstanding k r" for k
    by (simp add: outstanding_sum_def insert_reservation_fresh ok(3))
  then show ?thesis
    using assms ok(5) unfolding ok(1) balanced_def by (simp add: outstanding_def fresh_reservation_def)
qed (simp add: assms)

section \<open>Confirming and releasing\<close>

text \<open>
  Both transitions move a reserved amount out of the held bucket and flip the row. The locale
  states what such a transition promises; confirming and releasing interpret it, and the
  invariants are proved once.
\<close>

definition finish ::
  "(Reservation \<Rightarrow> CounterRow \<Rightarrow> CounterRow) \<Rightarrow> (Reservation \<Rightarrow> Reservation) \<Rightarrow> Reservation \<Rightarrow> Store
   \<Rightarrow> Store \<times> goerr option" where
  "finish move flip r st =
     (case execCounterMove st (res_key r) (move r) of
        (st', Some e) \<Rightarrow> (st', Some e)
      | (st', None) \<Rightarrow> (fst (execRowFlip st' (res_ID r) flip), None))"

lemma flip_simps [simp]:
  "counter_at (fst (execRowFlip st i f)) k = counter_at st k"
  "committed (fst (execRowFlip st i f)) k = committed st k"
  "held (fst (execRowFlip st i f)) k = held st k"
  "st_reservations (fst (execRowFlip st i f)) =
     map (\<lambda>r. if res_ID r = i \<and> res_Status r = StatusReserved then f r else r) (st_reservations st)"
  by (simp_all add: execRowFlip_def counter_at_def committed_def held_def)

lemma sum_flip:
  fixes g :: "Reservation \<Rightarrow> decimal"
  assumes "distinct (map res_ID rs)" "r \<in> set rs" "res_Status r = StatusReserved"
  shows "(\<Sum>x \<leftarrow> rs. g (if res_ID x = res_ID r \<and> res_Status x = StatusReserved then f x else x))
    = (\<Sum>x \<leftarrow> rs. g x) - g r + g (f r)"
  using assms
proof (induction rs)
  case (Cons y ys)
  show ?case
  proof (cases "y = r")
    case True
    then have "res_ID x \<noteq> res_ID r" if "x \<in> set ys" for x
      using Cons.prems(1) imageI [OF that, of res_ID] by auto
    then have "(\<Sum>x \<leftarrow> ys. g (if res_ID x = res_ID r \<and> res_Status x = StatusReserved then f x else x)) = (\<Sum>x \<leftarrow> ys. g x)"
      by (intro arg_cong [where f = sum_list] map_cong) auto
    with True Cons.prems(3) show ?thesis by simp
  next
    case False
    then have "r \<in> set ys" "res_ID y \<noteq> res_ID r" using Cons.prems by auto
    with Cons show ?thesis by simp
  qed
qed simp

locale reservation_transition =
  fixes move :: "Reservation \<Rightarrow> CounterRow \<Rightarrow> CounterRow"
    and flip :: "Reservation \<Rightarrow> Reservation"
  assumes move_held: "ct_reserved (move r row) = ct_reserved row - of_int (res_Amount r)"
    and move_committed: "0 \<le> res_Amount r \<Longrightarrow> ct_current row \<le> ct_current (move r row)
      \<and> ct_current (move r row) \<le> ct_current row + of_int (res_Amount r)"
    and flip_kept: "res_ID (flip r) = res_ID r" "res_key (flip r) = res_key r"
      "res_Amount (flip r) = res_Amount r" "res_TransactionID (flip r) = res_TransactionID r"
    and flip_terminal: "ReservationStatus_IsTerminal (res_Status (flip r))"
begin

lemma flip_not_reserved: "res_Status (flip r) \<noteq> StatusReserved"
  using flip_terminal [of r] by (auto simp: ReservationStatus_IsTerminal_def)

lemma finish_cases:
  obtains (refused) e where "finish move flip r st = (st, Some e)"
  | (ok) row where "counter_at st (res_key r) = Some row" "0 \<le> ct_current (move r row)" "0 \<le> ct_reserved (move r row)"
      "finish move flip r st = (fst (execRowFlip (put_counter (res_key r) (move r row) st) (res_ID r) flip), None)"
proof (cases "counter_at st (res_key r)")
  case None
  then show ?thesis by (intro refused) (simp add: finish_def execCounterMove_def)
next
  case (Some row)
  show ?thesis
  proof (cases "ct_current (move r row) < 0 \<or> ct_reserved (move r row) < 0")
    case True
    with Some show ?thesis by (intro refused) (simp add: finish_def execCounterMove_def)
  next
    case False
    with Some show ?thesis by (intro ok [of row]) (auto simp: finish_def execCounterMove_def)
  qed
qed

lemma finish_error: "finish move flip r st = (st', Some e) \<Longrightarrow> st' = st"
  by (rule finish_cases [of r st]) auto

lemma ids_flip [simp]: "map res_ID (map (\<lambda>r. if P r then flip r else r) rs) = map res_ID rs"
  by (simp add: flip_kept)

lemma finish_store_ok:
  assumes "store_ok st"
  shows "store_ok (fst (finish move flip r st))"
proof (cases rule: finish_cases [of r st])
  case (ok row)
  have "store_ok (put_counter (res_key r) (move r row) st)" using assms ok by (intro store_ok_put)
  then show ?thesis
    unfolding ok(4) fst_conv store_ok_def flip_simps ids_flip by (auto simp: flip_kept)
qed (simp add: assms)

lemma finish_within:
  assumes "within_limits M st" "0 \<le> res_Amount r"
  shows "within_limits M (fst (finish move flip r st))"
proof (cases rule: finish_cases [of r st])
  case (ok row)
  have "ct_current (move r row) + ct_reserved (move r row) \<le> ct_current row + ct_reserved row"
    using move_committed [OF assms(2), of row] by (simp add: move_held)
  also have "\<dots> \<le> of_int (M (res_key r))" using assms(1) ok(1) by (simp add: within_limits_def)
  finally have "within_limits M (put_counter (res_key r) (move r row) st)"
    using assms(1) by (intro within_limits_put)
  then show ?thesis unfolding ok(4) by (simp add: within_limits_def)
qed (simp add: assms)

lemma finish_balanced:
  assumes "balanced st" "store_ok st" "r \<in> set (st_reservations st)" "res_Status r = StatusReserved"
  shows "balanced (fst (finish move flip r st))"
proof (cases rule: finish_cases [of r st])
  case (ok row)
  have sum: "outstanding_sum (fst (finish move flip r st)) k = outstanding_sum st k - outstanding k r" for k
    using sum_flip [OF _ assms(3,4), of "outstanding k" flip] assms(2) unfolding ok(4) store_ok_def
    by (simp add: outstanding_sum_def comp_def flip_not_reserved outstanding_def [of k "flip r"])
  have "held (fst (finish move flip r st)) k = held st k - outstanding k r" for k
    unfolding ok(4) using held_committed_row [OF ok(1)] assms(4) by (simp add: move_held outstanding_def)
  with sum show ?thesis using assms(1) by (simp add: balanced_def)
qed (simp add: assms)

text \<open>In a balanced store a reserved row with a positive amount can always be finished.\<close>

lemma outstanding_le_sum:
  assumes "store_ok st" "r \<in> set (st_reservations st)"
  shows "outstanding k r \<le> outstanding_sum st k"
proof -
  have "0 \<le> outstanding k x" if "x \<in> set (st_reservations st)" for x
    using that assms(1) by (auto simp: outstanding_def store_ok_def)
  then show ?thesis
    unfolding outstanding_sum_def using assms(2) by (intro member_le_sum_list) auto
qed

lemma finish_succeeds:
  assumes "balanced st" "store_ok st" "r \<in> set (st_reservations st)" "res_Status r = StatusReserved" "0 < res_Amount r"
  shows "snd (finish move flip r st) = None"
proof -
  let ?k = "res_key r"
  have pos: "of_int (res_Amount r) \<le> held st ?k"
    using outstanding_le_sum [OF assms(2,3), of ?k] assms(1,4) by (simp add: balanced_def outstanding_def)
  then obtain row where row: "counter_at st ?k = Some row"
    using assms(5) by (cases "counter_at st ?k") (auto simp: held_def)
  moreover have "0 \<le> ct_reserved (move r row)" using pos held_committed_row [OF row] by (simp add: move_held)
  moreover have "0 \<le> ct_current (move r row)"
    using assms(2,5) row move_committed [of r row] by (fastforce simp: store_ok_def)
  ultimately show ?thesis by (simp add: finish_def execCounterMove_def)
qed

end

interpretation confirming: reservation_transition "\<lambda>r. confirm_move r now" "confirm_row now" for now
  by unfold_locales (simp_all add: confirm_move_def confirm_row_def res_key_def ReservationStatus_IsTerminal_def)

interpretation releasing: reservation_transition "\<lambda>r. release_move r now"
  "release_row (if expire then StatusExpired else StatusReleased) now" for now expire
  by unfold_locales (simp_all add: release_move_def release_row_def res_key_def ReservationStatus_IsTerminal_def)

lemma applyConfirm_finish: "applyConfirm now r st = finish (\<lambda>r. confirm_move r now) (confirm_row now) r st"
  by (simp add: applyConfirm_def finish_def)

lemma applyRelease_finish: "applyRelease now status r st = finish (\<lambda>r. release_move r now) (release_row status now) r st"
  by (simp add: applyRelease_def finish_def)

lemma lockReservation_Inr:
  "lockReservation st i = Inr r \<Longrightarrow> r \<in> set (st_reservations st) \<and> res_ID r = i"
  by (auto simp: lockReservation_def find_Some_iff split: option.splits)

text \<open>The row was locked and is reserved, so the flip hits it: the second guard never fires.\<close>

lemma flip_hits:
  assumes "r \<in> set (st_reservations st)" "res_Status r = StatusReserved"
  shows "snd (execRowFlip (put_counter k row st) (res_ID r) f) \<noteq> 0"
  using assms by (auto simp: execRowFlip_def Let_def filter_empty_conv)

lemma ConfirmWithTx_eq:
  "ConfirmWithTx st now i =
     (case lockReservation st i of Inl e \<Rightarrow> (st, Some e)
      | Inr r \<Rightarrow> if res_Status r \<noteq> StatusReserved then (st, Some ErrReservationAlreadyTerminal) else applyConfirm now r st)"
proof (cases "lockReservation st i")
  case (Inr r)
  note r = lockReservation_Inr [OF Inr]
  then show ?thesis
    using Inr by (auto simp: ConfirmWithTx_def applyConfirm_def execCounterMove_def split_beta flip_hits split: option.split)
qed (simp add: ConfirmWithTx_def)

lemma ReleaseWithTx_eq:
  "ReleaseWithTx st now i status =
     (if status \<noteq> StatusReleased \<and> status \<noteq> StatusExpired then (st, Some ErrReservationInvalidStatus)
      else (case lockReservation st i of Inl e \<Rightarrow> (st, Some e)
      | Inr r \<Rightarrow> if res_Status r \<noteq> StatusReserved then (st, Some ErrReservationAlreadyTerminal) else applyRelease now status r st))"
proof (cases "lockReservation st i")
  case (Inr r)
  note r = lockReservation_Inr [OF Inr]
  then show ?thesis
    using Inr by (auto simp: ReleaseWithTx_def applyRelease_def execCounterMove_def split_beta flip_hits split: option.split)
qed (simp add: ReleaseWithTx_def)

text \<open>A transition of one row keeps any property that \<open>finish\<close> keeps.\<close>

lemma ConfirmWithTx_keeps:
  assumes "P st"
    and "\<And>r. r \<in> set (st_reservations st) \<Longrightarrow> res_Status r = StatusReserved \<Longrightarrow> P (fst (applyConfirm now r st))"
  shows "P (fst (ConfirmWithTx st now i))"
  using assms lockReservation_Inr [of st i] by (auto simp: ConfirmWithTx_eq split: sum.split)

lemma ReleaseWithTx_keeps:
  assumes "P st"
    and "\<And>r. r \<in> set (st_reservations st) \<Longrightarrow> res_Status r = StatusReserved \<Longrightarrow>
      status \<in> {StatusReleased, StatusExpired} \<Longrightarrow> P (fst (applyRelease now status r st))"
  shows "P (fst (ReleaseWithTx st now i status))"
  using assms lockReservation_Inr [of st i] by (auto simp: ReleaseWithTx_eq split: sum.split)

lemma release_status: "status \<in> {StatusReleased, StatusExpired} \<Longrightarrow>
    \<exists>expire. status = (if expire then StatusExpired else StatusReleased)"
  by (metis insertE singletonD)

lemma applyConfirm_inv:
  "store_ok st \<Longrightarrow> store_ok (fst (applyConfirm now r st))"
  "within_limits M st \<Longrightarrow> 0 \<le> res_Amount r \<Longrightarrow> within_limits M (fst (applyConfirm now r st))"
  "balanced st \<Longrightarrow> store_ok st \<Longrightarrow> r \<in> set (st_reservations st) \<Longrightarrow> res_Status r = StatusReserved \<Longrightarrow>
     balanced (fst (applyConfirm now r st))"
  unfolding applyConfirm_finish
  by (fact confirming.finish_store_ok, fact confirming.finish_within, fact confirming.finish_balanced)

lemma applyRelease_inv:
  assumes "status \<in> {StatusReleased, StatusExpired}"
  shows "store_ok st \<Longrightarrow> store_ok (fst (applyRelease now status r st))"
  "within_limits M st \<Longrightarrow> 0 \<le> res_Amount r \<Longrightarrow> within_limits M (fst (applyRelease now status r st))"
  "balanced st \<Longrightarrow> store_ok st \<Longrightarrow> r \<in> set (st_reservations st) \<Longrightarrow> res_Status r = StatusReserved \<Longrightarrow>
     balanced (fst (applyRelease now status r st))"
proof -
  obtain x where x: "status = (if x then StatusExpired else StatusReleased)" using release_status [OF assms] by blast
  show "store_ok st \<Longrightarrow> store_ok (fst (applyRelease now status r st))"
    unfolding applyRelease_finish x by (fact releasing.finish_store_ok)
  show "within_limits M st \<Longrightarrow> 0 \<le> res_Amount r \<Longrightarrow> within_limits M (fst (applyRelease now status r st))"
    unfolding applyRelease_finish x by (fact releasing.finish_within)
  show "balanced st \<Longrightarrow> store_ok st \<Longrightarrow> r \<in> set (st_reservations st) \<Longrightarrow> res_Status r = StatusReserved \<Longrightarrow>
     balanced (fst (applyRelease now status r st))"
    unfolding applyRelease_finish x by (fact releasing.finish_balanced)
qed

lemma store_ok_amount: "store_ok st \<Longrightarrow> r \<in> set (st_reservations st) \<Longrightarrow> 0 \<le> res_Amount r"
  by (simp add: store_ok_def)

section \<open>Transitions of all reservations of a transaction\<close>

context reservation_transition
begin

lemma finish_others:
  assumes "x \<in> set (st_reservations st)" "res_ID x \<noteq> res_ID r"
  shows "x \<in> set (st_reservations (fst (finish move flip r st)))"
proof (cases rule: finish_cases [of r st])
  case (ok row)
  then show ?thesis using assms by (auto simp: image_iff intro!: bexI [of _ x])
qed (simp add: assms)

lemma each_finish_inv:
  assumes "store_ok st" "within_limits M st" "\<forall>r \<in> set rs. 0 \<le> res_Amount r"
  shows "store_ok (fst (each_reservation (finish move flip) rs st)) \<and>
    within_limits M (fst (each_reservation (finish move flip) rs st))"
  using assms
proof (induction rs arbitrary: st)
  case (Cons r rs)
  have step: "store_ok (fst (finish move flip r st))" "within_limits M (fst (finish move flip r st))"
    using Cons.prems by (auto intro: finish_store_ok finish_within)
  with Cons show ?case
    by (cases "finish move flip r st") (auto split: option.split)
qed simp

lemma each_finish_balanced:
  assumes "store_ok st" "balanced st" "distinct (map res_ID rs)"
    "\<forall>r \<in> set rs. r \<in> set (st_reservations st) \<and> res_Status r = StatusReserved"
  shows "balanced (fst (each_reservation (finish move flip) rs st))"
  using assms
proof (induction rs arbitrary: st)
  case (Cons r rs)
  let ?st = "fst (finish move flip r st)"
  have "store_ok ?st" "balanced ?st" using Cons.prems by (auto intro: finish_store_ok finish_balanced)
  moreover have "\<forall>x \<in> set rs. x \<in> set (st_reservations ?st) \<and> res_Status x = StatusReserved"
    using Cons.prems finish_others [of _ st r] by (auto simp: image_iff)
  ultimately have "balanced (fst (each_reservation (finish move flip) rs ?st))"
    using Cons.IH Cons.prems(3) by simp
  with \<open>balanced ?st\<close> show ?case
    by (cases "finish move flip r st") (auto split: option.split)
qed simp

lemma each_finish_succeeds:
  assumes "store_ok st" "balanced st" "distinct (map res_ID rs)"
    "\<forall>r \<in> set rs. r \<in> set (st_reservations st) \<and> res_Status r = StatusReserved \<and> 0 < res_Amount r"
  shows "snd (each_reservation (finish move flip) rs st) = None"
  using assms
proof (induction rs arbitrary: st)
  case (Cons r rs)
  let ?st = "fst (finish move flip r st)"
  have ok: "snd (finish move flip r st) = None" using Cons.prems by (intro finish_succeeds) auto
  have "store_ok ?st" "balanced ?st" using Cons.prems by (auto intro: finish_store_ok finish_balanced)
  moreover have "\<forall>x \<in> set rs. x \<in> set (st_reservations ?st) \<and> res_Status x = StatusReserved \<and> 0 < res_Amount x"
    using Cons.prems finish_others [of _ st r] by (auto simp: image_iff)
  ultimately have "snd (each_reservation (finish move flip) rs ?st) = None"
    using Cons.IH Cons.prems(3) by simp
  with ok show ?case by (cases "finish move flip r st") simp
qed simp

end

text \<open>What the transitions of several rows do to the buckets: \<open>gain\<close> is the part that is committed.\<close>

locale exact_transition = reservation_transition +
  fixes gain :: decimal
  assumes move_gain: "ct_current (move r row) = ct_current row + gain * of_int (res_Amount r)"
begin

lemma finish_buckets:
  assumes "finish move flip r st = (st', None)" "res_Status r = StatusReserved"
  shows "held st' k = held st k - outstanding k r \<and> committed st' k = committed st k + gain * outstanding k r"
proof (cases rule: finish_cases [of r st])
  case (ok row)
  then have st': "st' = fst (execRowFlip (put_counter (res_key r) (move r row) st) (res_ID r) flip)" using assms(1) by simp
  show ?thesis unfolding st' using held_committed_row [OF ok(1)] assms(2)
    by (simp add: move_held move_gain outstanding_def)
qed (use assms in simp)

lemma each_finish_buckets:
  assumes "each_reservation (finish move flip) rs st = (st', None)" "\<forall>r \<in> set rs. res_Status r = StatusReserved"
  shows "held st' k = held st k - (\<Sum>r \<leftarrow> rs. outstanding k r) \<and>
    committed st' k = committed st k + gain * (\<Sum>r \<leftarrow> rs. outstanding k r)"
  using assms
proof (induction rs arbitrary: st)
  case (Cons r rs)
  obtain st1 where st1: "finish move flip r st = (st1, None)" "each_reservation (finish move flip) rs st1 = (st', None)"
    using Cons.prems(1) by (auto split: prod.splits option.splits)
  show ?case
    using finish_buckets [OF st1(1), of k] Cons.IH [OF st1(2)] Cons.prems(2) by (simp add: algebra_simps)
qed simp

lemma each_finish_rows:
  assumes "each_reservation (finish move flip) rs st = (st', None)"
  shows "st_reservations st' =
    map (\<lambda>x. if res_Status x = StatusReserved \<and> res_ID x \<in> res_ID ` set rs then flip x else x) (st_reservations st)"
  using assms
proof (induction rs arbitrary: st)
  case (Cons r rs)
  obtain st1 where st1: "finish move flip r st = (st1, None)" "each_reservation (finish move flip) rs st1 = (st', None)"
    using Cons.prems(1) by (auto split: prod.splits option.splits)
  have "st_reservations st1 = map (\<lambda>x. if res_ID x = res_ID r \<and> res_Status x = StatusReserved then flip x else x) (st_reservations st)"
    using st1(1) by (cases rule: finish_cases [of r st]) auto
  then show ?case unfolding Cons.IH [OF st1(2)] by (auto simp: flip_kept flip_not_reserved)
qed simp

end

interpretation confirming: exact_transition "\<lambda>r. confirm_move r now" "confirm_row now" 1 for now
  by unfold_locales (simp add: confirm_move_def)

interpretation releasing: exact_transition "\<lambda>r. release_move r now"
  "release_row (if expire then StatusExpired else StatusReleased) now" 0 for now expire
  by unfold_locales (simp add: release_move_def)

lemma applyConfirm_fun: "applyConfirm now = finish (\<lambda>r. confirm_move r now) (confirm_row now)"
  by (intro ext applyConfirm_finish)

lemma applyRelease_fun: "applyRelease now status = finish (\<lambda>r. release_move r now) (release_row status now)"
  by (intro ext applyRelease_finish)

lemma lockReservedByTransaction_props:
  "r \<in> set (lockReservedByTransaction st t) \<Longrightarrow>
     r \<in> set (st_reservations st) \<and> res_Status r = StatusReserved \<and> res_TransactionID r = t"
  "store_ok st \<Longrightarrow> distinct (map res_ID (lockReservedByTransaction st t))"
  by (auto simp: lockReservedByTransaction_def store_ok_def distinct_map_filter)

lemma ConfirmByTransactionWithTx_fst:
  "fst (ConfirmByTransactionWithTx st now t) =
     fst (each_reservation (finish (\<lambda>r. confirm_move r now) (confirm_row now)) (lockReservedByTransaction st t) st)"
  by (simp add: ConfirmByTransactionWithTx_def Let_def applyConfirm_fun split_beta split: option.split)

lemma ReleaseByTransactionWithTx_fst:
  "status \<in> {StatusReleased, StatusExpired} \<Longrightarrow> fst (ReleaseByTransactionWithTx st now t status) =
     fst (each_reservation (finish (\<lambda>r. release_move r now) (release_row status now)) (lockReservedByTransaction st t) st)"
  by (auto simp: ReleaseByTransactionWithTx_def Let_def applyRelease_fun split_beta split: option.split)

lemma within_limits_own: "within_limits (\<lambda>k. \<lceil>committed st k + held st k\<rceil>) st"
  by (auto simp: within_limits_def committed_def held_def le_of_int_ceiling)

lemma ConfirmByTransactionWithTx_inv:
  assumes "store_ok st"
  shows "store_ok (fst (ConfirmByTransactionWithTx st now t))"
    "within_limits M st \<Longrightarrow> within_limits M (fst (ConfirmByTransactionWithTx st now t))"
    "balanced st \<Longrightarrow> balanced (fst (ConfirmByTransactionWithTx st now t))"
proof -
  have am: "\<forall>r \<in> set (lockReservedByTransaction st t). 0 \<le> res_Amount r"
    using lockReservedByTransaction_props(1) store_ok_amount [OF assms] by blast
  show "store_ok (fst (ConfirmByTransactionWithTx st now t))"
    unfolding ConfirmByTransactionWithTx_fst using confirming.each_finish_inv [OF assms within_limits_own am] by blast
  show "within_limits M st \<Longrightarrow> within_limits M (fst (ConfirmByTransactionWithTx st now t))"
    unfolding ConfirmByTransactionWithTx_fst using confirming.each_finish_inv [OF assms _ am] by blast
  show "balanced st \<Longrightarrow> balanced (fst (ConfirmByTransactionWithTx st now t))"
    unfolding ConfirmByTransactionWithTx_fst using lockReservedByTransaction_props assms
    by (intro confirming.each_finish_balanced) blast+
qed

lemma ReleaseByTransactionWithTx_inv:
  assumes "store_ok st" "status \<in> {StatusReleased, StatusExpired}"
  shows "store_ok (fst (ReleaseByTransactionWithTx st now t status))"
    "within_limits M st \<Longrightarrow> within_limits M (fst (ReleaseByTransactionWithTx st now t status))"
    "balanced st \<Longrightarrow> balanced (fst (ReleaseByTransactionWithTx st now t status))"
proof -
  obtain x where x: "status = (if x then StatusExpired else StatusReleased)" using release_status [OF assms(2)] by blast
  have am: "\<forall>r \<in> set (lockReservedByTransaction st t). 0 \<le> res_Amount r"
    using lockReservedByTransaction_props(1) store_ok_amount [OF assms(1)] by blast
  note fst = ReleaseByTransactionWithTx_fst [OF assms(2), unfolded x]
  show "store_ok (fst (ReleaseByTransactionWithTx st now t status))"
    unfolding x fst using releasing.each_finish_inv [OF assms(1) within_limits_own am] by blast
  show "within_limits M st \<Longrightarrow> within_limits M (fst (ReleaseByTransactionWithTx st now t status))"
    unfolding x fst using releasing.each_finish_inv [OF assms(1) _ am] by blast
  show "balanced st \<Longrightarrow> balanced (fst (ReleaseByTransactionWithTx st now t status))"
    unfolding x fst using lockReservedByTransaction_props assms(1)
    by (intro releasing.each_finish_balanced) blast+
qed

section \<open>Cleaning up counters\<close>

lemma delete_first_filter: "filter (Not \<circ> P) (delete_first P n xs) = filter (Not \<circ> P) xs"
  by (induction P n xs rule: delete_first.induct) auto

lemma delete_first_length: "length (delete_first P n xs) + min n (length (filter P xs)) = length xs"
  by (induction P n xs rule: delete_first.induct) auto

lemma delete_first_none: "filter P xs = [] \<Longrightarrow> delete_first P n xs = xs"
  by (induction P n xs rule: delete_first.induct) (auto split: if_splits)

lemma delete_batches_result:
  assumes "\<And>n. ctx n = None" "0 < batch"
  shows "delete_batches batch now ctx n rows t =
    (filter (Not \<circ> (\<lambda>(k, row). expired_counter now row)) rows,
     t + length (filter (\<lambda>(k, row). expired_counter now row) rows), None)"
  using assms
proof (induction batch now ctx n rows t rule: delete_batches.induct)
  case (1 batch now ctx n rows t)
  let ?P = "\<lambda>(k, row). expired_counter now row"
  let ?rows = "delete_first ?P batch rows"
  have len: "length ?rows + min batch (length (filter ?P rows)) = length rows" by (rule delete_first_length)
  have flt: "filter (Not \<circ> ?P) ?rows = filter (Not \<circ> ?P) rows" by (rule delete_first_filter)
  show ?case
  proof (cases "length rows - length ?rows = 0")
    case True
    then have "length (filter ?P rows) = 0" using len "1.prems"(2) by linarith
    then have none: "filter ?P rows = []" by simp
    then have "?rows = rows" by (rule delete_first_none)
    moreover have "filter (Not \<circ> ?P) rows = rows"
      using none by (auto simp: filter_empty_conv filter_id_conv)
    ultimately show ?thesis
      using none by (subst delete_batches.simps) (simp add: "1.prems"(1))
  next
    case False
    have count: "t + (length rows - length ?rows) + length (filter ?P ?rows) = t + length (filter ?P rows)"
      using sum_length_filter_compl [of ?P rows] sum_length_filter_compl [of ?P ?rows]
        arg_cong [OF flt, of length] len by (simp add: comp_def)
    have "delete_batches batch now ctx n rows t =
        delete_batches batch now ctx (Suc n) ?rows (t + (length rows - length ?rows))"
      using False by (subst delete_batches.simps) (simp add: "1.prems"(1) Let_def)
    also have "\<dots> = (filter (Not \<circ> ?P) ?rows, t + (length rows - length ?rows) + length (filter ?P ?rows), None)"
      by (rule "1.IH" [OF "1.prems"(1) refl refl False "1.prems"])
    finally show ?thesis unfolding flt count .
  qed
qed

text \<open>
  The clean-up of counters ends, whatever the number of rows, and removes exactly the
  counters whose expiry lies before the given time; the others, and those without an expiry, keep
  their content and order, and the count returned is the number of rows removed.
\<close>

theorem DeleteExpiredCounters_exact:
  assumes "\<And>n. ctx n = None"
  shows "DeleteExpiredCounters st now ctx =
    (st\<lparr>st_counters := filter (Not \<circ> (\<lambda>(k, row). expired_counter now row)) (st_counters st)\<rparr>,
     length (filter (\<lambda>(k, row). expired_counter now row) (st_counters st)), None)"
  using delete_batches_result [of ctx DefaultDeleteBatchSize now 0 "st_counters st" 0] assms
  by (simp add: DeleteExpiredCounters_def DefaultDeleteBatchSize_def)

section \<open>Examples\<close>

definition sample_reservation :: "uuid \<Rightarrow> uuid \<Rightarrow> int \<Rightarrow> Reservation" where
  "sample_reservation i t a =
     \<lparr>res_ID = i, res_LimitID = 9, res_ScopeKey = ''acct:7'', res_PeriodKey = ''2026-01-01'', res_Amount = a,
      res_Status = StatusReserved, res_TransactionID = t, res_ExpiresAt = 300 * Second, res_CreatedAt = 0,
      res_ConfirmedAt = None, res_ReleasedAt = None\<rparr>"

definition sample_counter :: "time option \<Rightarrow> CounterRow" where
  "sample_counter x = \<lparr>ct_id = 1, ct_current = 0, ct_reserved = 0, ct_updated = 0, ct_expires = x\<rparr>"

theorem DeleteExpiredCounters_exact_witness:
  "DeleteExpiredCounters
     \<lparr>st_counters = [((1, ''a'', ''p''), sample_counter (Some 5)), ((2, ''a'', ''p''), sample_counter None)],
      st_reservations = []\<rparr> 10 (\<lambda>n. None)
   = (\<lparr>st_counters = [((2, ''a'', ''p''), sample_counter None)], st_reservations = []\<rparr>, 1, None)"
  by (subst DeleteExpiredCounters_exact) (simp_all add: expired_counter_def sample_counter_def)

end
