(* ===== verification/LimitChecker.thy ===== *)
theory LimitChecker
  imports UsageStore
begin

text \<open>
  The limit checker of the tracer: \<^verbatim>\<open>components/tracer/internal/services/query/limit_checker.go\<close>
  and \<^verbatim>\<open>reservation_resolver.go\<close>. The limit repository is an interface of the code; its
  \<^verbatim>\<open>List\<close> method is the argument \<open>List\<close>. The loop over its pages need not end for every
  repository, so \<open>list_pages\<close> has result \<open>None\<close> when it does not return. The clock and
  \<^verbatim>\<open>time.Now()\<close> are arguments (\<open>serverNow\<close>, \<open>dbNow\<close>); \<open>ids n\<close> is the identifier
  that \<^verbatim>\<open>uuid.New()\<close> gives for the limit at position \<open>n\<close>.
\<close>

record ListLimitsResult =
  llr_Limits :: "Limit list"
  llr_NextCursor :: string
  llr_HasMore :: bool

definition CounterRetentionDays :: int where "CounterRetentionDays = 90"

definition calculateCounterExpiresAt :: "LimitType \<Rightarrow> time option \<Rightarrow> time option \<Rightarrow> time option" where
  "calculateCounterExpiresAt limitType resetAt customEndDate =
     (case limitType of
        LimitTypeDaily \<Rightarrow> map_option (\<lambda>t. AddDate t 0 0 CounterRetentionDays) resetAt
      | LimitTypeWeekly \<Rightarrow> map_option (\<lambda>t. AddDate t 0 0 CounterRetentionDays) resetAt
      | LimitTypeMonthly \<Rightarrow> map_option (\<lambda>t. AddDate t 0 0 CounterRetentionDays) resetAt
      | LimitTypeCustom \<Rightarrow> map_option (\<lambda>t. AddDate t 0 0 CounterRetentionDays) customEndDate
      | LimitTypePerTransaction \<Rightarrow> None
      | OtherLimitType s \<Rightarrow> None)"

section \<open>Scopes of a transaction and of a limit\<close>

definition buildTransactionScope :: "CheckLimitsInput \<Rightarrow> Scope" where
  "buildTransactionScope input =
     \<lparr>sc_SegmentID = cli_SegmentID input, sc_PortfolioID = cli_PortfolioID input,
      sc_AccountID = Some (cli_AccountID input), sc_MerchantID = cli_MerchantID input,
      sc_TransactionType = cli_TransactionType input, sc_SubType = cli_SubType input\<rparr>"

definition scopeMatchesLimit :: "Scope list \<Rightarrow> Scope option \<Rightarrow> bool" where
  "scopeMatchesLimit limitScopes txScope =
     (if length limitScopes = 0 then True
      else (case txScope of None \<Rightarrow> False | Some tx \<Rightarrow> any_scope_matches limitScopes tx))"

fun first_matching :: "Scope list \<Rightarrow> Scope \<Rightarrow> Scope option" where
  "first_matching [] tx = None"
| "first_matching (s # ss) tx = (if Matches s tx then Some s else first_matching ss tx)"

definition calculateScopeKeyFromScopes :: "extlib \<Rightarrow> Scope list \<Rightarrow> Scope \<Rightarrow> string" where
  "calculateScopeKeyFromScopes lib ss txScope =
     (if length ss = 0 then GlobalScopeKey
      else (case first_matching ss txScope of
              Some s \<Rightarrow> CalculateScopeKey lib (Some s)
            | None \<Rightarrow> CalculateScopeKey lib (Some txScope)))"

definition scope_fields :: "extlib \<Rightarrow> Scope \<Rightarrow> string list" where
  "scope_fields lib s =
     key_part lib ''account:'' (sc_AccountID s) @ key_part lib ''segment:'' (sc_SegmentID s) @
     key_part lib ''portfolio:'' (sc_PortfolioID s) @ key_part lib ''merchant:'' (sc_MerchantID s) @
     (case sc_TransactionType s of None \<Rightarrow> [] | Some t \<Rightarrow> [''transactionType:'' @ TransactionType_String t]) @
     (case sc_SubType s of None \<Rightarrow> [] | Some t \<Rightarrow> [''subType:'' @ t])"

definition formatScopeString :: "extlib \<Rightarrow> Scope list \<Rightarrow> string" where
  "formatScopeString lib ss =
     (if length ss = 0 then GlobalScopeKey
      else (let groups = map (\<lambda>s. ''('' @ strings_Join (scope_fields lib s) '','' @ '')'')
                           (filter (\<lambda>s. 0 < length (scope_fields lib s)) ss)
            in if length groups = 0 then GlobalScopeKey else strings_Join groups '' OR ''))"

section \<open>Applicable limits\<close>

definition page_filter :: "string \<Rightarrow> string \<Rightarrow> ListLimitsFilter" where
  "page_filter currency cursor =
     \<lparr>llf_Name = None, llf_Status = Some LimitStatusActive, llf_LimitType = None, llf_Currency = Some currency,
      llf_ScopeFilter = None, llf_Limit = MaxPaginationLimit, llf_Cursor = cursor, llf_SortBy = '''',
      llf_SortOrder = ''''\<rparr>"

partial_function (option) list_pages ::
  "(ListLimitsFilter \<Rightarrow> goerr + ListLimitsResult) \<Rightarrow> string \<Rightarrow> string \<Rightarrow> Limit list \<Rightarrow> (goerr + Limit list) option" where
  "list_pages List currency cursor allLimits =
     (case List (page_filter currency cursor) of
        Inl e \<Rightarrow> Some (Inl e)
      | Inr result \<Rightarrow>
        if \<not> llr_HasMore result \<or> llr_NextCursor result = '''' then Some (Inr (allLimits @ llr_Limits result))
        else list_pages List currency (llr_NextCursor result) (allLimits @ llr_Limits result))"

declare list_pages.simps [code]

definition getApplicableLimits ::
  "(ListLimitsFilter \<Rightarrow> goerr + ListLimitsResult) \<Rightarrow> CheckLimitsInput \<Rightarrow> (goerr + Limit list) option" where
  "getApplicableLimits List input =
     map_option
       (\<lambda>res. case res of Inl e \<Rightarrow> Inl e
          | Inr allLimits \<Rightarrow>
            Inr (filter (\<lambda>l. scopeMatchesLimit (lim_Scopes l) (Some (buildTransactionScope input))) allLimits))
       (list_pages List (cli_Currency input) '''' [])"

section \<open>One limit\<close>

definition usage_detail :: "extlib \<Rightarrow> Limit \<Rightarrow> CheckLimitsInput \<Rightarrow> decimal \<Rightarrow> bool \<Rightarrow> string \<Rightarrow> LimitUsageDetail" where
  "usage_detail lib limit input usage exceeded periodKey =
     \<lparr>lud_LimitID = lim_ID limit, lud_LimitAmount = lim_MaxAmount limit,
      lud_Scope = formatScopeString lib (lim_Scopes limit), lud_Period = lim_LimitType limit,
      lud_CurrentUsage = usage, lud_AttemptedAmount = cli_Amount input, lud_Exceeded = exceeded,
      lud_Skipped = False, lud_SkipReason = '''', lud_InternalLimitType = lim_LimitType limit,
      lud_Scopes = lim_Scopes limit, lud_InternalPeriodKey = periodKey\<rparr>"

definition skipped_detail :: "extlib \<Rightarrow> Limit \<Rightarrow> CheckLimitsInput \<Rightarrow> string \<Rightarrow> LimitUsageDetail" where
  "skipped_detail lib limit input reason =
     (usage_detail lib limit input 0 False '''')\<lparr>lud_Skipped := True, lud_SkipReason := reason\<rparr>"

definition skipIfOutsideTimeWindow :: "extlib \<Rightarrow> Limit \<Rightarrow> CheckLimitsInput \<Rightarrow> time \<Rightarrow> LimitUsageDetail option" where
  "skipIfOutsideTimeWindow lib limit input serverNow =
     (if \<not> IsWithinTimeWindow limit serverNow then Some (skipped_detail lib limit input ''outside_time_window'') else None)"

definition skipIfOutsideCustomPeriod :: "extlib \<Rightarrow> Limit \<Rightarrow> CheckLimitsInput \<Rightarrow> time \<Rightarrow> LimitUsageDetail option" where
  "skipIfOutsideCustomPeriod lib limit input serverNow =
     (if \<not> IsWithinCustomPeriod limit serverNow then Some (skipped_detail lib limit input ''outside_custom_period'') else None)"

definition handlePerTransactionLimit :: "extlib \<Rightarrow> Limit \<Rightarrow> CheckLimitsInput \<Rightarrow> LimitUsageDetail \<times> bool" where
  "handlePerTransactionLimit lib limit input =
     (let exceeded = (lim_MaxAmount limit < cli_Amount input)
      in (usage_detail lib limit input 0 exceeded '''', exceeded))"

definition processLimitAtomic ::
  "extlib \<Rightarrow> Store \<Rightarrow> uuid \<Rightarrow> time \<Rightarrow> Limit \<Rightarrow> CheckLimitsInput \<Rightarrow> string \<Rightarrow> time
   \<Rightarrow> Store \<times> (goerr + LimitUsageDetail \<times> bool)" where
  "processLimitAtomic lib st newID dbNow limit input scopeKey serverNow =
     (case skipIfOutsideTimeWindow lib limit input serverNow of
        Some detail \<Rightarrow> (st, Inr (detail, False))
      | None \<Rightarrow>
        (case skipIfOutsideCustomPeriod lib limit input serverNow of
           Some detail \<Rightarrow> (st, Inr (detail, False))
         | None \<Rightarrow>
           if lim_LimitType limit = LimitTypePerTransaction then (st, Inr (handlePerTransactionLimit lib limit input))
           else (case CalculatePeriodKey (lim_LimitType limit) serverNow of
                   Inl e \<Rightarrow> (st, Inl e)
                 | Inr periodKey \<Rightarrow>
                   (let resetAt = CalculateResetAt (lim_LimitType limit) serverNow;
                        expiresAt = calculateCounterExpiresAt (lim_LimitType limit) resetAt (lim_CustomEndDate limit)
                    in if lim_MaxAmount limit < cli_Amount input then
                         (let usage = (case map_of (GetUsageForLimits st [lim_ID limit] scopeKey periodKey) (lim_ID limit) of
                                         None \<Rightarrow> 0 | Some u \<Rightarrow> u)
                          in (st, Inr (usage_detail lib limit input (usage + cli_Amount input) True periodKey, True)))
                       else (case UpsertAndIncrementAtomic st newID dbNow (lim_ID limit) scopeKey periodKey
                                    (cli_Amount input) (lim_MaxAmount limit) expiresAt of
                               (st', newUsage, Some e) \<Rightarrow>
                                 if errors_Is e ErrUsageCounterExceedsLimit
                                 then (st', Inr (usage_detail lib limit input (newUsage + cli_Amount input) True periodKey, True))
                                 else (st', Inl (Wrapped ''failed to upsert and increment counter'' e))
                             | (st', newUsage, None) \<Rightarrow>
                                 (st', Inr (usage_detail lib limit input newUsage False periodKey, False)))))))"

section \<open>All limits\<close>

fun check_loop ::
  "extlib \<Rightarrow> (nat \<Rightarrow> uuid) \<Rightarrow> time \<Rightarrow> CheckLimitsInput \<Rightarrow> time \<Rightarrow> nat \<Rightarrow> Limit list \<Rightarrow> Store
   \<Rightarrow> LimitUsageDetail list \<Rightarrow> uuid list \<Rightarrow> Store \<times> (goerr + LimitUsageDetail list \<times> uuid list)" where
  "check_loop lib ids dbNow input serverNow n [] st details exceeded = (st, Inr (details, exceeded))"
| "check_loop lib ids dbNow input serverNow n (limit # limits) st details exceeded =
     (let scopeKey = calculateScopeKeyFromScopes lib (lim_Scopes limit) (buildTransactionScope input) in
      case processLimitAtomic lib st (ids n) dbNow limit input scopeKey serverNow of
        (st', Inl e) \<Rightarrow> (st', Inl e)
      | (st', Inr (detail, ex)) \<Rightarrow>
          check_loop lib ids dbNow input serverNow (Suc n) limits st' (details @ [detail])
            (if ex then exceeded @ [lim_ID limit] else exceeded))"

definition CheckLimits ::
  "extlib \<Rightarrow> (ListLimitsFilter \<Rightarrow> goerr + ListLimitsResult) \<Rightarrow> (nat \<Rightarrow> uuid) \<Rightarrow> time \<Rightarrow> time \<Rightarrow> Store
   \<Rightarrow> CheckLimitsInput option \<Rightarrow> (Store \<times> (goerr + CheckLimitsOutput)) option" where
  "CheckLimits lib List ids dbNow serverNow st input =
     (case input of None \<Rightarrow> Some (st, Inl ErrCheckLimitsNilInput)
      | Some input \<Rightarrow>
        (case CheckLimitsInput_Validate lib input of Some e \<Rightarrow> Some (st, Inl e)
         | None \<Rightarrow>
           map_option
             (\<lambda>res. case res of Inl e \<Rightarrow> (st, Inl e)
                | Inr limits \<Rightarrow>
                  if length limits = 0 then (st, Inr (NewCheckLimitsOutput True serverNow))
                  else (case check_loop lib ids dbNow input serverNow 0 limits st [] [] of
                          (st', Inl e) \<Rightarrow> (st', Inl e)
                        | (st', Inr (details, exceeded)) \<Rightarrow>
                          (let allowed = (length exceeded = 0);
                               out = WithLimitUsageDetails (NewCheckLimitsOutput allowed serverNow) details
                           in (st', Inr (if \<not> allowed then WithExceededLimits out exceeded else out)))))
             (getApplicableLimits List input)))"

section \<open>Reservation parameters\<close>

record ReservationSpec =
  rs_LimitID :: uuid
  rs_ScopeKey :: string
  rs_PeriodKey :: string
  rs_Amount :: int
  rs_MaxAmount :: int

text \<open>\<open>Inr None\<close>: denied; \<open>Inr (Some specs)\<close>: the parameters per counter-backed limit.\<close>

fun resolve_loop ::
  "extlib \<Rightarrow> CheckLimitsInput \<Rightarrow> time \<Rightarrow> Limit list \<Rightarrow> ReservationSpec list \<Rightarrow> goerr + ReservationSpec list option" where
  "resolve_loop lib input serverNow [] specs = Inr (Some specs)"
| "resolve_loop lib input serverNow (limit # limits) specs =
     (if skipIfOutsideTimeWindow lib limit input serverNow \<noteq> None then resolve_loop lib input serverNow limits specs
      else if skipIfOutsideCustomPeriod lib limit input serverNow \<noteq> None then resolve_loop lib input serverNow limits specs
      else if lim_LimitType limit = LimitTypePerTransaction then
        (if lim_MaxAmount limit < cli_Amount input then Inr None else resolve_loop lib input serverNow limits specs)
      else (case CalculatePeriodKey (lim_LimitType limit) serverNow of
              Inl e \<Rightarrow> Inl e
            | Inr periodKey \<Rightarrow>
              if lim_MaxAmount limit < cli_Amount input then Inr None
              else resolve_loop lib input serverNow limits
                     (specs @ [\<lparr>rs_LimitID = lim_ID limit,
                                rs_ScopeKey = calculateScopeKeyFromScopes lib (lim_Scopes limit) (buildTransactionScope input),
                                rs_PeriodKey = periodKey,
                                rs_Amount = dec_IntPart lib (cli_Amount input),
                                rs_MaxAmount = dec_IntPart lib (lim_MaxAmount limit)\<rparr>])))"

definition ResolveReservations ::
  "extlib \<Rightarrow> (ListLimitsFilter \<Rightarrow> goerr + ListLimitsResult) \<Rightarrow> time \<Rightarrow> CheckLimitsInput option
   \<Rightarrow> (goerr + ReservationSpec list option) option" where
  "ResolveReservations lib List serverNow input =
     (case input of None \<Rightarrow> Some (Inl ErrCheckLimitsNilInput)
      | Some input \<Rightarrow>
        (case CheckLimitsInput_ValidateForReserve lib input of Some e \<Rightarrow> Some (Inl e)
         | None \<Rightarrow>
           map_option
             (\<lambda>res. case res of Inl e \<Rightarrow> Inl e
                | Inr limits \<Rightarrow>
                  if length limits = 0 then Inr (Some []) else resolve_loop lib input serverNow limits [])
             (getApplicableLimits List input)))"

section \<open>Scopes agree\<close>

text \<open>Rules and limits see the same scope of a request, and match it by the same rule.\<close>

lemma buildTransactionScope_request: "buildTransactionScope (ToCheckLimitsInput r) = ToTransactionScope r"
  by (simp add: buildTransactionScope_def ToCheckLimitsInput_def ToTransactionScope_def)

lemma scopeMatchesLimit_eq: "scopeMatchesLimit = RuleScopesMatch"
  by (intro ext) (simp add: scopeMatchesLimit_def RuleScopesMatch_def)

lemma first_matching_Some: "first_matching ss tx = Some s \<Longrightarrow> s \<in> set ss \<and> Matches s tx"
  by (induction ss) (auto split: if_splits)

lemma first_matching_None: "first_matching ss tx = None \<longleftrightarrow> (\<forall>s \<in> set ss. \<not> Matches s tx)"
  by (induction ss) auto

section \<open>All pages are read\<close>

lemma list_pages_from:
  assumes "\<And>i. i < length pages \<Longrightarrow> List (page_filter currency (cur i)) =
      Inr \<lparr>llr_Limits = pages ! i, llr_NextCursor = cur (Suc i), llr_HasMore = (Suc i < length pages)\<rparr>"
    and "\<And>i. cur (Suc i) \<noteq> ''''" and "i < length pages"
  shows "list_pages List currency (cur i) acc = Some (Inr (acc @ concat (drop i pages)))"
  using assms(3)
proof (induction "length pages - i" arbitrary: i acc)
  case (Suc n)
  have page: "drop i pages = pages ! i # drop (Suc i) pages" using Suc.prems by (rule Cons_nth_drop_Suc [symmetric])
  show ?case
  proof (cases "Suc i < length pages")
    case True
    then show ?thesis
      using Suc.hyps(1) [of "Suc i" "acc @ pages ! i"] Suc.hyps(2) assms(1) [OF Suc.prems] assms(2) page
      by (subst list_pages.simps) simp
  next
    case False
    then show ?thesis using assms(1) [OF Suc.prems] page by (subst list_pages.simps) simp
  qed
qed simp


section \<open>What a check does to the counters\<close>

lemma UpsertAndIncrementAtomic_cases [consumes 1, case_names refused ok]:
  assumes "0 < a"
  obtains (refused) u where "UpsertAndIncrementAtomic st i now l s p a m x = (st, u, Some ErrUsageCounterExceedsLimit)"
  | (ok) row where "UpsertAndIncrementAtomic st i now l s p a m x = (put_counter (l, s, p) row st, ct_current row, None)"
      "ct_current row = committed st (l, s, p) + a" "ct_current row \<le> m" "ct_reserved row = held st (l, s, p)"
proof -
  have r: "?thesis" if "UpsertAndIncrementAtomic st i now l s p a m x = (st, u, Some ErrUsageCounterExceedsLimit)" for u
    using that by (rule refused)
  show ?thesis
  proof (cases "m < a")
    case True
    with assms show ?thesis by (intro r) (simp add: UpsertAndIncrementAtomic_def)
  next
    case False
    show ?thesis
    proof (cases "counter_at st (l, s, p)")
      case None
      with assms False show ?thesis
        by (intro ok [of "\<lparr>ct_id = i, ct_current = a, ct_reserved = 0, ct_updated = now, ct_expires = x\<rparr>"])
          (simp_all add: UpsertAndIncrementAtomic_def upsertAndIncrementCTEQuery_def committed_def held_def)
    next
      case (Some row)
      show ?thesis
      proof (cases "ct_current row + a \<le> m")
        case True
        with assms False Some show ?thesis
          by (intro ok [of "row\<lparr>ct_current := ct_current row + a, ct_updated := now, ct_expires := x\<rparr>"])
            (simp_all add: UpsertAndIncrementAtomic_def upsertAndIncrementCTEQuery_def committed_def held_def)
      next
        case nf: False
        with assms False Some show ?thesis
          by (intro r) (auto simp: UpsertAndIncrementAtomic_def upsertAndIncrementCTEQuery_def)
      qed
    qed
  qed
qed

definition charged :: "LimitUsageDetail \<Rightarrow> bool" where
  "charged d = (\<not> lud_Skipped d \<and> \<not> lud_Exceeded d \<and> lud_InternalLimitType d \<noteq> LimitTypePerTransaction)"

lemma usage_detail_sel [simp]:
  "lud_LimitID (usage_detail lib l i u e p) = lim_ID l"
  "lud_Exceeded (usage_detail lib l i u e p) = e"
  "lud_Skipped (usage_detail lib l i u e p) = False"
  "lud_InternalLimitType (usage_detail lib l i u e p) = lim_LimitType l"
  "lud_InternalPeriodKey (usage_detail lib l i u e p) = p"
  "lud_LimitID (skipped_detail lib l i rs) = lim_ID l"
  "lud_Exceeded (skipped_detail lib l i rs) = False"
  "lud_Skipped (skipped_detail lib l i rs) = True"
  by (simp_all add: usage_detail_def skipped_detail_def)

lemma processLimitAtomic_cases [consumes 1, case_names failed unchanged counted]:
  assumes "0 < cli_Amount input"
  obtains (failed) e where "processLimitAtomic lib st i t limit input sk now = (st, Inl e)"
  | (unchanged) d where "processLimitAtomic lib st i t limit input sk now = (st, Inr (d, lud_Exceeded d))"
      "lud_LimitID d = lim_ID limit" "\<not> charged d"
  | (counted) d row where
      "processLimitAtomic lib st i t limit input sk now =
         (put_counter (lim_ID limit, sk, lud_InternalPeriodKey d) row st, Inr (d, lud_Exceeded d))"
      "lud_LimitID d = lim_ID limit" "charged d"
      "ct_current row = committed st (lim_ID limit, sk, lud_InternalPeriodKey d) + cli_Amount input"
      "ct_current row \<le> lim_MaxAmount limit"
      "ct_reserved row = held st (lim_ID limit, sk, lud_InternalPeriodKey d)"
proof -
  let ?p = "processLimitAtomic lib st i t limit input sk now"
  consider (tw) "\<not> IsWithinTimeWindow limit now"
    | (cp) "IsWithinTimeWindow limit now" "\<not> IsWithinCustomPeriod limit now"
    | (pt) "IsWithinTimeWindow limit now" "IsWithinCustomPeriod limit now" "lim_LimitType limit = LimitTypePerTransaction"
    | (ctr) "IsWithinTimeWindow limit now" "IsWithinCustomPeriod limit now" "lim_LimitType limit \<noteq> LimitTypePerTransaction"
    by blast
  then show ?thesis
  proof cases
    case tw
    then show ?thesis
      by (intro unchanged [of "skipped_detail lib limit input ''outside_time_window''"])
        (simp_all add: processLimitAtomic_def skipIfOutsideTimeWindow_def charged_def)
  next
    case cp
    then show ?thesis
      by (intro unchanged [of "skipped_detail lib limit input ''outside_custom_period''"])
        (simp_all add: processLimitAtomic_def skipIfOutsideTimeWindow_def skipIfOutsideCustomPeriod_def charged_def)
  next
    case pt
    then show ?thesis
      by (intro unchanged [of "fst (handlePerTransactionLimit lib limit input)"])
        (simp_all add: processLimitAtomic_def skipIfOutsideTimeWindow_def skipIfOutsideCustomPeriod_def
          handlePerTransactionLimit_def Let_def charged_def)
  next
    case ctr
    note skips = skipIfOutsideTimeWindow_def skipIfOutsideCustomPeriod_def
    show ?thesis
    proof (cases "CalculatePeriodKey (lim_LimitType limit) now")
      case (Inl e)
      with ctr show ?thesis by (intro failed [of e]) (simp add: processLimitAtomic_def skips)
    next
      case (Inr pk)
      show ?thesis
      proof (cases "lim_MaxAmount limit < cli_Amount input")
        case True
        let ?u = "case map_of (GetUsageForLimits st [lim_ID limit] sk pk) (lim_ID limit) of None \<Rightarrow> 0 | Some u \<Rightarrow> u"
        from True ctr Inr show ?thesis
          by (intro unchanged [of "usage_detail lib limit input (?u + cli_Amount input) True pk"])
            (simp_all add: processLimitAtomic_def skips charged_def Let_def)
      next
        case False
        let ?x = "calculateCounterExpiresAt (lim_LimitType limit) (CalculateResetAt (lim_LimitType limit) now) (lim_CustomEndDate limit)"
        from assms show ?thesis
        proof (cases rule: UpsertAndIncrementAtomic_cases [of "cli_Amount input" st i t "lim_ID limit" sk pk "lim_MaxAmount limit" ?x])
          case (refused u)
          with False ctr Inr show ?thesis
            by (intro unchanged [of "usage_detail lib limit input (u + cli_Amount input) True pk"])
              (simp_all add: processLimitAtomic_def skips charged_def Let_def)
        next
          case (ok row)
          with False ctr Inr show ?thesis
            by (intro counted [of "usage_detail lib limit input (ct_current row) False pk" row])
              (simp_all add: processLimitAtomic_def skips charged_def Let_def)
        qed
      qed
    qed
  qed
qed

definition limit_key :: "extlib \<Rightarrow> CheckLimitsInput \<Rightarrow> Limit \<Rightarrow> LimitUsageDetail \<Rightarrow> ckey" where
  "limit_key lib input limit d =
     (lim_ID limit, calculateScopeKeyFromScopes lib (lim_Scopes limit) (buildTransactionScope input), lud_InternalPeriodKey d)"

text \<open>What the details of the limits add to the committed usage under a key.\<close>

definition added_usage :: "extlib \<Rightarrow> CheckLimitsInput \<Rightarrow> ckey \<Rightarrow> Limit list \<Rightarrow> LimitUsageDetail list \<Rightarrow> decimal" where
  "added_usage lib input k limits ds =
     (\<Sum>(l, d) \<leftarrow> zip limits ds. if charged d \<and> limit_key lib input l d = k then cli_Amount input else 0)"

lemma check_loop_result:
  assumes "0 < cli_Amount input" "check_loop lib ids t input now n limits st ds ex = (st', Inr (ds', ex'))"
  shows "\<exists>ds2. ds' = ds @ ds2 \<and> map lud_LimitID ds2 = map lim_ID limits \<and>
      ex' = ex @ map lud_LimitID (filter lud_Exceeded ds2) \<and>
      (\<forall>k. committed st' k = committed st k + added_usage lib input k limits ds2) \<and> (\<forall>k. held st' k = held st k)"
  using assms(2)
proof (induction limits arbitrary: n st ds ex)
  case Nil
  then show ?case by (intro exI [of _ "[]"]) (simp add: added_usage_def)
next
  case (Cons limit limits)
  let ?sk = "calculateScopeKeyFromScopes lib (lim_Scopes limit) (buildTransactionScope input)"
  from assms(1) show ?case
  proof (cases rule: processLimitAtomic_cases [of input lib st "ids n" t limit ?sk now])
    case (failed e)
    with Cons.prems show ?thesis by simp
  next
    case (unchanged d)
    have "check_loop lib ids t input now (Suc n) limits st (ds @ [d])
        (if lud_Exceeded d then ex @ [lim_ID limit] else ex) = (st', Inr (ds', ex'))"
      using Cons.prems unchanged(1) by simp
    from Cons.IH [OF this] obtain ds2 where "ds' = ds @ d # ds2" "map lud_LimitID ds2 = map lim_ID limits"
      "ex' = (if lud_Exceeded d then ex @ [lim_ID limit] else ex) @ map lud_LimitID (filter lud_Exceeded ds2)"
      "\<forall>k. committed st' k = committed st k + added_usage lib input k limits ds2" "\<forall>k. held st' k = held st k"
      by auto
    with unchanged show ?thesis by (intro exI [of _ "d # ds2"]) (simp add: added_usage_def)
  next
    case (counted d row)
    let ?k = "(lim_ID limit, ?sk, lud_InternalPeriodKey d)"
    have "check_loop lib ids t input now (Suc n) limits (put_counter ?k row st) (ds @ [d]) ex = (st', Inr (ds', ex'))"
      using Cons.prems counted(1,3) by (simp add: charged_def)
    from Cons.IH [OF this] obtain ds2 where "ds' = ds @ d # ds2" "map lud_LimitID ds2 = map lim_ID limits"
      "ex' = ex @ map lud_LimitID (filter lud_Exceeded ds2)"
      "\<forall>k. committed st' k = committed (put_counter ?k row st) k + added_usage lib input k limits ds2"
      "\<forall>k. held st' k = held (put_counter ?k row st) k"
      by auto
    with counted show ?thesis
      by (intro exI [of _ "d # ds2"]) (auto simp: added_usage_def limit_key_def charged_def)
  qed
qed

definition capped :: "(uuid \<Rightarrow> decimal) \<Rightarrow> Store \<Rightarrow> bool" where
  "capped cap st = (\<forall>l s p row. counter_at st (l, s, p) = Some row \<longrightarrow> ct_current row \<le> cap l)"

lemma check_loop_capped:
  assumes "0 < cli_Amount input" "capped cap st" "\<forall>l \<in> set limits. lim_MaxAmount l = cap (lim_ID l)"
  shows "capped cap (fst (check_loop lib ids t input now n limits st ds ex))"
  using assms(2,3)
proof (induction limits arbitrary: n st ds ex)
  case (Cons limit limits)
  let ?sk = "calculateScopeKeyFromScopes lib (lim_Scopes limit) (buildTransactionScope input)"
  from assms(1) show ?case
  proof (cases rule: processLimitAtomic_cases [of input lib st "ids n" t limit ?sk now])
    case (failed e)
    with Cons.prems show ?thesis by simp
  next
    case (unchanged d)
    with Cons show ?thesis by simp
  next
    case (counted d row)
    then have "capped cap (put_counter (lim_ID limit, ?sk, lud_InternalPeriodKey d) row st)"
      using Cons.prems by (auto simp: capped_def)
    with Cons counted(1) show ?thesis by simp
  qed
qed simp

lemma CheckLimits_Inr:
  assumes "CheckLimits lib List ids t now st (Some input) = Some (st', Inr out)"
    and "getApplicableLimits List input = Some (Inr limits)"
  obtains ds ex where "0 < cli_Amount input"
    "check_loop lib ids t input now 0 limits st [] [] = (st', Inr (ds, ex))"
    "clo_LimitUsageDetails out = ds" "clo_Allowed out \<longleftrightarrow> ex = []" "clo_ExceededLimitIDs out = ex"
proof -
  have "CheckLimitsInput_Validate lib input = None"
    using assms(1) by (simp add: CheckLimits_def split: option.splits)
  moreover from this have pos: "0 < cli_Amount input"
    by (simp add: CheckLimitsInput_Validate_def cli_validate_def del: first_err.simps)
  ultimately show ?thesis
    using assms that
    by (cases "limits = []")
      (auto simp: CheckLimits_def NewCheckLimitsOutput_def WithLimitUsageDetails_def WithExceededLimits_def Let_def
        split: prod.splits sum.splits if_splits)
qed


text \<open>
  C37. The synchronous check never lets the committed usage of a limit pass its maximum, whatever
  its outcome, as long as each limit keeps the same maximum.
\<close>

theorem CheckLimits_keeps_cap:
  assumes "CheckLimits lib List ids t now st (Some input) = Some (st', out)" "capped cap st"
    and "\<And>limits l. getApplicableLimits List input = Some (Inr limits) \<Longrightarrow> l \<in> set limits \<Longrightarrow> lim_MaxAmount l = cap (lim_ID l)"
  shows "capped cap st'"
proof (cases "CheckLimitsInput_Validate lib input")
  case None
  then have pos: "0 < cli_Amount input"
    by (simp add: CheckLimitsInput_Validate_def cli_validate_def del: first_err.simps)
  obtain res where res: "getApplicableLimits List input = Some res"
    using assms(1) None by (auto simp: CheckLimits_def)
  show ?thesis
  proof (cases res)
    case (Inl e)
    with assms(1,2) None res show ?thesis by (simp add: CheckLimits_def)
  next
    case (Inr limits)
    then have "capped cap (fst (check_loop lib ids t input now 0 limits st [] []))"
      using assms(2,3) res pos by (intro check_loop_capped) auto
    with assms(1,2) None res Inr show ?thesis
      by (auto simp: CheckLimits_def Let_def split: if_splits prod.splits sum.splits)
  qed
next
  case (Some e)
  with assms(1,2) show ?thesis by (simp add: CheckLimits_def)
qed

section \<open>Examples\<close>

definition sample_active_limit :: Limit where
  "sample_active_limit = sample_limit\<lparr>lim_Status := LimitStatusActive\<rparr>"

definition sample_list :: "ListLimitsFilter \<Rightarrow> goerr + ListLimitsResult" where
  "sample_list f =
     (if llf_Cursor f = '''' then Inr \<lparr>llr_Limits = [sample_active_limit], llr_NextCursor = ''2'', llr_HasMore = True\<rparr>
      else Inr \<lparr>llr_Limits = [], llr_NextCursor = ''2'', llr_HasMore = False\<rparr>)"

definition sample_input :: CheckLimitsInput where
  "sample_input = ToCheckLimitsInput sample_request"


lemma sample_check:
  "CheckLimits exact_lib sample_list (\<lambda>n. 5) 0 (5 * Day) empty_store (Some sample_input) =
     Some (\<lparr>st_counters = [((1, ''acct:'', ''0001-01-06''),
             \<lparr>ct_id = 5, ct_current = 100, ct_reserved = 0, ct_updated = 0, ct_expires = Some (96 * Day)\<rparr>)],
            st_reservations = []\<rparr>,
           Inr \<lparr>clo_Allowed = True, clo_ExceededLimitIDs = [],
                clo_LimitUsageDetails = [usage_detail exact_lib sample_active_limit sample_input 100 False ''0001-01-06''],
                clo_EvaluatedAt = 5 * Day\<rparr>)"
  by code_simp


theorem CheckLimits_keeps_cap_witness:
  "capped (\<lambda>l. 1000) \<lparr>st_counters = [((1, ''acct:'', ''0001-01-06''),
             \<lparr>ct_id = 5, ct_current = 100, ct_reserved = 0, ct_updated = 0, ct_expires = Some (96 * Day)\<rparr>)],
            st_reservations = []\<rparr>"
proof (rule CheckLimits_keeps_cap [OF sample_check])
  show "capped (\<lambda>l. 1000) empty_store" by (simp add: capped_def counter_at_def empty_store_def)
  have lims: "getApplicableLimits sample_list sample_input = Some (Inr [sample_active_limit])" by code_simp
  show "lim_MaxAmount l = 1000"
    if "getApplicableLimits sample_list sample_input = Some (Inr limits)" "l \<in> set limits" for limits l
    using that lims by (auto simp: sample_active_limit_def sample_limit_def)
qed

end
