(* ===== verification/ReservationService.thy ===== *)
theory ReservationService
  imports LimitChecker
begin

text \<open>
  The two-phase reservation service of the tracer
  (\<^verbatim>\<open>components/tracer/internal/services/reservation_service.go\<close>) and the reaper of expired
  reservations (\<^verbatim>\<open>internal/adapters/postgres/reservation_reaper_repository.go\<close>,
  \<^verbatim>\<open>internal/services/workers/reservation_reaper_worker.go\<close>). The state is the tables of
  \<^typ>\<open>Store\<close> and the audit rows. Every method runs in one transaction: \<open>inTx\<close> keeps the
  state of a body that returned no error and restores the old one otherwise. The audit writer
  is an interface of the code; \<open>env_audit\<close> says whether it fails for an event.
  An interleaving of clients, of the ledger's confirm and cancel calls and of the reaper is a
  sequence of such transactions: the relation \<open>res_step\<close>.
\<close>

record ReservationAudit =
  ra_EventType :: string
  ra_Action :: string
  ra_ReservationID :: uuid
  ra_TransactionID :: uuid
  ra_LimitID :: uuid
  ra_ScopeKey :: string
  ra_PeriodKey :: string
  ra_Amount :: int
  ra_Status :: string

record Service =
  sv_store :: Store
  sv_audit :: "ReservationAudit list"

record Env =
  env_List :: "ListLimitsFilter \<Rightarrow> goerr + ListLimitsResult"
  env_clock :: time
  env_dbNow :: time
  env_resID :: "nat \<Rightarrow> uuid"
  env_ctrID :: "nat \<Rightarrow> uuid"
  env_longLivedTTL :: duration
  env_audit :: "ReservationAudit \<Rightarrow> goerr option"
  env_begin :: "goerr option"
  env_commit :: "goerr option"

record ReserveResult =
  rr_Denied :: bool
  rr_ReservationIDs :: "uuid list"

definition reservationTTL :: duration where "reservationTTL = 5 * Minute"
definition defaultLongLivedReservationTTL :: duration where "defaultLongLivedReservationTTL = 720 * Hour"

text \<open>The lifetime that \<^verbatim>\<open>NewReservationServiceWithLongLivedTTL\<close> stores.\<close>

definition serviceLongLivedTTL :: "duration \<Rightarrow> duration" where
  "serviceLongLivedTTL longLivedTTL = (if longLivedTTL \<le> 0 then defaultLongLivedReservationTTL else longLivedTTL)"

definition ErrNilReservationRequest :: goerr where
  "ErrNilReservationRequest = Errorf ''reservation: request cannot be nil''"

definition ErrNilReservationTransationID :: goerr where
  "ErrNilReservationTransationID = Errorf ''reservation: transaction id is required''"

text \<open>
  The body of a transaction returns a value or an error. The Boolean is the flag that the
  closures of \<^verbatim>\<open>Reserve\<close> (\<^verbatim>\<open>guardDenied\<close>) and \<^verbatim>\<open>terminate\<close> (\<^verbatim>\<open>terminal\<close>) set next to their error.
\<close>

type_synonym 'a tx_result = "Service \<times> ((bool \<times> goerr) + 'a)"

definition inTx :: "Env \<Rightarrow> Service \<Rightarrow> (Service \<Rightarrow> 'a tx_result) \<Rightarrow> 'a tx_result" where
  "inTx env s fn =
     (case env_begin env of
        Some e \<Rightarrow> (s, Inl (False, Wrapped ''failed to begin reservation transaction'' e))
      | None \<Rightarrow>
        (case fn s of
           (s', Inl e) \<Rightarrow> (s, Inl e)
         | (s', Inr v) \<Rightarrow>
           (case env_commit env of
              Some e \<Rightarrow> (s, Inl (False, Wrapped ''failed to commit reservation transaction'' e))
            | None \<Rightarrow> (s', Inr v))))"

definition RecordReservationEventWithTx :: "Env \<Rightarrow> ReservationAudit \<Rightarrow> Service \<Rightarrow> Service \<times> goerr option" where
  "RecordReservationEventWithTx env a s =
     (case env_audit env a of
        Some e \<Rightarrow> (s, Some e) | None \<Rightarrow> (s\<lparr>sv_audit := sv_audit s @ [a]\<rparr>, None))"

section \<open>Reserve\<close>

definition reserve_audit :: "uuid \<Rightarrow> uuid \<Rightarrow> ReservationSpec \<Rightarrow> ReservationAudit" where
  "reserve_audit rid transactionID spec =
     \<lparr>ra_EventType = ''RESERVATION_RESERVED'', ra_Action = ''RESERVE'', ra_ReservationID = rid,
      ra_TransactionID = transactionID, ra_LimitID = rs_LimitID spec, ra_ScopeKey = rs_ScopeKey spec,
      ra_PeriodKey = rs_PeriodKey spec, ra_Amount = rs_Amount spec, ra_Status = ''RESERVED''\<rparr>"

fun reserve_loop ::
  "Env \<Rightarrow> uuid \<Rightarrow> time \<Rightarrow> nat \<Rightarrow> ReservationSpec list \<Rightarrow> uuid list \<Rightarrow> Service \<Rightarrow> uuid list tx_result" where
  "reserve_loop env transactionID expiresAt n [] reservationIDs s = (s, Inr reservationIDs)"
| "reserve_loop env transactionID expiresAt n (spec # specs) reservationIDs s =
     (case NewReservation (env_resID env n) (rs_LimitID spec) transactionID (rs_ScopeKey spec) (rs_PeriodKey spec)
             (rs_Amount spec) expiresAt (env_clock env) of
        Inl e \<Rightarrow> (s, Inl (False, e))
      | Inr r \<Rightarrow>
        (case ReserveWithTx (sv_store s) (env_ctrID env n) (env_dbNow env) r (rs_MaxAmount spec) of
           (st', Some e) \<Rightarrow> (s\<lparr>sv_store := st'\<rparr>, Inl (errors_Is e ErrUsageCounterExceedsLimit, e))
         | (st', None) \<Rightarrow>
           (case RecordReservationEventWithTx env (reserve_audit (res_ID r) transactionID spec) (s\<lparr>sv_store := st'\<rparr>) of
              (s', Some e) \<Rightarrow> (s', Inl (False, Wrapped ''failed to record reserve audit event'' e))
            | (s', None) \<Rightarrow> reserve_loop env transactionID expiresAt (Suc n) specs (reservationIDs @ [res_ID r]) s')))"

definition Reserve_specs :: "Env \<Rightarrow> Service \<Rightarrow> uuid \<Rightarrow> ReservationSpec list \<Rightarrow> bool \<Rightarrow> Service \<times> (goerr + ReserveResult)" where
  "Reserve_specs env s transactionID specs longLived =
     (let ttl = (if longLived then env_longLivedTTL env else reservationTTL);
          expiresAt = env_clock env + ttl
      in case inTx env s (reserve_loop env transactionID expiresAt 0 specs []) of
           (s', Inl (guardDenied, e)) \<Rightarrow>
             if guardDenied then (s', Inr \<lparr>rr_Denied = True, rr_ReservationIDs = []\<rparr>) else (s', Inl e)
         | (s', Inr reservationIDs) \<Rightarrow> (s', Inr \<lparr>rr_Denied = False, rr_ReservationIDs = reservationIDs\<rparr>))"

definition Reserve ::
  "extlib \<Rightarrow> Env \<Rightarrow> Service \<Rightarrow> uuid \<Rightarrow> CheckLimitsInput option \<Rightarrow> bool \<Rightarrow> (Service \<times> (goerr + ReserveResult)) option" where
  "Reserve lib env s transactionID input longLived =
     (if transactionID = uuid_Nil then Some (s, Inl ErrNilReservationTransationID)
      else if input = None then Some (s, Inl ErrNilReservationRequest)
      else map_option
             (\<lambda>res. case res of
                  Inl e \<Rightarrow> (s, Inl (Wrapped ''failed to resolve reservations'' e))
                | Inr None \<Rightarrow> (s, Inr \<lparr>rr_Denied = True, rr_ReservationIDs = []\<rparr>)
                | Inr (Some specs) \<Rightarrow>
                  if length specs = 0 then (s, Inr \<lparr>rr_Denied = False, rr_ReservationIDs = []\<rparr>)
                  else Reserve_specs env s transactionID specs longLived)
             (ResolveReservations lib (env_List env) (env_clock env) input))"

section \<open>Confirm and release\<close>

definition terminate_audit :: "ReservationStatus \<Rightarrow> uuid \<Rightarrow> ReservationAudit" where
  "terminate_audit status rid =
     \<lparr>ra_EventType = (if status = StatusConfirmed then ''RESERVATION_CONFIRMED'' else ''RESERVATION_RELEASED''),
      ra_Action = (if status = StatusConfirmed then ''CONFIRM'' else ''RELEASE''), ra_ReservationID = rid,
      ra_TransactionID = uuid_Nil, ra_LimitID = uuid_Nil, ra_ScopeKey = '''', ra_PeriodKey = '''', ra_Amount = 0,
      ra_Status = (if status = StatusConfirmed then ''CONFIRMED'' else ''RELEASED'')\<rparr>"

definition terminate_body :: "Env \<Rightarrow> uuid \<Rightarrow> ReservationStatus \<Rightarrow> Service \<Rightarrow> unit tx_result" where
  "terminate_body env reservationID terminalStatus s =
     (case (if terminalStatus = StatusConfirmed then ConfirmWithTx (sv_store s) (env_dbNow env) reservationID
            else ReleaseWithTx (sv_store s) (env_dbNow env) reservationID terminalStatus) of
        (st', Some e) \<Rightarrow> (s\<lparr>sv_store := st'\<rparr>, Inl (errors_Is e ErrReservationAlreadyTerminal, e))
      | (st', None) \<Rightarrow>
        (case RecordReservationEventWithTx env (terminate_audit terminalStatus reservationID) (s\<lparr>sv_store := st'\<rparr>) of
           (s', Some e) \<Rightarrow> (s', Inl (False, Wrapped ''failed to record audit event'' e))
         | (s', None) \<Rightarrow> (s', Inr ())))"

definition terminate :: "Env \<Rightarrow> Service \<Rightarrow> uuid \<Rightarrow> ReservationStatus \<Rightarrow> Service \<times> goerr option" where
  "terminate env s reservationID terminalStatus =
     (if reservationID = uuid_Nil then (s, Some ErrReservationNotFound)
      else (case inTx env s (terminate_body env reservationID terminalStatus) of
              (s', Inl (terminal, e)) \<Rightarrow> if terminal then (s', None) else (s', Some e)
            | (s', Inr u) \<Rightarrow> (s', None)))"

definition Confirm :: "Env \<Rightarrow> Service \<Rightarrow> uuid \<Rightarrow> Service \<times> goerr option" where
  "Confirm env s reservationID = terminate env s reservationID StatusConfirmed"

definition Release :: "Env \<Rightarrow> Service \<Rightarrow> uuid \<Rightarrow> Service \<times> goerr option" where
  "Release env s reservationID = terminate env s reservationID StatusReleased"

definition row_audit :: "ReservationStatus \<Rightarrow> uuid \<Rightarrow> Reservation \<Rightarrow> ReservationAudit" where
  "row_audit status transactionID r =
     (terminate_audit status (res_ID r))
       \<lparr>ra_TransactionID := transactionID, ra_LimitID := res_LimitID r, ra_ScopeKey := res_ScopeKey r,
        ra_PeriodKey := res_PeriodKey r, ra_Amount := res_Amount r\<rparr>"

fun audit_rows :: "Env \<Rightarrow> ReservationStatus \<Rightarrow> uuid \<Rightarrow> Reservation list \<Rightarrow> Service \<Rightarrow> Service \<times> goerr option" where
  "audit_rows env status transactionID [] s = (s, None)"
| "audit_rows env status transactionID (r # rs) s =
     (case RecordReservationEventWithTx env (row_audit status transactionID r) s of
        (s', Some e) \<Rightarrow> (s', Some (Wrapped ''failed to record audit event'' e))
      | (s', None) \<Rightarrow> audit_rows env status transactionID rs s')"

definition terminateByTransaction_body :: "Env \<Rightarrow> uuid \<Rightarrow> ReservationStatus \<Rightarrow> Service \<Rightarrow> nat tx_result" where
  "terminateByTransaction_body env transactionID terminalStatus s =
     (case (if terminalStatus = StatusConfirmed
            then ConfirmByTransactionWithTx (sv_store s) (env_dbNow env) transactionID
            else ReleaseByTransactionWithTx (sv_store s) (env_dbNow env) transactionID terminalStatus) of
        (st', Inl e) \<Rightarrow> (s\<lparr>sv_store := st'\<rparr>, Inl (False, e))
      | (st', Inr rs) \<Rightarrow>
        (case audit_rows env terminalStatus transactionID rs (s\<lparr>sv_store := st'\<rparr>) of
           (s', Some e) \<Rightarrow> (s', Inl (False, e))
         | (s', None) \<Rightarrow> (s', Inr (length rs))))"

definition terminateByTransaction :: "Env \<Rightarrow> Service \<Rightarrow> uuid \<Rightarrow> ReservationStatus \<Rightarrow> Service \<times> (goerr + nat)" where
  "terminateByTransaction env s transactionID terminalStatus =
     (if transactionID = uuid_Nil then (s, Inl ErrNilReservationTransationID)
      else (case inTx env s (terminateByTransaction_body env transactionID terminalStatus) of
              (s', Inl (flag, e)) \<Rightarrow> (s', Inl e)
            | (s', Inr flipped) \<Rightarrow> (s', Inr flipped)))"

definition ConfirmByTransaction :: "Env \<Rightarrow> Service \<Rightarrow> uuid \<Rightarrow> Service \<times> (goerr + nat)" where
  "ConfirmByTransaction env s transactionID = terminateByTransaction env s transactionID StatusConfirmed"

definition ReleaseByTransaction :: "Env \<Rightarrow> Service \<Rightarrow> uuid \<Rightarrow> Service \<times> (goerr + nat)" where
  "ReleaseByTransaction env s transactionID = terminateByTransaction env s transactionID StatusReleased"

section \<open>The reaper\<close>

definition FindExpiredReservations :: "Store \<Rightarrow> time \<Rightarrow> uuid list" where
  "FindExpiredReservations st now =
     map res_ID (filter (\<lambda>r. res_Status r = StatusReserved \<and> res_ExpiresAt r < now) (st_reservations st))"

definition ReleaseExpired :: "Store \<Rightarrow> time \<Rightarrow> uuid \<Rightarrow> Store \<times> goerr option" where
  "ReleaseExpired st now reservationID =
     (case ReleaseWithTx st now reservationID StatusExpired of
        (st', Some e) \<Rightarrow> if errors_Is e ErrReservationAlreadyTerminal then (st, None) else (st, Some e)
      | (st', None) \<Rightarrow> (st', None))"

fun reap_loop :: "time \<Rightarrow> uuid list \<Rightarrow> Store \<Rightarrow> nat \<Rightarrow> Store \<times> nat \<times> goerr option" where
  "reap_loop dbNow [] st released = (st, released, None)"
| "reap_loop dbNow (i # ids) st released =
     (case ReleaseExpired st dbNow i of
        (st', Some e) \<Rightarrow> (st', released, Some (Wrapped ''failed to release expired reservation'' e))
      | (st', None) \<Rightarrow> reap_loop dbNow ids st' (Suc released))"

text \<open>\<open>batchAudit n\<close>: the error of the summary audit row for \<open>n\<close> expired reservations.\<close>

definition RunOnce :: "Store \<Rightarrow> time \<Rightarrow> time \<Rightarrow> (nat \<Rightarrow> goerr option) \<Rightarrow> Store \<times> nat \<times> goerr option" where
  "RunOnce st now dbNow batchAudit =
     (let expired = FindExpiredReservations st now in
      if length expired = 0 then (st, 0, None)
      else (case reap_loop dbNow expired st 0 of
              (st', released, Some e) \<Rightarrow> (st', released, Some e)
            | (st', released, None) \<Rightarrow>
              (case batchAudit released of
                 Some e \<Rightarrow> (st', released, Some (Wrapped ''failed to record reservation expiry batch'' e))
               | None \<Rightarrow> (st', released, None))))"

section \<open>What a reserve keeps\<close>

definition spec_key :: "ReservationSpec \<Rightarrow> ckey" where
  "spec_key sp = (rs_LimitID sp, TrimSpace (rs_ScopeKey sp), TrimSpace (rs_PeriodKey sp))"

definition specs_capped :: "(ckey \<Rightarrow> int) \<Rightarrow> ReservationSpec list \<Rightarrow> bool" where
  "specs_capped M specs = (\<forall>sp \<in> set specs. rs_MaxAmount sp = M (spec_key sp))"

text \<open>The identifiers drawn for the first \<open>n\<close> reservations are new and differ from each other.\<close>

definition fresh_ids :: "Env \<Rightarrow> nat \<Rightarrow> Store \<Rightarrow> bool" where
  "fresh_ids env n st =
     (distinct (map (env_resID env) [0..<n]) \<and>
      set (map (env_resID env) [0..<n]) \<inter> res_ID ` set (st_reservations st) = {})"

lemma NewReservation_Inr:
  assumes "NewReservation i l t sk pk a x c = Inr r"
  shows "res_ID r = i" "res_key r = (l, TrimSpace sk, TrimSpace pk)" "res_Amount r = a" "res_Status r = StatusReserved"
    "res_TransactionID r = t" "res_ExpiresAt r = x" "0 \<le> a"
  using assms by (auto simp: NewReservation_def res_key_def split: if_splits)

lemma ReserveWithTx_rows:
  "st_reservations (fst (ReserveWithTx st i now r m)) \<in> {st_reservations st, st_reservations st @ [r]}"
proof (cases rule: ReserveWithTx_cases [of st i now r m])
  case (ok st')
  then show ?thesis using insert_reservation_rows [of r st'] by simp
qed simp

lemma RecordReservationEventWithTx_store [simp]: "sv_store (fst (RecordReservationEventWithTx env a s)) = sv_store s"
  by (simp add: RecordReservationEventWithTx_def split: option.split)

lemma reserve_loop_step:
  "sv_store (fst (reserve_loop env t x n (sp # specs) ids s)) \<in>
     {sv_store s} \<union>
     (case NewReservation (env_resID env n) (rs_LimitID sp) t (rs_ScopeKey sp) (rs_PeriodKey sp) (rs_Amount sp) x (env_clock env) of
        Inl e \<Rightarrow> {}
      | Inr r \<Rightarrow>
        (let st' = fst (ReserveWithTx (sv_store s) (env_ctrID env n) (env_dbNow env) r (rs_MaxAmount sp))
         in {st'} \<union> {sv_store (fst (reserve_loop env t x (Suc n) specs (ids @ [res_ID r]) s')) | s'. sv_store s' = st'}))"
  by (auto simp: RecordReservationEventWithTx_def Let_def split: sum.split option.split prod.split)

lemma reserve_loop_keeps:
  assumes step: "\<And>n sp st r. sp \<in> set specs \<Longrightarrow> n < N \<Longrightarrow> P n st \<Longrightarrow>
      NewReservation (env_resID env n) (rs_LimitID sp) t (rs_ScopeKey sp) (rs_PeriodKey sp) (rs_Amount sp) x (env_clock env) = Inr r \<Longrightarrow>
      P (Suc n) (fst (ReserveWithTx st (env_ctrID env n) (env_dbNow env) r (rs_MaxAmount sp)))"
    and "P n (sv_store s)" "n + length specs \<le> N"
  shows "\<exists>m. P m (sv_store (fst (reserve_loop env t x n specs ids s)))"
  using assms
proof (induction specs arbitrary: n s ids)
  case (Cons sp specs)
  note st = reserve_loop_step [of env t x n sp specs ids s]
  show ?case
  proof (cases "NewReservation (env_resID env n) (rs_LimitID sp) t (rs_ScopeKey sp) (rs_PeriodKey sp) (rs_Amount sp) x (env_clock env)")
    case (Inl e)
    with st Cons.prems(2) show ?thesis by auto
  next
    case (Inr r)
    let ?st = "fst (ReserveWithTx (sv_store s) (env_ctrID env n) (env_dbNow env) r (rs_MaxAmount sp))"
    have P: "P (Suc n) ?st" using Cons.prems(2,3) Inr by (intro Cons.prems(1)) auto
    have "\<exists>m. P m (sv_store (fst (reserve_loop env t x (Suc n) specs (ids @ [res_ID r]) s')))" if "sv_store s' = ?st" for s'
      using Cons.IH [of "Suc n" s'] Cons.prems(1,3) P that by auto
    with st Inr P Cons.prems(2) show ?thesis by (auto simp: Let_def)
  qed
qed auto

lemma reserve_loop_ids:
  assumes "store_ok (sv_store s)" "fresh_ids env (length specs) (sv_store s)"
  shows "store_ok (sv_store (fst (reserve_loop env t x 0 specs ids s)))"
proof -
  let ?P = "\<lambda>n st. store_ok st \<and> (\<forall>i. n \<le> i \<longrightarrow> i < length specs \<longrightarrow> env_resID env i \<notin> res_ID ` set (st_reservations st))"
  have inj: "inj_on (env_resID env) {0..<length specs}" using assms(2) by (simp add: fresh_ids_def distinct_map)
  have "\<exists>m. ?P m (sv_store (fst (reserve_loop env t x 0 specs ids s)))"
  proof (rule reserve_loop_keeps [where N = "length specs"])
    fix n sp st r
    assume n: "n < length specs" and P: "?P n st"
      and r: "NewReservation (env_resID env n) (rs_LimitID sp) t (rs_ScopeKey sp) (rs_PeriodKey sp) (rs_Amount sp) x (env_clock env) = Inr r"
    let ?st = "fst (ReserveWithTx st (env_ctrID env n) (env_dbNow env) r (rs_MaxAmount sp))"
    note r = NewReservation_Inr [OF r]
    have "store_ok ?st" using P n r(1) by (intro ReserveWithTx_store_ok) auto
    moreover have "env_resID env i \<notin> res_ID ` set (st_reservations ?st)" if "Suc n \<le> i" "i < length specs" for i
    proof -
      have "env_resID env i \<noteq> res_ID r" using inj_onD [OF inj, of i n] that n r(1) by auto
      moreover have "env_resID env i \<notin> res_ID ` set (st_reservations st)" using P that by auto
      ultimately show ?thesis
        using ReserveWithTx_rows [of st "env_ctrID env n" "env_dbNow env" r "rs_MaxAmount sp"] by auto
    qed
    ultimately show "?P (Suc n) ?st" by blast
  qed (use assms in \<open>auto simp: fresh_ids_def disjoint_iff simp del: map_upt_Suc\<close>)
  then show ?thesis by blast
qed

lemma reserve_loop_within:
  assumes "within_limits M (sv_store s)" "specs_capped M specs"
  shows "within_limits M (sv_store (fst (reserve_loop env t x n specs ids s)))"
proof -
  let ?P = "\<lambda>n :: nat. within_limits M"
  have "\<exists>m. ?P m (sv_store (fst (reserve_loop env t x n specs ids s)))"
  proof (rule reserve_loop_keeps [where N = "n + length specs"])
    fix n sp st r
    assume sp: "sp \<in> set specs" and P: "?P n st"
      and r: "NewReservation (env_resID env n) (rs_LimitID sp) t (rs_ScopeKey sp) (rs_PeriodKey sp) (rs_Amount sp) x (env_clock env) = Inr r"
    show "?P (Suc n) (fst (ReserveWithTx st (env_ctrID env n) (env_dbNow env) r (rs_MaxAmount sp)))"
      using P sp assms(2) NewReservation_Inr(2) [OF r] by (intro ReserveWithTx_within) (auto simp: specs_capped_def spec_key_def)
  qed (rule assms(1), simp)
  then show ?thesis by blast
qed

text \<open>A transaction that has no rows yet, and limits with distinct keys.\<close>

definition first_reserve :: "Store \<Rightarrow> uuid \<Rightarrow> ReservationSpec list \<Rightarrow> bool" where
  "first_reserve st t specs =
     (distinct (map spec_key specs) \<and> t \<notin> res_TransactionID ` set (st_reservations st))"

lemma reserve_loop_balanced:
  assumes "balanced (sv_store s)" "distinct (map spec_key specs)"
    "\<forall>r \<in> set (st_reservations (sv_store s)). res_TransactionID r = t \<longrightarrow> res_key r \<notin> spec_key ` set specs"
  shows "balanced (sv_store (fst (reserve_loop env t x n specs ids s)))"
  using assms
proof (induction specs arbitrary: n s ids)
  case (Cons sp specs)
  note st = reserve_loop_step [of env t x n sp specs ids s]
  show ?case
  proof (cases "NewReservation (env_resID env n) (rs_LimitID sp) t (rs_ScopeKey sp) (rs_PeriodKey sp) (rs_Amount sp) x (env_clock env)")
    case (Inl e)
    with st Cons.prems(1) show ?thesis by auto
  next
    case (Inr r)
    note r = NewReservation_Inr [OF Inr]
    have k: "res_key r = spec_key sp" using r(2) by (simp add: spec_key_def)
    let ?st = "fst (ReserveWithTx (sv_store s) (env_ctrID env n) (env_dbNow env) r (rs_MaxAmount sp))"
    have "fresh_reservation (sv_store s) r"
      using Cons.prems(3) r(4,5) k by (auto simp: fresh_reservation_def list_ex_iff same_tuple_def)
    then have bal: "balanced ?st" using Cons.prems(1) by (intro ReserveWithTx_balanced)
    have rows: "\<forall>y \<in> set (st_reservations ?st). res_TransactionID y = t \<longrightarrow> res_key y \<notin> spec_key ` set specs"
      using Cons.prems(2,3) k ReserveWithTx_rows [of "sv_store s" "env_ctrID env n" "env_dbNow env" r "rs_MaxAmount sp"] by auto
    have "balanced (sv_store (fst (reserve_loop env t x (Suc n) specs (ids @ [res_ID r]) s')))" if "sv_store s' = ?st" for s'
      using Cons.IH [of s' "Suc n"] Cons.prems(2) bal rows that by simp
    with st Inr bal Cons.prems(1) show ?thesis by (auto simp: Let_def)
  qed
qed simp

section \<open>What the second phase and the reaper keep\<close>

lemma ConfirmWithTx_inv:
  assumes "store_ok st"
  shows "store_ok (fst (ConfirmWithTx st now i))"
    "within_limits M st \<Longrightarrow> within_limits M (fst (ConfirmWithTx st now i))"
    "balanced st \<Longrightarrow> balanced (fst (ConfirmWithTx st now i))"
proof -
  note [simp] = applyConfirm_inv store_ok_amount [OF assms] assms
  show "store_ok (fst (ConfirmWithTx st now i))"
    by (rule ConfirmWithTx_keeps [where P = store_ok]) simp_all
  show "within_limits M st \<Longrightarrow> within_limits M (fst (ConfirmWithTx st now i))"
    by (rule ConfirmWithTx_keeps [where P = "within_limits M"]) simp_all
  show "balanced st \<Longrightarrow> balanced (fst (ConfirmWithTx st now i))"
    by (rule ConfirmWithTx_keeps [where P = balanced]) simp_all
qed

lemma ReleaseWithTx_inv:
  assumes "store_ok st"
  shows "store_ok (fst (ReleaseWithTx st now i status))"
    "within_limits M st \<Longrightarrow> within_limits M (fst (ReleaseWithTx st now i status))"
    "balanced st \<Longrightarrow> balanced (fst (ReleaseWithTx st now i status))"
proof -
  show "store_ok (fst (ReleaseWithTx st now i status))"
    by (rule ReleaseWithTx_keeps [where P = store_ok]) (rule assms, rule applyRelease_inv(1), assumption, rule assms)
  show "within_limits M (fst (ReleaseWithTx st now i status))" if "within_limits M st"
    by (rule ReleaseWithTx_keeps [where P = "within_limits M"])
      (rule that, rule applyRelease_inv(2), assumption, rule that, rule store_ok_amount [OF assms])
  show "balanced (fst (ReleaseWithTx st now i status))" if "balanced st"
    by (rule ReleaseWithTx_keeps [where P = balanced])
      (rule that, rule applyRelease_inv(3), assumption, rule that, rule assms)
qed

lemma inTx_fst: "fst (inTx env s fn) \<in> {s, fst (fn s)}"
  by (cases "fn s"; cases "snd (fn s)") (simp_all add: inTx_def split: option.split)

lemma inTx_cases:
  obtains (failed) x where "inTx env s fn = (s, Inl x)" "fst x \<Longrightarrow> \<exists>s'. fn s = (s', Inl x)"
  | (finished) s' v where "fn s = (s', Inr v)" "inTx env s fn = (s', Inr v)"
proof (cases "env_begin env")
  case None
  obtain s' r where "fn s = (s', r)" by fastforce
  with None show ?thesis
    by (cases r; cases "env_commit env") (auto simp: inTx_def intro: failed finished)
qed (auto simp: inTx_def intro: failed)

lemma terminate_body_store:
  "sv_store (fst (terminate_body env i status s)) =
     fst (if status = StatusConfirmed then ConfirmWithTx (sv_store s) (env_dbNow env) i
          else ReleaseWithTx (sv_store s) (env_dbNow env) i status)"
  unfolding terminate_body_def
  by (cases "if status = StatusConfirmed then ConfirmWithTx (sv_store s) (env_dbNow env) i
          else ReleaseWithTx (sv_store s) (env_dbNow env) i status")
    (simp add: RecordReservationEventWithTx_def split: option.split)

lemma terminate_fst: "fst (terminate env s i status) \<in> {s, fst (terminate_body env i status s)}"
  using inTx_fst [of env s "terminate_body env i status"]
  by (cases "inTx env s (terminate_body env i status)"; cases "snd (inTx env s (terminate_body env i status))")
    (auto simp: terminate_def split_beta)

lemma terminate_store:
  "sv_store (fst (terminate env s i status)) \<in>
     {sv_store s, fst (if status = StatusConfirmed then ConfirmWithTx (sv_store s) (env_dbNow env) i
          else ReleaseWithTx (sv_store s) (env_dbNow env) i status)}"
  using terminate_fst [of env s i status] terminate_body_store [of env i status s] by auto

lemma audit_rows_store [simp]: "sv_store (fst (audit_rows env status t rs s)) = sv_store s"
  by (induction rs arbitrary: s) (auto simp: RecordReservationEventWithTx_def split: option.split)

lemma terminateByTransaction_body_store:
  "sv_store (fst (terminateByTransaction_body env t status s)) =
     fst (if status = StatusConfirmed then ConfirmByTransactionWithTx (sv_store s) (env_dbNow env) t
          else ReleaseByTransactionWithTx (sv_store s) (env_dbNow env) t status)"
  unfolding terminateByTransaction_body_def
  by (cases "if status = StatusConfirmed then ConfirmByTransactionWithTx (sv_store s) (env_dbNow env) t
          else ReleaseByTransactionWithTx (sv_store s) (env_dbNow env) t status")
    (simp add: split_beta split: sum.split option.split)

lemma terminateByTransaction_store:
  "sv_store (fst (terminateByTransaction env s t status)) \<in>
     {sv_store s, fst (if status = StatusConfirmed then ConfirmByTransactionWithTx (sv_store s) (env_dbNow env) t
          else ReleaseByTransactionWithTx (sv_store s) (env_dbNow env) t status)}"
proof -
  have "fst (terminateByTransaction env s t status) \<in> {s, fst (terminateByTransaction_body env t status s)}"
    using inTx_fst [of env s "terminateByTransaction_body env t status"]
    by (cases "inTx env s (terminateByTransaction_body env t status)";
        cases "snd (inTx env s (terminateByTransaction_body env t status))") (auto simp: terminateByTransaction_def split_beta)
  then show ?thesis using terminateByTransaction_body_store [of env t status s] by auto
qed

lemma ReleaseExpired_store: "fst (ReleaseExpired st now i) \<in> {st, fst (ReleaseWithTx st now i StatusExpired)}"
  by (cases "ReleaseWithTx st now i StatusExpired"; cases "snd (ReleaseWithTx st now i StatusExpired)")
    (simp_all add: ReleaseExpired_def)

lemma reap_loop_keeps:
  assumes step: "\<And>st i. P st \<Longrightarrow> P (fst (ReleaseWithTx st now i StatusExpired))" and "P st"
  shows "P (fst (reap_loop now ids st n))"
  using assms(2)
proof (induction ids arbitrary: st n)
  case (Cons i ids)
  obtain st' e where r: "ReleaseExpired st now i = (st', e)" by fastforce
  have P: "P st'"
    using ReleaseExpired_store [of st now i] step [OF Cons.prems, of i] Cons.prems r by (metis empty_iff fst_conv insert_iff)
  show ?case
  proof (cases e)
    case None
    then show ?thesis using Cons.IH [OF P] r by simp
  qed (use P r in simp)
qed simp

lemma RunOnce_fst:
  "fst (RunOnce st now dbNow ba) \<in> {st, fst (reap_loop dbNow (FindExpiredReservations st now) st 0)}"
  by (cases "reap_loop dbNow (FindExpiredReservations st now) st 0"; cases "snd (snd (reap_loop dbNow (FindExpiredReservations st now) st 0))")
    (simp_all add: RunOnce_def Let_def split: option.split)

lemma RunOnce_keeps:
  assumes "\<And>st i. P st \<Longrightarrow> P (fst (ReleaseWithTx st dbNow i StatusExpired))" "P st"
  shows "P (fst (RunOnce st now dbNow ba))"
  using RunOnce_fst [of st now dbNow ba] reap_loop_keeps [of P, OF assms] assms(2) by (metis empty_iff insert_iff)

text \<open>The result of a reserve: a refusal or an error leaves everything as it was.\<close>

lemma Reserve_specs_cases:
  obtains (error) e where "Reserve_specs env s t specs ll = (s, Inl e)"
  | (denied) "Reserve_specs env s t specs ll = (s, Inr \<lparr>rr_Denied = True, rr_ReservationIDs = []\<rparr>)"
  | (granted) s' ids where "reserve_loop env t (env_clock env + (if ll then env_longLivedTTL env else reservationTTL)) 0 specs [] s = (s', Inr ids)"
      "Reserve_specs env s t specs ll = (s', Inr \<lparr>rr_Denied = False, rr_ReservationIDs = ids\<rparr>)"
proof (cases rule: inTx_cases [of env s "reserve_loop env t (env_clock env + (if ll then env_longLivedTTL env else reservationTTL)) 0 specs []"])
  case (failed x)
  then show ?thesis
    by (cases x; cases "fst x") (auto simp: Reserve_specs_def Let_def intro: error denied)
next
  case (finished s' ids)
  then show ?thesis by (intro granted [of s' ids]) (simp_all add: Reserve_specs_def Let_def)
qed

lemma Reserve_cases:
  assumes "Reserve lib env s t input ll = Some (s', res)"
  obtains (unchanged) "s' = s" "case res of Inl e \<Rightarrow> True | Inr r \<Rightarrow> rr_Denied r"
  | (granted) specs ids where "ResolveReservations lib (env_List env) (env_clock env) input = Some (Inr (Some specs))"
      "reserve_loop env t (env_clock env + (if ll then env_longLivedTTL env else reservationTTL)) 0 specs [] s = (s', Inr ids)"
      "res = Inr \<lparr>rr_Denied = False, rr_ReservationIDs = ids\<rparr>"
proof (cases "t = uuid_Nil \<or> input = None")
  case True
  with assms show ?thesis by (intro unchanged) (auto simp: Reserve_def split: if_splits)
next
  case False
  then have g: "t \<noteq> uuid_Nil" "input \<noteq> None" by simp_all
  then obtain r where r: "ResolveReservations lib (env_List env) (env_clock env) input = Some r"
    using assms by (auto simp: Reserve_def)
  show ?thesis
  proof (cases "\<exists>specs. r = Inr (Some specs)")
    case True
    then obtain specs where sp: "r = Inr (Some specs)" by blast
    show ?thesis
    proof (cases "specs = []")
      case True
      then show ?thesis using assms g r sp by (intro granted [of "[]" "[]"]) (simp_all add: Reserve_def del: not_None_eq)
    next
      case False
      then have R: "Reserve_specs env s t specs ll = (s', res)" using assms g r sp by (simp add: Reserve_def del: not_None_eq)
      show ?thesis
        by (cases rule: Reserve_specs_cases [of env s t specs ll]) (use R r sp unchanged granted in simp_all)
    qed
  next
    case False
    then have "s' = s \<and> (case res of Inl e \<Rightarrow> True | Inr r \<Rightarrow> rr_Denied r)"
      using assms r g by (cases r) (auto simp: Reserve_def split: option.splits)
    then show ?thesis by (intro unchanged) simp_all
  qed
qed

lemma Reserve_keeps:
  assumes R: "Reserve lib env s t input ll = Some (s', res)" and P: "P (sv_store s)"
    and step: "\<And>specs x. ResolveReservations lib (env_List env) (env_clock env) input = Some (Inr (Some specs)) \<Longrightarrow>
      P (sv_store (fst (reserve_loop env t x 0 specs [] s)))"
  shows "P (sv_store s')"
  using R
proof (cases rule: Reserve_cases)
  case (granted specs ids)
  then show ?thesis using step by (metis fst_conv)
qed (use P in simp)

section \<open>Interleavings\<close>

text \<open>
  One step of the system: any client's reserve, a confirm or release by reservation or by
  transaction, a sweep of the reaper. \<open>M\<close> gives the maximum of the limit behind a counter.
  With \<open>once\<close> a transaction reserves at most once and its limits have distinct keys.
\<close>

inductive res_step :: "(ckey \<Rightarrow> int) \<Rightarrow> bool \<Rightarrow> Service \<Rightarrow> Service \<Rightarrow> bool" for M once where
  step_reserve: "Reserve lib env s t input ll = Some (s', res) \<Longrightarrow>
    \<forall>specs. ResolveReservations lib (env_List env) (env_clock env) input = Some (Inr (Some specs)) \<longrightarrow>
      fresh_ids env (length specs) (sv_store s) \<and> specs_capped M specs \<and> (once \<longrightarrow> first_reserve (sv_store s) t specs) \<Longrightarrow>
    res_step M once s s'"
| step_confirm: "res_step M once s (fst (Confirm env s i))"
| step_release: "res_step M once s (fst (Release env s i))"
| step_confirm_tx: "res_step M once s (fst (ConfirmByTransaction env s t))"
| step_release_tx: "res_step M once s (fst (ReleaseByTransaction env s t))"
| step_reap: "res_step M once s (s\<lparr>sv_store := fst (RunOnce (sv_store s) now dbNow ba)\<rparr>)"

abbreviation sound :: "(ckey \<Rightarrow> int) \<Rightarrow> Store \<Rightarrow> bool" where
  "sound M st \<equiv> store_ok st \<and> within_limits M st"

lemma phase2_sound:
  assumes "sound M st" "status \<in> {StatusConfirmed, StatusReleased}"
  shows "sound M (fst (if status = StatusConfirmed then ConfirmWithTx st now i else ReleaseWithTx st now i status))"
    "sound M (fst (if status = StatusConfirmed then ConfirmByTransactionWithTx st now t
        else ReleaseByTransactionWithTx st now t status))"
proof -
  have st: "status = StatusConfirmed \<or> status = StatusReleased" using assms(2) by simp
  show "sound M (fst (if status = StatusConfirmed then ConfirmWithTx st now i else ReleaseWithTx st now i status))"
    using assms(1) ConfirmWithTx_inv [of st] ReleaseWithTx_inv [of st] by simp
  show "sound M (fst (if status = StatusConfirmed then ConfirmByTransactionWithTx st now t
      else ReleaseByTransactionWithTx st now t status))"
    using st assms(1) by (elim disjE) (simp_all add: ConfirmByTransactionWithTx_inv ReleaseByTransactionWithTx_inv)
qed

lemma phase2_balanced:
  assumes "store_ok st" "balanced st" "status \<in> {StatusConfirmed, StatusReleased}"
  shows "balanced (fst (if status = StatusConfirmed then ConfirmWithTx st now i else ReleaseWithTx st now i status))"
    "balanced (fst (if status = StatusConfirmed then ConfirmByTransactionWithTx st now t
        else ReleaseByTransactionWithTx st now t status))"
proof -
  have st: "status = StatusConfirmed \<or> status = StatusReleased" using assms(3) by simp
  show "balanced (fst (if status = StatusConfirmed then ConfirmWithTx st now i else ReleaseWithTx st now i status))"
    using assms(1,2) ConfirmWithTx_inv [of st] ReleaseWithTx_inv [of st] by simp
  show "balanced (fst (if status = StatusConfirmed then ConfirmByTransactionWithTx st now t
      else ReleaseByTransactionWithTx st now t status))"
    using st assms(1,2) by (elim disjE) (simp_all add: ConfirmByTransactionWithTx_inv ReleaseByTransactionWithTx_inv)
qed

lemma terminate_sound:
  assumes "sound M (sv_store s)" "status \<in> {StatusConfirmed, StatusReleased}"
  shows "sound M (sv_store (fst (terminate env s i status)))"
    "sound M (sv_store (fst (terminateByTransaction env s t status)))"
  using terminate_store [of env s i status] terminateByTransaction_store [of env s t status]
    phase2_sound [OF assms] assms(1) by (metis empty_iff insert_iff)+

lemma terminate_balanced:
  assumes "store_ok (sv_store s)" "balanced (sv_store s)" "status \<in> {StatusConfirmed, StatusReleased}"
  shows "balanced (sv_store (fst (terminate env s i status)))"
    "balanced (sv_store (fst (terminateByTransaction env s t status)))"
  using terminate_store [of env s i status] terminateByTransaction_store [of env s t status]
    phase2_balanced [OF assms] assms(2) by (metis empty_iff insert_iff)+

lemma RunOnce_sound: "sound M st \<Longrightarrow> sound M (fst (RunOnce st now dbNow ba))"
  by (rule RunOnce_keeps [where P = "sound M"]) (use ReleaseWithTx_inv in simp_all)

lemma RunOnce_balanced: "store_ok st \<Longrightarrow> balanced st \<Longrightarrow> balanced (fst (RunOnce st now dbNow ba))"
  using RunOnce_keeps [where P = "\<lambda>st. store_ok st \<and> balanced st", of dbNow st now ba] ReleaseWithTx_inv by simp

lemma res_step_inv:
  assumes "res_step M once s s'" "sound M (sv_store s)"
  shows "sound M (sv_store s')"
  using assms
proof (induction rule: res_step.induct)
  case (step_reserve lib env s t input ll s' res)
  show ?case
    by (rule Reserve_keeps [where P = "sound M", OF step_reserve(1)])
      (use step_reserve reserve_loop_ids reserve_loop_within in simp_all)
qed (use terminate_sound [where M = M] RunOnce_sound [where M = M] in
  \<open>simp_all add: Confirm_def Release_def ConfirmByTransaction_def ReleaseByTransaction_def\<close>)

lemma res_step_balanced:
  assumes "res_step M True s s'" "store_ok (sv_store s)" "balanced (sv_store s)"
  shows "balanced (sv_store s')"
  using assms
proof (induction rule: res_step.induct)
  case (step_reserve lib env s t input ll s' res)
  show ?case
  proof (rule Reserve_keeps [where P = balanced, OF step_reserve(1)])
    fix specs x
    assume "ResolveReservations lib (env_List env) (env_clock env) input = Some (Inr (Some specs))"
    then have "first_reserve (sv_store s) t specs" using step_reserve(2) by blast
    then show "balanced (sv_store (fst (reserve_loop env t x 0 specs [] s)))"
      using step_reserve.prems(2) by (intro reserve_loop_balanced) (auto simp: first_reserve_def)
  qed (use step_reserve in simp)
qed (simp_all add: Confirm_def Release_def ConfirmByTransaction_def ReleaseByTransaction_def terminate_balanced RunOnce_balanced)

interpretation reservations: step_invariant "res_step M once" "\<lambda>s. sound M (sv_store s)" for M once
  by unfold_locales (rule res_step_inv)

interpretation holds: step_invariant "res_step M True" "\<lambda>s. sound M (sv_store s) \<and> balanced (sv_store s)" for M
  by unfold_locales (use res_step_inv res_step_balanced in blast)

lemma res_steps_balanced:
  "(res_step M True)\<^sup>*\<^sup>* s s' \<Longrightarrow> sound M (sv_store s) \<Longrightarrow> balanced (sv_store s) \<Longrightarrow>
     sound M (sv_store s') \<and> balanced (sv_store s')"
  using holds.reachable [of M s s'] by blast

section \<open>Two phases\<close>

definition spec_sum :: "ReservationSpec list \<Rightarrow> ckey \<Rightarrow> decimal" where
  "spec_sum specs k = (\<Sum>sp \<leftarrow> specs. if spec_key sp = k then of_int (rs_Amount sp) else 0)"

lemma spec_sum_simps [simp]:
  "spec_sum [] k = 0"
  "spec_sum (sp # specs) k = (if spec_key sp = k then of_int (rs_Amount sp) else 0) + spec_sum specs k"
  by (simp_all add: spec_sum_def)

lemma reserve_loop_ConsE:
  assumes "reserve_loop env t x n (sp # specs) ids s = (s', Inr ids')"
  obtains r st1 s1 where
    "NewReservation (env_resID env n) (rs_LimitID sp) t (rs_ScopeKey sp) (rs_PeriodKey sp) (rs_Amount sp) x (env_clock env) = Inr r"
    "ReserveWithTx (sv_store s) (env_ctrID env n) (env_dbNow env) r (rs_MaxAmount sp) = (st1, None)"
    "sv_store s1 = st1" "reserve_loop env t x (Suc n) specs (ids @ [res_ID r]) s1 = (s', Inr ids')"
proof -
  obtain r where r: "NewReservation (env_resID env n) (rs_LimitID sp) t (rs_ScopeKey sp) (rs_PeriodKey sp) (rs_Amount sp) x (env_clock env) = Inr r"
    using assms by (auto split: sum.splits)
  obtain st1 where st1: "ReserveWithTx (sv_store s) (env_ctrID env n) (env_dbNow env) r (rs_MaxAmount sp) = (st1, None)"
    using assms r by (auto split: prod.splits option.splits)
  obtain s1 where s1: "RecordReservationEventWithTx env (reserve_audit (res_ID r) t sp) (s\<lparr>sv_store := st1\<rparr>) = (s1, None)"
    using assms r st1 by (auto split: prod.splits option.splits)
  have "sv_store s1 = st1"
    using RecordReservationEventWithTx_store [of env "reserve_audit (res_ID r) t sp" "s\<lparr>sv_store := st1\<rparr>"] s1 by simp
  with r st1 s1 assms that show ?thesis by simp
qed

lemma reserve_loop_granted:
  assumes "reserve_loop env t x n specs ids s = (s', Inr ids')"
  shows "held (sv_store s') k = held (sv_store s) k + spec_sum specs k \<and> committed (sv_store s') k = committed (sv_store s) k \<and>
    length ids' = length ids + length specs"
  using assms
proof (induction specs arbitrary: n s ids)
  case (Cons sp specs)
  from Cons.prems obtain r st1 s1 where
    r: "NewReservation (env_resID env n) (rs_LimitID sp) t (rs_ScopeKey sp) (rs_PeriodKey sp) (rs_Amount sp) x (env_clock env) = Inr r"
    and st1: "ReserveWithTx (sv_store s) (env_ctrID env n) (env_dbNow env) r (rs_MaxAmount sp) = (st1, None)"
    and s1: "sv_store s1 = st1" "reserve_loop env t x (Suc n) specs (ids @ [res_ID r]) s1 = (s', Inr ids')" by (rule reserve_loop_ConsE)
  note r = NewReservation_Inr [OF r]
  show ?case
  proof (cases rule: ReserveWithTx_cases [of "sv_store s" "env_ctrID env n" "env_dbNow env" r "rs_MaxAmount sp"])
    case (ok st')
    have "held st1 k = held (sv_store s) k + (if spec_key sp = k then of_int (rs_Amount sp) else 0)"
      "committed st1 k = committed (sv_store s) k"
      using ok(1,4,5) st1 r(2,3) by (auto simp: spec_key_def)
    then show ?thesis using Cons.IH [OF s1(2)] s1(1) by simp
  qed (use st1 in simp)
qed simp


text \<open>The rows that a first reserve of a transaction adds are exactly those that phase two locks.\<close>

lemma reserve_loop_rows:
  assumes "reserve_loop env t x n specs ids s = (s', Inr ids')" "distinct (map spec_key specs)"
    "\<forall>r \<in> set (st_reservations (sv_store s)). res_TransactionID r = t \<longrightarrow> res_key r \<notin> spec_key ` set specs"
  shows "\<exists>rows. st_reservations (sv_store s') = st_reservations (sv_store s) @ rows \<and>
    map (\<lambda>r. (res_key r, res_Amount r)) rows = map (\<lambda>sp. (spec_key sp, rs_Amount sp)) specs \<and>
    (\<forall>r \<in> set rows. res_Status r = StatusReserved \<and> res_TransactionID r = t)"
  using assms
proof (induction specs arbitrary: n s ids)
  case (Cons sp specs)
  from Cons.prems(1) obtain r st1 s1 where
    nr: "NewReservation (env_resID env n) (rs_LimitID sp) t (rs_ScopeKey sp) (rs_PeriodKey sp) (rs_Amount sp) x (env_clock env) = Inr r"
    and st1: "ReserveWithTx (sv_store s) (env_ctrID env n) (env_dbNow env) r (rs_MaxAmount sp) = (st1, None)"
    and s1: "sv_store s1 = st1" "reserve_loop env t x (Suc n) specs (ids @ [res_ID r]) s1 = (s', Inr ids')" by (rule reserve_loop_ConsE)
  note r = NewReservation_Inr [OF nr]
  have k: "res_key r = spec_key sp" using r(2) by (simp add: spec_key_def)
  have "fresh_reservation (sv_store s) r"
    using Cons.prems(3) r(4,5) k by (auto simp: fresh_reservation_def list_ex_iff same_tuple_def)
  then have rows1: "st_reservations st1 = st_reservations (sv_store s) @ [r]"
    using st1 by (cases rule: ReserveWithTx_cases [of "sv_store s" "env_ctrID env n" "env_dbNow env" r "rs_MaxAmount sp"])
      (auto simp: insert_reservation_def fresh_reservation_def)
  have "\<exists>rows. st_reservations (sv_store s') = st_reservations (sv_store s1) @ rows \<and>
    map (\<lambda>r. (res_key r, res_Amount r)) rows = map (\<lambda>sp. (spec_key sp, rs_Amount sp)) specs \<and>
    (\<forall>r \<in> set rows. res_Status r = StatusReserved \<and> res_TransactionID r = t)"
    using Cons.prems(2,3) rows1 s1 k by (intro Cons.IH) auto
  then obtain rows where "st_reservations (sv_store s') = st_reservations st1 @ rows"
    "map (\<lambda>r. (res_key r, res_Amount r)) rows = map (\<lambda>sp. (spec_key sp, rs_Amount sp)) specs"
    "\<forall>r \<in> set rows. res_Status r = StatusReserved \<and> res_TransactionID r = t"
    using s1(1) by auto
  then show ?case using rows1 k r(3,4,5) by (intro exI [of _ "r # rows"]) simp
qed simp

lemma outstanding_rows:
  assumes "map (\<lambda>r. (res_key r, res_Amount r)) rows = map (\<lambda>sp. (spec_key sp, rs_Amount sp)) specs"
    "\<forall>r \<in> set rows. res_Status r = StatusReserved"
  shows "(\<Sum>r \<leftarrow> rows. outstanding k r) = spec_sum specs k"
  using assms
proof (induction rows arbitrary: specs)
  case (Cons r rows)
  then obtain sp specs' where "specs = sp # specs'" by (cases specs) auto
  then show ?case using Cons.IH [of specs'] Cons.prems by (auto simp: outstanding_def)
qed simp

lemma lock_first_reserve:
  assumes "t \<notin> res_TransactionID ` set (st_reservations st0)" "st_reservations st = st_reservations st0 @ rows"
    "\<forall>r \<in> set rows. res_Status r = StatusReserved \<and> res_TransactionID r = t"
  shows "lockReservedByTransaction st t = rows"
proof -
  have "filter (\<lambda>r. res_TransactionID r = t \<and> res_Status r = StatusReserved) (st_reservations st0) = []"
    using assms(1) by (auto simp: filter_empty_conv)
  moreover have "filter (\<lambda>r. res_TransactionID r = t \<and> res_Status r = StatusReserved) rows = rows"
    using assms(3) by simp
  ultimately show ?thesis using assms(2) by (simp add: lockReservedByTransaction_def)
qed

definition no_failures :: "Env \<Rightarrow> bool" where
  "no_failures env = (env_audit env = (\<lambda>a. None) \<and> env_begin env = None \<and> env_commit env = None)"

lemma audit_rows_ok: "no_failures env \<Longrightarrow> snd (audit_rows env status t rs s) = None"
  by (induction rs arbitrary: s) (simp_all add: RecordReservationEventWithTx_def no_failures_def)

lemma terminateByTransaction_ok:
  assumes "t \<noteq> uuid_Nil" "no_failures env"
    and "(if status = StatusConfirmed then ConfirmByTransactionWithTx (sv_store s) (env_dbNow env) t
          else ReleaseByTransactionWithTx (sv_store s) (env_dbNow env) t status) = (st', Inr rs)"
  shows "snd (terminateByTransaction env s t status) = Inr (length rs) \<and>
    sv_store (fst (terminateByTransaction env s t status)) = st'"
proof -
  obtain s1 e where a: "audit_rows env status t rs (s\<lparr>sv_store := st'\<rparr>) = (s1, e)" by fastforce
  have "e = None" using audit_rows_ok [OF assms(2), of status t rs "s\<lparr>sv_store := st'\<rparr>"] a by simp
  moreover have "sv_store s1 = st'" using audit_rows_store [of env status t rs "s\<lparr>sv_store := st'\<rparr>"] a by simp
  ultimately show ?thesis
    using assms(1,2) a
    by (simp add: terminateByTransaction_def inTx_def terminateByTransaction_body_def assms(3) no_failures_def)
qed

lemma finish_transaction:
  assumes "store_ok st" "balanced st" "\<forall>r \<in> set (lockReservedByTransaction st t). 0 < res_Amount r"
  defines "rs \<equiv> lockReservedByTransaction st t"
  shows "\<exists>st'. ConfirmByTransactionWithTx st now t = (st', Inr rs) \<and>
      (\<forall>k. held st' k = held st k - (\<Sum>r \<leftarrow> rs. outstanding k r) \<and> committed st' k = committed st k + (\<Sum>r \<leftarrow> rs. outstanding k r))"
    and "\<exists>st'. ReleaseByTransactionWithTx st now t StatusReleased = (st', Inr rs) \<and>
      (\<forall>k. held st' k = held st k - (\<Sum>r \<leftarrow> rs. outstanding k r) \<and> committed st' k = committed st k)"
proof -
  have rs: "\<forall>r \<in> set rs. r \<in> set (st_reservations st) \<and> res_Status r = StatusReserved \<and> 0 < res_Amount r"
    "\<forall>r \<in> set rs. res_Status r = StatusReserved" "distinct (map res_ID rs)"
    using lockReservedByTransaction_props assms unfolding rs_def by blast+
  note ok = assms(1,2) rs(3,1)
  let ?c = "each_reservation (finish (\<lambda>r. confirm_move r now) (confirm_row now)) rs st"
  obtain sc where c: "?c = (sc, None)" using confirming.each_finish_succeeds [OF ok, of now] by (metis prod.collapse)
  show "\<exists>st'. ConfirmByTransactionWithTx st now t = (st', Inr rs) \<and>
      (\<forall>k. held st' k = held st k - (\<Sum>r \<leftarrow> rs. outstanding k r) \<and> committed st' k = committed st k + (\<Sum>r \<leftarrow> rs. outstanding k r))"
    using confirming.each_finish_buckets [OF c rs(2)] c
    by (intro exI [of _ sc]) (simp add: ConfirmByTransactionWithTx_def applyConfirm_fun flip: rs_def)
  let ?r = "each_reservation (finish (\<lambda>r. release_move r now) (release_row StatusReleased now)) rs st"
  obtain sr where r: "?r = (sr, None)"
    using releasing.each_finish_succeeds [OF ok, of now False] by (metis (full_types) prod.collapse)
  show "\<exists>st'. ReleaseByTransactionWithTx st now t StatusReleased = (st', Inr rs) \<and>
      (\<forall>k. held st' k = held st k - (\<Sum>r \<leftarrow> rs. outstanding k r) \<and> committed st' k = committed st k)"
    using releasing.each_finish_buckets [where expire = False, of now rs st sr] r rs(2)
    by (intro exI [of _ sr]) (simp add: ReleaseByTransactionWithTx_def applyRelease_fun flip: rs_def)
qed

lemma reserve_loop_store_ok:
  assumes "store_ok (sv_store s)" "fresh_ids env (length specs) (sv_store s)" "reserve_loop env t x 0 specs ids s = (s', Inr ids')"
  shows "store_ok (sv_store s')"
  using reserve_loop_ids [OF assms(1,2), of t x ids] assms(3) by simp

lemma granted_state:
  assumes R: "Reserve lib env s t input ll = Some (s1, Inr r)" and g: "\<not> rr_Denied r"
    and specs: "ResolveReservations lib (env_List env) (env_clock env) input = Some (Inr (Some specs))"
    and st: "store_ok (sv_store s)" "balanced (sv_store s)" "fresh_ids env (length specs) (sv_store s)" "first_reserve (sv_store s) t specs"
    and pos: "\<forall>sp \<in> set specs. 0 < rs_Amount sp"
  obtains rows where "lockReservedByTransaction (sv_store s1) t = rows" "length rows = length specs"
    "\<And>k. (\<Sum>r \<leftarrow> rows. outstanding k r) = spec_sum specs k" "\<forall>r \<in> set rows. 0 < res_Amount r"
    "store_ok (sv_store s1)" "balanced (sv_store s1)"
    "\<And>k. held (sv_store s1) k = held (sv_store s) k + spec_sum specs k"
    "\<And>k. committed (sv_store s1) k = committed (sv_store s) k"
  using R
proof (cases rule: Reserve_cases)
  case unchanged
  then show ?thesis using g by simp
next
  case (granted specs' ids)
  let ?x = "env_clock env + (if ll then env_longLivedTTL env else reservationTTL)"
  have l: "reserve_loop env t ?x 0 specs [] s = (s1, Inr ids)" using granted specs by simp
  have tx: "t \<notin> res_TransactionID ` set (st_reservations (sv_store s))" and d: "distinct (map spec_key specs)"
    using st(4) by (simp_all add: first_reserve_def)
  then have nk: "\<forall>r \<in> set (st_reservations (sv_store s)). res_TransactionID r = t \<longrightarrow> res_key r \<notin> spec_key ` set specs" by auto
  obtain rows where rows: "st_reservations (sv_store s1) = st_reservations (sv_store s) @ rows"
    "map (\<lambda>r. (res_key r, res_Amount r)) rows = map (\<lambda>sp. (spec_key sp, rs_Amount sp)) specs"
    "\<forall>r \<in> set rows. res_Status r = StatusReserved \<and> res_TransactionID r = t"
    using reserve_loop_rows [OF l d nk] by blast
  have amounts: "map res_Amount rows = map rs_Amount specs"
    using arg_cong [OF rows(2), of "map snd"] by (simp add: comp_def)
  have "set (map res_Amount rows) = set (map rs_Amount specs)" by (simp only: amounts)
  then have "\<forall>r \<in> set rows. 0 < res_Amount r" using pos by (metis imageE image_eqI list.set_map)
  moreover have "length rows = length specs" using arg_cong [OF rows(2), of length] by simp
  moreover have "balanced (sv_store s1)" using reserve_loop_balanced [OF st(2) d nk, of env ?x 0 "[]"] l by simp
  moreover have "store_ok (sv_store s1)" by (rule reserve_loop_store_ok [OF st(1,3) l])
  ultimately show ?thesis
    using that [of rows] lock_first_reserve [OF tx rows(1,3)] outstanding_rows [OF rows(2)] rows(3) reserve_loop_granted [OF l] by blast
qed


text \<open>
  C31. No interleaving of reserves, confirms, releases and sweeps of the reaper makes the committed
  and the held usage of a counter together pass the maximum of its limit, and neither becomes
  negative.
\<close>

theorem no_overcommit:
  assumes "(res_step M once)\<^sup>*\<^sup>* s s'" "store_ok (sv_store s)" "within_limits M (sv_store s)"
    and "counter_at (sv_store s') k = Some row"
  shows "0 \<le> ct_current row \<and> 0 \<le> ct_reserved row \<and> ct_current row + ct_reserved row \<le> of_int (M k)"
proof -
  have "sound M (sv_store s')" using reservations.reachable [OF assms(1)] assms(2,3) by simp
  with assms(4) show ?thesis unfolding store_ok_def within_limits_def by blast
qed


section \<open>Confirming and releasing again\<close>

lemma find_flip:
  assumes "\<And>r. res_ID (f r) = res_ID r" "find (\<lambda>r. res_ID r = i) rs = Some r" "res_Status r = StatusReserved"
  shows "find (\<lambda>r. res_ID r = i) (map (\<lambda>r. if res_ID r = i \<and> res_Status r = StatusReserved then f r else r) rs) = Some (f r)"
  using assms(2) by (induction rs) (use assms(1,3) in auto)

lemma applyConfirm_terminal:
  assumes "lockReservation st i = Inr r" "res_Status r = StatusReserved" "applyConfirm now r st = (st', None)"
  shows "lockReservation st' i = Inr (confirm_row now r)"
proof -
  note i = lockReservation_Inr [OF assms(1)]
  have f: "find (\<lambda>r. res_ID r = i) (st_reservations st) = Some r"
    using assms(1) by (auto simp: lockReservation_def split: option.splits)
  have "st_reservations st' = map (\<lambda>r. if res_ID r = i \<and> res_Status r = StatusReserved then confirm_row now r else r) (st_reservations st)"
    using assms(3) i unfolding applyConfirm_finish by (cases rule: confirming.finish_cases [of now r st]) auto
  then show ?thesis
    using find_flip [OF _ f assms(2), of "confirm_row now"] by (simp add: lockReservation_def confirming.flip_kept)
qed

lemma applyRelease_terminal:
  assumes "lockReservation st i = Inr r" "res_Status r = StatusReserved" "applyRelease now StatusReleased r st = (st', None)"
  shows "lockReservation st' i = Inr (release_row StatusReleased now r)"
proof -
  note i = lockReservation_Inr [OF assms(1)]
  have f: "find (\<lambda>r. res_ID r = i) (st_reservations st) = Some r"
    using assms(1) by (auto simp: lockReservation_def split: option.splits)
  have "st_reservations st' = map (\<lambda>r. if res_ID r = i \<and> res_Status r = StatusReserved then release_row StatusReleased now r else r) (st_reservations st)"
    using assms(3) i releasing.finish_cases [where expire = False, of now r st] unfolding applyRelease_finish by force
  then show ?thesis
    using find_flip [OF _ f assms(2), of "release_row StatusReleased now"]
    by (simp add: lockReservation_def releasing.flip_kept [where expire = False, simplified])
qed

definition is_terminal :: "Store \<Rightarrow> uuid \<Rightarrow> bool" where
  "is_terminal st i = (case lockReservation st i of Inl e \<Rightarrow> False | Inr r \<Rightarrow> res_Status r \<noteq> StatusReserved)"

lemma phase2_terminal:
  assumes "is_terminal st i" "status \<in> {StatusReleased, StatusExpired}"
  shows "ConfirmWithTx st now i = (st, Some ErrReservationAlreadyTerminal)"
    "ReleaseWithTx st now i status = (st, Some ErrReservationAlreadyTerminal)"
  using assms by (auto simp: is_terminal_def ConfirmWithTx_eq ReleaseWithTx_eq split: sum.splits)

lemma terminate_again:
  assumes "is_terminal (sv_store s) i" "i \<noteq> uuid_Nil" "env_begin env = None" "status \<in> {StatusConfirmed, StatusReleased}"
  shows "terminate env s i status = (s, None)"
  using phase2_terminal [where status = StatusReleased, OF assms(1)] assms
  by (auto simp: terminate_def inTx_def terminate_body_def)

lemma errors_Is_Errorf [simp]: "\<not> errors_Is (Errorf m) (Sentinel c)"
  by (subst errors_Is.simps) simp

lemma applyConfirm_not_terminal: "applyConfirm now r st = (st', Some e) \<Longrightarrow> \<not> errors_Is e ErrReservationAlreadyTerminal"
  by (auto simp: applyConfirm_def execCounterMove_def check_violation_def err_defs split: option.splits if_splits)

lemma applyRelease_not_terminal: "applyRelease now status r st = (st', Some e) \<Longrightarrow> \<not> errors_Is e ErrReservationAlreadyTerminal"
  by (auto simp: applyRelease_def execCounterMove_def check_violation_def err_defs split: option.splits if_splits)

lemma phase2_error_terminal:
  "ConfirmWithTx st now i = (st', Some e) \<Longrightarrow> errors_Is e ErrReservationAlreadyTerminal \<Longrightarrow> is_terminal st i"
  "ReleaseWithTx st now i status = (st', Some e) \<Longrightarrow> errors_Is e ErrReservationAlreadyTerminal \<Longrightarrow> is_terminal st i"
  using applyConfirm_not_terminal applyRelease_not_terminal
  by (auto simp: ConfirmWithTx_eq ReleaseWithTx_eq is_terminal_def lockReservation_def err_defs
      split: sum.splits if_splits option.splits)

lemma phase2_ok_terminal:
  "ConfirmWithTx st now i = (st', None) \<Longrightarrow> is_terminal st' i"
  "ReleaseWithTx st now i StatusReleased = (st', None) \<Longrightarrow> is_terminal st' i"
  using applyConfirm_terminal [of st i _ now st'] applyRelease_terminal [of st i _ now st']
  by (auto simp: ConfirmWithTx_eq ReleaseWithTx_eq is_terminal_def confirm_row_def release_row_def split: sum.splits if_splits)

lemma terminate_terminal:
  assumes T: "terminate env s i status = (s1, None)" and st: "status \<in> {StatusConfirmed, StatusReleased}"
  shows "is_terminal (sv_store s1) i \<and> i \<noteq> uuid_Nil"
proof -
  have i: "i \<noteq> uuid_Nil" using T by (auto simp: terminate_def)
  obtain st' e where b: "(if status = StatusConfirmed then ConfirmWithTx (sv_store s) (env_dbNow env) i
            else ReleaseWithTx (sv_store s) (env_dbNow env) i status) = (st', e)" by fastforce
  show ?thesis
  proof (cases rule: inTx_cases [of env s "terminate_body env i status"])
    case (failed x)
    then have s1: "s1 = s" and x: "fst x" using T i by (auto simp: terminate_def split_beta split: if_splits)
    from failed(2) [OF x] obtain s' where "terminate_body env i status s = (s', Inl x)" by blast
    with x b have "\<exists>y. e = Some y \<and> errors_Is y ErrReservationAlreadyTerminal"
      by (auto simp: terminate_body_def split_beta split: option.splits)
    then show ?thesis using s1 i b phase2_error_terminal by (auto split: if_splits)
  next
    case (finished s' v)
    then have s1: "s1 = s'" using T i by (simp add: terminate_def)
    have e: "e = None" using finished(1) b by (auto simp: terminate_body_def split: option.splits)
    have "sv_store s1 = st'" using terminate_body_store [of env i status s] finished(1) b s1 by simp
    then show ?thesis using b e st i phase2_ok_terminal by (auto split: if_splits)
  qed
qed

text \<open>
  C35. Confirm and release are idempotent and exclusive: once either has succeeded for a
  reservation, confirming or releasing it again reports success and changes nothing at all, so
  a retry cannot move the amount twice and a late release cannot undo a confirm.
\<close>

theorem terminate_once:
  assumes "Confirm env s i = (s1, None) \<or> Release env s i = (s1, None)" "env_begin env' = None"
  shows "Confirm env' s1 i = (s1, None) \<and> Release env' s1 i = (s1, None)"
proof -
  have "is_terminal (sv_store s1) i \<and> i \<noteq> uuid_Nil"
    using assms(1) terminate_terminal [of env s i] by (auto simp: Confirm_def Release_def)
  then show ?thesis using terminate_again [of s1 i env'] assms(2) by (simp add: Confirm_def Release_def)
qed

section \<open>The reaper releases what has expired\<close>

definition expired_row :: "time \<Rightarrow> Reservation \<Rightarrow> bool" where
  "expired_row now r = (res_Status r = StatusReserved \<and> res_ExpiresAt r < now)"

lemma find_distinct:
  "distinct (map res_ID rs) \<Longrightarrow> r \<in> set rs \<Longrightarrow> find (\<lambda>x. res_ID x = res_ID r) rs = Some r"
  by (induction rs) force+

lemma ReleaseExpired_reserved:
  assumes "store_ok st" "r \<in> set (st_reservations st)" "res_Status r = StatusReserved"
    "finish (\<lambda>r. release_move r now) (release_row StatusExpired now) r st = (st', None)"
  shows "ReleaseExpired st now (res_ID r) = (st', None)"
proof -
  have "lockReservation st (res_ID r) = Inr r"
    using find_distinct [of "st_reservations st" r] assms(1,2) by (simp add: lockReservation_def store_ok_def)
  then show ?thesis using assms(3,4) by (simp add: ReleaseExpired_def ReleaseWithTx_eq applyRelease_finish)
qed

lemma reap_loop_each:
  assumes "store_ok st" "distinct (map res_ID rs)" "\<forall>r \<in> set rs. r \<in> set (st_reservations st) \<and> res_Status r = StatusReserved"
    "each_reservation (finish (\<lambda>r. release_move r now) (release_row StatusExpired now)) rs st = (st', None)"
  shows "reap_loop now (map res_ID rs) st n = (st', n + length rs, None)"
  using assms
proof (induction rs arbitrary: st n)
  case (Cons r rs)
  obtain st1 where st1: "finish (\<lambda>r. release_move r now) (release_row StatusExpired now) r st = (st1, None)"
    "each_reservation (finish (\<lambda>r. release_move r now) (release_row StatusExpired now)) rs st1 = (st', None)"
    using Cons.prems(4) by (auto split: prod.splits option.splits)
  have r: "ReleaseExpired st now (res_ID r) = (st1, None)"
    using Cons.prems(1,3) st1(1) by (intro ReleaseExpired_reserved) auto
  have "store_ok st1" using releasing.finish_store_ok [where expire = True, OF Cons.prems(1), of now r] st1(1) by simp
  moreover have "\<forall>x \<in> set rs. x \<in> set (st_reservations st1) \<and> res_Status x = StatusReserved"
    using releasing.finish_others [where expire = True, of _ st r now] Cons.prems(2,3) st1(1) by (auto simp: image_iff)
  ultimately have "reap_loop now (map res_ID rs) st1 (Suc n) = (st', Suc n + length rs, None)"
    using Cons.IH Cons.prems(2) st1(2) by simp
  with r show ?case by simp
qed simp

text \<open>
  In a store whose holds are backed by reserved rows of positive amounts, one sweep of the
  reaper marks exactly the reservations that are still reserved and past their lifetime as
  expired, counts them, gives back exactly their amounts, and commits nothing.
\<close>

theorem RunOnce_releases_expired:
  assumes "store_ok st" "balanced st" "\<forall>r \<in> set (st_reservations st). 0 < res_Amount r"
  shows "\<exists>st'. RunOnce st now dbNow (\<lambda>n. None) = (st', length (filter (expired_row now) (st_reservations st)), None) \<and>
    st_reservations st' =
      map (\<lambda>r. if expired_row now r then release_row StatusExpired dbNow r else r) (st_reservations st) \<and>
    (\<forall>k. held st' k = held st k - (\<Sum>r \<leftarrow> filter (expired_row now) (st_reservations st). outstanding k r) \<and>
         committed st' k = committed st k)"
proof -
  let ?rs = "filter (expired_row now) (st_reservations st)"
  let ?each = "each_reservation (finish (\<lambda>r. release_move r dbNow) (release_row StatusExpired dbNow)) ?rs st"
  have rs: "\<forall>r \<in> set ?rs. r \<in> set (st_reservations st) \<and> res_Status r = StatusReserved \<and> 0 < res_Amount r"
    "\<forall>r \<in> set ?rs. res_Status r = StatusReserved"
    "\<forall>r \<in> set ?rs. r \<in> set (st_reservations st) \<and> res_Status r = StatusReserved"
    using assms(3) by (auto simp: expired_row_def)
  have d: "distinct (map res_ID ?rs)" using assms(1) by (simp add: store_ok_def distinct_map_filter)
  obtain st' where e: "?each = (st', None)"
    using releasing.each_finish_succeeds [where expire = True, OF assms(1,2) d rs(1), of dbNow] by (metis (full_types) prod.collapse)
  have ids: "FindExpiredReservations st now = map res_ID ?rs" by (simp add: FindExpiredReservations_def expired_row_def [abs_def])
  have loop: "reap_loop dbNow (map res_ID ?rs) st 0 = (st', length ?rs, None)"
    using reap_loop_each [OF assms(1) d rs(3) e, of 0] by simp
  have inj: "inj_on res_ID (set (st_reservations st))" using assms(1) by (simp add: store_ok_def distinct_map)
  have hit: "res_ID r \<in> res_ID ` set ?rs \<and> res_Status r = StatusReserved \<longleftrightarrow> expired_row now r"
    if "r \<in> set (st_reservations st)" for r
    using that inj by (auto simp: expired_row_def dest: inj_onD)
  have "st_reservations st' = map (\<lambda>r. if expired_row now r then release_row StatusExpired dbNow r else r) (st_reservations st)"
    using releasing.each_finish_rows [where expire = True, of dbNow ?rs st st'] e hit by (simp add: conj_commute cong: map_cong)
  moreover have "RunOnce st now dbNow (\<lambda>n. None) = (st', length ?rs, None)"
  proof (cases "?rs = []")
    case True
    then show ?thesis using e ids by (simp add: RunOnce_def)
  next
    case False
    then show ?thesis using loop by (simp add: RunOnce_def ids Let_def)
  qed
  ultimately show ?thesis
    using releasing.each_finish_buckets [where expire = True, of dbNow ?rs st st'] e rs(2) by auto
qed

section \<open>Retries and expiry\<close>

text \<open>
  A reserve that is repeated for the same transaction, limit, scope and period before phase
  two is not collapsed: the amount is held a second time, while the table keeps one row, so
  that phase two will only ever give one of the two amounts back.
\<close>

theorem retried_reserve_holds_twice:
  assumes "ReserveWithTx st i now r m = (st1, None)" "ReserveWithTx st1 i' now' r' m' = (st2, None)"
    and "fresh_reservation st r" "same_tuple r' r" "res_Amount r' = res_Amount r"
  shows "held st2 (res_key r) = held st (res_key r) + 2 * of_int (res_Amount r) \<and>
    st_reservations st2 = st_reservations st @ [r]"
proof -
  have k: "res_key r' = res_key r" using assms(4) by (simp add: same_tuple_def)
  have 1: "held st1 (res_key r) = held st (res_key r) + of_int (res_Amount r) \<and> st_reservations st1 = st_reservations st @ [r]"
  proof (cases rule: ReserveWithTx_cases [of st i now r m])
    case (ok st')
    then show ?thesis using assms(1,3) by (simp add: insert_reservation_fresh fresh_reservation_def)
  qed (use assms(1) in simp)
  have "held st2 (res_key r) = held st1 (res_key r) + of_int (res_Amount r) \<and> st_reservations st2 = st_reservations st1"
  proof (cases rule: ReserveWithTx_cases [of st1 i' now' r' m'])
    case (ok st')
    then have "list_ex (same_tuple r') (st_reservations st')" using assms(4) 1 by simp
    then show ?thesis using ok assms(2,5) k by (simp add: insert_reservation_def)
  qed (use assms(2) in simp)
  with 1 show ?thesis by simp
qed

lemma cleaned_counter:
  assumes "distinct (map fst rows)" "map_of rows k = Some row" "P row"
  shows "map_of (filter (Not \<circ> (\<lambda>(k, row). P row)) rows) k = None"
proof -
  have "row' = row" if "(k, row') \<in> set rows" for row' using that assms(1,2) by simp
  then show ?thesis using assms(3) by (auto simp: map_of_eq_None_iff)
qed

lemma reserve_counter_expiry:
  assumes "ReserveWithTx st i now r m = (st1, None)" "0 < res_Amount r" "distinct (map fst (st_counters st))"
  shows "distinct (map fst (st_counters st1)) \<and>
    (\<exists>row. counter_at st1 (res_key r) = Some row \<and> ct_expires row = Some (res_ExpiresAt r))"
proof -
  have v: "Reservation_Validate r = None" using assms(1) by (simp add: ReserveWithTx_def split: option.splits)
  have ins: "st_counters (insert_reservation r st') = st_counters st'" for st' by (simp add: insert_reservation_def)
  show ?thesis
  proof (cases rule: UpsertAndReserveAtomic_cases
      [of st i now "res_LimitID r" "res_ScopeKey r" "res_PeriodKey r" "of_int (res_Amount r)" "of_int m" "Some (res_ExpiresAt r)"])
    case (fresh row)
    then have "st1 = insert_reservation r (put_counter (res_key r) row st)"
      using assms(1) v by (simp add: ReserveWithTx_def res_key_def)
    then show ?thesis using fresh(6) assms(3) ins by (simp add: put_counter_def distinct_update counter_at_def update_conv')
  next
    case (more row0 row)
    then have "st1 = insert_reservation r (put_counter (res_key r) row st)"
      using assms(1) v by (simp add: ReserveWithTx_def res_key_def)
    then show ?thesis using more(6) assms(3) ins by (simp add: put_counter_def distinct_update counter_at_def update_conv')
  qed (use assms v in \<open>simp_all add: ReserveWithTx_def\<close>)
qed

text \<open>
  A reserve replaces the expiry of its counter, which keeps the whole usage of the period, by
  the expiry of the reservation: the next cleanup after that moment deletes the counter together
  with the usage that other transactions of the period have committed.
\<close>

theorem reserve_shortens_counter:
  assumes "ReserveWithTx st i now r m = (st1, None)" "0 < res_Amount r" "distinct (map fst (st_counters st))"
    and "res_ExpiresAt r < later"
  shows "counter_at (fst (DeleteExpiredCounters st1 later (\<lambda>n. None))) (res_key r) = None"
proof -
  obtain row where row: "distinct (map fst (st_counters st1))" "map_of (st_counters st1) (res_key r) = Some row"
    "expired_counter later row"
    using reserve_counter_expiry [OF assms(1-3)] assms(4) by (auto simp: counter_at_def expired_counter_def)
  have "fst (DeleteExpiredCounters st1 later (\<lambda>n. None)) =
      st1\<lparr>st_counters := filter (Not \<circ> (\<lambda>(k, row). expired_counter later row)) (st_counters st1)\<rparr>"
    using delete_batches_result [of "\<lambda>n. None" DefaultDeleteBatchSize later 0 "st_counters st1" 0]
    by (simp add: DeleteExpiredCounters_def DefaultDeleteBatchSize_def)
  then show ?thesis using cleaned_counter [OF row(1,2), of "expired_counter later"] row(3) by (simp add: counter_at_def)
qed

section \<open>Examples\<close>

definition sample_env :: Env where
  "sample_env =
     \<lparr>env_List = sample_list, env_clock = 5 * Day, env_dbNow = 5 * Day, env_resID = (\<lambda>n. 100 + of_nat n),
      env_ctrID = (\<lambda>n. 200), env_longLivedTTL = defaultLongLivedReservationTTL, env_audit = (\<lambda>a. None),
      env_begin = None, env_commit = None\<rparr>"

definition sample_spec :: ReservationSpec where
  "sample_spec = \<lparr>rs_LimitID = 1, rs_ScopeKey = ''acct:'', rs_PeriodKey = ''0001-01-06'', rs_Amount = 100, rs_MaxAmount = 1000\<rparr>"

definition sample_key :: ckey where "sample_key = (1, ''acct:'', ''0001-01-06'')"

definition idle_service :: Service where "idle_service = \<lparr>sv_store = empty_store, sv_audit = []\<rparr>"

definition sample_row :: Reservation where
  "sample_row =
     \<lparr>res_ID = 100, res_LimitID = 1, res_ScopeKey = ''acct:'', res_PeriodKey = ''0001-01-06'', res_Amount = 100,
      res_Status = StatusReserved, res_TransactionID = 7, res_ExpiresAt = 5 * Day + reservationTTL, res_CreatedAt = 5 * Day,
      res_ConfirmedAt = None, res_ReleasedAt = None\<rparr>"

definition reserved_service :: Service where
  "reserved_service =
     \<lparr>sv_store = \<lparr>st_counters = [(sample_key, \<lparr>ct_id = 200, ct_current = 0, ct_reserved = 100, ct_updated = 5 * Day,
                     ct_expires = Some (5 * Day + reservationTTL)\<rparr>)],
                 st_reservations = [sample_row]\<rparr>,
      sv_audit = [reserve_audit 100 7 sample_spec]\<rparr>"

lemma sample_spec_sel: "spec_key sample_spec = sample_key" "rs_Amount sample_spec = 100"
  by code_simp+

lemma sample_resolve:
  "ResolveReservations exact_lib (env_List sample_env) (env_clock sample_env) (Some sample_input) = Some (Inr (Some [sample_spec]))"
  by code_simp

lemma sample_reserve:
  "Reserve exact_lib sample_env idle_service 7 (Some sample_input) False =
     Some (reserved_service, Inr \<lparr>rr_Denied = False, rr_ReservationIDs = [100]\<rparr>)"
  by code_simp

lemma sample_invariants:
  "store_ok (sv_store idle_service)" "balanced (sv_store idle_service)" "within_limits (\<lambda>k. 1000) (sv_store idle_service)"
  "fresh_ids sample_env (length [sample_spec]) (sv_store idle_service)" "first_reserve (sv_store idle_service) 7 [sample_spec]"
  "specs_capped (\<lambda>k. 1000) [sample_spec]" "no_failures sample_env"
  by (simp_all add: store_ok_def balanced_def within_limits_def fresh_ids_def first_reserve_def specs_capped_def no_failures_def
      idle_service_def empty_store_def counter_at_def held_def outstanding_sum_def sample_spec_def sample_env_def)

lemma sample_held: "held (sv_store reserved_service) sample_key = 100" "committed (sv_store reserved_service) sample_key = 0"
  "held (sv_store idle_service) k = 0" "committed (sv_store idle_service) k = 0"
  by (simp_all add: reserved_service_def idle_service_def empty_store_def held_def committed_def counter_at_def sample_key_def)

lemma sample_step: "(res_step (\<lambda>k. 1000) True)\<^sup>*\<^sup>* idle_service reserved_service"
proof (rule r_into_rtranclp, rule step_reserve [OF sample_reserve])
  show "\<forall>specs. ResolveReservations exact_lib (env_List sample_env) (env_clock sample_env) (Some sample_input) = Some (Inr (Some specs)) \<longrightarrow>
    fresh_ids sample_env (length specs) (sv_store idle_service) \<and> specs_capped (\<lambda>k. 1000) specs \<and>
    (True \<longrightarrow> first_reserve (sv_store idle_service) 7 specs)"
    using sample_resolve sample_invariants(4-6) by simp
qed



theorem no_overcommit_witness:
  "ct_reserved (\<lparr>ct_id = 200, ct_current = 0, ct_reserved = 100, ct_updated = 5 * Day, ct_expires = Some (5 * Day + reservationTTL)\<rparr>) \<le> 1000"
  using no_overcommit [OF sample_step sample_invariants(1,3), of sample_key]
  by (simp add: reserved_service_def counter_at_def)


theorem terminate_once_witness:
  "Release sample_env (fst (Confirm sample_env reserved_service 100)) 100 = (fst (Confirm sample_env reserved_service 100), None)"
proof -
  have "snd (Confirm sample_env reserved_service 100) = None" by code_simp
  then have "Confirm sample_env reserved_service 100 = (fst (Confirm sample_env reserved_service 100), None)"
    by (metis prod.collapse)
  moreover have "env_begin sample_env = None" by (simp add: sample_env_def)
  ultimately show ?thesis using terminate_once by blast
qed

theorem RunOnce_releases_expired_witness:
  "\<exists>st'. RunOnce (sv_store reserved_service) (6 * Day) (6 * Day) (\<lambda>n. None) = (st', 1, None) \<and> held st' sample_key = 0"
proof -
  have s: "store_ok (sv_store reserved_service)" "balanced (sv_store reserved_service)"
    using res_steps_balanced [OF sample_step] sample_invariants by simp_all
  have x: "expired_row (6 * Day) sample_row" "outstanding sample_key sample_row = 100"
    by (simp_all add: expired_row_def sample_row_def reservationTTL_def Day_def Hour_def Minute_def Second_def outstanding_def res_key_def sample_key_def)
  have "\<forall>r \<in> set (st_reservations (sv_store reserved_service)). 0 < res_Amount r"
    by (simp add: reserved_service_def sample_row_def)
  from RunOnce_releases_expired [OF s this, of "6 * Day" "6 * Day"] show ?thesis
    using x sample_held(1) by (auto simp: reserved_service_def)
qed

theorem retried_reserve_holds_twice_witness:
  "\<exists>st2. ReserveWithTx (sv_store reserved_service) 201 (5 * Day) (sample_row\<lparr>res_ID := 101\<rparr>) 1000 = (st2, None) \<and>
     held st2 sample_key = 200 \<and> st_reservations st2 = [sample_row]"
proof -
  have f: "ReserveWithTx empty_store 200 (5 * Day) sample_row 1000 = (sv_store reserved_service, None)" by code_simp
  have "snd (ReserveWithTx (sv_store reserved_service) 201 (5 * Day) (sample_row\<lparr>res_ID := 101\<rparr>) 1000) = None" by code_simp
  then obtain st2 where s: "ReserveWithTx (sv_store reserved_service) 201 (5 * Day) (sample_row\<lparr>res_ID := 101\<rparr>) 1000 = (st2, None)"
    by (metis prod.collapse)
  have fr: "fresh_reservation empty_store sample_row" by code_simp
  have k: "res_key sample_row = sample_key" by (simp add: sample_row_def res_key_def sample_key_def)
  show ?thesis
    using retried_reserve_holds_twice [OF f s fr] s k
    by (auto simp: same_tuple_def res_key_def sample_row_def empty_store_def held_def counter_at_def)
qed

theorem reserve_shortens_counter_witness:
  "counter_at (fst (DeleteExpiredCounters (sv_store reserved_service) (6 * Day) (\<lambda>n. None))) sample_key = None"
proof -
  have f: "ReserveWithTx empty_store 200 (5 * Day) sample_row 1000 = (sv_store reserved_service, None)" by code_simp
  show ?thesis
    using reserve_shortens_counter [OF f, of "6 * Day"]
    by (simp add: sample_row_def res_key_def sample_key_def empty_store_def reservationTTL_def Day_def Hour_def Minute_def Second_def)
qed

end
