(* ===== verification/TracerRule.thy ===== *)
theory TracerRule
  imports TracerValidation
begin

text \<open>
  Rules of the tracer: the entity and its status machine (\<^verbatim>\<open>components/tracer/pkg/model/rule.go\<close>,
  \<^verbatim>\<open>rule_status.go\<close>), the result of an evaluation and the decision precedence
  (\<^verbatim>\<open>evaluation_result.go\<close>, \<^verbatim>\<open>decision_maker.go\<close>), and the evaluation services
  (\<^verbatim>\<open>internal/services/query/rule_evaluator.go\<close>, \<^verbatim>\<open>complete_evaluator.go\<close>,
  \<^verbatim>\<open>evaluate_rules.go\<close>). The expression evaluator is an interface of the code
  (\<^verbatim>\<open>ExpressionEvaluator\<close>, backed by the CEL library): the record \<open>ExprEval\<close> holds its
  functions. The context is the function that tells whether it is cancelled when the
  rule at a position is about to be evaluated. Logging and tracing spans have no effect
  on results and are left out.
\<close>

section \<open>Statuses\<close>

datatype RuleStatus =
    RuleStatusDraft
  | RuleStatusActive
  | RuleStatusInactive
  | RuleStatusDeleted
  | OtherRuleStatus string

definition RuleStatus_IsValid :: "RuleStatus \<Rightarrow> bool" where
  "RuleStatus_IsValid s = (case s of OtherRuleStatus x \<Rightarrow> False | _ \<Rightarrow> True)"

definition RuleStatus_String :: "RuleStatus \<Rightarrow> string" where
  "RuleStatus_String s =
     (case s of RuleStatusDraft \<Rightarrow> ''DRAFT'' | RuleStatusActive \<Rightarrow> ''ACTIVE'' | RuleStatusInactive \<Rightarrow> ''INACTIVE''
      | RuleStatusDeleted \<Rightarrow> ''DELETED'' | OtherRuleStatus x \<Rightarrow> x)"

text \<open>The Go map \<^verbatim>\<open>validTransitions\<close>: \<open>None\<close> for a key it does not hold.\<close>

fun validTransitions :: "RuleStatus \<Rightarrow> RuleStatus list option" where
  "validTransitions RuleStatusDraft = Some [RuleStatusActive, RuleStatusDeleted]"
| "validTransitions RuleStatusActive = Some [RuleStatusInactive]"
| "validTransitions RuleStatusInactive = Some [RuleStatusDraft, RuleStatusActive, RuleStatusDeleted]"
| "validTransitions RuleStatusDeleted = Some []"
| "validTransitions (OtherRuleStatus s) = None"

definition CanTransitionTo :: "RuleStatus \<Rightarrow> RuleStatus \<Rightarrow> bool" where
  "CanTransitionTo s target =
     (case validTransitions s of None \<Rightarrow> False | Some allowed \<Rightarrow> target \<in> set allowed)"

definition NewInvalidTransitionError :: "RuleStatus \<Rightarrow> RuleStatus \<Rightarrow> goerr" where
  "NewInvalidTransitionError from to = InvalidTransition (RuleStatus_String from) (RuleStatus_String to)"

section \<open>The entity\<close>

record 'p Rule =
  r_ID :: uuid
  r_Name :: string
  r_Description :: "string option"
  r_Expression :: string
  r_Action :: Decision
  r_Scopes :: "Scope list"
  r_Status :: RuleStatus
  r_CreatedAt :: time
  r_UpdatedAt :: time
  r_ActivatedAt :: "time option"
  r_DeactivatedAt :: "time option"
  r_DeletedAt :: "time option"
  r_CompiledProgram :: "'p option"

definition MaxRuleNameLength :: nat where "MaxRuleNameLength = 255"
definition MaxRuleExpressionLength :: nat where "MaxRuleExpressionLength = 5000"

fun copy_scopes :: "Scope list \<Rightarrow> Scope list \<Rightarrow> goerr + Scope list" where
  "copy_scopes [] acc = Inr acc"
| "copy_scopes (s # ss) acc =
     (if Scope_IsEmpty s then Inl ErrRuleInvalidScope else copy_scopes ss (acc @ [cloneAndNormalizeScope s]))"

definition NewRule ::
  "uuid \<Rightarrow> string \<Rightarrow> string \<Rightarrow> Decision \<Rightarrow> Scope list \<Rightarrow> string option \<Rightarrow> time \<Rightarrow> goerr + 'p Rule" where
  "NewRule newID name expression action ss description createdAt =
     (let normalizedName = TrimSpace name;
          normalizedExpression = TrimSpace expression;
          normalizedDescription = map_option TrimSpace description
      in if normalizedName = '''' then Inl ErrRuleNameRequired
         else if MaxRuleNameLength < length normalizedName then Inl ErrRuleNameTooLong
         else if normalizedExpression = '''' then Inl ErrRuleExpressionRequired
         else if MaxRuleExpressionLength < length normalizedExpression then Inl ErrRuleExpressionTooLong
         else if \<not> Decision_IsValid action then Inl ErrRuleInvalidAction
         else if (case normalizedDescription of None \<Rightarrow> False | Some d \<Rightarrow> MaxDescriptionLength < length d)
         then Inl ErrRuleDescriptionTooLong
         else (case copy_scopes ss [] of Inl e \<Rightarrow> Inl e
               | Inr scopesCopy \<Rightarrow>
                 Inr \<lparr>r_ID = newID, r_Name = normalizedName, r_Description = normalizedDescription,
                      r_Expression = normalizedExpression, r_Action = action, r_Scopes = scopesCopy,
                      r_Status = RuleStatusDraft, r_CreatedAt = createdAt, r_UpdatedAt = createdAt,
                      r_ActivatedAt = None, r_DeactivatedAt = None, r_DeletedAt = None,
                      r_CompiledProgram = None\<rparr>))"

definition upd_opt :: "'a option \<Rightarrow> ('a \<Rightarrow> 's \<Rightarrow> 's) \<Rightarrow> 's \<Rightarrow> 's" where
  "upd_opt p f s = (case p of None \<Rightarrow> s | Some x \<Rightarrow> f x s)"

definition Rule_Update ::
  "'p Rule \<Rightarrow> string option \<Rightarrow> string option \<Rightarrow> string option \<Rightarrow> Scope list option \<Rightarrow> time
   \<Rightarrow> 'p Rule \<times> goerr option" where
  "Rule_Update r name expression description ss now =
     (let n = map_option TrimSpace name; e = map_option TrimSpace expression; d = map_option TrimSpace description;
          checks = first_err
            [err_if (n = Some '''') ErrRuleNameRequired,
             err_if (case n of None \<Rightarrow> False | Some x \<Rightarrow> MaxRuleNameLength < length x) ErrRuleNameTooLong,
             err_if (e = Some '''') ErrRuleExpressionRequired,
             err_if (case e of None \<Rightarrow> False | Some x \<Rightarrow> MaxRuleExpressionLength < length x) ErrRuleExpressionTooLong,
             err_if (case d of None \<Rightarrow> False | Some x \<Rightarrow> MaxDescriptionLength < length x) ErrRuleDescriptionTooLong,
             err_if (case ss of None \<Rightarrow> False | Some xs \<Rightarrow> list_ex Scope_IsEmpty xs) ErrRuleInvalidScope]
      in case checks of Some err \<Rightarrow> (r, Some err)
         | None \<Rightarrow>
           (let r' = upd_opt ss (\<lambda>xs r. r\<lparr>r_Scopes := map cloneAndNormalizeScope xs\<rparr>)
                    (upd_opt d (\<lambda>x r. r\<lparr>r_Description := Some x\<rparr>)
                    (upd_opt e (\<lambda>x r. r\<lparr>r_Expression := x\<rparr>)
                    (upd_opt n (\<lambda>x r. r\<lparr>r_Name := x\<rparr>) r)));
                updated = (n \<noteq> None \<or> e \<noteq> None \<or> d \<noteq> None \<or> ss \<noteq> None)
            in (if updated then r'\<lparr>r_UpdatedAt := now\<rparr> else r', None)))"

definition stamp_status :: "RuleStatus \<Rightarrow> time \<Rightarrow> 'p Rule \<Rightarrow> 'p Rule" where
  "stamp_status status now r =
     (case status of
        RuleStatusActive \<Rightarrow> r\<lparr>r_ActivatedAt := Some now, r_DeactivatedAt := None, r_DeletedAt := None\<rparr>
      | RuleStatusInactive \<Rightarrow> r\<lparr>r_DeactivatedAt := Some now, r_DeletedAt := None\<rparr>
      | RuleStatusDeleted \<Rightarrow> r\<lparr>r_DeletedAt := Some now\<rparr>
      | RuleStatusDraft \<Rightarrow> r\<lparr>r_ActivatedAt := None, r_DeactivatedAt := None, r_DeletedAt := None\<rparr>
      | OtherRuleStatus s \<Rightarrow> r)"

definition Rule_SetStatus :: "'p Rule \<Rightarrow> RuleStatus \<Rightarrow> time \<Rightarrow> 'p Rule \<times> goerr option" where
  "Rule_SetStatus r status now =
     (if \<not> RuleStatus_IsValid status then (r, Some ErrRuleInvalidStatus)
      else if r_Status r = status then (r, None)
      else if \<not> CanTransitionTo (r_Status r) status then (r, Some (NewInvalidTransitionError (r_Status r) status))
      else (stamp_status status now (r\<lparr>r_Status := status, r_UpdatedAt := now\<rparr>), None))"

definition Rule_SetAction :: "'p Rule \<Rightarrow> Decision \<Rightarrow> time \<Rightarrow> 'p Rule \<times> goerr option" where
  "Rule_SetAction r action now =
     (if \<not> Decision_IsValid action then (r, Some ErrRuleInvalidAction)
      else if r_Action r = action then (r, None)
      else (r\<lparr>r_Action := action, r_UpdatedAt := now\<rparr>, None))"

section \<open>Results and precedence\<close>

record EvaluationResult =
  er_Decision :: Decision
  er_MatchedRuleIDs :: "uuid list"
  er_EvaluatedRuleIDs :: "uuid list"
  er_Reason :: string
  er_TotalRulesLoaded :: nat
  er_Truncated :: bool

definition NewEvaluationResult :: "Decision \<Rightarrow> uuid list \<Rightarrow> uuid list \<Rightarrow> string \<Rightarrow> goerr + EvaluationResult" where
  "NewEvaluationResult decision matched evaluated reason =
     (if \<not> Decision_IsValid decision then Inl ErrInvalidDecision
      else if reason = '''' then Inl ErrReasonRequired
      else Inr \<lparr>er_Decision = decision, er_MatchedRuleIDs = matched, er_EvaluatedRuleIDs = evaluated,
                er_Reason = reason, er_TotalRulesLoaded = 0, er_Truncated = False\<rparr>)"

definition NewNoMatchResult :: "Decision \<Rightarrow> uuid list \<Rightarrow> goerr + EvaluationResult" where
  "NewNoMatchResult defaultDecision evaluated =
     (if \<not> Decision_IsValid defaultDecision then Inl ErrInvalidDefaultDecision
      else Inr \<lparr>er_Decision = defaultDecision, er_MatchedRuleIDs = [], er_EvaluatedRuleIDs = evaluated,
                er_Reason = ''No matching rules found'', er_TotalRulesLoaded = 0, er_Truncated = False\<rparr>)"

definition WithTruncationInfo :: "EvaluationResult \<Rightarrow> nat \<Rightarrow> bool \<Rightarrow> EvaluationResult" where
  "WithTruncationInfo r totalLoaded truncated = r\<lparr>er_TotalRulesLoaded := totalLoaded, er_Truncated := truncated\<rparr>"

definition MakeDecision :: "uuid list \<Rightarrow> uuid list \<Rightarrow> uuid list \<Rightarrow> uuid list \<Rightarrow> Decision \<Rightarrow> goerr + EvaluationResult" where
  "MakeDecision deny allow review evaluated defaultDecision =
     (let allMatched = deny @ review @ allow
      in if 0 < length deny then NewEvaluationResult DecisionDeny allMatched evaluated ''Rule matched with DENY action''
         else if 0 < length review
         then NewEvaluationResult DecisionReview allMatched evaluated ''Rule matched with REVIEW action''
         else if 0 < length allow
         then NewEvaluationResult DecisionAllow allMatched evaluated ''Rule matched with ALLOW action''
         else NewNoMatchResult defaultDecision evaluated)"

section \<open>Evaluation of one rule\<close>

record 'p ExprEval =
  ee_Compile :: "string \<Rightarrow> goerr + 'p"
  ee_Evaluate :: "'p \<Rightarrow> ValidationRequest \<Rightarrow> goerr + bool"
  ee_IsMissingKeyError :: "goerr \<Rightarrow> bool"

definition rule_program :: "'p ExprEval \<Rightarrow> 'p Rule \<Rightarrow> goerr + 'p" where
  "rule_program ee rule =
     (case r_CompiledProgram rule of
        Some p \<Rightarrow> Inr p
      | None \<Rightarrow> (case ee_Compile ee (r_Expression rule) of
                  Inl e \<Rightarrow> Inl (Wrapped ''failed to compile expression'' e) | Inr p \<Rightarrow> Inr p))"

definition RuleEvaluator_Evaluate :: "'p ExprEval \<Rightarrow> 'p Rule \<Rightarrow> ValidationRequest \<Rightarrow> goerr + bool" where
  "RuleEvaluator_Evaluate ee rule req =
     (if \<not> RuleScopesMatch (r_Scopes rule) (Some (ToTransactionScope req)) then Inr False
      else (case rule_program ee rule of Inl e \<Rightarrow> Inl e
            | Inr p \<Rightarrow>
              (case ee_Evaluate ee p req of
                 Inl e \<Rightarrow> if ee_IsMissingKeyError ee e then Inr False
                         else Inl (Wrapped ''failed to evaluate expression'' e)
               | Inr matched \<Rightarrow> Inr matched)))"

section \<open>Evaluation of all rules\<close>

record EvaluationCollector =
  ec_Deny :: "uuid list"
  ec_Allow :: "uuid list"
  ec_Review :: "uuid list"
  ec_Evaluated :: "uuid list"

definition collect :: "Decision \<Rightarrow> uuid \<Rightarrow> EvaluationCollector \<Rightarrow> EvaluationCollector" where
  "collect action i c =
     (case action of
        DecisionDeny \<Rightarrow> c\<lparr>ec_Deny := ec_Deny c @ [i]\<rparr>
      | DecisionAllow \<Rightarrow> c\<lparr>ec_Allow := ec_Allow c @ [i]\<rparr>
      | DecisionReview \<Rightarrow> c\<lparr>ec_Review := ec_Review c @ [i]\<rparr>
      | OtherDecision s \<Rightarrow> c)"

text \<open>
  The loop of \<^verbatim>\<open>EvaluateAll\<close>. The slice may hold nil pointers (\<open>None\<close>), which are skipped.
  \<open>eval\<close> is the \<^verbatim>\<open>SingleRuleEvaluator\<close>, \<open>ctx n\<close> the error of the context when the
  element with index \<open>n\<close> is reached.
\<close>

fun evaluate_loop ::
  "('p Rule \<Rightarrow> ValidationRequest \<Rightarrow> goerr + bool) \<Rightarrow> (nat \<Rightarrow> goerr option) \<Rightarrow> ValidationRequest \<Rightarrow> nat
   \<Rightarrow> 'p Rule option list \<Rightarrow> EvaluationCollector \<Rightarrow> goerr + EvaluationCollector" where
  "evaluate_loop eval ctx req n [] c = Inr c"
| "evaluate_loop eval ctx req n (None # rs) c = evaluate_loop eval ctx req (Suc n) rs c"
| "evaluate_loop eval ctx req n (Some rule # rs) c =
     (case ctx n of
        Some e \<Rightarrow> Inl (Wrapped ''context cancelled during evaluation'' e)
      | None \<Rightarrow>
        (case eval rule req of
           Inl e \<Rightarrow> Inl (Wrapped ''failed to evaluate rule'' e)
         | Inr matched \<Rightarrow>
           (let c' = c\<lparr>ec_Evaluated := ec_Evaluated c @ [r_ID rule]\<rparr>
            in evaluate_loop eval ctx req (Suc n) rs (if matched then collect (r_Action rule) (r_ID rule) c' else c'))))"

definition empty_collector :: EvaluationCollector where
  "empty_collector = \<lparr>ec_Deny = [], ec_Allow = [], ec_Review = [], ec_Evaluated = []\<rparr>"

definition ErrNilRequest :: goerr where "ErrNilRequest = Errorf ''request cannot be nil''"
definition ErrNilValidationRequest :: goerr where "ErrNilValidationRequest = Errorf ''validation request is nil''"

definition EvaluateAll ::
  "('p Rule \<Rightarrow> ValidationRequest \<Rightarrow> goerr + bool) \<Rightarrow> (nat \<Rightarrow> goerr option) \<Rightarrow> 'p Rule option list
   \<Rightarrow> ValidationRequest option \<Rightarrow> goerr + EvaluationCollector" where
  "EvaluateAll eval ctx rules req =
     (case req of None \<Rightarrow> Inl ErrNilRequest | Some r \<Rightarrow> evaluate_loop eval ctx r 0 rules empty_collector)"

record EvaluationConfig =
  cfg_DefaultDecisionWhenNoMatch :: Decision
  cfg_MaxRulesPerRequest :: int

text \<open>
  \<^verbatim>\<open>EvaluateRulesQuery.Execute\<close>: \<open>getActiveRules\<close> is the \<^verbatim>\<open>GetActiveRulesExecutor\<close>,
  \<open>ctxErr\<close> the state of the context at entry.
\<close>

definition EvaluateRules_Execute ::
  "'p ExprEval \<Rightarrow> (Scope \<Rightarrow> goerr + 'p Rule option list) \<Rightarrow> EvaluationConfig \<Rightarrow> goerr option \<Rightarrow> (nat \<Rightarrow> goerr option)
   \<Rightarrow> ValidationRequest option \<Rightarrow> goerr + EvaluationResult" where
  "EvaluateRules_Execute ee getActiveRules config ctxErr ctx req =
     (case ctxErr of Some e \<Rightarrow> Inl e
      | None \<Rightarrow>
        (case req of None \<Rightarrow> Inl ErrNilValidationRequest
         | Some r \<Rightarrow>
           (case getActiveRules (ToTransactionScope r) of
              Inl e \<Rightarrow> Inl (Wrapped ''failed to load rules'' e)
            | Inr rules \<Rightarrow>
              (let truncated = (0 < cfg_MaxRulesPerRequest config \<and> cfg_MaxRulesPerRequest config < int (length rules));
                   kept = (if truncated then take (nat (cfg_MaxRulesPerRequest config)) rules else rules)
               in case EvaluateAll (RuleEvaluator_Evaluate ee) ctx kept (Some r) of
                    Inl e \<Rightarrow> Inl (Wrapped ''failed to evaluate rules'' e)
                  | Inr c \<Rightarrow>
                    (case MakeDecision (ec_Deny c) (ec_Allow c) (ec_Review c) (ec_Evaluated c)
                            (cfg_DefaultDecisionWhenNoMatch config) of
                       Inl e \<Rightarrow> Inl (Wrapped ''failed to make decision'' e)
                     | Inr result \<Rightarrow> Inr (WithTruncationInfo result (length rules) truncated))))))"

section \<open>Lifecycle of rules\<close>

definition rule_transitions :: "RuleStatus \<Rightarrow> RuleStatus list" where
  "rule_transitions s = (case validTransitions s of None \<Rightarrow> [] | Some ts \<Rightarrow> ts)"

lemma CanTransitionTo_iff: "CanTransitionTo s t \<longleftrightarrow> t \<in> set (rule_transitions s)"
  by (simp add: CanTransitionTo_def rule_transitions_def split: option.split)

lemma stamp_status_sel [simp]:
  "r_Status (stamp_status s t r) = r_Status r"
  "RuleStatus_IsValid s \<Longrightarrow> r_DeletedAt (stamp_status s t r) = (if s = RuleStatusDeleted then Some t else None)"
  by (cases s; simp add: stamp_status_def RuleStatus_IsValid_def)+

lemma Rule_SetStatus_cases:
  obtains (unchanged) "fst (Rule_SetStatus r s t) = r" "snd (Rule_SetStatus r s t) \<noteq> None \<or> r_Status r = s"
  | (changed) "RuleStatus_IsValid s" "r_Status r \<noteq> s" "s \<in> set (rule_transitions (r_Status r))"
    "Rule_SetStatus r s t = (stamp_status s t (r\<lparr>r_Status := s, r_UpdatedAt := t\<rparr>), None)"
proof (cases "RuleStatus_IsValid s \<and> r_Status r \<noteq> s \<and> CanTransitionTo (r_Status r) s")
  case True
  then show ?thesis by (intro changed) (simp_all add: Rule_SetStatus_def CanTransitionTo_iff)
next
  case False
  then show ?thesis by (intro unchanged) (auto simp: Rule_SetStatus_def)
qed

interpretation rules: lifecycle Rule_SetStatus r_Status r_DeletedAt rule_transitions RuleStatusDeleted
proof
  fix x :: "'a Rule" and s t
  show "snd (Rule_SetStatus x s t) \<noteq> None \<Longrightarrow> fst (Rule_SetStatus x s t) = x"
    by (rule Rule_SetStatus_cases [of x s t]) simp_all
  show "r_Status x = s \<Longrightarrow> fst (Rule_SetStatus x s t) = x"
    by (rule Rule_SetStatus_cases [of x s t]) simp_all
  show "snd (Rule_SetStatus x s t) = None \<Longrightarrow> r_Status (fst (Rule_SetStatus x s t)) = s"
    by (rule Rule_SetStatus_cases [of x s t]) simp_all
  show "snd (Rule_SetStatus x s t) = None \<Longrightarrow> r_Status x \<noteq> s \<Longrightarrow> s \<in> set (rule_transitions (r_Status x))"
    by (rule Rule_SetStatus_cases [of x s t]) simp_all
  show "snd (Rule_SetStatus x s t) = None \<Longrightarrow> r_Status x \<noteq> s \<Longrightarrow>
      r_DeletedAt (fst (Rule_SetStatus x s t)) = (if s = RuleStatusDeleted then Some t else None)"
    by (rule Rule_SetStatus_cases [of x s t]) simp_all
qed (simp add: rule_transitions_def)

definition apply_rule_requests :: "'p Rule \<Rightarrow> (RuleStatus \<times> time) list \<Rightarrow> 'p Rule" where
  "apply_rule_requests r requests = fold (\<lambda>(s, t) r. fst (Rule_SetStatus r s t)) requests r"

lemma apply_rule_requests_run: "apply_rule_requests r requests = rules.run r requests"
  unfolding apply_rule_requests_def by (induction requests arbitrary: r) auto

text \<open>
  Status requests on a rule, any number of them: the deletion time is recorded exactly while
  the rule is deleted, a deleted rule is never changed again, an active rule is not deleted by
  one request, and the status moves along the table of transitions.
\<close>

theorem rule_lifecycle:
  fixes r :: "'p Rule"
  assumes "r_DeletedAt r \<noteq> None \<longleftrightarrow> r_Status r = RuleStatusDeleted"
  shows "let r' = apply_rule_requests r requests in
    (r_DeletedAt r' \<noteq> None \<longleftrightarrow> r_Status r' = RuleStatusDeleted) \<and>
    (r_Status r = RuleStatusDeleted \<longrightarrow> r' = r) \<and>
    (r_Status r' = RuleStatusActive \<longrightarrow> r_Status (fst (Rule_SetStatus r' s t)) \<noteq> RuleStatusDeleted) \<and>
    (r_Status r, r_Status r') \<in> {(a, b). CanTransitionTo a b}\<^sup>*"
proof -
  have "r_Status x = RuleStatusActive \<longrightarrow> r_Status (fst (Rule_SetStatus x s t)) \<noteq> RuleStatusDeleted" for x :: "'p Rule"
    using rules.not_deleted_directly [of x s t] by (simp add: rule_transitions_def)
  then show ?thesis
    using rules.run_recorded [of r requests] rules.run_deleted [of r requests] rules.run_path [of r requests] assms
    unfolding Let_def apply_rule_requests_run rules.deletion_recorded_def CanTransitionTo_iff by blast
qed

section \<open>What the evaluation collects\<close>

definition non_nil :: "'a option list \<Rightarrow> 'a list" where
  "non_nil xs = List.map_filter (\<lambda>x. x) xs"

lemma non_nil_simps [simp]:
  "non_nil [] = []" "non_nil (None # xs) = non_nil xs" "non_nil (Some x # xs) = x # non_nil xs"
  by (simp_all add: non_nil_def map_filter_simps)

definition matched_ids :: "('p Rule \<Rightarrow> goerr + bool) \<Rightarrow> Decision \<Rightarrow> 'p Rule list \<Rightarrow> uuid list" where
  "matched_ids ev d rs = map r_ID (filter (\<lambda>r. ev r = Inr True \<and> r_Action r = d) rs)"

lemma evaluate_loop_result:
  assumes "evaluate_loop eval ctx req n rs c = Inr c'"
  shows "c' = \<lparr>ec_Deny = ec_Deny c @ matched_ids (\<lambda>r. eval r req) DecisionDeny (non_nil rs),
               ec_Allow = ec_Allow c @ matched_ids (\<lambda>r. eval r req) DecisionAllow (non_nil rs),
               ec_Review = ec_Review c @ matched_ids (\<lambda>r. eval r req) DecisionReview (non_nil rs),
               ec_Evaluated = ec_Evaluated c @ map r_ID (non_nil rs)\<rparr>"
  using assms
proof (induction eval ctx req n rs c rule: evaluate_loop.induct)
  case (3 eval ctx req n rule rs c)
  then obtain matched where ctx: "ctx n = None" and ev: "eval rule req = Inr matched"
    by (auto split: option.splits sum.splits)
  show ?case
  proof (cases matched)
    case True
    then show ?thesis using 3 ctx ev
      by (cases "r_Action rule") (simp_all add: Let_def matched_ids_def collect_def)
  next
    case False
    then show ?thesis using 3 ctx ev by (simp add: Let_def matched_ids_def)
  qed
qed (simp_all add: matched_ids_def)

lemma evaluate_loop_total:
  assumes "\<And>n. ctx n = None" "\<And>r. Some r \<in> set rs \<Longrightarrow> \<exists>b. eval r req = Inr b"
  shows "\<exists>c'. evaluate_loop eval ctx req n rs c = Inr c'"
  using assms(2)
proof (induction rs arbitrary: n c)
  case (Cons r rs)
  show ?case
  proof (cases r)
    case None
    then show ?thesis using Cons by simp
  next
    case (Some rule)
    then obtain b where "eval rule req = Inr b" using Cons.prems by auto
    then show ?thesis using Cons.IH Cons.prems Some by (simp add: assms(1) Let_def)
  qed
qed simp

lemma EvaluateAll_result:
  assumes "EvaluateAll eval ctx rs (Some req) = Inr c"
  shows "ec_Deny c = matched_ids (\<lambda>r. eval r req) DecisionDeny (non_nil rs)"
    "ec_Allow c = matched_ids (\<lambda>r. eval r req) DecisionAllow (non_nil rs)"
    "ec_Review c = matched_ids (\<lambda>r. eval r req) DecisionReview (non_nil rs)"
    "ec_Evaluated c = map r_ID (non_nil rs)"
  using evaluate_loop_result [of eval ctx req 0 rs empty_collector c] assms
  by (simp_all add: EvaluateAll_def empty_collector_def)

lemma MakeDecision_result:
  assumes "MakeDecision deny allow review evaluated def = Inr res"
  shows "er_Decision res =
      (if deny \<noteq> [] then DecisionDeny else if review \<noteq> [] then DecisionReview
       else if allow \<noteq> [] then DecisionAllow else def)"
    "er_MatchedRuleIDs res = deny @ review @ allow" "er_EvaluatedRuleIDs res = evaluated"
  using assms
  by (auto simp: MakeDecision_def Let_def NewEvaluationResult_def NewNoMatchResult_def Decision_IsValid_def
      split: if_splits)

lemma MakeDecision_total: "Decision_IsValid def \<Longrightarrow> \<exists>res. MakeDecision deny allow review evaluated def = Inr res"
  by (auto simp: MakeDecision_def Let_def NewEvaluationResult_def NewNoMatchResult_def Decision_IsValid_def)

lemma matched_ids_Nil: "matched_ids ev d rs = [] \<longleftrightarrow> \<not> (\<exists>r \<in> set rs. ev r = Inr True \<and> r_Action r = d)"
  by (auto simp: matched_ids_def filter_empty_conv)

lemma matched_in_scope:
  "RuleEvaluator_Evaluate ee r req = Inr True \<Longrightarrow> RuleScopesMatch (r_Scopes r) (Some (ToTransactionScope req))"
  by (simp add: RuleEvaluator_Evaluate_def split: if_splits)


section \<open>The decision\<close>

definition kept_rules :: "EvaluationConfig \<Rightarrow> 'p Rule option list \<Rightarrow> 'p Rule list" where
  "kept_rules config loaded =
     non_nil (if 0 < cfg_MaxRulesPerRequest config \<and> cfg_MaxRulesPerRequest config < int (length loaded)
              then take (nat (cfg_MaxRulesPerRequest config)) loaded else loaded)"

definition some_match :: "'p ExprEval \<Rightarrow> ValidationRequest \<Rightarrow> 'p Rule list \<Rightarrow> Decision \<Rightarrow> bool" where
  "some_match ee req rs d = list_ex (\<lambda>r. RuleEvaluator_Evaluate ee r req = Inr True \<and> r_Action r = d) rs"

lemma some_match_iff: "some_match ee req rs d \<longleftrightarrow> matched_ids (\<lambda>r. RuleEvaluator_Evaluate ee r req) d rs \<noteq> []"
  by (simp add: some_match_def matched_ids_Nil list_ex_iff)

lemma EvaluateRules_Execute_Inr:
  assumes "EvaluateRules_Execute ee get config None ctx (Some req) = Inr res" "get (ToTransactionScope req) = Inr loaded"
  obtains c res' where "EvaluateAll (RuleEvaluator_Evaluate ee) ctx
      (if 0 < cfg_MaxRulesPerRequest config \<and> cfg_MaxRulesPerRequest config < int (length loaded)
       then take (nat (cfg_MaxRulesPerRequest config)) loaded else loaded) (Some req) = Inr c"
    "MakeDecision (ec_Deny c) (ec_Allow c) (ec_Review c) (ec_Evaluated c) (cfg_DefaultDecisionWhenNoMatch config) = Inr res'"
    "res = WithTruncationInfo res' (length loaded)
       (0 < cfg_MaxRulesPerRequest config \<and> cfg_MaxRulesPerRequest config < int (length loaded))"
  using assms by (auto simp: EvaluateRules_Execute_def Let_def split: sum.splits)

text \<open>
  C39. The decision on a request follows the precedence DENY, REVIEW, ALLOW, default over all the
  rules that were kept after truncation: it is DENY exactly when some kept rule matches and
  denies, and so on. Every kept rule is evaluated, in order, and a rule is reported as matched
  only if its scopes match the transaction.
\<close>

theorem EvaluateRules_precedence:
  assumes "EvaluateRules_Execute ee get config None ctx (Some req) = Inr res"
    and "get (ToTransactionScope req) = Inr loaded"
  shows "er_Decision res =
      (if some_match ee req (kept_rules config loaded) DecisionDeny then DecisionDeny
       else if some_match ee req (kept_rules config loaded) DecisionReview then DecisionReview
       else if some_match ee req (kept_rules config loaded) DecisionAllow then DecisionAllow
       else cfg_DefaultDecisionWhenNoMatch config) \<and>
    er_EvaluatedRuleIDs res = map r_ID (kept_rules config loaded) \<and>
    set (er_MatchedRuleIDs res) \<subseteq>
      {r_ID r | r. r \<in> set (kept_rules config loaded) \<and> RuleScopesMatch (r_Scopes r) (Some (ToTransactionScope req))}"
proof -
  obtain c res' where c: "EvaluateAll (RuleEvaluator_Evaluate ee) ctx
      (if 0 < cfg_MaxRulesPerRequest config \<and> cfg_MaxRulesPerRequest config < int (length loaded)
       then take (nat (cfg_MaxRulesPerRequest config)) loaded else loaded) (Some req) = Inr c"
    and d: "MakeDecision (ec_Deny c) (ec_Allow c) (ec_Review c) (ec_Evaluated c) (cfg_DefaultDecisionWhenNoMatch config) = Inr res'"
    and r: "res = WithTruncationInfo res' (length loaded)
       (0 < cfg_MaxRulesPerRequest config \<and> cfg_MaxRulesPerRequest config < int (length loaded))"
    using EvaluateRules_Execute_Inr [OF assms] by blast
  note ids = EvaluateAll_result [OF c, folded kept_rules_def]
  note dec = MakeDecision_result [OF d, unfolded ids]
  have "set (matched_ids (\<lambda>r. RuleEvaluator_Evaluate ee r req) a rs)
      \<subseteq> {r_ID r | r. r \<in> set rs \<and> RuleScopesMatch (r_Scopes r) (Some (ToTransactionScope req))}" for a rs
    by (auto simp: matched_ids_def dest: matched_in_scope)
  then show ?thesis
    unfolding some_match_iff r WithTruncationInfo_def using dec by simp
qed

text \<open>
  The evaluation returns a result, and not an error, whenever the rules can be loaded, the
  context is not cancelled, every kept rule evaluates without an error and the configured default
  decision is valid.
\<close>

theorem EvaluateRules_returns:
  assumes "get (ToTransactionScope req) = Inr loaded" "\<And>n. ctx n = None"
    and "Decision_IsValid (cfg_DefaultDecisionWhenNoMatch config)"
    and "\<And>r. r \<in> set (kept_rules config loaded) \<Longrightarrow> \<exists>b. RuleEvaluator_Evaluate ee r req = Inr b"
  shows "\<exists>res. EvaluateRules_Execute ee get config None ctx (Some req) = Inr res"
proof -
  let ?rs = "if 0 < cfg_MaxRulesPerRequest config \<and> cfg_MaxRulesPerRequest config < int (length loaded)
       then take (nat (cfg_MaxRulesPerRequest config)) loaded else loaded"
  have nn: "Some r \<in> set xs \<Longrightarrow> r \<in> set (non_nil xs)" for r :: "'p Rule" and xs
    by (induction xs rule: list.induct) (auto simp: non_nil_def map_filter_def)
  have "\<exists>c. evaluate_loop (RuleEvaluator_Evaluate ee) ctx req 0 ?rs empty_collector = Inr c"
    by (intro evaluate_loop_total assms(2) assms(4) [unfolded kept_rules_def] nn)
  then obtain c where c: "EvaluateAll (RuleEvaluator_Evaluate ee) ctx ?rs (Some req) = Inr c"
    by (auto simp: EvaluateAll_def)
  obtain res where "MakeDecision (ec_Deny c) (ec_Allow c) (ec_Review c) (ec_Evaluated c)
      (cfg_DefaultDecisionWhenNoMatch config) = Inr res" using MakeDecision_total [OF assms(3)] by blast
  with c show ?thesis by (simp add: EvaluateRules_Execute_def assms(1) Let_def)
qed

definition always_match :: "unit ExprEval" where
  "always_match = \<lparr>ee_Compile = (\<lambda>e. Inr ()), ee_Evaluate = (\<lambda>p req. Inr True), ee_IsMissingKeyError = (\<lambda>e. False)\<rparr>"

definition sample_rule :: "uuid \<Rightarrow> Decision \<Rightarrow> unit Rule" where
  "sample_rule i d =
     \<lparr>r_ID = i, r_Name = ''r'', r_Description = None, r_Expression = ''true'', r_Action = d, r_Scopes = [],
      r_Status = RuleStatusActive, r_CreatedAt = 0, r_UpdatedAt = 0, r_ActivatedAt = None, r_DeactivatedAt = None,
      r_DeletedAt = None, r_CompiledProgram = None\<rparr>"

definition sample_loaded :: "unit Rule option list" where
  "sample_loaded = [Some (sample_rule 1 DecisionAllow), None, Some (sample_rule 2 DecisionDeny), Some (sample_rule 3 DecisionReview)]"

definition sample_config :: EvaluationConfig where
  "sample_config = \<lparr>cfg_DefaultDecisionWhenNoMatch = DecisionAllow, cfg_MaxRulesPerRequest = 3\<rparr>"

lemma sample_rule_evaluates: "RuleEvaluator_Evaluate always_match (sample_rule i d) req = Inr True"
  by (simp add: RuleEvaluator_Evaluate_def RuleScopesMatch_def rule_program_def sample_rule_def always_match_def)

lemma sample_kept: "kept_rules sample_config sample_loaded = [sample_rule 1 DecisionAllow, sample_rule 2 DecisionDeny]"
  by (simp add: kept_rules_def sample_config_def sample_loaded_def)

theorem EvaluateRules_returns_witness:
  "\<exists>res. EvaluateRules_Execute always_match (\<lambda>s. Inr sample_loaded) sample_config None (\<lambda>n. None) (Some sample_request) = Inr res"
proof (rule EvaluateRules_returns)
  show "\<exists>b. RuleEvaluator_Evaluate always_match r sample_request = Inr b"
    if "r \<in> set (kept_rules sample_config sample_loaded)" for r
    using that by (auto simp: sample_kept sample_rule_evaluates)
qed (simp_all add: sample_config_def Decision_IsValid_def)

lemma sample_execute:
  "EvaluateRules_Execute always_match (\<lambda>s. Inr sample_loaded) sample_config None (\<lambda>n. None) (Some sample_request) =
     Inr \<lparr>er_Decision = DecisionDeny, er_MatchedRuleIDs = [2, 1], er_EvaluatedRuleIDs = [1, 2],
          er_Reason = ''Rule matched with DENY action'', er_TotalRulesLoaded = 4, er_Truncated = True\<rparr>"
  by (simp add: EvaluateRules_Execute_def sample_loaded_def sample_config_def EvaluateAll_def sample_rule_evaluates
      empty_collector_def collect_def MakeDecision_def NewEvaluationResult_def WithTruncationInfo_def
      Decision_IsValid_def Let_def) (simp add: sample_rule_def)

theorem EvaluateRules_precedence_witness:
  "some_match always_match sample_request (kept_rules sample_config sample_loaded) DecisionDeny \<and>
   {2, 1} \<subseteq> {r_ID r | r. r \<in> set (kept_rules sample_config sample_loaded)
                 \<and> RuleScopesMatch (r_Scopes r) (Some (ToTransactionScope sample_request))}"
proof -
  have "DecisionDeny \<noteq> cfg_DefaultDecisionWhenNoMatch sample_config" by (simp add: sample_config_def)
  with EvaluateRules_precedence [OF sample_execute refl] show ?thesis by (auto split: if_splits)
qed

theorem rule_lifecycle_witness:
  "let r' = apply_rule_requests (sample_rule 1 DecisionDeny) [(RuleStatusDeleted, 1), (RuleStatusInactive, 2)] in
    (r_DeletedAt r' \<noteq> None \<longleftrightarrow> r_Status r' = RuleStatusDeleted) \<and>
    (r_Status (sample_rule 1 DecisionDeny) = RuleStatusDeleted \<longrightarrow> r' = sample_rule 1 DecisionDeny) \<and>
    (r_Status r' = RuleStatusActive \<longrightarrow> r_Status (fst (Rule_SetStatus r' RuleStatusDeleted 3)) \<noteq> RuleStatusDeleted) \<and>
    (r_Status (sample_rule 1 DecisionDeny), r_Status r') \<in> {(a, b). CanTransitionTo a b}\<^sup>*"
  by (rule rule_lifecycle) (simp add: sample_rule_def)

end
