(* ===== verification/LedgerTransaction.thy ===== *)
theory LedgerTransaction
  imports GoStrings GoTime GoErrors
begin

text \<open>
  The transaction core of the ledger: \<^verbatim>\<open>pkg/mtransaction/transaction.go\<close>, \<^verbatim>\<open>validations.go\<close>
  and the builders of \<^verbatim>\<open>input.go\<close>. A transaction names sources and destinations by amount,
  share or remainder; \<open>ValidateSendSourceAndDistribute\<close> resolves them and checks that both
  sides add up to the value sent, and \<open>OperateBalances\<close> applies a resolved amount to a balance.

  The sources use the status and operation constants of \<^verbatim>\<open>lib-commons\<close> and of
  \<^verbatim>\<open>pkg/constant\<close> interchangeably; the values here are those of \<^verbatim>\<open>pkg/constant\<close>. Two helpers
  of \<^verbatim>\<open>lib-commons\<close> are parameters (the record \<open>commons\<close>): \<^verbatim>\<open>IsNilOrEmpty\<close> of a string and
  \<^verbatim>\<open>Contains\<close>. The goroutines and channels of \<^verbatim>\<open>ValidateSendSourceAndDistribute\<close> hand over one
  value each and are joined before it is used: the calls are sequential here. Slices are
  shared with the caller, so a function that writes to its entries returns the new entries.
\<close>

section \<open>Data\<close>

definition CREATED :: string where [simp]: "CREATED = ''CREATED''"
definition APPROVED :: string where [simp]: "APPROVED = ''APPROVED''"
definition PENDING :: string where [simp]: "PENDING = ''PENDING''"
definition CANCELED :: string where [simp]: "CANCELED = ''CANCELED''"
definition DEBIT :: string where [simp]: "DEBIT = ''DEBIT''"
definition CREDIT :: string where [simp]: "CREDIT = ''CREDIT''"
definition ONHOLD :: string where [simp]: "ONHOLD = ''ON_HOLD''"
definition RELEASE :: string where [simp]: "RELEASE = ''RELEASE''"
definition DirectionDebit :: string where [simp]: "DirectionDebit = ''debit''"
definition DirectionCredit :: string where [simp]: "DirectionCredit = ''credit''"
definition ActionDirect :: string where [simp]: "ActionDirect = ''direct''"
definition ActionHold :: string where [simp]: "ActionHold = ''hold''"
definition ActionCommit :: string where [simp]: "ActionCommit = ''commit''"
definition ActionCancel :: string where [simp]: "ActionCancel = ''cancel''"
definition DefaultBalanceKey :: string where "DefaultBalanceKey = ''default''"
definition DefaultExternalAccountAliasPrefix :: string where "DefaultExternalAccountAliasPrefix = ''@external/''"
definition ExternalAccountType :: string where "ExternalAccountType = ''external''"

record commons =
  IsNilOrEmpty :: "string \<Rightarrow> bool"
  Contains :: "string list \<Rightarrow> string \<Rightarrow> bool"

record Balance =
  bal_ID :: string
  bal_OrganizationID :: string
  bal_LedgerID :: string
  bal_AccountID :: string
  bal_Alias :: string
  bal_Key :: string
  bal_AssetCode :: string
  bal_Available :: decimal
  bal_OnHold :: decimal
  bal_Version :: int
  bal_AccountType :: string
  bal_AllowSending :: bool
  bal_AllowReceiving :: bool
  bal_Direction :: string
  bal_OverdraftUsed :: decimal
  bal_AllowOverdraft :: bool
  bal_OverdraftLimitEnabled :: bool
  bal_OverdraftLimit :: decimal
  bal_BalanceScope :: string
  bal_CreatedAt :: time
  bal_UpdatedAt :: time
  bal_DeletedAt :: "time option"
  bal_Metadata :: metadata

definition Balance_zero :: Balance where
  "Balance_zero =
     \<lparr>bal_ID = '''', bal_OrganizationID = '''', bal_LedgerID = '''', bal_AccountID = '''', bal_Alias = '''', bal_Key = '''',
      bal_AssetCode = '''', bal_Available = 0, bal_OnHold = 0, bal_Version = 0, bal_AccountType = '''',
      bal_AllowSending = False, bal_AllowReceiving = False, bal_Direction = '''', bal_OverdraftUsed = 0,
      bal_AllowOverdraft = False, bal_OverdraftLimitEnabled = False, bal_OverdraftLimit = 0, bal_BalanceScope = '''',
      bal_CreatedAt = 0, bal_UpdatedAt = 0, bal_DeletedAt = None, bal_Metadata = None\<rparr>"

record Amount =
  am_Asset :: string
  am_Value :: decimal
  am_Operation :: string
  am_TransactionType :: string
  am_Direction :: string
  am_RouteValidationEnabled :: bool
  am_OverdraftAmount :: decimal

definition Amount_zero :: Amount where
  "Amount_zero =
     \<lparr>am_Asset = '''', am_Value = 0, am_Operation = '''', am_TransactionType = '''', am_Direction = '''',
      am_RouteValidationEnabled = False, am_OverdraftAmount = 0\<rparr>"

record Responses =
  rsp_Total :: decimal
  rsp_Asset :: string
  rsp_From :: "(string, Amount) gomap"
  rsp_To :: "(string, Amount) gomap"
  rsp_Sources :: "string list"
  rsp_Destinations :: "string list"
  rsp_Aliases :: "string list"
  rsp_Pending :: bool
  rsp_TransactionRoute :: string
  rsp_TransactionRouteID :: "string option"
  rsp_OperationRoutesFrom :: "(string, string) gomap"
  rsp_OperationRoutesTo :: "(string, string) gomap"

record Share =
  sh_Percentage :: int
  sh_PercentageOfPercentage :: int

record Rate =
  rt_From :: string
  rt_To :: string
  rt_Value :: decimal
  rt_ExternalID :: string

definition Rate_IsEmpty :: "Rate \<Rightarrow> bool" where
  "Rate_IsEmpty r = (rt_ExternalID r = '''' \<and> rt_From r = '''' \<and> rt_To r = '''' \<and> rt_Value r = 0)"

record FromTo =
  ft_AccountAlias :: string
  ft_BalanceKey :: string
  ft_Amount :: "Amount option"
  ft_Share :: "Share option"
  ft_Remaining :: string
  ft_Rate :: "Rate option"
  ft_Description :: string
  ft_ChartOfAccounts :: string
  ft_Metadata :: metadata
  ft_IsFrom :: bool
  ft_Route :: string
  ft_RouteID :: "string option"

definition FromTo_zero :: FromTo where
  "FromTo_zero =
     \<lparr>ft_AccountAlias = '''', ft_BalanceKey = '''', ft_Amount = None, ft_Share = None, ft_Remaining = '''', ft_Rate = None,
      ft_Description = '''', ft_ChartOfAccounts = '''', ft_Metadata = None, ft_IsFrom = False, ft_Route = '''', ft_RouteID = None\<rparr>"

record Source =
  src_Remaining :: string
  src_From :: "FromTo list"

record Distribute =
  dst_Remaining :: string
  dst_To :: "FromTo list"

record Send =
  snd_Asset :: string
  snd_Value :: decimal
  snd_Source :: Source
  snd_Distribute :: Distribute

record TransactionSkip =
  skip_Fees :: bool
  skip_Tracer :: bool

record Transaction =
  tx_ChartOfAccountsGroupName :: string
  tx_Description :: string
  tx_Code :: string
  tx_Pending :: bool
  tx_Metadata :: metadata
  tx_Route :: string
  tx_RouteID :: "string option"
  tx_TransactionDate :: "time option"
  tx_Send :: Send
  tx_Skip :: "TransactionSkip option"
  tx_OperationTypeOverride :: string

definition InitialStatus :: "Transaction \<Rightarrow> string" where
  "InitialStatus t = (if tx_Pending t then PENDING else CREATED)"

definition Transaction_IsEmpty :: "Transaction \<Rightarrow> bool" where
  "Transaction_IsEmpty t = (snd_Asset (tx_Send t) = '''' \<and> snd_Value (tx_Send t) = 0)"

section \<open>Aliases\<close>

definition SplitAlias :: "string \<Rightarrow> string" where
  "SplitAlias alias = (if contains alias ''#'' then go_split ''#'' alias ! 1 else alias)"

definition FromTo_SplitAlias :: "FromTo \<Rightarrow> string" where
  "FromTo_SplitAlias ft =
     (if contains (ft_AccountAlias ft) ''#'' then go_split ''#'' (ft_AccountAlias ft) ! 1 else ft_AccountAlias ft)"

definition SplitAliasWithKey :: "string \<Rightarrow> string" where
  "SplitAliasWithKey alias = (case go_index ''#'' alias of Some idx \<Rightarrow> drop (idx + 1) alias | None \<Rightarrow> alias)"

definition FromTo_ConcatAlias :: "FromTo \<Rightarrow> nat \<Rightarrow> string" where
  "FromTo_ConcatAlias ft i =
     (let balanceKey = (if ft_BalanceKey ft = '''' then DefaultBalanceKey else ft_BalanceKey ft)
      in Itoa (int i) @ ''#'' @ ft_AccountAlias ft @ ''#'' @ balanceKey)"

definition AliasKey :: "string \<Rightarrow> string \<Rightarrow> string" where
  "AliasKey alias balanceKey =
     (let balanceKey = (if balanceKey = '''' then ''default'' else balanceKey) in alias @ ''#'' @ balanceKey)"

definition ConcatAlias :: "nat \<Rightarrow> string \<Rightarrow> string" where
  "ConcatAlias i alias = Itoa (int i) @ ''#'' @ alias"

fun concated_scan :: "nat \<Rightarrow> string \<Rightarrow> bool" where
  "concated_scan i [] = False"
| "concated_scan i (c # cs) =
     (if c = CHR ''#'' then 0 < i
      else if (of_char c :: nat) < 48 \<or> 57 < (of_char c :: nat) then False
      else concated_scan (Suc i) cs)"

definition isConcatedAlias :: "string \<Rightarrow> bool" where
  "isConcatedAlias alias = (if length alias < 2 then False else concated_scan 0 alias)"

fun concat_from :: "nat \<Rightarrow> FromTo list \<Rightarrow> FromTo list" where
  "concat_from i [] = []"
| "concat_from i (e # es) =
     (if \<not> isConcatedAlias (ft_AccountAlias e) then e\<lparr>ft_AccountAlias := FromTo_ConcatAlias e i\<rparr> else e) # concat_from (Suc i) es"

definition MutateConcatAliases :: "FromTo list \<Rightarrow> FromTo list" where
  "MutateConcatAliases entries = concat_from 0 entries"

definition MutateSplitAliases :: "FromTo list \<Rightarrow> FromTo list" where
  "MutateSplitAliases entries =
     map (\<lambda>e. if isConcatedAlias (ft_AccountAlias e) then e\<lparr>ft_AccountAlias := FromTo_SplitAlias e\<rparr> else e) entries"

definition ApplyDefaultBalanceKeys :: "FromTo list \<Rightarrow> FromTo list" where
  "ApplyDefaultBalanceKeys entries =
     map (\<lambda>e. if ft_BalanceKey e = '''' then e\<lparr>ft_BalanceKey := DefaultBalanceKey\<rparr> else e) entries"

section \<open>Checks of a transaction\<close>

text \<open>\<open>now\<close> is the value of \<^verbatim>\<open>time.Now()\<close>.\<close>

definition CheckTransactionDate :: "time \<Rightarrow> Transaction \<Rightarrow> string \<Rightarrow> goerr + time" where
  "CheckTransactionDate now transactionInput transactionStatus =
     (case tx_TransactionDate transactionInput of
        None \<Rightarrow> Inr now
      | Some d \<Rightarrow>
        if IsZero d then Inr now
        else if now < d then Inl (Business ErrInvalidFutureTransactionDate)
        else if transactionStatus = PENDING then Inl (Business ErrInvalidPendingFutureTransactionDate)
        else Inr d)"

fun validateFromBalances :: "Balance \<Rightarrow> (string, Amount) gomap \<Rightarrow> string \<Rightarrow> bool \<Rightarrow> goerr option" where
  "validateFromBalances balance [] asset pending = None"
| "validateFromBalances balance ((key, a) # from) asset pending =
     (let balanceAliasKey = AliasKey (bal_Alias balance) (bal_Key balance) in
      if key = bal_ID balance \<or> SplitAliasWithKey key = balanceAliasKey then
        (if bal_AssetCode balance \<noteq> asset then Some (Business ErrAssetCodeNotFound)
         else if \<not> bal_AllowSending balance then Some (Business ErrAccountStatusTransactionRestriction)
         else if pending \<and> bal_AccountType balance = ExternalAccountType then Some (Business ErrOnHoldExternalAccount)
         else validateFromBalances balance from asset pending)
      else validateFromBalances balance from asset pending)"

fun validateToBalances :: "Balance \<Rightarrow> (string, Amount) gomap \<Rightarrow> string \<Rightarrow> goerr option" where
  "validateToBalances balance [] asset = None"
| "validateToBalances balance ((key, a) # to) asset =
     (let balanceAliasKey = AliasKey (bal_Alias balance) (bal_Key balance) in
      if key = bal_ID balance \<or> SplitAliasWithKey key = balanceAliasKey then
        (if bal_AssetCode balance \<noteq> asset then Some (Business ErrAssetCodeNotFound)
         else if \<not> bal_AllowReceiving balance then Some (Business ErrAccountStatusTransactionRestriction)
         else validateToBalances balance to asset)
      else validateToBalances balance to asset)"

fun validate_each_balance :: "Responses \<Rightarrow> Balance list \<Rightarrow> goerr option" where
  "validate_each_balance validate [] = None"
| "validate_each_balance validate (balance # balances) =
     (case validateFromBalances balance (rsp_From validate) (rsp_Asset validate) (rsp_Pending validate) of
        Some e \<Rightarrow> Some e
      | None \<Rightarrow>
        (case validateToBalances balance (rsp_To validate) (rsp_Asset validate) of
           Some e \<Rightarrow> Some e
         | None \<Rightarrow> validate_each_balance validate balances))"

definition ValidateBalancesRules :: "Responses \<Rightarrow> Balance list \<Rightarrow> goerr option" where
  "ValidateBalancesRules validate balances =
     (if length balances \<noteq> length (rsp_From validate) + length (rsp_To validate) then Some (Business ErrAccountIneligibility)
      else validate_each_balance validate balances)"

section \<open>Operations on a balance\<close>

type_synonym change = "decimal \<times> decimal \<times> bool"

definition applyPendingBalance :: "Amount \<Rightarrow> Balance \<Rightarrow> change" where
  "applyPendingBalance amount balance =
     (if am_Operation amount = DEBIT \<and> am_RouteValidationEnabled amount
      then (bal_Available balance - am_Value amount, bal_OnHold balance, True)
      else if am_Operation amount = ONHOLD \<and> am_RouteValidationEnabled amount
      then (bal_Available balance, bal_OnHold balance + am_Value amount, True)
      else if am_Operation amount = ONHOLD
      then (bal_Available balance - am_Value amount, bal_OnHold balance + am_Value amount, True)
      else (bal_Available balance, bal_OnHold balance, False))"

definition applyCanceledBalance :: "Amount \<Rightarrow> Balance \<Rightarrow> change" where
  "applyCanceledBalance amount balance =
     (if am_Operation amount = RELEASE \<and> am_RouteValidationEnabled amount
      then (bal_Available balance, bal_OnHold balance - am_Value amount, True)
      else if am_Operation amount = RELEASE
      then (bal_Available balance + am_Value amount, bal_OnHold balance - am_Value amount, True)
      else if am_Operation amount = CREDIT \<and> am_RouteValidationEnabled amount
      then (bal_Available balance + am_Value amount, bal_OnHold balance, True)
      else (bal_Available balance, bal_OnHold balance, False))"

definition applyApprovedBalance :: "Amount \<Rightarrow> Balance \<Rightarrow> change" where
  "applyApprovedBalance amount balance =
     (if am_Operation amount = DEBIT then (bal_Available balance, bal_OnHold balance - am_Value amount, True)
      else if am_Operation amount = ONHOLD then (bal_Available balance, bal_OnHold balance - am_Value amount, True)
      else if am_Operation amount = CREDIT then (bal_Available balance + am_Value amount, bal_OnHold balance, True)
      else (bal_Available balance, bal_OnHold balance, False))"

definition applyCreatedBalance :: "Amount \<Rightarrow> Balance \<Rightarrow> change" where
  "applyCreatedBalance amount balance =
     (if am_Operation amount = DEBIT then (bal_Available balance - am_Value amount, bal_OnHold balance, True)
      else if am_Operation amount = CREDIT then (bal_Available balance + am_Value amount, bal_OnHold balance, True)
      else (bal_Available balance, bal_OnHold balance, False))"

definition applyBalanceChange :: "Amount \<Rightarrow> Balance \<Rightarrow> change" where
  "applyBalanceChange amount balance =
     (if am_TransactionType amount = PENDING then applyPendingBalance amount balance
      else if am_TransactionType amount = CANCELED then applyCanceledBalance amount balance
      else if am_TransactionType amount = APPROVED then applyApprovedBalance amount balance
      else if am_TransactionType amount = CREATED then applyCreatedBalance amount balance
      else (bal_Available balance, bal_OnHold balance, False))"

definition applyDebitDirectionBalance :: "Amount \<Rightarrow> Balance \<Rightarrow> change" where
  "applyDebitDirectionBalance amount balance =
     (if am_Operation amount = DEBIT then (bal_Available balance + am_Value amount, bal_OnHold balance, True)
      else if am_Operation amount = CREDIT then (bal_Available balance - am_Value amount, bal_OnHold balance, True)
      else applyBalanceChange amount balance)"

text \<open>The error of \<^verbatim>\<open>OperateBalances\<close> is nil on every path.\<close>

definition OperateBalances :: "Amount \<Rightarrow> Balance \<Rightarrow> goerr + Balance" where
  "OperateBalances amount balance =
     (case (if bal_Direction balance = DirectionDebit then applyDebitDirectionBalance amount balance
            else applyBalanceChange amount balance) of
        (available, onHold, matched) \<Rightarrow>
          if \<not> matched then Inr balance
          else Inr (Balance_zero\<lparr>bal_Available := available, bal_OnHold := onHold, bal_Version := bal_Version balance + 1\<rparr>))"

definition amount_at :: "(string, Amount) gomap \<Rightarrow> string \<Rightarrow> Amount" where
  "amount_at m k = (case map_of m k of None \<Rightarrow> Amount_zero | Some a \<Rightarrow> a)"

definition ValidateFromToOperation :: "FromTo \<Rightarrow> Responses \<Rightarrow> Balance \<Rightarrow> goerr + Amount \<times> Balance" where
  "ValidateFromToOperation ft validate balance =
     (let a = (if ft_IsFrom ft then amount_at (rsp_From validate) (ft_AccountAlias ft)
               else amount_at (rsp_To validate) (ft_AccountAlias ft))
      in case OperateBalances a balance of Inl e \<Rightarrow> Inl e | Inr ba \<Rightarrow> Inr (a, ba))"

definition IsDoubleEntrySource :: "Amount \<Rightarrow> bool" where
  "IsDoubleEntrySource amt =
     (if \<not> am_RouteValidationEnabled amt then False
      else if am_TransactionType amt = PENDING then am_Operation amt = ONHOLD
      else if am_TransactionType amt = CANCELED then am_Operation amt = RELEASE
      else False)"

definition SplitDoubleEntryOps :: "Amount \<Rightarrow> Amount \<times> Amount" where
  "SplitDoubleEntryOps amt =
     (if am_TransactionType amt = PENDING then
        (amt\<lparr>am_Operation := DEBIT, am_Direction := DirectionDebit\<rparr>, amt\<lparr>am_Operation := ONHOLD, am_Direction := DirectionCredit\<rparr>)
      else if am_TransactionType amt = CANCELED then
        (amt\<lparr>am_Operation := RELEASE, am_Direction := DirectionDebit\<rparr>, amt\<lparr>am_Operation := CREDIT, am_Direction := DirectionCredit\<rparr>)
      else (amt, amt))"

definition DetermineOperation :: "bool \<Rightarrow> bool \<Rightarrow> string \<Rightarrow> string \<times> string" where
  "DetermineOperation isPending isFrom transactionType =
     (if isPending \<and> transactionType = PENDING then
        (if isFrom then (ONHOLD, DirectionDebit) else (CREDIT, DirectionCredit))
      else if isPending \<and> isFrom \<and> transactionType = CANCELED then (RELEASE, DirectionCredit)
      else if isPending \<and> transactionType = APPROVED then
        (if isFrom then (DEBIT, DirectionDebit) else (CREDIT, DirectionCredit))
      else if \<not> isPending then (if isFrom then (DEBIT, DirectionDebit) else (CREDIT, DirectionCredit))
      else (CREDIT, DirectionCredit))"

definition PropagateRouteValidation :: "Responses \<Rightarrow> string \<Rightarrow> Responses" where
  "PropagateRouteValidation validate transactionStatus =
     (if transactionStatus \<noteq> PENDING \<and> transactionStatus \<noteq> CANCELED \<and> transactionStatus \<noteq> APPROVED then validate
      else validate\<lparr>rsp_From :=
             map (\<lambda>(key, amt).
                    (let amt = amt\<lparr>am_RouteValidationEnabled := True\<rparr>
                     in (key, if transactionStatus = APPROVED \<and> am_Operation amt = DEBIT then amt\<lparr>am_Operation := ONHOLD\<rparr> else amt)))
               (rsp_From validate)\<rparr>)"

definition StatusToAction :: "string \<Rightarrow> string" where
  "StatusToAction statusCode =
     (if statusCode = PENDING then ActionHold
      else if statusCode = APPROVED then ActionCommit
      else if statusCode = CANCELED then ActionCancel
      else ActionDirect)"

section \<open>Resolving the amounts\<close>

record Totals =
  tt_total :: decimal
  tt_remaining :: Amount
  tt_fmto :: "(string, Amount) gomap"
  tt_scdt :: "string list"
  tt_route :: "(string, string) gomap"

definition shareValue :: "extlib \<Rightarrow> decimal \<Rightarrow> Share \<Rightarrow> decimal" where
  "shareValue lib sendValue s =
     (let oneHundred = 100;
          percentage = of_int (sh_Percentage s);
          percentageOfPercentage =
            (if (of_int (sh_PercentageOfPercentage s) :: decimal) = 0 then oneHundred else of_int (sh_PercentageOfPercentage s));
          firstPart = dec_Div lib percentage oneHundred;
          secondPart = dec_Div lib percentageOfPercentage oneHundred
      in sendValue * firstPart * secondPart)"

definition resolved :: "string \<Rightarrow> decimal \<Rightarrow> string \<Rightarrow> string \<Rightarrow> string \<Rightarrow> Amount" where
  "resolved asset v operation transactionType direction =
     Amount_zero\<lparr>am_Asset := asset, am_Value := v, am_Operation := operation, am_TransactionType := transactionType,
       am_Direction := direction\<rparr>"

definition note_route :: "FromTo \<Rightarrow> Totals \<Rightarrow> Totals" where
  "note_route ft t =
     (case ft_RouteID ft of None \<Rightarrow> t | Some r \<Rightarrow> t\<lparr>tt_route := AList.update (ft_AccountAlias ft) r (tt_route t)\<rparr>)"

definition add_resolved :: "string \<Rightarrow> Amount \<Rightarrow> Totals \<Rightarrow> Totals" where
  "add_resolved alias a t =
     t\<lparr>tt_fmto := AList.update alias a (tt_fmto t), tt_total := tt_total t + am_Value a,
       tt_remaining := (tt_remaining t)\<lparr>am_Value := am_Value (tt_remaining t) - am_Value a\<rparr>\<rparr>"

definition add_remaining :: "string \<Rightarrow> string \<Rightarrow> string \<Rightarrow> Totals \<Rightarrow> Totals" where
  "add_remaining alias operation direction t =
     (let total = tt_total t + am_Value (tt_remaining t);
          remaining = (tt_remaining t)\<lparr>am_Operation := operation, am_Direction := direction\<rparr>
      in t\<lparr>tt_total := total, tt_remaining := remaining, tt_fmto := AList.update alias remaining (tt_fmto t)\<rparr>)"

definition total_entry :: "extlib \<Rightarrow> commons \<Rightarrow> Transaction \<Rightarrow> string \<Rightarrow> FromTo \<Rightarrow> Totals \<Rightarrow> Totals" where
  "total_entry lib cm transaction transactionType ft t0 =
     (let t1 = note_route ft t0;
          (operation, direction) = DetermineOperation (tx_Pending transaction) (ft_IsFrom ft) transactionType;
          t2 = (case ft_Share ft of
                  Some s \<Rightarrow>
                    if sh_Percentage s \<noteq> 0
                    then add_resolved (ft_AccountAlias ft)
                           (resolved (snd_Asset (tx_Send transaction)) (shareValue lib (snd_Value (tx_Send transaction)) s)
                              operation transactionType direction) t1
                    else t1
                | None \<Rightarrow> t1);
          t3 = (case ft_Amount ft of
                  Some a \<Rightarrow>
                    if 0 < am_Value a
                    then add_resolved (ft_AccountAlias ft) (resolved (am_Asset a) (am_Value a) operation transactionType direction) t2
                    else t2
                | None \<Rightarrow> t2);
          t4 = (if \<not> IsNilOrEmpty cm (ft_Remaining ft) then add_remaining (ft_AccountAlias ft) operation direction t3 else t3)
      in t4\<lparr>tt_scdt := tt_scdt t4 @ [AliasKey (FromTo_SplitAlias ft) (ft_BalanceKey ft)]\<rparr>)"

definition total_init :: "Transaction \<Rightarrow> string \<Rightarrow> Totals" where
  "total_init transaction transactionType =
     \<lparr>tt_total = 0,
      tt_remaining = Amount_zero\<lparr>am_Asset := snd_Asset (tx_Send transaction), am_Value := snd_Value (tx_Send transaction),
        am_TransactionType := transactionType\<rparr>,
      tt_fmto = [], tt_scdt = [], tt_route = []\<rparr>"

text \<open>
  The totals and the entries after the call. An entry that takes the remainder gets a pointer
  to the variable \<^verbatim>\<open>remaining\<close>, so it ends with the value of that variable after the loop.
\<close>

definition CalculateTotal ::
  "extlib \<Rightarrow> commons \<Rightarrow> FromTo list \<Rightarrow> Transaction \<Rightarrow> string \<Rightarrow> Totals \<times> FromTo list" where
  "CalculateTotal lib cm fromTos transaction transactionType =
     (let t = fold (total_entry lib cm transaction transactionType) fromTos (total_init transaction transactionType)
      in (t, map (\<lambda>ft. if \<not> IsNilOrEmpty cm (ft_Remaining ft) then ft\<lparr>ft_Amount := Some (tt_remaining t)\<rparr> else ft) fromTos))"

definition AppendIfNotExist :: "commons \<Rightarrow> string list \<Rightarrow> string list \<Rightarrow> string list" where
  "AppendIfNotExist cm xs s = fold (\<lambda>v xs. if \<not> Contains cm xs v then xs @ [v] else xs) s xs"

fun ambiguous :: "nat \<Rightarrow> string list \<Rightarrow> (string, Amount) gomap \<Rightarrow> bool" where
  "ambiguous i [] m = False"
| "ambiguous i (alias # aliases) m = (map_of m (ConcatAlias i alias) \<noteq> None \<or> ambiguous (Suc i) aliases m)"

text \<open>The transaction that is returned first is the argument with its entries as the call leaves them.\<close>

definition ValidateSendSourceAndDistribute ::
  "extlib \<Rightarrow> commons \<Rightarrow> Transaction \<Rightarrow> string \<Rightarrow> Transaction \<times> (goerr + Responses)" where
  "ValidateSendSourceAndDistribute lib cm transaction transactionType =
     (let send = tx_Send transaction;
          (tFrom, from') = CalculateTotal lib cm (src_From (snd_Source send)) transaction transactionType;
          (tTo, to') = CalculateTotal lib cm (dst_To (snd_Distribute send)) transaction transactionType;
          transaction' = transaction\<lparr>tx_Send := send\<lparr>snd_Source := (snd_Source send)\<lparr>src_From := from'\<rparr>,
                                                        snd_Distribute := (snd_Distribute send)\<lparr>dst_To := to'\<rparr>\<rparr>\<rparr>;
          response =
            \<lparr>rsp_Total = snd_Value send, rsp_Asset = snd_Asset send, rsp_From = tt_fmto tFrom, rsp_To = tt_fmto tTo,
             rsp_Sources = tt_scdt tFrom, rsp_Destinations = tt_scdt tTo,
             rsp_Aliases = AppendIfNotExist cm (AppendIfNotExist cm [] (tt_scdt tFrom)) (tt_scdt tTo),
             rsp_Pending = tx_Pending transaction, rsp_TransactionRoute = tx_Route transaction,
             rsp_TransactionRouteID = tx_RouteID transaction, rsp_OperationRoutesFrom = tt_route tFrom,
             rsp_OperationRoutesTo = tt_route tTo\<rparr>
      in (transaction',
          if ambiguous 0 (rsp_Sources response) (rsp_To response) then Inl (Business ErrTransactionAmbiguous)
          else if ambiguous 0 (rsp_Destinations response) (rsp_From response) then Inl (Business ErrTransactionAmbiguous)
          else if tt_total tFrom \<noteq> tt_total tTo \<or> tt_total tTo \<noteq> rsp_Total response then Inl (Business ErrTransactionValueMismatch)
          else Inr response))"

section \<open>Inputs\<close>

record CreateTransactionInput =
  cti_ChartOfAccountsGroupName :: string
  cti_Description :: string
  cti_Code :: string
  cti_Pending :: bool
  cti_Metadata :: metadata
  cti_Route :: string
  cti_RouteID :: "string option"
  cti_TransactionDate :: "time option"
  cti_Send :: Send
  cti_Skip :: "TransactionSkip option"

definition mark_from :: "FromTo list \<Rightarrow> FromTo list" where
  "mark_from es = map (\<lambda>e. e\<lparr>ft_IsFrom := True\<rparr>) es"

definition BuildTransaction :: "CreateTransactionInput \<Rightarrow> Transaction" where
  "BuildTransaction cti =
     (let send = cti_Send cti;
          send' = send\<lparr>snd_Source := (snd_Source send)\<lparr>src_From := mark_from (src_From (snd_Source send))\<rparr>\<rparr>
      in \<lparr>tx_ChartOfAccountsGroupName = cti_ChartOfAccountsGroupName cti, tx_Description = cti_Description cti,
          tx_Code = cti_Code cti, tx_Pending = cti_Pending cti, tx_Metadata = cti_Metadata cti, tx_Route = cti_Route cti,
          tx_RouteID = cti_RouteID cti, tx_TransactionDate = cti_TransactionDate cti, tx_Send = send', tx_Skip = cti_Skip cti,
          tx_OperationTypeOverride = ''''\<rparr>)"

record SendInflow =
  si_Asset :: string
  si_Value :: decimal
  si_Distribute :: Distribute

record CreateTransactionInflowInput =
  cii_ChartOfAccountsGroupName :: string
  cii_Description :: string
  cii_Code :: string
  cii_Metadata :: metadata
  cii_Route :: string
  cii_RouteID :: "string option"
  cii_TransactionDate :: "time option"
  cii_Send :: SendInflow
  cii_Skip :: "TransactionSkip option"

definition external_entry :: "bool \<Rightarrow> string \<Rightarrow> decimal \<Rightarrow> FromTo" where
  "external_entry isFrom asset v =
     FromTo_zero\<lparr>ft_IsFrom := isFrom, ft_AccountAlias := DefaultExternalAccountAliasPrefix @ asset,
       ft_Amount := Some (Amount_zero\<lparr>am_Asset := asset, am_Value := v\<rparr>)\<rparr>"

definition BuildInflowEntry :: "CreateTransactionInflowInput \<Rightarrow> Transaction" where
  "BuildInflowEntry c =
     (let send = cii_Send c;
          from = external_entry True (si_Asset send) (si_Value send)
      in \<lparr>tx_ChartOfAccountsGroupName = cii_ChartOfAccountsGroupName c, tx_Description = cii_Description c,
          tx_Code = cii_Code c, tx_Pending = False, tx_Metadata = cii_Metadata c, tx_Route = cii_Route c,
          tx_RouteID = cii_RouteID c, tx_TransactionDate = cii_TransactionDate c,
          tx_Send = \<lparr>snd_Asset = si_Asset send, snd_Value = si_Value send,
                     snd_Source = \<lparr>src_Remaining = '''', src_From = [from]\<rparr>, snd_Distribute = si_Distribute send\<rparr>,
          tx_Skip = cii_Skip c, tx_OperationTypeOverride = ''''\<rparr>)"

record SendOutflow =
  so_Asset :: string
  so_Value :: decimal
  so_Source :: Source

record CreateTransactionOutflowInput =
  coi_ChartOfAccountsGroupName :: string
  coi_Description :: string
  coi_Code :: string
  coi_Pending :: bool
  coi_Metadata :: metadata
  coi_Route :: string
  coi_RouteID :: "string option"
  coi_TransactionDate :: "time option"
  coi_Send :: SendOutflow
  coi_Skip :: "TransactionSkip option"

definition BuildOutflowEntry :: "CreateTransactionOutflowInput \<Rightarrow> Transaction" where
  "BuildOutflowEntry c =
     (let send = coi_Send c;
          to = external_entry False (so_Asset send) (so_Value send)
      in \<lparr>tx_ChartOfAccountsGroupName = coi_ChartOfAccountsGroupName c, tx_Description = coi_Description c,
          tx_Code = coi_Code c, tx_Pending = coi_Pending c, tx_Metadata = coi_Metadata c, tx_Route = coi_Route c,
          tx_RouteID = coi_RouteID c, tx_TransactionDate = coi_TransactionDate c,
          tx_Send = \<lparr>snd_Asset = so_Asset send, snd_Value = so_Value send,
                     snd_Source = \<lparr>src_Remaining = '''', src_From = mark_from (src_From (so_Source send))\<rparr>,
                     snd_Distribute = \<lparr>dst_Remaining = '''', dst_To = [to]\<rparr>\<rparr>,
          tx_Skip = coi_Skip c, tx_OperationTypeOverride = ''''\<rparr>)"

section \<open>Totals\<close>

definition values_sum :: "(string, Amount) gomap \<Rightarrow> decimal" where
  "values_sum m = (\<Sum>p \<leftarrow> m. am_Value (snd p))"

definition has_share :: "FromTo \<Rightarrow> bool" where
  "has_share ft = (case ft_Share ft of Some s \<Rightarrow> sh_Percentage s \<noteq> 0 | None \<Rightarrow> False)"

definition has_amount :: "FromTo \<Rightarrow> bool" where
  "has_amount ft = (case ft_Amount ft of Some a \<Rightarrow> 0 < am_Value a | None \<Rightarrow> False)"

definition has_remaining :: "commons \<Rightarrow> FromTo \<Rightarrow> bool" where
  "has_remaining cm ft = (\<not> IsNilOrEmpty cm (ft_Remaining ft))"

text \<open>What the request validator \<^verbatim>\<open>singletransactiontype\<close> asks of an entry: one way to give its amount.\<close>

definition single_kind :: "commons \<Rightarrow> FromTo \<Rightarrow> bool" where
  "single_kind cm ft =
     (\<not> (has_share ft \<and> has_amount ft) \<and> \<not> (has_share ft \<and> has_remaining cm ft) \<and> \<not> (has_amount ft \<and> has_remaining cm ft))"

lemma values_sum_update:
  "k \<notin> fst ` set m \<Longrightarrow> values_sum (AList.update k a m) = values_sum m + am_Value a"
  unfolding values_sum_def using sum_list_map_update_new [of m k am_Value a] by (simp add: map_of_eq_None_iff)

lemma set_alist_update: "set (AList.update k v xs) \<subseteq> insert (k, v) (set xs)"
  by (induction xs) auto

lemma note_route_sel [simp]:
  "tt_total (note_route ft t) = tt_total t" "tt_remaining (note_route ft t) = tt_remaining t"
  "tt_fmto (note_route ft t) = tt_fmto t" "tt_scdt (note_route ft t) = tt_scdt t"
  by (simp_all add: note_route_def split: option.split)

text \<open>The amount that an entry of one kind adds, and what is left after it.\<close>

definition entry_amount :: "extlib \<Rightarrow> commons \<Rightarrow> Transaction \<Rightarrow> string \<Rightarrow> Amount \<Rightarrow> FromTo \<Rightarrow> Amount option" where
  "entry_amount lib cm tx ty remaining ft =
     (let (operation, direction) = DetermineOperation (tx_Pending tx) (ft_IsFrom ft) ty in
      if has_share ft then
        Some (resolved (snd_Asset (tx_Send tx)) (shareValue lib (snd_Value (tx_Send tx)) (the (ft_Share ft))) operation ty direction)
      else if has_amount ft then
        Some (resolved (am_Asset (the (ft_Amount ft))) (am_Value (the (ft_Amount ft))) operation ty direction)
      else if has_remaining cm ft then Some (remaining\<lparr>am_Operation := operation, am_Direction := direction\<rparr>)
      else None)"

lemma total_entry_single:
  fixes lib tx ty t
  assumes "single_kind cm ft"
  defines "a \<equiv> entry_amount lib cm tx ty (tt_remaining t) ft" and "t' \<equiv> total_entry lib cm tx ty ft t"
  shows "tt_fmto t' = (case a of None \<Rightarrow> tt_fmto t | Some a \<Rightarrow> AList.update (ft_AccountAlias ft) a (tt_fmto t))"
    "tt_total t' = tt_total t + (case a of None \<Rightarrow> 0 | Some a \<Rightarrow> am_Value a)"
    "am_Value (tt_remaining t') =
       am_Value (tt_remaining t) - (if has_remaining cm ft then 0 else case a of None \<Rightarrow> 0 | Some a \<Rightarrow> am_Value a)"
    "am_TransactionType (tt_remaining t') = am_TransactionType (tt_remaining t)"
    "am_RouteValidationEnabled (tt_remaining t') = am_RouteValidationEnabled (tt_remaining t)"
  using assms
  by (auto simp: total_entry_def Let_def split_beta add_resolved_def add_remaining_def entry_amount_def single_kind_def
      has_share_def has_amount_def has_remaining_def resolved_def split: option.splits if_splits)

lemma total_entry_scdt: "tt_scdt (total_entry lib cm tx ty ft t) = tt_scdt t @ [AliasKey (FromTo_SplitAlias ft) (ft_BalanceKey ft)]"
  by (auto simp: total_entry_def Let_def split_beta add_resolved_def add_remaining_def split: option.splits)

lemma entry_amount_kind:
  assumes "entry_amount lib cm tx ty r ft = Some a" "am_TransactionType r = ty" "\<not> am_RouteValidationEnabled r"
  shows "am_Operation a = fst (DetermineOperation (tx_Pending tx) (ft_IsFrom ft) ty)" "am_TransactionType a = ty"
    "\<not> am_RouteValidationEnabled a"
  using assms by (auto simp: entry_amount_def split_beta resolved_def Amount_zero_def Let_def split: if_splits)

definition op_kind :: "Transaction \<Rightarrow> string \<Rightarrow> bool \<Rightarrow> Amount \<Rightarrow> bool" where
  "op_kind tx ty isFrom a =
     (am_Operation a = fst (DetermineOperation (tx_Pending tx) isFrom ty) \<and> am_TransactionType a = ty \<and> \<not> am_RouteValidationEnabled a)"

lemma total_fold:
  assumes "distinct (map ft_AccountAlias fts)" "\<forall>ft \<in> set fts. single_kind cm ft \<and> ft_IsFrom ft = isFrom"
    and "fst ` set (tt_fmto t) \<inter> ft_AccountAlias ` set fts = {}"
    and "am_TransactionType (tt_remaining t) = ty" "\<not> am_RouteValidationEnabled (tt_remaining t)"
    and "\<forall>p \<in> set (tt_fmto t). op_kind tx ty isFrom (snd p)"
  shows "values_sum (tt_fmto (fold (total_entry lib cm tx ty) fts t)) - tt_total (fold (total_entry lib cm tx ty) fts t) =
      values_sum (tt_fmto t) - tt_total t \<and>
    (\<forall>p \<in> set (tt_fmto (fold (total_entry lib cm tx ty) fts t)). op_kind tx ty isFrom (snd p))"
  using assms
proof (induction fts arbitrary: t)
  case (Cons ft fts)
  let ?t = "total_entry lib cm tx ty ft t" and ?a = "entry_amount lib cm tx ty (tt_remaining t) ft"
  have ft: "single_kind cm ft" "ft_IsFrom ft = isFrom" using Cons.prems(2) by auto
  note e = total_entry_single [OF ft(1), of lib tx ty t]
  have new: "ft_AccountAlias ft \<notin> fst ` set (tt_fmto t)" using Cons.prems(3) by auto
  have sum: "values_sum (tt_fmto ?t) - tt_total ?t = values_sum (tt_fmto t) - tt_total t"
    unfolding e(1,2) by (cases ?a) (simp_all add: values_sum_update [OF new])
  have keys: "fst ` set (tt_fmto ?t) \<inter> ft_AccountAlias ` set fts = {}"
    using Cons.prems(1,3) unfolding e(1) by (cases ?a) auto
  have kinds: "\<forall>p \<in> set (tt_fmto ?t). op_kind tx ty isFrom (snd p)"
  proof (cases ?a)
    case None
    then show ?thesis using Cons.prems(6) unfolding e(1) by simp
  next
    case (Some a)
    have "op_kind tx ty isFrom a"
      using entry_amount_kind [OF Some Cons.prems(4,5)] ft(2) by (simp add: op_kind_def)
    then show ?thesis using Cons.prems(6) set_alist_update [of "ft_AccountAlias ft" a "tt_fmto t"] unfolding e(1) Some by auto
  qed
  show ?case
    using Cons.IH [of ?t] Cons.prems(1,2,4,5) sum keys kinds e(4,5) by simp
qed simp

definition well_formed_side :: "commons \<Rightarrow> bool \<Rightarrow> FromTo list \<Rightarrow> bool" where
  "well_formed_side cm isFrom fts =
     (distinct (map ft_AccountAlias fts) \<and> (\<forall>ft \<in> set fts. single_kind cm ft \<and> ft_IsFrom ft = isFrom))"

definition well_formed :: "commons \<Rightarrow> Transaction \<Rightarrow> bool" where
  "well_formed cm tx =
     (well_formed_side cm True (src_From (snd_Source (tx_Send tx))) \<and>
      well_formed_side cm False (dst_To (snd_Distribute (tx_Send tx))))"

lemma CalculateTotal_sum:
  assumes "well_formed_side cm isFrom fts" "CalculateTotal lib cm fts tx ty = (t, fts')"
  shows "values_sum (tt_fmto t) = tt_total t" "\<forall>p \<in> set (tt_fmto t). op_kind tx ty isFrom (snd p)"
proof -
  have t: "t = fold (total_entry lib cm tx ty) fts (total_init tx ty)" using assms(2) by (simp add: CalculateTotal_def Let_def)
  have "values_sum (tt_fmto t) - tt_total t = values_sum (tt_fmto (total_init tx ty)) - tt_total (total_init tx ty) \<and>
    (\<forall>p \<in> set (tt_fmto t). op_kind tx ty isFrom (snd p))"
    unfolding t using assms(1)
    by (intro total_fold) (simp_all add: well_formed_side_def total_init_def Amount_zero_def)
  then show "values_sum (tt_fmto t) = tt_total t" "\<forall>p \<in> set (tt_fmto t). op_kind tx ty isFrom (snd p)"
    by (simp_all add: total_init_def values_sum_def)
qed

lemma Validate_Inr:
  assumes "ValidateSendSourceAndDistribute lib cm tx ty = (tx', Inr r)"
  obtains tf ff tt ft where
    "CalculateTotal lib cm (src_From (snd_Source (tx_Send tx))) tx ty = (tf, ff)"
    "CalculateTotal lib cm (dst_To (snd_Distribute (tx_Send tx))) tx ty = (tt, ft)"
    "rsp_From r = tt_fmto tf" "rsp_To r = tt_fmto tt" "rsp_Total r = snd_Value (tx_Send tx)"
    "rsp_Sources r = tt_scdt tf" "rsp_Destinations r = tt_scdt tt"
    "rsp_Aliases r = AppendIfNotExist cm (AppendIfNotExist cm [] (tt_scdt tf)) (tt_scdt tt)"
    "tt_total tf = snd_Value (tx_Send tx)" "tt_total tt = snd_Value (tx_Send tx)"
    "\<not> ambiguous 0 (tt_scdt tf) (tt_fmto tt)" "\<not> ambiguous 0 (tt_scdt tt) (tt_fmto tf)"
  using assms that
  by (cases "CalculateTotal lib cm (src_From (snd_Source (tx_Send tx))) tx ty";
      cases "CalculateTotal lib cm (dst_To (snd_Distribute (tx_Send tx))) tx ty")
    (auto simp: ValidateSendSourceAndDistribute_def Let_def split: if_splits)


section \<open>Conservation\<close>

text \<open>The funds of a balance, and how an operation changes them.\<close>

definition funds :: "Balance \<Rightarrow> decimal" where
  "funds b = bal_Available b + bal_OnHold b"

definition funds_change :: "Amount \<Rightarrow> Balance \<Rightarrow> decimal" where
  "funds_change a b = (case OperateBalances a b of Inl e \<Rightarrow> 0 | Inr b' \<Rightarrow> funds b' - funds b)"

text \<open>A source that needs a double entry is applied as its two operations.\<close>

definition source_change :: "Amount \<Rightarrow> Balance \<Rightarrow> decimal" where
  "source_change a b =
     (if IsDoubleEntrySource a then funds_change (fst (SplitDoubleEntryOps a)) b + funds_change (snd (SplitDoubleEntryOps a)) b
      else funds_change a b)"

definition total_change :: "Responses \<Rightarrow> (string \<Rightarrow> Balance) \<Rightarrow> decimal" where
  "total_change r bal =
     (\<Sum>(k, a) \<leftarrow> rsp_From r. source_change a (bal k)) + (\<Sum>(k, a) \<leftarrow> rsp_To r. funds_change a (bal k))"

lemma funds_zero [simp]: "funds (Balance_zero\<lparr>bal_Available := x, bal_OnHold := y, bal_Version := v\<rparr>) = x + y"
  by (simp add: funds_def)

lemmas operate_defs = OperateBalances_def applyBalanceChange_def applyPendingBalance_def applyCanceledBalance_def
  applyApprovedBalance_def applyCreatedBalance_def DetermineOperation_def

text \<open>The share of the value that leaves the sources and reaches the destinations in each status.\<close>

definition status_factor :: "string \<Rightarrow> decimal" where
  "status_factor ty = (if ty = CREATED \<or> ty = APPROVED then 1 else 0)"

lemma source_change_legacy:
  assumes "op_kind tx ty True a" "bal_Direction b \<noteq> DirectionDebit"
    "ty \<in> {CREATED, PENDING, APPROVED, CANCELED}" "tx_Pending tx = (ty \<noteq> CREATED)"
  shows "source_change a b = - status_factor ty * am_Value a"
  using assms by (auto simp: op_kind_def source_change_def IsDoubleEntrySource_def funds_change_def funds_def [of b]
      operate_defs status_factor_def)

lemma destination_change:
  assumes "op_kind tx ty False a" "bal_Direction b \<noteq> DirectionDebit"
    "ty \<in> {CREATED, PENDING, APPROVED, CANCELED}" "tx_Pending tx = (ty \<noteq> CREATED)"
  shows "funds_change a b = status_factor ty * am_Value a"
  using assms by (auto simp: op_kind_def funds_change_def funds_def [of b] operate_defs status_factor_def)

lemma source_change_routed:
  assumes "op_kind tx ty True a" "bal_Direction b \<noteq> DirectionDebit" "ty \<in> {PENDING, APPROVED, CANCELED}" "tx_Pending tx"
  defines "a' \<equiv> a\<lparr>am_RouteValidationEnabled := True\<rparr>"
  shows "source_change (if ty = APPROVED \<and> am_Operation a' = DEBIT then a'\<lparr>am_Operation := ONHOLD\<rparr> else a') b =
    - status_factor ty * am_Value a"
  using assms by (auto simp: op_kind_def source_change_def IsDoubleEntrySource_def SplitDoubleEntryOps_def funds_change_def
      funds_def [of b] operate_defs status_factor_def)

lemma sum_change:
  assumes "\<And>k a. (k, a) \<in> set m \<Longrightarrow> f k a = c * am_Value a"
  shows "(\<Sum>(k, a) \<leftarrow> m. f k a) = c * values_sum m"
  using assms by (induction m) (auto simp: values_sum_def algebra_simps)

lemma sum_map_values:
  "(\<Sum>(k, a) \<leftarrow> map (\<lambda>(k, a). (k, h a)) m. f k a) = (\<Sum>(k, a) \<leftarrow> m. f k (h a))"
  by (induction m) auto

lemma accepted_parts:
  assumes "ValidateSendSourceAndDistribute lib cm tx ty = (tx', Inr r)" "well_formed cm tx"
  shows "values_sum (rsp_From r) = snd_Value (tx_Send tx)" "values_sum (rsp_To r) = snd_Value (tx_Send tx)"
    "\<forall>p \<in> set (rsp_From r). op_kind tx ty True (snd p)" "\<forall>p \<in> set (rsp_To r). op_kind tx ty False (snd p)"
proof -
  from assms(1) obtain tf ff tt ft where c:
    "CalculateTotal lib cm (src_From (snd_Source (tx_Send tx))) tx ty = (tf, ff)"
    "CalculateTotal lib cm (dst_To (snd_Distribute (tx_Send tx))) tx ty = (tt, ft)"
    "rsp_From r = tt_fmto tf" "rsp_To r = tt_fmto tt"
    "tt_total tf = snd_Value (tx_Send tx)" "tt_total tt = snd_Value (tx_Send tx)" by (rule Validate_Inr)
  have w: "well_formed_side cm True (src_From (snd_Source (tx_Send tx)))" "well_formed_side cm False (dst_To (snd_Distribute (tx_Send tx)))"
    using assms(2) by (simp_all add: well_formed_def)
  note f = CalculateTotal_sum [OF w(1) c(1)] and t = CalculateTotal_sum [OF w(2) c(2)]
  show "values_sum (rsp_From r) = snd_Value (tx_Send tx)" "values_sum (rsp_To r) = snd_Value (tx_Send tx)"
    using f(1) t(1) c by simp_all
  show "\<forall>p \<in> set (rsp_From r). op_kind tx ty True (snd p)" "\<forall>p \<in> set (rsp_To r). op_kind tx ty False (snd p)"
    using f(2) t(2) c by simp_all
qed


section \<open>Life cycle of a hold\<close>

text \<open>
  The balance after an operation, as the caller merges it: available, held and version are
  replaced, the other fields stay.
\<close>

definition applied :: "Amount \<Rightarrow> Balance \<Rightarrow> Balance" where
  "applied a b =
     (case OperateBalances a b of Inl e \<Rightarrow> b
      | Inr b' \<Rightarrow> b\<lparr>bal_Available := bal_Available b', bal_OnHold := bal_OnHold b', bal_Version := bal_Version b'\<rparr>)"

definition apply_source :: "Amount \<Rightarrow> Balance \<Rightarrow> Balance" where
  "apply_source a b =
     (if IsDoubleEntrySource a then applied (snd (SplitDoubleEntryOps a)) (applied (fst (SplitDoubleEntryOps a)) b)
      else applied a b)"

text \<open>The amount of a source of value \<open>v\<close> in status \<open>ty\<close>, with or without route validation.\<close>

definition source_amount :: "bool \<Rightarrow> bool \<Rightarrow> string \<Rightarrow> decimal \<Rightarrow> Amount" where
  "source_amount routed pending ty v =
     (let (operation, direction) = DetermineOperation pending True ty;
          a = resolved ''BRL'' v operation ty direction;
          r = PropagateRouteValidation
                \<lparr>rsp_Total = v, rsp_Asset = ''BRL'', rsp_From = [('''', a)], rsp_To = [], rsp_Sources = [], rsp_Destinations = [],
                 rsp_Aliases = [], rsp_Pending = pending, rsp_TransactionRoute = '''', rsp_TransactionRouteID = None,
                 rsp_OperationRoutesFrom = [], rsp_OperationRoutesTo = []\<rparr> ty
      in if routed then snd (hd (rsp_From r)) else a)"

lemmas source_defs = source_amount_def PropagateRouteValidation_def resolved_def Amount_zero_def apply_source_def
  IsDoubleEntrySource_def SplitDoubleEntryOps_def applied_def operate_defs


section \<open>Aliases\<close>

lemma SplitAliasWithKey_concat:
  "SplitAliasWithKey (FromTo_ConcatAlias ft i) = AliasKey (ft_AccountAlias ft) (ft_BalanceKey ft)"
  "SplitAliasWithKey (ConcatAlias i alias) = alias"
proof -
  have d: "CHR ''#'' \<notin> set (Itoa (int i))"
    using digits_only_notin [of "nat_str i" "CHR ''#''"] by (simp add: Itoa_def)
  show "SplitAliasWithKey (FromTo_ConcatAlias ft i) = AliasKey (ft_AccountAlias ft) (ft_BalanceKey ft)"
    "SplitAliasWithKey (ConcatAlias i alias) = alias"
    using go_index_single_append [OF d]
    by (simp_all add: SplitAliasWithKey_def FromTo_ConcatAlias_def ConcatAlias_def AliasKey_def Let_def DefaultBalanceKey_def)
qed

lemma ConcatAlias_eq: "FromTo_ConcatAlias ft i = ConcatAlias i (AliasKey (ft_AccountAlias ft) (ft_BalanceKey ft))"
  by (simp add: FromTo_ConcatAlias_def ConcatAlias_def AliasKey_def Let_def DefaultBalanceKey_def)

lemma ConcatAlias_inject: "ConcatAlias i a = ConcatAlias j b \<longleftrightarrow> i = j \<and> a = b"
  using digits_sep_inject [of "nat_str i" "nat_str j" "CHR ''#''" a b] by (simp add: ConcatAlias_def Itoa_def)

lemma concated_scan_digits: "digits_only ds \<Longrightarrow> concated_scan i (ds @ CHR ''#'' # s) \<longleftrightarrow> 0 < i + length ds"
proof (induction ds arbitrary: i)
  case (Cons c ds)
  then have "c \<noteq> CHR ''#''" "\<not> (of_char c :: nat) < 48" "\<not> 57 < (of_char c :: nat)" "digits_only ds"
    by (auto simp: digits_only_def)
  then show ?case using Cons.IH by simp
qed simp

lemma isConcatedAlias_concat: "isConcatedAlias (ConcatAlias i alias)"
proof -
  have n: "nat_str i \<noteq> []" by (subst nat_str.simps) simp
  have "concated_scan 0 (nat_str i @ CHR ''#'' # alias)" using n by (simp add: concated_scan_digits)
  then show ?thesis using n by (cases "nat_str i") (simp_all add: isConcatedAlias_def ConcatAlias_def Itoa_def)
qed

lemma isConcatedAlias_hash: "isConcatedAlias alias \<Longrightarrow> CHR ''#'' \<in> set alias"
proof -
  have "concated_scan i s \<Longrightarrow> CHR ''#'' \<in> set s" for i s
    by (induction i s rule: concated_scan.induct) (auto split: if_splits)
  then show "isConcatedAlias alias \<Longrightarrow> CHR ''#'' \<in> set alias" by (auto simp: isConcatedAlias_def split: if_splits)
qed

lemma concat_from_aliases:
  assumes "\<forall>e \<in> set es. \<not> isConcatedAlias (ft_AccountAlias e)"
  shows "map ft_AccountAlias (concat_from i es) =
    map (\<lambda>(j, e). ConcatAlias j (AliasKey (ft_AccountAlias e) (ft_BalanceKey e))) (zip [i..<i + length es] es)"
  using assms by (induction es arbitrary: i) (auto simp: ConcatAlias_eq upt_rec)

lemma MutateConcatAliases_distinct:
  assumes "\<forall>e \<in> set es. \<not> isConcatedAlias (ft_AccountAlias e)"
  shows "distinct (map ft_AccountAlias (MutateConcatAliases es))"
proof -
  have "distinct (map (\<lambda>(j, e). ConcatAlias j (AliasKey (ft_AccountAlias e) (ft_BalanceKey e))) (zip [i..<i + length es] es))" for i
  proof (rule distinct_map [THEN iffD2], intro conjI inj_onI)
    show "distinct (zip [i..<i + length es] es)" by (simp add: distinct_zipI1)
    fix p q
    assume p: "p \<in> set (zip [i..<i + length es] es)" "q \<in> set (zip [i..<i + length es] es)"
      and eq: "(case p of (j, e) \<Rightarrow> ConcatAlias j (AliasKey (ft_AccountAlias e) (ft_BalanceKey e))) =
        (case q of (j, e) \<Rightarrow> ConcatAlias j (AliasKey (ft_AccountAlias e) (ft_BalanceKey e)))"
    have "fst p = fst q" using eq by (simp add: split_beta ConcatAlias_inject)
    with p show "p = q" by (auto simp: in_set_zip prod_eq_iff) (metis add_left_imp_eq)
  qed
  then show ?thesis unfolding MutateConcatAliases_def concat_from_aliases [OF assms] by blast
qed

lemma SplitAlias_concat:
  assumes "CHR ''#'' \<notin> set alias"
  shows "SplitAlias (ConcatAlias i (AliasKey alias k)) = alias"
proof -
  have d: "CHR ''#'' \<notin> set (Itoa (int i))"
    using digits_only_notin [of "nat_str i" "CHR ''#''"] by (simp add: Itoa_def)
  have "ConcatAlias i (AliasKey alias k) = Itoa (int i) @ CHR ''#'' # alias @ CHR ''#'' # (if k = '''' then ''default'' else k)"
    by (simp add: ConcatAlias_def AliasKey_def)
  then show ?thesis
    using go_split_single_append [OF d] go_split_single_append [OF assms] go_index_single_append [OF d]
    by (simp add: SplitAlias_def contains_def)
qed

lemma FromTo_SplitAlias_eq: "FromTo_SplitAlias ft = SplitAlias (ft_AccountAlias ft)"
  by (simp add: FromTo_SplitAlias_def SplitAlias_def)

text \<open>
  Numbering the entries of a request loses nothing: stripping the numbers gives the entries
  back, numbering twice is numbering once, the numbered aliases are pairwise different even when
  an account appears several times, and each of them leads back to the balance it names.
\<close>

theorem concat_split_aliases:
  assumes "\<forall>e \<in> set es. CHR ''#'' \<notin> set (ft_AccountAlias e)"
  shows "MutateSplitAliases (MutateConcatAliases es) = es \<and>
    MutateConcatAliases (MutateConcatAliases es) = MutateConcatAliases es \<and>
    distinct (map ft_AccountAlias (MutateConcatAliases es)) \<and>
    map (SplitAliasWithKey \<circ> ft_AccountAlias) (MutateConcatAliases es) = map (\<lambda>e. AliasKey (ft_AccountAlias e) (ft_BalanceKey e)) es"
proof -
  have n: "\<forall>e \<in> set es. \<not> isConcatedAlias (ft_AccountAlias e)" using assms isConcatedAlias_hash by blast
  have "MutateSplitAliases (concat_from i es) = es" for i
    using assms n
    by (induction es arbitrary: i)
      (auto simp: MutateSplitAliases_def ConcatAlias_eq isConcatedAlias_concat FromTo_SplitAlias_eq SplitAlias_concat)
  moreover have "concat_from j (concat_from i es) = concat_from i es" for i j
    using n by (induction es arbitrary: i j) (auto simp: ConcatAlias_eq isConcatedAlias_concat)
  moreover have "map (SplitAliasWithKey \<circ> ft_AccountAlias) (concat_from i es) = map (\<lambda>e. AliasKey (ft_AccountAlias e) (ft_BalanceKey e)) es" for i
    using n by (induction es arbitrary: i) (auto simp: SplitAliasWithKey_concat)
  ultimately show ?thesis using MutateConcatAliases_distinct [OF n] by (simp add: MutateConcatAliases_def)
qed

section \<open>Eligible balances\<close>

definition names :: "string \<Rightarrow> Balance \<Rightarrow> bool" where
  "names k b = (k = bal_ID b \<or> SplitAliasWithKey k = AliasKey (bal_Alias b) (bal_Key b))"

definition named_by :: "Balance \<Rightarrow> (string, Amount) gomap \<Rightarrow> bool" where
  "named_by b m = list_ex (\<lambda>(k, a). names k b) m"

lemma named_by_simps [simp]: "\<not> named_by b []" "named_by b ((k, a) # m) \<longleftrightarrow> names k b \<or> named_by b m"
  by (simp_all add: named_by_def)

lemma validateFromBalances_eq:
  "validateFromBalances b m asset pending =
     (if named_by b m then
        (if bal_AssetCode b \<noteq> asset then Some (Business ErrAssetCodeNotFound)
         else if \<not> bal_AllowSending b then Some (Business ErrAccountStatusTransactionRestriction)
         else if pending \<and> bal_AccountType b = ExternalAccountType then Some (Business ErrOnHoldExternalAccount)
         else None)
      else None)"
  by (induction m) (auto simp: names_def [symmetric] Let_def)

lemma validateToBalances_eq:
  "validateToBalances b m asset =
     (if named_by b m then
        (if bal_AssetCode b \<noteq> asset then Some (Business ErrAssetCodeNotFound)
         else if \<not> bal_AllowReceiving b then Some (Business ErrAccountStatusTransactionRestriction)
         else None)
      else None)"
  by (induction m) (auto simp: names_def [symmetric] Let_def)

text \<open>
  The balances of a transaction are accepted exactly when there is one per entry and every
  balance that a source names has the asset of the transaction, may send and is not an external
  account of a pending transaction, and every balance that a destination names has the asset and
  may receive. The answer does not depend on the order in which the maps are visited.
\<close>

theorem ValidateBalancesRules_accepts:
  "ValidateBalancesRules r bs = None \<longleftrightarrow>
     length bs = length (rsp_From r) + length (rsp_To r) \<and>
     list_all (\<lambda>b.
       (named_by b (rsp_From r) \<longrightarrow>
          bal_AssetCode b = rsp_Asset r \<and> bal_AllowSending b \<and> \<not> (rsp_Pending r \<and> bal_AccountType b = ExternalAccountType)) \<and>
       (named_by b (rsp_To r) \<longrightarrow> bal_AssetCode b = rsp_Asset r \<and> bal_AllowReceiving b)) bs"
proof -
  have "validate_each_balance r bs = None \<longleftrightarrow>
      list_all (\<lambda>b. validateFromBalances b (rsp_From r) (rsp_Asset r) (rsp_Pending r) = None \<and>
        validateToBalances b (rsp_To r) (rsp_Asset r) = None) bs"
    by (induction bs) (auto split: option.split)
  then show ?thesis
    by (auto simp: ValidateBalancesRules_def validateFromBalances_eq validateToBalances_eq list_all_iff)
qed

section \<open>Resolving twice\<close>

lemma total_fold_amounts:
  assumes "\<forall>ft \<in> set fts. single_kind cm ft \<and> \<not> has_remaining cm ft"
  shows "am_Value (tt_remaining (fold (total_entry lib cm tx ty) fts t)) + tt_total (fold (total_entry lib cm tx ty) fts t) =
    am_Value (tt_remaining t) + tt_total t"
  using assms
proof (induction fts arbitrary: t)
  case (Cons ft fts)
  have s: "single_kind cm ft" "\<not> has_remaining cm ft" using Cons.prems by auto
  have "am_Value (tt_remaining (total_entry lib cm tx ty ft t)) + tt_total (total_entry lib cm tx ty ft t) =
      am_Value (tt_remaining t) + tt_total t"
    using total_entry_single(2,3) [OF s(1), of lib tx ty t] s(2) by simp
  then show ?case using Cons.IH [of "total_entry lib cm tx ty ft t"] Cons.prems by simp
qed simp

text \<open>The last entry of a side takes the remainder; the entries before it give amounts or shares.\<close>

definition remainder_last :: "commons \<Rightarrow> FromTo list \<Rightarrow> FromTo \<Rightarrow> bool" where
  "remainder_last cm fts r =
     (list_all (\<lambda>ft. single_kind cm ft \<and> \<not> has_remaining cm ft) fts \<and>
      has_remaining cm r \<and> ft_Amount r = None \<and> ft_Share r = None)"

lemma remainder_entry:
  assumes "has_remaining cm r" "ft_Share r = None" "ft_Amount r = a" "case a of None \<Rightarrow> True | Some a \<Rightarrow> 0 < am_Value a"
  shows "am_Value (amount_at (tt_fmto (total_entry lib cm tx ty r t)) (ft_AccountAlias r)) =
      am_Value (tt_remaining t) - (case a of None \<Rightarrow> 0 | Some a \<Rightarrow> am_Value a)"
    "tt_total (total_entry lib cm tx ty r t) = tt_total t + am_Value (tt_remaining t)"
    "am_Value (tt_remaining (total_entry lib cm tx ty r t)) = am_Value (tt_remaining t) - (case a of None \<Rightarrow> 0 | Some a \<Rightarrow> am_Value a)"
  using assms
  by (cases a; auto simp: total_entry_def Let_def split_beta add_resolved_def add_remaining_def has_remaining_def amount_at_def
      resolved_def update_conv')+

text \<open>
  Resolving a side that ends with a remainder a second time, on the entries as the first
  resolution left them, still adds up to the same total but gives that last entry the amount
  zero: the first resolution stores the remainder as an explicit amount next to the remaining
  flag, and the second counts the amount and then overwrites it with what is left.
\<close>

theorem second_resolution_drops_remainder:
  assumes "remainder_last cm fts r" "CalculateTotal lib cm (fts @ [r]) tx ty = (t1, fts1)"
    and "CalculateTotal lib cm fts1 tx ty = (t2, fts2)"
    and "0 < am_Value (amount_at (tt_fmto t1) (ft_AccountAlias r))"
  shows "tt_total t1 = snd_Value (tx_Send tx) \<and> tt_total t2 = snd_Value (tx_Send tx) \<and>
    am_Value (amount_at (tt_fmto t2) (ft_AccountAlias r)) = 0"
proof -
  let ?t = "fold (total_entry lib cm tx ty) fts (total_init tx ty)"
  have r: "has_remaining cm r" "ft_Amount r = None" "ft_Share r = None"
    and fts: "\<forall>ft \<in> set fts. single_kind cm ft \<and> \<not> has_remaining cm ft"
    using assms(1) by (simp_all add: remainder_last_def list_all_iff)
  have t1: "t1 = total_entry lib cm tx ty r ?t" using assms(2) by (simp add: CalculateTotal_def Let_def)
  have same: "map (\<lambda>ft. if \<not> IsNilOrEmpty cm (ft_Remaining ft) then ft\<lparr>ft_Amount := Some a\<rparr> else ft) fts = fts" for a
    using fts by (intro map_idI) (simp add: has_remaining_def)
  have fts1: "fts1 = fts @ [r\<lparr>ft_Amount := Some (tt_remaining t1)\<rparr>]"
    using assms(2) t1 r(1) same by (simp add: CalculateTotal_def Let_def has_remaining_def)
  have t2: "t2 = total_entry lib cm tx ty (r\<lparr>ft_Amount := Some (tt_remaining t1)\<rparr>) ?t"
    using assms(3) fts1 by (simp add: CalculateTotal_def Let_def)
  note one = remainder_entry [OF r(1) r(3) r(2), of lib tx ty ?t, folded t1]
  have pos: "0 < am_Value (tt_remaining t1)" using assms(4) one(1,3) by simp
  have two: "am_Value (amount_at (tt_fmto t2) (ft_AccountAlias r)) = 0" "tt_total t2 = tt_total ?t + am_Value (tt_remaining ?t)"
    using remainder_entry [of cm "r\<lparr>ft_Amount := Some (tt_remaining t1)\<rparr>" "Some (tt_remaining t1)" lib tx ty ?t] r pos one(3)
    by (simp_all add: t2 has_remaining_def)
  show ?thesis
    using two one(2) total_fold_amounts [OF fts, of lib tx ty "total_init tx ty"] by (simp add: total_init_def)
qed

section \<open>Examples\<close>

definition plain_commons :: commons where
  "plain_commons = \<lparr>IsNilOrEmpty = (\<lambda>s. s = ''''), Contains = (\<lambda>xs x. x \<in> set xs)\<rparr>"

definition sample_entry :: "bool \<Rightarrow> string \<Rightarrow> decimal option \<Rightarrow> int option \<Rightarrow> string \<Rightarrow> FromTo" where
  "sample_entry isFrom alias v share rem =
     FromTo_zero\<lparr>ft_IsFrom := isFrom, ft_AccountAlias := alias,
       ft_Amount := map_option (\<lambda>v. Amount_zero\<lparr>am_Asset := ''BRL'', am_Value := v\<rparr>) v,
       ft_Share := map_option (\<lambda>p. \<lparr>sh_Percentage = p, sh_PercentageOfPercentage = 0\<rparr>) share, ft_Remaining := rem\<rparr>"

definition sample_sources :: "FromTo list" where
  "sample_sources = [sample_entry True ''@a'' (Some 70) None '''', sample_entry True ''@b'' None None ''remaining'']"

definition sample_tx :: "bool \<Rightarrow> Transaction" where
  "sample_tx pending =
     \<lparr>tx_ChartOfAccountsGroupName = '''', tx_Description = '''', tx_Code = '''', tx_Pending = pending, tx_Metadata = None,
      tx_Route = '''', tx_RouteID = None, tx_TransactionDate = None,
      tx_Send = \<lparr>snd_Asset = ''BRL'', snd_Value = 100,
        snd_Source = \<lparr>src_Remaining = '''', src_From = MutateConcatAliases sample_sources\<rparr>,
        snd_Distribute = \<lparr>dst_Remaining = '''', dst_To = MutateConcatAliases
          [sample_entry False ''@c'' None (Some 25) '''', sample_entry False ''@d'' (Some 75) None '''']\<rparr>\<rparr>,
      tx_Skip = None, tx_OperationTypeOverride = ''''\<rparr>"

definition sample_credit :: Balance where
  "sample_credit = Balance_zero\<lparr>bal_Alias := ''@a'', bal_Available := 500, bal_OnHold := 20, bal_Direction := DirectionCredit\<rparr>"

lemma sample_well_formed: "well_formed plain_commons (sample_tx pending)"
  by (cases pending; code_simp)

definition sample_result :: "bool \<Rightarrow> string \<Rightarrow> Transaction \<times> (goerr + Responses)" where
  "sample_result pending ty = ValidateSendSourceAndDistribute exact_lib plain_commons (sample_tx pending) ty"

definition is_Inr :: "'a + 'b \<Rightarrow> bool" where
  "is_Inr x = (case x of Inl _ \<Rightarrow> False | Inr _ \<Rightarrow> True)"

lemma sample_accepted: "is_Inr (snd (sample_result False CREATED))" "is_Inr (snd (sample_result True PENDING))"
  by code_simp+

lemma sample_obtain:
  assumes "is_Inr (snd (sample_result pending ty))"
  obtains tx' r where "ValidateSendSourceAndDistribute exact_lib plain_commons (sample_tx pending) ty = (tx', Inr r)"
    "r = projr (snd (sample_result pending ty))"
  using assms that by (cases "sample_result pending ty"; cases "snd (sample_result pending ty)") (auto simp: is_Inr_def sample_result_def)




theorem concat_split_aliases_witness: "MutateSplitAliases (MutateConcatAliases sample_sources) = sample_sources"
  using concat_split_aliases [of sample_sources] by (simp add: sample_sources_def sample_entry_def)

theorem ValidateBalancesRules_accepts_witness:
  "ValidateBalancesRules (projr (snd (sample_result False CREATED))) [] \<noteq> None"
proof -
  have "length (rsp_From (projr (snd (sample_result False CREATED)))) = 2" by code_simp
  then show ?thesis using ValidateBalancesRules_accepts [of "projr (snd (sample_result False CREATED))" "[]"] by simp
qed

theorem second_resolution_drops_remainder_witness:
  "\<exists>t2 fts2. CalculateTotal exact_lib plain_commons
       (snd (CalculateTotal exact_lib plain_commons sample_sources (sample_tx False) CREATED)) (sample_tx False) CREATED = (t2, fts2) \<and>
     tt_total t2 = 100 \<and> am_Value (amount_at (tt_fmto t2) ''@b'') = 0"
proof -
  let ?one = "CalculateTotal exact_lib plain_commons sample_sources (sample_tx False) CREATED"
  obtain t1 fts1 where c1: "?one = (t1, fts1)" by (cases ?one)
  obtain t2 fts2 where c2: "CalculateTotal exact_lib plain_commons fts1 (sample_tx False) CREATED = (t2, fts2)"
    by (cases "CalculateTotal exact_lib plain_commons fts1 (sample_tx False) CREATED")
  have "am_Value (amount_at (tt_fmto (fst ?one)) ''@b'') = 30" by code_simp
  then have pos: "0 < am_Value (amount_at (tt_fmto t1) (ft_AccountAlias (sample_entry True ''@b'' None None ''remaining'')))"
    using c1 by (simp add: sample_entry_def)
  have rl: "remainder_last plain_commons [sample_entry True ''@a'' (Some 70) None ''''] (sample_entry True ''@b'' None None ''remaining'')"
    by code_simp
  show ?thesis
    using second_resolution_drops_remainder [OF rl _ c2 pos] c1 c2
    by (auto simp: sample_sources_def sample_tx_def sample_entry_def)
qed

end
