(* ===== verification/LedgerOverdraft.thy ===== *)
theory LedgerOverdraft
  imports LedgerTransaction
begin

text \<open>
  Overdraft of a balance: \<^verbatim>\<open>pkg/mtransaction/overdraft.go\<close>. A debit above the available funds
  is split between the balance and its overdraft balance; a credit repays the overdraft first.
  Both splits promise the same: a first half that is capped, and two halves that add up. The
  locale states that promise and both functions interpret it.
\<close>

definition CalculateOverdraftSplit :: "decimal \<Rightarrow> decimal \<Rightarrow> decimal \<times> decimal" where
  "CalculateOverdraftSplit available debitAmount =
     (let debitOnDefault = min available debitAmount;
          debitOnOverdraft = debitAmount - debitOnDefault
      in (debitOnDefault, debitOnOverdraft))"

definition ValidateOverdraftLimit :: "decimal \<Rightarrow> decimal \<Rightarrow> decimal \<Rightarrow> bool \<Rightarrow> goerr option" where
  "ValidateOverdraftLimit currentOverdraftUsed deficit overdraftLimit limitEnabled =
     (if \<not> limitEnabled then None
      else (let projected = currentOverdraftUsed + deficit
            in if overdraftLimit < projected then Some (Business ErrOverdraftLimitExceeded) else None))"

definition DetectOverdraftSplit :: "Amount \<Rightarrow> Balance \<Rightarrow> bool \<times> decimal" where
  "DetectOverdraftSplit amount balance =
     (if bal_Direction balance \<noteq> DirectionCredit then (False, 0)
      else if \<not> bal_AllowOverdraft balance then (False, 0)
      else if am_Operation amount \<noteq> DEBIT then (False, 0)
      else if \<not> bal_Available balance < am_Value amount then (False, 0)
      else (True, am_Value amount - bal_Available balance))"

definition CalculateRefundSplit :: "decimal \<Rightarrow> decimal \<Rightarrow> decimal \<times> decimal" where
  "CalculateRefundSplit creditAmount overdraftUsed =
     (let creditOnOverdraft = min creditAmount overdraftUsed;
          creditOnDefault = creditAmount - creditOnOverdraft
      in (creditOnOverdraft, creditOnDefault))"

definition DetectRefundSplit :: "Amount \<Rightarrow> Balance \<Rightarrow> bool \<times> decimal \<times> bool" where
  "DetectRefundSplit amount balance =
     (if bal_Direction balance \<noteq> DirectionCredit then (False, 0, False)
      else if am_Operation amount \<noteq> CREDIT then (False, 0, False)
      else if \<not> 0 < bal_OverdraftUsed balance then (False, 0, False)
      else (let repayAmount = min (am_Value amount) (bal_OverdraftUsed balance)
            in (True, repayAmount, bal_OverdraftUsed balance - repayAmount = 0)))"

section \<open>The contract of a split\<close>

text \<open>\<open>split cap whole_amount\<close>: a part of \<open>whole_amount\<close> that is at most \<open>cap\<close>, and the rest.\<close>

locale capped_split =
  fixes split :: "decimal \<Rightarrow> decimal \<Rightarrow> decimal \<times> decimal"
  assumes parts: "fst (split cap whole_amount) + snd (split cap whole_amount) = whole_amount"
    and capped: "fst (split cap whole_amount) \<le> cap"
    and rest: "0 \<le> snd (split cap whole_amount)"
    and greedy: "fst (split cap whole_amount) < cap \<Longrightarrow> snd (split cap whole_amount) = 0"
begin

lemma first_le_total: "fst (split cap whole_amount) \<le> whole_amount"
  using parts [of cap whole_amount] rest [of cap whole_amount] by linarith

lemma nonneg: "0 \<le> cap \<Longrightarrow> 0 \<le> whole_amount \<Longrightarrow> 0 \<le> fst (split cap whole_amount)"
  using parts [of cap whole_amount] capped [of cap whole_amount] greedy [of cap whole_amount] by force

lemma whole: "whole_amount \<le> cap \<Longrightarrow> split cap whole_amount = (whole_amount, 0)"
  using parts [of cap whole_amount] greedy [of cap whole_amount] rest [of cap whole_amount] capped [of cap whole_amount]
  by (cases "split cap whole_amount") force

lemma rest_of_more: "cap \<le> whole_amount \<Longrightarrow> split cap whole_amount = (cap, whole_amount - cap)"
  using parts [of cap whole_amount] greedy [of cap whole_amount] capped [of cap whole_amount]
  by (cases "split cap whole_amount") force

text \<open>The contract determines the split.\<close>

lemma unique: "split cap whole_amount = (min cap whole_amount, whole_amount - min cap whole_amount)"
  using whole [of whole_amount cap] rest_of_more [of cap whole_amount] by (cases "whole_amount \<le> cap") (simp_all add: min_def)

end

interpretation overdraft: capped_split CalculateOverdraftSplit
  by unfold_locales (auto simp: CalculateOverdraftSplit_def Let_def min_def)

interpretation refund: capped_split "\<lambda>cap v. CalculateRefundSplit v cap"
  by unfold_locales (auto simp: CalculateRefundSplit_def Let_def min_def split: if_splits)

section \<open>A debit with overdraft and its repayment\<close>

text \<open>
  The balance and its overdraft after a debit that the limit admits, and after a credit. The
  available funds pay first; the deficit is added to the overdraft in use. A credit reduces the
  overdraft in use first.
\<close>

definition overdraw :: "decimal \<Rightarrow> Balance \<Rightarrow> goerr + Balance" where
  "overdraw v b =
     (case CalculateOverdraftSplit (bal_Available b) v of
        (onDefault, onOverdraft) \<Rightarrow>
          (case ValidateOverdraftLimit (bal_OverdraftUsed b) onOverdraft (bal_OverdraftLimit b) (bal_OverdraftLimitEnabled b) of
             Some e \<Rightarrow> Inl e
           | None \<Rightarrow> Inr (b\<lparr>bal_Available := bal_Available b - onDefault, bal_OverdraftUsed := bal_OverdraftUsed b + onOverdraft\<rparr>)))"

definition repay :: "decimal \<Rightarrow> Balance \<Rightarrow> Balance" where
  "repay v b =
     (case CalculateRefundSplit v (bal_OverdraftUsed b) of
        (onOverdraft, onDefault) \<Rightarrow>
          b\<lparr>bal_Available := bal_Available b + onDefault, bal_OverdraftUsed := bal_OverdraftUsed b - onOverdraft\<rparr>)"

definition net_position :: "Balance \<Rightarrow> decimal" where
  "net_position b = bal_Available b - bal_OverdraftUsed b"

text \<open>A balance in order: not negative, overdraft within its limit, and not both funds and overdraft.\<close>

definition overdraft_ok :: "Balance \<Rightarrow> bool" where
  "overdraft_ok b =
     (0 \<le> bal_Available b \<and> 0 \<le> bal_OverdraftUsed b \<and> (bal_OverdraftLimitEnabled b \<longrightarrow> bal_OverdraftUsed b \<le> bal_OverdraftLimit b) \<and>
      (0 < bal_OverdraftUsed b \<longrightarrow> bal_Available b = 0))"

lemma overdraw_Inr:
  assumes "overdraw v b = Inr b'" "overdraft_ok b" "0 \<le> v"
  shows "overdraft_ok b'" "net_position b' = net_position b - v"
proof -
  have u: "CalculateOverdraftSplit (bal_Available b) v = (min (bal_Available b) v, v - min (bal_Available b) v)"
    by (rule overdraft.unique)
  show "overdraft_ok b'" using assms
    by (auto simp: overdraw_def u overdraft_ok_def ValidateOverdraftLimit_def Let_def min_def split: if_splits option.splits)
  show "net_position b' = net_position b - v" using assms(1)
    by (auto simp: overdraw_def u net_position_def split: option.splits)
qed

lemma repay_ok:
  assumes "overdraft_ok b" "0 \<le> v"
  shows "overdraft_ok (repay v b)" "net_position (repay v b) = net_position b + v"
proof -
  have u: "CalculateRefundSplit v (bal_OverdraftUsed b) = (min (bal_OverdraftUsed b) v, v - min (bal_OverdraftUsed b) v)"
    by (rule refund.unique)
  show "overdraft_ok (repay v b)" using assms by (auto simp: repay_def u overdraft_ok_def min_def)
  show "net_position (repay v b) = net_position b + v" by (simp add: repay_def u net_position_def)
qed

lemma net_position_eq:
  assumes "overdraft_ok b" "overdraft_ok b'" "net_position b = net_position b'"
  shows "bal_Available b = bal_Available b' \<and> bal_OverdraftUsed b = bal_OverdraftUsed b'"
  using assms by (auto simp: overdraft_ok_def net_position_def less_le)

text \<open>
  The two splits keep a balance in order and are inverse to each other: a debit that the
  overdraft limit admits keeps the available funds and the overdraft in use nonnegative, the use
  within the limit, and never leaves funds beside overdraft; it lowers the net position by exactly
  its amount; and a credit of the same amount afterwards restores both figures.
\<close>

theorem overdraw_then_repay:
  assumes "overdraft_ok b" "0 \<le> v" "overdraw v b = Inr b'"
  shows "overdraft_ok b' \<and> net_position b' = net_position b - v \<and> overdraft_ok (repay v b') \<and> repay v b' = b"
proof -
  note o = overdraw_Inr [OF assms(3,1,2)]
  note r = repay_ok [OF o(1) assms(2)]
  have "bal_Available (repay v b') = bal_Available b \<and> bal_OverdraftUsed (repay v b') = bal_OverdraftUsed b"
    using r o(2) assms(1) by (intro net_position_eq) simp_all
  moreover have "b' = b\<lparr>bal_Available := bal_Available b', bal_OverdraftUsed := bal_OverdraftUsed b'\<rparr>"
    using assms(3) by (auto simp: overdraw_def split: prod.splits option.splits)
  then have "repay v b' = b\<lparr>bal_Available := bal_Available (repay v b'), bal_OverdraftUsed := bal_OverdraftUsed (repay v b')\<rparr>"
    by (cases b; cases b') (auto simp: repay_def split: prod.splits)
  ultimately show ?thesis using o r by simp
qed

text \<open>
  The detectors agree with the splits: an overdraft split is signalled exactly for a debit of a
  credit balance with overdraft enabled that leaves something for the overdraft balance, and
  then reports that deficit; a refund split is signalled exactly for a credit of a credit balance
  with overdraft in use, reports the part that the split repays, and says that the overdraft is
  cleared exactly when nothing of it is left.
\<close>

theorem detectors_agree_with_splits:
  "DetectOverdraftSplit a b =
     (if bal_Direction b = DirectionCredit \<and> bal_AllowOverdraft b \<and> am_Operation a = DEBIT \<and>
         0 < snd (CalculateOverdraftSplit (bal_Available b) (am_Value a))
      then (True, snd (CalculateOverdraftSplit (bal_Available b) (am_Value a))) else (False, 0)) \<and>
   DetectRefundSplit a b =
     (if bal_Direction b = DirectionCredit \<and> am_Operation a = CREDIT \<and> 0 < bal_OverdraftUsed b
      then (True, fst (CalculateRefundSplit (am_Value a) (bal_OverdraftUsed b)),
            bal_OverdraftUsed (repay (am_Value a) b) = 0)
      else (False, 0, False))"
proof -
  note u = overdraft.unique [of "bal_Available b" "am_Value a"] and w = refund.unique [of "am_Value a" "bal_OverdraftUsed b"]
  have "DetectOverdraftSplit a b =
     (if bal_Direction b = DirectionCredit \<and> bal_AllowOverdraft b \<and> am_Operation a = DEBIT \<and>
         0 < snd (CalculateOverdraftSplit (bal_Available b) (am_Value a))
      then (True, snd (CalculateOverdraftSplit (bal_Available b) (am_Value a))) else (False, 0))"
    by (simp add: DetectOverdraftSplit_def u min_def)
  moreover have "DetectRefundSplit a b =
     (if bal_Direction b = DirectionCredit \<and> am_Operation a = CREDIT \<and> 0 < bal_OverdraftUsed b
      then (True, fst (CalculateRefundSplit (am_Value a) (bal_OverdraftUsed b)),
            bal_OverdraftUsed (repay (am_Value a) b) = 0)
      else (False, 0, False))"
    using w by (simp add: DetectRefundSplit_def repay_def Let_def min.commute)
  ultimately show ?thesis by blast
qed

section \<open>Examples\<close>

definition sample_overdraft :: Balance where
  "sample_overdraft = sample_credit\<lparr>bal_AllowOverdraft := True, bal_OverdraftLimitEnabled := True, bal_OverdraftLimit := 300\<rparr>"

theorem overdraw_then_repay_witness:
  "\<exists>b'. overdraw 600 sample_overdraft = Inr b' \<and> bal_OverdraftUsed b' = 100 \<and> repay 600 b' = sample_overdraft"
proof -
  have d: "overdraw 600 sample_overdraft = Inr (sample_overdraft\<lparr>bal_Available := 0, bal_OverdraftUsed := 100\<rparr>)"
    by (simp add: overdraw_def CalculateOverdraftSplit_def ValidateOverdraftLimit_def sample_overdraft_def sample_credit_def Balance_zero_def)
  have "overdraft_ok sample_overdraft" by (simp add: overdraft_ok_def sample_overdraft_def sample_credit_def Balance_zero_def)
  from overdraw_then_repay [OF this _ d] d show ?thesis by auto
qed

end
