(* ===== verification/LedgerFees.thy ===== *)
theory LedgerFees
  imports LedgerOverdraft
begin

text \<open>
  The fee engine of the ledger: \<^verbatim>\<open>components/ledger/pkg/fee/calculate-fee.go\<close>, \<^verbatim>\<open>distribute.go\<close>,
  \<^verbatim>\<open>segment-resolution.go\<close> and the data of \<^verbatim>\<open>pkg/feeshared/model/package.go\<close>. A package is a set
  of fees; each is computed from the value of the transaction and spread over the accounts of one
  side in proportion to their amounts. The legs of a fee are entries of the maps of the validated
  transaction, under keys derived from the account they belong to.

  The resolver of accounts is an interface of the code; the function \<open>sg_Resolver\<close> stands for its
  \<^verbatim>\<open>GetAccountByAlias\<close> with the organization and ledger of the context. The context with its cache of
  resolved accounts is threaded through every call that may resolve one. A function that fails
  returns its error only: its callers drop the maps that it has been filling.
  A dereference of a nil pointer is the error \<open>nil_dereference\<close>.
\<close>

section \<open>Data\<close>

definition FeeTypeFlat :: string where [simp]: "FeeTypeFlat = ''flat''"
definition FeeTypePercentage :: string where [simp]: "FeeTypePercentage = ''percentage''"
definition ReferenceAmountOriginalAmount :: string where [simp]: "ReferenceAmountOriginalAmount = ''originalAmount''"
definition ReferenceAmountAfterFeesAmount :: string where [simp]: "ReferenceAmountAfterFeesAmount = ''afterFeesAmount''"
definition AppRuleMaxBetweenTypes :: string where [simp]: "AppRuleMaxBetweenTypes = ''maxBetweenTypes''"
definition AppRuleFlatFee :: string where [simp]: "AppRuleFlatFee = ''flatFee''"
definition AppRulePercentual :: string where [simp]: "AppRulePercentual = ''percentual''"
definition SuffixFeeSource :: string where "SuffixFeeSource = ''->fee_source''"
definition DefaultCurrencyBRL :: string where "DefaultCurrencyBRL = ''BRL''"
definition segmentPrefix :: string where "segmentPrefix = ''segment:''"

definition nil_dereference :: goerr where "nil_dereference = Errorf ''nil pointer dereference''"

record Calculation =
  calc_Type :: string
  calc_Value :: string

record CalculationModel =
  cmod_ApplicationRule :: string
  cmod_Calculations :: "Calculation list"

record Fee =
  fee_FeeLabel :: string
  fee_CalculationModel :: "CalculationModel option"
  fee_ReferenceAmount :: string
  fee_Priority :: int
  fee_IsDeductibleFrom :: "bool option"
  fee_CreditAccount :: string
  fee_RouteFrom :: "string option"
  fee_RouteTo :: "string option"

definition GetIsDeductibleFrom :: "Fee \<Rightarrow> bool" where
  "GetIsDeductibleFrom f = (case fee_IsDeductibleFrom f of None \<Rightarrow> False | Some b \<Rightarrow> b)"

definition GetRouteFrom :: "Fee \<Rightarrow> string" where
  "GetRouteFrom f = (case fee_RouteFrom f of None \<Rightarrow> '''' | Some r \<Rightarrow> r)"

definition GetRouteTo :: "Fee \<Rightarrow> string" where
  "GetRouteTo f = (case fee_RouteTo f of None \<Rightarrow> '''' | Some r \<Rightarrow> r)"

record Package =
  pk_ID :: uuid
  pk_FeeGroupLabel :: string
  pk_Description :: "string option"
  pk_SegmentID :: "uuid option"
  pk_LedgerID :: uuid
  pk_TransactionRoute :: "string option"
  pk_MinimumAmount :: decimal
  pk_MaximumAmount :: decimal
  pk_WaivedAccounts :: "string list option"
  pk_Fees :: "(string, Fee) gomap"
  pk_Enable :: "bool option"
  pk_CreatedAt :: time
  pk_UpdatedAt :: time
  pk_DeletedAt :: "time option"

record FeeCalculate =
  fc_SegmentID :: "uuid option"
  fc_LedgerID :: uuid
  fc_Transaction :: Transaction

record AccountStatus =
  as_Code :: string
  as_Description :: string

record FeeAccount =
  fa_ID :: string
  fa_Alias :: string
  fa_SegmentID :: "uuid option"
  fa_PortfolioID :: "uuid option"
  fa_Status :: "AccountStatus option"
  fa_Type :: string

record FeeSegmentContext =
  sg_Resolver :: "(string \<Rightarrow> goerr + FeeAccount option) option"
  sg_ResolverCache :: "(string, FeeAccount option) gomap option"

type_synonym amounts = "(string, Amount) gomap"

section \<open>Exempt accounts\<close>

definition isSegmentReference :: "extlib \<Rightarrow> string \<Rightarrow> goerr + uuid option" where
  "isSegmentReference lib entry =
     (if \<not> has_prefix segmentPrefix entry then Inr None
      else (case uuid_Parse lib (drop (length segmentPrefix) entry) of
              None \<Rightarrow> Inl (Wrapped ''malformed segment waiver'' (Errorf ''invalid UUID''))
            | Some i \<Rightarrow> Inr (Some i)))"

fun resolve_waived :: "extlib \<Rightarrow> string list \<Rightarrow> string list \<Rightarrow> uuid list \<Rightarrow> goerr + string list \<times> uuid list" where
  "resolve_waived lib [] directAliases segmentIDs = Inr (directAliases, segmentIDs)"
| "resolve_waived lib (entry # es) directAliases segmentIDs =
     (case isSegmentReference lib entry of
        Inl e \<Rightarrow> Inl e
      | Inr (Some segID) \<Rightarrow> resolve_waived lib es directAliases (segmentIDs @ [segID])
      | Inr None \<Rightarrow> resolve_waived lib es (directAliases @ [entry]) segmentIDs)"

definition resolveSegmentWaivedAccounts :: "extlib \<Rightarrow> string list \<Rightarrow> goerr + string list \<times> uuid list" where
  "resolveSegmentWaivedAccounts lib waivedAccounts = resolve_waived lib waivedAccounts [] []"

definition trimFeeSuffix :: "string \<Rightarrow> string" where
  "trimFeeSuffix s = (case go_index ''->'' s of Some i \<Rightarrow> take i s | None \<Rightarrow> s)"

text \<open>The list is never nil where the code calls it.\<close>

definition isAccountExempt :: "string \<Rightarrow> string list \<Rightarrow> bool" where
  "isAccountExempt account exemptAccounts = list_ex (\<lambda>e. account = e) exemptAccounts"

type_synonym 'a seg_result = "FeeSegmentContext option \<times> (goerr + 'a)"

definition resolveAccountCached ::
  "string \<Rightarrow> (string \<Rightarrow> goerr + FeeAccount option) \<Rightarrow> FeeSegmentContext \<Rightarrow> FeeSegmentContext \<times> (goerr + FeeAccount option)" where
  "resolveAccountCached account resolver segCtx =
     (let key = TrimSpace account in
      case Option.bind (sg_ResolverCache segCtx) (\<lambda>cache. map_of cache key) of
        Some cached \<Rightarrow> (segCtx, Inr cached)
      | None \<Rightarrow>
        (case resolver account of
           Inl e \<Rightarrow> (segCtx, Inl (Wrapped ''segment resolution failed for account'' e))
         | Inr accountDetails \<Rightarrow>
           (segCtx\<lparr>sg_ResolverCache := map_option (AList.update key accountDetails) (sg_ResolverCache segCtx)\<rparr>,
            Inr accountDetails)))"

definition isAccountExemptWithSegments ::
  "string \<Rightarrow> string list \<Rightarrow> uuid list \<Rightarrow> (string \<Rightarrow> goerr + FeeAccount option) option \<Rightarrow> FeeSegmentContext
   \<Rightarrow> FeeSegmentContext \<times> (goerr + bool)" where
  "isAccountExemptWithSegments account directAliases segmentIDs resolver segCtx =
     (if isAccountExempt account directAliases then (segCtx, Inr True)
      else if has_prefix ''@external/'' account then (segCtx, Inr False)
      else if length segmentIDs = 0 then (segCtx, Inr False)
      else (case resolver of None \<Rightarrow> (segCtx, Inr False)
            | Some resolver \<Rightarrow>
              (case resolveAccountCached account resolver segCtx of
                 (segCtx', Inl e) \<Rightarrow> (segCtx', Inl e)
               | (segCtx', Inr None) \<Rightarrow> (segCtx', Inr False)
               | (segCtx', Inr (Some a)) \<Rightarrow>
                 (segCtx', Inr (case fa_SegmentID a of None \<Rightarrow> False | Some s \<Rightarrow> list_ex (\<lambda>segID. s = segID) segmentIDs)))))"

definition isAccountExemptOrSegment ::
  "string \<Rightarrow> string list \<Rightarrow> uuid list \<Rightarrow> FeeSegmentContext option \<Rightarrow> bool seg_result" where
  "isAccountExemptOrSegment account exemptAccounts segmentIDs segCtx =
     (let account = trimFeeSuffix account in
      if 0 < length segmentIDs then
        (case segCtx of
           None \<Rightarrow> (None, Inl (Business ErrMissingSegmentContext))
         | Some sg \<Rightarrow>
           if sg_Resolver sg = None then (Some sg, Inl (Business ErrMissingSegmentContext))
           else (case isAccountExemptWithSegments account exemptAccounts segmentIDs (sg_Resolver sg) sg of
                   (sg', r) \<Rightarrow> (Some sg', r)))
      else (segCtx, Inr (isAccountExempt account exemptAccounts)))"

fun all_exempt_loop :: "amounts \<Rightarrow> string list \<Rightarrow> uuid list \<Rightarrow> FeeSegmentContext option \<Rightarrow> bool seg_result" where
  "all_exempt_loop [] exemptAccounts segmentIDs segCtx = (segCtx, Inr True)"
| "all_exempt_loop ((key, a) # accounts) exemptAccounts segmentIDs segCtx =
     (case isAccountExemptOrSegment key exemptAccounts segmentIDs segCtx of
        (segCtx', Inl e) \<Rightarrow> (segCtx', Inl e)
      | (segCtx', Inr exempt) \<Rightarrow>
        if \<not> exempt then (segCtx', Inr False) else all_exempt_loop accounts exemptAccounts segmentIDs segCtx')"

definition allAccountsExempt :: "amounts \<Rightarrow> string list \<Rightarrow> uuid list \<Rightarrow> FeeSegmentContext option \<Rightarrow> bool seg_result" where
  "allAccountsExempt accounts exemptAccounts segmentIDs segCtx =
     (if length accounts = 0 then (segCtx, Inr False) else all_exempt_loop accounts exemptAccounts segmentIDs segCtx)"

section \<open>The value of a fee\<close>

definition fee_amount :: "string \<Rightarrow> decimal \<Rightarrow> Amount" where
  "fee_amount asset v = Amount_zero\<lparr>am_Asset := asset, am_Value := v\<rparr>"

definition selectReferenceAmount :: "Fee \<Rightarrow> decimal \<Rightarrow> decimal \<Rightarrow> decimal" where
  "selectReferenceAmount fee currentValue originalValue =
     (if fee_ReferenceAmount fee = ReferenceAmountAfterFeesAmount then currentValue else originalValue)"

definition findPercentualOfValue :: "extlib \<Rightarrow> decimal \<Rightarrow> decimal \<Rightarrow> string \<Rightarrow> Amount" where
  "findPercentualOfValue lib feeValue transactionValue feeAsset =
     (let percentConverted = dec_Div lib feeValue 100 in fee_amount feeAsset (transactionValue * percentConverted))"

fun max_between_loop ::
  "extlib \<Rightarrow> Calculation list \<Rightarrow> decimal \<Rightarrow> string \<Rightarrow> decimal \<Rightarrow> Amount \<Rightarrow> goerr + Amount" where
  "max_between_loop lib [] valueToCalculate feeAsset maxValue maxAmount = Inr maxAmount"
| "max_between_loop lib (calc # calcs) valueToCalculate feeAsset maxValue maxAmount =
     (if calc_Type calc = FeeTypeFlat then
        (case dec_NewFromString lib (calc_Value calc) of
           None \<Rightarrow> Inl (Business ErrApplicationRule)
         | Some realValue \<Rightarrow>
           if maxValue < realValue then max_between_loop lib calcs valueToCalculate feeAsset realValue (fee_amount feeAsset realValue)
           else max_between_loop lib calcs valueToCalculate feeAsset maxValue maxAmount)
      else if calc_Type calc = FeeTypePercentage then
        (case dec_NewFromString lib (calc_Value calc) of
           None \<Rightarrow> Inl (Business ErrApplicationRule)
         | Some percentValue \<Rightarrow>
           (let resultAmount = findPercentualOfValue lib percentValue valueToCalculate feeAsset in
            if maxValue < am_Value resultAmount
            then max_between_loop lib calcs valueToCalculate feeAsset (am_Value resultAmount) resultAmount
            else max_between_loop lib calcs valueToCalculate feeAsset maxValue maxAmount))
      else Inl (Business ErrApplicationRule))"

definition calculateMaxBetweenTypesFee :: "extlib \<Rightarrow> CalculationModel \<Rightarrow> decimal \<Rightarrow> string \<Rightarrow> goerr + Amount" where
  "calculateMaxBetweenTypesFee lib cm valueToCalculate feeAsset =
     max_between_loop lib (cmod_Calculations cm) valueToCalculate feeAsset 0 Amount_zero"

definition calculateFlatFee :: "extlib \<Rightarrow> CalculationModel \<Rightarrow> string \<Rightarrow> goerr + Amount" where
  "calculateFlatFee lib cm feeAsset =
     (case cmod_Calculations cm of
        [] \<Rightarrow> Inl (Business ErrCalculationRequired)
      | calc # _ \<Rightarrow>
        (case dec_NewFromString lib (calc_Value calc) of
           None \<Rightarrow> Inl (Business ErrApplicationRule) | Some v \<Rightarrow> Inr (fee_amount feeAsset v)))"

definition calculatePercentualFee :: "extlib \<Rightarrow> CalculationModel \<Rightarrow> decimal \<Rightarrow> string \<Rightarrow> goerr + Amount" where
  "calculatePercentualFee lib cm valueToCalculate feeAsset =
     (case cmod_Calculations cm of
        [] \<Rightarrow> Inl (Business ErrCalculationRequired)
      | calc # _ \<Rightarrow>
        (case dec_NewFromString lib (calc_Value calc) of
           None \<Rightarrow> Inl (Business ErrApplicationRule)
         | Some percentValue \<Rightarrow> Inr (findPercentualOfValue lib percentValue valueToCalculate feeAsset)))"

section \<open>Distribution over the accounts\<close>

definition exemptionMessages :: "(string, string) gomap" where
  "exemptionMessages =
     [(''all_source_accounts_exempt'', ''All source accounts are exempt from fees.''),
      (''all_destination_accounts_exempt'', ''All destination accounts are exempt from fees.''),
      (''all_accounts_exempt'', ''All accounts (source and destination) are exempt from fees.'')]"

definition any_string :: "jany option \<Rightarrow> string" where
  "any_string v = (case v of Some (JStr s) \<Rightarrow> s | _ \<Rightarrow> '''')"

definition setFeeExemptionMetadata :: "FeeCalculate \<Rightarrow> string \<Rightarrow> FeeCalculate" where
  "setFeeExemptionMetadata f reason0 =
     (let metadata = (case tx_Metadata (fc_Transaction f) of None \<Rightarrow> [] | Some m \<Rightarrow> m);
          reason =
            (case map_of metadata ''feeExemption'' of
               Some (JObj exemptionMap) \<Rightarrow>
                 (let existingReason = any_string (map_of exemptionMap ''reason'') in
                  if existingReason \<noteq> reason0 \<and> existingReason \<noteq> ''all_accounts_exempt'' then ''all_accounts_exempt''
                  else existingReason)
             | _ \<Rightarrow> reason0);
          message = (case map_of exemptionMessages reason of None \<Rightarrow> '''' | Some s \<Rightarrow> s);
          exemption = JObj [(''exempt'', JBool True), (''reason'', JStr reason), (''message'', JStr message)]
      in f\<lparr>fc_Transaction := (fc_Transaction f)\<lparr>tx_Metadata := Some (AList.update ''feeExemption'' exemption metadata)\<rparr>\<rparr>)"

definition processAccount :: "string \<Rightarrow> string \<times> (string, jany) gomap" where
  "processAccount account =
     (let parts = go_split ''->'' account in
      if 3 \<le> length parts \<and> contains (parts ! 1) ''fee_source''
      then (parts ! 0, [(''source'', JStr (parts ! 2))])
      else (account, []))"

definition fee_entry :: "string \<times> Amount \<Rightarrow> FromTo" where
  "fee_entry p =
     (let account = fst p; amount = snd p;
          parts = go_split ''->'' account;
          (cleanAccount, metadata) =
            (if contains account SuffixFeeSource then processAccount account else (trimFeeSuffix account, []));
          route = (if 2 < length parts \<and> last parts \<noteq> '''' then last parts else '''')
      in FromTo_zero\<lparr>ft_AccountAlias := cleanAccount, ft_Amount := Some (fee_amount (am_Asset amount) (am_Value amount)),
           ft_Metadata := (if 0 < length metadata then Some metadata else None), ft_Route := route\<rparr>)"

definition updatedAmountsFromFee :: "amounts \<Rightarrow> FromTo list" where
  "updatedAmountsFromFee amounts = map fee_entry amounts"

fun find_max_loop ::
  "amounts \<Rightarrow> string list \<Rightarrow> uuid list \<Rightarrow> FeeSegmentContext option \<Rightarrow> decimal \<Rightarrow> string \<Rightarrow> string seg_result" where
  "find_max_loop [] exemptAccounts segmentIDs segCtx maxAmountValue maxAccount = (segCtx, Inr maxAccount)"
| "find_max_loop ((key, amount) # amounts) exemptAccounts segmentIDs segCtx maxAmountValue maxAccount =
     (case isAccountExemptOrSegment key exemptAccounts segmentIDs segCtx of
        (segCtx', Inl e) \<Rightarrow> (segCtx', Inl e)
      | (segCtx', Inr exempt) \<Rightarrow>
        if \<not> exempt \<and> maxAmountValue \<le> am_Value amount
        then find_max_loop amounts exemptAccounts segmentIDs segCtx' (am_Value amount) key
        else find_max_loop amounts exemptAccounts segmentIDs segCtx' maxAmountValue maxAccount)"

definition findMaxAccount :: "amounts \<Rightarrow> string list \<Rightarrow> uuid list \<Rightarrow> FeeSegmentContext option \<Rightarrow> string seg_result" where
  "findMaxAccount amounts exemptAccounts segmentIDs segCtx =
     find_max_loop amounts exemptAccounts segmentIDs segCtx 0 ''''"

record feeCorrectionTarget =
  ct_debitLegKey :: string
  ct_creditLegKey :: string
  ct_payerKey :: string
  ct_found :: bool

definition feeCorrectionTarget_zero :: feeCorrectionTarget where
  "feeCorrectionTarget_zero = \<lparr>ct_debitLegKey = '''', ct_creditLegKey = '''', ct_payerKey = '''', ct_found = False\<rparr>"

text \<open>
  The variables of the distributing loop: the two maps under construction, the total distributed
  so far, and what the loop writes through pointers, namely the exempt accounts and the target.
\<close>

record distribution =
  di_updateAmount :: amounts
  di_updateAmountToStruct :: amounts
  di_newFeeTotalPaying :: decimal
  di_exemptAccounts :: "string list"
  di_target :: feeCorrectionTarget

definition feeSourceKey :: "Fee \<Rightarrow> nat \<Rightarrow> string \<Rightarrow> string" where
  "feeSourceKey feeModel feeIndex key =
     fee_CreditAccount feeModel @ ''->fee_source'' @ Itoa (int feeIndex) @ ''->'' @ key @ ''->'' @ GetRouteTo feeModel"

definition debitLegKey :: "Fee \<Rightarrow> nat \<Rightarrow> string \<Rightarrow> string" where
  "debitLegKey feeModel feeIndex key = key @ ''->fee'' @ Itoa (int feeIndex) @ ''->'' @ GetRouteFrom feeModel"

definition emitDeductibleLeg ::
  "Fee \<Rightarrow> nat \<Rightarrow> string \<Rightarrow> Amount \<Rightarrow> Amount \<Rightarrow> string \<Rightarrow> distribution \<Rightarrow> Amount \<times> distribution" where
  "emitDeductibleLeg feeModel feeIndex key amount resultAmount maxAccount d =
     (let legKey = feeSourceKey feeModel feeIndex key;
          d1 = d\<lparr>di_updateAmount := AList.update legKey resultAmount (di_updateAmount d),
                 di_exemptAccounts := di_exemptAccounts d @ [legKey]\<rparr>;
          d2 = (if key = maxAccount
                then d1\<lparr>di_target := (di_target d1)\<lparr>ct_debitLegKey := legKey, ct_payerKey := key, ct_found := True\<rparr>\<rparr>
                else d1)
      in (amount\<lparr>am_Value := am_Value amount - am_Value resultAmount\<rparr>, d2))"

definition emitNonDeductibleLeg ::
  "Fee \<Rightarrow> nat \<Rightarrow> string \<Rightarrow> Amount \<Rightarrow> string \<Rightarrow> distribution \<Rightarrow> distribution" where
  "emitNonDeductibleLeg feeModel feeIndex key resultAmount maxAccount d =
     (let debit = debitLegKey feeModel feeIndex key;
          credit = feeSourceKey feeModel feeIndex key;
          d1 = d\<lparr>di_updateAmount := AList.update debit resultAmount (di_updateAmount d),
                 di_updateAmountToStruct := AList.update credit resultAmount (di_updateAmountToStruct d),
                 di_exemptAccounts := di_exemptAccounts d @ [credit, debit]\<rparr>
      in if key = maxAccount
         then d1\<lparr>di_target := (di_target d1)\<lparr>ct_debitLegKey := debit, ct_creditLegKey := credit, ct_found := True\<rparr>\<rparr>
         else d1)"

fun total_paying :: "amounts \<Rightarrow> string list \<Rightarrow> uuid list \<Rightarrow> FeeSegmentContext option \<Rightarrow> decimal \<Rightarrow> decimal seg_result" where
  "total_paying [] exemptAccounts segmentIDs segCtx totalPaying = (segCtx, Inr totalPaying)"
| "total_paying ((key, amount) # amounts) exemptAccounts segmentIDs segCtx totalPaying =
     (case isAccountExemptOrSegment key exemptAccounts segmentIDs segCtx of
        (segCtx', Inl e) \<Rightarrow> (segCtx', Inl e)
      | (segCtx', Inr exempt) \<Rightarrow>
        total_paying amounts exemptAccounts segmentIDs segCtx' (if \<not> exempt then totalPaying + am_Value amount else totalPaying))"

text \<open>One non-exempt payer of the second loop: the fee it bears and the legs of that fee.\<close>

definition charge ::
  "extlib \<Rightarrow> Fee \<Rightarrow> nat \<Rightarrow> Amount \<Rightarrow> bool \<Rightarrow> string \<Rightarrow> decimal \<Rightarrow> string \<Rightarrow> Amount \<Rightarrow> distribution
   \<Rightarrow> goerr + Amount \<times> distribution" where
  "charge lib feeModel feeIndex feeValue isToStruct maxAccount totalPaying key amount d =
     (let proportionalFeePercent = dec_Div lib (am_Value amount) totalPaying;
          feeApplied = am_Value feeValue * proportionalFeePercent;
          resultAmount = fee_amount (am_Asset feeValue) feeApplied;
          account = (\<lambda>d. d\<lparr>di_newFeeTotalPaying := di_newFeeTotalPaying d + feeApplied\<rparr>)
      in if isToStruct then
           if am_Value amount \<le> feeApplied then Inl (Business ErrDeductibleFeeExceedsAmount)
           else (case emitDeductibleLeg feeModel feeIndex key amount resultAmount maxAccount d of
                   (amount', d') \<Rightarrow> Inr (amount', account d'))
         else Inr (amount, account (emitNonDeductibleLeg feeModel feeIndex key resultAmount maxAccount d)))"

fun distribute_loop ::
  "extlib \<Rightarrow> Fee \<Rightarrow> nat \<Rightarrow> Amount \<Rightarrow> uuid list \<Rightarrow> bool \<Rightarrow> string \<Rightarrow> decimal \<Rightarrow> amounts \<Rightarrow> FeeSegmentContext option
   \<Rightarrow> distribution \<Rightarrow> distribution seg_result" where
  "distribute_loop lib feeModel feeIndex feeValue segmentIDs isToStruct maxAccount totalPaying [] segCtx d = (segCtx, Inr d)"
| "distribute_loop lib feeModel feeIndex feeValue segmentIDs isToStruct maxAccount totalPaying ((key, amount) # amounts) segCtx d =
     (case isAccountExemptOrSegment key (di_exemptAccounts d) segmentIDs segCtx of
        (segCtx', Inl e) \<Rightarrow> (segCtx', Inl e)
      | (segCtx', Inr exempt) \<Rightarrow>
        (case (if exempt then Inr (amount, d)
               else charge lib feeModel feeIndex feeValue isToStruct maxAccount totalPaying key amount d) of
           Inl e \<Rightarrow> (segCtx', Inl e)
         | Inr (amount', d') \<Rightarrow>
           distribute_loop lib feeModel feeIndex feeValue segmentIDs isToStruct maxAccount totalPaying amounts segCtx'
             (d'\<lparr>di_updateAmount := AList.update key amount' (di_updateAmount d')\<rparr>)))"

definition calculateProportionalFees ::
  "extlib \<Rightarrow> Fee \<Rightarrow> nat \<Rightarrow> amounts \<Rightarrow> amounts \<Rightarrow> Amount \<Rightarrow> string list \<Rightarrow> uuid list \<Rightarrow> FeeSegmentContext option \<Rightarrow> bool
   \<Rightarrow> string \<Rightarrow> distribution seg_result" where
  "calculateProportionalFees lib feeModel feeIndex amounts amountsToStruct feeValue exemptAccounts segmentIDs segCtx
     isToStruct maxAccount =
     (let d = \<lparr>di_updateAmount = [], di_updateAmountToStruct = amountsToStruct, di_newFeeTotalPaying = 0,
               di_exemptAccounts = exemptAccounts, di_target = feeCorrectionTarget_zero\<rparr>
      in case total_paying amounts exemptAccounts segmentIDs segCtx 0 of
           (segCtx', Inl e) \<Rightarrow> (segCtx', Inl e)
         | (segCtx', Inr totalPaying) \<Rightarrow>
           if totalPaying = 0 then (segCtx', Inr (d\<lparr>di_updateAmount := amounts\<rparr>))
           else distribute_loop lib feeModel feeIndex feeValue segmentIDs isToStruct maxAccount totalPaying amounts segCtx' d)"

definition add_to_leg :: "string \<Rightarrow> decimal \<Rightarrow> amounts \<Rightarrow> amounts" where
  "add_to_leg key delta m =
     (case map_of m key of None \<Rightarrow> m | Some leg \<Rightarrow> AList.update key (leg\<lparr>am_Value := am_Value leg + delta\<rparr>) m)"

definition applyFeeCorrection :: "Amount \<Rightarrow> bool \<Rightarrow> distribution \<Rightarrow> distribution" where
  "applyFeeCorrection feeValue isToStruct d =
     (let target = di_target d;
          delta = am_Value feeValue - di_newFeeTotalPaying d;
          debit = add_to_leg (ct_debitLegKey target) delta (di_updateAmount d)
      in if \<not> ct_found target then d
         else if delta = 0 then d
         else if map_of (di_updateAmount d) (ct_debitLegKey target) = None then d
         else if isToStruct then d\<lparr>di_updateAmount := add_to_leg (ct_payerKey target) (- delta) debit\<rparr>
         else d\<lparr>di_updateAmount := debit,
                di_updateAmountToStruct := add_to_leg (ct_creditLegKey target) delta (di_updateAmountToStruct d)\<rparr>)"

definition applyProportionalFee ::
  "extlib \<Rightarrow> Fee \<Rightarrow> nat \<Rightarrow> amounts \<Rightarrow> amounts \<Rightarrow> Amount \<Rightarrow> string list \<Rightarrow> uuid list \<Rightarrow> FeeSegmentContext option \<Rightarrow> bool
   \<Rightarrow> distribution seg_result" where
  "applyProportionalFee lib feeModel feeIndex amounts amountsToStruct feeValue exemptAccounts segmentIDs segCtx isToStruct =
     (case findMaxAccount amounts exemptAccounts segmentIDs segCtx of
        (segCtx1, Inl e) \<Rightarrow> (segCtx1, Inl e)
      | (segCtx1, Inr maxAccount) \<Rightarrow>
        (case calculateProportionalFees lib feeModel feeIndex amounts amountsToStruct feeValue exemptAccounts segmentIDs
                segCtx1 isToStruct maxAccount of
           (segCtx2, Inl e) \<Rightarrow> (segCtx2, Inl e)
         | (segCtx2, Inr d) \<Rightarrow> (segCtx2, Inr (applyFeeCorrection feeValue isToStruct d))))"

section \<open>All fees of a package\<close>

text \<open>What the loop over the fees changes: the transaction, its maps, and the exempt accounts.\<close>

record fee_state =
  fs_f :: FeeCalculate
  fs_resp :: Responses
  fs_waivedAccounts :: "string list"

definition add_credit_account :: "Fee \<Rightarrow> fee_state \<Rightarrow> fee_state" where
  "add_credit_account feeModel s = s\<lparr>fs_waivedAccounts := fs_waivedAccounts s @ [fee_CreditAccount feeModel]\<rparr>"

definition note_exemption :: "bool \<Rightarrow> string \<Rightarrow> fee_state \<Rightarrow> fee_state" where
  "note_exemption b reason s = (if b then s\<lparr>fs_f := setFeeExemptionMetadata (fs_f s) reason\<rparr> else s)"

definition raise_value :: "decimal \<Rightarrow> FeeCalculate \<Rightarrow> FeeCalculate" where
  "raise_value v f =
     (let tx = fc_Transaction f; send = tx_Send tx in
      f\<lparr>fc_Transaction := tx\<lparr>tx_Send := send\<lparr>snd_Value := snd_Value send + v\<rparr>\<rparr>\<rparr>)"

definition applyDeductibleAndReferenceAmountRules ::
  "extlib \<Rightarrow> nat \<Rightarrow> uuid list \<Rightarrow> Fee \<Rightarrow> Amount \<Rightarrow> fee_state \<Rightarrow> FeeSegmentContext option \<Rightarrow> fee_state seg_result" where
  "applyDeductibleAndReferenceAmountRules lib feeIndex segmentIDs feeModel result s segCtx =
     (let resp = fs_resp s; waivedAccounts = fs_waivedAccounts s in
      case allAccountsExempt (rsp_From resp) waivedAccounts segmentIDs segCtx of
        (segCtx1, Inl e) \<Rightarrow> (segCtx1, Inl e)
      | (segCtx1, Inr True) \<Rightarrow>
        (case allAccountsExempt (rsp_To resp) waivedAccounts segmentIDs segCtx1 of
           (segCtx2, Inl e) \<Rightarrow> (segCtx2, Inl e)
         | (segCtx2, Inr allToExempt) \<Rightarrow>
           (segCtx2, Inr (add_credit_account feeModel
              (note_exemption allToExempt ''all_destination_accounts_exempt''
                (note_exemption True ''all_source_accounts_exempt'' s)))))
      | (segCtx1, Inr False) \<Rightarrow>
        if \<not> GetIsDeductibleFrom feeModel then
          (case applyProportionalFee lib feeModel feeIndex (rsp_From resp) (rsp_To resp) result waivedAccounts segmentIDs
                  segCtx1 False of
             (segCtx2, Inl e) \<Rightarrow> (segCtx2, Inl e)
           | (segCtx2, Inr d) \<Rightarrow>
             (segCtx2, Inr (add_credit_account feeModel
                (s\<lparr>fs_f := (if length (rsp_To resp) \<noteq> length (di_updateAmountToStruct d)
                            then raise_value (am_Value result) (fs_f s) else fs_f s),
                   fs_resp := resp\<lparr>rsp_From := di_updateAmount d, rsp_To := di_updateAmountToStruct d\<rparr>,
                   fs_waivedAccounts := di_exemptAccounts d\<rparr>))))
        else
          (case applyProportionalFee lib feeModel feeIndex (rsp_To resp) [] result waivedAccounts segmentIDs segCtx1 True of
             (segCtx2, Inl e) \<Rightarrow> (segCtx2, Inl e)
           | (segCtx2, Inr d) \<Rightarrow>
             (case allAccountsExempt (di_updateAmount d) (di_exemptAccounts d) segmentIDs segCtx2 of
                (segCtx3, Inl e) \<Rightarrow> (segCtx3, Inl e)
              | (segCtx3, Inr allToExempt) \<Rightarrow>
                (segCtx3, Inr (add_credit_account feeModel
                   (note_exemption allToExempt ''all_destination_accounts_exempt''
                     (s\<lparr>fs_resp := resp\<lparr>rsp_To := di_updateAmount d\<rparr>, fs_waivedAccounts := di_exemptAccounts d\<rparr>)))))))"

definition fee_value :: "extlib \<Rightarrow> Fee \<Rightarrow> decimal \<Rightarrow> string \<Rightarrow> goerr + Amount" where
  "fee_value lib fee valueToCalculate feeAsset =
     (case fee_CalculationModel fee of
        None \<Rightarrow> Inl nil_dereference
      | Some cm \<Rightarrow>
        if cmod_ApplicationRule cm = AppRuleMaxBetweenTypes then calculateMaxBetweenTypesFee lib cm valueToCalculate feeAsset
        else if cmod_ApplicationRule cm = AppRuleFlatFee then calculateFlatFee lib cm feeAsset
        else if cmod_ApplicationRule cm = AppRulePercentual then calculatePercentualFee lib cm valueToCalculate feeAsset
        else Inl (Business ErrApplicationRule))"

definition send_value :: "FeeCalculate \<Rightarrow> decimal" where
  "send_value f = snd_Value (tx_Send (fc_Transaction f))"

fun fees_loop ::
  "extlib \<Rightarrow> string \<Rightarrow> decimal \<Rightarrow> uuid list \<Rightarrow> nat \<Rightarrow> Fee list \<Rightarrow> fee_state \<Rightarrow> FeeSegmentContext option \<Rightarrow> fee_state seg_result" where
  "fees_loop lib feeAsset originalTransactionValue segmentIDs feeIndex [] s segCtx = (segCtx, Inr s)"
| "fees_loop lib feeAsset originalTransactionValue segmentIDs feeIndex (fee # fees) s segCtx =
     (case fee_value lib fee (selectReferenceAmount fee (send_value (fs_f s)) originalTransactionValue) feeAsset of
        Inl e \<Rightarrow> (segCtx, Inl e)
      | Inr result \<Rightarrow>
        (case applyDeductibleAndReferenceAmountRules lib feeIndex segmentIDs fee result s segCtx of
           (segCtx', Inl e) \<Rightarrow> (segCtx', Inl e)
         | (segCtx', Inr s') \<Rightarrow> fees_loop lib feeAsset originalTransactionValue segmentIDs (Suc feeIndex) fees s' segCtx'))"

definition set_entries :: "FromTo list \<Rightarrow> FromTo list \<Rightarrow> FeeCalculate \<Rightarrow> FeeCalculate" where
  "set_entries from to f =
     (let tx = fc_Transaction f; send = tx_Send tx in
      f\<lparr>fc_Transaction := tx\<lparr>tx_Send := send\<lparr>snd_Source := (snd_Source send)\<lparr>src_From := from\<rparr>,
          snd_Distribute := (snd_Distribute send)\<lparr>dst_To := to\<rparr>\<rparr>\<rparr>\<rparr>)"

text \<open>
  \<^verbatim>\<open>sort.Slice\<close> leaves the order of fees with equal priorities open; the order of the list that
  stands for the map decides it here.
\<close>

definition CalculateFee ::
  "extlib \<Rightarrow> FeeCalculate \<Rightarrow> Package \<Rightarrow> Responses \<Rightarrow> string \<Rightarrow> FeeSegmentContext option \<Rightarrow> goerr + FeeCalculate \<times> Responses" where
  "CalculateFee lib f p resp defaultCurrency0 segCtx =
     (let defaultCurrency = (if defaultCurrency0 = '''' then DefaultCurrencyBRL else defaultCurrency0);
          sendAsset = snd_Asset (tx_Send (fc_Transaction f));
          feeAsset = (if sendAsset = '''' then defaultCurrency else sendAsset);
          fees = sort_key fee_Priority (map snd (pk_Fees p));
          waivedAccounts = (case pk_WaivedAccounts p of None \<Rightarrow> [] | Some w \<Rightarrow> w)
      in case resolveSegmentWaivedAccounts lib waivedAccounts of
           Inl e \<Rightarrow> Inl e
         | Inr (directAliases, segmentIDs) \<Rightarrow>
           (case fees_loop lib feeAsset (send_value f) segmentIDs 0 fees
                   \<lparr>fs_f = f, fs_resp = resp, fs_waivedAccounts = directAliases\<rparr> segCtx of
              (_, Inl e) \<Rightarrow> Inl e
            | (_, Inr s) \<Rightarrow>
              Inr (set_entries (updatedAmountsFromFee (rsp_From (fs_resp s))) (updatedAmountsFromFee (rsp_To (fs_resp s))) (fs_f s),
                   fs_resp s)))"

section \<open>Keys of legs\<close>

text \<open>
  A key that the request gives has no \<^verbatim>\<open>>\<close>. The debit leg of fee \<open>j\<close> ends with the number of the
  fee and its route; the credit leg has the number after the account that is credited. Both
  positions are found again, so the legs of one fee never meet those of another.
\<close>

definition plain_key :: "string \<Rightarrow> bool" where
  "plain_key s = (CHR ''>'' \<notin> set s)"

definition debit_key :: "nat \<Rightarrow> string \<Rightarrow> bool" where
  "debit_key i k \<longleftrightarrow> (\<exists>parent j rt. j < i \<and> plain_key rt \<and> k = parent @ ''->fee'' @ Itoa (int j) @ ''->'' @ rt)"

definition credit_key :: "nat \<Rightarrow> string \<Rightarrow> bool" where
  "credit_key i k \<longleftrightarrow> (\<exists>c j rest. j < i \<and> plain_key c \<and> k = c @ ''->fee_source'' @ Itoa (int j) @ ''->'' @ rest)"

lemma cut_first: "a \<notin> set xs \<Longrightarrow> a \<notin> set ys \<Longrightarrow> xs @ a # s = ys @ a # t \<longleftrightarrow> xs = ys \<and> s = t"
  by (induction xs arbitrary: ys; case_tac ys) auto

lemma cut_last: "a \<notin> set s \<Longrightarrow> a \<notin> set t \<Longrightarrow> xs @ a # s = ys @ a # t \<longleftrightarrow> xs = ys \<and> s = t"
  using cut_first [of a "rev s" "rev t" "rev xs" "rev ys"]
  by (metis append.assoc append_Cons append_Nil rev.simps(2) rev_append rev_is_rev_conv set_rev)

lemma Itoa_nat: "Itoa (int i) = nat_str i"
  by (simp add: Itoa_def)

lemma debit_key_parts:
  assumes "plain_key rt" "plain_key rt'"
    and eq: "p @ ''->fee'' @ Itoa (int i) @ ''->'' @ rt = p' @ ''->fee'' @ Itoa (int j) @ ''->'' @ rt'"
  shows "i = j"
proof -
  have "(p @ ''->fee'' @ nat_str i @ ''-'') @ CHR ''>'' # rt = (p' @ ''->fee'' @ nat_str j @ ''-'') @ CHR ''>'' # rt'"
    using eq by (simp add: Itoa_nat)
  from iffD1 [OF cut_last this] assms(1,2)
  have "p @ ''->fee'' @ nat_str i @ ''-'' = p' @ ''->fee'' @ nat_str j @ ''-''" by (simp add: plain_key_def)
  then have "(p @ ''->fee'' @ nat_str i) @ ''-'' = (p' @ ''->fee'' @ nat_str j) @ ''-''" by simp
  then have "(p @ ''->fe'') @ CHR ''e'' # nat_str i = (p' @ ''->fe'') @ CHR ''e'' # nat_str j"
    by (subst (asm) append_same_eq) simp
  moreover have "CHR ''e'' \<notin> set (nat_str n)" for n by (rule digits_only_notin) simp_all
  ultimately have "nat_str i = nat_str j" using cut_last [of "CHR ''e''" "nat_str i" "nat_str j"] by metis
  then show ?thesis by simp
qed

lemma credit_key_parts:
  assumes "plain_key c" "plain_key c'"
    and eq: "c @ ''->fee_source'' @ Itoa (int i) @ ''->'' @ r = c' @ ''->fee_source'' @ Itoa (int j) @ ''->'' @ r'"
  shows "i = j"
proof -
  have "(c @ ''-'') @ CHR ''>'' # ''fee_source'' @ nat_str i @ CHR ''-'' # CHR ''>'' # r
      = (c' @ ''-'') @ CHR ''>'' # ''fee_source'' @ nat_str j @ CHR ''-'' # CHR ''>'' # r'"
    using eq by (simp add: Itoa_nat)
  then have "''fee_source'' @ nat_str i @ CHR ''-'' # CHR ''>'' # r = ''fee_source'' @ nat_str j @ CHR ''-'' # CHR ''>'' # r'"
    using assms(1,2) cut_first [of "CHR ''>''" "c @ ''-''" "c' @ ''-''"] by (auto simp: plain_key_def)
  then have "nat_str i @ CHR ''-'' # CHR ''>'' # r = nat_str j @ CHR ''-'' # CHR ''>'' # r'" by simp
  then show ?thesis using digits_sep_inject [of "nat_str i" "nat_str j" "CHR ''-''"] by simp
qed

lemma debitLegKey_new:
  "plain_key (GetRouteFrom fee) \<Longrightarrow> plain_key k \<or> debit_key i k \<Longrightarrow> k \<noteq> debitLegKey fee i parent"
  by (auto simp: debit_key_def debitLegKey_def plain_key_def dest: debit_key_parts [unfolded plain_key_def append.simps, rotated 2])

lemma feeSourceKey_new:
  "plain_key (fee_CreditAccount fee) \<Longrightarrow> plain_key k \<or> credit_key i k \<Longrightarrow> k \<noteq> feeSourceKey fee i parent"
  by (auto simp: credit_key_def feeSourceKey_def plain_key_def dest: credit_key_parts [unfolded plain_key_def append.simps, rotated 2])

lemma leg_inject [simp]:
  "debitLegKey fee i k = debitLegKey fee i k' \<longleftrightarrow> k = k'"
  "feeSourceKey fee i k = feeSourceKey fee i k' \<longleftrightarrow> k = k'"
  by (simp_all add: debitLegKey_def feeSourceKey_def)

lemma debit_key_leg: "plain_key (GetRouteFrom fee) \<Longrightarrow> debit_key (Suc i) (debitLegKey fee i k)"
  unfolding debit_key_def debitLegKey_def by blast

lemma credit_key_leg: "plain_key (fee_CreditAccount fee) \<Longrightarrow> credit_key (Suc i) (feeSourceKey fee i k)"
  unfolding credit_key_def feeSourceKey_def by blast

lemma leg_key_mono:
  "debit_key i k \<Longrightarrow> debit_key (Suc i) k" "credit_key i k \<Longrightarrow> credit_key (Suc i) k"
  by (auto simp: debit_key_def credit_key_def less_Suc_eq)

text \<open>Cutting a key at its first arrow.\<close>

lemma arrow_plain: "plain_key s \<Longrightarrow> go_index ''->'' s = None"
proof (induction s)
  case (Cons c s)
  then show ?case by (cases s) (auto simp: has_prefix_def plain_key_def)
qed simp

lemma arrow_first: "plain_key s \<Longrightarrow> go_index ''->'' (s @ ''->'' @ t) = Some (length s)"
proof (induction s)
  case (Cons c s)
  then show ?case by (cases s) (auto simp: has_prefix_def plain_key_def)
qed (simp add: has_prefix_def)

lemma trimFeeSuffix_plain [simp]: "plain_key s \<Longrightarrow> trimFeeSuffix s = s"
  by (simp add: trimFeeSuffix_def arrow_plain)

lemma trimFeeSuffix_arrow: "plain_key s \<Longrightarrow> trimFeeSuffix (s @ ''->'' @ t) = s"
  by (simp only: trimFeeSuffix_def arrow_first) simp

text \<open>The account that a key of the source side belongs to.\<close>

definition rooted :: "string \<Rightarrow> string \<Rightarrow> bool" where
  "rooted r k \<longleftrightarrow> plain_key r \<and> (k = r \<or> (\<exists>rest. k = r @ ''->'' @ rest))"

lemma rooted_trim: "rooted r k \<Longrightarrow> trimFeeSuffix k = r"
  by (auto simp: rooted_def trimFeeSuffix_arrow [simplified])

lemma rooted_plain: "plain_key k \<Longrightarrow> rooted k k"
  by (simp add: rooted_def)

lemma rooted_leg: "rooted r k \<Longrightarrow> rooted r (debitLegKey fee i k)"
  by (auto simp: rooted_def debitLegKey_def)

section \<open>Exemption without the cache\<close>

text \<open>
  The verdict on an account as a function of the resolver alone. The memoised verdict agrees with
  it when the cache holds answers of the resolver and the resolver ignores surrounding space, as
  the cache does.
\<close>

definition exempt_of ::
  "string list \<Rightarrow> uuid list \<Rightarrow> (string \<Rightarrow> goerr + FeeAccount option) option \<Rightarrow> string \<Rightarrow> goerr + bool" where
  "exempt_of exemptAccounts segmentIDs resolver key =
     (let account = trimFeeSuffix key in
      if segmentIDs = [] then Inr (account \<in> set exemptAccounts)
      else (case resolver of
              None \<Rightarrow> Inl (Business ErrMissingSegmentContext)
            | Some r \<Rightarrow>
              if account \<in> set exemptAccounts then Inr True
              else if has_prefix ''@external/'' account then Inr False
              else (case r account of
                      Inl e \<Rightarrow> Inl (Wrapped ''segment resolution failed for account'' e)
                    | Inr d \<Rightarrow> Inr (case Option.bind d fa_SegmentID of None \<Rightarrow> False | Some s \<Rightarrow> s \<in> set segmentIDs))))"

definition resolver_of :: "FeeSegmentContext option \<Rightarrow> (string \<Rightarrow> goerr + FeeAccount option) option" where
  "resolver_of segCtx = Option.bind segCtx sg_Resolver"

definition ctx_ok :: "FeeSegmentContext option \<Rightarrow> bool" where
  "ctx_ok segCtx \<longleftrightarrow>
     (\<forall>sg r. segCtx = Some sg \<longrightarrow> sg_Resolver sg = Some r \<longrightarrow>
        (\<forall>a. r (TrimSpace a) = r a) \<and>
        (\<forall>c k v. sg_ResolverCache sg = Some c \<longrightarrow> map_of c k = Some v \<longrightarrow> r k = Inr v))"

lemma isAccountExempt_mem: "isAccountExempt a xs \<longleftrightarrow> a \<in> set xs"
  by (auto simp: isAccountExempt_def list_ex_iff)

lemma resolveAccountCached_ok:
  assumes "ctx_ok (Some sg)" "sg_Resolver sg = Some r" "resolveAccountCached a r sg = (sg', x)"
  shows "ctx_ok (Some sg') \<and> sg_Resolver sg' = Some r \<and>
         x = (case r a of Inl e \<Rightarrow> Inl (Wrapped ''segment resolution failed for account'' e) | Inr d \<Rightarrow> Inr d)"
proof (cases "Option.bind (sg_ResolverCache sg) (\<lambda>cache. map_of cache (TrimSpace a))")
  case None
  with assms show ?thesis
    by (auto simp: resolveAccountCached_def Let_def ctx_ok_def update_conv' split: sum.splits if_splits)
next
  case (Some v)
  then have "r (TrimSpace a) = Inr v" using assms(1,2) by (simp (no_asm_use) add: ctx_ok_def bind_eq_Some_conv) blast
  moreover have "r (TrimSpace a) = r a" using assms(1,2) by (auto simp: ctx_ok_def)
  ultimately have "r a = Inr v" by simp
  moreover have "sg' = sg" "x = Inr v" using Some assms(3) by (simp_all add: resolveAccountCached_def Let_def)
  ultimately show ?thesis using assms(1,2) by simp
qed

lemma exempt_step:
  assumes "ctx_ok sg" "isAccountExemptOrSegment key ex segs sg = (sg', x)"
  shows "ctx_ok sg' \<and> resolver_of sg' = resolver_of sg \<and> x = exempt_of ex segs (resolver_of sg) key"
proof (cases "segs = [] \<or> resolver_of sg = None")
  case True
  with assms show ?thesis
    by (auto simp: isAccountExemptOrSegment_def exempt_of_def Let_def resolver_of_def isAccountExempt_mem split: option.splits)
next
  case False
  then obtain c r where sg: "sg = Some c" "sg_Resolver c = Some r" "segs \<noteq> []"
    by (cases sg) (auto simp: resolver_of_def)
  obtain c' y where y: "resolveAccountCached (trimFeeSuffix key) r c = (c', y)" by force
  note resolved = resolveAccountCached_ok [OF assms(1) [unfolded sg(1)] sg(2) y]
  show ?thesis
    using assms sg y resolved
    by (auto simp: isAccountExemptOrSegment_def isAccountExemptWithSegments_def exempt_of_def Let_def resolver_of_def
        isAccountExempt_mem list_ex_iff split: if_splits sum.splits option.splits prod.splits)
qed

section \<open>Loops over the payers\<close>

definition payer :: "string list \<Rightarrow> uuid list \<Rightarrow> (string \<Rightarrow> goerr + FeeAccount option) option \<Rightarrow> string \<Rightarrow> bool" where
  "payer ex segs r key \<longleftrightarrow> exempt_of ex segs r key = Inr False"

definition paying :: "string list \<Rightarrow> uuid list \<Rightarrow> (string \<Rightarrow> goerr + FeeAccount option) option \<Rightarrow> amounts \<Rightarrow> amounts" where
  "paying ex segs r m = filter (\<lambda>p. payer ex segs r (fst p)) m"

lemma values_sum_simps [simp]:
  "values_sum [] = 0"
  "values_sum (p # m) = am_Value (snd p) + values_sum m"
  by (simp_all add: values_sum_def)

lemma exempt_step_Inr:
  assumes "ctx_ok sg" "isAccountExemptOrSegment key ex segs sg = (sg', Inr b)"
  shows "ctx_ok sg'" "resolver_of sg' = resolver_of sg" "payer ex segs (resolver_of sg) key \<longleftrightarrow> \<not> b"
  using exempt_step [OF assms] by (auto simp: payer_def dest: sym)

text \<open>The keys of legs that are added to the exempt accounts while the fee is distributed change no verdict.\<close>

lemma exempt_of_legs:
  "(\<And>a. a \<in> set legs \<Longrightarrow> a \<noteq> trimFeeSuffix key) \<Longrightarrow> exempt_of (ex @ legs) segs r key = exempt_of ex segs r key"
  by (auto simp: exempt_of_def Let_def split: option.splits)

lemma go_index_found: "go_index sep (a @ sep @ b) \<noteq> None"
proof (induction a)
  case Nil
  then show ?case by (cases "sep @ b") (auto simp: has_prefix_def dest: arg_cong [of _ _ "take (length sep)"])
qed simp

lemma go_index_before: "go_index sep s = Some i \<Longrightarrow> sep \<noteq> [] \<Longrightarrow> go_index sep (take i s) = None"
proof (induction sep s arbitrary: i rule: go_index.induct)
  case (2 sep c cs)
  show ?case
  proof (cases "has_prefix sep (c # cs)")
    case False
    with "2.prems" obtain j where j: "i = Suc j" "go_index sep cs = Some j" by auto
    have "\<not> has_prefix sep (c # take j cs)"
    proof
      assume pre: "has_prefix sep (c # take j cs)"
      then have "length sep \<le> Suc j" unfolding has_prefix_def by (metis length_Cons length_take min.absorb_iff2 min.cobounded2 min_Suc_Suc order_trans)
      then have "take (length sep) (c # cs) = take (length sep) (c # take j cs)"
        by (cases "length sep") (auto simp: min_def)
      with pre False show False by (simp add: has_prefix_def)
    qed
    with "2.IH" [OF False j(2) "2.prems"(2)] j(1) show ?thesis by simp
  qed (use "2.prems" in auto)
qed (auto split: if_splits)

lemma trimFeeSuffix_no_arrow: "trimFeeSuffix k \<noteq> a @ ''->'' @ b"
proof
  assume eq: "trimFeeSuffix k = a @ ''->'' @ b"
  have "go_index ''->'' (trimFeeSuffix k) = None"
    by (cases "go_index ''->'' k") (simp_all add: trimFeeSuffix_def go_index_before)
  with eq go_index_found [of "''->''" a b] show False by (simp only:)
qed

lemma allAccountsExempt_step:
  assumes "ctx_ok sg" "allAccountsExempt m ex segs sg = (sg', x)"
  shows "ctx_ok sg' \<and> resolver_of sg' = resolver_of sg"
proof -
  have "ctx_ok sg \<Longrightarrow> all_exempt_loop m ex segs sg = (sg', x) \<Longrightarrow> ctx_ok sg' \<and> resolver_of sg' = resolver_of sg" for m sg
  proof (induction m ex segs sg rule: all_exempt_loop.induct)
    case (2 key a m ex segs sg)
    obtain sg1 y where y: "isAccountExemptOrSegment key ex segs sg = (sg1, y)" by force
    from exempt_step [OF "2.prems"(1) y] "2.IH" [OF y [symmetric]] "2.prems"(2) y
    show ?case by (auto split: sum.splits if_splits)
  qed simp
  with assms show ?thesis by (auto simp: allAccountsExempt_def split: if_splits)
qed

lemma find_max_loop_result:
  assumes "ctx_ok sg" "find_max_loop m ex segs sg v a = (sg', Inr k)"
  shows "ctx_ok sg' \<and> resolver_of sg' = resolver_of sg \<and>
         (k \<in> fst ` set (paying ex segs (resolver_of sg) m) \<or> k = a \<and> (\<forall>p \<in> set (paying ex segs (resolver_of sg) m). am_Value (snd p) < v))"
  using assms
proof (induction m ex segs sg v a rule: find_max_loop.induct)
  case (2 key amount m ex segs sg v a)
  obtain sg1 y where y: "isAccountExemptOrSegment key ex segs sg = (sg1, y)" by force
  show ?case
  proof (cases y)
    case (Inl e)
    with "2.prems"(2) y show ?thesis by simp
  next
    case (Inr b)
    note step = exempt_step_Inr [OF "2.prems"(1) y [unfolded Inr]]
    show ?thesis
      using "2.IH"(1) [OF y [symmetric] Inr] "2.IH"(2) [OF y [symmetric] Inr] "2.prems"(2) step y Inr
      by (auto simp: paying_def split: if_splits)
  qed
qed (simp add: paying_def)

lemma total_paying_result:
  assumes "ctx_ok sg" "total_paying m ex segs sg t = (sg', Inr t')"
  shows "ctx_ok sg' \<and> resolver_of sg' = resolver_of sg \<and> t' = t + values_sum (paying ex segs (resolver_of sg) m)"
  using assms
proof (induction m ex segs sg t rule: total_paying.induct)
  case (2 key amount m ex segs sg t)
  obtain sg1 y where y: "isAccountExemptOrSegment key ex segs sg = (sg1, y)" by force
  show ?case
  proof (cases y)
    case (Inl e)
    with "2.prems"(2) y show ?thesis by simp
  next
    case (Inr b)
    note step = exempt_step_Inr [OF "2.prems"(1) y [unfolded Inr]]
    show ?thesis using "2.IH" [OF y [symmetric] Inr] "2.prems"(2) step y Inr by (auto simp: paying_def)
  qed
qed (simp add: paying_def)

section \<open>One fee\<close>

text \<open>
  What the distributing loop does to the maps, for payers whose legs are new: each map grows by
  what is distributed (a deductible fee moves it within the map), and the target names the legs
  of the account that takes the residual.
\<close>

definition leg_key :: "bool \<Rightarrow> Fee \<Rightarrow> nat \<Rightarrow> string \<Rightarrow> string" where
  "leg_key isTo fee i = (if isTo then feeSourceKey fee i else debitLegKey fee i)"

lemma leg_key_inject [simp]: "leg_key isTo fee i k = leg_key isTo fee i k' \<longleftrightarrow> k = k'"
  by (simp add: leg_key_def)

definition target_for :: "bool \<Rightarrow> Fee \<Rightarrow> nat \<Rightarrow> string \<Rightarrow> feeCorrectionTarget \<Rightarrow> feeCorrectionTarget" where
  "target_for isTo fee i k t =
     (if isTo then t\<lparr>ct_debitLegKey := feeSourceKey fee i k, ct_payerKey := k, ct_found := True\<rparr>
      else t\<lparr>ct_debitLegKey := debitLegKey fee i k, ct_creditLegKey := feeSourceKey fee i k, ct_found := True\<rparr>)"

text \<open>One pass of the loop, for a payer.\<close>

definition charged :: "bool \<Rightarrow> Fee \<Rightarrow> nat \<Rightarrow> string \<Rightarrow> string \<Rightarrow> Amount \<Rightarrow> distribution \<Rightarrow> distribution" where
  "charged isTo fee i mx key leg d =
     d\<lparr>di_updateAmount := AList.update (leg_key isTo fee i key) leg (di_updateAmount d),
       di_updateAmountToStruct :=
         (if isTo then id else AList.update (feeSourceKey fee i key) leg) (di_updateAmountToStruct d),
       di_newFeeTotalPaying := di_newFeeTotalPaying d + am_Value leg,
       di_exemptAccounts := di_exemptAccounts d @ (if isTo then [] else [feeSourceKey fee i key]) @ [leg_key isTo fee i key],
       di_target := (if key = mx then target_for isTo fee i key (di_target d) else di_target d)\<rparr>"

lemma charge_result:
  assumes "charge lib fee i fv isTo mx tp key amount d = Inr (amount', d')"
  shows "\<exists>leg. d' = charged isTo fee i mx key leg d \<and>
                amount' = (if isTo then amount\<lparr>am_Value := am_Value amount - am_Value leg\<rparr> else amount)"
proof (cases isTo)
  case True
  with assms show ?thesis
    by (intro exI [of _ "fee_amount (am_Asset fv) (am_Value fv * dec_Div lib (am_Value amount) tp)"])
      (auto simp: charge_def Let_def emitDeductibleLeg_def charged_def leg_key_def target_for_def fee_amount_def split: if_splits)
next
  case False
  with assms show ?thesis
    by (intro exI [of _ "fee_amount (am_Asset fv) (am_Value fv * dec_Div lib (am_Value amount) tp)"])
      (auto simp: charge_def Let_def emitNonDeductibleLeg_def charged_def leg_key_def target_for_def fee_amount_def split: if_splits)
qed

definition put :: "string \<Rightarrow> Amount \<Rightarrow> distribution \<Rightarrow> distribution" where
  "put k a d = d\<lparr>di_updateAmount := AList.update k a (di_updateAmount d)\<rparr>"

definition keys :: "amounts \<Rightarrow> string set" where
  "keys m = fst ` set m"

lemma keys_simps [simp]:
  "keys [] = {}"
  "keys (p # m) = insert (fst p) (keys m)"
  "keys (AList.update k a m) = insert k (keys m)"
  by (simp_all add: keys_def)

lemma charged_simps [simp]:
  "di_updateAmount (charged isTo fee i mx k leg d) = AList.update (leg_key isTo fee i k) leg (di_updateAmount d)"
  "di_updateAmountToStruct (charged isTo fee i mx k leg d) =
     (if isTo then id else AList.update (feeSourceKey fee i k) leg) (di_updateAmountToStruct d)"
  "di_newFeeTotalPaying (charged isTo fee i mx k leg d) = di_newFeeTotalPaying d + am_Value leg"
  "di_exemptAccounts (charged isTo fee i mx k leg d) =
     di_exemptAccounts d @ (if isTo then [] else [feeSourceKey fee i k]) @ [leg_key isTo fee i k]"
  "di_target (charged isTo fee i mx k leg d) = (if k = mx then target_for isTo fee i k (di_target d) else di_target d)"
  by (simp_all add: charged_def)

lemma put_simps [simp]:
  "di_updateAmount (put k a d) = AList.update k a (di_updateAmount d)"
  "di_updateAmountToStruct (put k a d) = di_updateAmountToStruct d"
  "di_newFeeTotalPaying (put k a d) = di_newFeeTotalPaying d"
  "di_exemptAccounts (put k a d) = di_exemptAccounts d"
  "di_target (put k a d) = di_target d"
  by (simp_all add: put_def)

text \<open>The legs still to be written are new, and what was added to the exempt accounts is no account.\<close>

definition arrowed :: "string \<Rightarrow> bool" where
  "arrowed a \<longleftrightarrow> (\<exists>u w. a = u @ ''->'' @ w)"

definition fresh_legs :: "string list \<Rightarrow> bool \<Rightarrow> Fee \<Rightarrow> nat \<Rightarrow> amounts \<Rightarrow> distribution \<Rightarrow> bool" where
  "fresh_legs ex isTo fee i m d \<longleftrightarrow>
     distinct (map fst m) \<and> distinct (map fst (di_updateAmount d)) \<and> distinct (map fst (di_updateAmountToStruct d)) \<and>
     (\<forall>k \<in> keys m. k \<notin> keys (di_updateAmount d) \<and> leg_key isTo fee i k \<notin> keys (di_updateAmount d) \<and>
        leg_key isTo fee i k \<notin> keys m \<and> (\<not> isTo \<longrightarrow> feeSourceKey fee i k \<notin> keys (di_updateAmountToStruct d))) \<and>
     (\<exists>legs. di_exemptAccounts d = ex @ legs \<and> (\<forall>a \<in> set legs. arrowed a))"

lemma arrowed_legs: "arrowed (leg_key isTo fee i k)" "arrowed (feeSourceKey fee i k)"
proof -
  have "feeSourceKey fee i k = fee_CreditAccount fee @ ''->'' @ ''fee_source'' @ Itoa (int i) @ ''->'' @ k @ ''->'' @ GetRouteTo fee"
    "debitLegKey fee i k = k @ ''->'' @ ''fee'' @ Itoa (int i) @ ''->'' @ GetRouteFrom fee"
    by (simp_all add: feeSourceKey_def debitLegKey_def)
  then have "arrowed (feeSourceKey fee i k)" "arrowed (debitLegKey fee i k)" unfolding arrowed_def by blast+
  then show "arrowed (leg_key isTo fee i k)" "arrowed (feeSourceKey fee i k)" by (simp_all add: leg_key_def)
qed

lemma distinct_keys: "distinct (map fst (p # m)) \<longleftrightarrow> fst p \<notin> keys m \<and> distinct (map fst m)"
  by (simp add: keys_def)

lemma fresh_put: "fresh_legs ex isTo fee i ((k, a) # m) d \<Longrightarrow> fresh_legs ex isTo fee i m (put k a' d)"
  unfolding fresh_legs_def distinct_keys by (simp add: AList.distinct_update) blast

lemma fresh_charged:
  assumes "fresh_legs ex isTo fee i ((k, a) # m) d"
  shows "fresh_legs ex isTo fee i m (put k a' (charged isTo fee i mx k leg d))"
proof -
  from assms obtain legs where "di_exemptAccounts d = ex @ legs" "\<forall>a \<in> set legs. arrowed a" by (auto simp: fresh_legs_def)
  then have "\<exists>legs'. di_exemptAccounts (put k a' (charged isTo fee i mx k leg d)) = ex @ legs' \<and> (\<forall>a \<in> set legs'. arrowed a)"
    by (intro exI [of _ "legs @ (if isTo then [] else [feeSourceKey fee i k]) @ [leg_key isTo fee i k]"]) (auto simp: arrowed_legs)
  with assms show ?thesis unfolding fresh_legs_def distinct_keys
    by (cases isTo) (simp add: AList.distinct_update, blast)+
qed

lemma payer_fresh:
  "fresh_legs ex isTo fee i m d \<Longrightarrow> payer (di_exemptAccounts d) segs r k = payer ex segs r k"
  using exempt_of_legs [of _ k ex segs r] trimFeeSuffix_no_arrow
  by (fastforce simp: fresh_legs_def payer_def arrowed_def)

text \<open>Induction over the distributing loop: \<open>Q\<close> holds of what is left of the payers and of the maps so far.\<close>

lemma distribute_rule:
  assumes "distribute_loop lib fee i fv segs isTo mx tp m sg d = (sg', Inr d')"
    and "ctx_ok sg" "resolver_of sg = r" "fresh_legs ex isTo fee i m d" "Q m d"
    and exempt: "\<And>k a m d. fresh_legs ex isTo fee i ((k, a) # m) d \<Longrightarrow> \<not> payer ex segs r k \<Longrightarrow>
                   Q ((k, a) # m) d \<Longrightarrow> Q m (put k a d)"
    and pays: "\<And>k a a' leg m d. fresh_legs ex isTo fee i ((k, a) # m) d \<Longrightarrow> payer ex segs r k \<Longrightarrow>
                 a' = (if isTo then a\<lparr>am_Value := am_Value a - am_Value leg\<rparr> else a) \<Longrightarrow>
                 Q ((k, a) # m) d \<Longrightarrow> Q m (put k a' (charged isTo fee i mx k leg d))"
  shows "ctx_ok sg' \<and> resolver_of sg' = r \<and> fresh_legs ex isTo fee i [] d' \<and> Q [] d'"
  using assms(1-5)
proof (induction m arbitrary: sg d)
  case (Cons p m)
  obtain k a where p: "p = (k, a)" by force
  note prems = Cons.prems [unfolded p]
  obtain sg1 y where y: "isAccountExemptOrSegment k (di_exemptAccounts d) segs sg = (sg1, y)" by force
  from prems(1) y obtain b where b: "y = Inr b" by (cases y) auto
  note step = exempt_step_Inr [OF prems(2) y [unfolded b]]
  have pay: "payer ex segs r k \<longleftrightarrow> \<not> b" using step(3) payer_fresh [OF prems(4)] prems(3) by simp
  show ?case
  proof (cases b)
    case True
    then have "distribute_loop lib fee i fv segs isTo mx tp m sg1 (put k a d) = (sg', Inr d')"
      using prems(1) y b by (simp add: put_def)
    from Cons.IH [OF this] show ?thesis
      using step prems(3,5) pay True exempt [OF prems(4)] fresh_put [OF prems(4)] by simp
  next
    case False
    with prems(1) y b obtain a' d1 where c: "charge lib fee i fv isTo mx tp k a d = Inr (a', d1)"
      by (auto split: sum.splits)
    from charge_result [OF c] obtain leg where
      leg: "d1 = charged isTo fee i mx k leg d" "a' = (if isTo then a\<lparr>am_Value := am_Value a - am_Value leg\<rparr> else a)" by blast
    have "distribute_loop lib fee i fv segs isTo mx tp m sg1 (put k a' (charged isTo fee i mx k leg d)) = (sg', Inr d')"
      using prems(1) y b False c leg(1) by (simp add: put_def)
    from Cons.IH [OF this] show ?thesis
      using step prems(3) pay False pays [OF prems(4) _ leg(2) prems(5)] fresh_charged [OF prems(4)] by simp
  qed
qed simp

text \<open>What the loop keeps, with the payers that are left counted in.\<close>

definition balance_kept :: "bool \<Rightarrow> decimal \<Rightarrow> decimal \<Rightarrow> amounts \<Rightarrow> distribution \<Rightarrow> bool" where
  "balance_kept isTo c c' m d \<longleftrightarrow>
     values_sum (di_updateAmount d) + values_sum m = c + (if isTo then 0 else di_newFeeTotalPaying d) \<and>
     values_sum (di_updateAmountToStruct d) = c' + (if isTo then 0 else di_newFeeTotalPaying d)"

definition legs_kept ::
  "string list \<Rightarrow> uuid list \<Rightarrow> (string \<Rightarrow> goerr + FeeAccount option) option \<Rightarrow> bool \<Rightarrow> Fee \<Rightarrow> nat \<Rightarrow> string
   \<Rightarrow> string set \<Rightarrow> string set \<Rightarrow> nat \<Rightarrow> feeCorrectionTarget \<Rightarrow> amounts \<Rightarrow> distribution \<Rightarrow> bool" where
  "legs_kept ex segs r isTo fee i mx K K' n t m d \<longleftrightarrow>
     keys (di_updateAmount d) \<union> keys m \<union> leg_key isTo fee i ` keys (paying ex segs r m) = K \<and>
     keys (di_updateAmountToStruct d) \<union> (if isTo then {} else feeSourceKey fee i ` keys (paying ex segs r m)) = K' \<and>
     length (di_updateAmountToStruct d) + (if isTo then 0 else length (paying ex segs r m)) = n \<and>
     (if mx \<in> keys (paying ex segs r m) then target_for isTo fee i mx (di_target d) else di_target d) = t"

definition payers_kept :: "amounts \<Rightarrow> amounts \<Rightarrow> distribution \<Rightarrow> bool" where
  "payers_kept m0 m d \<longleftrightarrow> keys m \<subseteq> keys m0 \<and>
     (\<forall>k a. map_of m0 k = Some a \<longrightarrow> map_of m k = Some a \<or> map_of (di_updateAmount d) k = Some a)"

lemma values_sum_put: "k \<notin> keys m \<Longrightarrow> values_sum (AList.update k a m) = values_sum m + am_Value a"
  by (simp add: keys_def values_sum_update)

lemma length_put: "k \<notin> keys m \<Longrightarrow> length (AList.update k a m) = Suc (length m)"
  by (induction m) (auto simp: keys_def)

lemma fresh_head:
  assumes "fresh_legs ex isTo fee i ((k, a) # m) d"
  shows "k \<notin> keys (di_updateAmount d)" "k \<notin> keys m" "leg_key isTo fee i k \<notin> keys (di_updateAmount d)"
    "leg_key isTo fee i k \<noteq> k" "leg_key isTo fee i k \<notin> keys m"
    "\<not> isTo \<Longrightarrow> feeSourceKey fee i k \<notin> keys (di_updateAmountToStruct d)"
  using assms unfolding fresh_legs_def distinct_keys by auto

lemma balance_kept_steps:
  assumes "fresh_legs ex isTo fee i ((k, a) # m) d" "balance_kept isTo c c' ((k, a) # m) d"
  shows "balance_kept isTo c c' m (put k a d)"
    and "balance_kept isTo c c' m (put k (if isTo then a\<lparr>am_Value := am_Value a - am_Value leg\<rparr> else a) (charged isTo fee i mx k leg d))"
  using assms(2) fresh_head [OF assms(1)] by (auto simp: balance_kept_def values_sum_put)

lemma paying_simps [simp]:
  "paying ex segs r [] = []"
  "paying ex segs r (p # m) = (if payer ex segs r (fst p) then p # paying ex segs r m else paying ex segs r m)"
  by (simp_all add: paying_def)

lemma paying_subset: "keys (paying ex segs r m) \<subseteq> keys m"
  by (auto simp: keys_def paying_def)

lemma legs_kept_steps:
  assumes "fresh_legs ex isTo fee i ((k, a) # m) d" "legs_kept ex segs r isTo fee i mx K K' n t ((k, a) # m) d"
  shows "\<not> payer ex segs r k \<Longrightarrow> legs_kept ex segs r isTo fee i mx K K' n t m (put k a' d)"
    and "payer ex segs r k \<Longrightarrow> legs_kept ex segs r isTo fee i mx K K' n t m (put k a' (charged isTo fee i mx k leg d))"
proof -
  have new: "k \<notin> keys (paying ex segs r m)" using fresh_head(2) [OF assms(1)] paying_subset by blast
  show "\<not> payer ex segs r k \<Longrightarrow> legs_kept ex segs r isTo fee i mx K K' n t m (put k a' d)"
    using assms(2) by (auto simp: legs_kept_def)
  assume pay: "payer ex segs r k"
  show "legs_kept ex segs r isTo fee i mx K K' n t m (put k a' (charged isTo fee i mx k leg d))"
    using assms(2) pay new fresh_head(6) [OF assms(1)]
    by (cases isTo; cases "k = mx") (auto simp: legs_kept_def length_put target_for_def)
qed

lemma map_of_keys: "map_of m k = None \<longleftrightarrow> k \<notin> keys m"
  by (simp add: keys_def map_of_eq_None_iff)

lemma payers_kept_steps:
  assumes "fresh_legs ex isTo fee i ((k, a) # m) d" "payers_kept m0 ((k, a) # m) d"
    and legs: "\<forall>k \<in> keys m0. leg_key isTo fee i k \<notin> keys m0"
  shows "payers_kept m0 m (put k a d)" "payers_kept m0 m (put k a (charged isTo fee i mx k leg d))"
proof -
  have "k' \<noteq> leg_key isTo fee i k" if "map_of m0 k' = Some a'" for k' a'
    using that legs assms(2) map_of_keys [of m0 "leg_key isTo fee i k"] by (auto simp: payers_kept_def)
  moreover have "map_of (di_updateAmount d) k = None"
    using fresh_head(1) [OF assms(1)] by (simp add: keys_def map_of_eq_None_iff)
  ultimately show "payers_kept m0 m (put k a d)" "payers_kept m0 m (put k a (charged isTo fee i mx k leg d))"
    using assms(2) by (auto simp: payers_kept_def update_conv' split: if_splits)
qed

text \<open>The loop as a whole.\<close>

lemma distribute_loop_result:
  assumes loop: "distribute_loop lib fee i fv segs isTo mx tp m sg d = (sg', Inr d')"
    and start: "ctx_ok sg" "fresh_legs ex isTo fee i m d" "di_updateAmount d = []" "di_newFeeTotalPaying d = 0"
      "di_target d = feeCorrectionTarget_zero"
  defines "S \<equiv> if isTo then 0 else di_newFeeTotalPaying d'"
    and "P \<equiv> paying ex segs (resolver_of sg) m"
  shows "ctx_ok sg'" "resolver_of sg' = resolver_of sg" "fresh_legs ex isTo fee i [] d'"
    "values_sum (di_updateAmount d') = values_sum m + S"
    "values_sum (di_updateAmountToStruct d') = values_sum (di_updateAmountToStruct d) + S"
    "keys (di_updateAmount d') = keys m \<union> leg_key isTo fee i ` keys P"
    "keys (di_updateAmountToStruct d') = keys (di_updateAmountToStruct d) \<union> (if isTo then {} else feeSourceKey fee i ` keys P)"
    "length (di_updateAmountToStruct d') = length (di_updateAmountToStruct d) + (if isTo then 0 else length P)"
    "di_target d' = (if mx \<in> keys P then target_for isTo fee i mx feeCorrectionTarget_zero else feeCorrectionTarget_zero)"
    "\<not> isTo \<Longrightarrow> map_of m k = Some a \<Longrightarrow> map_of (di_updateAmount d') k = Some a"
proof -
  have b: "balance_kept isTo (values_sum m) (values_sum (di_updateAmountToStruct d)) m d"
    using start by (simp add: balance_kept_def)
  have l: "legs_kept ex segs (resolver_of sg) isTo fee i mx (keys m \<union> leg_key isTo fee i ` keys P)
      (keys (di_updateAmountToStruct d) \<union> (if isTo then {} else feeSourceKey fee i ` keys P))
      (length (di_updateAmountToStruct d) + (if isTo then 0 else length P))
      (if mx \<in> keys P then target_for isTo fee i mx feeCorrectionTarget_zero else feeCorrectionTarget_zero) m d"
    using start by (simp add: legs_kept_def P_def)
  note rule = distribute_rule [OF loop start(1) refl start(2)]
  have "ctx_ok sg' \<and> resolver_of sg' = resolver_of sg \<and> fresh_legs ex isTo fee i [] d' \<and>
      balance_kept isTo (values_sum m) (values_sum (di_updateAmountToStruct d)) [] d'"
    by (rule rule) (use b in \<open>auto intro: balance_kept_steps(1) dest: balance_kept_steps(2)\<close>)
  then have B: "ctx_ok sg'" "resolver_of sg' = resolver_of sg" "fresh_legs ex isTo fee i [] d'"
    "balance_kept isTo (values_sum m) (values_sum (di_updateAmountToStruct d)) [] d'"
    by blast+
  show "ctx_ok sg'" "resolver_of sg' = resolver_of sg" "fresh_legs ex isTo fee i [] d'"
    "values_sum (di_updateAmount d') = values_sum m + S"
    "values_sum (di_updateAmountToStruct d') = values_sum (di_updateAmountToStruct d) + S"
    using B by (simp_all add: balance_kept_def S_def)
  have "ctx_ok sg' \<and> resolver_of sg' = resolver_of sg \<and> fresh_legs ex isTo fee i [] d' \<and>
      legs_kept ex segs (resolver_of sg) isTo fee i mx (keys m \<union> leg_key isTo fee i ` keys P)
      (keys (di_updateAmountToStruct d) \<union> (if isTo then {} else feeSourceKey fee i ` keys P))
      (length (di_updateAmountToStruct d) + (if isTo then 0 else length P))
      (if mx \<in> keys P then target_for isTo fee i mx feeCorrectionTarget_zero else feeCorrectionTarget_zero) [] d'"
    by (rule rule) (use l in \<open>auto intro: legs_kept_steps\<close>)
  then show "keys (di_updateAmount d') = keys m \<union> leg_key isTo fee i ` keys P"
    "keys (di_updateAmountToStruct d') = keys (di_updateAmountToStruct d) \<union> (if isTo then {} else feeSourceKey fee i ` keys P)"
    "length (di_updateAmountToStruct d') = length (di_updateAmountToStruct d) + (if isTo then 0 else length P)"
    "di_target d' = (if mx \<in> keys P then target_for isTo fee i mx feeCorrectionTarget_zero else feeCorrectionTarget_zero)"
    by (cases isTo; simp add: legs_kept_def)+
  assume kept: "\<not> isTo" "map_of m k = Some a"
  have legs: "\<forall>k \<in> keys m. leg_key isTo fee i k \<notin> keys m" using start(2) by (simp add: fresh_legs_def)
  have "ctx_ok sg' \<and> resolver_of sg' = resolver_of sg \<and> fresh_legs ex isTo fee i [] d' \<and> payers_kept m [] d'"
  proof (rule rule)
    show "payers_kept m m d" by (simp add: payers_kept_def)
  qed (use kept(1) legs in \<open>auto intro: payers_kept_steps\<close>)
  then show "map_of (di_updateAmount d') k = Some a" using kept(2) by (simp add: payers_kept_def)
qed

text \<open>The residual.\<close>

lemma add_to_leg_simps:
  assumes "k \<in> keys m" "distinct (map fst m)"
  shows "values_sum (add_to_leg k x m) = values_sum m + x"
    and "map fst (add_to_leg k x m) = map fst m"
    and "k' \<noteq> k \<Longrightarrow> map_of (add_to_leg k x m) k' = map_of m k'"
proof -
  from assms obtain a where a: "map_of m k = Some a" unfolding keys_def by (metis map_of_eq_None_iff not_Some_eq)
  show "values_sum (add_to_leg k x m) = values_sum m + x"
    using a sum_list_map_update [OF a assms(2), of am_Value] by (simp add: add_to_leg_def values_sum_def)
  show "map fst (add_to_leg k x m) = map fst m"
    using a assms(1) by (simp add: add_to_leg_def AList.update_keys keys_def)
  show "k' \<noteq> k \<Longrightarrow> map_of (add_to_leg k x m) k' = map_of m k'"
    using a by (simp add: add_to_leg_def update_conv')
qed

lemma keys_fst: "map fst m = map fst m' \<Longrightarrow> keys m = keys m'"
  by (metis keys_def list.set_map)

text \<open>A fee on top of the sources: both sides grow by the fee, exactly, whatever the division rounds.\<close>

lemma correction_from:
  fixes fv :: Amount
  assumes "di_target d = target_for False fee i mx feeCorrectionTarget_zero"
    and "debitLegKey fee i mx \<in> keys (di_updateAmount d)" "feeSourceKey fee i mx \<in> keys (di_updateAmountToStruct d)"
    and "distinct (map fst (di_updateAmount d))" "distinct (map fst (di_updateAmountToStruct d))"
  defines "d' \<equiv> applyFeeCorrection fv False d"
  shows "values_sum (di_updateAmount d') = values_sum (di_updateAmount d) + (am_Value fv - di_newFeeTotalPaying d)"
    and "values_sum (di_updateAmountToStruct d') =
         values_sum (di_updateAmountToStruct d) + (am_Value fv - di_newFeeTotalPaying d)"
    and "map fst (di_updateAmount d') = map fst (di_updateAmount d)"
    and "map fst (di_updateAmountToStruct d') = map fst (di_updateAmountToStruct d)"
    and "k \<noteq> debitLegKey fee i mx \<Longrightarrow> map_of (di_updateAmount d') k = map_of (di_updateAmount d) k"
  using assms(1-3) add_to_leg_simps [OF assms(2,4)] add_to_leg_simps [OF assms(3,5)]
  by (auto simp: d'_def applyFeeCorrection_def Let_def target_for_def map_of_keys)

text \<open>A fee carved out of the destinations moves value within their map.\<close>

lemma correction_to:
  fixes fv :: Amount
  assumes "di_target d = target_for True fee i mx feeCorrectionTarget_zero"
    and "feeSourceKey fee i mx \<in> keys (di_updateAmount d)" "mx \<in> keys (di_updateAmount d)"
    and "distinct (map fst (di_updateAmount d))"
  defines "d' \<equiv> applyFeeCorrection fv True d"
  shows "values_sum (di_updateAmount d') = values_sum (di_updateAmount d)"
    and "map fst (di_updateAmount d') = map fst (di_updateAmount d)"
proof -
  let ?x = "am_Value fv - di_newFeeTotalPaying d"
  let ?m = "add_to_leg (feeSourceKey fee i mx) ?x (di_updateAmount d)"
  note leg = add_to_leg_simps [OF assms(2,4), where x = ?x]
  have "mx \<in> keys ?m" "distinct (map fst ?m)" using assms(3,4) leg(2) keys_fst [OF leg(2)] by simp_all
  note payer = add_to_leg_simps [OF this, where x = "- ?x"]
  have "d' = (if ?x = 0 then d else d\<lparr>di_updateAmount := add_to_leg mx (- ?x) ?m\<rparr>)"
    using assms(2) by (simp add: d'_def applyFeeCorrection_def Let_def assms(1) target_for_def map_of_keys)
  then show "values_sum (di_updateAmount d') = values_sum (di_updateAmount d)"
    "map fst (di_updateAmount d') = map fst (di_updateAmount d)"
    using leg(1,2) payer(1,2) by (simp_all split: if_splits)
qed

lemma correction_none: "di_target d = feeCorrectionTarget_zero \<Longrightarrow> applyFeeCorrection fv isTo d = d"
  by (simp add: applyFeeCorrection_def Let_def feeCorrectionTarget_zero_def)

lemma correction_exempt [simp]: "di_exemptAccounts (applyFeeCorrection fv isTo d) = di_exemptAccounts d"
  by (simp add: applyFeeCorrection_def Let_def)

text \<open>
  The two sides between fees: keys that the request gave or that an earlier fee made, and on the
  source side every leg belongs to an account that the request debits.
\<close>

definition from_ok :: "nat \<Rightarrow> amounts \<Rightarrow> bool" where
  "from_ok i m \<longleftrightarrow> distinct (map fst m) \<and>
     (\<forall>k \<in> keys m. (plain_key k \<or> debit_key i k) \<and> (\<exists>r a. rooted r k \<and> map_of m r = Some a \<and> 0 \<le> am_Value a))"

definition to_ok :: "nat \<Rightarrow> amounts \<Rightarrow> bool" where
  "to_ok i m \<longleftrightarrow> distinct (map fst m) \<and> (\<forall>k \<in> keys m. plain_key k \<or> credit_key i k)"

lemma to_ok_Suc: "to_ok i m \<Longrightarrow> to_ok (Suc i) m"
  using leg_key_mono(2) by (fastforce simp: to_ok_def)

lemma from_ok_Suc: "from_ok i m \<Longrightarrow> from_ok (Suc i) m"
  using leg_key_mono(1) by (fastforce simp: from_ok_def)

lemma to_ok_keys: "to_ok i m \<Longrightarrow> map fst m' = map fst m \<Longrightarrow> to_ok i m'"
  using keys_fst [of m' m] by (simp add: to_ok_def)

definition fee_plain :: "Fee \<Rightarrow> bool" where
  "fee_plain fee \<longleftrightarrow> plain_key (fee_CreditAccount fee) \<and> plain_key (GetRouteFrom fee)"

definition start_distribution :: "string list \<Rightarrow> amounts \<Rightarrow> distribution" where
  "start_distribution ex to =
     \<lparr>di_updateAmount = [], di_updateAmountToStruct = to, di_newFeeTotalPaying = 0, di_exemptAccounts = ex,
      di_target = feeCorrectionTarget_zero\<rparr>"

lemma start_fresh_from:
  assumes "from_ok i m" "to_ok i to" "fee_plain fee"
  shows "fresh_legs ex False fee i m (start_distribution ex to)"
  using assms unfolding fresh_legs_def start_distribution_def from_ok_def to_ok_def fee_plain_def leg_key_def
  by (simp, metis debitLegKey_new feeSourceKey_new)

lemma start_fresh_to:
  assumes "to_ok i m" "fee_plain fee"
  shows "fresh_legs ex True fee i m (start_distribution ex [])"
  using assms unfolding fresh_legs_def start_distribution_def to_ok_def fee_plain_def leg_key_def
  by (simp, metis feeSourceKey_new)

text \<open>A payer of the source side has a root that pays too, so the largest payer is found.\<close>

lemma payer_rooted: "rooted r k \<Longrightarrow> payer ex segs rs k \<longleftrightarrow> payer ex segs rs r"
  using rooted_trim [of r k] rooted_trim [of r r] by (simp add: payer_def exempt_of_def rooted_def)

lemma some_payer_nonneg:
  assumes "from_ok i m" "paying ex segs rs m \<noteq> []"
  shows "\<exists>p \<in> set (paying ex segs rs m). 0 \<le> am_Value (snd p)"
proof -
  from assms(2) obtain k b where k: "(k, b) \<in> set m" "payer ex segs rs k"
    by (fastforce simp: paying_def filter_empty_conv)
  then have "k \<in> keys m" by (force simp: keys_def)
  with assms(1) obtain r a where r: "rooted r k" "map_of m r = Some a" "0 \<le> am_Value a" by (auto simp: from_ok_def)
  then show ?thesis using payer_rooted [OF r(1), of ex segs rs] k(2) by (force simp: paying_def dest: map_of_SomeD)
qed

lemma proportional_parts:
  assumes "applyProportionalFee lib fee i m to fv ex segs sg isTo = (sg', Inr d)" "ctx_ok sg"
  defines "P \<equiv> paying ex segs (resolver_of sg) m"
  obtains sg1 sg2 mx t d1 where
    "mx \<in> keys P \<or> (\<forall>p \<in> set P. am_Value (snd p) < 0)"
    "ctx_ok sg2" "resolver_of sg2 = resolver_of sg" "t = values_sum P"
    "d = applyFeeCorrection fv isTo d1"
    "if t = 0 then d1 = (start_distribution ex to)\<lparr>di_updateAmount := m\<rparr> \<and> sg' = sg2
     else distribute_loop lib fee i fv segs isTo mx t m sg2 (start_distribution ex to) = (sg', Inr d1)"
proof -
  from assms(1) obtain sg1 mx where mx: "findMaxAccount m ex segs sg = (sg1, Inr mx)"
    by (auto simp: applyProportionalFee_def split: prod.splits sum.splits)
  note max = find_max_loop_result [OF assms(2) mx [unfolded findMaxAccount_def]]
  from assms(1) mx obtain d1 where
    calc: "calculateProportionalFees lib fee i m to fv ex segs sg1 isTo mx = (sg', Inr d1)" "d = applyFeeCorrection fv isTo d1"
    by (auto simp: applyProportionalFee_def split: prod.splits sum.splits)
  from calc(1) obtain sg2 t where t: "total_paying m ex segs sg1 0 = (sg2, Inr t)"
    by (auto simp: calculateProportionalFees_def Let_def split: prod.splits sum.splits)
  have sg1: "ctx_ok sg1" "resolver_of sg1 = resolver_of sg" using max by simp_all
  note tot = total_paying_result [OF sg1(1) t]
  have "if t = 0 then d1 = (start_distribution ex to)\<lparr>di_updateAmount := m\<rparr> \<and> sg' = sg2
        else distribute_loop lib fee i fv segs isTo mx t m sg2 (start_distribution ex to) = (sg', Inr d1)"
    using calc(1) t by (simp add: calculateProportionalFees_def Let_def start_distribution_def split: if_splits)
  then show ?thesis using that [of mx sg2 t d1] max tot sg1 calc(2) by (auto simp: P_def keys_def)
qed

lemma start_simps [simp]:
  "di_updateAmount (start_distribution ex to) = []"
  "di_updateAmountToStruct (start_distribution ex to) = to"
  "di_newFeeTotalPaying (start_distribution ex to) = 0"
  "di_exemptAccounts (start_distribution ex to) = ex"
  "di_target (start_distribution ex to) = feeCorrectionTarget_zero"
  by (simp_all add: start_distribution_def)

text \<open>What one fee does to the two sides: nothing, or both grow by the fee and legs were added.\<close>

definition fee_effect :: "decimal \<Rightarrow> amounts \<Rightarrow> amounts \<Rightarrow> distribution \<Rightarrow> bool" where
  "fee_effect x m to d \<longleftrightarrow>
     (if length (di_updateAmountToStruct d) = length to
      then values_sum (di_updateAmount d) = values_sum m \<and> values_sum (di_updateAmountToStruct d) = values_sum to
      else values_sum (di_updateAmount d) = values_sum m + x \<and> values_sum (di_updateAmountToStruct d) = values_sum to + x)"

lemma from_ok_grown:
  assumes ok: "from_ok i m" "fee_plain fee" and "K \<subseteq> keys m"
    and keys: "keys m' = keys m \<union> debitLegKey fee i ` K" and dist: "distinct (map fst m')"
    and kept: "\<And>k a. plain_key k \<Longrightarrow> map_of m k = Some a \<Longrightarrow> map_of m' k = Some a"
  shows "from_ok (Suc i) m'"
  unfolding from_ok_def
proof (intro conjI dist ballI)
  fix k
  assume "k \<in> keys m'"
  then obtain k0 where k0: "k0 \<in> keys m" "k = k0 \<or> k = debitLegKey fee i k0" using keys assms(3) by auto
  with ok(1) obtain r a where r: "rooted r k0" "map_of m r = Some a" "0 \<le> am_Value a" by (auto simp: from_ok_def)
  have "rooted r k" using k0(2) r(1) rooted_leg by auto
  moreover have "map_of m' r = Some a" using r kept by (simp add: rooted_def)
  ultimately show "\<exists>r a. rooted r k \<and> map_of m' r = Some a \<and> 0 \<le> am_Value a" using r(3) by blast
  have "plain_key k0 \<or> debit_key i k0" using ok(1) k0(1) by (simp add: from_ok_def)
  then show "plain_key k \<or> debit_key (Suc i) k"
    using k0(2) leg_key_mono(1) debit_key_leg ok(2) by (auto simp: fee_plain_def)
qed

lemma to_ok_grown:
  assumes ok: "to_ok i m" "fee_plain fee"
    and keys: "keys m' = keys m \<union> feeSourceKey fee i ` K" and dist: "distinct (map fst m')"
  shows "to_ok (Suc i) m'"
  using assms leg_key_mono(2) [of i] credit_key_leg [of fee i] by (auto simp: to_ok_def fee_plain_def)

lemma fee_on_top:
  assumes app: "applyProportionalFee lib fee i m to fv ex segs sg False = (sg', Inr d)"
    and ok: "ctx_ok sg" "from_ok i m" "to_ok i to" "fee_plain fee"
  shows "ctx_ok sg' \<and> resolver_of sg' = resolver_of sg \<and> from_ok (Suc i) (di_updateAmount d) \<and>
         to_ok (Suc i) (di_updateAmountToStruct d) \<and> fee_effect (am_Value fv) m to d"
  using app ok(1)
proof (rule proportional_parts)
  let ?P = "paying ex segs (resolver_of sg) m"
  fix sg1 sg2 mx t d1
  assume mx: "mx \<in> keys ?P \<or> (\<forall>p \<in> set ?P. am_Value (snd p) < 0)"
    and sg2: "ctx_ok sg2" "resolver_of sg2 = resolver_of sg"
    and t: "t = values_sum ?P" and d: "d = applyFeeCorrection fv False d1"
    and run: "if t = 0 then d1 = (start_distribution ex to)\<lparr>di_updateAmount := m\<rparr> \<and> sg' = sg2
              else distribute_loop lib fee i fv segs False mx t m sg2 (start_distribution ex to) = (sg', Inr d1)"
  show ?thesis
  proof (cases "t = 0")
    case True
    with run d show ?thesis using ok(2,3) sg2
      by (simp add: correction_none fee_effect_def from_ok_Suc to_ok_Suc)
  next
    case False
    then have loop: "distribute_loop lib fee i fv segs False mx t m sg2 (start_distribution ex to) = (sg', Inr d1)" using run by simp
    have "?P \<noteq> []" using False t by auto
    then have mx: "mx \<in> keys ?P" using mx some_payer_nonneg [OF ok(2), of ex segs "resolver_of sg"] by force
    note res = distribute_loop_result [OF loop sg2(1) start_fresh_from [OF ok(2-4)], unfolded start_simps sg2(2), OF refl refl refl,
        simplified leg_key_def, simplified]
    from res(3) have dist: "distinct (map fst (di_updateAmount d1))" "distinct (map fst (di_updateAmountToStruct d1))"
      by (simp_all add: fresh_legs_def)
    have legs: "debitLegKey fee i mx \<in> keys (di_updateAmount d1)" "feeSourceKey fee i mx \<in> keys (di_updateAmountToStruct d1)"
      using mx res(6,7) by auto
    have "di_target d1 = target_for False fee i mx feeCorrectionTarget_zero" using mx res(9) by simp
    note corr = correction_from [OF this legs dist, where fv = fv, folded d]
    have sums: "fee_effect (am_Value fv) m to d"
      using corr(1,2) corr(4) [THEN arg_cong, of length] res(4,5,8) \<open>?P \<noteq> []\<close> by (simp add: fee_effect_def)
    have "from_ok (Suc i) (di_updateAmount d)"
    proof (rule from_ok_grown [OF ok(2,4) paying_subset])
      show "keys (di_updateAmount d) = keys m \<union> debitLegKey fee i ` keys ?P" using res(6) keys_fst [OF corr(3)] by simp
      show "distinct (map fst (di_updateAmount d))" using corr(3) dist(1) by simp
      fix k a
      assume "plain_key k" "map_of m k = Some a"
      then show "map_of (di_updateAmount d) k = Some a"
        using corr(5) res(10) debitLegKey_new [of fee k i] ok(4) by (simp add: fee_plain_def)
    qed
    moreover have "to_ok (Suc i) (di_updateAmountToStruct d)"
      using to_ok_grown [OF ok(3,4), of _ "keys ?P"] res(7) keys_fst [OF corr(4)] corr(4) dist(2) by simp
    ultimately show ?thesis using res(1,2) sums by simp
  qed
qed

lemma fee_carved_out:
  assumes app: "applyProportionalFee lib fee i m [] fv ex segs sg True = (sg', Inr d)"
    and ok: "ctx_ok sg" "to_ok i m" "fee_plain fee"
  shows "ctx_ok sg' \<and> resolver_of sg' = resolver_of sg \<and> to_ok (Suc i) (di_updateAmount d) \<and>
         values_sum (di_updateAmount d) = values_sum m"
  using app ok(1)
proof (rule proportional_parts)
  let ?P = "paying ex segs (resolver_of sg) m"
  fix sg1 sg2 mx t d1
  assume sg2: "ctx_ok sg2" "resolver_of sg2 = resolver_of sg" and d: "d = applyFeeCorrection fv True d1"
    and run: "if t = 0 then d1 = (start_distribution ex [])\<lparr>di_updateAmount := m\<rparr> \<and> sg' = sg2
              else distribute_loop lib fee i fv segs True mx t m sg2 (start_distribution ex []) = (sg', Inr d1)"
  show ?thesis
  proof (cases "t = 0")
    case True
    with run d show ?thesis using ok(2) sg2 by (simp add: correction_none to_ok_Suc)
  next
    case False
    then have loop: "distribute_loop lib fee i fv segs True mx t m sg2 (start_distribution ex []) = (sg', Inr d1)" using run by simp
    note res = distribute_loop_result [OF loop sg2(1) start_fresh_to [OF ok(2,3)], unfolded start_simps sg2(2), OF refl refl refl,
        simplified leg_key_def, simplified]
    from res(3) have dist: "distinct (map fst (di_updateAmount d1))" by (simp add: fresh_legs_def)
    have same: "values_sum (di_updateAmount d) = values_sum (di_updateAmount d1) \<and>
      map fst (di_updateAmount d) = map fst (di_updateAmount d1)"
    proof (cases "mx \<in> keys ?P")
      case True
      then have "feeSourceKey fee i mx \<in> keys (di_updateAmount d1)" "mx \<in> keys (di_updateAmount d1)"
        using res(6) paying_subset [of ex segs "resolver_of sg" m] by auto
      moreover have "di_target d1 = target_for True fee i mx feeCorrectionTarget_zero" using True res(9) by simp
      ultimately show "values_sum (di_updateAmount d) = values_sum (di_updateAmount d1) \<and>
        map fst (di_updateAmount d) = map fst (di_updateAmount d1)"
        using correction_to [of d1 fee i mx fv] dist d by simp
    next
      case False
      with res(9) d show "values_sum (di_updateAmount d) = values_sum (di_updateAmount d1) \<and>
        map fst (di_updateAmount d) = map fst (di_updateAmount d1)"
        by (simp add: correction_none)
    qed
    have "to_ok (Suc i) (di_updateAmount d1)" by (rule to_ok_grown [OF ok(2,3) res(6) dist])
    then show ?thesis using to_ok_keys same res(1,2,4) by simp
  qed
qed

section \<open>A package\<close>

definition state_ok :: "nat \<Rightarrow> fee_state \<Rightarrow> bool" where
  "state_ok i s \<longleftrightarrow> from_ok i (rsp_From (fs_resp s)) \<and> to_ok i (rsp_To (fs_resp s)) \<and>
     values_sum (rsp_From (fs_resp s)) = send_value (fs_f s) \<and> values_sum (rsp_To (fs_resp s)) = send_value (fs_f s)"

lemma send_value_simps [simp]:
  "send_value (setFeeExemptionMetadata f reason) = send_value f"
  "send_value (raise_value x f) = send_value f + x"
  "send_value (set_entries from to f) = send_value f"
  by (simp_all add: send_value_def setFeeExemptionMetadata_def raise_value_def set_entries_def Let_def)

lemma state_simps [simp]:
  "state_ok i (add_credit_account fee s) = state_ok i s"
  "state_ok i (note_exemption b reason s) = state_ok i s"
  by (simp_all add: state_ok_def add_credit_account_def note_exemption_def)

lemma state_ok_Suc: "state_ok i s \<Longrightarrow> state_ok (Suc i) s"
  by (simp add: state_ok_def from_ok_Suc to_ok_Suc)

lemma rules_keep_balance:
  assumes run: "applyDeductibleAndReferenceAmountRules lib i segs fee fv s sg = (sg', Inr s')"
    and ok: "ctx_ok sg" "state_ok i s" "fee_plain fee"
  shows "ctx_ok sg' \<and> state_ok (Suc i) s'"
proof -
  let ?ex = "fs_waivedAccounts s"
  obtain sg1 y where y: "allAccountsExempt (rsp_From (fs_resp s)) ?ex segs sg = (sg1, y)" by force
  have sg1: "ctx_ok sg1" using allAccountsExempt_step [OF ok(1) y] by simp
  have side: "from_ok i (rsp_From (fs_resp s))" "to_ok i (rsp_To (fs_resp s))" using ok(2) by (simp_all add: state_ok_def)
  show ?thesis
  proof (cases "y = Inr False")
    case exempt: False
    then show ?thesis
      using run y ok(2) allAccountsExempt_step [OF sg1]
      by (auto simp: applyDeductibleAndReferenceAmountRules_def Let_def state_ok_Suc split: sum.splits prod.splits bool.splits)
  next
    case pay: True
    show ?thesis
    proof (cases "GetIsDeductibleFrom fee")
      case False
      from run y pay False obtain d where
        d: "applyProportionalFee lib fee i (rsp_From (fs_resp s)) (rsp_To (fs_resp s)) fv ?ex segs sg1 False = (sg', Inr d)"
        by (auto simp: applyDeductibleAndReferenceAmountRules_def Let_def split: sum.splits prod.splits)
      from fee_on_top [OF d sg1 side ok(3)] run y pay False d ok(2) show ?thesis
        by (auto simp: applyDeductibleAndReferenceAmountRules_def Let_def state_ok_def fee_effect_def add_credit_account_def
            split: if_splits)
    next
      case True
      from run y pay True obtain sg2 d b where
        d: "applyProportionalFee lib fee i (rsp_To (fs_resp s)) [] fv ?ex segs sg1 True = (sg2, Inr d)"
        "allAccountsExempt (di_updateAmount d) (di_exemptAccounts d) segs sg2 = (sg', Inr b)"
        by (auto simp: applyDeductibleAndReferenceAmountRules_def Let_def split: sum.splits prod.splits)
      from fee_carved_out [OF d(1) sg1 side(2) ok(3)] run y pay True d ok(2) allAccountsExempt_step [OF _ d(2)] show ?thesis
        by (auto simp: applyDeductibleAndReferenceAmountRules_def Let_def state_ok_def from_ok_Suc add_credit_account_def
            note_exemption_def)
    qed
  qed
qed

lemma fees_loop_keeps_balance:
  assumes "fees_loop lib asset v segs i fees s sg = (sg', Inr s')" "ctx_ok sg" "state_ok i s" "\<forall>fee \<in> set fees. fee_plain fee"
  shows "\<exists>n. state_ok n s'"
  using assms
proof (induction fees arbitrary: i s sg)
  case (Cons fee fees)
  from Cons.prems(1) obtain fv sg1 s1 where
    rules: "applyDeductibleAndReferenceAmountRules lib i segs fee fv s sg = (sg1, Inr s1)"
    and rest: "fees_loop lib asset v segs (Suc i) fees s1 sg1 = (sg', Inr s')"
    by (auto split: sum.splits prod.splits)
  from rules_keep_balance [OF rules Cons.prems(2,3)] Cons.prems(4) Cons.IH [OF rest] show ?case by simp
qed auto

definition entries_sum :: "FromTo list \<Rightarrow> decimal" where
  "entries_sum es = (\<Sum>e \<leftarrow> es. case ft_Amount e of None \<Rightarrow> 0 | Some a \<Rightarrow> am_Value a)"

lemma updatedAmounts_sum: "entries_sum (updatedAmountsFromFee m) = values_sum m"
  by (induction m) (auto simp: entries_sum_def updatedAmountsFromFee_def fee_entry_def Let_def fee_amount_def split: prod.splits)

text \<open>What the request validation gives the engine: distinct plain aliases and source amounts that are not negative.\<close>

definition plain_sides :: "Responses \<Rightarrow> bool" where
  "plain_sides resp \<longleftrightarrow>
     distinct (map fst (rsp_From resp)) \<and> distinct (map fst (rsp_To resp)) \<and>
     list_all (\<lambda>p. plain_key (fst p) \<and> 0 \<le> am_Value (snd p)) (rsp_From resp) \<and>
     list_all (\<lambda>p. plain_key (fst p)) (rsp_To resp)"

definition plain_package :: "Package \<Rightarrow> bool" where
  "plain_package p = list_all (\<lambda>q. fee_plain (snd q)) (pk_Fees p)"

definition sends :: "FeeCalculate \<Rightarrow> FromTo list" where
  "sends f = src_From (snd_Source (tx_Send (fc_Transaction f)))"

definition receives :: "FeeCalculate \<Rightarrow> FromTo list" where
  "receives f = dst_To (snd_Distribute (tx_Send (fc_Transaction f)))"

text \<open>
  C24. The fee engine keeps double entry exactly: when a balanced transaction goes through all fees
  of a package (on top of the sources or carved out of the destinations, with waived accounts and
  segments), the source legs and the destination legs still sum to the value of the transaction,
  which has grown by the fees on top; so do the entries it hands back. This holds for any rounding
  of the proportional division, because the residual goes to the largest payer.
\<close>

theorem CalculateFee_keeps_double_entry:
  assumes run: "CalculateFee lib f p resp currency segCtx = Inr (f', resp')"
    and resolver: "ctx_ok segCtx"
    and shape: "plain_sides resp" "plain_package p"
    and balanced: "values_sum (rsp_From resp) = send_value f" "values_sum (rsp_To resp) = send_value f"
  shows "values_sum (rsp_From resp') = send_value f' \<and> values_sum (rsp_To resp') = send_value f' \<and>
         entries_sum (sends f') = send_value f' \<and> entries_sum (receives f') = send_value f'"
proof -
  let ?fees = "sort_key fee_Priority (map snd (pk_Fees p))"
  from run obtain asset segs al sg' s where
    loop: "fees_loop lib asset (send_value f) segs 0 ?fees \<lparr>fs_f = f, fs_resp = resp, fs_waivedAccounts = al\<rparr> segCtx = (sg', Inr s)"
    and f': "f' = set_entries (updatedAmountsFromFee (rsp_From (fs_resp s))) (updatedAmountsFromFee (rsp_To (fs_resp s))) (fs_f s)"
    and resp': "resp' = fs_resp s"
    by (auto simp: CalculateFee_def Let_def split: sum.splits prod.splits)
  have "from_ok 0 (rsp_From resp)"
    using shape(1) by (force simp: from_ok_def plain_sides_def list_all_iff keys_def intro: rooted_plain)
  moreover have "to_ok 0 (rsp_To resp)" using shape(1) by (auto simp: to_ok_def plain_sides_def list_all_iff keys_def)
  ultimately have start: "state_ok 0 \<lparr>fs_f = f, fs_resp = resp, fs_waivedAccounts = al\<rparr>" using balanced by (simp add: state_ok_def)
  have "\<forall>fee \<in> set ?fees. fee_plain fee" using shape(2) by (auto simp: plain_package_def list_all_iff)
  from fees_loop_keeps_balance [OF loop resolver start this] obtain n where "state_ok n s" by blast
  then show ?thesis
    by (simp add: f' resp' state_ok_def sends_def receives_def set_entries_def Let_def updatedAmounts_sum send_value_def)
qed

text \<open>
  C30. The engine forgets everything about an entry but its account and its amount: each entry it
  hands back, of the request or of a fee, has no balance key, no route id, no description and no
  chart of accounts, so the default keys that are filled in afterwards send every entry to the
  default balance of its account.
\<close>

theorem fee_engine_forgets_balance_keys:
  assumes "CalculateFee lib f p resp currency segCtx = Inr (f', resp')" "e \<in> set (sends f' @ receives f')"
  shows "ft_BalanceKey e = '''' \<and> ft_RouteID e = None \<and> ft_Description e = '''' \<and> ft_ChartOfAccounts e = '''' \<and>
         (\<forall>e' \<in> set (ApplyDefaultBalanceKeys (sends f' @ receives f')). ft_BalanceKey e' = DefaultBalanceKey)"
proof -
  from assms(1) obtain m to f1 where "f' = set_entries (updatedAmountsFromFee m) (updatedAmountsFromFee to) f1"
    by (auto simp: CalculateFee_def Let_def split: sum.splits prod.splits)
  then have entries: "sends f' @ receives f' = map fee_entry (m @ to)"
    by (simp add: sends_def receives_def set_entries_def Let_def updatedAmountsFromFee_def)
  have plain: "ft_BalanceKey (fee_entry q) = '''' \<and> ft_RouteID (fee_entry q) = None \<and> ft_Description (fee_entry q) = '''' \<and>
    ft_ChartOfAccounts (fee_entry q) = ''''" for q
    by (simp add: fee_entry_def Let_def FromTo_zero_def split: prod.splits)
  from assms(2) obtain q where "e = fee_entry q" unfolding entries by auto
  then show ?thesis unfolding entries using plain by (auto simp: ApplyDefaultBalanceKeys_def)
qed

section \<open>An example with two fees\<close>

definition sample_fee :: "bool \<Rightarrow> int \<Rightarrow> string \<Rightarrow> string \<Rightarrow> Fee" where
  "sample_fee deductible priority rule credit =
     \<lparr>fee_FeeLabel = ''fee'', fee_CalculationModel = Some \<lparr>cmod_ApplicationRule = rule,
        cmod_Calculations = [\<lparr>calc_Type = FeeTypeFlat, calc_Value = ''7''\<rparr>]\<rparr>,
      fee_ReferenceAmount = ReferenceAmountOriginalAmount, fee_Priority = priority, fee_IsDeductibleFrom = Some deductible,
      fee_CreditAccount = credit, fee_RouteFrom = None, fee_RouteTo = Some ''fees''\<rparr>"

definition sample_package :: Package where
  "sample_package =
     \<lparr>pk_ID = 1, pk_FeeGroupLabel = ''g'', pk_Description = None, pk_SegmentID = None, pk_LedgerID = 2,
      pk_TransactionRoute = None, pk_MinimumAmount = 0, pk_MaximumAmount = 1000, pk_WaivedAccounts = Some [''@b''],
      pk_Fees = [(''carved'', sample_fee True 2 AppRuleFlatFee ''@fees''), (''top'', sample_fee False 1 AppRulePercentual ''@fees'')],
      pk_Enable = Some True, pk_CreatedAt = 0, pk_UpdatedAt = 0, pk_DeletedAt = None\<rparr>"

definition fee_lib :: extlib where
  "fee_lib = exact_lib\<lparr>dec_NewFromString := (\<lambda>s. if s = ''7'' then Some 7 else None), dec_Div := (\<lambda>x y. of_int \<lfloor>1000 * x / y\<rfloor> / 1000)\<rparr>"

definition sample_sides :: Responses where
  "sample_sides =
     \<lparr>rsp_Total = 100, rsp_Asset = ''BRL'', rsp_From = [(''@a'', fee_amount ''BRL'' 33), (''@b'', fee_amount ''BRL'' 50), (''@e'', fee_amount ''BRL'' 17)],
      rsp_To = [(''@c'', fee_amount ''BRL'' 71), (''@d'', fee_amount ''BRL'' 29)], rsp_Sources = [], rsp_Destinations = [], rsp_Aliases = [],
      rsp_Pending = False, rsp_TransactionRoute = '''', rsp_TransactionRouteID = None, rsp_OperationRoutesFrom = [],
      rsp_OperationRoutesTo = []\<rparr>"

definition sample_request :: FeeCalculate where
  "sample_request = \<lparr>fc_SegmentID = None, fc_LedgerID = 2, fc_Transaction = sample_tx False\<rparr>"

definition sample_charged :: "goerr + FeeCalculate \<times> Responses" where
  "sample_charged = CalculateFee fee_lib sample_request sample_package sample_sides '''' None"

lemma sample_charged_runs: "is_Inr sample_charged"
  by code_simp

lemma sample_charged_eq: "CalculateFee fee_lib sample_request sample_package sample_sides '''' None =
  Inr (fst (projr sample_charged), snd (projr sample_charged))"
  using sample_charged_runs by (cases sample_charged) (simp_all add: is_Inr_def sample_charged_def)

theorem CalculateFee_keeps_double_entry_witness:
  "send_value (fst (projr sample_charged)) = 107 \<and>
   values_sum (rsp_From (snd (projr sample_charged))) = 107 \<and> values_sum (rsp_To (snd (projr sample_charged))) = 107"
proof -
  have v: "send_value (fst (projr sample_charged)) = 107" by code_simp
  have shape: "plain_sides sample_sides" "plain_package sample_package" by code_simp+
  have bal: "values_sum (rsp_From sample_sides) = send_value sample_request" "values_sum (rsp_To sample_sides) = send_value sample_request"
    by code_simp+
  have "ctx_ok None" by (simp add: ctx_ok_def)
  from CalculateFee_keeps_double_entry [OF sample_charged_eq this shape bal] v
  show ?thesis by simp
qed

theorem fee_engine_forgets_balance_keys_witness:
  "sends (fst (projr sample_charged)) \<noteq> [] \<and> ft_BalanceKey (hd (sends (fst (projr sample_charged)))) = ''''"
proof -
  have ne: "sends (fst (projr sample_charged)) \<noteq> []" by code_simp
  then have "hd (sends (fst (projr sample_charged))) \<in> set (sends (fst (projr sample_charged)) @ receives (fst (projr sample_charged)))" by simp
  from fee_engine_forgets_balance_keys [OF sample_charged_eq this] ne
  show ?thesis by simp
qed

end
