(* ===== verification/FeePackageModel.thy ===== *)
theory FeePackageModel
  imports LedgerFees
begin

text \<open>
  Fee packages as data: the checks of \<^verbatim>\<open>components/ledger/pkg/feeshared/model\<close>
  (\<^verbatim>\<open>package.go\<close>, \<^verbatim>\<open>create_package_input.go\<close>, \<^verbatim>\<open>update_package_input.go\<close>) on requests that create
  or change a package, and the choice of the package that applies to a transaction
  (\<^verbatim>\<open>pkg/fee/filter.go\<close>).

  An update collects the fields to set in a \<^verbatim>\<open>bson.M\<close> under dotted paths such as
  \<^verbatim>\<open>fees.<key>.priority\<close>. Here the fields of one fee are the record \<open>fee_patch\<close> with an
  optional value per path; absent paths are \<open>None\<close>.
\<close>

section \<open>Requests\<close>

definition FlatFee :: string where [simp]: "FlatFee = ''flatFee''"
definition OriginalAmount :: string where [simp]: "OriginalAmount = ''originalAmount''"
definition Percentual :: string where [simp]: "Percentual = ''percentual''"
definition MaxBetween :: string where [simp]: "MaxBetween = ''maxBetweenTypes''"
definition Flat :: string where [simp]: "Flat = ''flat''"
definition Percentage :: string where [simp]: "Percentage = ''percentage''"
definition maxAmountExponent :: int where "maxAmountExponent = 1000"

definition parseAmountDecimal :: "extlib \<Rightarrow> string \<Rightarrow> decimal option" where
  "parseAmountDecimal lib s =
     (case dec_NewFromString lib s of
        None \<Rightarrow> None
      | Some d \<Rightarrow>
        (let e = dec_Exponent lib s in if maxAmountExponent < e \<or> e < - maxAmountExponent then None else Some d))"

record CreatePackageInput =
  cpi_FeeGroupLabel :: string
  cpi_Description :: "string option"
  cpi_SegmentID :: "string option"
  cpi_LedgerID :: string
  cpi_TransactionRoute :: "string option"
  cpi_MinAmount :: string
  cpi_MaxAmount :: string
  cpi_WaivedAccounts :: "string list option"
  cpi_Fee :: "(string, Fee) gomap"
  cpi_Enable :: "bool option"

record UpdatePackageInput =
  upi_FeeGroupLabel :: string
  upi_Description :: string
  upi_MinAmount :: "string option"
  upi_MaxAmount :: "string option"
  upi_WaivedAccounts :: "string list option"
  upi_Fee :: "(string, Fee) gomap option"
  upi_EnablePackage :: "bool option"

record AmountData =
  ad_MinAmount :: decimal
  ad_MaxAmount :: decimal
  ad_Fees :: "(string, Fee) gomap"
  ad_LedgerID :: uuid
  ad_SegmentID :: "uuid option"
  ad_TransactionRoute :: "string option"

definition deref :: "string option \<Rightarrow> string" where
  "deref p = (case p of None \<Rightarrow> '''' | Some s \<Rightarrow> s)"

definition cpi_GetTransactionRoute :: "CreatePackageInput \<Rightarrow> string" where
  "cpi_GetTransactionRoute cp = deref (cpi_TransactionRoute cp)"

definition GetMinimumAmount :: "UpdatePackageInput \<Rightarrow> string" where
  "GetMinimumAmount up = deref (upi_MinAmount up)"

definition GetMaximumAmount :: "UpdatePackageInput \<Rightarrow> string" where
  "GetMaximumAmount up = deref (upi_MaxAmount up)"

definition ad_GetTransactionRoute :: "AmountData \<Rightarrow> string" where
  "ad_GetTransactionRoute a = deref (ad_TransactionRoute a)"

definition nil_or_empty :: "commons \<Rightarrow> string option \<Rightarrow> bool" where
  "nil_or_empty cm p = (case p of None \<Rightarrow> True | Some s \<Rightarrow> IsNilOrEmpty cm s)"

section \<open>Checks of a calculation model\<close>

definition validateCalculationCountForRule :: "CalculationModel \<Rightarrow> goerr option" where
  "validateCalculationCountForRule model =
     (let n = length (cmod_Calculations model); rule = cmod_ApplicationRule model in
      if rule = FlatFee \<or> rule = Percentual then err_if (n \<noteq> 1) (Business ErrAppRuleFlatFeeAndPercentual)
      else if rule = MaxBetween then err_if (n = 1 \<or> n = 0) (Business ErrAppRuleMaxBetweenTypes)
      else None)"

definition first_type_is :: "CalculationModel \<Rightarrow> string \<Rightarrow> bool" where
  "first_type_is model ty = (case cmod_Calculations model of [] \<Rightarrow> False | c # _ \<Rightarrow> calc_Type c = ty)"

definition validateCalculationRuleAndTypes :: "CalculationModel \<Rightarrow> goerr option" where
  "validateCalculationRuleAndTypes model =
     (if cmod_ApplicationRule model = FlatFee then err_if (\<not> first_type_is model Flat) (Business ErrCalculationTypeFlatFee)
      else if cmod_ApplicationRule model = Percentual
      then err_if (\<not> first_type_is model Percentage) (Business ErrCalculationTypePercentual)
      else None)"

definition validate_calculation_value :: "extlib \<Rightarrow> string \<Rightarrow> bool \<Rightarrow> Calculation \<Rightarrow> goerr option" where
  "validate_calculation_value lib minAmount isDeductible calc =
     (case parseAmountDecimal lib (calc_Value calc) of
        None \<Rightarrow> Some (Business ErrConvertToDecimal)
      | Some valueCalc \<Rightarrow>
        if minAmount \<noteq> '''' \<and> isDeductible then
          if calc_Type calc = Percentage \<and> 100 < valueCalc then Some (Business ErrCalculationValuePercentage)
          else if calc_Type calc = Flat then
            (case parseAmountDecimal lib minAmount of
               None \<Rightarrow> Some (Business ErrConvertToDecimal)
             | Some minAmountDecimal \<Rightarrow> err_if (minAmountDecimal < valueCalc) (Business ErrCalculationValueFlatFee))
          else None
        else None)"

definition validateCalculationValues :: "extlib \<Rightarrow> CalculationModel \<Rightarrow> string \<Rightarrow> bool \<Rightarrow> goerr option" where
  "validateCalculationValues lib model minAmount isDeductible =
     first_err (map (validate_calculation_value lib minAmount isDeductible) (cmod_Calculations model))"

definition validateCalculationModel :: "extlib \<Rightarrow> CalculationModel option \<Rightarrow> string \<Rightarrow> bool \<Rightarrow> goerr option" where
  "validateCalculationModel lib model minAmount isDeductibleFrom =
     (case model of
        None \<Rightarrow> Some (Business ErrCalculationRequired)
      | Some m \<Rightarrow>
        first_err [validateCalculationCountForRule m, validateCalculationRuleAndTypes m,
                   validateCalculationValues lib m minAmount isDeductibleFrom])"

section \<open>Checks of a request to create\<close>

definition validate_fee :: "extlib \<Rightarrow> string \<Rightarrow> Fee \<Rightarrow> goerr option" where
  "validate_fee lib minAmount fee =
     first_err
       [err_if (fee_Priority fee = 1 \<and> fee_ReferenceAmount fee \<noteq> OriginalAmount) (Business ErrPriorityOne),
        err_if (GetIsDeductibleFrom fee \<and> fee_ReferenceAmount fee \<noteq> OriginalAmount) (Business ErrIsDeductibleFrom),
        validateCalculationModel lib (fee_CalculationModel fee) minAmount (GetIsDeductibleFrom fee)]"

definition cpi_ValidateFees :: "extlib \<Rightarrow> CreatePackageInput \<Rightarrow> goerr option" where
  "cpi_ValidateFees lib cp = first_err (map (\<lambda>p. validate_fee lib (cpi_MinAmount cp) (snd p)) (cpi_Fee cp))"

definition cpi_ValidateMinAndMaxAmount :: "extlib \<Rightarrow> CreatePackageInput \<Rightarrow> goerr option" where
  "cpi_ValidateMinAndMaxAmount lib cp =
     (case parseAmountDecimal lib (cpi_MinAmount cp) of
        None \<Rightarrow> Some (Business ErrConvertToDecimal)
      | Some minRealValue \<Rightarrow>
        (case parseAmountDecimal lib (cpi_MaxAmount cp) of
           None \<Rightarrow> Some (Business ErrConvertToDecimal)
         | Some maxRealValue \<Rightarrow>
           first_err
             [err_if (maxRealValue < minRealValue) (Business ErrMinAmountGreaterThanMaxAmount),
              err_if (contains (cpi_MinAmount cp) '','') (Business ErrConvertToDecimal),
              err_if (contains (cpi_MaxAmount cp) '','') (Business ErrConvertToDecimal)]))"

section \<open>Checks of a request to update\<close>

definition ValidateIfFeeIsNil :: "Fee \<Rightarrow> bool" where
  "ValidateIfFeeIsNil f =
     (fee_FeeLabel f = '''' \<and> fee_CalculationModel f = None \<and> fee_ReferenceAmount f = '''' \<and> fee_Priority f = 0 \<and>
      fee_IsDeductibleFrom f = None \<and> fee_CreditAccount f = '''')"

definition validate_fee_update :: "extlib \<Rightarrow> string \<Rightarrow> Fee \<Rightarrow> goerr option" where
  "validate_fee_update lib minAmount fee =
     (if ValidateIfFeeIsNil fee then None
      else first_err
        [err_if (fee_Priority fee \<noteq> 0 \<and> fee_ReferenceAmount fee \<noteq> '''' \<and> fee_Priority fee = 1 \<and>
                 fee_ReferenceAmount fee \<noteq> OriginalAmount) (Business ErrPriorityOne),
         err_if (fee_ReferenceAmount fee \<noteq> '''' \<and> fee_IsDeductibleFrom fee \<noteq> None \<and> GetIsDeductibleFrom fee \<and>
                 fee_ReferenceAmount fee \<noteq> OriginalAmount) (Business ErrIsDeductibleFrom),
         (if fee_CalculationModel fee \<noteq> None
          then validateCalculationModel lib (fee_CalculationModel fee) minAmount (GetIsDeductibleFrom fee) else None)])"

definition upi_ValidateFees :: "extlib \<Rightarrow> UpdatePackageInput \<Rightarrow> goerr option" where
  "upi_ValidateFees lib up =
     first_err (map (\<lambda>p. validate_fee_update lib (GetMinimumAmount up) (snd p)) (case upi_Fee up of None \<Rightarrow> [] | Some m \<Rightarrow> m))"

definition upi_ValidateMinAndMaxAmount :: "extlib \<Rightarrow> UpdatePackageInput \<Rightarrow> goerr option" where
  "upi_ValidateMinAndMaxAmount lib up =
     (let minReal = Option.bind (upi_MinAmount up) (parseAmountDecimal lib);
          maxReal = Option.bind (upi_MaxAmount up) (parseAmountDecimal lib)
      in if upi_MinAmount up \<noteq> None \<and> minReal = None then Some (Business ErrConvertToDecimal)
         else if upi_MaxAmount up \<noteq> None \<and> maxReal = None then Some (Business ErrConvertToDecimal)
         else (case (minReal, maxReal) of
                 (Some lo, Some hi) \<Rightarrow> err_if (hi < lo) (Business ErrMinAmountGreaterThanMaxAmount)
               | _ \<Rightarrow> None))"

definition ValidateMinAmountUpdate :: "extlib \<Rightarrow> string \<Rightarrow> decimal \<Rightarrow> goerr option" where
  "ValidateMinAmountUpdate lib minAmount maxAmountData =
     (case parseAmountDecimal lib minAmount of
        None \<Rightarrow> Some (Business ErrConvertToDecimal)
      | Some lo \<Rightarrow> err_if (maxAmountData < lo) (Business ErrMinAmountGreaterThanMaxAmount))"

definition ValidateMaxAmountUpdate :: "extlib \<Rightarrow> string \<Rightarrow> decimal \<Rightarrow> goerr option" where
  "ValidateMaxAmountUpdate lib maxAmount minAmountData =
     (case parseAmountDecimal lib maxAmount of
        None \<Rightarrow> Some (Business ErrConvertToDecimal)
      | Some hi \<Rightarrow> err_if (hi < minAmountData) (Business ErrMaxAmountLessThanMinAmount))"

subsection \<open>A fee that is new to the package\<close>

definition Fee_zero :: Fee where
  "Fee_zero =
     \<lparr>fee_FeeLabel = '''', fee_CalculationModel = None, fee_ReferenceAmount = '''', fee_Priority = 0,
      fee_IsDeductibleFrom = None, fee_CreditAccount = '''', fee_RouteFrom = None, fee_RouteTo = None\<rparr>"

definition fee_at :: "(string, Fee) gomap \<Rightarrow> string \<Rightarrow> Fee" where
  "fee_at m key = (case map_of m key of None \<Rightarrow> Fee_zero | Some f \<Rightarrow> f)"

definition shouldValidateDeductibleCalculation :: "(string, Fee) gomap \<Rightarrow> bool option \<Rightarrow> string \<Rightarrow> bool" where
  "shouldValidateDeductibleCalculation existingFees updateDeductibleFrom feeKey =
     (case updateDeductibleFrom of Some b \<Rightarrow> b | None \<Rightarrow> GetIsDeductibleFrom (fee_at existingFees feeKey))"

definition shouldValidateDeductibleCalculationForNewFee :: "Fee \<Rightarrow> string \<Rightarrow> bool" where
  "shouldValidateDeductibleCalculationForNewFee f feeKey =
     shouldValidateDeductibleCalculation [(feeKey, f)] (fee_IsDeductibleFrom f) feeKey"

definition validatePercentageCalculation :: "decimal \<Rightarrow> goerr option" where
  "validatePercentageCalculation valueCalc = err_if (100 < valueCalc) (Business ErrDeductibleCalculationValuePercentage)"

definition validateFlatCalculation :: "decimal \<Rightarrow> decimal \<Rightarrow> goerr option" where
  "validateFlatCalculation valueCalc minAmount = err_if (minAmount < valueCalc) (Business ErrDeductibleCalculationValueFlatFee)"

definition validateNewFeeCalculationValue :: "Calculation \<Rightarrow> decimal \<Rightarrow> decimal \<Rightarrow> goerr option" where
  "validateNewFeeCalculationValue calc calcValue minAmount =
     (if calc_Type calc = Percentage then validatePercentageCalculation calcValue
      else if calc_Type calc = Flat then validateFlatCalculation calcValue minAmount
      else None)"

definition validateRequiredFields :: "Fee \<Rightarrow> goerr option" where
  "validateRequiredFields f =
     (if fee_FeeLabel f = '''' then Some (Business ErrFeeFieldsRequired)
      else (case fee_CalculationModel f of
              None \<Rightarrow> Some nil_dereference
            | Some m \<Rightarrow>
              err_if (cmod_ApplicationRule m = '''' \<or> length (cmod_Calculations m) = 0 \<or> fee_ReferenceAmount f = '''' \<or>
                      fee_Priority f = 0 \<or> fee_CreditAccount f = '''' \<or> fee_IsDeductibleFrom f = None)
                (Business ErrFeeFieldsRequired)))"

definition validateCalculation :: "extlib \<Rightarrow> Fee \<Rightarrow> string \<Rightarrow> decimal \<Rightarrow> Calculation \<Rightarrow> goerr option" where
  "validateCalculation lib f feeKey minAmount calc =
     (case parseAmountDecimal lib (calc_Value calc) of
        None \<Rightarrow> Some (Business ErrConvertToDecimal)
      | Some v \<Rightarrow>
        if calc_Type calc = '''' \<or> v = 0 then Some (Business ErrCalculationFieldOfFeeRequired)
        else if \<not> shouldValidateDeductibleCalculationForNewFee f feeKey then None
        else validateNewFeeCalculationValue calc v minAmount)"

definition calculations_of :: "Fee \<Rightarrow> Calculation list" where
  "calculations_of f = (case fee_CalculationModel f of None \<Rightarrow> [] | Some m \<Rightarrow> cmod_Calculations m)"

definition validateCalculations :: "extlib \<Rightarrow> Fee \<Rightarrow> string \<Rightarrow> decimal \<Rightarrow> goerr option" where
  "validateCalculations lib f feeKey minAmount =
     first_err (map (validateCalculation lib f feeKey minAmount) (calculations_of f))"

definition validateApplicationRule :: "Fee \<Rightarrow> goerr option" where
  "validateApplicationRule f =
     (case fee_CalculationModel f of
        None \<Rightarrow> Some nil_dereference
      | Some m \<Rightarrow>
        err_if (cmod_ApplicationRule m = MaxBetween \<and> length (cmod_Calculations m) \<le> 1) (Business ErrAppRuleMaxBetweenTypes))"

definition ValidateNewFee :: "extlib \<Rightarrow> Fee \<Rightarrow> string \<Rightarrow> decimal \<Rightarrow> goerr option" where
  "ValidateNewFee lib f feeKey minAmount =
     first_err [validateRequiredFields f, validateCalculations lib f feeKey minAmount, validateApplicationRule f]"

subsection \<open>A fee that the package has\<close>

record fee_patch =
  fp_fee_label :: "string option"
  fp_application_rule :: "string option"
  fp_calculations :: "Calculation list option"
  fp_reference_amount :: "string option"
  fp_priority :: "int option"
  fp_is_deductible_from :: "bool option"
  fp_credit_account :: "string option"
  fp_route_from :: "string option"
  fp_route_to :: "string option"

definition no_patch :: fee_patch where
  "no_patch =
     \<lparr>fp_fee_label = None, fp_application_rule = None, fp_calculations = None, fp_reference_amount = None, fp_priority = None,
      fp_is_deductible_from = None, fp_credit_account = None, fp_route_from = None, fp_route_to = None\<rparr>"

definition validateReferenceAmountIsInvalid :: "Fee \<Rightarrow> bool" where
  "validateReferenceAmountIsInvalid f =
     (fee_ReferenceAmount f \<noteq> ReferenceAmountOriginalAmount \<and> fee_ReferenceAmount f \<noteq> ReferenceAmountAfterFeesAmount)"

definition validateAppRuleIsInvalid :: "CalculationModel \<Rightarrow> bool" where
  "validateAppRuleIsInvalid m =
     (cmod_ApplicationRule m \<noteq> ''maxBetweenTypes'' \<and> cmod_ApplicationRule m \<noteq> ''flatFee'' \<and> cmod_ApplicationRule m \<noteq> ''percentual'')"

definition validateCalculationType :: "Calculation \<Rightarrow> goerr option" where
  "validateCalculationType calc = err_if (calc_Type calc \<noteq> ''percentage'' \<and> calc_Type calc \<noteq> ''flat'') (Business ErrCalculationTypeInvalid)"

definition validate_deductible_value :: "extlib \<Rightarrow> decimal \<Rightarrow> bool \<Rightarrow> Calculation \<Rightarrow> goerr option" where
  "validate_deductible_value lib minAmount applies calc =
     (case parseAmountDecimal lib (calc_Value calc) of
        None \<Rightarrow> Some (Business ErrConvertToDecimal)
      | Some valueCalc \<Rightarrow> if applies then validateNewFeeCalculationValue calc valueCalc minAmount else None)"

definition validateCalculationValue ::
  "extlib \<Rightarrow> Calculation \<Rightarrow> (string, Fee) gomap \<Rightarrow> bool option \<Rightarrow> string \<Rightarrow> decimal \<Rightarrow> goerr option" where
  "validateCalculationValue lib calc existingFees updateDeductibleFrom feeKey minAmount =
     validate_deductible_value lib minAmount (shouldValidateDeductibleCalculation existingFees updateDeductibleFrom feeKey) calc"

definition validateDeductibleCalculation :: "extlib \<Rightarrow> Calculation \<Rightarrow> decimal \<Rightarrow> goerr option" where
  "validateDeductibleCalculation lib calc minAmount = validate_deductible_value lib minAmount True calc"

text \<open>Each updater returns whether it set a field, and the fields.\<close>

type_synonym patch_result = "goerr + bool \<times> fee_patch"

definition validateAndFormatCalculations ::
  "extlib \<Rightarrow> CalculationModel \<Rightarrow> (string, Fee) gomap \<Rightarrow> bool option \<Rightarrow> string \<Rightarrow> decimal \<Rightarrow> goerr + Calculation list" where
  "validateAndFormatCalculations lib m existingFees updateDeductibleFrom feeKey minAmount =
     (case first_err (concat (map (\<lambda>calc. [validateCalculationType calc,
                 validateCalculationValue lib calc existingFees updateDeductibleFrom feeKey minAmount]) (cmod_Calculations m))) of
        Some e \<Rightarrow> Inl e | None \<Rightarrow> Inr (cmod_Calculations m))"

definition updateApplicationRule :: "commons \<Rightarrow> CalculationModel \<Rightarrow> fee_patch \<Rightarrow> patch_result" where
  "updateApplicationRule cm m up =
     (if IsNilOrEmpty cm (cmod_ApplicationRule m) then Inr (False, up)
      else if validateAppRuleIsInvalid m then Inl (Business ErrAppRuleInvalid)
      else Inr (True, up\<lparr>fp_application_rule := Some (cmod_ApplicationRule m)\<rparr>))"

definition updateCalculations ::
  "extlib \<Rightarrow> CalculationModel \<Rightarrow> (string, Fee) gomap \<Rightarrow> bool option \<Rightarrow> string \<Rightarrow> decimal \<Rightarrow> fee_patch \<Rightarrow> patch_result" where
  "updateCalculations lib m existingFees updateDeductibleFrom feeKey minAmount up =
     (if length (cmod_Calculations m) = 0 then Inr (False, up)
      else (case validateAndFormatCalculations lib m existingFees updateDeductibleFrom feeKey minAmount of
              Inl e \<Rightarrow> Inl e | Inr cs \<Rightarrow> Inr (True, up\<lparr>fp_calculations := Some cs\<rparr>)))"

definition updateCalculationModel ::
  "extlib \<Rightarrow> commons \<Rightarrow> Fee \<Rightarrow> (string, Fee) gomap \<Rightarrow> bool option \<Rightarrow> string \<Rightarrow> decimal \<Rightarrow> fee_patch \<Rightarrow> patch_result" where
  "updateCalculationModel lib cm f existingFees updateDeductibleFrom feeKey minAmount up =
     (case fee_CalculationModel f of
        None \<Rightarrow> Inr (False, up)
      | Some m \<Rightarrow>
        if IsNilOrEmpty cm (cmod_ApplicationRule m) \<and> length (cmod_Calculations m) = 0 then Inr (False, up)
        else (case updateApplicationRule cm m up of
                Inl e \<Rightarrow> Inl e
              | Inr (appRuleUpdated, up1) \<Rightarrow>
                (case updateCalculations lib m existingFees updateDeductibleFrom feeKey minAmount up1 of
                   Inl e \<Rightarrow> Inl e
                 | Inr (calculationsUpdated, up2) \<Rightarrow> Inr (appRuleUpdated \<or> calculationsUpdated, up2))))"

definition validateDeductibleFromReferenceAmount :: "commons \<Rightarrow> Fee \<Rightarrow> (string, Fee) gomap \<Rightarrow> string \<Rightarrow> goerr option" where
  "validateDeductibleFromReferenceAmount cm f existingFees feeKey =
     (if \<not> IsNilOrEmpty cm (fee_ReferenceAmount f) then None
      else err_if (fee_ReferenceAmount (fee_at existingFees feeKey) = ReferenceAmountAfterFeesAmount \<and> GetIsDeductibleFrom f)
             (Business ErrIsDeductibleFrom))"

definition validateDeductibleFromCalculations ::
  "extlib \<Rightarrow> Fee \<Rightarrow> bool \<Rightarrow> (string, Fee) gomap \<Rightarrow> string \<Rightarrow> decimal \<Rightarrow> goerr option" where
  "validateDeductibleFromCalculations lib f hasUpdatedCalculationModel existingFees feeKey minAmount =
     (if \<not> GetIsDeductibleFrom f \<or> hasUpdatedCalculationModel then None
      else first_err (map (\<lambda>calc. validateDeductibleCalculation lib calc minAmount) (calculations_of (fee_at existingFees feeKey))))"

definition updateIsDeductibleFrom ::
  "extlib \<Rightarrow> commons \<Rightarrow> Fee \<Rightarrow> bool \<Rightarrow> (string, Fee) gomap \<Rightarrow> string \<Rightarrow> decimal \<Rightarrow> fee_patch \<Rightarrow> patch_result" where
  "updateIsDeductibleFrom lib cm f hasUpdatedCalculationModel existingFees feeKey minAmount up =
     (if fee_IsDeductibleFrom f = None then Inr (False, up)
      else (case first_err [validateDeductibleFromReferenceAmount cm f existingFees feeKey,
                            validateDeductibleFromCalculations lib f hasUpdatedCalculationModel existingFees feeKey minAmount] of
              Some e \<Rightarrow> Inl e | None \<Rightarrow> Inr (True, up\<lparr>fp_is_deductible_from := fee_IsDeductibleFrom f\<rparr>)))"

definition updateReferenceAmount :: "commons \<Rightarrow> Fee \<Rightarrow> (string, Fee) gomap \<Rightarrow> string \<Rightarrow> fee_patch \<Rightarrow> patch_result" where
  "updateReferenceAmount cm f existingFees feeKey up =
     (if IsNilOrEmpty cm (fee_ReferenceAmount f) then Inr (False, up)
      else if validateReferenceAmountIsInvalid f then Inl (Business ErrReferenceAmountInvalid)
      else if fee_IsDeductibleFrom f = None \<and> fee_ReferenceAmount f = ReferenceAmountAfterFeesAmount \<and>
              GetIsDeductibleFrom (fee_at existingFees feeKey)
      then Inl (Business ErrIsDeductibleFrom)
      else Inr (True, up\<lparr>fp_reference_amount := Some (fee_ReferenceAmount f)\<rparr>))"

definition updateCreditAccount :: "commons \<Rightarrow> (string \<Rightarrow> goerr option) \<Rightarrow> Fee \<Rightarrow> fee_patch \<Rightarrow> patch_result" where
  "updateCreditAccount cm accountExists f up =
     (if IsNilOrEmpty cm (fee_CreditAccount f) then Inr (False, up)
      else (case accountExists (fee_CreditAccount f) of
              Some e \<Rightarrow> Inl e | None \<Rightarrow> Inr (True, up\<lparr>fp_credit_account := Some (fee_CreditAccount f)\<rparr>)))"

definition updateFeeLabel :: "commons \<Rightarrow> Fee \<Rightarrow> fee_patch \<Rightarrow> bool \<times> fee_patch" where
  "updateFeeLabel cm f up =
     (if \<not> IsNilOrEmpty cm (fee_FeeLabel f) then (True, up\<lparr>fp_fee_label := Some (fee_FeeLabel f)\<rparr>) else (False, up))"

definition updatePriority :: "Fee \<Rightarrow> fee_patch \<Rightarrow> bool \<times> fee_patch" where
  "updatePriority f up = (if fee_Priority f \<noteq> 0 then (True, up\<lparr>fp_priority := Some (fee_Priority f)\<rparr>) else (False, up))"

definition updateRouteFrom :: "commons \<Rightarrow> Fee \<Rightarrow> fee_patch \<Rightarrow> bool \<times> fee_patch" where
  "updateRouteFrom cm f up =
     (if \<not> nil_or_empty cm (fee_RouteFrom f) then (True, up\<lparr>fp_route_from := fee_RouteFrom f\<rparr>) else (False, up))"

definition updateRouteTo :: "commons \<Rightarrow> Fee \<Rightarrow> fee_patch \<Rightarrow> bool \<times> fee_patch" where
  "updateRouteTo cm f up =
     (if \<not> nil_or_empty cm (fee_RouteTo f) then (True, up\<lparr>fp_route_to := fee_RouteTo f\<rparr>) else (False, up))"

definition SetAndValidateHasFieldsToUpdate ::
  "extlib \<Rightarrow> commons \<Rightarrow> (string \<Rightarrow> goerr option) \<Rightarrow> Fee \<Rightarrow> bool option \<Rightarrow> decimal \<Rightarrow> (string, Fee) gomap \<Rightarrow> string \<Rightarrow> patch_result" where
  "SetAndValidateHasFieldsToUpdate lib cm accountExists f updateDeductibleFrom minAmount existingFees feeKey =
     (case updateCalculationModel lib cm f existingFees updateDeductibleFrom feeKey minAmount no_patch of
        Inl e \<Rightarrow> Inl e
      | Inr (b1, up1) \<Rightarrow>
        (case updateIsDeductibleFrom lib cm f b1 existingFees feeKey minAmount up1 of
           Inl e \<Rightarrow> Inl e
         | Inr (b2, up2) \<Rightarrow>
           (let (b3, up3) = updateFeeLabel cm f up2 in
            case updateReferenceAmount cm f existingFees feeKey up3 of
              Inl e \<Rightarrow> Inl e
            | Inr (b4, up4) \<Rightarrow>
              (let (b5, up5) = updatePriority f up4 in
               case updateCreditAccount cm accountExists f up5 of
                 Inl e \<Rightarrow> Inl e
               | Inr (b6, up6) \<Rightarrow>
                 (let (b7, up7) = updateRouteFrom cm f up6; (b8, up8) = updateRouteTo cm f up7
                  in Inr (b1 \<or> b2 \<or> b3 \<or> b4 \<or> b5 \<or> b6 \<or> b7 \<or> b8, up8))))))"

section \<open>The package that applies\<close>

definition GetSegmentID :: "Package \<Rightarrow> uuid" where
  "GetSegmentID p = (case pk_SegmentID p of None \<Rightarrow> uuid_Nil | Some s \<Rightarrow> s)"

definition GetTransactionRoute :: "Package \<Rightarrow> string" where
  "GetTransactionRoute p = deref (pk_TransactionRoute p)"

definition isTransactionValueBetweenMaxAndMinAmountPackage :: "Package \<Rightarrow> decimal \<Rightarrow> bool" where
  "isTransactionValueBetweenMaxAndMinAmountPackage p amount = (pk_MinimumAmount p \<le> amount \<and> amount \<le> pk_MaximumAmount p)"

definition filterByTransactionRoute :: "Package list \<Rightarrow> string \<Rightarrow> Package list" where
  "filterByTransactionRoute packages transactionRoute =
     filter (\<lambda>p. pk_TransactionRoute p = None \<and> transactionRoute = '''' \<or> pk_TransactionRoute p = Some transactionRoute) packages"

definition filterBySegmentID :: "Package list \<Rightarrow> uuid option \<Rightarrow> Package list" where
  "filterBySegmentID packages segmentID =
     filter (\<lambda>p. if segmentID = None \<and> pk_SegmentID p \<noteq> None then False
                 else if segmentID = None \<and> pk_SegmentID p = None then True
                 else segmentID \<noteq> None \<and> pk_SegmentID p \<noteq> None \<and> segmentID = pk_SegmentID p) packages"

definition filterByAmount :: "Package list \<Rightarrow> decimal \<Rightarrow> Package list" where
  "filterByAmount packages amount = filter (\<lambda>p. isTransactionValueBetweenMaxAndMinAmountPackage p amount) packages"

definition FindPackageToCalculateFee :: "Package list \<Rightarrow> string \<Rightarrow> uuid option \<Rightarrow> decimal \<Rightarrow> goerr + Package option" where
  "FindPackageToCalculateFee packages transactionRoute segmentID amount =
     (let byRoute = filterByTransactionRoute packages transactionRoute in
      if length byRoute = 1 \<and> pk_SegmentID (byRoute ! 0) = None then Inr (Some (byRoute ! 0))
      else
        (let bySegment = filterBySegmentID byRoute segmentID in
         if length bySegment = 1 then Inr (Some (bySegment ! 0))
         else
           (let byAmount = filterByAmount bySegment amount in
            if length byAmount = 1 then Inr (Some (byAmount ! 0))
            else if byAmount = [] then Inr None
            else Inl (Errorf ''more than one package was found''))))"

end
