(* ===== verification/FeePackages.thy ===== *)
theory FeePackages
  imports FeePackageModel
begin

text \<open>
  Fee packages as a service: the collection of \<^verbatim>\<open>internal/adapters/mongodb/fees/pack\<close>, the cache of
  the enabled packages of a ledger (\<^verbatim>\<open>internal/services/fees/service.go\<close>), and the use cases that
  create, update, delete and apply packages.

  The collection is the list of its documents in the order in which a query without a sort
  visits them; a document is the package with the organization that owns it. The cache is a map
  from keys to bytes, \<open>None\<close> when the use case has none; encoding and decoding of the cached
  packages are the fields of \<open>codec\<close>, and \<open>cache_env\<close> says which calls to the cache fail.
  Failures of the database itself are not modelled, nor are metrics and events.
\<close>

section \<open>The collection\<close>

record PackageDoc =
  pd_OrganizationID :: uuid
  pd_Package :: Package

record PackageQuery =
  pq_OrganizationID :: uuid
  pq_LedgerID :: uuid
  pq_SegmentID :: uuid
  pq_TransactionRoute :: "string option"
  pq_Enable :: "bool option"
  pq_Page :: int
  pq_Limit :: int

text \<open>The first four bytes of the identifier.\<close>

definition uuid_ID :: "uuid \<Rightarrow> uuid" where
  "uuid_ID u = drop_bit 96 u"

definition live :: "PackageDoc \<Rightarrow> bool" where
  "live d = (pk_DeletedAt (pd_Package d) = None)"

definition matches_query :: "commons \<Rightarrow> PackageQuery \<Rightarrow> PackageDoc \<Rightarrow> bool" where
  "matches_query cm filters d =
     (let p = pd_Package d in
      (nil_or_empty cm (pq_TransactionRoute filters) \<or> pk_TransactionRoute p = pq_TransactionRoute filters) \<and>
      (pq_Enable filters = None \<or> pk_Enable p = pq_Enable filters) \<and>
      (uuid_ID (pq_SegmentID filters) = 0 \<or> pk_SegmentID p = Some (pq_SegmentID filters)) \<and>
      (uuid_ID (pq_LedgerID filters) = 0 \<or> pk_LedgerID p = pq_LedgerID filters) \<and>
      pd_OrganizationID d = pq_OrganizationID filters \<and> live d)"

definition FindList :: "commons \<Rightarrow> PackageDoc list \<Rightarrow> PackageQuery \<Rightarrow> Package list" where
  "FindList cm docs filters =
     (let page = (if pq_Page filters < 1 then 1 else pq_Page filters);
          limit = (if pq_Limit filters < 1 then 10 else pq_Limit filters)
      in map pd_Package (take (nat limit) (drop (nat (page * limit - limit)) (filter (matches_query cm filters) docs))))"

definition has_id :: "uuid \<Rightarrow> uuid \<Rightarrow> PackageDoc \<Rightarrow> bool" where
  "has_id i organizationID d = (pk_ID (pd_Package d) = i \<and> pd_OrganizationID d = organizationID \<and> live d)"

definition FindByOrganizationIDAndLedgerID :: "PackageDoc list \<Rightarrow> uuid \<Rightarrow> uuid \<Rightarrow> Package list" where
  "FindByOrganizationIDAndLedgerID docs organizationID ledgerID =
     map pd_Package (filter (\<lambda>d. pd_OrganizationID d = organizationID \<and> pk_LedgerID (pd_Package d) = ledgerID \<and> live d \<and>
                                pk_Enable (pd_Package d) = Some True) docs)"

definition FindFeesAndAmountDataByPackageID :: "PackageDoc list \<Rightarrow> uuid \<Rightarrow> uuid \<Rightarrow> goerr + AmountData" where
  "FindFeesAndAmountDataByPackageID docs organizationID packageID =
     (case List.find (has_id packageID organizationID) docs of
        None \<Rightarrow> Inl (Business ErrEntityNotFound)
      | Some d \<Rightarrow>
        (let p = pd_Package d in
         Inr \<lparr>ad_MinAmount = pk_MinimumAmount p, ad_MaxAmount = pk_MaximumAmount p, ad_Fees = pk_Fees p,
              ad_LedgerID = pk_LedgerID p, ad_SegmentID = pk_SegmentID p, ad_TransactionRoute = pk_TransactionRoute p\<rparr>))"

text \<open>Decimals are stored as canonical strings, and fee keys in camel case.\<close>

fun FromEntityCalculationArray :: "extlib \<Rightarrow> Calculation list \<Rightarrow> goerr + Calculation list" where
  "FromEntityCalculationArray lib [] = Inr []"
| "FromEntityCalculationArray lib (calc # calcs) =
     (case dec_NewFromString lib (calc_Value calc) of
        None \<Rightarrow> Inl (Errorf ''invalid decimal value'')
      | Some v \<Rightarrow>
        (case FromEntityCalculationArray lib calcs of
           Inl e \<Rightarrow> Inl e | Inr cs \<Rightarrow> Inr (calc\<lparr>calc_Value := dec_String lib v\<rparr> # cs)))"

definition empty_to_nil :: "commons \<Rightarrow> string option \<Rightarrow> string option" where
  "empty_to_nil cm s = (if nil_or_empty cm s then None else s)"

fun fee_map_from :: "extlib \<Rightarrow> commons \<Rightarrow> (string, Fee) gomap \<Rightarrow> (string, Fee) gomap \<Rightarrow> goerr + (string, Fee) gomap" where
  "fee_map_from lib cm [] feesDBModel = Inr feesDBModel"
| "fee_map_from lib cm ((key, fee) # fees) feesDBModel =
     (case fee_CalculationModel fee of
        None \<Rightarrow> Inl (Errorf ''calculationModel is required'')
      | Some m \<Rightarrow>
        (case FromEntityCalculationArray lib (cmod_Calculations m) of
           Inl e \<Rightarrow> Inl (Wrapped ''fee'' e)
         | Inr cs \<Rightarrow>
           fee_map_from lib cm fees
             (AList.update (strcase_ToLowerCamel lib key)
               (fee\<lparr>fee_CalculationModel := Some (m\<lparr>cmod_Calculations := cs\<rparr>), fee_RouteFrom := empty_to_nil cm (fee_RouteFrom fee),
                    fee_RouteTo := empty_to_nil cm (fee_RouteTo fee)\<rparr>) feesDBModel)))"

definition FromEntityFeeMap :: "extlib \<Rightarrow> commons \<Rightarrow> (string, Fee) gomap \<Rightarrow> goerr + (string, Fee) gomap" where
  "FromEntityFeeMap lib cm fees = fee_map_from lib cm fees []"

definition FromEntity :: "extlib \<Rightarrow> commons \<Rightarrow> Package \<Rightarrow> uuid \<Rightarrow> goerr + PackageDoc" where
  "FromEntity lib cm p organizationID =
     (case FromEntityFeeMap lib cm (pk_Fees p) of
        Inl e \<Rightarrow> Inl (Wrapped ''failed to convert fees'' e)
      | Inr fees \<Rightarrow> Inr \<lparr>pd_OrganizationID = organizationID, pd_Package = p\<lparr>pk_Fees := fees, pk_DeletedAt := None\<rparr>\<rparr>)"

text \<open>A document with the same \<^verbatim>\<open>_id\<close> is the only violation of a unique index.\<close>

definition pack_Create :: "extlib \<Rightarrow> commons \<Rightarrow> PackageDoc list \<Rightarrow> Package \<Rightarrow> uuid \<Rightarrow> PackageDoc list \<times> (goerr + Package)" where
  "pack_Create lib cm docs p organizationID =
     (case FromEntity lib cm p organizationID of
        Inl e \<Rightarrow> (docs, Inl e)
      | Inr d \<Rightarrow>
        if list_ex (\<lambda>d'. pk_ID (pd_Package d') = pk_ID p) docs then (docs, Inl (Business ErrDuplicatePackage))
        else (docs @ [d], Inr (pd_Package d)))"

fun update_first :: "('a \<Rightarrow> bool) \<Rightarrow> ('a \<Rightarrow> 'a) \<Rightarrow> 'a list \<Rightarrow> 'a list" where
  "update_first P f [] = []"
| "update_first P f (x # xs) = (if P x then f x # xs else x # update_first P f xs)"

definition SoftDelete :: "PackageDoc list \<Rightarrow> uuid \<Rightarrow> uuid \<Rightarrow> time \<Rightarrow> PackageDoc list \<times> goerr option" where
  "SoftDelete docs i organizationID now =
     (if list_ex (has_id i organizationID) docs
      then (update_first (has_id i organizationID) (\<lambda>d. d\<lparr>pd_Package := (pd_Package d)\<lparr>pk_DeletedAt := Some now\<rparr>\<rparr>) docs, None)
      else (docs, Some (Business ErrEntityNotFound)))"

subsection \<open>Updates\<close>

text \<open>The fields of an update: those of \<^verbatim>\<open>$set\<close>, of its fees, and the fees of \<^verbatim>\<open>$unset\<close>.\<close>

datatype fee_change = SetFee Fee | PatchFee fee_patch

record package_patch =
  pp_minimum_amount :: "decimal option"
  pp_maximum_amount :: "decimal option"
  pp_fee_group_label :: "string option"
  pp_description :: "string option"
  pp_enable :: "bool option"
  pp_waived_accounts :: "string list option"
  pp_fees :: "(string, fee_change) gomap"
  pp_unset :: "string list"
  pp_updated_at :: "time option"

definition or_else :: "'a option \<Rightarrow> 'a \<Rightarrow> 'a" where
  "or_else v x = (case v of None \<Rightarrow> x | Some y \<Rightarrow> y)"

definition apply_fee_patch :: "fee_patch \<Rightarrow> Fee \<Rightarrow> Fee" where
  "apply_fee_patch up f =
     (let m = (case fee_CalculationModel f of None \<Rightarrow> \<lparr>cmod_ApplicationRule = '''', cmod_Calculations = []\<rparr> | Some m \<Rightarrow> m)
      in f\<lparr>fee_FeeLabel := or_else (fp_fee_label up) (fee_FeeLabel f),
           fee_CalculationModel :=
             (if fp_application_rule up = None \<and> fp_calculations up = None then fee_CalculationModel f
              else Some \<lparr>cmod_ApplicationRule = or_else (fp_application_rule up) (cmod_ApplicationRule m),
                         cmod_Calculations = or_else (fp_calculations up) (cmod_Calculations m)\<rparr>),
           fee_ReferenceAmount := or_else (fp_reference_amount up) (fee_ReferenceAmount f),
           fee_Priority := or_else (fp_priority up) (fee_Priority f),
           fee_IsDeductibleFrom := (case fp_is_deductible_from up of None \<Rightarrow> fee_IsDeductibleFrom f | Some b \<Rightarrow> Some b),
           fee_CreditAccount := or_else (fp_credit_account up) (fee_CreditAccount f),
           fee_RouteFrom := (case fp_route_from up of None \<Rightarrow> fee_RouteFrom f | Some r \<Rightarrow> Some r),
           fee_RouteTo := (case fp_route_to up of None \<Rightarrow> fee_RouteTo f | Some r \<Rightarrow> Some r)\<rparr>)"

definition set_fees :: "(string, fee_change) gomap \<Rightarrow> (string, Fee) gomap \<Rightarrow> (string, Fee) gomap" where
  "set_fees changes fees =
     fold (\<lambda>c m. case snd c of SetFee f \<Rightarrow> AList.update (fst c) f m
                 | PatchFee up \<Rightarrow> AList.update (fst c) (apply_fee_patch up (fee_at m (fst c))) m) changes fees"

definition buildUpdatePipeline :: "package_patch \<Rightarrow> Package \<Rightarrow> Package" where
  "buildUpdatePipeline u p =
     (let fees = filter (\<lambda>q. fst q \<notin> set (pp_unset u)) (set_fees (pp_fees u) (pk_Fees p))
      in p\<lparr>pk_MinimumAmount := or_else (pp_minimum_amount u) (pk_MinimumAmount p),
           pk_MaximumAmount := or_else (pp_maximum_amount u) (pk_MaximumAmount p),
           pk_FeeGroupLabel := or_else (pp_fee_group_label u) (pk_FeeGroupLabel p),
           pk_Description := (case pp_description u of None \<Rightarrow> pk_Description p | Some s \<Rightarrow> Some s),
           pk_WaivedAccounts := (case pp_waived_accounts u of None \<Rightarrow> pk_WaivedAccounts p | Some w \<Rightarrow> Some w),
           pk_Fees := fees,
           pk_Enable := (if length fees = 0 then Some False
                         else case pp_enable u of None \<Rightarrow> pk_Enable p | Some b \<Rightarrow> Some b),
           pk_UpdatedAt := or_else (pp_updated_at u) (pk_UpdatedAt p)\<rparr>)"

definition pack_Update :: "PackageDoc list \<Rightarrow> uuid \<Rightarrow> uuid \<Rightarrow> package_patch \<Rightarrow> PackageDoc list \<times> goerr option" where
  "pack_Update docs i organizationID u =
     (if list_ex (has_id i organizationID) docs
      then (update_first (has_id i organizationID) (\<lambda>d. d\<lparr>pd_Package := buildUpdatePipeline u (pd_Package d)\<rparr>) docs, None)
      else (docs, Some (Business ErrEntityNotFound)))"

section \<open>Disjoint ranges\<close>

definition getFilterPackage :: "uuid \<Rightarrow> uuid \<Rightarrow> uuid option \<Rightarrow> string \<Rightarrow> PackageQuery" where
  "getFilterPackage organizationID ledgerID segmentID transactionRoute =
     \<lparr>pq_OrganizationID = organizationID, pq_LedgerID = ledgerID,
      pq_SegmentID = (case segmentID of None \<Rightarrow> uuid_Nil | Some s \<Rightarrow> s),
      pq_TransactionRoute = (if transactionRoute \<noteq> '''' then Some transactionRoute else None), pq_Enable = None,
      pq_Page = 0, pq_Limit = 0\<rparr>"

definition isSamePackage :: "Package \<Rightarrow> decimal \<Rightarrow> decimal \<Rightarrow> string \<Rightarrow> uuid option \<Rightarrow> bool" where
  "isSamePackage p newMin newMax transactionRoute segmentID =
     (pk_MaximumAmount p = newMax \<and> pk_MinimumAmount p = newMin \<and>
      GetSegmentID p = (case segmentID of None \<Rightarrow> uuid_Nil | Some s \<Rightarrow> s) \<and> GetTransactionRoute p = transactionRoute)"

definition isRangeOverlap :: "Package \<Rightarrow> decimal \<Rightarrow> decimal \<Rightarrow> string \<Rightarrow> uuid option \<Rightarrow> bool" where
  "isRangeOverlap p newMin newMax transactionRoute segmentID =
     (GetSegmentID p = (case segmentID of None \<Rightarrow> uuid_Nil | Some s \<Rightarrow> s) \<and> GetTransactionRoute p = transactionRoute \<and>
      newMin \<le> pk_MaximumAmount p \<and> pk_MinimumAmount p \<le> newMax)"

definition range_conflict :: "decimal \<Rightarrow> decimal \<Rightarrow> string \<Rightarrow> uuid option \<Rightarrow> uuid option \<Rightarrow> Package \<Rightarrow> goerr option" where
  "range_conflict newMin newMax transactionRoute segmentID packageID p =
     (if packageID = None \<or> Some (pk_ID p) \<noteq> packageID then
        if isSamePackage p newMin newMax transactionRoute segmentID then Some (Business ErrDuplicatePackage)
        else err_if (isRangeOverlap p newMin newMax transactionRoute segmentID) (Business ErrPackageRange)
      else None)"

definition ValidatePackageMaxAndMinAmountRange ::
  "extlib \<Rightarrow> commons \<Rightarrow> PackageDoc list \<Rightarrow> string \<Rightarrow> string \<Rightarrow> string \<Rightarrow> uuid \<Rightarrow> uuid \<Rightarrow> uuid option \<Rightarrow> uuid option \<Rightarrow> goerr option" where
  "ValidatePackageMaxAndMinAmountRange lib cm docs maxAmount minAmount transactionRoute organizationID ledgerID segmentID packageID =
     (let packs = FindList cm docs (getFilterPackage organizationID ledgerID segmentID transactionRoute) in
      if 0 < length packs then
        (case dec_NewFromString lib maxAmount of
           None \<Rightarrow> Some (Business ErrConvertToDecimal)
         | Some newMaxAmount \<Rightarrow>
           (case dec_NewFromString lib minAmount of
              None \<Rightarrow> Some (Business ErrConvertToDecimal)
            | Some newMinAmount \<Rightarrow>
              first_err (map (range_conflict newMinAmount newMaxAmount transactionRoute segmentID packageID) packs)))
      else None)"

section \<open>The cache of enabled packages\<close>

record codec =
  json_Marshal :: "Package list \<Rightarrow> string option"
  json_Unmarshal :: "string \<Rightarrow> Package list option"

record cache_env =
  ce_GetErr :: bool
  ce_SetErr :: bool
  ce_DelErr :: bool

record fee_store =
  fst_docs :: "PackageDoc list"
  fst_cache :: "(string, string) gomap option"

definition packageCacheNotFoundSentinel :: string where
  "packageCacheNotFoundSentinel = ''NOT_FOUND''"

definition packageCacheKey :: "extlib \<Rightarrow> uuid \<Rightarrow> uuid \<Rightarrow> string" where
  "packageCacheKey lib organizationID ledgerID =
     ''fee_packages'' @ '':'' @ ''{'' @ uuid_String lib organizationID @ '':'' @ uuid_String lib ledgerID @ ''}''"

definition writePackageCache :: "codec \<Rightarrow> cache_env \<Rightarrow> string \<Rightarrow> Package list \<Rightarrow> (string, string) gomap \<Rightarrow> (string, string) gomap" where
  "writePackageCache cd env key packages cache =
     (if length packages = 0
      then if ce_SetErr env then cache else AList.update key packageCacheNotFoundSentinel cache
      else (case json_Marshal cd packages of
              None \<Rightarrow> cache
            | Some encoded \<Rightarrow> if ce_SetErr env then cache else AList.update key encoded cache))"

definition cached_packages :: "codec \<Rightarrow> string \<Rightarrow> Package list option" where
  "cached_packages cd cached =
     (if length cached = 0 then None
      else if cached = packageCacheNotFoundSentinel then Some []
      else json_Unmarshal cd cached)"

definition findPackagesCached :: "extlib \<Rightarrow> codec \<Rightarrow> cache_env \<Rightarrow> uuid \<Rightarrow> uuid \<Rightarrow> fee_store \<Rightarrow> fee_store \<times> Package list" where
  "findPackagesCached lib cd env organizationID ledgerID st =
     (let packages = FindByOrganizationIDAndLedgerID (fst_docs st) organizationID ledgerID;
          key = packageCacheKey lib organizationID ledgerID
      in case fst_cache st of
           None \<Rightarrow> (st, packages)
         | Some cache \<Rightarrow>
           (case (if ce_GetErr env then None else Option.bind (map_of cache key) (cached_packages cd)) of
              Some ps \<Rightarrow> (st, ps)
            | None \<Rightarrow> (st\<lparr>fst_cache := Some (writePackageCache cd env key packages cache)\<rparr>, packages)))"

definition invalidatePackageCache :: "extlib \<Rightarrow> cache_env \<Rightarrow> uuid \<Rightarrow> uuid \<Rightarrow> fee_store \<Rightarrow> fee_store" where
  "invalidatePackageCache lib env organizationID ledgerID st =
     (case fst_cache st of
        None \<Rightarrow> st
      | Some cache \<Rightarrow>
        if ce_DelErr env then st
        else st\<lparr>fst_cache := Some (AList.delete (packageCacheKey lib organizationID ledgerID) cache)\<rparr>)"

section \<open>Use cases\<close>

definition validateExistenceOfAccountOnMidaz :: "(string \<Rightarrow> goerr option) \<Rightarrow> CreatePackageInput \<Rightarrow> goerr option" where
  "validateExistenceOfAccountOnMidaz accountExists cpi =
     first_err (map accountExists (remdups (map (\<lambda>p. fee_CreditAccount (snd p)) (cpi_Fee cpi))))"

definition NewPackage ::
  "uuid \<Rightarrow> time \<Rightarrow> uuid \<Rightarrow> uuid \<Rightarrow> string \<Rightarrow> decimal \<Rightarrow> decimal \<Rightarrow> (string, Fee) gomap \<Rightarrow> bool option \<Rightarrow> goerr + Package" where
  "NewPackage i now organizationID ledgerID feeGroupLabel minAmount maxAmount fees enable =
     (if organizationID = uuid_Nil then Inl (Errorf ''organizationID is required'')
      else if ledgerID = uuid_Nil then Inl (Errorf ''ledgerID is required'')
      else if feeGroupLabel = '''' then Inl (Errorf ''feeGroupLabel (name) is required'')
      else Inr \<lparr>pk_ID = i, pk_FeeGroupLabel = feeGroupLabel, pk_Description = None, pk_SegmentID = None, pk_LedgerID = ledgerID,
                pk_TransactionRoute = None, pk_MinimumAmount = minAmount, pk_MaximumAmount = maxAmount, pk_WaivedAccounts = None,
                pk_Fees = fees, pk_Enable = enable, pk_CreatedAt = now, pk_UpdatedAt = now, pk_DeletedAt = None\<rparr>)"

definition CreatePackage ::
  "extlib \<Rightarrow> commons \<Rightarrow> (string \<Rightarrow> goerr option) \<Rightarrow> cache_env \<Rightarrow> uuid \<Rightarrow> time \<Rightarrow> CreatePackageInput \<Rightarrow> uuid \<Rightarrow> uuid \<Rightarrow> uuid
   \<Rightarrow> fee_store \<Rightarrow> fee_store \<times> (goerr + Package)" where
  "CreatePackage lib cm accountExists env i now cpi organizationID ledgerID segmentID st =
     (let newSegmentID = (if uuid_ID segmentID = 0 then None else Some segmentID) in
      case first_err [validateExistenceOfAccountOnMidaz accountExists cpi,
                      ValidatePackageMaxAndMinAmountRange lib cm (fst_docs st) (cpi_MaxAmount cpi) (cpi_MinAmount cpi)
                        (cpi_GetTransactionRoute cpi) organizationID ledgerID newSegmentID None] of
        Some e \<Rightarrow> (st, Inl e)
      | None \<Rightarrow>
        (case (dec_NewFromString lib (cpi_MinAmount cpi), dec_NewFromString lib (cpi_MaxAmount cpi)) of
           (Some minAmount, Some maxAmount) \<Rightarrow>
             (case NewPackage i now organizationID ledgerID (cpi_FeeGroupLabel cpi) minAmount maxAmount (cpi_Fee cpi) (cpi_Enable cpi) of
                Inl e \<Rightarrow> (st, Inl e)
              | Inr p \<Rightarrow>
                (let p' = p\<lparr>pk_Description := cpi_Description cpi, pk_SegmentID := newSegmentID,
                            pk_TransactionRoute := cpi_TransactionRoute cpi, pk_WaivedAccounts := cpi_WaivedAccounts cpi\<rparr>
                 in case pack_Create lib cm (fst_docs st) p' organizationID of
                      (docs, Inl e) \<Rightarrow> (st, Inl e)
                    | (docs, Inr r) \<Rightarrow>
                      (invalidatePackageCache lib env organizationID ledgerID (st\<lparr>fst_docs := docs\<rparr>), Inr r)))
         | _ \<Rightarrow> (st, Inl (Business ErrConvertToDecimal))))"

definition resolvePackageLedger :: "uuid \<Rightarrow> uuid \<Rightarrow> fee_store \<Rightarrow> uuid option" where
  "resolvePackageLedger i organizationID st =
     (case fst_cache st of
        None \<Rightarrow> None
      | Some _ \<Rightarrow>
        (case FindFeesAndAmountDataByPackageID (fst_docs st) organizationID i of Inl e \<Rightarrow> None | Inr a \<Rightarrow> Some (ad_LedgerID a)))"

definition DeletePackageByID ::
  "extlib \<Rightarrow> cache_env \<Rightarrow> time \<Rightarrow> uuid \<Rightarrow> uuid \<Rightarrow> fee_store \<Rightarrow> fee_store \<times> goerr option" where
  "DeletePackageByID lib env now i organizationID st =
     (let ledgerID = resolvePackageLedger i organizationID st in
      case SoftDelete (fst_docs st) i organizationID now of
        (docs, Some e) \<Rightarrow> (st, Some e)
      | (docs, None) \<Rightarrow>
        (let st' = st\<lparr>fst_docs := docs\<rparr> in
         (case ledgerID of None \<Rightarrow> st' | Some l \<Rightarrow> invalidatePackageCache lib env organizationID l st', None)))"

definition convertFeeToMongoFormat :: "extlib \<Rightarrow> Fee \<Rightarrow> goerr + Fee" where
  "convertFeeToMongoFormat lib fee =
     (case fee_CalculationModel fee of
        None \<Rightarrow> Inl nil_dereference
      | Some m \<Rightarrow>
        (case FromEntityCalculationArray lib (cmod_Calculations m) of
           Inl e \<Rightarrow> Inl (Business ErrConvertToDecimal)
         | Inr cs \<Rightarrow> Inr (fee\<lparr>fee_CalculationModel := Some (m\<lparr>cmod_Calculations := cs\<rparr>)\<rparr>)))"

text \<open>The fees of an update that are being collected: changes, removals, and the fees as the check of priorities sees them.\<close>

record fee_updates =
  fu_fees :: "(string, fee_change) gomap"
  fu_unset :: "string list"
  fu_final :: "(string, Fee) gomap"

definition update_one_fee ::
  "extlib \<Rightarrow> commons \<Rightarrow> (string \<Rightarrow> goerr option) \<Rightarrow> decimal \<Rightarrow> (string, Fee) gomap \<Rightarrow> string \<times> Fee \<Rightarrow> fee_updates \<Rightarrow> goerr + fee_updates" where
  "update_one_fee lib cm accountExists minAmount existingFees q u =
     (let key = fst q; fee = snd q; keyFormatted = strcase_ToLowerCamel lib key in
      if map_of existingFees keyFormatted = None then
        (case first_err [ValidateNewFee lib fee key minAmount, accountExists (fee_CreditAccount fee)] of
           Some e \<Rightarrow> Inl e
         | None \<Rightarrow>
           (case convertFeeToMongoFormat lib fee of
              Inl e \<Rightarrow> Inl e
            | Inr mongoFee \<Rightarrow>
              Inr (u\<lparr>fu_fees := AList.update keyFormatted (SetFee mongoFee) (fu_fees u),
                     fu_final := AList.update keyFormatted fee (fu_final u)\<rparr>)))
      else
        (case SetAndValidateHasFieldsToUpdate lib cm accountExists fee (fee_IsDeductibleFrom fee) minAmount existingFees keyFormatted of
           Inl e \<Rightarrow> Inl e
         | Inr (hasFieldsToUpdate, patch) \<Rightarrow>
           if \<not> hasFieldsToUpdate
           then Inr (u\<lparr>fu_unset := fu_unset u @ [keyFormatted], fu_final := AList.delete keyFormatted (fu_final u)\<rparr>)
           else Inr (u\<lparr>fu_fees := AList.update keyFormatted (PatchFee patch) (fu_fees u),
                       fu_final := AList.update keyFormatted fee (fu_final u)\<rparr>)))"

fun update_fees ::
  "extlib \<Rightarrow> commons \<Rightarrow> (string \<Rightarrow> goerr option) \<Rightarrow> decimal \<Rightarrow> (string, Fee) gomap \<Rightarrow> (string, Fee) gomap \<Rightarrow> fee_updates
   \<Rightarrow> goerr + fee_updates" where
  "update_fees lib cm accountExists minAmount existingFees [] u = Inr u"
| "update_fees lib cm accountExists minAmount existingFees (q # qs) u =
     (case update_one_fee lib cm accountExists minAmount existingFees q u of
        Inl e \<Rightarrow> Inl e | Inr u' \<Rightarrow> update_fees lib cm accountExists minAmount existingFees qs u')"

definition validationFeesSetUnset ::
  "extlib \<Rightarrow> commons \<Rightarrow> (string \<Rightarrow> goerr option) \<Rightarrow> decimal \<Rightarrow> (string, Fee) gomap \<Rightarrow> (string, Fee) gomap \<Rightarrow> goerr + fee_updates" where
  "validationFeesSetUnset lib cm accountExists minAmount existingFees updateFeesEntity =
     (case update_fees lib cm accountExists minAmount existingFees updateFeesEntity
             \<lparr>fu_fees = [], fu_unset = [], fu_final = existingFees\<rparr> of
        Inl e \<Rightarrow> Inl e
      | Inr u \<Rightarrow>
        if distinct (map (\<lambda>q. fee_Priority (snd q)) (fu_final u)) then Inr u else Inl (Business ErrPriorityInvalid))"

definition SetAmountsDataToUpdate ::
  "extlib \<Rightarrow> commons \<Rightarrow> PackageDoc list \<Rightarrow> UpdatePackageInput \<Rightarrow> AmountData \<Rightarrow> uuid \<Rightarrow> uuid \<Rightarrow> goerr option" where
  "SetAmountsDataToUpdate lib cm docs up ad organizationID packageID =
     (case upi_ValidateMinAndMaxAmount lib up of
        Some e \<Rightarrow> Some e
      | None \<Rightarrow>
        (let check = (\<lambda>maxAmount minAmount.
               ValidatePackageMaxAndMinAmountRange lib cm docs maxAmount minAmount (ad_GetTransactionRoute ad) organizationID
                 (ad_LedgerID ad) (ad_SegmentID ad) (Some packageID))
         in case (upi_MinAmount up, upi_MaxAmount up) of
              (Some lo, Some hi) \<Rightarrow> check hi lo
            | (Some lo, None) \<Rightarrow>
                first_err [ValidateMinAmountUpdate lib lo (ad_MaxAmount ad), check (dec_String lib (ad_MaxAmount ad)) lo]
            | (None, Some hi) \<Rightarrow>
                first_err [ValidateMaxAmountUpdate lib hi (ad_MinAmount ad), check hi (dec_String lib (ad_MinAmount ad))]
            | (None, None) \<Rightarrow> check '''' ''''))"

text \<open>An amount that was set is read back through the parser of the stored string.\<close>

definition buildUpdateFields ::
  "extlib \<Rightarrow> commons \<Rightarrow> (string \<Rightarrow> goerr option) \<Rightarrow> time \<Rightarrow> PackageDoc list \<Rightarrow> uuid \<Rightarrow> uuid \<Rightarrow> UpdatePackageInput
   \<Rightarrow> goerr + package_patch \<times> uuid" where
  "buildUpdateFields lib cm accountExists now docs packageID organizationID up =
     (case FindFeesAndAmountDataByPackageID docs organizationID packageID of
        Inl e \<Rightarrow> Inl e
      | Inr ad \<Rightarrow>
        (case (if upi_MinAmount up \<noteq> None \<or> upi_MaxAmount up \<noteq> None
               then SetAmountsDataToUpdate lib cm docs up ad organizationID packageID else None) of
           Some e \<Rightarrow> Inl e
         | None \<Rightarrow>
           (case (case upi_Fee up of
                    None \<Rightarrow> Inr \<lparr>fu_fees = [], fu_unset = [], fu_final = []\<rparr>
                  | Some fees \<Rightarrow> validationFeesSetUnset lib cm accountExists (ad_MinAmount ad) (ad_Fees ad) fees) of
              Inl e \<Rightarrow> Inl e
            | Inr u \<Rightarrow>
              (let patch =
                 \<lparr>pp_minimum_amount = Option.bind (upi_MinAmount up) (dec_NewFromString lib),
                  pp_maximum_amount = Option.bind (upi_MaxAmount up) (dec_NewFromString lib),
                  pp_fee_group_label = (if IsNilOrEmpty cm (upi_FeeGroupLabel up) then None else Some (upi_FeeGroupLabel up)),
                  pp_description = (if IsNilOrEmpty cm (upi_Description up) then None else Some (upi_Description up)),
                  pp_enable = upi_EnablePackage up, pp_waived_accounts = upi_WaivedAccounts up, pp_fees = fu_fees u,
                  pp_unset = fu_unset u, pp_updated_at = None\<rparr>
               in if upi_MinAmount up = None \<and> upi_MaxAmount up = None \<and> pp_fee_group_label patch = None \<and>
                     pp_description patch = None \<and> pp_enable patch = None \<and> pp_waived_accounts patch = None \<and>
                     pp_fees patch = [] \<and> pp_unset patch = []
                  then Inl (Business ErrNothingToUpdate)
                  else Inr (patch\<lparr>pp_updated_at := Some now\<rparr>, ad_LedgerID ad)))))"

definition UpdatePackageByID ::
  "extlib \<Rightarrow> commons \<Rightarrow> (string \<Rightarrow> goerr option) \<Rightarrow> cache_env \<Rightarrow> time \<Rightarrow> uuid \<Rightarrow> uuid \<Rightarrow> UpdatePackageInput \<Rightarrow> fee_store
   \<Rightarrow> fee_store \<times> goerr option" where
  "UpdatePackageByID lib cm accountExists env now i organizationID up st =
     (case buildUpdateFields lib cm accountExists now (fst_docs st) i organizationID up of
        Inl e \<Rightarrow> (st, Some e)
      | Inr (patch, ledgerID) \<Rightarrow>
        (case pack_Update (fst_docs st) i organizationID patch of
           (docs, Some e) \<Rightarrow> (st, Some e)
         | (docs, None) \<Rightarrow> (invalidatePackageCache lib env organizationID ledgerID (st\<lparr>fst_docs := docs\<rparr>), None)))"

subsection \<open>The requests\<close>

fun repeated_priority :: "int list \<Rightarrow> (string, Fee) gomap \<Rightarrow> bool" where
  "repeated_priority seen [] = False"
| "repeated_priority seen ((key, fee) # fees) =
     (fee_Priority fee \<in> set seen \<or> repeated_priority (fee_Priority fee # seen) fees)"

definition createPackage ::
  "extlib \<Rightarrow> commons \<Rightarrow> (string \<Rightarrow> goerr option) \<Rightarrow> cache_env \<Rightarrow> uuid \<Rightarrow> time \<Rightarrow> uuid \<Rightarrow> CreatePackageInput \<Rightarrow> fee_store
   \<Rightarrow> fee_store \<times> (goerr + Package)" where
  "createPackage lib cm accountExists env i now organizationID payload st =
     (case (if nil_or_empty cm (cpi_SegmentID payload) then Some uuid_Nil else uuid_Parse lib (deref (cpi_SegmentID payload))) of
        None \<Rightarrow> (st, Inl (Business ErrInvalidSegmentID))
      | Some segmentID \<Rightarrow>
        (case uuid_Parse lib (cpi_LedgerID payload) of
           None \<Rightarrow> (st, Inl (Business ErrInvalidLedgerID))
         | Some ledgerID \<Rightarrow>
           (case first_err [cpi_ValidateMinAndMaxAmount lib payload, cpi_ValidateFees lib payload,
                            err_if (repeated_priority [] (cpi_Fee payload)) (Business ErrPriorityInvalid)] of
              Some e \<Rightarrow> (st, Inl e)
            | None \<Rightarrow> CreatePackage lib cm accountExists env i now payload organizationID ledgerID segmentID st)))"

fun repeated_update_priority :: "int list \<Rightarrow> (string, Fee) gomap \<Rightarrow> bool" where
  "repeated_update_priority seen [] = False"
| "repeated_update_priority seen ((key, fee) # fees) =
     (if ValidateIfFeeIsNil fee then repeated_update_priority seen fees
      else fee_Priority fee \<in> set seen \<and> fee_Priority fee \<noteq> 0 \<or> repeated_update_priority (fee_Priority fee # seen) fees)"

definition updatePackageByID ::
  "extlib \<Rightarrow> commons \<Rightarrow> (string \<Rightarrow> goerr option) \<Rightarrow> cache_env \<Rightarrow> time \<Rightarrow> uuid \<Rightarrow> uuid \<Rightarrow> UpdatePackageInput \<Rightarrow> fee_store
   \<Rightarrow> fee_store \<times> goerr option" where
  "updatePackageByID lib cm accountExists env now organizationID i payload st =
     (case first_err
        [(case upi_Fee payload of
            None \<Rightarrow> None
          | Some fees \<Rightarrow>
            first_err [upi_ValidateFees lib payload,
                       err_if (repeated_update_priority [] fees) (Business ErrPriorityInvalid)]),
         upi_ValidateMinAndMaxAmount lib payload] of
        Some e \<Rightarrow> (st, Some e)
      | None \<Rightarrow> UpdatePackageByID lib cm accountExists env now i organizationID payload st)"

section \<open>Fees of a transaction\<close>

record FeeUseCase =
  uc_resolver :: "(string \<Rightarrow> goerr + FeeAccount option) option"
  uc_defaultCurrency :: string

fun source_segment_loop ::
  "(string \<Rightarrow> goerr + FeeAccount option) \<Rightarrow> string list \<Rightarrow> uuid option \<Rightarrow> uuid option" where
  "source_segment_loop resolver [] found = found"
| "source_segment_loop resolver (source # sources) found =
     (let trimmed = TrimSpace source;
          alias = (case go_index ''#'' trimmed of Some idx \<Rightarrow> take idx trimmed | None \<Rightarrow> trimmed)
      in if alias = '''' \<or> has_prefix ''@external/'' alias then source_segment_loop resolver sources found
         else (case resolver alias of
                 Inl e \<Rightarrow> None
               | Inr None \<Rightarrow> None
               | Inr (Some account) \<Rightarrow>
                 (case fa_SegmentID account of
                    None \<Rightarrow> None
                  | Some seg \<Rightarrow>
                    (case found of
                       None \<Rightarrow> source_segment_loop resolver sources (Some seg)
                     | Some r \<Rightarrow> if r \<noteq> seg then None else source_segment_loop resolver sources found))))"

definition resolveSourceSegment :: "FeeUseCase \<Rightarrow> string list \<Rightarrow> uuid option" where
  "resolveSourceSegment uc sources =
     (case uc_resolver uc of None \<Rightarrow> None | Some resolver \<Rightarrow> source_segment_loop resolver sources None)"

definition updateFeeMetadataIfNeeded :: "extlib \<Rightarrow> FeeCalculate \<Rightarrow> Responses \<Rightarrow> nat \<Rightarrow> nat \<Rightarrow> uuid \<Rightarrow> FeeCalculate" where
  "updateFeeMetadataIfNeeded lib cf validationResult validationResultFromSize validationResultToSize packageID =
     (let feeApplied = (length (rsp_From validationResult) \<noteq> validationResultFromSize \<or>
                        length (rsp_To validationResult) \<noteq> validationResultToSize);
          metadata = (case tx_Metadata (fc_Transaction cf) of None \<Rightarrow> [] | Some m \<Rightarrow> m);
          hasExemption = (map_of metadata ''feeExemption'' \<noteq> None);
          m1 = AList.update ''packageAppliedID'' (JStr (uuid_String lib packageID)) metadata;
          m2 = (if feeApplied then AList.update ''feeApplied'' (JStr ''true'') m1 else m1)
      in if feeApplied \<or> hasExemption then cf\<lparr>fc_Transaction := (fc_Transaction cf)\<lparr>tx_Metadata := Some m2\<rparr>\<rparr> else cf)"

definition calculateFeeForMultiplePackages ::
  "extlib \<Rightarrow> FeeUseCase \<Rightarrow> FeeCalculate \<Rightarrow> Package list \<Rightarrow> Send \<Rightarrow> Responses \<Rightarrow> nat \<Rightarrow> nat \<Rightarrow> goerr + FeeCalculate" where
  "calculateFeeForMultiplePackages lib uc cf packages sendModel validationResult validationResultFromSize validationResultToSize =
     (case FindPackageToCalculateFee packages (tx_Route (fc_Transaction cf)) (fc_SegmentID cf) (snd_Value sendModel) of
        Inl e \<Rightarrow> Inl (Business ErrFilterPackage)
      | Inr None \<Rightarrow> Inr cf
      | Inr (Some packFilter) \<Rightarrow>
        if \<not> pk_MinimumAmount packFilter \<le> snd_Value sendModel \<or> \<not> snd_Value sendModel \<le> pk_MaximumAmount packFilter then Inr cf
        else
          (let segCtx = Some \<lparr>sg_Resolver = uc_resolver uc, sg_ResolverCache = Some []\<rparr> in
           case CalculateFee lib cf packFilter validationResult (uc_defaultCurrency uc) segCtx of
             Inl e \<Rightarrow> Inl e
           | Inr (cf', validationResult') \<Rightarrow>
             Inr (updateFeeMetadataIfNeeded lib cf' validationResult' validationResultFromSize validationResultToSize
                    (pk_ID packFilter))))"

definition calculateFeeForSinglePackage ::
  "extlib \<Rightarrow> FeeUseCase \<Rightarrow> FeeCalculate \<Rightarrow> Package \<Rightarrow> Send \<Rightarrow> Responses \<Rightarrow> nat \<Rightarrow> nat \<Rightarrow> goerr + FeeCalculate" where
  "calculateFeeForSinglePackage lib uc cf feePackage sendModel validationResult validationResultFromSize validationResultToSize =
     calculateFeeForMultiplePackages lib uc cf [feePackage] sendModel validationResult validationResultFromSize validationResultToSize"

definition UseCase_CalculateFee ::
  "extlib \<Rightarrow> commons \<Rightarrow> codec \<Rightarrow> cache_env \<Rightarrow> FeeUseCase \<Rightarrow> uuid \<Rightarrow> FeeCalculate \<Rightarrow> fee_store \<Rightarrow> fee_store \<times> (goerr + FeeCalculate)" where
  "UseCase_CalculateFee lib cm cd env uc organizationID cf st =
     (case findPackagesCached lib cd env organizationID (fc_LedgerID cf) st of
        (st', packages) \<Rightarrow>
          (st',
           if length packages = 0 then Inr cf
           else
             (case ValidateSendSourceAndDistribute lib cm (fc_Transaction cf) '''' of
                (tx, Inl e) \<Rightarrow> Inl (Business ErrValidateDistributeTransactionValue)
              | (tx, Inr validationResult) \<Rightarrow>
                (let cf1 = cf\<lparr>fc_Transaction := tx,
                              fc_SegmentID := (if fc_SegmentID cf = None then resolveSourceSegment uc (rsp_Sources validationResult)
                                               else fc_SegmentID cf)\<rparr>;
                     toSize = length (rsp_To validationResult);
                     fromSize = length (rsp_From validationResult)
                 in if length packages = 1
                    then calculateFeeForSinglePackage lib uc cf1 (packages ! 0) (tx_Send tx) validationResult fromSize toSize
                    else calculateFeeForMultiplePackages lib uc cf1 packages (tx_Send tx) validationResult fromSize toSize))))"

end
