(* ===== verification/LedgerBilling.thy ===== *)
theory LedgerBilling
  imports FeePackages
begin

text \<open>
  Billing packages: their records and validation (\<^verbatim>\<open>feeshared/model/billing_package.go\<close>), the pricing
  of a number of events (\<^verbatim>\<open>pkg/fee/billing_calculator.go\<close>), billing periods
  (\<^verbatim>\<open>billing_calculation.go\<close>), their documents
  (\<^verbatim>\<open>adapters/mongodb/fees/billing_package\<close>), and the services that create, change and bill
  them. \<^verbatim>\<open>int64\<close> and \<^verbatim>\<open>int\<close> are integers, and \<open>int64\<close> writes out the wrap of an addition where it
  can happen. The ledger behind \<^verbatim>\<open>MidazResolver\<close> is the record \<open>MidazResolver\<close>; a transaction
  payload is the transaction that is encoded, \<open>None\<close> for the empty object. Documents keep
  decimals and identifiers as strings. Failures of the database are not modelled, nor are
  events and metrics; the clock and new identifiers are arguments.
\<close>

definition BillingPackageTypeVolume :: string where [simp]: "BillingPackageTypeVolume = ''volume''"
definition BillingPackageTypeMaintenance :: string where [simp]: "BillingPackageTypeMaintenance = ''maintenance''"
definition PricingModelTiered :: string where [simp]: "PricingModelTiered = ''tiered''"
definition PricingModelFixed :: string where [simp]: "PricingModelFixed = ''fixed''"
definition CountModePerRoute :: string where [simp]: "CountModePerRoute = ''perRoute''"
definition CountModePerAccount :: string where [simp]: "CountModePerAccount = ''perAccount''"
definition maxAliasesCount :: nat where [simp]: "maxAliasesCount = 100"
definition maxPricingTiers :: nat where [simp]: "maxPricingTiers = 50"

definition MaxInt64 :: int where "MaxInt64 = 2 ^ 63 - 1"

definition int64 :: "int \<Rightarrow> int" where
  "int64 x = (x + 2 ^ 63) mod 2 ^ 64 - 2 ^ 63"

record PricingTier =
  pt_MinQuantity :: int
  pt_MaxQuantity :: "int option"
  pt_UnitPrice :: decimal

record DiscountTier =
  dt_MinQuantity :: int
  dt_DiscountPercentage :: decimal

record AccountTarget =
  at_SegmentID :: "uuid option"
  at_PortfolioID :: "uuid option"
  at_Aliases :: "string list"

record EventFilter =
  ef_TransactionRoute :: string
  ef_Status :: string

record BillingPackage =
  bp_ID :: string
  bp_OrganizationID :: string
  bp_LedgerID :: string
  bp_Label :: string
  bp_Description :: "string option"
  bp_Type :: string
  bp_Enable :: "bool option"
  bp_EventFilter :: "EventFilter option"
  bp_PricingModel :: "string option"
  bp_Tiers :: "PricingTier list"
  bp_FreeQuota :: "int option"
  bp_DiscountTiers :: "DiscountTier list"
  bp_CountMode :: "string option"
  bp_AssetCode :: "string option"
  bp_DebitAccountAlias :: "string option"
  bp_CreditAccountAlias :: "string option"
  bp_FeeAmount :: "decimal option"
  bp_MaintenanceCreditAccount :: "string option"
  bp_AccountTarget :: "AccountTarget option"
  bp_CreatedAt :: string
  bp_UpdatedAt :: string
  bp_DeletedAt :: "string option"

section \<open>Validation\<close>

definition AccountTarget_Validate :: "AccountTarget \<Rightarrow> goerr option" where
  "AccountTarget_Validate a =
     (let e = Business ErrInvalidAccountTarget;
          fieldsSet = (if at_SegmentID a \<noteq> None then 1 else 0) + (if at_PortfolioID a \<noteq> None then 1 else 0) +
            (if at_Aliases a \<noteq> [] then 1 else 0 :: nat)
      in first_err
           [err_if (at_SegmentID a = Some uuid_Nil) e,
            err_if (at_PortfolioID a = Some uuid_Nil) e,
            err_if (fieldsSet \<noteq> 1) e,
            err_if (maxAliasesCount < length (at_Aliases a)) e,
            err_if (list_ex (\<lambda>alias. TrimSpace alias = '''') (at_Aliases a)) e])"

definition EventFilter_Validate :: "EventFilter \<Rightarrow> goerr option" where
  "EventFilter_Validate ef = first_err
     [err_if (TrimSpace (ef_TransactionRoute ef) = '''') (Business ErrMissingFieldsInRequest),
      err_if (TrimSpace (ef_Status ef) = '''') (Business ErrMissingFieldsInRequest)]"

definition validateCommonFields :: "BillingPackage \<Rightarrow> goerr option" where
  "validateCommonFields bp = first_err
     [err_if (TrimSpace (bp_Label bp) = '''') (Business ErrMissingFieldsInRequest),
      err_if (TrimSpace (bp_LedgerID bp) = '''') (Business ErrMissingFieldsInRequest)]"

definition validateType :: "BillingPackage \<Rightarrow> goerr option" where
  "validateType bp =
     err_if (bp_Type bp \<noteq> BillingPackageTypeVolume \<and> bp_Type bp \<noteq> BillingPackageTypeMaintenance)
       (Business ErrInvalidBillingPackageType)"

definition isNonBlankString :: "string option \<Rightarrow> bool" where
  "isNonBlankString s = (case s of None \<Rightarrow> False | Some s \<Rightarrow> TrimSpace s \<noteq> '''')"

definition validatePricingModel :: "BillingPackage \<Rightarrow> goerr option" where
  "validatePricingModel bp =
     err_if (bp_PricingModel bp \<noteq> Some PricingModelTiered \<and> bp_PricingModel bp \<noteq> Some PricingModelFixed)
       (Business ErrInvalidPricingModel)"

definition validateSinglePricingTier :: "PricingTier \<Rightarrow> goerr option" where
  "validateSinglePricingTier tier = first_err
     [err_if (pt_MinQuantity tier < 0) (Business ErrInvalidPricingTier),
      err_if (case pt_MaxQuantity tier of None \<Rightarrow> False | Some m \<Rightarrow> m \<le> pt_MinQuantity tier) (Business ErrInvalidPricingTier),
      err_if (\<not> 0 < pt_UnitPrice tier) (Business ErrInvalidPricingTier)]"

definition effective_max :: "PricingTier \<Rightarrow> int" where
  "effective_max t = (case pt_MaxQuantity t of None \<Rightarrow> MaxInt64 | Some m \<Rightarrow> m)"

definition tiersOverlap :: "PricingTier \<Rightarrow> PricingTier \<Rightarrow> bool" where
  "tiersOverlap a b = (pt_MinQuantity a \<le> effective_max b \<and> pt_MinQuantity b \<le> effective_max a)"

text \<open>
  The sort of \<^verbatim>\<open>validateTiersNoGap\<close> exchanges the tier at a position with every later one that
  starts lower: \<open>exchange x xs\<close> is the inner loop with \<open>x\<close> at the position and \<open>xs\<close> behind it.
\<close>

fun exchange :: "PricingTier \<Rightarrow> PricingTier list \<Rightarrow> PricingTier \<times> PricingTier list" where
  "exchange x [] = (x, [])"
| "exchange x (y # ys) =
     (if pt_MinQuantity y < pt_MinQuantity x then let (z, zs) = exchange y ys in (z, x # zs)
      else let (z, zs) = exchange x ys in (z, y # zs))"

lemma exchange_length [termination_simp]: "length (snd (exchange x xs)) = length xs"
  by (induction x xs rule: exchange.induct) (simp_all add: Let_def split_beta)

fun exchange_sort :: "PricingTier list \<Rightarrow> PricingTier list" where
  "exchange_sort [] = []"
| "exchange_sort (x # xs) = fst (exchange x xs) # exchange_sort (snd (exchange x xs))"

fun contiguous :: "PricingTier list \<Rightarrow> goerr option" where
  "contiguous [] = None"
| "contiguous [final] = err_if (pt_MaxQuantity final \<noteq> None) (Business ErrInvalidPricingTier)"
| "contiguous (current # next # rest) =
     (case pt_MaxQuantity current of
        None \<Rightarrow> None
      | Some m \<Rightarrow> if pt_MinQuantity next \<noteq> int64 (m + 1) then Some (Business ErrInvalidPricingTier) else contiguous (next # rest))"

definition validateTiersNoGap :: "PricingTier list \<Rightarrow> goerr option" where
  "validateTiersNoGap tiers = (if length tiers \<le> 1 then None else contiguous (exchange_sort tiers))"

fun any_overlap :: "PricingTier list \<Rightarrow> bool" where
  "any_overlap [] = False"
| "any_overlap (t # ts) = (list_ex (tiersOverlap t) ts \<or> any_overlap ts)"

definition validateTiersNoOverlap :: "PricingTier list \<Rightarrow> goerr option" where
  "validateTiersNoOverlap tiers =
     (if any_overlap tiers then Some (Business ErrInvalidPricingTier) else validateTiersNoGap tiers)"

definition validatePricingTiers :: "BillingPackage \<Rightarrow> goerr option" where
  "validatePricingTiers bp =
     (if maxPricingTiers < length (bp_Tiers bp) then Some (Business ErrInvalidPricingTier)
      else case first_err (map validateSinglePricingTier (bp_Tiers bp)) of
        Some e \<Rightarrow> Some e | None \<Rightarrow> validateTiersNoOverlap (bp_Tiers bp))"

definition validateFreeQuota :: "BillingPackage \<Rightarrow> goerr option" where
  "validateFreeQuota bp =
     err_if (case bp_FreeQuota bp of None \<Rightarrow> False | Some q \<Rightarrow> q < 0) (Business ErrInvalidFreeQuota)"

definition validateDiscountTiers :: "BillingPackage \<Rightarrow> goerr option" where
  "validateDiscountTiers bp =
     err_if (list_ex (\<lambda>dt. dt_MinQuantity dt < 0 \<or> dt_DiscountPercentage dt < 0 \<or> 100 < dt_DiscountPercentage dt) (bp_DiscountTiers bp))
       (Business ErrInvalidDiscountTier)"

definition validateCountMode :: "BillingPackage \<Rightarrow> goerr option" where
  "validateCountMode bp =
     err_if (case bp_CountMode bp of None \<Rightarrow> False | Some m \<Rightarrow> m \<noteq> CountModePerRoute \<and> m \<noteq> CountModePerAccount)
       (Business ErrInvalidCountMode)"

definition validateVolumeFields :: "BillingPackage \<Rightarrow> goerr option" where
  "validateVolumeFields bp =
     (if bp_FeeAmount bp \<noteq> None \<or> bp_MaintenanceCreditAccount bp \<noteq> None \<or> bp_AccountTarget bp \<noteq> None
      then Some (Business ErrUnexpectedFieldsInTheRequest)
      else case bp_EventFilter bp of
        None \<Rightarrow> Some (Business ErrMissingVolumeFields)
      | Some ef \<Rightarrow> first_err
          [err_if (bp_PricingModel bp = None \<or> bp_Tiers bp = [] \<or> \<not> isNonBlankString (bp_AssetCode bp) \<or>
              \<not> isNonBlankString (bp_DebitAccountAlias bp) \<or> \<not> isNonBlankString (bp_CreditAccountAlias bp))
             (Business ErrMissingVolumeFields),
           EventFilter_Validate ef, validatePricingModel bp, validatePricingTiers bp, validateFreeQuota bp,
           validateDiscountTiers bp, validateCountMode bp])"

definition validateMaintenanceFields :: "BillingPackage \<Rightarrow> goerr option" where
  "validateMaintenanceFields bp =
     (if bp_PricingModel bp \<noteq> None \<or> bp_Tiers bp \<noteq> [] \<or> bp_EventFilter bp \<noteq> None \<or> bp_FreeQuota bp \<noteq> None \<or>
         bp_DiscountTiers bp \<noteq> [] \<or> bp_CountMode bp \<noteq> None \<or> bp_DebitAccountAlias bp \<noteq> None \<or> bp_CreditAccountAlias bp \<noteq> None
      then Some (Business ErrUnexpectedFieldsInTheRequest)
      else case (bp_FeeAmount bp, bp_AccountTarget bp) of
        (Some f, Some target) \<Rightarrow>
          if \<not> isNonBlankString (bp_AssetCode bp) \<or> \<not> isNonBlankString (bp_MaintenanceCreditAccount bp)
          then Some (Business ErrMissingMaintenanceFields)
          else if \<not> 0 < f then Some (Business ErrInvalidFeeAmount) else AccountTarget_Validate target
      | _ \<Rightarrow> Some (Business ErrMissingMaintenanceFields))"

definition BillingPackage_Validate :: "BillingPackage \<Rightarrow> goerr option" where
  "BillingPackage_Validate bp = first_err
     [validateCommonFields bp, validateType bp,
      if bp_Type bp = BillingPackageTypeVolume then validateVolumeFields bp
      else if bp_Type bp = BillingPackageTypeMaintenance then validateMaintenanceFields bp else None]"

record BillingPackageUpdate =
  bu_Label :: "string option"
  bu_Description :: "string option"
  bu_Enable :: "bool option"

definition BillingPackageUpdate_Validate :: "BillingPackageUpdate \<Rightarrow> goerr option" where
  "BillingPackageUpdate_Validate u =
     err_if (case bu_Label u of None \<Rightarrow> False | Some l \<Rightarrow> TrimSpace l = '''') (Business ErrMissingFieldsInRequest)"

section \<open>Pricing\<close>

definition eventFallsInTier :: "int \<Rightarrow> PricingTier \<Rightarrow> bool" where
  "eventFallsInTier billableEvents tier =
     (\<not> billableEvents < pt_MinQuantity tier \<and>
      \<not> (case pt_MaxQuantity tier of None \<Rightarrow> False | Some m \<Rightarrow> m < billableEvents))"

definition CalculateTiered :: "int \<Rightarrow> PricingTier list \<Rightarrow> goerr + decimal \<times> decimal" where
  "CalculateTiered billableEvents tiers =
     (if billableEvents \<le> 0 then Inr (0, 0)
      else if tiers = [] then Inl (Errorf ''no pricing tiers provided'')
      else case find (eventFallsInTier billableEvents) tiers of
        Some tier \<Rightarrow> Inr (pt_UnitPrice tier, of_int billableEvents * pt_UnitPrice tier)
      | None \<Rightarrow> Inl (Errorf ''no matching tier''))"

definition ApplyFreeQuota :: "int \<Rightarrow> int \<Rightarrow> int" where
  "ApplyFreeQuota totalEvents freeQuota =
     (if totalEvents \<le> 0 then 0
      else if freeQuota \<le> 0 then totalEvents
      else let billable = totalEvents - freeQuota in if billable < 0 then 0 else billable)"

record DiscountDetail =
  dd_DiscountPercentage :: decimal
  dd_DiscountAmount :: decimal
  dd_MinQuantity :: int

fun best_tier :: "int \<Rightarrow> DiscountTier option \<Rightarrow> DiscountTier list \<Rightarrow> DiscountTier option" where
  "best_tier totalEvents best [] = best"
| "best_tier totalEvents best (tier # tiers) =
     best_tier totalEvents
       (if dt_MinQuantity tier \<le> totalEvents \<and>
           (case best of None \<Rightarrow> True | Some b \<Rightarrow> dt_MinQuantity b < dt_MinQuantity tier) then Some tier else best)
       tiers"

definition ApplyDiscount :: "extlib \<Rightarrow> decimal \<Rightarrow> int \<Rightarrow> DiscountTier list \<Rightarrow> decimal \<times> DiscountDetail option" where
  "ApplyDiscount lib grossAmount totalEvents discountTiers =
     (case best_tier totalEvents None discountTiers of
        None \<Rightarrow> (grossAmount, None)
      | Some tier \<Rightarrow>
        let discountAmount = dec_Div lib (grossAmount * dt_DiscountPercentage tier) 100
        in (grossAmount - discountAmount,
            Some \<lparr>dd_DiscountPercentage = dt_DiscountPercentage tier, dd_DiscountAmount = discountAmount,
                  dd_MinQuantity = dt_MinQuantity tier\<rparr>))"

definition CalculateFixed :: "int \<Rightarrow> decimal \<Rightarrow> decimal" where
  "CalculateFixed billableEvents unitPrice = (if billableEvents \<le> 0 then 0 else of_int billableEvents * unitPrice)"

section \<open>Periods\<close>

text \<open>\<^verbatim>\<open>strconv.Atoi\<close>.\<close>

definition Atoi :: "string \<Rightarrow> int option" where
  "Atoi s =
     (let digits = (if s \<noteq> [] \<and> (hd s = CHR ''-'' \<or> hd s = CHR ''+'') then tl s else s);
          n = (if s \<noteq> [] \<and> hd s = CHR ''-'' then - int (str_nat digits) else int (str_nat digits))
      in if digits = [] \<or> \<not> digits_only digits \<or> n < - (2 ^ 63) \<or> MaxInt64 < n then None else Some n)"

definition daysPerWeek :: int where [simp]: "daysPerWeek = 7"
definition yearDigits :: nat where [simp]: "yearDigits = 4"
definition weekDigits :: nat where [simp]: "weekDigits = 2"

definition LooksLikeWeeklyPeriod :: "string \<Rightarrow> bool" where
  "LooksLikeWeeklyPeriod period =
     (case go_split ''-'' period of
        [y, w] \<Rightarrow>
          2 \<le> length w \<and> hd w = CHR ''W'' \<and> length y = yearDigits \<and> digits_only y \<and> length (tl w) = weekDigits \<and>
          (case Atoi (tl w) of None \<Rightarrow> False | Some week \<Rightarrow> 1 \<le> week \<and> week \<le> 53)
      | _ \<Rightarrow> False)"

definition ParseWeeklyPeriod :: "string \<Rightarrow> (time \<times> time) option" where
  "ParseWeeklyPeriod period =
     (case go_split ''-'' period of
        [y, w] \<Rightarrow>
          if length w < 2 \<or> hd w \<noteq> CHR ''W'' then None
          else case (Atoi y, Atoi (tl w)) of
            (Some year, Some week) \<Rightarrow>
              if length y \<noteq> yearDigits \<or> length (tl w) \<noteq> weekDigits \<or> week < 1 \<or> 53 < week then None
              else
                let jan4 = Date_day year 1 4 * Day;
                    d = Weekday jan4 - 1;
                    daysToMonday = (if d < 0 then d + 7 else d);
                    week1Monday = AddDate jan4 0 0 (- daysToMonday);
                    start = AddDate week1Monday 0 0 ((week - 1) * daysPerWeek)
                in if ISOWeek start \<noteq> (year, week) then None else Some (start, AddDate start 0 0 daysPerWeek)
          | _ \<Rightarrow> None
      | _ \<Rightarrow> None)"

text \<open>
  \<^verbatim>\<open>time.Parse\<close> for the layouts \<^verbatim>\<open>2006-01-02\<close> and \<^verbatim>\<open>2006-01\<close>: exactly that many digits, a month that
  exists and a day of that month.
\<close>

definition days_in :: "int \<Rightarrow> int \<Rightarrow> int" where
  "days_in m y = month_start (leap y) (m + 1) - month_start (leap y) m"

definition Parse_fields :: "string \<Rightarrow> string \<Rightarrow> string \<Rightarrow> time option" where
  "Parse_fields y m d =
     (let year = int (str_nat y); month = int (str_nat m); day = int (str_nat d)
      in if length y = 4 \<and> digits_only y \<and> length m = 2 \<and> digits_only m \<and> length d = 2 \<and> digits_only d \<and>
            1 \<le> month \<and> month \<le> 12 \<and> 1 \<le> day \<and> day \<le> days_in month year
         then Some (Date_day year month day * Day) else None)"

definition Parse_date :: "string \<Rightarrow> time option" where
  "Parse_date s = (case go_split ''-'' s of [y, m, d] \<Rightarrow> Parse_fields y m d | _ \<Rightarrow> None)"

definition Parse_month :: "string \<Rightarrow> time option" where
  "Parse_month s = (case go_split ''-'' s of [y, m] \<Rightarrow> Parse_fields y m ''01'' | _ \<Rightarrow> None)"

definition parsePeriod :: "string \<Rightarrow> goerr + time \<times> time" where
  "parsePeriod period =
     (if period = '''' then Inl (Business ErrInvalidBillingPeriod)
      else case Parse_date period of
        Some start \<Rightarrow> Inr (start, AddDate start 0 0 1)
      | None \<Rightarrow> (case ParseWeeklyPeriod period of
          Some week \<Rightarrow> Inr week
        | None \<Rightarrow> (case Parse_month period of
            Some start \<Rightarrow> Inr (start, AddDate start 0 1 0)
          | None \<Rightarrow> Inl (Business ErrInvalidBillingPeriod))))"

definition validateBillingPeriod :: "string \<Rightarrow> goerr option" where
  "validateBillingPeriod period =
     (if period = '''' then Some (Business ErrInvalidBillingPeriod)
      else if Parse_date period \<noteq> None then None
      else if ParseWeeklyPeriod period \<noteq> None then None
      else if LooksLikeWeeklyPeriod period then Some (Business ErrInvalidBillingPeriod)
      else if Parse_month period \<noteq> None then None
      else Some (Business ErrInvalidBillingPeriod))"

section \<open>Documents\<close>

record PricingTierModel =
  ptm_MinQuantity :: int
  ptm_MaxQuantity :: "int option"
  ptm_UnitPrice :: string

record DiscountTierModel =
  dtm_MinQuantity :: int
  dtm_DiscountPercentage :: string

record AccountTargetModel =
  atm_SegmentID :: "string option"
  atm_PortfolioID :: "string option"
  atm_Aliases :: "string list"

record BillingPackageMongoDBModel =
  bm_ID :: string
  bm_OrganizationID :: string
  bm_LedgerID :: string
  bm_Label :: string
  bm_Description :: "string option"
  bm_Type :: string
  bm_Enable :: bool
  bm_EventFilter :: "EventFilter option"
  bm_PricingModel :: "string option"
  bm_Tiers :: "PricingTierModel list"
  bm_FreeQuota :: "int option"
  bm_DiscountTiers :: "DiscountTierModel list"
  bm_CountMode :: "string option"
  bm_AssetCode :: "string option"
  bm_DebitAccountAlias :: "string option"
  bm_CreditAccountAlias :: "string option"
  bm_FeeAmount :: "string option"
  bm_MaintenanceCreditAccount :: "string option"
  bm_AccountTarget :: "AccountTargetModel option"
  bm_CreatedAt :: string
  bm_UpdatedAt :: string
  bm_DeletedAt :: "string option"

text \<open>A loop that converts every element and stops at the first that fails; an optional field.\<close>

fun convert_all :: "('a \<Rightarrow> goerr + 'b) \<Rightarrow> 'a list \<Rightarrow> goerr + 'b list" where
  "convert_all f [] = Inr []"
| "convert_all f (x # xs) =
     (case f x of Inl e \<Rightarrow> Inl e
      | Inr y \<Rightarrow> (case convert_all f xs of Inl e \<Rightarrow> Inl e | Inr ys \<Rightarrow> Inr (y # ys)))"

definition convert_opt :: "('a \<Rightarrow> goerr + 'b) \<Rightarrow> 'a option \<Rightarrow> goerr + 'b option" where
  "convert_opt f x = (case x of None \<Rightarrow> Inr None | Some x \<Rightarrow> (case f x of Inl e \<Rightarrow> Inl e | Inr y \<Rightarrow> Inr (Some y)))"

definition parsed :: "('a \<Rightarrow> 'b option) \<Rightarrow> 'a \<Rightarrow> goerr + 'b" where
  "parsed p x = (case p x of None \<Rightarrow> Inl (Errorf ''billing_package: invalid field'') | Some y \<Rightarrow> Inr y)"

definition ToEntity_tier :: "extlib \<Rightarrow> PricingTierModel \<Rightarrow> goerr + PricingTier" where
  "ToEntity_tier lib tier =
     (case parsed (dec_NewFromString lib) (ptm_UnitPrice tier) of Inl e \<Rightarrow> Inl e
      | Inr unitPrice \<Rightarrow> Inr \<lparr>pt_MinQuantity = ptm_MinQuantity tier, pt_MaxQuantity = ptm_MaxQuantity tier, pt_UnitPrice = unitPrice\<rparr>)"

definition ToEntity_discount :: "extlib \<Rightarrow> DiscountTierModel \<Rightarrow> goerr + DiscountTier" where
  "ToEntity_discount lib dt =
     (case parsed (dec_NewFromString lib) (dtm_DiscountPercentage dt) of Inl e \<Rightarrow> Inl e
      | Inr pct \<Rightarrow> Inr \<lparr>dt_MinQuantity = dtm_MinQuantity dt, dt_DiscountPercentage = pct\<rparr>)"

definition ToEntity_target :: "extlib \<Rightarrow> AccountTargetModel \<Rightarrow> goerr + AccountTarget" where
  "ToEntity_target lib target =
     (case convert_opt (parsed (uuid_Parse lib)) (atm_SegmentID target) of Inl e \<Rightarrow> Inl e
      | Inr seg \<Rightarrow> (case convert_opt (parsed (uuid_Parse lib)) (atm_PortfolioID target) of Inl e \<Rightarrow> Inl e
        | Inr port \<Rightarrow> Inr \<lparr>at_SegmentID = seg, at_PortfolioID = port, at_Aliases = atm_Aliases target\<rparr>))"

definition bm_ToEntity :: "extlib \<Rightarrow> BillingPackageMongoDBModel \<Rightarrow> goerr + BillingPackage" where
  "bm_ToEntity lib m =
     (case convert_all (ToEntity_tier lib) (bm_Tiers m) of Inl e \<Rightarrow> Inl e
      | Inr tiers \<Rightarrow> (case convert_all (ToEntity_discount lib) (bm_DiscountTiers m) of Inl e \<Rightarrow> Inl e
        | Inr discounts \<Rightarrow> (case convert_opt (parsed (dec_NewFromString lib)) (bm_FeeAmount m) of Inl e \<Rightarrow> Inl e
          | Inr amt \<Rightarrow> (case convert_opt (ToEntity_target lib) (bm_AccountTarget m) of Inl e \<Rightarrow> Inl e
            | Inr target \<Rightarrow> Inr
                \<lparr>bp_ID = bm_ID m, bp_OrganizationID = bm_OrganizationID m, bp_LedgerID = bm_LedgerID m, bp_Label = bm_Label m,
                 bp_Description = bm_Description m, bp_Type = bm_Type m, bp_Enable = Some (bm_Enable m),
                 bp_EventFilter = bm_EventFilter m, bp_PricingModel = bm_PricingModel m, bp_Tiers = tiers,
                 bp_FreeQuota = bm_FreeQuota m, bp_DiscountTiers = discounts, bp_CountMode = bm_CountMode m,
                 bp_AssetCode = bm_AssetCode m, bp_DebitAccountAlias = bm_DebitAccountAlias m,
                 bp_CreditAccountAlias = bm_CreditAccountAlias m, bp_FeeAmount = amt,
                 bp_MaintenanceCreditAccount = bm_MaintenanceCreditAccount m, bp_AccountTarget = target,
                 bp_CreatedAt = bm_CreatedAt m, bp_UpdatedAt = bm_UpdatedAt m, bp_DeletedAt = bm_DeletedAt m\<rparr>))))"

definition bm_FromEntity :: "extlib \<Rightarrow> BillingPackage \<Rightarrow> BillingPackageMongoDBModel" where
  "bm_FromEntity lib bp =
     \<lparr>bm_ID = bp_ID bp, bm_OrganizationID = bp_OrganizationID bp, bm_LedgerID = bp_LedgerID bp, bm_Label = bp_Label bp,
      bm_Description = bp_Description bp, bm_Type = bp_Type bp,
      bm_Enable = (case bp_Enable bp of Some b \<Rightarrow> b | None \<Rightarrow> True),
      bm_EventFilter = bp_EventFilter bp, bm_PricingModel = bp_PricingModel bp,
      bm_Tiers = map (\<lambda>t. \<lparr>ptm_MinQuantity = pt_MinQuantity t, ptm_MaxQuantity = pt_MaxQuantity t,
        ptm_UnitPrice = dec_String lib (pt_UnitPrice t)\<rparr>) (bp_Tiers bp),
      bm_FreeQuota = bp_FreeQuota bp,
      bm_DiscountTiers = map (\<lambda>t. \<lparr>dtm_MinQuantity = dt_MinQuantity t,
        dtm_DiscountPercentage = dec_String lib (dt_DiscountPercentage t)\<rparr>) (bp_DiscountTiers bp),
      bm_CountMode = bp_CountMode bp, bm_AssetCode = bp_AssetCode bp, bm_DebitAccountAlias = bp_DebitAccountAlias bp,
      bm_CreditAccountAlias = bp_CreditAccountAlias bp, bm_FeeAmount = map_option (dec_String lib) (bp_FeeAmount bp),
      bm_MaintenanceCreditAccount = bp_MaintenanceCreditAccount bp,
      bm_AccountTarget = map_option (\<lambda>a. \<lparr>atm_SegmentID = map_option (uuid_String lib) (at_SegmentID a),
        atm_PortfolioID = map_option (uuid_String lib) (at_PortfolioID a), atm_Aliases = at_Aliases a\<rparr>) (bp_AccountTarget bp),
      bm_CreatedAt = bp_CreatedAt bp, bm_UpdatedAt = bp_UpdatedAt bp, bm_DeletedAt = bp_DeletedAt bp\<rparr>"

type_synonym billing_docs = "BillingPackageMongoDBModel list"

definition bm_has_id :: "string \<Rightarrow> string \<Rightarrow> BillingPackageMongoDBModel \<Rightarrow> bool" where
  "bm_has_id i organizationID m = (bm_ID m = i \<and> bm_OrganizationID m = organizationID \<and> bm_DeletedAt m = None)"

text \<open>\<^verbatim>\<open>_id\<close> is unique; the insert of a second document with it fails.\<close>

definition bp_Create :: "extlib \<Rightarrow> billing_docs \<Rightarrow> BillingPackage \<Rightarrow> billing_docs \<times> (goerr + BillingPackage)" where
  "bp_Create lib docs bp =
     (if list_ex (\<lambda>m. bm_ID m = bp_ID bp) docs then (docs, Inl (Errorf ''duplicate key''))
      else (docs @ [bm_FromEntity lib bp], bm_ToEntity lib (bm_FromEntity lib bp)))"

definition bp_FindByID :: "extlib \<Rightarrow> billing_docs \<Rightarrow> string \<Rightarrow> string \<Rightarrow> goerr + BillingPackage" where
  "bp_FindByID lib docs i organizationID =
     (case find (bm_has_id i organizationID) docs of
        None \<Rightarrow> Inl (Errorf ''mongo: no documents in result'')
      | Some m \<Rightarrow> bm_ToEntity lib m)"

definition FindMatchingPackages :: "extlib \<Rightarrow> billing_docs \<Rightarrow> string \<Rightarrow> string \<Rightarrow> string \<Rightarrow> goerr + BillingPackage list" where
  "FindMatchingPackages lib docs orgID ledgerID transactionRouteID =
     convert_all (bm_ToEntity lib)
       (filter (\<lambda>m. bm_OrganizationID m = orgID \<and> bm_LedgerID m = ledgerID \<and>
           map_option ef_TransactionRoute (bm_EventFilter m) = Some transactionRouteID \<and> bm_Enable m \<and> bm_DeletedAt m = None) docs)"

definition FindActiveByType :: "extlib \<Rightarrow> billing_docs \<Rightarrow> string \<Rightarrow> string \<Rightarrow> string \<Rightarrow> goerr + BillingPackage list" where
  "FindActiveByType lib docs orgID ledgerID billingType =
     convert_all (bm_ToEntity lib)
       (filter (\<lambda>m. bm_OrganizationID m = orgID \<and> bm_LedgerID m = ledgerID \<and> bm_Type m = billingType \<and> bm_Enable m \<and>
           bm_DeletedAt m = None) docs)"

definition bp_SoftDelete :: "billing_docs \<Rightarrow> string \<Rightarrow> string \<Rightarrow> string \<Rightarrow> billing_docs \<times> goerr option" where
  "bp_SoftDelete docs i organizationID now =
     (if list_ex (bm_has_id i organizationID) docs
      then (update_first (bm_has_id i organizationID) (\<lambda>m. m\<lparr>bm_DeletedAt := Some now\<rparr>) docs, None)
      else (docs, Some (Business ErrEntityNotFound)))"

definition bp_Update ::
  "extlib \<Rightarrow> billing_docs \<Rightarrow> string \<Rightarrow> string \<Rightarrow> (BillingPackageMongoDBModel \<Rightarrow> BillingPackageMongoDBModel) \<Rightarrow>
   billing_docs \<times> (goerr + BillingPackage)" where
  "bp_Update lib docs i organizationID setFields =
     (case find (bm_has_id i organizationID) docs of
        None \<Rightarrow> (docs, Inl (Business ErrEntityNotFound))
      | Some m \<Rightarrow> (update_first (bm_has_id i organizationID) setFields docs, bm_ToEntity lib (setFields m)))"

section \<open>Packages as a service\<close>

record MidazResolver =
  mr_AccountExistsByAlias :: "uuid \<Rightarrow> uuid \<Rightarrow> string \<Rightarrow> goerr option"
  mr_GetAccountByAlias :: "uuid \<Rightarrow> uuid \<Rightarrow> string \<Rightarrow> goerr + FeeAccount option"
  mr_ListAccounts :: "uuid \<Rightarrow> uuid \<Rightarrow> uuid option \<Rightarrow> uuid option \<Rightarrow> goerr + FeeAccount list"
  mr_CountTransactionsByRoute :: "uuid \<Rightarrow> uuid \<Rightarrow> string \<Rightarrow> string \<Rightarrow> time \<Rightarrow> time \<Rightarrow> goerr + int"

definition resolveAccountExists :: "extlib \<Rightarrow> MidazResolver \<Rightarrow> string \<Rightarrow> string \<Rightarrow> string \<Rightarrow> goerr option" where
  "resolveAccountExists lib mr organizationID ledgerID alias =
     (case uuid_Parse lib organizationID of
        None \<Rightarrow> Some (Business ErrBillingCalculationFailed)
      | Some orgUUID \<Rightarrow> (case uuid_Parse lib ledgerID of
          None \<Rightarrow> Some (Business ErrBillingCalculationFailed)
        | Some ledgerUUID \<Rightarrow> mr_AccountExistsByAlias mr orgUUID ledgerUUID alias))"

text \<open>The elements that are not in \<open>seen\<close>, each at its first occurrence.\<close>

fun unseen :: "'a list \<Rightarrow> 'a list \<Rightarrow> 'a list" where
  "unseen seen [] = []"
| "unseen seen (a # as) = (if a \<in> set seen then unseen seen as else a # unseen (a # seen) as)"

definition validateAccountTargetExists :: "extlib \<Rightarrow> MidazResolver \<Rightarrow> BillingPackage \<Rightarrow> goerr option" where
  "validateAccountTargetExists lib mr bp =
     (case bp_AccountTarget bp of
        None \<Rightarrow> None
      | Some target \<Rightarrow>
        first_err (map (resolveAccountExists lib mr (bp_OrganizationID bp) (bp_LedgerID bp)) (unseen [] (at_Aliases target))))"

definition exists_if_set :: "extlib \<Rightarrow> MidazResolver \<Rightarrow> BillingPackage \<Rightarrow> string option \<Rightarrow> goerr option" where
  "exists_if_set lib mr bp alias =
     (case alias of None \<Rightarrow> None | Some a \<Rightarrow> resolveAccountExists lib mr (bp_OrganizationID bp) (bp_LedgerID bp) a)"

definition validateVolumeCreate :: "extlib \<Rightarrow> MidazResolver \<Rightarrow> billing_docs \<Rightarrow> BillingPackage \<Rightarrow> goerr option" where
  "validateVolumeCreate lib mr docs bp =
     (case bp_EventFilter bp of
        None \<Rightarrow> Some (Business ErrMissingVolumeFields)
      | Some ef \<Rightarrow> (case FindMatchingPackages lib docs (bp_OrganizationID bp) (bp_LedgerID bp) (ef_TransactionRoute ef) of
          Inl e \<Rightarrow> Some e
        | Inr existing \<Rightarrow>
          if existing \<noteq> [] then Some (Business ErrBillingRouteOverlap)
          else first_err [exists_if_set lib mr bp (bp_DebitAccountAlias bp), exists_if_set lib mr bp (bp_CreditAccountAlias bp)]))"

definition validateMaintenanceCreate :: "extlib \<Rightarrow> MidazResolver \<Rightarrow> BillingPackage \<Rightarrow> goerr option" where
  "validateMaintenanceCreate lib mr bp =
     first_err [exists_if_set lib mr bp (bp_MaintenanceCreditAccount bp), validateAccountTargetExists lib mr bp]"

definition CreateBillingPackage ::
  "extlib \<Rightarrow> MidazResolver \<Rightarrow> uuid \<Rightarrow> string \<Rightarrow> BillingPackage \<Rightarrow> billing_docs \<Rightarrow> billing_docs \<times> (goerr + BillingPackage)" where
  "CreateBillingPackage lib mr bpUUID now bp docs =
     (case first_err
        [BillingPackage_Validate bp,
         if bp_Type bp = BillingPackageTypeVolume then validateVolumeCreate lib mr docs bp
         else if bp_Type bp = BillingPackageTypeMaintenance then validateMaintenanceCreate lib mr bp else None] of
        Some e \<Rightarrow> (docs, Inl e)
      | None \<Rightarrow> bp_Create lib docs
          (bp\<lparr>bp_ID := uuid_String lib bpUUID, bp_CreatedAt := now, bp_UpdatedAt := now,
              bp_Enable := (case bp_Enable bp of None \<Rightarrow> Some True | Some b \<Rightarrow> Some b)\<rparr>))"

definition createBillingPackage ::
  "extlib \<Rightarrow> MidazResolver \<Rightarrow> uuid \<Rightarrow> string \<Rightarrow> uuid \<Rightarrow> BillingPackage \<Rightarrow> billing_docs \<Rightarrow> billing_docs \<times> (goerr + BillingPackage)" where
  "createBillingPackage lib mr bpUUID now organizationID payload =
     CreateBillingPackage lib mr bpUUID now (payload\<lparr>bp_OrganizationID := uuid_String lib organizationID\<rparr>)"

text \<open>The fields of \<^verbatim>\<open>ToMap\<close> and the time of the update, as the \<^verbatim>\<open>$set\<close> stage writes them.\<close>

definition bu_fields :: "BillingPackageUpdate \<Rightarrow> string \<Rightarrow> BillingPackageMongoDBModel \<Rightarrow> BillingPackageMongoDBModel" where
  "bu_fields u now m =
     m\<lparr>bm_Label := or_else (bu_Label u) (bm_Label m),
       bm_Description := (case bu_Description u of None \<Rightarrow> bm_Description m | Some d \<Rightarrow> Some d),
       bm_Enable := or_else (bu_Enable u) (bm_Enable m), bm_UpdatedAt := now\<rparr>"

definition UpdateBillingPackage ::
  "extlib \<Rightarrow> string \<Rightarrow> uuid \<Rightarrow> uuid \<Rightarrow> BillingPackageUpdate \<Rightarrow> billing_docs \<Rightarrow> billing_docs \<times> (goerr + BillingPackage)" where
  "UpdateBillingPackage lib now i organizationID updates docs =
     bp_Update lib docs (uuid_String lib i) (uuid_String lib organizationID) (bu_fields updates now)"

definition updateBillingPackage ::
  "extlib \<Rightarrow> string \<Rightarrow> uuid \<Rightarrow> uuid \<Rightarrow> BillingPackageUpdate \<Rightarrow> billing_docs \<Rightarrow> billing_docs \<times> (goerr + BillingPackage)" where
  "updateBillingPackage lib now organizationID i payload docs =
     (case BillingPackageUpdate_Validate payload of
        Some e \<Rightarrow> (docs, Inl e)
      | None \<Rightarrow>
        if bu_Label payload = None \<and> bu_Description payload = None \<and> bu_Enable payload = None
        then (docs, Inl (Business ErrNothingToUpdate))
        else UpdateBillingPackage lib now i organizationID payload docs)"

definition DeleteBillingPackage ::
  "extlib \<Rightarrow> string \<Rightarrow> uuid \<Rightarrow> uuid \<Rightarrow> billing_docs \<Rightarrow> billing_docs \<times> goerr option" where
  "DeleteBillingPackage lib now i organizationID docs =
     (case bp_SoftDelete docs (uuid_String lib i) (uuid_String lib organizationID) now of
        (docs', Some e) \<Rightarrow> (docs', Some (Business ErrBillingPackageNotFound))
      | (docs', None) \<Rightarrow> (docs', None))"

section \<open>Accounts to charge\<close>

definition activeStatusCode :: string where [simp]: "activeStatusCode = ''active''"

fun resolve_each :: "(string \<Rightarrow> goerr + FeeAccount option) \<Rightarrow> string list \<Rightarrow> goerr + FeeAccount list" where
  "resolve_each get [] = Inr []"
| "resolve_each get (alias # aliases) =
     (case get alias of
        Inl e \<Rightarrow> Inl e
      | Inr account \<Rightarrow> (case resolve_each get aliases of
          Inl e \<Rightarrow> Inl e
        | Inr accounts \<Rightarrow> Inr (case account of None \<Rightarrow> accounts | Some a \<Rightarrow> a # accounts)))"

definition resolveByAliases :: "MidazResolver \<Rightarrow> uuid \<Rightarrow> uuid \<Rightarrow> string list \<Rightarrow> goerr + FeeAccount list" where
  "resolveByAliases mr orgID ledgerID aliases = resolve_each (mr_GetAccountByAlias mr orgID ledgerID) (unseen [] aliases)"

definition filterActiveAccounts :: "FeeAccount list \<Rightarrow> FeeAccount list" where
  "filterActiveAccounts accounts =
     filter (\<lambda>acc. case fa_Status acc of None \<Rightarrow> False | Some s \<Rightarrow> EqualFold (as_Code s) activeStatusCode) accounts"

definition ResolveAccounts :: "MidazResolver \<Rightarrow> uuid \<Rightarrow> uuid \<Rightarrow> AccountTarget \<Rightarrow> goerr + FeeAccount list" where
  "ResolveAccounts mr orgID ledgerID target =
     (case
        (if at_SegmentID target \<noteq> None then mr_ListAccounts mr orgID ledgerID (at_SegmentID target) None
         else if at_PortfolioID target \<noteq> None then mr_ListAccounts mr orgID ledgerID None (at_PortfolioID target)
         else if at_Aliases target \<noteq> [] then resolveByAliases mr orgID ledgerID (at_Aliases target)
         else Inl (Business ErrInvalidAccountTarget)) of
        Inl e \<Rightarrow> Inl e
      | Inr accounts \<Rightarrow> Inr (filterActiveAccounts accounts))"

section \<open>Payloads\<close>

definition billing_entry :: "string \<Rightarrow> string \<Rightarrow> decimal \<Rightarrow> FromTo" where
  "billing_entry alias asset value =
     FromTo_zero\<lparr>ft_AccountAlias := alias, ft_Amount := Some (Amount_zero\<lparr>am_Asset := asset, am_Value := value\<rparr>)\<rparr>"

definition billing_transaction ::
  "string \<Rightarrow> BillingPackage \<Rightarrow> string \<Rightarrow> (string, jany) gomap \<Rightarrow> string \<Rightarrow> decimal \<Rightarrow> FromTo list \<Rightarrow> FromTo list \<Rightarrow> Transaction" where
  "billing_transaction code bp period meta asset value from to =
     \<lparr>tx_ChartOfAccountsGroupName = '''', tx_Description = ''Billing - '' @ bp_Label bp @ '' - '' @ period, tx_Code = code,
      tx_Pending = False, tx_Metadata = Some meta, tx_Route = '''', tx_RouteID = None, tx_TransactionDate = None,
      tx_Send = \<lparr>snd_Asset = asset, snd_Value = value, snd_Source = \<lparr>src_Remaining = '''', src_From = from\<rparr>,
                 snd_Distribute = \<lparr>dst_Remaining = '''', dst_To = to\<rparr>\<rparr>,
      tx_Skip = None, tx_OperationTypeOverride = ''''\<rparr>"

definition BuildVolumePayload ::
  "extlib \<Rightarrow> BillingPackage \<Rightarrow> string \<Rightarrow> int \<Rightarrow> decimal \<Rightarrow> DiscountDetail option \<Rightarrow> Transaction" where
  "BuildVolumePayload lib bp period totalEvents netAmount discount =
     (let asset = or_else (bp_AssetCode bp) ''''; debitAlias = or_else (bp_DebitAccountAlias bp) '''';
          creditAlias = or_else (bp_CreditAccountAlias bp) ''''; pricingModel = or_else (bp_PricingModel bp) '''';
          freeQuota = or_else (bp_FreeQuota bp) 0;
          freeQuotaUsed = min freeQuota totalEvents;
          grossAmount = (case discount of None \<Rightarrow> netAmount | Some d \<Rightarrow> netAmount + dd_DiscountAmount d);
          meta =
            [(''billingType'', JStr BillingPackageTypeVolume), (''billingPackageId'', JStr (bp_ID bp)),
             (''label'', JStr (bp_Label bp)), (''period'', JStr period), (''totalEvents'', JNum (of_int totalEvents)),
             (''freeQuotaUsed'', JNum (of_int freeQuotaUsed)),
             (''billableEvents'', JNum (of_int (max (totalEvents - freeQuotaUsed) 0))),
             (''pricingModel'', JStr pricingModel), (''grossAmount'', JStr (dec_String lib grossAmount)),
             (''netAmount'', JStr (dec_String lib netAmount)),
             (''discount'', case discount of None \<Rightarrow> JNull
                | Some d \<Rightarrow> JObj [(''discountPercentage'', JStr (dec_String lib (dd_DiscountPercentage d))),
                    (''discountAmount'', JStr (dec_String lib (dd_DiscountAmount d))),
                    (''minQuantity'', JNum (of_int (dd_MinQuantity d)))])]
      in billing_transaction ''billing-volume'' bp period meta asset netAmount
           [billing_entry debitAlias asset netAmount] [billing_entry creditAlias asset netAmount])"

definition BuildMaintenancePayload :: "extlib \<Rightarrow> BillingPackage \<Rightarrow> string \<Rightarrow> FeeAccount list \<Rightarrow> Transaction" where
  "BuildMaintenancePayload lib bp period accounts =
     (let asset = or_else (bp_AssetCode bp) ''''; feeAmount = or_else (bp_FeeAmount bp) 0;
          creditAlias = or_else (bp_MaintenanceCreditAccount bp) '''';
          totalValue = feeAmount * of_nat (length accounts);
          meta =
            [(''billingType'', JStr BillingPackageTypeMaintenance), (''billingPackageId'', JStr (bp_ID bp)),
             (''label'', JStr (bp_Label bp)), (''period'', JStr period),
             (''totalAccounts'', JNum (of_nat (length accounts))), (''feeAmount'', JStr (dec_String lib feeAmount))]
      in billing_transaction ''billing-maintenance'' bp period meta asset totalValue
           (map (\<lambda>acc. billing_entry (fa_Alias acc) asset feeAmount) accounts) [billing_entry creditAlias asset totalValue])"

section \<open>Calculation\<close>

record BillingCalculateRequest =
  br_OrganizationID :: string
  br_LedgerID :: string
  br_Period :: string
  br_Type :: string

record BillingCalculationResult =
  br_BillingPackageID :: string
  br_BillingPackageLabel :: string
  br_BillingType :: string
  br_ResultPeriod :: string
  br_TotalAccounts :: nat
  br_TotalCharged :: nat
  br_TotalSkipped :: nat
  br_TotalNetAmount :: decimal
  br_TransactionPayload :: "Transaction option"

record BillingCalculateSummary =
  bs_TotalResults :: nat
  bs_TotalVolume :: nat
  bs_TotalMaintenance :: nat
  bs_TotalNetAmount :: decimal

record BillingCalculateResponse =
  rp_Results :: "BillingCalculationResult list"
  rp_Summary :: BillingCalculateSummary

definition fetchPackagesByType ::
  "extlib \<Rightarrow> billing_docs \<Rightarrow> BillingCalculateRequest \<Rightarrow> goerr + BillingPackage list \<times> BillingPackage list" where
  "fetchPackagesByType lib docs req =
     (let get = FindActiveByType lib docs (br_OrganizationID req) (br_LedgerID req)
      in if br_Type req = BillingPackageTypeVolume then
           (case get BillingPackageTypeVolume of Inl e \<Rightarrow> Inl e | Inr pkgs \<Rightarrow> Inr (pkgs, []))
         else if br_Type req = BillingPackageTypeMaintenance then
           (case get BillingPackageTypeMaintenance of Inl e \<Rightarrow> Inl e | Inr pkgs \<Rightarrow> Inr ([], pkgs))
         else
           (case get BillingPackageTypeVolume of Inl e \<Rightarrow> Inl e
            | Inr volPkgs \<Rightarrow> (case get BillingPackageTypeMaintenance of Inl e \<Rightarrow> Inl e | Inr maintPkgs \<Rightarrow> Inr (volPkgs, maintPkgs))))"

definition volumePrice :: "BillingPackage \<Rightarrow> int \<Rightarrow> goerr + decimal" where
  "volumePrice bp billableEvents =
     (let failed = Business ErrBillingCalculationFailed in
      if bp_PricingModel bp = Some PricingModelTiered then
        (case CalculateTiered billableEvents (bp_Tiers bp) of Inl e \<Rightarrow> Inl failed | Inr (u, gross) \<Rightarrow> Inr gross)
      else if bp_PricingModel bp = Some PricingModelFixed then
        (case bp_Tiers bp of [] \<Rightarrow> Inl failed | tier # _ \<Rightarrow> Inr (CalculateFixed billableEvents (pt_UnitPrice tier)))
      else Inl failed)"

definition volumeResult :: "BillingPackage \<Rightarrow> string \<Rightarrow> decimal \<Rightarrow> Transaction option \<Rightarrow> BillingCalculationResult" where
  "volumeResult bp period net payload =
     \<lparr>br_BillingPackageID = bp_ID bp, br_BillingPackageLabel = bp_Label bp, br_BillingType = BillingPackageTypeVolume,
      br_ResultPeriod = period, br_TotalAccounts = 0, br_TotalCharged = 0, br_TotalSkipped = 0, br_TotalNetAmount = net,
      br_TransactionPayload = payload\<rparr>"

definition calculateVolume ::
  "extlib \<Rightarrow> MidazResolver \<Rightarrow> BillingPackage \<Rightarrow> string \<Rightarrow> time \<Rightarrow> time \<Rightarrow> uuid \<Rightarrow> uuid \<Rightarrow> goerr + BillingCalculationResult" where
  "calculateVolume lib mr bp period periodStart periodEnd orgUUID ledgerUUID =
     (case bp_EventFilter bp of
        None \<Rightarrow> Inl (Business ErrBillingCalculationFailed)
      | Some ef \<Rightarrow>
        (case mr_CountTransactionsByRoute mr orgUUID ledgerUUID (ef_TransactionRoute ef) (ef_Status ef) periodStart periodEnd of
           Inl e \<Rightarrow> Inl (Business ErrBillingCalculationFailed)
         | Inr totalEvents \<Rightarrow>
           (case volumePrice bp (ApplyFreeQuota totalEvents (or_else (bp_FreeQuota bp) 0)) of
              Inl e \<Rightarrow> Inl e
            | Inr grossAmount \<Rightarrow>
              let (net, discount) = ApplyDiscount lib grossAmount totalEvents (bp_DiscountTiers bp);
                  netAmount = (case discount of None \<Rightarrow> net | Some d \<Rightarrow> grossAmount - dd_DiscountAmount d)
              in if netAmount = 0 then Inr (volumeResult bp period 0 None)
                 else Inr (volumeResult bp period netAmount
                   (Some (BuildVolumePayload lib bp period totalEvents netAmount discount))))))"

definition calculateMaintenance ::
  "extlib \<Rightarrow> MidazResolver \<Rightarrow> BillingPackage \<Rightarrow> string \<Rightarrow> uuid \<Rightarrow> uuid \<Rightarrow> goerr + BillingCalculationResult" where
  "calculateMaintenance lib mr bp period orgUUID ledgerUUID =
     (case bp_AccountTarget bp of
        None \<Rightarrow> Inl (Business ErrBillingCalculationFailed)
      | Some target \<Rightarrow>
        (case ResolveAccounts mr orgUUID ledgerUUID target of
           Inl e \<Rightarrow> Inl (Business ErrBillingCalculationFailed)
         | Inr accounts \<Rightarrow>
           let feeAmount = or_else (bp_FeeAmount bp) 0;
               result = \<lparr>br_BillingPackageID = bp_ID bp, br_BillingPackageLabel = bp_Label bp, br_BillingType = bp_Type bp,
                 br_ResultPeriod = period, br_TotalAccounts = 0, br_TotalCharged = 0, br_TotalSkipped = 0,
                 br_TotalNetAmount = 0, br_TransactionPayload = None\<rparr>
           in if accounts = [] then Inr result
              else Inr (result\<lparr>br_BillingType := BillingPackageTypeMaintenance, br_TotalAccounts := length accounts,
                br_TotalCharged := length accounts, br_TotalNetAmount := feeAmount * of_nat (length accounts),
                br_TransactionPayload :=
                  Some (BuildMaintenancePayload lib (bp\<lparr>bp_FeeAmount := Some feeAmount\<rparr>) period accounts)\<rparr>)))"

definition buildSummary :: "BillingCalculationResult list \<Rightarrow> BillingCalculateSummary" where
  "buildSummary results = fold
     (\<lambda>r s. s\<lparr>bs_TotalNetAmount := bs_TotalNetAmount s + br_TotalNetAmount r,
              bs_TotalVolume := bs_TotalVolume s + (if br_BillingType r = BillingPackageTypeVolume then 1 else 0),
              bs_TotalMaintenance := bs_TotalMaintenance s + (if br_BillingType r = BillingPackageTypeMaintenance then 1 else 0)\<rparr>)
     results \<lparr>bs_TotalResults = length results, bs_TotalVolume = 0, bs_TotalMaintenance = 0, bs_TotalNetAmount = 0\<rparr>"

definition Calculate :: "extlib \<Rightarrow> MidazResolver \<Rightarrow> billing_docs \<Rightarrow> BillingCalculateRequest \<Rightarrow> goerr + BillingCalculateResponse" where
  "Calculate lib mr docs req =
     (case (uuid_Parse lib (br_OrganizationID req), uuid_Parse lib (br_LedgerID req)) of
        (Some orgUUID, Some ledgerUUID) \<Rightarrow>
          (case parsePeriod (br_Period req) of Inl e \<Rightarrow> Inl e
           | Inr (periodStart, periodEnd) \<Rightarrow>
             (case fetchPackagesByType lib docs req of Inl e \<Rightarrow> Inl e
              | Inr (volumePackages, maintenancePackages) \<Rightarrow>
                (case convert_all (\<lambda>bp. calculateVolume lib mr bp (br_Period req) periodStart periodEnd orgUUID ledgerUUID) volumePackages of
                   Inl e \<Rightarrow> Inl e
                 | Inr vs \<Rightarrow>
                   (case convert_all (\<lambda>bp. calculateMaintenance lib mr bp (br_Period req) orgUUID ledgerUUID) maintenancePackages of
                      Inl e \<Rightarrow> Inl e
                    | Inr ms \<Rightarrow> Inr \<lparr>rp_Results = vs @ ms, rp_Summary = buildSummary (vs @ ms)\<rparr>))))
      | _ \<Rightarrow> Inl (Business ErrBillingCalculationFailed))"

definition validateBillingCalculateRequest :: "extlib \<Rightarrow> BillingCalculateRequest \<Rightarrow> goerr option" where
  "validateBillingCalculateRequest lib req = first_err
     [err_if (br_OrganizationID req = '''') (Business ErrFeeInvalidHeaderParameter),
      err_if (br_LedgerID req = '''') (Business ErrInvalidLedgerID),
      err_if (uuid_Parse lib (br_LedgerID req) = None) (Business ErrInvalidLedgerID),
      validateBillingPeriod (br_Period req),
      err_if (br_Type req \<noteq> '''' \<and> br_Type req \<noteq> BillingPackageTypeVolume \<and> br_Type req \<noteq> BillingPackageTypeMaintenance)
        (Business ErrInvalidBillingPackageType)]"

definition calculateBilling ::
  "extlib \<Rightarrow> MidazResolver \<Rightarrow> billing_docs \<Rightarrow> uuid \<Rightarrow> BillingCalculateRequest \<Rightarrow> goerr + BillingCalculateResponse" where
  "calculateBilling lib mr docs organizationID payload =
     (let payload = payload\<lparr>br_OrganizationID := uuid_String lib organizationID\<rparr>
      in case validateBillingCalculateRequest lib payload of Some e \<Rightarrow> Inl e | None \<Rightarrow> Calculate lib mr docs payload)"

end
