(* ===== verification/FeePackageProofs.thy ===== *)
theory FeePackageProofs
  imports FeePackages
begin

text \<open>
  What the package service keeps: the ranges of the packages of one scope (organization, ledger,
  segment, route) are disjoint, so the choice of a package is never ambiguous; and the cache of
  enabled packages agrees with the collection. Also what breaks each of the two.
\<close>

section \<open>Disjoint ranges\<close>

definition same_scope :: "PackageDoc \<Rightarrow> PackageDoc \<Rightarrow> bool" where
  "same_scope d d' \<longleftrightarrow>
     pd_OrganizationID d = pd_OrganizationID d' \<and> pk_LedgerID (pd_Package d) = pk_LedgerID (pd_Package d') \<and>
     GetSegmentID (pd_Package d) = GetSegmentID (pd_Package d') \<and>
     GetTransactionRoute (pd_Package d) = GetTransactionRoute (pd_Package d')"

definition ranges_meet :: "Package \<Rightarrow> Package \<Rightarrow> bool" where
  "ranges_meet p p' \<longleftrightarrow> pk_MinimumAmount p \<le> pk_MaximumAmount p' \<and> pk_MinimumAmount p' \<le> pk_MaximumAmount p"

definition ranges_disjoint :: "PackageDoc list \<Rightarrow> bool" where
  "ranges_disjoint docs \<longleftrightarrow>
     distinct (map (\<lambda>d. pk_ID (pd_Package d)) docs) \<and>
     (\<forall>d \<in> set docs. \<forall>d' \<in> set docs. live d \<and> live d' \<and> same_scope d d' \<and> pk_ID (pd_Package d) \<noteq> pk_ID (pd_Package d')
        \<longrightarrow> \<not> ranges_meet (pd_Package d) (pd_Package d'))"

definition packages_of :: "uuid \<Rightarrow> PackageDoc list \<Rightarrow> PackageDoc list" where
  "packages_of organizationID docs = filter (\<lambda>d. pd_OrganizationID d = organizationID \<and> live d) docs"

text \<open>The range check sees every package of the scope as long as the organization has at most ten.\<close>

lemma FindList_mem:
  assumes "length (packages_of org docs) \<le> 10" "pq_OrganizationID q = org" "pq_Page q = 0" "pq_Limit q = 0"
  shows "set (FindList cm docs q) = pd_Package ` set (filter (matches_query cm q) docs)"
proof -
  have "filter (matches_query cm q) docs = filter (matches_query cm q) (packages_of org docs)"
    unfolding packages_of_def filter_filter using assms(2) by (intro filter_cong) (auto simp: matches_query_def Let_def)
  then have "length (filter (matches_query cm q) docs) \<le> 10"
    using order_trans [OF length_filter_le assms(1), of "matches_query cm q"] by simp
  then show ?thesis using assms(3,4) by (simp add: FindList_def Let_def)
qed

lemma scope_matches:
  assumes "d \<in> set docs" "live d" "pd_OrganizationID d = org" "pk_LedgerID (pd_Package d) = led"
    and "GetSegmentID (pd_Package d) = (case seg of None \<Rightarrow> uuid_Nil | Some s \<Rightarrow> s)" "GetTransactionRoute (pd_Package d) = rt"
  shows "matches_query cm (getFilterPackage org led seg rt) d"
proof -
  have "uuid_ID uuid_Nil = 0" by (simp add: uuid_ID_def)
  moreover have "rt \<noteq> '''' \<Longrightarrow> pk_TransactionRoute (pd_Package d) = Some rt"
    using assms(6) by (auto simp: GetTransactionRoute_def deref_def split: option.splits)
  moreover have "seg = Some s \<Longrightarrow> uuid_ID s \<noteq> 0 \<Longrightarrow> pk_SegmentID (pd_Package d) = Some s" for s
    using assms(5) \<open>uuid_ID uuid_Nil = 0\<close> by (auto simp: GetSegmentID_def split: option.splits)
  ultimately show ?thesis
    using assms by (auto simp: matches_query_def getFilterPackage_def Let_def nil_or_empty_def split: option.splits)
qed

lemma range_check_sound:
  assumes check: "ValidatePackageMaxAndMinAmountRange lib cm docs hi lo rt org led seg pid = None"
    and parse: "dec_NewFromString lib lo = Some newMin" "dec_NewFromString lib hi = Some newMax"
    and small: "length (packages_of org docs) \<le> 10"
    and d: "d \<in> set docs" "live d" "pd_OrganizationID d = org" "pk_LedgerID (pd_Package d) = led"
      "GetSegmentID (pd_Package d) = (case seg of None \<Rightarrow> uuid_Nil | Some s \<Rightarrow> s)" "GetTransactionRoute (pd_Package d) = rt"
      "pid = None \<or> Some (pk_ID (pd_Package d)) \<noteq> pid"
  shows "\<not> (newMin \<le> pk_MaximumAmount (pd_Package d) \<and> pk_MinimumAmount (pd_Package d) \<le> newMax)"
proof -
  let ?q = "getFilterPackage org led seg rt"
  have "pd_Package d \<in> set (FindList cm docs ?q)"
    using FindList_mem [OF small, of ?q cm] scope_matches [OF d(1-6), of cm] d(1) by (simp add: getFilterPackage_def)
  moreover have "0 < length (FindList cm docs ?q)" using calculation by (cases "FindList cm docs ?q") auto
  ultimately have "range_conflict newMin newMax rt seg pid (pd_Package d) = None"
    using check parse by (simp add: ValidatePackageMaxAndMinAmountRange_def Let_def)
  then show ?thesis using d(5,6,7) by (auto simp: range_conflict_def isRangeOverlap_def split: if_splits)
qed

lemma invalidate_docs [simp]: "fst_docs (invalidatePackageCache lib env org led st) = fst_docs st"
  by (simp add: invalidatePackageCache_def split: option.splits)

text \<open>Creating.\<close>

lemma CreatePackage_doc:
  assumes "CreatePackage lib cm ae env i now cpi org led segm st = (st', Inr p)"
  shows "\<exists>d lo hi. let seg = (if uuid_ID segm = 0 then None else Some segm) in
     fst_docs st' = fst_docs st @ [d] \<and> live d \<and> pd_OrganizationID d = org \<and> pk_LedgerID (pd_Package d) = led \<and>
     pk_SegmentID (pd_Package d) = seg \<and> pk_TransactionRoute (pd_Package d) = cpi_TransactionRoute cpi \<and>
     pk_MinimumAmount (pd_Package d) = lo \<and> pk_MaximumAmount (pd_Package d) = hi \<and> pk_ID (pd_Package d) = i \<and>
     i \<notin> (\<lambda>d. pk_ID (pd_Package d)) ` set (fst_docs st) \<and>
     dec_NewFromString lib (cpi_MinAmount cpi) = Some lo \<and> dec_NewFromString lib (cpi_MaxAmount cpi) = Some hi \<and>
     ValidatePackageMaxAndMinAmountRange lib cm (fst_docs st) (cpi_MaxAmount cpi) (cpi_MinAmount cpi)
       (cpi_GetTransactionRoute cpi) org led seg None = None"
  using assms
  by (auto simp: CreatePackage_def Let_def NewPackage_def pack_Create_def FromEntity_def live_def list_ex_iff
      split: option.splits sum.splits if_splits prod.splits)
lemma create_keeps_disjoint:
  assumes run: "CreatePackage lib cm ae env i now cpi org led segm st = (st', r)"
    and inv: "ranges_disjoint (fst_docs st)" and small: "length (packages_of org (fst_docs st)) \<le> 10"
  shows "ranges_disjoint (fst_docs st')"
proof (cases r)
  case (Inl e)
  then have "fst_docs st' = fst_docs st"
    using run by (auto simp: CreatePackage_def Let_def split: option.splits sum.splits if_splits prod.splits)
  then show ?thesis using inv by simp
next
  case (Inr p)
  let ?seg = "if uuid_ID segm = 0 then None else Some segm"
  from CreatePackage_doc [OF run [unfolded Inr]] obtain d lo hi where
    d: "fst_docs st' = fst_docs st @ [d]" "pd_OrganizationID d = org" "pk_LedgerID (pd_Package d) = led"
      "pk_SegmentID (pd_Package d) = ?seg" "pk_TransactionRoute (pd_Package d) = cpi_TransactionRoute cpi"
      "pk_MinimumAmount (pd_Package d) = lo" "pk_MaximumAmount (pd_Package d) = hi" "pk_ID (pd_Package d) = i"
      "i \<notin> (\<lambda>d. pk_ID (pd_Package d)) ` set (fst_docs st)"
    and ok: "ValidatePackageMaxAndMinAmountRange lib cm (fst_docs st) (cpi_MaxAmount cpi) (cpi_MinAmount cpi)
       (cpi_GetTransactionRoute cpi) org led ?seg None = None"
      "dec_NewFromString lib (cpi_MinAmount cpi) = Some lo" "dec_NewFromString lib (cpi_MaxAmount cpi) = Some hi"
    by (auto simp: Let_def)
  have new: "\<not> ranges_meet (pd_Package d) (pd_Package d')" if "d' \<in> set (fst_docs st)" "live d'" "same_scope d d'" for d'
    using range_check_sound [OF ok small that(1,2)] that(3) d(2-7)
    by (auto simp: same_scope_def ranges_meet_def GetSegmentID_def GetTransactionRoute_def cpi_GetTransactionRoute_def split: option.splits)
  then have new': "\<not> ranges_meet (pd_Package d') (pd_Package d)" if "d' \<in> set (fst_docs st)" "live d'" "same_scope d' d" for d'
    using that by (simp add: same_scope_def ranges_meet_def conj_commute)
  show ?thesis using inv new new' d(1,8,9) unfolding ranges_disjoint_def by auto
qed

text \<open>Changing one document in place.\<close>

lemma update_first_eq:
  assumes "distinct (map (\<lambda>d. pk_ID (pd_Package d)) docs)"
  shows "update_first (has_id i org) f docs = map (\<lambda>d. if has_id i org d then f d else d) docs"
  using assms
proof (induction docs)
  case (Cons d docs)
  have "has_id i org d \<Longrightarrow> d' \<in> set docs \<Longrightarrow> \<not> has_id i org d'" for d'
    using Cons.prems by (auto simp: has_id_def) (metis imageI)
  then show ?case using Cons by (auto simp: map_idI)
qed simp

lemma disjoint_map:
  assumes inv: "ranges_disjoint docs"
    and keep: "\<And>d. d \<in> set docs \<Longrightarrow> pk_ID (pd_Package (g d)) = pk_ID (pd_Package d) \<and> pd_OrganizationID (g d) = pd_OrganizationID d \<and>
       pk_LedgerID (pd_Package (g d)) = pk_LedgerID (pd_Package d) \<and> pk_SegmentID (pd_Package (g d)) = pk_SegmentID (pd_Package d) \<and>
       pk_TransactionRoute (pd_Package (g d)) = pk_TransactionRoute (pd_Package d) \<and> (live (g d) \<longrightarrow> live d)"
    and ranges: "\<And>d d'. d \<in> set docs \<Longrightarrow> d' \<in> set docs \<Longrightarrow> live (g d) \<Longrightarrow> live (g d') \<Longrightarrow> same_scope d d' \<Longrightarrow>
       pk_ID (pd_Package d) \<noteq> pk_ID (pd_Package d') \<Longrightarrow> \<not> ranges_meet (pd_Package (g d)) (pd_Package (g d'))"
  shows "ranges_disjoint (map g docs)"
proof -
  have "map (\<lambda>d. pk_ID (pd_Package d)) (map g docs) = map (\<lambda>d. pk_ID (pd_Package d)) docs" using keep by simp
  then have "distinct (map (\<lambda>d. pk_ID (pd_Package d)) (map g docs))" using inv by (simp only: ranges_disjoint_def)
  moreover have "same_scope (g d) (g d') \<longleftrightarrow> same_scope d d'" if "d \<in> set docs" "d' \<in> set docs" for d d'
    using keep [OF that(1)] keep [OF that(2)] by (simp add: same_scope_def GetSegmentID_def GetTransactionRoute_def)
  ultimately show ?thesis using inv keep ranges unfolding ranges_disjoint_def by auto
qed

lemma delete_keeps_disjoint:
  assumes "DeletePackageByID lib env now i org st = (st', r)" "ranges_disjoint (fst_docs st)"
  shows "ranges_disjoint (fst_docs st')"
proof -
  let ?g = "\<lambda>d. if has_id i org d then d\<lparr>pd_Package := (pd_Package d)\<lparr>pk_DeletedAt := Some now\<rparr>\<rparr> else d"
  have dist: "distinct (map (\<lambda>d. pk_ID (pd_Package d)) (fst_docs st))" using assms(2) by (simp add: ranges_disjoint_def)
  have "ranges_disjoint (map ?g (fst_docs st))"
    by (rule disjoint_map [OF assms(2)])
      (use assms(2) in \<open>auto simp: live_def ranges_disjoint_def split: if_splits\<close>)
  moreover have "fst_docs st' = fst_docs st \<or> fst_docs st' = map ?g (fst_docs st)"
    using assms(1) update_first_eq [OF dist]
    by (auto simp: DeletePackageByID_def SoftDelete_def Let_def split: if_splits option.splits)
  ultimately show ?thesis using assms(2) by auto
qed

text \<open>Updating. An amount that the request leaves out is printed and parsed again for the check.\<close>

definition prints_decimals :: "extlib \<Rightarrow> bool" where
  "prints_decimals lib \<longleftrightarrow> (\<forall>x. dec_NewFromString lib (dec_String lib x) = Some x)"

lemma parseAmount_parses: "parseAmountDecimal lib s = Some x \<Longrightarrow> dec_NewFromString lib s = Some x"
  by (auto simp: parseAmountDecimal_def Let_def split: option.splits if_splits)

lemma SetAmounts_checked:
  assumes "SetAmountsDataToUpdate lib cm docs up ad org i = None" "upi_MinAmount up \<noteq> None \<or> upi_MaxAmount up \<noteq> None"
    and "prints_decimals lib"
  obtains lo hi where
    "ValidatePackageMaxAndMinAmountRange lib cm docs hi lo (ad_GetTransactionRoute ad) org (ad_LedgerID ad) (ad_SegmentID ad) (Some i) = None"
    "dec_NewFromString lib lo = Some (or_else (Option.bind (upi_MinAmount up) (dec_NewFromString lib)) (ad_MinAmount ad))"
    "dec_NewFromString lib hi = Some (or_else (Option.bind (upi_MaxAmount up) (dec_NewFromString lib)) (ad_MaxAmount ad))"
proof -
  have v: "upi_ValidateMinAndMaxAmount lib up = None"
    using assms(1) by (simp add: SetAmountsDataToUpdate_def split: option.splits)
  have lo: "\<exists>x. dec_NewFromString lib l = Some x" if "upi_MinAmount up = Some l" for l
    using v that parseAmount_parses by (auto simp: upi_ValidateMinAndMaxAmount_def Let_def split: if_splits)
  have hi: "\<exists>x. dec_NewFromString lib h = Some x" if "upi_MaxAmount up = Some h" for h
    using v that parseAmount_parses by (auto simp: upi_ValidateMinAndMaxAmount_def Let_def split: if_splits)
  show ?thesis
  proof (cases "upi_MinAmount up"; cases "upi_MaxAmount up")
    fix l h
    assume m: "upi_MinAmount up = Some l" "upi_MaxAmount up = Some h"
    then show ?thesis using assms(1) v lo hi by (intro that [of h l]) (auto simp: SetAmountsDataToUpdate_def or_else_def)
  next
    fix l
    assume m: "upi_MinAmount up = Some l" "upi_MaxAmount up = None"
    then show ?thesis using assms(1,3) v lo
      by (intro that [of "dec_String lib (ad_MaxAmount ad)" l]) (auto simp: SetAmountsDataToUpdate_def or_else_def prints_decimals_def split: option.splits)
  next
    fix h
    assume m: "upi_MinAmount up = None" "upi_MaxAmount up = Some h"
    then show ?thesis using assms(1,3) v hi
      by (intro that [of h "dec_String lib (ad_MinAmount ad)"]) (auto simp: SetAmountsDataToUpdate_def or_else_def prints_decimals_def split: option.splits)
  qed (use assms(2) in simp)
qed

lemma buildUpdateFields_checked:
  assumes "buildUpdateFields lib cm ae now docs i org up = Inr (patch, led)" "prints_decimals lib"
    and "List.find (has_id i org) docs = Some d0"
  defines "p0 \<equiv> pd_Package d0"
  shows "pp_minimum_amount patch = None \<and> pp_maximum_amount patch = None \<or>
    (\<exists>lo hi. ValidatePackageMaxAndMinAmountRange lib cm docs hi lo (GetTransactionRoute p0) org (pk_LedgerID p0) (pk_SegmentID p0) (Some i) = None \<and>
       dec_NewFromString lib lo = Some (or_else (pp_minimum_amount patch) (pk_MinimumAmount p0)) \<and>
       dec_NewFromString lib hi = Some (or_else (pp_maximum_amount patch) (pk_MaximumAmount p0)))"
proof -
  let ?ad = "\<lparr>ad_MinAmount = pk_MinimumAmount p0, ad_MaxAmount = pk_MaximumAmount p0, ad_Fees = pk_Fees p0,
              ad_LedgerID = pk_LedgerID p0, ad_SegmentID = pk_SegmentID p0, ad_TransactionRoute = pk_TransactionRoute p0\<rparr>"
  have ad: "FindFeesAndAmountDataByPackageID docs org i = Inr ?ad"
    using assms(3) by (simp add: FindFeesAndAmountDataByPackageID_def p0_def Let_def)
  have amounts: "pp_minimum_amount patch = Option.bind (upi_MinAmount up) (dec_NewFromString lib)"
    "pp_maximum_amount patch = Option.bind (upi_MaxAmount up) (dec_NewFromString lib)"
    using assms(1) ad by (auto simp: buildUpdateFields_def Let_def split: option.splits sum.splits if_splits)
  show ?thesis
  proof (cases "upi_MinAmount up \<noteq> None \<or> upi_MaxAmount up \<noteq> None")
    case True
    then have "SetAmountsDataToUpdate lib cm docs up ?ad org i = None"
      using assms(1) ad by (auto simp: buildUpdateFields_def Let_def split: option.splits sum.splits if_splits)
    from SetAmounts_checked [OF this True assms(2)] show ?thesis
      unfolding amounts by (auto simp: ad_GetTransactionRoute_def GetTransactionRoute_def)
  qed (simp add: amounts)
qed

lemma pipeline_keeps [simp]:
  "pk_ID (buildUpdatePipeline u p) = pk_ID p" "pk_LedgerID (buildUpdatePipeline u p) = pk_LedgerID p"
  "pk_SegmentID (buildUpdatePipeline u p) = pk_SegmentID p" "pk_TransactionRoute (buildUpdatePipeline u p) = pk_TransactionRoute p"
  "pk_DeletedAt (buildUpdatePipeline u p) = pk_DeletedAt p"
  "pk_MinimumAmount (buildUpdatePipeline u p) = or_else (pp_minimum_amount u) (pk_MinimumAmount p)"
  "pk_MaximumAmount (buildUpdatePipeline u p) = or_else (pp_maximum_amount u) (pk_MaximumAmount p)"
  by (simp_all add: buildUpdatePipeline_def Let_def)

lemma find_has_id:
  assumes "list_ex (has_id i org) docs"
  obtains d0 where "List.find (has_id i org) docs = Some d0" "d0 \<in> set docs" "has_id i org d0"
  using assms that by (cases "List.find (has_id i org) docs") (auto simp: find_None_iff find_Some_iff list_ex_iff)

lemma update_keeps_disjoint:
  assumes run: "UpdatePackageByID lib cm ae env now i org up st = (st', r)"
    and inv: "ranges_disjoint (fst_docs st)" and small: "length (packages_of org (fst_docs st)) \<le> 10"
    and prints: "prints_decimals lib"
  shows "ranges_disjoint (fst_docs st')"
proof (cases "fst_docs st' = fst_docs st")
  case False
  let ?docs = "fst_docs st"
  have dist: "distinct (map (\<lambda>d. pk_ID (pd_Package d)) ?docs)" using inv by (simp add: ranges_disjoint_def)
  from run False obtain patch led where patch: "buildUpdateFields lib cm ae now ?docs i org up = Inr (patch, led)"
    and found: "list_ex (has_id i org) ?docs"
    and st': "fst_docs st' = update_first (has_id i org) (\<lambda>d. d\<lparr>pd_Package := buildUpdatePipeline patch (pd_Package d)\<rparr>) ?docs"
    by (auto simp: UpdatePackageByID_def pack_Update_def split: sum.splits if_splits)
  from find_has_id [OF found] obtain d0 where d0: "List.find (has_id i org) ?docs = Some d0" "d0 \<in> set ?docs" "has_id i org d0" .
  let ?p = "buildUpdatePipeline patch (pd_Package d0)"
  let ?g = "\<lambda>d. if has_id i org d then d\<lparr>pd_Package := buildUpdatePipeline patch (pd_Package d)\<rparr> else d"
  have only: "d \<in> set ?docs \<Longrightarrow> pk_ID (pd_Package d) = i \<Longrightarrow> d = d0" for d
    using dist d0(2,3) by (auto simp: has_id_def distinct_map inj_on_def)
  have other: "\<not> ranges_meet ?p (pd_Package d)" if d: "d \<in> set ?docs" "live d" "same_scope d0 d" "pk_ID (pd_Package d) \<noteq> i" for d
  proof (cases "pp_minimum_amount patch = None \<and> pp_maximum_amount patch = None")
    case True
    then show ?thesis using inv d d0 unfolding ranges_disjoint_def by (auto simp: ranges_meet_def or_else_def has_id_def)
  next
    case False
    with buildUpdateFields_checked [OF patch prints d0(1)] obtain lo hi where
      chk: "ValidatePackageMaxAndMinAmountRange lib cm ?docs hi lo (GetTransactionRoute (pd_Package d0)) org (pk_LedgerID (pd_Package d0))
              (pk_SegmentID (pd_Package d0)) (Some i) = None"
        "dec_NewFromString lib lo = Some (pk_MinimumAmount ?p)" "dec_NewFromString lib hi = Some (pk_MaximumAmount ?p)"
      by auto
    from range_check_sound [OF chk small d(1,2)] d(3,4) d0(3) show ?thesis
      by (auto simp: ranges_meet_def same_scope_def has_id_def GetSegmentID_def split: option.splits)
  qed
  have "ranges_disjoint (map ?g ?docs)"
  proof (rule disjoint_map [OF inv])
    fix d d'
    assume dd: "d \<in> set ?docs" "d' \<in> set ?docs" "live (?g d)" "live (?g d')" "same_scope d d'" "pk_ID (pd_Package d) \<noteq> pk_ID (pd_Package d')"
    then have lv: "live d" "live d'" by (auto simp: live_def split: if_splits)
    have sc: "same_scope d' d" using dd(5) by (simp add: same_scope_def)
    consider "has_id i org d" | "has_id i org d'" | "\<not> has_id i org d" "\<not> has_id i org d'" by blast
    then show "\<not> ranges_meet (pd_Package (?g d)) (pd_Package (?g d'))"
    proof cases
      case 1
      then have "d = d0" using only dd(1) by (simp add: has_id_def)
      then show ?thesis using other [OF dd(2) lv(2)] dd(5,6) 1 by (auto simp: has_id_def)
    next
      case 2
      then have "d' = d0" using only dd(2) by (simp add: has_id_def)
      then show ?thesis using other [OF dd(1) lv(1)] sc dd(6) 2 by (auto simp: has_id_def ranges_meet_def conj_commute)
    next
      case 3
      then show ?thesis using inv dd lv by (simp add: ranges_disjoint_def)
    qed
  qed (auto simp: live_def)
  then show ?thesis by (simp only: st' update_first_eq [OF dist])
qed (use inv in simp)

section \<open>The choice of a package\<close>

lemma route_matches:
  "pk_TransactionRoute p = None \<and> rt = '''' \<or> pk_TransactionRoute p = Some rt \<Longrightarrow> GetTransactionRoute p = rt"
  by (auto simp: GetTransactionRoute_def deref_def)

definition applies_to :: "string \<Rightarrow> uuid option \<Rightarrow> Package \<Rightarrow> bool" where
  "applies_to rt seg p \<longleftrightarrow> p \<in> set (filterBySegmentID (filterByTransactionRoute [p] rt) seg)"

lemma applies_to_iff:
  "applies_to rt seg p \<longleftrightarrow>
     (pk_TransactionRoute p = None \<and> rt = '''' \<or> pk_TransactionRoute p = Some rt) \<and> pk_SegmentID p = seg"
  by (auto simp: applies_to_def filterBySegmentID_def filterByTransactionRoute_def)

lemma filters_eq: "filterBySegmentID (filterByTransactionRoute ps rt) seg = filter (applies_to rt seg) ps"
  unfolding filterBySegmentID_def filterByTransactionRoute_def filter_filter
  by (intro filter_cong) (auto simp: applies_to_iff)

lemma enabled_one_meets:
  assumes inv: "ranges_disjoint docs"
    and two: "filter (\<lambda>p. applies_to rt seg p \<and> isTransactionValueBetweenMaxAndMinAmountPackage p v)
                (FindByOrganizationIDAndLedgerID docs org led) = p # p' # ps"
  shows False
proof -
  let ?E = "\<lambda>d. pd_OrganizationID d = org \<and> pk_LedgerID (pd_Package d) = led \<and> live d \<and> pk_Enable (pd_Package d) = Some True"
  let ?A = "\<lambda>p. applies_to rt seg p \<and> isTransactionValueBetweenMaxAndMinAmountPackage p v"
  have eq: "map pd_Package (filter (\<lambda>d. ?E d \<and> ?A (pd_Package d)) docs) = p # p' # ps"
    using two by (simp add: FindByOrganizationIDAndLedgerID_def filter_map o_def conj_ac)
  have "distinct (map pk_ID (p # p' # ps))"
    unfolding eq [symmetric] using inv by (simp add: ranges_disjoint_def o_def distinct_map_filter)
  then have ne: "pk_ID p \<noteq> pk_ID p'" by simp
  have "p \<in> set (map pd_Package (filter (\<lambda>d. ?E d \<and> ?A (pd_Package d)) docs))"
    "p' \<in> set (map pd_Package (filter (\<lambda>d. ?E d \<and> ?A (pd_Package d)) docs))" unfolding eq by simp_all
  then obtain d d' where d: "d \<in> set docs" "d' \<in> set docs" "?E d" "?E d'" "?A p" "?A p'" "p = pd_Package d" "p' = pd_Package d'"
    by auto
  have "same_scope d d'"
    using d route_matches by (auto simp: same_scope_def applies_to_iff GetSegmentID_def)
  moreover have "ranges_meet p p'"
    using d(5,6) by (auto simp: ranges_meet_def isTransactionValueBetweenMaxAndMinAmountPackage_def)
  ultimately show False using inv d ne unfolding ranges_disjoint_def by blast
qed

inductive package_step :: "extlib \<Rightarrow> commons \<Rightarrow> (string \<Rightarrow> goerr option) \<Rightarrow> codec \<Rightarrow> fee_store \<Rightarrow> fee_store \<Rightarrow> bool"
  for lib cm accountExists cd where
  create: "length (packages_of org (fst_docs st)) \<le> 10 \<Longrightarrow> \<not> ce_DelErr env \<Longrightarrow>
    package_step lib cm accountExists cd st (fst (createPackage lib cm accountExists env i now org cpi st))"
| update: "length (packages_of org (fst_docs st)) \<le> 10 \<Longrightarrow> \<not> ce_DelErr env \<Longrightarrow>
    package_step lib cm accountExists cd st (fst (updatePackageByID lib cm accountExists env now org i upi st))"
| delete: "\<not> ce_DelErr env \<Longrightarrow>
    package_step lib cm accountExists cd st (fst (DeletePackageByID lib env now i org st))"
| read: "package_step lib cm accountExists cd st (fst (findPackagesCached lib cd env org led st))"

lemma read_docs [simp]: "fst_docs (fst (findPackagesCached lib cd env org led st)) = fst_docs st"
  by (simp add: findPackagesCached_def Let_def split: option.splits)

lemma createPackage_cases:
  obtains "fst (createPackage lib cm ae env i now org cpi st) = st"
  | led segm where "createPackage lib cm ae env i now org cpi st = CreatePackage lib cm ae env i now cpi org led segm st"
  by (cases "if nil_or_empty cm (cpi_SegmentID cpi) then Some uuid_Nil else uuid_Parse lib (deref (cpi_SegmentID cpi))";
      cases "uuid_Parse lib (cpi_LedgerID cpi)";
      cases "first_err [cpi_ValidateMinAndMaxAmount lib cpi, cpi_ValidateFees lib cpi,
                        err_if (repeated_priority [] (cpi_Fee cpi)) (Business ErrPriorityInvalid)]")
     (auto simp only: createPackage_def option.case fst_conv)

lemma updatePackage_cases:
  obtains "fst (updatePackageByID lib cm ae env now org i upi st) = st"
  | "updatePackageByID lib cm ae env now org i upi st = UpdatePackageByID lib cm ae env now i org upi st"
  by (cases "updatePackageByID lib cm ae env now org i upi st") (auto simp: updatePackageByID_def split: option.splits)

lemma step_keeps_disjoint:
  assumes "package_step lib cm ae cd st st'" "ranges_disjoint (fst_docs st)" "prints_decimals lib"
  shows "ranges_disjoint (fst_docs st')"
  using assms(1)
proof cases
  case (create org env i now cpi)
  show ?thesis
  proof (rule createPackage_cases [of lib cm ae env i now org cpi st])
    fix led segm
    assume "createPackage lib cm ae env i now org cpi st = CreatePackage lib cm ae env i now cpi org led segm st"
    then show ?thesis
      using create(1,2) create_keeps_disjoint [OF surjective_pairing assms(2)] by simp
  qed (use create(1) assms(2) in simp)
next
  case (update org env now i upi)
  show ?thesis
  proof (rule updatePackage_cases [of lib cm ae env now org i upi st])
    assume "updatePackageByID lib cm ae env now org i upi st = UpdatePackageByID lib cm ae env now i org upi st"
    then show ?thesis
      using update(1,2) update_keeps_disjoint [OF surjective_pairing assms(2) _ assms(3)] by simp
  qed (use update(1) assms(2) in simp)
next
  case (delete env now i org)
  then show ?thesis using delete_keeps_disjoint [OF surjective_pairing assms(2)] by simp
next
  case (read env org led)
  then show ?thesis using assms(2) by simp
qed

interpretation ranges: step_invariant "package_step lib cm accountExists cd"
    "\<lambda>st. prints_decimals lib \<longrightarrow> ranges_disjoint (fst_docs st)" for lib cm accountExists cd
  by unfold_locales (blast intro: step_keeps_disjoint)


section \<open>The cache\<close>

definition codec_ok :: "codec \<Rightarrow> bool" where
  "codec_ok cd \<longleftrightarrow>
     (\<forall>ps b. json_Marshal cd ps = Some b \<longrightarrow> json_Unmarshal cd b = Some ps \<and> b \<noteq> packageCacheNotFoundSentinel \<and> b \<noteq> '''')"

definition uuid_text :: "extlib \<Rightarrow> bool" where
  "uuid_text lib \<longleftrightarrow> inj (uuid_String lib) \<and> (\<forall>u. CHR '':'' \<notin> set (uuid_String lib u))"

definition cache_agrees :: "extlib \<Rightarrow> codec \<Rightarrow> fee_store \<Rightarrow> bool" where
  "cache_agrees lib cd st \<longleftrightarrow>
     (\<forall>c org led b. fst_cache st = Some c \<longrightarrow> map_of c (packageCacheKey lib org led) = Some b \<longrightarrow>
        cached_packages cd b = Some (FindByOrganizationIDAndLedgerID (fst_docs st) org led))"

definition uncached :: "fee_store \<Rightarrow> fee_store" where
  "uncached st = st\<lparr>fst_cache := None\<rparr>"

lemma key_inject:
  "uuid_text lib \<Longrightarrow> packageCacheKey lib org led = packageCacheKey lib org' led' \<longleftrightarrow> org = org' \<and> led = led'"
  using cut_first [of "CHR '':''" "uuid_String lib org" "uuid_String lib org'"]
  by (auto simp: packageCacheKey_def uuid_text_def inj_def)

lemma read_agrees:
  assumes "cache_agrees lib cd st" "codec_ok cd" "uuid_text lib"
  shows "snd (findPackagesCached lib cd env org led st) = FindByOrganizationIDAndLedgerID (fst_docs st) org led"
    and "cache_agrees lib cd (fst (findPackagesCached lib cd env org led st))"
proof -
  show "snd (findPackagesCached lib cd env org led st) = FindByOrganizationIDAndLedgerID (fst_docs st) org led"
    using assms(1) by (auto simp: findPackagesCached_def Let_def cache_agrees_def bind_eq_Some_conv split: option.splits if_splits)
  have "cached_packages cd packageCacheNotFoundSentinel = Some []"
    by (simp add: cached_packages_def packageCacheNotFoundSentinel_def)
  moreover have "json_Marshal cd ps = Some b \<Longrightarrow> cached_packages cd b = Some ps" for ps b
    using assms(2) by (auto simp: cached_packages_def codec_ok_def)
  ultimately show "cache_agrees lib cd (fst (findPackagesCached lib cd env org led st))"
    using assms(1) key_inject [OF assms(3)]
    by (auto simp: findPackagesCached_def Let_def cache_agrees_def writePackageCache_def update_conv'
        split: option.splits if_splits)
qed

lemma invalidate_agrees:
  assumes "cache_agrees lib cd st" "uuid_text lib" "\<not> ce_DelErr env"
    and same: "\<And>o' l'. (o', l') \<noteq> (org, led) \<Longrightarrow>
      FindByOrganizationIDAndLedgerID docs o' l' = FindByOrganizationIDAndLedgerID (fst_docs st) o' l'"
  shows "cache_agrees lib cd (invalidatePackageCache lib env org led (st\<lparr>fst_docs := docs\<rparr>))"
  using assms(1,3) same key_inject [OF assms(2)]
  by (auto simp: invalidatePackageCache_def cache_agrees_def AList.delete_conv' split: option.splits if_splits)

lemma find_snoc:
  "(o', l') \<noteq> (pd_OrganizationID d, pk_LedgerID (pd_Package d)) \<Longrightarrow>
   FindByOrganizationIDAndLedgerID (docs @ [d]) o' l' = FindByOrganizationIDAndLedgerID docs o' l'"
  by (auto simp: FindByOrganizationIDAndLedgerID_def)

lemma find_update_first:
  assumes d0: "List.find (has_id i org) docs = Some d0" "(o', l') \<noteq> (org, pk_LedgerID (pd_Package d0))"
    and f: "\<And>d. pd_OrganizationID (f d) = pd_OrganizationID d \<and> pk_LedgerID (pd_Package (f d)) = pk_LedgerID (pd_Package d)"
  shows "FindByOrganizationIDAndLedgerID (update_first (has_id i org) f docs) o' l' = FindByOrganizationIDAndLedgerID docs o' l'"
  using d0(1)
proof (induction docs)
  case (Cons d docs)
  show ?case
  proof (cases "has_id i org d")
    case True
    then show ?thesis using Cons.prems d0(2) f [of d] by (auto simp: FindByOrganizationIDAndLedgerID_def has_id_def)
  next
    case False
    then show ?thesis using Cons by (simp add: FindByOrganizationIDAndLedgerID_def)
  qed
qed simp

lemma create_agrees:
  assumes "cache_agrees lib cd st" "uuid_text lib" "\<not> ce_DelErr env"
  shows "cache_agrees lib cd (fst (CreatePackage lib cm ae env i now cpi org led segm st))"
proof (cases "CreatePackage lib cm ae env i now cpi org led segm st")
  case (Pair st' r)
  show ?thesis
  proof (cases r)
    case (Inl e)
    then have "st' = st"
      using Pair by (auto simp: CreatePackage_def Let_def split: option.splits sum.splits if_splits prod.splits)
    then show ?thesis using assms(1) Pair by simp
  next
    case (Inr p)
    from CreatePackage_doc [OF Pair [unfolded Inr]] obtain d where
      d: "fst_docs st' = fst_docs st @ [d]" "pd_OrganizationID d = org" "pk_LedgerID (pd_Package d) = led" by (auto simp: Let_def)
    have "st' = invalidatePackageCache lib env org led (st\<lparr>fst_docs := fst_docs st'\<rparr>)"
      using Pair Inr by (auto simp: CreatePackage_def Let_def split: option.splits sum.splits if_splits prod.splits)
    moreover have "cache_agrees lib cd (invalidatePackageCache lib env org led (st\<lparr>fst_docs := fst_docs st'\<rparr>))"
      using find_snoc [of _ _ d] d by (intro invalidate_agrees [OF assms]) simp
    ultimately show ?thesis using Pair by simp
  qed
qed

lemma update_agrees:
  assumes "cache_agrees lib cd st" "uuid_text lib" "\<not> ce_DelErr env"
  shows "cache_agrees lib cd (fst (UpdatePackageByID lib cm ae env now i org upi st))"
proof (cases "\<exists>patch led. buildUpdateFields lib cm ae now (fst_docs st) i org upi = Inr (patch, led) \<and> list_ex (has_id i org) (fst_docs st)")
  case True
  then obtain patch led where u: "buildUpdateFields lib cm ae now (fst_docs st) i org upi = Inr (patch, led)"
    "list_ex (has_id i org) (fst_docs st)" by blast
  from find_has_id [OF u(2)] obtain d0 where d0: "List.find (has_id i org) (fst_docs st) = Some d0" .
  have "led = pk_LedgerID (pd_Package d0)"
    using u(1) d0 by (auto simp: buildUpdateFields_def FindFeesAndAmountDataByPackageID_def Let_def split: option.splits sum.splits if_splits)
  then show ?thesis
    using u invalidate_agrees [OF assms, of org led] find_update_first [OF d0]
    by (simp add: UpdatePackageByID_def pack_Update_def)
next
  case False
  then show ?thesis using assms(1) by (auto simp: UpdatePackageByID_def pack_Update_def split: sum.splits prod.splits)
qed

lemma delete_agrees:
  assumes "cache_agrees lib cd st" "uuid_text lib" "\<not> ce_DelErr env"
  shows "cache_agrees lib cd (fst (DeletePackageByID lib env now i org st))"
proof (cases "list_ex (has_id i org) (fst_docs st)")
  case True
  from find_has_id [OF this] obtain d0 where d0: "List.find (has_id i org) (fst_docs st) = Some d0" .
  show ?thesis
  proof (cases "fst_cache st")
    case None
    then show ?thesis by (simp add: DeletePackageByID_def resolvePackageLedger_def SoftDelete_def cache_agrees_def Let_def)
  next
    case (Some c)
    then show ?thesis
      using True d0 invalidate_agrees [OF assms, of org "pk_LedgerID (pd_Package d0)"] find_update_first [OF d0]
      by (simp add: DeletePackageByID_def resolvePackageLedger_def SoftDelete_def FindFeesAndAmountDataByPackageID_def Let_def)
  qed
next
  case False
  then show ?thesis using assms(1) by (simp add: DeletePackageByID_def SoftDelete_def Let_def)
qed

lemma step_agrees:
  assumes "package_step lib cm ae cd st st'" "cache_agrees lib cd st" "codec_ok cd" "uuid_text lib"
  shows "cache_agrees lib cd st'"
  using assms(1)
proof cases
  case (create org env i now cpi)
  then show ?thesis
    using create_agrees [OF assms(2,4) create(3)] assms(2)
    by (cases rule: createPackage_cases [of lib cm ae env i now org cpi st]) simp_all
next
  case (update org env now i upi)
  then show ?thesis
    using update_agrees [OF assms(2,4) update(3)] assms(2)
    by (cases rule: updatePackage_cases [of lib cm ae env now org i upi st]) simp_all
next
  case (delete env now i org)
  then show ?thesis using delete_agrees [OF assms(2,4)] by simp
next
  case (read env org led)
  then show ?thesis using read_agrees(2) [OF assms(2-4)] by simp
qed

text \<open>An operation of the cached store does what the same operation does without a cache.\<close>

definition refines :: "(fee_store \<Rightarrow> fee_store \<times> 'r) \<Rightarrow> fee_store \<Rightarrow> bool" where
  "refines op st \<longleftrightarrow> op (uncached st) = (uncached (fst (op st)), snd (op st))"

lemma uncached_simps [simp]:
  "fst_docs (uncached st) = fst_docs st" "fst_cache (uncached st) = None"
  "uncached (uncached st) = uncached st"
  "uncached (st\<lparr>fst_docs := docs\<rparr>) = (uncached st)\<lparr>fst_docs := docs\<rparr>"
  "uncached (st\<lparr>fst_cache := c\<rparr>) = uncached st"
  by (simp_all add: uncached_def)

lemma uncached_invalidate [simp]:
  "uncached (invalidatePackageCache lib env org led st) = uncached st"
  "invalidatePackageCache lib env org led (uncached st) = uncached st"
  "fst_cache st = None \<Longrightarrow> invalidatePackageCache lib env org led st = st"
  by (simp_all add: invalidatePackageCache_def split: option.splits)

lemma mutations_refine:
  "refines (createPackage lib cm ae env i now org cpi) st"
  "refines (updatePackageByID lib cm ae env now org i upi) st"
  "refines (DeletePackageByID lib env now i org) st"
proof -
  have "refines (CreatePackage lib cm ae env i now cpi org led segm) st" for led segm
    unfolding refines_def CreatePackage_def Let_def uncached_simps
    by (cases "fst_cache st") (simp_all split: option.splits sum.splits prod.splits)
  then show "refines (createPackage lib cm ae env i now org cpi) st"
    unfolding refines_def createPackage_def by (simp split: option.splits)
  have "refines (UpdatePackageByID lib cm ae env now i org upi) st"
    unfolding refines_def UpdatePackageByID_def uncached_simps by (simp split: option.splits sum.splits prod.splits)
  then show "refines (updatePackageByID lib cm ae env now org i upi) st"
    unfolding refines_def updatePackageByID_def by (simp split: option.splits)
  show "refines (DeletePackageByID lib env now i org) st"
    unfolding refines_def DeletePackageByID_def resolvePackageLedger_def Let_def uncached_simps
    by (simp split: option.splits sum.splits prod.splits)
qed

interpretation caches: step_invariant "package_step lib cm accountExists cd"
    "\<lambda>st. codec_ok cd \<and> uuid_text lib \<longrightarrow> cache_agrees lib cd st" for lib cm accountExists cd
  by unfold_locales (blast intro: step_agrees)


section \<open>Examples\<close>

text \<open>A library that prints a number as a quotient in tallies, and an identifier in decimal.\<close>

definition tally_print :: "decimal \<Rightarrow> string" where
  "tally_print x = (case quotient_of x of (n, d) \<Rightarrow>
     (if n < 0 then ''-'' else '''') @ replicate (nat \<bar>n\<bar>) (CHR ''1'') @ ''/'' @ replicate (nat d) (CHR ''1''))"

definition tally_parse :: "string \<Rightarrow> decimal option" where
  "tally_parse s =
     (let neg = (s \<noteq> [] \<and> hd s = CHR ''-''); t = (if neg then tl s else s);
          n = length (takeWhile (\<lambda>c. c \<noteq> CHR ''/'') t); d = length t - n - 1
      in Some ((if neg then - of_nat n else of_nat n) / of_nat d))"

definition tally_lib :: extlib where
  "tally_lib = exact_lib\<lparr>dec_NewFromString := tally_parse, dec_String := tally_print, uuid_String := (\<lambda>u. nat_str (unat u)),
     uuid_Parse := (\<lambda>s. Some (of_nat (length s)))\<rparr>"

lemma tally_print_parse: "tally_parse (tally_print x) = Some x"
proof (cases "quotient_of x")
  case (Pair n d)
  then have d: "0 < d" "x = of_int n / of_int d" by (auto simp: quotient_of_denom_pos quotient_of_div)
  let ?t = "replicate (nat \<bar>n\<bar>) (CHR ''1'') @ ''/'' @ replicate (nat d) (CHR ''1'')"
  have tw: "takeWhile (\<lambda>c. c \<noteq> CHR ''/'') ?t = replicate (nat \<bar>n\<bar>) (CHR ''1'')"
    by (induction "nat \<bar>n\<bar>") (auto simp: takeWhile_append)
  have hd: "?t \<noteq> [] \<and> hd ?t \<noteq> CHR ''-''" by (cases "nat \<bar>n\<bar>") auto
  show ?thesis
    using d tw hd Pair
    by (cases "n < 0") (auto simp: tally_parse_def tally_print_def Let_def of_nat_nat)
qed

lemma tally_lib_ok: "prints_decimals tally_lib" "uuid_text tally_lib"
proof -
  show "prints_decimals tally_lib" by (simp add: prints_decimals_def tally_lib_def tally_print_parse)
  have "CHR '':'' \<notin> set (nat_str n)" for n by (rule digits_only_notin) simp_all
  then show "uuid_text tally_lib" by (simp add: uuid_text_def tally_lib_def inj_def word_unat_eq_iff)
qed

definition sample_codec :: codec where
  "sample_codec =
     \<lparr>json_Marshal = (\<lambda>ps. if ps = [] then Some ''[]'' else None), json_Unmarshal = (\<lambda>s. if s = ''[]'' then Some [] else None)\<rparr>"

definition quiet :: cache_env where
  "quiet = \<lparr>ce_GetErr = False, ce_SetErr = False, ce_DelErr = False\<rparr>"

definition tally :: "nat \<Rightarrow> string" where
  "tally n = replicate n (CHR ''1'') @ ''/1''"

definition sample_cpi :: "nat \<Rightarrow> nat \<Rightarrow> CreatePackageInput" where
  "sample_cpi lo hi =
     \<lparr>cpi_FeeGroupLabel = ''group'', cpi_Description = None, cpi_SegmentID = None, cpi_LedgerID = ''ledger'', cpi_TransactionRoute = None,
      cpi_MinAmount = tally lo, cpi_MaxAmount = tally hi, cpi_WaivedAccounts = None, cpi_Fee = [], cpi_Enable = Some True\<rparr>"

definition sample_store :: "nat \<Rightarrow> fee_store" where
  "sample_store n =
     fold (\<lambda>k st. fst (createPackage tally_lib plain_commons (\<lambda>a. None) quiet (of_nat k) 0 1 (sample_cpi (2 * k) (2 * k + 1)) st))
       [0..<n] \<lparr>fst_docs = [], fst_cache = Some []\<rparr>"

definition twelfth :: "fee_store \<times> (goerr + Package)" where
  "twelfth = createPackage tally_lib plain_commons (\<lambda>a. None) quiet 11 0 1 (sample_cpi 20 21) (sample_store 11)"

text \<open>
  With eleven packages in an organization the range check, which reads one page of ten, misses
  the eleventh: a package with the very range of that one is accepted, and from then on the
  choice of a package fails for every value in the range.
\<close>

theorem eleventh_package_unchecked:
  "is_Inr (snd twelfth) \<and>
   FindPackageToCalculateFee (FindByOrganizationIDAndLedgerID (fst_docs (fst twelfth)) 1 6) '''' None 20 =
     Inl (Errorf ''more than one package was found'')"
  by code_simp



section \<open>Where the guarantees end\<close>

text \<open>
  A reader that missed the cache and read the collection before a deletion may write what it read
  after the invalidation. The entry has no expiry: every later read returns the deleted package
  and leaves the entry as it is.
\<close>

theorem late_write_leaves_stale_cache:
  assumes cd: "codec_ok cd" "json_Marshal cd ps = Some b" "ps \<noteq> []"
    and ps: "ps = FindByOrganizationIDAndLedgerID (fst_docs st) org led"
    and del: "DeletePackageByID lib env now i org st = (st1, None)" "fst_cache st1 = Some c1"
      "FindByOrganizationIDAndLedgerID (fst_docs st1) org led \<noteq> ps"
  defines "st2 \<equiv> st1\<lparr>fst_cache := Some (writePackageCache cd quiet (packageCacheKey lib org led) ps c1)\<rparr>"
  shows "findPackagesCached lib cd quiet org led st2 = (st2, ps) \<and> ps \<noteq> FindByOrganizationIDAndLedgerID (fst_docs st2) org led"
proof -
  have "cached_packages cd b = Some ps" using cd by (auto simp: cached_packages_def codec_ok_def)
  then show ?thesis
    using cd(2,3) del(3) by (simp add: st2_def findPackagesCached_def Let_def writePackageCache_def quiet_def update_conv')
qed

text \<open>
  The check of priorities looks at a changed fee as the request gives it, so a priority that the
  request leaves out counts as zero: an update can give two fees of a package the same priority.
\<close>

definition two_fees :: "(string, Fee) gomap" where
  "two_fees = [(''a'', sample_fee False 1 AppRuleFlatFee ''@x''), (''b'', sample_fee False 2 AppRuleFlatFee ''@y'')]"

theorem update_can_repeat_priority:
  "\<exists>u. validationFeesSetUnset tally_lib plain_commons (\<lambda>a. None) 0 two_fees
         [(''a'', Fee_zero\<lparr>fee_FeeLabel := ''new''\<rparr>), (''b'', Fee_zero\<lparr>fee_Priority := 1\<rparr>)] = Inr u \<and>
       map (\<lambda>q. fee_Priority (snd q)) (set_fees (fu_fees u) two_fees) = [1, 1]"
proof -
  let ?r = "validationFeesSetUnset tally_lib plain_commons (\<lambda>a. None) 0 two_fees
         [(''a'', Fee_zero\<lparr>fee_FeeLabel := ''new''\<rparr>), (''b'', Fee_zero\<lparr>fee_Priority := 1\<rparr>)]"
  have "is_Inr ?r \<and> map (\<lambda>q. fee_Priority (snd q)) (set_fees (fu_fees (projr ?r)) two_fees) = [1, 1]" by code_simp
  then show ?thesis by (cases ?r) (auto simp: is_Inr_def)
qed

text \<open>A new fee without a calculation model passes the checks of the request and then dereferences nil.\<close>

theorem new_fee_without_model_dereferences_nil:
  assumes "fee_FeeLabel f \<noteq> ''''" "fee_CalculationModel f = None" "fee_ReferenceAmount f = ''''"
  shows "validate_fee_update lib minAmount f = None \<and> ValidateNewFee lib f key x = Some nil_dereference"
  using assms by (simp add: validate_fee_update_def ValidateNewFee_def validateRequiredFields_def)

end
