(* ===== verification/LedgerBillingProofs.thy ===== *)
theory LedgerBillingProofs
  imports LedgerBilling FeePackageProofs "HOL-Library.Multiset"
begin

text \<open>
  Correctness of billing: a validated tier table prices every count by exactly one tier, the
  label of a period names the interval it stands for, and the transactions that a calculation
  proposes are balanced and pass the validation of the ledger.
\<close>

section \<open>Tier tables\<close>

lemma exchange_result:
  "mset (fst (exchange x xs) # snd (exchange x xs)) = mset (x # xs) \<and>
   (\<forall>y \<in> set (x # xs). pt_MinQuantity (fst (exchange x xs)) \<le> pt_MinQuantity y)"
  by (induction x xs rule: exchange.induct) (auto simp: Let_def split_beta)

lemma exchange_sort_sorts:
  "mset (exchange_sort ts) = mset ts \<and> sorted (map pt_MinQuantity (exchange_sort ts))"
proof (induction ts rule: exchange_sort.induct)
  case (2 x xs)
  let ?e = "exchange x xs"
  have m: "mset (fst ?e # snd ?e) = mset (x # xs)" using exchange_result by blast
  have "set (exchange_sort (snd ?e)) = set (snd ?e)" using 2 by (metis set_mset_mset)
  moreover have "set (snd ?e) \<subseteq> set (x # xs)" using mset_eq_setD [OF m] by auto
  ultimately show ?case using 2 m exchange_result [of x xs] by auto
qed simp

definition int64_tier :: "PricingTier \<Rightarrow> bool" where
  "int64_tier t = (pt_MinQuantity t \<le> MaxInt64 \<and> effective_max t \<le> MaxInt64)"

lemma int64_succ: "0 \<le> m \<Longrightarrow> m \<le> MaxInt64 \<Longrightarrow> int64 (m + 1) = (if m = MaxInt64 then - (2 ^ 63) else m + 1)"
  by (auto simp: int64_def MaxInt64_def)

lemma contiguous_covers:
  assumes "contiguous (t # ts) = None" "\<forall>t \<in> set (t # ts). validateSinglePricingTier t = None \<and> int64_tier t"
    and "pt_MinQuantity t \<le> n"
  shows "\<exists>t' \<in> set (t # ts). eventFallsInTier n t'"
  using assms
proof (induction ts arbitrary: t)
  case Nil
  then show ?case by (auto simp: eventFallsInTier_def err_if_def split: if_splits)
next
  case (Cons u us)
  show ?case
  proof (cases "pt_MaxQuantity t")
    case None
    then show ?thesis using Cons.prems(3) by (auto simp: eventFallsInTier_def)
  next
    case (Some m)
    have m: "0 \<le> m" "m \<le> MaxInt64" "0 \<le> pt_MinQuantity u"
      using Cons.prems(2) Some by (auto simp: validateSinglePricingTier_def int64_tier_def effective_max_def err_if_def split: if_splits)
    have c: "pt_MinQuantity u = int64 (m + 1)" "contiguous (u # us) = None"
      using Cons.prems(1) Some by (auto split: if_splits)
    show ?thesis
    proof (cases "n \<le> m")
      case True
      then show ?thesis using Some Cons.prems(3) by (auto simp: eventFallsInTier_def)
    next
      case False
      then have "pt_MinQuantity u \<le> n" using c(1) m int64_succ [OF m(1,2)] by (auto split: if_splits)
      then show ?thesis using Cons.IH [OF c(2)] Cons.prems(2) by auto
    qed
  qed
qed

lemma disjoint_tiers:
  assumes "\<not> any_overlap ts" "a \<in> set ts" "b \<in> set ts" "a \<noteq> b"
  shows "\<not> tiersOverlap a b"
  using assms by (induction ts) (auto simp: list_ex_iff tiersOverlap_def)

lemma common_count_overlaps:
  "eventFallsInTier n a \<Longrightarrow> eventFallsInTier n b \<Longrightarrow> n \<le> MaxInt64 \<Longrightarrow> tiersOverlap a b"
  by (auto simp: eventFallsInTier_def tiersOverlap_def effective_max_def split: option.splits)

text \<open>What validation leaves open: a table of one tier may be bounded.\<close>

definition open_ended :: "PricingTier list \<Rightarrow> bool" where
  "open_ended ts = (2 \<le> length ts \<or> (\<exists>t. ts = [t] \<and> pt_MaxQuantity t = None))"

lemma validated_tiers:
  assumes "BillingPackage_Validate bp = None" "bp_Type bp = BillingPackageTypeVolume"
  shows "\<forall>t \<in> set (bp_Tiers bp). validateSinglePricingTier t = None" "\<not> any_overlap (bp_Tiers bp)"
    "validateTiersNoGap (bp_Tiers bp) = None" "bp_Tiers bp \<noteq> []"
proof -
  have v: "validateVolumeFields bp = None" using assms by (simp add: BillingPackage_Validate_def split: option.splits)
  then have p: "validatePricingTiers bp = None" and "bp_Tiers bp \<noteq> []"
    by (auto simp: validateVolumeFields_def err_if_def split: option.splits if_splits)
  then show "bp_Tiers bp \<noteq> []" by simp
  have "first_err (map f xs) = None \<Longrightarrow> \<forall>x \<in> set xs. f x = None" for f :: "PricingTier \<Rightarrow> goerr option" and xs
    by (induction xs) (auto split: option.splits)
  then show "\<forall>t \<in> set (bp_Tiers bp). validateSinglePricingTier t = None" "\<not> any_overlap (bp_Tiers bp)"
    "validateTiersNoGap (bp_Tiers bp) = None"
    using p by (auto simp: validatePricingTiers_def validateTiersNoOverlap_def split: option.splits if_splits)
qed

lemma tiers_cover:
  assumes "validateTiersNoGap ts = None" "open_ended ts" "\<forall>t \<in> set ts. validateSinglePricingTier t = None \<and> int64_tier t"
    and "t \<in> set ts" "pt_MinQuantity t \<le> n"
  shows "\<exists>t' \<in> set ts. eventFallsInTier n t'"
proof (cases "2 \<le> length ts")
  case True
  then have c: "contiguous (exchange_sort ts) = None" using assms(1) by (simp add: validateTiersNoGap_def split: if_splits)
  have m: "mset (exchange_sort ts) = mset ts" and s: "sorted (map pt_MinQuantity (exchange_sort ts))"
    using exchange_sort_sorts by blast+
  have set: "set (exchange_sort ts) = set ts" using mset_eq_setD [OF m] .
  obtain u us where e: "exchange_sort ts = u # us" using set assms(4) by (cases "exchange_sort ts") auto
  have "pt_MinQuantity u \<le> pt_MinQuantity t" using s assms(4) set e by auto
  then show ?thesis using contiguous_covers [of u us n] c assms(3,5) set unfolding e by auto
next
  case False
  then obtain u where "ts = [u]" "pt_MaxQuantity u = None" using assms(2) by (auto simp: open_ended_def)
  then show ?thesis using assms(4,5) by (auto simp: eventFallsInTier_def)
qed

text \<open>
  C28. A volume package that passed validation prices every count of events, from the start of its
  lowest tier up, by exactly one of its tiers: the tier table neither leaves a gap nor lets two
  tiers claim the same count, whatever the order in which the request lists the tiers, and the
  gross amount is the count times the price of that tier. A table of a single tier must be
  unbounded for this, which the validation does not ask.
\<close>

theorem validated_tiers_price_every_count:
  assumes "BillingPackage_Validate bp = None" "bp_Type bp = BillingPackageTypeVolume" "open_ended (bp_Tiers bp)"
    and "\<forall>t \<in> set (bp_Tiers bp). int64_tier t"
    and "t \<in> set (bp_Tiers bp)" "pt_MinQuantity t \<le> n" "0 < n" "n \<le> MaxInt64"
  shows "\<exists>tier \<in> set (bp_Tiers bp). (\<forall>u \<in> set (bp_Tiers bp). eventFallsInTier n u \<longleftrightarrow> u = tier) \<and>
    CalculateTiered n (bp_Tiers bp) = Inr (pt_UnitPrice tier, of_int n * pt_UnitPrice tier)"
proof -
  note v = validated_tiers [OF assms(1,2)]
  obtain tier where tier: "tier \<in> set (bp_Tiers bp)" "eventFallsInTier n tier"
    using tiers_cover [OF v(3) assms(3) _ assms(5,6)] v(1) assms(4) by blast
  have unique: "eventFallsInTier n u \<longleftrightarrow> u = tier" if "u \<in> set (bp_Tiers bp)" for u
    using disjoint_tiers [OF v(2) that tier(1)] common_count_overlaps [OF _ tier(2) assms(8)] tier(2) by blast
  obtain u where u: "find (eventFallsInTier n) (bp_Tiers bp) = Some u"
    using tier by (cases "find (eventFallsInTier n) (bp_Tiers bp)") (auto simp: find_None_iff)
  then have "u = tier" using unique by (auto simp: find_Some_iff)
  then show ?thesis using tier(1) unique u v(4) assms(7) by (auto simp: CalculateTiered_def)
qed

section \<open>Billing periods\<close>

lemma length_nat_str: "n < 10 ^ k \<Longrightarrow> 0 < k \<Longrightarrow> length (nat_str n) \<le> k"
proof (induction k arbitrary: n)
  case (Suc k)
  show ?case
  proof (cases "n < 10")
    case True
    then show ?thesis by (simp add: nat_str.simps [of n])
  next
    case False
    then have "0 < k" using Suc.prems(1) by (cases k) auto
    moreover have "n div 10 < 10 ^ k" using Suc.prems(1) by (simp add: less_mult_imp_div_less mult.commute)
    ultimately show ?thesis using Suc.IH [of "n div 10"] False by (simp add: nat_str.simps [of n])
  qed
qed simp

lemma length_fmt_nat: "i < 10 ^ k \<Longrightarrow> 0 < k \<Longrightarrow> length (fmt_nat k i) = k"
  using length_nat_str [of "nat i" k] by (auto simp: fmt_nat_def pad0_def nat_less_iff)

lemma str_nat_fmt_nat [simp]: "str_nat (fmt_nat k i) = nat i"
  by (simp add: fmt_nat_def)

lemma fmt_nat_notin: "c = CHR ''-'' \<or> c = CHR ''+'' \<or> c = CHR ''W'' \<Longrightarrow> c \<notin> set (fmt_nat k i)"
  by (rule digits_only_notin [OF digits_only_fmt_nat]) auto

lemma fmt_nat_not_Nil [simp]: "fmt_nat k i \<noteq> []"
  by (simp add: fmt_nat_def pad0_def nat_str.simps [of "nat i"])

lemma hd_fmt_nat: "c = CHR ''-'' \<or> c = CHR ''+'' \<or> c = CHR ''W'' \<Longrightarrow> hd (fmt_nat k i) \<noteq> c"
  by (metis fmt_nat_notin fmt_nat_not_Nil hd_in_set)

lemma Atoi_fmt_nat: "0 \<le> i \<Longrightarrow> i \<le> MaxInt64 \<Longrightarrow> Atoi (fmt_nat k i) = Some i"
  using hd_fmt_nat [of "CHR ''-''" k i] hd_fmt_nat [of "CHR ''+''" k i] by (simp add: Atoi_def Let_def)

lemma split_two: "CHR ''-'' \<notin> set a \<Longrightarrow> CHR ''-'' \<notin> set b \<Longrightarrow> go_split ''-'' (a @ CHR ''-'' # b) = [a, b]"
  by (simp add: go_split_single_append go_split_single_None)

definition week_label :: "time \<Rightarrow> string" where
  "week_label t = (case ISOWeek t of (y, w) \<Rightarrow> fmt_nat 4 y @ ''-W'' @ fmt_nat 2 w)"

lemma Parse_fields_fmt:
  assumes "0 \<le> y" "y < 10000" "1 \<le> m" "m \<le> 12" "1 \<le> k" "k \<le> days_in m y"
  shows "Parse_fields (fmt_nat 4 y) (fmt_nat 2 m) (fmt_nat 2 k) = Some (Date_day y m k * Day)"
proof -
  have "days_in m y \<le> 31" unfolding days_in_def month_start_def Let_def by simp
  then show ?thesis using assms length_fmt_nat [of y 4] length_fmt_nat [of m 2] length_fmt_nat [of k 2]
    by (simp add: Parse_fields_def Let_def)
qed

lemma fields_bounds:
  assumes "0 \<le> d" "year_of d < 9999"
  shows "0 \<le> year_of d" "year_of d < 10000" "1 \<le> month_of d" "month_of d \<le> 12" "1 \<le> mday_of d"
    "mday_of d \<le> days_in (month_of d) (year_of d)" "1 \<le> days_in (month_of d) (year_of d)"
  using assms year_of_pos [OF assms(1)] month_of_bounds [of d] mday_of_pos [of d] by (simp_all add: mday_of_def days_in_def)

lemma parsePeriod_day:
  assumes "0 \<le> t" "year_of (day_of t) < 9999"
  shows "parsePeriod (Format_date t) = Inr (Truncate t Day, Truncate t Day + Day) \<and> validateBillingPeriod (Format_date t) = None"
proof -
  let ?d = "day_of t"
  have d: "0 \<le> ?d" using assms(1) by (simp add: day_of_def pos_imp_zdiv_nonneg_iff)
  note b = fields_bounds [OF d assms(2)]
  have "Parse_date (Format_date t) = Some (?d * Day)"
    using Parse_fields_fmt [OF b(1-6)] Date_day_of [of ?d]
    by (simp add: Parse_date_def Format_date_def Let_def go_split_single_append go_split_single_None fmt_nat_notin)
  moreover have "Format_date t \<noteq> []" by (simp add: Format_date_def Let_def)
  ultimately show ?thesis by (simp add: parsePeriod_def validateBillingPeriod_def AddDate_days Truncate_Day)
qed

lemma first_of_next_month:
  assumes "1 \<le> m" "m \<le> 12"
  shows "mday_of (Date_day y (m + 1) 1) = 1"
proof (cases "m = 12")
  case True
  then have "Date_day y (m + 1) 1 = Date_day (y + 1) 1 1" by (simp add: Date_day_def Let_def)
  then show ?thesis using fields_of_Date_day(3) [of 1 1 "y + 1"] by (simp add: month_start_def)
next
  case False
  then have "m = 1 \<or> m = 2 \<or> m = 3 \<or> m = 4 \<or> m = 5 \<or> m = 6 \<or> m = 7 \<or> m = 8 \<or> m = 9 \<or> m = 10 \<or> m = 11"
    using assms by presburger
  then have "1 \<le> month_start l (m + 1 + 1) - month_start l (m + 1)" for l
    unfolding month_start_def Let_def by (elim disjE) simp_all
  then show ?thesis using assms False fields_of_Date_day(3) [of "m + 1" 1 y] by simp
qed

lemma parsePeriod_month:
  assumes "0 \<le> t" "year_of (day_of t) < 9999"
  shows "\<exists>s e. parsePeriod (Format_month t) = Inr (s, e) \<and> validateBillingPeriod (Format_month t) = None \<and>
    s \<le> t \<and> t < e \<and> mday_of (day_of s) = 1 \<and> mday_of (day_of e) = 1"
proof -
  let ?d = "day_of t"
  let ?y = "year_of ?d" and ?m = "month_of ?d"
  have d: "0 \<le> ?d" using assms(1) by (simp add: day_of_def pos_imp_zdiv_nonneg_iff)
  note b = fields_bounds [OF d assms(2)]
  let ?s = "Date_day ?y ?m 1" and ?e = "Date_day ?y (?m + 1) 1"
  have one: "fmt_nat 2 1 = ''01''" by code_simp
  have "Parse_month (Format_month t) = Some (?s * Day)"
    using Parse_fields_fmt [OF b(1-4) order_refl b(7)]
    by (simp add: Parse_month_def Format_month_def Let_def split_two fmt_nat_notin one)
  moreover have "Parse_date (Format_month t) = None" "ParseWeeklyPeriod (Format_month t) = None"
    "\<not> LooksLikeWeeklyPeriod (Format_month t)" "Format_month t \<noteq> []"
    using hd_fmt_nat [of "CHR ''W''" 2 ?m]
    by (simp_all add: Parse_date_def ParseWeeklyPeriod_def LooksLikeWeeklyPeriod_def Format_month_def Let_def split_two fmt_nat_notin)
  moreover have f: "year_of ?s = ?y" "month_of ?s = ?m" "mday_of ?s = 1"
    using fields_of_Date_day [OF b(3,4), of 1 ?y] b(7) by (simp_all add: days_in_def)
  then have "AddDate (?s * Day) 0 1 0 = ?e * Day" by (simp add: AddDate_def Let_def)
  moreover have "?s \<le> ?d" "?d < ?e"
    using Date_day_valid [OF b(3,4), of ?y 1] Date_day_next_month [OF b(3,4), of ?y] month_of_bounds(3,4) [of ?d]
    by (simp_all add: yday_of_def)
  then have "?s * Day \<le> ?d * Day" "(?d + 1) * Day \<le> ?e * Day" by (simp_all add: mult_right_mono)
  then have "?s * Day \<le> t" "t < ?e * Day" using day_of_bounds [of t] by linarith+
  moreover have "mday_of ?e = 1" using first_of_next_month [OF b(3,4)] .
  ultimately show ?thesis using f(3) by (simp add: parsePeriod_def validateBillingPeriod_def)
qed

text \<open>The Monday that \<open>ParseWeeklyPeriod\<close> computes is the Monday of the week with that number.\<close>

lemma week_monday:
  fixes th :: int
  assumes "th mod 7 = 3"
  defines "j \<equiv> Date_day (year_of th) 1 4"
  shows "j - j mod 7 + yday_of th div 7 * 7 = th - 3"
proof -
  define q r B where "q = yday_of th div 7" and "r = yday_of th mod 7" and "B = days_before (year_of th)"
  have j: "j = B + 3" by (simp add: j_def B_def Date_day_valid month_start_def)
  have "yday_of th = 7 * q + r" by (simp add: q_def r_def)
  then have y: "th - B = 7 * q + r" by (simp add: yday_of_def B_def)
  have r: "0 \<le> r" "r \<le> 6" using pos_mod_bound [of 7 "yday_of th"] by (simp_all add: r_def)
  obtain k where k: "th = 7 * k + 3" using mult_div_mod_eq [of 7 th] assms(1) by metis
  then have e: "j = 7 * (k - q) + (6 - r)" using j y by simp
  have jm: "j mod 7 = 6 - r" using int_mod_pos_eq [OF e] r by simp
  show ?thesis unfolding q_def [symmetric] jm using e k by simp
qed

lemma thursday_mod: "thursday_of d mod 7 = 3"
proof -
  have "thursday_of d = 3 + 7 * (d div 7)" by (simp only: thursday_of_def minus_mod_eq_mult_div)
  then show ?thesis by simp
qed

lemma ParseWeeklyPeriod_label:
  assumes "0 \<le> t" "year_of (day_of t) < 9999"
  shows "ParseWeeklyPeriod (week_label t) =
    Some ((day_of t - day_of t mod 7) * Day, (day_of t - day_of t mod 7 + 7) * Day)"
proof -
  let ?d = "day_of t"
  let ?th = "thursday_of ?d" and ?mon = "?d - ?d mod 7"
  let ?y = "year_of ?th" and ?w = "yday_of ?th div 7 + 1"
  have d: "0 \<le> ?d" using assms(1) by (simp add: day_of_def pos_imp_zdiv_nonneg_iff)
  have m7: "0 \<le> ?d mod 7" "?d mod 7 < 7" by simp_all
  have mon: "0 \<le> ?mon" using d zmod_le_nonneg_dividend [of ?d 7] by linarith
  have y1: "1 \<le> ?y" using mon by (intro year_of_pos) (simp add: thursday_of_def)
  have "days_before (year_of ?d + 1) + 365 \<le> days_before (year_of ?d + 1 + 1)"
    unfolding days_before_Suc [of "year_of ?d + 1"] by simp
  then have "?th < days_before (year_of ?d + 1 + 1)"
    using year_of_bounds [of ?d] m7(1) unfolding thursday_of_def by linarith
  then have "\<not> year_of ?d + 1 < ?y" using days_before_mono [of "year_of ?d + 1" ?y] year_of_bounds [of ?th] by linarith
  then have y: "0 \<le> ?y" "?y < 10000" using y1 assms(2) by linarith+
  have w: "1 \<le> ?w" "?w \<le> 53" using yday_of_bounds [of ?th] by (auto simp: split: if_splits)
  let ?j = "Date_day ?y 1 4"
  have wd: "(if Weekday (?j * Day) - 1 < 0 then Weekday (?j * Day) - 1 + 7 else Weekday (?j * Day) - 1) = ?j mod 7"
    unfolding Weekday_def day_of_mult by presburger
  have start: "?j * Day + - (?j mod 7) * Day + (?w - 1) * 7 * Day = ?mon * Day"
  proof -
    have "?j - ?j mod 7 + yday_of ?th div 7 * 7 = ?mon"
      using week_monday [OF thursday_mod [of ?d]] by (simp add: thursday_of_def)
    then have "?mon * Day = (?j - ?j mod 7 + yday_of ?th div 7 * 7) * Day" by simp
    then show ?thesis by (simp add: algebra_simps)
  qed
  have iso: "ISOWeek (?mon * Day) = (?y, ?w)" "ISOWeek t = (?y, ?w)"
    by (simp_all add: ISOWeek_def Let_def thursday_of_def mod_diff_left_eq)
  have "go_split ''-'' (week_label t) = [fmt_nat 4 ?y, CHR ''W'' # fmt_nat 2 ?w]"
    by (simp add: week_label_def iso(2) split_two fmt_nat_notin)
  then show ?thesis
    using y w wd start iso(1) length_fmt_nat [of ?y 4] length_fmt_nat [of ?w 2]
    by (simp add: ParseWeeklyPeriod_def Atoi_fmt_nat MaxInt64_def Let_def AddDate_days distrib_right)
qed

lemma parsePeriod_week:
  assumes "0 \<le> t" "year_of (day_of t) < 9999"
  shows "parsePeriod (week_label t) = Inr ((day_of t - day_of t mod 7) * Day, (day_of t - day_of t mod 7 + 7) * Day) \<and>
    validateBillingPeriod (week_label t) = None"
proof -
  obtain y w where iso: "ISOWeek t = (y, w)" by fastforce
  have "go_split ''-'' (week_label t) = [fmt_nat 4 y, CHR ''W'' # fmt_nat 2 w]" "week_label t \<noteq> []"
    by (simp_all add: week_label_def iso split_two fmt_nat_notin)
  then show ?thesis
    using ParseWeeklyPeriod_label [OF assms] by (simp add: parsePeriod_def validateBillingPeriod_def Parse_date_def)
qed

text \<open>
  The label of a billing period names the interval it stands for: for every instant up to the
  year 9998, the label of its day, of its ISO week and of its month are each accepted by the
  request handler and by the calculation, and the interval that the calculation bills contains
  the instant. A day runs from midnight to midnight, a week from its Monday to the next, a month
  from its first day to the first day of the next.
\<close>

theorem period_labels_name_their_intervals:
  assumes "0 \<le> t" "year_of (day_of t) < 9999"
  shows "parsePeriod (Format_date t) = Inr (Truncate t Day, Truncate t Day + Day) \<and>
    Truncate t Day \<le> t \<and> t < Truncate t Day + Day \<and>
    (\<exists>s. parsePeriod (week_label t) = Inr (s, s + 7 * Day) \<and> Weekday s = 1 \<and> s \<le> t \<and> t < s + 7 * Day) \<and>
    (\<exists>s e. parsePeriod (Format_month t) = Inr (s, e) \<and> mday_of (day_of s) = 1 \<and> mday_of (day_of e) = 1 \<and> s \<le> t \<and> t < e) \<and>
    (\<forall>p \<in> {Format_date t, week_label t, Format_month t}. validateBillingPeriod p = None)"
proof -
  let ?d = "day_of t"
  let ?mon = "?d - ?d mod 7"
  have "?mon \<le> ?d" "?d + 1 \<le> ?mon + 7" using pos_mod_bound [of 7 ?d] by simp_all
  then have "?mon * Day \<le> ?d * Day" "(?d + 1) * Day \<le> (?mon + 7) * Day" by (simp_all add: mult_right_mono)
  moreover have "(?mon + 7) * Day = ?mon * Day + 7 * Day" by (rule distrib_right)
  ultimately have m: "?mon * Day \<le> t" "t < ?mon * Day + 7 * Day" using day_of_bounds [of t] by linarith+
  have "(?mon + 1) mod 7 = 1" using minus_mod_eq_mult_div [of ?d 7] by (simp add: mod_mult_self4)
  then have "Weekday (?mon * Day) = 1" by (simp add: Weekday_def)
  moreover have "Truncate t Day \<le> t" "t < Truncate t Day + Day"
    using day_of_bounds [of t] by (simp_all add: Truncate_Day distrib_right)
  ultimately show ?thesis
    using parsePeriod_day [OF assms] parsePeriod_week [OF assms] parsePeriod_month [OF assms] m
    by (auto simp: distrib_right)
qed

section \<open>Proposed transactions\<close>

text \<open>The send of a request in the form in which the create handler validates it.\<close>

definition normalize_entries :: "FromTo list \<Rightarrow> FromTo list" where
  "normalize_entries es = MutateConcatAliases (ApplyDefaultBalanceKeys es)"

definition normalizeSend :: "Transaction \<Rightarrow> Transaction" where
  "normalizeSend tx =
     (let s = tx_Send tx
      in tx\<lparr>tx_Send := s\<lparr>
           snd_Source := (snd_Source s)\<lparr>src_From := normalize_entries (map (\<lambda>e. e\<lparr>ft_IsFrom := True\<rparr>) (src_From (snd_Source s)))\<rparr>,
           snd_Distribute := (snd_Distribute s)\<lparr>dst_To := normalize_entries (dst_To (snd_Distribute s))\<rparr>\<rparr>\<rparr>)"

text \<open>Entries that state a positive amount, and the default balance of accounts with plain aliases.\<close>

definition explicit :: "FromTo \<Rightarrow> bool" where
  "explicit e = (ft_Share e = None \<and> ft_Remaining e = '''' \<and> (\<exists>a. ft_Amount e = Some a \<and> 0 < am_Value a))"

definition stated :: "FromTo \<Rightarrow> decimal" where
  "stated e = (case ft_Amount e of None \<Rightarrow> 0 | Some a \<Rightarrow> am_Value a)"

lemma total_explicit:
  assumes "IsNilOrEmpty cm ''''" "\<forall>e \<in> set es. explicit e"
  shows "tt_total (fold (total_entry lib cm tx ty) es t) = tt_total t + sum_list (map stated es) \<and>
    fst ` set (tt_fmto (fold (total_entry lib cm tx ty) es t)) \<subseteq> fst ` set (tt_fmto t) \<union> ft_AccountAlias ` set es \<and>
    tt_scdt (fold (total_entry lib cm tx ty) es t) =
      tt_scdt t @ map (\<lambda>e. AliasKey (FromTo_SplitAlias e) (ft_BalanceKey e)) es"
  using assms(2)
proof (induction es arbitrary: t)
  case (Cons e es)
  let ?t = "total_entry lib cm tx ty e t"
  have e: "single_kind cm e" "\<not> has_share e" "has_amount e" "\<not> has_remaining cm e"
    using Cons.prems assms(1) by (auto simp: explicit_def single_kind_def has_share_def has_amount_def has_remaining_def)
  obtain a where a: "entry_amount lib cm tx ty (tt_remaining t) e = Some a" "am_Value a = stated e"
    using e(2,3) by (cases "ft_Amount e") (auto simp: entry_amount_def split_beta resolved_def stated_def has_amount_def Amount_zero_def)
  have "tt_total ?t = tt_total t + stated e" "fst ` set (tt_fmto ?t) \<subseteq> insert (ft_AccountAlias e) (fst ` set (tt_fmto t))"
    using total_entry_single(1,2) [OF e(1), of lib tx ty t] set_alist_update [of "ft_AccountAlias e" a "tt_fmto t"]
    by (auto simp: a)
  with Cons.IH [of ?t] Cons.prems total_entry_scdt [of lib cm tx ty e t] show ?case
    by (intro conjI) (simp_all, blast)
qed simp

lemma ambiguous_iff: "ambiguous k as m \<longleftrightarrow> (\<exists>i < length as. ConcatAlias (k + i) (as ! i) \<in> fst ` set m)"
proof (induction as arbitrary: k)
  case (Cons a as)
  have "(\<exists>i < length (a # as). ConcatAlias (k + i) ((a # as) ! i) \<in> fst ` set m) \<longleftrightarrow>
      ConcatAlias k a \<in> fst ` set m \<or> (\<exists>i < length as. ConcatAlias (Suc k + i) (as ! i) \<in> fst ` set m)"
    by (simp add: Ex_less_Suc2)
  then show ?case using Cons.IH [of "Suc k"] by (simp add: map_of_eq_None_iff)
qed simp

definition plain_aliases :: "FromTo list \<Rightarrow> bool" where
  "plain_aliases es = (\<forall>e \<in> set es. CHR ''#'' \<notin> set (ft_AccountAlias e) \<and> ft_BalanceKey e = '''')"

lemma normalize_entries_sel:
  assumes "plain_aliases es"
  shows "map ft_AccountAlias (normalize_entries es) =
      map (\<lambda>(j, e). ConcatAlias j (AliasKey (ft_AccountAlias e) ''default'')) (zip [0..<length es] es)"
    "map (\<lambda>e. AliasKey (FromTo_SplitAlias e) (ft_BalanceKey e)) (normalize_entries es) =
      map (\<lambda>e. AliasKey (ft_AccountAlias e) ''default'') es"
    "map ft_Amount (normalize_entries es) = map ft_Amount es" "map ft_Share (normalize_entries es) = map ft_Share es"
    "map ft_Remaining (normalize_entries es) = map ft_Remaining es"
proof -
  let ?k = "ApplyDefaultBalanceKeys es"
  have k: "?k = map (\<lambda>e. e\<lparr>ft_BalanceKey := ''default''\<rparr>) es"
    using assms by (simp add: ApplyDefaultBalanceKeys_def plain_aliases_def DefaultBalanceKey_def)
  have n: "\<forall>e \<in> set ?k. \<not> isConcatedAlias (ft_AccountAlias e)"
    using assms isConcatedAlias_hash by (auto simp: k plain_aliases_def)
  have "zip [0..<length es] (map f es) = map (\<lambda>(j, e). (j, f e)) (zip [0..<length es] es)" for f :: "FromTo \<Rightarrow> FromTo"
    by (simp add: zip_map2)
  then show "map ft_AccountAlias (normalize_entries es) =
      map (\<lambda>(j, e). ConcatAlias j (AliasKey (ft_AccountAlias e) ''default'')) (zip [0..<length es] es)"
    using concat_from_aliases [OF n, of 0] by (simp add: normalize_entries_def MutateConcatAliases_def k split_beta)
  have p: "plain_aliases es \<Longrightarrow>
      map (\<lambda>e. AliasKey (FromTo_SplitAlias e) (ft_BalanceKey e)) (concat_from i (map (\<lambda>e. e\<lparr>ft_BalanceKey := ''default''\<rparr>) es)) =
        map (\<lambda>e. AliasKey (ft_AccountAlias e) ''default'') es \<and>
      map ft_Amount (concat_from i (map (\<lambda>e. e\<lparr>ft_BalanceKey := ''default''\<rparr>) es)) = map ft_Amount es \<and>
      map ft_Share (concat_from i (map (\<lambda>e. e\<lparr>ft_BalanceKey := ''default''\<rparr>) es)) = map ft_Share es \<and>
      map ft_Remaining (concat_from i (map (\<lambda>e. e\<lparr>ft_BalanceKey := ''default''\<rparr>) es)) = map ft_Remaining es" for i
  proof (induction es arbitrary: i)
    case (Cons e es)
    have "CHR ''#'' \<notin> set (ft_AccountAlias e)" "\<not> isConcatedAlias (ft_AccountAlias e)" "plain_aliases es"
      using Cons.prems isConcatedAlias_hash by (auto simp: plain_aliases_def)
    then show ?case using Cons.IH by (simp add: FromTo_SplitAlias_eq ConcatAlias_eq SplitAlias_concat)
  qed simp
  then show "map (\<lambda>e. AliasKey (FromTo_SplitAlias e) (ft_BalanceKey e)) (normalize_entries es) =
      map (\<lambda>e. AliasKey (ft_AccountAlias e) ''default'') es"
    "map ft_Amount (normalize_entries es) = map ft_Amount es" "map ft_Share (normalize_entries es) = map ft_Share es"
    "map ft_Remaining (normalize_entries es) = map ft_Remaining es"
    using assms unfolding normalize_entries_def MutateConcatAliases_def k by blast+
qed

lemma normalize_entries_explicit:
  assumes "plain_aliases es" "\<forall>e \<in> set es. explicit e"
  shows "\<forall>e \<in> set (normalize_entries es). explicit e" "sum_list (map stated (normalize_entries es)) = sum_list (map stated es)"
proof -
  note s = normalize_entries_sel [OF assms(1)]
  have len: "length (normalize_entries es) = length es" using s(3) by (metis length_map)
  show "\<forall>e \<in> set (normalize_entries es). explicit e"
  proof
    fix e assume "e \<in> set (normalize_entries es)"
    then obtain i where i: "i < length es" "e = normalize_entries es ! i" by (auto simp: in_set_conv_nth len)
    have "ft_Amount e = ft_Amount (es ! i)" "ft_Share e = ft_Share (es ! i)" "ft_Remaining e = ft_Remaining (es ! i)"
      using s(3,4,5) [THEN arg_cong, of "\<lambda>xs. xs ! i"] i len by simp_all
    then show "explicit e" using assms(2) i(1) by (simp add: explicit_def)
  qed
  have "map stated es = map (\<lambda>a. case a of None \<Rightarrow> 0 | Some a \<Rightarrow> am_Value a) (map ft_Amount es)" for es by (simp add: stated_def)
  then show "sum_list (map stated (normalize_entries es)) = sum_list (map stated es)" using s(3) by metis
qed

lemma not_ambiguous:
  assumes "plain_aliases xs" "plain_aliases ys" "ft_AccountAlias ` set xs \<inter> ft_AccountAlias ` set ys = {}"
    and "fst ` set m \<subseteq> ft_AccountAlias ` set (normalize_entries ys)"
  shows "\<not> ambiguous 0 (map (\<lambda>e. AliasKey (ft_AccountAlias e) ''default'') xs) m"
proof
  assume "ambiguous 0 (map (\<lambda>e. AliasKey (ft_AccountAlias e) ''default'') xs) m"
  then obtain i where i: "i < length xs" "ConcatAlias i (AliasKey (ft_AccountAlias (xs ! i)) ''default'') \<in> fst ` set m"
    unfolding ambiguous_iff by (metis (no_types, lifting) add_0 length_map nth_map)
  then have "ConcatAlias i (AliasKey (ft_AccountAlias (xs ! i)) ''default'') \<in> set (map ft_AccountAlias (normalize_entries ys))"
    using assms(4) by auto
  then obtain j e where "e \<in> set ys" "ConcatAlias i (AliasKey (ft_AccountAlias (xs ! i)) ''default'') =
      ConcatAlias j (AliasKey (ft_AccountAlias e) ''default'')"
    unfolding normalize_entries_sel(1) [OF assms(2)] by (auto dest: set_zip_rightD)
  then have "ft_AccountAlias (xs ! i) = ft_AccountAlias e" "e \<in> set ys" by (auto simp: ConcatAlias_inject AliasKey_def)
  then have "ft_AccountAlias (xs ! i) \<in> ft_AccountAlias ` set xs \<inter> ft_AccountAlias ` set ys" using nth_mem [OF i(1)] by (metis IntI imageI)
  then show False using assms(3) by simp
qed

lemma explicit_send_accepted:
  fixes tx :: Transaction
  defines "from \<equiv> src_From (snd_Source (tx_Send tx))" and "to \<equiv> dst_To (snd_Distribute (tx_Send tx))"
  assumes cm: "IsNilOrEmpty cm ''''" and ex: "\<forall>e \<in> set from \<union> set to. explicit e"
    and plain: "plain_aliases from" "plain_aliases to" and dj: "ft_AccountAlias ` set from \<inter> ft_AccountAlias ` set to = {}"
    and sum: "sum_list (map stated from) = snd_Value (tx_Send tx)" "sum_list (map stated to) = snd_Value (tx_Send tx)"
  shows "\<exists>tx' r. ValidateSendSourceAndDistribute lib cm (normalizeSend tx) ty = (tx', Inr r)"
proof -
  let ?tx = "normalizeSend tx"
  let ?mf = "map (\<lambda>e. e\<lparr>ft_IsFrom := True\<rparr>) from"
  let ?f = "normalize_entries ?mf" and ?t = "normalize_entries to"
  have pf: "plain_aliases ?mf" using plain(1) by (simp add: plain_aliases_def)
  have ef: "\<forall>e \<in> set ?mf. explicit e" "map stated ?mf = map stated from" using ex by (simp_all add: explicit_def stated_def)
  have et: "\<forall>e \<in> set to. explicit e" using ex by blast
  have sel: "src_From (snd_Source (tx_Send ?tx)) = ?f" "dst_To (snd_Distribute (tx_Send ?tx)) = ?t"
    "snd_Value (tx_Send ?tx) = snd_Value (tx_Send tx)"
    by (simp_all add: normalizeSend_def Let_def from_def to_def)
  obtain tf ff where cf: "CalculateTotal lib cm ?f ?tx ty = (tf, ff)" by fastforce
  obtain tt ft where ct: "CalculateTotal lib cm ?t ?tx ty = (tt, ft)" by fastforce
  have tf: "tf = fold (total_entry lib cm ?tx ty) ?f (total_init ?tx ty)" and tt: "tt = fold (total_entry lib cm ?tx ty) ?t (total_init ?tx ty)"
    using cf ct by (simp_all add: CalculateTotal_def Let_def)
  note F = total_explicit [OF cm normalize_entries_explicit(1) [OF pf ef(1)], of lib ?tx ty "total_init ?tx ty", folded tf]
    and T = total_explicit [OF cm normalize_entries_explicit(1) [OF plain(2) et], of lib ?tx ty "total_init ?tx ty", folded tt]
  have totals: "tt_total tf = snd_Value (tx_Send tx)" "tt_total tt = snd_Value (tx_Send tx)"
    using conjunct1 [OF F] conjunct1 [OF T]
    unfolding normalize_entries_explicit(2) [OF pf ef(1)] normalize_entries_explicit(2) [OF plain(2) et] ef(2) sum
    by (simp_all add: total_init_def)
  have scdt: "tt_scdt tf = map (\<lambda>e. AliasKey (ft_AccountAlias e) ''default'') ?mf"
    "tt_scdt tt = map (\<lambda>e. AliasKey (ft_AccountAlias e) ''default'') to"
    using F T normalize_entries_sel(2) [OF pf] normalize_entries_sel(2) [OF plain(2)] by (simp_all add: total_init_def)
  have keys: "fst ` set (tt_fmto tf) \<subseteq> ft_AccountAlias ` set ?f" "fst ` set (tt_fmto tt) \<subseteq> ft_AccountAlias ` set ?t"
    using F T by (simp_all add: total_init_def)
  have dj': "ft_AccountAlias ` set ?mf \<inter> ft_AccountAlias ` set to = {}" "ft_AccountAlias ` set to \<inter> ft_AccountAlias ` set ?mf = {}"
    using dj by (simp_all add: image_image Int_commute)
  show ?thesis
    using totals not_ambiguous [OF pf plain(2) dj'(1) keys(2)] not_ambiguous [OF plain(2) pf dj'(2) keys(1)]
    unfolding scdt [symmetric] by (simp add: ValidateSendSourceAndDistribute_def Let_def sel cf ct)
qed

section \<open>Stored packages\<close>

text \<open>Decimals and identifiers survive being written as text, as the two libraries document.\<close>

definition faithful_text :: "extlib \<Rightarrow> bool" where
  "faithful_text lib = (prints_decimals lib \<and> (\<forall>u. uuid_Parse lib (uuid_String lib u) = Some u))"

lemma convert_all_map: "(\<And>x. f (g x) = Inr x) \<Longrightarrow> convert_all f (map g xs) = Inr xs"
  by (induction xs) simp_all

lemma convert_all_Inr: "convert_all f xs = Inr ys \<Longrightarrow> y \<in> set ys \<Longrightarrow> \<exists>x \<in> set xs. f x = Inr y"
  by (induction xs arbitrary: ys) (auto split: sum.splits)

lemma convert_opt_map: "(\<And>x. f (g x) = Inr x) \<Longrightarrow> convert_opt f (map_option g x) = Inr x"
  by (cases x) (simp_all add: convert_opt_def)

lemma billing_document_roundtrip:
  assumes "faithful_text lib"
  shows "bm_ToEntity lib (bm_FromEntity lib bp) = Inr (bp\<lparr>bp_Enable := Some (or_else (bp_Enable bp) True)\<rparr>)"
proof -
  have strs: "parsed (dec_NewFromString lib) (dec_String lib d) = Inr d" "parsed (uuid_Parse lib) (uuid_String lib u) = Inr u" for d u
    using assms by (simp_all add: faithful_text_def prints_decimals_def parsed_def)
  have "convert_opt (ToEntity_target lib) (map_option (\<lambda>a. \<lparr>atm_SegmentID = map_option (uuid_String lib) (at_SegmentID a),
      atm_PortfolioID = map_option (uuid_String lib) (at_PortfolioID a), atm_Aliases = at_Aliases a\<rparr>) (bp_AccountTarget bp)) =
      Inr (bp_AccountTarget bp)"
    by (rule convert_opt_map) (simp add: ToEntity_target_def convert_opt_map strs)
  then show ?thesis
    by (simp add: bm_ToEntity_def bm_FromEntity_def convert_all_map convert_opt_map ToEntity_tier_def ToEntity_discount_def strs or_else_def
        split: option.splits)
qed

inductive billing_step :: "extlib \<Rightarrow> billing_docs \<Rightarrow> billing_docs \<Rightarrow> bool" for lib where
  create: "billing_step lib docs (fst (createBillingPackage lib mr i now org p docs))"
| update: "billing_step lib docs (fst (updateBillingPackage lib now org i u docs))"
| delete: "billing_step lib docs (fst (DeleteBillingPackage lib now i org docs))"

definition valid_doc :: "extlib \<Rightarrow> BillingPackageMongoDBModel \<Rightarrow> bool" where
  "valid_doc lib m = (\<exists>bp. bm_ToEntity lib m = Inr bp \<and> BillingPackage_Validate bp = None)"

lemmas billing_checks = BillingPackage_Validate_def validateCommonFields_def validateType_def validateVolumeFields_def
  validateMaintenanceFields_def validatePricingModel_def validatePricingTiers_def validateFreeQuota_def
  validateDiscountTiers_def validateCountMode_def

lemma Validate_ignores [simp]:
  "BillingPackage_Validate (bp\<lparr>bp_ID := i\<rparr>) = BillingPackage_Validate bp"
  "BillingPackage_Validate (bp\<lparr>bp_CreatedAt := c\<rparr>) = BillingPackage_Validate bp"
  "BillingPackage_Validate (bp\<lparr>bp_UpdatedAt := c\<rparr>) = BillingPackage_Validate bp"
  "BillingPackage_Validate (bp\<lparr>bp_DeletedAt := d\<rparr>) = BillingPackage_Validate bp"
  "BillingPackage_Validate (bp\<lparr>bp_Enable := b\<rparr>) = BillingPackage_Validate bp"
  "BillingPackage_Validate (bp\<lparr>bp_Description := x\<rparr>) = BillingPackage_Validate bp"
  by (simp_all add: billing_checks del: first_err.simps cong: option.case_cong if_cong)

lemma Validate_label:
  assumes "TrimSpace l \<noteq> ''''" "BillingPackage_Validate bp = None"
  shows "BillingPackage_Validate (bp\<lparr>bp_Label := l\<rparr>) = None"
proof -
  have "validateType (bp\<lparr>bp_Label := l\<rparr>) = validateType bp" "validateVolumeFields (bp\<lparr>bp_Label := l\<rparr>) = validateVolumeFields bp"
    "validateMaintenanceFields (bp\<lparr>bp_Label := l\<rparr>) = validateMaintenanceFields bp"
    by (simp_all add: billing_checks del: first_err.simps cong: option.case_cong if_cong)
  then show ?thesis using assms
    by (simp add: BillingPackage_Validate_def validateCommonFields_def err_if_def split: if_splits option.splits)
qed

lemma set_update_first: "set (update_first P f xs) \<subseteq> set xs \<union> f ` set xs"
  by (induction xs) auto

lemma valid_doc_update:
  assumes "valid_doc lib m" "BillingPackageUpdate_Validate u = None"
  shows "valid_doc lib (bu_fields u now m)"
proof -
  obtain bp where bp: "bm_ToEntity lib m = Inr bp" "BillingPackage_Validate bp = None" using assms(1) by (auto simp: valid_doc_def)
  let ?bp = "bp\<lparr>bp_Label := or_else (bu_Label u) (bp_Label bp)\<rparr>"
  have "BillingPackage_Validate ?bp = None"
    using bp(2) assms(2) Validate_label [of _ bp]
    by (cases "bu_Label u") (auto simp: or_else_def BillingPackageUpdate_Validate_def err_if_def split: if_splits)
  moreover have "\<exists>d e n. bm_ToEntity lib (bu_fields u now m) = Inr (?bp\<lparr>bp_Description := d, bp_Enable := e, bp_UpdatedAt := n\<rparr>)"
    using bp(1) by (auto simp: bm_ToEntity_def bu_fields_def or_else_def split: sum.splits option.splits)
  ultimately show ?thesis by (auto simp: valid_doc_def)
qed

lemma valid_doc_delete: "valid_doc lib m \<Longrightarrow> valid_doc lib (m\<lparr>bm_DeletedAt := Some now\<rparr>)"
proof -
  assume "valid_doc lib m"
  then obtain bp where bp: "bm_ToEntity lib m = Inr bp" "BillingPackage_Validate bp = None" by (auto simp: valid_doc_def)
  then have "bm_ToEntity lib (m\<lparr>bm_DeletedAt := Some now\<rparr>) = Inr (bp\<lparr>bp_DeletedAt := Some now\<rparr>)"
    by (auto simp: bm_ToEntity_def split: sum.splits)
  then show ?thesis using bp(2) by (auto simp: valid_doc_def)
qed

lemma billing_step_valid:
  assumes "billing_step lib docs docs'" "faithful_text lib" "\<forall>m \<in> set docs. valid_doc lib m"
  shows "\<forall>m \<in> set docs'. valid_doc lib m"
  using assms(1)
proof cases
  case (create mr i now org p)
  let ?bp = "p\<lparr>bp_OrganizationID := uuid_String lib org\<rparr>"
  let ?new = "?bp\<lparr>bp_ID := uuid_String lib i, bp_CreatedAt := now, bp_UpdatedAt := now,
    bp_Enable := (case bp_Enable ?bp of None \<Rightarrow> Some True | Some b \<Rightarrow> Some b)\<rparr>"
  have "docs' = docs \<or> BillingPackage_Validate ?bp = None \<and> docs' = docs @ [bm_FromEntity lib ?new]"
    unfolding create createBillingPackage_def CreateBillingPackage_def bp_Create_def by (auto split: option.splits)
  moreover have "valid_doc lib (bm_FromEntity lib ?new)" if "BillingPackage_Validate ?bp = None"
    using billing_document_roundtrip [OF assms(2), of ?new] that by (simp add: valid_doc_def)
  ultimately show ?thesis using assms(3) by auto
next
  case (update now org i u)
  then have "docs' = docs \<or> BillingPackageUpdate_Validate u = None \<and>
      docs' = update_first (bm_has_id (uuid_String lib i) (uuid_String lib org)) (bu_fields u now) docs"
    by (auto simp: updateBillingPackage_def UpdateBillingPackage_def bp_Update_def split: option.splits if_splits)
  then show ?thesis using assms(3) valid_doc_update set_update_first [of _ "bu_fields u now" docs] by fastforce
next
  case (delete now i org)
  then have "docs' = docs \<or> docs' =
      update_first (bm_has_id (uuid_String lib i) (uuid_String lib org)) (\<lambda>m. m\<lparr>bm_DeletedAt := Some now\<rparr>) docs"
    by (auto simp: DeleteBillingPackage_def bp_SoftDelete_def split: if_splits prod.splits option.splits)
  then show ?thesis using assms(3) valid_doc_delete set_update_first [of _ "\<lambda>m. m\<lparr>bm_DeletedAt := Some now\<rparr>" docs] by fastforce
qed

interpretation billing: step_invariant "billing_step lib" "\<lambda>docs. faithful_text lib \<longrightarrow> (\<forall>m \<in> set docs. valid_doc lib m)" for lib
  by unfold_locales (blast dest: billing_step_valid)

lemma FindActiveByType_valid:
  assumes "FindActiveByType lib docs org led ty = Inr bps" "bp \<in> set bps" "\<forall>m \<in> set docs. valid_doc lib m"
  obtains m where "m \<in> set docs" "bm_ToEntity lib m = Inr bp" "BillingPackage_Validate bp = None" "bp_Type bp = ty"
proof -
  obtain m where m: "m \<in> set docs" "bm_Type m = ty" "bm_ToEntity lib m = Inr bp"
    using convert_all_Inr [OF assms(1) [unfolded FindActiveByType_def] assms(2)] by auto
  moreover have "bp_Type bp = bm_Type m" using m(3) by (auto simp: bm_ToEntity_def split: sum.splits)
  ultimately show thesis using that assms(3) by (auto simp: valid_doc_def)
qed

section \<open>Amounts\<close>

text \<open>
  A decimal with at most sixteen digits after the point, and the documented behaviour of
  \<^verbatim>\<open>Div(100)\<close>: the quotient rounded to the nearest such decimal.
\<close>

definition sixteen_digits :: "decimal \<Rightarrow> bool" where
  "sixteen_digits x = (\<exists>k :: int. x = of_int k / 10 ^ 16)"

definition rounds_hundredths :: "extlib \<Rightarrow> bool" where
  "rounds_hundredths lib = (\<forall>x. sixteen_digits (dec_Div lib x 100) \<and> \<bar>dec_Div lib x 100 - x / 100\<bar> \<le> 1 / 2 / 10 ^ 16)"

lemma discount_between:
  assumes "rounds_hundredths lib" "sixteen_digits g" "0 \<le> g" "0 \<le> p" "p \<le> 100"
  shows "0 \<le> dec_Div lib (g * p) 100" "dec_Div lib (g * p) 100 \<le> g"
proof -
  obtain k :: int where k: "dec_Div lib (g * p) 100 = of_int k / 10 ^ 16"
    using assms(1) unfolding rounds_hundredths_def sixteen_digits_def by blast
  obtain l :: int where l: "g = of_int l / 10 ^ 16" using assms(2) unfolding sixteen_digits_def by blast
  have b: "\<bar>of_int k / 10 ^ 16 - g * p / 100\<bar> \<le> 1 / 2 / 10 ^ 16" using assms(1) k unfolding rounds_hundredths_def by metis
  have "0 \<le> g * p / 100" "g * p / 100 \<le> g"
    using assms(3-5) mult_left_mono [OF assms(5,3)] by simp_all
  then have "- (1 / 2) / 10 ^ 16 \<le> (of_int k / 10 ^ 16 :: rat)" "(of_int k / 10 ^ 16 :: rat) \<le> of_int l / 10 ^ 16 + 1 / 2 / 10 ^ 16"
    using b l by (simp_all only: abs_le_iff minus_divide_left) linarith+
  then have "- (1 / 2) \<le> (of_int k :: rat)" "(of_int k :: rat) \<le> of_int l + 1 / 2"
    by (simp_all add: add_divide_distrib [symmetric] divide_le_cancel)
  then have "0 \<le> k" "k \<le> l" by linarith+
  then have "0 \<le> (of_int k / 10 ^ 16 :: rat)" "(of_int k / 10 ^ 16 :: rat) \<le> of_int l / 10 ^ 16" by (simp_all add: divide_right_mono)
  then show "0 \<le> dec_Div lib (g * p) 100" "dec_Div lib (g * p) 100 \<le> g" unfolding k using l by simp_all
qed

lemma sixteen_digits_mult: "sixteen_digits x \<Longrightarrow> sixteen_digits (of_int n * x)"
  unfolding sixteen_digits_def by (metis of_int_mult times_divide_eq_right)

lemma best_tier_mem: "best_tier n b ts = Some t \<Longrightarrow> b = Some t \<or> t \<in> set ts"
  by (induction n b ts rule: best_tier.induct) (auto split: if_splits)

definition net_priced :: "BillingPackage \<Rightarrow> bool" where
  "net_priced bp = (\<forall>t \<in> set (bp_Tiers bp). 0 < pt_UnitPrice t \<and> sixteen_digits (pt_UnitPrice t))"

lemma volumePrice_amount:
  assumes "volumePrice bp n = Inr gross" "net_priced bp" "0 \<le> n"
  shows "0 \<le> gross" "sixteen_digits gross"
proof -
  have zero: "sixteen_digits 0" by (simp add: sixteen_digits_def)
  have "gross = 0 \<or> (\<exists>t \<in> set (bp_Tiers bp). gross = of_int n * pt_UnitPrice t)"
    using assms(1)
    by (auto simp: volumePrice_def CalculateTiered_def CalculateFixed_def Let_def find_Some_iff split: if_splits list.splits option.splits sum.splits)
  then show "0 \<le> gross" "sixteen_digits gross"
    using assms(2,3) zero sixteen_digits_mult by (auto simp: net_priced_def intro: mult_nonneg_nonneg order.strict_implies_order)
qed

lemma ApplyFreeQuota_nonneg: "0 \<le> ApplyFreeQuota n q"
  by (simp add: ApplyFreeQuota_def Let_def)

lemma validated_discounts:
  assumes "BillingPackage_Validate bp = None" "bp_Type bp = BillingPackageTypeVolume" "dt \<in> set (bp_DiscountTiers bp)"
  shows "0 \<le> dt_DiscountPercentage dt \<and> dt_DiscountPercentage dt \<le> 100"
proof -
  have "validateVolumeFields bp = None" using assms(1,2) by (simp add: BillingPackage_Validate_def split: option.splits)
  then have "validateDiscountTiers bp = None" by (auto simp: validateVolumeFields_def split: option.splits if_splits)
  then show ?thesis using assms(3) by (auto simp: validateDiscountTiers_def list_ex_iff not_less)
qed

text \<open>What a result proposes: nothing for a net amount of zero, or a transaction that the ledger accepts.\<close>

definition distinct_parties :: "Transaction \<Rightarrow> bool" where
  "distinct_parties tx =
     (let from = src_From (snd_Source (tx_Send tx)); to = dst_To (snd_Distribute (tx_Send tx))
      in plain_aliases from \<and> plain_aliases to \<and> ft_AccountAlias ` set from \<inter> ft_AccountAlias ` set to = {})"

definition proposes_valid :: "extlib \<Rightarrow> commons \<Rightarrow> BillingCalculationResult \<Rightarrow> bool" where
  "proposes_valid lib cm r =
     (case br_TransactionPayload r of
        None \<Rightarrow> br_TotalNetAmount r = 0
      | Some tx \<Rightarrow> 0 < br_TotalNetAmount r \<and> snd_Value (tx_Send tx) = br_TotalNetAmount r \<and>
          (distinct_parties tx \<longrightarrow> (\<exists>tx' v. ValidateSendSourceAndDistribute lib cm (normalizeSend tx) CREATED = (tx', Inr v))))"

lemma billing_entry_sel [simp]:
  "explicit (billing_entry a c v) \<longleftrightarrow> 0 < v" "stated (billing_entry a c v) = v"
  by (simp_all add: explicit_def stated_def billing_entry_def FromTo_zero_def)

lemma proposes_validI:
  assumes "IsNilOrEmpty cm ''''" "br_TransactionPayload r = Some tx" "0 < br_TotalNetAmount r"
    and "snd_Value (tx_Send tx) = br_TotalNetAmount r"
    and "\<forall>e \<in> set (src_From (snd_Source (tx_Send tx))) \<union> set (dst_To (snd_Distribute (tx_Send tx))). explicit e"
    and "sum_list (map stated (src_From (snd_Source (tx_Send tx)))) = snd_Value (tx_Send tx)"
    and "sum_list (map stated (dst_To (snd_Distribute (tx_Send tx)))) = snd_Value (tx_Send tx)"
  shows "proposes_valid lib cm r"
  using assms explicit_send_accepted [OF assms(1) assms(5) _ _ _ assms(6,7)]
  by (simp add: proposes_valid_def distinct_parties_def Let_def)

lemma net_after_discount:
  assumes "ApplyDiscount lib gross n dts = (net, discount)" "rounds_hundredths lib" "0 \<le> gross" "sixteen_digits gross"
    and "\<And>dt. dt \<in> set dts \<Longrightarrow> 0 \<le> dt_DiscountPercentage dt \<and> dt_DiscountPercentage dt \<le> 100"
  shows "0 \<le> net" "(case discount of None \<Rightarrow> net | Some d \<Rightarrow> gross - dd_DiscountAmount d) = net"
proof -
  have "0 \<le> net \<and> (case discount of None \<Rightarrow> net | Some d \<Rightarrow> gross - dd_DiscountAmount d) = net"
  proof (cases "best_tier n None dts")
    case None
    then show ?thesis using assms(1,3) by (auto simp: ApplyDiscount_def)
  next
    case (Some dt)
    then have "0 \<le> dt_DiscountPercentage dt \<and> dt_DiscountPercentage dt \<le> 100" using best_tier_mem assms(5) by blast
    then show ?thesis using Some assms(1) discount_between(2) [OF assms(2,4,3)] by (auto simp: ApplyDiscount_def Let_def)
  qed
  then show "0 \<le> net" "(case discount of None \<Rightarrow> net | Some d \<Rightarrow> gross - dd_DiscountAmount d) = net" by blast+
qed

lemma payload_send:
  "tx_Send (BuildVolumePayload lib bp period n net discount) =
     (let asset = or_else (bp_AssetCode bp) ''''
      in \<lparr>snd_Asset = asset, snd_Value = net,
          snd_Source = \<lparr>src_Remaining = '''', src_From = [billing_entry (or_else (bp_DebitAccountAlias bp) '''') asset net]\<rparr>,
          snd_Distribute = \<lparr>dst_Remaining = '''', dst_To = [billing_entry (or_else (bp_CreditAccountAlias bp) '''') asset net]\<rparr>\<rparr>)"
  "tx_Send (BuildMaintenancePayload lib bp period accounts) =
     (let asset = or_else (bp_AssetCode bp) ''''; f = or_else (bp_FeeAmount bp) 0; total = f * of_nat (length accounts)
      in \<lparr>snd_Asset = asset, snd_Value = total,
          snd_Source = \<lparr>src_Remaining = '''', src_From = map (\<lambda>acc. billing_entry (fa_Alias acc) asset f) accounts\<rparr>,
          snd_Distribute = \<lparr>dst_Remaining = '''', dst_To = [billing_entry (or_else (bp_MaintenanceCreditAccount bp) '''') asset total]\<rparr>\<rparr>)"
  by (simp_all add: BuildVolumePayload_def BuildMaintenancePayload_def billing_transaction_def Let_def)

lemma calculateVolume_proposes:
  assumes "IsNilOrEmpty cm ''''" "rounds_hundredths lib"
    and "BillingPackage_Validate bp = None" "bp_Type bp = BillingPackageTypeVolume" "net_priced bp"
    and "calculateVolume lib mr bp period s e org led = Inr r"
  shows "proposes_valid lib cm r"
proof -
  obtain n gross where g: "volumePrice bp (ApplyFreeQuota n (or_else (bp_FreeQuota bp) 0)) = Inr gross"
    and r: "r = (let (net, discount) = ApplyDiscount lib gross n (bp_DiscountTiers bp);
                  netAmount = (case discount of None \<Rightarrow> net | Some d \<Rightarrow> gross - dd_DiscountAmount d)
              in if netAmount = 0 then volumeResult bp period 0 None
                 else volumeResult bp period netAmount (Some (BuildVolumePayload lib bp period n netAmount discount)))"
    using assms(6) by (auto simp: calculateVolume_def Let_def split_beta split: option.splits sum.splits if_splits)
  note a = volumePrice_amount [OF g assms(5) ApplyFreeQuota_nonneg]
  obtain net discount where d: "ApplyDiscount lib gross n (bp_DiscountTiers bp) = (net, discount)" by fastforce
  have net: "0 \<le> net" "(case discount of None \<Rightarrow> net | Some d \<Rightarrow> gross - dd_DiscountAmount d) = net"
    using net_after_discount [OF d assms(2) a] validated_discounts [OF assms(3,4)] by blast+
  have r': "r = (if net = 0 then volumeResult bp period 0 None
      else volumeResult bp period net (Some (BuildVolumePayload lib bp period n net discount)))"
    unfolding r d Let_def prod.case net(2) by (rule refl)
  show ?thesis
  proof (cases "net = 0")
    case True
    then show ?thesis unfolding r' by (simp add: proposes_valid_def volumeResult_def)
  next
    case False
    then show ?thesis unfolding r' using net(1)
      by (intro proposes_validI [OF assms(1), where tx = "BuildVolumePayload lib bp period n net discount"])
        (simp_all add: volumeResult_def payload_send Let_def)
  qed
qed

lemma calculateMaintenance_proposes:
  assumes "IsNilOrEmpty cm ''''" "BillingPackage_Validate bp = None" "bp_Type bp = BillingPackageTypeMaintenance"
    and "calculateMaintenance lib mr bp period org led = Inr r"
  shows "proposes_valid lib cm r"
proof -
  have "validateMaintenanceFields bp = None" using assms(2,3) by (simp add: BillingPackage_Validate_def split: option.splits)
  then obtain f where f: "bp_FeeAmount bp = Some f" "0 < f"
    by (auto simp: validateMaintenanceFields_def split: option.splits if_splits)
  have sum: "sum_list (map (stated \<circ> (\<lambda>acc. billing_entry (g acc) a f)) accs) = f * of_nat (length accs)" for accs :: "FeeAccount list" and a g
    by (induction accs) (simp_all add: distrib_left)
  obtain accounts where acc: "accounts = [] \<and> br_TransactionPayload r = None \<and> br_TotalNetAmount r = 0 \<or>
      accounts \<noteq> [] \<and> br_TotalNetAmount r = f * of_nat (length accounts) \<and>
      br_TransactionPayload r = Some (BuildMaintenancePayload lib (bp\<lparr>bp_FeeAmount := Some f\<rparr>) period accounts)"
    using assms(4) f(1) by (fastforce simp: calculateMaintenance_def Let_def or_else_def split: option.splits sum.splits if_splits)
  then show ?thesis
  proof
    assume "accounts = [] \<and> br_TransactionPayload r = None \<and> br_TotalNetAmount r = 0"
    then show ?thesis by (simp add: proposes_valid_def)
  next
    assume n: "accounts \<noteq> [] \<and> br_TotalNetAmount r = f * of_nat (length accounts) \<and>
      br_TransactionPayload r = Some (BuildMaintenancePayload lib (bp\<lparr>bp_FeeAmount := Some f\<rparr>) period accounts)"
    then show ?thesis using f(2)
      by (intro proposes_validI [OF assms(1), where tx = "BuildMaintenancePayload lib (bp\<lparr>bp_FeeAmount := Some f\<rparr>) period accounts"])
        (auto simp: payload_send Let_def or_else_def sum)
  qed
qed

lemma buildSummary_net: "bs_TotalNetAmount (buildSummary rs) = sum_list (map br_TotalNetAmount rs)"
proof -
  have "bs_TotalNetAmount (fold (\<lambda>r s. s\<lparr>bs_TotalNetAmount := bs_TotalNetAmount s + br_TotalNetAmount r, bs_TotalVolume := f s r,
      bs_TotalMaintenance := g s r\<rparr>) rs s) = bs_TotalNetAmount s + sum_list (map br_TotalNetAmount rs)"
    for f g and s :: BillingCalculateSummary
    by (induction rs arbitrary: s) simp_all
  then show ?thesis by (simp add: buildSummary_def)
qed

lemma proposes_valid_amount:
  "proposes_valid lib cm r \<Longrightarrow> br_TotalNetAmount r = (case br_TransactionPayload r of None \<Rightarrow> 0 | Some tx \<Rightarrow> snd_Value (tx_Send tx))"
  by (simp add: proposes_valid_def split: option.splits)

lemma Calculate_proposes:
  assumes "rounds_hundredths lib" "IsNilOrEmpty cm ''''" "\<forall>m \<in> set docs. valid_doc lib m"
    and "\<forall>m \<in> set docs. \<forall>bp. bm_ToEntity lib m = Inr bp \<longrightarrow> (\<forall>t \<in> set (bp_Tiers bp). sixteen_digits (pt_UnitPrice t))"
    and "Calculate lib mr docs req = Inr resp" "r \<in> set (rp_Results resp)"
  shows "proposes_valid lib cm r"
proof -
  obtain org led s e vps mps vs ms where f: "fetchPackagesByType lib docs req = Inr (vps, mps)"
    and v: "convert_all (\<lambda>bp. calculateVolume lib mr bp (br_Period req) s e org led) vps = Inr vs"
    and m: "convert_all (\<lambda>bp. calculateMaintenance lib mr bp (br_Period req) org led) mps = Inr ms"
    and r: "rp_Results resp = vs @ ms"
    using assms(5) by (auto simp: Calculate_def split: option.splits sum.splits prod.splits)
  have vp: "vps \<noteq> [] \<Longrightarrow> FindActiveByType lib docs (br_OrganizationID req) (br_LedgerID req) BillingPackageTypeVolume = Inr vps"
    and mp: "mps \<noteq> [] \<Longrightarrow> FindActiveByType lib docs (br_OrganizationID req) (br_LedgerID req) BillingPackageTypeMaintenance = Inr mps"
    using f by (auto simp: fetchPackagesByType_def Let_def split: sum.splits if_splits)
  consider "r \<in> set vs" | "r \<in> set ms" using assms(6) r by auto
  then show ?thesis
  proof cases
    case 1
    then obtain bp where bp: "bp \<in> set vps" "calculateVolume lib mr bp (br_Period req) s e org led = Inr r"
      using convert_all_Inr [OF v] by blast
    then have "vps \<noteq> []" by auto
    from FindActiveByType_valid [OF vp [OF this] bp(1) assms(3)] obtain m where
      m: "m \<in> set docs" "bm_ToEntity lib m = Inr bp" "BillingPackage_Validate bp = None" "bp_Type bp = BillingPackageTypeVolume" by blast
    have "net_priced bp"
      using validated_tiers(1) [OF m(3,4)] assms(4) m(1,2) by (auto simp: net_priced_def validateSinglePricingTier_def simp del: first_err.simps)
    then show ?thesis using calculateVolume_proposes [OF assms(2,1) m(3,4)] bp(2) by blast
  next
    case 2
    then obtain bp where bp: "bp \<in> set mps" "calculateMaintenance lib mr bp (br_Period req) org led = Inr r"
      using convert_all_Inr [OF m] by blast
    then have "mps \<noteq> []" by auto
    then have f: "FindActiveByType lib docs (br_OrganizationID req) (br_LedgerID req) BillingPackageTypeMaintenance = Inr mps" by (rule mp)
    show ?thesis
      by (rule FindActiveByType_valid [OF f bp(1) assms(3)]) (rule calculateMaintenance_proposes [OF assms(2) _ _ bp(2)])
  qed
qed

text \<open>
  C27. Whatever packages have been created, updated and deleted through the API, a billing
  calculation that returns proposes only transactions that the ledger accepts: every result has
  either a net amount of zero and no payload, or a positive net amount and a payload that sends
  exactly it and that passes the validation of the create handler when the charged and the
  credited accounts differ; the total of the summary is the sum of what the payloads send. This
  holds for prices of up to sixteen decimals, the precision of the discount's division.
\<close>

theorem billing_proposes_valid_transactions:
  assumes "faithful_text lib" "rounds_hundredths lib" "IsNilOrEmpty cm ''''" "(billing_step lib)\<^sup>*\<^sup>* [] docs"
    and "\<forall>m \<in> set docs. \<forall>bp. bm_ToEntity lib m = Inr bp \<longrightarrow> (\<forall>t \<in> set (bp_Tiers bp). sixteen_digits (pt_UnitPrice t))"
    and "calculateBilling lib mr docs org req = Inr resp"
  shows "(\<forall>r \<in> set (rp_Results resp). proposes_valid lib cm r) \<and>
    bs_TotalNetAmount (rp_Summary resp) =
      (\<Sum>r \<leftarrow> rp_Results resp. case br_TransactionPayload r of None \<Rightarrow> 0 | Some tx \<Rightarrow> snd_Value (tx_Send tx))"
proof -
  let ?req = "req\<lparr>br_OrganizationID := uuid_String lib org\<rparr>"
  have c: "Calculate lib mr docs ?req = Inr resp" using assms(6) by (simp add: calculateBilling_def Let_def split: option.splits)
  have valid: "\<forall>m \<in> set docs. valid_doc lib m" using billing.reachable [OF assms(4)] assms(1) by simp
  have p: "proposes_valid lib cm r" if "r \<in> set (rp_Results resp)" for r
    using Calculate_proposes [OF assms(2,3) valid assms(5) c that] .
  have "rp_Summary resp = buildSummary (rp_Results resp)"
    using c by (auto simp: Calculate_def split: option.splits sum.splits prod.splits)
  moreover have "map br_TotalNetAmount (rp_Results resp) =
      map (\<lambda>r. case br_TransactionPayload r of None \<Rightarrow> 0 | Some tx \<Rightarrow> snd_Value (tx_Send tx)) (rp_Results resp)"
    using proposes_valid_amount [OF p] by (rule map_cong [OF refl])
  ultimately show ?thesis using p buildSummary_net by metis
qed

section \<open>Examples\<close>

definition billing_lib :: extlib where
  "billing_lib = tally_lib\<lparr>uuid_Parse := (\<lambda>s. Some (of_nat (str_nat s))),
     dec_Div := (\<lambda>x y. of_int \<lfloor>x / y * 10 ^ 16 + 1 / 2\<rfloor> / 10 ^ 16)\<rparr>"

lemma billing_lib_ok: "faithful_text billing_lib" "rounds_hundredths billing_lib"
proof -
  have "dec_NewFromString billing_lib = tally_parse" "dec_String billing_lib = tally_print"
    "uuid_String billing_lib = (\<lambda>u. nat_str (unat u))" "uuid_Parse billing_lib = (\<lambda>s. Some (of_nat (str_nat s)))"
    by (simp_all add: billing_lib_def tally_lib_def)
  then show "faithful_text billing_lib" by (simp add: faithful_text_def prints_decimals_def tally_print_parse)
  have d: "dec_Div billing_lib x 100 = of_int \<lfloor>x / 100 * 10 ^ 16 + 1 / 2\<rfloor> / 10 ^ 16" for x by (simp add: billing_lib_def)
  have "\<bar>of_int \<lfloor>y * 10 ^ 16 + 1 / 2\<rfloor> / 10 ^ 16 - y\<bar> \<le> 1 / 2 / 10 ^ 16" for y :: rat
  proof -
    have "\<bar>of_int \<lfloor>y * 10 ^ 16 + 1 / 2\<rfloor> - y * 10 ^ 16\<bar> \<le> 1 / 2" by linarith
    then have "\<bar>of_int \<lfloor>y * 10 ^ 16 + 1 / 2\<rfloor> - y * 10 ^ 16\<bar> / 10 ^ 16 \<le> 1 / 2 / 10 ^ 16" by (rule divide_right_mono) simp
    moreover have "\<bar>a - y * 10 ^ 16\<bar> / 10 ^ 16 = \<bar>a / 10 ^ 16 - y\<bar>" for a :: rat
      by (subst abs_div_pos) (simp_all add: diff_divide_distrib)
    ultimately show ?thesis by metis
  qed
  then show "rounds_hundredths billing_lib" unfolding rounds_hundredths_def d sixteen_digits_def by blast
qed

definition sample_package :: "PricingTier list \<Rightarrow> BillingPackage" where
  "sample_package tiers =
     \<lparr>bp_ID = '''', bp_OrganizationID = '''', bp_LedgerID = ''7'', bp_Label = ''pix'', bp_Description = None,
      bp_Type = ''volume'', bp_Enable = None, bp_EventFilter = Some \<lparr>ef_TransactionRoute = ''pix'', ef_Status = ''APPROVED''\<rparr>,
      bp_PricingModel = Some ''tiered'', bp_Tiers = tiers, bp_FreeQuota = Some 2,
      bp_DiscountTiers = [\<lparr>dt_MinQuantity = 5, dt_DiscountPercentage = 10\<rparr>], bp_CountMode = None, bp_AssetCode = Some ''BRL'',
      bp_DebitAccountAlias = Some ''client'', bp_CreditAccountAlias = Some ''fees'', bp_FeeAmount = None,
      bp_MaintenanceCreditAccount = None, bp_AccountTarget = None, bp_CreatedAt = '''', bp_UpdatedAt = '''', bp_DeletedAt = None\<rparr>"

definition sample_tiers :: "PricingTier list" where
  "sample_tiers =
     [\<lparr>pt_MinQuantity = 10, pt_MaxQuantity = None, pt_UnitPrice = 1\<rparr>,
      \<lparr>pt_MinQuantity = 0, pt_MaxQuantity = Some 9, pt_UnitPrice = 2\<rparr>]"

lemma sample_package_valid: "BillingPackage_Validate (sample_package sample_tiers) = None"
  by code_simp

theorem validated_tiers_price_every_count_witness:
  "\<exists>tier \<in> set sample_tiers. (\<forall>u \<in> set sample_tiers. eventFallsInTier 12 u \<longleftrightarrow> u = tier) \<and>
    CalculateTiered 12 sample_tiers = Inr (pt_UnitPrice tier, 12 * pt_UnitPrice tier)"
proof -
  have "bp_Tiers (sample_package sample_tiers) = sample_tiers" "bp_Type (sample_package sample_tiers) = BillingPackageTypeVolume"
    by (simp_all add: sample_package_def)
  moreover have "open_ended sample_tiers" "\<forall>t \<in> set sample_tiers. int64_tier t"
    "\<lparr>pt_MinQuantity = 0, pt_MaxQuantity = Some 9, pt_UnitPrice = 2\<rparr> \<in> set sample_tiers"
    by (simp_all add: sample_tiers_def open_ended_def int64_tier_def effective_max_def MaxInt64_def)
  ultimately show ?thesis
    using validated_tiers_price_every_count [OF sample_package_valid, of _ 12] by (simp add: MaxInt64_def)
qed

theorem period_labels_name_their_intervals_witness:
  "parsePeriod (Format_date (1000 * Day)) = Inr (Truncate (1000 * Day) Day, Truncate (1000 * Day) Day + Day)"
proof -
  have "year_of (day_of (1000 * Day)) < 9999" unfolding day_of_mult by code_simp
  then show ?thesis using period_labels_name_their_intervals [of "1000 * Day"] by (simp add: time_units)
qed

definition sample_resolver :: "int \<Rightarrow> MidazResolver" where
  "sample_resolver n =
     \<lparr>mr_AccountExistsByAlias = (\<lambda>o' l a. None), mr_GetAccountByAlias = (\<lambda>o' l a. Inr None), mr_ListAccounts = (\<lambda>o' l s p. Inr []),
      mr_CountTransactionsByRoute = (\<lambda>o' l r st s e. Inr n)\<rparr>"

definition sample_request :: BillingCalculateRequest where
  "sample_request = \<lparr>br_OrganizationID = '''', br_LedgerID = ''7'', br_Period = ''2026-W13'', br_Type = ''''\<rparr>"

definition billed :: "uuid \<Rightarrow> billing_docs \<Rightarrow> billing_docs" where
  "billed i docs = fst (createBillingPackage billing_lib (sample_resolver 12) i '''' 5 (sample_package sample_tiers) docs)"

lemma billed_sample:
  "case calculateBilling billing_lib (sample_resolver 12) (billed 3 []) 5 sample_request of
     Inl e \<Rightarrow> False | Inr resp \<Rightarrow> bs_TotalNetAmount (rp_Summary resp) = 9 \<and> length (rp_Results resp) = 1"
  "list_all (\<lambda>m. case bm_ToEntity billing_lib m of Inl e \<Rightarrow> True
     | Inr bp \<Rightarrow> list_all (\<lambda>t. pt_UnitPrice t = 1 \<or> pt_UnitPrice t = 2) (bp_Tiers bp)) (billed 3 [])"
  by code_simp+

theorem billing_proposes_valid_transactions_witness:
  "\<exists>resp. calculateBilling billing_lib (sample_resolver 12) (billed 3 []) 5 sample_request = Inr resp \<and>
    bs_TotalNetAmount (rp_Summary resp) = 9 \<and> (\<forall>r \<in> set (rp_Results resp). proposes_valid billing_lib plain_commons r)"
proof -
  obtain resp where r: "calculateBilling billing_lib (sample_resolver 12) (billed 3 []) 5 sample_request = Inr resp"
    "bs_TotalNetAmount (rp_Summary resp) = 9"
    using billed_sample(1) by (auto split: sum.splits)
  have "(billing_step billing_lib)\<^sup>*\<^sup>* [] (billed 3 [])" unfolding billed_def by (rule r_into_rtranclp) (rule billing_step.create)
  moreover have "sixteen_digits 1" "sixteen_digits 2"
    unfolding sixteen_digits_def by (rule exI [of _ "10 ^ 16"], simp) (rule exI [of _ "2 * 10 ^ 16"], simp)
  then have "\<forall>m \<in> set (billed 3 []). \<forall>bp. bm_ToEntity billing_lib m = Inr bp \<longrightarrow> (\<forall>t \<in> set (bp_Tiers bp). sixteen_digits (pt_UnitPrice t))"
    using billed_sample(2) by (fastforce simp: list_all_iff)
  moreover have "IsNilOrEmpty plain_commons ''''" by (simp add: plain_commons_def)
  ultimately show ?thesis
    using billing_proposes_valid_transactions [OF billing_lib_ok _ _ _ r(1)] r by blast
qed

text \<open>
  The check that a route has one package is made at creation only: a package that is disabled,
  replaced by another on its route and enabled again is billed beside the other, so every
  transaction of the route is charged twice.
\<close>

definition replaced :: billing_docs where
  "replaced =
     (let switch = (\<lambda>b docs. fst (updateBillingPackage billing_lib '''' 5 3 \<lparr>bu_Label = None, bu_Description = None, bu_Enable = Some b\<rparr> docs))
      in switch True (billed 4 (switch False (billed 3 []))))"

lemma enabled_again_bills_twice:
  "snd (createBillingPackage billing_lib (sample_resolver 12) 4 '''' 5 (sample_package sample_tiers) (billed 3 [])) = Inl (Business ErrBillingRouteOverlap)"
  "case calculateBilling billing_lib (sample_resolver 12) replaced 5 sample_request of
     Inl e \<Rightarrow> False | Inr resp \<Rightarrow> map br_TotalNetAmount (rp_Results resp) = [9, 9]"
  by code_simp+

text \<open>A table of one bounded tier passes validation and leaves the counts above it without a price.\<close>

lemma single_bounded_tier_leaves_gap:
  "BillingPackage_Validate (sample_package [\<lparr>pt_MinQuantity = 0, pt_MaxQuantity = Some 9, pt_UnitPrice = 2\<rparr>]) = None"
  "CalculateTiered 10 [\<lparr>pt_MinQuantity = 0, pt_MaxQuantity = Some 9, pt_UnitPrice = 2\<rparr>] = Inl (Errorf ''no matching tier'')"
  by code_simp+

text \<open>\<^verbatim>\<open>Atoi\<close> takes a sign, so a week number may be written with a plus sign.\<close>

lemma signed_week_accepted: "ParseWeeklyPeriod ''2026-W+1'' = ParseWeeklyPeriod ''2026-W01''" "ParseWeeklyPeriod ''2026-W01'' \<noteq> None"
  by code_simp+

end
