(* ===== verification/LuaDecimal.thy ===== *)
theory LuaDecimal
  imports GoStrings "HOL-Library.Log_Nat"
begin

unbundle bit_operations_syntax

text \<open>
  The decimal arithmetic of the script \<^verbatim>\<open>balance_atomic_operation.lua\<close>, which keeps amounts as
  strings of digits and adds and subtracts them digit by digit. Only the comparison inside
  \<open>sub_decimal\<close> goes through Lua's numbers: \<open>tonumber\<close> reads a string as an IEEE double.

  \<open>lua_double\<close> is that reading: the nearest double, ties to even, with the gradual underflow of
  the format; everything at or past \<open>2 ^ 1024\<close> is infinity, for which \<open>2 ^ 1024\<close> stands, so
  that comparisons come out as in Lua. \<open>tonumber\<close> covers decimal numerals with an optional sign,
  fraction and exponent; hexadecimal numerals and surrounding blanks, which Lua also reads, do
  not occur (every amount is printed or was checked by \<^verbatim>\<open>decimal.Decimal\<close>). A numeral that Lua
  cannot read makes the comparison raise, which is the result \<open>None\<close>.
\<close>

section \<open>Lua numbers\<close>

definition is_digit :: "char \<Rightarrow> bool" where
  "is_digit c \<longleftrightarrow> 48 \<le> (of_char c :: nat) \<and> (of_char c :: nat) \<le> 57"

definition round_even :: "rat \<Rightarrow> int" where
  "round_even y =
     (let f = \<lfloor>y\<rfloor>; d = y - of_int f
      in if d < 1 / 2 \<or> d = 1 / 2 \<and> even f then f else f + 1)"

definition pow2 :: "int \<Rightarrow> rat" where
  "pow2 e = (if 0 \<le> e then 2 ^ nat e else 1 / 2 ^ nat (- e))"

definition flog2 :: "rat \<Rightarrow> int" where
  "flog2 x =
     (let (p, q) = quotient_of x; e = bitlen p - bitlen q
      in if pow2 e \<le> x then e else e - 1)"

definition lua_double :: "rat \<Rightarrow> rat" where
  "lua_double x =
     (if x \<le> 0 then 0
      else let u = pow2 (max (-1074) (flog2 x - 52)) in min (of_int (2 ^ 1024)) (of_int (round_even (x / u)) * u))"

text \<open>\<open>tonumber\<close>: a sign, digits with at most one point, an optional exponent.\<close>

definition str_int :: "string \<Rightarrow> int" where
  "str_int s = foldl (\<lambda>n c. 10 * n + (of_char c - 48)) 0 s"

definition read_sign :: "string \<Rightarrow> bool \<times> string" where
  "read_sign s =
     (if take 1 s = ''-'' then (True, drop 1 s) else if take 1 s = ''+'' then (False, drop 1 s) else (False, s))"

definition read_exponent :: "string \<Rightarrow> int option" where
  "read_exponent s =
     (if s = [] then Some 0
      else if hd s \<in> {CHR ''e'', CHR ''E''} then
        (let (neg, ds) = read_sign (tl s)
         in if ds \<noteq> [] \<and> list_all is_digit ds then Some (if neg then - str_int ds else str_int ds) else None)
      else None)"

definition pow10 :: "int \<Rightarrow> rat" where
  "pow10 e = (if 0 \<le> e then 10 ^ nat e else 1 / 10 ^ nat (- e))"

definition read_numeral :: "string \<Rightarrow> rat option" where
  "read_numeral s =
     (let (neg, t) = read_sign s;
          ip = takeWhile is_digit t; r = dropWhile is_digit t;
          fp = (if take 1 r = ''.'' then takeWhile is_digit (drop 1 r) else []);
          r' = (if take 1 r = ''.'' then dropWhile is_digit (drop 1 r) else r)
      in if ip = [] \<and> fp = [] then None
         else map_option (\<lambda>e. (if neg then - 1 else 1) *
                (of_int (str_int (ip @ fp)) / 10 ^ length fp * pow10 e)) (read_exponent r'))"

definition tonumber :: "string \<Rightarrow> rat option" where
  "tonumber s = map_option (\<lambda>x. if x < 0 then - lua_double (- x) else lua_double x) (read_numeral s)"

section \<open>Digit strings\<close>

definition split_decimal :: "string \<Rightarrow> string \<times> string \<times> bool" where
  "split_decimal s =
     (let neg = (take 1 s = ''-''); sign = (if neg then ''-'' else ''''); t = (if neg then drop 1 s else s);
          intp = takeWhile is_digit t; rest = dropWhile is_digit t
      in if intp \<noteq> [] \<and> take 1 rest = ''.'' \<and> drop 1 rest \<noteq> [] \<and> list_all is_digit (drop 1 rest)
         then (sign @ intp, drop 1 rest, neg)
         else (sign @ t, '''', neg))"

definition rtrim_zeros :: "string \<Rightarrow> string" where
  "rtrim_zeros fp =
     (let t = rev (dropWhile (\<lambda>c. c = CHR ''0'') (rev fp)) in if t = '''' then ''0'' else t)"

text \<open>\<open>tonumber(c) or 0\<close> on one character.\<close>

definition digit_or_0 :: "char \<Rightarrow> nat" where
  "digit_or_0 c = (if is_digit c then digit_val c else 0)"

definition first_digit :: "string \<Rightarrow> nat" where
  "first_digit s = (case s of [] \<Rightarrow> 0 | c # _ \<Rightarrow> digit_or_0 c)"

text \<open>
  The loops, on digits with the least significant first: the digits of the sum or difference and
  the carry or borrow that is left. The two loops of each function (over the fractions, which have
  been made equally long, and over the integer parts) are this one, the second with the carry that
  the first leaves.
\<close>

function add_loop :: "nat \<Rightarrow> string \<Rightarrow> string \<Rightarrow> string \<times> nat" where
  "add_loop carry xs ys =
     (if xs = [] \<and> ys = [] then ([], carry)
      else let s = first_digit xs + first_digit ys + carry; (ds, c) = add_loop (s div 10) (drop 1 xs) (drop 1 ys)
           in (digit_char (s mod 10) # ds, c))"
  by pat_completeness auto
termination
  by (relation "measure (\<lambda>(_, xs, ys). length xs + length ys)")
     (auto simp: length_greater_0_conv [symmetric] simp del: length_greater_0_conv)

function sub_loop :: "nat \<Rightarrow> string \<Rightarrow> string \<Rightarrow> string \<times> nat" where
  "sub_loop borrow xs ys =
     (if xs = [] \<and> ys = [] then ([], borrow)
      else let d = int (first_digit xs) - int (first_digit ys) - int borrow;
               (ds, c) = sub_loop (if d < 0 then 1 else 0) (drop 1 xs) (drop 1 ys)
           in (digit_char (nat (if d < 0 then d + 10 else d)) # ds, c))"
  by pat_completeness auto
termination
  by (relation "measure (\<lambda>(_, xs, ys). length xs + length ys)")
     (auto simp: length_greater_0_conv [symmetric] simp del: length_greater_0_conv)

declare add_loop.simps [simp del] sub_loop.simps [simp del]

definition pad_right :: "nat \<Rightarrow> string \<Rightarrow> string" where
  "pad_right n s = s @ replicate (n - length s) (CHR ''0'')"

definition strip_minus :: "string \<Rightarrow> string" where
  "strip_minus s = (if take 1 s = ''-'' then drop 1 s else s)"

definition join_decimal :: "string \<Rightarrow> string \<Rightarrow> string" where
  "join_decimal int_res frac_res =
     (let f = rtrim_zeros frac_res in if f = ''0'' then int_res else int_res @ ''.'' @ f)"

definition add_unsigned :: "string \<Rightarrow> string \<Rightarrow> string \<Rightarrow> string \<Rightarrow> string" where
  "add_unsigned ai af bi bf =
     (let n = max (length af) (length bf);
          (frac_sum, carry) = add_loop 0 (rev (pad_right n af)) (rev (pad_right n bf));
          (int_sum, carry') = add_loop carry (rev (strip_minus ai)) (rev (strip_minus bi));
          int_sum' = int_sum @ (if carry' > 0 then nat_str carry' else [])
      in join_decimal (rev int_sum') (rev frac_sum))"

definition sub_unsigned :: "string \<Rightarrow> string \<Rightarrow> string \<Rightarrow> string \<Rightarrow> string" where
  "sub_unsigned ai af bi bf =
     (let n = max (length af) (length bf);
          (frac_res, borrow) = sub_loop 0 (rev (pad_right n af)) (rev (pad_right n bf));
          (int_res, _) = sub_loop borrow (rev (strip_minus ai)) (rev (strip_minus bi));
          res_int = dropWhile (\<lambda>c. c = CHR ''0'') (rev int_res)
      in join_decimal (if res_int = '''' then ''0'' else res_int) (rev frac_res))"

section \<open>Signed addition and subtraction\<close>

abbreviation negative :: "string \<Rightarrow> bool" where
  "negative s \<equiv> snd (snd (split_decimal s))"

definition lua_less :: "string \<Rightarrow> string \<Rightarrow> bool option" where
  "lua_less a b = (case (tonumber a, tonumber b) of (Some x, Some y) \<Rightarrow> Some (x < y) | _ \<Rightarrow> None)"

lemma lua_less_irrefl: "lua_less a b = Some True \<Longrightarrow> lua_less b a = Some False"
  by (auto simp: lua_less_def split: option.splits)

lemma split_negative: "(i, f, True) = split_decimal a \<Longrightarrow> \<exists>n. length a = Suc n"
  by (cases a) (auto simp: split_decimal_def Let_def split: if_splits)

lemma negative_iff: "negative s \<longleftrightarrow> (\<exists>t. s = CHR ''-'' # t)"
  by (cases s) (auto simp: split_decimal_def Let_def)

function add_decimal :: "string \<Rightarrow> string \<Rightarrow> string option" and sub_decimal :: "string \<Rightarrow> string \<Rightarrow> string option" where
  "add_decimal a b =
     (let (ai, af, a_negative) = split_decimal a; (bi, bf, b_negative) = split_decimal b in
      if a_negative \<and> b_negative then map_option ((#) (CHR ''-'')) (add_decimal (drop 1 a) (drop 1 b))
      else if a_negative then sub_decimal b (drop 1 a)
      else if b_negative then sub_decimal a (drop 1 b)
      else Some (add_unsigned ai af bi bf))"
| "sub_decimal a b =
     (let (ai, af, a_negative) = split_decimal a; (bi, bf, b_negative) = split_decimal b in
      if a_negative \<and> b_negative then sub_decimal (drop 1 b) (drop 1 a)
      else if a_negative then map_option ((#) (CHR ''-'')) (add_decimal (drop 1 a) b)
      else if b_negative then add_decimal a (drop 1 b)
      else case lua_less a b of
        None \<Rightarrow> None
      | Some True \<Rightarrow> map_option ((#) (CHR ''-'')) (sub_decimal b a)
      | Some False \<Rightarrow> Some (sub_unsigned ai af bi bf))"
  by pat_completeness auto
termination
  by (relation "measure (\<lambda>p. case p of Inl (a, b) \<Rightarrow> 2 * (length a + length b)
      | Inr (a, b) \<Rightarrow> 2 * (length a + length b) + (if lua_less a b = Some True then 1 else 0))")
     (auto simp: lua_less_irrefl dest!: split_negative)

declare add_decimal.simps [simp del] sub_decimal.simps [simp del]

section \<open>Tests on decimals\<close>

definition startsWithMinus :: "string \<Rightarrow> bool" where
  "startsWithMinus s \<longleftrightarrow> take 1 s = ''-''"

text \<open>\<open>s:gsub("%.?0+$", "")\<close>\<close>

definition drop_zero_tail :: "string \<Rightarrow> string" where
  "drop_zero_tail s =
     (let t = rev (dropWhile (\<lambda>c. c = CHR ''0'') (rev s))
      in if t = s then s else if t \<noteq> [] \<and> last t = CHR ''.'' then butlast t else t)"

definition isPositive :: "string \<Rightarrow> bool" where
  "isPositive s \<longleftrightarrow>
     (if startsWithMinus s then False
      else let normalized = dropWhile (\<lambda>c. c = CHR ''0'') (drop_zero_tail s)
           in normalized \<noteq> '''' \<and> normalized \<noteq> ''.'')"

definition min_decimal :: "string \<Rightarrow> string \<Rightarrow> string option" where
  "min_decimal a b = map_option (\<lambda>d. if startsWithMinus d then a else b) (sub_decimal a b)"


section \<open>Values of digit strings\<close>

fun lsd_val :: "string \<Rightarrow> nat" where
  "lsd_val [] = 0"
| "lsd_val (c # cs) = digit_val c + 10 * lsd_val cs"

lemma digits_only_is_digit: "digits_only s \<longleftrightarrow> list_all is_digit s"
  by (simp add: digits_only_def is_digit_def list_all_iff)

lemma digits_only_simps [simp]:
  "digits_only []" "digits_only (c # s) \<longleftrightarrow> is_digit c \<and> digits_only s" "digits_only (s @ t) \<longleftrightarrow> digits_only s \<and> digits_only t"
  "digits_only (rev s) \<longleftrightarrow> digits_only s" "digits_only (replicate n (CHR ''0''))"
  by (auto simp: digits_only_def is_digit_def list_all_iff)

lemma digit_val_less [simp]: "is_digit c \<Longrightarrow> digit_val c < 10"
  unfolding is_digit_def digit_val_def by linarith

lemma is_digit_char [simp]: "d < 10 \<Longrightarrow> is_digit (digit_char d)"
  by (simp add: is_digit_def digit_char_def)

lemma is_digit_consts [simp]: "is_digit (CHR ''0'')" "\<not> is_digit (CHR ''.'')" "\<not> is_digit (CHR ''-'')"
  by (simp_all add: is_digit_def)

lemma digit_val_0 [simp]: "digit_val (CHR ''0'') = 0"
  by (simp add: digit_val_def)

lemma lsd_val_append: "lsd_val (s @ t) = lsd_val s + 10 ^ length s * lsd_val t"
  by (induction s) (simp_all add: algebra_simps)

lemma lsd_val_zeros [simp]: "lsd_val (replicate n (CHR ''0'')) = 0"
  by (induction n) simp_all

lemma lsd_val_bound: "digits_only s \<Longrightarrow> lsd_val s < 10 ^ length s"
proof (induction s)
  case (Cons c s)
  then have "digit_val c < 10" "lsd_val s + 1 \<le> 10 ^ length s" by simp_all
  then show ?case by simp
qed simp

lemma str_nat_snoc: "str_nat (s @ [c]) = 10 * str_nat s + digit_val c"
  by (simp add: str_nat_def)

lemma str_nat_lsd: "str_nat s = lsd_val (rev s)"
  by (induction s rule: rev_induct) (simp_all add: str_nat_snoc, simp add: str_nat_def)

lemma str_nat_append: "str_nat (s @ t) = str_nat s * 10 ^ length t + str_nat t"
  by (simp add: str_nat_lsd lsd_val_append)

lemma str_int_nat: "digits_only s \<Longrightarrow> str_int s = int (str_nat s)"
  by (induction s rule: rev_induct)
     (simp_all add: str_int_def str_nat_def digit_val_def is_digit_def of_nat_diff of_nat_of_char)

lemma first_digit_val: "digits_only xs \<Longrightarrow> lsd_val xs = first_digit xs + 10 * lsd_val (drop 1 xs)"
  by (cases xs) (simp_all add: first_digit_def digit_or_0_def)

lemma first_digit_less: "first_digit xs < 10"
  by (cases xs) (simp_all add: first_digit_def digit_or_0_def)

lemma digits_only_drop: "digits_only xs \<Longrightarrow> digits_only (drop n xs)"
  by (auto simp: digits_only_def list_all_iff dest: in_set_dropD)

text \<open>Each loop computes the sum or the difference of the digit strings.\<close>

lemma regroup: "q * 10 + m = s \<Longrightarrow> m + 10 * (a + b + q) = s + 10 * (a + b)" for m :: nat
  by simp

lemma add_loop_correct:
  assumes "digits_only xs" "digits_only ys" "c \<le> 1" "add_loop c xs ys = (ds, c')"
  shows "lsd_val ds + 10 ^ length ds * c' = lsd_val xs + lsd_val ys + c \<and> digits_only ds \<and>
    length ds = max (length xs) (length ys) \<and> c' \<le> 1"
  using assms
proof (induction c xs ys arbitrary: ds c' rule: add_loop.induct)
  case (1 c xs ys)
  show ?case
  proof (cases "xs = [] \<and> ys = []")
    case True
    with "1.prems" show ?thesis by (simp add: add_loop.simps)
  next
    case False
    define s where "s = first_digit xs + first_digit ys + c"
    have s: "s < 20" using first_digit_less [of xs] first_digit_less [of ys] "1.prems"(3) by (simp add: s_def)
    obtain es d where rest: "add_loop (s div 10) (drop 1 xs) (drop 1 ys) = (es, d)" by force
    then have ds: "ds = digit_char (s mod 10) # es" "c' = d"
      using "1.prems"(4) False by (simp_all add: add_loop.simps [of c xs ys] s_def Let_def)
    have IH: "lsd_val es + 10 ^ length es * d = lsd_val (drop 1 xs) + lsd_val (drop 1 ys) + s div 10 \<and> digits_only es \<and>
        length es = max (length (drop 1 xs)) (length (drop 1 ys)) \<and> d \<le> 1"
      by (rule "1.IH" [OF False s_def]) (use rest "1.prems" s in \<open>simp_all add: digits_only_drop less_Suc_eq_le\<close>)
    have "lsd_val xs + lsd_val ys + c = s + 10 * (lsd_val (drop 1 xs) + lsd_val (drop 1 ys))"
      by (subst (1 2) first_digit_val) (use "1.prems" in \<open>simp_all add: s_def algebra_simps\<close>)
    moreover have "lsd_val ds + 10 ^ length ds * c' = s mod 10 + 10 * (lsd_val es + 10 ^ length es * d)"
      by (simp add: ds algebra_simps)
    moreover have "s mod 10 + 10 * (s div 10) = s" by simp
    moreover have "max (length xs) (length ys) = Suc (max (length (drop 1 xs)) (length (drop 1 ys)))"
      using False by (cases xs; cases ys) simp_all
    moreover have "s mod 10 + 10 * (lsd_val es + 10 ^ length es * d) = s + 10 * (lsd_val (drop 1 xs) + lsd_val (drop 1 ys))"
      unfolding conjunct1 [OF IH] by (rule regroup [OF div_mult_mod_eq])
    ultimately have "lsd_val ds + 10 ^ length ds * c' = lsd_val xs + lsd_val ys + c" and
      "length ds = max (length xs) (length ys)"
      using IH by (linarith, simp add: ds)
    moreover have "digits_only ds" "c' \<le> 1" using IH by (simp_all add: ds)
    ultimately show ?thesis by blast
  qed
qed

lemma sub_loop_correct:
  assumes "digits_only xs" "digits_only ys" "c \<le> 1" "sub_loop c xs ys = (ds, c')"
  shows "int (lsd_val ds) - 10 ^ length ds * int c' = int (lsd_val xs) - int (lsd_val ys) - int c \<and> digits_only ds \<and>
    length ds = max (length xs) (length ys) \<and> c' \<le> 1"
  using assms
proof (induction c xs ys arbitrary: ds c' rule: sub_loop.induct)
  case (1 c xs ys)
  show ?case
  proof (cases "xs = [] \<and> ys = []")
    case True
    with "1.prems" show ?thesis by (simp add: sub_loop.simps)
  next
    case False
    define s where "s = int (first_digit xs) - int (first_digit ys) - int c"
    define k where "k = nat (if s < 0 then s + 10 else s)"
    have s: "- 11 < s" "s < 10" using first_digit_less [of xs] first_digit_less [of ys] "1.prems"(3) by (simp_all add: s_def)
    have k: "k < 10" "int k = (if s < 0 then s + 10 else s)" using s by (auto simp: k_def)
    obtain es d where rest: "sub_loop (if s < 0 then 1 else 0) (drop 1 xs) (drop 1 ys) = (es, d)" by force
    then have ds: "ds = digit_char k # es" "c' = d"
      using "1.prems"(4) False by (auto simp: sub_loop.simps [of c xs ys] Let_def simp flip: s_def k_def)
    have IH: "int (lsd_val es) - 10 ^ length es * int d = int (lsd_val (drop 1 xs)) - int (lsd_val (drop 1 ys))
          - int (if s < 0 then 1 else 0) \<and> digits_only es \<and>
        length es = max (length (drop 1 xs)) (length (drop 1 ys)) \<and> d \<le> 1"
      by (rule "1.IH" [OF False s_def]) (use rest "1.prems" s in \<open>simp_all add: digits_only_drop\<close>)
    have "int (lsd_val xs) - int (lsd_val ys) - int c = s + 10 * (int (lsd_val (drop 1 xs)) - int (lsd_val (drop 1 ys)))"
      by (subst (1 2) first_digit_val) (use "1.prems" in \<open>simp_all add: s_def algebra_simps\<close>)
    moreover have "max (length xs) (length ys) = Suc (max (length (drop 1 xs)) (length (drop 1 ys)))"
      using False by (cases xs; cases ys) simp_all
    ultimately show ?thesis using IH k by (auto simp: ds algebra_simps)
  qed
qed

end
