(* ===== verification/LuaDecimalProofs.thy ===== *)
theory LuaDecimalProofs
  imports LuaDecimal
begin

text \<open>
  The decimal arithmetic of the balance script computes exactly what it should: on the numerals
  that \<^verbatim>\<open>decimal.Decimal\<close> prints, \<open>add_decimal\<close>, \<open>sub_decimal\<close> and \<open>min_decimal\<close> are the
  operations of the rationals as long as the two numbers differ as doubles when they differ at all,
  which holds for all numbers of up to fifteen digits.
\<close>

section \<open>The value of a decimal\<close>

definition uval :: "string \<Rightarrow> string \<Rightarrow> rat" where
  "uval i f = of_nat (str_nat i) + of_nat (str_nat f) / 10 ^ length f"

definition dval :: "string \<Rightarrow> rat" where
  "dval s = (let (i, f, n) = split_decimal s in if n then - uval (drop 1 i) f else uval i f)"

text \<open>The number of digits after the point.\<close>

definition fdigits :: "string \<Rightarrow> nat" where
  "fdigits s = length (fst (snd (split_decimal s)))"

text \<open>The numerals of \<^verbatim>\<open>decimal.String\<close>: digits, possibly a point and more digits, a minus sign only
  in front of a number that is not zero.\<close>

definition unsigned_dec :: "string \<Rightarrow> bool" where
  "unsigned_dec s \<longleftrightarrow> (let (i, f, n) = split_decimal s in \<not> n \<and> i \<noteq> [] \<and> digits_only i \<and> digits_only f)"

definition dec_wf :: "string \<Rightarrow> bool" where
  "dec_wf s \<longleftrightarrow> (if startsWithMinus s then unsigned_dec (drop 1 s) \<and> dval (drop 1 s) \<noteq> 0 else unsigned_dec s)"

lemma unsigned_decE:
  assumes "unsigned_dec s"
  obtains i f where "split_decimal s = (i, f, False)" "i \<noteq> []" "digits_only i" "digits_only f" "dval s = uval i f"
  using assms by (cases "split_decimal s") (auto simp: unsigned_dec_def dval_def)

lemma takeWhile_digits: "digits_only i \<Longrightarrow> takeWhile is_digit (i @ CHR ''.'' # f) = i" "digits_only i \<Longrightarrow> takeWhile is_digit i = i"
  "digits_only i \<Longrightarrow> dropWhile is_digit (i @ CHR ''.'' # f) = CHR ''.'' # f" "digits_only i \<Longrightarrow> dropWhile is_digit i = []"
  by (induction i) auto

lemma digits_no_minus: "digits_only i \<Longrightarrow> i \<noteq> [] \<Longrightarrow> take 1 (i @ s) \<noteq> ''-''" "digits_only i \<Longrightarrow> take 1 i \<noteq> ''-''"
  by (cases i; auto)+

lemma split_plain: "digits_only i \<Longrightarrow> split_decimal i = (i, [], False)"
  using digits_no_minus(2) [of i] by (simp add: split_decimal_def takeWhile_digits)

lemma split_point:
  assumes "digits_only i" "i \<noteq> []" "digits_only f" "f \<noteq> []"
  shows "split_decimal (i @ CHR ''.'' # f) = (i, f, False)"
  using digits_no_minus(1) [OF assms(1, 2)] assms
  by (simp add: split_decimal_def takeWhile_digits digits_only_is_digit [symmetric])

lemma split_cases:
  assumes "split_decimal s = (i, f, False)"
  shows "f = [] \<and> s = i \<or> f \<noteq> [] \<and> digits_only f \<and> s = i @ CHR ''.'' # f"
proof -
  have "take 1 r = ''.'' \<Longrightarrow> r = CHR ''.'' # drop 1 r" for r by (cases r) simp_all
  moreover have "s = takeWhile is_digit s @ dropWhile is_digit s" by simp
  ultimately show ?thesis
    using assms by (auto simp: split_decimal_def Let_def digits_only_is_digit split: if_splits)
qed

lemma split_minus:
  assumes "unsigned_dec t" "split_decimal t = (i, f, False)"
  shows "split_decimal (CHR ''-'' # t) = (CHR ''-'' # i, f, True)"
proof -
  from assms have "take 1 t \<noteq> ''-''" by (auto simp: split_decimal_def Let_def split: if_splits)
  with assms show ?thesis by (auto simp: split_decimal_def Let_def split: if_splits)
qed

lemma unsigned_digits [simp]: "i \<noteq> [] \<Longrightarrow> digits_only i \<Longrightarrow> unsigned_dec i"
  by (simp add: unsigned_dec_def split_plain)

lemma unsigned_no_minus: "unsigned_dec s \<Longrightarrow> \<not> startsWithMinus s"
  by (auto simp: unsigned_dec_def startsWithMinus_def split_decimal_def Let_def split: if_splits)

lemma dval_unsigned_nonneg: "unsigned_dec s \<Longrightarrow> 0 \<le> dval s"
  by (auto elim!: unsigned_decE simp: uval_def)

lemma minus_dec:
  assumes "unsigned_dec t"
  shows "dval (CHR ''-'' # t) = - dval t" "startsWithMinus (CHR ''-'' # t)"
    "dec_wf (CHR ''-'' # t) \<longleftrightarrow> dval t \<noteq> 0"
proof -
  obtain i f where s: "split_decimal t = (i, f, False)" "dval t = uval i f" using unsigned_decE [OF assms] .
  show v: "dval (CHR ''-'' # t) = - dval t" using split_minus [OF assms s(1)] s(2) by (simp add: dval_def)
  show m: "startsWithMinus (CHR ''-'' # t)" by (simp add: startsWithMinus_def)
  show "dec_wf (CHR ''-'' # t) \<longleftrightarrow> dval t \<noteq> 0" using assms m by (simp add: dec_wf_def)
qed

lemma dec_wf_unsigned: "unsigned_dec s \<Longrightarrow> dec_wf s"
  by (simp add: dec_wf_def unsigned_no_minus)

lemma dec_wf_cases:
  assumes "dec_wf s"
  obtains (pos) "unsigned_dec s" "0 \<le> dval s" "\<not> startsWithMinus s"
    | (neg) t where "s = CHR ''-'' # t" "unsigned_dec t" "dval s = - dval t" "0 < dval t"
proof (cases "startsWithMinus s")
  case True
  then obtain t where s: "s = CHR ''-'' # t" by (cases s) (auto simp: startsWithMinus_def)
  with assms True have u: "unsigned_dec t" "dval t \<noteq> 0" by (simp_all add: dec_wf_def)
  show ?thesis by (rule neg [OF s u(1)]) (use u s minus_dec(1) dval_unsigned_nonneg [OF u(1)] in auto)
next
  case False
  with assms have "unsigned_dec s" by (simp add: dec_wf_def)
  with False show ?thesis using pos dval_unsigned_nonneg by blast
qed

lemma startsWithMinus_iff: "dec_wf s \<Longrightarrow> startsWithMinus s \<longleftrightarrow> dval s < 0"
  by (erule dec_wf_cases) (auto simp: startsWithMinus_def)

section \<open>Unsigned sums and differences\<close>

lemma str_nat_pad_right: "length f \<le> n \<Longrightarrow> str_nat (pad_right n f) = str_nat f * 10 ^ (n - length f)"
  by (simp add: pad_right_def str_nat_append) (simp add: str_nat_lsd)

lemma uval_scaled:
  assumes "length f \<le> n"
  shows "uval i f * 10 ^ n = of_nat (str_nat i * 10 ^ n + str_nat (pad_right n f))"
proof -
  have "(10 :: rat) ^ n = 10 ^ length f * 10 ^ (n - length f)" using assms by (simp flip: power_add)
  then show ?thesis by (simp add: uval_def str_nat_pad_right [OF assms] distrib_right)
qed

lemma pad_right_props: "length f \<le> n \<Longrightarrow> length (pad_right n f) = n" "digits_only f \<Longrightarrow> digits_only (pad_right n f)"
  by (simp_all add: pad_right_def)

lemma rtrim_split:
  obtains t k where "f = t @ replicate k (CHR ''0'')" "rtrim_zeros f = (if t = [] then ''0'' else t)" "t = [] \<or> last t \<noteq> CHR ''0''"
proof -
  define t where "t = rev (dropWhile (\<lambda>c. c = CHR ''0'') (rev f))"
  define z where "z = takeWhile (\<lambda>c. c = CHR ''0'') (rev f)"
  have "rev f = z @ rev t" by (simp add: t_def z_def)
  then have "f = t @ rev z" by (metis rev_append rev_rev_ident)
  moreover have "\<forall>c \<in> set z. c = CHR ''0''" by (auto simp: z_def dest: set_takeWhileD)
  then have "z = replicate (length z) (CHR ''0'')" by (simp add: replicate_length_same)
  then have "rev z = replicate (length z) (CHR ''0'')" by (metis rev_replicate)
  moreover have "t = [] \<or> last t \<noteq> CHR ''0''"
    using hd_dropWhile [of "\<lambda>c. c = CHR ''0''" "rev f"] by (auto simp: t_def last_rev)
  ultimately show ?thesis using that [of t "length z"] by (auto simp: rtrim_zeros_def t_def)
qed

lemma join_decimal_correct:
  assumes "digits_only i" "i \<noteq> []" "digits_only f"
  shows "unsigned_dec (join_decimal i f)" "dval (join_decimal i f) = uval i f" "fdigits (join_decimal i f) \<le> length f"
proof -
  obtain t k where t: "f = t @ replicate k (CHR ''0'')" "rtrim_zeros f = (if t = [] then ''0'' else t)"
    "t = [] \<or> last t \<noteq> CHR ''0''" using rtrim_split .
  have u: "uval i f = uval i t"
    by (simp add: t(1) uval_def str_nat_append power_add) (simp add: str_nat_lsd)
  have "t \<noteq> [] \<Longrightarrow> t \<noteq> ''0''" using t(3) by auto
  then have j: "join_decimal i f = (if t = [] then i else i @ CHR ''.'' # t)"
    by (simp add: join_decimal_def t(2))
  have "digits_only t" using assms(3) t(1) by simp
  then have s: "split_decimal (join_decimal i f) = (i, t, False)"
    using assms by (simp add: j split_plain split_point)
  show "unsigned_dec (join_decimal i f)" using s assms \<open>digits_only t\<close> by (simp add: unsigned_dec_def)
  show "dval (join_decimal i f) = uval i f" by (simp add: dval_def s u)
  have "length t \<le> length f" by (simp add: t(1))
  then show "fdigits (join_decimal i f) \<le> length f" by (simp add: fdigits_def s)
qed

lemma strip_minus_digits: "digits_only i \<Longrightarrow> strip_minus i = i"
  using digits_no_minus(2) by (simp add: strip_minus_def)

lemma uval_cancel: "u * 10 ^ n = (v + w) * (10 :: rat) ^ n \<longleftrightarrow> u = v + w" "u * 10 ^ n = (v - w) * (10 :: rat) ^ n \<longleftrightarrow> u = v - w"
  by simp_all

lemma add_unsigned_correct:
  assumes "digits_only ai" "digits_only af" "digits_only bi" "digits_only bf" "ai \<noteq> []"
  shows "unsigned_dec (add_unsigned ai af bi bf)" "dval (add_unsigned ai af bi bf) = uval ai af + uval bi bf"
    "fdigits (add_unsigned ai af bi bf) \<le> max (length af) (length bf)"
proof -
  define n where "n = max (length af) (length bf)"
  have n: "length af \<le> n" "length bf \<le> n" by (simp_all add: n_def)
  obtain fs c where fs: "add_loop 0 (rev (pad_right n af)) (rev (pad_right n bf)) = (fs, c)" by force
  obtain is' c' where is': "add_loop c (rev ai) (rev bi) = (is', c')" by force
  have F: "lsd_val fs + 10 ^ length fs * c = str_nat (pad_right n af) + str_nat (pad_right n bf)" "digits_only fs" "length fs = n" "c \<le> 1"
    using add_loop_correct [OF _ _ _ fs] assms n by (auto simp: pad_right_props str_nat_lsd)
  have I: "lsd_val is' + 10 ^ length is' * c' = str_nat ai + str_nat bi + c" "digits_only is'" "c' \<le> 1" "is' \<noteq> []"
    using add_loop_correct [OF _ _ F(4) is'] assms by (auto simp: str_nat_lsd)
  define all where "all = is' @ (if c' > 0 then nat_str c' else [])"
  have all: "digits_only all" "all \<noteq> []" "lsd_val all = str_nat ai + str_nat bi + c"
    using I by (auto simp: all_def lsd_val_append nat_str.simps [of "Suc 0"] le_Suc_eq)
  have res: "add_unsigned ai af bi bf = join_decimal (rev all) (rev fs)"
    using fs is' by (simp add: add_unsigned_def Let_def n_def [symmetric] strip_minus_digits assms all_def)
  show "unsigned_dec (add_unsigned ai af bi bf)"
    unfolding res by (rule join_decimal_correct) (use all F in simp_all)
  show "fdigits (add_unsigned ai af bi bf) \<le> max (length af) (length bf)"
    unfolding res using join_decimal_correct(3) [of "rev all" "rev fs"] all F by (simp add: n_def)
  have "dval (add_unsigned ai af bi bf) * 10 ^ n = uval (rev all) (rev fs) * 10 ^ n"
    unfolding res by (subst join_decimal_correct(2)) (use all F in simp_all)
  also have "\<dots> = of_nat (lsd_val all * 10 ^ n + lsd_val fs)"
    by (subst uval_scaled) (use F(3) in \<open>simp_all add: str_nat_lsd pad_right_def\<close>)
  also have "lsd_val all * 10 ^ n + lsd_val fs =
      (str_nat ai * 10 ^ n + str_nat (pad_right n af)) + (str_nat bi * 10 ^ n + str_nat (pad_right n bf))"
    using F(1, 3) by (simp add: all(3) algebra_simps)
  also have "of_nat \<dots> = (uval ai af + uval bi bf) * 10 ^ n"
    unfolding of_nat_add uval_scaled [OF n(1), symmetric] uval_scaled [OF n(2), symmetric] distrib_right
    by (simp add: uval_scaled [OF n(1)] uval_scaled [OF n(2)])
  finally show "dval (add_unsigned ai af bi bf) = uval ai af + uval bi bf" by simp
qed

lemma sub_unsigned_correct:
  assumes "digits_only ai" "digits_only af" "digits_only bi" "digits_only bf" "uval bi bf \<le> uval ai af"
  shows "unsigned_dec (sub_unsigned ai af bi bf)" "dval (sub_unsigned ai af bi bf) = uval ai af - uval bi bf"
    "fdigits (sub_unsigned ai af bi bf) \<le> max (length af) (length bf)"
proof -
  define n where "n = max (length af) (length bf)"
  have n: "length af \<le> n" "length bf \<le> n" by (simp_all add: n_def)
  define A where "A = str_nat ai * 10 ^ n + str_nat (pad_right n af)"
  define B where "B = str_nat bi * 10 ^ n + str_nat (pad_right n bf)"
  have AB: "uval ai af * 10 ^ n = of_nat A" "uval bi bf * 10 ^ n = of_nat B"
    by (simp_all add: A_def B_def uval_scaled n del: of_nat_add)
  have le: "B \<le> A"
  proof -
    have "(of_nat B :: rat) \<le> of_nat A" unfolding AB [symmetric] using assms(5) by (simp add: mult_right_mono)
    then show ?thesis by simp
  qed
  obtain fs c where fs: "sub_loop 0 (rev (pad_right n af)) (rev (pad_right n bf)) = (fs, c)" by force
  obtain is' c' where is': "sub_loop c (rev ai) (rev bi) = (is', c')" by force
  have F: "int (lsd_val fs) - 10 ^ n * int c = int (str_nat (pad_right n af)) - int (str_nat (pad_right n bf))"
    "digits_only fs" "length fs = n" "c \<le> 1"
    using sub_loop_correct [OF _ _ _ fs] assms(1-4) n by (auto simp: pad_right_props str_nat_lsd)
  have I: "int (lsd_val is') - 10 ^ length is' * int c' = int (str_nat ai) - int (str_nat bi) - int c" "digits_only is'" "c' \<le> 1"
    using sub_loop_correct [OF _ _ F(4) is'] assms(1-4) by (auto simp: str_nat_lsd)
  define d where "d = dropWhile (\<lambda>c. c = CHR ''0'') (rev is')"
  define i where "i = (if d = [] then ''0'' else d)"
  have "digits_only d" using I(2) by (auto simp: d_def digits_only_def list_all_iff dest: set_dropWhileD)
  then have i: "digits_only i" "i \<noteq> []" by (auto simp: i_def)
  have z: "str_nat (dropWhile (\<lambda>c. c = CHR ''0'') s) = str_nat s" for s
    by (induction s) (auto simp: str_nat_def)
  have dv: "str_nat d = lsd_val is'" unfolding d_def z by (simp add: str_nat_lsd)
  have iv: "str_nat i = lsd_val is'"
  proof (cases "d = []")
    case True
    then show ?thesis using dv by (simp add: i_def str_nat_def)
  qed (use dv in \<open>simp add: i_def\<close>)
  have key: "int (lsd_val is') * 10 ^ n + int (lsd_val fs) = int A - int B + 10 ^ (length is' + n) * int c'"
  proof -
    have "int (lsd_val is') = int (str_nat ai) - int (str_nat bi) - int c + 10 ^ length is' * int c'"
      "int (lsd_val fs) = int (str_nat (pad_right n af)) - int (str_nat (pad_right n bf)) + 10 ^ n * int c"
      using I(1) F(1) by simp_all
    then show ?thesis by (simp only:) (simp add: A_def B_def algebra_simps power_add)
  qed
  have "lsd_val is' * 10 ^ n + lsd_val fs < 10 ^ (length is' + n)"
  proof -
    have "lsd_val is' + 1 \<le> 10 ^ length is'" "lsd_val fs < 10 ^ n"
      using lsd_val_bound [OF I(2)] lsd_val_bound [OF F(2)] F(3) by simp_all
    moreover from this have "(lsd_val is' + 1) * 10 ^ n \<le> 10 ^ length is' * 10 ^ n" by (intro mult_right_mono) simp_all
    ultimately show ?thesis by (simp add: power_add algebra_simps)
  qed
  then have "int (lsd_val is' * 10 ^ n + lsd_val fs) < int (10 ^ (length is' + n))" by (simp only: of_nat_less_iff)
  then have "int (lsd_val is') * 10 ^ n + int (lsd_val fs) < 10 ^ (length is' + n)" by simp
  with key le I(3) have "c' = 0" by (cases c') auto
  have res: "sub_unsigned ai af bi bf = join_decimal i (rev fs)"
    using fs is' by (simp add: sub_unsigned_def Let_def n_def [symmetric] strip_minus_digits assms i_def d_def)
  show "unsigned_dec (sub_unsigned ai af bi bf)"
    unfolding res by (rule join_decimal_correct) (use i F in simp_all)
  show "fdigits (sub_unsigned ai af bi bf) \<le> max (length af) (length bf)"
    unfolding res using join_decimal_correct(3) [of i "rev fs"] i F by (simp add: n_def)
  have "dval (sub_unsigned ai af bi bf) * 10 ^ n = uval i (rev fs) * 10 ^ n"
    unfolding res by (subst join_decimal_correct(2)) (use i F in simp_all)
  also have "\<dots> = of_nat (lsd_val is' * 10 ^ n + lsd_val fs)"
    by (subst uval_scaled) (use F(3) in \<open>simp_all add: iv str_nat_lsd [of "rev fs"] pad_right_def\<close>)
  also have "lsd_val is' * 10 ^ n + lsd_val fs = A - B"
  proof -
    have "int (lsd_val is' * 10 ^ n + lsd_val fs) = int (A - B)" using key \<open>c' = 0\<close> le by (simp add: of_nat_diff)
    then show ?thesis by (simp only: of_nat_eq_iff)
  qed
  also have "of_nat (A - B) = (uval ai af - uval bi bf) * 10 ^ n"
    using le by (simp add: of_nat_diff left_diff_distrib AB)
  finally show "dval (sub_unsigned ai af bi bf) = uval ai af - uval bi bf" by simp
qed

section \<open>Doubles\<close>

lemma pow2_powi: "pow2 e = 2 powi e"
  by (simp add: pow2_def power_int_def power_inverse inverse_eq_divide power_divide)

lemma pow2_pos [simp]: "0 < pow2 e"
  by (simp add: pow2_def)

lemma pow2_add: "pow2 (a + b) = pow2 a * pow2 b"
  by (simp add: pow2_powi power_int_add)

lemma pow2_mono: "a \<le> b \<Longrightarrow> pow2 a \<le> pow2 b"
  by (simp add: pow2_powi power_int_increasing)

lemma pow2_of_nat: "pow2 (int k) = 2 ^ k" "pow2 (- int k) = 1 / 2 ^ k"
  by (auto simp: pow2_def)

lemma bitlen_pow2_bounds: "0 < p \<Longrightarrow> pow2 (bitlen p - 1) \<le> of_int p \<and> of_int p < pow2 (bitlen p)"
proof -
  assume p: "0 < p"
  then have b: "1 \<le> bitlen p" by (metis bitlen_eq_zero_iff bitlen_nonneg int_one_le_iff_zero_less less_le not_less)
  have "2 ^ nat (bitlen p - 1) \<le> p" "p < 2 ^ nat (bitlen p)" using bitlen_bounds [OF p] by simp_all
  then have "(of_int (2 ^ nat (bitlen p - 1)) :: rat) \<le> of_int p" "(of_int p :: rat) < of_int (2 ^ nat (bitlen p))"
    by (simp_all only: of_int_le_iff of_int_less_iff)
  with b show ?thesis by (simp add: pow2_def)
qed

lemma flog2_bounds:
  assumes "0 < x"
  shows "pow2 (flog2 x) \<le> x" "x < pow2 (flog2 x + 1)"
proof -
  obtain p q where pq: "quotient_of x = (p, q)" by force
  then have x: "x = of_int p / of_int q" and q: "0 < q" using quotient_of_div quotient_of_denom_pos by blast+
  with assms have p: "0 < p" by (simp add: zero_less_divide_iff)
  define e where "e = bitlen p - bitlen q"
  note P = bitlen_pow2_bounds [OF p] and Q = bitlen_pow2_bounds [OF q]
  have q': "(0 :: rat) < of_int q" using q by simp
  have "pow2 (e - 1) * of_int q \<le> pow2 (e - 1) * pow2 (bitlen q)" using Q by (intro mult_left_mono) (simp_all add: less_imp_le)
  also have "\<dots> = pow2 (bitlen p - 1)" by (simp add: e_def flip: pow2_add)
  finally have lo: "pow2 (e - 1) \<le> x" using P by (simp add: x pos_le_divide_eq [OF q'])
  have "pow2 (bitlen p) = pow2 (e + 1) * pow2 (bitlen q - 1)" by (simp add: e_def flip: pow2_add)
  also have "\<dots> \<le> pow2 (e + 1) * of_int q" using Q by (intro mult_left_mono) (simp_all add: less_imp_le)
  finally have hi: "x < pow2 (e + 1)" using P by (simp add: x pos_divide_less_eq [OF q'])
  have fl: "flog2 x = (if pow2 e \<le> x then e else e - 1)" by (simp add: flog2_def pq e_def)
  show "pow2 (flog2 x) \<le> x" using lo by (simp add: fl)
  show "x < pow2 (flog2 x + 1)" using hi by (simp add: fl)
qed

lemma round_even_error: "\<bar>of_int (round_even y) - y\<bar> \<le> 1 / 2"
  by (auto simp: round_even_def Let_def abs_if) linarith+

text \<open>The relative error of a reading is at most \<open>2 ^ -53\<close>, away from the ends of the range.\<close>

lemma lua_double_error:
  assumes "pow2 (-1022) \<le> x" "x < 2 ^ 1000"
  shows "\<bar>lua_double x - x\<bar> \<le> x / 2 ^ 53"
proof -
  have x: "0 < x" using assms(1) pow2_pos order_less_le_trans by blast
  note fb = flog2_bounds [OF x]
  have "pow2 (-1022) < pow2 (flog2 x + 1)" using assms(1) fb(2) by simp
  then have f: "-1022 \<le> flog2 x" using pow2_mono [of "flog2 x + 1" "-1022"] by linarith
  define u where "u = pow2 (flog2 x - 52)"
  have u: "0 < u" by (simp add: u_def)
  define d where "d = of_int (round_even (x / u)) * u"
  have u53: "u * 2 ^ 52 = pow2 (flog2 x)" using pow2_add [of "flog2 x - 52" 52] by (simp add: u_def pow2_def [of 52])
  have "d - x = (of_int (round_even (x / u)) - x / u) * u" using u by (simp add: d_def left_diff_distrib)
  then have "\<bar>d - x\<bar> = \<bar>of_int (round_even (x / u)) - x / u\<bar> * u" using u by (simp add: abs_mult)
  also have "\<dots> \<le> 1 / 2 * u" by (intro mult_right_mono round_even_error) (use u in simp)
  also have "\<dots> \<le> x / 2 ^ 53" using fb(1) unfolding u53 [symmetric] by (simp add: field_simps)
  finally have err: "\<bar>d - x\<bar> \<le> x / 2 ^ 53" .
  have "x / 2 ^ 53 \<le> x / 1" using x by (intro divide_left_mono) simp_all
  with err have "d \<le> 2 * x" unfolding div_by_1 by linarith
  also have "\<dots> \<le> 2 * 2 ^ 1000" by (rule mult_left_mono) (use assms(2) in \<open>simp_all only: less_imp_le zero_le_numeral\<close>)
  also have "\<dots> = 2 ^ Suc 1000" by (rule power_Suc [symmetric])
  also have "\<dots> \<le> 2 ^ 1024" by (rule power_increasing) simp_all
  finally have "d \<le> 2 ^ 1024" .
  then have "lua_double x = d" using x f by (simp add: lua_double_def Let_def d_def u_def max_def)
  with err show ?thesis by simp
qed

text \<open>Two different numbers of up to fifteen digits, at one scale, stay different and ordered.\<close>

lemma small_range:
  assumes "0 < j" "j < 10 ^ 15" "k \<le> 300"
  shows "pow2 (-1022) \<le> of_nat j / 10 ^ k" "(of_nat j :: rat) / 10 ^ k < 2 ^ 1000"
proof -
  have "(10 :: rat) ^ k \<le> 10 ^ (3 * 100)" by (rule power_increasing) (use assms(3) in simp_all)
  also have "\<dots> = (10 ^ 3) ^ 100" by (rule power_mult)
  also have "\<dots> \<le> (2 ^ 10) ^ 100" by (rule power_mono) simp_all
  also have "\<dots> = 2 ^ (10 * 100)" by (rule power_mult [symmetric])
  also have "\<dots> \<le> 2 ^ 1022" by (rule power_increasing) simp_all
  finally have k: "(10 :: rat) ^ k \<le> 2 ^ 1022" .
  have "pow2 (-1022) = 1 / 2 ^ 1022" using pow2_of_nat(2) [of 1022] by (simp only: of_nat_numeral)
  also have "\<dots> \<le> 1 / 10 ^ k" using k by (intro divide_left_mono) simp_all
  also have "\<dots> \<le> of_nat j / 10 ^ k" using assms(1) by (intro divide_right_mono) simp_all
  finally show "pow2 (-1022) \<le> of_nat j / 10 ^ k" .
  have "(of_nat j :: rat) < of_nat (10 ^ 15)" using assms(2) by (simp only: of_nat_less_iff)
  have "(of_nat j :: rat) / 10 ^ k \<le> of_nat j / 1" by (rule divide_left_mono) simp_all
  also have "\<dots> < of_nat (10 ^ 15)" using assms(2) by (simp only: of_nat_less_iff div_by_1)
  also have "\<dots> \<le> 2 ^ 50" by simp
  also have "\<dots> \<le> 2 ^ 1000" by (rule power_increasing) simp_all
  finally show "(of_nat j :: rat) / 10 ^ k < 2 ^ 1000" .
qed

lemma lua_double_scaled:
  assumes "0 < j" "j < 10 ^ 15" "k \<le> 300"
  shows "\<bar>lua_double (of_nat j / 10 ^ k) * 10 ^ k - of_nat j\<bar> < 1 / 4"
proof -
  define x where "x = (of_nat j :: rat) / 10 ^ k"
  have j: "(of_nat j :: rat) < 10 ^ 15" using of_nat_less_iff [of j "10 ^ 15", where ?'a = rat] assms(2) by simp
  have "lua_double x * 10 ^ k - of_nat j = (lua_double x - x) * 10 ^ k" by (simp add: x_def left_diff_distrib)
  then have "\<bar>lua_double x * 10 ^ k - of_nat j\<bar> = \<bar>lua_double x - x\<bar> * 10 ^ k" by (simp add: abs_mult)
  also have "\<dots> \<le> x / 2 ^ 53 * 10 ^ k"
    by (intro mult_right_mono lua_double_error) (use small_range [OF assms] in \<open>simp_all add: x_def\<close>)
  also have "\<dots> = of_nat j / 2 ^ 53" by (simp add: x_def)
  also have "\<dots> < 10 ^ 15 / 2 ^ 53" using j by (intro divide_strict_right_mono) simp_all
  also have "\<dots> < 1 / 4" by simp
  finally show ?thesis by (simp add: x_def)
qed

lemma lua_double_less:
  assumes "m < n" "n < 10 ^ 15" "k \<le> 300"
  shows "lua_double (of_nat m / 10 ^ k) < lua_double (of_nat n / 10 ^ k)"
proof -
  have N: "of_nat n - 1 / 4 < lua_double (of_nat n / 10 ^ k) * 10 ^ k"
    using lua_double_scaled [of n k] assms by linarith
  have M: "lua_double (of_nat m / 10 ^ k) * 10 ^ k < of_nat m + 1 / 4"
  proof (cases "m = 0")
    case False
    with lua_double_scaled [of m k] assms show ?thesis by linarith
  qed (simp add: lua_double_def)
  have "(of_nat m :: rat) + 1 \<le> of_nat n" using assms(1) of_nat_le_iff [of "m + 1" n, where ?'a = rat] by simp
  with N M have "lua_double (of_nat m / 10 ^ k) * 10 ^ k < lua_double (of_nat n / 10 ^ k) * 10 ^ k" by linarith
  then show ?thesis by simp
qed

lemma tonumber_unsigned:
  assumes "unsigned_dec s"
  shows "tonumber s = Some (lua_double (dval s))"
proof -
  obtain i f where s: "split_decimal s = (i, f, False)" "i \<noteq> []" "digits_only i" "digits_only f" "dval s = uval i f"
    using unsigned_decE [OF assms] .
  have sg: "read_sign (i @ r) = (False, i @ r)" for r
    using s(2, 3) by (cases i) (auto simp: read_sign_def is_digit_def)
  have "read_numeral s = Some (dval s)"
  proof (cases "f = []")
    case True
    then have "s = i" using split_cases [OF s(1)] by simp
    with s True sg [of "[]"] show ?thesis
      by (simp add: read_numeral_def takeWhile_digits read_exponent_def pow10_def str_int_nat uval_def) (simp add: str_nat_def)
  next
    case False
    then have "s = i @ CHR ''.'' # f" using split_cases [OF s(1)] by simp
    with s False sg show ?thesis
      by (simp add: read_numeral_def takeWhile_digits read_exponent_def pow10_def str_int_nat uval_def str_nat_append add_divide_distrib)
  qed
  with dval_unsigned_nonneg [OF assms] show ?thesis by (simp add: tonumber_def)
qed

section \<open>Signed sums, differences and comparisons\<close>

text \<open>Both numbers have at most fifteen digits at the finer of their two scales.\<close>

definition fits15 :: "string \<Rightarrow> string \<Rightarrow> bool" where
  "fits15 a b \<longleftrightarrow>
     (let k = max (fdigits a) (fdigits b)
      in k \<le> 300 \<and> \<bar>dval a\<bar> * 10 ^ k < 10 ^ 15 \<and> \<bar>dval b\<bar> * 10 ^ k < 10 ^ 15)"

lemma dval_scaled_nat:
  assumes "unsigned_dec s" "fdigits s \<le> k"
  obtains m where "dval s = of_nat m / 10 ^ k"
proof -
  obtain i f where s: "split_decimal s = (i, f, False)" "dval s = uval i f" using unsigned_decE [OF assms(1)] .
  with assms(2) have "length f \<le> k" by (simp add: fdigits_def)
  from uval_scaled [OF this, of i] have "uval i f = of_nat (str_nat i * 10 ^ k + str_nat (pad_right k f)) / 10 ^ k"
    by (simp add: eq_divide_eq del: of_nat_add)
  with s that show ?thesis by metis
qed

lemma lua_less_correct:
  assumes "unsigned_dec a" "unsigned_dec b" "fits15 a b"
  shows "lua_less a b = Some (dval a < dval b)"
proof -
  define k where "k = max (fdigits a) (fdigits b)"
  have k: "k \<le> 300" "\<bar>dval a\<bar> * 10 ^ k < 10 ^ 15" "\<bar>dval b\<bar> * 10 ^ k < 10 ^ 15"
    using assms(3) by (simp_all add: fits15_def Let_def k_def)
  obtain m where m: "dval a = of_nat m / 10 ^ k" by (rule dval_scaled_nat [OF assms(1), of k]) (simp_all add: k_def)
  obtain n where n: "dval b = of_nat n / 10 ^ k" by (rule dval_scaled_nat [OF assms(2), of k]) (simp_all add: k_def)
  have mn: "m < 10 ^ 15" "n < 10 ^ 15"
    using k(2, 3) of_nat_less_iff [of m "10 ^ 15", where ?'a = rat] of_nat_less_iff [of n "10 ^ 15", where ?'a = rat]
    by (simp_all add: m n)
  have "dval a < dval b \<longleftrightarrow> m < n" by (simp add: m n divide_less_cancel)
  moreover have "lua_double (dval a) < lua_double (dval b) \<longleftrightarrow> m < n"
    using lua_double_less [of m n k] lua_double_less [of n m k] mn k(1)
    by (cases m n rule: linorder_cases) (auto simp: m n)
  ultimately show ?thesis using assms by (simp add: lua_less_def tonumber_unsigned)
qed

lemma fits15_swap: "fits15 a b \<Longrightarrow> fits15 b a"
  by (simp add: fits15_def Let_def max.commute)

lemma fdigits_minus: "unsigned_dec t \<Longrightarrow> fdigits (CHR ''-'' # t) = fdigits t"
  by (rule unsigned_decE [of t]) (simp_all add: fdigits_def split_minus)

lemma fits15_minus [simp]:
  "unsigned_dec t \<Longrightarrow> fits15 (CHR ''-'' # t) b = fits15 t b" "unsigned_dec t \<Longrightarrow> fits15 b (CHR ''-'' # t) = fits15 b t"
  by (simp_all add: fits15_def fdigits_minus minus_dec)

text \<open>\<open>computes k r x\<close>: the string \<open>r\<close> is there, is a numeral with at most \<open>k\<close> decimal places and has
  the value \<open>x\<close>. A result has no more decimal places than the operands.\<close>

definition computes :: "nat \<Rightarrow> string option \<Rightarrow> rat \<Rightarrow> bool" where
  "computes k r x \<longleftrightarrow> (\<exists>s. r = Some s \<and> dec_wf s \<and> fdigits s \<le> k \<and> dval s = x)"

abbreviation places :: "string \<Rightarrow> string \<Rightarrow> nat" where
  "places a b \<equiv> max (fdigits a) (fdigits b)"

lemma computes_unsigned: "unsigned_dec s \<Longrightarrow> fdigits s \<le> k \<Longrightarrow> computes k (Some s) (dval s)"
  by (simp add: computes_def dec_wf_unsigned)

lemma computes_minus:
  assumes "computes k r x" "0 < x"
  shows "computes k (map_option ((#) (CHR ''-'')) r) (- x)"
proof -
  obtain s where s: "r = Some s" "dec_wf s" "dval s = x" "fdigits s \<le> k" using assms(1) by (auto simp: computes_def)
  from s(2) have "unsigned_dec s" using s(3) assms(2) by (cases rule: dec_wf_cases) simp_all
  with s assms(2) show ?thesis by (simp add: computes_def minus_dec fdigits_minus)
qed

lemma add_decimal_eq:
  "add_decimal a b =
     (if negative a \<and> negative b then map_option ((#) (CHR ''-'')) (add_decimal (drop 1 a) (drop 1 b))
      else if negative a then sub_decimal b (drop 1 a)
      else if negative b then sub_decimal a (drop 1 b)
      else Some (add_unsigned (fst (split_decimal a)) (fst (snd (split_decimal a)))
        (fst (split_decimal b)) (fst (snd (split_decimal b)))))"
  by (cases "split_decimal a"; cases "split_decimal b") (simp add: add_decimal.simps [of a b])

lemma sub_decimal_eq:
  "sub_decimal a b =
     (if negative a \<and> negative b then sub_decimal (drop 1 b) (drop 1 a)
      else if negative a then map_option ((#) (CHR ''-'')) (add_decimal (drop 1 a) b)
      else if negative b then add_decimal a (drop 1 b)
      else case lua_less a b of
        None \<Rightarrow> None
      | Some True \<Rightarrow> map_option ((#) (CHR ''-'')) (sub_decimal b a)
      | Some False \<Rightarrow> Some (sub_unsigned (fst (split_decimal a)) (fst (snd (split_decimal a)))
          (fst (split_decimal b)) (fst (snd (split_decimal b)))))"
  by (cases "split_decimal a"; cases "split_decimal b")
     (simp add: sub_decimal.simps [of a b] split: option.split bool.split)

lemma add_plain:
  assumes "unsigned_dec a" "unsigned_dec b"
  shows "computes (places a b) (add_decimal a b) (dval a + dval b)"
proof -
  obtain ai af where a: "split_decimal a = (ai, af, False)" "ai \<noteq> []" "digits_only ai" "digits_only af" "dval a = uval ai af"
    using unsigned_decE [OF assms(1)] .
  obtain bi bf where b: "split_decimal b = (bi, bf, False)" "bi \<noteq> []" "digits_only bi" "digits_only bf" "dval b = uval bi bf"
    using unsigned_decE [OF assms(2)] .
  have "add_decimal a b = Some (add_unsigned ai af bi bf)" by (simp add: add_decimal.simps a b)
  moreover have "fdigits a = length af" "fdigits b = length bf" by (simp_all add: fdigits_def a b)
  ultimately show ?thesis
    using add_unsigned_correct [OF a(3, 4) b(3, 4) a(2)] computes_unsigned [of "add_unsigned ai af bi bf"] by (simp add: a(5) b(5))
qed

lemma sub_ordered:
  assumes "unsigned_dec a" "unsigned_dec b" "lua_less a b = Some False" "dval b \<le> dval a"
  shows "computes (places a b) (sub_decimal a b) (dval a - dval b)"
proof -
  obtain ai af where a: "split_decimal a = (ai, af, False)" "ai \<noteq> []" "digits_only ai" "digits_only af" "dval a = uval ai af"
    using unsigned_decE [OF assms(1)] .
  obtain bi bf where b: "split_decimal b = (bi, bf, False)" "bi \<noteq> []" "digits_only bi" "digits_only bf" "dval b = uval bi bf"
    using unsigned_decE [OF assms(2)] .
  have le: "uval bi bf \<le> uval ai af" using assms(4) a b by simp
  have "sub_decimal a b = Some (sub_unsigned ai af bi bf)" by (simp add: sub_decimal.simps a b assms(3))
  moreover have "fdigits a = length af" "fdigits b = length bf" by (simp_all add: fdigits_def a b)
  ultimately show ?thesis
    using sub_unsigned_correct [OF a(3, 4) b(3, 4) le] computes_unsigned [of "sub_unsigned ai af bi bf"] by (simp add: a(5) b(5))
qed

lemma sub_plain:
  assumes u: "unsigned_dec a" "unsigned_dec b" and "fits15 a b"
  shows "computes (places a b) (sub_decimal a b) (dval a - dval b)"
proof (cases "dval a < dval b")
  case True
  have ab: "lua_less a b = Some True" "lua_less b a = Some False"
    using lua_less_correct u fits15_swap assms(3) True by auto
  have "\<not> negative a" "\<not> negative b" using u by (auto simp: unsigned_dec_def)
  then have "sub_decimal a b = map_option ((#) (CHR ''-'')) (sub_decimal b a)"
    using ab by (simp add: sub_decimal_eq [of a b])
  moreover have "computes (places a b) (sub_decimal b a) (dval b - dval a)" using sub_ordered [of b a] u ab True by (simp add: max.commute)
  ultimately show ?thesis using computes_minus [of _ "sub_decimal b a" "dval b - dval a"] True by simp
next
  case False
  then show ?thesis using sub_ordered u lua_less_correct assms(3) by simp
qed

lemma split_signs:
  "unsigned_dec t \<Longrightarrow> negative (CHR ''-'' # t)" "unsigned_dec t \<Longrightarrow> \<not> negative t"
  by (auto simp: negative_iff dest!: unsigned_no_minus simp: startsWithMinus_def)

text \<open>How the two functions reduce signed numbers to unsigned ones.\<close>

lemma signed_reductions:
  assumes "unsigned_dec a" "unsigned_dec b"
  shows "add_decimal (CHR ''-'' # a) (CHR ''-'' # b) = map_option ((#) (CHR ''-'')) (add_decimal a b)"
    "add_decimal (CHR ''-'' # a) b = sub_decimal b a" "add_decimal a (CHR ''-'' # b) = sub_decimal a b"
    "sub_decimal (CHR ''-'' # a) (CHR ''-'' # b) = sub_decimal b a"
    "sub_decimal (CHR ''-'' # a) b = map_option ((#) (CHR ''-'')) (add_decimal a b)"
    "sub_decimal a (CHR ''-'' # b) = add_decimal a b"
  using split_signs [OF assms(1)] split_signs [OF assms(2)]
  by (simp_all add: add_decimal_eq [of "CHR ''-'' # a"] add_decimal_eq [of a "CHR ''-'' # b"]
      sub_decimal_eq [of "CHR ''-'' # a"] sub_decimal_eq [of a "CHR ''-'' # b"])

lemma add_decimal_correct:
  assumes "dec_wf a" "dec_wf b" "fits15 a b"
  shows "computes (places a b) (add_decimal a b) (dval a + dval b)"
  using assms(1)
proof (cases rule: dec_wf_cases)
  case pos
  from assms(2) show ?thesis
    by (cases rule: dec_wf_cases) (use pos assms(3) add_plain sub_plain in \<open>auto simp: signed_reductions fdigits_minus\<close>)
next
  case (neg t)
  from assms(2) show ?thesis
  proof (cases rule: dec_wf_cases)
    case pos
    then show ?thesis using neg assms(3) sub_plain [of b t] by (auto simp: signed_reductions fits15_swap fdigits_minus max.commute)
  next
    case (neg u)
    then show ?thesis using \<open>a = CHR ''-'' # t\<close> \<open>unsigned_dec t\<close> \<open>dval a = - dval t\<close> \<open>0 < dval t\<close>
        computes_minus [OF add_plain [of t u]] by (simp add: signed_reductions fdigits_minus)
  qed
qed

lemma sub_decimal_correct:
  assumes "dec_wf a" "dec_wf b" "fits15 a b"
  shows "computes (places a b) (sub_decimal a b) (dval a - dval b)"
  using assms(1)
proof (cases rule: dec_wf_cases)
  case pos
  from assms(2) show ?thesis
  proof (cases rule: dec_wf_cases)
    case (neg u)
    then show ?thesis using pos add_plain [of a u] by (simp add: signed_reductions fdigits_minus)
  qed (use pos assms(3) sub_plain in blast)
next
  case (neg t)
  from assms(2) show ?thesis
  proof (cases rule: dec_wf_cases)
    case pos
    then show ?thesis using neg computes_minus [OF add_plain [of t b]] by (simp add: signed_reductions fdigits_minus)
  next
    case (neg u)
    then show ?thesis using \<open>a = CHR ''-'' # t\<close> \<open>unsigned_dec t\<close> \<open>dval a = - dval t\<close> assms(3) sub_plain [of u t]
      by (simp add: signed_reductions fits15_swap fdigits_minus max.commute)
  qed
qed

lemma min_decimal_correct:
  assumes "dec_wf a" "dec_wf b" "fits15 a b"
  shows "computes (places a b) (min_decimal a b) (min (dval a) (dval b))"
proof -
  obtain d where d: "sub_decimal a b = Some d" "dec_wf d" "dval d = dval a - dval b"
    using sub_decimal_correct [OF assms] by (auto simp: computes_def)
  then show ?thesis using assms(1, 2) by (auto simp: min_decimal_def computes_def startsWithMinus_iff)
qed

text \<open>
  \<open>small k B s\<close>: a numeral with at most \<open>k\<close> decimal places and a value that, counted in its last
  place, is less than \<open>B\<close>. Sums and differences of small numerals are exact and small.
\<close>

definition small :: "nat \<Rightarrow> rat \<Rightarrow> string \<Rightarrow> bool" where
  "small k B s \<longleftrightarrow> dec_wf s \<and> fdigits s \<le> k \<and> \<bar>dval s\<bar> * 10 ^ k < B"

lemma small_mono: "small k A s \<Longrightarrow> A \<le> B \<Longrightarrow> small k B s"
  by (auto simp: small_def)

lemma small_fits15:
  assumes "small k (10 ^ 15) a" "small k (10 ^ 15) b" "k \<le> 300"
  shows "fits15 a b"
proof -
  have "\<bar>dval s\<bar> * 10 ^ places a b < 10 ^ 15" if "small k (10 ^ 15) s" for s
  proof -
    have "\<bar>dval s\<bar> * 10 ^ places a b \<le> \<bar>dval s\<bar> * 10 ^ k"
      by (intro mult_left_mono power_increasing) (use assms in \<open>simp_all add: small_def\<close>)
    with that show ?thesis by (simp add: small_def)
  qed
  with assms show ?thesis by (simp add: fits15_def Let_def small_def)
qed

lemma computes_small:
  assumes "computes (places a b) r x" "fdigits a \<le> k" "fdigits b \<le> k" "\<bar>x\<bar> * 10 ^ k < C"
  shows "\<exists>s. r = Some s \<and> small k C s \<and> dval s = x"
proof -
  obtain s where s: "r = Some s" "dec_wf s" "fdigits s \<le> places a b" "dval s = x" using assms(1) by (auto simp: computes_def)
  have "fdigits s \<le> k" by (rule order_trans [OF s(3)]) (use assms(2, 3) in simp)
  with s assms(4) show ?thesis by (intro exI [of _ s]) (simp add: small_def)
qed

lemma small_arith:
  assumes "small k A a" "small k B b" "A \<le> 10 ^ 15" "B \<le> 10 ^ 15" "k \<le> 300"
  shows small_add: "\<exists>s. add_decimal a b = Some s \<and> small k (A + B) s \<and> dval s = dval a + dval b"
    and small_sub: "\<exists>s. sub_decimal a b = Some s \<and> small k (A + B) s \<and> dval s = dval a - dval b"
    and small_min: "\<exists>s. min_decimal a b = Some s \<and> small k (max A B) s \<and> dval s = min (dval a) (dval b)"
proof -
  have wf: "dec_wf a" "dec_wf b" and fd: "fdigits a \<le> k" "fdigits b \<le> k"
    and v: "\<bar>dval a\<bar> * 10 ^ k < A" "\<bar>dval b\<bar> * 10 ^ k < B"
    using assms by (simp_all add: small_def)
  have f: "fits15 a b" using small_fits15 small_mono assms by blast
  have "\<bar>dval a + dval b\<bar> * 10 ^ k \<le> (\<bar>dval a\<bar> + \<bar>dval b\<bar>) * 10 ^ k" "\<bar>dval a - dval b\<bar> * 10 ^ k \<le> (\<bar>dval a\<bar> + \<bar>dval b\<bar>) * 10 ^ k"
    by (intro mult_right_mono; simp)+
  then have sums: "\<bar>dval a + dval b\<bar> * 10 ^ k < A + B" "\<bar>dval a - dval b\<bar> * 10 ^ k < A + B"
    using v by (simp_all add: distrib_right)
  have mins: "\<bar>min (dval a) (dval b)\<bar> * 10 ^ k < max A B" using v by (auto simp: min_def)
  show "\<exists>s. add_decimal a b = Some s \<and> small k (A + B) s \<and> dval s = dval a + dval b"
    by (rule computes_small [OF add_decimal_correct [OF wf f] fd sums(1)])
  show "\<exists>s. sub_decimal a b = Some s \<and> small k (A + B) s \<and> dval s = dval a - dval b"
    by (rule computes_small [OF sub_decimal_correct [OF wf f] fd sums(2)])
  show "\<exists>s. min_decimal a b = Some s \<and> small k (max A B) s \<and> dval s = min (dval a) (dval b)"
    by (rule computes_small [OF min_decimal_correct [OF wf f] fd mins])
qed

section \<open>The sign test\<close>

lemma digit_val_eq_0: "is_digit c \<Longrightarrow> digit_val c = 0 \<longleftrightarrow> c = CHR ''0''"
proof
  assume "is_digit c" "digit_val c = 0"
  then have "of_char c = (of_char (CHR ''0'') :: nat)" by (simp add: is_digit_def digit_val_def)
  then show "c = CHR ''0''" by (simp only: of_char_eq_iff)
qed simp

lemma str_nat_zero_iff: "digits_only s \<Longrightarrow> str_nat s = 0 \<longleftrightarrow> (\<forall>c \<in> set s. c = CHR ''0'')"
  by (induction s rule: rev_induct) (auto simp: str_nat_snoc digit_val_eq_0, simp add: str_nat_def)

lemma zero_part:
  "digits_only t \<Longrightarrow> t = [] \<or> last t \<noteq> CHR ''0'' \<Longrightarrow> str_nat (t @ replicate k (CHR ''0'')) = 0 \<longleftrightarrow> t = []"
  by (cases t rule: rev_cases) (simp_all add: str_nat_zero_iff)

lemma zero_tail:
  "u = [] \<or> last u \<noteq> CHR ''0'' \<Longrightarrow> rev (dropWhile (\<lambda>c. c = CHR ''0'') (rev (u @ replicate k (CHR ''0'')))) = u"
  by (cases u rule: rev_cases) (simp_all add: dropWhile_append)

lemma drop_zero_tail_eq:
  assumes "u = [] \<or> last u \<noteq> CHR ''0''"
  shows "drop_zero_tail (u @ replicate k (CHR ''0'')) = (if 0 < k \<and> u \<noteq> [] \<and> last u = CHR ''.'' then butlast u else u)"
  unfolding drop_zero_tail_def zero_tail [OF assms] by simp

lemma zeros_prefix: "dropWhile (\<lambda>c. c = CHR ''0'') (i @ CHR ''.'' # t) \<noteq> []"
  "t \<noteq> [] \<Longrightarrow> dropWhile (\<lambda>c. c = CHR ''0'') (i @ CHR ''.'' # t) \<noteq> ''.''"
  by (induction i) auto

lemma digits_no_point: "digits_only s \<Longrightarrow> dropWhile P s \<noteq> ''.''"
  by (induction s) auto

lemma isPositive_plain:
  assumes "digits_only u" "u = [] \<or> last u \<noteq> CHR ''0''"
  shows "isPositive (u @ replicate k (CHR ''0'')) \<longleftrightarrow> u \<noteq> []"
proof -
  have "u \<noteq> [] \<Longrightarrow> last u \<noteq> CHR ''.''" using assms(1) by (cases u rule: rev_cases) auto
  then have "drop_zero_tail (u @ replicate k (CHR ''0'')) = u" using drop_zero_tail_eq [OF assms(2), of k] by auto
  moreover have "\<not> startsWithMinus (u @ replicate k (CHR ''0''))"
    using digits_no_minus(2) [of "u @ replicate k (CHR ''0'')"] assms(1) by (simp add: startsWithMinus_def)
  moreover have "dropWhile (\<lambda>c. c = CHR ''0'') u \<noteq> [] \<longleftrightarrow> u \<noteq> []"
    using assms(2) last_in_set by (fastforce simp: dropWhile_eq_Nil_conv)
  moreover have "dropWhile (\<lambda>c. c = CHR ''0'') u \<noteq> ''.''" by (rule digits_no_point [OF assms(1)])
  ultimately show ?thesis by (simp add: isPositive_def)
qed

lemma isPositive_unsigned:
  assumes "unsigned_dec s"
  shows "isPositive s \<longleftrightarrow> 0 < dval s"
proof -
  obtain i f where s: "split_decimal s = (i, f, False)" "i \<noteq> []" "digits_only i" "digits_only f" "dval s = uval i f"
    using unsigned_decE [OF assms] .
  have pos: "0 < dval s \<longleftrightarrow> str_nat i \<noteq> 0 \<or> str_nat f \<noteq> 0"
    unfolding s(5) uval_def by (cases "str_nat i = 0"; cases "str_nat f = 0") (simp_all add: add_pos_pos)
  show ?thesis
  proof (cases "f = []")
    case True
    obtain t k where t: "i = t @ replicate k (CHR ''0'')" "t = [] \<or> last t \<noteq> CHR ''0''" using rtrim_split [of i] by metis
    with isPositive_plain [of t k] s(3) split_cases [OF s(1)] True
    have "isPositive s \<longleftrightarrow> t \<noteq> []" by simp
    also have "\<dots> \<longleftrightarrow> str_nat i \<noteq> 0" using zero_part [of t k] t s(3) by simp
    finally show ?thesis using True by (simp add: pos str_nat_def)
  next
    case False
    obtain t k where t: "f = t @ replicate k (CHR ''0'')" "t = [] \<or> last t \<noteq> CHR ''0''" using rtrim_split [of f] by metis
    have sf: "s = (i @ CHR ''.'' # t) @ replicate k (CHR ''0'')" using split_cases [OF s(1)] False t by auto
    have nm: "\<not> startsWithMinus s" by (rule unsigned_no_minus [OF assms])
    have dz: "drop_zero_tail s = (if t = [] then i else i @ CHR ''.'' # t)"
    proof -
      have "t \<noteq> [] \<Longrightarrow> last t \<noteq> CHR ''.''" using t(1) s(4) by (cases t rule: rev_cases) auto
      then show ?thesis unfolding sf by (subst drop_zero_tail_eq) (use t False in \<open>auto split: if_splits\<close>)
    qed
    have fz: "str_nat f = 0 \<longleftrightarrow> t = []" using zero_part [of t k] t s(4) by simp
    have iz: "dropWhile (\<lambda>c. c = CHR ''0'') i = [] \<longleftrightarrow> str_nat i = 0"
      by (simp add: str_nat_zero_iff [OF s(3)] dropWhile_eq_Nil_conv)
    have ip: "dropWhile (\<lambda>c. c = CHR ''0'') i \<noteq> ''.''"
      by (rule digits_no_point [OF s(3)])
    show ?thesis using nm iz ip zeros_prefix by (cases "t = []") (auto simp add: isPositive_def dz pos fz)
  qed
qed

lemma isPositive_iff: "dec_wf s \<Longrightarrow> isPositive s \<longleftrightarrow> 0 < dval s"
  by (erule dec_wf_cases) (auto simp: isPositive_unsigned, simp add: isPositive_def startsWithMinus_def)

section \<open>The arithmetic is exact\<close>

text \<open>
  C14. The script's decimal arithmetic agrees with exact arithmetic. For
  any two numerals of the form that balances and amounts are printed in, whose digits at the finer of
  their two scales number at most fifteen, addition, subtraction and minimum return a numeral again
  (they neither raise nor produce a negative zero), and it denotes the exact sum, difference and
  minimum; and the tests for a negative and for a positive number are right.
\<close>

theorem script_arithmetic_exact:
  assumes "dec_wf a" "dec_wf b" "fits15 a b"
  shows "(\<exists>s d m. add_decimal a b = Some s \<and> sub_decimal a b = Some d \<and> min_decimal a b = Some m \<and>
      dec_wf s \<and> dec_wf d \<and> dec_wf m \<and>
      dval s = dval a + dval b \<and> dval d = dval a - dval b \<and> dval m = min (dval a) (dval b)) \<and>
    (startsWithMinus a \<longleftrightarrow> dval a < 0) \<and> (isPositive a \<longleftrightarrow> 0 < dval a)"
  using add_decimal_correct [OF assms] sub_decimal_correct [OF assms] min_decimal_correct [OF assms]
    startsWithMinus_iff [OF assms(1)] isPositive_iff [OF assms(1)]
  by (auto simp: computes_def)

text \<open>
  Past fifteen digits the comparison of doubles decides wrongly: the script takes the difference of
  two amounts that differ in the eighteenth decimal place to be almost ten, and positive.
\<close>

lemma sub_decimal_past_doubles:
  "sub_decimal ''1.000000000000000001'' ''1.000000000000000002'' = Some ''9.999999999999999999''"
  by code_simp

section \<open>Witnesses\<close>

theorem script_arithmetic_exact_witness:
  "dec_wf ''12.5'' \<and> dec_wf ''-99.75'' \<and> fits15 ''12.5'' ''-99.75'' \<and>
   (\<exists>s. add_decimal ''12.5'' ''-99.75'' = Some s \<and> dval s = dval ''12.5'' + dval ''-99.75'')"
proof -
  have "dec_wf ''12.5''" "dec_wf ''-99.75''" "fits15 ''12.5'' ''-99.75''"
    by (simp_all add: dec_wf_def unsigned_dec_def startsWithMinus_def split_decimal_def is_digit_def digits_only_def
        dval_def uval_def str_nat_def digit_val_def fits15_def fdigits_def)
  with script_arithmetic_exact [OF this] show ?thesis by blast
qed

end
