(* ===== verification/BalanceScript.thy ===== *)
theory BalanceScript
  imports LuaDecimalProofs LedgerOverdraft "HOL-Library.Monad_Syntax"
begin

text \<open>
  The script \<^verbatim>\<open>balance_atomic_operation.lua\<close>, which Redis runs as one atomic step for every
  transaction: it applies a batch of operations to the cached balances, seeding a balance that is
  not cached from the value the caller read, and either writes all of them back or refuses the
  batch and restores what it had written.

  \<open>LuaBalance\<close> is the table of a balance inside the script, \<open>CachedBalance\<close> the JSON object in the
  cache, in which the overdraft fields of entries written by older versions may be absent.
  \<open>ScriptOp\<close> is one group of twenty-four arguments; the numbers among them (flags and the version)
  are integers here, the amounts stay strings. The caches of one Redis are a map from keys to
  entries, the schedule of keys to synchronise is a map from keys to due times, and the backup
  queue maps a transaction to the balances before and after. Expiry is not part of a script run.
  An error inside Lua ends the script without undoing its writes (\<open>LuaRaised\<close>), as Redis does.
\<close>

section \<open>Data\<close>

record LuaBalance =
  lb_ID :: string
  lb_Available :: string
  lb_OnHold :: string
  lb_Version :: int
  lb_AccountType :: string
  lb_AccountID :: string
  lb_AssetCode :: string
  lb_AllowSending :: int
  lb_AllowReceiving :: int
  lb_Key :: string
  lb_Direction :: string
  lb_OverdraftUsed :: string
  lb_AllowOverdraft :: int
  lb_OverdraftLimitEnabled :: int
  lb_OverdraftLimit :: string
  lb_BalanceScope :: string
  lb_Alias :: "string option"

record CachedBalance =
  cb_ID :: string
  cb_Available :: string
  cb_OnHold :: string
  cb_Version :: int
  cb_AccountType :: string
  cb_AccountID :: string
  cb_AssetCode :: string
  cb_AllowSending :: int
  cb_AllowReceiving :: int
  cb_Key :: string
  cb_Direction :: "string option"
  cb_OverdraftUsed :: "string option"
  cb_AllowOverdraft :: "int option"
  cb_OverdraftLimitEnabled :: "int option"
  cb_OverdraftLimit :: "string option"
  cb_BalanceScope :: "string option"
  cb_Alias :: "string option"

definition cjson_encode :: "LuaBalance \<Rightarrow> CachedBalance" where
  "cjson_encode b =
     \<lparr>cb_ID = lb_ID b, cb_Available = lb_Available b, cb_OnHold = lb_OnHold b, cb_Version = lb_Version b,
      cb_AccountType = lb_AccountType b, cb_AccountID = lb_AccountID b, cb_AssetCode = lb_AssetCode b,
      cb_AllowSending = lb_AllowSending b, cb_AllowReceiving = lb_AllowReceiving b, cb_Key = lb_Key b,
      cb_Direction = Some (lb_Direction b), cb_OverdraftUsed = Some (lb_OverdraftUsed b),
      cb_AllowOverdraft = Some (lb_AllowOverdraft b), cb_OverdraftLimitEnabled = Some (lb_OverdraftLimitEnabled b),
      cb_OverdraftLimit = Some (lb_OverdraftLimit b), cb_BalanceScope = Some (lb_BalanceScope b), cb_Alias = lb_Alias b\<rparr>"

definition or_default :: "'a \<Rightarrow> 'a option \<Rightarrow> 'a" where
  "or_default d v = (case v of None \<Rightarrow> d | Some x \<Rightarrow> x)"

definition cjson_decode :: "CachedBalance \<Rightarrow> LuaBalance" where
  "cjson_decode c =
     \<lparr>lb_ID = cb_ID c, lb_Available = cb_Available c, lb_OnHold = cb_OnHold c, lb_Version = cb_Version c,
      lb_AccountType = cb_AccountType c, lb_AccountID = cb_AccountID c, lb_AssetCode = cb_AssetCode c,
      lb_AllowSending = cb_AllowSending c, lb_AllowReceiving = cb_AllowReceiving c, lb_Key = cb_Key c,
      lb_Direction = or_default '''' (cb_Direction c), lb_OverdraftUsed = or_default ''0'' (cb_OverdraftUsed c),
      lb_AllowOverdraft = or_default 0 (cb_AllowOverdraft c),
      lb_OverdraftLimitEnabled = or_default 0 (cb_OverdraftLimitEnabled c),
      lb_OverdraftLimit = or_default ''0'' (cb_OverdraftLimit c),
      lb_BalanceScope = or_default ''transactional'' (cb_BalanceScope c), lb_Alias = cb_Alias c\<rparr>"

record ScriptOp =
  so_redisBalanceKey :: string
  so_isPending :: int
  so_transactionStatus :: string
  so_operation :: string
  so_amount :: string
  so_alias :: string
  so_routeValidationEnabled :: int
  so_balance :: LuaBalance
  so_overdraftAmount :: string

datatype lua_error = LuaRaised | ErrorReply string

record RedisState =
  rs_balances :: "string \<rightharpoonup> CachedBalance"
  rs_schedule :: "string \<rightharpoonup> rat"
  rs_backup :: "string \<rightharpoonup> LuaBalance list \<times> LuaBalance list"

record ScriptState =
  ss_redis :: RedisState
  ss_rollback :: "(string, CachedBalance) gomap"
  ss_returnBalances :: "LuaBalance list"
  ss_returnBalancesAfter :: "LuaBalance list"

section \<open>One operation\<close>

abbreviation isDebitDirection :: "LuaBalance \<Rightarrow> bool" where
  "isDebitDirection b \<equiv> lb_Direction b = ''debit''"

text \<open>What a debit and a credit do to \<open>Available\<close>, by the direction of the balance.\<close>

definition debit_available :: "LuaBalance \<Rightarrow> string \<Rightarrow> string option" where
  "debit_available b amount =
     (if isDebitDirection b then add_decimal (lb_Available b) amount else sub_decimal (lb_Available b) amount)"

definition credit_available :: "LuaBalance \<Rightarrow> string \<Rightarrow> string option" where
  "credit_available b amount =
     (if isDebitDirection b then sub_decimal (lb_Available b) amount else add_decimal (lb_Available b) amount)"

definition available_only :: "LuaBalance \<Rightarrow> string option \<Rightarrow> (string \<times> string) option" where
  "available_only b r = map_option (\<lambda>x. (x, lb_OnHold b)) r"

definition onhold_only :: "LuaBalance \<Rightarrow> string option \<Rightarrow> (string \<times> string) option" where
  "onhold_only b r = map_option (\<lambda>x. (lb_Available b, x)) r"

definition both_fields :: "string option \<Rightarrow> string option \<Rightarrow> (string \<times> string) option" where
  "both_fields r h = do { x \<leftarrow> r; y \<leftarrow> h; Some (x, y) }"

definition script_arithmetic :: "ScriptOp \<Rightarrow> LuaBalance \<Rightarrow> (string \<times> string) option" where
  "script_arithmetic op b =
     (let operation = so_operation op; transactionStatus = so_transactionStatus op; amount = so_amount op;
          routed = (so_routeValidationEnabled op = 1)
      in if so_isPending op = 1 then
           if operation = DEBIT \<and> transactionStatus = PENDING \<and> routed then
             available_only b (debit_available b amount)
           else if operation = DEBIT \<and> transactionStatus = PENDING \<and> isDebitDirection b then
             available_only b (add_decimal (lb_Available b) amount)
           else if operation = ONHOLD \<and> transactionStatus = PENDING \<and> routed then
             onhold_only b (add_decimal (lb_OnHold b) amount)
           else if operation = ONHOLD \<and> transactionStatus = PENDING then
             both_fields (debit_available b amount) (add_decimal (lb_OnHold b) amount)
           else if operation = RELEASE \<and> transactionStatus = CANCELED \<and> routed then
             onhold_only b (sub_decimal (lb_OnHold b) amount)
           else if operation = RELEASE \<and> transactionStatus = CANCELED then
             both_fields (credit_available b amount) (sub_decimal (lb_OnHold b) amount)
           else if operation = CREDIT \<and> transactionStatus = CANCELED \<and> routed then
             available_only b (credit_available b amount)
           else if operation = CREDIT \<and> transactionStatus = CANCELED \<and> isDebitDirection b then
             available_only b (sub_decimal (lb_Available b) amount)
           else if operation = ONHOLD \<and> transactionStatus = APPROVED \<and> routed then
             onhold_only b (sub_decimal (lb_OnHold b) amount)
           else if transactionStatus = APPROVED then
             if operation = DEBIT then onhold_only b (sub_decimal (lb_OnHold b) amount)
             else available_only b (credit_available b amount)
           else Some (lb_Available b, lb_OnHold b)
         else if operation = DEBIT then available_only b (debit_available b amount)
         else available_only b (credit_available b amount))"

text \<open>Lua's results as values: an error of Lua, an error reply, or the value.\<close>

definition lua :: "'a option \<Rightarrow> lua_error + 'a" where
  "lua r = (case r of None \<Rightarrow> Inl LuaRaised | Some x \<Rightarrow> Inr x)"

definition andThenLua :: "lua_error + 'a \<Rightarrow> ('a \<Rightarrow> lua_error + 'b) \<Rightarrow> lua_error + 'b" where
  "andThenLua r f = (case r of Inl e \<Rightarrow> Inl e | Inr x \<Rightarrow> f x)"

definition capped_repay :: "ScriptOp \<Rightarrow> LuaBalance \<Rightarrow> string option" where
  "capped_repay op b =
     do { m \<leftarrow> min_decimal (so_overdraftAmount op) (so_amount op); min_decimal m (lb_OverdraftUsed b) }"

definition pay_down :: "LuaBalance \<Rightarrow> string \<Rightarrow> string option \<Rightarrow> lua_error + string \<times> string" where
  "pay_down b result repaid =
     lua (do { r \<leftarrow> repaid; used \<leftarrow> sub_decimal (lb_OverdraftUsed b) r; res \<leftarrow> sub_decimal result r; Some (res, used) })"

text \<open>The repayment by a credit: the new value of \<open>Available\<close> and of \<open>OverdraftUsed\<close>.\<close>

definition script_repayment :: "ScriptOp \<Rightarrow> LuaBalance \<Rightarrow> string \<times> string \<Rightarrow> lua_error + string \<times> string" where
  "script_repayment op b = (\<lambda>(result, newOverdraftUsed).
     if so_operation op = CREDIT \<and> \<not> isDebitDirection b \<and> lb_AccountType b \<noteq> ''external'' \<and>
        isPositive (lb_OverdraftUsed b)
     then (let incoming = lb_Version (so_balance op);
               sameBatchCancelCredit = (so_operation op = CREDIT \<and> so_transactionStatus op = CANCELED \<and>
                 so_routeValidationEnabled op = 1 \<and> lb_Version b = incoming + 1)
           in if lb_Version b \<noteq> incoming \<and> \<not> sameBatchCancelCredit then Inl (ErrorReply ''0174'')
              else pay_down b result
                (do { m \<leftarrow> min_decimal (so_amount op) (lb_OverdraftUsed b);
                      if isPositive (so_overdraftAmount op) then capped_repay op b else Some m }))
     else Inr (result, newOverdraftUsed))"

text \<open>The reversal of a cancelled hold that had used overdraft.\<close>

definition script_reversal :: "ScriptOp \<Rightarrow> LuaBalance \<Rightarrow> string \<times> string \<Rightarrow> lua_error + string \<times> string" where
  "script_reversal op b = (\<lambda>(result, newOverdraftUsed).
     if so_operation op = RELEASE \<and> so_transactionStatus op = CANCELED \<and> so_routeValidationEnabled op = 0 \<and>
        \<not> isDebitDirection b \<and> lb_AccountType b \<noteq> ''external'' \<and> isPositive (so_overdraftAmount op)
     then (if lb_Version b \<noteq> lb_Version (so_balance op) then Inl (ErrorReply ''0174'')
           else pay_down b result (capped_repay op b))
     else Inr (result, newOverdraftUsed))"

text \<open>A negative result is taken from the overdraft, or refused.\<close>

definition script_accrual :: "ScriptOp \<Rightarrow> LuaBalance \<Rightarrow> string \<times> string \<Rightarrow> lua_error + string \<times> string" where
  "script_accrual op b = (\<lambda>(result, newOverdraftUsed).
     if startsWithMinus result \<and> lb_AccountType b \<noteq> ''external'' then
       if lb_Direction b = ''credit'' \<and> lb_AllowOverdraft b = 1 then
         andThenLua (lua (sub_decimal ''0'' result)) (\<lambda>deficit.
           if lb_Version b \<noteq> lb_Version (so_balance op) then Inl (ErrorReply ''0174'')
           else andThenLua (lua (add_decimal (lb_OverdraftUsed b) deficit)) (\<lambda>used.
             if lb_OverdraftLimitEnabled b = 1 then
               andThenLua (lua (sub_decimal (lb_OverdraftLimit b) used)) (\<lambda>room.
                 if startsWithMinus room then Inl (ErrorReply ''0167'') else Inr (''0'', used))
             else Inr (''0'', used)))
       else Inl (ErrorReply ''0018'')
     else Inr (result, newOverdraftUsed))"

text \<open>The three together: the new \<open>Available\<close>, \<open>OnHold\<close> and \<open>OverdraftUsed\<close>.\<close>

definition script_compute :: "ScriptOp \<Rightarrow> LuaBalance \<Rightarrow> lua_error + string \<times> string \<times> string" where
  "script_compute op b =
     andThenLua (lua (script_arithmetic op b)) (\<lambda>(result, resultOnHold).
     andThenLua (script_repayment op b (result, lb_OverdraftUsed b)) (\<lambda>repaid.
     andThenLua (script_reversal op b repaid) (\<lambda>reversed.
     andThenLua (script_accrual op b reversed) (\<lambda>(available, used).
       Inr (available, resultOnHold, used)))))"

section \<open>The batch\<close>

text \<open>
  \<open>SET key value EX ttl NX\<close> and the reading of what is there. The script is atomic, so a key
  that could not be set is there to be read: the reply 0061 for the other case is never given.
\<close>

definition script_fetch :: "ScriptOp \<Rightarrow> RedisState \<Rightarrow> RedisState \<times> LuaBalance" where
  "script_fetch op r =
     (case rs_balances r (so_redisBalanceKey op) of
        None \<Rightarrow> (r\<lparr>rs_balances := (rs_balances r)(so_redisBalanceKey op \<mapsto> cjson_encode (so_balance op))\<rparr>, so_balance op)
      | Some c \<Rightarrow> (r, cjson_decode c))"

definition note_rollback :: "string \<Rightarrow> LuaBalance \<Rightarrow> ScriptState \<Rightarrow> ScriptState" where
  "note_rollback k b s =
     (if map_of (ss_rollback s) k = None then s\<lparr>ss_rollback := (k, cjson_encode b) # ss_rollback s\<rparr> else s)"

definition rollback :: "ScriptState \<Rightarrow> RedisState" where
  "rollback s = (ss_redis s)\<lparr>rs_balances := rs_balances (ss_redis s) ++ map_of (ss_rollback s)\<rparr>"

definition script_write :: "rat \<Rightarrow> ScriptOp \<Rightarrow> LuaBalance \<Rightarrow> string \<times> string \<times> string \<Rightarrow> ScriptState \<Rightarrow> ScriptState" where
  "script_write dueAt op b = (\<lambda>(result, resultOnHold, used) s.
     let hasChange = (result \<noteq> lb_Available b \<or> resultOnHold \<noteq> lb_OnHold b \<or> used \<noteq> lb_OverdraftUsed b)
     in if hasChange then
          (let b0 = b\<lparr>lb_Alias := Some (so_alias op)\<rparr>;
               b1 = b0\<lparr>lb_Available := result, lb_OnHold := resultOnHold, lb_OverdraftUsed := used,
                       lb_Version := lb_Version b + 1\<rparr>;
               k = so_redisBalanceKey op; r = ss_redis s
           in s\<lparr>ss_redis := r\<lparr>rs_balances := (rs_balances r)(k \<mapsto> cjson_encode b1),
                              rs_schedule := (rs_schedule r)(k \<mapsto> dueAt)\<rparr>,
                ss_returnBalances := ss_returnBalances s @ [b0],
                ss_returnBalancesAfter := ss_returnBalancesAfter s @ [b1]\<rparr>)
        else s)"

definition script_step :: "rat \<Rightarrow> ScriptOp \<Rightarrow> ScriptState \<Rightarrow> ScriptState \<times> lua_error option" where
  "script_step dueAt op s =
     (let (r, b) = script_fetch op (ss_redis s);
          s = note_rollback (so_redisBalanceKey op) b (s\<lparr>ss_redis := r\<rparr>)
      in case script_compute op b of
           Inl LuaRaised \<Rightarrow> (s, Some LuaRaised)
         | Inl (ErrorReply code) \<Rightarrow> (s\<lparr>ss_redis := rollback s\<rparr>, Some (ErrorReply code))
         | Inr vals \<Rightarrow> (script_write dueAt op b vals s, None))"

fun script_loop :: "rat \<Rightarrow> ScriptOp list \<Rightarrow> ScriptState \<Rightarrow> ScriptState \<times> lua_error option" where
  "script_loop dueAt [] s = (s, None)"
| "script_loop dueAt (op # ops) s =
     (case script_step dueAt op s of
        (s', Some e) \<Rightarrow> (s', Some e)
      | (s', None) \<Rightarrow> script_loop dueAt ops s')"

definition updateTransactionHash :: "string \<Rightarrow> LuaBalance list \<Rightarrow> LuaBalance list \<Rightarrow> RedisState \<Rightarrow> RedisState" where
  "updateTransactionHash transactionKey balances balancesAfter r =
     r\<lparr>rs_backup := (rs_backup r)(transactionKey \<mapsto> (balances, balancesAfter))\<rparr>"

definition main :: "string \<Rightarrow> rat \<Rightarrow> ScriptOp list \<Rightarrow> RedisState \<Rightarrow>
    RedisState \<times> (lua_error + LuaBalance list \<times> LuaBalance list)" where
  "main transactionKey dueAt ops r =
     (case script_loop dueAt ops \<lparr>ss_redis = r, ss_rollback = [], ss_returnBalances = [], ss_returnBalancesAfter = []\<rparr> of
        (s, Some e) \<Rightarrow> (ss_redis s, Inl e)
      | (s, None) \<Rightarrow>
          (updateTransactionHash transactionKey (ss_returnBalances s) (ss_returnBalancesAfter s) (ss_redis s),
           Inr (ss_returnBalances s, ss_returnBalancesAfter s)))"

section \<open>The error of a refused batch\<close>

text \<open>
  \<^verbatim>\<open>mapBalanceAtomicScriptError\<close> of \<^verbatim>\<open>consumer.redis.go\<close>: the text of the error reply is searched for the
  codes of the errors of the ledger. Any other error is passed on.
\<close>

definition error_text :: "goerr \<Rightarrow> string" where
  "error_text e = (case e of Sentinel code \<Rightarrow> code | Errorf m \<Rightarrow> m | _ \<Rightarrow> '''')"

definition mapBalanceAtomicScriptError :: "goerr \<Rightarrow> goerr" where
  "mapBalanceAtomicScriptError err =
     (let mentions = (\<lambda>e. contains (error_text err) (error_text e))
      in if mentions ErrOverdraftLimitExceeded then Business ErrOverdraftLimitExceeded
         else if mentions ErrStaleBalanceVersion then Business ErrStaleBalanceVersion
         else if mentions ErrInsufficientFunds then Business ErrInsufficientFunds
         else if mentions ErrOnHoldExternalAccount then Business ErrOnHoldExternalAccount
         else if mentions ErrTransactionBackupCacheRetrievalFailed then Business ErrTransactionBackupCacheRetrievalFailed
         else err)"

text \<open>The error that the Redis client reports: the text of an error reply, or that of an error of Lua.\<close>

definition client_error :: "string \<Rightarrow> lua_error \<Rightarrow> goerr" where
  "client_error raised e = (case e of LuaRaised \<Rightarrow> Errorf raised | ErrorReply code \<Rightarrow> Errorf code)"

end
