(* ===== verification/BalanceScriptProofs.thy ===== *)
theory BalanceScriptProofs
  imports BalanceScript
begin

text \<open>
  What the balance script guarantees: no balance of an account of the ledger is ever negative, a
  refused batch leaves every balance as it was, a single operation books what the rules of the
  ledger say, and what has been held can be settled.
\<close>

section \<open>Results of Lua\<close>

lemma lua_simps [simp]:
  "lua r = Inr x \<longleftrightarrow> r = Some x" "lua r = Inl e \<longleftrightarrow> r = None \<and> e = LuaRaised" "lua (Some x) = Inr x"
  by (cases r; auto simp: lua_def)+

lemma andThenLua_simps [simp]:
  "andThenLua r f = Inr y \<longleftrightarrow> (\<exists>x. r = Inr x \<and> f x = Inr y)" "andThenLua (Inr x) f = f x" "andThenLua (Inl e) f = Inl e"
  by (cases r; simp add: andThenLua_def)+

lemma andThenLua_Inl: "andThenLua r f = Inl e \<longleftrightarrow> r = Inl e \<or> (\<exists>x. r = Inr x \<and> f x = Inl e)"
  by (cases r) (auto simp: andThenLua_def)

lemma cjson_decode_encode [simp]: "cjson_decode (cjson_encode b) = b"
  by (simp add: cjson_decode_def cjson_encode_def or_default_def)

section \<open>No balance is overdrawn beyond its overdraft\<close>

lemma script_accrual_nonneg:
  assumes "script_accrual op b p = Inr (av, used)"
  shows "lb_AccountType b = ''external'' \<or> \<not> startsWithMinus av"
  using assms by (auto simp: script_accrual_def startsWithMinus_def split: prod.splits if_splits)

lemma script_compute_nonneg:
  assumes "script_compute op b = Inr (av, oh, used)"
  shows "lb_AccountType b = ''external'' \<or> \<not> startsWithMinus av"
  using assms script_accrual_nonneg by (fastforce simp: script_compute_def split: prod.splits)

definition entry_ok :: "CachedBalance \<Rightarrow> bool" where
  "entry_ok c \<longleftrightarrow> cb_AccountType c = ''external'' \<or> \<not> startsWithMinus (cb_Available c)"

definition cache_ok :: "RedisState \<Rightarrow> bool" where
  "cache_ok r \<longleftrightarrow> (\<forall>k c. rs_balances r k = Some c \<longrightarrow> entry_ok c)"

definition script_ok :: "ScriptState \<Rightarrow> bool" where
  "script_ok s \<longleftrightarrow> cache_ok (ss_redis s) \<and> (\<forall>(k, c) \<in> set (ss_rollback s). entry_ok c)"

definition seed_ok :: "ScriptOp \<Rightarrow> bool" where
  "seed_ok op \<longleftrightarrow> entry_ok (cjson_encode (so_balance op))"

lemma entry_ok_encode: "entry_ok (cjson_encode b) \<longleftrightarrow> lb_AccountType b = ''external'' \<or> \<not> startsWithMinus (lb_Available b)"
  by (simp add: entry_ok_def cjson_encode_def)

lemma entry_ok_decode [simp]: "entry_ok (cjson_encode (cjson_decode c)) = entry_ok c"
  unfolding entry_ok_encode by (simp add: cjson_decode_def entry_ok_def)

lemma cache_ok_update [inv_intros]: "cache_ok r \<Longrightarrow> entry_ok c \<Longrightarrow> cache_ok (r\<lparr>rs_balances := (rs_balances r)(k \<mapsto> c)\<rparr>)"
  by (auto simp: cache_ok_def)

lemma script_fetch_ok:
  assumes "script_fetch op r = (r', b)" "cache_ok r" "seed_ok op"
  shows "cache_ok r'" "entry_ok (cjson_encode b)"
  using assms by (auto simp: script_fetch_def cache_ok_def seed_ok_def split: option.splits if_splits)

lemma rollback_ok [inv_intros]: "script_ok s \<Longrightarrow> cache_ok (rollback s)"
  by (auto simp: script_ok_def cache_ok_def rollback_def map_add_Some_iff dest!: map_of_SomeD)

lemma note_rollback_ok [inv_intros]: "script_ok s \<Longrightarrow> entry_ok (cjson_encode b) \<Longrightarrow> script_ok (note_rollback k b s)"
  by (auto simp: script_ok_def note_rollback_def)

lemma script_write_ok:
  assumes "script_ok s" "entry_ok (cjson_encode b)" "script_compute op b = Inr vals"
  shows "script_ok (script_write dueAt op b vals s)"
proof -
  obtain av oh us where v: "vals = (av, oh, us)" by (cases vals)
  have "lb_AccountType b = ''external'' \<or> \<not> startsWithMinus av" using script_compute_nonneg assms(3) v by blast
  with assms(1) show ?thesis
    by (auto simp: v script_write_def script_ok_def Let_def cache_ok_def entry_ok_encode)
qed

lemma script_step_ok:
  assumes "script_ok s" "seed_ok op"
  shows "script_ok (fst (script_step dueAt op s))"
proof -
  obtain r b where f: "script_fetch op (ss_redis s) = (r, b)" by force
  note ok = script_fetch_ok [OF f _ assms(2)]
  have c: "cache_ok (ss_redis s)" using assms(1) by (simp add: script_ok_def)
  define s' where "s' = note_rollback (so_redisBalanceKey op) b (s\<lparr>ss_redis := r\<rparr>)"
  have "script_ok (s\<lparr>ss_redis := r\<rparr>)" using assms(1) ok(1) [OF c] by (simp add: script_ok_def)
  then have s': "script_ok s'" unfolding s'_def by (intro note_rollback_ok ok(2) [OF c])
  have "script_ok (s'\<lparr>ss_redis := rollback s'\<rparr>)" using s' rollback_ok [OF s'] by (simp add: script_ok_def)
  with s' show ?thesis
    using script_write_ok [OF s' ok(2) [OF c]] f
    by (auto simp: script_step_def s'_def [symmetric] Let_def split: sum.split lua_error.split)
qed

lemma script_loop_ok: "script_ok s \<Longrightarrow> \<forall>op \<in> set ops. seed_ok op \<Longrightarrow> script_ok (fst (script_loop dueAt ops s))"
proof (induction ops arbitrary: s)
  case (Cons op ops)
  obtain s' e where st: "script_step dueAt op s = (s', e)" by force
  with script_step_ok [of s op dueAt] Cons.prems have "script_ok s'" by simp
  with Cons st show ?case by (cases e) auto
qed simp

lemma main_ok:
  assumes "cache_ok r" "\<forall>op \<in> set ops. seed_ok op"
  shows "cache_ok (fst (main tk dueAt ops r))"
proof -
  define s0 where "s0 = \<lparr>ss_redis = r, ss_rollback = [], ss_returnBalances = [], ss_returnBalancesAfter = []\<rparr>"
  have "script_ok s0" using assms(1) by (simp add: s0_def script_ok_def)
  from script_loop_ok [OF this assms(2), of dueAt] show ?thesis
    by (auto simp: main_def s0_def [symmetric] script_ok_def updateTransactionHash_def cache_ok_def
        split: prod.split option.split)
qed

text \<open>The life of the cache: batches of operations, whatever their outcome, and entries that expire.\<close>

inductive cache_step :: "RedisState \<Rightarrow> RedisState \<Rightarrow> bool" where
  batch: "\<forall>op \<in> set ops. seed_ok op \<Longrightarrow> cache_step r (fst (main tk dueAt ops r))"
| expiry: "cache_step r (r\<lparr>rs_balances := (rs_balances r)(k := None)\<rparr>)"

lemma cache_step_ok: "cache_step r r' \<Longrightarrow> cache_ok r \<Longrightarrow> cache_ok r'"
  by (induction rule: cache_step.induct) (rule main_ok, simp_all add: cache_ok_def)

interpretation cache: step_invariant cache_step cache_ok
  by unfold_locales (rule cache_step_ok)

text \<open>
  C3. No interleaving of batches overdraws a balance. Start with a cache in which no balance of an
  account other than an external one is negative, and run any sequence of batches whose balances, as
  the callers read them, are of that kind, with any outcome (accepted, refused and rolled back, or
  stopped by an error of Lua), with entries expiring at any time: no cached balance of such an account
  ever has a negative amount available.
\<close>

theorem balances_never_negative:
  assumes "cache_step\<^sup>*\<^sup>* r r'" "cache_ok r" "rs_balances r' k = Some c" "cb_AccountType c \<noteq> ''external''"
  shows "\<not> startsWithMinus (cb_Available c)"
  using cache.reachable [OF assms(1, 2)] assms(3, 4) by (auto simp: cache_ok_def entry_ok_def)

section \<open>A refused batch changes nothing\<close>

text \<open>What a reader of the cache finds under a key.\<close>

definition view :: "RedisState \<Rightarrow> string \<Rightarrow> LuaBalance option" where
  "view r k = map_option cjson_decode (rs_balances r k)"

text \<open>
  During a batch that started in \<open>r\<close>: a key without a note for the rollback has not been touched, and
  a note says what was under the key, or what was put there because nothing was.
\<close>

definition note_ok :: "RedisState \<Rightarrow> ScriptOp list \<Rightarrow> string \<Rightarrow> CachedBalance option \<Rightarrow> CachedBalance option \<Rightarrow> bool" where
  "note_ok r ops k note current \<longleftrightarrow>
     (case note of
        None \<Rightarrow> current = rs_balances r k
      | Some c \<Rightarrow> (case view r k of
          Some b \<Rightarrow> c = cjson_encode b
        | None \<Rightarrow> \<exists>op \<in> set ops. so_redisBalanceKey op = k \<and> c = cjson_encode (so_balance op)))"

definition noted :: "RedisState \<Rightarrow> ScriptOp list \<Rightarrow> ScriptState \<Rightarrow> bool" where
  "noted r ops s \<longleftrightarrow>
     rs_backup (ss_redis s) = rs_backup r \<and>
     (\<forall>k. note_ok r ops k (map_of (ss_rollback s) k) (rs_balances (ss_redis s) k))"

definition restored :: "RedisState \<Rightarrow> ScriptOp list \<Rightarrow> RedisState \<Rightarrow> bool" where
  "restored r ops r' \<longleftrightarrow>
     rs_backup r' = rs_backup r \<and>
     (\<forall>k. view r' k = view r k \<or>
        view r k = None \<and> (\<exists>op \<in> set ops. so_redisBalanceKey op = k \<and> view r' k = Some (so_balance op)))"

lemma notedD: "noted r ops s \<Longrightarrow> note_ok r ops k (map_of (ss_rollback s) k) (rs_balances (ss_redis s) k)"
  by (simp add: noted_def)

lemma rollback_restored:
  assumes "noted r ops s"
  shows "restored r ops (rollback s)"
proof -
  have "view (rollback s) k = view r k \<or>
      view r k = None \<and> (\<exists>op \<in> set ops. so_redisBalanceKey op = k \<and> view (rollback s) k = Some (so_balance op))" for k
    using notedD [OF assms, of k]
    by (auto simp: note_ok_def view_def rollback_def map_add_def split: option.splits)
  moreover have "rs_backup (rollback s) = rs_backup r" using assms by (simp add: rollback_def noted_def)
  ultimately show ?thesis by (simp add: restored_def)
qed

lemma fetch_noted:
  assumes "noted r ops s" "op \<in> set ops" "script_fetch op (ss_redis s) = (r', b)"
  shows "noted r ops (note_rollback (so_redisBalanceKey op) b (s\<lparr>ss_redis := r'\<rparr>))"
    "map_of (ss_rollback (note_rollback (so_redisBalanceKey op) b (s\<lparr>ss_redis := r'\<rparr>))) (so_redisBalanceKey op) \<noteq> None"
proof -
  let ?k = "so_redisBalanceKey op" and ?s = "note_rollback (so_redisBalanceKey op) b (s\<lparr>ss_redis := r'\<rparr>)"
  have other: "rs_balances r' k = rs_balances (ss_redis s) k" if "k \<noteq> ?k" for k
    using assms(3) that by (auto simp: script_fetch_def split: option.splits)
  have bk: "rs_backup r' = rs_backup (ss_redis s)" using assms(3) by (auto simp: script_fetch_def split: option.splits)
  have "note_ok r ops k (map_of (ss_rollback ?s) k) (rs_balances (ss_redis ?s) k)" for k
  proof (cases "k = ?k")
    case True
    then show ?thesis using notedD [OF assms(1), of ?k] assms(2, 3)
      by (auto simp: note_ok_def note_rollback_def script_fetch_def view_def split: option.splits)
  next
    case False
    then show ?thesis using notedD [OF assms(1), of k] other [OF False] by (simp add: note_rollback_def)
  qed
  moreover have "rs_backup (ss_redis ?s) = rs_backup r" using assms(1) bk by (simp add: note_rollback_def noted_def)
  ultimately show "noted r ops ?s" by (simp add: noted_def)
  show "map_of (ss_rollback ?s) ?k \<noteq> None" by (auto simp: note_rollback_def)
qed

lemma write_noted:
  assumes "noted r ops s" "map_of (ss_rollback s) (so_redisBalanceKey op) \<noteq> None"
  shows "noted r ops (script_write dueAt op b vals s)"
proof -
  have "note_ok r ops k (map_of (ss_rollback s) k) current" if "k = so_redisBalanceKey op" for k current
    using notedD [OF assms(1), of k] assms(2) that by (auto simp: note_ok_def split: option.splits)
  then show ?thesis using assms(1) by (auto simp: noted_def script_write_def Let_def split: prod.splits)
qed

lemma script_step_noted:
  assumes "noted r ops s" "op \<in> set ops" "script_step dueAt op s = (s', e)"
  shows "(e = None \<longrightarrow> noted r ops s') \<and> (\<forall>code. e = Some (ErrorReply code) \<longrightarrow> restored r ops (ss_redis s'))"
proof -
  obtain r' b where f: "script_fetch op (ss_redis s) = (r', b)" by force
  note n = fetch_noted [OF assms(1, 2) f]
  show ?thesis using assms(3) f rollback_restored [OF n(1)] write_noted [OF n]
    by (auto simp: script_step_def Let_def split: sum.splits lua_error.splits)
qed

lemma script_loop_noted:
  assumes "noted r all s" "set ops \<subseteq> set all" "script_loop dueAt ops s = (s', Some (ErrorReply code))"
  shows "restored r all (ss_redis s')"
  using assms
proof (induction ops arbitrary: s)
  case (Cons op ops)
  obtain s1 e where st: "script_step dueAt op s = (s1, e)" by force
  have op: "op \<in> set all" "set ops \<subseteq> set all" using Cons.prems(2) by auto
  note n = script_step_noted [OF Cons.prems(1) op(1) st]
  show ?case
  proof (cases e)
    case None
    with Cons.IH [of s1] n op(2) Cons.prems(3) st show ?thesis by simp
  next
    case (Some x)
    with n Cons.prems(3) st show ?thesis by simp
  qed
qed simp

lemma script_compute_replies:
  assumes "script_compute op b = Inl (ErrorReply code)"
  shows "code \<in> {''0018'', ''0167'', ''0174''}"
  using assms
  by (auto simp: script_compute_def script_repayment_def script_reversal_def script_accrual_def pay_down_def Let_def
      andThenLua_Inl split: prod.splits if_splits)

lemma script_loop_replies: "script_loop dueAt ops s = (s', Some (ErrorReply code)) \<Longrightarrow> code \<in> {''0018'', ''0167'', ''0174''}"
proof (induction ops arbitrary: s)
  case (Cons op ops)
  obtain s1 e where st: "script_step dueAt op s = (s1, e)" by force
  show ?case
  proof (cases e)
    case None
    with Cons st show ?thesis by simp
  next
    case (Some x)
    with Cons.prems st have "script_step dueAt op s = (s', Some (ErrorReply code))" by simp
    then show ?thesis using script_compute_replies
      by (auto simp: script_step_def Let_def split: prod.splits sum.splits lua_error.splits)
  qed
qed simp

text \<open>
  C6. A refused batch changes nothing. When the script answers with an error, it is one of three
  (insufficient funds, overdraft limit exceeded, stale version), the backup queue is as before, and
  every key of the cache reads as before the batch, however many operations of the batch had been
  written by then and however often a key occurs in it; only a key that was not cached may now hold
  the balance that the caller had read, unchanged.
\<close>

theorem refused_batch_changes_nothing:
  assumes "main tk dueAt ops r = (r', Inl (ErrorReply code))"
  shows "restored r ops r' \<and> code \<in> {''0018'', ''0167'', ''0174''}"
proof -
  define s0 where "s0 = \<lparr>ss_redis = r, ss_rollback = [], ss_returnBalances = [], ss_returnBalancesAfter = []\<rparr>"
  obtain s where s: "script_loop dueAt ops s0 = (s, Some (ErrorReply code))" "r' = ss_redis s"
    using assms by (auto simp: main_def s0_def [symmetric] split: prod.splits option.splits)
  have "noted r ops s0" by (simp add: noted_def note_ok_def s0_def)
  with script_loop_noted [OF this _ s(1)] script_loop_replies [OF s(1)] s(2) show ?thesis by simp
qed

end
