(* ===== verification/BalanceRules.thy ===== *)
theory BalanceRules
  imports BalanceScriptProofs
begin

text \<open>
  The balance script and the rules of the ledger. One operation of the script is compared, as numbers,
  with the rules that the Go code has for balances (LedgerTransaction, LedgerOverdraft): direct
  operations with overdraft, and the operations of every phase of a transaction. A held transaction
  can be settled; and one flaw, by which holding a transaction deepens the overdraft of its destination.
\<close>

section \<open>One operation, in the terms of the ledger\<close>

text \<open>A balance and an operation of the script as a balance and an amount of the ledger.\<close>

definition ledger_balance :: "LuaBalance \<Rightarrow> Balance" where
  "ledger_balance b =
     Balance_zero\<lparr>bal_ID := lb_ID b, bal_AccountID := lb_AccountID b, bal_Key := lb_Key b, bal_AssetCode := lb_AssetCode b,
       bal_Available := dval (lb_Available b), bal_OnHold := dval (lb_OnHold b), bal_Version := lb_Version b,
       bal_AccountType := lb_AccountType b, bal_AllowSending := (lb_AllowSending b = 1),
       bal_AllowReceiving := (lb_AllowReceiving b = 1), bal_Direction := lb_Direction b,
       bal_OverdraftUsed := dval (lb_OverdraftUsed b), bal_AllowOverdraft := (lb_AllowOverdraft b = 1),
       bal_OverdraftLimitEnabled := (lb_OverdraftLimitEnabled b = 1), bal_OverdraftLimit := dval (lb_OverdraftLimit b),
       bal_BalanceScope := lb_BalanceScope b\<rparr>"

definition ledger_amount :: "ScriptOp \<Rightarrow> Amount" where
  "ledger_amount op =
     Amount_zero\<lparr>am_Value := dval (so_amount op), am_Operation := so_operation op, am_TransactionType := so_transactionStatus op,
       am_RouteValidationEnabled := (so_routeValidationEnabled op = 1), am_OverdraftAmount := dval (so_overdraftAmount op)\<rparr>"

text \<open>Amounts of up to fourteen digits leave room for the intermediate results.\<close>

definition tidy :: "nat \<Rightarrow> ScriptOp \<Rightarrow> LuaBalance \<Rightarrow> bool" where
  "tidy k op b \<longleftrightarrow>
     k \<le> 300 \<and>
     (\<forall>s \<in> {lb_Available b, lb_OnHold b, lb_OverdraftUsed b, lb_OverdraftLimit b, so_amount op, so_overdraftAmount op}. small k (10 ^ 14) s)"

lemma tidyD:
  assumes "tidy k op b"
  shows "k \<le> 300" "small k (10 ^ 14) (lb_Available b)" "small k (10 ^ 14) (lb_OnHold b)" "small k (10 ^ 14) (lb_OverdraftUsed b)"
    "small k (10 ^ 14) (lb_OverdraftLimit b)" "small k (10 ^ 14) (so_amount op)" "small k (10 ^ 14) (so_overdraftAmount op)"
  using assms by (simp_all add: tidy_def)

lemma small_wf: "small k B s \<Longrightarrow> dec_wf s"
  by (simp add: small_def)

lemma small_zero: "small k 1 ''0''"
  by (simp add: small_def dec_wf_def startsWithMinus_def unsigned_dec_def split_plain fdigits_def dval_def uval_def str_nat_def)

lemma dval_zero [simp]: "dval ''0'' = 0"
  by (simp add: dval_def split_plain uval_def str_nat_def)

lemma small_signs: "small k B s \<Longrightarrow> startsWithMinus s \<longleftrightarrow> dval s < 0" "small k B s \<Longrightarrow> isPositive s \<longleftrightarrow> 0 < dval s"
  using small_wf startsWithMinus_iff isPositive_iff by blast+

text \<open>The accrual of overdraft, for a result that is exact.\<close>

lemma script_accrual_exact:
  assumes k: "k \<le> 300" and r: "small k (4 * 10 ^ 14) result" and used: "small k (10 ^ 14) (lb_OverdraftUsed b)"
    and limit: "small k (10 ^ 14) (lb_OverdraftLimit b)" and fresh: "lb_Version b = lb_Version (so_balance op)"
    and int: "lb_AccountType b \<noteq> ''external''"
  shows "script_accrual op b (result, u) =
    (if 0 \<le> dval result then Inr (result, u)
     else if lb_Direction b \<noteq> ''credit'' \<or> lb_AllowOverdraft b \<noteq> 1 then Inl (ErrorReply ''0018'')
     else if lb_OverdraftLimitEnabled b = 1 \<and> dval (lb_OverdraftLimit b) < dval (lb_OverdraftUsed b) - dval result
     then Inl (ErrorReply ''0167'')
     else Inr (''0'', the (add_decimal (lb_OverdraftUsed b) (the (sub_decimal ''0'' result))))) \<and>
    small k (6 * 10 ^ 14) (the (add_decimal (lb_OverdraftUsed b) (the (sub_decimal ''0'' result)))) \<and>
    dval (the (add_decimal (lb_OverdraftUsed b) (the (sub_decimal ''0'' result)))) = dval (lb_OverdraftUsed b) - dval result"
proof -
  obtain d where d: "sub_decimal ''0'' result = Some d" "small k (1 + 4 * 10 ^ 14) d" "dval d = - dval result"
    using small_sub [OF small_zero r] k by auto
  obtain n where n: "add_decimal (lb_OverdraftUsed b) d = Some n" "small k (10 ^ 14 + (1 + 4 * 10 ^ 14)) n"
      "dval n = dval (lb_OverdraftUsed b) - dval result"
    using small_add [OF used d(2)] k d(3) by auto
  have n': "small k (6 * 10 ^ 14) n" by (rule small_mono [OF n(2)]) simp
  obtain m where m: "sub_decimal (lb_OverdraftLimit b) n = Some m" "small k (10 ^ 14 + 6 * 10 ^ 14) m"
      "dval m = dval (lb_OverdraftLimit b) - dval n"
    using small_sub [OF limit n'] k by auto
  show ?thesis using d n n' m r int fresh by (simp add: script_accrual_def small_signs)
qed


text \<open>
  A direct debit draws on the overdraft when the balance allows one; a direct credit repays it.
\<close>

definition book_direct :: "Amount \<Rightarrow> Balance \<Rightarrow> goerr + Balance" where
  "book_direct a b =
     (if am_Operation a = DEBIT then
        if bal_AllowOverdraft b then overdraw (am_Value a) b
        else if bal_Available b < am_Value a then Inl (Business ErrInsufficientFunds)
        else Inr (b\<lparr>bal_Available := bal_Available b - am_Value a\<rparr>)
      else Inr (repay (am_Value a) b))"

lemma mapped_replies:
  "mapBalanceAtomicScriptError (Errorf ''0018'') = Business ErrInsufficientFunds"
  "mapBalanceAtomicScriptError (Errorf ''0167'') = Business ErrOverdraftLimitExceeded"
  "mapBalanceAtomicScriptError (Errorf ''0174'') = Business ErrStaleBalanceVersion"
  by (simp_all add: mapBalanceAtomicScriptError_def error_text_def contains_def err_defs has_prefix_def)

lemmas ledger_sel = ledger_balance_def ledger_amount_def Balance_zero_def Amount_zero_def

lemma compute_direct_debit:
  assumes t: "tidy k op b" and op: "so_isPending op = 0" "so_operation op = DEBIT" "lb_Direction b = ''credit''"
    and ok: "lb_AccountType b \<noteq> ''external''" "lb_Version b = lb_Version (so_balance op)"
  shows "\<exists>av us. dval av = dval (lb_Available b) - dval (so_amount op) \<and>
    dval us = dval (lb_OverdraftUsed b) - dval av \<and>
    script_compute op b =
      (if 0 \<le> dval av then Inr (av, lb_OnHold b, lb_OverdraftUsed b)
       else if lb_AllowOverdraft b \<noteq> 1 then Inl (ErrorReply ''0018'')
       else if lb_OverdraftLimitEnabled b = 1 \<and> dval (lb_OverdraftLimit b) < dval us then Inl (ErrorReply ''0167'')
       else Inr (''0'', lb_OnHold b, us))"
proof -
  note T = tidyD [OF t]
  obtain av where av: "sub_decimal (lb_Available b) (so_amount op) = Some av" "small k (10 ^ 14 + 10 ^ 14) av"
      "dval av = dval (lb_Available b) - dval (so_amount op)"
    using small_sub [OF T(2) T(6)] T(1) by auto
  have av': "small k (4 * 10 ^ 14) av" by (rule small_mono [OF av(2)]) simp
  note acc = script_accrual_exact [OF T(1) av' T(4) T(5) ok(2) ok(1), of "lb_OverdraftUsed b"]
  show ?thesis
    by (intro exI [of _ av] exI [of _ "the (add_decimal (lb_OverdraftUsed b) (the (sub_decimal ''0'' av)))"])
       (use acc av op in \<open>simp add: script_compute_def script_arithmetic_def Let_def debit_available_def available_only_def
          script_repayment_def script_reversal_def\<close>)
qed

lemma accrual_none: "small k B result \<Longrightarrow> 0 \<le> dval result \<Longrightarrow> script_accrual op b (result, u) = Inr (result, u)"
  using small_signs(1) [of k B result] by (simp add: script_accrual_def)

lemma compute_credit:
  assumes t: "tidy k op b" and op: "so_operation op = CREDIT" "lb_Direction b \<noteq> ''debit''" "\<not> isPositive (so_overdraftAmount op)"
    and ar: "script_arithmetic op b = available_only b (add_decimal (lb_Available b) (so_amount op))"
    and ok: "lb_AccountType b \<noteq> ''external''" "0 < dval (lb_OverdraftUsed b) \<Longrightarrow> lb_Version b = lb_Version (so_balance op)"
    and pos: "0 \<le> dval (lb_Available b)" "0 \<le> dval (so_amount op)" "0 \<le> dval (lb_OverdraftUsed b)"
  shows "\<exists>av us. script_compute op b = Inr (av, lb_OnHold b, us) \<and>
    dval us = dval (lb_OverdraftUsed b) - min (dval (so_amount op)) (dval (lb_OverdraftUsed b)) \<and>
    dval av = dval (lb_Available b) + dval (so_amount op) - min (dval (so_amount op)) (dval (lb_OverdraftUsed b))"
proof -
  note T = tidyD [OF t]
  obtain r where r: "add_decimal (lb_Available b) (so_amount op) = Some r" "small k (10 ^ 14 + 10 ^ 14) r"
      "dval r = dval (lb_Available b) + dval (so_amount op)"
    using small_add [OF T(2) T(6)] T(1) by auto
  obtain m where m: "min_decimal (so_amount op) (lb_OverdraftUsed b) = Some m" "small k (max (10 ^ 14) (10 ^ 14)) m"
      "dval m = min (dval (so_amount op)) (dval (lb_OverdraftUsed b))"
    using small_min [OF T(6) T(4)] T(1) by auto
  have m': "small k (10 ^ 14) m" using m(2) by simp
  obtain us where us: "sub_decimal (lb_OverdraftUsed b) m = Some us" "dval us = dval (lb_OverdraftUsed b) - dval m"
    using small_sub [OF T(4) m'] T(1) by auto
  obtain av where av: "sub_decimal r m = Some av" "small k (10 ^ 14 + 10 ^ 14 + 10 ^ 14) av" "dval av = dval r - dval m"
    using small_sub [OF r(2) m'] T(1) by auto
  have nonneg: "0 \<le> dval av" "0 \<le> dval r" using av(3) r(3) m(3) pos by (simp_all add: min_def)
  have acc: "script_accrual op b (av, us) = Inr (av, us)" "script_accrual op b (r, lb_OverdraftUsed b) = Inr (r, lb_OverdraftUsed b)"
    by (rule accrual_none [OF av(2) nonneg(1)], rule accrual_none [OF r(2) nonneg(2)])
  show ?thesis
  proof (cases "0 < dval (lb_OverdraftUsed b)")
    case True
    with acc r m us av op ok small_signs(2) [OF T(4)] show ?thesis
      by (simp add: script_compute_def ar Let_def available_only_def script_repayment_def script_reversal_def pay_down_def)
  next
    case False
    then have "dval (lb_OverdraftUsed b) = 0" using pos(3) by simp
    with acc r m op small_signs(2) [OF T(4)] pos show ?thesis
      by (simp add: script_compute_def ar available_only_def script_repayment_def script_reversal_def)
  qed
qed

text \<open>
  C4. The script carries out the rules of the ledger. For a direct operation on a balance of credit
  direction that is in order and was read at its current version, with amounts of at most fourteen
  digits, the script ends without an error of Lua; what it stores, read as numbers, is exactly the
  balance that the rules of the ledger give (a debit draws on the overdraft within its limit where the
  balance allows it, a credit repays the overdraft first), it is in order again, and the reply is an
  error exactly when the rules refuse, with the error that the rules give.
\<close>

theorem script_refines_ledger_rules:
  assumes "tidy k op b" "so_isPending op = 0" "so_operation op \<in> {DEBIT, CREDIT}" "lb_Direction b = ''credit''"
    "lb_AccountType b \<noteq> ''external''" "lb_Version b = lb_Version (so_balance op)" "0 \<le> dval (so_amount op)"
    "\<not> isPositive (so_overdraftAmount op)" "overdraft_ok (ledger_balance b)"
  shows "case script_compute op b of
      Inr (av, oh, us) \<Rightarrow>
        (let b' = ledger_balance (b\<lparr>lb_Available := av, lb_OnHold := oh, lb_OverdraftUsed := us\<rparr>)
         in book_direct (ledger_amount op) (ledger_balance b) = Inr b' \<and> overdraft_ok b')
    | Inl (ErrorReply code) \<Rightarrow>
        book_direct (ledger_amount op) (ledger_balance b) = Inl (mapBalanceAtomicScriptError (Errorf code))
    | Inl LuaRaised \<Rightarrow> False"
proof (cases "so_operation op = DEBIT")
  case True
  have pos: "0 \<le> dval (lb_Available b)" using assms(9) by (simp add: overdraft_ok_def ledger_sel)
  obtain av us where c: "dval av = dval (lb_Available b) - dval (so_amount op)" "dval us = dval (lb_OverdraftUsed b) - dval av"
    "script_compute op b =
      (if 0 \<le> dval av then Inr (av, lb_OnHold b, lb_OverdraftUsed b)
       else if lb_AllowOverdraft b \<noteq> 1 then Inl (ErrorReply ''0018'')
       else if lb_OverdraftLimitEnabled b = 1 \<and> dval (lb_OverdraftLimit b) < dval us then Inl (ErrorReply ''0167'')
       else Inr (''0'', lb_OnHold b, us))"
    using compute_direct_debit [OF assms(1, 2) True assms(4, 5, 6)] by blast
  show ?thesis using c True assms(7, 9) pos
    by (auto simp: book_direct_def overdraw_def overdraft.unique ValidateOverdraftLimit_def mapped_replies ledger_sel
        overdraft_ok_def Let_def min_def)
next
  case False
  with assms(3) have cr: "so_operation op = CREDIT" by simp
  have pos: "0 \<le> dval (lb_Available b)" "0 \<le> dval (lb_OverdraftUsed b)" using assms(9) by (simp_all add: overdraft_ok_def ledger_sel)
  have ar: "script_arithmetic op b = available_only b (add_decimal (lb_Available b) (so_amount op))"
    using cr assms(2, 4) by (simp add: script_arithmetic_def credit_available_def)
  obtain av us where c: "script_compute op b = Inr (av, lb_OnHold b, us)"
    "dval us = dval (lb_OverdraftUsed b) - min (dval (so_amount op)) (dval (lb_OverdraftUsed b))"
    "dval av = dval (lb_Available b) + dval (so_amount op) - min (dval (so_amount op)) (dval (lb_OverdraftUsed b))"
    using compute_credit [OF assms(1) cr _ assms(8) ar assms(5) _ pos(1) assms(7) pos(2)] assms(4, 6) by auto
  have "overdraft_ok (repay (dval (so_amount op)) (ledger_balance b))" by (rule repay_ok [OF assms(9, 7)])
  with c cr show ?thesis
    by (simp add: book_direct_def repay_def refund.unique ledger_sel Let_def min.commute add_diff_eq)
qed


section \<open>All phases of a transaction\<close>

text \<open>The operations that a transaction gives rise to: directly, when it is held, committed and cancelled.\<close>

definition emitted :: "ScriptOp \<Rightarrow> bool" where
  "emitted op \<longleftrightarrow>
     (let o' = so_operation op; st = so_transactionStatus op; routed = (so_routeValidationEnabled op = 1)
      in so_isPending op = 0 \<and> st = CREATED \<and> (o' = DEBIT \<or> o' = CREDIT) \<or>
         so_isPending op = 1 \<and>
         (st = PENDING \<and> (o' = ONHOLD \<or> o' = CREDIT \<or> o' = DEBIT \<and> routed) \<or>
          st = APPROVED \<and> (o' = DEBIT \<or> o' = ONHOLD \<and> routed \<or> o' = CREDIT) \<or>
          st = CANCELED \<and> (o' = RELEASE \<or> o' = CREDIT)))"

definition operated :: "ScriptOp \<Rightarrow> LuaBalance \<Rightarrow> Balance" where
  "operated op b = (case OperateBalances (ledger_amount op) (ledger_balance b) of Inr b' \<Rightarrow> b' | Inl e \<Rightarrow> ledger_balance b)"

lemma script_arithmetic_agrees:
  assumes "tidy k op b" "emitted op" "lb_Direction b \<noteq> ''debit''"
  shows "\<exists>av oh. script_arithmetic op b = Some (av, oh) \<and> small k (2 * 10 ^ 14) av \<and>
    dval av = bal_Available (operated op b) \<and> dval oh = bal_OnHold (operated op b)"
proof -
  note T = tidyD [OF assms(1)]
  obtain a1 where a1: "add_decimal (lb_Available b) (so_amount op) = Some a1" "small k (10 ^ 14 + 10 ^ 14) a1"
      "dval a1 = dval (lb_Available b) + dval (so_amount op)" using small_add [OF T(2) T(6)] T(1) by auto
  obtain a2 where a2: "sub_decimal (lb_Available b) (so_amount op) = Some a2" "small k (10 ^ 14 + 10 ^ 14) a2"
      "dval a2 = dval (lb_Available b) - dval (so_amount op)" using small_sub [OF T(2) T(6)] T(1) by auto
  obtain h1 where h1: "add_decimal (lb_OnHold b) (so_amount op) = Some h1" "dval h1 = dval (lb_OnHold b) + dval (so_amount op)"
    using small_add [OF T(3) T(6)] T(1) by auto
  obtain h2 where h2: "sub_decimal (lb_OnHold b) (so_amount op) = Some h2" "dval h2 = dval (lb_OnHold b) - dval (so_amount op)"
    using small_sub [OF T(3) T(6)] T(1) by auto
  have small: "small k (2 * 10 ^ 14) a1" "small k (2 * 10 ^ 14) a2" "small k (2 * 10 ^ 14) (lb_Available b)"
    using a1(2) a2(2) small_mono [OF T(2)] by (simp_all add: mult_2)
  note defs = script_arithmetic_def Let_def available_only_def onhold_only_def both_fields_def debit_available_def
    credit_available_def operated_def operate_defs ledger_sel
  show ?thesis using assms(2, 3) small a1 a2 h1 h2 unfolding emitted_def Let_def
    by (elim disjE conjE) (simp_all add: defs)
qed

lemma compute_no_overdraft:
  assumes ar: "script_arithmetic op b = Some (av, oh)" and av: "small k (4 * 10 ^ 14) av" "0 \<le> dval av \<or> lb_AccountType b = ''external''"
    and used: "so_operation op = CREDIT \<Longrightarrow> lb_AccountType b = ''external'' \<or> \<not> isPositive (lb_OverdraftUsed b)"
    and od: "so_operation op = RELEASE \<Longrightarrow> lb_AccountType b = ''external'' \<or> \<not> isPositive (so_overdraftAmount op)"
  shows "script_compute op b = Inr (av, oh, lb_OverdraftUsed b)"
proof -
  have "script_repayment op b (av, lb_OverdraftUsed b) = Inr (av, lb_OverdraftUsed b)" using used by (auto simp: script_repayment_def)
  moreover have "script_reversal op b (av, lb_OverdraftUsed b) = Inr (av, lb_OverdraftUsed b)" using od by (auto simp: script_reversal_def)
  moreover have "script_accrual op b (av, lb_OverdraftUsed b) = Inr (av, lb_OverdraftUsed b)"
    using av small_signs(1) [OF av(1)] by (auto simp: script_accrual_def)
  ultimately show ?thesis by (simp add: script_compute_def ar)
qed

text \<open>
  C7. In every phase of a transaction the script and the Go code move the same amounts. For each
  operation that a direct, held, committed or cancelled transaction gives rise to, with amounts of at
  most fourteen digits, on a balance of credit direction without overdraft in use: when the amount
  available that \<open>OperateBalances\<close> computes is not negative, the script accepts the operation and
  stores exactly the two amounts, available and on hold, that \<open>OperateBalances\<close> computes; when it is
  negative and the balance, not one of an external account, allows no overdraft, the script refuses
  for insufficient funds.
\<close>

theorem script_agrees_with_OperateBalances:
  assumes "tidy k op b" "emitted op" "lb_Direction b \<noteq> ''debit''" "dval (lb_OverdraftUsed b) = 0" "dval (so_overdraftAmount op) = 0"
  shows "(0 \<le> bal_Available (operated op b) \<longrightarrow>
      (\<exists>av oh. script_compute op b = Inr (av, oh, lb_OverdraftUsed b) \<and>
        dval av = bal_Available (operated op b) \<and> dval oh = bal_OnHold (operated op b))) \<and>
    (bal_Available (operated op b) < 0 \<and> lb_AccountType b \<noteq> ''external'' \<and> lb_AllowOverdraft b \<noteq> 1 \<longrightarrow>
      script_compute op b = Inl (ErrorReply ''0018''))"
proof -
  note T = tidyD [OF assms(1)]
  obtain av oh where ar: "script_arithmetic op b = Some (av, oh)" "small k (2 * 10 ^ 14) av"
      "dval av = bal_Available (operated op b)" "dval oh = bal_OnHold (operated op b)"
    using script_arithmetic_agrees [OF assms(1, 2, 3)] by blast
  have sm: "small k (4 * 10 ^ 14) av" by (rule small_mono [OF ar(2)]) simp
  have np: "\<not> isPositive (lb_OverdraftUsed b)" "\<not> isPositive (so_overdraftAmount op)"
    using small_signs(2) [OF T(4)] small_signs(2) [OF T(7)] assms(4, 5) by simp_all
  have pass: "script_repayment op b (av, u) = Inr (av, u)" "script_reversal op b (av, u) = Inr (av, u)" for u
    using np by (simp_all add: script_repayment_def script_reversal_def)
  have "script_compute op b = Inl (ErrorReply ''0018'')" if "bal_Available (operated op b) < 0" "lb_AccountType b \<noteq> ''external''" "lb_AllowOverdraft b \<noteq> 1"
    using that ar small_signs(1) [OF sm] pass by (simp add: script_compute_def script_accrual_def)
  moreover have "script_compute op b = Inr (av, oh, lb_OverdraftUsed b)" if "0 \<le> bal_Available (operated op b)"
    using compute_no_overdraft [OF ar(1) sm] that ar(3) np by simp
  ultimately show ?thesis using ar by auto
qed

section \<open>A hold can be settled\<close>

definition seen :: "RedisState \<Rightarrow> ScriptOp \<Rightarrow> LuaBalance" where
  "seen r op = snd (script_fetch op r)"

lemma seen_eq: "seen r op = (case view r (so_redisBalanceKey op) of None \<Rightarrow> so_balance op | Some b \<Rightarrow> b)"
  by (simp add: seen_def script_fetch_def view_def split: option.split)

lemma script_step_accepts:
  assumes "script_compute op (seen (ss_redis s) op) = Inr vals"
  shows "\<exists>s'. script_step dueAt op s = (s', None) \<and>
    (\<forall>k. k \<noteq> so_redisBalanceKey op \<longrightarrow> view (ss_redis s') k = view (ss_redis s) k)"
proof -
  obtain r b where f: "script_fetch op (ss_redis s) = (r, b)" by force
  then have b: "b = seen (ss_redis s) op" by (simp add: seen_def)
  have r: "k \<noteq> so_redisBalanceKey op \<Longrightarrow> view r k = view (ss_redis s) k" for k
    using f by (auto simp: script_fetch_def view_def split: option.splits)
  show ?thesis using assms f b r
    by (auto simp: script_step_def Let_def script_write_def note_rollback_def view_def split: prod.splits)
qed

lemma script_loop_accepts:
  assumes "distinct (map so_redisBalanceKey ops)" "\<forall>op \<in> set ops. \<exists>vals. script_compute op (seen (ss_redis s) op) = Inr vals"
  shows "\<exists>s'. script_loop dueAt ops s = (s', None)"
  using assms
proof (induction ops arbitrary: s)
  case (Cons op ops)
  obtain vals where "script_compute op (seen (ss_redis s) op) = Inr vals" using Cons.prems(2) by auto
  then obtain s1 where s1: "script_step dueAt op s = (s1, None)"
      "\<forall>k. k \<noteq> so_redisBalanceKey op \<longrightarrow> view (ss_redis s1) k = view (ss_redis s) k"
    using script_step_accepts by blast
  have "seen (ss_redis s1) op' = seen (ss_redis s) op'" if "op' \<in> set ops" for op'
  proof -
    have "so_redisBalanceKey op' \<noteq> so_redisBalanceKey op" using Cons.prems(1) that by (auto simp: image_iff)
    then show ?thesis using s1(2) by (simp add: seen_eq)
  qed
  then have "\<exists>s'. script_loop dueAt ops s1 = (s', None)" using Cons by simp
  with s1(1) show ?case by simp
qed simp

text \<open>
  An operation that settles a held transaction: the commit of a source, the credit of a destination
  on commit (at the current version where it repays overdraft), the release of a source, and the
  entry of a destination on cancellation.
\<close>

definition settles :: "nat \<Rightarrow> RedisState \<Rightarrow> ScriptOp \<Rightarrow> bool" where
  "settles k r op \<longleftrightarrow>
     (let b = seen r op; used = (lb_AccountType b \<noteq> ''external'' \<and> isPositive (lb_OverdraftUsed b))
      in so_isPending op = 1 \<and> tidy k op b \<and> 0 \<le> dval (so_amount op) \<and> dval (so_overdraftAmount op) = 0 \<and>
         lb_Direction b \<noteq> ''debit'' \<and> (lb_AccountType b = ''external'' \<or> 0 \<le> dval (lb_Available b)) \<and>
         (so_transactionStatus op = APPROVED \<and>
            (so_operation op = DEBIT \<or> so_operation op = ONHOLD \<and> so_routeValidationEnabled op = 1 \<or>
             so_operation op = CREDIT \<and> (used \<longrightarrow> lb_Version b = lb_Version (so_balance op))) \<or>
          so_transactionStatus op = CANCELED \<and>
            (so_operation op = RELEASE \<or> so_operation op = CREDIT \<and> \<not> used)))"


lemma settles_accepted:
  assumes "settles k r op"
  shows "\<exists>vals. script_compute op (seen r op) = Inr vals"
proof -
  define b where "b = seen r op"
  have t: "tidy k op b" and basic: "so_isPending op = 1" "0 \<le> dval (so_amount op)" "dval (so_overdraftAmount op) = 0" "lb_Direction b \<noteq> ''debit''"
      "lb_AccountType b = ''external'' \<or> 0 \<le> dval (lb_Available b)"
    using assms by (simp_all add: settles_def Let_def b_def)
  note T = tidyD [OF t]
  have em: "emitted op" using assms by (auto simp: settles_def emitted_def Let_def)
  obtain av oh where ar: "script_arithmetic op b = Some (av, oh)" "small k (2 * 10 ^ 14) av" "dval av = bal_Available (operated op b)"
    using script_arithmetic_agrees [OF t em basic(4)] by blast
  have sm: "small k (4 * 10 ^ 14) av" by (rule small_mono [OF ar(2)]) simp
  have np: "\<not> isPositive (so_overdraftAmount op)" using small_signs(2) [OF T(7)] basic(3) by simp
  have nonneg: "0 \<le> dval av \<or> lb_AccountType b = ''external''"
    using assms basic ar(3) by (auto simp: settles_def Let_def b_def [symmetric] operated_def operate_defs ledger_sel)
  show ?thesis
  proof (cases "so_operation op = CREDIT \<and> lb_AccountType b \<noteq> ''external'' \<and> isPositive (lb_OverdraftUsed b)")
    case False
    then show ?thesis using compute_no_overdraft [OF ar(1) sm nonneg] np by (auto simp: b_def)
  next
    case True
    then have st: "so_transactionStatus op = APPROVED" "lb_Version b = lb_Version (so_balance op)"
      using assms by (auto simp: settles_def Let_def b_def)
    have "script_arithmetic op b = available_only b (add_decimal (lb_Available b) (so_amount op))"
      using True st basic by (simp add: script_arithmetic_def Let_def credit_available_def)
    then have "\<exists>av us. script_compute op b = Inr (av, lb_OnHold b, us)"
      using compute_credit [OF t _ basic(4) np] True st basic small_signs(2) [OF T(4)] by fastforce
    then show ?thesis by (auto simp: b_def)
  qed
qed


section \<open>A held credit deepens an overdraft\<close>

text \<open>
  C23. Holding or cancelling a transaction changes the overdraft of its destination. The script is meant
  to leave a destination alone until the commit, but the repayment of overdraft does not look at the
  status: for a destination without funds and with overdraft in use that allows an unlimited overdraft,
  the entry of a pending or cancelled transaction is accepted and adds the amount it should at most
  have repaid to the overdraft in use.
\<close>

theorem held_credit_deepens_overdraft:
  assumes "tidy k op b" "so_isPending op = 1" "so_operation op = CREDIT" "so_transactionStatus op \<in> {PENDING, CANCELED}"
    "so_routeValidationEnabled op = 0" "lb_Direction b = ''credit''" "lb_AccountType b \<noteq> ''external''"
    "lb_Version b = lb_Version (so_balance op)" "lb_AllowOverdraft b = 1" "lb_OverdraftLimitEnabled b = 0"
    "dval (so_overdraftAmount op) = 0" "dval (lb_Available b) = 0" "0 < dval (lb_OverdraftUsed b)" "0 < dval (so_amount op)"
  shows "\<exists>used. script_compute op b = Inr (''0'', lb_OnHold b, used) \<and>
    dval used = dval (lb_OverdraftUsed b) + min (dval (so_amount op)) (dval (lb_OverdraftUsed b))"
proof -
  note T = tidyD [OF assms(1)]
  obtain m where m: "min_decimal (so_amount op) (lb_OverdraftUsed b) = Some m" "small k (max (10 ^ 14) (10 ^ 14)) m"
      "dval m = min (dval (so_amount op)) (dval (lb_OverdraftUsed b))"
    using small_min [OF T(6) T(4)] T(1) by auto
  have m': "small k (10 ^ 14) m" using m(2) by simp
  obtain us where us: "sub_decimal (lb_OverdraftUsed b) m = Some us"
    using small_sub [OF T(4) m'] T(1) by auto
  obtain av where av: "sub_decimal (lb_Available b) m = Some av" "small k (10 ^ 14 + 10 ^ 14) av" "dval av = dval (lb_Available b) - dval m"
    using small_sub [OF T(2) m'] T(1) by auto
  have sm: "small k (4 * 10 ^ 14) av" by (rule small_mono [OF av(2)]) simp
  note acc = script_accrual_exact [OF T(1) sm T(4) T(5) assms(8) assms(7), of us]
  have neg: "dval av < 0" using av(3) m(3) assms(12, 13, 14) by (simp add: min_def)
  have ar: "script_arithmetic op b = Some (lb_Available b, lb_OnHold b)"
    using assms(2-6) by (auto simp: script_arithmetic_def Let_def)
  have rp: "script_repayment op b (lb_Available b, lb_OverdraftUsed b) = Inr (av, us)"
    using assms small_signs(2) [OF T(4)] small_signs(2) [OF T(7)] m us av by (simp add: script_repayment_def Let_def pay_down_def)
  have rv: "script_reversal op b (av, us) = Inr (av, us)" using assms(3) by (simp add: script_reversal_def)
  show ?thesis using acc neg av(3) m(3) assms(6, 9, 10, 12) by (simp add: script_compute_def ar rp rv)
qed


section \<open>Witnesses\<close>

definition sample_balance :: "string \<Rightarrow> string \<Rightarrow> int \<Rightarrow> LuaBalance" where
  "sample_balance available used allow =
     \<lparr>lb_ID = ''b'', lb_Available = available, lb_OnHold = ''0'', lb_Version = 3, lb_AccountType = ''deposit'',
      lb_AccountID = ''a'', lb_AssetCode = ''USD'', lb_AllowSending = 1, lb_AllowReceiving = 1, lb_Key = ''default'',
      lb_Direction = ''credit'', lb_OverdraftUsed = used, lb_AllowOverdraft = allow, lb_OverdraftLimitEnabled = 0,
      lb_OverdraftLimit = ''0'', lb_BalanceScope = ''transactional'', lb_Alias = None\<rparr>"

definition sample_op :: "int \<Rightarrow> string \<Rightarrow> string \<Rightarrow> LuaBalance \<Rightarrow> ScriptOp" where
  "sample_op pending status operation b =
     \<lparr>so_redisBalanceKey = ''k'', so_isPending = pending, so_transactionStatus = status, so_operation = operation,
      so_amount = ''30'', so_alias = ''0#@a#default'', so_routeValidationEnabled = 0, so_balance = b, so_overdraftAmount = ''0''\<rparr>"

definition empty_redis :: RedisState where
  "empty_redis = \<lparr>rs_balances = (\<lambda>k. None), rs_schedule = (\<lambda>k. None), rs_backup = (\<lambda>k. None)\<rparr>"

lemma small_digits: "digits_only s \<Longrightarrow> s \<noteq> [] \<Longrightarrow> of_nat (str_nat s) < B \<Longrightarrow> small 0 B s"
  using digits_no_minus(2) [of s]
  by (simp add: small_def dec_wf_def startsWithMinus_def unsigned_dec_def split_plain fdigits_def dval_def uval_def str_nat_def)

lemma dval_digits: "digits_only s \<Longrightarrow> dval s = of_nat (str_nat s)"
  by (simp add: dval_def split_plain uval_def) (simp add: str_nat_def)

lemmas sample_defs = sample_balance_def sample_op_def is_digit_def dval_digits

lemma sample_tidy:
  "available \<in> {''0'', ''50''} \<Longrightarrow> used \<in> {''0'', ''50''} \<Longrightarrow> tidy 0 (sample_op p st o' b') (sample_balance available used allow)"
  unfolding tidy_def by (auto intro!: small_digits simp: sample_defs str_nat_def digit_val_def)

lemma sample_values: "dval ''30'' = 30" "dval ''50'' = 50"
  by (simp_all add: dval_digits is_digit_def str_nat_def digit_val_def)

theorem script_refines_ledger_rules_witness:
  "overdraw 30 (ledger_balance (sample_balance ''50'' ''0'' 1)) \<noteq> Inl (Business ErrInsufficientFunds) \<and>
   (case script_compute (sample_op 0 CREATED DEBIT (sample_balance ''50'' ''0'' 1)) (sample_balance ''50'' ''0'' 1) of
      Inr (av, oh, us) \<Rightarrow> book_direct (ledger_amount (sample_op 0 CREATED DEBIT (sample_balance ''50'' ''0'' 1)))
          (ledger_balance (sample_balance ''50'' ''0'' 1)) =
        Inr (ledger_balance ((sample_balance ''50'' ''0'' 1)\<lparr>lb_Available := av, lb_OnHold := oh, lb_OverdraftUsed := us\<rparr>))
    | _ \<Rightarrow> True)"
proof -
  let ?b = "sample_balance ''50'' ''0'' 1" and ?op = "sample_op 0 CREATED DEBIT (sample_balance ''50'' ''0'' 1)"
  have h: "so_isPending ?op = 0" "so_operation ?op \<in> {DEBIT, CREDIT}" "lb_Direction ?b = ''credit''" "lb_AccountType ?b \<noteq> ''external''"
    "lb_Version ?b = lb_Version (so_balance ?op)" "0 \<le> dval (so_amount ?op)" "\<not> isPositive (so_overdraftAmount ?op)"
    "overdraft_ok (ledger_balance ?b)"
    by (simp_all add: sample_balance_def sample_op_def sample_values overdraft_ok_def ledger_sel isPositive_def
        startsWithMinus_def drop_zero_tail_def)
  from script_refines_ledger_rules [OF sample_tidy h] have
    "case script_compute ?op ?b of Inr (av, oh, us) \<Rightarrow> book_direct (ledger_amount ?op) (ledger_balance ?b) =
        Inr (ledger_balance (?b\<lparr>lb_Available := av, lb_OnHold := oh, lb_OverdraftUsed := us\<rparr>)) | _ \<Rightarrow> True"
    by (auto simp: Let_def split: sum.split prod.split)
  moreover have "overdraw 30 (ledger_balance ?b) \<noteq> Inl (Business ErrInsufficientFunds)"
    by (simp add: overdraw_def overdraft.unique ValidateOverdraftLimit_def ledger_sel sample_balance_def)
  ultimately show ?thesis by blast
qed

theorem script_agrees_with_OperateBalances_witness:
  "\<exists>av oh. script_compute (sample_op 1 PENDING ONHOLD (sample_balance ''50'' ''0'' 0)) (sample_balance ''50'' ''0'' 0) = Inr (av, oh, ''0'') \<and>
     dval av = 20 \<and> dval oh = 30"
proof -
  let ?b = "sample_balance ''50'' ''0'' 0" and ?op = "sample_op 1 PENDING ONHOLD (sample_balance ''50'' ''0'' 0)"
  have h: "emitted ?op" "lb_Direction ?b \<noteq> ''debit''" "dval (lb_OverdraftUsed ?b) = 0" "dval (so_overdraftAmount ?op) = 0"
    by (simp_all add: emitted_def sample_balance_def sample_op_def)
  have "bal_Available (operated ?op ?b) = 20" "bal_OnHold (operated ?op ?b) = 30" "lb_OverdraftUsed ?b = ''0''"
    by (simp_all add: operated_def operate_defs ledger_sel sample_balance_def sample_op_def sample_values)
  with script_agrees_with_OperateBalances [OF sample_tidy h] show ?thesis by auto
qed


theorem held_credit_deepens_overdraft_witness:
  "\<exists>used. script_compute (sample_op 1 PENDING CREDIT (sample_balance ''0'' ''50'' 1)) (sample_balance ''0'' ''50'' 1) = Inr (''0'', ''0'', used) \<and>
     dval used = 80"
  using held_credit_deepens_overdraft [OF sample_tidy [of "''0''" "''50''" 1 PENDING CREDIT "sample_balance ''0'' ''50'' 1" 1]]
  by (simp add: sample_balance_def sample_op_def sample_values)

theorem balances_never_negative_witness:
  "\<exists>r c. cache_step\<^sup>*\<^sup>* empty_redis r \<and> rs_balances r ''k'' = Some c \<and> cb_Available c = ''30'' \<and> \<not> startsWithMinus (cb_Available c)"
proof -
  let ?ops = "[sample_op 0 CREATED CREDIT (sample_balance ''0'' ''0'' 0)]"
  define r where "r = fst (main ''t'' 0 ?ops empty_redis)"
  have "map_option (\<lambda>c. (cb_Available c, cb_AccountType c)) (rs_balances (fst (main ''t'' 0 ?ops empty_redis)) ''k'') =
      Some (''30'', ''deposit'')" by code_simp
  then obtain c where c: "rs_balances r ''k'' = Some c" "cb_Available c = ''30''" "cb_AccountType c = ''deposit''" by (auto simp: r_def)
  have "cache_step empty_redis r" unfolding r_def
    by (rule cache_step.batch) (simp add: seed_ok_def entry_ok_encode sample_op_def sample_balance_def startsWithMinus_def)
  then have st: "cache_step\<^sup>*\<^sup>* empty_redis r" by blast
  have "cache_ok empty_redis" by (simp add: cache_ok_def empty_redis_def)
  with balances_never_negative [OF st _ c(1)] c st show ?thesis by auto
qed

theorem refused_batch_changes_nothing_witness:
  "\<exists>r'. main ''t'' 0 [sample_op 0 CREATED DEBIT (sample_balance ''0'' ''0'' 0)] empty_redis = (r', Inl (ErrorReply ''0018'')) \<and>
     restored empty_redis [sample_op 0 CREATED DEBIT (sample_balance ''0'' ''0'' 0)] r'"
proof -
  let ?ops = "[sample_op 0 CREATED DEBIT (sample_balance ''0'' ''0'' 0)]"
  have "snd (main ''t'' 0 ?ops empty_redis) = Inl (ErrorReply ''0018'')" by code_simp
  then obtain r' where "main ''t'' 0 ?ops empty_redis = (r', Inl (ErrorReply ''0018''))" by (metis prod.collapse)
  with refused_batch_changes_nothing [OF this] show ?thesis by blast
qed

end
