(* ===== verification/BalanceCalls.thy ===== *)
theory BalanceCalls
  imports BalanceRules
begin

text \<open>
  The Go side of the balance script: balances and their settings (\<^verbatim>\<open>pkg/mmodel\<close>), the building of
  the operations of a transaction (\<^verbatim>\<open>transaction_helper.go\<close>), the companion operations that mirror an
  overdraft on its own balance (\<^verbatim>\<open>transaction_overdraft_enrichment.go\<close>), the command that validates and
  runs them (\<^verbatim>\<open>process_balance_operations.go\<close>), and the adapter that hands them to the script and reads
  its answer (\<^verbatim>\<open>consumer.redis.go\<close>).

  \<open>MBalance\<close> is \<^verbatim>\<open>mmodel.Balance\<close>; \<open>Balance\<close> is \<^verbatim>\<open>mtransaction.Balance\<close> of LedgerTransaction. An operation
  always carries a balance and a transaction its validation, so the checks for nil of either are left
  out. The order of \<^verbatim>\<open>sort.Slice\<close> among equal keys is not specified: sorting is the parameter \<open>sort_ops\<close>.
  The loader of companion balances is a parameter, as in the code. \<open>Conn\<close> holds what the adapter gets from
  outside: whether the client is available, the prefixing of keys by tenant, the text of a Lua error.
\<close>

section \<open>Balances and settings\<close>

definition NOTED :: string where [simp]: "NOTED = ''NOTED''"
definition OVERDRAFT :: string where [simp]: "OVERDRAFT = ''OVERDRAFT''"
definition OverdraftBalanceKey :: string where [simp]: "OverdraftBalanceKey = ''overdraft''"
definition BalanceScopeTransactional :: string where [simp]: "BalanceScopeTransactional = ''transactional''"
definition BalanceScopeInternal :: string where [simp]: "BalanceScopeInternal = ''internal''"

record BalanceSettings =
  bs_BalanceScope :: string
  bs_AllowOverdraft :: bool
  bs_OverdraftLimitEnabled :: bool
  bs_OverdraftLimit :: "string option"

definition NewDefaultBalanceSettings :: BalanceSettings where
  "NewDefaultBalanceSettings =
     \<lparr>bs_BalanceScope = BalanceScopeTransactional, bs_AllowOverdraft = False, bs_OverdraftLimitEnabled = False, bs_OverdraftLimit = None\<rparr>"

definition validateScope :: "BalanceSettings \<Rightarrow> goerr option" where
  "validateScope s =
     err_if (bs_BalanceScope s \<notin> {'''', BalanceScopeTransactional, BalanceScopeInternal}) (Errorf ''invalid balanceScope'')"

definition validateOverdraftLimit :: "extlib \<Rightarrow> BalanceSettings \<Rightarrow> goerr option" where
  "validateOverdraftLimit lib s =
     (if \<not> bs_OverdraftLimitEnabled s then
        err_if (bs_OverdraftLimit s \<noteq> None) (Errorf ''overdraftLimit must be absent'')
      else case bs_OverdraftLimit s of
        None \<Rightarrow> Some (Errorf ''overdraftLimit is required'')
      | Some l \<Rightarrow>
          if l = '''' then Some (Errorf ''overdraftLimit must be a non-empty decimal string'')
          else (case dec_NewFromString lib l of
              None \<Rightarrow> Some (Errorf ''overdraftLimit is not a valid decimal'')
            | Some limit \<Rightarrow> err_if (\<not> 0 < limit) (Errorf ''overdraftLimit must be strictly greater than zero'')))"

definition BalanceSettings_Validate :: "extlib \<Rightarrow> BalanceSettings option \<Rightarrow> goerr option" where
  "BalanceSettings_Validate lib s =
     (case s of None \<Rightarrow> None
      | Some s \<Rightarrow> (case validateScope s of Some e \<Rightarrow> Some e | None \<Rightarrow> validateOverdraftLimit lib s))"

record MBalance =
  mb_ID :: string
  mb_OrganizationID :: string
  mb_LedgerID :: string
  mb_AccountID :: string
  mb_Alias :: string
  mb_Key :: string
  mb_AssetCode :: string
  mb_Available :: decimal
  mb_OnHold :: decimal
  mb_Version :: int
  mb_AccountType :: string
  mb_AllowSending :: bool
  mb_AllowReceiving :: bool
  mb_Direction :: string
  mb_OverdraftUsed :: decimal
  mb_Settings :: "BalanceSettings option"
  mb_CreatedAt :: time
  mb_UpdatedAt :: time
  mb_DeletedAt :: "time option"
  mb_Metadata :: metadata

definition plain_transaction_balance :: "MBalance \<Rightarrow> Balance" where
  "plain_transaction_balance b =
     Balance_zero\<lparr>bal_ID := mb_ID b, bal_OrganizationID := mb_OrganizationID b, bal_LedgerID := mb_LedgerID b,
       bal_AccountID := mb_AccountID b, bal_Alias := mb_Alias b, bal_Key := mb_Key b, bal_AssetCode := mb_AssetCode b,
       bal_Available := mb_Available b, bal_OnHold := mb_OnHold b, bal_Version := mb_Version b,
       bal_AccountType := mb_AccountType b, bal_AllowSending := mb_AllowSending b, bal_AllowReceiving := mb_AllowReceiving b,
       bal_Direction := mb_Direction b, bal_OverdraftUsed := mb_OverdraftUsed b, bal_CreatedAt := mb_CreatedAt b,
       bal_UpdatedAt := mb_UpdatedAt b, bal_DeletedAt := mb_DeletedAt b, bal_Metadata := mb_Metadata b\<rparr>"

definition ToTransactionBalance :: "extlib \<Rightarrow> MBalance \<Rightarrow> goerr + Balance" where
  "ToTransactionBalance lib b =
     (let result = plain_transaction_balance b
      in case mb_Settings b of
           None \<Rightarrow> Inr result
         | Some s \<Rightarrow>
             (let result = result\<lparr>bal_AllowOverdraft := bs_AllowOverdraft s,
                             bal_OverdraftLimitEnabled := bs_OverdraftLimitEnabled s, bal_BalanceScope := bs_BalanceScope s\<rparr>
              in case bs_OverdraftLimit s of
                   None \<Rightarrow> Inr result
                 | Some l \<Rightarrow>
                     (case dec_NewFromString lib l of
                        None \<Rightarrow> Inl (Errorf ''invalid OverdraftLimit'')
                      | Some lmt \<Rightarrow> Inr (result\<lparr>bal_OverdraftLimit := lmt\<rparr>))))"

record Position =
  pos_Available :: decimal
  pos_OnHold :: decimal
  pos_OverdraftLimitAvailable :: "decimal option"

definition computePosition :: "extlib \<Rightarrow> decimal \<Rightarrow> decimal \<Rightarrow> decimal \<Rightarrow> BalanceSettings option \<Rightarrow> Position" where
  "computePosition lib available onHold overdraftUsed settings =
     \<lparr>pos_Available = available - overdraftUsed, pos_OnHold = onHold,
      pos_OverdraftLimitAvailable =
        (case settings of
           None \<Rightarrow> Some 0
         | Some s \<Rightarrow>
             if \<not> bs_AllowOverdraft s then Some 0
             else if \<not> bs_OverdraftLimitEnabled s then None
             else (let limit = (case bs_OverdraftLimit s of
                            None \<Rightarrow> 0
                          | Some l \<Rightarrow> (case dec_NewFromString lib l of Some parsed \<Rightarrow> parsed | None \<Rightarrow> 0))
                   in Some (limit - overdraftUsed)))\<rparr>"

definition ComputePosition :: "extlib \<Rightarrow> MBalance \<Rightarrow> Position" where
  "ComputePosition lib b = computePosition lib (mb_Available b) (mb_OnHold b) (mb_OverdraftUsed b) (mb_Settings b)"

record BalanceOperation =
  bo_Balance :: MBalance
  bo_Alias :: string
  bo_Amount :: Amount
  bo_InternalKey :: string

section \<open>Keys\<close>

definition BalanceInternalKey :: "extlib \<Rightarrow> uuid \<Rightarrow> uuid \<Rightarrow> string \<Rightarrow> string" where
  "BalanceInternalKey lib organizationID ledgerID key =
     ''balance:{transactions}:'' @ uuid_String lib organizationID @ '':'' @ uuid_String lib ledgerID @ '':'' @ key"

definition TransactionInternalKey :: "extlib \<Rightarrow> uuid \<Rightarrow> uuid \<Rightarrow> string \<Rightarrow> string" where
  "TransactionInternalKey lib organizationID ledgerID key =
     ''transaction:{transactions}:'' @ uuid_String lib organizationID @ '':'' @ uuid_String lib ledgerID @ '':'' @ key"

section \<open>Operations of a transaction\<close>

definition buildParentTransactionID :: "extlib \<Rightarrow> uuid \<Rightarrow> string option" where
  "buildParentTransactionID lib parentID = (if parentID = uuid_Nil then None else Some (uuid_String lib parentID))"

definition getAliasWithoutKey :: "string list \<Rightarrow> string list" where
  "getAliasWithoutKey aliases = map (\<lambda>s. hd (go_split ''#'' s)) aliases"

text \<open>\<^verbatim>\<open>strings.LastIndex(s, "#")\<close> and the parts of \<open>s\<close> before and after it.\<close>

definition cut_last_hash :: "string \<Rightarrow> (string \<times> string) option" where
  "cut_last_hash s =
     (if CHR ''#'' \<in> set s
      then Some (rev (tl (dropWhile (\<lambda>c. c \<noteq> CHR ''#'') (rev s))), rev (takeWhile (\<lambda>c. c \<noteq> CHR ''#'') (rev s)))
      else None)"

definition filterCompanionAliases :: "string list \<Rightarrow> string list" where
  "filterCompanionAliases aliases =
     filter (\<lambda>a. case cut_last_hash a of Some (_, key) \<Rightarrow> key \<noteq> OverdraftBalanceKey | None \<Rightarrow> True) aliases"

definition aliasKey_of :: "MBalance \<Rightarrow> string" where
  "aliasKey_of b = mb_Alias b @ ''#'' @ (if mb_Key b = '''' then DefaultBalanceKey else mb_Key b)"

definition index_balances :: "extlib \<Rightarrow> uuid \<Rightarrow> uuid \<Rightarrow> MBalance list \<Rightarrow> (string, MBalance \<times> string) gomap" where
  "index_balances lib organizationID ledgerID balances =
     fold (\<lambda>b m. AList.update (aliasKey_of b) (b, BalanceInternalKey lib organizationID ledgerID (aliasKey_of b)) m) balances []"

definition from_operations :: "(string, MBalance \<times> string) gomap \<Rightarrow> string \<times> Amount \<Rightarrow> BalanceOperation list" where
  "from_operations m = (\<lambda>(alias, amount).
     case map_of m (SplitAliasWithKey alias) of
       None \<Rightarrow> []
     | Some (b, key) \<Rightarrow>
         (if IsDoubleEntrySource amount then
            (let (op1, op2) = SplitDoubleEntryOps amount
             in [\<lparr>bo_Balance = b, bo_Alias = alias, bo_Amount = op1, bo_InternalKey = key\<rparr>,
                 \<lparr>bo_Balance = b, bo_Alias = alias, bo_Amount = op2, bo_InternalKey = key\<rparr>])
          else [\<lparr>bo_Balance = b, bo_Alias = alias, bo_Amount = amount, bo_InternalKey = key\<rparr>]))"

definition to_operations :: "(string, MBalance \<times> string) gomap \<Rightarrow> string \<times> Amount \<Rightarrow> BalanceOperation list" where
  "to_operations m = (\<lambda>(alias, amount).
     case map_of m (SplitAliasWithKey alias) of
       None \<Rightarrow> []
     | Some (b, key) \<Rightarrow> [\<lparr>bo_Balance = b, bo_Alias = alias, bo_Amount = amount, bo_InternalKey = key\<rparr>])"

definition buildBalanceOperations ::
    "extlib \<Rightarrow> (BalanceOperation list \<Rightarrow> BalanceOperation list) \<Rightarrow> uuid \<Rightarrow> uuid \<Rightarrow> Responses \<Rightarrow> MBalance list \<Rightarrow> BalanceOperation list" where
  "buildBalanceOperations lib sort_ops organizationID ledgerID validate balances =
     (let m = index_balances lib organizationID ledgerID balances
      in sort_ops (concat (map (from_operations m) (rsp_From validate)) @ concat (map (to_operations m) (rsp_To validate))))"

section \<open>Companion operations of an overdraft\<close>

fun rejectInternalScopeBalances :: "MBalance list \<Rightarrow> goerr option" where
  "rejectInternalScopeBalances [] = None"
| "rejectInternalScopeBalances (b # bs) =
     (case mb_Settings b of
        None \<Rightarrow> rejectInternalScopeBalances bs
      | Some s \<Rightarrow>
          if bs_BalanceScope s \<noteq> BalanceScopeInternal then rejectInternalScopeBalances bs
          else Some (Business ErrDirectOperationOnInternalBalance))"

definition indexPrefix :: "string \<Rightarrow> string" where
  "indexPrefix alias = (case go_index ''#'' alias of Some i \<Rightarrow> take (i + 1) alias | None \<Rightarrow> '''')"

definition stripIndexPrefix :: "string \<Rightarrow> string" where
  "stripIndexPrefix alias = (let p = indexPrefix alias in if p = '''' then alias else drop (length p) alias)"

definition accountAliasFromOperationAlias :: "string \<Rightarrow> string" where
  "accountAliasFromOperationAlias alias =
     (let bare = stripIndexPrefix alias in case cut_last_hash bare of None \<Rightarrow> bare | Some (a, _) \<Rightarrow> a)"

definition lookupRouteID :: "Responses \<Rightarrow> string \<Rightarrow> bool \<Rightarrow> string" where
  "lookupRouteID validate primaryAlias isFrom =
     (case map_of (if isFrom then rsp_OperationRoutesFrom validate else rsp_OperationRoutesTo validate) primaryAlias of
        None \<Rightarrow> '''' | Some r \<Rightarrow> r)"

text \<open>An entry is added to a map only when its key is new.\<close>

definition first_wins :: "'k \<Rightarrow> 'v \<Rightarrow> ('k, 'v) gomap \<Rightarrow> ('k, 'v) gomap" where
  "first_wins k v m = (if map_of m k = None then AList.update k v m else m)"

definition registerCompanionInValidate :: "BalanceOperation \<Rightarrow> string \<Rightarrow> Responses \<Rightarrow> Responses" where
  "registerCompanionInValidate companionOp primaryRouteID validate =
     (let alias = bo_Alias companionOp;
          v = validate\<lparr>rsp_From := first_wins alias (bo_Amount companionOp) (rsp_From validate)\<rparr>;
          v = (if primaryRouteID \<noteq> ''''
               then v\<lparr>rsp_OperationRoutesFrom := first_wins alias primaryRouteID (rsp_OperationRoutesFrom v)\<rparr> else v);
          bareAlias = stripIndexPrefix alias
      in if bareAlias \<in> set (rsp_Sources v) then v
         else v\<lparr>rsp_Sources := rsp_Sources v @ [bareAlias],
                rsp_Aliases := (if bareAlias \<in> set (rsp_Aliases v) then rsp_Aliases v else rsp_Aliases v @ [bareAlias])\<rparr>)"

definition registerCompanionInValidateTo :: "BalanceOperation \<Rightarrow> string \<Rightarrow> Responses \<Rightarrow> Responses" where
  "registerCompanionInValidateTo companionOp primaryRouteID validate =
     (let alias = bo_Alias companionOp;
          v = validate\<lparr>rsp_To := first_wins alias (bo_Amount companionOp) (rsp_To validate)\<rparr>;
          v = (if primaryRouteID \<noteq> ''''
               then v\<lparr>rsp_OperationRoutesTo := first_wins alias primaryRouteID (rsp_OperationRoutesTo v)\<rparr> else v);
          bareAlias = stripIndexPrefix alias
      in if bareAlias \<in> set (rsp_Destinations v) then v
         else v\<lparr>rsp_Destinations := rsp_Destinations v @ [bareAlias],
                rsp_Aliases := (if bareAlias \<in> set (rsp_Aliases v) then rsp_Aliases v else rsp_Aliases v @ [bareAlias])\<rparr>)"

text \<open>A split: the operation it comes from, the amount for the companion, and the companion's alias and key.\<close>

record overdraftSplit =
  os_source :: BalanceOperation
  os_deficit :: decimal
  os_companionAliasKey :: string

definition companion_key :: "BalanceOperation \<Rightarrow> string" where
  "companion_key op = mb_Alias (bo_Balance op) @ ''#'' @ OverdraftBalanceKey"

definition isOverdraftDebitSplitCandidate :: "Amount \<Rightarrow> bool" where
  "isOverdraftDebitSplitCandidate amount \<longleftrightarrow>
     am_Operation amount = DEBIT \<or>
     am_Operation amount = ONHOLD \<and> am_TransactionType amount = PENDING \<and> \<not> am_RouteValidationEnabled amount"

definition isCancelOverdraftOverride :: "Amount \<Rightarrow> bool" where
  "isCancelOverdraftOverride amount \<longleftrightarrow>
     am_TransactionType amount = CANCELED \<and> 0 < am_OverdraftAmount amount \<and>
     (am_Operation amount = RELEASE \<or> am_Operation amount = CREDIT)"

definition debit_split :: "extlib \<Rightarrow> BalanceOperation \<Rightarrow> overdraftSplit list" where
  "debit_split lib op =
     (if \<not> isOverdraftDebitSplitCandidate (bo_Amount op) then []
      else case ToTransactionBalance lib (bo_Balance op) of
        Inl _ \<Rightarrow> []
      | Inr txBalance \<Rightarrow>
          (case DetectOverdraftSplit ((bo_Amount op)\<lparr>am_Operation := DEBIT\<rparr>) txBalance of
             (split, deficit) \<Rightarrow>
               if \<not> split then [] else [\<lparr>os_source = op, os_deficit = deficit, os_companionAliasKey = companion_key op\<rparr>]))"

definition collectOverdraftDebitSplits :: "extlib \<Rightarrow> BalanceOperation list \<Rightarrow> overdraftSplit list" where
  "collectOverdraftDebitSplits lib ops = concat (map (debit_split lib) ops)"

definition refund_split :: "extlib \<Rightarrow> BalanceOperation \<Rightarrow> overdraftSplit list" where
  "refund_split lib op =
     (if am_Operation (bo_Amount op) \<noteq> CREDIT \<or> isCancelOverdraftOverride (bo_Amount op) then []
      else case ToTransactionBalance lib (bo_Balance op) of
        Inl _ \<Rightarrow> []
      | Inr txBalance \<Rightarrow>
          (case DetectRefundSplit (bo_Amount op) txBalance of
             (split, repaid, _) \<Rightarrow>
               if \<not> split then [] else [\<lparr>os_source = op, os_deficit = repaid, os_companionAliasKey = companion_key op\<rparr>]))"

definition collectOverdraftRefundSplits :: "extlib \<Rightarrow> BalanceOperation list \<Rightarrow> overdraftSplit list" where
  "collectOverdraftRefundSplits lib ops = concat (map (refund_split lib) ops)"

definition cancel_split :: "extlib \<Rightarrow> BalanceOperation \<Rightarrow> overdraftSplit list" where
  "cancel_split lib op =
     (if \<not> isCancelOverdraftOverride (bo_Amount op) then []
      else case ToTransactionBalance lib (bo_Balance op) of
        Inl _ \<Rightarrow> []
      | Inr txBalance \<Rightarrow>
          if bal_Direction txBalance \<noteq> DirectionCredit \<or> \<not> 0 < bal_OverdraftUsed txBalance then []
          else (let repaid = min (am_OverdraftAmount (bo_Amount op)) (bal_OverdraftUsed txBalance);
                    repaid = (if am_Value (bo_Amount op) < repaid then am_Value (bo_Amount op) else repaid)
                in if \<not> 0 < repaid then []
                   else [\<lparr>os_source = op, os_deficit = repaid, os_companionAliasKey = companion_key op\<rparr>]))"

definition collectOverdraftCancelSplits :: "extlib \<Rightarrow> BalanceOperation list \<Rightarrow> overdraftSplit list" where
  "collectOverdraftCancelSplits lib ops = concat (map (cancel_split lib) ops)"

definition companion_op :: "extlib \<Rightarrow> uuid \<Rightarrow> uuid \<Rightarrow> string \<Rightarrow> string \<Rightarrow> overdraftSplit \<Rightarrow> MBalance \<Rightarrow> BalanceOperation" where
  "companion_op lib organizationID ledgerID operation direction s companion =
     \<lparr>bo_Balance = companion, bo_Alias = indexPrefix (bo_Alias (os_source s)) @ os_companionAliasKey s,
      bo_Amount = (bo_Amount (os_source s))\<lparr>am_Value := os_deficit s, am_Operation := operation, am_Direction := direction\<rparr>,
      bo_InternalKey = BalanceInternalKey lib organizationID ledgerID (mb_Alias companion @ ''#'' @ mb_Key companion)\<rparr>"

definition buildCompanionDebitOp :: "extlib \<Rightarrow> uuid \<Rightarrow> uuid \<Rightarrow> overdraftSplit \<Rightarrow> MBalance \<Rightarrow> BalanceOperation" where
  "buildCompanionDebitOp lib organizationID ledgerID s companion =
     companion_op lib organizationID ledgerID DEBIT DirectionDebit s companion"

definition buildCompanionCreditOp :: "extlib \<Rightarrow> uuid \<Rightarrow> uuid \<Rightarrow> overdraftSplit \<Rightarrow> MBalance \<Rightarrow> BalanceOperation" where
  "buildCompanionCreditOp lib organizationID ledgerID s companion =
     companion_op lib organizationID ledgerID CREDIT DirectionCredit s companion"

definition buildCompanionFromTo :: "BalanceOperation \<Rightarrow> bool \<Rightarrow> string \<Rightarrow> FromTo" where
  "buildCompanionFromTo companionOp isFrom primaryRouteID =
     (let ft = FromTo_zero\<lparr>ft_AccountAlias := bo_Alias companionOp, ft_BalanceKey := OverdraftBalanceKey,
                 ft_Amount := Some ((bo_Amount companionOp)\<lparr>am_OverdraftAmount := 0\<rparr>), ft_IsFrom := isFrom\<rparr>
      in if primaryRouteID \<noteq> '''' then ft\<lparr>ft_Route := primaryRouteID, ft_RouteID := Some primaryRouteID\<rparr> else ft)"

type_synonym enriched = "BalanceOperation list \<times> Responses \<times> FromTo list"

definition enrich_one ::
    "(overdraftSplit \<Rightarrow> MBalance \<Rightarrow> BalanceOperation) \<Rightarrow> bool \<Rightarrow> (string, MBalance) gomap \<Rightarrow> overdraftSplit \<Rightarrow> enriched \<Rightarrow> enriched" where
  "enrich_one build isFrom companions s = (\<lambda>(ops, validate, fromTos).
     case map_of companions (os_companionAliasKey s) of
       None \<Rightarrow> (ops, validate, fromTos)
     | Some companion \<Rightarrow>
         (let companionOp = build s companion;
              primaryRouteID = lookupRouteID validate (bo_Alias (os_source s)) isFrom;
              validate = (if isFrom then registerCompanionInValidate companionOp primaryRouteID validate
                          else registerCompanionInValidateTo companionOp primaryRouteID validate)
          in (ops @ [companionOp], validate, fromTos @ [buildCompanionFromTo companionOp isFrom primaryRouteID])))"

definition enrichOverdraftOperations ::
    "extlib \<Rightarrow> uuid \<Rightarrow> uuid \<Rightarrow> BalanceOperation list \<Rightarrow> Responses \<Rightarrow> (string list \<Rightarrow> goerr + MBalance list) \<Rightarrow> goerr + enriched" where
  "enrichOverdraftOperations lib organizationID ledgerID balanceOps validate loader =
     (let debits = collectOverdraftDebitSplits lib balanceOps;
          refunds = collectOverdraftRefundSplits lib balanceOps;
          cancellations = collectOverdraftCancelSplits lib balanceOps
      in if debits = [] \<and> refunds = [] \<and> cancellations = [] then Inr (balanceOps, validate, [])
         else case loader (remdups (map os_companionAliasKey (debits @ refunds @ cancellations))) of
           Inl e \<Rightarrow> Inl (Wrapped ''load overdraft companion balances'' e)
         | Inr loaded \<Rightarrow>
             (let companions = fold (\<lambda>b m. AList.update (mb_Alias b @ ''#'' @ mb_Key b) b m) loaded [];
                  debit = enrich_one (buildCompanionDebitOp lib organizationID ledgerID) True companions;
                  refund = enrich_one (buildCompanionCreditOp lib organizationID ledgerID) False companions;
                  cancel = enrich_one (buildCompanionCreditOp lib organizationID ledgerID) True companions
              in Inr (fold cancel cancellations (fold refund refunds (fold debit debits (balanceOps, validate, []))))))"

text \<open>The operations of a stored transaction, with the fields that the cancellation of an overdraft reads.\<close>

record StoredOperation =
  sop_Type :: string
  sop_Direction :: string
  sop_Amount :: "decimal option"
  sop_AccountAlias :: string
  sop_BalanceKey :: string
  sop_OverdraftUsedBefore :: string
  sop_OverdraftUsedAfter :: string

definition add_usage :: "string \<Rightarrow> decimal \<Rightarrow> (string, decimal) gomap \<Rightarrow> (string, decimal) gomap" where
  "add_usage alias v usage = AList.update alias ((case map_of usage alias of None \<Rightarrow> 0 | Some u \<Rightarrow> u) + v) usage"

definition usage_of_companion :: "StoredOperation \<Rightarrow> (string, decimal) gomap \<Rightarrow> (string, decimal) gomap" where
  "usage_of_companion op usage =
     (case sop_Amount op of
        None \<Rightarrow> usage
      | Some v \<Rightarrow>
          if sop_BalanceKey op \<noteq> OverdraftBalanceKey then usage
          else if sop_Type op \<noteq> OVERDRAFT \<and> sop_Type op \<noteq> DEBIT then usage
          else if sop_Direction op \<noteq> '''' \<and> sop_Direction op \<noteq> DirectionDebit then usage
          else if \<not> 0 < v then usage
          else add_usage (sop_AccountAlias op) v usage)"

definition usage_of_hold :: "extlib \<Rightarrow> StoredOperation \<Rightarrow> (string, decimal) gomap \<Rightarrow> (string, decimal) gomap" where
  "usage_of_hold lib op usage =
     (if sop_BalanceKey op = OverdraftBalanceKey \<or> sop_Type op \<noteq> ONHOLD then usage
      else if (case map_of usage (sop_AccountAlias op) of Some existing \<Rightarrow> 0 < existing | None \<Rightarrow> False) then usage
      else case (dec_NewFromString lib (sop_OverdraftUsedBefore op), dec_NewFromString lib (sop_OverdraftUsedAfter op)) of
        (Some before, Some after) \<Rightarrow>
          (let delta = after - before in if 0 < delta then add_usage (sop_AccountAlias op) delta usage else usage)
      | _ \<Rightarrow> usage)"

definition pendingOverdraftUsageByAlias :: "extlib \<Rightarrow> StoredOperation list \<Rightarrow> (string, decimal) gomap" where
  "pendingOverdraftUsageByAlias lib ops = fold (usage_of_hold lib) ops (fold usage_of_companion ops [])"

definition annotateCanceledOverdraftAmounts :: "extlib \<Rightarrow> BalanceOperation list \<Rightarrow> StoredOperation list \<Rightarrow> BalanceOperation list" where
  "annotateCanceledOverdraftAmounts lib balanceOps operations =
     (if operations = [] then balanceOps
      else (let usageByAlias = pendingOverdraftUsageByAlias lib operations
            in if usageByAlias = [] then balanceOps
               else map (\<lambda>op.
                 let amount = bo_Amount op
                 in if am_TransactionType amount \<noteq> CANCELED then op
                    else if am_Operation amount \<noteq> RELEASE \<and> am_Operation amount \<noteq> CREDIT then op
                    else if am_RouteValidationEnabled amount \<and> am_Operation amount \<noteq> CREDIT then op
                    else if \<not> am_RouteValidationEnabled amount \<and> am_Operation amount \<noteq> RELEASE then op
                    else case map_of usageByAlias (accountAliasFromOperationAlias (bo_Alias op)) of
                      None \<Rightarrow> op
                    | Some usage \<Rightarrow> if \<not> 0 < usage then op else op\<lparr>bo_Amount := amount\<lparr>am_OverdraftAmount := usage\<rparr>\<rparr>) balanceOps))"

section \<open>The adapter of the script\<close>

record Conn =
  cn_client :: "goerr option"
  cn_tenantKey :: "string \<Rightarrow> goerr + string"
  cn_raised :: string

definition boolToInt :: "bool \<Rightarrow> int" where
  "boolToInt b = (if b then 1 else 0)"

definition settings_args :: "BalanceSettings option \<Rightarrow> int \<times> int \<times> string \<times> string" where
  "settings_args settings =
     (case settings of
        None \<Rightarrow> (0, 0, ''0'', BalanceScopeTransactional)
      | Some s \<Rightarrow>
          (boolToInt (bs_AllowOverdraft s), boolToInt (bs_OverdraftLimitEnabled s),
           (case bs_OverdraftLimit s of Some l \<Rightarrow> l | None \<Rightarrow> ''0''),
           (if bs_BalanceScope s \<noteq> '''' then bs_BalanceScope s else BalanceScopeTransactional)))"

definition script_balance :: "extlib \<Rightarrow> MBalance \<Rightarrow> LuaBalance" where
  "script_balance lib b =
     (let (allowOverdraft, overdraftLimitEnabled, overdraftLimit, balanceScope) = settings_args (mb_Settings b)
      in \<lparr>lb_ID = mb_ID b, lb_Available = dec_String lib (mb_Available b), lb_OnHold = dec_String lib (mb_OnHold b),
          lb_Version = mb_Version b, lb_AccountType = mb_AccountType b, lb_AccountID = mb_AccountID b,
          lb_AssetCode = mb_AssetCode b, lb_AllowSending = boolToInt (mb_AllowSending b),
          lb_AllowReceiving = boolToInt (mb_AllowReceiving b), lb_Key = mb_Key b, lb_Direction = mb_Direction b,
          lb_OverdraftUsed = dec_String lib (mb_OverdraftUsed b), lb_AllowOverdraft = allowOverdraft,
          lb_OverdraftLimitEnabled = overdraftLimitEnabled, lb_OverdraftLimit = overdraftLimit,
          lb_BalanceScope = balanceScope, lb_Alias = None\<rparr>)"

definition script_op :: "extlib \<Rightarrow> string \<Rightarrow> string \<Rightarrow> bool \<Rightarrow> BalanceOperation \<Rightarrow> ScriptOp" where
  "script_op lib key transactionStatus pending op =
     \<lparr>so_redisBalanceKey = key, so_isPending = boolToInt pending, so_transactionStatus = transactionStatus,
      so_operation = am_Operation (bo_Amount op), so_amount = dec_String lib (am_Value (bo_Amount op)), so_alias = bo_Alias op,
      so_routeValidationEnabled = boolToInt (am_RouteValidationEnabled (bo_Amount op)),
      so_balance = script_balance lib (bo_Balance op), so_overdraftAmount = dec_String lib (am_OverdraftAmount (bo_Amount op))\<rparr>"

record balanceAtomicOperationPlan =
  pl_args :: "ScriptOp list"
  pl_mapBalances :: "(string, MBalance) gomap"
  pl_notedBalances :: "MBalance list"

fun build_plan ::
    "extlib \<Rightarrow> Conn \<Rightarrow> string \<Rightarrow> bool \<Rightarrow> BalanceOperation list \<Rightarrow> balanceAtomicOperationPlan \<Rightarrow> goerr + balanceAtomicOperationPlan" where
  "build_plan lib cn transactionStatus pending [] plan = Inr plan"
| "build_plan lib cn transactionStatus pending (op # ops) plan =
     (case cn_tenantKey cn (bo_InternalKey op) of
        Inl e \<Rightarrow> Inl e
      | Inr key \<Rightarrow>
          build_plan lib cn transactionStatus pending ops
            (plan\<lparr>pl_args := pl_args plan @ [script_op lib key transactionStatus pending op],
                  pl_mapBalances := AList.update (bo_Alias op) (bo_Balance op) (pl_mapBalances plan),
                  pl_notedBalances := (if transactionStatus = NOTED
                    then pl_notedBalances plan @ [(bo_Balance op)\<lparr>mb_Alias := bo_Alias op\<rparr>] else pl_notedBalances plan)\<rparr>))"

definition buildBalanceAtomicOperationPlan ::
    "extlib \<Rightarrow> Conn \<Rightarrow> string \<Rightarrow> bool \<Rightarrow> BalanceOperation list \<Rightarrow> goerr + balanceAtomicOperationPlan" where
  "buildBalanceAtomicOperationPlan lib cn transactionStatus pending balancesOperation =
     build_plan lib cn transactionStatus pending balancesOperation
       \<lparr>pl_args = [], pl_mapBalances = [], pl_notedBalances = []\<rparr>"

record BalanceRedis =
  br_ID :: string
  br_Alias :: string
  br_Key :: string
  br_AccountID :: string
  br_AssetCode :: string
  br_Available :: decimal
  br_OnHold :: decimal
  br_Version :: int
  br_AccountType :: string
  br_AllowSending :: int
  br_AllowReceiving :: int
  br_Direction :: string
  br_OverdraftUsed :: string
  br_AllowOverdraft :: int
  br_OverdraftLimitEnabled :: int
  br_OverdraftLimit :: string
  br_BalanceScope :: string

text \<open>
  \<^verbatim>\<open>BalanceRedis.UnmarshalJSON\<close> on a table that the script has encoded: amounts arrive as strings. An
  element that cannot be read is skipped by \<^verbatim>\<open>balanceRedisList.UnmarshalJSON\<close>.
\<close>

definition BalanceRedis_UnmarshalJSON :: "extlib \<Rightarrow> LuaBalance \<Rightarrow> BalanceRedis option" where
  "BalanceRedis_UnmarshalJSON lib b =
     (case (dec_NewFromString lib (lb_Available b), dec_NewFromString lib (lb_OnHold b)) of
        (Some available, Some onHold) \<Rightarrow>
          Some \<lparr>br_ID = lb_ID b, br_Alias = or_default '''' (lb_Alias b),
                br_Key = (if lb_Key b = '''' then DefaultBalanceKey else lb_Key b), br_AccountID = lb_AccountID b,
                br_AssetCode = lb_AssetCode b, br_Available = available, br_OnHold = onHold, br_Version = lb_Version b,
                br_AccountType = lb_AccountType b, br_AllowSending = lb_AllowSending b,
                br_AllowReceiving = lb_AllowReceiving b, br_Direction = lb_Direction b,
                br_OverdraftUsed = lb_OverdraftUsed b, br_AllowOverdraft = lb_AllowOverdraft b,
                br_OverdraftLimitEnabled = lb_OverdraftLimitEnabled b,
                br_OverdraftLimit = (if lb_OverdraftLimit b = '''' then ''0'' else lb_OverdraftLimit b),
                br_BalanceScope = lb_BalanceScope b\<rparr>
      | _ \<Rightarrow> None)"

definition balanceRedisList_UnmarshalJSON :: "extlib \<Rightarrow> LuaBalance list \<Rightarrow> BalanceRedis list" where
  "balanceRedisList_UnmarshalJSON lib bs = List.map_filter (BalanceRedis_UnmarshalJSON lib) bs"

definition settings_of_redis :: "BalanceRedis \<Rightarrow> BalanceSettings option" where
  "settings_of_redis b =
     (if br_AllowOverdraft b \<noteq> 0 \<or> br_OverdraftLimitEnabled b \<noteq> 0 \<or>
         br_BalanceScope b \<noteq> '''' \<and> br_BalanceScope b \<noteq> BalanceScopeTransactional \<or>
         br_OverdraftLimit b \<noteq> '''' \<and> br_OverdraftLimit b \<noteq> ''0''
      then Some \<lparr>bs_BalanceScope = br_BalanceScope b, bs_AllowOverdraft = (br_AllowOverdraft b = 1),
                 bs_OverdraftLimitEnabled = (br_OverdraftLimitEnabled b = 1),
                 bs_OverdraftLimit = (if br_OverdraftLimitEnabled b = 1 \<and> br_OverdraftLimit b \<noteq> ''''
                   then Some (br_OverdraftLimit b) else None)\<rparr>
      else None)"

definition balanceRedisToBalance :: "extlib \<Rightarrow> (string, MBalance) gomap \<Rightarrow> BalanceRedis \<Rightarrow> MBalance option" where
  "balanceRedisToBalance lib mapBalances b =
     (case map_of mapBalances (br_Alias b) of
        None \<Rightarrow> None
      | Some mapBalance \<Rightarrow>
          Some \<lparr>mb_ID = br_ID b, mb_OrganizationID = mb_OrganizationID mapBalance, mb_LedgerID = mb_LedgerID mapBalance,
                mb_AccountID = br_AccountID b, mb_Alias = br_Alias b,
                mb_Key = (if mb_Key mapBalance = '''' then DefaultBalanceKey else mb_Key mapBalance),
                mb_AssetCode = mb_AssetCode mapBalance, mb_Available = br_Available b, mb_OnHold = br_OnHold b,
                mb_Version = br_Version b, mb_AccountType = br_AccountType b,
                mb_AllowSending = mb_AllowSending mapBalance, mb_AllowReceiving = mb_AllowReceiving mapBalance,
                mb_Direction = br_Direction b,
                mb_OverdraftUsed = (case dec_NewFromString lib (br_OverdraftUsed b) of Some u \<Rightarrow> u | None \<Rightarrow> 0),
                mb_Settings = settings_of_redis b, mb_CreatedAt = mb_CreatedAt mapBalance,
                mb_UpdatedAt = mb_UpdatedAt mapBalance, mb_DeletedAt = None, mb_Metadata = None\<rparr>)"

definition collectBalanceSnapshots :: "extlib \<Rightarrow> BalanceRedis list \<Rightarrow> (string, MBalance) gomap \<Rightarrow> MBalance list" where
  "collectBalanceSnapshots lib balances mapBalances = List.map_filter (balanceRedisToBalance lib mapBalances) balances"

record BalanceAtomicResult =
  ar_Before :: "MBalance list"
  ar_After :: "MBalance list"

definition decodeBalanceAtomicResult :: "extlib \<Rightarrow> LuaBalance list \<times> LuaBalance list \<Rightarrow> (string, MBalance) gomap \<Rightarrow> BalanceAtomicResult" where
  "decodeBalanceAtomicResult lib result mapBalances =
     \<lparr>ar_Before = collectBalanceSnapshots lib (balanceRedisList_UnmarshalJSON lib (fst result)) mapBalances,
      ar_After = collectBalanceSnapshots lib (balanceRedisList_UnmarshalJSON lib (snd result)) mapBalances\<rparr>"

definition TransactionBackupQueue :: string where
  "TransactionBackupQueue = ''backup_queue:{transactions}''"

definition BalanceSyncScheduleKey :: string where
  "BalanceSyncScheduleKey = ''schedule:{transactions}:balance-sync-v2''"

fun tenantKeysFromContext :: "Conn \<Rightarrow> string list \<Rightarrow> goerr + string list" where
  "tenantKeysFromContext cn [] = Inr []"
| "tenantKeysFromContext cn (k # ks) =
     (case cn_tenantKey cn k of
        Inl e \<Rightarrow> Inl e
      | Inr k' \<Rightarrow> (case tenantKeysFromContext cn ks of Inl e \<Rightarrow> Inl e | Inr ks' \<Rightarrow> Inr (k' # ks')))"

definition runBalanceAtomicScript ::
    "Conn \<Rightarrow> string list \<Rightarrow> rat \<Rightarrow> ScriptOp list \<Rightarrow> RedisState \<Rightarrow> RedisState \<times> (goerr + LuaBalance list \<times> LuaBalance list)" where
  "runBalanceAtomicScript cn keys dueAt args r =
     (case main (keys ! 1) dueAt args r of
        (r', Inl e) \<Rightarrow> (r', Inl (mapBalanceAtomicScriptError (client_error (cn_raised cn) e)))
      | (r', Inr result) \<Rightarrow> (r', Inr result))"

definition ProcessBalanceAtomicOperation ::
    "extlib \<Rightarrow> Conn \<Rightarrow> rat \<Rightarrow> uuid \<Rightarrow> uuid \<Rightarrow> uuid \<Rightarrow> string \<Rightarrow> bool \<Rightarrow> BalanceOperation list \<Rightarrow> RedisState \<Rightarrow>
     RedisState \<times> (goerr + BalanceAtomicResult)" where
  "ProcessBalanceAtomicOperation lib cn dueAt organizationID ledgerID transactionID transactionStatus pending balancesOperation r =
     (case cn_client cn of
        Some e \<Rightarrow> (r, Inl e)
      | None \<Rightarrow>
          (case buildBalanceAtomicOperationPlan lib cn transactionStatus pending balancesOperation of
             Inl e \<Rightarrow> (r, Inl e)
           | Inr plan \<Rightarrow>
               if transactionStatus = NOTED then (r, Inr \<lparr>ar_Before = pl_notedBalances plan, ar_After = pl_notedBalances plan\<rparr>)
               else (case tenantKeysFromContext cn
                        [TransactionBackupQueue, TransactionInternalKey lib organizationID ledgerID (uuid_String lib transactionID),
                         BalanceSyncScheduleKey] of
                   Inl e \<Rightarrow> (r, Inl e)
                 | Inr prefixedKeys \<Rightarrow>
                     (case runBalanceAtomicScript cn prefixedKeys dueAt (pl_args plan) r of
                        (r', Inl e) \<Rightarrow> (r', Inl e)
                      | (r', Inr result) \<Rightarrow> (r', Inr (decodeBalanceAtomicResult lib result (pl_mapBalances plan)))))))"

section \<open>The command\<close>

fun dedup_balances :: "extlib \<Rightarrow> string list \<Rightarrow> BalanceOperation list \<Rightarrow> goerr + Balance list" where
  "dedup_balances lib met [] = Inr []"
| "dedup_balances lib met (bo # ops) =
     (if bo_Alias bo \<in> set met then dedup_balances lib met ops
      else case ToTransactionBalance lib (bo_Balance bo) of
        Inl e \<Rightarrow> Inl (Wrapped ''corrupted balance'' e)
      | Inr txBal \<Rightarrow>
          (case dedup_balances lib (bo_Alias bo # met) ops of Inl e \<Rightarrow> Inl e | Inr bs \<Rightarrow> Inr (txBal # bs)))"

definition deduplicateBalances :: "extlib \<Rightarrow> BalanceOperation list \<Rightarrow> goerr + Balance list" where
  "deduplicateBalances lib operations = dedup_balances lib [] operations"

record ProcessBalanceOperationsInput =
  pb_OrganizationID :: uuid
  pb_LedgerID :: uuid
  pb_TransactionID :: uuid
  pb_TransactionInput :: "Transaction option"
  pb_Validate :: Responses
  pb_BalanceOperations :: "BalanceOperation list"
  pb_TransactionStatus :: string

definition balance_rules :: "extlib \<Rightarrow> ProcessBalanceOperationsInput \<Rightarrow> goerr option" where
  "balance_rules lib input =
     (case pb_TransactionInput input of
        None \<Rightarrow> None
      | Some _ \<Rightarrow>
          (case deduplicateBalances lib (pb_BalanceOperations input) of
             Inl e \<Rightarrow> Some e
           | Inr txBalances \<Rightarrow> ValidateBalancesRules (pb_Validate input) txBalances))"

definition ProcessBalanceOperations ::
    "extlib \<Rightarrow> Conn \<Rightarrow> rat \<Rightarrow> ProcessBalanceOperationsInput \<Rightarrow> RedisState \<Rightarrow> RedisState \<times> (goerr + BalanceAtomicResult)" where
  "ProcessBalanceOperations lib cn dueAt input r =
     (case balance_rules lib input of
        Some e \<Rightarrow> (r, Inl e)
      | None \<Rightarrow>
          ProcessBalanceAtomicOperation lib cn dueAt (pb_OrganizationID input) (pb_LedgerID input) (pb_TransactionID input)
            (pb_TransactionStatus input) (rsp_Pending (pb_Validate input)) (pb_BalanceOperations input) r)"

end
