(* ===== verification/BalanceCallsProofs.thy ===== *)
theory BalanceCallsProofs
  imports BalanceCalls "HOL-Library.Multiset"
begin

text \<open>
  The overdraft of a balance and its companion. The overdraft that a balance uses is also kept as the
  amount of a companion balance of debit direction. The Go code adds the operations on companions before
  the script runs; the script works out the overdraft on its own. The two agree as long as the balances
  that the Go code read are the current ones.
\<close>

section \<open>The state after an accepted batch\<close>

definition cached :: "RedisState \<Rightarrow> string \<Rightarrow> LuaBalance \<Rightarrow> LuaBalance" where
  "cached r key b = (case view r key of None \<Rightarrow> b | Some b' \<Rightarrow> b')"

lemma seen_cached: "seen r op = cached r (so_redisBalanceKey op) (so_balance op)"
  by (simp add: seen_eq cached_def)

text \<open>The amounts of \<open>b'\<close> are those that an operation computes.\<close>

definition carries :: "LuaBalance \<Rightarrow> string \<times> string \<times> string \<Rightarrow> bool" where
  "carries b' vals \<longleftrightarrow> vals = (lb_Available b', lb_OnHold b', lb_OverdraftUsed b')"

lemma script_step_result:
  assumes "script_step dueAt op s = (s', None)"
  shows "\<exists>vals b'. script_compute op (seen (ss_redis s) op) = Inr vals \<and>
    view (ss_redis s') (so_redisBalanceKey op) = Some b' \<and> carries b' vals"
    and "key \<noteq> so_redisBalanceKey op \<Longrightarrow> view (ss_redis s') key = view (ss_redis s) key"
proof -
  obtain r b where f: "script_fetch op (ss_redis s) = (r, b)" by force
  then have b: "b = seen (ss_redis s) op" by (simp add: seen_def)
  have rk: "view r (so_redisBalanceKey op) = Some b" and r: "key \<noteq> so_redisBalanceKey op \<Longrightarrow> view r key = view (ss_redis s) key"
    using f by (auto simp: script_fetch_def view_def split: option.splits)
  obtain av oh us where c: "script_compute op b = Inr (av, oh, us)"
      and s': "s' = script_write dueAt op b (av, oh, us) (note_rollback (so_redisBalanceKey op) b (s\<lparr>ss_redis := r\<rparr>))"
    using assms f by (auto simp: script_step_def Let_def split: sum.splits lua_error.splits)
  show "\<exists>vals b'. script_compute op (seen (ss_redis s) op) = Inr vals \<and>
      view (ss_redis s') (so_redisBalanceKey op) = Some b' \<and> carries b' vals"
    using c rk by (auto simp: s' b [symmetric] script_write_def note_rollback_def Let_def view_def carries_def)
  show "key \<noteq> so_redisBalanceKey op \<Longrightarrow> view (ss_redis s') key = view (ss_redis s) key"
    using r by (auto simp: s' script_write_def note_rollback_def Let_def view_def)
qed

lemma script_loop_untouched:
  "script_loop dueAt ops s = (s', None) \<Longrightarrow> key \<notin> so_redisBalanceKey ` set ops \<Longrightarrow> view (ss_redis s') key = view (ss_redis s) key"
  by (induction ops arbitrary: s) (auto dest: script_step_result(2) split: prod.splits option.splits)

lemma script_loop_result:
  assumes "distinct (map so_redisBalanceKey ops)" "script_loop dueAt ops s = (s', None)" "op \<in> set ops"
  shows "\<exists>vals b'. script_compute op (seen (ss_redis s) op) = Inr vals \<and>
    view (ss_redis s') (so_redisBalanceKey op) = Some b' \<and> carries b' vals"
  using assms
proof (induction ops arbitrary: s)
  case (Cons o' ops)
  obtain s1 where s1: "script_step dueAt o' s = (s1, None)" "script_loop dueAt ops s1 = (s', None)"
    using Cons.prems(2) by (auto split: prod.splits option.splits)
  show ?case
  proof (cases "op = o'")
    case True
    have "view (ss_redis s') (so_redisBalanceKey op) = view (ss_redis s1) (so_redisBalanceKey op)"
      using script_loop_untouched [OF s1(2)] Cons.prems(1) True by simp
    with script_step_result(1) [OF s1(1)] True show ?thesis by simp
  next
    case False
    then have op: "op \<in> set ops" using Cons.prems(3) by simp
    then have "so_redisBalanceKey op \<noteq> so_redisBalanceKey o'" using Cons.prems(1) by (auto simp: image_iff)
    then have "seen (ss_redis s1) op = seen (ss_redis s) op"
      using script_step_result(2) [OF s1(1)] by (simp add: seen_eq)
    with Cons.IH [OF _ s1(2) op] Cons.prems(1) show ?thesis by simp
  qed
qed simp

lemma build_plan_args:
  assumes "\<forall>key. cn_tenantKey cn key = Inr (prefix @ key)"
  shows "build_plan lib cn status pending ops plan = Inr plan' \<Longrightarrow>
    pl_args plan' = pl_args plan @ map (\<lambda>op. script_op lib (prefix @ bo_InternalKey op) status pending op) ops"
  using assms by (induction ops arbitrary: plan) simp_all

text \<open>The same for the adapter of the script: every operation gets what the script computes for it.\<close>

lemma processed_result:
  assumes keys: "\<forall>key. cn_tenantKey cn key = Inr (prefix @ key)" and st: "status \<noteq> NOTED"
    and run: "ProcessBalanceAtomicOperation lib cn dueAt org led tx status pending ops r = (r', Inr res)"
    and dist: "distinct (map bo_InternalKey ops)"
  shows processed_op: "op \<in> set ops \<Longrightarrow>
      \<exists>vals b'. script_compute (script_op lib (prefix @ bo_InternalKey op) status pending op)
          (cached r (prefix @ bo_InternalKey op) (script_balance lib (bo_Balance op))) = Inr vals \<and>
        view r' (prefix @ bo_InternalKey op) = Some b' \<and> carries b' vals"
    and processed_untouched: "key \<notin> bo_InternalKey ` set ops \<Longrightarrow> view r' (prefix @ key) = view r (prefix @ key)"
proof -
  define sops where "sops = map (\<lambda>op. script_op lib (prefix @ bo_InternalKey op) status pending op) ops"
  obtain plan where plan: "buildBalanceAtomicOperationPlan lib cn status pending ops = Inr plan"
    using run by (auto simp: ProcessBalanceAtomicOperation_def split: option.splits sum.splits if_splits)
  have args: "pl_args plan = sops"
    using build_plan_args [OF keys plan [unfolded buildBalanceAtomicOperationPlan_def]] by (simp add: sops_def)
  obtain tk before after where "main tk dueAt sops r = (r', Inr (before, after))"
    using run plan args st
    by (auto simp: ProcessBalanceAtomicOperation_def runBalanceAtomicScript_def split: option.splits sum.splits if_splits prod.splits)
  then obtain s where s: "script_loop dueAt sops \<lparr>ss_redis = r, ss_rollback = [], ss_returnBalances = [], ss_returnBalancesAfter = []\<rparr> = (s, None)"
      "\<And>k. view r' k = view (ss_redis s) k"
    by (auto simp: main_def updateTransactionHash_def view_def split: prod.splits option.splits)
  have map_keys: "map so_redisBalanceKey sops = map (\<lambda>k. prefix @ k) (map bo_InternalKey ops)"
    by (simp add: sops_def script_op_def)
  then have d: "distinct (map so_redisBalanceKey sops)" using dist by (simp only: map_keys distinct_map [of "\<lambda>k. prefix @ k"] inj_on_def) simp
  have image_keys: "so_redisBalanceKey ` set sops = (\<lambda>k. prefix @ k) ` bo_InternalKey ` set ops"
    using arg_cong [OF map_keys, of set] by (simp only: set_map)
  show "\<exists>vals b'. script_compute (script_op lib (prefix @ bo_InternalKey op) status pending op)
          (cached r (prefix @ bo_InternalKey op) (script_balance lib (bo_Balance op))) = Inr vals \<and>
        view r' (prefix @ bo_InternalKey op) = Some b' \<and> carries b' vals" if op: "op \<in> set ops"
  proof -
    let ?sop = "script_op lib (prefix @ bo_InternalKey op) status pending op"
    have "?sop \<in> set sops" using op by (simp add: sops_def)
    from script_loop_result [OF d s(1) this] show ?thesis
      using s(2) by (simp add: seen_cached script_op_def)
  qed
  show "view r' (prefix @ key) = view r (prefix @ key)" if "key \<notin> bo_InternalKey ` set ops"
    using script_loop_untouched [OF s(1), of "prefix @ key"] s(2) that image_keys by auto
qed


section \<open>The operations that are added\<close>

text \<open>The key of the companion of an operation's balance in the cache.\<close>

definition companion_internal :: "extlib \<Rightarrow> uuid \<Rightarrow> uuid \<Rightarrow> BalanceOperation \<Rightarrow> string" where
  "companion_internal lib organizationID ledgerID op = BalanceInternalKey lib organizationID ledgerID (companion_key op)"

definition own_splits :: "extlib \<Rightarrow> BalanceOperation \<Rightarrow> overdraftSplit list" where
  "own_splits lib op = debit_split lib op @ refund_split lib op @ cancel_split lib op"

definition companion_index :: "MBalance list \<Rightarrow> (string, MBalance) gomap" where
  "companion_index loaded = fold (\<lambda>b m. AList.update (mb_Alias b @ ''#'' @ mb_Key b) b m) loaded []"

lemma companion_index_key:
  assumes "map_of (companion_index loaded) key = Some b"
  shows "key = mb_Alias b @ ''#'' @ mb_Key b \<and> b \<in> set loaded"
proof -
  have "map_of (fold (\<lambda>b m. AList.update (mb_Alias b @ ''#'' @ mb_Key b) b m) bs m) key = Some b \<Longrightarrow>
      map_of m key = Some b \<or> key = mb_Alias b @ ''#'' @ mb_Key b \<and> b \<in> set bs" for bs m
  proof (induction bs arbitrary: m)
    case (Cons c bs)
    from Cons.IH [of "AList.update (mb_Alias c @ ''#'' @ mb_Key c) c m"] Cons.prems show ?case
      by (auto simp: update_conv' split: if_splits)
  qed simp
  from this [of loaded "[]"] assms show ?thesis by (simp add: companion_index_def)
qed

lemma companion_index_found:
  assumes "distinct (map (\<lambda>b. mb_Alias b @ ''#'' @ mb_Key b) loaded)" "b \<in> set loaded"
  shows "map_of (companion_index loaded) (mb_Alias b @ ''#'' @ mb_Key b) = Some b"
proof -
  have keep: "key \<notin> set (map (\<lambda>b. mb_Alias b @ ''#'' @ mb_Key b) bs) \<Longrightarrow>
      map_of (fold (\<lambda>b m. AList.update (mb_Alias b @ ''#'' @ mb_Key b) b m) bs m) key = map_of m key" for bs m key
    by (induction bs arbitrary: m) (auto simp: update_conv')
  have "map_of (fold (\<lambda>b m. AList.update (mb_Alias b @ ''#'' @ mb_Key b) b m) loaded m) (mb_Alias b @ ''#'' @ mb_Key b) = Some b" for m
    using assms
  proof (induction loaded arbitrary: m)
    case (Cons c bs)
    then show ?case
      using keep [of "mb_Alias c @ ''#'' @ mb_Key c" bs "AList.update (mb_Alias c @ ''#'' @ mb_Key c) c m"]
      by (cases "b = c") (auto simp: update_conv')
  qed simp
  then show ?thesis by (simp add: companion_index_def)
qed

text \<open>The companion operation of a split, where its companion is known.\<close>

definition companion_of :: "(overdraftSplit \<Rightarrow> MBalance \<Rightarrow> BalanceOperation) \<Rightarrow> (string, MBalance) gomap \<Rightarrow> overdraftSplit \<Rightarrow> BalanceOperation option" where
  "companion_of build m s = map_option (build s) (map_of m (os_companionAliasKey s))"

lemma fold_enrich_one:
  "fst (fold (enrich_one build isFrom m) splits st) = fst st @ List.map_filter (companion_of build m) splits"
  by (induction splits arbitrary: st)
     (auto simp: enrich_one_def companion_of_def List.map_filter_def Let_def split: option.splits prod.splits)

lemma map_filter_append: "List.map_filter f (xs @ ys) = List.map_filter f xs @ List.map_filter f ys"
  by (simp add: List.map_filter_def)

definition added_operations :: "extlib \<Rightarrow> uuid \<Rightarrow> uuid \<Rightarrow> (string, MBalance) gomap \<Rightarrow> BalanceOperation list \<Rightarrow> BalanceOperation list" where
  "added_operations lib organizationID ledgerID m ops =
     List.map_filter (companion_of (buildCompanionDebitOp lib organizationID ledgerID) m) (collectOverdraftDebitSplits lib ops) @
     List.map_filter (companion_of (buildCompanionCreditOp lib organizationID ledgerID) m)
       (collectOverdraftRefundSplits lib ops @ collectOverdraftCancelSplits lib ops)"

lemma enriched_operations:
  assumes "enrichOverdraftOperations lib org led ops validate loader = Inr (ops', v, fts)"
  shows "ops' = ops \<and> (\<forall>op \<in> set ops. own_splits lib op = []) \<or>
    (\<exists>aliases loaded. companion_key ` {op \<in> set ops. own_splits lib op \<noteq> []} \<subseteq> set aliases \<and> loader aliases = Inr loaded \<and>
       ops' = ops @ added_operations lib org led (companion_index loaded) ops)"
proof -
  let ?d = "collectOverdraftDebitSplits lib ops" and ?r = "collectOverdraftRefundSplits lib ops" and ?c = "collectOverdraftCancelSplits lib ops"
  let ?al = "remdups (map os_companionAliasKey (?d @ ?r @ ?c))"
  note collects = collectOverdraftDebitSplits_def collectOverdraftRefundSplits_def collectOverdraftCancelSplits_def
  show ?thesis
  proof (cases "?d = [] \<and> ?r = [] \<and> ?c = []")
    case True
    then show ?thesis using assms by (auto simp: enrichOverdraftOperations_def own_splits_def collects)
  next
    case False
    then obtain loaded where l: "loader ?al = Inr loaded"
      using assms by (auto simp: enrichOverdraftOperations_def Let_def split: sum.splits)
    have "companion_key ` {op \<in> set ops. own_splits lib op \<noteq> []} \<subseteq> set ?al"
    proof
      fix key assume "key \<in> companion_key ` {op \<in> set ops. own_splits lib op \<noteq> []}"
      then obtain op where key: "key = companion_key op" and op: "op \<in> set ops" and ne: "own_splits lib op \<noteq> []" by blast
      obtain s where s: "s \<in> set (own_splits lib op)" using ne by (cases "own_splits lib op") auto
      have "s \<in> set ?d \<union> set ?r \<union> set ?c" using s op by (auto simp: own_splits_def collects)
      moreover have "os_companionAliasKey s = companion_key op"
        using s by (auto simp: own_splits_def debit_split_def refund_split_def cancel_split_def Let_def split: sum.splits prod.splits if_splits)
      ultimately show "key \<in> set ?al" unfolding key set_remdups set_map set_append by (metis Un_assoc imageI)
    qed
    moreover have "ops' = ops @ added_operations lib org led (companion_index loaded) ops"
      using assms l False
      by (auto simp: enrichOverdraftOperations_def Let_def added_operations_def companion_index_def map_filter_append
          fold_enrich_one [where st = "fold _ _ _"] fold_enrich_one [where st = "(_, _, _)"] dest!: arg_cong [where f = fst])
    ultimately show ?thesis using l by blast
  qed
qed


text \<open>An operation is split in at most one of the three ways.\<close>

lemma splits_single:
  "s \<in> set (debit_split lib op) \<Longrightarrow> debit_split lib op = [s] \<and> os_companionAliasKey s = companion_key op \<and> os_source s = op"
  "s \<in> set (refund_split lib op) \<Longrightarrow> refund_split lib op = [s] \<and> os_companionAliasKey s = companion_key op \<and> os_source s = op"
  "s \<in> set (cancel_split lib op) \<Longrightarrow> cancel_split lib op = [s] \<and> os_companionAliasKey s = companion_key op \<and> os_source s = op"
  by (auto simp: debit_split_def refund_split_def cancel_split_def Let_def split: sum.splits prod.splits if_splits)

lemma splits_guards:
  "debit_split lib op \<noteq> [] \<Longrightarrow> isOverdraftDebitSplitCandidate (bo_Amount op)"
  "refund_split lib op \<noteq> [] \<Longrightarrow> am_Operation (bo_Amount op) = CREDIT \<and> \<not> isCancelOverdraftOverride (bo_Amount op)"
  "cancel_split lib op \<noteq> [] \<Longrightarrow> isCancelOverdraftOverride (bo_Amount op)"
  by (simp_all only: debit_split_def refund_split_def cancel_split_def split: if_splits) simp_all

lemma own_splits_single:
  assumes "s \<in> set (own_splits lib op)"
  shows "own_splits lib op = [s]" "os_companionAliasKey s = companion_key op" "os_source s = op"
proof -
  have "\<not> (isOverdraftDebitSplitCandidate a \<and> am_Operation a = CREDIT)" "\<not> (isOverdraftDebitSplitCandidate a \<and> isCancelOverdraftOverride a)" for a
    by (auto simp: isOverdraftDebitSplitCandidate_def isCancelOverdraftOverride_def)
  with assms have "own_splits lib op = [s] \<and> os_companionAliasKey s = companion_key op \<and> os_source s = op"
    using splits_guards [of lib op] splits_single [of s lib op] unfolding own_splits_def set_append
    by (metis UnE append_Nil append_Nil2 empty_iff empty_set)
  then show "own_splits lib op = [s]" "os_companionAliasKey s = companion_key op" "os_source s = op" by simp_all
qed

lemma companion_of_key:
  assumes "companion_of build (companion_index loaded) s = Some cop" "build \<in> {buildCompanionDebitOp lib org led, buildCompanionCreditOp lib org led}"
  shows "bo_InternalKey cop = BalanceInternalKey lib org led (os_companionAliasKey s)"
  using assms companion_index_key [of loaded "os_companionAliasKey s"]
  by (auto simp: companion_of_def buildCompanionDebitOp_def buildCompanionCreditOp_def companion_op_def)

lemma added_keys:
  "map bo_InternalKey (added_operations lib org led (companion_index loaded) ops) =
   map (BalanceInternalKey lib org led) (filter (\<lambda>key. map_of (companion_index loaded) key \<noteq> None)
     (map os_companionAliasKey (collectOverdraftDebitSplits lib ops @ collectOverdraftRefundSplits lib ops @ collectOverdraftCancelSplits lib ops)))"
proof -
  let ?m = "companion_index loaded"
  have "map bo_InternalKey (List.map_filter (companion_of build ?m) splits) =
      map (BalanceInternalKey lib org led) (filter (\<lambda>key. map_of ?m key \<noteq> None) (map os_companionAliasKey splits))"
    if "build \<in> {buildCompanionDebitOp lib org led, buildCompanionCreditOp lib org led}" for build splits
  proof (induction splits)
    case (Cons s splits)
    show ?case
    proof (cases "map_of ?m (os_companionAliasKey s)")
      case None
      with Cons show ?thesis by (simp add: List.map_filter_def companion_of_def)
    next
      case (Some c)
      then have "companion_of build ?m s = Some (build s c)" by (simp add: companion_of_def)
      with companion_of_key [OF this that] Cons Some show ?thesis by (simp add: List.map_filter_def)
    qed
  qed (simp add: List.map_filter_def)
  then show ?thesis by (simp add: added_operations_def map_filter_append)
qed

lemma mset_collected:
  "mset (collectOverdraftDebitSplits lib ops @ collectOverdraftRefundSplits lib ops @ collectOverdraftCancelSplits lib ops) =
   mset (concat (map (own_splits lib) ops))"
  by (induction ops)
     (auto simp: collectOverdraftDebitSplits_def collectOverdraftRefundSplits_def collectOverdraftCancelSplits_def own_splits_def)

lemma BalanceInternalKey_inject [simp]: "BalanceInternalKey lib org led x = BalanceInternalKey lib org led y \<longleftrightarrow> x = y"
  by (simp add: BalanceInternalKey_def)

lemma distinct_own_splits:
  assumes "distinct (map (companion_internal lib org led) ops)"
  shows "distinct (map os_companionAliasKey (concat (map (own_splits lib) ops)))"
  using assms
proof (induction ops)
  case (Cons op ops)
  have sub: "os_companionAliasKey ` set (concat (map (own_splits lib) os)) \<subseteq> companion_key ` set os" for os
    by (auto dest: own_splits_single(2))
  have "companion_key op \<notin> companion_key ` set ops" using Cons.prems by (auto simp: companion_internal_def image_iff)
  moreover have "own_splits lib op = [] \<or> (\<exists>s. own_splits lib op = [s] \<and> os_companionAliasKey s = companion_key op)"
    using own_splits_single [of "hd (own_splits lib op)" lib op] by (cases "own_splits lib op") auto
  moreover have "companion_key op \<notin> set (map os_companionAliasKey (concat (map (own_splits lib) ops)))"
    using calculation(1) sub [of ops] by (simp only: set_map) blast
  ultimately show ?case using Cons.IH Cons.prems by auto
qed simp

lemma enriched_distinct:
  assumes dist: "distinct (map bo_InternalKey ops @ map (companion_internal lib org led) ops)"
  shows "distinct (map bo_InternalKey (ops @ added_operations lib org led (companion_index loaded) ops))"
    and "op \<in> set ops \<Longrightarrow> own_splits lib op = [] \<Longrightarrow>
      companion_internal lib org led op \<notin> bo_InternalKey ` set (ops @ added_operations lib org led (companion_index loaded) ops)"
proof -
  let ?splits = "collectOverdraftDebitSplits lib ops @ collectOverdraftRefundSplits lib ops @ collectOverdraftCancelSplits lib ops"
  let ?added = "map bo_InternalKey (added_operations lib org led (companion_index loaded) ops)"
  have "distinct (map os_companionAliasKey (concat (map (own_splits lib) ops)))" using distinct_own_splits dist by auto
  then have "distinct (map os_companionAliasKey ?splits)"
    by (metis mset_collected mset_map mset_eq_imp_distinct_iff)
  moreover have "distinct (map (BalanceInternalKey lib org led) (filter P keys))" if "distinct keys" for P keys
    using that by (simp add: distinct_map inj_on_def)
  ultimately have d: "distinct ?added" unfolding added_keys by blast
  have splits: "set ?splits = (\<Union>op \<in> set ops. set (own_splits lib op))"
    using mset_eq_setD [OF mset_collected [of lib ops]] by simp
  have added: "\<exists>op \<in> set ops. own_splits lib op \<noteq> [] \<and> key = companion_internal lib org led op" if key: "key \<in> set ?added" for key
  proof -
    obtain s where s: "s \<in> set ?splits" "key = BalanceInternalKey lib org led (os_companionAliasKey s)"
      using key unfolding added_keys by auto
    then obtain op where "op \<in> set ops" "s \<in> set (own_splits lib op)" unfolding splits by blast
    with s(2) own_splits_single(2) [of s lib op] show ?thesis by (intro bexI [of _ op]) (auto simp: companion_internal_def)
  qed
  have "set (map bo_InternalKey ops) \<inter> set ?added = {}" using added dist by fastforce
  then show "distinct (map bo_InternalKey (ops @ added_operations lib org led (companion_index loaded) ops))"
    using d dist by simp
  show "companion_internal lib org led op \<notin> bo_InternalKey ` set (ops @ added_operations lib org led (companion_index loaded) ops)"
    if op: "op \<in> set ops" "own_splits lib op = []"
  proof
    assume "companion_internal lib org led op \<in> bo_InternalKey ` set (ops @ added_operations lib org led (companion_index loaded) ops)"
    then have "companion_internal lib org led op \<in> set ?added" using dist op(1) by fastforce
    then obtain op2 where op2: "op2 \<in> set ops" "own_splits lib op2 \<noteq> []" "companion_internal lib org led op = companion_internal lib org led op2"
      using added by blast
    have "inj_on (companion_internal lib org led) (set ops)" using dist by (simp add: distinct_map)
    with op op2 have "op = op2" by (auto dest: inj_onD)
    with op(2) op2(2) show False by simp
  qed
qed


lemma added_member:
  assumes op: "op \<in> set ops" and s: "s \<in> set (own_splits lib op)" and c: "map_of (companion_index loaded) (companion_key op) = Some c"
  shows "\<exists>cop \<in> set (added_operations lib org led (companion_index loaded) ops).
    bo_InternalKey cop = companion_internal lib org led op \<and> bo_Balance cop = c \<and> am_Value (bo_Amount cop) = os_deficit s \<and>
    am_Operation (bo_Amount cop) = (if isOverdraftDebitSplitCandidate (bo_Amount op) then DEBIT else CREDIT)"
proof -
  have key: "os_companionAliasKey s = companion_key op" and single: "own_splits lib op = [s]" using own_splits_single [OF s] by simp_all
  have cof: "companion_of build (companion_index loaded) s = Some (build s c)" for build using c key by (simp add: companion_of_def)
  have ckey: "mb_Alias c @ ''#'' @ mb_Key c = companion_key op" using companion_index_key [OF c] by simp
  have in_added: "x \<in> set (List.map_filter f xs)" if "z \<in> set xs" "f z = Some x" for f :: "overdraftSplit \<Rightarrow> BalanceOperation option" and x z xs
    using that by (force simp: List.map_filter_def)
  show ?thesis
  proof (cases "isOverdraftDebitSplitCandidate (bo_Amount op)")
    case True
    have "refund_split lib op = []" using splits_guards(2) [of lib op] True
      by (cases "refund_split lib op = []") (auto simp: isOverdraftDebitSplitCandidate_def)
    moreover have "cancel_split lib op = []" using splits_guards(3) [of lib op] True
      by (cases "cancel_split lib op = []") (auto simp: isOverdraftDebitSplitCandidate_def isCancelOverdraftOverride_def)
    ultimately have "s \<in> set (debit_split lib op)" using s by (simp add: own_splits_def)
    then have "s \<in> set (collectOverdraftDebitSplits lib ops)" using op by (auto simp: collectOverdraftDebitSplits_def)
    then have "buildCompanionDebitOp lib org led s c \<in> set (added_operations lib org led (companion_index loaded) ops)"
      using in_added [where f = "companion_of (buildCompanionDebitOp lib org led) (companion_index loaded)"] cof
      by (simp add: added_operations_def)
    then show ?thesis using True ckey
      by (intro bexI [of _ "buildCompanionDebitOp lib org led s c"]) (simp_all add: buildCompanionDebitOp_def companion_op_def companion_internal_def)
  next
    case False
    then have "debit_split lib op = []" using splits_guards(1) [of lib op] by blast
    then have "s \<in> set (refund_split lib op) \<union> set (cancel_split lib op)" using s by (simp add: own_splits_def)
    then have "s \<in> set (collectOverdraftRefundSplits lib ops @ collectOverdraftCancelSplits lib ops)" using op
      by (auto simp: collectOverdraftRefundSplits_def collectOverdraftCancelSplits_def)
    then have "buildCompanionCreditOp lib org led s c \<in> set (added_operations lib org led (companion_index loaded) ops)"
      using in_added [where f = "companion_of (buildCompanionCreditOp lib org led) (companion_index loaded)"] cof
      by (simp add: added_operations_def)
    then show ?thesis using False ckey
      by (intro bexI [of _ "buildCompanionCreditOp lib org led s c"]) (simp_all add: buildCompanionCreditOp_def companion_op_def companion_internal_def)
  qed
qed

section \<open>Overdraft and companion in step\<close>

text \<open>Amounts of \<open>k\<close> decimal places and at most fourteen digits, and a printing that is exact on them.\<close>

definition money :: "nat \<Rightarrow> decimal \<Rightarrow> bool" where
  "money k x \<longleftrightarrow> 0 \<le> x \<and> x * 10 ^ k \<in> \<nat> \<and> x * 10 ^ k < 10 ^ 14"

definition prints_money :: "extlib \<Rightarrow> nat \<Rightarrow> bool" where
  "prints_money lib k \<longleftrightarrow> (\<forall>x. money k x \<longrightarrow> small k (10 ^ 14) (dec_String lib x) \<and> dval (dec_String lib x) = x)"

lemma money_diff:
  assumes "money k x" "money k y" "y \<le> x"
  shows "money k (x - y)"
proof -
  have "y * 10 ^ k \<le> x * 10 ^ k" by (rule mult_right_mono) (use assms(3) in simp_all)
  moreover have "0 \<le> y * 10 ^ k" using assms(2) by (simp add: money_def)
  moreover have "x * 10 ^ k < 10 ^ 14" using assms(1) by (simp add: money_def)
  ultimately have "x * 10 ^ k - y * 10 ^ k < 10 ^ 14" by linarith
  then show ?thesis using assms \<open>y * 10 ^ k \<le> x * 10 ^ k\<close> by (simp add: money_def left_diff_distrib Nats_diff)
qed

lemma money_zero [simp]: "money k 0"
  by (simp add: money_def)

text \<open>A direct entry on a balance that may use overdraft, and the companion of the balance.\<close>

definition overdraft_entry :: "extlib \<Rightarrow> nat \<Rightarrow> BalanceOperation \<Rightarrow> MBalance \<Rightarrow> bool" where
  "overdraft_entry lib k op c \<longleftrightarrow>
     (let b = bo_Balance op; a = bo_Amount op
      in am_Operation a \<in> {DEBIT, CREDIT} \<and> am_OverdraftAmount a = 0 \<and>
         mb_Direction b = DirectionCredit \<and> mb_AccountType b \<noteq> ''external'' \<and>
         money k (am_Value a) \<and> money k (mb_Available b) \<and> money k (mb_OnHold b) \<and> money k (mb_OverdraftUsed b) \<and>
         small k (10 ^ 14) (lb_OverdraftLimit (script_balance lib b)) \<and> (\<exists>t. ToTransactionBalance lib b = Inr t) \<and>
         mb_Alias c = mb_Alias b \<and> mb_Key c = OverdraftBalanceKey \<and> mb_Direction c = DirectionDebit)"

text \<open>The cache has nothing newer than the balance that was read; the alias of the last entry does not matter.\<close>

definition current :: "extlib \<Rightarrow> RedisState \<Rightarrow> string \<Rightarrow> MBalance \<Rightarrow> bool" where
  "current lib r key b \<longleftrightarrow> (\<exists>alias. cached r key (script_balance lib b) = (script_balance lib b)\<lparr>lb_Alias := alias\<rparr>)"

lemma alias_sel:
  "lb_Available (b\<lparr>lb_Alias := alias\<rparr>) = lb_Available b" "lb_OnHold (b\<lparr>lb_Alias := alias\<rparr>) = lb_OnHold b"
  "lb_OverdraftUsed (b\<lparr>lb_Alias := alias\<rparr>) = lb_OverdraftUsed b" "lb_Direction (b\<lparr>lb_Alias := alias\<rparr>) = lb_Direction b"
  "lb_AccountType (b\<lparr>lb_Alias := alias\<rparr>) = lb_AccountType b" "lb_Version (b\<lparr>lb_Alias := alias\<rparr>) = lb_Version b"
  "lb_AllowOverdraft (b\<lparr>lb_Alias := alias\<rparr>) = lb_AllowOverdraft b" "lb_OverdraftLimit (b\<lparr>lb_Alias := alias\<rparr>) = lb_OverdraftLimit b"
  "lb_OverdraftLimitEnabled (b\<lparr>lb_Alias := alias\<rparr>) = lb_OverdraftLimitEnabled b"
  by simp_all

lemma script_parts_alias:
  "script_arithmetic op (b\<lparr>lb_Alias := alias\<rparr>) = script_arithmetic op b"
  "script_repayment op (b\<lparr>lb_Alias := alias\<rparr>) v = script_repayment op b v"
  "script_reversal op (b\<lparr>lb_Alias := alias\<rparr>) v = script_reversal op b v"
  "script_accrual op (b\<lparr>lb_Alias := alias\<rparr>) v = script_accrual op b v"
proof -
  have flat: "debit_available (b\<lparr>lb_Alias := alias\<rparr>) x = debit_available b x" "credit_available (b\<lparr>lb_Alias := alias\<rparr>) x = credit_available b x"
    "available_only (b\<lparr>lb_Alias := alias\<rparr>) y = available_only b y" "onhold_only (b\<lparr>lb_Alias := alias\<rparr>) y = onhold_only b y"
    "pay_down (b\<lparr>lb_Alias := alias\<rparr>) x y = pay_down b x y" "capped_repay op (b\<lparr>lb_Alias := alias\<rparr>) = capped_repay op b" for x y
    by (simp_all only: debit_available_def credit_available_def available_only_def onhold_only_def pay_down_def capped_repay_def alias_sel)
  show "script_arithmetic op (b\<lparr>lb_Alias := alias\<rparr>) = script_arithmetic op b"
    by (simp only: script_arithmetic_def flat alias_sel)
  show "script_repayment op (b\<lparr>lb_Alias := alias\<rparr>) v = script_repayment op b v"
    by (simp only: script_repayment_def flat alias_sel)
  show "script_reversal op (b\<lparr>lb_Alias := alias\<rparr>) v = script_reversal op b v"
    by (simp only: script_reversal_def flat alias_sel)
  show "script_accrual op (b\<lparr>lb_Alias := alias\<rparr>) v = script_accrual op b v"
    by (simp only: script_accrual_def flat alias_sel)
qed

lemma script_compute_alias [simp]: "script_compute op (b\<lparr>lb_Alias := alias\<rparr>) = script_compute op b"
  by (simp only: script_compute_def script_parts_alias alias_sel)

lemma compute_companion:
  assumes k: "k \<le> 300" and av: "small k (10 ^ 14) (lb_Available b)" and am: "small k (10 ^ 14) (so_amount op)"
    and op: "so_isPending op = 0" "so_operation op \<in> {DEBIT, CREDIT}" "lb_Direction b = ''debit''"
    and enough: "so_operation op = CREDIT \<Longrightarrow> dval (so_amount op) \<le> dval (lb_Available b)"
    and pos: "0 \<le> dval (lb_Available b)" "0 \<le> dval (so_amount op)"
  shows "\<exists>x. script_compute op b = Inr (x, lb_OnHold b, lb_OverdraftUsed b) \<and>
    dval x = (if so_operation op = DEBIT then dval (lb_Available b) + dval (so_amount op) else dval (lb_Available b) - dval (so_amount op))"
proof -
  obtain p where p: "add_decimal (lb_Available b) (so_amount op) = Some p" "small k (10 ^ 14 + 10 ^ 14) p"
      "dval p = dval (lb_Available b) + dval (so_amount op)" using small_add [OF av am] k by auto
  obtain m where m: "sub_decimal (lb_Available b) (so_amount op) = Some m" "small k (10 ^ 14 + 10 ^ 14) m"
      "dval m = dval (lb_Available b) - dval (so_amount op)" using small_sub [OF av am] k by auto
  have pp: "script_accrual op b (p, u) = Inr (p, u)" for u by (rule accrual_none [OF p(2)]) (use p(3) pos in simp)
  have mm: "script_accrual op b (m, u) = Inr (m, u)" if "so_operation op = CREDIT" for u
    by (rule accrual_none [OF m(2)]) (use m(3) enough [OF that] in simp)
  show ?thesis using op p m pp mm
    by (auto simp: script_compute_def script_arithmetic_def Let_def debit_available_def credit_available_def available_only_def
        script_repayment_def script_reversal_def)
qed

lemma script_balance_sel:
  "lb_Available (script_balance lib b) = dec_String lib (mb_Available b)" "lb_OnHold (script_balance lib b) = dec_String lib (mb_OnHold b)"
  "lb_OverdraftUsed (script_balance lib b) = dec_String lib (mb_OverdraftUsed b)" "lb_Direction (script_balance lib b) = mb_Direction b"
  "lb_AccountType (script_balance lib b) = mb_AccountType b" "lb_Version (script_balance lib b) = mb_Version b"
  by (simp_all add: script_balance_def split: prod.split)

lemma ToTransactionBalance_sel:
  assumes "ToTransactionBalance lib b = Inr t"
  shows "bal_Available t = mb_Available b" "bal_OverdraftUsed t = mb_OverdraftUsed b" "bal_Direction t = mb_Direction b"
    "lb_AllowOverdraft (script_balance lib b) = 1 \<longleftrightarrow> bal_AllowOverdraft t"
  using assms
  by (auto simp: ToTransactionBalance_def plain_transaction_balance_def Let_def Balance_zero_def script_balance_def settings_args_def boolToInt_def
      split: option.splits prod.splits)

lemma entry_splits:
  assumes e: "overdraft_entry lib k op c" and t: "ToTransactionBalance lib (bo_Balance op) = Inr t"
  shows "own_splits lib op =
    (let b = bo_Balance op; a = bo_Amount op
     in if am_Operation a = DEBIT \<and> bal_AllowOverdraft t \<and> mb_Available b < am_Value a
        then [\<lparr>os_source = op, os_deficit = am_Value a - mb_Available b, os_companionAliasKey = companion_key op\<rparr>]
        else if am_Operation a = CREDIT \<and> 0 < mb_OverdraftUsed b
        then [\<lparr>os_source = op, os_deficit = min (am_Value a) (mb_OverdraftUsed b), os_companionAliasKey = companion_key op\<rparr>]
        else [])"
  using e t ToTransactionBalance_sel(1-3) [OF t]
  by (auto simp: overdraft_entry_def own_splits_def debit_split_def refund_split_def cancel_split_def DetectOverdraftSplit_def
      DetectRefundSplit_def isOverdraftDebitSplitCandidate_def isCancelOverdraftOverride_def Let_def)

lemma entry_tidy:
  assumes "overdraft_entry lib k op c" "prints_money lib k" "k \<le> 300"
  shows "tidy k (script_op lib key CREATED False op) (script_balance lib (bo_Balance op))"
  using assms by (simp add: overdraft_entry_def prints_money_def tidy_def script_op_def script_balance_sel Let_def)

text \<open>What is left for the companion, and what the script makes of an entry.\<close>

definition redirected :: "extlib \<Rightarrow> BalanceOperation \<Rightarrow> decimal" where
  "redirected lib op = (\<Sum>s\<leftarrow>own_splits lib op. os_deficit s)"

lemma entry_effect:
  assumes e: "overdraft_entry lib k op c" and pr: "prints_money lib k" and k: "k \<le> 300"
    and comp: "script_compute (script_op lib key CREATED False op) (script_balance lib (bo_Balance op)) = Inr (av, oh, us)"
  defines "b \<equiv> bo_Balance op" and "a \<equiv> bo_Amount op" and "d \<equiv> redirected lib op"
  shows "money k d \<and> d \<le> am_Value a \<and> dval oh = mb_OnHold b \<and>
    (if am_Operation a = DEBIT
     then dval us = mb_OverdraftUsed b + d \<and> dval av = mb_Available b - (am_Value a - d)
     else d \<le> mb_OverdraftUsed b \<and> dval us = mb_OverdraftUsed b - d \<and> dval av = mb_Available b + (am_Value a - d))"
proof -
  let ?op = "script_op lib key CREATED False op" and ?b = "script_balance lib b"
  obtain t where t: "ToTransactionBalance lib b = Inr t" using e by (auto simp: overdraft_entry_def Let_def b_def)
  note T = ToTransactionBalance_sel [OF t] and S = entry_splits [OF e t [unfolded b_def], folded b_def a_def, unfolded Let_def]
  have m: "money k (am_Value a)" "money k (mb_Available b)" "money k (mb_OverdraftUsed b)" "money k (mb_OnHold b)"
    and dir: "mb_Direction b = ''credit''" "mb_AccountType b \<noteq> ''external''" "am_OverdraftAmount a = 0"
    and oper: "am_Operation a \<in> {DEBIT, CREDIT}"
    using e by (simp_all add: overdraft_entry_def Let_def a_def b_def)
  have pos: "0 \<le> am_Value a" "0 \<le> mb_Available b" "0 \<le> mb_OverdraftUsed b"
    using m by (simp_all add: money_def)
  have v: "dval (so_amount ?op) = am_Value a" "dval (lb_Available ?b) = mb_Available b" "dval (lb_OnHold ?b) = mb_OnHold b"
    "dval (lb_OverdraftUsed ?b) = mb_OverdraftUsed b" "dval (so_overdraftAmount ?op) = 0"
    using m pr dir(3) by (simp_all add: prints_money_def script_op_def script_balance_sel a_def)
  note td = entry_tidy [OF e pr k, of key, folded b_def] and comp' = comp [folded b_def]
  have b: "lb_Direction ?b = ''credit''" "lb_AccountType ?b \<noteq> ''external''" "lb_Version ?b = lb_Version (so_balance ?op)"
    "so_isPending ?op = 0" "so_operation ?op = am_Operation a"
    using dir by (simp_all add: script_balance_sel script_op_def boolToInt_def a_def b_def)
  show ?thesis
  proof (cases "am_Operation a = DEBIT")
    case True
    have "so_operation ?op = DEBIT" using b(5) True by simp
    from compute_direct_debit [OF td b(4) this b(1, 2, 3)] comp' v pos T(4) True S m show ?thesis
      by (auto simp: redirected_def d_def money_diff split: if_splits)
  next
    case False
    then have cr: "am_Operation a = CREDIT" "so_operation ?op = CREDIT" using oper b(5) by simp_all
    have np: "\<not> isPositive (so_overdraftAmount ?op)" using small_signs(2) [OF tidyD(7) [OF td]] v(5) by simp
    have ar: "script_arithmetic ?op ?b = available_only ?b (add_decimal (lb_Available ?b) (so_amount ?op))"
      using cr(1) b by (simp add: script_arithmetic_def credit_available_def Let_def)
    have dir': "lb_Direction ?b \<noteq> ''debit''" using b(1) by simp
    from compute_credit [OF td cr(2) dir' np ar b(2) b(3)] comp' v pos
    have us: "dval us = mb_OverdraftUsed b - min (am_Value a) (mb_OverdraftUsed b)"
      "dval av = mb_Available b + am_Value a - min (am_Value a) (mb_OverdraftUsed b)" "dval oh = mb_OnHold b" by auto
    have "d = min (am_Value a) (mb_OverdraftUsed b)"
      using S cr(1) pos by (cases "0 < mb_OverdraftUsed b") (auto simp: d_def redirected_def min_def)
    with us cr(1) m pos show ?thesis by (auto simp: min_def)
  qed
qed

text \<open>What an accepted batch does to the companion, by the amount of the split.\<close>

lemma companion_effect:
  assumes pr: "prints_money lib k" and k: "k \<le> 300" and m: "money k (mb_Available c)" "money k d" and dir: "mb_Direction c = DirectionDebit"
    and op: "am_Operation (bo_Amount cop) \<in> {DEBIT, CREDIT}" "am_Value (bo_Amount cop) = d"
    and enough: "am_Operation (bo_Amount cop) = CREDIT \<Longrightarrow> d \<le> mb_Available c"
    and comp: "script_compute (script_op lib key CREATED False cop) (script_balance lib c) = Inr (av, oh, us)"
  shows "dval av = (if am_Operation (bo_Amount cop) = DEBIT then mb_Available c + d else mb_Available c - d)"
proof -
  let ?op = "script_op lib key CREATED False cop" and ?b = "script_balance lib c"
  have s: "small k (10 ^ 14) (lb_Available ?b)" "small k (10 ^ 14) (so_amount ?op)" "dval (lb_Available ?b) = mb_Available c" "dval (so_amount ?op) = d"
    using pr m op(2) by (simp_all add: prints_money_def script_balance_sel script_op_def)
  have o': "so_isPending ?op = 0" "so_operation ?op = am_Operation (bo_Amount cop)" "lb_Direction ?b = ''debit''"
    using dir by (simp_all add: script_op_def boolToInt_def script_balance_sel)
  have "0 \<le> mb_Available c" "0 \<le> d" using m by (simp_all add: money_def)
  with compute_companion [OF k s(1, 2) o'(1) _ o'(3)] comp s(3, 4) o'(2) op(1) enough show ?thesis by auto
qed

text \<open>The enriched operations, as far as one entry and its companion are concerned.\<close>

lemma enriched_entry:
  assumes enr: "enrichOverdraftOperations lib org led ops validate loader = Inr (ops', validate', fromTos)"
    and loader: "\<forall>aliases. loader aliases = Inr (filter (\<lambda>b. mb_Alias b @ ''#'' @ mb_Key b \<in> set aliases) stored)"
    and stored: "distinct (map (\<lambda>b. mb_Alias b @ ''#'' @ mb_Key b) stored)" "companion \<in> set stored"
    and dist: "distinct (map bo_InternalKey ops @ map (companion_internal lib org led) ops)" and op: "op \<in> set ops"
    and ckey: "companion_key op = mb_Alias companion @ ''#'' @ mb_Key companion"
  shows "op \<in> set ops'" "distinct (map bo_InternalKey ops')"
    and "own_splits lib op = [] \<Longrightarrow> companion_internal lib org led op \<notin> bo_InternalKey ` set ops'"
    and "own_splits lib op = [s] \<Longrightarrow> \<exists>cop \<in> set ops'.
      bo_InternalKey cop = companion_internal lib org led op \<and> bo_Balance cop = companion \<and> am_Value (bo_Amount cop) = os_deficit s \<and>
      am_Operation (bo_Amount cop) = (if isOverdraftDebitSplitCandidate (bo_Amount op) then DEBIT else CREDIT)"
proof -
  consider (same) "ops' = ops" "own_splits lib op = []"
    | (more) aliases loaded where "own_splits lib op \<noteq> [] \<longrightarrow> companion_key op \<in> set aliases" "loader aliases = Inr loaded"
        "ops' = ops @ added_operations lib org led (companion_index loaded) ops"
    using enriched_operations [OF enr] op by blast
  then have "op \<in> set ops' \<and> distinct (map bo_InternalKey ops') \<and>
    (own_splits lib op = [] \<longrightarrow> companion_internal lib org led op \<notin> bo_InternalKey ` set ops') \<and>
    (own_splits lib op = [s] \<longrightarrow> (\<exists>cop \<in> set ops'.
      bo_InternalKey cop = companion_internal lib org led op \<and> bo_Balance cop = companion \<and> am_Value (bo_Amount cop) = os_deficit s \<and>
      am_Operation (bo_Amount cop) = (if isOverdraftDebitSplitCandidate (bo_Amount op) then DEBIT else CREDIT)))"
  proof cases
    case same
    then show ?thesis using dist op by auto
  next
    case more
    have l: "loaded = filter (\<lambda>b. mb_Alias b @ ''#'' @ mb_Key b \<in> set aliases) stored" using more(2) loader by simp
    have "map_of (companion_index loaded) (companion_key op) = Some companion" if "own_splits lib op = [s]"
      using companion_index_found [of loaded companion] stored ckey more(1) that l by (simp add: distinct_map_filter)
    then have "own_splits lib op = [s] \<longrightarrow> (\<exists>cop \<in> set (added_operations lib org led (companion_index loaded) ops).
      bo_InternalKey cop = companion_internal lib org led op \<and> bo_Balance cop = companion \<and> am_Value (bo_Amount cop) = os_deficit s \<and>
      am_Operation (bo_Amount cop) = (if isOverdraftDebitSplitCandidate (bo_Amount op) then DEBIT else CREDIT))"
      using added_member [OF op, of s lib loaded companion org led] by simp
    with enriched_distinct [OF dist] op more(3) show ?thesis by auto
  qed
  then show "op \<in> set ops'" "distinct (map bo_InternalKey ops')"
    "own_splits lib op = [] \<Longrightarrow> companion_internal lib org led op \<notin> bo_InternalKey ` set ops'"
    "own_splits lib op = [s] \<Longrightarrow> \<exists>cop \<in> set ops'.
      bo_InternalKey cop = companion_internal lib org led op \<and> bo_Balance cop = companion \<and> am_Value (bo_Amount cop) = os_deficit s \<and>
      am_Operation (bo_Amount cop) = (if isOverdraftDebitSplitCandidate (bo_Amount op) then DEBIT else CREDIT)" by blast+
qed

lemma processed_current:
  assumes "\<forall>key. cn_tenantKey cn key = Inr (prefix @ key)" "distinct (map bo_InternalKey ops)"
    "ProcessBalanceAtomicOperation lib cn dueAt org led tx CREATED False ops r = (r', Inr res)"
    "op \<in> set ops" "current lib r (prefix @ bo_InternalKey op) (bo_Balance op)"
  shows "\<exists>av oh us. script_compute (script_op lib (prefix @ bo_InternalKey op) CREATED False op) (script_balance lib (bo_Balance op)) = Inr (av, oh, us) \<and>
      lb_Available (cached r' (prefix @ bo_InternalKey op) seed) = av \<and> lb_OverdraftUsed (cached r' (prefix @ bo_InternalKey op) seed) = us"
  using processed_op [OF assms(1) _ assms(3, 2, 4)] assms(5) by (auto simp: current_def cached_def carries_def)

text \<open>
  C5. The overdraft that a balance uses and its companion balance stay in step. Take the direct entries
  of a transaction, one per account and none on a companion itself, a loader that finds stored companions, and
  balances that were read as they are in the cache. If the companion of a balance of credit direction
  holds exactly the overdraft that the balance uses, then after the entries are enriched with companion
  operations and the batch is accepted by the script, it does again, whether the entry left the
  overdraft alone, drew on it or repaid it.
\<close>

theorem overdraft_kept_in_step:
  assumes enr: "enrichOverdraftOperations lib org led ops validate loader = Inr (ops', validate', fromTos)"
    and run: "ProcessBalanceAtomicOperation lib cn dueAt org led tx CREATED False ops' r = (r', Inr res)"
    and tenant: "\<forall>key. cn_tenantKey cn key = Inr (prefix @ key)"
    and loader: "\<forall>aliases. loader aliases = Inr (filter (\<lambda>b. mb_Alias b @ ''#'' @ mb_Key b \<in> set aliases) stored)"
    and stored: "distinct (map (\<lambda>b. mb_Alias b @ ''#'' @ mb_Key b) stored)" "companion \<in> set stored"
    and dist: "distinct (map bo_InternalKey ops @ map (companion_internal lib org led) ops)" and op: "op \<in> set ops"
    and entry: "overdraft_entry lib k op companion" "k \<le> 300" "prints_money lib k"
    and read: "current lib r (prefix @ bo_InternalKey op) (bo_Balance op)"
      "current lib r (prefix @ companion_internal lib org led op) companion"
    and step: "mb_Available companion = mb_OverdraftUsed (bo_Balance op)"
  shows "dval (lb_Available (cached r' (prefix @ companion_internal lib org led op) (script_balance lib companion))) =
    dval (lb_OverdraftUsed (cached r' (prefix @ bo_InternalKey op) (script_balance lib (bo_Balance op))))"
proof -
  define ck where "ck = companion_internal lib org led op"
  have ckey: "companion_key op = mb_Alias companion @ ''#'' @ mb_Key companion" and dir: "mb_Direction companion = DirectionDebit"
    and oper: "am_Operation (bo_Amount op) \<in> {DEBIT, CREDIT}" and mc: "money k (mb_Available companion)"
    using entry(1) step by (simp_all add: overdraft_entry_def companion_key_def Let_def)
  note E = enriched_entry [OF enr loader stored dist op ckey, folded ck_def]
  obtain av oh us where prim:
    "script_compute (script_op lib (prefix @ bo_InternalKey op) CREATED False op) (script_balance lib (bo_Balance op)) = Inr (av, oh, us)"
    "lb_OverdraftUsed (cached r' (prefix @ bo_InternalKey op) (script_balance lib (bo_Balance op))) = us"
    using processed_current [OF tenant E(2) run E(1) read(1)] by blast
  note effect = entry_effect [OF entry(1, 3, 2) prim(1)]
  show ?thesis
  proof (cases "own_splits lib op")
    case Nil
    have "view r' (prefix @ ck) = view r (prefix @ ck)" using processed_untouched [OF tenant _ run E(2) E(3)] Nil by simp
    then have "dval (lb_Available (cached r' (prefix @ ck) (script_balance lib companion))) = mb_Available companion"
      using read(2) entry(3) mc by (auto simp: cached_def current_def ck_def prints_money_def script_balance_sel)
    with effect Nil prim(2) step show ?thesis by (simp add: ck_def redirected_def split: if_splits)
  next
    case (Cons s rest)
    have s: "own_splits lib op = [s]" using own_splits_single(1) [of s lib op] Cons by simp
    note d = effect [unfolded redirected_def s, simplified]
    obtain cop where cop: "cop \<in> set ops'" "bo_InternalKey cop = ck" "bo_Balance cop = companion" "am_Value (bo_Amount cop) = os_deficit s"
        "am_Operation (bo_Amount cop) = am_Operation (bo_Amount op)"
      using E(4) [OF s] oper by (auto simp: isOverdraftDebitSplitCandidate_def)
    obtain av' oh' us' where c: "script_compute (script_op lib (prefix @ ck) CREATED False cop) (script_balance lib companion) = Inr (av', oh', us')"
        "lb_Available (cached r' (prefix @ ck) (script_balance lib companion)) = av'"
      using processed_current [OF tenant E(2) run cop(1), where seed = "script_balance lib companion"] read(2) cop(2, 3) by (auto simp: ck_def)
    have "dval av' = (if am_Operation (bo_Amount op) = DEBIT then mb_Available companion + os_deficit s else mb_Available companion - os_deficit s)"
      using companion_effect [OF entry(3, 2) mc _ dir _ cop(4) _ c(1)] d oper cop(5) step by (auto split: if_splits)
    with d c(2) prim(2) step show ?thesis by (simp add: ck_def split: if_splits)
  qed
qed

section \<open>Examples\<close>

text \<open>Whole amounts, printed in decimal digits; one identifier.\<close>

definition digits_lib :: extlib where
  "digits_lib = exact_lib\<lparr>dec_String := (\<lambda>x. nat_str (nat \<lfloor>x\<rfloor>)), uuid_String := (\<lambda>u. ''u'')\<rparr>"

lemma digits_lib_simps [simp, code]:
  "dec_String digits_lib = (\<lambda>x. nat_str (nat \<lfloor>x\<rfloor>))" "uuid_String digits_lib = (\<lambda>u. ''u'')"
  by (simp_all add: digits_lib_def)

lemma nat_str_ne: "nat_str n \<noteq> []"
  by (simp add: nat_str.simps [of n])

lemma digits_lib_prints: "prints_money digits_lib 0"
proof -
  have "small 0 (10 ^ 14) (nat_str n)" "dval (nat_str n) = of_nat n" if "of_nat n < (10 ^ 14 :: rat)" for n
    using that small_digits [of "nat_str n" "10 ^ 14"] dval_digits [of "nat_str n"] by (simp_all add: nat_str_ne)
  then show ?thesis by (auto simp: prints_money_def money_def Nats_def)
qed

definition read_balance :: "string \<Rightarrow> string \<Rightarrow> decimal \<Rightarrow> decimal \<Rightarrow> MBalance" where
  "read_balance key direction available used =
     \<lparr>mb_ID = key, mb_OrganizationID = '''', mb_LedgerID = '''', mb_AccountID = ''a'', mb_Alias = ''@a'', mb_Key = key,
      mb_AssetCode = ''USD'', mb_Available = available, mb_OnHold = 0, mb_Version = 3, mb_AccountType = ''deposit'',
      mb_AllowSending = True, mb_AllowReceiving = True, mb_Direction = direction, mb_OverdraftUsed = used,
      mb_Settings = Some \<lparr>bs_BalanceScope = '''', bs_AllowOverdraft = True, bs_OverdraftLimitEnabled = False, bs_OverdraftLimit = None\<rparr>,
      mb_CreatedAt = 0, mb_UpdatedAt = 0, mb_DeletedAt = None, mb_Metadata = None\<rparr>"

definition debit_entry :: BalanceOperation where
  "debit_entry =
     \<lparr>bo_Balance = read_balance ''default'' DirectionCredit 20 5, bo_Alias = ''0#@a#default'',
      bo_Amount = Amount_zero\<lparr>am_Value := 30, am_Operation := DEBIT, am_TransactionType := CREATED\<rparr>,
      bo_InternalKey = BalanceInternalKey digits_lib 0 0 ''@a#default''\<rparr>"

definition debit_companion :: MBalance where
  "debit_companion = read_balance ''overdraft'' DirectionDebit 5 0"

definition companions_of :: "MBalance list \<Rightarrow> string list \<Rightarrow> goerr + MBalance list" where
  "companions_of stored aliases = Inr (filter (\<lambda>b. mb_Alias b @ ''#'' @ mb_Key b \<in> set aliases) stored)"

definition plain_conn :: Conn where
  "plain_conn = \<lparr>cn_client = None, cn_tenantKey = Inr, cn_raised = ''''\<rparr>"

definition no_entries :: Responses where
  "no_entries =
     \<lparr>rsp_Total = 0, rsp_Asset = '''', rsp_From = [], rsp_To = [], rsp_Sources = [], rsp_Destinations = [], rsp_Aliases = [],
      rsp_Pending = False, rsp_TransactionRoute = '''', rsp_TransactionRouteID = None, rsp_OperationRoutesFrom = [], rsp_OperationRoutesTo = []\<rparr>"

definition debit_operations :: "BalanceOperation list" where
  "debit_operations =
     (case enrichOverdraftOperations digits_lib 0 0 [debit_entry] no_entries (companions_of [debit_companion]) of
        Inl e \<Rightarrow> [] | Inr (ops, _, _) \<Rightarrow> ops)"

definition run_debit :: "RedisState \<Rightarrow> RedisState \<times> (goerr + BalanceAtomicResult)" where
  "run_debit r = ProcessBalanceAtomicOperation digits_lib plain_conn 0 0 0 0 CREATED False debit_operations r"

lemma run_debit_accepted: "\<not> isl (snd (run_debit empty_redis))"
  by code_simp

lemma debit_entry_ok: "overdraft_entry digits_lib 0 debit_entry debit_companion"
  by (simp add: overdraft_entry_def debit_entry_def debit_companion_def read_balance_def Amount_zero_def money_def
      script_balance_def settings_args_def ToTransactionBalance_def) (simp add: small_zero small_mono [OF small_zero])

theorem overdraft_kept_in_step_witness:
  "\<exists>r' res. run_debit empty_redis = (r', Inr res) \<and>
    dval (lb_Available (cached r' (companion_internal digits_lib 0 0 debit_entry) (script_balance digits_lib debit_companion))) =
    dval (lb_OverdraftUsed (cached r' (bo_InternalKey debit_entry) (script_balance digits_lib (bo_Balance debit_entry))))"
proof -
  let ?enr = "enrichOverdraftOperations digits_lib 0 0 [debit_entry] no_entries (companions_of [debit_companion])"
  obtain r' res where r': "run_debit empty_redis = (r', Inr res)"
    using run_debit_accepted by (cases "run_debit empty_redis"; cases "snd (run_debit empty_redis)") auto
  have "\<not> isl ?enr" by code_simp
  then obtain ops v' fts where "?enr = Inr (ops, v', fts)" by (metis prod_cases3 sum.collapse(2))
  then have enr: "?enr = Inr (debit_operations, v', fts)" by (simp add: debit_operations_def)
  have run: "ProcessBalanceAtomicOperation digits_lib plain_conn 0 0 0 0 CREATED False debit_operations empty_redis = (r', Inr res)"
    using r' by (simp add: run_debit_def)
  have dist: "distinct (map bo_InternalKey [debit_entry] @ map (companion_internal digits_lib 0 0) [debit_entry])"
    by (simp add: debit_entry_def companion_internal_def companion_key_def read_balance_def)
  have read: "current digits_lib empty_redis key b" for key b
    by (auto simp: current_def cached_def view_def empty_redis_def script_balance_def split: prod.splits intro!: exI [of _ None])
  show ?thesis
    using overdraft_kept_in_step [OF enr run, of "[]" "[debit_companion]" debit_companion debit_entry 0] dist debit_entry_ok read digits_lib_prints r'
    by (simp add: plain_conn_def companions_of_def debit_companion_def debit_entry_def read_balance_def)
qed

text \<open>
  With a balance that has grown since it was read, the companion is debited for an overdraft that the
  script never uses: the version of the balance is compared only when the overdraft is touched.
\<close>

definition grown_redis :: RedisState where
  "grown_redis = empty_redis\<lparr>rs_balances := [bo_InternalKey debit_entry \<mapsto>
     cjson_encode ((script_balance digits_lib (bo_Balance debit_entry))\<lparr>lb_Available := ''100'', lb_Version := 4\<rparr>)]\<rparr>"

lemma stale_read_breaks_step:
  "case run_debit grown_redis of (r', res) \<Rightarrow> \<not> isl res \<and>
     map_option cb_OverdraftUsed (rs_balances r' (bo_InternalKey debit_entry)) = Some (Some ''5'') \<and>
     map_option cb_Available (rs_balances r' (companion_internal digits_lib 0 0 debit_entry)) = Some ''15''"
  by code_simp

end
