(* ===== verification/LedgerOperations.thy ===== *)
theory LedgerOperations
  imports BalanceCallsProofs
begin

text \<open>
  The operations that a transaction leaves behind: their building from the balances before and after
  the script (\<^verbatim>\<open>BuildOperations\<close> of \<^verbatim>\<open>transaction_create.go\<close>), the accounting codes of their routes,
  their form in the database and in the cache (\<^verbatim>\<open>adapters/postgres/operation/operation.go\<close>), and the
  reversal of a transaction from them (\<^verbatim>\<open>adapters/postgres/transaction/transaction.go\<close>).

  \<open>env\<close> holds what comes from outside: new identifiers (the generator may fail), the time, and
  \<^verbatim>\<open>IsNilOrEmpty\<close> of the commons library. A balance that the script returned is never nil. Metrics and
  spans are left out.
\<close>

section \<open>Operations\<close>

definition BLOCK :: string where [simp]: "BLOCK = ''BLOCK''"
definition UNBLOCK :: string where [simp]: "UNBLOCK = ''UNBLOCK''"
definition ActionRevert :: string where [simp]: "ActionRevert = ''revert''"
definition ActionOverdraft :: string where [simp]: "ActionOverdraft = ''overdraft''"
definition ActionBlock :: string where [simp]: "ActionBlock = ''block''"
definition ActionUnblock :: string where [simp]: "ActionUnblock = ''unblock''"

record OperationBalance =
  ob_Available :: "decimal option"
  ob_OnHold :: "decimal option"
  ob_Version :: "int option"
  ob_OverdraftUsed :: decimal

record OperationSnapshot =
  sn_OverdraftUsedBefore :: string
  sn_OverdraftUsedAfter :: string

record Operation =
  op_ID :: string
  op_TransactionID :: string
  op_Description :: string
  op_Type :: string
  op_AssetCode :: string
  op_ChartOfAccounts :: string
  op_Amount :: "decimal option"
  op_Balance :: OperationBalance
  op_BalanceAfter :: OperationBalance
  op_StatusCode :: string
  op_StatusDescription :: "string option"
  op_AccountID :: string
  op_AccountAlias :: string
  op_BalanceKey :: string
  op_BalanceID :: string
  op_OrganizationID :: string
  op_LedgerID :: string
  op_Route :: string
  op_BalanceAffected :: bool
  op_Direction :: string
  op_RouteID :: "string option"
  op_RouteCode :: "string option"
  op_RouteDescription :: "string option"
  op_CreatedAt :: time
  op_UpdatedAt :: time
  op_DeletedAt :: "time option"
  op_Metadata :: metadata
  op_Snapshot :: OperationSnapshot

record OperationEnv =
  env_newID :: "nat \<Rightarrow> goerr + string"
  env_now :: time
  env_commons :: commons

section \<open>Building the operations\<close>

definition effectiveOperationAmount :: "Amount \<Rightarrow> decimal \<Rightarrow> decimal \<Rightarrow> decimal \<Rightarrow> decimal \<Rightarrow> decimal" where
  "effectiveOperationAmount amt beforeAvailable afterAvailable beforeOnHold afterOnHold =
     (let availableDelta = \<bar>beforeAvailable - afterAvailable\<bar>;
          onHoldDelta = \<bar>beforeOnHold - afterOnHold\<bar>;
          movement = (if availableDelta < onHoldDelta then onHoldDelta else availableDelta)
      in if am_Value amt < movement then am_Value amt else movement)"

definition buildOperationSnapshot :: "extlib \<Rightarrow> MBalance option \<Rightarrow> MBalance option \<Rightarrow> OperationSnapshot" where
  "buildOperationSnapshot lib before after =
     \<lparr>sn_OverdraftUsedBefore = (case before of None \<Rightarrow> ''0'' | Some b \<Rightarrow> dec_String lib (mb_OverdraftUsed b)),
      sn_OverdraftUsedAfter = (case after of None \<Rightarrow> ''0'' | Some b \<Rightarrow> dec_String lib (mb_OverdraftUsed b))\<rparr>"

definition operation_balance :: "decimal \<Rightarrow> decimal \<Rightarrow> int \<Rightarrow> OperationBalance" where
  "operation_balance available onHold version =
     \<lparr>ob_Available = Some available, ob_OnHold = Some onHold, ob_Version = Some version, ob_OverdraftUsed = 0\<rparr>"

definition zeroAnnotationBalances :: "bool \<Rightarrow> OperationBalance \<Rightarrow> OperationBalance" where
  "zeroAnnotationBalances isAnnotation b =
     (if isAnnotation then b\<lparr>ob_Available := Some 0, ob_OnHold := Some 0, ob_Version := Some 0\<rparr> else b)"

definition operation_description :: "OperationEnv \<Rightarrow> FromTo \<Rightarrow> Transaction \<Rightarrow> string" where
  "operation_description env ft transactionInput =
     (if IsNilOrEmpty (env_commons env) (ft_Description ft) then tx_Description transactionInput else ft_Description ft)"

text \<open>The fields that all operations on a balance \<open>blc\<close> for an entry \<open>ft\<close> share.\<close>

definition operation_of ::
    "OperationEnv \<Rightarrow> string \<Rightarrow> string \<Rightarrow> MBalance \<Rightarrow> FromTo \<Rightarrow> Transaction \<Rightarrow> time \<Rightarrow> bool \<Rightarrow> string \<Rightarrow> string \<Rightarrow> decimal \<Rightarrow>
     OperationBalance \<Rightarrow> OperationBalance \<Rightarrow> Operation" where
  "operation_of env newID tranID blc ft transactionInput transactionDate isAnnotation opType direction amount before after =
     \<lparr>op_ID = newID, op_TransactionID = tranID, op_Description = operation_description env ft transactionInput, op_Type = opType,
      op_AssetCode = snd_Asset (tx_Send transactionInput), op_ChartOfAccounts = ft_ChartOfAccounts ft, op_Amount = Some amount,
      op_Balance = zeroAnnotationBalances isAnnotation before, op_BalanceAfter = zeroAnnotationBalances isAnnotation after,
      op_StatusCode = '''', op_StatusDescription = None, op_AccountID = mb_AccountID blc, op_AccountAlias = SplitAlias (mb_Alias blc),
      op_BalanceKey = mb_Key blc, op_BalanceID = mb_ID blc, op_OrganizationID = mb_OrganizationID blc, op_LedgerID = mb_LedgerID blc,
      op_Route = ft_Route ft, op_BalanceAffected = (\<not> isAnnotation), op_Direction = direction, op_RouteID = ft_RouteID ft,
      op_RouteCode = None, op_RouteDescription = None, op_CreatedAt = transactionDate, op_UpdatedAt = env_now env,
      op_DeletedAt = None, op_Metadata = ft_Metadata ft,
      op_Snapshot = \<lparr>sn_OverdraftUsedBefore = '''', sn_OverdraftUsedAfter = ''''\<rparr>\<rparr>"

text \<open>The identifiers of one or two operations; each request for one uses up a number.\<close>

definition two_ids :: "OperationEnv \<Rightarrow> nat \<Rightarrow> (string \<Rightarrow> string \<Rightarrow> Operation list) \<Rightarrow> goerr + Operation list" where
  "two_ids env n mk =
     (case env_newID env n of
        Inl e \<Rightarrow> Inl e
      | Inr op1ID \<Rightarrow> (case env_newID env (n + 1) of Inl e \<Rightarrow> Inl e | Inr op2ID \<Rightarrow> Inr (mk op1ID op2ID)))"

definition buildDoubleEntryPendingOps ::
    "OperationEnv \<Rightarrow> nat \<Rightarrow> MBalance \<Rightarrow> FromTo \<Rightarrow> Amount \<Rightarrow> Balance \<Rightarrow> string \<Rightarrow> Transaction \<Rightarrow> time \<Rightarrow> bool \<Rightarrow> goerr + Operation list" where
  "buildDoubleEntryPendingOps env n blc ft amt bat tranID transactionInput transactionDate isAnnotation =
     (let known = (0 < bal_Version bat);
          debitAvailable = (if known then bal_Available bat else mb_Available blc - am_Value amt);
          debitVersion = mb_Version blc + 1;
          onholdOnHold = (if known then bal_OnHold bat else mb_OnHold blc + am_Value amt);
          onholdVersion = (if known then bal_Version bat else debitVersion + 1);
          debitAmount = (if known then min \<bar>mb_Available blc - debitAvailable\<bar> (am_Value amt) else am_Value amt);
          build = (\<lambda>newID. operation_of env newID tranID blc ft transactionInput transactionDate isAnnotation)
      in two_ids env n (\<lambda>op1ID op2ID.
           [build op1ID DEBIT DirectionDebit debitAmount
              (operation_balance (mb_Available blc) (mb_OnHold blc) (mb_Version blc))
              (operation_balance debitAvailable (mb_OnHold blc) debitVersion),
            build op2ID ONHOLD DirectionCredit (am_Value amt)
              (operation_balance debitAvailable (mb_OnHold blc) debitVersion)
              (operation_balance debitAvailable onholdOnHold onholdVersion)]))"

definition buildDoubleEntryCanceledOps ::
    "OperationEnv \<Rightarrow> nat \<Rightarrow> MBalance \<Rightarrow> FromTo \<Rightarrow> Amount \<Rightarrow> string \<Rightarrow> Transaction \<Rightarrow> time \<Rightarrow> bool \<Rightarrow> goerr + Operation list" where
  "buildDoubleEntryCanceledOps env n blc ft amt tranID transactionInput transactionDate isAnnotation =
     (let releaseOnHold = mb_OnHold blc - am_Value amt;
          releaseVersion = mb_Version blc + 1;
          creditAvailable = mb_Available blc + am_Value amt;
          creditVersion = releaseVersion + 1;
          build = (\<lambda>newID. operation_of env newID tranID blc ft transactionInput transactionDate isAnnotation)
      in two_ids env n (\<lambda>op1ID op2ID.
           [build op1ID RELEASE DirectionDebit (am_Value amt)
              (operation_balance (mb_Available blc) (mb_OnHold blc) (mb_Version blc))
              (operation_balance (mb_Available blc) releaseOnHold releaseVersion),
            build op2ID CREDIT DirectionCredit (am_Value amt)
              (operation_balance (mb_Available blc) releaseOnHold releaseVersion)
              (operation_balance creditAvailable releaseOnHold creditVersion)]))"

definition buildStandardOp ::
    "OperationEnv \<Rightarrow> nat \<Rightarrow> MBalance \<Rightarrow> FromTo \<Rightarrow> Amount \<Rightarrow> Balance \<Rightarrow> string \<Rightarrow> Transaction \<Rightarrow> time \<Rightarrow> bool \<Rightarrow> goerr + Operation" where
  "buildStandardOp env n blc ft amt bat tranID transactionInput transactionDate isAnnotation =
     (case env_newID env n of
        Inl e \<Rightarrow> Inl e
      | Inr operationID \<Rightarrow>
          (let opType = (if mb_Key blc = OverdraftBalanceKey then OVERDRAFT
                         else if tx_OperationTypeOverride transactionInput \<noteq> '''' then tx_OperationTypeOverride transactionInput
                         else am_Operation amt)
           in Inr (operation_of env operationID tranID blc ft transactionInput transactionDate isAnnotation opType (am_Direction amt)
                (am_Value amt) (operation_balance (mb_Available blc) (mb_OnHold blc) (mb_Version blc))
                (operation_balance (bal_Available bat) (bal_OnHold bat) (bal_Version bat)))))"

text \<open>The state of the two loops: operations, balances before, the entries split so far, identifiers used.\<close>

record BuildState =
  bst_operations :: "Operation list"
  bst_preBalances :: "MBalance list"
  bst_processed :: "string list"
  bst_ids :: nat

text \<open>No operations yet for the pair: \<open>None\<close>; operations, possibly none because they were built before: \<open>Some\<close>.\<close>

definition tryBuildDoubleEntryOps ::
    "OperationEnv \<Rightarrow> BuildState \<Rightarrow> MBalance \<Rightarrow> FromTo \<Rightarrow> Amount \<Rightarrow> Balance \<Rightarrow> string \<Rightarrow> Transaction \<Rightarrow> time \<Rightarrow> bool \<Rightarrow> bool \<Rightarrow> nat \<Rightarrow>
     goerr + (Operation list \<times> string list) option" where
  "tryBuildDoubleEntryOps env st blc ft amt bat tranID transactionInput transactionDate isAnnotation routeValidationEnabled fromToIndex =
     (if \<not> routeValidationEnabled \<or> \<not> ft_IsFrom ft \<or> \<not> IsDoubleEntrySource amt then Inr None
      else (let dedupKey = mb_Alias blc @ ''#'' @ Itoa (int fromToIndex); processed = bst_processed st
            in if dedupKey \<in> set processed then Inr (Some ([], processed))
               else map_sum id (\<lambda>ops. Some (ops, dedupKey # processed))
                 (if am_TransactionType amt = PENDING
                  then buildDoubleEntryPendingOps env (bst_ids st) blc ft amt bat tranID transactionInput transactionDate isAnnotation
                  else buildDoubleEntryCanceledOps env (bst_ids st) blc ft amt tranID transactionInput transactionDate isAnnotation)))"

text \<open>The overdraft in use before and after, on a pair of operations and on a single one.\<close>

definition note_overdraft :: "extlib \<Rightarrow> bool \<Rightarrow> MBalance \<Rightarrow> MBalance option \<Rightarrow> decimal \<Rightarrow> Operation \<Rightarrow> Operation" where
  "note_overdraft lib isAnnotation blc after otherwise op =
     (let noted = (\<lambda>snapshot before_used after_used.
            op\<lparr>op_Snapshot := snapshot, op_Balance := (op_Balance op)\<lparr>ob_OverdraftUsed := before_used\<rparr>,
               op_BalanceAfter := (op_BalanceAfter op)\<lparr>ob_OverdraftUsed := after_used\<rparr>\<rparr>)
      in if isAnnotation then noted (buildOperationSnapshot lib None None) 0 0
         else noted (buildOperationSnapshot lib (Some blc) after) (mb_OverdraftUsed blc)
           (case after of Some a \<Rightarrow> mb_OverdraftUsed a | None \<Rightarrow> otherwise))"

definition after_index :: "MBalance list \<Rightarrow> (string, MBalance) gomap" where
  "after_index balancesAfter = fold (\<lambda>b m. AList.update (mb_Alias b @ ''#'' @ mb_Key b) b m) balancesAfter []"

text \<open>The amount of an entry and the balance after it, with what the script reported where it did.\<close>

definition settle_entry :: "MBalance \<Rightarrow> MBalance option \<Rightarrow> Amount \<Rightarrow> Balance \<Rightarrow> Amount \<times> Balance" where
  "settle_entry blc after amt bat =
     (case after of
        None \<Rightarrow> (amt, bat)
      | Some a \<Rightarrow>
          (amt\<lparr>am_Value := effectiveOperationAmount amt (mb_Available blc) (mb_Available a) (mb_OnHold blc) (mb_OnHold a)\<rparr>,
           bat\<lparr>bal_Available := mb_Available a, bal_OnHold := mb_OnHold a, bal_Version := mb_Version a\<rparr>))"

definition build_entry ::
    "extlib \<Rightarrow> OperationEnv \<Rightarrow> (string, MBalance) gomap \<Rightarrow> Transaction \<Rightarrow> string \<Rightarrow> Responses \<Rightarrow> time \<Rightarrow> bool \<Rightarrow> bool \<Rightarrow>
     MBalance \<Rightarrow> nat \<Rightarrow> FromTo \<Rightarrow> BuildState \<Rightarrow> goerr + BuildState" where
  "build_entry lib env afters transactionInput tranID validate transactionDate isAnnotation routeValidationEnabled blc i ft st =
     (let st = st\<lparr>bst_preBalances := bst_preBalances st @ [blc]\<rparr>
      in case ToTransactionBalance lib blc of
           Inl e \<Rightarrow> Inl e
         | Inr txBal \<Rightarrow>
             (case ValidateFromToOperation ft validate txBal of
                Inl e \<Rightarrow> Inl e
              | Inr (amt, bat) \<Rightarrow>
                  (let after = map_of afters (mb_Alias blc @ ''#'' @ mb_Key blc); (amt, bat) = settle_entry blc after amt bat
                   in case tryBuildDoubleEntryOps env st blc ft amt bat tranID transactionInput transactionDate isAnnotation
                        routeValidationEnabled i of
                        Inl e \<Rightarrow> Inl e
                      | Inr (Some (ops, processed)) \<Rightarrow>
                          Inr (st\<lparr>bst_operations := bst_operations st @ map (note_overdraft lib isAnnotation blc after (mb_OverdraftUsed blc)) ops,
                                  bst_processed := processed, bst_ids := bst_ids st + length ops\<rparr>)
                      | Inr None \<Rightarrow>
                          (case buildStandardOp env (bst_ids st) blc ft amt bat tranID transactionInput transactionDate isAnnotation of
                             Inl e \<Rightarrow> Inl e
                           | Inr op \<Rightarrow>
                               Inr (st\<lparr>bst_operations := bst_operations st @ [note_overdraft lib isAnnotation blc after 0 op],
                                       bst_ids := bst_ids st + 1\<rparr>)))))"

fun build_entries :: "('p \<Rightarrow> BuildState \<Rightarrow> goerr + BuildState) \<Rightarrow> 'p list \<Rightarrow> BuildState \<Rightarrow> goerr + BuildState" where
  "build_entries build [] st = Inr st"
| "build_entries build (p # ps) st = (case build p st of Inl e \<Rightarrow> Inl e | Inr st' \<Rightarrow> build_entries build ps st')"

text \<open>The pairs of a balance and an entry that the two loops meet, where their aliases agree.\<close>

definition matches :: "MBalance list \<Rightarrow> FromTo list \<Rightarrow> (MBalance \<times> nat \<times> FromTo) list" where
  "matches balances fromTo =
     concat (map (\<lambda>blc. map (Pair blc) (filter (\<lambda>(i, ft). mb_Alias blc = ft_AccountAlias ft) (enumerate 0 fromTo))) balances)"

text \<open>An operation on a companion tells the story of the operation on the balance it belongs to.\<close>

definition primary_of :: "Operation list \<Rightarrow> string \<Rightarrow> Operation option" where
  "primary_of ops alias = find (\<lambda>op. op_BalanceKey op \<noteq> OverdraftBalanceKey \<and> op_AccountAlias op = alias) (rev ops)"

definition propagateSnapshotToCompanions :: "Operation list \<Rightarrow> Operation list" where
  "propagateSnapshotToCompanions ops =
     map (\<lambda>op. if op_BalanceKey op \<noteq> OverdraftBalanceKey then op
               else case primary_of ops (op_AccountAlias op) of
                 None \<Rightarrow> op
               | Some p \<Rightarrow>
                   op\<lparr>op_Snapshot := op_Snapshot p,
                      op_Balance := (op_Balance op)\<lparr>ob_OverdraftUsed := ob_OverdraftUsed (op_Balance p)\<rparr>,
                      op_BalanceAfter := (op_BalanceAfter op)\<lparr>ob_OverdraftUsed := ob_OverdraftUsed (op_BalanceAfter p)\<rparr>\<rparr>) ops"


section \<open>Accounting codes\<close>

record AccountingRubric =
  rub_Code :: string
  rub_Description :: string

record AccountingEntry =
  ae_Debit :: "AccountingRubric option"
  ae_Credit :: "AccountingRubric option"

record AccountingEntries =
  aes_Direct :: "AccountingEntry option"
  aes_Hold :: "AccountingEntry option"
  aes_Commit :: "AccountingEntry option"
  aes_Cancel :: "AccountingEntry option"
  aes_Revert :: "AccountingEntry option"
  aes_Overdraft :: "AccountingEntry option"
  aes_Block :: "AccountingEntry option"
  aes_Unblock :: "AccountingEntry option"

record AccountCache =
  ac_RuleType :: string
  ac_ValidIf :: jany

record OperationRouteCache =
  rc_Account :: "AccountCache option"
  rc_OperationType :: string
  rc_Code :: string
  rc_Description :: string
  rc_AccountingEntries :: "AccountingEntries option"

record ActionRouteCache =
  arc_Source :: "(string, OperationRouteCache) gomap"
  arc_Destination :: "(string, OperationRouteCache) gomap"
  arc_Bidirectional :: "(string, OperationRouteCache) gomap"

type_synonym TransactionRouteCache = "(string, ActionRouteCache) gomap"

definition FindRoute :: "ActionRouteCache \<Rightarrow> string \<Rightarrow> OperationRouteCache option" where
  "FindRoute a routeID =
     (case map_of (arc_Source a) routeID of
        Some rc \<Rightarrow> Some rc
      | None \<Rightarrow> (case map_of (arc_Destination a) routeID of Some rc \<Rightarrow> Some rc | None \<Rightarrow> map_of (arc_Bidirectional a) routeID))"

definition blockEntryConfigured :: "TransactionRouteCache \<Rightarrow> string \<Rightarrow> string \<Rightarrow> (AccountingEntries \<Rightarrow> bool) \<Rightarrow> bool" where
  "blockEntryConfigured cache action routeID has =
     (case map_of cache action of
        None \<Rightarrow> False
      | Some actionCache \<Rightarrow>
          (case FindRoute actionCache routeID of
             None \<Rightarrow> False
           | Some rc \<Rightarrow> (case rc_AccountingEntries rc of None \<Rightarrow> False | Some ae \<Rightarrow> has ae)))"

definition entry_for :: "AccountingEntries \<Rightarrow> string \<Rightarrow> AccountingEntry option" where
  "entry_for entries action =
     (let a = ToLower action
      in if a = ActionDirect then aes_Direct entries
         else if a = ActionHold then aes_Hold entries
         else if a = ActionCommit then aes_Commit entries
         else if a = ActionCancel then aes_Cancel entries
         else if a = ActionRevert then aes_Revert entries
         else if a = ActionOverdraft then aes_Overdraft entries
         else if a = ActionBlock then aes_Block entries
         else if a = ActionUnblock then aes_Unblock entries
         else None)"

definition resolveAccountingRubric :: "AccountingEntries option \<Rightarrow> string \<Rightarrow> string \<Rightarrow> AccountingRubric option" where
  "resolveAccountingRubric entries action direction =
     (case entries of
        None \<Rightarrow> None
      | Some es \<Rightarrow>
          (case entry_for es action of
             None \<Rightarrow> None
           | Some entry \<Rightarrow>
               (let d = ToLower direction
                in if d = DirectionDebit then ae_Debit entry else if d = DirectionCredit then ae_Credit entry else None)))"

definition resolved_action :: "TransactionRouteCache \<Rightarrow> string \<Rightarrow> string \<Rightarrow> string \<Rightarrow> string \<Rightarrow> string" where
  "resolved_action cache action operationTypeOverride routeID balanceKey =
     (if balanceKey = OverdraftBalanceKey then ActionOverdraft
      else if operationTypeOverride = BLOCK \<and> blockEntryConfigured cache action routeID (\<lambda>ae. aes_Block ae \<noteq> None) then ActionBlock
      else if operationTypeOverride = UNBLOCK \<and> blockEntryConfigured cache action routeID (\<lambda>ae. aes_Unblock ae \<noteq> None) then ActionUnblock
      else action)"

definition resolve_route_code :: "TransactionRouteCache \<Rightarrow> string \<Rightarrow> string \<Rightarrow> Operation \<Rightarrow> Operation" where
  "resolve_route_code cache action operationTypeOverride op =
     (case op_RouteID op of
        None \<Rightarrow> op
      | Some routeID \<Rightarrow>
          if routeID = '''' then op
          else (let resolvedAction = resolved_action cache action operationTypeOverride routeID (op_BalanceKey op)
                in case map_of cache resolvedAction of
                     None \<Rightarrow> op
                   | Some actionCache \<Rightarrow>
                       (case FindRoute actionCache routeID of
                          None \<Rightarrow> op
                        | Some rc \<Rightarrow>
                            (case resolveAccountingRubric (rc_AccountingEntries rc) resolvedAction (op_Direction op) of
                               None \<Rightarrow> op
                             | Some rubric \<Rightarrow>
                                 if rub_Code rubric = '''' then op
                                 else (let op = op\<lparr>op_RouteCode := Some (rub_Code rubric)\<rparr>
                                       in if rub_Description rubric \<noteq> '''' then op\<lparr>op_RouteDescription := Some (rub_Description rubric)\<rparr>
                                          else op)))))"

definition resolveRouteCodesFromCache :: "TransactionRouteCache option \<Rightarrow> string \<Rightarrow> string \<Rightarrow> Operation list \<Rightarrow> Operation list" where
  "resolveRouteCodesFromCache cache action operationTypeOverride operations =
     (case cache of None \<Rightarrow> operations | Some c \<Rightarrow> map (resolve_route_code c action operationTypeOverride) operations)"

definition BuildOperations ::
    "extlib \<Rightarrow> OperationEnv \<Rightarrow> MBalance list \<Rightarrow> MBalance list \<Rightarrow> FromTo list \<Rightarrow> Transaction \<Rightarrow> string \<Rightarrow> Responses \<Rightarrow> time \<Rightarrow> bool \<Rightarrow> bool \<Rightarrow>
     TransactionRouteCache option \<Rightarrow> string \<Rightarrow> goerr + Operation list \<times> MBalance list" where
  "BuildOperations lib env balances balancesAfter fromTo transactionInput tranID validate transactionDate isAnnotation
       routeValidationEnabled transactionRouteCache action =
     (let afters = after_index balancesAfter;
          build = (\<lambda>(blc, i, ft). build_entry lib env afters transactionInput tranID validate transactionDate isAnnotation
                     routeValidationEnabled blc i ft)
      in case build_entries build (matches balances fromTo)
                \<lparr>bst_operations = [], bst_preBalances = [], bst_processed = [], bst_ids = 0\<rparr> of
           Inl e \<Rightarrow> Inl e
         | Inr st \<Rightarrow>
             Inr (resolveRouteCodesFromCache transactionRouteCache action (tx_OperationTypeOverride transactionInput)
                    (propagateSnapshotToCompanions (bst_operations st)), bst_preBalances st))"

section \<open>Operations in the database and in the cache\<close>

definition parseDecimalOrZero :: "extlib \<Rightarrow> string \<Rightarrow> decimal" where
  "parseDecimalOrZero lib s = (if s = '''' then 0 else case dec_NewFromString lib s of None \<Rightarrow> 0 | Some d \<Rightarrow> d)"

definition inferLegacyDirectionFromType :: "string \<Rightarrow> string" where
  "inferLegacyDirectionFromType operationType =
     (let t = ToUpper operationType
      in if t = DEBIT \<or> t = ONHOLD then DirectionDebit else if t = CREDIT \<or> t = RELEASE then DirectionCredit else '''')"

text \<open>The snapshot column holds the JSON of the snapshot; the row keeps what it decodes to.\<close>

record OperationPostgreSQLModel =
  pg_ID :: string
  pg_TransactionID :: string
  pg_Description :: string
  pg_Type :: string
  pg_AssetCode :: string
  pg_Amount :: "decimal option"
  pg_AvailableBalance :: "decimal option"
  pg_OnHoldBalance :: "decimal option"
  pg_VersionBalance :: "int option"
  pg_AvailableBalanceAfter :: "decimal option"
  pg_OnHoldBalanceAfter :: "decimal option"
  pg_VersionBalanceAfter :: "int option"
  pg_Status :: string
  pg_StatusDescription :: "string option"
  pg_AccountID :: string
  pg_AccountAlias :: string
  pg_BalanceKey :: string
  pg_BalanceID :: string
  pg_ChartOfAccounts :: string
  pg_OrganizationID :: string
  pg_LedgerID :: string
  pg_CreatedAt :: time
  pg_UpdatedAt :: time
  pg_DeletedAt :: "time option"
  pg_Route :: "string option"
  pg_BalanceAffected :: bool
  pg_Direction :: string
  pg_RouteID :: "string option"
  pg_RouteCode :: "string option"
  pg_RouteDescription :: "string option"
  pg_Snapshot :: "OperationSnapshot option"

definition read_snapshot :: "OperationSnapshot option \<Rightarrow> OperationSnapshot" where
  "read_snapshot s =
     (let or_zero = (\<lambda>x. if x = '''' then ''0'' else x)
      in case s of
           None \<Rightarrow> \<lparr>sn_OverdraftUsedBefore = ''0'', sn_OverdraftUsedAfter = ''0''\<rparr>
         | Some d \<Rightarrow> \<lparr>sn_OverdraftUsedBefore = or_zero (sn_OverdraftUsedBefore d), sn_OverdraftUsedAfter = or_zero (sn_OverdraftUsedAfter d)\<rparr>)"

definition Operation_ToEntity :: "extlib \<Rightarrow> OperationPostgreSQLModel \<Rightarrow> Operation" where
  "Operation_ToEntity lib t =
     (let snapshot = read_snapshot (pg_Snapshot t)
      in \<lparr>op_ID = pg_ID t, op_TransactionID = pg_TransactionID t, op_Description = pg_Description t, op_Type = pg_Type t,
          op_AssetCode = pg_AssetCode t, op_ChartOfAccounts = pg_ChartOfAccounts t, op_Amount = pg_Amount t,
          op_Balance = \<lparr>ob_Available = pg_AvailableBalance t, ob_OnHold = pg_OnHoldBalance t, ob_Version = pg_VersionBalance t,
            ob_OverdraftUsed = parseDecimalOrZero lib (sn_OverdraftUsedBefore snapshot)\<rparr>,
          op_BalanceAfter = \<lparr>ob_Available = pg_AvailableBalanceAfter t, ob_OnHold = pg_OnHoldBalanceAfter t,
            ob_Version = pg_VersionBalanceAfter t, ob_OverdraftUsed = parseDecimalOrZero lib (sn_OverdraftUsedAfter snapshot)\<rparr>,
          op_StatusCode = pg_Status t, op_StatusDescription = pg_StatusDescription t, op_AccountID = pg_AccountID t,
          op_AccountAlias = pg_AccountAlias t, op_BalanceKey = pg_BalanceKey t, op_BalanceID = pg_BalanceID t,
          op_OrganizationID = pg_OrganizationID t, op_LedgerID = pg_LedgerID t,
          op_Route = (case pg_Route t of None \<Rightarrow> '''' | Some r \<Rightarrow> r), op_BalanceAffected = pg_BalanceAffected t,
          op_Direction = (if pg_Direction t \<noteq> '''' then pg_Direction t else inferLegacyDirectionFromType (pg_Type t)),
          op_RouteID = pg_RouteID t, op_RouteCode = pg_RouteCode t, op_RouteDescription = pg_RouteDescription t,
          op_CreatedAt = pg_CreatedAt t, op_UpdatedAt = pg_UpdatedAt t, op_DeletedAt = pg_DeletedAt t, op_Metadata = None,
          op_Snapshot = snapshot\<rparr>)"

definition Operation_FromEntity :: "commons \<Rightarrow> string \<Rightarrow> Operation \<Rightarrow> OperationPostgreSQLModel" where
  "Operation_FromEntity cm newID op =
     \<lparr>pg_ID = (if op_ID op \<noteq> '''' then op_ID op else newID), pg_TransactionID = op_TransactionID op,
      pg_Description = op_Description op, pg_Type = op_Type op, pg_AssetCode = op_AssetCode op, pg_Amount = op_Amount op,
      pg_AvailableBalance = ob_Available (op_Balance op), pg_OnHoldBalance = ob_OnHold (op_Balance op),
      pg_VersionBalance = ob_Version (op_Balance op), pg_AvailableBalanceAfter = ob_Available (op_BalanceAfter op),
      pg_OnHoldBalanceAfter = ob_OnHold (op_BalanceAfter op), pg_VersionBalanceAfter = ob_Version (op_BalanceAfter op),
      pg_Status = op_StatusCode op, pg_StatusDescription = op_StatusDescription op, pg_AccountID = op_AccountID op,
      pg_AccountAlias = op_AccountAlias op, pg_BalanceKey = (if op_BalanceKey op = '''' then DefaultBalanceKey else op_BalanceKey op),
      pg_BalanceID = op_BalanceID op, pg_ChartOfAccounts = op_ChartOfAccounts op, pg_OrganizationID = op_OrganizationID op,
      pg_LedgerID = op_LedgerID op, pg_CreatedAt = op_CreatedAt op, pg_UpdatedAt = op_UpdatedAt op, pg_DeletedAt = op_DeletedAt op,
      pg_Route = (if IsNilOrEmpty cm (op_Route op) then None else Some (op_Route op)), pg_BalanceAffected = op_BalanceAffected op,
      pg_Direction = op_Direction op, pg_RouteID = op_RouteID op, pg_RouteCode = op_RouteCode op,
      pg_RouteDescription = op_RouteDescription op, pg_Snapshot = Some (op_Snapshot op)\<rparr>"

text \<open>The flat form in the cache: amounts and versions are values, so that a nil pointer becomes zero.\<close>

record OperationRedis =
  ord_ID :: string
  ord_TransactionID :: string
  ord_Description :: string
  ord_Type :: string
  ord_AssetCode :: string
  ord_ChartOfAccounts :: string
  ord_AmountValue :: decimal
  ord_BalanceAvailable :: decimal
  ord_BalanceOnHold :: decimal
  ord_BalanceVersion :: int
  ord_BalanceAfterAvailable :: decimal
  ord_BalanceAfterOnHold :: decimal
  ord_BalanceAfterVersion :: int
  ord_StatusCode :: string
  ord_StatusDescription :: "string option"
  ord_BalanceID :: string
  ord_AccountID :: string
  ord_AccountAlias :: string
  ord_BalanceKey :: string
  ord_OrganizationID :: string
  ord_LedgerID :: string
  ord_CreatedAt :: time
  ord_UpdatedAt :: time
  ord_Route :: string
  ord_BalanceAffected :: bool
  ord_Direction :: string
  ord_RouteID :: "string option"
  ord_RouteCode :: "string option"
  ord_RouteDescription :: "string option"
  ord_Metadata :: metadata
  ord_Snapshot :: OperationSnapshot

definition Operation_ToRedis :: "Operation \<Rightarrow> OperationRedis" where
  "Operation_ToRedis op =
     (let value = (\<lambda>p. case p of None \<Rightarrow> 0 | Some v \<Rightarrow> v); version = (\<lambda>p. case p of None \<Rightarrow> 0 | Some v \<Rightarrow> v)
      in \<lparr>ord_ID = op_ID op, ord_TransactionID = op_TransactionID op, ord_Description = op_Description op, ord_Type = op_Type op,
          ord_AssetCode = op_AssetCode op, ord_ChartOfAccounts = op_ChartOfAccounts op, ord_AmountValue = value (op_Amount op),
          ord_BalanceAvailable = value (ob_Available (op_Balance op)), ord_BalanceOnHold = value (ob_OnHold (op_Balance op)),
          ord_BalanceVersion = version (ob_Version (op_Balance op)),
          ord_BalanceAfterAvailable = value (ob_Available (op_BalanceAfter op)),
          ord_BalanceAfterOnHold = value (ob_OnHold (op_BalanceAfter op)),
          ord_BalanceAfterVersion = version (ob_Version (op_BalanceAfter op)),
          ord_StatusCode = op_StatusCode op, ord_StatusDescription = op_StatusDescription op, ord_BalanceID = op_BalanceID op,
          ord_AccountID = op_AccountID op, ord_AccountAlias = op_AccountAlias op, ord_BalanceKey = op_BalanceKey op,
          ord_OrganizationID = op_OrganizationID op, ord_LedgerID = op_LedgerID op, ord_CreatedAt = op_CreatedAt op,
          ord_UpdatedAt = op_UpdatedAt op, ord_Route = op_Route op, ord_BalanceAffected = op_BalanceAffected op,
          ord_Direction = op_Direction op, ord_RouteID = op_RouteID op, ord_RouteCode = op_RouteCode op,
          ord_RouteDescription = op_RouteDescription op, ord_Metadata = op_Metadata op, ord_Snapshot = op_Snapshot op\<rparr>)"

definition OperationFromRedis :: "extlib \<Rightarrow> OperationRedis \<Rightarrow> Operation" where
  "OperationFromRedis lib r =
     (let snapshot = read_snapshot (Some (ord_Snapshot r))
      in \<lparr>op_ID = ord_ID r, op_TransactionID = ord_TransactionID r, op_Description = ord_Description r, op_Type = ord_Type r,
          op_AssetCode = ord_AssetCode r, op_ChartOfAccounts = ord_ChartOfAccounts r, op_Amount = Some (ord_AmountValue r),
          op_Balance = (operation_balance (ord_BalanceAvailable r) (ord_BalanceOnHold r) (ord_BalanceVersion r))
            \<lparr>ob_OverdraftUsed := parseDecimalOrZero lib (sn_OverdraftUsedBefore snapshot)\<rparr>,
          op_BalanceAfter = (operation_balance (ord_BalanceAfterAvailable r) (ord_BalanceAfterOnHold r) (ord_BalanceAfterVersion r))
            \<lparr>ob_OverdraftUsed := parseDecimalOrZero lib (sn_OverdraftUsedAfter snapshot)\<rparr>,
          op_StatusCode = ord_StatusCode r, op_StatusDescription = ord_StatusDescription r, op_AccountID = ord_AccountID r,
          op_AccountAlias = ord_AccountAlias r, op_BalanceKey = ord_BalanceKey r, op_BalanceID = ord_BalanceID r,
          op_OrganizationID = ord_OrganizationID r, op_LedgerID = ord_LedgerID r, op_Route = ord_Route r,
          op_BalanceAffected = ord_BalanceAffected r, op_Direction = ord_Direction r, op_RouteID = ord_RouteID r,
          op_RouteCode = ord_RouteCode r, op_RouteDescription = ord_RouteDescription r, op_CreatedAt = ord_CreatedAt r,
          op_UpdatedAt = ord_UpdatedAt r, op_DeletedAt = None, op_Metadata = ord_Metadata r, op_Snapshot = snapshot\<rparr>)"

section \<open>The reversal of a transaction\<close>

text \<open>\<^verbatim>\<open>transaction.Transaction\<close>: a transaction as the ledger keeps it, with its operations.\<close>

record TransactionRecord =
  tr_ID :: string
  tr_ParentTransactionID :: "string option"
  tr_Description :: string
  tr_StatusCode :: string
  tr_StatusDescription :: "string option"
  tr_Amount :: "decimal option"
  tr_AssetCode :: string
  tr_ChartOfAccountsGroupName :: string
  tr_Source :: "string list"
  tr_Destination :: "string list"
  tr_LedgerID :: string
  tr_OrganizationID :: string
  tr_Body :: Transaction
  tr_Route :: string
  tr_RouteID :: "string option"
  tr_FeesSkipped :: bool
  tr_TracerSkipped :: bool
  tr_CreatedAt :: time
  tr_UpdatedAt :: time
  tr_DeletedAt :: "time option"
  tr_Metadata :: metadata
  tr_Operations :: "Operation list"

definition reversalLegSide :: "Operation \<Rightarrow> bool \<times> bool" where
  "reversalLegSide op =
     (if op_Type op = CREDIT then (True, False)
      else if op_Type op = DEBIT then (False, True)
      else if op_Type op = BLOCK \<or> op_Type op = UNBLOCK then (op_Direction op = DirectionCredit, op_Direction op = DirectionDebit)
      else (False, False))"

definition reversalLeg :: "Operation \<Rightarrow> decimal \<Rightarrow> bool \<Rightarrow> FromTo" where
  "reversalLeg op v isFrom =
     FromTo_zero\<lparr>ft_IsFrom := isFrom, ft_AccountAlias := op_AccountAlias op,
       ft_BalanceKey := (if op_BalanceKey op = '''' then DefaultBalanceKey else op_BalanceKey op),
       ft_Amount := Some (Amount_zero\<lparr>am_Asset := op_AssetCode op, am_Value := v\<rparr>), ft_Description := op_Description op,
       ft_ChartOfAccounts := op_ChartOfAccounts op, ft_Metadata := op_Metadata op, ft_Route := op_Route op, ft_RouteID := op_RouteID op\<rparr>"

text \<open>The legs of one side and, for each alias, the position of its last leg.\<close>

type_synonym reversal_side = "FromTo list \<times> (string, nat) gomap"

definition add_leg :: "FromTo \<Rightarrow> reversal_side \<Rightarrow> reversal_side" where
  "add_leg leg = (\<lambda>(legs, index). (legs @ [leg], AList.update (ft_AccountAlias leg) (length legs) index))"

definition reversal_step :: "Operation \<Rightarrow> reversal_side \<times> reversal_side \<Rightarrow> reversal_side \<times> reversal_side" where
  "reversal_step op = (\<lambda>(froms, tos).
     case op_Amount op of
       None \<Rightarrow> (froms, tos)
     | Some v \<Rightarrow>
         if op_BalanceKey op = OverdraftBalanceKey then (froms, tos)
         else (case reversalLegSide op of (isFrom, isTo) \<Rightarrow>
           if isFrom then (add_leg (reversalLeg op v True) froms, tos)
           else if isTo then (froms, add_leg (reversalLeg op v False) tos)
           else (froms, tos)))"

definition buildReversalLegs :: "Operation list \<Rightarrow> reversal_side \<times> reversal_side" where
  "buildReversalLegs ops = fold reversal_step ops (([], []), ([], []))"

definition addCompanionAmount :: "decimal \<Rightarrow> Operation \<Rightarrow> decimal \<Rightarrow> reversal_side \<Rightarrow> reversal_side" where
  "addCompanionAmount cap op v = (\<lambda>(entries, indexByAlias).
     case map_of indexByAlias (op_AccountAlias op) of
       None \<Rightarrow> (entries, indexByAlias)
     | Some idx \<Rightarrow>
         (case ft_Amount (entries ! idx) of
            None \<Rightarrow> (entries, indexByAlias)
          | Some a \<Rightarrow>
              (entries[idx := (entries ! idx)\<lparr>ft_Amount := Some (a\<lparr>am_Value := min (am_Value a + v) cap\<rparr>)\<rparr>], indexByAlias)))"

definition companion_step :: "decimal \<Rightarrow> Operation \<Rightarrow> reversal_side \<times> reversal_side \<Rightarrow> reversal_side \<times> reversal_side" where
  "companion_step cap op = (\<lambda>(froms, tos).
     case op_Amount op of
       None \<Rightarrow> (froms, tos)
     | Some v \<Rightarrow>
         if op_Type op \<noteq> OVERDRAFT \<and> op_BalanceKey op \<noteq> OverdraftBalanceKey then (froms, tos)
         else if op_Direction op = DirectionCredit then (addCompanionAmount cap op v froms, tos)
         else if op_Direction op = DirectionDebit \<or> op_Direction op = '''' then (froms, addCompanionAmount cap op v tos)
         else (froms, tos))"

definition Transaction_zero :: Transaction where
  "Transaction_zero =
     \<lparr>tx_ChartOfAccountsGroupName = '''', tx_Description = '''', tx_Code = '''', tx_Pending = False, tx_Metadata = None, tx_Route = '''',
      tx_RouteID = None, tx_TransactionDate = None,
      tx_Send = \<lparr>snd_Asset = '''', snd_Value = 0, snd_Source = \<lparr>src_Remaining = '''', src_From = []\<rparr>,
        snd_Distribute = \<lparr>dst_Remaining = '''', dst_To = []\<rparr>\<rparr>,
      tx_Skip = None, tx_OperationTypeOverride = ''''\<rparr>"

definition TransactionRevert :: "TransactionRecord \<Rightarrow> Transaction" where
  "TransactionRevert t =
     (case tr_Amount t of
        None \<Rightarrow> Transaction_zero
      | Some amount \<Rightarrow>
          (let ((froms, _), (tos, _)) = fold (companion_step amount) (tr_Operations t) (buildReversalLegs (tr_Operations t))
           in Transaction_zero\<lparr>tx_ChartOfAccountsGroupName := tr_ChartOfAccountsGroupName t, tx_Description := tr_Description t,
                tx_Metadata := tr_Metadata t, tx_Route := tr_Route t, tx_RouteID := tr_RouteID t,
                tx_Send := \<lparr>snd_Asset = tr_AssetCode t, snd_Value = amount,
                  snd_Source = \<lparr>src_Remaining = '''', src_From = froms\<rparr>, snd_Distribute = \<lparr>dst_Remaining = '''', dst_To = tos\<rparr>\<rparr>\<rparr>))"

text \<open>The guards of a reversal; the queries for a child transaction and for operation routes are parameters.\<close>

record OperationRouteInfo =
  ori_OperationType :: string

fun check_bidirectional :: "extlib \<Rightarrow> (uuid \<Rightarrow> goerr + OperationRouteInfo option) \<Rightarrow> Operation list \<Rightarrow> goerr option" where
  "check_bidirectional lib getRoute [] = None"
| "check_bidirectional lib getRoute (op # ops) =
     (case op_RouteID op of
        None \<Rightarrow> check_bidirectional lib getRoute ops
      | Some routeID \<Rightarrow>
          if routeID = '''' then check_bidirectional lib getRoute ops
          else case uuid_Parse lib routeID of
            None \<Rightarrow> Some (Business ErrInvalidPathParameter)
          | Some routeUUID \<Rightarrow>
              (case getRoute routeUUID of
                 Inl e \<Rightarrow> Some e
               | Inr None \<Rightarrow> check_bidirectional lib getRoute ops
               | Inr (Some r) \<Rightarrow>
                   if ori_OperationType r \<noteq> ''bidirectional'' then Some (Business ErrRouteNotBidirectional)
                   else check_bidirectional lib getRoute ops))"

definition revert_input ::
    "extlib \<Rightarrow> (uuid \<Rightarrow> goerr + OperationRouteInfo option) \<Rightarrow> goerr + TransactionRecord option \<Rightarrow> goerr + TransactionRecord \<Rightarrow> goerr + Transaction" where
  "revert_input lib getRoute parent found =
     (case parent of
        Inl e \<Rightarrow> Inl e
      | Inr (Some _) \<Rightarrow> Inl (Business ErrTransactionIDHasAlreadyParentTransaction)
      | Inr None \<Rightarrow>
          (case found of
             Inl e \<Rightarrow> Inl e
           | Inr tran \<Rightarrow>
               if tr_ParentTransactionID tran \<noteq> None then Inl (Business ErrTransactionIDIsAlreadyARevert)
               else if tr_StatusCode tran \<noteq> APPROVED then Inl (Business ErrCommitTransactionNotPending)
               else (let transactionReverted = TransactionRevert tran
                     in if Transaction_IsEmpty transactionReverted then Inl (Business ErrTransactionCantRevert)
                        else case check_bidirectional lib getRoute (tr_Operations tran) of
                          Some e \<Rightarrow> Inl e
                        | None \<Rightarrow> Inr transactionReverted)))"

end
