(* ===== verification/LedgerOperationsProofs.thy ===== *)
theory LedgerOperationsProofs
  imports LedgerOperations
begin

text \<open>
  What the operations of a transaction record: the amounts on a balance and on its companion add up to
  the amount of the entry, and the reversal that is built from them gives every account back what it
  moved.
\<close>

section \<open>The two sides of a reversal\<close>

definition leg_value :: "FromTo \<Rightarrow> decimal" where
  "leg_value ft = (case ft_Amount ft of None \<Rightarrow> 0 | Some a \<Rightarrow> am_Value a)"

text \<open>What the legs of an account amount to.\<close>

definition legs_of :: "string \<Rightarrow> FromTo list \<Rightarrow> decimal" where
  "legs_of alias legs = (\<Sum>ft\<leftarrow>filter (\<lambda>ft. ft_AccountAlias ft = alias) legs. leg_value ft)"

definition op_value :: "Operation \<Rightarrow> decimal" where
  "op_value op = (case op_Amount op of None \<Rightarrow> 0 | Some v \<Rightarrow> v)"

text \<open>The operations on balances, and on companions, that were credits (or, with \<open>False\<close>, debits).\<close>

definition booked :: "bool \<Rightarrow> Operation \<Rightarrow> bool" where
  "booked credit op \<longleftrightarrow>
     op_BalanceKey op \<noteq> OverdraftBalanceKey \<and>
     (if credit then fst (reversalLegSide op) else \<not> fst (reversalLegSide op) \<and> snd (reversalLegSide op))"

definition booked_companion :: "bool \<Rightarrow> Operation \<Rightarrow> bool" where
  "booked_companion credit op \<longleftrightarrow>
     (op_Type op = OVERDRAFT \<or> op_BalanceKey op = OverdraftBalanceKey) \<and>
     (if credit then op_Direction op = DirectionCredit else op_Direction op = DirectionDebit \<or> op_Direction op = '''')"

definition leg_step :: "bool \<Rightarrow> Operation \<Rightarrow> reversal_side \<Rightarrow> reversal_side" where
  "leg_step credit op side =
     (case op_Amount op of None \<Rightarrow> side | Some v \<Rightarrow> if booked credit op then add_leg (reversalLeg op v credit) side else side)"

definition companion_leg_step :: "decimal \<Rightarrow> bool \<Rightarrow> Operation \<Rightarrow> reversal_side \<Rightarrow> reversal_side" where
  "companion_leg_step cap credit op side =
     (case op_Amount op of None \<Rightarrow> side | Some v \<Rightarrow> if booked_companion credit op then addCompanionAmount cap op v side else side)"

lemma reversal_step_sides: "reversal_step op (froms, tos) = (leg_step True op froms, leg_step False op tos)"
  by (auto simp: reversal_step_def leg_step_def booked_def split: option.splits prod.splits)

lemma companion_step_sides:
  "companion_step cap op (froms, tos) = (companion_leg_step cap True op froms, companion_leg_step cap False op tos)"
  by (auto simp: companion_step_def companion_leg_step_def booked_companion_def split: option.splits)

lemma fold_sides:
  "fold reversal_step ops (froms, tos) = (fold (leg_step True) ops froms, fold (leg_step False) ops tos)"
  "fold (companion_step cap) ops (froms, tos) = (fold (companion_leg_step cap True) ops froms, fold (companion_leg_step cap False) ops tos)"
  by (induction ops arbitrary: froms tos) (simp_all add: reversal_step_sides companion_step_sides)

lemma TransactionRevert_sides:
  assumes "tr_Amount t = Some amount"
  shows "tx_Send (TransactionRevert t) =
    \<lparr>snd_Asset = tr_AssetCode t, snd_Value = amount,
     snd_Source = \<lparr>src_Remaining = '''',
       src_From = fst (fold (companion_leg_step amount True) (tr_Operations t) (fold (leg_step True) (tr_Operations t) ([], [])))\<rparr>,
     snd_Distribute = \<lparr>dst_Remaining = '''',
       dst_To = fst (fold (companion_leg_step amount False) (tr_Operations t) (fold (leg_step False) (tr_Operations t) ([], [])))\<rparr>\<rparr>"
  using assms by (simp add: TransactionRevert_def buildReversalLegs_def fold_sides Let_def split: prod.split)

section \<open>One side\<close>

text \<open>A side in order: every leg has an amount that is not negative, and the index leads to a leg of the alias.\<close>

definition side_ok :: "reversal_side \<Rightarrow> bool" where
  "side_ok side \<longleftrightarrow>
     (\<forall>ft \<in> set (fst side). \<exists>a. ft_Amount ft = Some a \<and> 0 \<le> am_Value a) \<and>
     (\<forall>alias i. map_of (snd side) alias = Some i \<longrightarrow> i < length (fst side) \<and> ft_AccountAlias (fst side ! i) = alias)"

definition side_total :: "reversal_side \<Rightarrow> decimal" where
  "side_total side = (\<Sum>ft\<leftarrow>fst side. leg_value ft)"

definition known :: "reversal_side \<Rightarrow> string set" where
  "known side = dom (map_of (snd side))"

lemma add_leg_effect:
  assumes "side_ok side" "0 \<le> v"
  shows "side_ok (add_leg (reversalLeg op v credit) side)"
    "legs_of alias (fst (add_leg (reversalLeg op v credit) side)) = legs_of alias (fst side) + (if op_AccountAlias op = alias then v else 0)"
    "side_total (add_leg (reversalLeg op v credit) side) = side_total side + v"
    "known (add_leg (reversalLeg op v credit) side) = insert (op_AccountAlias op) (known side)"
  using assms
  by (auto simp: known_def side_ok_def add_leg_def reversalLeg_def FromTo_zero_def Amount_zero_def legs_of_def leg_value_def side_total_def
      update_conv' nth_append split: prod.splits if_splits)

definition adds :: "(Operation \<Rightarrow> bool) \<Rightarrow> string \<Rightarrow> Operation list \<Rightarrow> decimal" where
  "adds P alias ops = (\<Sum>op\<leftarrow>filter (\<lambda>op. P op \<and> op_AccountAlias op = alias) ops. op_value op)"

definition adds_all :: "(Operation \<Rightarrow> bool) \<Rightarrow> Operation list \<Rightarrow> decimal" where
  "adds_all P ops = (\<Sum>op\<leftarrow>filter P ops. op_value op)"

lemma legs_built:
  assumes "side_ok side" "\<forall>op \<in> set ops. 0 \<le> op_value op"
  shows "side_ok (fold (leg_step credit) ops side) \<and>
    legs_of alias (fst (fold (leg_step credit) ops side)) = legs_of alias (fst side) + adds (booked credit) alias ops \<and>
    side_total (fold (leg_step credit) ops side) = side_total side + adds_all (booked credit) ops \<and>
    (\<forall>op \<in> set ops. booked credit op \<and> op_Amount op \<noteq> None \<longrightarrow>
       op_AccountAlias op \<in> known (fold (leg_step credit) ops side)) \<and>
    known side \<subseteq> known (fold (leg_step credit) ops side)"
  using assms
proof (induction ops arbitrary: side)
  case Nil
  then show ?case by (simp add: adds_def adds_all_def)
next
  case (Cons op ops)
  define side' where "side' = leg_step credit op side"
  have v: "0 \<le> op_value op" using Cons.prems(2) by simp
  have s': "side_ok side'"
    "legs_of alias (fst side') = legs_of alias (fst side) + (if booked credit op \<and> op_AccountAlias op = alias then op_value op else 0)"
    "side_total side' = side_total side + (if booked credit op then op_value op else 0)"
    "known side \<subseteq> known side'"
    "booked credit op \<and> op_Amount op \<noteq> None \<longrightarrow> op_AccountAlias op \<in> known side'"
    using v Cons.prems(1) add_leg_effect [OF Cons.prems(1), where v = "op_value op" and op = op and credit = credit]
    by (auto simp: side'_def leg_step_def op_value_def split: option.splits if_splits)
  from Cons.IH [OF s'(1)] Cons.prems(2) s' show ?case
    by (auto simp: side'_def [symmetric] adds_def adds_all_def)
qed


lemma addCompanionAmount_effect:
  assumes ok: "side_ok side" and v: "0 \<le> v" and kn: "op_AccountAlias op \<in> known side" and cap: "side_total side + v \<le> cap"
  shows "side_ok (addCompanionAmount cap op v side)"
    "legs_of alias (fst (addCompanionAmount cap op v side)) = legs_of alias (fst side) + (if op_AccountAlias op = alias then v else 0)"
    "side_total (addCompanionAmount cap op v side) = side_total side + v"
    "known (addCompanionAmount cap op v side) = known side"
proof -
  obtain legs index where side: "side = (legs, index)" by force
  obtain i where i: "map_of index (op_AccountAlias op) = Some i" using kn by (auto simp: known_def side)
  then have len: "i < length legs" and al: "ft_AccountAlias (legs ! i) = op_AccountAlias op" using ok by (auto simp: side_ok_def side)
  have "legs ! i \<in> set legs" by (rule nth_mem [OF len])
  then obtain a where a: "ft_Amount (legs ! i) = Some a" "0 \<le> am_Value a" using ok unfolding side_ok_def side fst_conv by blast
  define ft' where "ft' = (legs ! i)\<lparr>ft_Amount := Some (a\<lparr>am_Value := am_Value a + v\<rparr>)\<rparr>"
  define xs ys where "xs = take i legs" and "ys = drop (Suc i) legs"
  have legs: "legs = xs @ legs ! i # ys" and xi: "length xs = i" using len by (simp_all add: xs_def ys_def id_take_nth_drop)
  have upd: "legs[i := ft'] = xs @ ft' # ys" using len by (simp add: xs_def ys_def upd_conv_take_nth_drop)
  have val: "leg_value (legs ! i) = am_Value a" "leg_value ft' = am_Value a + v" "ft_AccountAlias ft' = op_AccountAlias op"
    using a al by (simp_all add: leg_value_def ft'_def)
  have "\<forall>ft \<in> set legs. 0 \<le> leg_value ft" using ok by (auto simp: side_ok_def side leg_value_def)
  then have "0 \<le> (\<Sum>ft\<leftarrow>xs. leg_value ft)" "0 \<le> (\<Sum>ft\<leftarrow>ys. leg_value ft)"
    by (auto intro!: sum_list_nonneg simp: xs_def ys_def) (meson in_set_takeD in_set_dropD)+
  moreover have tot: "side_total side = (\<Sum>ft\<leftarrow>xs. leg_value ft) + am_Value a + (\<Sum>ft\<leftarrow>ys. leg_value ft)"
    unfolding side_total_def side fst_conv by (subst legs) (simp add: val)
  ultimately have "am_Value a + v \<le> cap" using cap by linarith
  then have res: "addCompanionAmount cap op v side = (xs @ ft' # ys, index)"
    using i a by (simp add: addCompanionAmount_def side ft'_def [symmetric] upd min_def)
  show "side_ok (addCompanionAmount cap op v side)" unfolding res
  proof (unfold side_ok_def fst_conv snd_conv, rule conjI; intro ballI allI impI)
    fix ft assume "ft \<in> set (xs @ ft' # ys)"
    then have "ft = ft' \<or> ft \<in> set legs" by (auto simp: xs_def ys_def dest: in_set_takeD in_set_dropD)
    then show "\<exists>b. ft_Amount ft = Some b \<and> 0 \<le> am_Value b" using ok a v by (auto simp: side_ok_def side ft'_def)
  next
    fix al j assume j: "map_of index al = Some j"
    then have "j < length legs" "ft_AccountAlias (legs ! j) = al" using ok by (auto simp: side_ok_def side)
    then show "j < length (xs @ ft' # ys) \<and> ft_AccountAlias ((xs @ ft' # ys) ! j) = al"
      unfolding upd [symmetric] using val(3) al by (cases "j = i") simp_all
  qed
  show "legs_of alias (fst (addCompanionAmount cap op v side)) = legs_of alias (fst side) + (if op_AccountAlias op = alias then v else 0)"
  proof -
    have "legs_of alias legs = legs_of alias xs + (if op_AccountAlias op = alias then am_Value a else 0) + legs_of alias ys"
      by (subst legs) (use val al in \<open>simp add: legs_of_def\<close>)
    then show ?thesis unfolding res by (simp add: side legs_of_def val)
  qed
  show "side_total (addCompanionAmount cap op v side) = side_total side + v" unfolding tot by (simp add: res side_total_def val)
  show "known (addCompanionAmount cap op v side) = known side" unfolding res by (simp add: known_def side)
qed

lemma companions_added:
  assumes "side_ok side" "\<forall>op \<in> set ops. 0 \<le> op_value op" "side_total side + adds_all (booked_companion credit) ops \<le> cap"
    "\<forall>op \<in> set ops. booked_companion credit op \<and> op_Amount op \<noteq> None \<longrightarrow> op_AccountAlias op \<in> known side"
  shows "side_ok (fold (companion_leg_step cap credit) ops side) \<and>
    legs_of alias (fst (fold (companion_leg_step cap credit) ops side)) = legs_of alias (fst side) + adds (booked_companion credit) alias ops \<and>
    side_total (fold (companion_leg_step cap credit) ops side) = side_total side + adds_all (booked_companion credit) ops"
  using assms
proof (induction ops arbitrary: side)
  case Nil
  then show ?case by (simp add: adds_def adds_all_def)
next
  case (Cons op ops)
  define side' where "side' = companion_leg_step cap credit op side"
  have v: "0 \<le> op_value op" using Cons.prems(2) by simp
  have "0 \<le> adds_all (booked_companion credit) ops" using Cons.prems(2) by (auto simp: adds_all_def intro!: sum_list_nonneg)
  then have cap: "booked_companion credit op \<Longrightarrow> side_total side + op_value op \<le> cap" using Cons.prems(3) by (simp add: adds_all_def)
  have s': "side_ok side'"
    "legs_of alias (fst side') = legs_of alias (fst side) + (if booked_companion credit op \<and> op_AccountAlias op = alias then op_value op else 0)"
    "side_total side' = side_total side + (if booked_companion credit op then op_value op else 0)" "known side' = known side"
    using v Cons.prems(1, 4) cap addCompanionAmount_effect [OF Cons.prems(1), where v = "op_value op" and op = op and cap = cap]
    by (auto simp: side'_def companion_leg_step_def op_value_def split: option.splits if_splits)
  from Cons.IH [OF s'(1)] Cons.prems(2, 3, 4) s' show ?case
    by (auto simp: side'_def [symmetric] adds_def adds_all_def)
qed

section \<open>A reversal gives back what was moved\<close>

text \<open>
  The records of a transaction of a given amount: no amount is negative, debits and credits, on balances
  and companions together, add up to the amount of the transaction, and an operation on a companion goes
  with one on a balance of the same account and side.
\<close>

definition balanced_records :: "decimal \<Rightarrow> Operation list \<Rightarrow> bool" where
  "balanced_records amount ops \<longleftrightarrow>
     (\<forall>op \<in> set ops. 0 \<le> op_value op) \<and>
     (\<forall>credit. adds_all (booked credit) ops + adds_all (booked_companion credit) ops = amount \<and>
        (\<forall>op \<in> set ops. booked_companion credit op \<and> op_Amount op \<noteq> None \<longrightarrow>
           (\<exists>op2 \<in> set ops. booked credit op2 \<and> op_Amount op2 \<noteq> None \<and> op_AccountAlias op2 = op_AccountAlias op)))"

text \<open>What an account was credited with, or, with \<open>False\<close>, debited by.\<close>

definition moved :: "bool \<Rightarrow> string \<Rightarrow> Operation list \<Rightarrow> decimal" where
  "moved credit alias ops = adds (booked credit) alias ops + adds (booked_companion credit) alias ops"

lemma reversed_side:
  fixes credit :: bool
  assumes "balanced_records amount ops"
  defines "side \<equiv> fold (companion_leg_step amount credit) ops (fold (leg_step credit) ops ([], []))"
  shows "legs_of alias (fst side) = moved credit alias ops" "(\<Sum>ft\<leftarrow>fst side. leg_value ft) = amount"
proof -
  have nonneg: "\<forall>op \<in> set ops. 0 \<le> op_value op" and sum: "adds_all (booked credit) ops + adds_all (booked_companion credit) ops = amount"
    and legs: "\<forall>op \<in> set ops. booked_companion credit op \<and> op_Amount op \<noteq> None \<longrightarrow>
      (\<exists>op2 \<in> set ops. booked credit op2 \<and> op_Amount op2 \<noteq> None \<and> op_AccountAlias op2 = op_AccountAlias op)"
    using assms(1) by (simp_all add: balanced_records_def)
  have empty: "side_ok ([], [])" "side_total ([], []) = 0" by (simp_all add: side_ok_def side_total_def)
  define built where "built = fold (leg_step credit) ops ([], [])"
  note B = legs_built [OF empty(1) nonneg, of credit, folded built_def, unfolded empty(2)]
  have kn: "\<forall>op \<in> set ops. booked_companion credit op \<and> op_Amount op \<noteq> None \<longrightarrow> op_AccountAlias op \<in> known built"
    using legs B by metis
  have le: "side_total built + adds_all (booked_companion credit) ops \<le> amount" using B sum by simp
  note side = side_def [folded built_def] and C = companions_added [OF _ nonneg le kn]
  show "legs_of alias (fst side) = moved credit alias ops"
    using B C [of "alias"] by (simp add: side moved_def) (simp add: legs_of_def)
  show "(\<Sum>ft\<leftarrow>fst side. leg_value ft) = amount" using B C sum by (simp add: side side_total_def)
qed


section \<open>The amount that is recorded\<close>

text \<open>
  C13. The amounts recorded on a balance and on its companion add up to the amount of the entry. For a
  direct entry on a balance that may use overdraft, read as it is in the cache, that the script accepts:
  the amount of the operation on the balance, taken from the balances before and after, and the amount
  that goes to the companion are together the amount of the entry.
\<close>

theorem recorded_amounts_add_up:
  assumes "overdraft_entry lib k op c" "prints_money lib k" "k \<le> 300"
    "script_compute (script_op lib key CREATED False op) (script_balance lib (bo_Balance op)) = Inr (av, oh, us)"
    "mb_Available after = dval av" "mb_OnHold after = dval oh"
  shows "am_Value (fst (settle_entry (bo_Balance op) (Some after) (bo_Amount op) bat)) + redirected lib op = am_Value (bo_Amount op)"
proof -
  note d = entry_effect [OF assms(1-4)]
  have "\<bar>mb_Available (bo_Balance op) - mb_Available after\<bar> = am_Value (bo_Amount op) - redirected lib op" "0 \<le> redirected lib op"
      "redirected lib op \<le> am_Value (bo_Amount op)"
    using d assms(5) by (auto simp: money_def split: if_splits)
  moreover have "mb_OnHold after = mb_OnHold (bo_Balance op)" using d assms(6) by simp
  ultimately show ?thesis by (simp add: settle_entry_def effectiveOperationAmount_def)
qed

section \<open>Operations survive the database and the cache\<close>

text \<open>An operation as \<open>BuildOperations\<close> makes it: all amounts are there, the snapshot is that of the overdraft in use.\<close>

definition complete_operation :: "extlib \<Rightarrow> Operation \<Rightarrow> bool" where
  "complete_operation lib op \<longleftrightarrow>
     op_Amount op \<noteq> None \<and> op_DeletedAt op = None \<and>
     (\<forall>b \<in> {op_Balance op, op_BalanceAfter op}. ob_Available b \<noteq> None \<and> ob_OnHold b \<noteq> None \<and> ob_Version b \<noteq> None) \<and>
     sn_OverdraftUsedBefore (op_Snapshot op) = dec_String lib (ob_OverdraftUsed (op_Balance op)) \<and>
     sn_OverdraftUsedAfter (op_Snapshot op) = dec_String lib (ob_OverdraftUsed (op_BalanceAfter op))"

lemma operation_redis_roundtrip:
  assumes "complete_operation lib op" "\<And>x. dec_String lib x \<noteq> '''' \<and> dec_NewFromString lib (dec_String lib x) = Some x"
  shows "OperationFromRedis lib (Operation_ToRedis op) = op"
  using assms by (cases op; cases "op_Balance op"; cases "op_BalanceAfter op"; cases "op_Snapshot op")
    (auto simp: complete_operation_def OperationFromRedis_def Operation_ToRedis_def read_snapshot_def parseDecimalOrZero_def operation_balance_def)

lemma operation_row_roundtrip:
  assumes "complete_operation lib op" "\<And>x. dec_String lib x \<noteq> '''' \<and> dec_NewFromString lib (dec_String lib x) = Some x"
    "op_ID op \<noteq> ''''" "op_BalanceKey op \<noteq> ''''" "op_Direction op \<noteq> ''''" "IsNilOrEmpty cm (op_Route op) \<longleftrightarrow> op_Route op = ''''"
  shows "Operation_ToEntity lib (Operation_FromEntity cm newID op) = op\<lparr>op_Metadata := None\<rparr>"
  using assms by (cases op; cases "op_Balance op"; cases "op_BalanceAfter op"; cases "op_Snapshot op")
    (auto simp: complete_operation_def Operation_ToEntity_def Operation_FromEntity_def read_snapshot_def parseDecimalOrZero_def)

section \<open>Examples\<close>

definition sample_operation :: "string \<Rightarrow> string \<Rightarrow> string \<Rightarrow> string \<Rightarrow> decimal \<Rightarrow> Operation" where
  "sample_operation ty alias key direction amount =
     \<lparr>op_ID = '''', op_TransactionID = '''', op_Description = '''', op_Type = ty, op_AssetCode = ''USD'', op_ChartOfAccounts = '''',
      op_Amount = Some amount, op_Balance = operation_balance 0 0 0, op_BalanceAfter = operation_balance 0 0 0, op_StatusCode = '''',
      op_StatusDescription = None, op_AccountID = '''', op_AccountAlias = alias, op_BalanceKey = key, op_BalanceID = '''',
      op_OrganizationID = '''', op_LedgerID = '''', op_Route = '''', op_BalanceAffected = True, op_Direction = direction,
      op_RouteID = None, op_RouteCode = None, op_RouteDescription = None, op_CreatedAt = 0, op_UpdatedAt = 0, op_DeletedAt = None,
      op_Metadata = None, op_Snapshot = \<lparr>sn_OverdraftUsedBefore = ''0'', sn_OverdraftUsedAfter = ''0''\<rparr>\<rparr>"

definition recorded :: "decimal \<Rightarrow> Operation list \<Rightarrow> TransactionRecord" where
  "recorded amount ops =
     \<lparr>tr_ID = ''t'', tr_ParentTransactionID = None, tr_Description = ''payment'', tr_StatusCode = APPROVED, tr_StatusDescription = None,
      tr_Amount = Some amount, tr_AssetCode = ''USD'', tr_ChartOfAccountsGroupName = '''', tr_Source = [], tr_Destination = [],
      tr_LedgerID = '''', tr_OrganizationID = '''', tr_Body = Transaction_zero, tr_Route = '''', tr_RouteID = None,
      tr_FeesSkipped = False, tr_TracerSkipped = False, tr_CreatedAt = 0, tr_UpdatedAt = 0, tr_DeletedAt = None,
      tr_Metadata = None, tr_Operations = ops\<rparr>"

text \<open>A payment of 30 with 20 on the account and 10 drawn as overdraft.\<close>

definition overdrawn_payment :: "Operation list" where
  "overdrawn_payment =
     [sample_operation DEBIT ''@a'' ''default'' DirectionDebit 20, sample_operation CREDIT ''@b'' ''default'' DirectionCredit 30,
      sample_operation OVERDRAFT ''@a'' ''overdraft'' DirectionDebit 10]"


theorem recorded_amounts_add_up_witness:
  "\<exists>av oh us. script_compute (script_op digits_lib ''k'' CREATED False debit_entry) (script_balance digits_lib (bo_Balance debit_entry)) = Inr (av, oh, us) \<and>
     am_Value (fst (settle_entry (bo_Balance debit_entry) (Some ((bo_Balance debit_entry)\<lparr>mb_Available := dval av, mb_OnHold := dval oh\<rparr>))
       (bo_Amount debit_entry) Balance_zero)) + redirected digits_lib debit_entry = 30"
proof -
  have "\<not> isl (script_compute (script_op digits_lib ''k'' CREATED False debit_entry) (script_balance digits_lib (bo_Balance debit_entry)))" by code_simp
  then obtain av oh us where c:
    "script_compute (script_op digits_lib ''k'' CREATED False debit_entry) (script_balance digits_lib (bo_Balance debit_entry)) = Inr (av, oh, us)"
    by (metis prod_cases3 sum.collapse(2))
  have "am_Value (bo_Amount debit_entry) = 30" by (simp add: debit_entry_def)
  with recorded_amounts_add_up [OF debit_entry_ok digits_lib_prints _ c, of "(bo_Balance debit_entry)\<lparr>mb_Available := dval av, mb_OnHold := dval oh\<rparr>"] c
  show ?thesis by auto
qed

text \<open>
  A held payment of 100 from two accounts, 60 of it drawn with 20 of overdraft: the hold leaves the
  operation on the companion, the commit records both debits in full, and the reversal counts the
  overdraft twice. Its destinations amount to 120, so that it is refused.
\<close>

definition held_with_overdraft :: "Operation list" where
  "held_with_overdraft =
     [sample_operation ONHOLD ''@a'' ''default'' DirectionDebit 60, sample_operation ONHOLD ''@c'' ''default'' DirectionDebit 40,
      sample_operation OVERDRAFT ''@a'' ''overdraft'' DirectionDebit 20,
      sample_operation DEBIT ''@a'' ''default'' DirectionDebit 60, sample_operation DEBIT ''@c'' ''default'' DirectionDebit 40,
      sample_operation CREDIT ''@b'' ''default'' DirectionCredit 100]"

lemma held_overdraft_blocks_reversal:
  "(\<Sum>ft\<leftarrow>dst_To (snd_Distribute (tx_Send (TransactionRevert (recorded 100 held_with_overdraft)))). leg_value ft) = 120"
  by code_simp

end
