(* ===== verification/TransactionStore.thy ===== *)
theory TransactionStore
  imports LedgerOperationsProofs
begin

text \<open>
  The persistence of transactions (\<^verbatim>\<open>write_transaction.go\<close>,
  \<^verbatim>\<open>create_balance_transaction_operations_async.go\<close>): a message with a transaction and its operations is
  processed at once or taken from a queue, possibly more than once and in any order; a held transaction
  has one message for the hold and one for the commit or the cancellation. Until a message has been
  processed, a backup of the transaction is kept in a hash of the cache.

  The tables are maps from primary keys to rows, the metadata is a list of documents. What may fail from
  outside is given by \<open>Faults\<close>. The messages and the backups are passed as values (their encoding is that
  of libraries), and a message carries one payload, as all senders write it. A nil pointer that the code
  would follow is an error here. The removal of the backup, which the code starts in a goroutine, is part
  of the step. Events and metrics are left out.
\<close>

section \<open>Rows\<close>

record TransactionPostgreSQLModel =
  pt_ID :: string
  pt_ParentTransactionID :: "string option"
  pt_Description :: string
  pt_Status :: string
  pt_StatusDescription :: "string option"
  pt_Amount :: "decimal option"
  pt_AssetCode :: string
  pt_ChartOfAccountsGroupName :: string
  pt_LedgerID :: string
  pt_OrganizationID :: string
  pt_Body :: "Transaction option"
  pt_CreatedAt :: time
  pt_UpdatedAt :: time
  pt_DeletedAt :: "time option"
  pt_Route :: "string option"
  pt_RouteID :: "string option"
  pt_FeesSkipped :: bool
  pt_TracerSkipped :: bool

definition Transaction_ToEntity :: "TransactionPostgreSQLModel \<Rightarrow> TransactionRecord" where
  "Transaction_ToEntity t =
     \<lparr>tr_ID = pt_ID t, tr_ParentTransactionID = pt_ParentTransactionID t, tr_Description = pt_Description t,
      tr_StatusCode = pt_Status t, tr_StatusDescription = pt_StatusDescription t, tr_Amount = pt_Amount t,
      tr_AssetCode = pt_AssetCode t, tr_ChartOfAccountsGroupName = pt_ChartOfAccountsGroupName t, tr_Source = [],
      tr_Destination = [], tr_LedgerID = pt_LedgerID t, tr_OrganizationID = pt_OrganizationID t,
      tr_Body = (case pt_Body t of None \<Rightarrow> Transaction_zero | Some b \<Rightarrow> if Transaction_IsEmpty b then Transaction_zero else b),
      tr_Route = (case pt_Route t of None \<Rightarrow> '''' | Some r \<Rightarrow> r), tr_RouteID = pt_RouteID t, tr_FeesSkipped = pt_FeesSkipped t,
      tr_TracerSkipped = pt_TracerSkipped t, tr_CreatedAt = pt_CreatedAt t, tr_UpdatedAt = pt_UpdatedAt t,
      tr_DeletedAt = pt_DeletedAt t, tr_Metadata = None, tr_Operations = []\<rparr>"

definition Transaction_FromEntity :: "commons \<Rightarrow> string \<Rightarrow> TransactionRecord \<Rightarrow> TransactionPostgreSQLModel" where
  "Transaction_FromEntity cm newID t =
     \<lparr>pt_ID = (if tr_ID t \<noteq> '''' then tr_ID t else newID), pt_ParentTransactionID = tr_ParentTransactionID t,
      pt_Description = tr_Description t, pt_Status = tr_StatusCode t, pt_StatusDescription = tr_StatusDescription t,
      pt_Amount = tr_Amount t, pt_AssetCode = tr_AssetCode t, pt_ChartOfAccountsGroupName = tr_ChartOfAccountsGroupName t,
      pt_LedgerID = tr_LedgerID t, pt_OrganizationID = tr_OrganizationID t,
      pt_Body = (if Transaction_IsEmpty (tr_Body t) then None else Some (tr_Body t)), pt_CreatedAt = tr_CreatedAt t,
      pt_UpdatedAt = tr_UpdatedAt t, pt_DeletedAt = tr_DeletedAt t,
      pt_Route = (if IsNilOrEmpty cm (tr_Route t) then None else Some (tr_Route t)), pt_RouteID = tr_RouteID t,
      pt_FeesSkipped = tr_FeesSkipped t, pt_TracerSkipped = tr_TracerSkipped t\<rparr>"

text \<open>A document of a metadata collection; one written by an update that found none has no entity name.\<close>

record MetadataDoc =
  md_collection :: string
  md_EntityID :: string
  md_EntityName :: string
  md_Data :: "(string, jany) gomap"

text \<open>An entry of the backup hash, and the fields of \<^verbatim>\<open>BalanceRedis\<close> that it gets from a balance.\<close>

record TransactionRedisQueue =
  tq_HeaderID :: string
  tq_TransactionID :: uuid
  tq_OrganizationID :: uuid
  tq_LedgerID :: uuid
  tq_Balances :: "BalanceRedis list"
  tq_BalancesAfter :: "BalanceRedis list"
  tq_TransactionInput :: Transaction
  tq_TTL :: time
  tq_Validate :: "Responses option"
  tq_TransactionStatus :: string
  tq_Action :: string
  tq_TransactionDate :: time
  tq_Operations :: "OperationRedis list"

record Store =
  st_transactions :: "string \<rightharpoonup> TransactionPostgreSQLModel"
  st_operations :: "string \<rightharpoonup> OperationPostgreSQLModel"
  st_balances :: "string \<rightharpoonup> MBalance"
  st_metadata :: "MetadataDoc list"
  st_backup :: "string \<rightharpoonup> TransactionRedisQueue"
  st_writebehind :: "string \<rightharpoonup> TransactionRecord"

text \<open>
  The errors that come from outside: of the statements on balances and of their commit, of the insert and
  the update of a transaction, of the insert of an operation and the write of metadata (by identifier),
  and of the cache.
\<close>

record Faults =
  f_balances :: "goerr option"
  f_commit :: bool
  f_insert :: "goerr option"
  f_update :: "goerr option"
  f_operation :: "string \<Rightarrow> goerr option"
  f_metadata :: "string \<Rightarrow> goerr option"
  f_cache :: "goerr option"

record StoreEnv =
  se_lib :: extlib
  se_commons :: commons
  se_mergeMaps :: "(string, jany) gomap \<Rightarrow> (string, jany) gomap \<Rightarrow> (string, jany) gomap"
  se_newID :: string
  se_now :: time
  se_async :: bool

section \<open>Transactions and operations\<close>

text \<open>The outcome of an insert: done, refused because the key is there, or another error.\<close>

datatype insert_result = Inserted | UniqueViolation | InsertFailed goerr

text \<open>The foreign keys: a parent must be there, and so must the transaction of an operation.\<close>

definition TransactionRepo_Create :: "StoreEnv \<Rightarrow> Faults \<Rightarrow> TransactionRecord \<Rightarrow> Store \<Rightarrow> Store \<times> insert_result" where
  "TransactionRepo_Create env f transaction st =
     (let record = Transaction_FromEntity (se_commons env) (se_newID env) transaction
      in case f_insert f of
           Some e \<Rightarrow> (st, InsertFailed e)
         | None \<Rightarrow>
             if st_transactions st (pt_ID record) \<noteq> None then (st, UniqueViolation)
             else if (case pt_ParentTransactionID record of None \<Rightarrow> False | Some p \<Rightarrow> st_transactions st p = None)
             then (st, InsertFailed (Errorf ''foreign key violation''))
             else (st\<lparr>st_transactions := (st_transactions st)(pt_ID record \<mapsto> record)\<rparr>, Inserted))"

definition updated_row :: "StoreEnv \<Rightarrow> TransactionRecord \<Rightarrow> TransactionPostgreSQLModel \<Rightarrow> TransactionPostgreSQLModel" where
  "updated_row env transaction row =
     (let row = (if Transaction_IsEmpty (tr_Body transaction) then row\<lparr>pt_Body := None\<rparr> else row);
          row = (if tr_Description transaction \<noteq> '''' then row\<lparr>pt_Description := tr_Description transaction\<rparr> else row);
          row = (if tr_StatusCode transaction = '''' \<and> tr_StatusDescription transaction = None then row
                 else row\<lparr>pt_Status := tr_StatusCode transaction, pt_StatusDescription := tr_StatusDescription transaction\<rparr>)
      in row\<lparr>pt_UpdatedAt := se_now env\<rparr>)"

text \<open>The entity that \<^verbatim>\<open>Update\<close> returns is made from its argument, not from the row.\<close>

definition TransactionRepo_Update ::
    "StoreEnv \<Rightarrow> Faults \<Rightarrow> string \<Rightarrow> string \<Rightarrow> string \<Rightarrow> TransactionRecord \<Rightarrow> Store \<Rightarrow> Store \<times> (goerr + TransactionRecord)" where
  "TransactionRepo_Update env f organizationID ledgerID ID transaction st =
     (let record = (Transaction_FromEntity (se_commons env) (se_newID env) transaction)\<lparr>pt_UpdatedAt := se_now env\<rparr>
      in case f_update f of
           Some e \<Rightarrow> (st, Inl e)
         | None \<Rightarrow>
             (case st_transactions st ID of
                None \<Rightarrow> (st, Inl (Business ErrEntityNotFound))
              | Some row \<Rightarrow>
                  if pt_OrganizationID row = organizationID \<and> pt_LedgerID row = ledgerID \<and> pt_DeletedAt row = None
                  then (st\<lparr>st_transactions := (st_transactions st)(ID \<mapsto> updated_row env transaction row)\<rparr>, Inr (Transaction_ToEntity record))
                  else (st, Inl (Business ErrEntityNotFound))))"

text \<open>
  \<^verbatim>\<open>UpdateTransactionStatus\<close> turns \<^verbatim>\<open>services.ErrDatabaseItemNotFound\<close> into a business error; the repository
  never returns that error, so that its own is passed on. The same holds of \<^verbatim>\<open>UpdateTransaction\<close> below.
\<close>

definition UpdateTransactionStatus :: "StoreEnv \<Rightarrow> Faults \<Rightarrow> TransactionRecord \<Rightarrow> Store \<Rightarrow> Store \<times> (goerr + TransactionRecord)" where
  "UpdateTransactionStatus env f tran st =
     TransactionRepo_Update env f (tr_OrganizationID tran) (tr_LedgerID tran) (tr_ID tran) tran st"

definition OperationRepo_Create :: "StoreEnv \<Rightarrow> Faults \<Rightarrow> Operation \<Rightarrow> Store \<Rightarrow> Store \<times> insert_result" where
  "OperationRepo_Create env f operation st =
     (let record = Operation_FromEntity (se_commons env) (se_newID env) operation
      in case f_operation f (op_ID operation) of
           Some e \<Rightarrow> (st, InsertFailed e)
         | None \<Rightarrow>
             if st_operations st (pg_ID record) \<noteq> None then (st, UniqueViolation)
             else if st_transactions st (pg_TransactionID record) = None then (st, InsertFailed (Errorf ''foreign key violation''))
             else (st\<lparr>st_operations := (st_operations st)(pg_ID record \<mapsto> record)\<rparr>, Inserted))"

section \<open>Metadata\<close>

text \<open>\<^verbatim>\<open>Create\<close> is an upsert that does nothing where a document is there, \<^verbatim>\<open>Update\<close> one that sets the data.\<close>

definition MetadataRepo_Create :: "string \<Rightarrow> string \<Rightarrow> (string, jany) gomap \<Rightarrow> Store \<Rightarrow> Store" where
  "MetadataRepo_Create collection entityID data st =
     (if \<exists>d \<in> set (st_metadata st). md_collection d = ToLower collection \<and> md_EntityID d = entityID \<and> md_EntityName d = collection then st
      else st\<lparr>st_metadata := st_metadata st @
                [\<lparr>md_collection = ToLower collection, md_EntityID = entityID, md_EntityName = collection, md_Data = data\<rparr>]\<rparr>)"

definition MetadataRepo_FindByEntity :: "string \<Rightarrow> string \<Rightarrow> Store \<Rightarrow> MetadataDoc option" where
  "MetadataRepo_FindByEntity collection entityID st =
     find (\<lambda>d. md_collection d = ToLower collection \<and> md_EntityID d = entityID) (st_metadata st)"

fun set_first :: "('a \<Rightarrow> bool) \<Rightarrow> ('a \<Rightarrow> 'a) \<Rightarrow> 'a \<Rightarrow> 'a list \<Rightarrow> 'a list" where
  "set_first P g d [] = [d]"
| "set_first P g d (x # xs) = (if P x then g x # xs else x # set_first P g d xs)"

definition MetadataRepo_Update :: "string \<Rightarrow> string \<Rightarrow> (string, jany) gomap \<Rightarrow> Store \<Rightarrow> Store" where
  "MetadataRepo_Update collection entityID data st =
     st\<lparr>st_metadata := set_first (\<lambda>d. md_collection d = ToLower collection \<and> md_EntityID d = entityID) (\<lambda>d. d\<lparr>md_Data := data\<rparr>)
          \<lparr>md_collection = ToLower collection, md_EntityID = entityID, md_EntityName = '''', md_Data = data\<rparr> (st_metadata st)\<rparr>"

definition CreateMetadataAsync :: "Faults \<Rightarrow> metadata \<Rightarrow> string \<Rightarrow> string \<Rightarrow> Store \<Rightarrow> Store \<times> goerr option" where
  "CreateMetadataAsync f metadata entityID collection st =
     (case metadata of
        None \<Rightarrow> (st, None)
      | Some data \<Rightarrow>
          (case f_metadata f entityID of
             Some e \<Rightarrow> (st, Some e)
           | None \<Rightarrow> (MetadataRepo_Create collection entityID data st, None)))"

definition UpdateTransactionMetadata ::
    "StoreEnv \<Rightarrow> Faults \<Rightarrow> string \<Rightarrow> string \<Rightarrow> metadata \<Rightarrow> Store \<Rightarrow> Store \<times> (goerr + (string, jany) gomap)" where
  "UpdateTransactionMetadata env f entityName entityID metadata st =
     (case f_metadata f entityID of
        Some e \<Rightarrow> (st, Inl e)
      | None \<Rightarrow>
          (let metadataToUpdate =
                 (case metadata of
                    None \<Rightarrow> []
                  | Some m \<Rightarrow> (case MetadataRepo_FindByEntity entityName entityID st of
                       None \<Rightarrow> m
                     | Some existing \<Rightarrow> se_mergeMaps env m (md_Data existing)))
           in (MetadataRepo_Update entityName entityID metadataToUpdate st, Inr metadataToUpdate)))"

text \<open>The change of a transaction's description and metadata by a client.\<close>

definition TransactionRecord_zero :: TransactionRecord where
  "TransactionRecord_zero =
     \<lparr>tr_ID = '''', tr_ParentTransactionID = None, tr_Description = '''', tr_StatusCode = '''', tr_StatusDescription = None,
      tr_Amount = None, tr_AssetCode = '''', tr_ChartOfAccountsGroupName = '''', tr_Source = [], tr_Destination = [],
      tr_LedgerID = '''', tr_OrganizationID = '''', tr_Body = Transaction_zero, tr_Route = '''', tr_RouteID = None,
      tr_FeesSkipped = False, tr_TracerSkipped = False, tr_CreatedAt = 0, tr_UpdatedAt = 0, tr_DeletedAt = None,
      tr_Metadata = None, tr_Operations = []\<rparr>"

definition UpdateTransaction ::
    "StoreEnv \<Rightarrow> Faults \<Rightarrow> uuid \<Rightarrow> uuid \<Rightarrow> uuid \<Rightarrow> string \<Rightarrow> metadata \<Rightarrow> Store \<Rightarrow> Store \<times> (goerr + TransactionRecord)" where
  "UpdateTransaction env f organizationID ledgerID transactionID description metadata st =
     (let text = uuid_String (se_lib env); trans = TransactionRecord_zero\<lparr>tr_Description := description\<rparr>
      in case TransactionRepo_Update env f (text organizationID) (text ledgerID) (text transactionID) trans st of
           (st', Inl e) \<Rightarrow> (st', Inl e)
         | (st', Inr transUpdated) \<Rightarrow>
             (case UpdateTransactionMetadata env f ''Transaction'' (text transactionID) metadata st' of
                (st'', Inl e) \<Rightarrow> (st'', Inl e)
              | (st'', Inr m) \<Rightarrow> (st'', Inr (transUpdated\<lparr>tr_Metadata := Some m\<rparr>))))"

section \<open>Balances of older messages\<close>

text \<open>
  \<^verbatim>\<open>UpdateBalances\<close> and \<^verbatim>\<open>BalancesUpdate\<close>, for messages that an older version has written: a statement per
  balance, in one database transaction; a row is changed only by a higher version. When a statement fails
  the database discards all; when the commit fails, all is discarded too, but no error is returned.
\<close>

definition balance_update :: "MBalance \<Rightarrow> decimal \<Rightarrow> decimal \<Rightarrow> int \<Rightarrow> MBalance" where
  "balance_update balance available onHold version =
     \<lparr>mb_ID = mb_ID balance, mb_OrganizationID = '''', mb_LedgerID = '''', mb_AccountID = '''', mb_Alias = mb_Alias balance,
      mb_Key = '''', mb_AssetCode = '''', mb_Available = available, mb_OnHold = onHold, mb_Version = version,
      mb_AccountType = '''', mb_AllowSending = False, mb_AllowReceiving = False, mb_Direction = '''', mb_OverdraftUsed = 0,
      mb_Settings = None, mb_CreatedAt = 0, mb_UpdatedAt = 0, mb_DeletedAt = None, mb_Metadata = None\<rparr>"

fun all_results :: "('a \<Rightarrow> goerr + 'b) \<Rightarrow> 'a list \<Rightarrow> goerr + 'b list" where
  "all_results g [] = Inr []"
| "all_results g (x # xs) =
     (case g x of Inl e \<Rightarrow> Inl e | Inr y \<Rightarrow> (case all_results g xs of Inl e \<Rightarrow> Inl e | Inr ys \<Rightarrow> Inr (y # ys)))"

definition after_state :: "(string, MBalance) gomap \<Rightarrow> MBalance \<Rightarrow> goerr + MBalance" where
  "after_state afterMap balance =
     (case map_of afterMap (mb_Alias balance) of
        None \<Rightarrow> Inl (Errorf ''missing AFTER state for alias'')
      | Some after \<Rightarrow> Inr (balance_update balance (mb_Available after) (mb_OnHold after) (mb_Version after)))"

definition calculated_state :: "extlib \<Rightarrow> Responses \<Rightarrow> MBalance \<Rightarrow> goerr + MBalance" where
  "calculated_state lib validate balance =
     (case ToTransactionBalance lib balance of
        Inl e \<Rightarrow> Inl e
      | Inr txBal \<Rightarrow>
          (let amount = (case map_of (rsp_To validate) (mb_Alias balance) of
                           Some a \<Rightarrow> a
                         | None \<Rightarrow> (case map_of (rsp_From validate) (mb_Alias balance) of Some a \<Rightarrow> a | None \<Rightarrow> Amount_zero))
           in case OperateBalances amount txBal of
                Inl e \<Rightarrow> Inl e
              | Inr b \<Rightarrow> Inr (balance_update balance (bal_Available b) (bal_OnHold b) (mb_Version balance + 1))))"

definition update_balance_row :: "StoreEnv \<Rightarrow> string \<Rightarrow> string \<Rightarrow> MBalance \<Rightarrow> (string \<rightharpoonup> MBalance) \<Rightarrow> (string \<rightharpoonup> MBalance)" where
  "update_balance_row env organizationID ledgerID balance rows =
     (case rows (mb_ID balance) of
        None \<Rightarrow> rows
      | Some row \<Rightarrow>
          if mb_OrganizationID row = organizationID \<and> mb_LedgerID row = ledgerID \<and> mb_Version row < mb_Version balance \<and> mb_DeletedAt row = None
          then rows(mb_ID balance \<mapsto> row\<lparr>mb_Available := mb_Available balance, mb_OnHold := mb_OnHold balance,
                 mb_Version := mb_Version balance, mb_UpdatedAt := se_now env\<rparr>)
          else rows)"

definition BalancesUpdate :: "StoreEnv \<Rightarrow> Faults \<Rightarrow> uuid \<Rightarrow> uuid \<Rightarrow> MBalance list \<Rightarrow> Store \<Rightarrow> Store \<times> goerr option" where
  "BalancesUpdate env f organizationID ledgerID balances st =
     (let text = uuid_String (se_lib env)
      in case f_balances f of
           Some e \<Rightarrow> (st, Some e)
         | None \<Rightarrow>
             if f_commit f then (st, None)
             else (st\<lparr>st_balances := fold (update_balance_row env (text organizationID) (text ledgerID)) balances (st_balances st)\<rparr>, None))"

definition UpdateBalances ::
    "StoreEnv \<Rightarrow> Faults \<Rightarrow> uuid \<Rightarrow> uuid \<Rightarrow> Responses \<Rightarrow> MBalance list \<Rightarrow> MBalance list \<Rightarrow> Store \<Rightarrow> Store \<times> goerr option" where
  "UpdateBalances env f organizationID ledgerID validate balances balancesAfter st =
     (case (if balancesAfter \<noteq> []
            then all_results (after_state (fold (\<lambda>b m. AList.update (mb_Alias b) b m) balancesAfter [])) balances
            else all_results (calculated_state (se_lib env) validate) balances) of
        Inl e \<Rightarrow> (st, Some e)
      | Inr newBalances \<Rightarrow>
          if newBalances = [] then (st, None) else BalancesUpdate env f organizationID ledgerID newBalances st)"

section \<open>Backups\<close>

definition SanitizeAccountAliases :: "Transaction \<Rightarrow> Transaction" where
  "SanitizeAccountAliases t =
     (let clean = map (\<lambda>ft. ft\<lparr>ft_AccountAlias := FromTo_SplitAlias ft\<rparr>); send = tx_Send t
      in t\<lparr>tx_Send := send\<lparr>snd_Source := (snd_Source send)\<lparr>src_From := clean (src_From (snd_Source send))\<rparr>,
             snd_Distribute := (snd_Distribute send)\<lparr>dst_To := clean (dst_To (snd_Distribute send))\<rparr>\<rparr>\<rparr>)"

definition backup_balance :: "MBalance \<Rightarrow> BalanceRedis" where
  "backup_balance b =
     \<lparr>br_ID = mb_ID b, br_Alias = mb_Alias b, br_Key = mb_Key b, br_AccountID = mb_AccountID b, br_AssetCode = mb_AssetCode b,
      br_Available = mb_Available b, br_OnHold = mb_OnHold b, br_Version = mb_Version b, br_AccountType = mb_AccountType b,
      br_AllowSending = boolToInt (mb_AllowSending b), br_AllowReceiving = boolToInt (mb_AllowReceiving b), br_Direction = '''',
      br_OverdraftUsed = '''', br_AllowOverdraft = 0, br_OverdraftLimitEnabled = 0, br_OverdraftLimit = '''', br_BalanceScope = ''''\<rparr>"

definition AddMessageToQueue :: "Faults \<Rightarrow> string \<Rightarrow> TransactionRedisQueue \<Rightarrow> Store \<Rightarrow> Store \<times> goerr option" where
  "AddMessageToQueue f key msg st =
     (case f_cache f of Some e \<Rightarrow> (st, Some e) | None \<Rightarrow> (st\<lparr>st_backup := (st_backup st)(key \<mapsto> msg)\<rparr>, None))"

definition ReadMessageFromQueue :: "Faults \<Rightarrow> string \<Rightarrow> Store \<Rightarrow> TransactionRedisQueue option" where
  "ReadMessageFromQueue f key st = (case f_cache f of Some e \<Rightarrow> None | None \<Rightarrow> st_backup st key)"

definition RemoveTransactionFromRedisQueue :: "StoreEnv \<Rightarrow> Faults \<Rightarrow> uuid \<Rightarrow> uuid \<Rightarrow> string \<Rightarrow> Store \<Rightarrow> Store" where
  "RemoveTransactionFromRedisQueue env f organizationID ledgerID transactionID st =
     (case f_cache f of
        Some e \<Rightarrow> st
      | None \<Rightarrow> st\<lparr>st_backup := (st_backup st)(TransactionInternalKey (se_lib env) organizationID ledgerID transactionID := None)\<rparr>)"

definition RemoveTransactionFromRedisQueueIfStatus :: "StoreEnv \<Rightarrow> Faults \<Rightarrow> uuid \<Rightarrow> uuid \<Rightarrow> string \<Rightarrow> string \<Rightarrow> Store \<Rightarrow> Store" where
  "RemoveTransactionFromRedisQueueIfStatus env f organizationID ledgerID transactionID expectedStatus st =
     (case ReadMessageFromQueue f (TransactionInternalKey (se_lib env) organizationID ledgerID transactionID) st of
        None \<Rightarrow> st
      | Some queue \<Rightarrow>
          if \<not> EqualFold (tq_TransactionStatus queue) expectedStatus then st
          else RemoveTransactionFromRedisQueue env f organizationID ledgerID transactionID st)"

definition ExpectedBackupStatusForCleanup :: "string \<Rightarrow> Responses option \<Rightarrow> string" where
  "ExpectedBackupStatusForCleanup transactionStatus validate =
     (if transactionStatus = APPROVED \<and> (case validate of None \<Rightarrow> False | Some v \<Rightarrow> \<not> rsp_Pending v) then CREATED
      else transactionStatus)"

definition SendTransactionToRedisQueue ::
    "StoreEnv \<Rightarrow> Faults \<Rightarrow> string \<Rightarrow> uuid \<Rightarrow> uuid \<Rightarrow> uuid \<Rightarrow> Transaction \<Rightarrow> Responses option \<Rightarrow> string \<Rightarrow> string \<Rightarrow> time \<Rightarrow> MBalance list \<Rightarrow>
     Store \<Rightarrow> Store \<times> goerr option" where
  "SendTransactionToRedisQueue env f reqId organizationID ledgerID transactionID transactionInput validate transactionStatus action
       transactionDate balances st =
     (case rejectInternalScopeBalances balances of
        Some e \<Rightarrow> (st, Some e)
      | None \<Rightarrow>
          (let lib = se_lib env;
               queue = \<lparr>tq_HeaderID = reqId, tq_TransactionID = transactionID, tq_OrganizationID = organizationID, tq_LedgerID = ledgerID,
                 tq_Balances = map backup_balance balances, tq_BalancesAfter = [],
                 tq_TransactionInput = SanitizeAccountAliases transactionInput, tq_TTL = se_now env, tq_Validate = validate,
                 tq_TransactionStatus = transactionStatus, tq_Action = action, tq_TransactionDate = transactionDate, tq_Operations = []\<rparr>
           in case AddMessageToQueue f (TransactionInternalKey lib organizationID ledgerID (uuid_String lib transactionID)) queue st of
                (st', None) \<Rightarrow> (st', None)
              | (st', Some _) \<Rightarrow> (st', Some ErrTransactionBackupCacheFailed)))"

text \<open>A backup that is read again: \<^verbatim>\<open>BalanceRedis.UnmarshalJSON\<close> fills in what was left empty.\<close>

definition read_backup_balance :: "BalanceRedis \<Rightarrow> BalanceRedis" where
  "read_backup_balance b =
     b\<lparr>br_OverdraftLimit := (if br_OverdraftLimit b = '''' then ''0'' else br_OverdraftLimit b),
       br_Key := (if br_Key b = '''' then DefaultBalanceKey else br_Key b)\<rparr>"

definition UpdateTransactionBackupOperations ::
    "StoreEnv \<Rightarrow> Faults \<Rightarrow> uuid \<Rightarrow> uuid \<Rightarrow> string \<Rightarrow> Operation list \<Rightarrow> string option \<Rightarrow> Store \<Rightarrow> Store" where
  "UpdateTransactionBackupOperations env f organizationID ledgerID transactionID operations actionOverride st =
     (let key = TransactionInternalKey (se_lib env) organizationID ledgerID transactionID
      in case ReadMessageFromQueue f key st of
           None \<Rightarrow> st
         | Some queue \<Rightarrow>
             (let queue = queue\<lparr>tq_Balances := map read_backup_balance (tq_Balances queue),
                     tq_BalancesAfter := map read_backup_balance (tq_BalancesAfter queue), tq_Operations := map Operation_ToRedis operations\<rparr>;
                  queue = (case actionOverride of
                             Some a \<Rightarrow> if a \<noteq> '''' then queue\<lparr>tq_Action := a\<rparr> else queue
                           | None \<Rightarrow> queue)
              in fst (AddMessageToQueue f key queue st)))"

text \<open>The cache of transactions that are not in the database yet.\<close>

definition WriteBehindTransactionKey :: "extlib \<Rightarrow> uuid \<Rightarrow> uuid \<Rightarrow> string \<Rightarrow> string" where
  "WriteBehindTransactionKey lib organizationID ledgerID transactionID =
     ''wb_transaction:{'' @ uuid_String lib organizationID @ '':'' @ uuid_String lib ledgerID @ '':'' @ transactionID @ ''}''"

definition put_write_behind :: "StoreEnv \<Rightarrow> Faults \<Rightarrow> uuid \<Rightarrow> uuid \<Rightarrow> TransactionRecord \<Rightarrow> Store \<Rightarrow> Store" where
  "put_write_behind env f organizationID ledgerID tran st =
     (case f_cache f of
        Some e \<Rightarrow> st
      | None \<Rightarrow> st\<lparr>st_writebehind := (st_writebehind st)(WriteBehindTransactionKey (se_lib env) organizationID ledgerID (tr_ID tran) \<mapsto> tran)\<rparr>)"

definition CreateWriteBehindTransaction :: "StoreEnv \<Rightarrow> Faults \<Rightarrow> uuid \<Rightarrow> uuid \<Rightarrow> TransactionRecord \<Rightarrow> Transaction \<Rightarrow> Store \<Rightarrow> Store" where
  "CreateWriteBehindTransaction env f organizationID ledgerID tran transactionInput st =
     put_write_behind env f organizationID ledgerID (tran\<lparr>tr_Body := transactionInput\<rparr>) st"

definition UpdateWriteBehindTransaction :: "StoreEnv \<Rightarrow> Faults \<Rightarrow> uuid \<Rightarrow> uuid \<Rightarrow> TransactionRecord \<Rightarrow> Store \<Rightarrow> Store" where
  "UpdateWriteBehindTransaction env f organizationID ledgerID tran st = put_write_behind env f organizationID ledgerID tran st"

definition DeleteWriteBehindTransaction :: "StoreEnv \<Rightarrow> Faults \<Rightarrow> uuid \<Rightarrow> uuid \<Rightarrow> string \<Rightarrow> Store \<Rightarrow> Store" where
  "DeleteWriteBehindTransaction env f organizationID ledgerID transactionID st =
     (case f_cache f of
        Some e \<Rightarrow> st
      | None \<Rightarrow> st\<lparr>st_writebehind := (st_writebehind st)(WriteBehindTransactionKey (se_lib env) organizationID ledgerID transactionID := None)\<rparr>)"

definition GetWriteBehindTransaction :: "StoreEnv \<Rightarrow> Faults \<Rightarrow> uuid \<Rightarrow> uuid \<Rightarrow> uuid \<Rightarrow> Store \<Rightarrow> TransactionRecord option" where
  "GetWriteBehindTransaction env f organizationID ledgerID transactionID st =
     (case f_cache f of
        Some e \<Rightarrow> None
      | None \<Rightarrow> st_writebehind st (WriteBehindTransactionKey (se_lib env) organizationID ledgerID (uuid_String (se_lib env) transactionID)))"

section \<open>A message\<close>

record TransactionProcessingPayload =
  pp_Validate :: "Responses option"
  pp_Balances :: "MBalance list"
  pp_BalancesAfter :: "MBalance list"
  pp_Transaction :: "TransactionRecord option"
  pp_Input :: "Transaction option"
  pp_Version :: string

record Queue =
  qu_OrganizationID :: uuid
  qu_LedgerID :: uuid
  qu_Data :: TransactionProcessingPayload

datatype phase = PhaseCreated | PhaseUpdated | PhaseNoop

text \<open>What is stored: a transaction made at once is approved, and only a held one keeps its body.\<close>

definition stored_form :: "TransactionRecord \<Rightarrow> Transaction option \<Rightarrow> goerr + TransactionRecord" where
  "stored_form tran input =
     (let tran = tran\<lparr>tr_Body := Transaction_zero\<rparr>
      in if tr_StatusCode tran = CREATED then Inr (tran\<lparr>tr_StatusCode := APPROVED, tr_StatusDescription := Some APPROVED\<rparr>)
         else if tr_StatusCode tran = PENDING
         then (case input of None \<Rightarrow> Inl (Errorf ''nil pointer dereference'') | Some i \<Rightarrow> Inr (tran\<lparr>tr_Body := i\<rparr>))
         else Inr tran)"

definition eligible_transition :: "TransactionProcessingPayload \<Rightarrow> TransactionRecord \<Rightarrow> bool" where
  "eligible_transition t tran =
     ((case pp_Validate t of None \<Rightarrow> False | Some v \<Rightarrow> rsp_Pending v) \<and> (tr_StatusCode tran = APPROVED \<or> tr_StatusCode tran = CANCELED))"

definition CreateOrUpdateTransaction ::
    "StoreEnv \<Rightarrow> Faults \<Rightarrow> TransactionProcessingPayload \<Rightarrow> TransactionRecord \<Rightarrow> Store \<Rightarrow> Store \<times> (goerr + TransactionRecord \<times> phase)" where
  "CreateOrUpdateTransaction env f t transaction st =
     (case stored_form transaction (pp_Input t) of
        Inl e \<Rightarrow> (st, Inl e)
      | Inr tran \<Rightarrow>
          (case TransactionRepo_Create env f tran st of
             (st', Inserted) \<Rightarrow> (st', Inr (tran, PhaseCreated))
           | (st', InsertFailed e) \<Rightarrow> (st', Inl e)
           | (st', UniqueViolation) \<Rightarrow>
               if eligible_transition t tran
               then (case UpdateTransactionStatus env f tran st' of
                       (st'', Inl e) \<Rightarrow> (st'', Inl e)
                     | (st'', Inr _) \<Rightarrow> (st'', Inr (tran, PhaseUpdated)))
               else (st', Inr (tran, PhaseNoop))))"

definition validateOperationDirection :: "Operation \<Rightarrow> goerr option" where
  "validateOperationDirection oper =
     (if op_Direction oper = '''' then None
      else err_if (ToLower (op_Direction oper) \<noteq> ''debit'' \<and> ToLower (op_Direction oper) \<noteq> ''credit'')
        (Errorf ''operation has invalid direction''))"

fun create_operations :: "StoreEnv \<Rightarrow> Faults \<Rightarrow> Operation list \<Rightarrow> Store \<Rightarrow> Store \<times> goerr option" where
  "create_operations env f [] st = (st, None)"
| "create_operations env f (oper # opers) st =
     (case validateOperationDirection oper of
        Some e \<Rightarrow> (st, Some e)
      | None \<Rightarrow>
          (case OperationRepo_Create env f oper st of
             (st', UniqueViolation) \<Rightarrow> create_operations env f opers st'
           | (st', InsertFailed e) \<Rightarrow> (st', Some e)
           | (st', Inserted) \<Rightarrow>
               (case CreateMetadataAsync f (op_Metadata oper) (op_ID oper) ''Operation'' st' of
                  (st'', Some e) \<Rightarrow> (st'', Some e)
                | (st'', None) \<Rightarrow> create_operations env f opers st'')))"

text \<open>The balances of a message without a version, the rows, and at last the removal of what the cache held.\<close>

definition older_balances :: "StoreEnv \<Rightarrow> Faults \<Rightarrow> Queue \<Rightarrow> TransactionRecord \<Rightarrow> Store \<Rightarrow> Store \<times> goerr option" where
  "older_balances env f data transaction st =
     (let t = qu_Data data
      in if pp_Version t = '''' \<and> tr_StatusCode transaction \<noteq> NOTED
         then (case pp_Validate t of
                 None \<Rightarrow> (st, Some (Errorf ''nil pointer dereference''))
               | Some v \<Rightarrow> UpdateBalances env f (qu_OrganizationID data) (qu_LedgerID data) v (pp_Balances t) (pp_BalancesAfter t) st)
         else (st, None))"

definition write_rows :: "StoreEnv \<Rightarrow> Faults \<Rightarrow> TransactionProcessingPayload \<Rightarrow> TransactionRecord \<Rightarrow> Store \<Rightarrow> Store \<times> (goerr + TransactionRecord \<times> phase)" where
  "write_rows env f t transaction st =
     (case CreateOrUpdateTransaction env f t transaction st of
        (st', Inl e) \<Rightarrow> (st', Inl e)
      | (st', Inr (tran, ph)) \<Rightarrow>
          (case CreateMetadataAsync f (tr_Metadata tran) (tr_ID tran) ''Transaction'' st' of
             (st'', Some e) \<Rightarrow> (st'', Inl e)
           | (st'', None) \<Rightarrow>
               (case create_operations env f (tr_Operations tran) st'' of
                  (st''', Some e) \<Rightarrow> (st''', Inl e)
                | (st''', None) \<Rightarrow> (st''', Inr (tran, ph)))))"

definition clean_cache :: "StoreEnv \<Rightarrow> Faults \<Rightarrow> Queue \<Rightarrow> string \<Rightarrow> TransactionRecord \<Rightarrow> Store \<Rightarrow> Store" where
  "clean_cache env f data statusBefore tran st =
     (let organizationID = qu_OrganizationID data; ledgerID = qu_LedgerID data;
          expected = ExpectedBackupStatusForCleanup statusBefore (pp_Validate (qu_Data data));
          expected = (if expected = '''' then ExpectedBackupStatusForCleanup (tr_StatusCode tran) (pp_Validate (qu_Data data)) else expected);
          st = (if se_async env then RemoveTransactionFromRedisQueueIfStatus env f organizationID ledgerID (tr_ID tran) expected st
                else RemoveTransactionFromRedisQueue env f organizationID ledgerID (tr_ID tran) st)
      in DeleteWriteBehindTransaction env f organizationID ledgerID (tr_ID tran) st)"

definition CreateBalanceTransactionOperationsAsync ::
    "StoreEnv \<Rightarrow> Faults \<Rightarrow> Queue \<Rightarrow> Store \<Rightarrow> Store \<times> (goerr + TransactionRecord \<times> phase)" where
  "CreateBalanceTransactionOperationsAsync env f data st =
     (case pp_Transaction (qu_Data data) of
        None \<Rightarrow> (st, Inl (Errorf ''transaction payload has nil Transaction field''))
      | Some transaction \<Rightarrow>
          (case older_balances env f data transaction st of
             (st', Some e) \<Rightarrow> (st', Inl e)
           | (st', None) \<Rightarrow>
               (case write_rows env f (qu_Data data) transaction st' of
                  (st'', Inl e) \<Rightarrow> (st'', Inl e)
                | (st'', Inr (tran, ph)) \<Rightarrow> (clean_cache env f data (tr_StatusCode transaction) tran st'', Inr (tran, ph)))))"

text \<open>
  \<^verbatim>\<open>WriteTransaction\<close>: in the asynchronous mode the message is published, and processed at once when
  the broker refuses it; in the synchronous mode it is processed at once.
\<close>

definition payload_of :: "uuid \<Rightarrow> uuid \<Rightarrow> Transaction \<Rightarrow> Responses \<Rightarrow> MBalance list \<Rightarrow> MBalance list \<Rightarrow> TransactionRecord \<Rightarrow> Queue" where
  "payload_of organizationID ledgerID transactionInput validate blc blcAfter tran =
     \<lparr>qu_OrganizationID = organizationID, qu_LedgerID = ledgerID,
      qu_Data = \<lparr>pp_Validate = Some validate, pp_Balances = blc, pp_BalancesAfter = blcAfter, pp_Transaction = Some tran,
        pp_Input = Some transactionInput, pp_Version = ''v2''\<rparr>\<rparr>"

definition WriteTransactionSync :: "StoreEnv \<Rightarrow> Faults \<Rightarrow> Queue \<Rightarrow> Store \<times> Queue list \<Rightarrow> (Store \<times> Queue list) \<times> goerr option" where
  "WriteTransactionSync env f message = (\<lambda>(st, messages).
     case CreateBalanceTransactionOperationsAsync env f message st of
       (st', Inl e) \<Rightarrow> ((st', messages), Some e)
     | (st', Inr _) \<Rightarrow> ((st', messages), None))"

definition WriteTransactionAsync ::
    "StoreEnv \<Rightarrow> Faults \<Rightarrow> goerr option \<Rightarrow> Queue \<Rightarrow> Store \<times> Queue list \<Rightarrow> (Store \<times> Queue list) \<times> goerr option" where
  "WriteTransactionAsync env f producer message = (\<lambda>(st, messages).
     case producer of
       None \<Rightarrow> ((st, messages @ [message]), None)
     | Some _ \<Rightarrow> WriteTransactionSync env f message (st, messages))"

definition WriteTransaction ::
    "StoreEnv \<Rightarrow> Faults \<Rightarrow> goerr option \<Rightarrow> uuid \<Rightarrow> uuid \<Rightarrow> Transaction \<Rightarrow> Responses \<Rightarrow> MBalance list \<Rightarrow> MBalance list \<Rightarrow> TransactionRecord \<Rightarrow>
     Store \<times> Queue list \<Rightarrow> (Store \<times> Queue list) \<times> goerr option" where
  "WriteTransaction env f producer organizationID ledgerID transactionInput validate blc blcAfter tran =
     (let message = payload_of organizationID ledgerID transactionInput validate blc blcAfter tran
      in if se_async env then WriteTransactionAsync env f producer message else WriteTransactionSync env f message)"

end
