(* ===== verification/TransactionStoreProofs.thy ===== *)
theory TransactionStoreProofs
  imports TransactionStore
begin

text \<open>
  The messages of one held transaction, delivered any number of times, in any order, with any failures
  in between: the row and the operations that are in the database stay there, the backup of the commit or
  the cancellation is kept until all of it is in the database, and one delivery without a failure is
  enough to get it there.
\<close>

section \<open>What a delivery leaves as it was\<close>

lemma CreateMetadataAsync_frame:
  assumes "CreateMetadataAsync f m i c st = (st', r)"
  shows "st_transactions st' = st_transactions st" and "st_operations st' = st_operations st"
    and "st_backup st' = st_backup st" and "f_metadata f i = None \<Longrightarrow> r = None"
  using assms by (auto simp: CreateMetadataAsync_def MetadataRepo_Create_def split: option.splits if_splits)

lemma pg_ID_FromEntity [simp]: "op_ID op \<noteq> '''' \<Longrightarrow> pg_ID (Operation_FromEntity cm n op) = op_ID op"
  by (simp add: Operation_FromEntity_def Let_def)

lemma FromEntity_newID: "op_ID op \<noteq> '''' \<Longrightarrow> Operation_FromEntity cm n op = Operation_FromEntity cm n' op"
  by (simp add: Operation_FromEntity_def Let_def)

lemma pg_TransactionID_FromEntity [simp]: "pg_TransactionID (Operation_FromEntity cm n op) = op_TransactionID op"
  by (simp add: Operation_FromEntity_def Let_def)

text \<open>Operations that are well formed: an identifier, the transaction, and a direction.\<close>

definition operation_ok :: "string \<Rightarrow> Operation \<Rightarrow> bool" where
  "operation_ok ID op \<longleftrightarrow> op_ID op \<noteq> '''' \<and> op_TransactionID op = ID \<and> validateOperationDirection op = None"

lemma OperationRepo_Create_cases:
  assumes "OperationRepo_Create env f op st = (st', r)" and "op_ID op \<noteq> ''''"
  obtains (inserted) "r = Inserted" "st_operations st (op_ID op) = None"
      "st' = st\<lparr>st_operations := (st_operations st)(op_ID op \<mapsto> Operation_FromEntity (se_commons env) (se_newID env) op)\<rparr>"
  | (there) "r = UniqueViolation" "st' = st" "st_operations st (op_ID op) \<noteq> None"
  | (failed) e where "r = InsertFailed e" "st' = st" "f_operation f (op_ID op) \<noteq> None \<or> st_transactions st (op_TransactionID op) = None"
proof (cases "f_operation f (op_ID op)")
  case (Some e)
  then show ?thesis using assms by (intro failed [of e]) (simp_all add: OperationRepo_Create_def)
next
  case None
  show ?thesis
  proof (cases "st_operations st (op_ID op)")
    case free: None
    show ?thesis
    proof (cases "st_transactions st (op_TransactionID op)")
      case None
      then show ?thesis using assms free \<open>f_operation f (op_ID op) = None\<close>
        by (intro failed [of "Errorf ''foreign key violation''"]) (simp_all add: OperationRepo_Create_def)
    next
      case (Some row)
      then show ?thesis using assms free \<open>f_operation f (op_ID op) = None\<close> inserted by (simp add: OperationRepo_Create_def)
    qed
  next
    case (Some row)
    then show ?thesis using assms None there by (simp add: OperationRepo_Create_def)
  qed
qed

text \<open>Operations are only added, each as the row of its message.\<close>

definition grown :: "commons \<Rightarrow> Operation list \<Rightarrow> (string \<rightharpoonup> OperationPostgreSQLModel) \<Rightarrow> (string \<rightharpoonup> OperationPostgreSQLModel) \<Rightarrow> bool" where
  "grown cm ops rows rows' \<longleftrightarrow>
     (\<forall>k. rows' k = rows k \<or> rows k = None \<and> (\<exists>op \<in> set ops. op_ID op = k \<and> rows' k = Some (Operation_FromEntity cm '''' op)))"

lemma grown_refl [simp]: "grown cm ops rows rows"
  by (simp add: grown_def)

lemma grown_trans: "grown cm ops a b \<Longrightarrow> grown cm ops b c \<Longrightarrow> grown cm ops a c"
  unfolding grown_def by metis

lemma grown_kept: "grown cm ops rows rows' \<Longrightarrow> rows k \<noteq> None \<Longrightarrow> rows' k = rows k"
  unfolding grown_def by metis

lemma grown_more: "grown cm ops a b \<Longrightarrow> grown cm (op # ops) a b"
  unfolding grown_def by auto

lemma grown_insert:
  assumes "op_ID op \<noteq> ''''" and "rows (op_ID op) = None"
  shows "grown cm (op # ops) rows (rows(op_ID op \<mapsto> Operation_FromEntity cm n op))"
  using assms FromEntity_newID [of op cm n "''''"] by (auto simp: grown_def)

lemma create_operations_result:
  assumes "create_operations env f ops st = (st', r)" and "\<forall>op \<in> set ops. operation_ok ID op"
  shows "st_transactions st' = st_transactions st \<and> st_backup st' = st_backup st \<and>
     grown (se_commons env) ops (st_operations st) (st_operations st') \<and>
     (r = None \<longrightarrow> (\<forall>op \<in> set ops. st_operations st' (op_ID op) \<noteq> None)) \<and>
     ((\<forall>i. f_operation f i = None) \<and> (\<forall>i. f_metadata f i = None) \<and> st_transactions st ID \<noteq> None \<longrightarrow> r = None)"
  using assms
proof (induction ops arbitrary: st)
  case Nil
  then show ?case by simp
next
  case (Cons op ops)
  then have ok: "op_ID op \<noteq> ''''" "op_TransactionID op = ID" "validateOperationDirection op = None"
    by (auto simp: operation_ok_def)
  obtain st1 r1 where create: "OperationRepo_Create env f op st = (st1, r1)" by fastforce
  from create ok(1) show ?case
  proof (cases rule: OperationRepo_Create_cases)
    case inserted
    obtain st2 r2 where meta: "CreateMetadataAsync f (op_Metadata op) (op_ID op) ''Operation'' st1 = (st2, r2)" by fastforce
    note frame = CreateMetadataAsync_frame [OF meta]
    have step: "grown (se_commons env) (op # ops) (st_operations st) (st_operations st2)"
      using inserted frame(2) grown_insert [where rows = "st_operations st", OF ok(1) inserted(2)] by simp
    show ?thesis
    proof (cases r2)
      case (Some e)
      then have "st' = st2" "r = Some e" using Cons.prems(1) ok(3) create inserted(1) meta by simp_all
      moreover have "f_metadata f (op_ID op) \<noteq> None" using frame(4) Some by (cases "f_metadata f (op_ID op)") simp_all
      ultimately show ?thesis using step frame(1,3) inserted(3) by (auto simp del: fun_upd_apply)
    next
      case None
      then have rest: "create_operations env f ops st2 = (st', r)" using Cons.prems(1) ok(3) create inserted(1) meta by simp
      from Cons.IH [OF rest] Cons.prems(2)
      have ih: "st_transactions st' = st_transactions st2" "st_backup st' = st_backup st2"
        "grown (se_commons env) ops (st_operations st2) (st_operations st')"
        "r = None \<longrightarrow> (\<forall>op \<in> set ops. st_operations st' (op_ID op) \<noteq> None)"
        "(\<forall>i. f_operation f i = None) \<and> (\<forall>i. f_metadata f i = None) \<and> st_transactions st2 ID \<noteq> None \<longrightarrow> r = None"
        by simp_all
      have "st_operations st2 (op_ID op) \<noteq> None" using inserted(3) frame(2) by simp
      then have "st_operations st' (op_ID op) \<noteq> None" using grown_kept [OF ih(3)] by simp
      moreover have "grown (se_commons env) (op # ops) (st_operations st) (st_operations st')"
        by (rule grown_trans [OF step grown_more [OF ih(3)]])
      ultimately show ?thesis using ih frame inserted(3) by simp
    qed
  next
    case there
    then have rest: "create_operations env f ops st = (st', r)" using Cons.prems(1) ok(3) create by simp
    from Cons.IH [OF rest] Cons.prems(2)
    have ih: "st_transactions st' = st_transactions st" "st_backup st' = st_backup st"
      "grown (se_commons env) ops (st_operations st) (st_operations st')"
      "r = None \<longrightarrow> (\<forall>op \<in> set ops. st_operations st' (op_ID op) \<noteq> None)"
      "(\<forall>i. f_operation f i = None) \<and> (\<forall>i. f_metadata f i = None) \<and> st_transactions st ID \<noteq> None \<longrightarrow> r = None"
      by simp_all
    then show ?thesis using grown_kept [OF ih(3) there(3)] there(3) grown_more [OF ih(3)] by simp
  next
    case (failed e)
    then have "st' = st" "r = Some e" using Cons.prems(1) ok(3) create by simp_all
    then show ?thesis using failed(3) ok(2) by auto
  qed
qed

section \<open>The messages of a held transaction\<close>

text \<open>
  The message of the hold or of its settlement, with status \<open>status\<close>, for transaction \<open>ID\<close>; and the
  transaction's row, once it is there.
\<close>

definition message_ops :: "Queue \<Rightarrow> Operation list" where
  "message_ops m = (case pp_Transaction (qu_Data m) of None \<Rightarrow> [] | Some t \<Rightarrow> tr_Operations t)"

definition settling :: "string \<Rightarrow> Queue \<Rightarrow> bool" where
  "settling status m = (case pp_Transaction (qu_Data m) of None \<Rightarrow> False | Some t \<Rightarrow> tr_StatusCode t = status)"

definition held_message :: "extlib \<Rightarrow> uuid \<Rightarrow> uuid \<Rightarrow> string \<Rightarrow> string \<Rightarrow> Queue \<Rightarrow> bool" where
  "held_message lib organizationID ledgerID ID status m =
     (case pp_Transaction (qu_Data m) of
        None \<Rightarrow> False
      | Some t \<Rightarrow>
          pp_Version (qu_Data m) \<noteq> '''' \<and> qu_OrganizationID m = organizationID \<and> qu_LedgerID m = ledgerID \<and> tr_ID t = ID \<and>
          tr_OrganizationID t = uuid_String lib organizationID \<and> tr_LedgerID t = uuid_String lib ledgerID \<and> tr_DeletedAt t = None \<and>
          tr_ParentTransactionID t = None \<and>
          (tr_StatusCode t = PENDING \<and> pp_Input (qu_Data m) \<noteq> None \<or> tr_StatusCode t = status \<and> eligible_transition (qu_Data m) t) \<and>
          (\<forall>op \<in> set (tr_Operations t). operation_ok ID op))"

definition row_matches :: "string \<Rightarrow> string \<Rightarrow> TransactionPostgreSQLModel \<Rightarrow> bool" where
  "row_matches organizationID ledgerID row \<longleftrightarrow>
     pt_OrganizationID row = organizationID \<and> pt_LedgerID row = ledgerID \<and> pt_DeletedAt row = None"

definition row_ok :: "extlib \<Rightarrow> uuid \<Rightarrow> uuid \<Rightarrow> string \<Rightarrow> TransactionPostgreSQLModel \<Rightarrow> bool" where
  "row_ok lib organizationID ledgerID status row \<longleftrightarrow>
     row_matches (uuid_String lib organizationID) (uuid_String lib ledgerID) row \<and> (pt_Status row = PENDING \<or> pt_Status row = status)"

definition settled_status :: "string \<Rightarrow> bool" where
  "settled_status status \<longleftrightarrow> status = APPROVED \<or> status = CANCELED"

lemma settled_status_simps [simp]:
  "settled_status status \<Longrightarrow> status \<noteq> ''PENDING''" "settled_status status \<Longrightarrow> status \<noteq> ''CREATED''" "settled_status status \<Longrightarrow> status \<noteq> ''''"
  by (auto simp: settled_status_def)

text \<open>The first part of a delivery: the row of the transaction.\<close>

definition rows_kept :: "string \<Rightarrow> Store \<Rightarrow> Store \<Rightarrow> bool" where
  "rows_kept ID st st' \<longleftrightarrow> st_operations st' = st_operations st \<and> st_backup st' = st_backup st \<and>
     (\<forall>k. k \<noteq> ID \<longrightarrow> st_transactions st' k = st_transactions st k)"

lemma rows_kept_refl [simp]: "rows_kept ID st st"
  by (simp add: rows_kept_def)

lemma settlement_row:
  assumes t: "tr_ID t = ID" "tr_StatusCode t = status" "eligible_transition p t" "tr_ParentTransactionID t = None" "tr_DeletedAt t = None"
      "tr_OrganizationID t = organizationID" "tr_LedgerID t = ledgerID"
    and ID: "ID \<noteq> ''''" and status: "settled_status status"
    and row: "\<And>row. st_transactions st ID = Some row \<Longrightarrow> row_matches organizationID ledgerID row"
    and run: "CreateOrUpdateTransaction env f p t st = (st', r)"
  shows "rows_kept ID st st' \<and>
     (st' = st \<and> (\<exists>e. r = Inl e) \<and> \<not> (f_insert f = None \<and> f_update f = None) \<or>
      (\<exists>row tran ph. st_transactions st' ID = Some row \<and> row_matches organizationID ledgerID row \<and> pt_Status row = status \<and>
         r = Inr (tran, ph) \<and> tr_Operations tran = tr_Operations t \<and> tr_ID tran = ID))"
proof -
  define tran where "tran = t\<lparr>tr_Body := Transaction_zero\<rparr>"
  define new_row where "new_row = Transaction_FromEntity (se_commons env) (se_newID env) tran"
  have form: "stored_form t (pp_Input p) = Inr tran"
    using t(2) status by (simp add: stored_form_def tran_def)
  have tran: "tr_ID tran = ID" "eligible_transition p tran" "tr_StatusCode tran = status" "tr_OrganizationID tran = organizationID"
      "tr_LedgerID tran = ledgerID" "tr_Operations tran = tr_Operations t"
    using t by (simp_all add: tran_def eligible_transition_def)
  have new_row: "pt_ID new_row = ID" "pt_ParentTransactionID new_row = None" "pt_Status new_row = status"
      "row_matches organizationID ledgerID new_row"
    using t ID by (simp_all add: new_row_def tran_def Transaction_FromEntity_def row_matches_def)
  show ?thesis
  proof (cases "f_insert f")
    case (Some e)
    then show ?thesis using run form by (auto simp: CreateOrUpdateTransaction_def TransactionRepo_Create_def)
  next
    case ins: None
    show ?thesis
    proof (cases "st_transactions st ID")
      case None
      then have "TransactionRepo_Create env f tran st = (st\<lparr>st_transactions := (st_transactions st)(ID \<mapsto> new_row)\<rparr>, Inserted)"
        using ins new_row by (simp add: TransactionRepo_Create_def new_row_def [symmetric])
      then have "st' = st\<lparr>st_transactions := (st_transactions st)(ID \<mapsto> new_row)\<rparr>" "r = Inr (tran, PhaseCreated)"
        using run form by (simp_all add: CreateOrUpdateTransaction_def)
      then show ?thesis using new_row tran by (simp add: rows_kept_def)
    next
      case (Some row)
      then have create: "TransactionRepo_Create env f tran st = (st, UniqueViolation)"
        using ins new_row by (simp add: TransactionRepo_Create_def new_row_def [symmetric])
      note ok = row [OF Some]
      show ?thesis
      proof (cases "f_update f")
        case None
        then have "UpdateTransactionStatus env f tran st = (st\<lparr>st_transactions := (st_transactions st)(ID \<mapsto> updated_row env tran row)\<rparr>,
            Inr (Transaction_ToEntity (new_row\<lparr>pt_UpdatedAt := se_now env\<rparr>)))"
          using Some ok tran by (simp add: UpdateTransactionStatus_def TransactionRepo_Update_def row_matches_def new_row_def)
        then have "st' = st\<lparr>st_transactions := (st_transactions st)(ID \<mapsto> updated_row env tran row)\<rparr>" "r = Inr (tran, PhaseUpdated)"
          using run form create tran by (simp_all add: CreateOrUpdateTransaction_def)
        moreover have "row_matches organizationID ledgerID (updated_row env tran row)" "pt_Status (updated_row env tran row) = status"
          using ok tran status by (simp_all add: updated_row_def row_matches_def Let_def)
        ultimately show ?thesis using tran by (simp add: rows_kept_def)
      next
        case upd: (Some e)
        then have "st' = st" "r = Inl e"
          using run form create tran by (simp_all add: CreateOrUpdateTransaction_def UpdateTransactionStatus_def TransactionRepo_Update_def)
        then show ?thesis using upd by simp
      qed
    qed
  qed
qed

text \<open>Any other message, a hold among them, only adds a row where there is none.\<close>

lemma insert_row:
  assumes t: "tr_ID t = ID" "tr_ParentTransactionID t = None" "tr_DeletedAt t = None"
      "tr_OrganizationID t = organizationID" "tr_LedgerID t = ledgerID"
    and form: "stored_form t (pp_Input p) = Inr tran" "\<not> eligible_transition p tran"
    and ID: "ID \<noteq> ''''"
    and run: "CreateOrUpdateTransaction env f p t st = (st', r)"
  shows "rows_kept ID st st' \<and>
     (st' = st \<and> (\<exists>e. r = Inl e) \<and> f_insert f \<noteq> None \<or>
      (\<exists>row ph. st_transactions st' ID = Some row \<and>
         (st_transactions st ID = Some row \<or>
          st_transactions st ID = None \<and> row_matches organizationID ledgerID row \<and> pt_Status row = tr_StatusCode tran) \<and>
         r = Inr (tran, ph) \<and> tr_Operations tran = tr_Operations t \<and> tr_ID tran = ID))"
proof -
  define new_row where "new_row = Transaction_FromEntity (se_commons env) (se_newID env) tran"
  have tran: "tr_ID tran = ID" "tr_Operations tran = tr_Operations t" "tr_ParentTransactionID tran = None" "tr_DeletedAt tran = None"
      "tr_OrganizationID tran = organizationID" "tr_LedgerID tran = ledgerID"
    using t form(1) by (auto simp: stored_form_def Let_def split: if_splits option.splits)
  have new_row: "pt_ID new_row = ID" "pt_ParentTransactionID new_row = None" "row_matches organizationID ledgerID new_row"
      "pt_Status new_row = tr_StatusCode tran"
    using tran ID by (simp_all add: new_row_def Transaction_FromEntity_def row_matches_def)
  show ?thesis
  proof (cases "f_insert f")
    case (Some e)
    then show ?thesis using run form by (auto simp: CreateOrUpdateTransaction_def TransactionRepo_Create_def)
  next
    case ins: None
    show ?thesis
    proof (cases "st_transactions st ID")
      case None
      then have "TransactionRepo_Create env f tran st = (st\<lparr>st_transactions := (st_transactions st)(ID \<mapsto> new_row)\<rparr>, Inserted)"
        using ins new_row by (simp add: TransactionRepo_Create_def new_row_def [symmetric])
      then have "st' = st\<lparr>st_transactions := (st_transactions st)(ID \<mapsto> new_row)\<rparr>" "r = Inr (tran, PhaseCreated)"
        using run form by (simp_all add: CreateOrUpdateTransaction_def)
      then show ?thesis using new_row tran None by (simp add: rows_kept_def)
    next
      case (Some row)
      then have "TransactionRepo_Create env f tran st = (st, UniqueViolation)"
        using ins new_row by (simp add: TransactionRepo_Create_def new_row_def [symmetric])
      then have "st' = st" "r = Inr (tran, PhaseNoop)" using run form by (simp_all add: CreateOrUpdateTransaction_def)
      then show ?thesis using tran Some by simp
    qed
  qed
qed

text \<open>A well-formed message of any kind, and what it makes of the rows.\<close>

definition message_ok :: "TransactionProcessingPayload \<Rightarrow> TransactionRecord \<Rightarrow> bool" where
  "message_ok p t \<longleftrightarrow>
     tr_ID t \<noteq> '''' \<and> tr_ParentTransactionID t = None \<and> tr_DeletedAt t = None \<and>
     (tr_StatusCode t = PENDING \<longrightarrow> pp_Input p \<noteq> None) \<and>
     (tr_StatusCode t = CREATED \<longrightarrow> (case pp_Validate p of None \<Rightarrow> True | Some v \<Rightarrow> \<not> rsp_Pending v)) \<and>
     (\<forall>op \<in> set (tr_Operations t). operation_ok (tr_ID t) op)"

definition stored_status :: "TransactionRecord \<Rightarrow> string" where
  "stored_status t = (if tr_StatusCode t = CREATED then APPROVED else tr_StatusCode t)"

lemma insert_form:
  assumes "message_ok p t" and "\<not> eligible_transition p t"
  obtains tran where "stored_form t (pp_Input p) = Inr tran" "\<not> eligible_transition p tran" "tr_StatusCode tran = stored_status t"
  using assms
  by (cases "tr_StatusCode t = CREATED"; cases "tr_StatusCode t = PENDING"; cases "pp_Input p")
    (auto simp: message_ok_def stored_form_def eligible_transition_def stored_status_def split: option.splits)

lemma row_step:
  assumes ok: "message_ok p t"
    and row: "\<And>row. st_transactions st (tr_ID t) = Some row \<Longrightarrow> row_matches (tr_OrganizationID t) (tr_LedgerID t) row"
    and run: "CreateOrUpdateTransaction env f p t st = (st', r)"
  shows "rows_kept (tr_ID t) st st' \<and>
     (st' = st \<and> (\<exists>e. r = Inl e) \<and> \<not> (f_insert f = None \<and> f_update f = None) \<or>
      (\<exists>row tran ph. st_transactions st' (tr_ID t) = Some row \<and> row_matches (tr_OrganizationID t) (tr_LedgerID t) row \<and>
         (if eligible_transition p t then pt_Status row = tr_StatusCode t
          else st_transactions st (tr_ID t) = Some row \<or> st_transactions st (tr_ID t) = None \<and> pt_Status row = stored_status t) \<and>
         r = Inr (tran, ph) \<and> tr_Operations tran = tr_Operations t \<and> tr_ID tran = tr_ID t))"
proof -
  have t: "tr_ID t \<noteq> ''''" "tr_ParentTransactionID t = None" "tr_DeletedAt t = None" using ok by (simp_all add: message_ok_def)
  show ?thesis
  proof (cases "eligible_transition p t")
    case True
    then have "settled_status (tr_StatusCode t)" by (auto simp: eligible_transition_def settled_status_def)
    from settlement_row [OF refl refl True t(2,3) refl refl t(1) this row run] True show ?thesis by auto
  next
    case False
    then obtain tran where form: "stored_form t (pp_Input p) = Inr tran" "\<not> eligible_transition p tran" "tr_StatusCode tran = stored_status t"
      using insert_form ok by blast
    from insert_row [OF refl t(2,3) refl refl form(1,2) t(1) run] False form(3) row show ?thesis by auto
  qed
qed

text \<open>All rows of a message; without a failure of the database it gets to the end.\<close>

definition faultless :: "Faults \<Rightarrow> bool" where
  "faultless f \<longleftrightarrow> f_insert f = None \<and> f_update f = None \<and> (\<forall>i. f_operation f i = None) \<and> (\<forall>i. f_metadata f i = None)"

definition row_after :: "TransactionProcessingPayload \<Rightarrow> TransactionRecord \<Rightarrow> Store \<Rightarrow> Store \<Rightarrow> bool" where
  "row_after p t st st' \<longleftrightarrow>
     (\<forall>k. k \<noteq> tr_ID t \<longrightarrow> st_transactions st' k = st_transactions st k) \<and>
     (st_transactions st' (tr_ID t) = st_transactions st (tr_ID t) \<or>
      (\<exists>row. st_transactions st' (tr_ID t) = Some row \<and> row_matches (tr_OrganizationID t) (tr_LedgerID t) row \<and>
         (if eligible_transition p t then pt_Status row = tr_StatusCode t
          else st_transactions st (tr_ID t) = None \<and> pt_Status row = stored_status t)))"

definition row_there :: "TransactionProcessingPayload \<Rightarrow> TransactionRecord \<Rightarrow> Store \<Rightarrow> bool" where
  "row_there p t st = (case st_transactions st (tr_ID t) of
     None \<Rightarrow> False | Some row \<Rightarrow> eligible_transition p t \<longrightarrow> pt_Status row = tr_StatusCode t)"

lemma write_rows_step:
  assumes ok: "message_ok p t"
    and row: "\<And>row. st_transactions st (tr_ID t) = Some row \<Longrightarrow> row_matches (tr_OrganizationID t) (tr_LedgerID t) row"
    and run: "write_rows env f p t st = (st', r)"
  shows "st_backup st' = st_backup st \<and> row_after p t st st' \<and>
     grown (se_commons env) (tr_Operations t) (st_operations st) (st_operations st') \<and>
     (\<forall>tran ph. r = Inr (tran, ph) \<longrightarrow> tr_ID tran = tr_ID t \<and> row_there p t st' \<and>
        (\<forall>op \<in> set (tr_Operations t). st_operations st' (op_ID op) \<noteq> None)) \<and>
     (faultless f \<longrightarrow> (\<exists>tran. r = Inr tran))"
proof -
  have ops: "\<forall>op \<in> set (tr_Operations t). operation_ok (tr_ID t) op" using ok by (simp add: message_ok_def)
  obtain st1 r1 where first: "CreateOrUpdateTransaction env f p t st = (st1, r1)" by fastforce
  note row1 = row_step [OF ok row first]
  show ?thesis
  proof (cases r1)
    case (Inl e)
    then have "st' = st1" "r = Inl e" using run first by (simp_all add: write_rows_def)
    then show ?thesis using row1 Inl by (auto simp: row_after_def faultless_def)
  next
    case (Inr x)
    then obtain row tran ph where r1: "r1 = Inr (tran, ph)" "st_transactions st1 (tr_ID t) = Some row"
        "row_matches (tr_OrganizationID t) (tr_LedgerID t) row"
        "if eligible_transition p t then pt_Status row = tr_StatusCode t
         else st_transactions st (tr_ID t) = Some row \<or> st_transactions st (tr_ID t) = None \<and> pt_Status row = stored_status t"
        "tr_Operations tran = tr_Operations t" "tr_ID tran = tr_ID t"
      using row1 by blast
    obtain st2 r2 where meta: "CreateMetadataAsync f (tr_Metadata tran) (tr_ID tran) ''Transaction'' st1 = (st2, r2)" by fastforce
    note frame = CreateMetadataAsync_frame [OF meta]
    have kept: "st_backup st2 = st_backup st" "st_operations st2 = st_operations st" "st_transactions st2 (tr_ID t) = Some row"
        "row_after p t st st2" "row_there p t st2"
      using row1 frame r1(2,3,4) by (auto simp: rows_kept_def row_after_def row_there_def split: if_splits)
    show ?thesis
    proof (cases r2)
      case (Some e)
      then have "st' = st2" "r = Inl e" using run first r1(1) meta by (simp_all add: write_rows_def)
      moreover have "f_metadata f (tr_ID tran) \<noteq> None" using frame(4) Some by (cases "f_metadata f (tr_ID tran)") simp_all
      ultimately show ?thesis using kept by (auto simp: faultless_def)
    next
      case None
      obtain st3 r3 where last: "create_operations env f (tr_Operations t) st2 = (st3, r3)" by fastforce
      have res: "st' = st3" "r = (case r3 of Some e \<Rightarrow> Inl e | None \<Rightarrow> Inr (tran, ph))"
        using run first r1(1,5) meta None last by (simp_all add: write_rows_def split: option.splits)
      note op3 = create_operations_result [OF last ops]
      then have "row_after p t st st3" "row_there p t st3" using kept(4,5) by (simp_all add: row_after_def row_there_def)
      then show ?thesis using op3 kept(1-3) r1(6) res by (cases r3) (auto simp: faultless_def)
    qed
  qed
qed

text \<open>A held transaction: its identifiers, the status it is settled with, and its messages.\<close>

record HeldTransaction =
  hd_lib :: extlib
  hd_commons :: commons
  hd_OrganizationID :: uuid
  hd_LedgerID :: uuid
  hd_ID :: string
  hd_status :: string
  hd_messages :: "Queue set"

definition held_ok :: "HeldTransaction \<Rightarrow> bool" where
  "held_ok h \<longleftrightarrow> hd_ID h \<noteq> '''' \<and> settled_status (hd_status h) \<and>
     (\<forall>m \<in> hd_messages h. held_message (hd_lib h) (hd_OrganizationID h) (hd_LedgerID h) (hd_ID h) (hd_status h) m) \<and>
     (\<forall>m \<in> hd_messages h. \<forall>m' \<in> hd_messages h. \<forall>op \<in> set (message_ops m). \<forall>op' \<in> set (message_ops m'). op_ID op = op_ID op' \<longrightarrow> op = op')"

text \<open>The row has the status of the settlement; the settlement with its operations is in the database.\<close>

definition settled :: "HeldTransaction \<Rightarrow> Store \<Rightarrow> bool" where
  "settled h st = (case st_transactions st (hd_ID h) of None \<Rightarrow> False | Some row \<Rightarrow> pt_Status row = hd_status h)"

definition operation_row :: "HeldTransaction \<Rightarrow> Operation \<Rightarrow> OperationPostgreSQLModel" where
  "operation_row h op = Operation_FromEntity (hd_commons h) '''' op"

definition persisted :: "HeldTransaction \<Rightarrow> Queue \<Rightarrow> Store \<Rightarrow> bool" where
  "persisted h m st \<longleftrightarrow>
     settled h st \<and> (\<forall>op \<in> set (message_ops m). st_operations st (op_ID op) = Some (operation_row h op))"

definition backup_key :: "HeldTransaction \<Rightarrow> string" where
  "backup_key h = TransactionInternalKey (hd_lib h) (hd_OrganizationID h) (hd_LedgerID h) (hd_ID h)"

definition backed_up :: "HeldTransaction \<Rightarrow> Store \<Rightarrow> bool" where
  "backed_up h st = (case st_backup st (backup_key h) of None \<Rightarrow> False | Some q \<Rightarrow> tq_TransactionStatus q = hd_status h)"

definition tables_ok :: "HeldTransaction \<Rightarrow> Store \<Rightarrow> bool" where
  "tables_ok h st \<longleftrightarrow>
     (\<forall>row. st_transactions st (hd_ID h) = Some row \<longrightarrow> row_ok (hd_lib h) (hd_OrganizationID h) (hd_LedgerID h) (hd_status h) row) \<and>
     (\<forall>m \<in> hd_messages h. \<forall>op \<in> set (message_ops m).
        st_operations st (op_ID op) = None \<or> st_operations st (op_ID op) = Some (operation_row h op))"

definition delivery_env :: "HeldTransaction \<Rightarrow> StoreEnv \<Rightarrow> bool" where
  "delivery_env h env \<longleftrightarrow> se_lib env = hd_lib h \<and> se_commons env = hd_commons h \<and> se_async env"

inductive delivery :: "HeldTransaction \<Rightarrow> Store \<Rightarrow> Store \<Rightarrow> bool" for h where
  deliver: "m \<in> hd_messages h \<Longrightarrow> delivery_env h env \<Longrightarrow> delivery h st (fst (CreateBalanceTransactionOperationsAsync env f m st))"

lemma operations_grow:
  assumes ok: "held_ok h" and m: "m \<in> hd_messages h" and tables: "tables_ok h st"
    and grown: "grown (hd_commons h) (message_ops m) (st_operations st) (st_operations st')"
    and m': "m' \<in> hd_messages h" and op: "op \<in> set (message_ops m')"
  shows "st_operations st' (op_ID op) = None \<or> st_operations st' (op_ID op) = Some (operation_row h op)"
proof (cases "st_operations st' (op_ID op) = st_operations st (op_ID op)")
  case True
  then show ?thesis using tables m' op by (simp add: tables_ok_def)
next
  case False
  then obtain op' where op': "op' \<in> set (message_ops m)" "op_ID op' = op_ID op"
      "st_operations st' (op_ID op) = Some (Operation_FromEntity (hd_commons h) '''' op')"
    using grown unfolding grown_def by blast
  moreover have "op' = op" using ok m m' op op' by (simp add: held_ok_def)
  ultimately show ?thesis by (simp add: operation_row_def)
qed

text \<open>The rows that a delivery writes: settled by a settlement, and never back from settled to held.\<close>

lemma held_message_ok:
  assumes "held_ok h" and "m \<in> hd_messages h" and "pp_Transaction (qu_Data m) = Some t"
  shows "message_ok (qu_Data m) t" "tr_ID t = hd_ID h" "tr_OrganizationID t = uuid_String (hd_lib h) (hd_OrganizationID h)"
    "tr_LedgerID t = uuid_String (hd_lib h) (hd_LedgerID h)" "message_ops m = tr_Operations t"
    "eligible_transition (qu_Data m) t \<longleftrightarrow> settling (hd_status h) m" "settling (hd_status h) m \<longleftrightarrow> tr_StatusCode t = hd_status h"
    "tr_StatusCode t \<noteq> hd_status h \<Longrightarrow> tr_StatusCode t = PENDING"
  using assms
  by (auto simp: held_ok_def held_message_def message_ok_def settling_def message_ops_def eligible_transition_def settled_status_def)

lemma write_rows_effect:
  assumes ok: "held_ok h" and m: "m \<in> hd_messages h" and env: "delivery_env h env" and tables: "tables_ok h st"
    and t: "pp_Transaction (qu_Data m) = Some t" and run: "write_rows env f (qu_Data m) t st = (st', r)"
  shows "st_backup st' = st_backup st \<and>
     (\<forall>row. st_transactions st' (hd_ID h) = Some row \<longrightarrow> row_ok (hd_lib h) (hd_OrganizationID h) (hd_LedgerID h) (hd_status h) row) \<and>
     (settled h st \<longrightarrow> settled h st') \<and> grown (hd_commons h) (message_ops m) (st_operations st) (st_operations st') \<and>
     (\<forall>tran ph. r = Inr (tran, ph) \<longrightarrow> tr_ID tran = hd_ID h \<and> (settling (hd_status h) m \<longrightarrow> settled h st') \<and>
        (\<forall>op \<in> set (message_ops m). st_operations st' (op_ID op) \<noteq> None)) \<and>
     (faultless f \<longrightarrow> (\<exists>tran. r = Inr tran))"
proof -
  note held = held_message_ok [OF ok m t]
  have row: "st_transactions st (tr_ID t) = Some row \<Longrightarrow> row_matches (tr_OrganizationID t) (tr_LedgerID t) row" for row
    using tables held by (simp add: tables_ok_def row_ok_def)
  note w = write_rows_step [OF held(1) row run]
  then have after: "row_after (qu_Data m) t st st'" by blast
  have "se_commons env = hd_commons h" using env by (simp add: delivery_env_def)
  moreover have "settled h st \<longrightarrow> settled h st'" "settling (hd_status h) m \<Longrightarrow> row_there (qu_Data m) t st' \<Longrightarrow> settled h st'"
    using after held(2,6,7) by (auto simp: row_after_def row_there_def settled_def split: option.splits if_splits)
  moreover have "row_ok (hd_lib h) (hd_OrganizationID h) (hd_LedgerID h) (hd_status h) row" if "st_transactions st' (hd_ID h) = Some row" for row
  proof (cases "st_transactions st' (hd_ID h) = st_transactions st (hd_ID h)")
    case True
    then show ?thesis using tables that by (simp add: tables_ok_def)
  next
    case False
    then show ?thesis using after that held(2-4,6-8) by (auto simp: row_after_def row_ok_def stored_status_def split: if_splits)
  qed
  ultimately show ?thesis using w held(2,5) by simp
qed

text \<open>The clean-up after the rows: tables as they were, and a backup of the settlement only removed by the settlement.\<close>

lemma clean_cache_effect:
  assumes held: "held_ok h" "m \<in> hd_messages h" "delivery_env h env" and t: "pp_Transaction (qu_Data m) = Some t"
    and ID: "tr_ID tran = hd_ID h"
  shows "st_transactions (clean_cache env f m (tr_StatusCode t) tran st) = st_transactions st \<and>
     st_operations (clean_cache env f m (tr_StatusCode t) tran st) = st_operations st \<and>
     (backed_up h st \<and> \<not> settling (hd_status h) m \<longrightarrow> backed_up h (clean_cache env f m (tr_StatusCode t) tran st))"
proof -
  have tables: "st_transactions (clean_cache env f m (tr_StatusCode t) tran st) = st_transactions st"
      "st_operations (clean_cache env f m (tr_StatusCode t) tran st) = st_operations st"
    by (simp_all add: clean_cache_def Let_def DeleteWriteBehindTransaction_def RemoveTransactionFromRedisQueueIfStatus_def
        RemoveTransactionFromRedisQueue_def split: option.splits)
  have "backed_up h (clean_cache env f m (tr_StatusCode t) tran st)" if backup: "backed_up h st" and hold: "\<not> settling (hd_status h) m"
  proof -
    obtain q where q: "st_backup st (backup_key h) = Some q" "tq_TransactionStatus q = hd_status h"
      using backup by (auto simp: backed_up_def split: option.splits)
    have m: "qu_OrganizationID m = hd_OrganizationID h" "qu_LedgerID m = hd_LedgerID h" "tr_StatusCode t = PENDING"
      using held hold t by (auto simp: held_ok_def held_message_def settling_def)
    have key: "TransactionInternalKey (se_lib env) (hd_OrganizationID h) (hd_LedgerID h) (hd_ID h) = backup_key h"
      using held(3) by (simp add: backup_key_def delivery_env_def)
    have expected: "ExpectedBackupStatusForCleanup PENDING v = PENDING" for v by (simp add: ExpectedBackupStatusForCleanup_def)
    have differ: "\<not> EqualFold (hd_status h) PENDING"
      using held(1) by (auto simp: held_ok_def settled_status_def EqualFold_def ToLower_def)
    have "RemoveTransactionFromRedisQueueIfStatus env f (hd_OrganizationID h) (hd_LedgerID h) (hd_ID h) PENDING st = st"
      using q differ key by (simp add: RemoveTransactionFromRedisQueueIfStatus_def ReadMessageFromQueue_def split: option.splits)
    then show ?thesis
      using m expected ID held(3) q
      by (simp add: clean_cache_def delivery_env_def DeleteWriteBehindTransaction_def backed_up_def Let_def split: option.splits)
  qed
  then show ?thesis using tables by blast
qed

text \<open>
  What holds however often and in whatever order the messages are delivered: the tables hold nothing but
  what the messages say, and the settlement is backed up or in the database.
\<close>

definition delivery_inv :: "HeldTransaction \<Rightarrow> Store \<Rightarrow> bool" where
  "delivery_inv h st \<longleftrightarrow> held_ok h \<and> tables_ok h st \<and>
     (backed_up h st \<or> (\<exists>m \<in> hd_messages h. settling (hd_status h) m \<and> persisted h m st))"

lemma persisted_kept:
  assumes "persisted h m st" and "settled h st'" and "grown cm ops (st_operations st) (st_operations st')"
  shows "persisted h m st'"
  using assms grown_kept [OF assms(3)] by (simp add: persisted_def)

lemma delivery_effect:
  assumes ok: "held_ok h" and m: "m \<in> hd_messages h" and env: "delivery_env h env" and tables: "tables_ok h st"
    and run: "CreateBalanceTransactionOperationsAsync env f m st = (st', r)"
  shows "tables_ok h st' \<and> (settled h st \<longrightarrow> settled h st') \<and>
     grown (hd_commons h) (message_ops m) (st_operations st) (st_operations st') \<and>
     (backed_up h st \<longrightarrow> backed_up h st' \<or> settling (hd_status h) m \<and> persisted h m st') \<and>
     (settling (hd_status h) m \<and> (\<exists>x. r = Inr x) \<longrightarrow> persisted h m st') \<and>
     (faultless f \<longrightarrow> (\<exists>x. r = Inr x))"
proof -
  have "held_message (hd_lib h) (hd_OrganizationID h) (hd_LedgerID h) (hd_ID h) (hd_status h) m" using ok m by (simp add: held_ok_def)
  then obtain t where t: "pp_Transaction (qu_Data m) = Some t" "pp_Version (qu_Data m) \<noteq> ''''"
    by (auto simp: held_message_def split: option.splits)
  have older: "older_balances env f m t st = (st, None)" using t(2) by (simp add: older_balances_def)
  obtain st1 r1 where rows: "write_rows env f (qu_Data m) t st = (st1, r1)" by fastforce
  note w = write_rows_effect [OF ok m env tables t(1) rows]
  have tables1: "tables_ok h st1" unfolding tables_ok_def
    using w operations_grow [OF ok m tables, of st1] by blast
  show ?thesis
  proof (cases r1)
    case (Inl e)
    then have "st' = st1" "r = Inl e" using run t(1) older rows by (simp_all add: CreateBalanceTransactionOperationsAsync_def)
    then show ?thesis using w tables1 Inl by (auto simp: backed_up_def)
  next
    case (Inr x)
    then obtain tran ph where r1: "r1 = Inr (tran, ph)" by (cases x) simp
    have res: "st' = clean_cache env f m (tr_StatusCode t) tran st1" "r = Inr (tran, ph)"
      using run t(1) older rows r1 by (simp_all add: CreateBalanceTransactionOperationsAsync_def)
    have ID: "tr_ID tran = hd_ID h" using w r1 by blast
    have clean: "st_transactions st' = st_transactions st1" "st_operations st' = st_operations st1"
        "backed_up h st1 \<and> \<not> settling (hd_status h) m \<longrightarrow> backed_up h st'"
      using clean_cache_effect [OF ok m env t(1) ID, of f st1] res(1) by blast+
    have tables': "tables_ok h st'" "settled h st' = settled h st1" using tables1 clean by (simp_all add: tables_ok_def settled_def)
    have "persisted h m st'" if "settling (hd_status h) m"
      using that w r1 tables' clean(2) m unfolding persisted_def tables_ok_def by fastforce
    moreover have "backed_up h st1 = backed_up h st" using w by (simp add: backed_up_def)
    ultimately show ?thesis using w tables' clean(2,3) res(2) by auto
  qed
qed

lemma delivery_inv_step: "delivery h st st' \<Longrightarrow> delivery_inv h st \<Longrightarrow> delivery_inv h st'"
proof (induction rule: delivery.induct)
  case (deliver m env st f)
  then have ok: "held_ok h" and tables: "tables_ok h st" by (simp_all add: delivery_inv_def)
  define st' where "st' = fst (CreateBalanceTransactionOperationsAsync env f m st)"
  then obtain r where run: "CreateBalanceTransactionOperationsAsync env f m st = (st', r)" by (cases "CreateBalanceTransactionOperationsAsync env f m st") simp
  note e = delivery_effect [OF ok deliver(1) deliver(2) tables run]
  have "persisted h m' st \<Longrightarrow> persisted h m' st'" for m'
    using e persisted_kept [of h m' st st'] by (auto simp: persisted_def [of h m' st])
  then show ?case using deliver e ok unfolding delivery_inv_def st'_def [symmetric] by blast
qed

interpretation deliveries: step_invariant "delivery h" "delivery_inv h"
  by unfold_locales (rule delivery_inv_step)

lemma tables_inv_step: "delivery h st st' \<Longrightarrow> held_ok h \<and> tables_ok h st \<Longrightarrow> held_ok h \<and> tables_ok h st'"
proof (induction rule: delivery.induct)
  case (deliver m env st f)
  then show ?case using delivery_effect [of h m env st f] by (metis prod.collapse)
qed

interpretation tables: step_invariant "delivery h" "\<lambda>st. held_ok h \<and> tables_ok h st"
  by unfold_locales (rule tables_inv_step)

lemma persisted_step:
  "delivery h st st' \<Longrightarrow> held_ok h \<and> tables_ok h st \<and> persisted h m' st \<Longrightarrow> held_ok h \<and> tables_ok h st' \<and> persisted h m' st'"
proof (induction rule: delivery.induct)
  case (deliver m env st f)
  obtain st' r where run: "CreateBalanceTransactionOperationsAsync env f m st = (st', r)" by fastforce
  have e: "tables_ok h st'" "settled h st \<longrightarrow> settled h st'" "grown (hd_commons h) (message_ops m) (st_operations st) (st_operations st')"
    using delivery_effect [of h m env st f, OF _ deliver(1,2) _ run] deliver(3) by blast+
  moreover have "settled h st" using deliver(3) by (simp add: persisted_def)
  ultimately show ?case using persisted_kept [of h m' st st', OF _ _ e(3)] deliver(3) run by simp
qed

interpretation persisted: step_invariant "delivery h" "\<lambda>st. held_ok h \<and> tables_ok h st \<and> persisted h m' st"
  by unfold_locales (rule persisted_step)

section \<open>Nothing is lost\<close>

text \<open>
  C16. The settlement of a held transaction is never lost. Once its backup has been written, and while the
  messages of the hold and of the commit or cancellation are delivered in any order, any number of times,
  each with any failures of the database and of the cache, there is at every moment either the backup of
  the settlement or, in the database, the settled status together with every operation of a settlement
  message, each row as that message has it. In particular a late delivery of the hold removes neither.
\<close>

theorem settlement_never_lost:
  assumes "held_ok h" and "tables_ok h st" and "backed_up h st" and "(delivery h)\<^sup>*\<^sup>* st st'"
  shows "backed_up h st' \<or> (\<exists>m \<in> hd_messages h. settling (hd_status h) m \<and> persisted h m st')"
proof -
  have "delivery_inv h st" using assms(1-3) by (simp add: delivery_inv_def)
  from deliveries.reachable [OF assms(4) this] show ?thesis by (simp add: delivery_inv_def)
qed

text \<open>
  C17. Persistence converges. Whatever deliveries of a held transaction's messages came before, in whatever
  order and with whatever failures, one delivery of the settlement during which the database works
  succeeds; from then on, through all further deliveries, late ones of the hold included, the transaction
  has the settled status and every operation of the settlement is in the database.
\<close>

theorem settlement_converges:
  assumes "held_ok h" and "tables_ok h st" and "(delivery h)\<^sup>*\<^sup>* st st1"
    and "m \<in> hd_messages h" and "settling (hd_status h) m" and "delivery_env h env" and "faultless f"
    and "CreateBalanceTransactionOperationsAsync env f m st1 = (st2, r)" and "(delivery h)\<^sup>*\<^sup>* st2 st3"
  shows "(\<exists>x. r = Inr x) \<and> persisted h m st3"
proof -
  have st1: "held_ok h \<and> tables_ok h st1" using tables.reachable [OF assms(3)] assms(1,2) by blast
  have e: "tables_ok h st2" "\<exists>x. r = Inr x" "persisted h m st2"
    using delivery_effect [of h m env st1 f, OF _ assms(4,6) _ assms(8)] st1 assms(5,7) unfolding faultless_def by blast+
  then show ?thesis using persisted.reachable [OF assms(9)] st1 by blast
qed

section \<open>What is lost\<close>


text \<open>
  The metadata of an operation is written after its row. When that write fails, the retry finds the row and
  goes on to the next operation: it succeeds, and the metadata is never written.
\<close>

lemma operation_metadata_not_retried:
  assumes op: "op_ID op \<noteq> ''''" "validateOperationDirection op = None" "op_Metadata op = Some d"
    and st: "st_operations st (op_ID op) = None" "st_transactions st (op_TransactionID op) \<noteq> None"
    and first: "f_operation f (op_ID op) = None" "f_metadata f (op_ID op) = Some e" and retry: "f_operation f' (op_ID op) = None"
  shows "snd (create_operations env f [op] st) = Some e"
    and "create_operations env f' [op] (fst (create_operations env f [op] st)) = (fst (create_operations env f [op] st), None)"
    and "st_metadata (fst (create_operations env f [op] st)) = st_metadata st"
proof -
  define rows where "rows = (st_operations st)(op_ID op \<mapsto> Operation_FromEntity (se_commons env) (se_newID env) op)"
  obtain row where row: "st_transactions st (op_TransactionID op) = Some row" using st(2) by auto
  have "create_operations env f [op] st = (st\<lparr>st_operations := rows\<rparr>, Some e)"
    using op st(1) row first by (simp add: OperationRepo_Create_def CreateMetadataAsync_def Let_def rows_def)
  moreover have "create_operations env f' [op] (st\<lparr>st_operations := rows\<rparr>) = (st\<lparr>st_operations := rows\<rparr>, None)"
    using op retry by (simp add: OperationRepo_Create_def Let_def rows_def)
  ultimately show "snd (create_operations env f [op] st) = Some e"
    "create_operations env f' [op] (fst (create_operations env f [op] st)) = (fst (create_operations env f [op] st), None)"
    "st_metadata (fst (create_operations env f [op] st)) = st_metadata st"
    by simp_all
qed

section \<open>Examples\<close>

text \<open>A payment of 30 that was held and then committed: one operation for the hold, two for the commit.\<close>

definition payment_operation :: "string \<Rightarrow> string \<Rightarrow> string \<Rightarrow> string \<Rightarrow> Operation" where
  "payment_operation ID ty alias direction = (sample_operation ty alias ''default'' direction 30)\<lparr>op_ID := ID, op_TransactionID := ''t''\<rparr>"

definition payment_responses :: Responses where
  "payment_responses =
     \<lparr>rsp_Total = 30, rsp_Asset = ''USD'', rsp_From = [], rsp_To = [], rsp_Sources = [], rsp_Destinations = [], rsp_Aliases = [],
      rsp_Pending = True, rsp_TransactionRoute = '''', rsp_TransactionRouteID = None, rsp_OperationRoutesFrom = [],
      rsp_OperationRoutesTo = []\<rparr>"

definition payment_message :: "string \<Rightarrow> Operation list \<Rightarrow> Queue" where
  "payment_message status ops =
     payload_of 1 2 Transaction_zero payment_responses [] [] ((recorded 30 ops)\<lparr>tr_StatusCode := status\<rparr>)"

definition hold_message :: Queue where
  "hold_message = payment_message PENDING [payment_operation ''o1'' ONHOLD ''@a'' DirectionDebit]"

definition commit_message :: Queue where
  "commit_message = payment_message APPROVED
     [payment_operation ''o2'' DEBIT ''@a'' DirectionDebit, payment_operation ''o3'' CREDIT ''@b'' DirectionCredit]"

definition held_payment :: HeldTransaction where
  "held_payment =
     \<lparr>hd_lib = exact_lib, hd_commons = plain_commons, hd_OrganizationID = 1, hd_LedgerID = 2, hd_ID = ''t'', hd_status = APPROVED,
      hd_messages = {hold_message, commit_message}\<rparr>"

definition commit_backup :: TransactionRedisQueue where
  "commit_backup =
     \<lparr>tq_HeaderID = '''', tq_TransactionID = 3, tq_OrganizationID = 1, tq_LedgerID = 2, tq_Balances = [], tq_BalancesAfter = [],
      tq_TransactionInput = Transaction_zero, tq_TTL = 0, tq_Validate = Some payment_responses, tq_TransactionStatus = APPROVED,
      tq_Action = ActionCommit, tq_TransactionDate = 0, tq_Operations = []\<rparr>"

definition backed_up_store :: Store where
  "backed_up_store =
     \<lparr>st_transactions = Map.empty, st_operations = Map.empty, st_balances = Map.empty, st_metadata = [],
      st_backup = [backup_key held_payment \<mapsto> commit_backup], st_writebehind = Map.empty\<rparr>"

definition store_env :: StoreEnv where
  "store_env =
     \<lparr>se_lib = exact_lib, se_commons = plain_commons, se_mergeMaps = (\<lambda>m _. m), se_newID = ''new'', se_now = 5, se_async = True\<rparr>"

definition no_faults :: Faults where
  "no_faults =
     \<lparr>f_balances = None, f_commit = False, f_insert = None, f_update = None, f_operation = (\<lambda>_. None), f_metadata = (\<lambda>_. None),
      f_cache = None\<rparr>"

definition third_operation_fails :: Faults where
  "third_operation_fails = no_faults\<lparr>f_operation := (\<lambda>i. if i = ''o3'' then Some (Errorf ''down'') else None)\<rparr>"

lemma payment_ok: "held_ok held_payment" "tables_ok held_payment backed_up_store" "backed_up held_payment backed_up_store"
    "delivery_env held_payment store_env" "faultless no_faults" "commit_message \<in> hd_messages held_payment"
    "hold_message \<in> hd_messages held_payment" "settling (hd_status held_payment) commit_message"
  by (simp_all add: held_payment_def held_ok_def settled_status_def held_message_def hold_message_def commit_message_def payment_message_def
      payload_of_def recorded_def payment_responses_def eligible_transition_def operation_ok_def payment_operation_def sample_operation_def
      validateOperationDirection_def err_if_def message_ops_def tables_ok_def backed_up_store_def backed_up_def backup_key_def
      commit_backup_def delivery_env_def store_env_def faultless_def no_faults_def settling_def ToLower_def lower_char_def)

theorem settlement_never_lost_witness:
  "let st = fst (CreateBalanceTransactionOperationsAsync store_env third_operation_fails commit_message backed_up_store)
   in backed_up held_payment st \<or> (\<exists>m \<in> hd_messages held_payment. settling (hd_status held_payment) m \<and> persisted held_payment m st)"
  unfolding Let_def
  by (rule settlement_never_lost [OF payment_ok(1,2,3)], rule r_into_rtranclp, rule delivery.deliver [OF payment_ok(6,4)])

theorem settlement_converges_witness:
  "let st1 = fst (CreateBalanceTransactionOperationsAsync store_env third_operation_fails commit_message backed_up_store);
       (st2, r) = CreateBalanceTransactionOperationsAsync store_env no_faults commit_message st1
   in (\<exists>x. r = Inr x) \<and>
      persisted held_payment commit_message (fst (CreateBalanceTransactionOperationsAsync store_env no_faults hold_message st2))"
proof -
  define st1 where "st1 = fst (CreateBalanceTransactionOperationsAsync store_env third_operation_fails commit_message backed_up_store)"
  obtain st2 r where run: "CreateBalanceTransactionOperationsAsync store_env no_faults commit_message st1 = (st2, r)" by fastforce
  have before: "(delivery held_payment)\<^sup>*\<^sup>* backed_up_store st1"
    unfolding st1_def by (rule r_into_rtranclp, rule delivery.deliver [OF payment_ok(6,4)])
  have after: "(delivery held_payment)\<^sup>*\<^sup>* st2 (fst (CreateBalanceTransactionOperationsAsync store_env no_faults hold_message st2))"
    by (rule r_into_rtranclp, rule delivery.deliver [OF payment_ok(7,4)])
  from settlement_converges [OF payment_ok(1,2) before payment_ok(6,8,4,5) run after] show ?thesis
    unfolding st1_def [symmetric] Let_def run by simp
qed

text \<open>A held payment in the database, with the body that a commit needs.\<close>

definition held_row :: TransactionPostgreSQLModel where
  "held_row = Transaction_FromEntity plain_commons ''new''
     ((recorded 30 [])\<lparr>tr_ID := '''', tr_StatusCode := PENDING, tr_Body := Transaction_zero\<lparr>tx_Pending := True,
        tx_Send := (tx_Send Transaction_zero)\<lparr>snd_Asset := ''USD'', snd_Value := 30\<rparr>\<rparr>\<rparr>)"


end
