(* ===== verification/TransactionBulk.thy ===== *)
theory TransactionBulk
  imports TransactionStoreProofs "HOL-Library.Char_ord" "HOL-Library.List_Lexorder"
begin

text \<open>
  The persistence of many transactions at once (\<^verbatim>\<open>create_bulk_transaction_operations_async.go\<close>,
  \<^verbatim>\<open>create_metadata_bulk.go\<close>): new rows go in with statements that skip what is there, in one database
  transaction; settlements are updates; when either fails, the messages are processed one by one.

  A statement inserts up to 1000 rows and checks the foreign keys at its end, as PostgreSQL does. The sorts
  are stable here; they are not in Go, which matters only for messages that repeat an identifier. The
  goroutines of the clean-up are part of the step. Events are given as a list of transactions and phases.
\<close>

section \<open>Classification\<close>

record BulkResult =
  bk_TransactionsAttempted :: nat
  bk_TransactionsInserted :: nat
  bk_TransactionsIgnored :: nat
  bk_TransactionsUpdateAttempted :: nat
  bk_TransactionsUpdated :: nat
  bk_OperationsAttempted :: nat
  bk_OperationsInserted :: nat
  bk_OperationsIgnored :: nat
  bk_FallbackUsed :: bool
  bk_FallbackCount :: nat
  bk_InsertedTransactionIDs :: "string list"

definition BulkResult_zero :: BulkResult where
  "BulkResult_zero =
     \<lparr>bk_TransactionsAttempted = 0, bk_TransactionsInserted = 0, bk_TransactionsIgnored = 0, bk_TransactionsUpdateAttempted = 0,
      bk_TransactionsUpdated = 0, bk_OperationsAttempted = 0, bk_OperationsInserted = 0, bk_OperationsIgnored = 0,
      bk_FallbackUsed = False, bk_FallbackCount = 0, bk_InsertedTransactionIDs = []\<rparr>"

text \<open>
  The failures of a bulk call: of the database transaction of the inserts, of a statement of updates (by
  number), of the bulk write of metadata (by collection), and those of the calls for single rows.
\<close>

datatype bulk_write = BulkWritten | Infrastructure goerr | DocumentError goerr

record BulkFaults =
  bf_insert :: "goerr option"
  bf_update :: "nat \<Rightarrow> goerr option"
  bf_metadata :: "string \<Rightarrow> bulk_write"
  bf_single :: Faults

definition bulkUpdateThreshold :: nat where
  "bulkUpdateThreshold = 10"

definition isStatusTransition :: "TransactionProcessingPayload \<Rightarrow> bool" where
  "isStatusTransition payload =
     (case (pp_Transaction payload, pp_Validate payload) of
        (Some t, Some v) \<Rightarrow> rsp_Pending v \<and> (tr_StatusCode t = APPROVED \<or> tr_StatusCode t = CANCELED)
      | _ \<Rightarrow> False)"

definition prepareTransactionForInsert :: "TransactionRecord \<Rightarrow> TransactionRecord" where
  "prepareTransactionForInsert tx =
     (if tr_StatusCode tx = CREATED
      then tx\<lparr>tr_Body := Transaction_zero, tr_StatusCode := APPROVED, tr_StatusDescription := Some APPROVED\<rparr>
      else if tr_StatusCode tx = PENDING then tx
      else tx\<lparr>tr_Body := Transaction_zero\<rparr>)"

record bulkEntities =
  be_inserts :: "TransactionRecord list"
  be_operations :: "Operation list"
  be_updates :: "TransactionRecord list"

definition payload_inserts :: "TransactionProcessingPayload \<Rightarrow> TransactionRecord list" where
  "payload_inserts p =
     (case pp_Transaction p of None \<Rightarrow> [] | Some t \<Rightarrow> if isStatusTransition p then [] else [prepareTransactionForInsert t])"

definition payload_updates :: "TransactionProcessingPayload \<Rightarrow> TransactionRecord list" where
  "payload_updates p =
     (case pp_Transaction p of None \<Rightarrow> [] | Some t \<Rightarrow> if isStatusTransition p then [t\<lparr>tr_Body := Transaction_zero\<rparr>] else [])"

definition payload_operations :: "TransactionProcessingPayload \<Rightarrow> Operation list" where
  "payload_operations p = (case pp_Transaction p of None \<Rightarrow> [] | Some t \<Rightarrow> tr_Operations t)"

definition classifyAndExtractEntities :: "TransactionProcessingPayload list \<Rightarrow> bulkEntities" where
  "classifyAndExtractEntities payloads =
     \<lparr>be_inserts = sort_key tr_ID (concat (map payload_inserts payloads)),
      be_operations = sort_key op_ID (concat (map payload_operations payloads)),
      be_updates = sort_key tr_ID (concat (map payload_updates payloads))\<rparr>"

section \<open>Statements on many rows\<close>

fun chunks :: "nat \<Rightarrow> 'a list \<Rightarrow> 'a list list" where
  "chunks n [] = []"
| "chunks n (x # xs) = (x # take n xs) # chunks n (drop n xs)"

text \<open>A statement adds the rows whose keys are not there yet and returns the keys that it added.\<close>

definition add_row :: "('r \<Rightarrow> string) \<Rightarrow> 'r \<Rightarrow> (string \<rightharpoonup> 'r) \<times> string list \<Rightarrow> (string \<rightharpoonup> 'r) \<times> string list" where
  "add_row key row = (\<lambda>(rows, ids).
     if rows (key row) \<noteq> None then (rows, ids) else (rows(key row \<mapsto> row), ids @ [key row]))"

definition insertTransactionChunk :: "StoreEnv \<Rightarrow> TransactionRecord list \<Rightarrow> Store \<Rightarrow> goerr + Store \<times> string list" where
  "insertTransactionChunk env transactions st =
     (let records = map (Transaction_FromEntity (se_commons env) (se_newID env)) transactions;
          (rows, ids) = fold (add_row pt_ID) records (st_transactions st, [])
      in if \<forall>id \<in> set ids. (case rows id of
              None \<Rightarrow> True
            | Some row \<Rightarrow> (case pt_ParentTransactionID row of None \<Rightarrow> True | Some p \<Rightarrow> rows p \<noteq> None))
         then Inr (st\<lparr>st_transactions := rows\<rparr>, ids) else Inl (Errorf ''foreign key violation''))"

definition insertOperationChunk :: "StoreEnv \<Rightarrow> Operation list \<Rightarrow> Store \<Rightarrow> goerr + Store \<times> string list" where
  "insertOperationChunk env operations st =
     (let records = map (Operation_FromEntity (se_commons env) (se_newID env)) operations;
          (rows, ids) = fold (add_row pg_ID) records (st_operations st, [])
      in if \<forall>id \<in> set ids. (case rows id of None \<Rightarrow> True | Some row \<Rightarrow> st_transactions st (pg_TransactionID row) \<noteq> None)
         then Inr (st\<lparr>st_operations := rows\<rparr>, ids) else Inl (Errorf ''foreign key violation''))"

fun insert_chunks :: "('a list \<Rightarrow> Store \<Rightarrow> goerr + Store \<times> string list) \<Rightarrow> 'a list list \<Rightarrow> Store \<Rightarrow> goerr + Store \<times> string list" where
  "insert_chunks ins [] st = Inr (st, [])"
| "insert_chunks ins (c # cs) st =
     (case ins c st of
        Inl e \<Rightarrow> Inl e
      | Inr (st', ids) \<Rightarrow> (case insert_chunks ins cs st' of Inl e \<Rightarrow> Inl e | Inr (st'', ids') \<Rightarrow> Inr (st'', ids @ ids')))"

definition TransactionRepo_CreateBulkTx :: "StoreEnv \<Rightarrow> TransactionRecord list \<Rightarrow> Store \<Rightarrow> goerr + Store \<times> string list" where
  "TransactionRepo_CreateBulkTx env transactions st =
     insert_chunks (insertTransactionChunk env) (chunks 999 (sort_key tr_ID transactions)) st"

definition OperationRepo_CreateBulkTx :: "StoreEnv \<Rightarrow> Operation list \<Rightarrow> Store \<Rightarrow> goerr + Store \<times> string list" where
  "OperationRepo_CreateBulkTx env operations st =
     insert_chunks (insertOperationChunk env) (chunks 999 (sort_key op_ID operations)) st"

definition update_status_row :: "StoreEnv \<Rightarrow> TransactionRecord \<Rightarrow> Store \<times> nat \<Rightarrow> Store \<times> nat" where
  "update_status_row env tx = (\<lambda>(st, n).
     let record = Transaction_FromEntity (se_commons env) (se_newID env) tx
     in case st_transactions st (pt_ID record) of
          None \<Rightarrow> (st, n)
        | Some row \<Rightarrow>
            if pt_OrganizationID row = pt_OrganizationID record \<and> pt_LedgerID row = pt_LedgerID record \<and>
               pt_Status row \<noteq> pt_Status record \<and> pt_DeletedAt row = None
            then (st\<lparr>st_transactions := (st_transactions st)(pt_ID record \<mapsto> row\<lparr>pt_Status := pt_Status record,
                    pt_StatusDescription := pt_StatusDescription record, pt_UpdatedAt := se_now env\<rparr>)\<rparr>, n + 1)
            else (st, n))"

definition updateTransactionChunk :: "StoreEnv \<Rightarrow> TransactionRecord list \<Rightarrow> Store \<Rightarrow> Store \<times> nat" where
  "updateTransactionChunk env transactions st = fold (update_status_row env) transactions (st, 0)"

text \<open>The statements of an update in bulk take effect one by one.\<close>

fun update_chunks :: "StoreEnv \<Rightarrow> (nat \<Rightarrow> goerr option) \<Rightarrow> nat \<Rightarrow> TransactionRecord list list \<Rightarrow> Store \<Rightarrow> Store \<times> (goerr + nat)" where
  "update_chunks env fails i [] st = (st, Inr 0)"
| "update_chunks env fails i (c # cs) st =
     (case fails i of
        Some e \<Rightarrow> (st, Inl e)
      | None \<Rightarrow>
          (let (st', n) = updateTransactionChunk env c st
           in case update_chunks env fails (Suc i) cs st' of (st'', Inl e) \<Rightarrow> (st'', Inl e) | (st'', Inr n') \<Rightarrow> (st'', Inr (n + n'))))"

definition UpdateBulk :: "StoreEnv \<Rightarrow> BulkFaults \<Rightarrow> TransactionRecord list \<Rightarrow> Store \<Rightarrow> Store \<times> (goerr + nat)" where
  "UpdateBulk env bf transactions st = update_chunks env (bf_update bf) 0 (chunks 499 (sort_key tr_ID transactions)) st"

section \<open>Inserts and updates\<close>

definition bulkInsertTransactionsTx :: "StoreEnv \<Rightarrow> TransactionRecord list \<Rightarrow> BulkResult \<Rightarrow> Store \<Rightarrow> BulkResult \<times> (goerr + Store)" where
  "bulkInsertTransactionsTx env transactions result st =
     (let result = result\<lparr>bk_TransactionsAttempted := length transactions\<rparr>
      in case TransactionRepo_CreateBulkTx env transactions st of
           Inl e \<Rightarrow> (result, Inl (Wrapped ''bulk insert transactions: '' e))
         | Inr (st', ids) \<Rightarrow>
             (result\<lparr>bk_TransactionsInserted := length ids, bk_TransactionsIgnored := length transactions - length ids,
                bk_InsertedTransactionIDs := bk_InsertedTransactionIDs result @ ids\<rparr>, Inr st'))"

definition bulkInsertOperationsTx :: "StoreEnv \<Rightarrow> Operation list \<Rightarrow> BulkResult \<Rightarrow> Store \<Rightarrow> BulkResult \<times> (goerr + Store)" where
  "bulkInsertOperationsTx env operations result st =
     (case first_err (map validateOperationDirection operations) of
        Some e \<Rightarrow> (result, Inl e)
      | None \<Rightarrow>
          (let result = result\<lparr>bk_OperationsAttempted := length operations\<rparr>
           in case OperationRepo_CreateBulkTx env operations st of
                Inl e \<Rightarrow> (result, Inl (Wrapped ''bulk insert operations: '' e))
              | Inr (st', ids) \<Rightarrow>
                  (result\<lparr>bk_OperationsInserted := length ids, bk_OperationsIgnored := length operations - length ids\<rparr>, Inr st')))"

definition atomicBulkInsert ::
    "StoreEnv \<Rightarrow> BulkFaults \<Rightarrow> bulkEntities \<Rightarrow> BulkResult \<Rightarrow> Store \<Rightarrow> Store \<times> BulkResult \<times> goerr option" where
  "atomicBulkInsert env bf toInsert result st =
     (case (if be_inserts toInsert \<noteq> [] then bulkInsertTransactionsTx env (be_inserts toInsert) result st else (result, Inr st)) of
        (result, Inl e) \<Rightarrow> (st, result, Some e)
      | (result, Inr st') \<Rightarrow>
          (case (if be_operations toInsert \<noteq> [] then bulkInsertOperationsTx env (be_operations toInsert) result st' else (result, Inr st')) of
             (result, Inl e) \<Rightarrow> (st, result, Some e)
           | (result, Inr st'') \<Rightarrow> (case bf_insert bf of Some e \<Rightarrow> (st, result, Some e) | None \<Rightarrow> (st'', result, None))))"

fun individual_updates :: "StoreEnv \<Rightarrow> Faults \<Rightarrow> TransactionRecord list \<Rightarrow> Store \<Rightarrow> Store \<times> nat" where
  "individual_updates env f [] st = (st, 0)"
| "individual_updates env f (tx # txs) st =
     (case UpdateTransactionStatus env f tx st of
        (st', Inl e) \<Rightarrow> individual_updates env f txs st'
      | (st', Inr _) \<Rightarrow> (let (st'', n) = individual_updates env f txs st' in (st'', Suc n)))"

definition individualUpdateTransactionStatus ::
    "StoreEnv \<Rightarrow> Faults \<Rightarrow> TransactionRecord list \<Rightarrow> BulkResult \<Rightarrow> Store \<Rightarrow> Store \<times> BulkResult \<times> goerr option" where
  "individualUpdateTransactionStatus env f transactions result st =
     (let (st', updated) = individual_updates env f transactions st
      in (st', result\<lparr>bk_TransactionsUpdated := updated\<rparr>,
          err_if (updated < length transactions) (Errorf ''failed to update transactions'')))"

definition performBulkStatusUpdate ::
    "StoreEnv \<Rightarrow> BulkFaults \<Rightarrow> TransactionRecord list \<Rightarrow> BulkResult \<Rightarrow> Store \<Rightarrow> Store \<times> BulkResult \<times> goerr option" where
  "performBulkStatusUpdate env bf transactions result st =
     (let result = result\<lparr>bk_TransactionsUpdateAttempted := length transactions\<rparr>
      in if bulkUpdateThreshold \<le> length transactions
         then (case UpdateBulk env bf transactions st of
                 (st', Inl e) \<Rightarrow> (st', result, Some (Wrapped ''bulk update transactions: '' e))
               | (st', Inr n) \<Rightarrow> (st', result\<lparr>bk_TransactionsUpdated := n\<rparr>, None))
         else individualUpdateTransactionStatus env (bf_single bf) transactions result st)"

definition performBulkInsertAndUpdate ::
    "StoreEnv \<Rightarrow> BulkFaults \<Rightarrow> bulkEntities \<Rightarrow> BulkResult \<Rightarrow> Store \<Rightarrow> Store \<times> BulkResult \<times> goerr option" where
  "performBulkInsertAndUpdate env bf entities result st =
     (case (if be_inserts entities \<noteq> [] \<or> be_operations entities \<noteq> [] then atomicBulkInsert env bf entities result st
            else (st, result, None)) of
        (st', result, Some e) \<Rightarrow> (st', result, Some e)
      | (st', result, None) \<Rightarrow>
          if be_updates entities \<noteq> [] then performBulkStatusUpdate env bf (be_updates entities) result st' else (st', result, None))"

section \<open>Metadata\<close>

record MetadataEntry =
  me_EntityID :: string
  me_Collection :: string
  me_Data :: "(string, jany) gomap"

definition MetadataEntry_Validate :: "extlib \<Rightarrow> MetadataEntry \<Rightarrow> goerr option" where
  "MetadataEntry_Validate lib e =
     (if me_EntityID e = '''' then Some (Errorf ''entity ID is required'')
      else if uuid_Parse lib (me_EntityID e) = None then Some (Errorf ''invalid entity ID format'')
      else err_if (me_Collection e = '''') (Errorf ''collection is required''))"

text \<open>The metadata of a payload: that of the transaction when it was inserted, that of the operations always.\<close>

definition collectMetadata :: "string list \<Rightarrow> TransactionProcessingPayload \<Rightarrow> MetadataEntry list" where
  "collectMetadata insertedTxIDs payload =
     (case pp_Transaction payload of
        None \<Rightarrow> []
      | Some tx \<Rightarrow>
          (case tr_Metadata tx of
             Some m \<Rightarrow> if insertedTxIDs = [] \<or> tr_ID tx \<in> set insertedTxIDs
               then [\<lparr>me_EntityID = tr_ID tx, me_Collection = ''Transaction'', me_Data = m\<rparr>] else []
           | None \<Rightarrow> []) @
          List.map_filter (\<lambda>op. map_option (\<lambda>m. \<lparr>me_EntityID = op_ID op, me_Collection = ''Operation'', me_Data = m\<rparr>) (op_Metadata op))
            (tr_Operations tx))"

definition collectMetadataFromPayloads :: "TransactionProcessingPayload list \<Rightarrow> string list \<Rightarrow> MetadataEntry list" where
  "collectMetadataFromPayloads payloads insertedTxIDs = concat (map (collectMetadata insertedTxIDs) payloads)"

definition create_entry :: "Faults \<Rightarrow> MetadataEntry \<Rightarrow> Store \<Rightarrow> Store" where
  "create_entry f e st = fst (CreateMetadataAsync f (Some (me_Data e)) (me_EntityID e) (me_Collection e) st)"

definition createMetadataForCollection :: "BulkFaults \<Rightarrow> string \<Rightarrow> MetadataEntry list \<Rightarrow> Store \<Rightarrow> Store" where
  "createMetadataForCollection bf collection entries st =
     (if length entries \<le> 1 then fold (create_entry (bf_single bf)) entries st
      else case bf_metadata bf collection of
             BulkWritten \<Rightarrow> fold (\<lambda>e. MetadataRepo_Create collection (me_EntityID e) (me_Data e)) (sort_key me_EntityID entries) st
           | Infrastructure _ \<Rightarrow> st
           | DocumentError _ \<Rightarrow> fold (create_entry (bf_single bf)) entries st)"

definition create_metadata_chunk :: "BulkFaults \<Rightarrow> MetadataEntry list \<Rightarrow> Store \<Rightarrow> Store" where
  "create_metadata_chunk bf chunk st =
     fold (\<lambda>c. createMetadataForCollection bf c (filter (\<lambda>e. me_Collection e = c) chunk)) (remdups (map me_Collection chunk)) st"

text \<open>The errors of the bulk write of metadata are only logged.\<close>

definition createMetadataBulk :: "extlib \<Rightarrow> BulkFaults \<Rightarrow> MetadataEntry list \<Rightarrow> Store \<Rightarrow> Store" where
  "createMetadataBulk lib bf entries st =
     (case first_err (map (MetadataEntry_Validate lib) entries) of
        Some e \<Rightarrow> st
      | None \<Rightarrow> fold (create_metadata_chunk bf) (chunks 9999 entries) st)"

section \<open>Events and clean-up\<close>

definition extractOrgLedgerIDs :: "extlib \<Rightarrow> TransactionProcessingPayload \<Rightarrow> goerr + uuid \<times> uuid" where
  "extractOrgLedgerIDs lib payload =
     (case pp_Transaction payload of
        None \<Rightarrow> Inl (Errorf ''nil transaction in payload'')
      | Some t \<Rightarrow>
          (case uuid_Parse lib (tr_OrganizationID t) of
             None \<Rightarrow> Inl (Errorf ''invalid organization ID'')
           | Some orgID \<Rightarrow>
               (case uuid_Parse lib (tr_LedgerID t) of
                  None \<Rightarrow> Inl (Errorf ''invalid ledger ID'')
                | Some ledgerID \<Rightarrow> Inr (orgID, ledgerID))))"

definition clean_payload :: "StoreEnv \<Rightarrow> Faults \<Rightarrow> TransactionProcessingPayload \<Rightarrow> Store \<Rightarrow> Store" where
  "clean_payload env f payload st =
     (case (pp_Transaction payload, extractOrgLedgerIDs (se_lib env) payload) of
        (Some tx, Inr (orgID, ledgerID)) \<Rightarrow>
          (let status = ExpectedBackupStatusForCleanup (tr_StatusCode tx) (pp_Validate payload);
               st = (if se_async env then RemoveTransactionFromRedisQueueIfStatus env f orgID ledgerID (tr_ID tx) status st
                     else RemoveTransactionFromRedisQueue env f orgID ledgerID (tr_ID tx) st)
           in DeleteWriteBehindTransaction env f orgID ledgerID (tr_ID tx) st)
      | _ \<Rightarrow> st)"

definition payload_events :: "string list \<Rightarrow> TransactionProcessingPayload \<Rightarrow> (TransactionRecord \<times> phase) list" where
  "payload_events insertedTxIDs payload =
     (case pp_Transaction payload of
        None \<Rightarrow> []
      | Some tx \<Rightarrow>
          if insertedTxIDs = [] then [(tx, PhaseUpdated)]
          else if tr_ID tx \<in> set insertedTxIDs then [(tx, PhaseCreated)]
          else [])"

definition processMetadataAndEvents ::
    "StoreEnv \<Rightarrow> BulkFaults \<Rightarrow> TransactionProcessingPayload list \<Rightarrow> string list \<Rightarrow> Store \<Rightarrow> Store \<times> (TransactionRecord \<times> phase) list" where
  "processMetadataAndEvents env bf payloads insertedTxIDs st =
     (let st = createMetadataBulk (se_lib env) bf (collectMetadataFromPayloads payloads insertedTxIDs) st
      in (fold (clean_payload env (bf_single bf)) payloads st, concat (map (payload_events insertedTxIDs) payloads)))"

section \<open>One by one\<close>

definition buildQueueDataFromPayload :: "extlib \<Rightarrow> TransactionProcessingPayload \<Rightarrow> goerr + Queue" where
  "buildQueueDataFromPayload lib payload =
     (case extractOrgLedgerIDs lib payload of
        Inl e \<Rightarrow> Inl e
      | Inr (orgID, ledgerID) \<Rightarrow> Inr \<lparr>qu_OrganizationID = orgID, qu_LedgerID = ledgerID, qu_Data = payload\<rparr>)"

text \<open>
  The state of the loop: the store, the number of successes, the last error and the events. A violated
  unique key never leaves the processing of one message, which takes it for a row that is there where
  it arises; the loop's own test for it has nothing to add.
\<close>

record FallbackState =
  fb_store :: Store
  fb_success :: nat
  fb_lastErr :: "goerr option"
  fb_events :: "(TransactionRecord \<times> phase) list"

definition fallback_step :: "StoreEnv \<Rightarrow> Faults \<Rightarrow> TransactionProcessingPayload \<Rightarrow> FallbackState \<Rightarrow> FallbackState" where
  "fallback_step env f payload s =
     (if pp_Transaction payload = None then s
      else case buildQueueDataFromPayload (se_lib env) payload of
             Inl e \<Rightarrow> s\<lparr>fb_lastErr := Some e\<rparr>
           | Inr queueData \<Rightarrow>
               (case CreateBalanceTransactionOperationsAsync env f queueData (fb_store s) of
                  (st', Inl e) \<Rightarrow> s\<lparr>fb_store := st', fb_lastErr := Some e\<rparr>
                | (st', Inr ev) \<Rightarrow> s\<lparr>fb_store := st', fb_success := Suc (fb_success s), fb_events := fb_events s @ [ev]\<rparr>))"

definition fallbackToIndividualProcessing ::
    "StoreEnv \<Rightarrow> Faults \<Rightarrow> TransactionProcessingPayload list \<Rightarrow> BulkResult \<Rightarrow> Store \<Rightarrow>
     Store \<times> (TransactionRecord \<times> phase) list \<times> BulkResult \<times> goerr option" where
  "fallbackToIndividualProcessing env f payloads result st =
     (let s = fold (fallback_step env f) payloads \<lparr>fb_store = st, fb_success = 0, fb_lastErr = None, fb_events = []\<rparr>;
          result = result\<lparr>bk_FallbackUsed := True, bk_FallbackCount := fb_success s\<rparr>
      in (fb_store s, fb_events s, result,
          if fb_success s \<noteq> length payloads
          then map_option (Wrapped ''partial fallback processing failed: '') (fb_lastErr s) else None))"

definition bulk_older_balances :: "StoreEnv \<Rightarrow> Faults \<Rightarrow> TransactionProcessingPayload \<Rightarrow> Store \<Rightarrow> Store" where
  "bulk_older_balances env f p st =
     (case (pp_Transaction p, pp_Validate p, extractOrgLedgerIDs (se_lib env) p) of
        (Some t, Some v, Inr (orgID, ledgerID)) \<Rightarrow>
          if pp_Version p = '''' \<and> tr_StatusCode t \<noteq> NOTED
          then fst (UpdateBalances env f orgID ledgerID v (pp_Balances p) (pp_BalancesAfter p) st) else st
      | _ \<Rightarrow> st)"

definition CreateBulkTransactionOperationsAsync ::
    "StoreEnv \<Rightarrow> BulkFaults \<Rightarrow> TransactionProcessingPayload list \<Rightarrow> Store \<Rightarrow>
     Store \<times> (TransactionRecord \<times> phase) list \<times> BulkResult \<times> goerr option" where
  "CreateBulkTransactionOperationsAsync env bf payloads st =
     (if payloads = [] then (st, [], BulkResult_zero, None)
      else (let st = fold (bulk_older_balances env (bf_single bf)) payloads st
            in case performBulkInsertAndUpdate env bf (classifyAndExtractEntities payloads) BulkResult_zero st of
                 (st', result, Some e) \<Rightarrow> fallbackToIndividualProcessing env (bf_single bf) payloads result st'
               | (st', result, None) \<Rightarrow>
                   (let (st'', events) = processMetadataAndEvents env bf payloads (bk_InsertedTransactionIDs result) st'
                    in (st'', events, result, None))))"

end
