(* ===== verification/TransactionBulkProofs.thy ===== *)
theory TransactionBulkProofs
  imports TransactionBulk
begin

text \<open>
  A bulk call stores every message of its batch, by the statements for many rows or, where those fail, one
  by one; its events, though, leave out settlements that share a batch with new transactions.
\<close>

section \<open>Batches\<close>

abbreviation tran :: "TransactionProcessingPayload \<Rightarrow> TransactionRecord" where
  "tran p \<equiv> the (pp_Transaction p)"

definition payload_ok :: "extlib \<Rightarrow> TransactionProcessingPayload \<Rightarrow> bool" where
  "payload_ok lib p \<longleftrightarrow>
     pp_Transaction p \<noteq> None \<and> message_ok p (tran p) \<and> pp_Version p \<noteq> '''' \<and>
     uuid_Parse lib (tr_OrganizationID (tran p)) \<noteq> None \<and> uuid_Parse lib (tr_LedgerID (tran p)) \<noteq> None \<and>
     (isStatusTransition p \<longrightarrow> tr_Operations (tran p) \<noteq> [])"

text \<open>Messages of the same transaction belong to the same ledger and settle it in the same way; an operation is the same everywhere.\<close>

definition agree :: "TransactionProcessingPayload \<Rightarrow> TransactionProcessingPayload \<Rightarrow> bool" where
  "agree p q \<longleftrightarrow>
     (tr_ID (tran p) = tr_ID (tran q) \<longrightarrow>
        tr_OrganizationID (tran p) = tr_OrganizationID (tran q) \<and> tr_LedgerID (tran p) = tr_LedgerID (tran q) \<and>
        (isStatusTransition p \<and> isStatusTransition q \<longrightarrow> tr_StatusCode (tran p) = tr_StatusCode (tran q))) \<and>
     (\<forall>op \<in> set (tr_Operations (tran p)). \<forall>op' \<in> set (tr_Operations (tran q)). op_ID op = op_ID op' \<longrightarrow> op = op')"

definition batch_ok :: "extlib \<Rightarrow> TransactionProcessingPayload list \<Rightarrow> bool" where
  "batch_ok lib ps \<longleftrightarrow> (\<forall>p \<in> set ps. payload_ok lib p) \<and> (\<forall>p \<in> set ps. \<forall>q \<in> set ps. agree p q)"

definition batch_rows_ok :: "TransactionProcessingPayload list \<Rightarrow> (string \<rightharpoonup> TransactionPostgreSQLModel) \<Rightarrow> bool" where
  "batch_rows_ok ps rows \<longleftrightarrow>
     (\<forall>p \<in> set ps. \<forall>row. rows (tr_ID (tran p)) = Some row \<longrightarrow> row_matches (tr_OrganizationID (tran p)) (tr_LedgerID (tran p)) row)"

definition batch_operations_ok :: "commons \<Rightarrow> TransactionProcessingPayload list \<Rightarrow> (string \<rightharpoonup> OperationPostgreSQLModel) \<Rightarrow> bool" where
  "batch_operations_ok cm ps rows \<longleftrightarrow>
     (\<forall>p \<in> set ps. \<forall>op \<in> set (tr_Operations (tran p)). rows (op_ID op) = None \<or> rows (op_ID op) = Some (Operation_FromEntity cm '''' op))"

definition operations_stored :: "commons \<Rightarrow> TransactionProcessingPayload \<Rightarrow> Store \<Rightarrow> bool" where
  "operations_stored cm p st \<longleftrightarrow>
     (\<forall>op \<in> set (tr_Operations (tran p)). st_operations st (op_ID op) = Some (Operation_FromEntity cm '''' op))"

text \<open>A message is stored: its transaction has a row, with the settled status if it settles, and so has each operation.\<close>

definition stored :: "commons \<Rightarrow> TransactionProcessingPayload \<Rightarrow> Store \<Rightarrow> bool" where
  "stored cm p st \<longleftrightarrow> row_there p (tran p) st \<and> operations_stored cm p st"

text \<open>The foreign key of operations.\<close>

definition operations_linked :: "Store \<Rightarrow> bool" where
  "operations_linked st \<longleftrightarrow> (\<forall>k row. st_operations st k = Some row \<longrightarrow> st_transactions st (pg_TransactionID row) \<noteq> None)"

lemma isStatusTransition_eligible: "pp_Transaction p = Some t \<Longrightarrow> isStatusTransition p = eligible_transition p t"
  by (simp add: isStatusTransition_def eligible_transition_def split: option.splits)

lemma batch_okD:
  assumes "batch_ok lib ps" and "p \<in> set ps"
  shows "pp_Transaction p = Some (tran p)" "message_ok p (tran p)" "payload_ok lib p"
    "isStatusTransition p = eligible_transition p (tran p)" "q \<in> set ps \<Longrightarrow> agree p q"
  using assms isStatusTransition_eligible [of p "tran p"] by (auto simp: batch_ok_def payload_ok_def)

lemma operations_stay_ok:
  assumes batch: "batch_ok lib ps" and p: "p \<in> set ps" and ok: "batch_operations_ok cm ps rows" and grown: "grown cm (tr_Operations (tran p)) rows rows'"
  shows "batch_operations_ok cm ps rows'"
  unfolding batch_operations_ok_def
proof (intro ballI)
  fix q op assume q: "q \<in> set ps" and op: "op \<in> set (tr_Operations (tran q))"
  show "rows' (op_ID op) = None \<or> rows' (op_ID op) = Some (Operation_FromEntity cm '''' op)"
  proof (cases "rows' (op_ID op) = rows (op_ID op)")
    case True
    then show ?thesis using ok q op by (simp add: batch_operations_ok_def)
  next
    case False
    then obtain op' where op': "op' \<in> set (tr_Operations (tran p))" "op_ID op' = op_ID op"
        "rows' (op_ID op) = Some (Operation_FromEntity cm '''' op')"
      using grown unfolding grown_def by blast
    moreover have "op' = op" using batch_okD(5) [OF batch p q] op op' by (simp add: agree_def)
    ultimately show ?thesis by simp
  qed
qed

section \<open>One by one\<close>

lemma clean_cache_tables:
  "st_transactions (clean_cache env f m s t st) = st_transactions st" "st_operations (clean_cache env f m s t st) = st_operations st"
  by (simp_all add: clean_cache_def Let_def DeleteWriteBehindTransaction_def RemoveTransactionFromRedisQueueIfStatus_def
      RemoveTransactionFromRedisQueue_def split: option.splits)

definition tables_fine :: "commons \<Rightarrow> TransactionProcessingPayload list \<Rightarrow> Store \<Rightarrow> bool" where
  "tables_fine cm ps st \<longleftrightarrow> batch_rows_ok ps (st_transactions st) \<and> batch_operations_ok cm ps (st_operations st)"

lemma rows_after_ok:
  assumes batch: "batch_ok lib ps" and p: "p \<in> set ps" and rows: "batch_rows_ok ps (st_transactions st)" and after: "row_after p (tran p) st st'"
  shows "batch_rows_ok ps (st_transactions st')"
  unfolding batch_rows_ok_def
proof (intro ballI allI impI)
  fix q row assume q: "q \<in> set ps" and row: "st_transactions st' (tr_ID (tran q)) = Some row"
  show "row_matches (tr_OrganizationID (tran q)) (tr_LedgerID (tran q)) row"
  proof (cases "st_transactions st' (tr_ID (tran q)) = st_transactions st (tr_ID (tran q))")
    case True
    then show ?thesis using rows q row by (simp add: batch_rows_ok_def)
  next
    case False
    then have ID: "tr_ID (tran p) = tr_ID (tran q)" using after unfolding row_after_def by metis
    then have "row_matches (tr_OrganizationID (tran p)) (tr_LedgerID (tran p)) row"
      using after False row unfolding row_after_def by auto
    then show ?thesis using batch_okD(5) [OF batch p q] ID by (simp add: agree_def)
  qed
qed

lemma row_there_after:
  assumes batch: "batch_ok lib ps" and p: "p \<in> set ps" and q: "q \<in> set ps" and there: "row_there q (tran q) st"
    and after: "row_after p (tran p) st st'"
  shows "row_there q (tran q) st'"
proof (cases "st_transactions st' (tr_ID (tran q)) = st_transactions st (tr_ID (tran q))")
  case True
  then show ?thesis using there by (simp add: row_there_def)
next
  case False
  then have ID: "tr_ID (tran p) = tr_ID (tran q)" using after unfolding row_after_def by metis
  have some: "st_transactions st (tr_ID (tran q)) \<noteq> None" using there by (auto simp: row_there_def split: option.splits)
  from after False ID obtain row where row: "st_transactions st' (tr_ID (tran q)) = Some row"
      "eligible_transition p (tran p)" "pt_Status row = tr_StatusCode (tran p)"
    using some unfolding row_after_def by (auto split: if_splits)
  have "eligible_transition q (tran q) \<Longrightarrow> tr_StatusCode (tran p) = tr_StatusCode (tran q)"
    using batch_okD(5) [OF batch p q] batch_okD(4) [OF batch p] batch_okD(4) [OF batch q] ID row(2) by (simp add: agree_def)
  then show ?thesis using row by (simp add: row_there_def)
qed

lemma single_step:
  assumes batch: "batch_ok lib ps" and p: "p \<in> set ps" and tables: "tables_fine (se_commons env) ps st" and m: "qu_Data m = p"
    and run: "CreateBalanceTransactionOperationsAsync env f m st = (st', r)" and faults: "faultless f"
  shows "tables_fine (se_commons env) ps st' \<and> (\<exists>x. r = Inr x) \<and> stored (se_commons env) p st' \<and>
     (\<forall>q \<in> set ps. stored (se_commons env) q st \<longrightarrow> stored (se_commons env) q st')"
proof -
  note pok = batch_okD [OF batch p]
  obtain t0 where t0: "pp_Transaction p = Some t0" using pok(1) by blast
  have older: "older_balances env f m (tran p) st = (st, None)" using pok(3) m by (simp add: older_balances_def payload_ok_def)
  obtain st1 r1 where rows: "write_rows env f p (tran p) st = (st1, r1)" by fastforce
  have row: "st_transactions st (tr_ID (tran p)) = Some row \<Longrightarrow> row_matches (tr_OrganizationID (tran p)) (tr_LedgerID (tran p)) row" for row
    using tables p by (simp add: tables_fine_def batch_rows_ok_def)
  note w = write_rows_step [OF pok(2) row rows]
  then obtain t ph where r1: "r1 = Inr (t, ph)" using faults by auto
  have res: "st' = clean_cache env f m (tr_StatusCode (tran p)) t st1" "r = Inr (t, ph)"
    using run t0 m older rows r1 by (simp_all add: CreateBalanceTransactionOperationsAsync_def)
  have eq: "st_transactions st' = st_transactions st1" "st_operations st' = st_operations st1" using res(1) by (simp_all add: clean_cache_tables)
  have after: "row_after p (tran p) st st'" and there: "row_there p (tran p) st'"
    and grown: "grown (se_commons env) (tr_Operations (tran p)) (st_operations st) (st_operations st')"
    and present: "\<forall>op \<in> set (tr_Operations (tran p)). st_operations st' (op_ID op) \<noteq> None"
    using w r1 eq by (auto simp: row_after_def row_there_def)
  have tables': "tables_fine (se_commons env) ps st'"
    using tables rows_after_ok [OF batch p _ after] operations_stay_ok [OF batch p _ grown] by (simp add: tables_fine_def)
  moreover have "stored (se_commons env) p st'"
    using there present tables' p unfolding stored_def operations_stored_def tables_fine_def batch_operations_ok_def by blast
  moreover have "stored (se_commons env) q st'" if q: "q \<in> set ps" "stored (se_commons env) q st" for q
    using q row_there_after [OF batch p q(1) _ after] grown_kept [OF grown] by (auto simp: stored_def operations_stored_def)
  ultimately show ?thesis using res(2) by blast
qed

lemma fallback_stores:
  assumes batch: "batch_ok (se_lib env) ps" and faults: "faultless f"
  shows "set qs \<subseteq> set ps \<Longrightarrow> tables_fine (se_commons env) ps (fb_store s) \<Longrightarrow> fb_lastErr s = None \<Longrightarrow>
     fb_success (fold (fallback_step env f) qs s) = fb_success s + length qs \<and> fb_lastErr (fold (fallback_step env f) qs s) = None \<and>
     (\<forall>q \<in> set ps. q \<in> set qs \<or> stored (se_commons env) q (fb_store s) \<longrightarrow>
        stored (se_commons env) q (fb_store (fold (fallback_step env f) qs s)))"
proof (induction qs arbitrary: s)
  case Nil
  then show ?case by simp
next
  case (Cons p qs)
  then have p: "p \<in> set ps" by simp
  note pok = batch_okD [OF batch p]
  obtain t0 where t0: "pp_Transaction p = Some t0" using pok(1) by blast
  obtain o1 o2 where ids: "uuid_Parse (se_lib env) (tr_OrganizationID (tran p)) = Some o1" "uuid_Parse (se_lib env) (tr_LedgerID (tran p)) = Some o2"
    using pok(3) by (auto simp: payload_ok_def)
  define m where "m = \<lparr>qu_OrganizationID = o1, qu_LedgerID = o2, qu_Data = p\<rparr>"
  have build: "buildQueueDataFromPayload (se_lib env) p = Inr m"
    using t0 ids by (simp add: buildQueueDataFromPayload_def extractOrgLedgerIDs_def m_def)
  obtain st' r where run: "CreateBalanceTransactionOperationsAsync env f m (fb_store s) = (st', r)" by fastforce
  have "qu_Data m = p" by (simp add: m_def)
  note e = single_step [OF batch p Cons.prems(2) this run faults]
  then obtain x where x: "r = Inr x" by blast
  define s' where "s' = s\<lparr>fb_store := st', fb_success := Suc (fb_success s), fb_events := fb_events s @ [x]\<rparr>"
  have step: "fallback_step env f p s = s'" using t0 build run x by (simp add: fallback_step_def s'_def)
  have "set qs \<subseteq> set ps" "tables_fine (se_commons env) ps (fb_store s')" "fb_lastErr s' = None" using Cons.prems e by (simp_all add: s'_def)
  from Cons.IH [OF this] show ?case using step e p by (auto simp: s'_def)
qed

section \<open>Statements on many rows\<close>

definition rows_added :: "('r \<Rightarrow> string) \<Rightarrow> 'r list \<Rightarrow> (string \<rightharpoonup> 'r) \<Rightarrow> (string \<rightharpoonup> 'r) \<Rightarrow> bool" where
  "rows_added key records rows rows' \<longleftrightarrow>
     (\<forall>k. rows' k = rows k \<or> rows k = None \<and> (\<exists>r \<in> set records. key r = k \<and> rows' k = Some r)) \<and>
     (\<forall>r \<in> set records. rows' (key r) \<noteq> None)"

lemma rows_added_kept: "rows_added key records rows rows' \<Longrightarrow> rows k \<noteq> None \<Longrightarrow> rows' k = rows k"
  unfolding rows_added_def by metis

lemma rows_added_None:
  assumes "rows_added key records rows rows'"
  shows "rows' k = None \<longleftrightarrow> rows k = None \<and> k \<notin> key ` set records"
proof
  assume none: "rows' k = None"
  then have "rows k = None" using rows_added_kept [OF assms, of k] by fastforce
  moreover have "k \<notin> key ` set records" using assms none unfolding rows_added_def by fastforce
  ultimately show "rows k = None \<and> k \<notin> key ` set records" by blast
next
  assume "rows k = None \<and> k \<notin> key ` set records"
  then show "rows' k = None" using assms unfolding rows_added_def by (metis image_eqI)
qed

lemma rows_added_append:
  assumes "rows_added key xs a b" and "rows_added key ys b c"
  shows "rows_added key (xs @ ys) a c"
  unfolding rows_added_def
proof (intro conjI allI ballI)
  fix k
  show "c k = a k \<or> a k = None \<and> (\<exists>r \<in> set (xs @ ys). key r = k \<and> c k = Some r)"
    using assms unfolding rows_added_def by (metis Un_iff set_append)
next
  fix r assume "r \<in> set (xs @ ys)"
  then show "c (key r) \<noteq> None" using assms rows_added_kept [OF assms(2)] unfolding rows_added_def by auto
qed

lemma fold_add_row:
  "rows_added key records rows (fst (fold (add_row key) records (rows, ids))) \<and>
   (\<forall>k. k \<in> set (snd (fold (add_row key) records (rows, ids))) \<longleftrightarrow> k \<in> set ids \<or> rows k = None \<and> k \<in> key ` set records)"
proof (induction records arbitrary: rows ids)
  case Nil
  then show ?case by (simp add: rows_added_def)
next
  case (Cons r records)
  show ?case
  proof (cases "rows (key r)")
    case None
    define rows1 where "rows1 = rows(key r \<mapsto> r)"
    have empty: "rows1 k = None \<longleftrightarrow> k \<noteq> key r \<and> rows k = None" for k by (simp add: rows1_def)
    obtain rows' ids' where f: "fold (add_row key) records (rows1, ids @ [key r]) = (rows', ids')" by fastforce
    have step: "fold (add_row key) (r # records) (rows, ids) = (rows', ids')"
      using None f by (simp add: add_row_def rows1_def)
    have "rows_added key [r] rows rows1" using None by (auto simp: rows_added_def rows1_def)
    from rows_added_append [OF this, of records rows'] have "rows_added key (r # records) rows rows'"
      using Cons.IH [of rows1 "ids @ [key r]"] f by simp
    moreover have "k \<in> set ids' \<longleftrightarrow> k \<in> set ids \<or> rows k = None \<and> k \<in> key ` set (r # records)" for k
      using Cons.IH [of rows1 "ids @ [key r]"] f empty None by auto
    ultimately show ?thesis unfolding step by simp
  next
    case (Some x)
    obtain rows' ids' where f: "fold (add_row key) records (rows, ids) = (rows', ids')" by fastforce
    have step: "fold (add_row key) (r # records) (rows, ids) = (rows', ids')"
      using Some f by (simp add: add_row_def)
    have "rows_added key [r] rows rows" using Some by (auto simp: rows_added_def)
    from rows_added_append [OF this, of records rows'] have "rows_added key (r # records) rows rows'"
      using Cons.IH [of rows ids] f by simp
    moreover have "k \<in> set ids' \<longleftrightarrow> k \<in> set ids \<or> rows k = None \<and> k \<in> key ` set (r # records)" for k
      using Cons.IH [of rows ids] f Some by auto
    ultimately show ?thesis unfolding step by simp
  qed
qed

lemma concat_chunks [simp]: "concat (chunks n xs) = xs"
  by (induction n xs rule: chunks.induct) simp_all

text \<open>The rows of transactions and operations as statements make them.\<close>

definition transaction_rows :: "StoreEnv \<Rightarrow> TransactionRecord list \<Rightarrow> TransactionPostgreSQLModel list" where
  "transaction_rows env ts = map (Transaction_FromEntity (se_commons env) (se_newID env)) ts"

definition operation_rows :: "StoreEnv \<Rightarrow> Operation list \<Rightarrow> OperationPostgreSQLModel list" where
  "operation_rows env ops = map (Operation_FromEntity (se_commons env) (se_newID env)) ops"

lemma insertTransactionChunk_ok:
  assumes "\<forall>t \<in> set ts. tr_ParentTransactionID t = None"
  shows "\<exists>rows ids. insertTransactionChunk env ts st = Inr (st\<lparr>st_transactions := rows\<rparr>, ids) \<and>
     rows_added pt_ID (transaction_rows env ts) (st_transactions st) rows \<and>
     set ids = {k. st_transactions st k = None \<and> k \<in> pt_ID ` set (transaction_rows env ts)}"
proof -
  obtain rows ids where rows: "fold (add_row pt_ID) (transaction_rows env ts) (st_transactions st, []) = (rows, ids)" by fastforce
  have added: "rows_added pt_ID (transaction_rows env ts) (st_transactions st) rows"
    and ids: "k \<in> set ids \<longleftrightarrow> st_transactions st k = None \<and> k \<in> pt_ID ` set (transaction_rows env ts)" for k
    using fold_add_row [of pt_ID "transaction_rows env ts" "st_transactions st" "[]"] rows by auto
  have parents: "pt_ParentTransactionID r = None" if "r \<in> set (transaction_rows env ts)" for r
    using assms that by (auto simp: transaction_rows_def Transaction_FromEntity_def)
  have "case rows k of None \<Rightarrow> True | Some row \<Rightarrow> (case pt_ParentTransactionID row of None \<Rightarrow> True | Some p \<Rightarrow> rows p \<noteq> None)" if "k \<in> set ids" for k
  proof (cases "rows k")
    case (Some row)
    then have "row \<in> set (transaction_rows env ts)" using added that ids unfolding rows_added_def by (metis option.inject option.simps(3))
    then show ?thesis using Some parents by simp
  qed simp
  then have "insertTransactionChunk env ts st = Inr (st\<lparr>st_transactions := rows\<rparr>, ids)"
    using rows by (simp add: insertTransactionChunk_def transaction_rows_def [symmetric])
  then show ?thesis using added ids by blast
qed

lemma insert_transactions:
  assumes "\<forall>t \<in> set (concat cs). tr_ParentTransactionID t = None"
  shows "\<exists>rows ids. insert_chunks (insertTransactionChunk env) cs st = Inr (st\<lparr>st_transactions := rows\<rparr>, ids) \<and>
     rows_added pt_ID (transaction_rows env (concat cs)) (st_transactions st) rows \<and>
     set ids = {k. st_transactions st k = None \<and> k \<in> pt_ID ` set (transaction_rows env (concat cs))}"
  using assms
proof (induction cs arbitrary: st)
  case Nil
  have "rows_added pt_ID [] (st_transactions st) (st_transactions st)" by (simp add: rows_added_def)
  then show ?case by (intro exI [of _ "st_transactions st"] exI [of _ "[]"]) (simp add: transaction_rows_def)
next
  case (Cons c cs)
  obtain rows ids where c: "insertTransactionChunk env c st = Inr (st\<lparr>st_transactions := rows\<rparr>, ids)"
      "rows_added pt_ID (transaction_rows env c) (st_transactions st) rows"
      "set ids = {k. st_transactions st k = None \<and> k \<in> pt_ID ` set (transaction_rows env c)}"
    using insertTransactionChunk_ok [of c env st] Cons.prems by auto
  obtain rows' ids' where cs: "insert_chunks (insertTransactionChunk env) cs (st\<lparr>st_transactions := rows\<rparr>) = Inr (st\<lparr>st_transactions := rows'\<rparr>, ids')"
      "rows_added pt_ID (transaction_rows env (concat cs)) rows rows'"
      "set ids' = {k. rows k = None \<and> k \<in> pt_ID ` set (transaction_rows env (concat cs))}"
    using Cons.IH [of "st\<lparr>st_transactions := rows\<rparr>"] Cons.prems by auto
  have split: "transaction_rows env (concat (c # cs)) = transaction_rows env c @ transaction_rows env (concat cs)"
    by (simp add: transaction_rows_def)
  have "set (ids @ ids') = {k. st_transactions st k = None \<and> k \<in> pt_ID ` set (transaction_rows env (concat (c # cs)))}"
    using c(3) cs(3) rows_added_None [OF c(2)] unfolding split by auto
  moreover have "rows_added pt_ID (transaction_rows env (concat (c # cs))) (st_transactions st) rows'"
    unfolding split by (rule rows_added_append [OF c(2) cs(2)])
  ultimately show ?case using c(1) cs(1) by auto
qed

lemma insert_operations:
  assumes "insert_chunks (insertOperationChunk env) cs st = Inr (st', ids)"
  shows "st' = st\<lparr>st_operations := st_operations st'\<rparr> \<and> rows_added pg_ID (operation_rows env (concat cs)) (st_operations st) (st_operations st') \<and>
     (\<forall>k row. st_operations st k = None \<and> st_operations st' k = Some row \<longrightarrow> st_transactions st (pg_TransactionID row) \<noteq> None)"
  using assms
proof (induction cs arbitrary: st ids)
  case Nil
  then show ?case by (auto simp: rows_added_def operation_rows_def)
next
  case (Cons c cs)
  obtain rows ids1 where rows: "fold (add_row pg_ID) (operation_rows env c) (st_operations st, []) = (rows, ids1)" by fastforce
  have added: "rows_added pg_ID (operation_rows env c) (st_operations st) rows"
    and ids1: "k \<in> set ids1 \<longleftrightarrow> st_operations st k = None \<and> k \<in> pg_ID ` set (operation_rows env c)" for k
    using fold_add_row [of pg_ID "operation_rows env c" "st_operations st" "[]"] rows by auto
  have chunk: "\<forall>k \<in> set ids1. case rows k of None \<Rightarrow> True | Some row \<Rightarrow> st_transactions st (pg_TransactionID row) \<noteq> None"
    and first: "insertOperationChunk env c st = Inr (st\<lparr>st_operations := rows\<rparr>, ids1)"
    using Cons.prems rows by (auto simp: insertOperationChunk_def operation_rows_def [symmetric] Let_def split: if_splits)
  from Cons.prems first obtain ids2 where rest: "insert_chunks (insertOperationChunk env) cs (st\<lparr>st_operations := rows\<rparr>) = Inr (st', ids2)"
    by (auto split: sum.splits)
  note ih = Cons.IH [OF rest]
  have linked: "st_transactions st (pg_TransactionID row) \<noteq> None" if "st_operations st k = None" "st_operations st' k = Some row" for k row
  proof (cases "rows k")
    case None
    then show ?thesis using ih that by auto
  next
    case (Some row')
    then have "row' = row" using ih that rows_added_kept [of pg_ID "operation_rows env (concat cs)" rows "st_operations st'" k] by auto
    moreover have "k \<in> set ids1" using added Some that ids1 unfolding rows_added_def by (metis image_eqI option.simps(3))
    ultimately show ?thesis using chunk Some by auto
  qed
  have "rows_added pg_ID (operation_rows env c @ operation_rows env (concat cs)) (st_operations st) (st_operations st')"
    by (rule rows_added_append [OF added]) (use ih in simp)
  moreover have "st' = st\<lparr>st_operations := st_operations st'\<rparr>" using ih by (metis Store.update_convs(2) Store.surjective)
  ultimately show ?case using linked by (auto simp: operation_rows_def)
qed

section \<open>Updates of many rows\<close>

definition has_status :: "TransactionRecord \<Rightarrow> Store \<Rightarrow> bool" where
  "has_status t st \<longleftrightarrow>
     (\<exists>row. st_transactions st (tr_ID t) = Some row \<and> row_matches (tr_OrganizationID t) (tr_LedgerID t) row \<and> pt_Status row = tr_StatusCode t)"

definition has_row :: "TransactionRecord \<Rightarrow> Store \<Rightarrow> bool" where
  "has_row t st \<longleftrightarrow> (\<exists>row. st_transactions st (tr_ID t) = Some row \<and> row_matches (tr_OrganizationID t) (tr_LedgerID t) row)"

definition same_settlement :: "TransactionRecord \<Rightarrow> TransactionRecord \<Rightarrow> bool" where
  "same_settlement t t' \<longleftrightarrow>
     (tr_ID t = tr_ID t' \<longrightarrow>
        tr_OrganizationID t = tr_OrganizationID t' \<and> tr_LedgerID t = tr_LedgerID t' \<and> tr_StatusCode t = tr_StatusCode t')"

text \<open>Only the row of a transaction changes, and it gets its status.\<close>

definition status_set :: "TransactionRecord \<Rightarrow> Store \<Rightarrow> Store \<Rightarrow> bool" where
  "status_set t st st' \<longleftrightarrow> has_status t st' \<and> st' = st\<lparr>st_transactions := st_transactions st'\<rparr> \<and>
     (\<forall>k. k \<noteq> tr_ID t \<longrightarrow> st_transactions st' k = st_transactions st k)"

fun status_sets :: "TransactionRecord list \<Rightarrow> Store \<Rightarrow> Store \<Rightarrow> bool" where
  "status_sets [] st st' = (st' = st)"
| "status_sets (t # ts) st st' = (\<exists>st1. status_set t st st1 \<and> status_sets ts st1 st')"

lemma status_sets_append: "status_sets xs st st1 \<Longrightarrow> status_sets ys st1 st2 \<Longrightarrow> status_sets (xs @ ys) st st2"
  by (induction xs arbitrary: st) auto

lemma has_row_status: "has_status t st \<Longrightarrow> has_row t st"
  by (auto simp: has_status_def has_row_def)

lemma status_set_keeps:
  assumes set1: "status_set t st st'" and same: "same_settlement t t'"
  shows "has_status t' st \<Longrightarrow> has_status t' st'" and "has_row t' st \<Longrightarrow> has_row t' st'"
proof -
  show "has_status t' st'" if "has_status t' st"
  proof (cases "tr_ID t = tr_ID t'")
    case True
    then show ?thesis using set1 same by (simp add: status_set_def same_settlement_def has_status_def)
  next
    case False
    then show ?thesis using set1 that by (simp add: status_set_def has_status_def)
  qed
  show "has_row t' st'" if "has_row t' st"
  proof (cases "tr_ID t = tr_ID t'")
    case True
    then show ?thesis using set1 same by (auto simp: status_set_def same_settlement_def has_status_def has_row_def)
  next
    case False
    then show ?thesis using set1 that by (simp add: status_set_def has_row_def)
  qed
qed

lemma status_sets_result:
  assumes "status_sets ts st st'"
  shows "st' = st\<lparr>st_transactions := st_transactions st'\<rparr>" "(\<forall>k. k \<notin> tr_ID ` set ts \<longrightarrow> st_transactions st' k = st_transactions st k)"
    "(\<forall>t \<in> set ts. \<forall>t' \<in> set ts. same_settlement t t') \<Longrightarrow> t \<in> set ts \<Longrightarrow> has_status t st'"
proof -
  show "st' = st\<lparr>st_transactions := st_transactions st'\<rparr>"
    using assms
  proof (induction ts arbitrary: st)
    case (Cons t ts)
    then obtain st1 where "status_set t st st1" "st' = st1\<lparr>st_transactions := st_transactions st'\<rparr>" by auto
    then show ?case unfolding status_set_def by (metis Store.update_convs(1) Store.surjective)
  qed simp
  show "\<forall>k. k \<notin> tr_ID ` set ts \<longrightarrow> st_transactions st' k = st_transactions st k"
    using assms by (induction ts arbitrary: st) (auto simp: status_set_def)
  have keep: "status_sets ts st st' \<Longrightarrow> has_status u st \<Longrightarrow> \<forall>t \<in> set ts. same_settlement t u \<Longrightarrow> has_status u st'" for u ts st
    by (induction ts arbitrary: st) (auto dest: status_set_keeps(1))
  have "status_sets ts st st' \<Longrightarrow> \<forall>t \<in> set ts. \<forall>t' \<in> set ts. same_settlement t t' \<Longrightarrow> t \<in> set ts \<Longrightarrow> has_status t st'" for ts st
  proof (induction ts arbitrary: st)
    case (Cons u ts)
    then obtain st1 where st1: "status_set u st st1" "status_sets ts st1 st'" by auto
    show ?case
    proof (cases "t \<in> set ts")
      case True
      then show ?thesis using Cons.IH [OF st1(2)] Cons.prems(2) by simp
    next
      case False
      then have "t = u" using Cons.prems(3) by simp
      then show ?thesis using keep [OF st1(2), of t] st1(1) Cons.prems(2) by (simp add: status_set_def)
    qed
  qed simp
  then show "(\<forall>t \<in> set ts. \<forall>t' \<in> set ts. same_settlement t t') \<Longrightarrow> t \<in> set ts \<Longrightarrow> has_status t st'" using assms by blast
qed

lemma UpdateTransactionStatus_sets:
  assumes "f_update f = None" and "has_row t st" and "tr_StatusCode t \<noteq> ''''"
  shows "\<exists>st' x. UpdateTransactionStatus env f t st = (st', Inr x) \<and> status_set t st st'"
proof -
  obtain row where row: "st_transactions st (tr_ID t) = Some row" "row_matches (tr_OrganizationID t) (tr_LedgerID t) row"
    using assms(2) by (auto simp: has_row_def)
  define st' where "st' = st\<lparr>st_transactions := (st_transactions st)(tr_ID t \<mapsto> updated_row env t row)\<rparr>"
  have "row_matches (tr_OrganizationID t) (tr_LedgerID t) (updated_row env t row)" "pt_Status (updated_row env t row) = tr_StatusCode t"
    using row(2) assms(3) by (simp_all add: updated_row_def row_matches_def Let_def)
  then have "status_set t st st'" by (simp add: status_set_def has_status_def st'_def)
  moreover have "\<exists>x. UpdateTransactionStatus env f t st = (st', Inr x)"
    using row assms(1) by (simp add: UpdateTransactionStatus_def TransactionRepo_Update_def row_matches_def st'_def)
  ultimately show ?thesis by blast
qed

lemma individual_updates_set:
  assumes "f_update f = None"
  shows "\<forall>t \<in> set ts. has_row t st \<and> tr_StatusCode t \<noteq> '''' \<Longrightarrow> \<forall>t \<in> set ts. \<forall>t' \<in> set ts. same_settlement t t' \<Longrightarrow>
     \<exists>st'. individual_updates env f ts st = (st', length ts) \<and> status_sets ts st st'"
proof (induction ts arbitrary: st)
  case (Cons t ts)
  obtain st1 x where st1: "UpdateTransactionStatus env f t st = (st1, Inr x)" "status_set t st st1"
    using UpdateTransactionStatus_sets [OF assms, of t st env] Cons.prems(1) by auto
  have "\<forall>t' \<in> set ts. has_row t' st1 \<and> tr_StatusCode t' \<noteq> ''''"
    using Cons.prems status_set_keeps(2) [OF st1(2)] by simp
  from Cons.IH [OF this] Cons.prems(2) obtain st' where "individual_updates env f ts st1 = (st', length ts)" "status_sets ts st1 st'" by auto
  then show ?case using st1 by auto
qed simp

lemma update_status_row_sets:
  assumes "has_row t st" and "tr_ID t \<noteq> ''''"
  shows "\<exists>st' n'. update_status_row env t (st, n) = (st', n') \<and> status_set t st st'"
proof -
  obtain row where row: "st_transactions st (tr_ID t) = Some row" "row_matches (tr_OrganizationID t) (tr_LedgerID t) row"
    using assms(1) by (auto simp: has_row_def)
  define new_row where "new_row = Transaction_FromEntity (se_commons env) (se_newID env) t"
  have new_row: "pt_ID new_row = tr_ID t" "pt_OrganizationID new_row = tr_OrganizationID t" "pt_LedgerID new_row = tr_LedgerID t"
      "pt_Status new_row = tr_StatusCode t"
    using assms(2) by (simp_all add: new_row_def Transaction_FromEntity_def)
  define row' where "row' = (if pt_Status row \<noteq> tr_StatusCode t then row\<lparr>pt_Status := pt_Status new_row,
      pt_StatusDescription := pt_StatusDescription new_row, pt_UpdatedAt := se_now env\<rparr> else row)"
  define st' where "st' = st\<lparr>st_transactions := (st_transactions st)(tr_ID t \<mapsto> row')\<rparr>"
  have same: "(st_transactions st)(tr_ID t \<mapsto> row) = st_transactions st" using row(1) by auto
  have "\<exists>n'. update_status_row env t (st, n) = (st', n')"
    using row new_row same by (simp add: update_status_row_def new_row_def [symmetric] row_matches_def st'_def row'_def)
  moreover have "row_matches (tr_OrganizationID t) (tr_LedgerID t) row'" "pt_Status row' = tr_StatusCode t"
    using row(2) new_row by (simp_all add: row'_def row_matches_def)
  then have "status_set t st st'" by (simp add: status_set_def has_status_def st'_def)
  ultimately show ?thesis by blast
qed

lemma updateTransactionChunk_sets:
  "\<forall>t \<in> set ts. has_row t st \<and> tr_ID t \<noteq> '''' \<Longrightarrow> \<forall>t \<in> set ts. \<forall>t' \<in> set ts. same_settlement t t' \<Longrightarrow>
     \<exists>st' n'. fold (update_status_row env) ts (st, n) = (st', n') \<and> status_sets ts st st'"
proof (induction ts arbitrary: st n)
  case (Cons t ts)
  obtain st1 n1 where st1: "update_status_row env t (st, n) = (st1, n1)" "status_set t st st1"
    using update_status_row_sets [of t st env n] Cons.prems(1) by auto
  have "\<forall>t' \<in> set ts. has_row t' st1 \<and> tr_ID t' \<noteq> ''''"
    using Cons.prems status_set_keeps(2) [OF st1(2)] by simp
  from Cons.IH [OF this, of n1] Cons.prems(2) show ?case using st1 by auto
qed simp

lemma has_row_sets:
  "status_sets ts st st' \<Longrightarrow> has_row u st \<Longrightarrow> \<forall>t \<in> set ts. same_settlement t u \<Longrightarrow> has_row u st'"
  by (induction ts arbitrary: st) (auto dest: status_set_keeps(2))

lemma update_chunks_set:
  "\<forall>t \<in> set (concat cs). has_row t st \<and> tr_ID t \<noteq> '''' \<Longrightarrow>
   \<forall>t \<in> set (concat cs). \<forall>t' \<in> set (concat cs). same_settlement t t' \<Longrightarrow> \<forall>i. fails i = None \<Longrightarrow>
     \<exists>st' n. update_chunks env fails i cs st = (st', Inr n) \<and> status_sets (concat cs) st st'"
proof (induction cs arbitrary: st i)
  case (Cons c cs)
  obtain st1 n1 where st1: "updateTransactionChunk env c st = (st1, n1)" "status_sets c st st1"
    using updateTransactionChunk_sets [of c st env 0] Cons.prems(1,2) by (auto simp: updateTransactionChunk_def)
  have "\<forall>t \<in> set (concat cs). has_row t st1 \<and> tr_ID t \<noteq> ''''"
    using Cons.prems(1,2) has_row_sets [OF st1(2)] by simp
  from Cons.IH [OF this _ Cons.prems(3), of "Suc i"] Cons.prems(2) obtain st' n where
      rest: "update_chunks env fails (Suc i) cs st1 = (st', Inr n)" "status_sets (concat cs) st1 st'" by auto
  have "fails i = None" using Cons.prems(3) by blast
  then have "update_chunks env fails i (c # cs) st = (st', Inr (n1 + n))" using st1(1) rest(1) by simp
  then show ?case using status_sets_append [OF st1(2) rest(2)] by auto
qed simp

section \<open>A bulk call\<close>

definition bulk_faultless :: "BulkFaults \<Rightarrow> bool" where
  "bulk_faultless bf \<longleftrightarrow> bf_insert bf = None \<and> (\<forall>i. bf_update bf i = None) \<and> faultless (bf_single bf)"

text \<open>The entities of a batch.\<close>

lemma be_inserts_elem:
  assumes batch: "batch_ok lib ps" and t: "t \<in> set (be_inserts (classifyAndExtractEntities ps))"
  obtains p where "p \<in> set ps" "\<not> isStatusTransition p" "tr_ID t = tr_ID (tran p)" "tr_ParentTransactionID t = None" "tr_DeletedAt t = None"
    "tr_OrganizationID t = tr_OrganizationID (tran p)" "tr_LedgerID t = tr_LedgerID (tran p)"
proof -
  from t obtain p where p: "p \<in> set ps" "t \<in> set (payload_inserts p)" by (auto simp: classifyAndExtractEntities_def)
  obtain u where u: "pp_Transaction p = Some u" using batch_okD(1) [OF batch p(1)] by blast
  have ok: "message_ok p u" using batch_okD(2) [OF batch p(1)] u by simp
  have "\<not> isStatusTransition p" "t = prepareTransactionForInsert u" using p(2) u by (auto simp: payload_inserts_def split: if_splits)
  with p(1) u ok show thesis by (intro that [of p]) (simp_all add: prepareTransactionForInsert_def message_ok_def)
qed

lemma be_inserts_there:
  assumes "batch_ok lib ps" and "p \<in> set ps" and "\<not> isStatusTransition p"
  shows "\<exists>t \<in> set (be_inserts (classifyAndExtractEntities ps)). tr_ID t = tr_ID (tran p)"
proof -
  obtain u where u: "pp_Transaction p = Some u" using batch_okD(1) [OF assms(1,2)] by blast
  then have "prepareTransactionForInsert u \<in> set (be_inserts (classifyAndExtractEntities ps))"
    using assms(2,3) by (auto simp: classifyAndExtractEntities_def payload_inserts_def intro!: bexI [of _ p])
  moreover have "tr_ID (prepareTransactionForInsert u) = tr_ID (tran p)" using u by (simp add: prepareTransactionForInsert_def)
  ultimately show ?thesis by blast
qed

lemma be_operations_set:
  assumes "batch_ok lib ps"
  shows "set (be_operations (classifyAndExtractEntities ps)) = (\<Union>p \<in> set ps. set (tr_Operations (tran p)))"
proof -
  have "payload_operations p = tr_Operations (tran p)" if p: "p \<in> set ps" for p
  proof -
    obtain u where "pp_Transaction p = Some u" using batch_okD(1) [OF assms p] by blast
    then show ?thesis by (simp add: payload_operations_def)
  qed
  then show ?thesis by (auto simp: classifyAndExtractEntities_def)
qed

lemma be_updates_set:
  assumes "batch_ok lib ps"
  shows "set (be_updates (classifyAndExtractEntities ps)) = (\<lambda>p. (tran p)\<lparr>tr_Body := Transaction_zero\<rparr>) ` {p \<in> set ps. isStatusTransition p}"
proof -
  have "payload_updates p = (if isStatusTransition p then [(tran p)\<lparr>tr_Body := Transaction_zero\<rparr>] else [])" if p: "p \<in> set ps" for p
  proof -
    obtain u where "pp_Transaction p = Some u" using batch_okD(1) [OF assms p] by blast
    then show ?thesis by (simp add: payload_updates_def)
  qed
  then show ?thesis by (auto simp: classifyAndExtractEntities_def split: if_splits)
qed

text \<open>What the inserts leave behind.\<close>

lemma bulk_transactions:
  assumes batch: "batch_ok lib ps" and rows: "batch_rows_ok ps (st_transactions st)"
    and added: "rows_added pt_ID (transaction_rows env ts) (st_transactions st) rows'" and ts: "set ts = set (be_inserts (classifyAndExtractEntities ps))"
  shows "batch_rows_ok ps rows'" and "p \<in> set ps \<Longrightarrow> \<not> isStatusTransition p \<Longrightarrow> rows' (tr_ID (tran p)) \<noteq> None"
proof -
  show "batch_rows_ok ps rows'" unfolding batch_rows_ok_def
  proof (intro ballI allI impI)
    fix p row assume p: "p \<in> set ps" and row: "rows' (tr_ID (tran p)) = Some row"
    show "row_matches (tr_OrganizationID (tran p)) (tr_LedgerID (tran p)) row"
    proof (cases "rows' (tr_ID (tran p)) = st_transactions st (tr_ID (tran p))")
      case True
      then show ?thesis using rows p row by (simp add: batch_rows_ok_def)
    next
      case False
      then obtain r where r: "r \<in> set (transaction_rows env ts)" "pt_ID r = tr_ID (tran p)" "row = r"
        using added row unfolding rows_added_def by (metis option.inject)
      then obtain t where t: "t \<in> set ts" "r = Transaction_FromEntity (se_commons env) (se_newID env) t" by (auto simp: transaction_rows_def)
      obtain q where q: "q \<in> set ps" "tr_ID t = tr_ID (tran q)" "tr_DeletedAt t = None"
          "tr_OrganizationID t = tr_OrganizationID (tran q)" "tr_LedgerID t = tr_LedgerID (tran q)"
        using be_inserts_elem [OF batch, of t] t(1) ts by metis
      have "tr_ID (tran q) \<noteq> ''''" using batch_okD(2) [OF batch q(1)] by (simp add: message_ok_def)
      then have "tr_ID (tran q) = tr_ID (tran p)" "row_matches (tr_OrganizationID (tran q)) (tr_LedgerID (tran q)) r"
        using r(2) t(2) q by (simp_all add: Transaction_FromEntity_def row_matches_def)
      then show ?thesis using batch_okD(5) [OF batch q(1) p] r(3) by (simp add: agree_def)
    qed
  qed
  assume p: "p \<in> set ps" "\<not> isStatusTransition p"
  then obtain t where t: "t \<in> set ts" "tr_ID t = tr_ID (tran p)" using be_inserts_there [OF batch p] ts by blast
  have "tr_ID (tran p) \<noteq> ''''" using batch_okD(2) [OF batch p(1)] by (simp add: message_ok_def)
  then have "pt_ID (Transaction_FromEntity (se_commons env) (se_newID env) t) = tr_ID (tran p)" using t(2) by (simp add: Transaction_FromEntity_def)
  moreover have "Transaction_FromEntity (se_commons env) (se_newID env) t \<in> set (transaction_rows env ts)" using t(1) by (simp add: transaction_rows_def)
  ultimately show "rows' (tr_ID (tran p)) \<noteq> None" using added unfolding rows_added_def by metis
qed

lemma bulk_operations:
  assumes batch: "batch_ok lib ps" and rows: "batch_operations_ok (se_commons env) ps (st_operations st)"
    and added: "rows_added pg_ID (operation_rows env ops) (st_operations st) rows'" and ops: "set ops = (\<Union>p \<in> set ps. set (tr_Operations (tran p)))"
  shows "batch_operations_ok (se_commons env) ps rows'"
    and "p \<in> set ps \<Longrightarrow> op \<in> set (tr_Operations (tran p)) \<Longrightarrow> rows' (op_ID op) = Some (Operation_FromEntity (se_commons env) '''' op)"
proof -
  have opID: "op_ID op \<noteq> ''''" if "p \<in> set ps" "op \<in> set (tr_Operations (tran p))" for p op
    using batch_okD(2) [OF batch that(1)] that(2) by (simp add: message_ok_def operation_ok_def)
  show ok: "batch_operations_ok (se_commons env) ps rows'" unfolding batch_operations_ok_def
  proof (intro ballI)
    fix p op assume p: "p \<in> set ps" and op: "op \<in> set (tr_Operations (tran p))"
    show "rows' (op_ID op) = None \<or> rows' (op_ID op) = Some (Operation_FromEntity (se_commons env) '''' op)"
    proof (cases "rows' (op_ID op) = st_operations st (op_ID op)")
      case True
      then show ?thesis using rows p op by (simp add: batch_operations_ok_def)
    next
      case False
      then obtain r where r: "r \<in> set (operation_rows env ops)" "pg_ID r = op_ID op" "rows' (op_ID op) = Some r"
        using added unfolding rows_added_def by metis
      then obtain q op' where q: "q \<in> set ps" "op' \<in> set (tr_Operations (tran q))" "r = Operation_FromEntity (se_commons env) (se_newID env) op'"
        using ops by (auto simp: operation_rows_def)
      then have "op_ID op' = op_ID op" using r(2) opID [OF q(1,2)] by simp
      then have "op' = op" using batch_okD(5) [OF batch q(1) p] q(2) op by (simp add: agree_def)
      then show ?thesis using r(3) q(3) FromEntity_newID [OF opID [OF p op]] by metis
    qed
  qed
  assume p: "p \<in> set ps" and op: "op \<in> set (tr_Operations (tran p))"
  then have "op \<in> set ops" using ops by blast
  then have "Operation_FromEntity (se_commons env) (se_newID env) op \<in> set (operation_rows env ops)" by (simp add: operation_rows_def)
  then have "rows' (op_ID op) \<noteq> None" using added opID [OF p op] unfolding rows_added_def by fastforce
  moreover have "rows' (op_ID op) = None \<or> rows' (op_ID op) = Some (Operation_FromEntity (se_commons env) '''' op)"
    using ok p op by (simp add: batch_operations_ok_def)
  ultimately show "rows' (op_ID op) = Some (Operation_FromEntity (se_commons env) '''' op)" by auto
qed

lemma atomicBulkInsert_result:
  assumes batch: "batch_ok lib ps" and tables: "tables_fine (se_commons env) ps st" and linked: "operations_linked st" and fault: "bf_insert bf = None"
    and run: "atomicBulkInsert env bf (classifyAndExtractEntities ps) res st = (st', res', e)"
  shows "(e \<noteq> None \<longrightarrow> st' = st) \<and>
     (e = None \<longrightarrow> tables_fine (se_commons env) ps st' \<and>
        (\<forall>p \<in> set ps. st_transactions st' (tr_ID (tran p)) \<noteq> None \<and> operations_stored (se_commons env) p st'))"
proof -
  define es where "es = classifyAndExtractEntities ps"
  have parents: "\<forall>t \<in> set (be_inserts es). tr_ParentTransactionID t = None"
    using be_inserts_elem [OF batch] unfolding es_def by metis
  obtain rows res1 ts where one: "(if be_inserts es \<noteq> [] then bulkInsertTransactionsTx env (be_inserts es) res st else (res, Inr st))
        = (res1, Inr (st\<lparr>st_transactions := rows\<rparr>))"
      "rows_added pt_ID (transaction_rows env ts) (st_transactions st) rows" "set ts = set (be_inserts es)"
  proof (cases "be_inserts es = []")
    case True
    then show ?thesis by (intro that [of res "st_transactions st" "[]"]) (simp_all add: rows_added_def transaction_rows_def)
  next
    case False
    define ts where "ts = sort_key tr_ID (be_inserts es)"
    obtain rows ids where "insert_chunks (insertTransactionChunk env) (chunks 999 ts) st = Inr (st\<lparr>st_transactions := rows\<rparr>, ids)"
        "rows_added pt_ID (transaction_rows env ts) (st_transactions st) rows"
      using insert_transactions [of "chunks 999 ts" env st] parents by (auto simp: ts_def)
    then show ?thesis using False that
      by (auto simp: bulkInsertTransactionsTx_def TransactionRepo_CreateBulkTx_def ts_def Let_def)
  qed
  define st1 where "st1 = st\<lparr>st_transactions := rows\<rparr>"
  define second where "second = (if be_operations es \<noteq> [] then bulkInsertOperationsTx env (be_operations es) res1 st1 else (res1, Inr st1))"
  have ins: "atomicBulkInsert env bf es res st = (case second of (r, Inl e) \<Rightarrow> (st, r, Some e) | (r, Inr st2) \<Rightarrow> (st2, r, None))"
    using one(1) fault by (auto simp: atomicBulkInsert_def second_def st1_def split: sum.splits)
  show ?thesis
  proof (cases "snd second")
    case (Inl err)
    then show ?thesis using ins run by (cases second) (simp add: es_def)
  next
    case (Inr st2)
    obtain ops where two: "st2 = st1\<lparr>st_operations := st_operations st2\<rparr>" "rows_added pg_ID (operation_rows env ops) (st_operations st1) (st_operations st2)"
        "\<forall>k row. st_operations st1 k = None \<and> st_operations st2 k = Some row \<longrightarrow> st_transactions st1 (pg_TransactionID row) \<noteq> None"
        "set ops = set (be_operations es)"
    proof (cases "be_operations es = []")
      case True
      then have "st2 = st1" using Inr by (simp add: second_def)
      then show ?thesis using True by (intro that [of "[]"]) (auto simp: rows_added_def operation_rows_def)
    next
      case False
      define ops where "ops = sort_key op_ID (be_operations es)"
      from Inr False obtain ids where "insert_chunks (insertOperationChunk env) (chunks 999 ops) st1 = Inr (st2, ids)"
        by (auto simp: second_def bulkInsertOperationsTx_def OperationRepo_CreateBulkTx_def ops_def Let_def split: option.splits sum.splits)
      from insert_operations [OF this] show ?thesis by (intro that [of ops]) (simp_all add: ops_def)
    qed
    have res: "st' = st2" "e = None" using ins run Inr by (cases second, simp add: es_def)+
    have eq: "st_transactions st2 = rows" "st_operations st1 = st_operations st" "st_transactions st1 = rows"
      using arg_cong [OF two(1), of st_transactions] by (simp_all add: st1_def)
    have fine: "batch_rows_ok ps (st_transactions st)" "batch_operations_ok (se_commons env) ps (st_operations st)"
      using tables by (simp_all add: tables_fine_def)
    note t = bulk_transactions [OF batch fine(1) one(2) one(3) [unfolded es_def]]
    note o = bulk_operations [OF batch fine(2) two(2) [unfolded eq(2)] two(4) [unfolded es_def be_operations_set [OF batch]]]
    have "rows (tr_ID (tran p)) \<noteq> None" if p: "p \<in> set ps" for p
    proof (cases "isStatusTransition p")
      case False
      then show ?thesis using t(2) [OF p] by blast
    next
      case True
      then obtain op where op: "op \<in> set (tr_Operations (tran p))"
        using batch_okD(3) [OF batch p] by (cases "tr_Operations (tran p)") (auto simp: payload_ok_def)
      then have ID: "op_TransactionID op = tr_ID (tran p)" using batch_okD(2) [OF batch p] by (simp add: message_ok_def operation_ok_def)
      show ?thesis
      proof (cases "st_operations st (op_ID op)")
        case None
        then show ?thesis using two(3) o(2) [OF p op] eq ID by fastforce
      next
        case (Some row)
        have "st_operations st (op_ID op) = None \<or> st_operations st (op_ID op) = Some (Operation_FromEntity (se_commons env) '''' op)"
          using fine(2) p op by (simp add: batch_operations_ok_def)
        then have "row = Operation_FromEntity (se_commons env) '''' op" using Some by simp
        then have "st_transactions st (tr_ID (tran p)) \<noteq> None" using linked Some ID unfolding operations_linked_def by fastforce
        then show ?thesis using rows_added_kept [OF one(2)] by simp
      qed
    qed
    then show ?thesis using res t(1) o eq by (simp add: tables_fine_def operations_stored_def)
  qed
qed

text \<open>The updates of the settlements, once all rows are there.\<close>

lemma performBulkStatusUpdate_result:
  assumes batch: "batch_ok lib ps" and tables: "tables_fine (se_commons env) ps st" and faults: "bulk_faultless bf"
    and present: "\<forall>p \<in> set ps. st_transactions st (tr_ID (tran p)) \<noteq> None"
    and run: "performBulkStatusUpdate env bf (be_updates (classifyAndExtractEntities ps)) res st = (st', res', e)"
  shows "e = None \<and> st_operations st' = st_operations st \<and> (\<forall>p \<in> set ps. row_there p (tran p) st')"
proof -
  define us where "us = be_updates (classifyAndExtractEntities ps)"
  have elem: "\<exists>p \<in> set ps. isStatusTransition p \<and> u = (tran p)\<lparr>tr_Body := Transaction_zero\<rparr>" if "u \<in> set us" for u
    using be_updates_set [OF batch] that by (auto simp: us_def)
  have rows: "has_row u st \<and> tr_ID u \<noteq> '''' \<and> tr_StatusCode u \<noteq> ''''" if u: "u \<in> set us" for u
  proof -
    obtain p where p: "p \<in> set ps" "isStatusTransition p" "u = (tran p)\<lparr>tr_Body := Transaction_zero\<rparr>" using elem [OF u] by blast
    obtain row where row: "st_transactions st (tr_ID (tran p)) = Some row" using present p(1) by blast
    then have "row_matches (tr_OrganizationID (tran p)) (tr_LedgerID (tran p)) row" using tables p(1) by (simp add: tables_fine_def batch_rows_ok_def)
    moreover have "tr_StatusCode (tran p) \<noteq> ''''" "tr_ID (tran p) \<noteq> ''''"
      using batch_okD(2,4) [OF batch p(1)] p(2) by (auto simp: message_ok_def eligible_transition_def)
    ultimately show ?thesis using p(3) row by (simp add: has_row_def)
  qed
  have same: "same_settlement u v" if u: "u \<in> set us" and v: "v \<in> set us" for u v
  proof -
    obtain p where p: "p \<in> set ps" "isStatusTransition p" "u = (tran p)\<lparr>tr_Body := Transaction_zero\<rparr>" using elem [OF u] by blast
    obtain q where q: "q \<in> set ps" "isStatusTransition q" "v = (tran q)\<lparr>tr_Body := Transaction_zero\<rparr>" using elem [OF v] by blast
    show ?thesis using batch_okD(5) [OF batch p(1) q(1)] p q by (simp add: agree_def same_settlement_def)
  qed
  have "\<exists>ts. set ts = set us \<and> status_sets ts st st' \<and> e = None"
  proof (cases "bulkUpdateThreshold \<le> length us")
    case True
    define ts where "ts = sort_key tr_ID us"
    have ts: "set (concat (chunks 499 ts)) = set us" by (simp add: ts_def)
    obtain st1 n where st1: "update_chunks env (bf_update bf) 0 (chunks 499 ts) st = (st1, Inr n)" "status_sets (concat (chunks 499 ts)) st st1"
      using update_chunks_set [of "chunks 499 ts" st "bf_update bf" env 0] rows same ts faults unfolding bulk_faultless_def by auto
    then have "st' = st1" "e = None"
      using run True by (simp_all add: performBulkStatusUpdate_def UpdateBulk_def us_def [symmetric] ts_def Let_def)
    then show ?thesis using st1(2) ts by auto
  next
    case False
    have "f_update (bf_single bf) = None" using faults by (simp add: bulk_faultless_def faultless_def)
    from individual_updates_set [OF this, of us st env] rows same obtain st1 where
        st1: "individual_updates env (bf_single bf) us st = (st1, length us)" "status_sets us st st1" by auto
    then have "st' = st1" "e = None"
      using run False by (simp_all add: performBulkStatusUpdate_def individualUpdateTransactionStatus_def us_def [symmetric] Let_def err_if_def)
    then show ?thesis using st1(2) by auto
  qed
  then obtain ts where ts: "set ts = set us" "status_sets ts st st'" "e = None" by blast
  note r = status_sets_result [OF ts(2)]
  have "row_there p (tran p) st'" if p: "p \<in> set ps" for p
  proof (cases "isStatusTransition p")
    case True
    define u where "u = (tran p)\<lparr>tr_Body := Transaction_zero\<rparr>"
    have "u \<in> set ts" using be_updates_set [OF batch] p True ts(1) by (auto simp: us_def u_def)
    then have "has_status u st'" using r(3) same ts(1) by blast
    then show ?thesis by (auto simp: has_status_def u_def row_there_def)
  next
    case False
    have "st_transactions st' (tr_ID (tran p)) \<noteq> None"
    proof (cases "tr_ID (tran p) \<in> tr_ID ` set ts")
      case True
      then obtain u where "u \<in> set ts" "tr_ID u = tr_ID (tran p)" by auto
      then show ?thesis using r(3) [of u] same ts(1) by (auto simp: has_status_def)
    next
      case False
      then show ?thesis using r(2) present p by simp
    qed
    then show ?thesis using False batch_okD(4) [OF batch p] by (auto simp: row_there_def)
  qed
  moreover have "st_operations st' = st_operations st" using arg_cong [OF r(1), of st_operations] by simp
  ultimately show ?thesis using ts(3) by blast
qed

lemma performBulkInsertAndUpdate_result:
  assumes batch: "batch_ok lib ps" and tables: "tables_fine (se_commons env) ps st" and linked: "operations_linked st" and faults: "bulk_faultless bf"
    and run: "performBulkInsertAndUpdate env bf (classifyAndExtractEntities ps) res st = (st', res', e)"
  shows "(e \<noteq> None \<longrightarrow> tables_fine (se_commons env) ps st') \<and> (e = None \<longrightarrow> (\<forall>p \<in> set ps. stored (se_commons env) p st'))"
proof -
  define es where "es = classifyAndExtractEntities ps"
  define first where "first = (if be_inserts es \<noteq> [] \<or> be_operations es \<noteq> [] then atomicBulkInsert env bf es res st else (st, res, None))"
  obtain st1 res1 e1 where f: "first = (st1, res1, e1)" by (cases first) auto
  have split: "performBulkInsertAndUpdate env bf es res st = (case e1 of Some x \<Rightarrow> (st1, res1, Some x)
      | None \<Rightarrow> if be_updates es \<noteq> [] then performBulkStatusUpdate env bf (be_updates es) res1 st1 else (st1, res1, None))"
    using f unfolding first_def performBulkInsertAndUpdate_def by (simp split: option.splits)
  have ins: "(e1 \<noteq> None \<longrightarrow> st1 = st) \<and> (e1 = None \<longrightarrow> tables_fine (se_commons env) ps st1 \<and>
        (\<forall>p \<in> set ps. st_transactions st1 (tr_ID (tran p)) \<noteq> None \<and> operations_stored (se_commons env) p st1))"
  proof (cases "be_inserts es \<noteq> [] \<or> be_operations es \<noteq> []")
    case True
    then have "atomicBulkInsert env bf (classifyAndExtractEntities ps) res st = (st1, res1, e1)" using f by (simp add: first_def es_def)
    moreover have "bf_insert bf = None" using faults by (simp add: bulk_faultless_def)
    ultimately show ?thesis using atomicBulkInsert_result [OF batch tables linked] by blast
  next
    case False
    have "p \<notin> set ps" for p
    proof
      assume p: "p \<in> set ps"
      show False
      proof (cases "isStatusTransition p")
        case True
        then have "tr_Operations (tran p) \<noteq> []" using batch_okD(3) [OF batch p] by (simp add: payload_ok_def)
        moreover have "set (tr_Operations (tran p)) \<subseteq> set (be_operations es)" using be_operations_set [OF batch] p by (auto simp: es_def)
        ultimately show ?thesis using False by (cases "tr_Operations (tran p)") auto
      next
        case ntr: False
        then show ?thesis using be_inserts_there [OF batch p] False by (simp add: es_def)
      qed
    qed
    then have "ps = []" by (cases ps) auto
    then show ?thesis using False f tables by (simp add: first_def)
  qed
  show ?thesis
  proof (cases e1)
    case (Some x)
    then have "st' = st1" "e = Some x" using run split by (simp_all add: es_def)
    then show ?thesis using ins Some tables by simp
  next
    case None
    show ?thesis
    proof (cases "be_updates es = []")
      case True
      then have res: "st' = st1" "e = None" using run split None by (simp_all add: es_def)
      have "\<not> isStatusTransition p" if "p \<in> set ps" for p using True be_updates_set [OF batch] that by (auto simp: es_def)
      then have "row_there p (tran p) st1" if "p \<in> set ps" for p
        using ins None that batch_okD(4) [OF batch that] by (auto simp: row_there_def)
      then show ?thesis using ins None res by (simp add: stored_def)
    next
      case False
      then have "performBulkStatusUpdate env bf (be_updates (classifyAndExtractEntities ps)) res1 st1 = (st', res', e)"
        using run split None by (simp add: es_def)
      from performBulkStatusUpdate_result [OF batch _ faults _ this] ins None show ?thesis by (simp add: stored_def operations_stored_def)
    qed
  qed
qed

text \<open>The metadata and the clean-up leave both tables alone.\<close>

definition same_tables :: "Store \<Rightarrow> Store \<Rightarrow> bool" where
  "same_tables st st' \<longleftrightarrow> st_transactions st' = st_transactions st \<and> st_operations st' = st_operations st"

lemma same_tables_fold: "(\<And>x st. x \<in> set xs \<Longrightarrow> same_tables st (g x st)) \<Longrightarrow> same_tables st (fold g xs st)"
proof (induction xs arbitrary: st)
  case (Cons x xs)
  have "same_tables st (g x st)" "same_tables (g x st) (fold g xs (g x st))" using Cons by simp_all
  then show ?case by (simp add: same_tables_def)
qed (simp add: same_tables_def)

lemma same_tables_steps:
  "same_tables st (create_entry f e st)" "same_tables st (MetadataRepo_Create c i d st)" "same_tables st (clean_payload env f p st)"
proof -
  show "same_tables st (create_entry f e st)"
    using CreateMetadataAsync_frame(1,2) [of f "Some (me_Data e)" "me_EntityID e" "me_Collection e" st, OF surjective_pairing]
    by (simp add: create_entry_def same_tables_def)
  show "same_tables st (MetadataRepo_Create c i d st)" by (simp add: MetadataRepo_Create_def same_tables_def)
  show "same_tables st (clean_payload env f p st)"
    by (auto simp: clean_payload_def same_tables_def Let_def DeleteWriteBehindTransaction_def RemoveTransactionFromRedisQueueIfStatus_def
        RemoveTransactionFromRedisQueue_def split: option.splits sum.splits)
qed

lemma same_tables_collection: "same_tables st (createMetadataForCollection bf c es st)"
  by (auto simp: createMetadataForCollection_def same_tables_steps same_tables_def [of st st] intro!: same_tables_fold split: bulk_write.splits)

lemma same_tables_metadata: "same_tables st (createMetadataBulk lib bf es st)"
  by (auto simp: createMetadataBulk_def create_metadata_chunk_def same_tables_collection same_tables_def [of st st]
      intro!: same_tables_fold split: option.splits)

lemma processMetadataAndEvents_tables: "same_tables st (fst (processMetadataAndEvents env bf ps ids st))"
proof -
  define st1 where "st1 = createMetadataBulk (se_lib env) bf (collectMetadataFromPayloads ps ids) st"
  have "same_tables st st1" by (simp add: st1_def same_tables_metadata)
  moreover have "same_tables st1 (fold (clean_payload env (bf_single bf)) ps st1)" by (intro same_tables_fold same_tables_steps)
  ultimately show ?thesis by (simp add: processMetadataAndEvents_def st1_def [symmetric] same_tables_def)
qed

lemma fold_same: "(\<And>x. x \<in> set xs \<Longrightarrow> g x st = st) \<Longrightarrow> fold g xs st = st"
  by (induction xs) simp_all

lemma no_older_balances:
  assumes "batch_ok lib ps"
  shows "fold (bulk_older_balances env f) ps st = st"
proof (rule fold_same)
  fix p assume "p \<in> set ps"
  then have "pp_Version p \<noteq> ''''" using batch_okD(3) [OF assms] by (simp add: payload_ok_def)
  then show "bulk_older_balances env f p st = st" by (simp add: bulk_older_balances_def split: option.splits sum.splits prod.splits)
qed


text \<open>
  The events of a bulk call. When at least one transaction of the batch was inserted, the events are
  those of inserted transactions: a settlement in the same batch, which updates a row, has none, neither
  of its status nor of the balances it moved. Processed by itself it has one.
\<close>

lemma bulk_events_only_inserted:
  assumes run: "CreateBulkTransactionOperationsAsync env bf ps st = (st', events, result, r)"
    and ids: "\<not> bk_FallbackUsed result" "bk_InsertedTransactionIDs result \<noteq> []" and event: "(tx, ph) \<in> set events"
  shows "tr_ID tx \<in> set (bk_InsertedTransactionIDs result)"
proof (cases "ps = []")
  case True
  then show ?thesis using run event by (simp add: CreateBulkTransactionOperationsAsync_def)
next
  case False
  define st0 where "st0 = fold (bulk_older_balances env (bf_single bf)) ps st"
  obtain st1 res1 e1 where first: "performBulkInsertAndUpdate env bf (classifyAndExtractEntities ps) BulkResult_zero st0 = (st1, res1, e1)"
    by (metis prod_cases3)
  note call = run [unfolded CreateBulkTransactionOperationsAsync_def st0_def [symmetric] Let_def first]
  show ?thesis
  proof (cases e1)
    case None
    then have "events = concat (map (payload_events (bk_InsertedTransactionIDs res1)) ps)" "result = res1"
      using call False by (auto simp: processMetadataAndEvents_def Let_def)
    then show ?thesis using event ids(2) by (auto simp: payload_events_def split: option.splits if_splits)
  next
    case (Some x)
    then have "bk_FallbackUsed result" using call False by (auto simp: fallbackToIndividualProcessing_def Let_def)
    then show ?thesis using ids(1) by blast
  qed
qed

section \<open>Example\<close>

text \<open>The hold and the commit of one payment in one batch.\<close>

definition bulk_env :: StoreEnv where
  "bulk_env = store_env\<lparr>se_lib := exact_lib\<lparr>uuid_Parse := (\<lambda>s. Some 1)\<rparr>\<rparr>"

definition no_bulk_faults :: BulkFaults where
  "no_bulk_faults = \<lparr>bf_insert = None, bf_update = (\<lambda>_. None), bf_metadata = (\<lambda>_. BulkWritten), bf_single = no_faults\<rparr>"


end
