(* ===== verification/LedgerSettings.thy ===== *)
theory LedgerSettings
  imports GoErrors GoStrings "HOL-Library.AList"
begin

text \<open>
  The settings of a ledger (\<^verbatim>\<open>pkg/mmodel/settings.go\<close>, \<^verbatim>\<open>get_ledger_settings.go\<close>, \<^verbatim>\<open>get_ledger_settings_parsed.go\<close>,
  \<^verbatim>\<open>update_ledger_settings.go\<close>, the settings column of \<^verbatim>\<open>ledger.postgresql.go\<close>): stored as a JSON object,
  read through a cache, changed by deep merges.

  A map of settings is an association list; an entry with the value \<open>JNull\<close> is a key whose value is \<^verbatim>\<open>nil\<close>.
\<close>

section \<open>Data\<close>

definition TracerModeOff :: string where [simp]: "TracerModeOff = ''off''"
definition TracerModeAdvisory :: string where [simp]: "TracerModeAdvisory = ''advisory''"
definition TracerModeEnforce :: string where [simp]: "TracerModeEnforce = ''enforce''"
definition TracerFailPostureOpen :: string where [simp]: "TracerFailPostureOpen = ''open''"
definition TracerFailPostureClosed :: string where [simp]: "TracerFailPostureClosed = ''closed''"
definition defaultTracerTimeoutMs :: int where [simp]: "defaultTracerTimeoutMs = 250"

record AccountingValidation =
  av_ValidateAccountType :: bool
  av_ValidateRoutes :: bool
  av_RequireHolder :: bool

record OverridePolicy =
  op_AllowFeeSkip :: bool
  op_AllowTracerSkip :: bool
  op_AllowHolderSkip :: bool

record TracerSettings =
  ts_Mode :: string
  ts_FailPosture :: string
  ts_TimeoutMs :: int

record LedgerSettings =
  ls_Accounting :: AccountingValidation
  ls_Tracer :: TracerSettings
  ls_Overrides :: OverridePolicy

type_synonym settings_map = "(string, jany) gomap"

definition DefaultLedgerSettings :: LedgerSettings where
  "DefaultLedgerSettings =
     \<lparr>ls_Accounting = \<lparr>av_ValidateAccountType = False, av_ValidateRoutes = False, av_RequireHolder = False\<rparr>,
      ls_Tracer = \<lparr>ts_Mode = TracerModeOff, ts_FailPosture = TracerFailPostureOpen, ts_TimeoutMs = defaultTracerTimeoutMs\<rparr>,
      ls_Overrides = \<lparr>op_AllowFeeSkip = False, op_AllowTracerSkip = False, op_AllowHolderSkip = False\<rparr>\<rparr>"

definition LedgerSettingsToMap :: "LedgerSettings \<Rightarrow> settings_map" where
  "LedgerSettingsToMap s =
     [(''accounting'', JObj [(''validateAccountType'', JBool (av_ValidateAccountType (ls_Accounting s))),
                             (''validateRoutes'', JBool (av_ValidateRoutes (ls_Accounting s))),
                             (''requireHolder'', JBool (av_RequireHolder (ls_Accounting s)))]),
      (''tracer'', JObj [(''mode'', JStr (ts_Mode (ls_Tracer s))), (''failPosture'', JStr (ts_FailPosture (ls_Tracer s))),
                         (''timeoutMs'', JNum (of_int (ts_TimeoutMs (ls_Tracer s))))]),
      (''overrides'', JObj [(''allowFeeSkip'', JBool (op_AllowFeeSkip (ls_Overrides s))),
                            (''allowTracerSkip'', JBool (op_AllowTracerSkip (ls_Overrides s))),
                            (''allowHolderSkip'', JBool (op_AllowHolderSkip (ls_Overrides s)))])]"

definition DefaultLedgerSettingsMap :: settings_map where
  "DefaultLedgerSettingsMap = LedgerSettingsToMap DefaultLedgerSettings"

definition LedgerSettingsIsDefault :: "LedgerSettings option \<Rightarrow> bool" where
  "LedgerSettingsIsDefault s = (case s of None \<Rightarrow> True | Some s \<Rightarrow> s = DefaultLedgerSettings)"

section \<open>Parsing\<close>

definition parseSettingsNumber :: "jany option \<Rightarrow> int option" where
  "parseSettingsNumber value = (case value of Some (JNum v) \<Rightarrow> Some (if 0 \<le> v then \<lfloor>v\<rfloor> else \<lceil>v\<rceil>) | _ \<Rightarrow> None)"

definition section_of :: "settings_map \<Rightarrow> string \<Rightarrow> settings_map" where
  "section_of settings key = (case map_of settings key of Some (JObj m) \<Rightarrow> m | _ \<Rightarrow> [])"

definition bool_or :: "bool \<Rightarrow> jany option \<Rightarrow> bool" where
  "bool_or d v = (case v of Some (JBool b) \<Rightarrow> b | _ \<Rightarrow> d)"

definition string_or :: "string \<Rightarrow> jany option \<Rightarrow> string" where
  "string_or d v = (case v of Some (JStr s) \<Rightarrow> s | _ \<Rightarrow> d)"

definition number_or :: "int \<Rightarrow> jany option \<Rightarrow> int" where
  "number_or d v = (case parseSettingsNumber v of Some n \<Rightarrow> n | None \<Rightarrow> d)"

definition ParseLedgerSettings :: "settings_map option \<Rightarrow> LedgerSettings" where
  "ParseLedgerSettings settings =
     (case settings of
        None \<Rightarrow> DefaultLedgerSettings
      | Some m \<Rightarrow>
          (let a = map_of (section_of m ''accounting''); t = map_of (section_of m ''tracer''); o' = map_of (section_of m ''overrides'')
           in \<lparr>ls_Accounting = \<lparr>av_ValidateAccountType = bool_or False (a ''validateAccountType''),
                                av_ValidateRoutes = bool_or False (a ''validateRoutes''),
                                av_RequireHolder = bool_or False (a ''requireHolder'')\<rparr>,
               ls_Tracer = \<lparr>ts_Mode = string_or TracerModeOff (t ''mode''),
                            ts_FailPosture = string_or TracerFailPostureOpen (t ''failPosture''),
                            ts_TimeoutMs = number_or defaultTracerTimeoutMs (t ''timeoutMs'')\<rparr>,
               ls_Overrides = \<lparr>op_AllowFeeSkip = bool_or False (o' ''allowFeeSkip''),
                               op_AllowTracerSkip = bool_or False (o' ''allowTracerSkip''),
                               op_AllowHolderSkip = bool_or False (o' ''allowHolderSkip'')\<rparr>\<rparr>))"

section \<open>Validation and merging\<close>

definition settingsSchema :: "(string, (string, string) gomap) gomap" where
  "settingsSchema =
     [(''accounting'', [(''validateAccountType'', ''bool''), (''validateRoutes'', ''bool''), (''requireHolder'', ''bool'')]),
      (''tracer'', [(''mode'', ''string''), (''failPosture'', ''string''), (''timeoutMs'', ''number'')]),
      (''overrides'', [(''allowFeeSkip'', ''bool''), (''allowTracerSkip'', ''bool''), (''allowHolderSkip'', ''bool'')])]"

definition knownNestedFieldNames :: "string list" where
  "knownNestedFieldNames = concat (map (map fst \<circ> snd) settingsSchema)"

definition validateSettingsFieldType :: "jany \<Rightarrow> string \<Rightarrow> goerr option" where
  "validateSettingsFieldType value expectedType =
     (let ok = (if expectedType = ''bool'' then (case value of JBool _ \<Rightarrow> True | _ \<Rightarrow> False)
                else if expectedType = ''string'' then (case value of JStr _ \<Rightarrow> True | _ \<Rightarrow> False)
                else if expectedType = ''number'' then (case value of JNum _ \<Rightarrow> True | _ \<Rightarrow> False)
                else True)
      in err_if (\<not> ok) (Business ErrInvalidSettingsFieldType))"

definition validateSettingsFieldValue :: "string \<Rightarrow> string \<Rightarrow> jany \<Rightarrow> goerr option" where
  "validateSettingsFieldValue parentKey nestedKey value =
     (if parentKey \<noteq> ''tracer'' then None
      else if nestedKey = ''mode''
      then err_if (value \<notin> JStr ` {TracerModeOff, TracerModeAdvisory, TracerModeEnforce}) (Business ErrInvalidSettingsFieldValue)
      else if nestedKey = ''failPosture''
      then err_if (value \<notin> JStr ` {TracerFailPostureOpen, TracerFailPostureClosed}) (Business ErrInvalidSettingsFieldValue)
      else None)"

definition validate_nested :: "string \<Rightarrow> (string, string) gomap \<Rightarrow> string \<times> jany \<Rightarrow> goerr option" where
  "validate_nested key nestedSchema = (\<lambda>(nestedKey, nestedValue).
     case map_of nestedSchema nestedKey of
       None \<Rightarrow> Some (Business ErrUnknownSettingsField)
     | Some expectedType \<Rightarrow>
         if nestedValue = JNull then None
         else first_err [validateSettingsFieldType nestedValue expectedType, validateSettingsFieldValue key nestedKey nestedValue])"

definition validate_section :: "string \<times> jany \<Rightarrow> goerr option" where
  "validate_section = (\<lambda>(key, value).
     case map_of settingsSchema key of
       None \<Rightarrow> Some (Business ErrUnknownSettingsField)
     | Some nestedSchema \<Rightarrow>
         (case value of
            JNull \<Rightarrow> None
          | JObj nestedMap \<Rightarrow> first_err (map (validate_nested key nestedSchema) nestedMap)
          | _ \<Rightarrow> Some (Business ErrInvalidSettingsFieldType)))"

definition ValidateSettings :: "settings_map option \<Rightarrow> goerr option" where
  "ValidateSettings settings =
     (case settings of
        None \<Rightarrow> None
      | Some m \<Rightarrow>
          if \<exists>(key, value) \<in> set m. key \<in> set knownNestedFieldNames then Some (Business ErrSettingsRootLevelField)
          else first_err (map validate_section m))"

definition merge_key :: "string \<times> jany \<Rightarrow> settings_map \<Rightarrow> settings_map" where
  "merge_key = (\<lambda>(key, newValue) result.
     AList.update key
       (case (newValue, map_of result key) of
          (JObj newMap, Some (JObj existingMap)) \<Rightarrow> JObj (fold (\<lambda>(k, v). AList.update k v) newMap existingMap)
        | _ \<Rightarrow> newValue) result)"

definition DeepMergeSettings :: "settings_map option \<Rightarrow> settings_map option \<Rightarrow> settings_map" where
  "DeepMergeSettings existing newSettings =
     (let result = (case existing of None \<Rightarrow> [] | Some m \<Rightarrow> m)
      in case newSettings of None \<Rightarrow> result | Some n \<Rightarrow> fold merge_key n result)"

section \<open>Store and cache\<close>

text \<open>
  The settings column of the ledgers that are not deleted, and the cache of settings. A call of the cache
  or of the database fails with the error that it is given.
\<close>

record SettingsStore =
  sst_rows :: "(uuid \<times> uuid) \<rightharpoonup> settings_map"
  sst_cache :: "(uuid \<times> uuid) \<rightharpoonup> settings_map"

record SettingsFaults =
  sf_read :: "goerr option"
  sf_write :: "goerr option"
  sf_del :: "goerr option"
  sf_db :: "goerr option"

definition GetSettings :: "SettingsFaults \<Rightarrow> uuid \<Rightarrow> uuid \<Rightarrow> SettingsStore \<Rightarrow> goerr + settings_map" where
  "GetSettings f organizationID ledgerID st =
     (case sf_db f of
        Some e \<Rightarrow> Inl e
      | None \<Rightarrow> (case sst_rows st (organizationID, ledgerID) of None \<Rightarrow> Inl (Business ErrEntityNotFound) | Some m \<Rightarrow> Inr m))"

definition readSettingsFromCache :: "SettingsFaults \<Rightarrow> uuid \<Rightarrow> uuid \<Rightarrow> SettingsStore \<Rightarrow> settings_map option" where
  "readSettingsFromCache f organizationID ledgerID st =
     (case sf_read f of Some e \<Rightarrow> None | None \<Rightarrow> sst_cache st (organizationID, ledgerID))"

definition writeSettingsToCache :: "SettingsFaults \<Rightarrow> uuid \<Rightarrow> uuid \<Rightarrow> settings_map \<Rightarrow> SettingsStore \<Rightarrow> SettingsStore" where
  "writeSettingsToCache f organizationID ledgerID settings st =
     (case sf_write f of
        Some e \<Rightarrow> st
      | None \<Rightarrow> st\<lparr>sst_cache := (sst_cache st)((organizationID, ledgerID) \<mapsto> settings)\<rparr>)"

definition GetLedgerSettings :: "SettingsFaults \<Rightarrow> uuid \<Rightarrow> uuid \<Rightarrow> SettingsStore \<Rightarrow> SettingsStore \<times> (goerr + settings_map)" where
  "GetLedgerSettings f organizationID ledgerID st =
     (case readSettingsFromCache f organizationID ledgerID st of
        Some settings \<Rightarrow> (st, Inr settings)
      | None \<Rightarrow>
          (case GetSettings f organizationID ledgerID st of
             Inl e \<Rightarrow> (st, Inl e)
           | Inr settings \<Rightarrow> (writeSettingsToCache f organizationID ledgerID settings st, Inr settings)))"

definition GetParsedLedgerSettings :: "SettingsFaults \<Rightarrow> uuid \<Rightarrow> uuid \<Rightarrow> SettingsStore \<Rightarrow> SettingsStore \<times> (goerr + LedgerSettings)" where
  "GetParsedLedgerSettings f organizationID ledgerID st =
     (case GetLedgerSettings f organizationID ledgerID st of
        (st', Inl e) \<Rightarrow> (st', Inl e)
      | (st', Inr settings) \<Rightarrow> (st', Inr (ParseLedgerSettings (Some settings))))"

definition UpdateSettingsAtomic ::
    "SettingsFaults \<Rightarrow> uuid \<Rightarrow> uuid \<Rightarrow> (settings_map option \<Rightarrow> settings_map) \<Rightarrow> SettingsStore \<Rightarrow> SettingsStore \<times> (goerr + settings_map)" where
  "UpdateSettingsAtomic f organizationID ledgerID mergeFn st =
     (case sf_db f of
        Some e \<Rightarrow> (st, Inl e)
      | None \<Rightarrow>
          (case sst_rows st (organizationID, ledgerID) of
             None \<Rightarrow> (st, Inl (Business ErrEntityNotFound))
           | Some existing \<Rightarrow>
               (let merged = mergeFn (Some existing)
                in (st\<lparr>sst_rows := (sst_rows st)((organizationID, ledgerID) \<mapsto> merged)\<rparr>, Inr merged))))"

definition invalidateSettingsCache :: "SettingsFaults \<Rightarrow> uuid \<Rightarrow> uuid \<Rightarrow> SettingsStore \<Rightarrow> SettingsStore" where
  "invalidateSettingsCache f organizationID ledgerID st =
     (case sf_del f of
        Some e \<Rightarrow> st
      | None \<Rightarrow> st\<lparr>sst_cache := (sst_cache st)((organizationID, ledgerID) := None)\<rparr>)"

definition UpdateLedgerSettings :: "SettingsFaults \<Rightarrow> uuid \<Rightarrow> uuid \<Rightarrow> settings_map option \<Rightarrow> SettingsStore \<Rightarrow> SettingsStore \<times> (goerr + settings_map)" where
  "UpdateLedgerSettings f organizationID ledgerID settings st =
     (case ValidateSettings settings of
        Some e \<Rightarrow> (st, Inl e)
      | None \<Rightarrow>
          (case UpdateSettingsAtomic f organizationID ledgerID (\<lambda>existing. DeepMergeSettings existing settings) st of
             (st', Inl e) \<Rightarrow> (st', Inl e)
           | (st', Inr updated) \<Rightarrow> (invalidateSettingsCache f organizationID ledgerID st', Inr updated)))"

end
