(* ===== verification/LedgerSettingsProofs.thy ===== *)
theory LedgerSettingsProofs
  imports LedgerSettings
begin

text \<open>
  The settings of a ledger: an update changes the fields that it names and no other, what is stored stays
  valid, and a read through the cache returns what is stored.
\<close>

section \<open>Parsing\<close>

lemma Parse_ToMap: "ParseLedgerSettings (Some (LedgerSettingsToMap s)) = s"
  by (simp add: ParseLedgerSettings_def LedgerSettingsToMap_def section_of_def bool_or_def string_or_def number_or_def parseSettingsNumber_def Let_def)

section \<open>Fields\<close>

text \<open>
  A field is a key of a section. The keys of a JSON object are distinct, those of its sections too.
\<close>

definition field :: "settings_map \<Rightarrow> string \<Rightarrow> string \<Rightarrow> jany option" where
  "field m key nested = map_of (section_of m key) nested"

definition json_object :: "settings_map \<Rightarrow> bool" where
  "json_object m \<longleftrightarrow> distinct (map fst m) \<and> (\<forall>key nested. map_of m key = Some (JObj nested) \<longrightarrow> distinct (map fst nested))"

lemma map_of_updates:
  "distinct (map fst new) \<Longrightarrow> map_of (fold (\<lambda>(k, v). AList.update k v) new old) k = (case map_of new k of Some v \<Rightarrow> Some v | None \<Rightarrow> map_of old k)"
proof (induction new arbitrary: old)
  case (Cons p new)
  obtain k' v where p: "p = (k', v)" by force
  from Cons p show ?case by (auto simp: update_conv' map_of_eq_None_iff [symmetric] split: option.splits)
qed simp

lemma merge_key_other: "key' \<noteq> fst p \<Longrightarrow> map_of (merge_key p m) key' = map_of m key'"
  by (cases p) (simp add: merge_key_def update_conv')

text \<open>The value of a key after the merge of one key.\<close>

definition merged_value :: "jany \<Rightarrow> jany option \<Rightarrow> jany" where
  "merged_value new old =
     (case (new, old) of (JObj newMap, Some (JObj existingMap)) \<Rightarrow> JObj (fold (\<lambda>(k, v). AList.update k v) newMap existingMap) | _ \<Rightarrow> new)"

lemma merge_key_value: "merge_key (key, v) m = AList.update key (merged_value v (map_of m key)) m"
  by (simp add: merge_key_def merged_value_def)

lemma merge_key_same: "map_of (merge_key (key, v) m) key = Some (merged_value v (map_of m key))"
  by (simp add: merge_key_value update_conv')

lemma merge_fold_other: "key \<notin> fst ` set n \<Longrightarrow> map_of (fold merge_key n m) key = map_of m key"
  by (induction n arbitrary: m) (auto simp: merge_key_other)

lemma merge_fold_key:
  assumes "distinct (map fst n)" "map_of n key = Some v"
  shows "map_of (fold merge_key n m) key = Some (merged_value v (map_of m key))"
  using assms
proof (induction n arbitrary: m)
  case (Cons p n)
  obtain k w where p: "p = (k, w)" by force
  show ?case
  proof (cases "k = key")
    case True
    with Cons.prems p have "w = v" "key \<notin> fst ` set n" by auto
    with True p show ?thesis by (simp add: merge_fold_other merge_key_same)
  next
    case False
    with Cons.prems p have n: "distinct (map fst n)" "map_of n key = Some v" by auto
    with Cons.IH [OF n, of "merge_key p m"] merge_key_other [of key p m] False p show ?thesis by simp
  qed
qed simp

lemma field_None: "map_of m key = None \<Longrightarrow> field m key nested = None"
  by (simp add: field_def section_of_def)

lemma merged_field:
  assumes "json_object n"
  shows "field (DeepMergeSettings (Some m) (Some n)) key nested =
    (case map_of n key of
       None \<Rightarrow> field m key nested
     | Some (JObj given) \<Rightarrow> (case map_of given nested of Some v \<Rightarrow> Some v | None \<Rightarrow> field m key nested)
     | Some _ \<Rightarrow> None)"
proof (cases "map_of n key")
  case None
  then have "key \<notin> fst ` set n" by (simp add: map_of_eq_None_iff)
  with None show ?thesis by (simp add: DeepMergeSettings_def field_def section_of_def merge_fold_other)
next
  case (Some v)
  have d: "distinct (map fst n)" "\<And>given. v = JObj given \<Longrightarrow> distinct (map fst given)"
    using assms Some by (auto simp: json_object_def)
  from merge_fold_key [OF d(1) Some, of m]
  have "map_of (DeepMergeSettings (Some m) (Some n)) key = Some (merged_value v (map_of m key))"
    by (simp add: DeepMergeSettings_def)
  with Some d(2) show ?thesis
    by (auto simp: field_def section_of_def merged_value_def map_of_updates split: jany.splits option.splits)
qed

section \<open>Validity\<close>

definition sections_ok :: "settings_map \<Rightarrow> bool" where
  "sections_ok m \<longleftrightarrow> (\<forall>p \<in> set m. fst p \<notin> set knownNestedFieldNames \<and> validate_section p = None)"

lemma ValidateSettings_ok: "ValidateSettings (Some m) = None \<longleftrightarrow> sections_ok m"
  by (force simp: ValidateSettings_def sections_ok_def)

lemma set_update: "set (AList.update k v xs) \<subseteq> insert (k, v) (set xs)"
  by (induction xs) auto

lemma set_updates: "set (fold (\<lambda>(k, v). AList.update k v) new old) \<subseteq> set new \<union> set old"
proof (induction new arbitrary: old)
  case (Cons p new)
  obtain k v where p: "p = (k, v)" by force
  from Cons.IH [of "AList.update k v old"] set_update [of k v old] p show ?case by auto
qed simp

lemma merge_key_ok:
  assumes "sections_ok m" "fst p \<notin> set knownNestedFieldNames" "validate_section p = None"
  shows "sections_ok (merge_key p m)"
proof -
  obtain key v where p: "p = (key, v)" by force
  define w where "w = merged_value v (map_of m key)"
  have "validate_section (key, w) = None"
  proof (cases "\<exists>new old. v = JObj new \<and> map_of m key = Some (JObj old)")
    case True
    then obtain new old where vo: "v = JObj new" "map_of m key = Some (JObj old)" by blast
    from map_of_SomeD [OF vo(2)] assms(1) have "validate_section (key, JObj old) = None" by (auto simp: sections_ok_def)
    with assms(3) p vo set_updates [of new old] show ?thesis
      by (auto simp: w_def merged_value_def validate_section_def split: option.splits)
  next
    case False
    then have "w = v" by (auto simp: w_def merged_value_def split: jany.splits option.splits)
    with assms(3) p show ?thesis by simp
  qed
  moreover have "set (merge_key p m) \<subseteq> insert (key, w) (set m)" using set_update p by (simp add: merge_key_value w_def)
  ultimately show ?thesis using assms(1,2) p by (auto simp: sections_ok_def)
qed

lemma merge_ok: "sections_ok m \<Longrightarrow> sections_ok n \<Longrightarrow> sections_ok (fold merge_key n m)"
  by (induction n arbitrary: m) (auto simp: sections_ok_def [of "_ # _"] merge_key_ok intro!: merge_key_ok simp flip: sections_ok_def)

lemma tracer_field_ok:
  assumes "sections_ok m" "field m ''tracer'' nested = Some v" "v \<noteq> JNull"
  shows "validateSettingsFieldValue ''tracer'' nested v = None"
proof -
  obtain t where t: "map_of m ''tracer'' = Some (JObj t)" "map_of t nested = Some v"
    using assms(2) by (auto simp: field_def section_of_def split: option.splits jany.splits)
  from map_of_SomeD [OF t(1)] assms(1) have "validate_section (''tracer'', JObj t) = None" by (auto simp: sections_ok_def)
  with map_of_SomeD [OF t(2)] assms(3) show ?thesis
    by (auto simp: validate_section_def validate_nested_def settingsSchema_def split: option.splits if_splits)
qed

lemma parsed_tracer:
  assumes "sections_ok m"
  shows "ts_Mode (ls_Tracer (ParseLedgerSettings (Some m))) \<in> {TracerModeOff, TracerModeAdvisory, TracerModeEnforce}"
    "ts_FailPosture (ls_Tracer (ParseLedgerSettings (Some m))) \<in> {TracerFailPostureOpen, TracerFailPostureClosed}"
  using tracer_field_ok [OF assms, of "''mode''"] tracer_field_ok [OF assms, of "''failPosture''"]
  by (auto simp: ParseLedgerSettings_def field_def string_or_def validateSettingsFieldValue_def err_if_def Let_def split: option.splits jany.splits if_splits)

section \<open>Reads and updates\<close>

text \<open>Requests on the settings of any ledger, in any order; a read may fail, and an update may fail before its commit.\<close>

inductive settings_request :: "SettingsStore \<Rightarrow> SettingsStore \<Rightarrow> bool" where
  get: "settings_request st (fst (GetParsedLedgerSettings f organizationID ledgerID st))"
| update: "sf_del f = None \<Longrightarrow> settings_request st (fst (UpdateLedgerSettings f organizationID ledgerID settings st))"

definition settings_ok :: "SettingsStore \<Rightarrow> bool" where
  "settings_ok st \<longleftrightarrow> (\<forall>k m. sst_rows st k = Some m \<longrightarrow> sections_ok m) \<and> (\<forall>k m. sst_cache st k = Some m \<longrightarrow> sst_rows st k = Some m)"

lemma get_ok: "settings_ok st \<Longrightarrow> settings_ok (fst (GetParsedLedgerSettings f org led st))"
  by (auto simp: GetParsedLedgerSettings_def GetLedgerSettings_def GetSettings_def writeSettingsToCache_def settings_ok_def
      split: prod.splits sum.splits option.splits)

lemma update_ok:
  assumes "settings_ok st" "sf_del f = None"
  shows "settings_ok (fst (UpdateLedgerSettings f org led settings st))"
proof (cases "ValidateSettings settings")
  case (Some e)
  with assms show ?thesis by (simp add: UpdateLedgerSettings_def)
next
  case None
  then have "sections_ok (DeepMergeSettings (Some m) settings)" if "sections_ok m" for m
    using that merge_ok [of m] ValidateSettings_ok by (cases settings) (auto simp: DeepMergeSettings_def)
  with None assms show ?thesis
    by (auto simp: UpdateLedgerSettings_def UpdateSettingsAtomic_def invalidateSettingsCache_def settings_ok_def Let_def split: option.splits)
qed

lemma update_accepted:
  assumes "UpdateLedgerSettings f org led settings st = (st', Inr merged)"
  shows "\<exists>m. sst_rows st (org, led) = Some m \<and> sst_rows st' (org, led) = Some merged \<and> merged = DeepMergeSettings (Some m) settings"
proof -
  have v: "ValidateSettings settings = None" and db: "sf_db f = None"
    using assms by (auto simp: UpdateLedgerSettings_def UpdateSettingsAtomic_def split: option.splits)
  obtain m where m: "sst_rows st (org, led) = Some m"
    using assms v db by (cases "sst_rows st (org, led)") (simp_all add: UpdateLedgerSettings_def UpdateSettingsAtomic_def)
  with assms v db show ?thesis
    by (cases "sf_del f") (auto simp: UpdateLedgerSettings_def UpdateSettingsAtomic_def invalidateSettingsCache_def Let_def)
qed

lemma settings_request_ok: "settings_request st st' \<Longrightarrow> settings_ok st \<Longrightarrow> settings_ok st'"
  by (induction rule: settings_request.induct) (auto intro: get_ok update_ok)

interpretation settings_kept: step_invariant settings_request settings_ok
  by unfold_locales (rule settings_request_ok)

text \<open>
  C22. The settings that a transaction is decided by are those that are stored. However reads and updates of
  settings follow one another, as long as no entry of the cache outlives a failed deletion, a read through
  the cache returns what the last accepted update has stored, parsed, with one of the known modes and postures of the tracer; and an update
  that is accepted then changes the fields that it names, resets the sections that it sets to null, and leaves every other field alone.
\<close>

theorem settings_are_current:
  assumes "settings_ok st0" "settings_request\<^sup>*\<^sup>* st0 st"
  shows "(\<forall>st' settings. GetParsedLedgerSettings f organizationID ledgerID st = (st', Inr settings) \<longrightarrow>
      (\<exists>m. sst_rows st (organizationID, ledgerID) = Some m \<and> settings = ParseLedgerSettings (Some m)) \<and>
      ts_Mode (ls_Tracer settings) \<in> {TracerModeOff, TracerModeAdvisory, TracerModeEnforce} \<and>
      ts_FailPosture (ls_Tracer settings) \<in> {TracerFailPostureOpen, TracerFailPostureClosed}) \<and>
    (\<forall>new st' merged key nested. json_object new \<longrightarrow> UpdateLedgerSettings f organizationID ledgerID (Some new) st = (st', Inr merged) \<longrightarrow>
      (\<exists>m. sst_rows st (organizationID, ledgerID) = Some m \<and> sst_rows st' (organizationID, ledgerID) = Some merged \<and>
         field merged key nested =
           (case map_of new key of
              None \<Rightarrow> field m key nested
            | Some (JObj given) \<Rightarrow> (case map_of given nested of Some v \<Rightarrow> Some v | None \<Rightarrow> field m key nested)
            | Some _ \<Rightarrow> None)))"
proof (intro conjI allI impI)
  have ok: "settings_ok st" by (rule settings_kept.reachable [OF assms(2,1)])
  fix st' settings
  assume get: "GetParsedLedgerSettings f organizationID ledgerID st = (st', Inr settings)"
  then obtain m where m: "sst_rows st (organizationID, ledgerID) = Some m" "settings = ParseLedgerSettings (Some m)"
    using ok by (auto simp: GetParsedLedgerSettings_def GetLedgerSettings_def GetSettings_def readSettingsFromCache_def settings_ok_def
        split: prod.splits sum.splits option.splits)
  then show "\<exists>m. sst_rows st (organizationID, ledgerID) = Some m \<and> settings = ParseLedgerSettings (Some m)" by blast
  have "sections_ok m" using ok m(1) by (auto simp: settings_ok_def)
  from parsed_tracer [OF this] m(2)
  show "ts_Mode (ls_Tracer settings) \<in> {TracerModeOff, TracerModeAdvisory, TracerModeEnforce}"
    "ts_FailPosture (ls_Tracer settings) \<in> {TracerFailPostureOpen, TracerFailPostureClosed}" by blast+
next
  fix new st' merged key nested
  assume new: "json_object new" and upd: "UpdateLedgerSettings f organizationID ledgerID (Some new) st = (st', Inr merged)"
  then obtain m where m: "sst_rows st (organizationID, ledgerID) = Some m" "sst_rows st' (organizationID, ledgerID) = Some merged"
      "merged = DeepMergeSettings (Some m) (Some new)"
    using update_accepted by blast
  show "\<exists>m. sst_rows st (organizationID, ledgerID) = Some m \<and> sst_rows st' (organizationID, ledgerID) = Some merged \<and>
      field merged key nested = (case map_of new key of
              None \<Rightarrow> field m key nested
            | Some (JObj given) \<Rightarrow> (case map_of given nested of Some v \<Rightarrow> Some v | None \<Rightarrow> field m key nested)
            | Some _ \<Rightarrow> None)"
    by (rule exI [of _ m]) (simp only: m merged_field [OF new])
qed

section \<open>Example\<close>

definition default_store :: SettingsStore where
  "default_store = \<lparr>sst_rows = [(1, 2) \<mapsto> DefaultLedgerSettingsMap], sst_cache = Map.empty\<rparr>"

definition settings_work :: SettingsFaults where
  "settings_work = \<lparr>sf_read = None, sf_write = None, sf_del = None, sf_db = None\<rparr>"

definition enforce_update :: settings_map where
  "enforce_update = [(''tracer'', JObj [(''mode'', JStr ''enforce'')])]"

theorem settings_are_current_witness:
  "(let st = fst (UpdateLedgerSettings settings_work 1 2 (Some enforce_update) (fst (GetParsedLedgerSettings settings_work 1 2 default_store)))
    in \<exists>st' settings m. GetParsedLedgerSettings settings_work 1 2 st = (st', Inr settings) \<and> ts_Mode (ls_Tracer settings) = ''enforce'' \<and>
      sst_rows st (1, 2) = Some m \<and> settings = ParseLedgerSettings (Some m))"
proof -
  define st where "st = fst (UpdateLedgerSettings settings_work 1 2 (Some enforce_update) (fst (GetParsedLedgerSettings settings_work 1 2 default_store)))"
  have "sections_ok DefaultLedgerSettingsMap" unfolding ValidateSettings_ok [symmetric] by code_simp
  then have ok: "settings_ok default_store" by (simp add: settings_ok_def default_store_def)
  have reach: "settings_request\<^sup>*\<^sup>* default_store st"
    unfolding st_def
    by (rule rtranclp.rtrancl_into_rtrancl, rule r_into_rtranclp, rule settings_request.get, rule settings_request.update) (simp add: settings_work_def)
  have run: "case snd (GetParsedLedgerSettings settings_work 1 2 st) of Inl e \<Rightarrow> False | Inr settings \<Rightarrow> ts_Mode (ls_Tracer settings) = ''enforce''"
    unfolding st_def by code_simp
  then obtain st' settings where get: "GetParsedLedgerSettings settings_work 1 2 st = (st', Inr settings)" "ts_Mode (ls_Tracer settings) = ''enforce''"
    by (cases "GetParsedLedgerSettings settings_work 1 2 st") (auto split: sum.splits)
  from settings_are_current [OF ok reach, of settings_work 1 2] get show ?thesis unfolding st_def [symmetric] Let_def by blast
qed

end
