(* ===== verification/AccountingRoutes.thy ===== *)
theory AccountingRoutes
  imports LedgerOperations
begin

text \<open>
  Operation routes and transaction routes (\<^verbatim>\<open>mmodel/operation-route.go\<close>, \<^verbatim>\<open>mmodel/transaction-route.go\<close>,
  \<^verbatim>\<open>postgres/operationroute\<close>, \<^verbatim>\<open>http/in/operation_route.go\<close>): their rows, the checks of the requests that
  create and change them, and the form in which a transaction route is cached for the validation of
  transactions.

  The accounting entries of a request are decoded JSON: a map from the names of actions to entries, with
  \<open>None\<close> for \<^verbatim>\<open>null\<close>.
\<close>

section \<open>Data\<close>

definition OperationRouteTypeSource :: string where [simp]: "OperationRouteTypeSource = ''source''"
definition OperationRouteTypeDestination :: string where [simp]: "OperationRouteTypeDestination = ''destination''"
definition OperationRouteTypeBidirectional :: string where [simp]: "OperationRouteTypeBidirectional = ''bidirectional''"
definition AccountRuleTypeAlias :: string where [simp]: "AccountRuleTypeAlias = ''alias''"
definition AccountRuleTypeAccountType :: string where [simp]: "AccountRuleTypeAccountType = ''account_type''"

record AccountRule =
  acr_RuleType :: string
  acr_ValidIf :: jany

record OperationRoute =
  orr_ID :: uuid
  orr_OrganizationID :: uuid
  orr_LedgerID :: uuid
  orr_Title :: string
  orr_Description :: string
  orr_Code :: string
  orr_OperationType :: string
  orr_AccountingEntries :: "AccountingEntries option"
  orr_Account :: "AccountRule option"
  orr_CreatedAt :: time
  orr_UpdatedAt :: time
  orr_DeletedAt :: "time option"

record TransactionRoute =
  trr_ID :: uuid
  trr_OrganizationID :: uuid
  trr_LedgerID :: uuid
  trr_Title :: string
  trr_Description :: string
  trr_OperationRoutes :: "OperationRoute list"
  trr_CreatedAt :: time
  trr_UpdatedAt :: time
  trr_DeletedAt :: "time option"

definition AccountingEntries_Actions :: "AccountingEntries option \<Rightarrow> string list" where
  "AccountingEntries_Actions entries =
     (case entries of
        None \<Rightarrow> []
      | Some ae \<Rightarrow>
          (if aes_Direct ae \<noteq> None then [ActionDirect] else []) @ (if aes_Hold ae \<noteq> None then [ActionHold] else []) @
          (if aes_Commit ae \<noteq> None then [ActionCommit] else []) @ (if aes_Cancel ae \<noteq> None then [ActionCancel] else []) @
          (if aes_Revert ae \<noteq> None then [ActionRevert] else []) @ (if aes_Overdraft ae \<noteq> None then [ActionOverdraft] else []) @
          (if aes_Block ae \<noteq> None then [ActionBlock] else []) @ (if aes_Unblock ae \<noteq> None then [ActionUnblock] else []))"

section \<open>The cached form\<close>

definition route_cache_of :: "OperationRoute \<Rightarrow> OperationRouteCache" where
  "route_cache_of r =
     \<lparr>rc_Account = map_option (\<lambda>a. \<lparr>ac_RuleType = acr_RuleType a, ac_ValidIf = acr_ValidIf a\<rparr>) (orr_Account r),
      rc_OperationType = orr_OperationType r, rc_Code = orr_Code r, rc_Description = orr_Description r,
      rc_AccountingEntries = orr_AccountingEntries r\<rparr>"

definition cache_action :: "string \<Rightarrow> string \<Rightarrow> OperationRouteCache \<Rightarrow> string \<Rightarrow> TransactionRouteCache \<Rightarrow> TransactionRouteCache" where
  "cache_action operationType routeID routeData action cache =
     (let actionCache = (case map_of cache action of
                           Some c \<Rightarrow> c | None \<Rightarrow> \<lparr>arc_Source = [], arc_Destination = [], arc_Bidirectional = []\<rparr>)
      in if operationType = ''source''
         then AList.update action (actionCache\<lparr>arc_Source := AList.update routeID routeData (arc_Source actionCache)\<rparr>) cache
         else if operationType = ''destination''
         then AList.update action (actionCache\<lparr>arc_Destination := AList.update routeID routeData (arc_Destination actionCache)\<rparr>) cache
         else if operationType = ''bidirectional''
         then AList.update action (actionCache\<lparr>arc_Bidirectional := AList.update routeID routeData (arc_Bidirectional actionCache)\<rparr>) cache
         else cache)"

definition cache_route :: "extlib \<Rightarrow> OperationRoute \<Rightarrow> TransactionRouteCache \<Rightarrow> TransactionRouteCache" where
  "cache_route lib r cache =
     fold (cache_action (orr_OperationType r) (uuid_String lib (orr_ID r)) (route_cache_of r))
       (AccountingEntries_Actions (orr_AccountingEntries r)) cache"

definition TransactionRoute_ToCache :: "extlib \<Rightarrow> TransactionRoute \<Rightarrow> TransactionRouteCache" where
  "TransactionRoute_ToCache lib tr = fold (cache_route lib) (trr_OperationRoutes tr) []"

section \<open>Checks of a request\<close>

fun is_string :: "jany \<Rightarrow> bool" where
  "is_string (JStr s) = True"
| "is_string _ = False"

definition validateAccountRule :: "AccountRule option \<Rightarrow> goerr option" where
  "validateAccountRule account =
     (case account of
        None \<Rightarrow> None
      | Some a \<Rightarrow>
          if acr_RuleType a \<noteq> '''' \<and> acr_ValidIf a = JNull then Some (Business ErrMissingFieldsInRequest)
          else if acr_RuleType a = '''' \<and> acr_ValidIf a \<noteq> JNull then Some (Business ErrMissingFieldsInRequest)
          else if acr_RuleType a = '''' then None
          else if ToLower (acr_RuleType a) = AccountRuleTypeAlias
          then err_if (\<not> is_string (acr_ValidIf a)) (Business ErrInvalidAccountRuleValue)
          else if ToLower (acr_RuleType a) = AccountRuleTypeAccountType
          then (case acr_ValidIf a of
                  JArr vs \<Rightarrow> err_if (\<not> list_all is_string vs) (Business ErrInvalidAccountRuleValue)
                | _ \<Rightarrow> Some (Business ErrInvalidAccountRuleValue))
          else Some (Business ErrInvalidAccountRuleType))"

definition validateRubricStructure :: "AccountingRubric \<Rightarrow> goerr \<Rightarrow> goerr option" where
  "validateRubricStructure rubric errCode =
     err_if (TrimSpace (rub_Code rubric) = '''' \<or> TrimSpace (rub_Description rubric) = '''') (Business errCode)"

text \<open>The entries by the name of their action, with the error for one that is not complete.\<close>

definition entry_table :: "AccountingEntries \<Rightarrow> (string \<times> AccountingEntry option \<times> goerr) list" where
  "entry_table es =
     [(ActionDirect, aes_Direct es, ErrMissingFieldsInRequest), (ActionHold, aes_Hold es, ErrMissingFieldsInRequest),
      (ActionCommit, aes_Commit es, ErrMissingFieldsInRequest), (ActionCancel, aes_Cancel es, ErrMissingFieldsInRequest),
      (ActionRevert, aes_Revert es, ErrMissingFieldsInRequest), (ActionOverdraft, aes_Overdraft es, ErrAccountingEntryFieldRequired),
      (ActionBlock, aes_Block es, ErrAccountingEntryFieldRequired), (ActionUnblock, aes_Unblock es, ErrAccountingEntryFieldRequired)]"

definition validate_entry :: "AccountingEntry option \<Rightarrow> goerr \<Rightarrow> goerr option" where
  "validate_entry entry errCode =
     (case entry of
        None \<Rightarrow> None
      | Some e \<Rightarrow>
          first_err
            [err_if (ae_Debit e = None \<and> ae_Credit e = None) (Business errCode),
             case ae_Debit e of None \<Rightarrow> None | Some r \<Rightarrow> validateRubricStructure r errCode,
             case ae_Credit e of None \<Rightarrow> None | Some r \<Rightarrow> validateRubricStructure r errCode])"

definition validateAccountingEntries :: "AccountingEntries option \<Rightarrow> goerr option" where
  "validateAccountingEntries entries =
     (case entries of
        None \<Rightarrow> None
      | Some es \<Rightarrow> first_err (map (\<lambda>(name, entry, errCode). validate_entry entry errCode) (entry_table es)))"

definition findUnknownAccountingEntryKeys :: "(string, AccountingEntry option) gomap \<Rightarrow> string list" where
  "findUnknownAccountingEntryKeys raw =
     filter (\<lambda>k. k \<notin> {ActionDirect, ActionHold, ActionCommit, ActionCancel, ActionRevert, ActionOverdraft, ActionBlock, ActionUnblock})
       (map fst raw)"

record fieldRequirement =
  fr_debitRequired :: bool
  fr_creditRequired :: bool

definition getFieldRequirements :: "string \<Rightarrow> string \<Rightarrow> fieldRequirement" where
  "getFieldRequirements operationType scenario =
     (let one_sided = {ActionDirect, ActionCommit, ActionBlock, ActionUnblock};
          both = \<lparr>fr_debitRequired = True, fr_creditRequired = True\<rparr>
      in if scenario = ActionOverdraft then both
         else if operationType = OperationRouteTypeBidirectional then both
         else if operationType = OperationRouteTypeSource \<and> scenario \<in> one_sided
         then \<lparr>fr_debitRequired = True, fr_creditRequired = False\<rparr>
         else if operationType = OperationRouteTypeDestination \<and> scenario \<in> one_sided
         then \<lparr>fr_debitRequired = False, fr_creditRequired = True\<rparr>
         else both)"

definition validateDirectionScenarioMatrix :: "string \<Rightarrow> AccountingEntries \<Rightarrow> goerr option" where
  "validateDirectionScenarioMatrix operationType entries =
     (if operationType = OperationRouteTypeSource then err_if (aes_Revert entries \<noteq> None) (Business ErrRevertOnlyBidirectional)
      else if operationType = OperationRouteTypeDestination
      then first_err
        [err_if (aes_Hold entries \<noteq> None) (Business ErrScenarioNotAllowedForDirection),
         err_if (aes_Cancel entries \<noteq> None) (Business ErrScenarioNotAllowedForDirection),
         err_if (aes_Revert entries \<noteq> None) (Business ErrRevertOnlyBidirectional)]
      else None)"

definition validateEntryFieldRequirements :: "string \<Rightarrow> AccountingEntries \<Rightarrow> goerr option" where
  "validateEntryFieldRequirements operationType entries =
     first_err (map (\<lambda>(name, entry, errCode).
       case entry of
         None \<Rightarrow> None
       | Some e \<Rightarrow>
           (let req = getFieldRequirements operationType name
            in err_if (fr_debitRequired req \<and> ae_Debit e = None \<or> fr_creditRequired req \<and> ae_Credit e = None)
                 (Business ErrAccountingEntryFieldRequired))) (entry_table entries))"

definition validateReserveGroupAtomicity :: "string \<Rightarrow> AccountingEntries \<Rightarrow> goerr option" where
  "validateReserveGroupAtomicity operationType entries =
     (if operationType = OperationRouteTypeDestination then None
      else let hasHold = aes_Hold entries \<noteq> None; hasCommit = aes_Commit entries \<noteq> None; hasCancel = aes_Cancel entries \<noteq> None
           in err_if (hasHold \<and> (\<not> hasCommit \<or> \<not> hasCancel) \<or> (hasCommit \<or> hasCancel) \<and> \<not> hasHold)
                (Business ErrReserveGroupIncomplete))"

definition validateDirectMandatory :: "AccountingEntries \<Rightarrow> goerr option" where
  "validateDirectMandatory entries =
     err_if ((aes_Hold entries \<noteq> None \<or> aes_Commit entries \<noteq> None \<or> aes_Cancel entries \<noteq> None \<or> aes_Revert entries \<noteq> None \<or>
              aes_Overdraft entries \<noteq> None) \<and> aes_Direct entries = None) (Business ErrDirectScenarioRequired)"

definition validateAccountingRulesMatrix :: "string \<Rightarrow> AccountingEntries option \<Rightarrow> goerr option" where
  "validateAccountingRulesMatrix operationType entries =
     (case entries of
        None \<Rightarrow> None
      | Some es \<Rightarrow>
          first_err
            [validateDirectionScenarioMatrix operationType es, validateEntryFieldRequirements operationType es,
             validateReserveGroupAtomicity operationType es, validateDirectMandatory es])"

section \<open>Merging the entries of an update\<close>

definition AccountingEntries_zero :: AccountingEntries where
  "AccountingEntries_zero =
     \<lparr>aes_Direct = None, aes_Hold = None, aes_Commit = None, aes_Cancel = None, aes_Revert = None, aes_Overdraft = None,
      aes_Block = None, aes_Unblock = None\<rparr>"

definition applyMerge ::
    "(string, AccountingEntry option) gomap \<Rightarrow> string \<Rightarrow> AccountingEntry option \<Rightarrow> AccountingEntry option \<Rightarrow> AccountingEntry option" where
  "applyMerge rawFields fieldName existingEntry incomingEntry =
     (case map_of rawFields fieldName of
        None \<Rightarrow> existingEntry
      | Some None \<Rightarrow> None
      | Some (Some _) \<Rightarrow> if incomingEntry \<noteq> None then incomingEntry else existingEntry)"

definition prefer_new :: "AccountingEntry option \<Rightarrow> AccountingEntry option \<Rightarrow> AccountingEntry option" where
  "prefer_new existing incoming = (if incoming \<noteq> None then incoming else existing)"

definition mergeAccountingEntriesSimple :: "AccountingEntries option \<Rightarrow> AccountingEntries option \<Rightarrow> AccountingEntries option" where
  "mergeAccountingEntriesSimple existing incoming =
     (case incoming of
        None \<Rightarrow> existing
      | Some i \<Rightarrow>
          (let e = (case existing of None \<Rightarrow> AccountingEntries_zero | Some e \<Rightarrow> e)
           in Some (AccountingEntries_zero
                \<lparr>aes_Direct := prefer_new (aes_Direct e) (aes_Direct i), aes_Hold := prefer_new (aes_Hold e) (aes_Hold i),
                 aes_Commit := prefer_new (aes_Commit e) (aes_Commit i), aes_Cancel := prefer_new (aes_Cancel e) (aes_Cancel i),
                 aes_Revert := prefer_new (aes_Revert e) (aes_Revert i), aes_Overdraft := prefer_new (aes_Overdraft e) (aes_Overdraft i)\<rparr>)))"

definition mergeAccountingEntries ::
    "AccountingEntries option \<Rightarrow> AccountingEntries option \<Rightarrow> (string, AccountingEntry option) gomap option \<Rightarrow> AccountingEntries option" where
  "mergeAccountingEntries existing incoming rawUpdates =
     (case existing of
        None \<Rightarrow> incoming
      | Some e \<Rightarrow>
          (case rawUpdates of
             None \<Rightarrow> mergeAccountingEntriesSimple existing incoming
           | Some rawFields \<Rightarrow>
               (let i = (case incoming of None \<Rightarrow> AccountingEntries_zero | Some i \<Rightarrow> i);
                    merged = AccountingEntries_zero
                      \<lparr>aes_Direct := applyMerge rawFields ActionDirect (aes_Direct e) (aes_Direct i),
                       aes_Hold := applyMerge rawFields ActionHold (aes_Hold e) (aes_Hold i),
                       aes_Commit := applyMerge rawFields ActionCommit (aes_Commit e) (aes_Commit i),
                       aes_Cancel := applyMerge rawFields ActionCancel (aes_Cancel e) (aes_Cancel i),
                       aes_Revert := applyMerge rawFields ActionRevert (aes_Revert e) (aes_Revert i),
                       aes_Overdraft := applyMerge rawFields ActionOverdraft (aes_Overdraft e) (aes_Overdraft i)\<rparr>
                in if merged = AccountingEntries_zero then None else Some merged)))"

section \<open>Rows\<close>

record OperationRouteRow =
  row_ID :: uuid
  row_OrganizationID :: uuid
  row_LedgerID :: uuid
  row_Title :: string
  row_Description :: string
  row_Code :: "string option"
  row_OperationType :: string
  row_AccountRuleType :: string
  row_AccountRuleValidIf :: string
  row_AccountingEntries :: "AccountingEntries option"
  row_CreatedAt :: time
  row_UpdatedAt :: time
  row_DeletedAt :: "time option"

definition join_with :: "string \<Rightarrow> string list \<Rightarrow> string" where
  "join_with sep ss = (case ss of [] \<Rightarrow> '''' | s # rest \<Rightarrow> s @ concat (map (\<lambda>t. sep @ t) rest))"

definition string_items :: "jany list \<Rightarrow> string list" where
  "string_items = List.map_filter (\<lambda>v. case v of JStr s \<Rightarrow> Some s | _ \<Rightarrow> None)"

definition stored_valid_if :: "AccountRule \<Rightarrow> string" where
  "stored_valid_if a =
     (if ToLower (acr_RuleType a) = AccountRuleTypeAccountType
      then (case acr_ValidIf a of JArr vs \<Rightarrow> join_with '','' (string_items vs) | _ \<Rightarrow> '''')
      else (case acr_ValidIf a of JStr s \<Rightarrow> s | _ \<Rightarrow> ''''))"

definition OperationRoute_FromEntity :: "OperationRoute \<Rightarrow> OperationRouteRow" where
  "OperationRoute_FromEntity e =
     \<lparr>row_ID = orr_ID e, row_OrganizationID = orr_OrganizationID e, row_LedgerID = orr_LedgerID e, row_Title = orr_Title e,
      row_Description = orr_Description e, row_Code = (if TrimSpace (orr_Code e) = '''' then None else Some (orr_Code e)),
      row_OperationType = ToLower (orr_OperationType e),
      row_AccountRuleType = (case orr_Account e of None \<Rightarrow> '''' | Some a \<Rightarrow> acr_RuleType a),
      row_AccountRuleValidIf = (case orr_Account e of None \<Rightarrow> '''' | Some a \<Rightarrow> stored_valid_if a),
      row_AccountingEntries = orr_AccountingEntries e, row_CreatedAt = orr_CreatedAt e, row_UpdatedAt = orr_UpdatedAt e,
      row_DeletedAt = orr_DeletedAt e\<rparr>"

definition read_valid_if :: "string \<Rightarrow> string \<Rightarrow> jany" where
  "read_valid_if ruleType validIf =
     (if validIf = '''' then JNull
      else if ToLower ruleType = AccountRuleTypeAccountType then JArr (map (\<lambda>v. JStr (TrimSpace v)) (go_split '','' validIf))
      else JStr validIf)"

definition OperationRoute_ToEntity :: "OperationRouteRow \<Rightarrow> OperationRoute" where
  "OperationRoute_ToEntity m =
     \<lparr>orr_ID = row_ID m, orr_OrganizationID = row_OrganizationID m, orr_LedgerID = row_LedgerID m, orr_Title = row_Title m,
      orr_Description = row_Description m, orr_Code = (case row_Code m of None \<Rightarrow> '''' | Some c \<Rightarrow> c),
      orr_OperationType = row_OperationType m, orr_AccountingEntries = row_AccountingEntries m,
      orr_Account = (if row_AccountRuleType m \<noteq> '''' \<or> row_AccountRuleValidIf m \<noteq> ''''
                     then Some \<lparr>acr_RuleType = row_AccountRuleType m,
                                acr_ValidIf = read_valid_if (row_AccountRuleType m) (row_AccountRuleValidIf m)\<rparr>
                     else None),
      orr_CreatedAt = row_CreatedAt m, orr_UpdatedAt = row_UpdatedAt m, orr_DeletedAt = row_DeletedAt m\<rparr>"

end
