(* ===== verification/AccountingRules.thy ===== *)
theory AccountingRules
  imports AccountingRoutes
begin

text \<open>
  The accounting rules of a transaction (\<^verbatim>\<open>validate_accounting_routes.go\<close>): when a ledger validates routes,
  every entry must name an operation route of the transaction route, on the side and with the account
  that the route asks for, every route must be used, a route for both sides must be used on both, and
  what is drawn as overdraft must have an accounting code.

  \<open>GetOrCreateTransactionRouteCache\<close> is an argument here; the store of the routes is in RouteStore.
\<close>

section \<open>Routes of an action\<close>

record actionRoutesResult =
  ar_source :: "(string, OperationRouteCache) gomap"
  ar_destination :: "(string, OperationRouteCache) gomap"
  ar_bidirectional :: "(string, OperationRouteCache) gomap"
  ar_isSourceOnly :: bool

definition resolveActionRoutes :: "TransactionRouteCache \<Rightarrow> string \<Rightarrow> goerr + actionRoutesResult" where
  "resolveActionRoutes cache action =
     (case map_of cache action of
        None \<Rightarrow> Inl (Business ErrNoRoutesForAction)
      | Some actionCache \<Rightarrow>
          (let result = \<lparr>ar_source = arc_Source actionCache, ar_destination = arc_Destination actionCache,
                 ar_bidirectional = arc_Bidirectional actionCache, ar_isSourceOnly = (action = ActionCancel)\<rparr>
           in Inr (if action = ActionHold
                   then (case map_of cache ActionCommit of
                           Some commitCache \<Rightarrow> result\<lparr>ar_destination := arc_Destination commitCache\<rparr>
                         | None \<Rightarrow> result)
                   else result)))"

definition resolveTransactionRouteID :: "extlib \<Rightarrow> commons \<Rightarrow> Responses \<Rightarrow> goerr + uuid" where
  "resolveTransactionRouteID lib cm validate =
     (let parse = (\<lambda>s. case uuid_Parse lib s of Some u \<Rightarrow> Inr u | None \<Rightarrow> Inl (Business ErrInvalidTransactionRouteID))
      in case rsp_TransactionRouteID validate of
           Some s \<Rightarrow> if \<not> IsNilOrEmpty cm s then parse s
             else if \<not> IsNilOrEmpty cm (rsp_TransactionRoute validate) then parse (rsp_TransactionRoute validate)
             else Inl (Business ErrTransactionRouteNotInformed)
         | None \<Rightarrow> if \<not> IsNilOrEmpty cm (rsp_TransactionRoute validate) then parse (rsp_TransactionRoute validate)
             else Inl (Business ErrTransactionRouteNotInformed))"

definition validateOperationRouteIDs :: "Responses \<Rightarrow> bool \<Rightarrow> goerr option" where
  "validateOperationRouteIDs validate isSourceOnly =
     (if \<exists>(alias, routeID) \<in> set (rsp_OperationRoutesFrom validate). routeID = '''' then Some (Business ErrAccountingRouteNotFound)
      else if isSourceOnly then None
      else err_if (\<exists>(alias, routeID) \<in> set (rsp_OperationRoutesTo validate). routeID = '''') (Business ErrAccountingRouteNotFound))"

section \<open>Use of the routes\<close>

definition uniqueValues :: "(string, string) gomap \<Rightarrow> nat" where
  "uniqueValues m = card (snd ` set m)"

text \<open>The directions that the operations of a route post.\<close>

definition has_direction :: "BalanceOperation list \<Rightarrow> (string, string) gomap \<Rightarrow> string \<Rightarrow> string \<Rightarrow> bool" where
  "has_direction operations routeMap routeID d =
     list_ex (\<lambda>op. map_of routeMap (bo_Alias op) = Some routeID \<and> ToLower (am_Direction (bo_Amount op)) = d) operations"

definition validateCounterparts :: "BalanceOperation list \<Rightarrow> (string, string) gomap \<Rightarrow> goerr option" where
  "validateCounterparts operations routeMap =
     (let used = List.map_filter (\<lambda>op. map_of routeMap (bo_Alias op)) operations
      in err_if (\<exists>r \<in> set used. \<not> has_direction operations routeMap r DirectionDebit \<or> \<not> has_direction operations routeMap r DirectionCredit)
           (Business ErrMissingCounterpart))"

definition sharedBidirectionalRoutes :: "Responses \<Rightarrow> actionRoutesResult \<Rightarrow> string list" where
  "sharedBidirectionalRoutes validate routes =
     remdups (filter (\<lambda>r. map_of (ar_bidirectional routes) r \<noteq> None \<and> r \<in> snd ` set (rsp_OperationRoutesFrom validate))
       (map snd (rsp_OperationRoutesTo validate)))"

text \<open>The entries of the two maps merged, those of the destinations written last.\<close>

definition mergedRouteMap :: "Responses \<Rightarrow> string list \<Rightarrow> (string, string) gomap" where
  "mergedRouteMap validate shared =
     filter (\<lambda>(alias, r). r \<in> set shared) (rsp_OperationRoutesTo validate) @
     filter (\<lambda>(alias, r). r \<in> set shared) (rsp_OperationRoutesFrom validate)"

definition validateRouteCountAndCounterparts :: "Responses \<Rightarrow> actionRoutesResult \<Rightarrow> BalanceOperation list \<Rightarrow> goerr option" where
  "validateRouteCountAndCounterparts validate routes operations =
     (let uniqueFromCount = uniqueValues (rsp_OperationRoutesFrom validate);
          uniqueToCount = uniqueValues (rsp_OperationRoutesTo validate);
          sourceCount = length (ar_source routes); destinationCount = length (ar_destination routes);
          bidirectionalCount = length (ar_bidirectional routes);
          shared = sharedBidirectionalRoutes validate routes;
          totalCacheRoutes = int sourceCount + int destinationCount + int bidirectionalCount;
          totalUsedRoutes = int uniqueFromCount + int uniqueToCount - int (length shared)
      in if totalUsedRoutes \<noteq> totalCacheRoutes \<or> uniqueFromCount < sourceCount \<or> uniqueToCount < destinationCount
         then Some (Business ErrAccountingRouteCountMismatch)
         else let merged = mergedRouteMap validate shared
              in if merged \<noteq> [] then validateCounterparts operations merged else None)"

section \<open>Operations against their routes\<close>

fun strings_of :: "jany list \<Rightarrow> string list option" where
  "strings_of [] = Some []"
| "strings_of (JStr s # vs) = map_option ((#) s) (strings_of vs)"
| "strings_of (_ # vs) = None"

definition extractStringSlice :: "jany \<Rightarrow> string list option" where
  "extractStringSlice v = (case v of JArr vs \<Rightarrow> strings_of vs | _ \<Rightarrow> None)"

definition validateSingleOperationRule :: "BalanceOperation \<Rightarrow> AccountCache \<Rightarrow> goerr option" where
  "validateSingleOperationRule op account =
     (if ac_RuleType account = AccountRuleTypeAlias
      then (case ac_ValidIf account of
              JStr expected \<Rightarrow> err_if (SplitAlias (bo_Alias op) \<noteq> expected) (Business ErrAccountingAliasValidationFailed)
            | _ \<Rightarrow> Some (Business ErrCorruptedAccountRule))
      else if ac_RuleType account = AccountRuleTypeAccountType
      then (case extractStringSlice (ac_ValidIf account) of
              None \<Rightarrow> Some (Business ErrCorruptedAccountRule)
            | Some allowedTypes \<Rightarrow>
                err_if (mb_AccountType (bo_Balance op) \<notin> set allowedTypes) (Business ErrAccountingAccountTypeValidationFailed))
      else Some (Business ErrCorruptedAccountRule))"

definition validateDirectionRouteMatch :: "BalanceOperation \<Rightarrow> OperationRouteCache \<Rightarrow> goerr option" where
  "validateDirectionRouteMatch operation routeCache =
     (if mb_Key (bo_Balance operation) = OverdraftBalanceKey then None
      else let opAmount = ToUpper (am_Operation (bo_Amount operation));
               txType = ToUpper (am_TransactionType (bo_Amount operation))
           in if opAmount = ONHOLD \<or> opAmount = RELEASE then None
              else if txType = CANCELED \<and> am_RouteValidationEnabled (bo_Amount operation) then None
              else let direction = ToLower (am_Direction (bo_Amount operation)); opType = ToLower (rc_OperationType routeCache)
                   in if opType = ''source'' then err_if (direction \<noteq> DirectionDebit) (Business ErrDirectionRouteMismatch)
                      else if opType = ''destination'' then err_if (direction \<noteq> DirectionCredit) (Business ErrDirectionRouteMismatch)
                      else if opType = ''bidirectional'' then None
                      else Some (Business ErrInvalidOperationRouteType))"

text \<open>The route of an operation: its identifier, and whether the operation is on the side of the sources.\<close>

definition get_or_empty :: "(string, string) gomap \<Rightarrow> string \<Rightarrow> string" where
  "get_or_empty m k = (case map_of m k of Some v \<Rightarrow> v | None \<Rightarrow> '''')"

definition operation_route :: "Responses \<Rightarrow> string \<Rightarrow> (string \<times> bool) option" where
  "operation_route validate alias =
     (if map_of (rsp_From validate) alias \<noteq> None then Some (get_or_empty (rsp_OperationRoutesFrom validate) alias, True)
      else if map_of (rsp_To validate) alias \<noteq> None then Some (get_or_empty (rsp_OperationRoutesTo validate) alias, False)
      else None)"

definition validate_operation ::
    "(string, OperationRouteCache) gomap \<Rightarrow> (string, OperationRouteCache) gomap \<Rightarrow> (string, OperationRouteCache) gomap \<Rightarrow>
     Responses \<Rightarrow> BalanceOperation \<Rightarrow> goerr option" where
  "validate_operation sourceRoutes destinationRoutes bidirectionalRoutes validate operation =
     (case operation_route validate (bo_Alias operation) of
        None \<Rightarrow> None
      | Some (routeID, isSource) \<Rightarrow>
          (case (case map_of (if isSource then sourceRoutes else destinationRoutes) routeID of
                   Some r \<Rightarrow> Some r | None \<Rightarrow> map_of bidirectionalRoutes routeID) of
             None \<Rightarrow> Some (Business ErrAccountingRouteNotFound)
           | Some cacheRule \<Rightarrow>
               (case validateDirectionRouteMatch operation cacheRule of
                  Some e \<Rightarrow> Some e
                | None \<Rightarrow> (case rc_Account cacheRule of None \<Rightarrow> None | Some account \<Rightarrow> validateSingleOperationRule operation account))))"

definition validateAccountRules ::
    "(string, OperationRouteCache) gomap \<Rightarrow> (string, OperationRouteCache) gomap \<Rightarrow> (string, OperationRouteCache) gomap \<Rightarrow>
     Responses \<Rightarrow> BalanceOperation list \<Rightarrow> goerr option" where
  "validateAccountRules sourceRoutes destinationRoutes bidirectionalRoutes validate operations =
     first_err (map (validate_operation sourceRoutes destinationRoutes bidirectionalRoutes validate) operations)"

section \<open>Overdraft\<close>

definition overdraftRubricConfigured :: "TransactionRouteCache \<Rightarrow> string \<Rightarrow> string \<Rightarrow> bool" where
  "overdraftRubricConfigured cache routeID direction =
     (case map_of cache ActionOverdraft of
        None \<Rightarrow> False
      | Some actionCache \<Rightarrow>
          (case FindRoute actionCache routeID of
             None \<Rightarrow> False
           | Some rc \<Rightarrow>
               (case rc_AccountingEntries rc of
                  None \<Rightarrow> False
                | Some entries \<Rightarrow>
                    (case aes_Overdraft entries of
                       None \<Rightarrow> False
                     | Some entry \<Rightarrow>
                         (let d = ToLower direction;
                              rubric = (if d = DirectionDebit then ae_Debit entry else if d = DirectionCredit then ae_Credit entry else None)
                          in case rubric of None \<Rightarrow> False | Some r \<Rightarrow> rub_Code r \<noteq> '''')))))"

definition companion_route :: "Responses \<Rightarrow> string \<Rightarrow> string" where
  "companion_route validate alias =
     (let routeID = get_or_empty (rsp_OperationRoutesFrom validate) alias
      in if routeID = '''' then get_or_empty (rsp_OperationRoutesTo validate) alias else routeID)"

definition validateOverdraftRoutes :: "TransactionRouteCache \<Rightarrow> Responses \<Rightarrow> BalanceOperation list \<Rightarrow> goerr option" where
  "validateOverdraftRoutes cache validate operations =
     err_if (\<exists>op \<in> set operations. mb_Key (bo_Balance op) = OverdraftBalanceKey \<and>
               \<not> overdraftRubricConfigured cache (companion_route validate (bo_Alias op)) (am_Direction (bo_Amount op)))
       (Business ErrOverdraftRouteNotConfigured)"

section \<open>All rules\<close>

definition Responses_zero :: Responses where
  "Responses_zero =
     \<lparr>rsp_Total = 0, rsp_Asset = '''', rsp_From = [], rsp_To = [], rsp_Sources = [], rsp_Destinations = [], rsp_Aliases = [],
      rsp_Pending = False, rsp_TransactionRoute = '''', rsp_TransactionRouteID = None, rsp_OperationRoutesFrom = [],
      rsp_OperationRoutesTo = []\<rparr>"

definition source_side :: "Responses \<Rightarrow> Responses" where
  "source_side validate =
     Responses_zero\<lparr>rsp_From := rsp_From validate, rsp_OperationRoutesFrom := rsp_OperationRoutesFrom validate\<rparr>"

definition route_rules :: "TransactionRouteCache \<Rightarrow> BalanceOperation list \<Rightarrow> Responses \<Rightarrow> string \<Rightarrow> goerr option" where
  "route_rules cache operations validate action =
     (case resolveActionRoutes cache action of
        Inl e \<Rightarrow> Some e
      | Inr routes \<Rightarrow>
          first_err
            [validateOperationRouteIDs validate (ar_isSourceOnly routes),
             if ar_isSourceOnly routes then None else validateRouteCountAndCounterparts validate routes operations,
             validateAccountRules (ar_source routes) (ar_destination routes) (ar_bidirectional routes)
               (if ar_isSourceOnly routes then source_side validate else validate) operations,
             validateOverdraftRoutes cache validate operations])"

text \<open>\<open>validateRoutes\<close> is the setting of the ledger, \<open>loadCache\<close> the routes of a transaction route.\<close>

definition ValidateAccountingRules ::
    "extlib \<Rightarrow> commons \<Rightarrow> goerr + bool \<Rightarrow> (uuid \<Rightarrow> goerr + TransactionRouteCache) \<Rightarrow> BalanceOperation list \<Rightarrow> Responses \<Rightarrow> string \<Rightarrow>
     goerr + TransactionRouteCache option" where
  "ValidateAccountingRules lib cm validateRoutes loadCache operations validate action =
     (case validateRoutes of
        Inl e \<Rightarrow> Inl e
      | Inr False \<Rightarrow> Inr None
      | Inr True \<Rightarrow>
          (case resolveTransactionRouteID lib cm validate of
             Inl e \<Rightarrow> Inl e
           | Inr transactionRouteID \<Rightarrow>
               (case loadCache transactionRouteID of
                  Inl e \<Rightarrow> Inl e
                | Inr cache \<Rightarrow>
                    (case route_rules cache operations validate action of
                       Some e \<Rightarrow> Inl e
                     | None \<Rightarrow> Inr (Some cache)))))"

section \<open>What the cache of a route holds\<close>

abbreviation route_key :: "extlib \<Rightarrow> OperationRoute \<Rightarrow> string" where
  "route_key lib r \<equiv> uuid_String lib (orr_ID r)"

abbreviation takes_part :: "OperationRoute \<Rightarrow> bool" where
  "takes_part r \<equiv> orr_OperationType r \<in> {''source'', ''destination'', ''bidirectional''}"

definition side_routes :: "OperationRoute list \<Rightarrow> string \<Rightarrow> string \<Rightarrow> OperationRoute list" where
  "side_routes rs operationType action =
     filter (\<lambda>r. orr_OperationType r = operationType \<and> action \<in> set (AccountingEntries_Actions (orr_AccountingEntries r))) rs"

definition side_cache :: "extlib \<Rightarrow> OperationRoute list \<Rightarrow> string \<Rightarrow> string \<Rightarrow> (string, OperationRouteCache) gomap" where
  "side_cache lib rs operationType action = map (\<lambda>r. (route_key lib r, route_cache_of r)) (side_routes rs operationType action)"

definition action_used :: "OperationRoute list \<Rightarrow> string \<Rightarrow> bool" where
  "action_used rs action \<longleftrightarrow> (\<exists>r \<in> set rs. takes_part r \<and> action \<in> set (AccountingEntries_Actions (orr_AccountingEntries r)))"

lemma distinct_actions: "distinct (AccountingEntries_Actions es)"
  by (simp add: AccountingEntries_Actions_def split: option.split)

lemma update_appends: "k \<notin> fst ` set m \<Longrightarrow> AList.update k v m = m @ [(k, v)]"
  by (induction m) auto

lemma map_of_update: "map_of (AList.update k v m) = (map_of m)(k \<mapsto> v)"
  by (rule update_conv')

definition put_route :: "string \<Rightarrow> string \<Rightarrow> OperationRouteCache \<Rightarrow> ActionRouteCache option \<Rightarrow> ActionRouteCache" where
  "put_route ty k d c =
     (let a = (case c of Some a \<Rightarrow> a | None \<Rightarrow> \<lparr>arc_Source = [], arc_Destination = [], arc_Bidirectional = []\<rparr>)
      in if ty = ''source'' then a\<lparr>arc_Source := AList.update k d (arc_Source a)\<rparr>
         else if ty = ''destination'' then a\<lparr>arc_Destination := AList.update k d (arc_Destination a)\<rparr>
         else a\<lparr>arc_Bidirectional := AList.update k d (arc_Bidirectional a)\<rparr>)"

lemma cache_action_lookup:
  "map_of (cache_action ty k d a cache) action =
     (if a = action \<and> ty \<in> {''source'', ''destination'', ''bidirectional''} then Some (put_route ty k d (map_of cache action))
      else map_of cache action)"
  by (auto simp: cache_action_def put_route_def Let_def map_of_update)

lemma cache_actions_lookup:
  "distinct acts \<Longrightarrow>
   map_of (fold (cache_action ty k d) acts cache) action =
     (if action \<in> set acts \<and> ty \<in> {''source'', ''destination'', ''bidirectional''} then Some (put_route ty k d (map_of cache action))
      else map_of cache action)"
  by (induction acts arbitrary: cache) (auto simp: cache_action_lookup)

lemma side_cache_snoc:
  "side_cache lib (rs @ [r]) ty action =
     side_cache lib rs ty action @
     (if orr_OperationType r = ty \<and> action \<in> set (AccountingEntries_Actions (orr_AccountingEntries r))
      then [(route_key lib r, route_cache_of r)] else [])"
  by (simp add: side_cache_def side_routes_def)

lemma side_cache_keys: "fst ` set (side_cache lib rs ty action) \<subseteq> route_key lib ` set rs"
  by (auto simp: side_cache_def side_routes_def)

lemma ToCache_lookup:
  assumes "distinct (map (route_key lib) rs)"
  shows "map_of (fold (cache_route lib) rs []) action =
    (if action_used rs action
     then Some \<lparr>arc_Source = side_cache lib rs ''source'' action, arc_Destination = side_cache lib rs ''destination'' action,
                arc_Bidirectional = side_cache lib rs ''bidirectional'' action\<rparr>
     else None)"
  using assms
proof (induction rs rule: rev_induct)
  case Nil
  then show ?case by (simp add: action_used_def)
next
  case (snoc r rs)
  have IH: "map_of (fold (cache_route lib) rs []) action =
      (if action_used rs action
       then Some \<lparr>arc_Source = side_cache lib rs ''source'' action, arc_Destination = side_cache lib rs ''destination'' action,
                  arc_Bidirectional = side_cache lib rs ''bidirectional'' action\<rparr> else None)"
    using snoc by simp
  have new: "route_key lib r \<notin> fst ` set (side_cache lib rs ty action)" for ty
    using snoc.prems side_cache_keys [of lib rs ty action] by auto
  have used: "action_used (rs @ [r]) action \<longleftrightarrow>
      action_used rs action \<or> takes_part r \<and> action \<in> set (AccountingEntries_Actions (orr_AccountingEntries r))"
    by (auto simp: action_used_def)
  have unused: "side_cache lib rs ty action = []" if "\<not> action_used rs action" "ty \<in> {''source'', ''destination'', ''bidirectional''}" for ty
    using that unfolding side_cache_def side_routes_def action_used_def by (auto simp: filter_empty_conv)
  have step: "map_of (fold (cache_route lib) (rs @ [r]) []) action =
      (if action \<in> set (AccountingEntries_Actions (orr_AccountingEntries r)) \<and> takes_part r
       then Some (put_route (orr_OperationType r) (route_key lib r) (route_cache_of r) (map_of (fold (cache_route lib) rs []) action))
       else map_of (fold (cache_route lib) rs []) action)"
    by (simp add: cache_route_def cache_actions_lookup [OF distinct_actions])
  show ?case
    unfolding step IH used using new unused
    by (auto simp: put_route_def side_cache_snoc update_appends Let_def)
qed

section \<open>Accepted transactions follow their routes\<close>

text \<open>The routes that a transaction route configures for an action: a hold takes its destinations from the commit.\<close>

definition side_action :: "OperationRoute list \<Rightarrow> string \<Rightarrow> string \<Rightarrow> string" where
  "side_action rs operationType action =
     (if operationType = ''destination'' \<and> action = ActionHold \<and> action_used rs ActionCommit then ActionCommit else action)"

definition configured :: "extlib \<Rightarrow> OperationRoute list \<Rightarrow> string \<Rightarrow> string \<Rightarrow> (string, OperationRouteCache) gomap" where
  "configured lib rs operationType action = side_cache lib rs operationType (side_action rs operationType action)"

text \<open>Every entry with a route belongs to one side and has an operation.\<close>

definition entries_covered :: "Responses \<Rightarrow> BalanceOperation list \<Rightarrow> bool" where
  "entries_covered v ops \<longleftrightarrow>
     distinct (map fst (rsp_OperationRoutesFrom v)) \<and> distinct (map fst (rsp_OperationRoutesTo v)) \<and>
     fst ` set (rsp_OperationRoutesFrom v) \<subseteq> fst ` set (rsp_From v) \<inter> bo_Alias ` set ops \<and>
     fst ` set (rsp_OperationRoutesTo v) \<subseteq> (fst ` set (rsp_To v) - fst ` set (rsp_From v)) \<inter> bo_Alias ` set ops"

lemma resolveActionRoutes_result:
  assumes "distinct (map (route_key lib) rs)" "resolveActionRoutes (fold (cache_route lib) rs []) action = Inr routes"
  shows "ar_source routes = configured lib rs ''source'' action" "ar_destination routes = configured lib rs ''destination'' action"
    "ar_bidirectional routes = configured lib rs ''bidirectional'' action" "ar_isSourceOnly routes \<longleftrightarrow> action = ActionCancel"
  using assms
  by (auto simp: resolveActionRoutes_def ToCache_lookup configured_def side_action_def Let_def split: if_splits option.splits)

lemma configured_keys_disjoint:
  assumes "distinct (map (route_key lib) rs)" "ty \<noteq> ty'"
  shows "fst ` set (configured lib rs ty action) \<inter> fst ` set (configured lib rs ty' action) = {}"
proof -
  have "inj_on (route_key lib) (set rs)" using assms(1) by (simp add: distinct_map)
  then show ?thesis using assms(2)
    by (auto simp: configured_def side_cache_def side_routes_def dest: inj_onD)
qed

lemma configured_distinct:
  assumes "distinct (map (route_key lib) rs)"
  shows "distinct (map fst (configured lib rs ty action))"
proof -
  have "map fst (configured lib rs ty action) = map (route_key lib) (side_routes rs ty (side_action rs ty action))"
    by (simp add: configured_def side_cache_def)
  then show ?thesis using assms unfolding side_routes_def by (simp add: distinct_map_filter)
qed

text \<open>A union that is as large as the whole that contains it.\<close>

lemma used_all:
  assumes "F \<subseteq> S \<union> B" "T \<subseteq> D \<union> B" "S \<inter> D = {}" "S \<inter> B = {}" "D \<inter> B = {}" "finite S" "finite D" "finite B"
    and "int (card F) + int (card T) - int (card (F \<inter> T)) = int (card S) + int (card D) + int (card B)"
  shows "F \<union> T = S \<union> D \<union> B"
proof -
  have fin: "finite F" "finite T"
    using finite_subset [OF assms(1)] finite_subset [OF assms(2)] assms(6-8) by simp_all
  have "card (F \<union> T) + card (F \<inter> T) = card F + card T" using card_Un_Int [OF fin] by simp
  moreover have "card (S \<union> D \<union> B) = card S + card D + card B"
    using assms(3-8) by (simp add: card_Un_disjoint Int_Un_distrib2)
  ultimately have "card (F \<union> T) = card (S \<union> D \<union> B)" using assms(9) by linarith
  moreover have "F \<union> T \<subseteq> S \<union> D \<union> B" using assms(1,2) by blast
  ultimately show ?thesis using assms(6-8) by (intro card_subset_eq) auto
qed

text \<open>What the rules for one operation say.\<close>

definition follows_route :: "BalanceOperation \<Rightarrow> OperationRouteCache \<Rightarrow> bool" where
  "follows_route op route \<longleftrightarrow>
     validateDirectionRouteMatch op route = None \<and>
     (\<forall>account. rc_Account route = Some account \<longrightarrow> validateSingleOperationRule op account = None)"

lemma validate_operation_found:
  assumes "validate_operation S D B v op = None" "operation_route v (bo_Alias op) = Some (routeID, isSource)"
  shows "\<exists>route. (if isSource then (routeID, route) \<in> set S else (routeID, route) \<in> set D) \<or> (routeID, route) \<in> set B"
    "\<exists>route. ((routeID, route) \<in> set (if isSource then S else D) \<or> (routeID, route) \<in> set B) \<and> follows_route op route"
proof -
  show "\<exists>route. ((routeID, route) \<in> set (if isSource then S else D) \<or> (routeID, route) \<in> set B) \<and> follows_route op route"
  proof (cases "map_of (if isSource then S else D) routeID")
    case (Some route)
    then have "follows_route op route" using assms by (simp add: validate_operation_def follows_route_def split: option.splits)
    then show ?thesis using map_of_SomeD [OF Some] by blast
  next
    case None
    then obtain route where route: "map_of B routeID = Some route" "follows_route op route"
      using assms by (simp add: validate_operation_def follows_route_def split: option.splits)
    then show ?thesis using map_of_SomeD [OF route(1)] by blast
  qed
  then show "\<exists>route. (if isSource then (routeID, route) \<in> set S else (routeID, route) \<in> set D) \<or> (routeID, route) \<in> set B"
    by (auto split: if_splits)
qed

lemma covered_route:
  assumes "entries_covered v ops"
  shows "(al, r) \<in> set (rsp_OperationRoutesFrom v) \<Longrightarrow> \<exists>op \<in> set ops. bo_Alias op = al \<and> operation_route v al = Some (r, True)"
    "(al, r) \<in> set (rsp_OperationRoutesTo v) \<Longrightarrow> \<exists>op \<in> set ops. bo_Alias op = al \<and> operation_route v al = Some (r, False)"
proof -
  have known: "map_of (rsp_From v) k \<noteq> None \<longleftrightarrow> k \<in> fst ` set (rsp_From v)" "map_of (rsp_To v) k \<noteq> None \<longleftrightarrow> k \<in> fst ` set (rsp_To v)" for k
    by (simp_all add: map_of_eq_None_iff)
  note c = assms [unfolded entries_covered_def]
  assume m: "(al, r) \<in> set (rsp_OperationRoutesFrom v)"
  then have "map_of (rsp_OperationRoutesFrom v) al = Some r" "al \<in> fst ` set (rsp_From v)" "al \<in> bo_Alias ` set ops"
    using c image_eqI [OF _ m, of al fst] by auto
  then show "\<exists>op \<in> set ops. bo_Alias op = al \<and> operation_route v al = Some (r, True)"
    unfolding operation_route_def known get_or_empty_def by auto
next
  have known: "map_of (rsp_From v) k \<noteq> None \<longleftrightarrow> k \<in> fst ` set (rsp_From v)" "map_of (rsp_To v) k \<noteq> None \<longleftrightarrow> k \<in> fst ` set (rsp_To v)" for k
    by (simp_all add: map_of_eq_None_iff)
  note c = assms [unfolded entries_covered_def]
  assume m: "(al, r) \<in> set (rsp_OperationRoutesTo v)"
  then have "map_of (rsp_OperationRoutesTo v) al = Some r" "al \<in> fst ` set (rsp_To v)" "al \<notin> fst ` set (rsp_From v)" "al \<in> bo_Alias ` set ops"
    using c image_eqI [OF _ m, of al fst] by auto
  then show "\<exists>op \<in> set ops. bo_Alias op = al \<and> operation_route v al = Some (r, False)"
    unfolding operation_route_def known get_or_empty_def by auto
qed

lemma uniqueValues_card: "uniqueValues m = card (snd ` set m)"
  by (simp add: uniqueValues_def)

lemma shared_set:
  "set (sharedBidirectionalRoutes v routes) =
     {r \<in> snd ` set (rsp_OperationRoutesTo v). r \<in> fst ` set (ar_bidirectional routes) \<and> r \<in> snd ` set (rsp_OperationRoutesFrom v)}"
proof -
  have "map_of (ar_bidirectional routes) r \<noteq> None \<longleftrightarrow> r \<in> fst ` set (ar_bidirectional routes)" for r by (simp add: map_of_eq_None_iff)
  then show ?thesis unfolding sharedBidirectionalRoutes_def by auto
qed

lemma shared_length: "length (sharedBidirectionalRoutes v routes) = card (set (sharedBidirectionalRoutes v routes))"
  unfolding sharedBidirectionalRoutes_def by (simp only: distinct_card [OF distinct_remdups])

lemma routes_all_used:
  assumes rs: "distinct (map (route_key lib) rs)"
    and routes: "resolveActionRoutes (fold (cache_route lib) rs []) action = Inr routes"
    and rules: "validateAccountRules (ar_source routes) (ar_destination routes) (ar_bidirectional routes) v ops = None"
    and counts: "validateRouteCountAndCounterparts v routes ops = None" and covered: "entries_covered v ops"
  shows "snd ` set (rsp_OperationRoutesFrom v) \<union> snd ` set (rsp_OperationRoutesTo v) =
    fst ` set (configured lib rs ''source'' action) \<union> fst ` set (configured lib rs ''destination'' action) \<union>
    fst ` set (configured lib rs ''bidirectional'' action)"
proof -
  let ?S = "fst ` set (configured lib rs ''source'' action)" and ?D = "fst ` set (configured lib rs ''destination'' action)"
    and ?B = "fst ` set (configured lib rs ''bidirectional'' action)"
  let ?F = "snd ` set (rsp_OperationRoutesFrom v)" and ?T = "snd ` set (rsp_OperationRoutesTo v)"
  note r = resolveActionRoutes_result [OF rs routes]
  have each: "validate_operation (ar_source routes) (ar_destination routes) (ar_bidirectional routes) v op = None" if "op \<in> set ops" for op
    using rules that by (simp add: validateAccountRules_def)
  have F: "?F \<subseteq> ?S \<union> ?B"
  proof
    fix x assume "x \<in> ?F"
    then obtain al where "(al, x) \<in> set (rsp_OperationRoutesFrom v)" by auto
    then obtain op where "op \<in> set ops" "operation_route v (bo_Alias op) = Some (x, True)" using covered_route(1) [OF covered] by blast
    from validate_operation_found(1) [OF each [OF this(1)] this(2)] show "x \<in> ?S \<union> ?B" by (force simp: r)
  qed
  have T: "?T \<subseteq> ?D \<union> ?B"
  proof
    fix x assume "x \<in> ?T"
    then obtain al where "(al, x) \<in> set (rsp_OperationRoutesTo v)" by auto
    then obtain op where "op \<in> set ops" "operation_route v (bo_Alias op) = Some (x, False)" using covered_route(2) [OF covered] by blast
    from validate_operation_found(1) [OF each [OF this(1)] this(2)] show "x \<in> ?D \<union> ?B" by (force simp: r)
  qed
  have disjoint: "?S \<inter> ?D = {}" "?S \<inter> ?B = {}" "?D \<inter> ?B = {}" using configured_keys_disjoint [OF rs] by auto
  have "set (sharedBidirectionalRoutes v routes) = ?F \<inter> ?T" unfolding shared_set r using F T disjoint by blast
  then have shared: "length (sharedBidirectionalRoutes v routes) = card (?F \<inter> ?T)" by (simp add: shared_length)
  have lengths: "length (configured lib rs ty action) = card (fst ` set (configured lib rs ty action))" for ty
    using distinct_card [OF configured_distinct [OF rs, of ty action]] by simp
  have "int (card ?F) + int (card ?T) - int (card (?F \<inter> ?T)) = int (card ?S) + int (card ?D) + int (card ?B)"
    using counts unfolding validateRouteCountAndCounterparts_def Let_def shared r lengths uniqueValues_card by (simp split: if_splits)
  with F T disjoint show ?thesis by (intro used_all) auto
qed

lemma configured_overdraft_classifies:
  assumes "overdraftRubricConfigured cache routeID direction" "routeID \<noteq> ''''"
    and "op_BalanceKey opr = OverdraftBalanceKey" "op_RouteID opr = Some routeID" "op_Direction opr = direction"
  shows "\<exists>code. code \<noteq> '''' \<and> op_RouteCode (resolve_route_code cache action override opr) = Some code"
  using assms
  by (auto simp: overdraftRubricConfigured_def resolve_route_code_def resolved_action_def resolveAccountingRubric_def entry_for_def
      ToLower_def lower_char_def Let_def split: option.splits if_splits)

lemma no_route_without_key:
  assumes "distinct (map (route_key lib) rs)" "'''' \<notin> route_key lib ` set rs"
  shows "\<not> overdraftRubricConfigured (fold (cache_route lib) rs []) '''' direction"
proof -
  have "map_of (side_cache lib rs ty a) '''' = None" for ty a
    using side_cache_keys [of lib rs ty a] assms(2) by (auto simp: map_of_eq_None_iff)
  then show ?thesis by (simp add: overdraftRubricConfigured_def ToCache_lookup [OF assms(1)] FindRoute_def)
qed


section \<open>Example\<close>

text \<open>A payment over a route for its source, restricted to deposit accounts, and one for its destination.\<close>

definition route_lib :: extlib where
  "route_lib = exact_lib\<lparr>uuid_String := (\<lambda>u. if u = 1 then ''r1'' else ''r2''), uuid_Parse := (\<lambda>s. Some 9)\<rparr>"

definition direct_entry :: AccountingEntry where
  "direct_entry = \<lparr>ae_Debit = Some \<lparr>rub_Code = ''1'', rub_Description = ''d''\<rparr>, ae_Credit = Some \<lparr>rub_Code = ''2'', rub_Description = ''c''\<rparr>\<rparr>"

definition payment_route :: "uuid \<Rightarrow> string \<Rightarrow> AccountRule option \<Rightarrow> OperationRoute" where
  "payment_route u ty account =
     \<lparr>orr_ID = u, orr_OrganizationID = 1, orr_LedgerID = 2, orr_Title = ''t'', orr_Description = '''', orr_Code = '''', orr_OperationType = ty,
      orr_AccountingEntries = Some (AccountingEntries_zero\<lparr>aes_Direct := Some direct_entry\<rparr>), orr_Account = account,
      orr_CreatedAt = 0, orr_UpdatedAt = 0, orr_DeletedAt = None\<rparr>"

definition payment_routes :: TransactionRoute where
  "payment_routes =
     \<lparr>trr_ID = 9, trr_OrganizationID = 1, trr_LedgerID = 2, trr_Title = ''t'', trr_Description = '''',
      trr_OperationRoutes =
        [payment_route 1 ''source'' (Some \<lparr>acr_RuleType = ''account_type'', acr_ValidIf = JArr [JStr ''deposit'']\<rparr>),
         payment_route 2 ''destination'' None],
      trr_CreatedAt = 0, trr_UpdatedAt = 0, trr_DeletedAt = None\<rparr>"

definition deposit_balance :: "string \<Rightarrow> MBalance" where
  "deposit_balance al =
     \<lparr>mb_ID = al, mb_OrganizationID = '''', mb_LedgerID = '''', mb_AccountID = al, mb_Alias = al, mb_Key = ''default'', mb_AssetCode = ''BRL'',
      mb_Available = 10, mb_OnHold = 0, mb_Version = 1, mb_AccountType = ''deposit'', mb_AllowSending = True, mb_AllowReceiving = True,
      mb_Direction = ''credit'', mb_OverdraftUsed = 0, mb_Settings = None, mb_CreatedAt = 0, mb_UpdatedAt = 0, mb_DeletedAt = None,
      mb_Metadata = None\<rparr>"

definition routed_amount :: "string \<Rightarrow> string \<Rightarrow> Amount" where
  "routed_amount operation direction =
     Amount_zero\<lparr>am_Asset := ''BRL'', am_Value := 5, am_Operation := operation, am_TransactionType := CREATED, am_Direction := direction\<rparr>"

definition routed_entries :: Responses where
  "routed_entries =
     Responses_zero\<lparr>rsp_From := [(''0#@a#default'', routed_amount DEBIT DirectionDebit)],
       rsp_To := [(''0#@b#default'', routed_amount CREDIT DirectionCredit)], rsp_TransactionRoute := ''r9'',
       rsp_OperationRoutesFrom := [(''0#@a#default'', ''r1'')], rsp_OperationRoutesTo := [(''0#@b#default'', ''r2'')]\<rparr>"

definition routed_operations :: "BalanceOperation list" where
  "routed_operations =
     [\<lparr>bo_Balance = deposit_balance ''@a'', bo_Alias = ''0#@a#default'', bo_Amount = routed_amount DEBIT DirectionDebit, bo_InternalKey = ''ka''\<rparr>,
      \<lparr>bo_Balance = deposit_balance ''@b'', bo_Alias = ''0#@b#default'', bo_Amount = routed_amount CREDIT DirectionCredit, bo_InternalKey = ''kb''\<rparr>]"

text \<open>
  The request accepts the type of an account rule in any case; the validation of transactions knows the
  lower case only, so that every transaction over such a route is refused.
\<close>

lemma capital_rule_blocks_route:
  "validateAccountRule (Some \<lparr>acr_RuleType = ''ALIAS'', acr_ValidIf = JStr ''@a''\<rparr>) = None \<and>
   validateSingleOperationRule op \<lparr>ac_RuleType = ''ALIAS'', ac_ValidIf = JStr ''@a''\<rparr> = Some (Business ErrCorruptedAccountRule)"
proof
  show "validateAccountRule (Some \<lparr>acr_RuleType = ''ALIAS'', acr_ValidIf = JStr ''@a''\<rparr>) = None" by code_simp
qed (simp add: validateSingleOperationRule_def)

text \<open>
  An update is checked on the merged entries, from which those for blocking are missing: a source route
  gets one without the debit that the creation of a route asks for.
\<close>

lemma update_skips_block_entries:
  defines "existing \<equiv> AccountingEntries_zero\<lparr>aes_Direct := Some direct_entry\<rparr>"
    and "incoming \<equiv> AccountingEntries_zero\<lparr>aes_Block := Some (direct_entry\<lparr>ae_Debit := None\<rparr>)\<rparr>"
  shows "validateAccountingRulesMatrix ''source'' (Some (existing\<lparr>aes_Block := aes_Block incoming\<rparr>)) = Some (Business ErrAccountingEntryFieldRequired) \<and>
    validateAccountingEntries (Some incoming) = None \<and>
    validateAccountingRulesMatrix ''source'' (mergeAccountingEntries (Some existing) (Some incoming) (Some [(''block'', aes_Block incoming)])) = None"
  unfolding existing_def incoming_def by code_simp

lemma payment_cache:
  "TransactionRoute_ToCache route_lib payment_routes =
     [(''direct'', \<lparr>arc_Source = [(''r1'', route_cache_of (payment_route 1 ''source''
                        (Some \<lparr>acr_RuleType = ''account_type'', acr_ValidIf = JArr [JStr ''deposit'']\<rparr>)))],
                    arc_Destination = [(''r2'', route_cache_of (payment_route 2 ''destination'' None))], arc_Bidirectional = []\<rparr>)]"
  by (simp add: TransactionRoute_ToCache_def payment_routes_def cache_route_def cache_action_def payment_route_def AccountingEntries_Actions_def
      AccountingEntries_zero_def route_lib_def Let_def)


end
