(* ===== verification/TransactionHandlers.thy ===== *)
theory TransactionHandlers
  imports TransactionStore AccountingRules LedgerSettings
begin

text \<open>
  The handlers of transactions (\<^verbatim>\<open>transaction_create.go\<close>, \<^verbatim>\<open>transaction_state_handlers.go\<close>,
  \<^verbatim>\<open>transaction_reservation_anchor.go\<close>, \<^verbatim>\<open>transaction_fee_application.go\<close>, \<^verbatim>\<open>create_transaction_idempotency.go\<close>,
  \<^verbatim>\<open>get_balances.go\<close>, \<^verbatim>\<open>get_id_transaction.go\<close>): a request to create, revert, commit or cancel a transaction,
  from its first check to its last write, on the state that the other theories describe: the cached
  balances, the tables and backups, the queue, the plain keys of the cache (idempotency slots and locks)
  and the calls of the tracer.

  The handlers are cut where another request can come between: the claim of a key, the reads, the backup,
  the script, and what follows it. The fee engine and the tracer are reached through the interfaces that
  the handlers declare, and are arguments; so are the generator of identifiers, the hash of a request, the
  order in which operations are sorted, and what may fail. The encoding of a transaction as JSON is the
  identity. Work that the code leaves to a goroutine after its last step is part of that step.
\<close>

section \<open>State and environment\<close>

record ReserveRequest =
  rq_TransactionID :: uuid
  rq_RequestID :: uuid
  rq_Amount :: string
  rq_Currency :: string
  rq_AccountID :: string
  rq_TransactionTimestamp :: time
  rq_LongLived :: bool

record TracerReserveResult =
  rr_Denied :: bool
  rr_ReservationIDs :: "uuid list"

datatype tracer_call =
    Reserve_call ReserveRequest
  | Confirm_call uuid
  | Release_call uuid
  | ConfirmByTransaction_call uuid
  | ReleaseByTransaction_call uuid

text \<open>A plain key holds the empty string (\<open>None\<close>) or a transaction.\<close>

record Platform =
  pf_redis :: RedisState
  pf_store :: Store
  pf_queue :: "Queue list"
  pf_keys :: "string \<rightharpoonup> TransactionRecord option"
  pf_tracer :: "tracer_call list"

record HandlerEnv =
  he_store :: StoreEnv
  he_faults :: Faults
  he_conn :: Conn
  he_dueAt :: rat
  he_ops :: OperationEnv
  he_sort :: "BalanceOperation list \<Rightarrow> BalanceOperation list"
  he_reqId :: string
  he_newID :: "goerr + uuid"
  he_hash :: "Transaction \<Rightarrow> goerr + string"
  he_requestID :: "uuid \<Rightarrow> uuid"
  he_settings :: "goerr + LedgerSettings"
  he_dbBalances :: "string list \<Rightarrow> goerr + MBalance list"
  he_routes :: "uuid \<Rightarrow> goerr + TransactionRouteCache"
  he_fees :: "(Transaction \<Rightarrow> goerr + Transaction) option"
  he_tracer :: "(ReserveRequest \<Rightarrow> goerr + TracerReserveResult) option"
  he_producer :: "goerr option"
  he_setnx :: "goerr option"
  he_get :: "goerr option"
  he_set :: "goerr option"
  he_del :: "goerr option"

abbreviation he_lib :: "HandlerEnv \<Rightarrow> extlib" where
  "he_lib env \<equiv> se_lib (he_store env)"

abbreviation he_commons :: "HandlerEnv \<Rightarrow> commons" where
  "he_commons env \<equiv> se_commons (he_store env)"

section \<open>Plain keys\<close>

definition SetNX :: "HandlerEnv \<Rightarrow> string \<Rightarrow> Platform \<Rightarrow> Platform \<times> (goerr + bool)" where
  "SetNX env key s =
     (case he_setnx env of
        Some e \<Rightarrow> (s, Inl e)
      | None \<Rightarrow> if pf_keys s key \<noteq> None then (s, Inr False) else (s\<lparr>pf_keys := (pf_keys s)(key \<mapsto> None)\<rparr>, Inr True))"

definition Del :: "HandlerEnv \<Rightarrow> string \<Rightarrow> Platform \<Rightarrow> Platform" where
  "Del env key s = (case he_del env of Some e \<Rightarrow> s | None \<Rightarrow> s\<lparr>pf_keys := (pf_keys s)(key := None)\<rparr>)"

definition PendingTransactionLockKey :: "extlib \<Rightarrow> uuid \<Rightarrow> uuid \<Rightarrow> string \<Rightarrow> string" where
  "PendingTransactionLockKey lib organizationID ledgerID transactionID =
     ''pending_transaction:{transaction}:'' @ uuid_String lib organizationID @ '':'' @ uuid_String lib ledgerID @ '':'' @ transactionID"

definition IdempotencyInternalKey :: "extlib \<Rightarrow> uuid \<Rightarrow> uuid \<Rightarrow> string \<Rightarrow> string" where
  "IdempotencyInternalKey lib organizationID ledgerID key =
     ''idempotency:{'' @ uuid_String lib organizationID @ '':'' @ uuid_String lib ledgerID @ '':'' @ key @ ''}''"

definition idempotency_key :: "extlib \<Rightarrow> uuid \<Rightarrow> uuid \<Rightarrow> string \<Rightarrow> string \<Rightarrow> string" where
  "idempotency_key lib organizationID ledgerID key hash = IdempotencyInternalKey lib organizationID ledgerID (if key = '''' then hash else key)"

text \<open>The slot of a request: claimed, or holding the transaction that an earlier request made.\<close>

definition CreateOrCheckTransactionIdempotency ::
    "HandlerEnv \<Rightarrow> uuid \<Rightarrow> uuid \<Rightarrow> string \<Rightarrow> string \<Rightarrow> Platform \<Rightarrow> Platform \<times> (goerr + TransactionRecord option)" where
  "CreateOrCheckTransactionIdempotency env organizationID ledgerID key hash s =
     (let internalKey = idempotency_key (he_lib env) organizationID ledgerID key hash
      in case SetNX env internalKey s of
           (s', Inl e) \<Rightarrow> (s', Inl (Wrapped ''failed to lock idempotency key: '' e))
         | (s', Inr True) \<Rightarrow> (s', Inr None)
         | (s', Inr False) \<Rightarrow>
             (case he_get env of
                Some e \<Rightarrow> (s', Inl (Wrapped ''failed to get idempotency value: '' e))
              | None \<Rightarrow>
                  (case pf_keys s' internalKey of
                     Some (Some replay) \<Rightarrow> (s', Inr (Some replay))
                   | _ \<Rightarrow> (s', Inl (Business ErrIdempotencyKey)))))"

definition SetTransactionIdempotencyValue ::
    "HandlerEnv \<Rightarrow> uuid \<Rightarrow> uuid \<Rightarrow> string \<Rightarrow> string \<Rightarrow> TransactionRecord \<Rightarrow> Platform \<Rightarrow> Platform" where
  "SetTransactionIdempotencyValue env organizationID ledgerID key hash t s =
     (case he_set env of
        Some e \<Rightarrow> s
      | None \<Rightarrow> s\<lparr>pf_keys := (pf_keys s)(idempotency_key (he_lib env) organizationID ledgerID key hash \<mapsto> Some t)\<rparr>)"

section \<open>Reads\<close>

definition cached_balance :: "extlib \<Rightarrow> uuid \<Rightarrow> uuid \<Rightarrow> string \<Rightarrow> BalanceRedis \<Rightarrow> MBalance" where
  "cached_balance lib organizationID ledgerID al b =
     (let (balanceAlias, rest) = (case go_index ''#'' al of Some i \<Rightarrow> (take i al, drop (i + 1) al) | None \<Rightarrow> (al, ''''));
          balanceKey = (if TrimSpace rest = '''' then DefaultBalanceKey else TrimSpace rest)
      in \<lparr>mb_ID = br_ID b, mb_OrganizationID = uuid_String lib organizationID, mb_LedgerID = uuid_String lib ledgerID,
          mb_AccountID = br_AccountID b, mb_Alias = balanceAlias, mb_Key = balanceKey, mb_AssetCode = br_AssetCode b,
          mb_Available = br_Available b, mb_OnHold = br_OnHold b, mb_Version = br_Version b, mb_AccountType = br_AccountType b,
          mb_AllowSending = (br_AllowSending b = 1), mb_AllowReceiving = (br_AllowReceiving b = 1), mb_Direction = br_Direction b,
          mb_OverdraftUsed = (case dec_NewFromString lib (br_OverdraftUsed b) of Some u \<Rightarrow> u | None \<Rightarrow> 0),
          mb_Settings = settings_of_redis b, mb_CreatedAt = 0, mb_UpdatedAt = 0, mb_DeletedAt = None, mb_Metadata = None\<rparr>)"

definition read_cached :: "HandlerEnv \<Rightarrow> uuid \<Rightarrow> uuid \<Rightarrow> RedisState \<Rightarrow> string \<Rightarrow> MBalance option" where
  "read_cached env organizationID ledgerID r al =
     (case (he_get env, cn_tenantKey (he_conn env) (BalanceInternalKey (he_lib env) organizationID ledgerID al)) of
        (None, Inr key) \<Rightarrow>
          (case rs_balances r key of
             None \<Rightarrow> None
           | Some c \<Rightarrow> map_option (cached_balance (he_lib env) organizationID ledgerID al) (BalanceRedis_UnmarshalJSON (he_lib env) (cjson_decode c)))
      | _ \<Rightarrow> None)"

definition getBalancesFromCache :: "HandlerEnv \<Rightarrow> uuid \<Rightarrow> uuid \<Rightarrow> string list \<Rightarrow> RedisState \<Rightarrow> MBalance list \<times> string list" where
  "getBalancesFromCache env organizationID ledgerID aliases r =
     (List.map_filter (read_cached env organizationID ledgerID r) aliases,
      filter (\<lambda>al. read_cached env organizationID ledgerID r al = None) aliases)"

definition GetBalances :: "HandlerEnv \<Rightarrow> uuid \<Rightarrow> uuid \<Rightarrow> string list \<Rightarrow> RedisState \<Rightarrow> goerr + MBalance list" where
  "GetBalances env organizationID ledgerID aliases r =
     (let (balances, uncachedAliases) = getBalancesFromCache env organizationID ledgerID aliases r
      in if uncachedAliases \<noteq> []
         then (case he_dbBalances env uncachedAliases of Inl e \<Rightarrow> Inl e | Inr balancesDB \<Rightarrow> Inr (balances @ balancesDB))
         else Inr balances)"

text \<open>A transaction as it is in the table: without its operations.\<close>

definition TransactionRepo_Find :: "HandlerEnv \<Rightarrow> uuid \<Rightarrow> uuid \<Rightarrow> uuid \<Rightarrow> Store \<Rightarrow> goerr + TransactionRecord" where
  "TransactionRepo_Find env organizationID ledgerID transactionID st =
     (let lib = he_lib env
      in case st_transactions st (uuid_String lib transactionID) of
           None \<Rightarrow> Inl (Business ErrEntityNotFound)
         | Some row \<Rightarrow>
             if pt_OrganizationID row = uuid_String lib organizationID \<and> pt_LedgerID row = uuid_String lib ledgerID \<and> pt_DeletedAt row = None
             then Inr (Transaction_ToEntity row) else Inl (Business ErrEntityNotFound))"

definition GetTransactionByID :: "HandlerEnv \<Rightarrow> uuid \<Rightarrow> uuid \<Rightarrow> uuid \<Rightarrow> Store \<Rightarrow> goerr + TransactionRecord" where
  "GetTransactionByID env organizationID ledgerID transactionID st =
     (case TransactionRepo_Find env organizationID ledgerID transactionID st of
        Inl e \<Rightarrow> Inl e
      | Inr tran \<Rightarrow>
          (case f_metadata (he_faults env) (uuid_String (he_lib env) transactionID) of
             Some e \<Rightarrow> Inl e
           | None \<Rightarrow>
               (case MetadataRepo_FindByEntity ''Transaction'' (uuid_String (he_lib env) transactionID) st of
                  Some d \<Rightarrow> Inr (tran\<lparr>tr_Metadata := Some (md_Data d)\<rparr>)
                | None \<Rightarrow> Inr tran)))"

section \<open>Skips, fees and reservations\<close>

definition ResolveSkipFor :: "bool \<Rightarrow> bool \<Rightarrow> goerr + bool" where
  "ResolveSkipFor requested allowed =
     (if requested \<and> \<not> allowed then Inl (Business ErrSkipNotPermitted) else Inr (requested \<and> allowed))"

definition wants :: "(TransactionSkip \<Rightarrow> bool) \<Rightarrow> Transaction \<Rightarrow> bool" where
  "wants f input = (case tx_Skip input of None \<Rightarrow> False | Some s \<Rightarrow> f s)"

definition resolveTransactionSkips :: "Transaction \<Rightarrow> LedgerSettings \<Rightarrow> goerr + bool \<times> bool" where
  "resolveTransactionSkips input settings =
     (case ResolveSkipFor (wants skip_Fees input) (op_AllowFeeSkip (ls_Overrides settings)) of
        Inl e \<Rightarrow> Inl e
      | Inr feeSkip \<Rightarrow>
          (case ResolveSkipFor (wants skip_Tracer input) (op_AllowTracerSkip (ls_Overrides settings)) of
             Inl e \<Rightarrow> Inl e
           | Inr tracerSkip \<Rightarrow> Inr (feeSkip, tracerSkip)))"

definition applyFees :: "HandlerEnv \<Rightarrow> Transaction \<Rightarrow> bool \<Rightarrow> bool \<Rightarrow> bool \<Rightarrow> goerr + Transaction" where
  "applyFees env transactionInput isRevert isAnnotation honoredFeeSkip =
     (if honoredFeeSkip then Inr transactionInput
      else if isRevert \<or> isAnnotation then Inr transactionInput
      else case he_fees env of None \<Rightarrow> Inr transactionInput | Some calculateFee \<Rightarrow> calculateFee transactionInput)"

datatype reservationOutcome = ReservationProceed "uuid list" | ReservationReject goerr

definition handleReserveError :: "TracerSettings \<Rightarrow> bool \<Rightarrow> reservationOutcome" where
  "handleReserveError settings advisory =
     (if advisory then ReservationProceed []
      else if ts_FailPosture settings = TracerFailPostureClosed then ReservationReject (Business ErrTransactionReservationUnavailable)
      else ReservationProceed [])"

definition reservationTTLForStatus :: "string \<Rightarrow> bool" where
  "reservationTTLForStatus transactionStatus = (transactionStatus = PENDING)"

definition reserveTransaction ::
    "HandlerEnv \<Rightarrow> TracerSettings \<Rightarrow> uuid \<Rightarrow> decimal \<Rightarrow> string \<Rightarrow> string \<Rightarrow> time \<Rightarrow> bool \<Rightarrow> bool \<Rightarrow> Platform \<Rightarrow> Platform \<times> reservationOutcome" where
  "reserveTransaction env settings transactionID amount asset accountID timestamp longLived honoredTracerSkip s =
     (case he_tracer env of
        None \<Rightarrow> (s, ReservationProceed [])
      | Some reserve \<Rightarrow>
          if ts_Mode settings = TracerModeOff \<or> ts_Mode settings = '''' \<or> honoredTracerSkip then (s, ReservationProceed [])
          else (let advisory = (ts_Mode settings = TracerModeAdvisory);
                    req = \<lparr>rq_TransactionID = transactionID, rq_RequestID = he_requestID env transactionID,
                      rq_Amount = dec_String (he_lib env) amount, rq_Currency = asset, rq_AccountID = accountID,
                      rq_TransactionTimestamp = timestamp, rq_LongLived = longLived\<rparr>;
                    s = s\<lparr>pf_tracer := pf_tracer s @ [Reserve_call req]\<rparr>
                in case reserve req of
                     Inl e \<Rightarrow> (s, handleReserveError settings advisory)
                   | Inr result \<Rightarrow>
                       if rr_Denied result
                       then (s, if advisory then ReservationProceed [] else ReservationReject (Business ErrTransactionReservationDenied))
                       else (s, ReservationProceed (rr_ReservationIDs result))))"

definition firstSourceAccountID :: "string list \<Rightarrow> MBalance list \<Rightarrow> string" where
  "firstSourceAccountID sources balances =
     (let byAlias = fold (\<lambda>b m. if mb_Key b = OverdraftBalanceKey then m else first_wins (mb_Alias b) (mb_AccountID b) m) balances [];
          bare = (\<lambda>src. case go_index ''#'' src of Some i \<Rightarrow> take i src | None \<Rightarrow> src);
          found = List.map_filter (\<lambda>src. case map_of byAlias (bare src) of
                    Some accountID \<Rightarrow> if accountID \<noteq> '''' then Some accountID else None | None \<Rightarrow> None) (filterCompanionAliases sources)
      in case found of [] \<Rightarrow> '''' | a # _ \<Rightarrow> a)"

text \<open>The calls that end reservations; their failures are only logged.\<close>

definition confirmReservations :: "HandlerEnv \<Rightarrow> uuid list \<Rightarrow> Platform \<Rightarrow> Platform" where
  "confirmReservations env handle s = (if he_tracer env = None then s else s\<lparr>pf_tracer := pf_tracer s @ map Confirm_call handle\<rparr>)"

definition releaseReservations :: "HandlerEnv \<Rightarrow> uuid list \<Rightarrow> Platform \<Rightarrow> Platform" where
  "releaseReservations env handle s = (if he_tracer env = None then s else s\<lparr>pf_tracer := pf_tracer s @ map Release_call handle\<rparr>)"

definition tracerReservationEnabled :: "HandlerEnv \<Rightarrow> TracerSettings \<Rightarrow> bool" where
  "tracerReservationEnabled env settings = (he_tracer env \<noteq> None \<and> ts_Mode settings \<noteq> TracerModeOff \<and> ts_Mode settings \<noteq> '''')"

definition endReservationsByTransaction :: "HandlerEnv \<Rightarrow> (uuid \<Rightarrow> tracer_call) \<Rightarrow> TracerSettings \<Rightarrow> uuid \<Rightarrow> bool \<Rightarrow> Platform \<Rightarrow> Platform" where
  "endReservationsByTransaction env call settings transactionID honoredTracerSkip s =
     (if honoredTracerSkip \<or> \<not> tracerReservationEnabled env settings then s else s\<lparr>pf_tracer := pf_tracer s @ [call transactionID]\<rparr>)"

definition confirmReservationsByTransaction :: "HandlerEnv \<Rightarrow> TracerSettings \<Rightarrow> uuid \<Rightarrow> bool \<Rightarrow> Platform \<Rightarrow> Platform" where
  "confirmReservationsByTransaction env = endReservationsByTransaction env ConfirmByTransaction_call"

definition releaseReservationsByTransaction :: "HandlerEnv \<Rightarrow> TracerSettings \<Rightarrow> uuid \<Rightarrow> bool \<Rightarrow> Platform \<Rightarrow> Platform" where
  "releaseReservationsByTransaction env = endReservationsByTransaction env ReleaseByTransaction_call"

section \<open>The script and the backup\<close>

text \<open>The entry of the backup hash that the script completes with the balances before and after.\<close>

definition TransactionRedisQueue_zero :: TransactionRedisQueue where
  "TransactionRedisQueue_zero =
     \<lparr>tq_HeaderID = '''', tq_TransactionID = uuid_Nil, tq_OrganizationID = uuid_Nil, tq_LedgerID = uuid_Nil, tq_Balances = [],
      tq_BalancesAfter = [], tq_TransactionInput = Transaction_zero, tq_TTL = 0, tq_Validate = None, tq_TransactionStatus = '''',
      tq_Action = '''', tq_TransactionDate = 0, tq_Operations = []\<rparr>"

definition note_balances :: "HandlerEnv \<Rightarrow> string \<Rightarrow> RedisState \<Rightarrow> Store \<Rightarrow> Store" where
  "note_balances env key r st =
     (case cn_tenantKey (he_conn env) key of
        Inl e \<Rightarrow> st
      | Inr prefixed \<Rightarrow>
          (case rs_backup r prefixed of
             None \<Rightarrow> st
           | Some (balances, balancesAfter) \<Rightarrow>
               (let queue = (case st_backup st key of Some q \<Rightarrow> q | None \<Rightarrow> TransactionRedisQueue_zero)
                in st\<lparr>st_backup := (st_backup st)(key \<mapsto>
                     queue\<lparr>tq_Balances := balanceRedisList_UnmarshalJSON (he_lib env) balances,
                           tq_BalancesAfter := balanceRedisList_UnmarshalJSON (he_lib env) balancesAfter\<rparr>)\<rparr>)))"

definition process_balances :: "HandlerEnv \<Rightarrow> ProcessBalanceOperationsInput \<Rightarrow> Platform \<Rightarrow> Platform \<times> (goerr + BalanceAtomicResult)" where
  "process_balances env input s =
     (case ProcessBalanceOperations (he_lib env) (he_conn env) (he_dueAt env) input (pf_redis s) of
        (r, Inl e) \<Rightarrow> (s\<lparr>pf_redis := r\<rparr>, Inl e)
      | (r, Inr result) \<Rightarrow>
          (s\<lparr>pf_redis := r,
             pf_store := (if pb_TransactionStatus input = NOTED then pf_store s
               else note_balances env (TransactionInternalKey (he_lib env) (pb_OrganizationID input) (pb_LedgerID input)
                      (uuid_String (he_lib env) (pb_TransactionID input))) r (pf_store s))\<rparr>, Inr result))"

definition legs_from :: "Transaction \<Rightarrow> FromTo list" where
  "legs_from t = src_From (snd_Source (tx_Send t))"

definition legs_to :: "Transaction \<Rightarrow> FromTo list" where
  "legs_to t = dst_To (snd_Distribute (tx_Send t))"

definition with_legs :: "(FromTo list \<Rightarrow> FromTo list) \<Rightarrow> (FromTo list \<Rightarrow> FromTo list) \<Rightarrow> Transaction \<Rightarrow> Transaction" where
  "with_legs f g t =
     t\<lparr>tx_Send := (tx_Send t)\<lparr>snd_Source := (snd_Source (tx_Send t))\<lparr>src_From := f (legs_from t)\<rparr>,
                               snd_Distribute := (snd_Distribute (tx_Send t))\<lparr>dst_To := g (legs_to t)\<rparr>\<rparr>\<rparr>"

definition HandleKnownBusinessValidationErrors :: "goerr \<Rightarrow> goerr" where
  "HandleKnownBusinessValidationErrors e =
     (if error_text e = error_text ErrTransactionAmbiguous then Business ErrTransactionAmbiguous
      else if error_text e = error_text ErrTransactionValueMismatch then Business ErrTransactionValueMismatch
      else e)"

text \<open>The operations on balances that a validated transaction asks for, and the routes that they follow.\<close>

record PlannedOperations =
  po_balances :: "MBalance list"
  po_operations :: "BalanceOperation list"
  po_validate :: Responses
  po_companions :: "FromTo list"
  po_routeCache :: "TransactionRouteCache option"

definition load_balances :: "HandlerEnv \<Rightarrow> uuid \<Rightarrow> uuid \<Rightarrow> Platform \<Rightarrow> string list \<Rightarrow> goerr + MBalance list" where
  "load_balances env organizationID ledgerID s aliases = GetBalances env organizationID ledgerID aliases (pf_redis s)"

section \<open>Commit and cancel\<close>

definition stored_operation :: "Operation \<Rightarrow> StoredOperation" where
  "stored_operation op =
     \<lparr>sop_Type = op_Type op, sop_Direction = op_Direction op, sop_Amount = op_Amount op, sop_AccountAlias = op_AccountAlias op,
      sop_BalanceKey = op_BalanceKey op, sop_OverdraftUsedBefore = sn_OverdraftUsedBefore (op_Snapshot op),
      sop_OverdraftUsedAfter = sn_OverdraftUsedAfter (op_Snapshot op)\<rparr>"

record Settlement =
  sm_input :: Transaction
  sm_settings :: LedgerSettings
  sm_tracerSkip :: bool
  sm_action :: string
  sm_plan :: PlannedOperations
  sm_fromTo :: "FromTo list"

definition commit_lock :: "HandlerEnv \<Rightarrow> uuid \<Rightarrow> uuid \<Rightarrow> TransactionRecord \<Rightarrow> Platform \<Rightarrow> Platform \<times> goerr option" where
  "commit_lock env organizationID ledgerID tran s =
     (case SetNX env (PendingTransactionLockKey (he_lib env) organizationID ledgerID (tr_ID tran)) s of
        (s', Inl e) \<Rightarrow> (s', Some e)
      | (s', Inr False) \<Rightarrow> (s', Some (Business ErrPendingTransactionLocked))
      | (s', Inr True) \<Rightarrow> (s', None))"

definition deleteLockOnError :: "HandlerEnv \<Rightarrow> uuid \<Rightarrow> uuid \<Rightarrow> TransactionRecord \<Rightarrow> Platform \<Rightarrow> Platform" where
  "deleteLockOnError env organizationID ledgerID tran = Del env (PendingTransactionLockKey (he_lib env) organizationID ledgerID (tr_ID tran))"

definition plan_settlement ::
    "HandlerEnv \<Rightarrow> uuid \<Rightarrow> uuid \<Rightarrow> TransactionRecord \<Rightarrow> string \<Rightarrow> string \<Rightarrow> Responses \<Rightarrow> Platform \<Rightarrow> goerr + PlannedOperations" where
  "plan_settlement env organizationID ledgerID tran transactionStatus action validate s =
     (let lib = he_lib env; load = load_balances env organizationID ledgerID s
      in case load (rsp_Aliases validate) of
           Inl e \<Rightarrow> Inl e
         | Inr balances \<Rightarrow>
             (let balanceOps = annotateCanceledOverdraftAmounts lib (buildBalanceOperations lib (he_sort env) organizationID ledgerID validate balances)
                    (map stored_operation (tr_Operations tran));
                  enriched = (if transactionStatus = CANCELED then enrichOverdraftOperations lib organizationID ledgerID balanceOps validate load
                    else Inr (balanceOps, validate, []))
              in case enriched of
                   Inl e \<Rightarrow> Inl e
                 | Inr (balanceOps, validate, companions) \<Rightarrow>
                     (case ValidateAccountingRules lib (he_commons env) (map_sum id (\<lambda>ls. av_ValidateRoutes (ls_Accounting ls)) (he_settings env))
                             (he_routes env) balanceOps validate action of
                        Inl e \<Rightarrow> Inl e
                      | Inr routeCache \<Rightarrow>
                          Inr \<lparr>po_balances = balances, po_operations = balanceOps, po_validate = validate, po_companions = companions,
                               po_routeCache = routeCache\<rparr>)))"

definition commit_prepare :: "HandlerEnv \<Rightarrow> uuid \<Rightarrow> uuid \<Rightarrow> TransactionRecord \<Rightarrow> string \<Rightarrow> Platform \<Rightarrow> goerr + Settlement" where
  "commit_prepare env organizationID ledgerID tran transactionStatus s =
     (let transactionInput = with_legs (MutateConcatAliases \<circ> ApplyDefaultBalanceKeys) (MutateConcatAliases \<circ> ApplyDefaultBalanceKeys) (tr_Body tran);
          fromTo = legs_from transactionInput @ (if transactionStatus \<noteq> CANCELED then legs_to transactionInput else [])
      in if tr_StatusCode tran \<noteq> PENDING then Inl (Business ErrCommitTransactionNotPending)
         else case ValidateSendSourceAndDistribute (he_lib env) (he_commons env) transactionInput transactionStatus of
           (_, Inl e) \<Rightarrow> Inl (HandleKnownBusinessValidationErrors e)
         | (transactionInput, Inr validate) \<Rightarrow>
             (case he_settings env of
                Inl e \<Rightarrow> Inl e
              | Inr ledgerSettings \<Rightarrow>
                  (let validate = (if av_ValidateRoutes (ls_Accounting ledgerSettings) then PropagateRouteValidation validate transactionStatus else validate);
                       tracerSkip = (case ResolveSkipFor (wants skip_Tracer (tr_Body tran)) (op_AllowTracerSkip (ls_Overrides ledgerSettings)) of
                                       Inl e \<Rightarrow> False | Inr h \<Rightarrow> h);
                       action = (if transactionStatus = CANCELED then ActionCancel else ActionCommit)
                   in case plan_settlement env organizationID ledgerID tran transactionStatus action validate s of
                        Inl e \<Rightarrow> Inl e
                      | Inr plan \<Rightarrow>
                          Inr \<lparr>sm_input = transactionInput, sm_settings = ledgerSettings, sm_tracerSkip = tracerSkip, sm_action = action,
                               sm_plan = plan, sm_fromTo = fromTo\<rparr>)))"

definition commit_seed ::
    "HandlerEnv \<Rightarrow> uuid \<Rightarrow> uuid \<Rightarrow> uuid \<Rightarrow> string \<Rightarrow> Settlement \<Rightarrow> MBalance list \<Rightarrow> Platform \<Rightarrow> Platform \<times> goerr option" where
  "commit_seed env organizationID ledgerID transactionID transactionStatus m balances s =
     (case SendTransactionToRedisQueue (he_store env) (he_faults env) (he_reqId env) organizationID ledgerID transactionID (sm_input m)
             (Some (po_validate (sm_plan m))) transactionStatus (sm_action m) (se_now (he_store env)) balances (pf_store s) of
        (st, e) \<Rightarrow> (s\<lparr>pf_store := st\<rparr>, e))"

definition commit_process ::
    "HandlerEnv \<Rightarrow> uuid \<Rightarrow> uuid \<Rightarrow> uuid \<Rightarrow> string \<Rightarrow> Settlement \<Rightarrow> Platform \<Rightarrow> Platform \<times> (goerr + BalanceAtomicResult)" where
  "commit_process env organizationID ledgerID transactionID transactionStatus m s =
     process_balances env \<lparr>pb_OrganizationID = organizationID, pb_LedgerID = ledgerID, pb_TransactionID = transactionID,
       pb_TransactionInput = None, pb_Validate = po_validate (sm_plan m), pb_BalanceOperations = po_operations (sm_plan m),
       pb_TransactionStatus = transactionStatus\<rparr> s"

definition commit_tracer :: "HandlerEnv \<Rightarrow> uuid \<Rightarrow> string \<Rightarrow> Settlement \<Rightarrow> Platform \<Rightarrow> Platform" where
  "commit_tracer env transactionID transactionStatus m s =
     (if transactionStatus = APPROVED then confirmReservationsByTransaction env (ls_Tracer (sm_settings m)) transactionID (sm_tracerSkip m) s
      else if transactionStatus = CANCELED then releaseReservationsByTransaction env (ls_Tracer (sm_settings m)) transactionID (sm_tracerSkip m) s
      else s)"

text \<open>The operations of the settlement, built from what the script has returned.\<close>

definition commit_build ::
    "HandlerEnv \<Rightarrow> TransactionRecord \<Rightarrow> string \<Rightarrow> Settlement \<Rightarrow> BalanceAtomicResult \<Rightarrow> goerr + TransactionRecord \<times> MBalance list" where
  "commit_build env tran transactionStatus m result =
     (let plan = sm_plan m; now = se_now (he_store env);
          transactionInput = with_legs MutateSplitAliases MutateSplitAliases (sm_input m);
          fromTo = sm_fromTo m @ legs_from transactionInput @ (if transactionStatus \<noteq> CANCELED then legs_to transactionInput else []) @ po_companions plan;
          tran = tran\<lparr>tr_UpdatedAt := now, tr_StatusCode := transactionStatus, tr_StatusDescription := Some transactionStatus\<rparr>
      in case BuildOperations (he_lib env) (he_ops env) (ar_Before result) (ar_After result) fromTo transactionInput (tr_ID tran)
                (po_validate plan) now False (av_ValidateRoutes (ls_Accounting (sm_settings m))) (po_routeCache plan) (sm_action m) of
           Inl e \<Rightarrow> Inl e
         | Inr (operations, preBalances) \<Rightarrow>
             Inr (tran\<lparr>tr_Source := getAliasWithoutKey (filterCompanionAliases (rsp_Sources (po_validate plan))),
                       tr_Destination := getAliasWithoutKey (filterCompanionAliases (rsp_Destinations (po_validate plan))),
                       tr_Operations := operations\<rparr>, preBalances))"

definition commit_write ::
    "HandlerEnv \<Rightarrow> uuid \<Rightarrow> uuid \<Rightarrow> uuid \<Rightarrow> string \<Rightarrow> Settlement \<Rightarrow> BalanceAtomicResult \<Rightarrow> TransactionRecord \<Rightarrow> MBalance list \<Rightarrow> Platform \<Rightarrow>
     Platform \<times> (goerr + TransactionRecord)" where
  "commit_write env organizationID ledgerID transactionID transactionStatus m result tran preBalances s =
     (let env' = he_store env; f = he_faults env; transactionInput = with_legs MutateSplitAliases MutateSplitAliases (sm_input m);
          (s, _) = commit_seed env organizationID ledgerID transactionID transactionStatus (m\<lparr>sm_input := transactionInput\<rparr>) preBalances s;
          st = UpdateTransactionBackupOperations env' f organizationID ledgerID (uuid_String (he_lib env) transactionID) (tr_Operations tran)
                 (Some (sm_action m)) (pf_store s);
          st = (if se_async env' then fst (UpdateTransactionStatus env' f tran st) else st)
      in case WriteTransaction env' f (he_producer env) organizationID ledgerID transactionInput (po_validate (sm_plan m)) preBalances
                (ar_After result) tran (st, pf_queue s) of
           ((st, queue), Some e) \<Rightarrow> (s\<lparr>pf_store := st, pf_queue := queue\<rparr>, Inl (Business ErrMessageBrokerUnavailable))
         | ((st, queue), None) \<Rightarrow>
             (s\<lparr>pf_store := (if se_async env' then UpdateWriteBehindTransaction env' f organizationID ledgerID tran st else st), pf_queue := queue\<rparr>,
              Inr tran))"

definition commit_finish ::
    "HandlerEnv \<Rightarrow> uuid \<Rightarrow> uuid \<Rightarrow> uuid \<Rightarrow> TransactionRecord \<Rightarrow> string \<Rightarrow> Settlement \<Rightarrow> BalanceAtomicResult \<Rightarrow> Platform \<Rightarrow>
     Platform \<times> (goerr + TransactionRecord)" where
  "commit_finish env organizationID ledgerID transactionID tran transactionStatus m result s =
     (let s = commit_tracer env transactionID transactionStatus m s
      in case commit_build env tran transactionStatus m result of
           Inl e \<Rightarrow> (deleteLockOnError env organizationID ledgerID tran s, Inl e)
         | Inr (tran', preBalances) \<Rightarrow> commit_write env organizationID ledgerID transactionID transactionStatus m result tran' preBalances s)"

definition commit_settle ::
    "HandlerEnv \<Rightarrow> uuid \<Rightarrow> uuid \<Rightarrow> uuid \<Rightarrow> TransactionRecord \<Rightarrow> string \<Rightarrow> Settlement \<Rightarrow> Platform \<Rightarrow> Platform \<times> (goerr + TransactionRecord)" where
  "commit_settle env organizationID ledgerID transactionID tran transactionStatus m s =
     (case commit_process env organizationID ledgerID transactionID transactionStatus m s of
        (s', Inl e) \<Rightarrow>
          (deleteLockOnError env organizationID ledgerID tran
             (s'\<lparr>pf_store := RemoveTransactionFromRedisQueue (he_store env) (he_faults env) organizationID ledgerID
                               (uuid_String (he_lib env) transactionID) (pf_store s')\<rparr>), Inl e)
      | (s', Inr result) \<Rightarrow> commit_finish env organizationID ledgerID transactionID tran transactionStatus m result s')"

definition commitOrCancelTransaction ::
    "HandlerEnv \<Rightarrow> TransactionRecord \<Rightarrow> string \<Rightarrow> Platform \<Rightarrow> Platform \<times> (goerr + TransactionRecord)" where
  "commitOrCancelTransaction env tran transactionStatus s =
     (case (uuid_Parse (he_lib env) (tr_OrganizationID tran), uuid_Parse (he_lib env) (tr_LedgerID tran), uuid_Parse (he_lib env) (tr_ID tran)) of
        (Some organizationID, Some ledgerID, Some transactionID) \<Rightarrow>
          (case commit_lock env organizationID ledgerID tran s of
             (s, Some e) \<Rightarrow> (s, Inl e)
           | (s, None) \<Rightarrow>
               (case commit_prepare env organizationID ledgerID tran transactionStatus s of
                  Inl e \<Rightarrow> (deleteLockOnError env organizationID ledgerID tran s, Inl e)
                | Inr m \<Rightarrow>
                    (case commit_seed env organizationID ledgerID transactionID transactionStatus m [] s of
                       (s, Some e) \<Rightarrow> (deleteLockOnError env organizationID ledgerID tran s, Inl (Business e))
                     | (s, None) \<Rightarrow> commit_settle env organizationID ledgerID transactionID tran transactionStatus m s)))
      | _ \<Rightarrow> (s, Inl (Errorf ''panic: invalid UUID'')))"

definition fetch_transaction :: "HandlerEnv \<Rightarrow> uuid \<Rightarrow> uuid \<Rightarrow> uuid \<Rightarrow> Platform \<Rightarrow> goerr + TransactionRecord" where
  "fetch_transaction env organizationID ledgerID transactionID s =
     (case GetWriteBehindTransaction (he_store env) (he_faults env) organizationID ledgerID transactionID (pf_store s) of
        Some tran \<Rightarrow> Inr tran
      | None \<Rightarrow> GetTransactionByID env organizationID ledgerID transactionID (pf_store s))"

definition commitTransaction ::
    "HandlerEnv \<Rightarrow> uuid \<Rightarrow> uuid \<Rightarrow> uuid \<Rightarrow> string \<Rightarrow> Platform \<Rightarrow> Platform \<times> (goerr + TransactionRecord)" where
  "commitTransaction env organizationID ledgerID transactionID transactionStatus s =
     (case fetch_transaction env organizationID ledgerID transactionID s of
        Inl e \<Rightarrow> (s, Inl e)
      | Inr tran \<Rightarrow> commitOrCancelTransaction env tran transactionStatus s)"

section \<open>Create and revert\<close>

record CreateParams =
  cp_OrganizationID :: uuid
  cp_LedgerID :: uuid
  cp_TransactionID :: uuid

text \<open>What a request brings along once it has passed its checks, and what it has decided before it touches a balance.\<close>

record CreateRequest =
  cr_params :: CreateParams
  cr_status :: string
  cr_isRevert :: bool
  cr_idempotencyKey :: string
  cr_hash :: string
  cr_transactionID :: uuid
  cr_date :: time
  cr_input :: Transaction

record CreateDecision =
  cd_input :: Transaction
  cd_settings :: LedgerSettings
  cd_feeSkip :: bool
  cd_tracerSkip :: bool
  cd_validate :: Responses
  cd_fromTo :: "FromTo list"
  cd_action :: string

definition create_request ::
    "HandlerEnv \<Rightarrow> CreateParams \<Rightarrow> Transaction \<Rightarrow> string \<Rightarrow> bool \<Rightarrow> string \<Rightarrow> goerr + CreateRequest" where
  "create_request env params transactionInput transactionStatus isRevert idempotencyKey =
     (case he_newID env of
        Inl e \<Rightarrow> Inl e
      | Inr transactionID \<Rightarrow>
          (case CheckTransactionDate (se_now (he_store env)) transactionInput transactionStatus of
             Inl e \<Rightarrow> Inl e
           | Inr transactionDate \<Rightarrow>
               if snd_Value (tx_Send transactionInput) \<le> 0 then Inl (Business ErrInvalidTransactionNonPositiveValue)
               else (let transactionInput = with_legs ApplyDefaultBalanceKeys ApplyDefaultBalanceKeys transactionInput
                     in case he_hash env transactionInput of
                          Inl e \<Rightarrow> Inl e
                        | Inr hash \<Rightarrow>
                            Inr \<lparr>cr_params = params, cr_status = transactionStatus, cr_isRevert = isRevert, cr_idempotencyKey = idempotencyKey,
                                 cr_hash = hash, cr_transactionID = transactionID, cr_date = transactionDate, cr_input = transactionInput\<rparr>)))"

text \<open>The form of the entries that the validation after the fees reads.\<close>

definition normalise_legs :: "Transaction \<Rightarrow> Transaction" where
  "normalise_legs =
     with_legs (MutateConcatAliases \<circ> ApplyDefaultBalanceKeys \<circ> map (\<lambda>ft. ft\<lparr>ft_IsFrom := True\<rparr>)) (MutateConcatAliases \<circ> ApplyDefaultBalanceKeys)"

definition create_decide :: "HandlerEnv \<Rightarrow> CreateRequest \<Rightarrow> goerr + CreateDecision" where
  "create_decide env rq =
     (let lib = he_lib env; cm = he_commons env; status = cr_status rq
      in case ValidateSendSourceAndDistribute lib cm (cr_input rq) status of
           (_, Inl e) \<Rightarrow> Inl (HandleKnownBusinessValidationErrors e)
         | (transactionInput, Inr _) \<Rightarrow>
             (case he_settings env of
                Inl e \<Rightarrow> Inl e
              | Inr ledgerSettings \<Rightarrow>
                  (case resolveTransactionSkips transactionInput ledgerSettings of
                     Inl e \<Rightarrow> Inl e
                   | Inr (feeSkip, tracerSkip) \<Rightarrow>
                       (case applyFees env transactionInput (cr_isRevert rq) (status = NOTED) feeSkip of
                          Inl e \<Rightarrow> Inl e
                        | Inr transactionInput \<Rightarrow>
                            (case ValidateSendSourceAndDistribute lib cm (normalise_legs transactionInput) status of
                               (_, Inl e) \<Rightarrow> Inl (HandleKnownBusinessValidationErrors e)
                             | (transactionInput, Inr validate) \<Rightarrow>
                                 (let transactionInput = with_legs MutateConcatAliases MutateConcatAliases transactionInput
                                  in Inr \<lparr>cd_input = transactionInput, cd_settings = ledgerSettings, cd_feeSkip = feeSkip, cd_tracerSkip = tracerSkip,
                                       cd_validate = (if av_ValidateRoutes (ls_Accounting ledgerSettings)
                                                      then PropagateRouteValidation validate status else validate),
                                       cd_fromTo = legs_from transactionInput @ (if status \<noteq> PENDING then legs_to transactionInput else []),
                                       cd_action = (if cr_isRevert rq then ActionRevert else StatusToAction status)\<rparr>))))))"

definition create_seed :: "HandlerEnv \<Rightarrow> CreateRequest \<Rightarrow> CreateDecision \<Rightarrow> Platform \<Rightarrow> Platform \<times> goerr option" where
  "create_seed env rq d s =
     (case SendTransactionToRedisQueue (he_store env) (he_faults env) (he_reqId env) (cp_OrganizationID (cr_params rq)) (cp_LedgerID (cr_params rq))
             (cr_transactionID rq) (cd_input d) (Some (cd_validate d)) (cr_status rq) (cd_action d) (cr_date rq) [] (pf_store s) of
        (st, e) \<Rightarrow> (s\<lparr>pf_store := st\<rparr>, e))"

definition plan_create :: "HandlerEnv \<Rightarrow> CreateRequest \<Rightarrow> CreateDecision \<Rightarrow> Platform \<Rightarrow> goerr + PlannedOperations" where
  "plan_create env rq d s =
     (let lib = he_lib env; organizationID = cp_OrganizationID (cr_params rq); ledgerID = cp_LedgerID (cr_params rq);
          load = load_balances env organizationID ledgerID s
      in case load (rsp_Aliases (cd_validate d)) of
           Inl e \<Rightarrow> Inl e
         | Inr balances \<Rightarrow>
             (case rejectInternalScopeBalances balances of
                Some e \<Rightarrow> Inl e
              | None \<Rightarrow>
                  (case enrichOverdraftOperations lib organizationID ledgerID
                          (buildBalanceOperations lib (he_sort env) organizationID ledgerID (cd_validate d) balances) (cd_validate d) load of
                     Inl e \<Rightarrow> Inl e
                   | Inr (balanceOps, validate, companions) \<Rightarrow>
                       (case ValidateAccountingRules lib (he_commons env) (map_sum id (\<lambda>ls. av_ValidateRoutes (ls_Accounting ls)) (he_settings env))
                               (he_routes env) balanceOps validate (cd_action d) of
                          Inl e \<Rightarrow> Inl e
                        | Inr routeCache \<Rightarrow>
                            Inr \<lparr>po_balances = balances, po_operations = balanceOps, po_validate = validate, po_companions = companions,
                                 po_routeCache = routeCache\<rparr>))))"

definition create_reserve :: "HandlerEnv \<Rightarrow> CreateRequest \<Rightarrow> CreateDecision \<Rightarrow> PlannedOperations \<Rightarrow> Platform \<Rightarrow> Platform \<times> reservationOutcome" where
  "create_reserve env rq d plan =
     reserveTransaction env (ls_Tracer (cd_settings d)) (cr_transactionID rq) (snd_Value (tx_Send (cd_input d))) (snd_Asset (tx_Send (cd_input d)))
       (firstSourceAccountID (rsp_Sources (po_validate plan)) (po_balances plan)) (cr_date rq) (reservationTTLForStatus (cr_status rq)) (cd_tracerSkip d)"

definition create_process :: "HandlerEnv \<Rightarrow> CreateRequest \<Rightarrow> CreateDecision \<Rightarrow> PlannedOperations \<Rightarrow> Platform \<Rightarrow> Platform \<times> (goerr + BalanceAtomicResult)" where
  "create_process env rq d plan =
     process_balances env \<lparr>pb_OrganizationID = cp_OrganizationID (cr_params rq), pb_LedgerID = cp_LedgerID (cr_params rq),
       pb_TransactionID = cr_transactionID rq, pb_TransactionInput = Some (cd_input d), pb_Validate = po_validate plan,
       pb_BalanceOperations = po_operations plan, pb_TransactionStatus = cr_status rq\<rparr>"

definition create_build ::
    "HandlerEnv \<Rightarrow> CreateRequest \<Rightarrow> CreateDecision \<Rightarrow> PlannedOperations \<Rightarrow> BalanceAtomicResult \<Rightarrow> goerr + TransactionRecord" where
  "create_build env rq d plan result =
     (let lib = he_lib env; status = cr_status rq; transactionInput = with_legs MutateSplitAliases MutateSplitAliases (cd_input d);
          fromTo = cd_fromTo d @ legs_from transactionInput @ (if status \<noteq> PENDING then legs_to transactionInput else []) @ po_companions plan;
          tran = TransactionRecord_zero\<lparr>tr_ID := uuid_String lib (cr_transactionID rq),
            tr_ParentTransactionID := buildParentTransactionID lib (cp_TransactionID (cr_params rq)),
            tr_OrganizationID := uuid_String lib (cp_OrganizationID (cr_params rq)), tr_LedgerID := uuid_String lib (cp_LedgerID (cr_params rq)),
            tr_Description := tx_Description transactionInput, tr_Amount := Some (snd_Value (tx_Send transactionInput)),
            tr_AssetCode := snd_Asset (tx_Send transactionInput), tr_ChartOfAccountsGroupName := tx_ChartOfAccountsGroupName transactionInput,
            tr_CreatedAt := cr_date rq, tr_UpdatedAt := se_now (he_store env), tr_Route := tx_Route transactionInput,
            tr_RouteID := tx_RouteID transactionInput, tr_FeesSkipped := cd_feeSkip d, tr_TracerSkipped := cd_tracerSkip d,
            tr_Metadata := tx_Metadata transactionInput, tr_StatusCode := status, tr_StatusDescription := Some status\<rparr>
      in case BuildOperations lib (he_ops env) (ar_Before result) (ar_After result) fromTo transactionInput (tr_ID tran) (po_validate plan)
                (cr_date rq) (status = NOTED) (av_ValidateRoutes (ls_Accounting (cd_settings d))) (po_routeCache plan) (cd_action d) of
           Inl e \<Rightarrow> Inl e
         | Inr (operations, _) \<Rightarrow>
             Inr (tran\<lparr>tr_Source := getAliasWithoutKey (filterCompanionAliases (rsp_Sources (po_validate plan))),
                       tr_Destination := getAliasWithoutKey (filterCompanionAliases (rsp_Destinations (po_validate plan))),
                       tr_Operations := operations\<rparr>))"

definition create_write ::
    "HandlerEnv \<Rightarrow> CreateRequest \<Rightarrow> CreateDecision \<Rightarrow> PlannedOperations \<Rightarrow> BalanceAtomicResult \<Rightarrow> TransactionRecord \<Rightarrow> Platform \<Rightarrow>
     Platform \<times> (goerr + TransactionRecord)" where
  "create_write env rq d plan result tran s =
     (let env' = he_store env; f = he_faults env; organizationID = cp_OrganizationID (cr_params rq); ledgerID = cp_LedgerID (cr_params rq);
          transactionInput = with_legs MutateSplitAliases MutateSplitAliases (cd_input d);
          st = UpdateTransactionBackupOperations env' f organizationID ledgerID (tr_ID tran) (tr_Operations tran) (Some (cd_action d)) (pf_store s);
          writeTran = (if cr_status rq = CREATED then tran\<lparr>tr_StatusCode := APPROVED, tr_StatusDescription := Some APPROVED\<rparr> else tran);
          st = CreateWriteBehindTransaction env' f organizationID ledgerID writeTran transactionInput st
      in case WriteTransaction env' f (he_producer env) organizationID ledgerID transactionInput (po_validate plan) (ar_Before result)
                (ar_After result) writeTran (st, pf_queue s) of
           ((st, queue), Some e) \<Rightarrow> (s\<lparr>pf_store := st, pf_queue := queue\<rparr>, Inl (Business ErrMessageBrokerUnavailable))
         | ((st, queue), None) \<Rightarrow>
             (SetTransactionIdempotencyValue env organizationID ledgerID (cr_idempotencyKey rq) (cr_hash rq) tran
                (s\<lparr>pf_store := st, pf_queue := queue\<rparr>), Inr tran))"

text \<open>Giving up before a balance has moved: the slot is freed, and with it the backup once there is one.\<close>

definition deleteIdempotencyKey :: "HandlerEnv \<Rightarrow> CreateRequest \<Rightarrow> Platform \<Rightarrow> Platform" where
  "deleteIdempotencyKey env rq =
     Del env (idempotency_key (he_lib env) (cp_OrganizationID (cr_params rq)) (cp_LedgerID (cr_params rq)) (cr_idempotencyKey rq) (cr_hash rq))"

definition drop_backup :: "HandlerEnv \<Rightarrow> CreateRequest \<Rightarrow> Platform \<Rightarrow> Platform" where
  "drop_backup env rq s =
     (let s = deleteIdempotencyKey env rq s
      in s\<lparr>pf_store := RemoveTransactionFromRedisQueue (he_store env) (he_faults env) (cp_OrganizationID (cr_params rq)) (cp_LedgerID (cr_params rq))
             (uuid_String (he_lib env) (cr_transactionID rq)) (pf_store s)\<rparr>)"

definition create_post ::
    "HandlerEnv \<Rightarrow> CreateRequest \<Rightarrow> CreateDecision \<Rightarrow> PlannedOperations \<Rightarrow> Platform \<Rightarrow> Platform \<times> (goerr + TransactionRecord)" where
  "create_post env rq d plan s =
     (case create_reserve env rq d plan s of
        (s, ReservationReject e) \<Rightarrow> (drop_backup env rq s, Inl e)
      | (s, ReservationProceed handle) \<Rightarrow>
          (case create_process env rq d plan s of
             (s, Inl e) \<Rightarrow> (releaseReservations env handle (drop_backup env rq s), Inl e)
           | (s, Inr result) \<Rightarrow>
               (let s = (if cr_status rq \<noteq> PENDING then confirmReservations env handle s else s)
                in case create_build env rq d plan result of
                     Inl e \<Rightarrow> (s, Inl e)
                   | Inr tran \<Rightarrow> create_write env rq d plan result tran s)))"

definition create_claimed :: "HandlerEnv \<Rightarrow> CreateRequest \<Rightarrow> Platform \<Rightarrow> Platform \<times> (goerr + TransactionRecord)" where
  "create_claimed env rq s =
     (case create_decide env rq of
        Inl e \<Rightarrow> (deleteIdempotencyKey env rq s, Inl e)
      | Inr d \<Rightarrow>
          (case create_seed env rq d s of
             (s, Some e) \<Rightarrow> (deleteIdempotencyKey env rq s, Inl (Business e))
           | (s, None) \<Rightarrow>
               (case plan_create env rq d s of
                  Inl e \<Rightarrow> (drop_backup env rq s, Inl e)
                | Inr plan \<Rightarrow> create_post env rq d plan s)))"

definition executeCreateTransaction ::
    "HandlerEnv \<Rightarrow> CreateParams \<Rightarrow> Transaction \<Rightarrow> string \<Rightarrow> bool \<Rightarrow> string \<Rightarrow> Platform \<Rightarrow> Platform \<times> (goerr + TransactionRecord \<times> bool)" where
  "executeCreateTransaction env params transactionInput transactionStatus isRevert idempotencyKey s =
     (case create_request env params transactionInput transactionStatus isRevert idempotencyKey of
        Inl e \<Rightarrow> (s, Inl e)
      | Inr rq \<Rightarrow>
          (case CreateOrCheckTransactionIdempotency env (cp_OrganizationID params) (cp_LedgerID params) idempotencyKey (cr_hash rq) s of
             (s, Inl e) \<Rightarrow> (s, Inl e)
           | (s, Inr (Some replay)) \<Rightarrow> (s, Inr (replay, True))
           | (s, Inr None) \<Rightarrow>
               (case create_claimed env rq s of
                  (s, Inl e) \<Rightarrow> (s, Inl e)
                | (s, Inr tran) \<Rightarrow> (s, Inr (tran, False)))))"

definition createTransaction ::
    "HandlerEnv \<Rightarrow> CreateParams \<Rightarrow> Transaction \<Rightarrow> string \<Rightarrow> string \<Rightarrow> Platform \<Rightarrow> Platform \<times> (goerr + TransactionRecord \<times> bool)" where
  "createTransaction env params transactionInput transactionStatus idempotencyKey =
     executeCreateTransaction env params transactionInput transactionStatus False idempotencyKey"

definition createRevertTransaction ::
    "HandlerEnv \<Rightarrow> CreateParams \<Rightarrow> Transaction \<Rightarrow> string \<Rightarrow> string \<Rightarrow> Platform \<Rightarrow> Platform \<times> (goerr + TransactionRecord \<times> bool)" where
  "createRevertTransaction env params transactionInput transactionStatus idempotencyKey =
     executeCreateTransaction env params transactionInput transactionStatus True idempotencyKey"

text \<open>\<open>parent\<close> and \<open>found\<close> are what the queries for a reversal and for the transaction with its operations return.\<close>

definition revertTransaction ::
    "HandlerEnv \<Rightarrow> (uuid \<Rightarrow> goerr + OperationRouteInfo option) \<Rightarrow> goerr + TransactionRecord option \<Rightarrow> goerr + TransactionRecord \<Rightarrow>
     CreateParams \<Rightarrow> Platform \<Rightarrow> Platform \<times> (goerr + TransactionRecord)" where
  "revertTransaction env getRoute parent found params s =
     (case revert_input (he_lib env) getRoute parent found of
        Inl e \<Rightarrow> (s, Inl e)
      | Inr transactionReverted \<Rightarrow>
          (case createRevertTransaction env params transactionReverted CREATED '''' s of
             (s, Inl e) \<Rightarrow> (s, Inl e)
           | (s, Inr (tran, _)) \<Rightarrow> (s, Inr tran)))"

end
