(* ===== verification/TransactionHandlersProofs.thy ===== *)
theory TransactionHandlersProofs
  imports TransactionHandlers BalanceCallsProofs TransactionStoreProofs "HOL-Library.Multiset"
begin

text \<open>
  What the handlers of transactions promise: a held transaction is settled at most once unless its lock is
  lost, a request that fails leaves no trace or can be recovered; and two places where they do not do what
  they mean to.
\<close>

section \<open>Settling once\<close>

text \<open>
  A request to commit or cancel, cut where another can come between. \<open>advance\<close> makes the next part of the
  handler; \<open>Answered\<close> is the end. The transaction of a request is the one that it read when it arrived.
\<close>

datatype settlement_phase =
    Fetched TransactionRecord string
  | Locked TransactionRecord string
  | Prepared TransactionRecord string Settlement
  | Seeded TransactionRecord string Settlement
  | Posted TransactionRecord string Settlement BalanceAtomicResult
  | Answered "goerr + TransactionRecord"

fun advance :: "HandlerEnv \<Rightarrow> uuid \<Rightarrow> uuid \<Rightarrow> uuid \<Rightarrow> Platform \<times> settlement_phase \<Rightarrow> Platform \<times> settlement_phase" where
  "advance env organizationID ledgerID transactionID (s, Fetched tran status) =
     (case commit_lock env organizationID ledgerID tran s of
        (s', Some e) \<Rightarrow> (s', Answered (Inl e))
      | (s', None) \<Rightarrow> (s', Locked tran status))"
| "advance env organizationID ledgerID transactionID (s, Locked tran status) =
     (case commit_prepare env organizationID ledgerID tran status s of
        Inl e \<Rightarrow> (deleteLockOnError env organizationID ledgerID tran s, Answered (Inl e))
      | Inr m \<Rightarrow> (s, Prepared tran status m))"
| "advance env organizationID ledgerID transactionID (s, Prepared tran status m) =
     (case commit_seed env organizationID ledgerID transactionID status m [] s of
        (s', Some e) \<Rightarrow> (deleteLockOnError env organizationID ledgerID tran s', Answered (Inl (Business e)))
      | (s', None) \<Rightarrow> (s', Seeded tran status m))"
| "advance env organizationID ledgerID transactionID (s, Seeded tran status m) =
     (case commit_process env organizationID ledgerID transactionID status m s of
        (s', Inl e) \<Rightarrow>
          (deleteLockOnError env organizationID ledgerID tran
             (s'\<lparr>pf_store := RemoveTransactionFromRedisQueue (he_store env) (he_faults env) organizationID ledgerID
                               (uuid_String (he_lib env) transactionID) (pf_store s')\<rparr>), Answered (Inl e))
      | (s', Inr result) \<Rightarrow> (s', Posted tran status m result))"
| "advance env organizationID ledgerID transactionID (s, Posted tran status m result) =
     (case commit_finish env organizationID ledgerID transactionID tran status m result s of (s', answer) \<Rightarrow> (s', Answered answer))"
| "advance env organizationID ledgerID transactionID (s, Answered answer) = (s, Answered answer)"

text \<open>Run without interruption, the parts are the handler.\<close>

lemma commitOrCancelTransaction_advance:
  assumes "uuid_Parse (he_lib env) (tr_OrganizationID tran) = Some organizationID" "uuid_Parse (he_lib env) (tr_LedgerID tran) = Some ledgerID"
    "uuid_Parse (he_lib env) (tr_ID tran) = Some transactionID"
  shows "(advance env organizationID ledgerID transactionID ^^ 5) (s, Fetched tran status) =
    (case commitOrCancelTransaction env tran status s of (s', answer) \<Rightarrow> (s', Answered answer))"
  using assms
  by (auto simp: commitOrCancelTransaction_def commit_settle_def eval_nat_numeral split: prod.splits option.splits sum.splits)

text \<open>
  The requests that settle one transaction, in any interleaving with each other and with anything else that
  leaves their lock alone. \<open>expired\<close>, \<open>settled\<close> and \<open>reopened\<close> count what happened: the lock ran out, a
  script settled the transaction, and a request gave the lock up although its script had settled.
\<close>

record System =
  sy_platform :: Platform
  sy_requests :: "settlement_phase multiset"
  sy_settled :: nat
  sy_expired :: nat
  sy_reopened :: nat

definition settles :: "settlement_phase \<Rightarrow> settlement_phase \<Rightarrow> nat" where
  "settles p p' = (case (p, p') of (Seeded _ _ _, Posted _ _ _ _) \<Rightarrow> 1 | _ \<Rightarrow> 0)"

definition reopens :: "HandlerEnv \<Rightarrow> settlement_phase \<Rightarrow> nat" where
  "reopens env p = (case p of Posted tran status m result \<Rightarrow> if isl (commit_build env tran status m result) then 1 else 0 | _ \<Rightarrow> 0)"

fun about :: "string \<Rightarrow> settlement_phase \<Rightarrow> bool" where
  "about ID (Fetched tran _) \<longleftrightarrow> tr_ID tran = ID"
| "about ID (Locked tran _) \<longleftrightarrow> tr_ID tran = ID"
| "about ID (Prepared tran _ _) \<longleftrightarrow> tr_ID tran = ID"
| "about ID (Seeded tran _ _) \<longleftrightarrow> tr_ID tran = ID"
| "about ID (Posted tran _ _ _) \<longleftrightarrow> tr_ID tran = ID"
| "about ID (Answered _) \<longleftrightarrow> True"

inductive settling_step :: "extlib \<Rightarrow> uuid \<Rightarrow> uuid \<Rightarrow> uuid \<Rightarrow> System \<Rightarrow> System \<Rightarrow> bool"
  for lib organizationID ledgerID transactionID where
  arrive: "he_lib env = lib \<Longrightarrow> fetch_transaction env organizationID ledgerID transactionID (sy_platform y) = Inr tran \<Longrightarrow>
    tr_ID tran = uuid_String lib transactionID \<Longrightarrow>
    settling_step lib organizationID ledgerID transactionID y (y\<lparr>sy_requests := add_mset (Fetched tran status) (sy_requests y)\<rparr>)"
| proceed: "he_lib env = lib \<Longrightarrow> sy_requests y = add_mset p ps \<Longrightarrow>
    advance env organizationID ledgerID transactionID (sy_platform y, p) = (s', p') \<Longrightarrow>
    settling_step lib organizationID ledgerID transactionID y
      (y\<lparr>sy_platform := s', sy_requests := add_mset p' ps, sy_settled := sy_settled y + settles p p', sy_reopened := sy_reopened y + reopens env p\<rparr>)"
| expire: "settling_step lib organizationID ledgerID transactionID y
    (y\<lparr>sy_platform := (sy_platform y)\<lparr>pf_keys := (pf_keys (sy_platform y))
         (PendingTransactionLockKey lib organizationID ledgerID (uuid_String lib transactionID) := None)\<rparr>, sy_expired := sy_expired y + 1\<rparr>)"
| other: "pf_keys s' (PendingTransactionLockKey lib organizationID ledgerID (uuid_String lib transactionID)) =
      pf_keys (sy_platform y) (PendingTransactionLockKey lib organizationID ledgerID (uuid_String lib transactionID)) \<Longrightarrow>
    settling_step lib organizationID ledgerID transactionID y (y\<lparr>sy_platform := s'\<rparr>)"

text \<open>A request between its lock and its script.\<close>

fun holding :: "settlement_phase \<Rightarrow> bool" where
  "holding (Fetched _ _) \<longleftrightarrow> False"
| "holding (Locked _ _) \<longleftrightarrow> True"
| "holding (Prepared _ _ _) \<longleftrightarrow> True"
| "holding (Seeded _ _ _) \<longleftrightarrow> True"
| "holding (Posted _ _ _ _) \<longleftrightarrow> False"
| "holding (Answered _) \<longleftrightarrow> False"

abbreviation claims :: "string \<Rightarrow> Platform \<Rightarrow> nat" where
  "claims key s \<equiv> of_bool (pf_keys s key \<noteq> None)"

definition claims_ok :: "extlib \<Rightarrow> uuid \<Rightarrow> uuid \<Rightarrow> uuid \<Rightarrow> System \<Rightarrow> bool" where
  "claims_ok lib organizationID ledgerID transactionID y \<longleftrightarrow>
     (\<forall>p \<in># sy_requests y. about (uuid_String lib transactionID) p) \<and>
     size (filter_mset holding (sy_requests y)) + sy_settled y \<le>
       sy_expired y + sy_reopened y + claims (PendingTransactionLockKey lib organizationID ledgerID (uuid_String lib transactionID)) (sy_platform y)"

lemma Del_keys: "pf_keys (Del env key s) = (if he_del env = None then (pf_keys s)(key := None) else pf_keys s)"
  by (simp add: Del_def split: option.splits)

lemma commit_write_keys: "pf_keys (fst (commit_write env org led tx status m result tran bs s)) = pf_keys s"
  by (auto simp: commit_write_def commit_seed_def Let_def split: prod.splits option.splits)

lemma tracer_keys: "pf_keys (commit_tracer env tx status m s) = pf_keys s"
  by (simp add: commit_tracer_def confirmReservationsByTransaction_def releaseReservationsByTransaction_def endReservationsByTransaction_def)

lemma commit_process_keys: "pf_keys (fst (commit_process env org led tx status m s)) = pf_keys s"
  by (auto simp: commit_process_def process_balances_def split: prod.splits sum.splits)

lemma commit_finish_keys:
  "pf_keys (fst (commit_finish env org led tx tran status m result s)) =
     (if isl (commit_build env tran status m result) \<and> he_del env = None
      then (pf_keys s)(PendingTransactionLockKey (he_lib env) org led (tr_ID tran) := None) else pf_keys s)"
  by (auto simp: commit_finish_def Let_def deleteLockOnError_def Del_keys tracer_keys commit_write_keys split: sum.splits prod.splits)

text \<open>One part of a handler trades the lock against its own place: it gives no one else a place.\<close>

lemma advance_claims:
  assumes "about ID p" "advance env org led tx (s, p) = (s', p')" "key = PendingTransactionLockKey (he_lib env) org led ID"
  shows "about ID p' \<and> of_bool (holding p') + settles p p' + claims key s \<le> of_bool (holding p) + reopens env p + claims key s'"
proof (cases p)
  case (Fetched tran status)
  with assms show ?thesis by (auto simp: commit_lock_def SetNX_def settles_def split: prod.splits option.splits sum.splits if_splits)
next
  case (Locked tran status)
  with assms show ?thesis by (auto simp: deleteLockOnError_def Del_keys settles_def split: sum.splits)
next
  case (Prepared tran status m)
  with assms show ?thesis
    by (auto simp: commit_seed_def deleteLockOnError_def Del_keys settles_def split: prod.splits option.splits)
next
  case (Seeded tran status m)
  obtain s1 res where c: "commit_process env org led tx status m s = (s1, res)" by force
  from commit_process_keys [of env org led tx status m s] c have "pf_keys s1 = pf_keys s" by simp
  with Seeded assms c show ?thesis by (auto simp: deleteLockOnError_def Del_keys settles_def split: sum.splits)
next
  case (Posted tran status m result)
  with assms commit_finish_keys [of env org led tx tran status m result s] show ?thesis
    by (auto simp: settles_def reopens_def split: prod.splits)
next
  case (Answered a)
  with assms show ?thesis by (auto simp: settles_def reopens_def)
qed

lemma size_holding: "size (filter_mset holding (add_mset p ps)) = of_bool (holding p) + size (filter_mset holding ps)"
  by simp

lemma claims_ok_step:
  assumes "settling_step lib org led tx y y'" "claims_ok lib org led tx y"
  shows "claims_ok lib org led tx y'"
  using assms
proof cases
  case (proceed env p ps s' p')
  have p: "about (uuid_String lib tx) p" using assms(2) proceed by (simp add: claims_ok_def)
  from advance_claims [OF p proceed(4) refl] proceed(1-3) assms(2) show ?thesis
    unfolding claims_ok_def proceed(1) by (simp add: size_holding del: filter_mset_add_mset of_bool_eq_iff)
qed (auto simp: claims_ok_def of_bool_def split: if_splits)

interpretation claims_kept: step_invariant "settling_step lib org led tx" "claims_ok lib org led tx" for lib org led tx
  by unfold_locales (rule claims_ok_step)

definition undisturbed :: "Platform \<Rightarrow> System" where
  "undisturbed s = \<lparr>sy_platform = s, sy_requests = {#}, sy_settled = 0, sy_expired = 0, sy_reopened = 0\<rparr>"


section \<open>Failing requests\<close>

text \<open>
  A request that leaves no trace: every balance that was cached reads as before, the queue and the plain
  keys are as they were, no backup of the request is left, and every reservation that the tracer granted it
  has been released. A request that can be recovered: its backup is there for the consumer that works off
  backups, and its slot stays claimed, so that a repetition is refused instead of moving the money again.
\<close>

definition cached_kept :: "RedisState \<Rightarrow> RedisState \<Rightarrow> bool" where
  "cached_kept r r' \<longleftrightarrow> rs_backup r' = rs_backup r \<and> (\<forall>k b. view r k = Some b \<longrightarrow> view r' k = Some b)"

definition granted :: "goerr + TracerReserveResult \<Rightarrow> uuid list" where
  "granted res = (case res of Inl _ \<Rightarrow> [] | Inr r \<Rightarrow> if rr_Denied r then [] else rr_ReservationIDs r)"

definition reservations_undone :: "HandlerEnv \<Rightarrow> Platform \<Rightarrow> Platform \<Rightarrow> bool" where
  "reservations_undone env s s' \<longleftrightarrow> pf_tracer s' = pf_tracer s \<or>
     (\<exists>reserve req. he_tracer env = Some reserve \<and>
        pf_tracer s' = pf_tracer s @ Reserve_call req # map Release_call (granted (reserve req)))"

definition no_trace :: "HandlerEnv \<Rightarrow> string \<Rightarrow> Platform \<Rightarrow> Platform \<Rightarrow> bool" where
  "no_trace env backup s s' \<longleftrightarrow>
     cached_kept (pf_redis s) (pf_redis s') \<and> pf_queue s' = pf_queue s \<and> pf_keys s' = pf_keys s \<and>
     (pf_store s' = pf_store s \<or> pf_store s' = (pf_store s)\<lparr>st_backup := (st_backup (pf_store s))(backup := None)\<rparr>) \<and>
     reservations_undone env s s'"

definition recoverable :: "string \<Rightarrow> string \<Rightarrow> Platform \<Rightarrow> Platform \<Rightarrow> bool" where
  "recoverable slot backup s s' \<longleftrightarrow>
     st_backup (pf_store s') backup \<noteq> None \<and> pf_keys s' = (pf_keys s)(slot \<mapsto> None) \<and> pf_queue s' = pf_queue s"

lemma cached_kept_refl [simp]: "cached_kept r r"
  by (simp add: cached_kept_def)

lemma no_trace_refl [simp]: "no_trace env backup s s"
  by (simp add: no_trace_def reservations_undone_def)

lemma restored_kept: "restored r ops r' \<Longrightarrow> cached_kept r r'"
  unfolding restored_def cached_kept_def by (metis option.distinct(1))

lemma main_refused:
  assumes "main tk dueAt ops r = (r', Inl (ErrorReply code))"
  shows "cached_kept r r'"
proof -
  define s0 where "s0 = \<lparr>ss_redis = r, ss_rollback = [], ss_returnBalances = [], ss_returnBalancesAfter = []\<rparr>"
  obtain s where s: "script_loop dueAt ops s0 = (s, Some (ErrorReply code))" "r' = ss_redis s"
    using assms by (auto simp: main_def s0_def [symmetric] split: prod.splits option.splits)
  have "noted r ops s0" by (simp add: noted_def note_ok_def s0_def)
  with script_loop_noted [OF this _ s(1)] s(2) show ?thesis by (simp add: restored_kept)
qed

text \<open>An error of the interpreter inside the script is passed on as it is, and is no answer of the ledger.\<close>

definition plain_raised :: "HandlerEnv \<Rightarrow> bool" where
  "plain_raised env \<longleftrightarrow> mapBalanceAtomicScriptError (Errorf (cn_raised (he_conn env))) = Errorf (cn_raised (he_conn env))"

lemma process_failed:
  assumes "process_balances env input s = (s', Inl e)" "plain_raised env" "e \<noteq> Errorf (cn_raised (he_conn env))"
  shows "\<exists>r. s' = s\<lparr>pf_redis := r\<rparr> \<and> cached_kept (pf_redis s) r"
proof -
  obtain r where r: "ProcessBalanceOperations (he_lib env) (he_conn env) (he_dueAt env) input (pf_redis s) = (r, Inl e)" "s' = s\<lparr>pf_redis := r\<rparr>"
    using assms(1) by (auto simp: process_balances_def split: prod.splits sum.splits)
  from r(1) have "cached_kept (pf_redis s) r"
    using assms(2,3) main_refused
    by (auto simp: ProcessBalanceOperations_def ProcessBalanceAtomicOperation_def runBalanceAtomicScript_def plain_raised_def client_error_def
        split: prod.splits sum.splits option.splits if_splits lua_error.splits)
  with r(2) show ?thesis by blast
qed

lemma note_balances_keeps: "st_backup st key \<noteq> None \<Longrightarrow> st_backup (note_balances env key' r st) key \<noteq> None"
  by (auto simp: note_balances_def Let_def split: sum.splits option.splits)

lemma process_succeeded:
  assumes "process_balances env input s = (s', Inr result)"
  shows "pf_keys s' = pf_keys s" "pf_queue s' = pf_queue s" "pf_tracer s' = pf_tracer s"
    "st_backup (pf_store s) key \<noteq> None \<Longrightarrow> st_backup (pf_store s') key \<noteq> None"
  using assms note_balances_keeps by (auto simp: process_balances_def split: prod.splits sum.splits)

lemma reserve_calls:
  assumes "reserveTransaction env settings tx amount asset account time longLived skip s = (s', outcome)"
  shows "s' = s \<and> outcome = ReservationProceed [] \<or>
    (\<exists>reserve req. he_tracer env = Some reserve \<and> s' = s\<lparr>pf_tracer := pf_tracer s @ [Reserve_call req]\<rparr> \<and>
       (case outcome of ReservationProceed handle \<Rightarrow> handle = granted (reserve req) | ReservationReject e \<Rightarrow> granted (reserve req) = []))"
  using assms
  by (auto simp: reserveTransaction_def handleReserveError_def granted_def Let_def split: option.splits sum.splits if_splits)

lemma create_operations_backup: "st_backup (fst (create_operations env f ops st)) = st_backup st"
proof (induction ops arbitrary: st)
  case (Cons op ops)
  obtain st1 r where c: "OperationRepo_Create env f op st = (st1, r)" by force
  have s: "st_backup st1 = st_backup st" using c by (auto simp: OperationRepo_Create_def Let_def split: option.splits if_splits)
  obtain st2 r' where m: "CreateMetadataAsync f (op_Metadata op) (op_ID op) ''Operation'' st1 = (st2, r')" by force
  show ?case using c m s CreateMetadataAsync_frame(3) [OF m] Cons.IH by (auto split: option.splits insert_result.splits)
qed simp

lemma CreateOrUpdateTransaction_backup: "st_backup (fst (CreateOrUpdateTransaction env f t tran st)) = st_backup st"
  by (auto simp: CreateOrUpdateTransaction_def TransactionRepo_Create_def UpdateTransactionStatus_def TransactionRepo_Update_def Let_def
      split: prod.splits sum.splits option.splits insert_result.splits if_splits)

lemma write_rows_backup: "st_backup (fst (write_rows env f t tran st)) = st_backup st"
proof -
  obtain st1 r1 where c: "CreateOrUpdateTransaction env f t tran st = (st1, r1)" by force
  have 1: "st_backup st1 = st_backup st" using CreateOrUpdateTransaction_backup [of env f t tran st] c by simp
  have 2: "st_backup st2 = st_backup st1" if "CreateMetadataAsync f m i k st1 = (st2, r2)" for m i k st2 r2
    using CreateMetadataAsync_frame(3) [OF that] .
  have 3: "st_backup st3 = st_backup st2" if "create_operations env f ops st2 = (st3, r3)" for ops st2 st3 r3
    using create_operations_backup [of env f ops st2] that by simp
  show ?thesis using c 1 2 3 by (auto simp: write_rows_def split: sum.splits prod.splits option.splits)
qed

lemma older_balances_backup: "st_backup (fst (older_balances env f data tran st)) = st_backup st"
  by (auto simp: older_balances_def UpdateBalances_def BalancesUpdate_def Let_def split: option.splits sum.splits if_splits)

lemma message_failed_backup:
  assumes "CreateBalanceTransactionOperationsAsync env f data st = (st', Inl e)"
  shows "st_backup st' = st_backup st"
proof -
  have "st_backup st1 = st_backup st" if "older_balances env f data tran st = (st1, r)" for tran st1 r
    using older_balances_backup [of env f data tran st] that by simp
  moreover have "st_backup st2 = st_backup st1" if "write_rows env f t tran st1 = (st2, r)" for t tran st1 st2 r
    using write_rows_backup [of env f t tran st1] that by simp
  ultimately show ?thesis using assms by (auto simp: CreateBalanceTransactionOperationsAsync_def split: option.splits prod.splits sum.splits)
qed

lemma WriteTransaction_failed:
  assumes "WriteTransaction env f producer org led input validate bs as' tran (st, queue) = ((st', queue'), Some e)"
  shows "st_backup st' = st_backup st \<and> queue' = queue"
  using assms message_failed_backup
  by (auto simp: WriteTransaction_def WriteTransactionAsync_def WriteTransactionSync_def Let_def split: if_splits option.splits prod.splits sum.splits)

lemma backup_operations_keep: "st_backup st key \<noteq> None \<Longrightarrow> st_backup (UpdateTransactionBackupOperations env f org led i ops a st) key \<noteq> None"
  by (auto simp: UpdateTransactionBackupOperations_def AddMessageToQueue_def Let_def split: option.splits if_splits)

lemma write_behind_backup: "st_backup (CreateWriteBehindTransaction env f org led tran input st) = st_backup st"
  by (auto simp: CreateWriteBehindTransaction_def put_write_behind_def Let_def split: option.splits)

lemma create_write_failed:
  assumes "create_write env rq d plan result tran s = (s', Inl e)" "st_backup (pf_store s) key \<noteq> None"
  shows "st_backup (pf_store s') key \<noteq> None \<and> pf_keys s' = pf_keys s \<and> pf_queue s' = pf_queue s"
  using assms(1) WriteTransaction_failed backup_operations_keep [OF assms(2)]
  by (auto simp: create_write_def Let_def write_behind_backup split: prod.splits option.splits)

lemma create_seed_state:
  assumes "create_seed env rq d s = (s', r)" "f_cache (he_faults env) = None"
  shows "r = None \<and> (\<exists>q. s' = s\<lparr>pf_store := (pf_store s)\<lparr>st_backup := (st_backup (pf_store s))
    (TransactionInternalKey (he_lib env) (cp_OrganizationID (cr_params rq)) (cp_LedgerID (cr_params rq))
       (uuid_String (he_lib env) (cr_transactionID rq)) \<mapsto> q)\<rparr>\<rparr>)"
  using assms by (auto simp: create_seed_def SendTransactionToRedisQueue_def AddMessageToQueue_def Let_def)

abbreviation request_slot :: "HandlerEnv \<Rightarrow> CreateRequest \<Rightarrow> string" where
  "request_slot env rq \<equiv>
     idempotency_key (he_lib env) (cp_OrganizationID (cr_params rq)) (cp_LedgerID (cr_params rq)) (cr_idempotencyKey rq) (cr_hash rq)"

abbreviation request_backup :: "HandlerEnv \<Rightarrow> CreateRequest \<Rightarrow> string" where
  "request_backup env rq \<equiv>
     TransactionInternalKey (he_lib env) (cp_OrganizationID (cr_params rq)) (cp_LedgerID (cr_params rq)) (uuid_String (he_lib env) (cr_transactionID rq))"

text \<open>From the reservation on: \<open>s\<close> is the platform before the request, \<open>s1\<close> has its claim and its backup.\<close>

lemma create_post_failed:
  assumes run: "create_post env rq d plan s1 = (s', Inl e)"
    and works: "he_del env = None" "f_cache (he_faults env) = None" "plain_raised env" "e \<noteq> Errorf (cn_raised (he_conn env))"
    and free: "pf_keys s (request_slot env rq) = None"
    and s1: "s1 = s\<lparr>pf_keys := (pf_keys s)(request_slot env rq \<mapsto> None),
      pf_store := (pf_store s)\<lparr>st_backup := (st_backup (pf_store s))(request_backup env rq \<mapsto> q)\<rparr>\<rparr>"
  shows "no_trace env (request_backup env rq) s s' \<or> recoverable (request_slot env rq) (request_backup env rq) s s'"
proof -
  obtain s2 outcome where res: "create_reserve env rq d plan s1 = (s2, outcome)" by force
  note calls = reserve_calls [OF res [unfolded create_reserve_def]]
  have keys: "(pf_keys s)(request_slot env rq := None) = pf_keys s" using free by auto
  have s2: "pf_keys s2 = pf_keys s1" "pf_store s2 = pf_store s1" "pf_queue s2 = pf_queue s1" "pf_redis s2 = pf_redis s1"
    using calls by auto
  show ?thesis
  proof (cases outcome)
    case (ReservationReject e')
    with res run have "s' = drop_backup env rq s2" by (simp add: create_post_def)
    then show ?thesis using calls ReservationReject works(1,2) s1 keys
      by (auto simp: drop_backup_def deleteIdempotencyKey_def Del_def RemoveTransactionFromRedisQueue_def no_trace_def reservations_undone_def)
  next
    case (ReservationProceed handle)
    obtain s3 r where p: "create_process env rq d plan s2 = (s3, r)" by force
    show ?thesis
    proof (cases r)
      case (Inl e')
      with res run p ReservationProceed have s': "s' = releaseReservations env handle (drop_backup env rq s3)" "e' = e"
        by (auto simp: create_post_def)
      obtain c where "s3 = s2\<lparr>pf_redis := c\<rparr>" "cached_kept (pf_redis s2) c"
        using process_failed [OF p [unfolded create_process_def Inl] works(3)] works(4) s'(2) by auto
      then show ?thesis using calls ReservationProceed works(1,2) s1 keys s'(1)
        by (auto simp: drop_backup_def deleteIdempotencyKey_def Del_def RemoveTransactionFromRedisQueue_def no_trace_def reservations_undone_def
            releaseReservations_def)
    next
      case (Inr result)
      note ok = process_succeeded [OF p [unfolded create_process_def Inr]]
      define s4 where "s4 = (if cr_status rq \<noteq> PENDING then confirmReservations env handle s3 else s3)"
      have s4: "pf_keys s4 = pf_keys s1" "pf_queue s4 = pf_queue s1" "st_backup (pf_store s4) (request_backup env rq) \<noteq> None"
        using ok s2 s1 by (auto simp: s4_def confirmReservations_def)
      have "(case create_build env rq d plan result of Inl e \<Rightarrow> (s4, Inl e) | Inr tran \<Rightarrow> create_write env rq d plan result tran s4) = (s', Inl e)"
        unfolding s4_def using res run p ReservationProceed Inr by (simp add: create_post_def Let_def split: if_split_asm)
      then have "st_backup (pf_store s') (request_backup env rq) \<noteq> None \<and> pf_keys s' = pf_keys s4 \<and> pf_queue s' = pf_queue s4"
        using s4(3) create_write_failed by (cases "create_build env rq d plan result") auto
      then show ?thesis using s4(1,2) s1 by (simp add: recoverable_def)
    qed
  qed
qed

lemma create_claimed_failed:
  assumes run: "create_claimed env rq (s\<lparr>pf_keys := (pf_keys s)(request_slot env rq \<mapsto> None)\<rparr>) = (s', Inl e)"
    and works: "he_del env = None" "f_cache (he_faults env) = None" "plain_raised env" "e \<noteq> Errorf (cn_raised (he_conn env))"
    and free: "pf_keys s (request_slot env rq) = None"
  shows "no_trace env (request_backup env rq) s s' \<or> recoverable (request_slot env rq) (request_backup env rq) s s'"
proof (cases "create_decide env rq")
  case (Inl e')
  have "(pf_keys s)(request_slot env rq := None) = pf_keys s" using free by auto
  with Inl run works(1) show ?thesis
    by (auto simp: create_claimed_def deleteIdempotencyKey_def Del_def no_trace_def reservations_undone_def)
next
  case (Inr d)
  have keys: "(pf_keys s)(request_slot env rq := None) = pf_keys s" using free by auto
  obtain s1 r where seed: "create_seed env rq d (s\<lparr>pf_keys := (pf_keys s)(request_slot env rq \<mapsto> None)\<rparr>) = (s1, r)" by force
  from create_seed_state [OF this works(2)] obtain q where s1: "r = None"
      "s1 = s\<lparr>pf_keys := (pf_keys s)(request_slot env rq \<mapsto> None),
        pf_store := (pf_store s)\<lparr>st_backup := (st_backup (pf_store s))(request_backup env rq \<mapsto> q)\<rparr>\<rparr>" by auto
  show ?thesis
  proof (cases "plan_create env rq d s1")
    case (Inl e')
    with Inr seed s1(1) run have "s' = drop_backup env rq s1" by (simp add: create_claimed_def)
    then show ?thesis using s1(2) works(1,2) keys
      by (auto simp: drop_backup_def deleteIdempotencyKey_def Del_def RemoveTransactionFromRedisQueue_def no_trace_def reservations_undone_def)
  next
    case plan: (Inr plan)
    with Inr seed s1(1) run have "create_post env rq d plan s1 = (s', Inl e)" by (simp add: create_claimed_def)
    from create_post_failed [OF this works free s1(2)] show ?thesis .
  qed
qed



section \<open>Reversals\<close>

lemma slot_after_create:
  assumes "executeCreateTransaction env params transactionInput transactionStatus isRevert idempotencyKey s = (s', Inr (tran, replayed))"
    and "create_request env params transactionInput transactionStatus isRevert idempotencyKey = Inr rq" "he_set env = None"
  shows "pf_keys s' (request_slot env rq) = Some (Some tran)"
proof -
  have rq: "cr_params rq = params" "cr_idempotencyKey rq = idempotencyKey"
    using assms(2) by (auto simp: create_request_def Let_def split: sum.splits if_splits)
  have written: "pf_keys s3 (request_slot env rq) = Some (Some t)" if "create_write env rq d plan result t' s2 = (s3, Inr t)" for d plan result t' s2 s3 t
    using that assms(3) by (auto simp: create_write_def SetTransactionIdempotencyValue_def Let_def split: prod.splits option.splits)
  have posted: "pf_keys s3 (request_slot env rq) = Some (Some t)" if "create_post env rq d plan s2 = (s3, Inr t)" for d plan s2 s3 t
    using that written by (auto simp: create_post_def Let_def split: prod.splits sum.splits reservationOutcome.splits)
  have claimed: "pf_keys s3 (request_slot env rq) = Some (Some t)" if "create_claimed env rq s2 = (s3, Inr t)" for s2 s3 t
    using that posted by (auto simp: create_claimed_def split: prod.splits sum.splits option.splits)
  obtain s1 r where c: "CreateOrCheckTransactionIdempotency env (cp_OrganizationID params) (cp_LedgerID params) idempotencyKey (cr_hash rq) s = (s1, r)"
    by force
  show ?thesis
  proof (cases "r = Inr None")
    case True
    with assms(1,2) c claimed show ?thesis by (auto simp: executeCreateTransaction_def split: prod.splits sum.splits)
  next
    case False
    with assms(1,2) c have "r = Inr (Some tran)" "s' = s1" by (auto simp: executeCreateTransaction_def split: sum.splits option.splits)
    with c rq show ?thesis
      by (auto simp: CreateOrCheckTransactionIdempotency_def SetNX_def Let_def split: option.splits if_splits prod.splits sum.splits bool.splits)
  qed
qed

text \<open>
  C20. The reversal of a transaction can be swallowed by the reversal of another. The slot of a reversal is named after the body of
  the reversal alone, and the body does not say which transaction it reverses. So when a transaction has
  been reversed, the reversal of any second transaction with the same body, asked for while the slot of the first is there,
  answers with the first reversal as if it were its own and changes nothing: no balance moves, and the
  second transaction stays without a reversal.
\<close>

theorem equal_reversals_collide:
  assumes first: "revertTransaction env getRoute parent found params s = (s1, Inr tran)"
    and same: "revert_input (he_lib env) getRoute parent found = Inr reversal" "revert_input (he_lib env') getRoute' parent' found' = Inr reversal"
      "cp_OrganizationID params' = cp_OrganizationID params" "cp_LedgerID params' = cp_LedgerID params"
    and env: "he_lib env' = he_lib env" "he_hash env' = he_hash env" "he_set env = None" "he_setnx env' = None" "he_get env' = None"
    and request: "create_request env' params' reversal CREATED True '''' = Inr rq'"
  shows "revertTransaction env' getRoute' parent' found' params' s1 = (s1, Inr tran)"
proof -
  obtain replayed where run: "executeCreateTransaction env params reversal CREATED True '''' s = (s1, Inr (tran, replayed))"
    using first same(1) by (auto simp: revertTransaction_def createRevertTransaction_def split: prod.splits sum.splits)
  obtain rq where rq: "create_request env params reversal CREATED True '''' = Inr rq"
    using run by (cases "create_request env params reversal CREATED True ''''") (simp_all add: executeCreateTransaction_def)
  have parts: "cr_params rq = params" "cr_idempotencyKey rq = ''''" "cr_params rq' = params'" "cr_idempotencyKey rq' = ''''" "cr_hash rq' = cr_hash rq"
    using rq request env(2) by (auto simp: create_request_def Let_def split: sum.splits if_splits)
  have "pf_keys s1 (request_slot env' rq') = Some (Some tran)"
    using slot_after_create [OF run rq env(3)] parts same(3,4) env(1) by simp
  then show ?thesis using same(2) request env(4,5) parts
    by (auto simp: revertTransaction_def createRevertTransaction_def executeCreateTransaction_def CreateOrCheckTransactionIdempotency_def SetNX_def Let_def
        split: option.splits)
qed

section \<open>Transactions read from the database\<close>

lemma seed_result:
  "snd (SendTransactionToRedisQueue env f reqId org led tx input v status action date bs st) =
   snd (SendTransactionToRedisQueue env f reqId org led tx input v status action date bs st')"
  by (auto simp: SendTransactionToRedisQueue_def AddMessageToQueue_def Let_def split: option.splits)

lemma load_balances_redis: "pf_redis s = pf_redis t \<Longrightarrow> load_balances env org led s = load_balances env org led t"
  by (simp add: load_balances_def fun_eq_iff)

lemma plan_settlement_redis:
  "pf_redis s = pf_redis t \<Longrightarrow> plan_settlement env org led tran status action v s = plan_settlement env org led tran status action v t"
  unfolding plan_settlement_def by (simp only: load_balances_redis [of s t])

lemma commit_prepare_redis: "pf_redis s = pf_redis t \<Longrightarrow> commit_prepare env org led tran status s = commit_prepare env org led tran status t"
  unfolding commit_prepare_def by (simp only: plan_settlement_redis [of s t])

lemma commit_write_redis: "pf_redis (fst (commit_write env org led tx status m result tran bs s)) = pf_redis s"
  by (auto simp: commit_write_def commit_seed_def Let_def split: prod.splits option.splits)

lemma commit_finish_redis: "pf_redis (fst (commit_finish env org led tx tran status m result s)) = pf_redis s"
  by (auto simp: commit_finish_def Let_def deleteLockOnError_def Del_def commit_tracer_def confirmReservationsByTransaction_def
      releaseReservationsByTransaction_def endReservationsByTransaction_def commit_write_redis split: sum.splits prod.splits option.splits)

lemma commit_settle_redis:
  assumes "pf_redis s = pf_redis t"
  shows "pf_redis (fst (commit_settle env org led tx tran status m s)) = pf_redis (fst (commit_settle env org led tx tran status m t))"
  using assms
  by (auto simp: commit_settle_def commit_process_def process_balances_def deleteLockOnError_def Del_def commit_finish_redis
      split: prod.splits sum.splits option.splits)

lemma commit_lock_redis:
  assumes "commit_lock env org led tran s = (s1, r)" "commit_lock env org led tran t = (t1, r')" "pf_redis s = pf_redis t" "pf_keys s = pf_keys t"
  shows "r' = r \<and> pf_redis s1 = pf_redis t1 \<and> pf_redis s1 = pf_redis s"
  using assms by (auto simp: commit_lock_def SetNX_def split: option.splits if_splits prod.splits sum.splits bool.splits)

lemma commit_seed_redis:
  assumes "commit_seed env org led tx status m bs s = (s1, r)" "commit_seed env org led tx status m bs t = (t1, r')" "pf_redis s = pf_redis t"
  shows "r' = r \<and> pf_redis s1 = pf_redis t1"
proof -
  let ?send = "\<lambda>st. SendTransactionToRedisQueue (he_store env) (he_faults env) (he_reqId env) org led tx (sm_input m) (Some (po_validate (sm_plan m)))
    status (sm_action m) (se_now (he_store env)) bs st"
  have "snd (?send (pf_store s)) = snd (?send (pf_store t))" by (rule seed_result)
  with assms show ?thesis by (auto simp: commit_seed_def split: prod.splits)
qed

lemma deleteLockOnError_redis [simp]: "pf_redis (deleteLockOnError env org led tran s) = pf_redis s"
  by (simp add: deleteLockOnError_def Del_def split: option.splits)

lemma commitOrCancel_redis:
  assumes same: "pf_redis s = pf_redis t" "pf_keys s = pf_keys t"
  shows "pf_redis (fst (commitOrCancelTransaction env tran status s)) = pf_redis (fst (commitOrCancelTransaction env tran status t))"
proof (cases "(uuid_Parse (he_lib env) (tr_OrganizationID tran), uuid_Parse (he_lib env) (tr_LedgerID tran), uuid_Parse (he_lib env) (tr_ID tran))")
  case (fields o' l i)
  show ?thesis
  proof (cases "\<exists>org led tx. (o', l, i) = (Some org, Some led, Some tx)")
    case False
    with fields same show ?thesis by (auto simp: commitOrCancelTransaction_def split: option.splits)
  next
    case True
    then obtain org led tx where ids: "(o', l, i) = (Some org, Some led, Some tx)" by blast
    obtain s1 r t1 r' where lock: "commit_lock env org led tran s = (s1, r)" "commit_lock env org led tran t = (t1, r')" by force
    note l = commit_lock_redis [OF lock same]
    have prep: "commit_prepare env org led tran status t1 = commit_prepare env org led tran status s1"
      using commit_prepare_redis [of t1 s1] l by simp
    have settle: "pf_redis (fst (case commit_seed env org led tx status m [] s1 of
          (s, Some e) \<Rightarrow> (deleteLockOnError env org led tran s, Inl (Business e)) | (s, None) \<Rightarrow> commit_settle env org led tx tran status m s)) =
        pf_redis (fst (case commit_seed env org led tx status m [] t1 of
          (s, Some e) \<Rightarrow> (deleteLockOnError env org led tran s, Inl (Business e)) | (s, None) \<Rightarrow> commit_settle env org led tx tran status m s))" for m
    proof -
      obtain s2 q t2 q' where seed: "commit_seed env org led tx status m [] s1 = (s2, q)" "commit_seed env org led tx status m [] t1 = (t2, q')" by force
      from commit_seed_redis [OF this] l have "q' = q" "pf_redis s2 = pf_redis t2" by auto
      with commit_settle_redis [of s2 t2] seed show ?thesis by (simp split: option.split)
    qed
    show ?thesis using fields ids lock l prep settle same
      by (simp add: commitOrCancelTransaction_def split: option.split sum.split)
  qed
qed

lemma read_without_operations:
  "GetWriteBehindTransaction env' f org led tx (st\<lparr>st_operations := ops\<rparr>) = GetWriteBehindTransaction env' f org led tx st"
  "GetTransactionByID env org led tx (st\<lparr>st_operations := ops\<rparr>) = GetTransactionByID env org led tx st"
proof -
  show "GetWriteBehindTransaction env' f org led tx (st\<lparr>st_operations := ops\<rparr>) = GetWriteBehindTransaction env' f org led tx st"
    by (simp add: GetWriteBehindTransaction_def split: option.split)
  have "TransactionRepo_Find env org led tx (st\<lparr>st_operations := ops\<rparr>) = TransactionRepo_Find env org led tx st"
    by (simp add: TransactionRepo_Find_def)
  moreover have "MetadataRepo_FindByEntity c i (st\<lparr>st_operations := ops\<rparr>) = MetadataRepo_FindByEntity c i st" for c i
    by (simp add: MetadataRepo_FindByEntity_def)
  ultimately show "GetTransactionByID env org led tx (st\<lparr>st_operations := ops\<rparr>) = GetTransactionByID env org led tx st"
    unfolding GetTransactionByID_def by (simp split: sum.split option.split)
qed



section \<open>Examples\<close>

text \<open>Two wallets, a payment of 30 between them that is held, and a platform on which everything works.\<close>

definition handler_lib :: extlib where
  "handler_lib = digits_lib\<lparr>uuid_String := (\<lambda>u. if u = 1 then ''1'' else if u = 2 then ''2'' else if u = 3 then ''3'' else ''4''),
     dec_NewFromString := (\<lambda>s. Some (dval s)), uuid_Parse := map_of [(''1'', 1), (''2'', 2), (''3'', 3), (''4'', 4)]\<rparr>"

lemma handler_lib_simps [simp, code]:
  "uuid_String handler_lib = (\<lambda>u. if u = 1 then ''1'' else if u = 2 then ''2'' else if u = 3 then ''3'' else ''4'')"
  "dec_NewFromString handler_lib = (\<lambda>s. Some (dval s))" "uuid_Parse handler_lib = map_of [(''1'', 1), (''2'', 2), (''3'', 3), (''4'', 4)]"
  "dec_String handler_lib = (\<lambda>x. nat_str (nat \<lfloor>x\<rfloor>))"
  by (simp_all add: handler_lib_def)

definition wallet :: "string \<Rightarrow> decimal \<Rightarrow> MBalance" where
  "wallet al available =
     (read_balance ''default'' DirectionCredit available 0)\<lparr>mb_ID := al, mb_AccountID := al, mb_Alias := al, mb_Settings := None\<rparr>"

definition handler_env :: HandlerEnv where
  "handler_env =
     \<lparr>he_store = store_env\<lparr>se_lib := handler_lib\<rparr>, he_faults = no_faults, he_conn = plain_conn, he_dueAt = 0,
      he_ops = \<lparr>env_newID = (\<lambda>n. Inr (''o'' @ nat_str n)), env_now = 5, env_commons = plain_commons\<rparr>, he_sort = id, he_reqId = ''q'',
      he_newID = Inr 3, he_hash = (\<lambda>t. Inr (tx_Description t)), he_requestID = id, he_settings = Inr DefaultLedgerSettings,
      he_dbBalances = companions_of [wallet ''@a'' 100, wallet ''@b'' 50], he_routes = (\<lambda>_. Inl (Business ErrEntityNotFound)), he_fees = None,
      he_tracer = None, he_producer = None, he_setnx = None, he_get = None, he_set = None, he_del = None\<rparr>"

lemma he_lib_handler_env [simp]: "he_lib handler_env = handler_lib"
  by (simp add: handler_env_def)

definition leg :: "bool \<Rightarrow> string \<Rightarrow> decimal \<Rightarrow> FromTo" where
  "leg isFrom al v = FromTo_zero\<lparr>ft_IsFrom := isFrom, ft_AccountAlias := al, ft_Amount := Some (Amount_zero\<lparr>am_Asset := ''USD'', am_Value := v\<rparr>)\<rparr>"

definition rent :: "bool \<Rightarrow> decimal \<Rightarrow> Transaction" where
  "rent pending v =
     Transaction_zero\<lparr>tx_Description := ''rent'', tx_Pending := pending,
       tx_Send := \<lparr>snd_Asset = ''USD'', snd_Value = v, snd_Source = \<lparr>src_Remaining = '''', src_From = [leg True ''@a'' v]\<rparr>,
         snd_Distribute = \<lparr>dst_Remaining = '''', dst_To = [leg False ''@b'' v]\<rparr>\<rparr>\<rparr>"

definition empty_platform :: Platform where
  "empty_platform =
     \<lparr>pf_redis = empty_redis, pf_store = backed_up_store\<lparr>st_backup := Map.empty\<rparr>, pf_queue = [], pf_keys = Map.empty, pf_tracer = []\<rparr>"

definition params_of :: "uuid \<Rightarrow> CreateParams" where
  "params_of parent = \<lparr>cp_OrganizationID = 1, cp_LedgerID = 2, cp_TransactionID = parent\<rparr>"

definition held_rent :: "Operation list \<Rightarrow> TransactionRecord" where
  "held_rent ops = (recorded 30 ops)\<lparr>tr_ID := ''3'', tr_OrganizationID := ''1'', tr_LedgerID := ''2'', tr_StatusCode := PENDING, tr_Body := rent True 30\<rparr>"

text \<open>The platform after the hold: the balance in the cache, and the copy of the transaction there too.\<close>

definition held_balance :: "string \<Rightarrow> string \<Rightarrow> MBalance \<Rightarrow> CachedBalance" where
  "held_balance available used b =
     cjson_encode ((script_balance handler_lib b)\<lparr>lb_Available := available, lb_OnHold := ''30'', lb_OverdraftUsed := used, lb_Version := 4\<rparr>)"

definition held_platform :: "CachedBalance \<Rightarrow> Operation list \<Rightarrow> Platform" where
  "held_platform b ops =
     empty_platform\<lparr>pf_redis := empty_redis\<lparr>rs_balances := [BalanceInternalKey handler_lib 1 2 ''@a#default'' \<mapsto> b]\<rparr>,
       pf_store := (pf_store empty_platform)\<lparr>st_writebehind := [WriteBehindTransactionKey handler_lib 1 2 ''3'' \<mapsto> held_rent ops]\<rparr>\<rparr>"

definition rent_platform :: Platform where
  "rent_platform = held_platform (held_balance ''70'' ''0'' (wallet ''@a'' 100)) []"

definition amounts :: "Platform \<Rightarrow> string \<Rightarrow> (string \<times> string \<times> string) option" where
  "amounts s al = map_option (\<lambda>c. (cb_Available c, cb_OnHold c, or_default '''' (cb_OverdraftUsed c)))
     (rs_balances (pf_redis s) (BalanceInternalKey handler_lib 1 2 al))"

text \<open>A request that is driven through its parts, with no other request around.\<close>

definition drive :: "HandlerEnv \<Rightarrow> settlement_phase \<times> System \<Rightarrow> settlement_phase \<times> System" where
  "drive env = (\<lambda>(p, y). case advance env 1 2 3 (sy_platform y, p) of (s', p') \<Rightarrow>
     (p', y\<lparr>sy_platform := s', sy_requests := {#p'#}, sy_settled := sy_settled y + settles p p', sy_reopened := sy_reopened y + reopens env p\<rparr>))"

lemma driven:
  assumes "he_lib env = lib" "sy_requests y = {#p#}"
  shows "(settling_step lib 1 2 3)\<^sup>*\<^sup>* y (snd ((drive env ^^ n) (p, y))) \<and>
    sy_requests (snd ((drive env ^^ n) (p, y))) = {#fst ((drive env ^^ n) (p, y))#}"
proof (induction n)
  case (Suc n)
  obtain q z where qz: "(drive env ^^ n) (p, y) = (q, z)" by force
  obtain s' q' where adv: "advance env 1 2 3 (sy_platform z, q) = (s', q')" by force
  from Suc qz have z: "(settling_step lib 1 2 3)\<^sup>*\<^sup>* y z" "sy_requests z = add_mset q {#}" by simp_all
  from settling_step.proceed [OF assms(1) z(2) adv] z(1) qz adv show ?case by (simp add: drive_def)
qed (simp add: assms)

definition arrived :: System where
  "arrived = (undisturbed rent_platform)\<lparr>sy_requests := {#Fetched (held_rent []) APPROVED#}\<rparr>"

definition committed :: System where
  "committed = snd ((drive handler_env ^^ 4) (Fetched (held_rent []) APPROVED, arrived))"

lemma committed_once: "sy_settled committed = 1"
  by code_simp


text \<open>
  A request whose operations cannot be built gives up its lock although its script has paid, and the
  transaction still reads as pending: nothing keeps the next request from paying again.
\<close>

definition no_identifiers :: HandlerEnv where
  "no_identifiers = handler_env\<lparr>he_ops := (he_ops handler_env)\<lparr>env_newID := (\<lambda>n. Inl (Errorf ''entropy''))\<rparr>\<rparr>"

lemma unbuilt_gives_lock_up:
  "case commitTransaction no_identifiers 1 2 3 APPROVED rent_platform of (s, answer) \<Rightarrow>
     isl answer \<and> amounts s ''@b#default'' = Some (''80'', ''0'', ''0'') \<and> pf_keys s (PendingTransactionLockKey handler_lib 1 2 ''3'') = None \<and>
     (case fetch_transaction handler_env 1 2 3 s of Inl e \<Rightarrow> False | Inr tran \<Rightarrow> tr_StatusCode tran = PENDING)"
  by code_simp


text \<open>Two payments of 30 that nothing but their identifiers tells apart.\<close>

definition paid :: "string \<Rightarrow> TransactionRecord" where
  "paid ID = (recorded 30 [sample_operation DEBIT ''@a'' ''default'' DirectionDebit 30, sample_operation CREDIT ''@b'' ''default'' DirectionCredit 30])
     \<lparr>tr_ID := ID\<rparr>"

definition revert_paid :: "HandlerEnv \<Rightarrow> string \<Rightarrow> uuid \<Rightarrow> Platform \<Rightarrow> Platform \<times> (goerr + TransactionRecord)" where
  "revert_paid env ID u = revertTransaction env (\<lambda>_. Inr None) (Inr None) (Inr (paid ID)) (params_of u)"

definition reversal_paid :: "string \<Rightarrow> goerr + Transaction" where
  "reversal_paid ID = revert_input handler_lib (\<lambda>_. Inr None) (Inr None) (Inr (paid ID))"

lemma first_reversal:
  "case snd (revert_paid handler_env ''3'' 3 empty_platform) of Inl e \<Rightarrow> False | Inr tran \<Rightarrow> tr_ParentTransactionID tran = Some ''3''"
  by code_simp

lemma same_reversal: "reversal_paid ''4'' = reversal_paid ''3''"
  by code_simp

lemma second_request:
  "case reversal_paid ''3'' of Inl e \<Rightarrow> False
   | Inr t \<Rightarrow> (case create_request (handler_env\<lparr>he_newID := Inr 7\<rparr>) (params_of 4) t CREATED True '''' of Inl e \<Rightarrow> False | Inr rq \<Rightarrow> True)"
  by code_simp

theorem equal_reversals_collide_witness:
  "\<exists>s1 tran. revert_paid handler_env ''3'' 3 empty_platform = (s1, Inr tran) \<and> tr_ParentTransactionID tran = Some ''3'' \<and>
     revert_paid (handler_env\<lparr>he_newID := Inr 7\<rparr>) ''4'' 4 s1 = (s1, Inr tran)"
proof -
  obtain s1 r where run: "revert_paid handler_env ''3'' 3 empty_platform = (s1, r)" by force
  with first_reversal obtain tran where r: "r = Inr tran" "tr_ParentTransactionID tran = Some ''3''" by (auto split: sum.splits)
  let ?env = "handler_env\<lparr>he_newID := Inr 7\<rparr>"
  obtain reversal rq where rev: "reversal_paid ''3'' = Inr reversal" and rq: "create_request ?env (params_of 4) reversal CREATED True '''' = Inr rq"
    using second_request by (auto split: sum.splits)
  from equal_reversals_collide [OF run [unfolded revert_paid_def r(1)] _ _ _ _ _ _ _ _ _ rq] rev same_reversal run r
  show ?thesis by (simp add: revert_paid_def reversal_paid_def handler_env_def params_of_def)
qed

text \<open>
  A hold of 30 on a balance of 20 that may be overdrawn: 10 are on the companion. Cancelled while the copy
  with the operation of the hold is in the cache, the 10 are taken back from the overdraft; cancelled after
  the consumer has stored it, it leaves 30 available and an overdraft of 10.
\<close>

definition overdraft_wallet :: "string \<Rightarrow> decimal \<Rightarrow> string \<Rightarrow> MBalance" where
  "overdraft_wallet key available direction = (read_balance key direction available 0)\<lparr>mb_AccountID := ''@a''\<rparr>"

definition overdraft_env :: HandlerEnv where
  "overdraft_env = handler_env\<lparr>he_dbBalances :=
     companions_of [overdraft_wallet ''default'' 20 DirectionCredit, overdraft_wallet ''overdraft'' 10 DirectionDebit, wallet ''@b'' 50]\<rparr>"

definition hold_operation :: Operation where
  "hold_operation = (sample_operation ONHOLD ''@a'' ''default'' DirectionDebit 30)
     \<lparr>op_ID := ''h'', op_TransactionID := ''3'', op_Snapshot := \<lparr>sn_OverdraftUsedBefore = ''0'', sn_OverdraftUsedAfter = ''10''\<rparr>\<rparr>"

definition overdraft_hold :: Platform where
  "overdraft_hold = held_platform (held_balance ''0'' ''10'' (overdraft_wallet ''default'' 20 DirectionCredit)) [hold_operation]"

definition stored_hold :: Platform where
  "stored_hold = overdraft_hold\<lparr>pf_store := (pf_store empty_platform)
     \<lparr>st_transactions := [''3'' \<mapsto> Transaction_FromEntity plain_commons ''n'' (held_rent [])],
      st_operations := [''h'' \<mapsto> Operation_FromEntity plain_commons ''n'' hold_operation]\<rparr>\<rparr>"

lemma early_plan_reverses:
  "case commit_prepare overdraft_env 1 2 (held_rent [hold_operation]) CANCELED overdraft_hold of
     Inl e \<Rightarrow> False | Inr m \<Rightarrow> 10 \<in> set (map (am_OverdraftAmount \<circ> bo_Amount) (po_operations (sm_plan m)))"
  by code_simp

lemma cancelled_late: "amounts (fst (commitTransaction overdraft_env 1 2 3 CANCELED stored_hold)) ''@a#default'' = Some (''30'', ''0'', ''10'')"
  by code_simp


end
