(* ===== verification/RouteStore.thy ===== *)
theory RouteStore
  imports AccountingRules TransactionStore
begin

text \<open>
  The life of accounting routes (\<^verbatim>\<open>operation_route.go\<close> and \<^verbatim>\<open>transaction_route.go\<close> of the handlers, their commands and
  queries, \<^verbatim>\<open>operationroute.postgresql.go\<close>, \<^verbatim>\<open>transactionroute.postgresql.go\<close>): operation routes, transaction routes and the
  links between them as tables, and the cache of transaction routes that transactions are validated
  against.

  A database transaction is one step. The order of rows without an ORDER BY is that of the table, which is
  any list. An entry of the cache is the cached form of a route, or the mark that there is none (\<open>None\<close>); the
  mark expires after a minute, the routes do not.
\<close>

section \<open>Tables\<close>

record TransactionRouteRow =
  trw_ID :: uuid
  trw_OrganizationID :: uuid
  trw_LedgerID :: uuid
  trw_Title :: string
  trw_Description :: string
  trw_CreatedAt :: time
  trw_UpdatedAt :: time
  trw_DeletedAt :: "time option"

definition TransactionRoute_FromEntity :: "TransactionRoute \<Rightarrow> TransactionRouteRow" where
  "TransactionRoute_FromEntity e =
     \<lparr>trw_ID = trr_ID e, trw_OrganizationID = trr_OrganizationID e, trw_LedgerID = trr_LedgerID e, trw_Title = trr_Title e,
      trw_Description = trr_Description e, trw_CreatedAt = trr_CreatedAt e, trw_UpdatedAt = trr_UpdatedAt e, trw_DeletedAt = trr_DeletedAt e\<rparr>"

definition TransactionRoute_ToEntity :: "TransactionRouteRow \<Rightarrow> TransactionRoute" where
  "TransactionRoute_ToEntity m =
     \<lparr>trr_ID = trw_ID m, trr_OrganizationID = trw_OrganizationID m, trr_LedgerID = trw_LedgerID m, trr_Title = trw_Title m,
      trr_Description = trw_Description m, trr_OperationRoutes = [], trr_CreatedAt = trw_CreatedAt m, trr_UpdatedAt = trw_UpdatedAt m,
      trr_DeletedAt = trw_DeletedAt m\<rparr>"

record RouteLink =
  lk_ID :: uuid
  lk_OperationRouteID :: uuid
  lk_TransactionRouteID :: uuid
  lk_CreatedAt :: time
  lk_DeletedAt :: "time option"

record RouteState =
  rt_operations :: "OperationRouteRow list"
  rt_transactions :: "TransactionRouteRow list"
  rt_links :: "RouteLink list"
  rt_store :: Store
  rt_cache :: "(uuid \<times> uuid \<times> uuid) \<rightharpoonup> TransactionRouteCache option"

record RouteEnv =
  re_lib :: extlib
  re_now :: time
  re_newID :: uuid
  re_linkID :: "uuid \<Rightarrow> uuid"
  re_store :: StoreEnv
  re_faults :: Faults
  re_db :: "goerr option"
  re_get :: "goerr option"
  re_set :: "goerr option"
  re_del :: "goerr option"

definition ErrDatabaseItemNotFound :: goerr where
  "ErrDatabaseItemNotFound = Errorf ''errDatabaseItemNotFound''"

section \<open>Operation routes\<close>

definition active_operation :: "uuid \<Rightarrow> uuid \<Rightarrow> OperationRouteRow \<Rightarrow> bool" where
  "active_operation organizationID ledgerID row \<longleftrightarrow>
     row_OrganizationID row = organizationID \<and> row_LedgerID row = ledgerID \<and> row_DeletedAt row = None"

definition OperationRouteRepo_Create :: "RouteEnv \<Rightarrow> OperationRoute \<Rightarrow> RouteState \<Rightarrow> RouteState \<times> (goerr + OperationRoute)" where
  "OperationRouteRepo_Create env route s =
     (case re_db env of
        Some e \<Rightarrow> (s, Inl e)
      | None \<Rightarrow>
          if \<exists>row \<in> set (rt_operations s). row_ID row = orr_ID route then (s, Inl (Errorf ''duplicate key''))
          else (s\<lparr>rt_operations := rt_operations s @ [OperationRoute_FromEntity route]\<rparr>,
                Inr (OperationRoute_ToEntity (OperationRoute_FromEntity route))))"

definition OperationRouteRepo_FindByID :: "RouteEnv \<Rightarrow> uuid \<Rightarrow> uuid \<Rightarrow> uuid \<Rightarrow> RouteState \<Rightarrow> goerr + OperationRoute" where
  "OperationRouteRepo_FindByID env organizationID ledgerID u s =
     (case re_db env of
        Some e \<Rightarrow> Inl e
      | None \<Rightarrow>
          (case filter (\<lambda>row. active_operation organizationID ledgerID row \<and> row_ID row = u) (rt_operations s) of
             [] \<Rightarrow> Inl (Business ErrOperationRouteNotFound)
           | row # _ \<Rightarrow> Inr (OperationRoute_ToEntity row)))"

definition OperationRouteRepo_FindByIDs :: "RouteEnv \<Rightarrow> uuid \<Rightarrow> uuid \<Rightarrow> uuid list \<Rightarrow> RouteState \<Rightarrow> goerr + OperationRoute list" where
  "OperationRouteRepo_FindByIDs env organizationID ledgerID ids s =
     (if ids = [] then Inr []
      else case re_db env of
        Some e \<Rightarrow> Inl e
      | None \<Rightarrow>
          (let rows = filter (\<lambda>row. active_operation organizationID ledgerID row \<and> row_ID row \<in> set ids) (rt_operations s)
           in if \<exists>u \<in> set ids. u \<notin> row_ID ` set rows then Inl (Business ErrOperationRouteNotFound)
              else Inr (map OperationRoute_ToEntity rows)))"

text \<open>The update of the entries: keys of the request replace those of the row, null removes a key.\<close>

definition patched :: "(string, AccountingEntry option) gomap \<Rightarrow> string \<Rightarrow> AccountingEntry option \<Rightarrow> AccountingEntry option" where
  "patched raw key old = (case map_of raw key of None \<Rightarrow> old | Some v \<Rightarrow> v)"

definition patch_entries :: "(string, AccountingEntry option) gomap \<Rightarrow> AccountingEntries option \<Rightarrow> AccountingEntries option" where
  "patch_entries raw entries =
     (if raw = [] then entries
      else (let e = (case entries of None \<Rightarrow> AccountingEntries_zero | Some e \<Rightarrow> e)
            in Some \<lparr>aes_Direct = patched raw ActionDirect (aes_Direct e), aes_Hold = patched raw ActionHold (aes_Hold e),
                     aes_Commit = patched raw ActionCommit (aes_Commit e), aes_Cancel = patched raw ActionCancel (aes_Cancel e),
                     aes_Revert = patched raw ActionRevert (aes_Revert e), aes_Overdraft = patched raw ActionOverdraft (aes_Overdraft e),
                     aes_Block = patched raw ActionBlock (aes_Block e), aes_Unblock = patched raw ActionUnblock (aes_Unblock e)\<rparr>))"

definition entries_patch :: "AccountingEntries \<Rightarrow> (string, AccountingEntry option) gomap" where
  "entries_patch e =
     filter (\<lambda>p. snd p \<noteq> None)
       [(ActionDirect, aes_Direct e), (ActionHold, aes_Hold e), (ActionCommit, aes_Commit e), (ActionCancel, aes_Cancel e),
        (ActionRevert, aes_Revert e), (ActionOverdraft, aes_Overdraft e), (ActionBlock, aes_Block e), (ActionUnblock, aes_Unblock e)]"

definition updated_operation ::
    "RouteEnv \<Rightarrow> OperationRoute \<Rightarrow> (string, AccountingEntry option) gomap option \<Rightarrow> OperationRouteRow \<Rightarrow> OperationRouteRow" where
  "updated_operation env route raw row =
     (let record' = OperationRoute_FromEntity route
      in row\<lparr>row_Title := (if orr_Title route \<noteq> '''' then row_Title record' else row_Title row),
             row_Description := (if orr_Description route \<noteq> '''' then row_Description record' else row_Description row),
             row_Code := (if orr_Code route \<noteq> '''' then row_Code record' else row_Code row),
             row_AccountRuleType := (case orr_Account route of
                 Some a \<Rightarrow> if acr_RuleType a \<noteq> '''' then row_AccountRuleType record' else row_AccountRuleType row
               | None \<Rightarrow> row_AccountRuleType row),
             row_AccountRuleValidIf := (case orr_Account route of
                 Some a \<Rightarrow> if acr_ValidIf a \<noteq> JNull then row_AccountRuleValidIf record' else row_AccountRuleValidIf row
               | None \<Rightarrow> row_AccountRuleValidIf row),
             row_AccountingEntries := (case raw of
                 Some r \<Rightarrow> patch_entries r (row_AccountingEntries row)
               | None \<Rightarrow> (case orr_AccountingEntries route of
                     Some e \<Rightarrow> Some (case patch_entries (entries_patch e) (row_AccountingEntries row) of
                                      Some x \<Rightarrow> x | None \<Rightarrow> AccountingEntries_zero)
                   | None \<Rightarrow> row_AccountingEntries row)),
             row_UpdatedAt := re_now env\<rparr>)"

definition OperationRouteRepo_Update ::
    "RouteEnv \<Rightarrow> uuid \<Rightarrow> uuid \<Rightarrow> uuid \<Rightarrow> OperationRoute \<Rightarrow> (string, AccountingEntry option) gomap option \<Rightarrow> RouteState \<Rightarrow>
     RouteState \<times> (goerr + OperationRoute)" where
  "OperationRouteRepo_Update env organizationID ledgerID u route raw s =
     (case re_db env of
        Some e \<Rightarrow> (s, Inl e)
      | None \<Rightarrow>
          (let hit = (\<lambda>row. active_operation organizationID ledgerID row \<and> row_ID row = u);
               rows = map (\<lambda>row. if hit row then updated_operation env route raw row else row) (rt_operations s)
           in case filter hit rows of
                [] \<Rightarrow> (s, Inl ErrDatabaseItemNotFound)
              | row # _ \<Rightarrow> (s\<lparr>rt_operations := rows\<rparr>, Inr (OperationRoute_ToEntity row))))"

definition OperationRouteRepo_Delete :: "RouteEnv \<Rightarrow> uuid \<Rightarrow> uuid \<Rightarrow> uuid \<Rightarrow> RouteState \<Rightarrow> RouteState \<times> goerr option" where
  "OperationRouteRepo_Delete env organizationID ledgerID u s =
     (case re_db env of
        Some e \<Rightarrow> (s, Some e)
      | None \<Rightarrow>
          (let hit = (\<lambda>row. active_operation organizationID ledgerID row \<and> row_ID row = u)
           in if \<not> (\<exists>row \<in> set (rt_operations s). hit row) then (s, Some ErrDatabaseItemNotFound)
              else (s\<lparr>rt_operations := map (\<lambda>row. if hit row then row\<lparr>row_DeletedAt := Some (re_now env)\<rparr> else row) (rt_operations s)\<rparr>, None)))"

definition HasTransactionRouteLinks :: "RouteEnv \<Rightarrow> uuid \<Rightarrow> uuid \<Rightarrow> uuid \<Rightarrow> RouteState \<Rightarrow> goerr + bool" where
  "HasTransactionRouteLinks env organizationID ledgerID u s =
     (case re_db env of
        Some e \<Rightarrow> Inl e
      | None \<Rightarrow> Inr ((\<exists>l \<in> set (rt_links s). lk_OperationRouteID l = u \<and> lk_DeletedAt l = None) \<and>
          (\<exists>row \<in> set (rt_operations s). row_ID row = u \<and> active_operation organizationID ledgerID row)))"

definition FindTransactionRouteIDs :: "RouteEnv \<Rightarrow> uuid \<Rightarrow> RouteState \<Rightarrow> goerr + uuid list" where
  "FindTransactionRouteIDs env u s =
     (case re_db env of
        Some e \<Rightarrow> Inl e
      | None \<Rightarrow> Inr (map lk_TransactionRouteID
          (sort_key lk_CreatedAt (filter (\<lambda>l. lk_OperationRouteID l = u \<and> lk_DeletedAt l = None) (rt_links s)))))"

section \<open>Transaction routes\<close>

definition active_transaction :: "uuid \<Rightarrow> uuid \<Rightarrow> uuid \<Rightarrow> TransactionRouteRow \<Rightarrow> bool" where
  "active_transaction organizationID ledgerID u row \<longleftrightarrow>
     trw_OrganizationID row = organizationID \<and> trw_LedgerID row = ledgerID \<and> trw_ID row = u \<and> trw_DeletedAt row = None"

definition active_links :: "uuid \<Rightarrow> RouteState \<Rightarrow> RouteLink list" where
  "active_links u s = filter (\<lambda>l. lk_TransactionRouteID l = u \<and> lk_DeletedAt l = None) (rt_links s)"

definition linked_row :: "RouteState \<Rightarrow> RouteLink \<Rightarrow> OperationRouteRow option" where
  "linked_row s l = find (\<lambda>row. row_ID row = lk_OperationRouteID l \<and> row_DeletedAt row = None) (rt_operations s)"

fun first_by :: "('a \<Rightarrow> 'b) \<Rightarrow> 'b list \<Rightarrow> 'a list \<Rightarrow> 'a list" where
  "first_by f met [] = []"
| "first_by f met (x # xs) = (if f x \<in> set met then first_by f met xs else x # first_by f (f x # met) xs)"

text \<open>
  The rows of the outer join: without a link, or with a link whose operation route is gone, the columns are NULL and
  cannot be scanned. A route is listed once, and one with the nil identifier is passed over.
\<close>

definition TransactionRouteRepo_FindByID :: "RouteEnv \<Rightarrow> uuid \<Rightarrow> uuid \<Rightarrow> uuid \<Rightarrow> RouteState \<Rightarrow> goerr + TransactionRoute" where
  "TransactionRouteRepo_FindByID env organizationID ledgerID u s =
     (case re_db env of
        Some e \<Rightarrow> Inl e
      | None \<Rightarrow>
          (case filter (active_transaction organizationID ledgerID u) (rt_transactions s) of
             [] \<Rightarrow> Inl (Business ErrTransactionRouteNotFound)
           | tr # _ \<Rightarrow>
               (let links = active_links u s
                in if links = [] \<or> (\<exists>l \<in> set links. linked_row s l = None) then Inl (Errorf ''Scan error: converting NULL'')
                   else Inr ((TransactionRoute_ToEntity tr)\<lparr>trr_OperationRoutes :=
                          map OperationRoute_ToEntity (first_by row_ID [uuid_Nil] (sort_key row_CreatedAt (List.map_filter (linked_row s) links)))\<rparr>))))"

definition new_link :: "RouteEnv \<Rightarrow> uuid \<Rightarrow> uuid \<Rightarrow> RouteLink" where
  "new_link env transactionRouteID operationRouteID =
     \<lparr>lk_ID = re_linkID env operationRouteID, lk_OperationRouteID = operationRouteID, lk_TransactionRouteID = transactionRouteID,
      lk_CreatedAt = re_now env, lk_DeletedAt = None\<rparr>"

definition TransactionRouteRepo_Create :: "RouteEnv \<Rightarrow> TransactionRoute \<Rightarrow> RouteState \<Rightarrow> RouteState \<times> (goerr + TransactionRoute)" where
  "TransactionRouteRepo_Create env route s =
     (case re_db env of
        Some e \<Rightarrow> (s, Inl e)
      | None \<Rightarrow>
          if \<exists>row \<in> set (rt_transactions s). trw_ID row = trr_ID route then (s, Inl (Errorf ''duplicate key''))
          else (s\<lparr>rt_transactions := rt_transactions s @ [TransactionRoute_FromEntity route],
                  rt_links := rt_links s @ map (new_link env (trr_ID route) \<circ> orr_ID) (trr_OperationRoutes route)\<rparr>,
                Inr ((TransactionRoute_ToEntity (TransactionRoute_FromEntity route))\<lparr>trr_OperationRoutes := trr_OperationRoutes route\<rparr>)))"

definition updateOperationRouteRelationships :: "RouteEnv \<Rightarrow> uuid \<Rightarrow> uuid list \<Rightarrow> uuid list \<Rightarrow> RouteLink list \<Rightarrow> RouteLink list" where
  "updateOperationRouteRelationships env u toAdd toRemove links =
     map (\<lambda>l. if lk_TransactionRouteID l = u \<and> lk_OperationRouteID l \<in> set toRemove \<and> lk_DeletedAt l = None
              then l\<lparr>lk_DeletedAt := Some (re_now env)\<rparr> else l) links @ map (new_link env u) toAdd"

definition TransactionRouteRepo_Update ::
    "RouteEnv \<Rightarrow> uuid \<Rightarrow> uuid \<Rightarrow> uuid \<Rightarrow> TransactionRoute \<Rightarrow> uuid list \<Rightarrow> uuid list \<Rightarrow> RouteState \<Rightarrow> RouteState \<times> (goerr + TransactionRoute)" where
  "TransactionRouteRepo_Update env organizationID ledgerID u route toAdd toRemove s =
     (case re_db env of
        Some e \<Rightarrow> (s, Inl e)
      | None \<Rightarrow>
          (let change = (\<lambda>row. row\<lparr>trw_UpdatedAt := re_now env, trw_Title := (if trr_Title route \<noteq> '''' then trr_Title route else trw_Title row),
                                   trw_Description := (if trr_Description route \<noteq> '''' then trr_Description route else trw_Description row)\<rparr>);
               rows = map (\<lambda>row. if active_transaction organizationID ledgerID u row then change row else row) (rt_transactions s)
           in case filter (active_transaction organizationID ledgerID u) rows of
                [] \<Rightarrow> (s, Inl ErrDatabaseItemNotFound)
              | row # _ \<Rightarrow> (s\<lparr>rt_transactions := rows, rt_links := updateOperationRouteRelationships env u toAdd toRemove (rt_links s)\<rparr>,
                            Inr (TransactionRoute_ToEntity row))))"

definition TransactionRouteRepo_Delete :: "RouteEnv \<Rightarrow> uuid \<Rightarrow> uuid \<Rightarrow> uuid \<Rightarrow> uuid list \<Rightarrow> RouteState \<Rightarrow> RouteState \<times> goerr option" where
  "TransactionRouteRepo_Delete env organizationID ledgerID u toRemove s =
     (case re_db env of
        Some e \<Rightarrow> (s, Some e)
      | None \<Rightarrow>
          (s\<lparr>rt_transactions := map (\<lambda>row. if active_transaction organizationID ledgerID u row then row\<lparr>trw_DeletedAt := Some (re_now env)\<rparr> else row)
               (rt_transactions s),
             rt_links := updateOperationRouteRelationships env u [] toRemove (rt_links s)\<rparr>, None))"

definition FindOperationRouteIDsByTransactionRouteID :: "RouteEnv \<Rightarrow> uuid \<Rightarrow> RouteState \<Rightarrow> goerr + uuid list" where
  "FindOperationRouteIDsByTransactionRouteID env u s =
     (case re_db env of
        Some e \<Rightarrow> Inl e
      | None \<Rightarrow> Inr (map lk_OperationRouteID (filter (\<lambda>l. linked_row s l \<noteq> None) (active_links u s))))"

section \<open>The cache\<close>

definition SetBytes :: "RouteEnv \<Rightarrow> uuid \<times> uuid \<times> uuid \<Rightarrow> TransactionRouteCache option \<Rightarrow> RouteState \<Rightarrow> RouteState \<times> goerr option" where
  "SetBytes env key v s = (case re_set env of Some e \<Rightarrow> (s, Some e) | None \<Rightarrow> (s\<lparr>rt_cache := (rt_cache s)(key \<mapsto> v)\<rparr>, None))"

definition CreateAccountingRouteCache :: "RouteEnv \<Rightarrow> TransactionRoute \<Rightarrow> RouteState \<Rightarrow> RouteState \<times> goerr option" where
  "CreateAccountingRouteCache env route s =
     SetBytes env (trr_OrganizationID route, trr_LedgerID route, trr_ID route) (Some (TransactionRoute_ToCache (re_lib env) route)) s"

definition DeleteTransactionRouteCache :: "RouteEnv \<Rightarrow> uuid \<Rightarrow> uuid \<Rightarrow> uuid \<Rightarrow> RouteState \<Rightarrow> RouteState \<times> goerr option" where
  "DeleteTransactionRouteCache env organizationID ledgerID u s =
     (case re_del env of
        Some e \<Rightarrow> (s, Some e)
      | None \<Rightarrow> (s\<lparr>rt_cache := (rt_cache s)((organizationID, ledgerID, u) := None)\<rparr>, None))"

definition reload_one :: "RouteEnv \<Rightarrow> uuid \<Rightarrow> uuid \<Rightarrow> uuid \<Rightarrow> RouteState \<Rightarrow> RouteState" where
  "reload_one env organizationID ledgerID u s =
     (case TransactionRouteRepo_FindByID env organizationID ledgerID u s of
        Inl e \<Rightarrow> s
      | Inr route \<Rightarrow> fst (CreateAccountingRouteCache env route s))"

definition ReloadOperationRouteCache :: "RouteEnv \<Rightarrow> uuid \<Rightarrow> uuid \<Rightarrow> uuid \<Rightarrow> RouteState \<Rightarrow> RouteState \<times> goerr option" where
  "ReloadOperationRouteCache env organizationID ledgerID u s =
     (case FindTransactionRouteIDs env u s of
        Inl e \<Rightarrow> (s, Some e)
      | Inr ids \<Rightarrow> (fold (reload_one env organizationID ledgerID) ids s, None))"

definition GetOrCreateTransactionRouteCache :: "RouteEnv \<Rightarrow> uuid \<Rightarrow> uuid \<Rightarrow> uuid \<Rightarrow> RouteState \<Rightarrow> RouteState \<times> (goerr + TransactionRouteCache)" where
  "GetOrCreateTransactionRouteCache env organizationID ledgerID u s =
     (case (if re_get env = None then rt_cache s (organizationID, ledgerID, u) else None) of
        Some None \<Rightarrow> (s, Inl ErrDatabaseItemNotFound)
      | Some (Some cacheData) \<Rightarrow> (s, Inr cacheData)
      | None \<Rightarrow>
          (case TransactionRouteRepo_FindByID env organizationID ledgerID u s of
             Inl e \<Rightarrow>
               if e = ErrDatabaseItemNotFound \<or> e = Business ErrTransactionRouteNotFound
               then (fst (SetBytes env (organizationID, ledgerID, u) None s), Inl ErrDatabaseItemNotFound)
               else (s, Inl e)
           | Inr route \<Rightarrow>
               (let cacheData = TransactionRoute_ToCache (re_lib env) route
                in case SetBytes env (organizationID, ledgerID, u) (Some cacheData) s of
                     (s', Some e) \<Rightarrow> (s', Inl e)
                   | (s', None) \<Rightarrow> (s', Inr cacheData))))"

section \<open>Commands\<close>

record CreateOperationRouteInput =
  coi_Title :: string
  coi_Description :: string
  coi_Code :: string
  coi_OperationType :: string
  coi_AccountingEntries :: "AccountingEntries option"
  coi_Metadata :: metadata
  coi_Account :: "AccountRule option"

record UpdateOperationRouteInput =
  uoi_Title :: string
  uoi_Description :: string
  uoi_Code :: string
  uoi_AccountingEntries :: "AccountingEntries option"
  uoi_AccountingEntriesRaw :: "(string, AccountingEntry option) gomap option"
  uoi_Metadata :: metadata
  uoi_Account :: "AccountRule option"

record CreateTransactionRouteInput =
  cti_Title :: string
  cti_Description :: string
  cti_Metadata :: metadata
  cti_OperationRoutes :: "uuid list"

record UpdateTransactionRouteInput =
  uti_Title :: string
  uti_Description :: string
  uti_Metadata :: metadata
  uti_OperationRoutes :: "uuid list option"

definition route_metadata :: "RouteEnv \<Rightarrow> string \<Rightarrow> string \<Rightarrow> metadata \<Rightarrow> RouteState \<Rightarrow> RouteState \<times> goerr option" where
  "route_metadata env entityName entityID metadata s =
     (case metadata of
        None \<Rightarrow> (s, None)
      | Some m \<Rightarrow>
          (case f_metadata (re_faults env) entityID of
             Some e \<Rightarrow> (s, Some e)
           | None \<Rightarrow> (s\<lparr>rt_store := MetadataRepo_Create entityName entityID m (rt_store s)\<rparr>, None)))"

definition update_route_metadata :: "RouteEnv \<Rightarrow> string \<Rightarrow> string \<Rightarrow> metadata \<Rightarrow> RouteState \<Rightarrow> RouteState \<times> goerr option" where
  "update_route_metadata env entityName entityID metadata s =
     (case UpdateTransactionMetadata (re_store env) (re_faults env) entityName entityID metadata (rt_store s) of
        (st, Inl e) \<Rightarrow> (s\<lparr>rt_store := st\<rparr>, Some e)
      | (st, Inr _) \<Rightarrow> (s\<lparr>rt_store := st\<rparr>, None))"

definition CreateOperationRoute :: "RouteEnv \<Rightarrow> uuid \<Rightarrow> uuid \<Rightarrow> CreateOperationRouteInput \<Rightarrow> RouteState \<Rightarrow> RouteState \<times> (goerr + OperationRoute)" where
  "CreateOperationRoute env organizationID ledgerID payload s =
     (let operationRoute =
            \<lparr>orr_ID = re_newID env, orr_OrganizationID = organizationID, orr_LedgerID = ledgerID, orr_Title = coi_Title payload,
             orr_Description = coi_Description payload, orr_Code = coi_Code payload, orr_OperationType = coi_OperationType payload,
             orr_AccountingEntries = coi_AccountingEntries payload, orr_Account = coi_Account payload, orr_CreatedAt = re_now env,
             orr_UpdatedAt = re_now env, orr_DeletedAt = None\<rparr>
      in case OperationRouteRepo_Create env operationRoute s of
           (s, Inl e) \<Rightarrow> (s, Inl e)
         | (s, Inr created) \<Rightarrow>
             (case route_metadata env ''OperationRoute'' (uuid_String (re_lib env) (orr_ID created)) (coi_Metadata payload) s of
                (s, Some e) \<Rightarrow> (s, Inl e)
              | (s, None) \<Rightarrow> (s, Inr created)))"

definition UpdateOperationRoute ::
    "RouteEnv \<Rightarrow> uuid \<Rightarrow> uuid \<Rightarrow> uuid \<Rightarrow> UpdateOperationRouteInput \<Rightarrow> RouteState \<Rightarrow> RouteState \<times> (goerr + OperationRoute)" where
  "UpdateOperationRoute env organizationID ledgerID u input s =
     (let operationRoute =
            \<lparr>orr_ID = uuid_Nil, orr_OrganizationID = uuid_Nil, orr_LedgerID = uuid_Nil, orr_Title = uoi_Title input,
             orr_Description = uoi_Description input, orr_Code = uoi_Code input, orr_OperationType = '''',
             orr_AccountingEntries = uoi_AccountingEntries input, orr_Account = uoi_Account input, orr_CreatedAt = 0,
             orr_UpdatedAt = 0, orr_DeletedAt = None\<rparr>
      in case OperationRouteRepo_Update env organizationID ledgerID u operationRoute (uoi_AccountingEntriesRaw input) s of
           (s, Inl e) \<Rightarrow> (s, Inl (if e = ErrDatabaseItemNotFound then Business ErrOperationRouteNotFound else e))
         | (s, Inr updated) \<Rightarrow>
             (case update_route_metadata env ''OperationRoute'' (uuid_String (re_lib env) u) (uoi_Metadata input) s of
                (s, Some e) \<Rightarrow> (s, Inl e)
              | (s, None) \<Rightarrow> (s, Inr updated)))"

definition DeleteOperationRouteByID :: "RouteEnv \<Rightarrow> uuid \<Rightarrow> uuid \<Rightarrow> uuid \<Rightarrow> RouteState \<Rightarrow> RouteState \<times> goerr option" where
  "DeleteOperationRouteByID env organizationID ledgerID u s =
     (case HasTransactionRouteLinks env organizationID ledgerID u s of
        Inl e \<Rightarrow> (s, Some e)
      | Inr True \<Rightarrow> (s, Some (Business ErrOperationRouteLinkedToTransactionRoutes))
      | Inr False \<Rightarrow>
          (case OperationRouteRepo_Delete env organizationID ledgerID u s of
             (s, Some e) \<Rightarrow> (s, Some (if e = ErrDatabaseItemNotFound then Business ErrOperationRouteNotFound else e))
           | (s, None) \<Rightarrow> (s, None)))"

definition validateOperationRouteTypes :: "OperationRoute list \<Rightarrow> goerr option" where
  "validateOperationRouteTypes opRoutes =
     first_err
       [err_if (\<not> (\<exists>r \<in> set opRoutes. orr_OperationType r \<in> {''source'', ''bidirectional''})) (Business ErrNoSourceForAction),
        err_if (\<not> (\<exists>r \<in> set opRoutes. orr_OperationType r \<in> {''destination'', ''bidirectional''})) (Business ErrNoDestinationForAction)]"

definition CreateTransactionRoute ::
    "RouteEnv \<Rightarrow> uuid \<Rightarrow> uuid \<Rightarrow> CreateTransactionRouteInput \<Rightarrow> RouteState \<Rightarrow> RouteState \<times> (goerr + TransactionRoute)" where
  "CreateTransactionRoute env organizationID ledgerID payload s =
     (case OperationRouteRepo_FindByIDs env organizationID ledgerID (cti_OperationRoutes payload) s of
        Inl e \<Rightarrow> (s, Inl e)
      | Inr operationRoutes \<Rightarrow>
          (case validateOperationRouteTypes operationRoutes of
             Some e \<Rightarrow> (s, Inl e)
           | None \<Rightarrow>
               (let transactionRoute =
                      \<lparr>trr_ID = re_newID env, trr_OrganizationID = organizationID, trr_LedgerID = ledgerID, trr_Title = cti_Title payload,
                       trr_Description = cti_Description payload, trr_OperationRoutes = operationRoutes, trr_CreatedAt = re_now env,
                       trr_UpdatedAt = re_now env, trr_DeletedAt = None\<rparr>
                in case TransactionRouteRepo_Create env transactionRoute s of
                     (s, Inl e) \<Rightarrow> (s, Inl e)
                   | (s, Inr created) \<Rightarrow>
                       (case route_metadata env ''TransactionRoute'' (uuid_String (re_lib env) (trr_ID created)) (cti_Metadata payload) s of
                          (s, Some e) \<Rightarrow> (s, Inl e)
                        | (s, None) \<Rightarrow> (s, Inr (created\<lparr>trr_OperationRoutes := operationRoutes\<rparr>))))))"

definition maxOperationRouteInputs :: nat where
  "maxOperationRouteInputs = 100"

definition handleOperationRouteUpdates ::
    "RouteEnv \<Rightarrow> uuid \<Rightarrow> uuid \<Rightarrow> uuid \<Rightarrow> uuid list \<Rightarrow> RouteState \<Rightarrow> goerr + uuid list \<times> uuid list \<times> OperationRoute list" where
  "handleOperationRouteUpdates env organizationID ledgerID u inputs s =
     (if length inputs < 2 then Inl (Business ErrMissingOperationRoutes)
      else if maxOperationRouteInputs < length inputs then Inl (Business ErrTooManyOperationRoutes)
      else case TransactionRouteRepo_FindByID env organizationID ledgerID u s of
        Inl e \<Rightarrow> Inl e
      | Inr currentRoute \<Rightarrow>
          (let deduplicatedInputs = first_by id [] inputs
           in case OperationRouteRepo_FindByIDs env organizationID ledgerID deduplicatedInputs s of
                Inl e \<Rightarrow> Inl e
              | Inr operationRoutes \<Rightarrow>
                  (case validateOperationRouteTypes operationRoutes of
                     Some e \<Rightarrow> Inl e
                   | None \<Rightarrow>
                       (let existingIDs = map orr_ID (trr_OperationRoutes currentRoute)
                        in Inr (filter (\<lambda>i. i \<notin> set existingIDs) deduplicatedInputs,
                                filter (\<lambda>i. i \<notin> set deduplicatedInputs) existingIDs, operationRoutes)))))"

text \<open>The links that an update leaves alone are read again for the answer.\<close>

definition post_update_routes ::
    "RouteEnv \<Rightarrow> uuid \<Rightarrow> uuid \<Rightarrow> uuid \<Rightarrow> OperationRoute list option \<Rightarrow> RouteState \<Rightarrow> goerr + OperationRoute list" where
  "post_update_routes env organizationID ledgerID u touched s =
     (case touched of
        Some routes \<Rightarrow> Inr routes
      | None \<Rightarrow>
          (case FindOperationRouteIDsByTransactionRouteID env u s of
             Inl e \<Rightarrow> Inl e
           | Inr ids \<Rightarrow> OperationRouteRepo_FindByIDs env organizationID ledgerID ids s))"

definition UpdateTransactionRoute ::
    "RouteEnv \<Rightarrow> uuid \<Rightarrow> uuid \<Rightarrow> uuid \<Rightarrow> UpdateTransactionRouteInput \<Rightarrow> RouteState \<Rightarrow> RouteState \<times> (goerr + TransactionRoute)" where
  "UpdateTransactionRoute env organizationID ledgerID u input s =
     (case (case uti_OperationRoutes input of
              None \<Rightarrow> Inr ([], [], None)
            | Some inputs \<Rightarrow> map_sum id (\<lambda>(toAdd, toRemove, routes). (toAdd, toRemove, Some routes))
                (handleOperationRouteUpdates env organizationID ledgerID u inputs s)) of
        Inl e \<Rightarrow> (s, Inl e)
      | Inr (toAdd, toRemove, touched) \<Rightarrow>
          (let transactionRoute =
                 \<lparr>trr_ID = uuid_Nil, trr_OrganizationID = uuid_Nil, trr_LedgerID = uuid_Nil, trr_Title = uti_Title input,
                  trr_Description = uti_Description input, trr_OperationRoutes = [], trr_CreatedAt = 0, trr_UpdatedAt = 0, trr_DeletedAt = None\<rparr>
           in case TransactionRouteRepo_Update env organizationID ledgerID u transactionRoute toAdd toRemove s of
                (s, Inl e) \<Rightarrow> (s, Inl (if e = ErrDatabaseItemNotFound then Business ErrTransactionRouteNotFound else e))
              | (s, Inr updated) \<Rightarrow>
                  (case post_update_routes env organizationID ledgerID u touched s of
                     Inl e \<Rightarrow> (s, Inl e)
                   | Inr routes \<Rightarrow>
                       (case update_route_metadata env ''TransactionRoute'' (uuid_String (re_lib env) u) (uti_Metadata input) s of
                          (s, Some e) \<Rightarrow> (s, Inl e)
                        | (s, None) \<Rightarrow> (s, Inr (updated\<lparr>trr_OperationRoutes := routes\<rparr>))))))"

definition DeleteTransactionRouteByID :: "RouteEnv \<Rightarrow> uuid \<Rightarrow> uuid \<Rightarrow> uuid \<Rightarrow> RouteState \<Rightarrow> RouteState \<times> goerr option" where
  "DeleteTransactionRouteByID env organizationID ledgerID u s =
     (case TransactionRouteRepo_FindByID env organizationID ledgerID u s of
        Inl e \<Rightarrow> (s, Some (if e = ErrDatabaseItemNotFound then Business ErrTransactionRouteNotFound else e))
      | Inr route \<Rightarrow> TransactionRouteRepo_Delete env organizationID ledgerID u (map orr_ID (trr_OperationRoutes route)) s)"

section \<open>Handlers\<close>

text \<open>\<open>raw\<close> is the field \<^verbatim>\<open>accountingEntries\<close> of the body, when the body has it as an object.\<close>

definition unknown_entries :: "AccountingEntries option \<Rightarrow> (string, AccountingEntry option) gomap option \<Rightarrow> goerr option" where
  "unknown_entries entries raw =
     (case (entries, raw) of
        (Some _, Some r) \<Rightarrow> err_if (findUnknownAccountingEntryKeys r \<noteq> []) (Business ErrUnexpectedFieldsInTheRequest)
      | _ \<Rightarrow> None)"

definition createOperationRoute ::
    "RouteEnv \<Rightarrow> uuid \<Rightarrow> uuid \<Rightarrow> CreateOperationRouteInput \<Rightarrow> (string, AccountingEntry option) gomap option \<Rightarrow> RouteState \<Rightarrow>
     RouteState \<times> (goerr + OperationRoute)" where
  "createOperationRoute env organizationID ledgerID payload raw s =
     (case first_err
             [validateAccountRule (coi_Account payload), validateAccountingEntries (coi_AccountingEntries payload),
              validateAccountingRulesMatrix (coi_OperationType payload) (coi_AccountingEntries payload),
              unknown_entries (coi_AccountingEntries payload) raw] of
        Some e \<Rightarrow> (s, Inl e)
      | None \<Rightarrow> CreateOperationRoute env organizationID ledgerID payload s)"

definition GetOperationRouteByID :: "RouteEnv \<Rightarrow> uuid \<Rightarrow> uuid \<Rightarrow> uuid \<Rightarrow> RouteState \<Rightarrow> goerr + OperationRoute" where
  "GetOperationRouteByID env organizationID ledgerID u s =
     (case OperationRouteRepo_FindByID env organizationID ledgerID u s of
        Inl e \<Rightarrow> Inl (if e = ErrDatabaseItemNotFound then Business ErrOperationRouteNotFound else e)
      | Inr route \<Rightarrow>
          (case f_metadata (re_faults env) (uuid_String (re_lib env) (orr_ID route)) of Some e \<Rightarrow> Inl e | None \<Rightarrow> Inr route))"

definition check_patch :: "RouteEnv \<Rightarrow> uuid \<Rightarrow> uuid \<Rightarrow> uuid \<Rightarrow> UpdateOperationRouteInput \<Rightarrow> RouteState \<Rightarrow> goerr option" where
  "check_patch env organizationID ledgerID u payload s =
     (if uoi_AccountingEntries payload = None \<and> uoi_AccountingEntriesRaw payload = None then None
      else case GetOperationRouteByID env organizationID ledgerID u s of
        Inl e \<Rightarrow> Some e
      | Inr existing \<Rightarrow>
          validateAccountingRulesMatrix (orr_OperationType existing)
            (mergeAccountingEntries (orr_AccountingEntries existing) (uoi_AccountingEntries payload) (uoi_AccountingEntriesRaw payload)))"

definition updateOperationRoute ::
    "RouteEnv \<Rightarrow> uuid \<Rightarrow> uuid \<Rightarrow> uuid \<Rightarrow> UpdateOperationRouteInput \<Rightarrow> (string, AccountingEntry option) gomap option \<Rightarrow> RouteState \<Rightarrow>
     RouteState \<times> (goerr + OperationRoute)" where
  "updateOperationRoute env organizationID ledgerID u input raw s =
     (let payload = input\<lparr>uoi_AccountingEntriesRaw := (if uoi_AccountingEntries input \<noteq> None then raw else None)\<rparr>
      in case first_err
                [validateAccountRule (uoi_Account payload), validateAccountingEntries (uoi_AccountingEntries payload),
                 unknown_entries (uoi_AccountingEntries payload) raw, check_patch env organizationID ledgerID u payload s] of
           Some e \<Rightarrow> (s, Inl e)
         | None \<Rightarrow>
             (case UpdateOperationRoute env organizationID ledgerID u payload s of
                (s, Inl e) \<Rightarrow> (s, Inl e)
              | (s, Inr route) \<Rightarrow>
                  (if uoi_Account payload \<noteq> None then fst (ReloadOperationRouteCache env organizationID ledgerID u s) else s, Inr route)))"

definition createTransactionRoute ::
    "RouteEnv \<Rightarrow> uuid \<Rightarrow> uuid \<Rightarrow> CreateTransactionRouteInput \<Rightarrow> RouteState \<Rightarrow> RouteState \<times> (goerr + TransactionRoute)" where
  "createTransactionRoute env organizationID ledgerID payload s =
     (case CreateTransactionRoute env organizationID ledgerID payload s of
        (s, Inl e) \<Rightarrow> (s, Inl e)
      | (s, Inr route) \<Rightarrow> (fst (CreateAccountingRouteCache env route s), Inr route))"

definition updateTransactionRoute ::
    "RouteEnv \<Rightarrow> uuid \<Rightarrow> uuid \<Rightarrow> uuid \<Rightarrow> UpdateTransactionRouteInput \<Rightarrow> RouteState \<Rightarrow> RouteState \<times> (goerr + TransactionRoute)" where
  "updateTransactionRoute env organizationID ledgerID u payload s =
     (case UpdateTransactionRoute env organizationID ledgerID u payload s of
        (s, Inl e) \<Rightarrow> (s, Inl e)
      | (s, Inr route) \<Rightarrow> (fst (CreateAccountingRouteCache env route s), Inr route))"

definition deleteTransactionRouteByID :: "RouteEnv \<Rightarrow> uuid \<Rightarrow> uuid \<Rightarrow> uuid \<Rightarrow> RouteState \<Rightarrow> RouteState \<times> goerr option" where
  "deleteTransactionRouteByID env organizationID ledgerID u s =
     (case DeleteTransactionRouteByID env organizationID ledgerID u s of
        (s, Some e) \<Rightarrow> (s, Some e)
      | (s, None) \<Rightarrow> (fst (DeleteTransactionRouteCache env organizationID ledgerID u s), None))"

end
