(* ===== verification/RouteStoreProofs.thy ===== *)
theory RouteStoreProofs
  imports RouteStore
begin

text \<open>
  The cache of transaction routes stays in step with the tables, as long as the requests keep it: shown for
  every sequence of requests but the updates of operation routes that the handler does not reload after,
  and by an example for those.
\<close>

section \<open>What is stored\<close>

definition linked :: "uuid \<Rightarrow> uuid \<Rightarrow> RouteState \<Rightarrow> bool" where
  "linked u i s \<longleftrightarrow> (\<exists>l \<in> set (rt_links s). lk_TransactionRouteID l = u \<and> lk_OperationRouteID l = i \<and> lk_DeletedAt l = None)"

definition exists_route :: "uuid \<Rightarrow> uuid \<Rightarrow> uuid \<Rightarrow> RouteState \<Rightarrow> bool" where
  "exists_route org led u s \<longleftrightarrow> (\<exists>tr \<in> set (rt_transactions s). active_transaction org led u tr)"

text \<open>What the cached form of a route is made of, and the routes that a transaction route is linked to.\<close>

definition route_view :: "OperationRoute \<Rightarrow> uuid \<times> OperationRouteCache" where
  "route_view r = (orr_ID r, route_cache_of r)"

definition row_view :: "OperationRouteRow \<Rightarrow> uuid \<times> OperationRouteCache" where
  "row_view row = route_view (OperationRoute_ToEntity row)"

definition current_views :: "uuid \<Rightarrow> RouteState \<Rightarrow> (uuid \<times> OperationRouteCache) set" where
  "current_views u s = row_view ` {row \<in> set (rt_operations s). row_DeletedAt row = None \<and> linked u (row_ID row) s}"

definition built :: "extlib \<Rightarrow> uuid \<Rightarrow> RouteState \<Rightarrow> TransactionRouteCache \<Rightarrow> bool" where
  "built lib u s c \<longleftrightarrow>
     (\<exists>rs. distinct (map orr_ID rs) \<and> route_view ` set rs = current_views u s \<and> c = fold (cache_route lib) rs [])"

text \<open>Keys are unique and not nil, and a link that is not removed joins two routes of one ledger that are not deleted.\<close>

definition tables_linked :: "RouteState \<Rightarrow> bool" where
  "tables_linked s \<longleftrightarrow>
     distinct (map row_ID (rt_operations s)) \<and> (\<forall>row \<in> set (rt_operations s). row_ID row \<noteq> uuid_Nil) \<and> distinct (map trw_ID (rt_transactions s)) \<and>
     (\<forall>u i. linked u i s \<longrightarrow>
        (\<exists>row \<in> set (rt_operations s). \<exists>org led. row_ID row = i \<and> active_operation org led row \<and> exists_route org led u s))"

definition entry_current :: "extlib \<Rightarrow> uuid \<Rightarrow> uuid \<Rightarrow> uuid \<Rightarrow> RouteState \<Rightarrow> TransactionRouteCache option \<Rightarrow> bool" where
  "entry_current lib org led u s v \<longleftrightarrow>
     (case v of None \<Rightarrow> \<not> exists_route org led u s | Some c \<Rightarrow> exists_route org led u s \<and> built lib u s c)"

definition cache_current :: "extlib \<Rightarrow> RouteState \<Rightarrow> bool" where
  "cache_current lib s \<longleftrightarrow> (\<forall>org led u v. rt_cache s (org, led, u) = Some v \<longrightarrow> entry_current lib org led u s v)"

definition routes_ok :: "extlib \<Rightarrow> RouteState \<Rightarrow> bool" where
  "routes_ok lib s \<longleftrightarrow> tables_linked s \<and> cache_current lib s"

lemma row_unique: "tables_linked s \<Longrightarrow> row \<in> set (rt_operations s) \<Longrightarrow> row' \<in> set (rt_operations s) \<Longrightarrow> row_ID row = row_ID row' \<Longrightarrow> row = row'"
  by (auto simp: tables_linked_def dest: inj_on_eq_iff [OF distinct_map [THEN iffD1, THEN conjunct2]])

lemma route_unique:
  "tables_linked s \<Longrightarrow> exists_route org led u s \<Longrightarrow> exists_route org' led' u s \<Longrightarrow> org' = org \<and> led' = led"
  unfolding exists_route_def active_transaction_def tables_linked_def
  by (metis distinct_map inj_on_eq_iff)

section \<open>Reading a transaction route\<close>

lemma first_by_distinct: "distinct (map f (first_by f met xs)) \<and> f ` set (first_by f met xs) = f ` set xs - set met \<and> set (first_by f met xs) \<subseteq> set xs"
  by (induction f met xs rule: first_by.induct) auto

lemma linked_row_iff:
  assumes "tables_linked s"
  shows "linked_row s l = Some row \<longleftrightarrow> row \<in> set (rt_operations s) \<and> row_ID row = lk_OperationRouteID l \<and> row_DeletedAt row = None"
proof
  show "linked_row s l = Some row \<Longrightarrow> row \<in> set (rt_operations s) \<and> row_ID row = lk_OperationRouteID l \<and> row_DeletedAt row = None"
    by (auto simp: linked_row_def find_Some_iff)
next
  assume r: "row \<in> set (rt_operations s) \<and> row_ID row = lk_OperationRouteID l \<and> row_DeletedAt row = None"
  then obtain row' where "linked_row s l = Some row'" by (cases "linked_row s l") (auto simp: linked_row_def find_None_iff)
  moreover from this r row_unique [OF assms, of row' row] have "row' = row" by (auto simp: linked_row_def find_Some_iff)
  ultimately show "linked_row s l = Some row" by simp
qed

lemma active_links_linked: "l \<in> set (active_links u s) \<Longrightarrow> linked u (lk_OperationRouteID l) s"
  by (auto simp: active_links_def linked_def)

lemma linked_active_link: "linked u i s \<Longrightarrow> \<exists>l \<in> set (active_links u s). lk_OperationRouteID l = i"
  by (auto simp: active_links_def linked_def)

definition joined_rows :: "uuid \<Rightarrow> RouteState \<Rightarrow> OperationRouteRow list" where
  "joined_rows u s = first_by row_ID [uuid_Nil] (sort_key row_CreatedAt (List.map_filter (linked_row s) (active_links u s)))"

lemma set_joined_rows:
  assumes "tables_linked s"
  shows "set (joined_rows u s) = {row \<in> set (rt_operations s). row_DeletedAt row = None \<and> linked u (row_ID row) s}"
proof -
  let ?m = "List.map_filter (linked_row s) (active_links u s)"
  have m: "set ?m = {row \<in> set (rt_operations s). row_DeletedAt row = None \<and> linked u (row_ID row) s}"
    using linked_row_iff [OF assms] active_links_linked linked_active_link
    by (auto simp: map_filter_def image_iff) (metis option.sel option.distinct(1))+
  have fb: "set (joined_rows u s) \<subseteq> set ?m" "row_ID ` set (joined_rows u s) = row_ID ` set ?m"
    using first_by_distinct [of row_ID "[uuid_Nil]" "sort_key row_CreatedAt ?m"] m assms by (auto simp: joined_rows_def tables_linked_def)
  have "set ?m \<subseteq> set (joined_rows u s)"
  proof
    fix row assume r: "row \<in> set ?m"
    with fb(2) obtain row' where r': "row' \<in> set (joined_rows u s)" "row_ID row' = row_ID row" by (metis (no_types, lifting) imageE imageI)
    with fb(1) m r row_unique [OF assms, of row' row] show "row \<in> set (joined_rows u s)" by auto
  qed
  with fb(1) m show ?thesis by auto
qed

lemma entity_ID [simp]: "orr_ID (OperationRoute_ToEntity row) = row_ID row"
  by (simp add: OperationRoute_ToEntity_def)

lemma built_ToCache:
  assumes "distinct (map row_ID rows)" "set rows = {row \<in> set (rt_operations s). row_DeletedAt row = None \<and> linked u (row_ID row) s}"
    "trr_OperationRoutes t = map OperationRoute_ToEntity rows"
  shows "built lib u s (TransactionRoute_ToCache lib t)"
  unfolding built_def TransactionRoute_ToCache_def
  using assms by (intro exI [of _ "trr_OperationRoutes t"]) (simp add: current_views_def row_view_def image_image comp_def)

lemma found_route:
  assumes "tables_linked s" "TransactionRouteRepo_FindByID env org led u s = Inr t"
  shows "exists_route org led u s \<and> built lib u s (TransactionRoute_ToCache lib t) \<and> trr_OrganizationID t = org \<and> trr_LedgerID t = led \<and> trr_ID t = u \<and>
    orr_ID ` set (trr_OperationRoutes t) = {i. linked u i s}"
proof -
  obtain tr rest where f: "filter (active_transaction org led u) (rt_transactions s) = tr # rest"
      and t: "t = (TransactionRoute_ToEntity tr)\<lparr>trr_OperationRoutes := map OperationRoute_ToEntity (joined_rows u s)\<rparr>"
    using assms(2) by (auto simp: TransactionRouteRepo_FindByID_def Let_def joined_rows_def split: option.splits list.splits if_splits)
  have tr: "tr \<in> set (rt_transactions s)" "active_transaction org led u tr" using f by (metis filter_eq_ConsD in_set_conv_decomp)+
  have "row_ID ` set (joined_rows u s) = {i. linked u i s}"
    unfolding set_joined_rows [OF assms(1)] using assms(1) by (force simp: tables_linked_def active_operation_def)
  moreover have "built lib u s (TransactionRoute_ToCache lib t)"
    by (rule built_ToCache [where rows = "joined_rows u s", OF _ set_joined_rows [OF assms(1)]])
      (simp_all add: joined_rows_def t first_by_distinct)
  ultimately show ?thesis using tr by (auto simp: exists_route_def t active_transaction_def TransactionRoute_ToEntity_def image_image)
qed

lemma finds_linked:
  assumes "tables_linked s" "linked u i s" "exists_route org led u s" "re_db env = None"
  shows "\<exists>t. TransactionRouteRepo_FindByID env org led u s = Inr t"
proof -
  have links: "active_links u s \<noteq> []" using linked_active_link [OF assms(2)] by auto
  have rows: "linked_row s l \<noteq> None" if "l \<in> set (active_links u s)" for l
    using active_links_linked [OF that] assms(1) linked_row_iff [OF assms(1), of l]
    by (force simp: tables_linked_def active_operation_def)
  obtain tr rest where "filter (active_transaction org led u) (rt_transactions s) = tr # rest"
    using assms(3) by (cases "filter (active_transaction org led u) (rt_transactions s)") (auto simp: exists_route_def filter_empty_conv)
  with links rows assms(4) show ?thesis by (auto simp: TransactionRouteRepo_FindByID_def Let_def)
qed

section \<open>What a change keeps\<close>

text \<open>Links, routes and views look at some of the tables only.\<close>

lemma linked_parts [simp]:
  "linked u i (s\<lparr>rt_store := st\<rparr>) = linked u i s" "linked u i (s\<lparr>rt_cache := c\<rparr>) = linked u i s"
  "linked u i (s\<lparr>rt_operations := ops\<rparr>) = linked u i s" "linked u i (s\<lparr>rt_transactions := trs\<rparr>) = linked u i s"
  by (simp_all add: linked_def)

lemma exists_route_parts [simp]:
  "exists_route org led u (s\<lparr>rt_store := st\<rparr>) = exists_route org led u s" "exists_route org led u (s\<lparr>rt_cache := c\<rparr>) = exists_route org led u s"
  "exists_route org led u (s\<lparr>rt_operations := ops\<rparr>) = exists_route org led u s" "exists_route org led u (s\<lparr>rt_links := ls\<rparr>) = exists_route org led u s"
  by (simp_all add: exists_route_def)

lemma current_views_parts [simp]:
  "current_views u (s\<lparr>rt_store := st\<rparr>) = current_views u s" "current_views u (s\<lparr>rt_cache := c\<rparr>) = current_views u s"
  "current_views u (s\<lparr>rt_transactions := trs\<rparr>) = current_views u s"
  by (simp_all add: current_views_def)

lemma tables_linked_parts [simp]:
  "tables_linked (s\<lparr>rt_store := st\<rparr>) = tables_linked s" "tables_linked (s\<lparr>rt_cache := c\<rparr>) = tables_linked s"
  by (simp_all add: tables_linked_def)

lemma entry_current_parts [simp]:
  "entry_current lib org led u (s\<lparr>rt_store := st\<rparr>) = entry_current lib org led u s" "entry_current lib org led u (s\<lparr>rt_cache := c\<rparr>) = entry_current lib org led u s"
  by (simp_all add: entry_current_def built_def fun_eq_iff split: option.split)

lemma routes_ok_store [simp]: "routes_ok lib (s\<lparr>rt_store := st\<rparr>) = routes_ok lib s"
  by (simp add: routes_ok_def cache_current_def)

lemma routes_ok_changed:
  assumes "routes_ok lib s" "tables_linked s'"
    and "\<And>org led u v. rt_cache s' (org, led, u) = Some v \<Longrightarrow>
      rt_cache s (org, led, u) = Some v \<and> exists_route org led u s' = exists_route org led u s \<and> current_views u s' = current_views u s \<or>
      entry_current lib org led u s' v"
  shows "routes_ok lib s'"
proof -
  have "entry_current lib org led u s' v" if "rt_cache s' (org, led, u) = Some v" for org led u v
    using assms(3) [OF that]
  proof (elim disjE conjE)
    assume same: "rt_cache s (org, led, u) = Some v" "exists_route org led u s' = exists_route org led u s" "current_views u s' = current_views u s"
    with assms(1) have "entry_current lib org led u s v" by (simp add: routes_ok_def cache_current_def)
    with same show ?thesis by (simp add: entry_current_def built_def split: option.splits)
  qed
  with assms(2) show ?thesis by (simp add: routes_ok_def cache_current_def)
qed

lemma set_entry_current:
  "routes_ok lib s \<Longrightarrow> entry_current lib org led u s v \<Longrightarrow> routes_ok lib (s\<lparr>rt_cache := (rt_cache s)((org, led, u) \<mapsto> v)\<rparr>)"
  by (rule routes_ok_changed [where s = s]) (auto simp: routes_ok_def split: if_splits)

lemma entry_current_Some: "exists_route org led u s \<Longrightarrow> built lib u s c \<Longrightarrow> entry_current lib org led u s (Some c)"
  by (simp add: entry_current_def)

lemma entry_current_None: "entry_current lib org led u s None \<longleftrightarrow> \<not> exists_route org led u s"
  by (simp add: entry_current_def)

lemma foreign_entry: "routes_ok lib s \<Longrightarrow> \<not> exists_route org led u s \<Longrightarrow> rt_cache s (org, led, u) = Some v \<Longrightarrow> v = None"
  unfolding routes_ok_def cache_current_def entry_current_def by (cases v) force+

lemma linked_has_row:
  assumes "tables_linked s" "linked u i s"
  obtains row org led where "row \<in> set (rt_operations s)" "row_ID row = i" "active_operation org led row" "exists_route org led u s"
  using assms unfolding tables_linked_def by blast

lemma map_operations_linked:
  assumes "tables_linked s"
    and ids: "\<And>row. row_ID (f row) = row_ID row"
    and live: "\<And>row u. row \<in> set (rt_operations s) \<Longrightarrow> linked u (row_ID row) s \<Longrightarrow>
      row_OrganizationID (f row) = row_OrganizationID row \<and> row_LedgerID (f row) = row_LedgerID row \<and> row_DeletedAt (f row) = row_DeletedAt row"
  shows "tables_linked (s\<lparr>rt_operations := map f (rt_operations s)\<rparr>)"
proof -
  have "\<exists>row \<in> set (map f (rt_operations s)). \<exists>org led. row_ID row = i \<and> active_operation org led row \<and> exists_route org led u s"
    if l: "linked u i s" for u i
  proof -
    obtain row org led where r: "row \<in> set (rt_operations s)" "row_ID row = i" "active_operation org led row" "exists_route org led u s"
      by (rule linked_has_row [OF assms(1) l])
    with live [OF r(1)] l ids show ?thesis by (force simp: active_operation_def)
  qed
  moreover have "row_ID \<circ> f = row_ID" "\<forall>row \<in> set (map f (rt_operations s)). row_ID row \<noteq> uuid_Nil"
    using ids assms(1) by (auto simp: tables_linked_def)
  ultimately show ?thesis using assms(1) by (simp add: tables_linked_def del: set_map)
qed

lemma map_operations_views:
  assumes "\<And>row. row_ID (f row) = row_ID row"
    and "\<And>row. row \<in> set (rt_operations s) \<Longrightarrow> linked u (row_ID row) s \<Longrightarrow> row_DeletedAt (f row) = row_DeletedAt row \<and> row_view (f row) = row_view row"
  shows "current_views u (s\<lparr>rt_operations := map f (rt_operations s)\<rparr>) = current_views u s"
proof -
  have "{row \<in> f ` set (rt_operations s). row_DeletedAt row = None \<and> linked u (row_ID row) s} =
      f ` {row \<in> set (rt_operations s). row_DeletedAt row = None \<and> linked u (row_ID row) s}"
    using assms by auto
  then show ?thesis using assms(2) by (simp add: current_views_def image_image)
qed

section \<open>Requests on operation routes\<close>

definition env_works :: "extlib \<Rightarrow> RouteEnv \<Rightarrow> bool" where
  "env_works lib env \<longleftrightarrow> re_lib env = lib \<and> re_newID env \<noteq> uuid_Nil \<and> re_db env = None \<and> re_set env = None \<and> re_del env = None \<and> (\<forall>i. f_metadata (re_faults env) i = None)"

lemma route_metadata_works:
  assumes "env_works lib env"
  shows "\<exists>st. route_metadata env entity i m s = (s\<lparr>rt_store := st\<rparr>, None)"
proof (cases m)
  case None
  then show ?thesis by (intro exI [of _ "rt_store s"]) (simp add: route_metadata_def)
next
  case (Some x)
  with assms show ?thesis by (auto simp: route_metadata_def env_works_def)
qed

lemma update_route_metadata_works:
  "env_works lib env \<Longrightarrow> \<exists>st. update_route_metadata env entity i m s = (s\<lparr>rt_store := st\<rparr>, None)"
  by (auto simp: update_route_metadata_def UpdateTransactionMetadata_def env_works_def Let_def split: prod.splits sum.splits)

lemma add_operation_ok:
  assumes "routes_ok lib s" "row_ID row \<notin> row_ID ` set (rt_operations s)" "row_ID row \<noteq> uuid_Nil"
  shows "routes_ok lib (s\<lparr>rt_operations := rt_operations s @ [row]\<rparr>)"
proof (rule routes_ok_changed [OF assms(1)])
  have t: "tables_linked s" using assms(1) by (simp add: routes_ok_def)
  have new: "\<not> linked u (row_ID row) s" for u using linked_has_row [OF t, of u "row_ID row"] assms(2) by (metis imageI)
  show "tables_linked (s\<lparr>rt_operations := rt_operations s @ [row]\<rparr>)"
    using t assms(2,3) by (auto simp: tables_linked_def)
  have "{r \<in> set (rt_operations s @ [row]). row_DeletedAt r = None \<and> linked u (row_ID r) s} =
      {r \<in> set (rt_operations s). row_DeletedAt r = None \<and> linked u (row_ID r) s}" for u
    using new by auto
  then show "rt_cache s (org, led, u) = Some v \<and>
      exists_route org led u (s\<lparr>rt_operations := rt_operations s @ [row]\<rparr>) = exists_route org led u s \<and>
      current_views u (s\<lparr>rt_operations := rt_operations s @ [row]\<rparr>) = current_views u s \<or>
      entry_current lib org led u (s\<lparr>rt_operations := rt_operations s @ [row]\<rparr>) v"
    if "rt_cache (s\<lparr>rt_operations := rt_operations s @ [row]\<rparr>) (org, led, u) = Some v" for org led u v
    using that by (simp add: current_views_def)
qed

lemma createOperationRoute_ok:
  assumes "routes_ok lib s" "env_works lib env"
  shows "routes_ok lib (fst (createOperationRoute env org led payload raw s))"
proof -
  let ?route = "\<lparr>orr_ID = re_newID env, orr_OrganizationID = org, orr_LedgerID = led, orr_Title = coi_Title payload,
             orr_Description = coi_Description payload, orr_Code = coi_Code payload, orr_OperationType = coi_OperationType payload,
             orr_AccountingEntries = coi_AccountingEntries payload, orr_Account = coi_Account payload, orr_CreatedAt = re_now env,
             orr_UpdatedAt = re_now env, orr_DeletedAt = None\<rparr>"
  have "routes_ok lib (fst (CreateOperationRoute env org led payload s))"
  proof (cases "\<exists>row \<in> set (rt_operations s). row_ID row = re_newID env")
    case True
    with assms show ?thesis by (simp add: CreateOperationRoute_def OperationRouteRepo_Create_def env_works_def Let_def)
  next
    case False
    let ?s = "s\<lparr>rt_operations := rt_operations s @ [OperationRoute_FromEntity ?route]\<rparr>"
    have ok: "routes_ok lib ?s"
      by (rule add_operation_ok [OF assms(1)]) (use False assms(2) in \<open>auto simp: OperationRoute_FromEntity_def env_works_def\<close>)
    obtain st where "route_metadata env ''OperationRoute'' (uuid_String (re_lib env) (re_newID env)) (coi_Metadata payload) ?s = (?s\<lparr>rt_store := st\<rparr>, None)"
      using route_metadata_works [OF assms(2)] by blast
    with ok False assms(2) show ?thesis
      by (simp add: CreateOperationRoute_def OperationRouteRepo_Create_def env_works_def Let_def OperationRoute_FromEntity_def)
  qed
  with assms(1) show ?thesis by (simp add: createOperationRoute_def split: option.split)
qed

lemma DeleteOperationRouteByID_ok:
  assumes "routes_ok lib s" "env_works lib env"
  shows "routes_ok lib (fst (DeleteOperationRouteByID env org led i s))"
proof -
  let ?hit = "\<lambda>row. active_operation org led row \<and> row_ID row = i"
  let ?f = "\<lambda>row. if ?hit row then row\<lparr>row_DeletedAt := Some (re_now env)\<rparr> else row"
  have t: "tables_linked s" using assms(1) by (simp add: routes_ok_def)
  show ?thesis
  proof (cases "(\<exists>row \<in> set (rt_operations s). ?hit row) \<and> \<not> (\<exists>l \<in> set (rt_links s). lk_OperationRouteID l = i \<and> lk_DeletedAt l = None)")
    case False
    with assms show ?thesis
      by (auto simp: DeleteOperationRouteByID_def HasTransactionRouteLinks_def OperationRouteRepo_Delete_def env_works_def Let_def split: bool.splits)
  next
    case True
    then have free: "\<not> linked u i s" for u by (auto simp: linked_def)
    have "routes_ok lib (s\<lparr>rt_operations := map ?f (rt_operations s)\<rparr>)"
    proof (rule routes_ok_changed [OF assms(1)])
      show "tables_linked (s\<lparr>rt_operations := map ?f (rt_operations s)\<rparr>)"
        by (rule map_operations_linked [OF t]) (use free in auto)
      have "current_views u (s\<lparr>rt_operations := map ?f (rt_operations s)\<rparr>) = current_views u s" for u
        by (rule map_operations_views) (use free in auto)
      then show "rt_cache s (org', led', u) = Some v \<and>
          exists_route org' led' u (s\<lparr>rt_operations := map ?f (rt_operations s)\<rparr>) = exists_route org' led' u s \<and>
          current_views u (s\<lparr>rt_operations := map ?f (rt_operations s)\<rparr>) = current_views u s \<or>
          entry_current lib org' led' u (s\<lparr>rt_operations := map ?f (rt_operations s)\<rparr>) v"
        if "rt_cache (s\<lparr>rt_operations := map ?f (rt_operations s)\<rparr>) (org', led', u) = Some v" for org' led' u v
        using that by simp
    qed
    with True assms show ?thesis
      by (auto simp: DeleteOperationRouteByID_def HasTransactionRouteLinks_def OperationRouteRepo_Delete_def env_works_def Let_def split: bool.splits)
  qed
qed

lemma reload_all:
  assumes "env_works lib env" "tables_linked s" "\<forall>u \<in> set us. linked u i s \<and> exists_route org led u s"
  shows "\<exists>c. fold (reload_one env org led) us s = s\<lparr>rt_cache := c\<rparr> \<and>
    (\<forall>u \<in> set us. \<exists>x. c (org, led, u) = Some (Some x) \<and> built lib u s x) \<and>
    (\<forall>k. k \<notin> (\<lambda>u. (org, led, u)) ` set us \<longrightarrow> c k = rt_cache s k)"
  using assms(2,3)
proof (induction us arbitrary: s)
  case Nil
  show ?case by (intro exI [of _ "rt_cache s"]) simp
next
  case (Cons u us)
  obtain t where t: "TransactionRouteRepo_FindByID env org led u s = Inr t"
    using finds_linked [OF Cons.prems(1), of u i org led env] Cons.prems(2) assms(1) by (auto simp: env_works_def)
  let ?x = "TransactionRoute_ToCache lib t"
  let ?s = "s\<lparr>rt_cache := (rt_cache s)((org, led, u) \<mapsto> Some ?x)\<rparr>"
  note found = found_route [OF Cons.prems(1) t, where lib = lib]
  then have one: "reload_one env org led u s = ?s"
    using t assms(1) by (auto simp: reload_one_def CreateAccountingRouteCache_def SetBytes_def env_works_def)
  have same: "built lib u' ?s x = built lib u' s x" for u' x by (simp add: built_def)
  obtain c where c: "fold (reload_one env org led) us ?s = ?s\<lparr>rt_cache := c\<rparr>"
      "\<forall>u \<in> set us. \<exists>x. c (org, led, u) = Some (Some x) \<and> built lib u s x"
      "\<forall>k. k \<notin> (\<lambda>u. (org, led, u)) ` set us \<longrightarrow> c k = rt_cache ?s k"
    using Cons.IH [of ?s] Cons.prems unfolding same by auto
  have "\<exists>x. c (org, led, u) = Some (Some x) \<and> built lib u s x"
  proof (cases "u \<in> set us")
    case False
    then have "c (org, led, u) = Some (Some ?x)" using c(3) [rule_format, of "(org, led, u)"] by auto
    with found show ?thesis by blast
  qed (use c(2) in blast)
  with c show ?case by (intro exI [of _ c]) (auto simp: one)
qed

lemma hit_route:
  assumes "tables_linked s" "row \<in> set (rt_operations s)" "active_operation org led row" "linked u (row_ID row) s"
  shows "exists_route org led u s"
proof (rule linked_has_row [OF assms(1,4)])
  fix row' org' led'
  assume "row' \<in> set (rt_operations s)" "row_ID row' = row_ID row" "active_operation org' led' row'" "exists_route org' led' u s"
  with row_unique [OF assms(1,2)] assms(3) show ?thesis by (metis active_operation_def)
qed

lemma updated_keeps [simp]:
  "row_ID (updated_operation env route raw row) = row_ID row" "row_OrganizationID (updated_operation env route raw row) = row_OrganizationID row"
  "row_LedgerID (updated_operation env route raw row) = row_LedgerID row" "row_DeletedAt (updated_operation env route raw row) = row_DeletedAt row"
  by (simp_all add: updated_operation_def Let_def)

text \<open>An update that leaves alone what the cache holds: only the title (and the metadata) may change.\<close>

definition title_only :: "UpdateOperationRouteInput \<Rightarrow> bool" where
  "title_only input \<longleftrightarrow> uoi_Description input = '''' \<and> uoi_Code input = '''' \<and> uoi_AccountingEntries input = None \<and> uoi_Account input = None"

definition update_route_of :: "UpdateOperationRouteInput \<Rightarrow> OperationRoute" where
  "update_route_of input =
     \<lparr>orr_ID = uuid_Nil, orr_OrganizationID = uuid_Nil, orr_LedgerID = uuid_Nil, orr_Title = uoi_Title input,
      orr_Description = uoi_Description input, orr_Code = uoi_Code input, orr_OperationType = '''',
      orr_AccountingEntries = uoi_AccountingEntries input, orr_Account = uoi_Account input, orr_CreatedAt = 0,
      orr_UpdatedAt = 0, orr_DeletedAt = None\<rparr>"

lemma title_only_view:
  "title_only input \<Longrightarrow> row_view (updated_operation env (update_route_of input) None row) = row_view row"
  by (simp add: title_only_def updated_operation_def update_route_of_def Let_def row_view_def route_view_def route_cache_of_def OperationRoute_ToEntity_def)

definition apply_update :: "RouteEnv \<Rightarrow> uuid \<Rightarrow> uuid \<Rightarrow> uuid \<Rightarrow> OperationRoute \<Rightarrow> (string, AccountingEntry option) gomap option \<Rightarrow>
    OperationRouteRow \<Rightarrow> OperationRouteRow" where
  "apply_update env org led i route raw row = (if active_operation org led row \<and> row_ID row = i then updated_operation env route raw row else row)"

lemma apply_update_keeps [simp]:
  "row_ID (apply_update env org led i route raw row) = row_ID row" "row_OrganizationID (apply_update env org led i route raw row) = row_OrganizationID row"
  "row_LedgerID (apply_update env org led i route raw row) = row_LedgerID row" "row_DeletedAt (apply_update env org led i route raw row) = row_DeletedAt row"
  by (simp_all add: apply_update_def)

lemma UpdateOperationRoute_works:
  assumes "env_works lib env"
  shows "(\<exists>e. UpdateOperationRoute env org led i input s = (s, Inl e)) \<or>
    (\<exists>row st r. row \<in> set (rt_operations s) \<and> active_operation org led row \<and> row_ID row = i \<and>
      UpdateOperationRoute env org led i input s =
        (s\<lparr>rt_operations := map (apply_update env org led i (update_route_of input) (uoi_AccountingEntriesRaw input)) (rt_operations s), rt_store := st\<rparr>, Inr r))"
proof -
  let ?f = "apply_update env org led i (update_route_of input) (uoi_AccountingEntriesRaw input)"
  let ?hit = "\<lambda>row. active_operation org led row \<and> row_ID row = i"
  let ?s = "s\<lparr>rt_operations := map ?f (rt_operations s)\<rparr>"
  have repo: "OperationRouteRepo_Update env org led i (update_route_of input) (uoi_AccountingEntriesRaw input) s =
      (case filter ?hit (map ?f (rt_operations s)) of [] \<Rightarrow> (s, Inl ErrDatabaseItemNotFound) | row # _ \<Rightarrow> (?s, Inr (OperationRoute_ToEntity row)))"
    using assms unfolding apply_update_def [abs_def] by (simp add: OperationRouteRepo_Update_def env_works_def Let_def)
  show ?thesis
  proof (cases "filter ?hit (map ?f (rt_operations s))")
    case Nil
    then show ?thesis using repo by (simp add: UpdateOperationRoute_def update_route_of_def [symmetric] Let_def)
  next
    case (Cons row rest)
    then have "row \<in> set (filter ?hit (map ?f (rt_operations s)))" by simp
    then obtain row0 where "row0 \<in> set (rt_operations s)" "active_operation org led row0" "row_ID row0 = i"
      by (auto simp: active_operation_def)
    moreover obtain st where
      "update_route_metadata env ''OperationRoute'' (uuid_String (re_lib env) i) (uoi_Metadata input) ?s = (?s\<lparr>rt_store := st\<rparr>, None)"
      using update_route_metadata_works [OF assms] by blast
    ultimately show ?thesis
      using repo Cons by (simp add: UpdateOperationRoute_def update_route_of_def [symmetric] Let_def) blast
  qed
qed

lemma reload_repairs:
  assumes ok: "routes_ok lib s" and env: "env_works lib env" and t': "tables_linked s'"
    and same: "rt_cache s' = rt_cache s" "\<And>o' l u. exists_route o' l u s' = exists_route o' l u s" "\<And>u. \<not> linked u i s' \<Longrightarrow> current_views u s' = current_views u s"
    and here: "\<And>u. linked u i s' \<Longrightarrow> exists_route org led u s'"
  shows "routes_ok lib (fst (ReloadOperationRouteCache env org led i s'))"
proof -
  have t: "tables_linked s" using ok by (simp add: routes_ok_def)
  obtain us where us: "FindTransactionRouteIDs env i s' = Inr us" "set us = {u. linked u i s'}"
    using env by (auto simp: FindTransactionRouteIDs_def env_works_def linked_def)
  have "\<forall>u \<in> set us. linked u i s' \<and> exists_route org led u s'" using us(2) here by simp
  from reload_all [OF env t' this] obtain c
    where c: "fold (reload_one env org led) us s' = s'\<lparr>rt_cache := c\<rparr>"
      "\<forall>u \<in> set us. \<exists>x. c (org, led, u) = Some (Some x) \<and> built lib u s' x"
      "\<forall>k. k \<notin> (\<lambda>u. (org, led, u)) ` set us \<longrightarrow> c k = rt_cache s' k"
    by blast
  have "routes_ok lib (s'\<lparr>rt_cache := c\<rparr>)"
  proof (rule routes_ok_changed [OF ok])
    show "tables_linked (s'\<lparr>rt_cache := c\<rparr>)" using t' by simp
  next
    fix org' led' u v
    assume "rt_cache (s'\<lparr>rt_cache := c\<rparr>) (org', led', u) = Some v"
    then have v: "c (org', led', u) = Some v" by simp
    consider (reloaded) "u \<in> set us" "org' = org" "led' = led" | (elsewhere) "u \<in> set us" "(org', led') \<noteq> (org, led)" | (other) "u \<notin> set us" by auto
    then show "rt_cache s (org', led', u) = Some v \<and> exists_route org' led' u (s'\<lparr>rt_cache := c\<rparr>) = exists_route org' led' u s \<and>
        current_views u (s'\<lparr>rt_cache := c\<rparr>) = current_views u s \<or> entry_current lib org' led' u (s'\<lparr>rt_cache := c\<rparr>) v"
    proof cases
      case reloaded
      with c(2) v obtain x where "v = Some x" "built lib u s' x" by force
      with reloaded us(2) here show ?thesis by (simp add: entry_current_def)
    next
      case elsewhere
      then have "exists_route org led u s" using us(2) here same(2) by simp
      from route_unique [OF t this] elsewhere have no: "\<not> exists_route org' led' u s" by blast
      have "(org', led', u) \<notin> (\<lambda>u. (org, led, u)) ` set us" using elsewhere by auto
      with c(3) v same(1) have "rt_cache s (org', led', u) = Some v" by simp
      with foreign_entry [OF ok no] have "v = None" by simp
      with no same(2) show ?thesis by (simp add: entry_current_def)
    next
      case other
      then have "(org', led', u) \<notin> (\<lambda>u. (org, led, u)) ` set us" by auto
      with c(3) v same(1) have "rt_cache s (org', led', u) = Some v" by simp
      with other us(2) same(2,3) show ?thesis by simp
    qed
  qed
  with us(1) c(1) show ?thesis by (simp add: ReloadOperationRouteCache_def)
qed

lemma updateOperationRoute_ok:
  assumes ok: "routes_ok lib s" and env: "env_works lib env" and kind: "uoi_Account input \<noteq> None \<or> title_only input"
  shows "routes_ok lib (fst (updateOperationRoute env org led i input raw s))"
proof -
  define inp where "inp = input\<lparr>uoi_AccountingEntriesRaw := (if uoi_AccountingEntries input \<noteq> None then raw else None)\<rparr>"
  define f where "f = apply_update env org led i (update_route_of inp) (uoi_AccountingEntriesRaw inp)"
  let ?ops = "s\<lparr>rt_operations := map f (rt_operations s)\<rparr>"
  have t: "tables_linked s" using ok by (simp add: routes_ok_def)
  have t': "tables_linked ?ops" by (rule map_operations_linked [OF t]) (simp_all add: f_def)
  have view: "row_view (f row) = row_view row" if "title_only input" for row
    using that title_only_view [of inp env row] by (simp add: f_def apply_update_def title_only_def inp_def)
  have others: "current_views u ?ops = current_views u s" if "\<not> linked u i s \<or> title_only input" for u
  proof (rule map_operations_views)
    fix row assume "row \<in> set (rt_operations s)" "linked u (row_ID row) s"
    with that view [of row] show "row_DeletedAt (f row) = row_DeletedAt row \<and> row_view (f row) = row_view row"
      by (auto simp: f_def apply_update_def)
  qed (simp add: f_def)
  have untouched: "routes_ok lib ?ops" if "title_only input"
    by (rule routes_ok_changed [OF ok t']) (use others that in simp)
  have handler: "updateOperationRoute env org led i input raw s =
      (case first_err [validateAccountRule (uoi_Account inp), validateAccountingEntries (uoi_AccountingEntries inp),
               unknown_entries (uoi_AccountingEntries inp) raw, check_patch env org led i inp s] of
         Some e \<Rightarrow> (s, Inl e)
       | None \<Rightarrow> (case UpdateOperationRoute env org led i inp s of
             (s, Inl e) \<Rightarrow> (s, Inl e)
           | (s, Inr route) \<Rightarrow> (if uoi_Account inp \<noteq> None then fst (ReloadOperationRouteCache env org led i s) else s, Inr route)))"
    unfolding updateOperationRoute_def Let_def inp_def by (rule refl)
  have kind': "uoi_Account inp \<noteq> None \<or> title_only input" using kind by (simp add: inp_def)
  from UpdateOperationRoute_works [OF env, of org led i inp s] consider
      (failed) e where "UpdateOperationRoute env org led i inp s = (s, Inl e)"
    | (changed) row st r where "row \<in> set (rt_operations s)" "active_operation org led row" "row_ID row = i"
        "UpdateOperationRoute env org led i inp s = (?ops\<lparr>rt_store := st\<rparr>, Inr r)"
    unfolding f_def [symmetric] by blast
  then show ?thesis
  proof cases
    case failed
    with ok show ?thesis unfolding handler by (simp split: option.split)
  next
    case changed
    have "routes_ok lib (fst (ReloadOperationRouteCache env org led i (?ops\<lparr>rt_store := st\<rparr>)))"
      by (rule reload_repairs [OF ok env]) (use t' others hit_route [OF t changed(1,2)] changed(3) in simp_all)
    with changed(4) ok untouched kind' show ?thesis unfolding handler by (auto split: option.split)
  qed
qed

section \<open>Requests on transaction routes\<close>

lemma GetOrCreate_ok:
  assumes ok: "routes_ok lib s" and env: "env_works lib env"
  shows "routes_ok lib (fst (GetOrCreateTransactionRouteCache env org led u s))"
proof -
  have t: "tables_linked s" using ok by (simp add: routes_ok_def)
  have "routes_ok lib (fst (SetBytes env (org, led, u) (Some (TransactionRoute_ToCache (re_lib env) route)) s))"
    if "TransactionRouteRepo_FindByID env org led u s = Inr route" for route
    using found_route [OF t that, of lib] set_entry_current [OF ok, of org led u] env by (simp add: SetBytes_def env_works_def entry_current_def)
  moreover have "routes_ok lib (fst (SetBytes env (org, led, u) None s))"
    if "TransactionRouteRepo_FindByID env org led u s = Inl e" "e = ErrDatabaseItemNotFound \<or> e = Business ErrTransactionRouteNotFound" for e
  proof -
    have "\<not> exists_route org led u s"
      using that env unfolding TransactionRouteRepo_FindByID_def env_works_def Let_def exists_route_def ErrDatabaseItemNotFound_def
      by (auto simp: filter_empty_conv split: list.splits if_splits)
    then show ?thesis using set_entry_current [OF ok, of org led u None] env by (simp add: SetBytes_def env_works_def entry_current_def)
  qed
  ultimately show ?thesis using ok unfolding GetOrCreateTransactionRouteCache_def Let_def
    by (force split: option.split sum.split prod.split if_splits)
qed

lemma FindByIDs_found:
  assumes "tables_linked s" "env_works lib env" "OperationRouteRepo_FindByIDs env org led ids s = Inr rs"
  obtains rows where "rs = map OperationRoute_ToEntity rows" "distinct (map row_ID rows)"
    "set rows = {row \<in> set (rt_operations s). active_operation org led row \<and> row_ID row \<in> set ids}" "row_ID ` set rows = set ids"
proof (rule that)
  let ?rows = "filter (\<lambda>row. active_operation org led row \<and> row_ID row \<in> set ids) (rt_operations s)"
  show "rs = map OperationRoute_ToEntity ?rows" "row_ID ` set ?rows = set ids"
    using assms(2,3) by (auto simp: OperationRouteRepo_FindByIDs_def env_works_def Let_def split: if_splits)
  show "distinct (map row_ID ?rows)" using assms(1) by (simp add: tables_linked_def distinct_map_filter)
qed auto

lemma linked_built:
  assumes "tables_linked s" "rs = map OperationRoute_ToEntity rows" "distinct (map row_ID rows)"
    "set rows = {row \<in> set (rt_operations s). active_operation org led row \<and> row_ID row \<in> ids}" "{i. linked u i s} = row_ID ` set rows"
    "trr_OperationRoutes route = rs"
  shows "built lib u s (TransactionRoute_ToCache lib route)"
proof (rule built_ToCache [OF assms(3)])
  show "set rows = {row \<in> set (rt_operations s). row_DeletedAt row = None \<and> linked u (row_ID row) s}"
  proof (intro set_eqI iffI)
    fix row assume "row \<in> set rows"
    with assms(4,5) show "row \<in> {row \<in> set (rt_operations s). row_DeletedAt row = None \<and> linked u (row_ID row) s}"
      by (auto simp: active_operation_def)
  next
    fix row assume r: "row \<in> {row \<in> set (rt_operations s). row_DeletedAt row = None \<and> linked u (row_ID row) s}"
    then have "row_ID row \<in> row_ID ` set rows" using assms(5) by auto
    then obtain row' where "row' \<in> set rows" "row_ID row' = row_ID row" by auto
    with row_unique [OF assms(1), of row' row] assms(4) r show "row \<in> set rows" by auto
  qed
qed (use assms in simp)

text \<open>A change of one transaction route and of its links.\<close>

lemma relinked_ok:
  assumes ok: "routes_ok lib s" and ops: "rt_operations s' = rt_operations s" and trs: "distinct (map trw_ID (rt_transactions s'))"
    and links: "\<And>w i. w \<noteq> u \<Longrightarrow> linked w i s' = linked w i s" and exs: "\<And>o' l w. w \<noteq> u \<Longrightarrow> exists_route o' l w s' = exists_route o' l w s"
    and joined: "\<And>i. linked u i s' \<Longrightarrow> (\<exists>row \<in> set (rt_operations s). row_ID row = i \<and> active_operation org led row) \<and> exists_route org led u s'"
    and kept: "\<And>o' l w. w \<noteq> u \<Longrightarrow> rt_cache s' (o', l, w) = rt_cache s (o', l, w)"
    and own: "\<And>o' l v. tables_linked s' \<Longrightarrow> rt_cache s' (o', l, u) = Some v \<Longrightarrow> entry_current lib o' l u s' v"
  shows "routes_ok lib s'"
proof -
  have t: "tables_linked s" using ok by (simp add: routes_ok_def)
  have "\<exists>row \<in> set (rt_operations s'). \<exists>org led. row_ID row = i \<and> active_operation org led row \<and> exists_route org led w s'" if "linked w i s'" for w i
  proof (cases "w = u")
    case True
    with joined that ops show ?thesis by fastforce
  next
    case False
    with links that have l: "linked w i s" by simp
    show ?thesis
      by (rule linked_has_row [OF t l]) (use exs [OF False] ops in \<open>metis\<close>)
  qed
  then have t': "tables_linked s'" using t ops trs by (simp add: tables_linked_def)
  show ?thesis
  proof (rule routes_ok_changed [OF ok t'])
    fix o' l w v assume "rt_cache s' (o', l, w) = Some v"
    then show "rt_cache s (o', l, w) = Some v \<and> exists_route o' l w s' = exists_route o' l w s \<and> current_views w s' = current_views w s \<or> entry_current lib o' l w s' v"
      using kept [of w] exs [of w] links [of w] own [OF t'] by (cases "w = u") (simp_all add: current_views_def ops)
  qed
qed

definition new_row :: "RouteEnv \<Rightarrow> uuid \<Rightarrow> uuid \<Rightarrow> CreateTransactionRouteInput \<Rightarrow> TransactionRouteRow" where
  "new_row env org led payload =
     \<lparr>trw_ID = re_newID env, trw_OrganizationID = org, trw_LedgerID = led, trw_Title = cti_Title payload,
      trw_Description = cti_Description payload, trw_CreatedAt = re_now env, trw_UpdatedAt = re_now env, trw_DeletedAt = None\<rparr>"

lemma CreateTransactionRoute_works:
  assumes env: "env_works lib env"
  shows "(\<exists>e. CreateTransactionRoute env org led payload s = (s, Inl e)) \<or>
    (\<exists>rs st route. OperationRouteRepo_FindByIDs env org led (cti_OperationRoutes payload) s = Inr rs \<and>
      CreateTransactionRoute env org led payload s =
        (s\<lparr>rt_transactions := rt_transactions s @ [new_row env org led payload],
           rt_links := rt_links s @ map (new_link env (re_newID env) \<circ> orr_ID) rs, rt_store := st\<rparr>, Inr route) \<and>
      trr_OrganizationID route = org \<and> trr_LedgerID route = led \<and> trr_ID route = re_newID env \<and> trr_OperationRoutes route = rs \<and>
      (\<forall>tr \<in> set (rt_transactions s). trw_ID tr \<noteq> re_newID env))"
proof (cases "OperationRouteRepo_FindByIDs env org led (cti_OperationRoutes payload) s")
  case (Inl e)
  then show ?thesis by (simp add: CreateTransactionRoute_def)
next
  case (Inr rs)
  show ?thesis
  proof (cases "validateOperationRouteTypes rs = None \<and> (\<forall>tr \<in> set (rt_transactions s). trw_ID tr \<noteq> re_newID env)")
    case False
    then have "\<exists>e. CreateTransactionRoute env org led payload s = (s, Inl e)" using Inr env
      by (cases "validateOperationRouteTypes rs")
        (auto simp: CreateTransactionRoute_def TransactionRouteRepo_Create_def env_works_def Let_def)
    then show ?thesis by (rule disjI1)
  next
    case True
    let ?s = "s\<lparr>rt_transactions := rt_transactions s @ [new_row env org led payload], rt_links := rt_links s @ map (new_link env (re_newID env) \<circ> orr_ID) rs\<rparr>"
    obtain st where "route_metadata env ''TransactionRoute'' (uuid_String (re_lib env) (re_newID env)) (cti_Metadata payload) ?s = (?s\<lparr>rt_store := st\<rparr>, None)"
      using route_metadata_works [OF env] by blast
    with True Inr env show ?thesis
      by (simp add: CreateTransactionRoute_def TransactionRouteRepo_Create_def TransactionRoute_FromEntity_def TransactionRoute_ToEntity_def
          new_row_def env_works_def Let_def) blast
  qed
qed

lemma createTransactionRoute_ok:
  assumes ok: "routes_ok lib s" and env: "env_works lib env"
  shows "routes_ok lib (fst (createTransactionRoute env org led payload s))"
  using CreateTransactionRoute_works [OF env, of org led payload s]
proof (elim disjE exE conjE)
  fix e assume "CreateTransactionRoute env org led payload s = (s, Inl e)"
  with ok show ?thesis by (simp add: createTransactionRoute_def)
next
  fix rs :: "OperationRoute list" and st and route :: TransactionRoute
  let ?u = "re_newID env" and ?c = "TransactionRoute_ToCache lib route"
  let ?s' = "s\<lparr>rt_transactions := rt_transactions s @ [new_row env org led payload], rt_links := rt_links s @ map (new_link env ?u \<circ> orr_ID) rs,
    rt_store := st, rt_cache := (rt_cache s)((org, led, ?u) \<mapsto> Some ?c)\<rparr>"
  assume rs: "OperationRouteRepo_FindByIDs env org led (cti_OperationRoutes payload) s = Inr rs"
    and create: "CreateTransactionRoute env org led payload s =
        (s\<lparr>rt_transactions := rt_transactions s @ [new_row env org led payload],
           rt_links := rt_links s @ map (new_link env ?u \<circ> orr_ID) rs, rt_store := st\<rparr>, Inr route)"
    and route: "trr_OrganizationID route = org" "trr_LedgerID route = led" "trr_ID route = ?u" "trr_OperationRoutes route = rs"
    and fresh: "\<forall>tr \<in> set (rt_transactions s). trw_ID tr \<noteq> ?u"
  have t: "tables_linked s" using ok by (simp add: routes_ok_def)
  obtain rows where rows: "rs = map OperationRoute_ToEntity rows" "distinct (map row_ID rows)"
      "set rows = {row \<in> set (rt_operations s). active_operation org led row \<and> row_ID row \<in> set (cti_OperationRoutes payload)}"
    by (rule FindByIDs_found [OF t env rs])
  have run: "fst (createTransactionRoute env org led payload s) = ?s'"
    using create route env by (simp add: createTransactionRoute_def CreateAccountingRouteCache_def SetBytes_def env_works_def)
  have absent: "\<not> exists_route o' l ?u s" for o' l using fresh by (auto simp: exists_route_def active_transaction_def)
  then have unlinked: "\<not> linked ?u i s" for i by (metis linked_has_row [OF t])
  have ex: "exists_route o' l w ?s' \<longleftrightarrow> exists_route o' l w s \<or> (o', l, w) = (org, led, ?u)" for o' l w
    by (auto simp: exists_route_def active_transaction_def new_row_def)
  have lk: "linked w i ?s' \<longleftrightarrow> linked w i s \<or> w = ?u \<and> i \<in> row_ID ` set rows" for w i
    by (auto simp: linked_def rows(1) new_link_def bex_Un)
  show ?thesis unfolding run
  proof (rule relinked_ok [OF ok, where u = ?u and org = org and led = led])
    fix o' l v assume t': "tables_linked ?s'" and v: "rt_cache ?s' (o', l, ?u) = Some v"
    show "entry_current lib o' l ?u ?s' v"
    proof (cases "(o', l) = (org, led)")
      case True
      have "{i. linked ?u i ?s'} = row_ID ` set rows" unfolding lk using unlinked by auto
      then have "built lib ?u ?s' ?c"
        by (intro linked_built [OF t' rows(1,2) _ _ route(4), where org = org and led = led and ids = "set (cti_OperationRoutes payload)"])
          (use rows(3) in simp_all)
      moreover have "exists_route o' l ?u ?s'" unfolding ex using True by simp
      moreover have "v = Some ?c" using v True by simp
      ultimately show ?thesis by (simp only: entry_current_Some)
    next
      case False
      then have "rt_cache s (o', l, ?u) = Some v" using v by auto
      then have "v = None" by (rule foreign_entry [OF ok absent])
      moreover have "\<not> exists_route o' l ?u ?s'" unfolding ex using absent False by simp
      ultimately show ?thesis by (simp only: entry_current_None simp_thms)
    qed
  next
    fix w i assume "w \<noteq> ?u"
    then show "linked w i ?s' = linked w i s" unfolding lk by simp
  next
    fix o' l w assume "w \<noteq> ?u"
    then show "exists_route o' l w ?s' = exists_route o' l w s" unfolding ex by simp
  next
    fix i assume "linked ?u i ?s'"
    then have "i \<in> row_ID ` set rows" unfolding lk using unlinked by simp
    then show "(\<exists>row \<in> set (rt_operations s). row_ID row = i \<and> active_operation org led row) \<and> exists_route org led ?u ?s'"
      unfolding ex using rows(3) by auto
  qed (use t fresh in \<open>auto simp: tables_linked_def new_row_def\<close>)
qed

lemma relationships_linked:
  assumes "rt_links s' = updateOperationRouteRelationships env u toAdd toRemove (rt_links s)"
  shows "linked w i s' \<longleftrightarrow> (linked w i s \<and> \<not> (w = u \<and> i \<in> set toRemove)) \<or> (w = u \<and> i \<in> set toAdd)"
  unfolding linked_def assms updateOperationRouteRelationships_def by (auto simp: new_link_def bex_Un)

definition retitle :: "RouteEnv \<Rightarrow> uuid \<Rightarrow> uuid \<Rightarrow> uuid \<Rightarrow> string \<Rightarrow> string \<Rightarrow> TransactionRouteRow \<Rightarrow> TransactionRouteRow" where
  "retitle env org led u title descr row =
     (if active_transaction org led u row
      then row\<lparr>trw_UpdatedAt := re_now env, trw_Title := (if title \<noteq> '''' then title else trw_Title row),
               trw_Description := (if descr \<noteq> '''' then descr else trw_Description row)\<rparr> else row)"

lemma retitle_keeps [simp]:
  "trw_ID (retitle env org led u title descr row) = trw_ID row"
  "active_transaction o' l w (retitle env org led u title descr row) = active_transaction o' l w row"
  by (simp_all add: retitle_def active_transaction_def)

lemma TransactionRouteRepo_Update_works:
  assumes "env_works lib env" "TransactionRouteRepo_Update env org led u route toAdd toRemove s = (s', Inr r)"
  shows "exists_route org led u s \<and>
    s' = s\<lparr>rt_transactions := map (retitle env org led u (trr_Title route) (trr_Description route)) (rt_transactions s),
           rt_links := updateOperationRouteRelationships env u toAdd toRemove (rt_links s)\<rparr> \<and>
    trr_OrganizationID r = org \<and> trr_LedgerID r = led \<and> trr_ID r = u"
proof -
  let ?f = "retitle env org led u (trr_Title route) (trr_Description route)"
  have *: "(\<lambda>row. if active_transaction org led u row then row\<lparr>trw_UpdatedAt := re_now env,
        trw_Title := (if trr_Title route \<noteq> '''' then trr_Title route else trw_Title row),
        trw_Description := (if trr_Description route \<noteq> '''' then trr_Description route else trw_Description row)\<rparr> else row) = ?f"
    by (simp add: retitle_def fun_eq_iff)
  obtain row rest where r: "filter (active_transaction org led u) (map ?f (rt_transactions s)) = row # rest" "r = TransactionRoute_ToEntity row"
      "s' = s\<lparr>rt_transactions := map ?f (rt_transactions s), rt_links := updateOperationRouteRelationships env u toAdd toRemove (rt_links s)\<rparr>"
    using assms unfolding TransactionRouteRepo_Update_def Let_def * env_works_def by (auto split: list.splits)
  then have "row \<in> set (filter (active_transaction org led u) (map ?f (rt_transactions s)))" by simp
  then obtain row0 where "row0 \<in> set (rt_transactions s)" "active_transaction org led u row0" and row: "active_transaction org led u row" by auto
  then have "exists_route org led u s" by (auto simp: exists_route_def)
  with r(2,3) row show ?thesis by (simp add: active_transaction_def TransactionRoute_ToEntity_def)
qed

lemma exists_retitled:
  "rt_transactions s' = map (retitle env org led u title descr) (rt_transactions s) \<Longrightarrow> exists_route o' l w s' = exists_route o' l w s"
  by (simp add: exists_route_def)

lemma linked_rows_here:
  assumes "tables_linked s" "exists_route org led u s" "linked u i s"
  shows "\<exists>row \<in> set (rt_operations s). row_ID row = i \<and> active_operation org led row"
proof (rule linked_has_row [OF assms(1,3)])
  fix row org' led'
  assume "row \<in> set (rt_operations s)" "row_ID row = i" "active_operation org' led' row" "exists_route org' led' u s"
  with route_unique [OF assms(1,2)] show ?thesis by blast
qed

lemma FindByIDs_linked:
  assumes "tables_linked s" "env_works lib env" "exists_route org led u s" "\<And>i. i \<in> set ids \<Longrightarrow> linked u i s"
  shows "\<exists>rs. OperationRouteRepo_FindByIDs env org led ids s = Inr rs"
proof -
  have "i \<in> row_ID ` {row \<in> set (rt_operations s). active_operation org led row \<and> row_ID row \<in> set ids}" if "i \<in> set ids" for i
    using linked_rows_here [OF assms(1,3) assms(4) [OF that]] that by auto
  with assms(2) show ?thesis by (auto simp: OperationRouteRepo_FindByIDs_def env_works_def Let_def)
qed

lemma FindByIDs_operations: "rt_operations s' = rt_operations s \<Longrightarrow> OperationRouteRepo_FindByIDs env org led ids s' = OperationRouteRepo_FindByIDs env org led ids s"
  unfolding OperationRouteRepo_FindByIDs_def by (simp only:)

text \<open>
  The links that a request asks for (the ones it adds and removes and, when it names them, the routes found), and those that
  are read when it names none.
\<close>

lemma requested_links:
  assumes t: "tables_linked s" and "handleOperationRouteUpdates env org led u inputs s = Inr (toAdd, toRemove, rs)"
    and "rt_links s' = updateOperationRouteRelationships env u toAdd toRemove (rt_links s)"
  shows "\<exists>ids. OperationRouteRepo_FindByIDs env org led ids s = Inr rs \<and> {i. linked u i s'} = set ids"
proof -
  let ?ids = "first_by id [] inputs"
  obtain cur where cur: "TransactionRouteRepo_FindByID env org led u s = Inr cur" and rs: "OperationRouteRepo_FindByIDs env org led ?ids s = Inr rs"
      and parts: "toAdd = filter (\<lambda>i. i \<notin> set (map orr_ID (trr_OperationRoutes cur))) ?ids"
        "toRemove = filter (\<lambda>i. i \<notin> set ?ids) (map orr_ID (trr_OperationRoutes cur))"
    using assms(2) unfolding handleOperationRouteUpdates_def Let_def by (auto split: if_splits sum.splits option.splits)
  have "orr_ID ` set (trr_OperationRoutes cur) = {i. linked u i s}" using found_route [OF t cur] by blast
  then have "{i. linked u i s'} = set ?ids" unfolding relationships_linked [OF assms(3)] parts by auto
  with rs show ?thesis by blast
qed

lemma links_read:
  assumes "tables_linked s" "env_works lib env"
  shows "\<exists>ids. FindOperationRouteIDsByTransactionRouteID env u s = Inr ids \<and> {i. linked u i s} = set ids"
proof -
  have "linked_row s l \<noteq> None" if l: "l \<in> set (active_links u s)" for l
  proof (rule linked_has_row [OF assms(1) active_links_linked [OF l]])
    fix row org led
    assume "row \<in> set (rt_operations s)" "row_ID row = lk_OperationRouteID l" "active_operation org led row"
    with linked_row_iff [OF assms(1), of l row] show ?thesis by (auto simp: active_operation_def)
  qed
  then have "filter (\<lambda>l. linked_row s l \<noteq> None) (active_links u s) = active_links u s" by (simp add: filter_id_conv)
  with assms(2) show ?thesis
    by (auto simp: FindOperationRouteIDsByTransactionRouteID_def env_works_def active_links_def linked_def)
qed

lemma asked_routes:
  assumes t: "tables_linked s" and env: "env_works lib env" and ex: "exists_route org led u s"
    and asked: "(case inputs of
        None \<Rightarrow> Inr ([], [], None)
      | Some ids \<Rightarrow> map_sum id (\<lambda>(toAdd, toRemove, routes). (toAdd, toRemove, Some routes)) (handleOperationRouteUpdates env org led u ids s)) =
      Inr (toAdd, toRemove, touched)"
    and s1: "s1 = s\<lparr>rt_transactions := map (retitle env org led u title descr) (rt_transactions s),
      rt_links := updateOperationRouteRelationships env u toAdd toRemove (rt_links s)\<rparr>"
  shows "\<exists>rs ids. post_update_routes env org led u touched s1 = Inr rs \<and>
    OperationRouteRepo_FindByIDs env org led ids s = Inr rs \<and> {i. linked u i s1} = set ids"
proof (cases inputs)
  case None
  with asked have parts: "toAdd = []" "toRemove = []" "touched = None" by simp_all
  have lk: "linked w i s1 = linked w i s" for w i by (simp add: s1 parts linked_def updateOperationRouteRelationships_def)
  have "tables_linked s1"
    using t exists_retitled [of s1 env org led u title descr s] unfolding tables_linked_def lk by (simp add: s1 comp_def)
  then obtain ids where ids: "FindOperationRouteIDsByTransactionRouteID env u s1 = Inr ids" "{i. linked u i s1} = set ids"
    using links_read [OF _ env] by blast
  obtain rs where rs: "OperationRouteRepo_FindByIDs env org led ids s = Inr rs"
    using FindByIDs_linked [OF t env ex, of ids] ids(2) lk by auto
  then have "OperationRouteRepo_FindByIDs env org led ids s1 = Inr rs" by (subst FindByIDs_operations [of s1 s]) (simp_all add: s1)
  with ids rs show ?thesis by (auto simp: post_update_routes_def parts)
next
  case (Some ids)
  with asked obtain rs where rs: "handleOperationRouteUpdates env org led u ids s = Inr (toAdd, toRemove, rs)" "touched = Some rs"
    by (cases "handleOperationRouteUpdates env org led u ids s") auto
  with requested_links [OF t rs(1), of s1] show ?thesis by (auto simp: post_update_routes_def s1)
qed

lemma UpdateTransactionRoute_works:
  assumes t: "tables_linked s" and env: "env_works lib env"
  shows "(\<exists>e. UpdateTransactionRoute env org led u input s = (s, Inl e)) \<or>
    (\<exists>toAdd toRemove title descr ids st route s'.
      UpdateTransactionRoute env org led u input s = (s', Inr route) \<and> exists_route org led u s \<and>
      s' = s\<lparr>rt_transactions := map (retitle env org led u title descr) (rt_transactions s),
              rt_links := updateOperationRouteRelationships env u toAdd toRemove (rt_links s), rt_store := st\<rparr> \<and>
      trr_OrganizationID route = org \<and> trr_LedgerID route = led \<and> trr_ID route = u \<and>
      OperationRouteRepo_FindByIDs env org led ids s = Inr (trr_OperationRoutes route) \<and> {i. linked u i s'} = set ids)"
proof -
  let ?asked = "case uti_OperationRoutes input of
              None \<Rightarrow> Inr ([], [], None)
            | Some inputs \<Rightarrow> map_sum id (\<lambda>(toAdd, toRemove, routes). (toAdd, toRemove, Some routes))
                (handleOperationRouteUpdates env org led u inputs s)"
  let ?route = "\<lparr>trr_ID = uuid_Nil, trr_OrganizationID = uuid_Nil, trr_LedgerID = uuid_Nil, trr_Title = uti_Title input,
                  trr_Description = uti_Description input, trr_OperationRoutes = [], trr_CreatedAt = 0, trr_UpdatedAt = 0, trr_DeletedAt = None\<rparr>"
  show ?thesis
  proof (cases ?asked)
    case (Inl e)
    then show ?thesis unfolding UpdateTransactionRoute_def Let_def by simp
  next
    case (Inr asked)
    obtain toAdd toRemove touched where asked: "?asked = Inr (toAdd, toRemove, touched)" using Inr by (cases asked) auto
    show ?thesis
    proof (cases "TransactionRouteRepo_Update env org led u ?route toAdd toRemove s")
      case (Pair s1 res)
      show ?thesis
      proof (cases res)
        case (Inl e)
        then have "s1 = s" using Pair env unfolding TransactionRouteRepo_Update_def env_works_def Let_def by (auto split: list.splits)
        with Inl Pair asked show ?thesis unfolding UpdateTransactionRoute_def Let_def by simp
      next
        case (Inr r)
        let ?f = "retitle env org led u (uti_Title input) (uti_Description input)"
        have done1: "exists_route org led u s" "s1 = s\<lparr>rt_transactions := map ?f (rt_transactions s),
              rt_links := updateOperationRouteRelationships env u toAdd toRemove (rt_links s)\<rparr>"
            "trr_OrganizationID r = org" "trr_LedgerID r = led" "trr_ID r = u"
          using TransactionRouteRepo_Update_works [OF env Pair [unfolded Inr]] by simp_all
        obtain rs ids where rs: "post_update_routes env org led u touched s1 = Inr rs"
            "OperationRouteRepo_FindByIDs env org led ids s = Inr rs" "{i. linked u i s1} = set ids"
          using asked_routes [OF t env done1(1) asked done1(2)] by blast
        obtain st where "update_route_metadata env ''TransactionRoute'' (uuid_String (re_lib env) u) (uti_Metadata input) s1 = (s1\<lparr>rt_store := st\<rparr>, None)"
          using update_route_metadata_works [OF env] by blast
        then have "UpdateTransactionRoute env org led u input s = (s1\<lparr>rt_store := st\<rparr>, Inr (r\<lparr>trr_OperationRoutes := rs\<rparr>))"
          unfolding UpdateTransactionRoute_def Let_def asked using Pair Inr rs(1) by simp
        then show ?thesis using done1 rs(2,3)
          by (intro disjI2 exI [of _ toAdd] exI [of _ toRemove] exI [of _ "uti_Title input"] exI [of _ "uti_Description input"] exI [of _ ids]
              exI [of _ st] exI [of _ "r\<lparr>trr_OperationRoutes := rs\<rparr>"] exI [of _ "s1\<lparr>rt_store := st\<rparr>"]) simp
      qed
    qed
  qed
qed

lemma updateTransactionRoute_ok:
  assumes ok: "routes_ok lib s" and env: "env_works lib env"
  shows "routes_ok lib (fst (updateTransactionRoute env org led u input s))"
proof -
  have t: "tables_linked s" using ok by (simp add: routes_ok_def)
  show ?thesis
    using UpdateTransactionRoute_works [OF t env, of org led u input]
  proof (elim disjE exE conjE)
    fix e assume "UpdateTransactionRoute env org led u input s = (s, Inl e)"
    with ok show ?thesis by (simp add: updateTransactionRoute_def)
  next
    fix toAdd toRemove title descr ids st and route :: TransactionRoute and s1
    assume upd: "UpdateTransactionRoute env org led u input s = (s1, Inr route)" and ex: "exists_route org led u s"
      and s1: "s1 = s\<lparr>rt_transactions := map (retitle env org led u title descr) (rt_transactions s),
              rt_links := updateOperationRouteRelationships env u toAdd toRemove (rt_links s), rt_store := st\<rparr>"
      and route: "trr_OrganizationID route = org" "trr_LedgerID route = led" "trr_ID route = u"
      and rs: "OperationRouteRepo_FindByIDs env org led ids s = Inr (trr_OperationRoutes route)" and lk: "{i. linked u i s1} = set ids"
    define s' where "s' = s1\<lparr>rt_cache := (rt_cache s)((org, led, u) \<mapsto> Some (TransactionRoute_ToCache lib route))\<rparr>"
    have run: "fst (updateTransactionRoute env org led u input s) = s'"
      using upd route env by (simp add: updateTransactionRoute_def CreateAccountingRouteCache_def SetBytes_def env_works_def s'_def s1)
    obtain rows where rows: "trr_OperationRoutes route = map OperationRoute_ToEntity rows" "distinct (map row_ID rows)"
        "set rows = {row \<in> set (rt_operations s). active_operation org led row \<and> row_ID row \<in> set ids}" "row_ID ` set rows = set ids"
      by (rule FindByIDs_found [OF t env rs])
    have exs: "exists_route o' l w s' = exists_route o' l w s" for o' l w 
      by (rule exists_retitled [of s' env org led u title descr]) (simp add: s'_def s1)
    have own: "{i. linked u i s'} = row_ID ` set rows" using lk rows(4) by (simp add: s'_def)
    show ?thesis unfolding run
    proof (rule relinked_ok [OF ok, where u = u and org = org and led = led])
      fix o' l v assume t': "tables_linked s'" and v: "rt_cache s' (o', l, u) = Some v"
      show "entry_current lib o' l u s' v"
      proof (cases "(o', l) = (org, led)")
        case True
        have "built lib u s' (TransactionRoute_ToCache lib route)"
          by (rule linked_built [OF t' rows(1,2) _ own refl, where org = org and led = led and ids = "set ids"])
            (use rows(3) in \<open>simp add: s'_def s1\<close>)
        moreover have "v = Some (TransactionRoute_ToCache lib route)" using v True by (simp add: s'_def)
        moreover have "exists_route o' l u s'" using exs ex True by simp
        ultimately show ?thesis by (simp only: entry_current_Some)
      next
        case False
        with route_unique [OF t ex] have no: "\<not> exists_route o' l u s" by blast
        have "rt_cache s (o', l, u) = Some v" using v False by (auto simp: s'_def split: if_splits)
        from foreign_entry [OF ok no this] no exs show ?thesis by (simp add: entry_current_None)
      qed
    next
      fix w i assume "w \<noteq> u"
      then show "linked w i s' = linked w i s"
        using relationships_linked [of s' env u toAdd toRemove s] by (simp add: s'_def s1)
    next
      fix i assume "linked u i s'"
      then have "i \<in> row_ID ` set rows" using own by auto
      with rows(3) ex exs show "(\<exists>row \<in> set (rt_operations s). row_ID row = i \<and> active_operation org led row) \<and> exists_route org led u s'" by auto
    qed (use exs t in \<open>simp_all add: s'_def s1 tables_linked_def comp_def\<close>)
  qed
qed

lemma deleteTransactionRoute_ok:
  assumes ok: "routes_ok lib s" and env: "env_works lib env"
  shows "routes_ok lib (fst (deleteTransactionRouteByID env org led u s))"
proof (cases "TransactionRouteRepo_FindByID env org led u s")
  case (Inl e)
  with ok show ?thesis by (simp add: deleteTransactionRouteByID_def DeleteTransactionRouteByID_def)
next
  case (Inr route)
  have t: "tables_linked s" using ok by (simp add: routes_ok_def)
  note found = found_route [OF t Inr, of lib]
  define s' where "s' = s\<lparr>rt_transactions := map (\<lambda>row. if active_transaction org led u row then row\<lparr>trw_DeletedAt := Some (re_now env)\<rparr> else row) (rt_transactions s),
    rt_links := updateOperationRouteRelationships env u [] (map orr_ID (trr_OperationRoutes route)) (rt_links s),
    rt_cache := (rt_cache s)((org, led, u) := None)\<rparr>"
  have run: "fst (deleteTransactionRouteByID env org led u s) = s'"
    using Inr env by (simp add: deleteTransactionRouteByID_def DeleteTransactionRouteByID_def TransactionRouteRepo_Delete_def
        DeleteTransactionRouteCache_def env_works_def s'_def)
  have exs: "exists_route o' l w s' \<longleftrightarrow> exists_route o' l w s \<and> (o', l, w) \<noteq> (org, led, u)" for o' l w
    unfolding exists_route_def s'_def by (auto simp: active_transaction_def)
  have lk: "linked w i s' \<longleftrightarrow> linked w i s \<and> w \<noteq> u" for w i
    using relationships_linked [of s' env u "[]" "map orr_ID (trr_OperationRoutes route)" s w i] found by (auto simp: s'_def)
  have ids: "map trw_ID (rt_transactions s') = map trw_ID (rt_transactions s)" by (simp add: s'_def)
  show ?thesis unfolding run
  proof (rule relinked_ok [OF ok, where u = u and org = org and led = led])
    fix o' l v assume v: "rt_cache s' (o', l, u) = Some v"
    then have other: "(o', l) \<noteq> (org, led)" "rt_cache s (o', l, u) = Some v" by (auto simp: s'_def split: if_splits)
    have "exists_route org led u s" using found by blast
    from route_unique [OF t this, of o' l] other(1) have no: "\<not> exists_route o' l u s" by blast
    from foreign_entry [OF ok no other(2)] no show "entry_current lib o' l u s' v" by (simp add: entry_current_None exs)
  next
    show "distinct (map trw_ID (rt_transactions s'))" unfolding ids using t by (simp add: tables_linked_def)
  qed (use exs lk in \<open>simp_all add: s'_def\<close>)
qed

section \<open>Every sequence of requests\<close>

text \<open>
  The requests that the cache follows. An update of an operation route is one of them when it gives an account rule, after
  which the handler reloads the cache, or when it changes nothing that the cache holds. Entries expire.
\<close>

inductive route_request :: "extlib \<Rightarrow> RouteState \<Rightarrow> RouteState \<Rightarrow> bool" for lib where
  create_operation: "env_works lib env \<Longrightarrow> route_request lib s (fst (createOperationRoute env org led payload raw s))"
| update_operation: "env_works lib env \<Longrightarrow> uoi_Account input \<noteq> None \<or> title_only input \<Longrightarrow>
    route_request lib s (fst (updateOperationRoute env org led i input raw s))"
| delete_operation: "env_works lib env \<Longrightarrow> route_request lib s (fst (DeleteOperationRouteByID env org led i s))"
| create_route: "env_works lib env \<Longrightarrow> route_request lib s (fst (createTransactionRoute env org led new s))"
| update_route: "env_works lib env \<Longrightarrow> route_request lib s (fst (updateTransactionRoute env org led u change s))"
| delete_route: "env_works lib env \<Longrightarrow> route_request lib s (fst (deleteTransactionRouteByID env org led u s))"
| look_up: "env_works lib env \<Longrightarrow> route_request lib s (fst (GetOrCreateTransactionRouteCache env org led u s))"
| expire: "route_request lib s (s\<lparr>rt_cache := (rt_cache s)(k := None)\<rparr>)"

lemma expire_ok: "routes_ok lib s \<Longrightarrow> routes_ok lib (s\<lparr>rt_cache := (rt_cache s)(k := None)\<rparr>)"
  by (rule routes_ok_changed [where s = s]) (auto simp: routes_ok_def split: if_splits)

lemma route_request_ok: "route_request lib s s' \<Longrightarrow> routes_ok lib s \<Longrightarrow> routes_ok lib s'"
  by (induction rule: route_request.induct)
    (simp_all only: createOperationRoute_ok updateOperationRoute_ok DeleteOperationRouteByID_ok createTransactionRoute_ok
      updateTransactionRoute_ok deleteTransactionRoute_ok GetOrCreate_ok expire_ok)

interpretation routes_kept: step_invariant "route_request lib" "routes_ok lib" for lib
  by unfold_locales (rule route_request_ok)

definition no_routes :: "Store \<Rightarrow> RouteState" where
  "no_routes st = \<lparr>rt_operations = [], rt_transactions = [], rt_links = [], rt_store = st, rt_cache = Map.empty\<rparr>"

lemma no_routes_ok: "routes_ok lib (no_routes st)"
  by (simp add: routes_ok_def tables_linked_def cache_current_def linked_def no_routes_def)

lemma look_up_current:
  assumes "routes_ok lib s" "env_works lib env" "GetOrCreateTransactionRouteCache env org led u s = (s', res)"
  shows "(\<forall>c. res = Inr c \<longrightarrow> exists_route org led u s \<and> built lib u s c) \<and> (res = Inl ErrDatabaseItemNotFound \<longrightarrow> \<not> exists_route org led u s)"
proof -
  have ok: "cache_current lib s" "tables_linked s" using assms(1) by (simp_all add: routes_ok_def)
  have entry: "entry_current lib org led u s v" if "rt_cache s (org, led, u) = Some v" for v
    using ok(1) that by (simp add: cache_current_def)
  show ?thesis
  proof (cases "if re_get env = None then rt_cache s (org, led, u) else None")
    case (Some v)
    then have "entry_current lib org led u s v" using entry by (simp split: if_splits)
    with Some assms(3) show ?thesis
      by (cases v) (auto simp: GetOrCreateTransactionRouteCache_def entry_current_def)
  next
    case None
    show ?thesis
    proof (cases "TransactionRouteRepo_FindByID env org led u s")
      case (Inr route)
      with None assms(2,3) found_route [OF ok(2) Inr, of lib] show ?thesis
        by (auto simp: GetOrCreateTransactionRouteCache_def SetBytes_def env_works_def Let_def)
    next
      case (Inl e)
      then have "e = ErrDatabaseItemNotFound \<or> e = Business ErrTransactionRouteNotFound \<Longrightarrow> \<not> exists_route org led u s"
        using assms(2) unfolding TransactionRouteRepo_FindByID_def env_works_def Let_def exists_route_def ErrDatabaseItemNotFound_def
        by (auto simp: filter_empty_conv split: list.splits if_splits)
      with None Inl assms(3) show ?thesis by (auto simp: GetOrCreateTransactionRouteCache_def split: if_splits)
    qed
  qed
qed

text \<open>
  C11. The routes that transactions are validated against are those that are stored. However routes are
  created, changed, deleted and looked up, as long as the database and the cache answer and every change of what is
  cached of an operation route comes with an account rule, a look up of a transaction route gives the cached form of exactly the operation routes
  that it is linked to and that are not deleted, as they are stored, and answers that there is none only when there is none; and the tables
  stay linked: a link that is not removed joins an operation route and a transaction route of the same ledger that are not deleted.
\<close>

theorem cached_routes_are_current:
  assumes "(route_request lib)\<^sup>*\<^sup>* (no_routes st) s" "env_works lib env"
    "GetOrCreateTransactionRouteCache env organizationID ledgerID u s = (s', res)"
  shows "tables_linked s \<and>
    (\<forall>c. res = Inr c \<longrightarrow> exists_route organizationID ledgerID u s \<and>
       (\<exists>rs. distinct (map orr_ID rs) \<and> route_view ` set rs = current_views u s \<and> c = fold (cache_route lib) rs [])) \<and>
    (res = Inl ErrDatabaseItemNotFound \<longrightarrow> \<not> exists_route organizationID ledgerID u s)"
proof -
  have ok: "routes_ok lib s" by (rule routes_kept.reachable [OF assms(1) no_routes_ok])
  from look_up_current [OF ok assms(2,3)] ok show ?thesis unfolding built_def routes_ok_def by blast
qed

section \<open>Example\<close>

text \<open>A source and a destination route, the transaction route over both, and a change of the source route with an account rule.\<close>

definition route_env :: "uuid \<Rightarrow> RouteEnv" where
  "route_env i =
     \<lparr>re_lib = route_lib, re_now = 5, re_newID = i, re_linkID = id,
      re_store = \<lparr>se_lib = route_lib, se_commons = plain_commons, se_mergeMaps = (\<lambda>m _. m), se_newID = ''new'', se_now = 5, se_async = True\<rparr>,
      re_faults = \<lparr>f_balances = None, f_commit = False, f_insert = None, f_update = None, f_operation = (\<lambda>_. None), f_metadata = (\<lambda>_. None),
                  f_cache = None\<rparr>,
      re_db = None, re_get = None, re_set = None, re_del = None\<rparr>"

definition route_input :: "string \<Rightarrow> CreateOperationRouteInput" where
  "route_input ty =
     \<lparr>coi_Title = ''t'', coi_Description = ''old'', coi_Code = '''', coi_OperationType = ty,
      coi_AccountingEntries = Some (AccountingEntries_zero\<lparr>aes_Direct := Some direct_entry\<rparr>), coi_Metadata = None, coi_Account = None\<rparr>"

definition route_change :: "AccountRule option \<Rightarrow> UpdateOperationRouteInput" where
  "route_change account =
     \<lparr>uoi_Title = '''', uoi_Description = ''new'', uoi_Code = '''', uoi_AccountingEntries = None, uoi_AccountingEntriesRaw = None,
      uoi_Metadata = None, uoi_Account = account\<rparr>"

definition empty_store :: Store where
  "empty_store =
     \<lparr>st_transactions = Map.empty, st_operations = Map.empty, st_balances = Map.empty, st_metadata = [], st_backup = Map.empty,
      st_writebehind = Map.empty\<rparr>"

definition linked_routes :: RouteState where
  "linked_routes =
     fst (createTransactionRoute (route_env 9) 1 2 \<lparr>cti_Title = ''t'', cti_Description = '''', cti_Metadata = None, cti_OperationRoutes = [1, 2]\<rparr>
       (fst (createOperationRoute (route_env 2) 1 2 (route_input ''destination'') None
         (fst (createOperationRoute (route_env 1) 1 2 (route_input ''source'') None (no_routes empty_store))))))"

definition deposit_only :: AccountRule where
  "deposit_only = \<lparr>acr_RuleType = ''account_type'', acr_ValidIf = JArr [JStr ''deposit'']\<rparr>"

definition changed_routes :: "AccountRule option \<Rightarrow> RouteState" where
  "changed_routes account = fst (updateOperationRoute (route_env 8) 1 2 1 (route_change account) None linked_routes)"

definition cached_description :: "TransactionRouteCache \<Rightarrow> string option" where
  "cached_description c =
     (case map_of c ActionDirect of None \<Rightarrow> None | Some a \<Rightarrow> map_option rc_Description (map_of (arc_Source a) ''r1''))"

definition looked_up :: "RouteState \<Rightarrow> string option" where
  "looked_up s = (case snd (GetOrCreateTransactionRouteCache (route_env 8) 1 2 9 s) of Inl e \<Rightarrow> None | Inr c \<Rightarrow> cached_description c)"

lemma route_env_works: "i \<noteq> 0 \<Longrightarrow> env_works route_lib (route_env i)"
  by (simp add: env_works_def route_env_def)

lemma linked_routes_reached: "(route_request route_lib)\<^sup>*\<^sup>* (no_routes empty_store) linked_routes"
  unfolding linked_routes_def
  by (rule rtranclp.rtrancl_into_rtrancl, rule rtranclp.rtrancl_into_rtrancl, rule r_into_rtranclp)
    (rule route_request.create_operation [OF route_env_works [of 1]], simp, rule route_request.create_operation [OF route_env_works [of 2]], simp,
     rule route_request.create_route [OF route_env_works [of 9]], simp)

theorem cached_routes_are_current_witness:
  "\<exists>s' c rs. GetOrCreateTransactionRouteCache (route_env 8) 1 2 9 (changed_routes (Some deposit_only)) = (s', Inr c) \<and>
     cached_description c = Some ''new'' \<and> route_view ` set rs = current_views 9 (changed_routes (Some deposit_only)) \<and> c = fold (cache_route route_lib) rs []"
proof -
  let ?s = "changed_routes (Some deposit_only)"
  have reach: "(route_request route_lib)\<^sup>*\<^sup>* (no_routes empty_store) ?s"
    unfolding changed_routes_def
    by (rule rtranclp.rtrancl_into_rtrancl [OF linked_routes_reached], rule route_request.update_operation [OF route_env_works [of 8]]) (simp_all add: route_change_def)
  have "looked_up ?s = Some ''new''" by code_simp
  then obtain s' c where c: "GetOrCreateTransactionRouteCache (route_env 8) 1 2 9 ?s = (s', Inr c)" "cached_description c = Some ''new''"
    by (cases "GetOrCreateTransactionRouteCache (route_env 8) 1 2 9 ?s") (auto simp: looked_up_def split: sum.splits)
  have "\<exists>rs. distinct (map orr_ID rs) \<and> route_view ` set rs = current_views 9 ?s \<and> c = fold (cache_route route_lib) rs []"
    using cached_routes_are_current [OF reach route_env_works c(1)] by simp
  then obtain rs where "route_view ` set rs = current_views 9 ?s" "c = fold (cache_route route_lib) rs []" by (elim exE conjE)
  with c show ?thesis by (intro exI conjI)
qed

text \<open>
  Without an account rule, the handler does not reload the cache: transactions still see what was cached before the change.
\<close>

lemma change_without_rule_is_not_cached:
  "looked_up (changed_routes None) = Some ''old'' \<and> map row_Description (rt_operations (changed_routes None)) = [''new'', ''old'']"
  by code_simp

end
