(* ===== verification/Spec2Isabelle.thy ===== *)
theory Spec2Isabelle
  imports ReservationService TracerRule LedgerBillingProofs TransactionBulkProofs LedgerSettingsProofs TransactionHandlersProofs RouteStoreProofs
begin

text \<open>
  \<^bold>\<open>A verification of the core of Midaz.\<close>

  Midaz is a ledger for financial products. Its ledger component books transactions between
  balances, charges fees on them and bills for its services; its tracer component decides before
  a transaction whether rules and spending limits let it pass, and reserves capacity of limits
  for it. This library models the parts of both that decide, compute and keep state, function by
  function from the Go sources, and proves what makes them correct.

  \<^bold>\<open>How the model reads the code.\<close> A Go struct is a record, a pointer that may be nil is an option, a
  slice is a list, a map an association list (\<open>gomap\<close>), so that the order in which a loop visits
  it is the order of the list and a theorem holds for every order. A function that may fail
  returns \<open>goerr + 'a\<close> with \<open>Inl\<close> the error; \<open>goerr option\<close> is a result \<^verbatim>\<open>error\<close>. State is passed and
  returned. \<^verbatim>\<open>decimal.Decimal\<close> is a rational; what the library rounds or prints (division, text) is a
  field of the record \<open>extlib\<close>, and a theorem that relies on it names what it relies on
  (\<open>prints_decimals\<close>, \<open>rounds_hundredths\<close>). \<^verbatim>\<open>int64\<close> and \<^verbatim>\<open>int\<close> are integers; where a sum can wrap the
  wrap is written out (\<open>int64\<close>). Times are nanoseconds (GoTime has the calendar). SQL statements
  and MongoDB queries are functions on explicit tables; one statement is one atomic step.
  Logging, tracing spans, metrics and events have no part in the model.

  \<^bold>\<open>Foundations.\<close>
    \<^item> Prelude: the shared types, sequences of checks (\<open>first_err\<close>), methods that change their
      receiver (\<open>andThen\<close>), sums over association lists, and the locale \<open>step_invariant\<close>, which
      lifts an invariant from steps to reachable states.
    \<^item> GoStrings, GoTime, GoErrors: \<^verbatim>\<open>strings\<close>, \<^verbatim>\<open>strconv\<close>, the proleptic calendar with ISO weeks, and
      the sentinel errors of \<^verbatim>\<open>pkg/constant/errors.go\<close>.
    \<^item> Lifecycle: the locale of entities with a status and a deletion time, interpreted for the
      limits and the rules of the tracer.

  \<^bold>\<open>Ledger.\<close>
    \<^item> LedgerTransaction (\<^verbatim>\<open>pkg/mtransaction\<close>): the data of a transaction, the numbering of aliases,
      the resolution of amounts, shares and remainders (\<open>CalculateTotal\<close>), the validation of a
      send, the eligibility of balances, and the operations on a balance in every status. Shown:
      accepted transactions balance and conserve funds, a hold that is settled ends where a
      direct transaction ends, numbering loses nothing, eligibility is what it says.
    \<^item> LuaDecimal, BalanceScript (\<^verbatim>\<open>balance_atomic_operation.lua\<close>): the script that moves balances, with its decimal
      arithmetic on digit strings, every phase of a batch, the rollback and the backup of the transaction.
      LuaDecimalProofs: on amounts of up to 14 digits before and 300 after the point the arithmetic is that of rationals.
      BalanceScriptProofs: no balance of the cache becomes negative beyond its overdraft, and a refused
      batch leaves every balance as it was. BalanceRules: the script refines the overdraft rules of \<^verbatim>\<open>pkg/mtransaction\<close>, agrees with
      \<open>OperateBalances\<close>, and lets a hold be settled; a credit that is held deepens an overdraft.
    \<^item> BalanceCalls (\<^verbatim>\<open>transaction_overdraft_enrichment.go\<close>, \<^verbatim>\<open>transaction_helper.go\<close>, \<^verbatim>\<open>consumer.redis.go\<close>,
      \<^verbatim>\<open>process_balance_operations.go\<close>): the batch that is built for the script, with companion operations on
      overdraft balances. BalanceCallsProofs: companion and balance stay in step.
    \<^item> LedgerOperations (\<^verbatim>\<open>postgres/operation\<close>, \<^verbatim>\<open>postgres/transaction\<close>, the builders of \<^verbatim>\<open>transaction_create.go\<close>): the
      operations that a transaction records and its reversal. LedgerOperationsProofs: recorded amounts
      add up to the change of the balance, and a reversal gives back what was taken.
    \<^item> TransactionStore, TransactionBulk (the asynchronous commands and the repositories they call): one message or a batch of them made
      persistent, under faults of every call. TransactionStoreProofs, TransactionBulkProofs: in every order of
      deliveries and retries a settlement is not lost and the stored status converges; a batch stores
      what its messages say; a change of the description empties a held transaction.
    \<^item> AccountingRoutes, AccountingRules (\<^verbatim>\<open>operation_route.go\<close>, \<^verbatim>\<open>validate_accounting_routes.go\<close>): operation and
      transaction routes, the checks of their requests and the validation of a transaction. Shown: the entries of an
      accepted transaction follow its routes.
    \<^item> RouteStore (the commands, handlers and repositories of routes): their tables, links and cache. RouteStoreProofs: the
      cache is in step with the tables.
    \<^item> LedgerSettings (\<^verbatim>\<open>ledger_settings.go\<close> and the settings commands and queries): settings of a ledger, their
      merge, validation and cache. LedgerSettingsProofs: a read gives what the last accepted update stored.
    \<^item> TransactionHandlers (\<^verbatim>\<open>transaction_create.go\<close>, \<^verbatim>\<open>transaction_state_handlers.go\<close>): creating, committing, cancelling and reverting a
      transaction with idempotency, locks, reservations, fees, routes, the script and the write that follows.
      TransactionHandlersProofs: requests that settle one transaction, interleaved step by step, settle it at most
      once; a create that fails leaves balances, reservations and slots as they were.
    \<^item> LedgerOverdraft (\<^verbatim>\<open>overdraft.go\<close>): the splits of debits and refunds, as two interpretations of the
      locale \<open>capped_split\<close>. Shown: an overdraft that is repaid restores the balance.
    \<^item> LedgerFees (\<^verbatim>\<open>components/ledger/pkg/fee\<close>): the fee engine. Shown: it keeps a transaction
      balanced whatever fees, exemptions, roundings and segments apply; it forgets balance keys.
    \<^item> FeePackageModel, FeePackages (\<^verbatim>\<open>feeshared/model\<close>, \<^verbatim>\<open>mongodb/fees/pack\<close>, \<^verbatim>\<open>services/fees\<close>): packages, their
      validation, their collection, the use cases with the cache of packages. FeePackageProofs:
      the package of a transaction is never ambiguous, and the cached service refines the one
      without a cache.
    \<^item> LedgerBilling (\<^verbatim>\<open>billing_package.go\<close>, \<^verbatim>\<open>billing_calculator.go\<close>, the billing services): billing packages,
      pricing, periods, documents, proposed transactions. LedgerBillingProofs: a validated tier
      table prices every count once, labels name their periods, and a calculation proposes only
      transactions that the ledger accepts.

  \<^bold>\<open>Tracer.\<close>
    \<^item> TracerScope, TimeOfDay, TracerLimit, TracerValidation, TracerRule (\<^verbatim>\<open>tracer/pkg/model\<close>,
      \<^verbatim>\<open>services/query\<close>): scopes and their order (locale \<open>scope_order\<close>), limits with periods and time
      windows, requests, rules and their evaluation.
    \<^item> UsageStore (\<^verbatim>\<open>adapters/postgres\<close>): counters and reservations as tables, with the statements that
      reserve, confirm and release (locales \<open>reservation_transition\<close>, \<open>exact_transition\<close>).
    \<^item> LimitChecker, ReservationService (\<^verbatim>\<open>limit_checker.go\<close>, \<^verbatim>\<open>reservation_service.go\<close>, the reaper): the
      synchronous check and the two phases of a reservation. Shown: no reachable state holds more
      than a limit allows, holds are backed by rows, reserving is all or nothing, an ended
      reservation stays ended, the reaper releases what has expired.

  \<^bold>\<open>Bounds and termination.\<close> Every definition is total: loops over slices are structural, the others
  (\<open>exchange_sort\<close>, the deletion in batches, the paging of limits, the chunks of bulk statements) come with a termination proof; no
  definition needs fuel. Theorems are for values of any size, except where a statement names a
  bound: tier bounds are those of \<^verbatim>\<open>int64\<close>, period labels have four digits for the year, and theorems
  on the script are for amounts of up to 14 digits before the point (15 for the sums), because the script compares numbers as
  doubles, which are exact there and not far beyond. Bulk statements take 1000 rows (500 for operations), metadata 10000
  documents, as in the code.

  \<^bold>\<open>Concurrency.\<close> A statement, a script run and a call of the cache are atomic steps. Deliveries, settlements of one transaction, requests on
  packages, settings and routes and the phases of a reservation are step relations whose steps come in any order; the steps of
  two settlements of one transaction interleave between all their calls. Elsewhere a use case is one step, beyond the
  late write of a cache entry of packages.

  \<^bold>\<open>Not modelled.\<close> The HTTP and gRPC adapters around the handlers, bootstrap and configuration, RabbitMQ, streaming events and metrics, the
  texts of errors, the generated parser of the transaction language and the CRM with its field encryption: they move data or call
  libraries. The text of JSON and msgpack values: an encoded value is the value, which a decoder returns. The
  expiry of a key in the middle of a script run, and when the clean-up that a handler starts in the background
  runs: it is part of the request. Listings with their cursors, the refresh of the tracer's rules by its worker and the expression engine (CEL),
  whose evaluation is a parameter. The life of accounts, assets, portfolios, segments and organizations, which are rows that are
  inserted, changed and marked as deleted.
\<close>

end
